(* ===== verification/Prelude.thy ===== *)
theory Prelude
  imports Main "HOL-Library.AList" "HOL-Library.Sublist"
begin

text \<open>
  Shared vocabulary of the development: Python exceptions as values, the result type of
  fallible code, the few string and dictionary operations of the Python standard library the
  sources use, and the generic lemmas about them.

  Conventions used by every component theory:
  \<^item> a Python \<^verbatim>\<open>str\<close> is a \<^typ>\<open>string\<close>, read as its UTF-8 bytes (the sources only compare,
    concatenate, join and hash strings, and take the length of their UTF-8 encoding);
  \<^item> a Python \<^verbatim>\<open>int\<close> is an \<^typ>\<open>int\<close>;
  \<^item> a \<^verbatim>\<open>dict\<close> that is only looked up is a map; a \<^verbatim>\<open>dict\<close> that is iterated is an association
    list in insertion order, written with \<^const>\<open>AList.update\<close> (which overwrites in place or
    appends, as Python does) and read with \<^const>\<open>map_of\<close>;
  \<^item> an operation that may raise has result type \<open>'a res\<close>: \<^term>\<open>Inl e\<close> is the exception and
    leaves the state as it was, \<^term>\<open>Inr r\<close> the normal result;
  \<^item> a dataclass is a record, its \<open>__post_init__\<close> a function \<open><Class>_post_init\<close> from the record
    to \<open>'a res\<close>, called wherever the source constructs or \<open>replace\<close>s the dataclass.
\<close>

section \<open>Exceptions and results\<close>

datatype exn =
    ValueError string
  | KeyError string
  | TypeError string
  | AssertionError
  | RuntimeError string
  | ChunkGenerationError string
  | BatchPlanError string
  | AttemptBindingError string
  | AttemptStateError string
  | DuplicateProfileRegistrationError string
  | ProviderIncompatibleError string
  | UnknownProfileError string
  | ProfileDisabledError string
  | OverflowError string
  | PromptVariableError string
  | PromptBindingError string
  | AliasConflictError string
  | UnknownPromptError string
  | PromptDisabledError string
  | PromptStateError string
  | NoEligibleRouteError
  | ProviderPayloadBindingError string
  | ProviderCandidateBindingError string
  | ProtectedCandidateNotLoadedError string
  | JSONDecodeError
  | RecursionError
  | UnicodeEncodeError

type_synonym 'a res = "exn + 'a"

definition bind_res :: "'a res \<Rightarrow> ('a \<Rightarrow> 'b res) \<Rightarrow> 'b res" where
  "bind_res m f = (case m of Inl e \<Rightarrow> Inl e | Inr x \<Rightarrow> f x)"

lemma bind_res_simps [simp]:
  "bind_res (Inl e) f = Inl e"
  "bind_res (Inr x) f = f x"
  by (simp_all add: bind_res_def)

lemma if_Inl_eq_Inr: "(if c then Inl e else m) = Inr y \<longleftrightarrow> \<not> c \<and> m = Inr y"
  by simp

lemma bind_res_eq_Inr: "bind_res m f = Inr y \<longleftrightarrow> (\<exists>x. m = Inr x \<and> f x = Inr y)"
  by (cases m) auto

definition is_ok :: "'a res \<Rightarrow> bool" where
  "is_ok m = (case m of Inl _ \<Rightarrow> False | Inr _ \<Rightarrow> True)"

lemma is_ok_simps [simp]: "is_ok (Inl e) = False" "is_ok (Inr x) = True"
  by (simp_all add: is_ok_def)

lemma is_ok_iff: "is_ok m \<longleftrightarrow> (\<exists>x. m = Inr x)"
  by (cases m) auto

text \<open>A comprehension whose element expression may raise: the first exception wins.\<close>

fun map_res :: "('a \<Rightarrow> 'b res) \<Rightarrow> 'a list \<Rightarrow> 'b list res" where
  "map_res f [] = Inr []"
| "map_res f (x # xs) = bind_res (f x) (\<lambda>y. bind_res (map_res f xs) (\<lambda>ys. Inr (y # ys)))"

lemma map_res_ok: "(\<And>x. x \<in> set xs \<Longrightarrow> f x = Inr (g x)) \<Longrightarrow> map_res f xs = Inr (map g xs)"
  by (induction xs) auto

lemma map_res_length: "map_res g xs = Inr ys \<Longrightarrow> length ys = length xs"
  by (induction xs arbitrary: ys) (auto simp: bind_res_eq_Inr)

lemma map_res_nth: "map_res g xs = Inr ys \<Longrightarrow> i < length xs \<Longrightarrow> g (xs ! i) = Inr (ys ! i)"
proof (induction xs arbitrary: ys i)
  case (Cons x xs)
  then show ?case by (cases i) (auto simp: bind_res_eq_Inr)
qed simp

text \<open>Splits one conditional of a long chain of early returns.\<close>

lemma if_prop: "(c \<Longrightarrow> P x) \<Longrightarrow> (\<not> c \<Longrightarrow> P y) \<Longrightarrow> P (if c then x else y)"
  by simp

section \<open>Fact collections\<close>

text \<open>
  \<open>py_defs\<close> collects the definitions of small pure helpers and record properties that proofs
  always unfold; \<open>step_defs\<close> the event-step functions of the stores.
\<close>

named_theorems py_defs \<open>small helpers and dataclass properties, unfolded by component proofs\<close>
named_theorems step_defs \<open>event-step functions of the stores\<close>

section \<open>Python string and collection operations\<close>

text \<open>\<^verbatim>\<open>sep.join(parts)\<close>.\<close>

fun str_join :: "string \<Rightarrow> string list \<Rightarrow> string" where
  "str_join sep [] = []"
| "str_join sep [p] = p"
| "str_join sep (p # q # ps) = p @ sep @ str_join sep (q # ps)"

text \<open>\<^verbatim>\<open>str(n)\<close> of an \<open>int\<close>, in decimal.\<close>

definition digit_char :: "nat \<Rightarrow> char" where
  "digit_char n = ''0123456789'' ! n"

fun str_nat :: "nat \<Rightarrow> string" where
  "str_nat n = (if n < 10 then [digit_char n] else str_nat (n div 10) @ [digit_char (n mod 10)])"

declare str_nat.simps [simp del]

definition str_int :: "int \<Rightarrow> string" where
  "str_int n = (if n < 0 then CHR ''-'' # str_nat (nat (- n)) else str_nat (nat n))"

text \<open>
  Truth value of a string (\<^verbatim>\<open>not s\<close> is \<open>\<not> truthy s\<close>), and \<^verbatim>\<open>all((s1, s2, ...))\<close> over strings.
\<close>

definition truthy :: "string \<Rightarrow> bool" where
  [py_defs]: "truthy s \<longleftrightarrow> s \<noteq> []"

definition all_truthy :: "string list \<Rightarrow> bool" where
  [py_defs]: "all_truthy ss \<longleftrightarrow> list_all truthy ss"

text \<open>\<^verbatim>\<open>next((x for x in xs if p x), None)\<close> is \<^const>\<open>List.find\<close>.\<close>

lemma find_SomeD: "List.find P xs = Some x \<Longrightarrow> P x \<and> x \<in> set xs"
  by (auto simp: find_Some_iff)

lemma find_NoneD: "List.find P xs = None \<Longrightarrow> x \<in> set xs \<Longrightarrow> \<not> P x"
  by (auto simp: find_None_iff)

lemma count_list_distinct_le: "distinct xs \<Longrightarrow> count_list xs a \<le> Suc 0"
  by (induction xs) (auto simp: count_list_0_iff)

section \<open>Joining strings is injective when the separator does not occur\<close>

lemma append_sep_inj:
  assumes "xs @ c # ys = xs' @ c # ys'" and "c \<notin> set xs" and "c \<notin> set xs'"
  shows "xs = xs' \<and> ys = ys'"
  using assms
proof (induction xs arbitrary: xs')
  case Nil
  then show ?case by (cases xs') auto
next
  case (Cons x xs)
  then show ?case by (cases xs') auto
qed

lemma str_join_inj_aux:
  assumes "str_join [c] ps = str_join [c] qs"
    and "length ps = length qs"
    and "\<forall>p \<in> set ps. c \<notin> set p" and "\<forall>q \<in> set qs. c \<notin> set q"
  shows "ps = qs"
  using assms(2,1,3,4)
proof (induction ps qs rule: list_induct2)
  case Nil
  then show ?case by simp
next
  case (Cons p ps q qs)
  show ?case
  proof (cases ps)
    case Nil
    with Cons show ?thesis by auto
  next
    case (Cons p' ps')
    then obtain q' qs' where qs: "qs = q' # qs'"
      using \<open>length ps = length qs\<close> by (cases qs) auto
    with Cons Cons.prems(1) have "p @ c # str_join [c] ps = q @ c # str_join [c] qs"
      by simp
    with Cons.prems(2,3) have "p = q \<and> str_join [c] ps = str_join [c] qs"
      by (intro append_sep_inj) auto
    with Cons.IH Cons.prems(2,3) show ?thesis by auto
  qed
qed

text \<open>
  A list of separator-free, non-empty-when-alone parts is recovered from its join: the number
  of separators is the number of parts minus one.
\<close>

lemma count_str_join:
  "ps \<noteq> [] \<Longrightarrow> \<forall>p \<in> set ps. c \<notin> set p \<Longrightarrow> Suc (count_list (str_join [c] ps) c) = length ps"
proof (induction "[c]" ps rule: str_join.induct)
  case (2 p)
  then show ?case by (simp add: count_list_0_iff)
next
  case (3 p q ps)
  then show ?case by (simp add: count_list_0_iff)
qed simp

lemma str_join_inj:
  assumes eq: "str_join [c] ps = str_join [c] qs"
    and ne: "ps \<noteq> []" "qs \<noteq> []"
    and free: "\<forall>p \<in> set ps. c \<notin> set p" "\<forall>q \<in> set qs. c \<notin> set q"
  shows "ps = qs"
proof -
  have "length ps = length qs"
    using count_str_join [OF ne(1) free(1)] count_str_join [OF ne(2) free(2)] eq by simp
  with eq free show ?thesis by (intro str_join_inj_aux)
qed

section \<open>Decimal rendering is injective\<close>

fun dec_value :: "string \<Rightarrow> nat" where
  "dec_value s = foldl (\<lambda>acc c. acc * 10 + (of_char c - 48)) 0 s"

lemma of_char_digit: "n < 10 \<Longrightarrow> (of_char (digit_char n) :: nat) = 48 + n"
proof -
  assume "n < 10"
  then have "n \<in> {0, 1, 2, 3, 4, 5, 6, 7, 8, 9}" by auto
  then show ?thesis by (auto simp: digit_char_def)
qed

lemma dec_value_str_nat: "dec_value (str_nat n) = n"
proof (induction n rule: str_nat.induct)
  case (1 n)
  show ?case
  proof (cases "n < 10")
    case True
    then show ?thesis by (simp add: str_nat.simps [of n] of_char_digit)
  next
    case False
    with 1 have "dec_value (str_nat (n div 10)) = n div 10" by simp
    with False show ?thesis by (simp add: str_nat.simps [of n] of_char_digit)
  qed
qed

lemma str_nat_inj: "str_nat m = str_nat n \<Longrightarrow> m = n"
  by (metis dec_value_str_nat)

lemma digit_char_neq_minus: "n < 10 \<Longrightarrow> digit_char n \<noteq> CHR ''-''"
proof
  assume "n < 10" and "digit_char n = CHR ''-''"
  with of_char_digit [of n] have "(45 :: nat) = 48 + n" by simp
  then show False by simp
qed

lemma hd_str_nat: "hd (str_nat n) \<noteq> CHR ''-'' \<and> str_nat n \<noteq> []"
proof (induction n rule: str_nat.induct)
  case (1 n)
  then show ?case by (subst (1 2) str_nat.simps) (auto simp: digit_char_neq_minus)
qed

lemma str_int_inj: "str_int a = str_int b \<longleftrightarrow> a = b"
proof
  assume eq: "str_int a = str_int b"
  have h: "str_nat n \<noteq> CHR ''-'' # s" for n s
    using hd_str_nat [of n] by auto
  show "a = b"
    using eq h [of "nat a"] h [of "nat b"] h [of "nat b", THEN not_sym]
    by (auto simp: str_int_def dest!: str_nat_inj split: if_splits)
qed simp

section \<open>Python dictionaries built from pairs\<close>

text \<open>
  \<open>dict(pairs)\<close> is the association list with later entries overwriting earlier ones; the sources
  compare its size with that of the pairs to reject duplicates.
\<close>

definition py_dict :: "('k \<times> 'v) list \<Rightarrow> ('k \<times> 'v) list" where
  "py_dict kvs = fold (\<lambda>(k, v). AList.update k v) kvs []"

lemma py_dict_Nil [simp]: "py_dict [] = []"
  by (simp add: py_dict_def)

lemma py_dict_snoc [simp]: "py_dict (kvs @ [(k, v)]) = AList.update k v (py_dict kvs)"
  by (simp add: py_dict_def)

lemma distinct_py_dict: "distinct (map fst (py_dict kvs))"
proof (induction kvs rule: rev_induct)
  case (snoc kv kvs)
  then show ?case by (cases kv) (simp add: distinct_update)
qed simp

lemma set_py_dict: "fst ` set (py_dict kvs) = fst ` set kvs"
proof (induction kvs rule: rev_induct)
  case (snoc kv kvs)
  then show ?case by (cases kv) (auto simp: dom_update)
qed simp

lemma update_fresh: "k \<notin> fst ` set al \<Longrightarrow> AList.update k v al = al @ [(k, v)]"
  by (induction al) auto

text \<open>The length test of the source is exactly the test that no key is repeated.\<close>

lemma py_dict_distinct: "distinct (map fst kvs) \<Longrightarrow> py_dict kvs = kvs"
proof (induction kvs rule: rev_induct)
  case (snoc kv kvs)
  then show ?case by (cases kv) (simp add: update_fresh)
qed simp

lemma length_py_dict_iff: "length (py_dict kvs) = length kvs \<longleftrightarrow> distinct (map fst kvs)"
proof
  assume len: "length (py_dict kvs) = length kvs"
  have "card (fst ` set kvs) = length (map fst (py_dict kvs))"
    using distinct_card [OF distinct_py_dict [of kvs]] set_py_dict [of kvs] by simp
  with len have "card (set (map fst kvs)) = length (map fst kvs)" by simp
  then show "distinct (map fst kvs)" by (rule card_distinct)
qed (simp add: py_dict_distinct)

text \<open>Reading a duplicate-free dictionary at all its keys, in any order, yields all its values.\<close>

lemma sum_list_map_of:
  fixes al :: "('k \<times> int) list"
  assumes "distinct (map fst al)" and "distinct ks" and "set ks = fst ` set al"
  shows "(\<Sum>k\<leftarrow>ks. the (map_of al k)) = sum_list (map snd al)"
proof -
  have "(\<Sum>k\<leftarrow>ks. the (map_of al k)) = (\<Sum>k\<in>set ks. the (map_of al k))"
    using assms(2) by (simp add: sum_list_distinct_conv_sum_set)
  also have "\<dots> = (\<Sum>k\<leftarrow>map fst al. the (map_of al k))"
    using assms(1,3) by (simp only: sum_list_distinct_conv_sum_set set_map)
  also have "\<dots> = sum_list (map snd al)"
    using assms(1) by (induction al) (auto simp: image_iff intro!: arg_cong [where f = sum_list])
  finally show ?thesis .
qed

section \<open>The last event of a history that matters\<close>

definition last_with :: "('e \<Rightarrow> bool) \<Rightarrow> 'e \<Rightarrow> 'e list \<Rightarrow> bool" where
  "last_with quiet e es \<longleftrightarrow> (\<exists>before later. es = before @ e # later \<and> (\<forall>x \<in> set later. quiet x))"

lemma last_with_Nil [simp]: "\<not> last_with quiet e []"
  by (simp add: last_with_def)

lemma last_with_snoc [simp]:
  "last_with quiet e (es @ [x]) \<longleftrightarrow> x = e \<or> quiet x \<and> last_with quiet e es"
proof
  assume "last_with quiet e (es @ [x])"
  then obtain before later where eq: "es @ [x] = before @ e # later" and q: "\<forall>y \<in> set later. quiet y"
    by (auto simp: last_with_def)
  show "x = e \<or> quiet x \<and> last_with quiet e es"
  proof (cases later rule: rev_cases)
    case Nil
    with eq show ?thesis by simp
  next
    case (snoc later' y)
    with eq q have "es = before @ e # later'" "x = y" "quiet y" "\<forall>y \<in> set later'. quiet y"
      by (simp_all flip: append_Cons append_assoc)
    then show ?thesis by (auto simp: last_with_def)
  qed
next
  assume "x = e \<or> quiet x \<and> last_with quiet e es"
  then show "last_with quiet e (es @ [x])"
  proof
    assume "x = e"
    then have "es @ [x] = es @ e # []" by simp
    then show ?thesis unfolding last_with_def by fastforce
  next
    assume r: "quiet x \<and> last_with quiet e es"
    then obtain before later where "es = before @ e # later" "\<forall>y \<in> set later. quiet y"
      by (auto simp: last_with_def)
    with r have "es @ [x] = before @ e # (later @ [x])" "\<forall>y \<in> set (later @ [x]). quiet y"
      by auto
    then show ?thesis unfolding last_with_def by blast
  qed
qed

end
