(* ===== verification/Machines.thy ===== *)
theory Machines
  imports Prelude
begin

text \<open>
  The interfaces the stores of the program share. Every store of the sources is a value that a
  sequence of requests updates under one lock, so its behaviour is a step function
  \<open>step :: 'e \<Rightarrow> 's \<Rightarrow> 's\<close> and an execution, whatever the interleaving of the callers, is the
  fold of the steps over the sequence of requests in lock order. Four contracts recur:
  \<^item> \<open>invariant_machine\<close>: a well-formedness invariant that every step keeps;
  \<^item> \<open>fenced_machine\<close>: in addition a fence (a version or fence token) that never decreases and a
    terminal state that is never left;
  \<^item> \<open>replay_machine\<close>: requests carry an identity, the store remembers the identities it has
    applied, and a request whose identity is remembered changes nothing;
  \<^item> \<open>versioned_machine\<close>: records under keys, each with a fence; while the invariant holds, a step keeps
    a record as it is or advances its fence, never loses it and never changes its identity
    (\<open>versioned_store\<close> when that needs no invariant).
  The component theories interpret them on their own step functions.
\<close>

locale invariant_machine =
  fixes step :: "'e \<Rightarrow> 's \<Rightarrow> 's"
    and inv :: "'s \<Rightarrow> bool"
  assumes step_inv: "inv s \<Longrightarrow> inv (step e s)"
begin

lemma run_inv: "inv s \<Longrightarrow> inv (fold step es s)"
  by (induction es arbitrary: s) (auto intro: step_inv)

end

locale fenced_machine = invariant_machine step inv
  for step :: "'e \<Rightarrow> 's \<Rightarrow> 's" and inv :: "'s \<Rightarrow> bool" +
  fixes fence :: "'s \<Rightarrow> int"
    and terminal :: "'s \<Rightarrow> bool"
    and outcome :: "'s \<Rightarrow> 'o"
  assumes step_fence: "inv s \<Longrightarrow> fence s \<le> fence (step e s)"
    and step_terminal: "inv s \<Longrightarrow> terminal s \<Longrightarrow> terminal (step e s) \<and> outcome (step e s) = outcome s"
begin

lemma run_fence: "inv s \<Longrightarrow> fence s \<le> fence (fold step es s)"
proof (induction es arbitrary: s)
  case (Cons e es)
  then have "fence (step e s) \<le> fence (fold step es (step e s))"
    by (intro Cons.IH step_inv)
  with step_fence [OF Cons.prems, of e] show ?case by simp
qed simp

lemma run_terminal:
  "inv s \<Longrightarrow> terminal s \<Longrightarrow> terminal (fold step es s) \<and> outcome (fold step es s) = outcome s"
proof (induction es arbitrary: s)
  case (Cons e es)
  with step_terminal [of s e] have "terminal (step e s)" "outcome (step e s) = outcome s"
    by auto
  with Cons show ?case by (simp add: step_inv)
qed simp

text \<open>
  A stale fence stays stale: once the fence has passed a value, a holder of that value can never
  match the store again.
\<close>

lemma stale_fence_forever: "inv s \<Longrightarrow> f < fence s \<Longrightarrow> fence (fold step es s) \<noteq> f"
  using run_fence [of s es] by simp

end

locale replay_machine =
  fixes step :: "'e \<Rightarrow> 's \<Rightarrow> 's"
    and key :: "'e \<Rightarrow> 'k option"
    and applied :: "'s \<Rightarrow> 'k set"
  assumes replay: "key e = Some k \<Longrightarrow> k \<in> applied s \<Longrightarrow> step e s = s"
    and records: "key e = Some k \<Longrightarrow> step e s \<noteq> s \<Longrightarrow> k \<in> applied (step e s)"
    and remembers: "applied s \<subseteq> applied (step e s)"
begin

lemma run_remembers: "applied s \<subseteq> applied (fold step es s)"
proof (induction es arbitrary: s)
  case (Cons e es)
  have "applied s \<subseteq> applied (step e s)" by (rule remembers)
  also have "\<dots> \<subseteq> applied (fold step es (step e s))" by (rule Cons.IH)
  finally show ?case by simp
qed simp

text \<open>At-least-once delivery of a request has the effect of exactly-once delivery.\<close>

lemma step_idem: "key e = Some k \<Longrightarrow> step e (step e s) = step e s"
  using records [of e k s] replay [of e k "step e s"] by (cases "step e s = s") auto

lemma replay_after_run:
  assumes "key e = Some k" and "step e s \<noteq> s"
  shows "step e (fold step es (step e s)) = fold step es (step e s)"
proof (rule replay [OF assms(1)])
  from records [OF assms] run_remembers [of "step e s" es]
  show "k \<in> applied (fold step es (step e s))" by blast
qed

text \<open>Of all requests with one identity, at most one in a run has an effect.\<close>

lemma at_most_one_effect:
  assumes "key e = Some k" and "key e' = Some k" and "step e s \<noteq> s"
  shows "step e' (fold step es (step e s)) = fold step es (step e s)"
proof (rule replay [OF assms(2)])
  from records [OF assms(1,3)] run_remembers [of "step e s" es]
  show "k \<in> applied (fold step es (step e s))" by blast
qed

end

locale versioned_machine = invariant_machine step inv
  for step :: "'e \<Rightarrow> 's \<Rightarrow> 's" and inv :: "'s \<Rightarrow> bool" +
  fixes lookup :: "'s \<Rightarrow> 'k \<Rightarrow> 'r option"
    and fence :: "'r \<Rightarrow> int"
    and ident :: "'r \<Rightarrow> 'i"
  assumes step_evolves: "inv s \<Longrightarrow> lookup s k = Some r \<Longrightarrow>
    \<exists>r'. lookup (step e s) k = Some r' \<and> ident r' = ident r \<and> (r' = r \<or> fence r < fence r')"
begin

lemma run_evolves:
  "inv s \<Longrightarrow> lookup s k = Some r \<Longrightarrow>
   \<exists>r'. lookup (fold step es s) k = Some r' \<and> ident r' = ident r \<and> (r' = r \<or> fence r < fence r')"
proof (induction es arbitrary: s r)
  case (Cons e es)
  from step_evolves [OF Cons.prems] obtain q where
    q: "lookup (step e s) k = Some q" "ident q = ident r" "q = r \<or> fence r < fence q" by blast
  from Cons.IH [OF step_inv [OF Cons.prems(1)] q(1)] q(2,3) show ?case by fastforce
qed simp

text \<open>A record whose fence is unchanged is unchanged: a guard on the fence has no ABA problem.\<close>

lemma run_unchanged:
  assumes "inv s" and "lookup s k = Some r" and "lookup (fold step es s) k = Some r'" and "fence r' = fence r"
  shows "r' = r"
  using run_evolves [OF assms(1,2), of es] assms(3,4) by auto

lemma run_ident:
  assumes "inv s" and "lookup s k = Some r" and "lookup (fold step es s) k = Some r'"
  shows "ident r' = ident r"
  using run_evolves [OF assms(1,2), of es] assms(3) by auto

end

text \<open>Where every state will do, the invariant is trivial.\<close>

locale versioned_store =
  fixes step :: "'e \<Rightarrow> 's \<Rightarrow> 's"
    and lookup :: "'s \<Rightarrow> 'k \<Rightarrow> 'r option"
    and fence :: "'r \<Rightarrow> int"
    and ident :: "'r \<Rightarrow> 'i"
  assumes any_step_evolves: "lookup s k = Some r \<Longrightarrow>
    \<exists>r'. lookup (step e s) k = Some r' \<and> ident r' = ident r \<and> (r' = r \<or> fence r < fence r')"

sublocale versioned_store \<subseteq> always: versioned_machine step "\<lambda>_. True" lookup fence ident
  by unfold_locales (auto intro: any_step_evolves)

context versioned_store
begin

lemmas run_evolves = always.run_evolves [OF TrueI]

lemmas run_unchanged = always.run_unchanged [OF TrueI]

lemmas run_ident = always.run_ident [OF TrueI]

end

end
