(* ===== verification/Provider_Contract.thy ===== *)
theory Provider_Contract
  imports Machines
begin

text \<open>
  \<^verbatim>\<open>src/projects/ai-agent/src/provider_contract.py\<close>: the provider-independent outcome surface, the
  versioned capability profiles with their lifecycle overlay, the immutable per-Attempt execution
  contract, the guarded Attempt state store, capability admission, the provider registry and the
  server-owned selection policy.

  State: \<open>ProfileLifecycle\<close> and \<open>InMemoryAttemptStateStore\<close> are the dictionaries of the classes
  of that name; \<open>ProviderRegistry\<close> holds the adapters by profile id and the (shared) lifecycle.
  A \<open>ProviderAdapter\<close> is an object of the Protocol of that name: its identity, its profile and its
  \<open>execute\<close>, which is a parameter because it is the port to the external Provider.
\<close>

section \<open>Data\<close>

datatype ProviderOutcomeKind =
    SUCCESS | PROVIDER_RESPONSE_INVALID | REFUSAL | TRUNCATION | RATE_LIMITED
  | AUTHENTICATION_ERROR | CAPABILITY_ERROR | TIMEOUT_UNKNOWN | TRANSPORT_ERROR

record ProviderOutcome =
  po_kind :: ProviderOutcomeKind
  po_provider_request_id :: "string option"
  po_detail :: string
  po_safe_evidence :: "(string \<times> string) list"

record ApplicationRequest =
  ar_job_id :: string
  ar_tenant_id :: string
  ar_application_contract :: string
  ar_task_type :: string
  ar_max_output_tokens :: int
  ar_correlation_id :: string
  ar_prompt :: string

datatype ProfileStatus = ACTIVE | DISABLED | QUARANTINED | UNKNOWN

fun ProfileStatus_value :: "ProfileStatus \<Rightarrow> string" where
  "ProfileStatus_value ProfileStatus.ACTIVE = ''ACTIVE''"
| "ProfileStatus_value ProfileStatus.DISABLED = ''DISABLED''"
| "ProfileStatus_value ProfileStatus.QUARANTINED = ''QUARANTINED''"
| "ProfileStatus_value ProfileStatus.UNKNOWN = ''UNKNOWN''"

datatype VerificationTier =
  DECLARED | STATIC | EXECUTED_LOCAL_RUNTIME | INTEGRATION_RUNTIME | PRODUCTION

record CapabilityProfile =
  cp_profile_id :: string
  cp_provider_name :: string
  cp_model :: string
  cp_api_version :: string
  cp_profile_version :: string
  cp_adapter_version :: string
  cp_supported_contracts :: "string set"
  cp_requires_request_identity :: bool
  cp_verification_tier :: VerificationTier
  cp_status :: ProfileStatus

definition supports :: "CapabilityProfile \<Rightarrow> string \<Rightarrow> bool" where
  [py_defs]: "supports p application_contract \<longleftrightarrow> application_contract \<in> cp_supported_contracts p"

definition profile_disabled :: "CapabilityProfile \<Rightarrow> CapabilityProfile" where
  [py_defs]: "profile_disabled p = p\<lparr>cp_status := ProfileStatus.DISABLED\<rparr>"

definition profile_quarantined :: "CapabilityProfile \<Rightarrow> CapabilityProfile" where
  [py_defs]: "profile_quarantined p = p\<lparr>cp_status := ProfileStatus.QUARANTINED\<rparr>"

section \<open>Profile lifecycle overlay\<close>

type_synonym ProfileLifecycle = "string \<rightharpoonup> ProfileStatus"

definition lifecycle_register :: "CapabilityProfile \<Rightarrow> ProfileLifecycle \<Rightarrow> ProfileLifecycle" where
  "lifecycle_register p lc =
     (case lc (cp_profile_id p) of
        Some _ \<Rightarrow> lc
      | None \<Rightarrow> lc(cp_profile_id p \<mapsto> cp_status p))"

definition lifecycle_set_status :: "string \<Rightarrow> ProfileStatus \<Rightarrow> ProfileLifecycle \<Rightarrow> ProfileLifecycle" where
  "lifecycle_set_status pid st lc = lc(pid \<mapsto> st)"

definition lifecycle_disable :: "string \<Rightarrow> ProfileLifecycle \<Rightarrow> ProfileLifecycle" where
  "lifecycle_disable pid = lifecycle_set_status pid ProfileStatus.DISABLED"

definition lifecycle_quarantine :: "string \<Rightarrow> ProfileLifecycle \<Rightarrow> ProfileLifecycle" where
  "lifecycle_quarantine pid = lifecycle_set_status pid ProfileStatus.QUARANTINED"

definition lifecycle_status :: "ProfileLifecycle \<Rightarrow> string \<Rightarrow> ProfileStatus" where
  [py_defs]: "lifecycle_status lc pid = (case lc pid of Some st \<Rightarrow> st | None \<Rightarrow> ProfileStatus.UNKNOWN)"

definition lifecycle_is_active :: "ProfileLifecycle \<Rightarrow> string \<Rightarrow> bool" where
  [py_defs]: "lifecycle_is_active lc pid \<longleftrightarrow> lifecycle_status lc pid = ProfileStatus.ACTIVE"

section \<open>Attempt execution contract\<close>

record AttemptExecutionContract =
  ec_attempt_id :: string
  ec_job_id :: string
  ec_profile_id :: string
  ec_provider_name :: string
  ec_model :: string
  ec_api_version :: string
  ec_profile_version :: string
  ec_adapter_version :: string
  ec_application_contract :: string

definition contract_plan ::
    "string \<Rightarrow> string \<Rightarrow> CapabilityProfile \<Rightarrow> string \<Rightarrow> AttemptExecutionContract" where
  "contract_plan attempt_id job_id p application_contract =
     \<lparr>ec_attempt_id = attempt_id, ec_job_id = job_id, ec_profile_id = cp_profile_id p,
      ec_provider_name = cp_provider_name p, ec_model = cp_model p,
      ec_api_version = cp_api_version p, ec_profile_version = cp_profile_version p,
      ec_adapter_version = cp_adapter_version p, ec_application_contract = application_contract\<rparr>"

text \<open>\<open>BINDING_FIELDS\<close>: each name with its \<open>getattr\<close> on the contract and on the profile.\<close>

type_synonym binding_field =
  "string \<times> (AttemptExecutionContract \<Rightarrow> string) \<times> (CapabilityProfile \<Rightarrow> string)"

definition BINDING_FIELDS :: "binding_field list" where
  "BINDING_FIELDS =
     [(''profile_id'', ec_profile_id, cp_profile_id),
      (''provider_name'', ec_provider_name, cp_provider_name),
      (''model'', ec_model, cp_model),
      (''api_version'', ec_api_version, cp_api_version),
      (''profile_version'', ec_profile_version, cp_profile_version),
      (''adapter_version'', ec_adapter_version, cp_adapter_version)]"

section \<open>Guarded Attempt state store\<close>

datatype AttemptState = PLANNED | DISPATCHED | BLOCKED_PROFILE_DISABLED

fun AttemptState_value :: "AttemptState \<Rightarrow> string" where
  "AttemptState_value AttemptState.PLANNED = ''PLANNED''"
| "AttemptState_value AttemptState.DISPATCHED = ''DISPATCHED''"
| "AttemptState_value AttemptState.BLOCKED_PROFILE_DISABLED = ''BLOCKED_PROFILE_DISABLED''"

record AttemptRecord =
  at_contract :: AttemptExecutionContract
  at_state :: AttemptState

type_synonym InMemoryAttemptStateStore = "string \<rightharpoonup> AttemptRecord"

definition store_plan ::
    "AttemptExecutionContract \<Rightarrow> InMemoryAttemptStateStore \<Rightarrow> InMemoryAttemptStateStore res" where
  "store_plan c st =
     (if ec_attempt_id c \<in> dom st
      then Inl (AttemptStateError (''attempt already registered: '' @ ec_attempt_id c))
      else Inr (st(ec_attempt_id c \<mapsto> \<lparr>at_contract = c, at_state = AttemptState.PLANNED\<rparr>)))"

definition store_get_record :: "InMemoryAttemptStateStore \<Rightarrow> string \<Rightarrow> AttemptRecord option" where
  "store_get_record st attempt_id = st attempt_id"

definition store_compare_and_set ::
    "AttemptExecutionContract \<Rightarrow> AttemptState \<Rightarrow> AttemptState
      \<Rightarrow> InMemoryAttemptStateStore \<Rightarrow> bool \<times> InMemoryAttemptStateStore" where
  "store_compare_and_set c expected new st =
     (case st (ec_attempt_id c) of
        None \<Rightarrow> (False, st)
      | Some r \<Rightarrow>
          if at_contract r \<noteq> c \<or> at_state r \<noteq> expected then (False, st)
          else (True, st(ec_attempt_id c \<mapsto> \<lparr>at_contract = at_contract r, at_state = new\<rparr>)))"

section \<open>Binding validation and capability admission\<close>

fun check_fields ::
    "(string \<Rightarrow> string \<Rightarrow> string \<Rightarrow> string) \<Rightarrow> binding_field list
      \<Rightarrow> AttemptExecutionContract \<Rightarrow> CapabilityProfile \<Rightarrow> unit res" where
  "check_fields msg [] c p = Inr ()"
| "check_fields msg ((f, want, got) # fs) c p =
     (if want c \<noteq> got p then Inl (AttemptBindingError (msg f (got p) (want c)))
      else check_fields msg fs c p)"

definition validate_attempt_binding ::
    "ApplicationRequest \<Rightarrow> AttemptExecutionContract \<Rightarrow> CapabilityProfile \<Rightarrow> unit res" where
  "validate_attempt_binding req c p =
     (if ar_job_id req \<noteq> ec_job_id c
      then Inl (AttemptBindingError
             (''job_id mismatch: request='' @ ar_job_id req @ '' contract='' @ ec_job_id c))
      else if ar_application_contract req \<noteq> ec_application_contract c
      then Inl (AttemptBindingError
             (''application_contract mismatch: request='' @ ar_application_contract req @
              '' contract='' @ ec_application_contract c))
      else check_fields
             (\<lambda>f got want. f @ '' mismatch: adapter_profile='' @ got @ '' contract='' @ want)
             BINDING_FIELDS c p)"

record AdmissionResult =
  ad_admitted :: bool
  ad_outcome :: "ProviderOutcome option"

definition capability_error :: "string \<Rightarrow> (string \<times> string) list \<Rightarrow> ProviderOutcome" where
  [py_defs]: "capability_error detail ev =
     \<lparr>po_kind = ProviderOutcomeKind.CAPABILITY_ERROR, po_provider_request_id = None,
      po_detail = detail, po_safe_evidence = ev\<rparr>"

definition admit_capability ::
    "CapabilityProfile \<Rightarrow> string \<Rightarrow> ProfileStatus \<Rightarrow> AdmissionResult" where
  "admit_capability p application_contract current_status =
     (if current_status \<noteq> ProfileStatus.ACTIVE
      then \<lparr>ad_admitted = False,
            ad_outcome = Some (capability_error ''profile_not_selectable''
              [(''profile_id'', cp_profile_id p), (''status'', ProfileStatus_value current_status)])\<rparr>
      else if \<not> supports p application_contract
      then \<lparr>ad_admitted = False,
            ad_outcome = Some (capability_error ''contract_not_supported''
              [(''profile_id'', cp_profile_id p), (''contract'', application_contract)])\<rparr>
      else \<lparr>ad_admitted = True, ad_outcome = None\<rparr>)"

section \<open>Adapters, registry and selection policy\<close>

text \<open>
  \<open>pa_ident\<close> is the object identity that \<^verbatim>\<open>existing is not adapter\<close> compares; \<open>pa_execute\<close> is the
  adapter's single external send, which may raise.
\<close>

record ProviderAdapter =
  pa_ident :: nat
  pa_profile :: CapabilityProfile
  pa_execute :: "ApplicationRequest \<Rightarrow> ProviderOutcome res"

record ProviderRegistry =
  pr_by_profile :: "string \<rightharpoonup> ProviderAdapter"
  pr_lifecycle :: ProfileLifecycle

text \<open>\<open>ProviderRegistry.__init__\<close>; \<^const>\<open>None\<close> is Python's \<^verbatim>\<open>None\<close> lifecycle.\<close>

definition registry_init :: "ProfileLifecycle option \<Rightarrow> ProviderRegistry res" where
  "registry_init lc =
     (case lc of
        None \<Rightarrow> Inl (TypeError ''ProviderRegistry requires a shared lifecycle authority'')
      | Some l \<Rightarrow> Inr \<lparr>pr_by_profile = Map.empty, pr_lifecycle = l\<rparr>)"

definition registry_register :: "ProviderAdapter \<Rightarrow> ProviderRegistry \<Rightarrow> ProviderRegistry res" where
  "registry_register ad r =
     (let pid = cp_profile_id (pa_profile ad);
          r' = r\<lparr>pr_by_profile := (pr_by_profile r)(pid \<mapsto> ad),
                 pr_lifecycle := lifecycle_register (pa_profile ad) (pr_lifecycle r)\<rparr>
      in case pr_by_profile r pid of
           Some existing \<Rightarrow>
             if pa_ident existing \<noteq> pa_ident ad then Inl (DuplicateProfileRegistrationError pid)
             else Inr r'
         | None \<Rightarrow> Inr r')"

definition registry_disable :: "string \<Rightarrow> ProviderRegistry \<Rightarrow> ProviderRegistry" where
  "registry_disable pid r = r\<lparr>pr_lifecycle := lifecycle_disable pid (pr_lifecycle r)\<rparr>"

definition registry_quarantine :: "string \<Rightarrow> ProviderRegistry \<Rightarrow> ProviderRegistry" where
  "registry_quarantine pid r = r\<lparr>pr_lifecycle := lifecycle_quarantine pid (pr_lifecycle r)\<rparr>"

definition get_selectable :: "string \<Rightarrow> string \<Rightarrow> ProviderRegistry \<Rightarrow> ProviderAdapter res" where
  "get_selectable pid application_contract r =
     (case pr_by_profile r pid of
        None \<Rightarrow> Inl (UnknownProfileError pid)
      | Some ad \<Rightarrow>
          let status = lifecycle_status (pr_lifecycle r) pid in
          if status = ProfileStatus.UNKNOWN then Inl (UnknownProfileError pid)
          else if status \<noteq> ProfileStatus.ACTIVE then Inl (ProfileDisabledError pid)
          else if \<not> supports (pa_profile ad) application_contract
          then Inl (ProviderIncompatibleError (pid @ '' does not support '' @ application_contract))
          else Inr ad)"

definition resolve_bound_attempt ::
    "AttemptExecutionContract \<Rightarrow> ProviderRegistry \<Rightarrow> ProviderAdapter res" where
  "resolve_bound_attempt c r =
     (case pr_by_profile r (ec_profile_id c) of
        None \<Rightarrow> Inl (UnknownProfileError (ec_profile_id c))
      | Some ad \<Rightarrow>
          bind_res
            (check_fields
              (\<lambda>f got want. ''bound adapter '' @ f @ '' mismatch: adapter='' @ got @ '' contract='' @ want)
              BINDING_FIELDS c (pa_profile ad))
            (\<lambda>_. Inr ad))"

record ProductOption =
  tier :: string

record ProviderSelectionPolicy =
  sp_allowlist :: "string \<rightharpoonup> CapabilityProfile"
  sp_lifecycle :: ProfileLifecycle

definition selection_policy_init ::
    "(string \<rightharpoonup> CapabilityProfile) \<Rightarrow> ProfileLifecycle option \<Rightarrow> ProviderSelectionPolicy res" where
  "selection_policy_init allow lc =
     (case lc of
        None \<Rightarrow> Inl (TypeError ''ProviderSelectionPolicy requires a lifecycle authority'')
      | Some l \<Rightarrow> Inr \<lparr>sp_allowlist = allow, sp_lifecycle = l\<rparr>)"

definition select ::
    "ProviderSelectionPolicy \<Rightarrow> ProductOption \<Rightarrow> string \<Rightarrow> CapabilityProfile res" where
  "select pol opt application_contract =
     (case sp_allowlist pol (tier opt) of
        None \<Rightarrow> Inl (KeyError (tier opt))
      | Some p \<Rightarrow>
          let status = lifecycle_status (sp_lifecycle pol) (cp_profile_id p) in
          if status = ProfileStatus.UNKNOWN then Inl (UnknownProfileError (cp_profile_id p))
          else if status \<noteq> ProfileStatus.ACTIVE then Inl (ProfileDisabledError (cp_profile_id p))
          else if \<not> supports p application_contract
          then Inl (ProviderIncompatibleError
                 (''profile '' @ cp_profile_id p @ '' does not support '' @ application_contract))
          else Inr p)"

section \<open>Lemmas\<close>

definition binds :: "AttemptExecutionContract \<Rightarrow> CapabilityProfile \<Rightarrow> bool" where
  "binds c p \<longleftrightarrow>
     ec_profile_id c = cp_profile_id p \<and> ec_provider_name c = cp_provider_name p \<and>
     ec_model c = cp_model p \<and> ec_api_version c = cp_api_version p \<and>
     ec_profile_version c = cp_profile_version p \<and> ec_adapter_version c = cp_adapter_version p"

lemma check_fields_ok:
  "check_fields msg fs c p = Inr u \<longleftrightarrow> (\<forall>(f, want, got) \<in> set fs. want c = got p)"
  by (induction msg fs c p rule: check_fields.induct) auto

lemma check_fields_error:
  "check_fields msg fs c p = Inl e \<Longrightarrow> \<exists>m. e = AttemptBindingError m"
  by (induction msg fs c p rule: check_fields.induct) (auto split: if_splits)

lemma check_BINDING_FIELDS: "check_fields msg BINDING_FIELDS c p = Inr u \<longleftrightarrow> binds c p"
  by (auto simp: check_fields_ok BINDING_FIELDS_def binds_def)

lemma binds_contract_plan: "binds (contract_plan a j p ac) p"
  by (simp add: binds_def contract_plan_def)

lemma validate_ok:
  "validate_attempt_binding req c p = Inr u \<longleftrightarrow>
     ar_job_id req = ec_job_id c \<and> ar_application_contract req = ec_application_contract c \<and> binds c p"
  by (simp add: validate_attempt_binding_def check_BINDING_FIELDS)

lemma admitted_iff:
  "ad_admitted (admit_capability p ac st) \<longleftrightarrow> st = ProfileStatus.ACTIVE \<and> supports p ac"
  by (simp add: admit_capability_def)

lemma not_admitted_outcome:
  "\<not> ad_admitted (admit_capability p ac st) \<Longrightarrow>
     \<exists>out. ad_outcome (admit_capability p ac st) = Some out \<and>
       po_kind out = ProviderOutcomeKind.CAPABILITY_ERROR \<and>
       (po_detail out = ''profile_not_selectable'' \<longleftrightarrow> st \<noteq> ProfileStatus.ACTIVE)"
  by (auto simp: admit_capability_def capability_error_def)

lemma resolve_bound_ok:
  "resolve_bound_attempt c r = Inr ad \<longleftrightarrow>
     pr_by_profile r (ec_profile_id c) = Some ad \<and> binds c (pa_profile ad)"
  by (auto simp: resolve_bound_attempt_def bind_res_eq_Inr check_BINDING_FIELDS split: option.splits)

lemma resolve_bound_lifecycle [simp]:
  "resolve_bound_attempt c (r\<lparr>pr_lifecycle := lc\<rparr>) = resolve_bound_attempt c r"
  by (simp add: resolve_bound_attempt_def)

lemma get_selectable_ok:
  "get_selectable pid ac r = Inr ad \<longleftrightarrow>
     pr_by_profile r pid = Some ad \<and> lifecycle_is_active (pr_lifecycle r) pid \<and>
     supports (pa_profile ad) ac"
  by (auto simp: get_selectable_def lifecycle_is_active_def Let_def split: option.splits)

lemma lifecycle_status_set [simp]:
  "lifecycle_status (lifecycle_set_status pid st lc) q =
     (if q = pid then st else lifecycle_status lc q)"
  by (simp add: lifecycle_status_def lifecycle_set_status_def)

lemma lifecycle_status_register:
  "lifecycle_status lc pid \<noteq> ProfileStatus.UNKNOWN \<Longrightarrow>
     lifecycle_status (lifecycle_register p lc) pid = lifecycle_status lc pid"
  by (auto simp: lifecycle_status_def lifecycle_register_def split: option.splits)

lemma cas_True:
  "store_compare_and_set c e n st = (True, st') \<longleftrightarrow>
     (\<exists>r. st (ec_attempt_id c) = Some r \<and> at_contract r = c \<and> at_state r = e \<and>
          st' = st(ec_attempt_id c \<mapsto> \<lparr>at_contract = c, at_state = n\<rparr>))"
  by (auto simp: store_compare_and_set_def split: option.splits)

lemma cas_False:
  "store_compare_and_set c e n st = (False, st') \<Longrightarrow> st' = st"
  by (auto simp: store_compare_and_set_def split: option.splits if_splits)

section \<open>The Attempt store as a machine\<close>

text \<open>
  The requests the store serves. Its \<open>get_record\<close> does not change it. The invariant is that every
  record is filed under the attempt id of its own contract.
\<close>

datatype attempt_event =
    PlanAttempt AttemptExecutionContract
  | CompareAndSet AttemptExecutionContract AttemptState AttemptState

fun attempt_step :: "attempt_event \<Rightarrow> InMemoryAttemptStateStore \<Rightarrow> InMemoryAttemptStateStore" where
  "attempt_step (PlanAttempt c) st = (case store_plan c st of Inl _ \<Rightarrow> st | Inr st' \<Rightarrow> st')"
| "attempt_step (CompareAndSet c e n) st = snd (store_compare_and_set c e n st)"

definition filed :: "InMemoryAttemptStateStore \<Rightarrow> bool" where
  "filed st \<longleftrightarrow> (\<forall>k r. st k = Some r \<longrightarrow> ec_attempt_id (at_contract r) = k)"

fun attempt_key :: "attempt_event \<Rightarrow> string option" where
  "attempt_key (PlanAttempt c) = Some (ec_attempt_id c)"
| "attempt_key (CompareAndSet c e n) = None"

interpretation attempts: invariant_machine attempt_step filed
proof
  fix e s assume "filed s"
  then show "filed (attempt_step e s)"
    by (cases e) (auto simp: filed_def store_plan_def store_compare_and_set_def
                       split: option.splits if_splits)
qed

interpretation attempt_replay: replay_machine attempt_step attempt_key dom
proof
  fix e :: attempt_event and k and s :: InMemoryAttemptStateStore
  assume "attempt_key e = Some k" and "k \<in> dom s"
  then show "attempt_step e s = s" by (cases e) (auto simp: store_plan_def)
next
  fix e :: attempt_event and k and s :: InMemoryAttemptStateStore
  assume "attempt_key e = Some k" and "attempt_step e s \<noteq> s"
  then show "k \<in> dom (attempt_step e s)"
    by (cases e) (auto simp: store_plan_def split: if_splits)
next
  fix e :: attempt_event and s :: InMemoryAttemptStateStore
  show "dom s \<subseteq> dom (attempt_step e s)"
    by (cases e) (auto simp: store_plan_def store_compare_and_set_def split: option.splits if_splits)
qed

lemma attempt_step_contract:
  assumes "st a = Some r"
  shows "\<exists>r'. attempt_step e st a = Some r' \<and> at_contract r' = at_contract r"
  using assms
  by (cases e) (auto simp: store_plan_def store_compare_and_set_def split: option.splits if_splits)

lemma attempt_run_contract:
  assumes "st a = Some r"
  shows "\<exists>r'. fold attempt_step es st a = Some r' \<and> at_contract r' = at_contract r"
  using assms
proof (induction es arbitrary: st r)
  case (Cons e es)
  from attempt_step_contract [of st a r e] Cons.prems obtain r1
    where "attempt_step e st a = Some r1" and "at_contract r1 = at_contract r" by blast
  with Cons.IH [of "attempt_step e st" r1] show ?case by auto
qed simp

section \<open>The registry as a machine\<close>

datatype registry_event = Register ProviderAdapter | Disable string | Quarantine string

fun registry_step :: "registry_event \<Rightarrow> ProviderRegistry \<Rightarrow> ProviderRegistry" where
  "registry_step (Register ad) r = (case registry_register ad r of Inl _ \<Rightarrow> r | Inr r' \<Rightarrow> r')"
| "registry_step (Disable pid) r = registry_disable pid r"
| "registry_step (Quarantine pid) r = registry_quarantine pid r"

text \<open>
  A profile that has been disabled or quarantined is \<open>withdrawn\<close>; the invariant of the registry is
  that every registered adapter has a lifecycle entry, so no adapter is ever in an unknown state.
\<close>

definition withdrawn :: "string \<Rightarrow> ProviderRegistry \<Rightarrow> bool" where
  "withdrawn pid r \<longleftrightarrow>
     lifecycle_status (pr_lifecycle r) pid \<in> {ProfileStatus.DISABLED, ProfileStatus.QUARANTINED}"

definition registry_inv :: "ProviderRegistry \<Rightarrow> bool" where
  "registry_inv r \<longleftrightarrow>
     dom (pr_by_profile r) \<subseteq> dom (pr_lifecycle r) \<and>
     (\<forall>pid ad. pr_by_profile r pid = Some ad \<longrightarrow> cp_profile_id (pa_profile ad) = pid)"

lemma registry_step_withdrawn: "withdrawn pid r \<Longrightarrow> withdrawn pid (registry_step e r)"
proof (cases e)
  case (Register ad)
  assume w: "withdrawn pid r"
  then have "lifecycle_status (lifecycle_register (pa_profile ad) (pr_lifecycle r)) pid =
      lifecycle_status (pr_lifecycle r) pid"
    by (intro lifecycle_status_register) (auto simp: withdrawn_def)
  with w Register show ?thesis
    by (auto simp: withdrawn_def registry_register_def Let_def split: option.splits)
qed (auto simp: withdrawn_def registry_disable_def registry_quarantine_def
       lifecycle_disable_def lifecycle_quarantine_def)

lemma registry_step_inv: "registry_inv r \<Longrightarrow> registry_inv (registry_step e r)"
  by (cases e)
     (auto simp: registry_inv_def registry_register_def registry_disable_def registry_quarantine_def
        lifecycle_disable_def lifecycle_quarantine_def lifecycle_set_status_def
        lifecycle_register_def Let_def split: option.splits if_splits)

interpretation registry_machine: invariant_machine registry_step registry_inv
  by unfold_locales (rule registry_step_inv)

interpretation withdrawal: invariant_machine registry_step "withdrawn pid"
  by unfold_locales (rule registry_step_withdrawn)

lemma withdrawn_not_selectable: "withdrawn pid r \<Longrightarrow> \<not> is_ok (get_selectable pid ac r)"
  by (auto simp: is_ok_iff get_selectable_ok lifecycle_is_active_def withdrawn_def)

section \<open>Properties\<close>

text \<open>
  The execution contract an Attempt was planned with is never rewritten: whatever sequence of
  plan and compare-and-set requests follows, with whatever contracts, the stored contract of a
  known attempt id stays the one first recorded.
\<close>

theorem attempt_contract_immutable:
  assumes "st a = Some r"
  shows "\<exists>s. fold attempt_step es st a = Some \<lparr>at_contract = at_contract r, at_state = s\<rparr>"
proof -
  from attempt_run_contract [of st a r es] assms obtain r'
    where r': "fold attempt_step es st a = Some r'" "at_contract r' = at_contract r" by blast
  have "r' = \<lparr>at_contract = at_contract r, at_state = at_state r'\<rparr>"
    using r'(2) by (cases r') simp
  with r'(1) show ?thesis by auto
qed

definition demo_profile :: CapabilityProfile where
  "demo_profile =
     \<lparr>cp_profile_id = ''p1'', cp_provider_name = ''A'', cp_model = ''m'', cp_api_version = ''1'',
      cp_profile_version = ''1'', cp_adapter_version = ''1'',
      cp_supported_contracts = {''research_claims.v1''}, cp_requires_request_identity = True,
      cp_verification_tier = VerificationTier.STATIC, cp_status = ProfileStatus.ACTIVE\<rparr>"

definition demo_contract :: AttemptExecutionContract where
  "demo_contract = contract_plan ''a1'' ''j1'' demo_profile ''research_claims.v1''"

theorem attempt_contract_immutable_witness:
  "\<exists>s. fold attempt_step
       [CompareAndSet demo_contract AttemptState.PLANNED AttemptState.DISPATCHED,
        PlanAttempt (demo_contract\<lparr>ec_model := ''other''\<rparr>)]
       [''a1'' \<mapsto> \<lparr>at_contract = demo_contract, at_state = AttemptState.PLANNED\<rparr>] ''a1''
     = Some \<lparr>at_contract = demo_contract, at_state = s\<rparr>"
  by (rule attempt_contract_immutable
        [of _ _ "\<lparr>at_contract = demo_contract, at_state = AttemptState.PLANNED\<rparr>",
         unfolded AttemptRecord.select_convs]) simp

text \<open>
  Selection for a new task fails closed: an adapter is returned exactly when the profile is
  registered, its current lifecycle status is ACTIVE and it supports the contract; and once a
  profile has been disabled or quarantined no later sequence of registrations and lifecycle
  updates of the registry makes it selectable again.
\<close>

theorem selection_fails_closed:
  "(get_selectable pid ac r = Inr ad \<longleftrightarrow>
      pr_by_profile r pid = Some ad \<and> pr_lifecycle r pid = Some ProfileStatus.ACTIVE \<and>
      ac \<in> cp_supported_contracts (pa_profile ad)) \<and>
   \<not> is_ok (get_selectable pid ac (fold registry_step es (registry_disable pid r))) \<and>
   \<not> is_ok (get_selectable pid ac (fold registry_step es (registry_quarantine pid r)))"
proof (intro conjI)
  show "get_selectable pid ac r = Inr ad \<longleftrightarrow>
      pr_by_profile r pid = Some ad \<and> pr_lifecycle r pid = Some ProfileStatus.ACTIVE \<and>
      ac \<in> cp_supported_contracts (pa_profile ad)"
    by (auto simp: get_selectable_ok py_defs split: option.splits)
  have "withdrawn pid (registry_disable pid r)" "withdrawn pid (registry_quarantine pid r)"
    by (simp_all add: withdrawn_def registry_disable_def registry_quarantine_def
          lifecycle_disable_def lifecycle_quarantine_def)
  then show "\<not> is_ok (get_selectable pid ac (fold registry_step es (registry_disable pid r)))"
    "\<not> is_ok (get_selectable pid ac (fold registry_step es (registry_quarantine pid r)))"
    by (auto intro!: withdrawn_not_selectable withdrawal.run_inv simp del: is_ok_simps)
qed

end
