(* ===== verification/Provider_Dispatch.thy ===== *)
theory Provider_Dispatch
  imports Provider_Contract
begin

text \<open>
  \<^verbatim>\<open>dispatch_attempt\<close> of \<^verbatim>\<open>src/projects/ai-agent/src/provider_adapters.py\<close>: the guarded single
  external call of one Attempt. The function is modelled twice over the same pieces: as the
  sequential function (with the sends it makes as an explicit output), and as the steps of one of
  many concurrent callers, because its reads, its compare-and-set and its send are separate
  critical sections of the source.
\<close>

section \<open>Gates and dispatch\<close>

record DispatchResult =
  dr_outcome :: ProviderOutcome
  dr_provider_calls :: int
  dr_attempt_state :: AttemptState

text \<open>Gate (1): the record read from the store against the caller's contract.\<close>

definition gate_record ::
    "AttemptExecutionContract \<Rightarrow> AttemptRecord option \<Rightarrow> AttemptExecutionContract res" where
  "gate_record c rec =
     (case rec of
        None \<Rightarrow> Inl (AttemptStateError (''unknown attempt (not planned): '' @ ec_attempt_id c))
      | Some r \<Rightarrow>
          if c \<noteq> at_contract r
          then Inl (AttemptBindingError
                 (''caller contract does not match the persisted Attempt binding for '' @ ec_attempt_id c))
          else if at_state r \<noteq> AttemptState.PLANNED
          then Inl (AttemptStateError
                 (''attempt '' @ ec_attempt_id c @ '' is '' @ AttemptState_value (at_state r) @
                  '', only PLANNED may dispatch''))
          else Inr (at_contract r))"

text \<open>Gate (2): the bound Adapter, validated against the request.\<close>

definition gate_adapter ::
    "ApplicationRequest \<Rightarrow> AttemptExecutionContract \<Rightarrow> ProviderRegistry \<Rightarrow> ProviderAdapter res" where
  "gate_adapter req authoritative r =
     bind_res (resolve_bound_attempt authoritative r) (\<lambda>ad.
     bind_res (validate_attempt_binding req authoritative (pa_profile ad)) (\<lambda>_. Inr ad))"

text \<open>
  Gate (3): admission against the current status: proceed to the call, block the Attempt, or
  return the refusal with the Attempt still PLANNED.
\<close>

datatype admission_gate = Proceed | Block ProviderOutcome | Refuse ProviderOutcome

definition gate_admission ::
    "AttemptExecutionContract \<Rightarrow> ProviderAdapter \<Rightarrow> ProfileStatus \<Rightarrow> admission_gate res" where
  "gate_admission authoritative ad status =
     (if status = ProfileStatus.UNKNOWN then Inl (UnknownProfileError (ec_profile_id authoritative))
      else let admission = admit_capability (pa_profile ad) (ec_application_contract authoritative) status in
        if ad_admitted admission then Inr Proceed
        else case ad_outcome admission of
               None \<Rightarrow> Inl AssertionError
             | Some out \<Rightarrow>
                 if po_detail out = ''profile_not_selectable'' then Inr (Block out) else Inr (Refuse out))"

definition blocked_result :: "ProviderOutcome \<Rightarrow> DispatchResult" where
  "blocked_result out = \<lparr>dr_outcome = out, dr_provider_calls = 0,
     dr_attempt_state = AttemptState.BLOCKED_PROFILE_DISABLED\<rparr>"

definition refused_result :: "ProviderOutcome \<Rightarrow> DispatchResult" where
  "refused_result out = \<lparr>dr_outcome = out, dr_provider_calls = 0,
     dr_attempt_state = AttemptState.PLANNED\<rparr>"

definition called_result :: "ProviderOutcome \<Rightarrow> DispatchResult" where
  "called_result out = \<lparr>dr_outcome = out, dr_provider_calls = 1,
     dr_attempt_state = AttemptState.DISPATCHED\<rparr>"

text \<open>
  The whole function: its result or exception, the store afterwards, and the attempt ids for
  which an Adapter's \<open>execute\<close> was called.
\<close>

definition dispatch_attempt ::
    "ApplicationRequest \<Rightarrow> AttemptExecutionContract \<Rightarrow> ProviderRegistry
      \<Rightarrow> InMemoryAttemptStateStore
      \<Rightarrow> DispatchResult res \<times> InMemoryAttemptStateStore \<times> string list" where
  "dispatch_attempt req c registry st =
     (case gate_record c (store_get_record st (ec_attempt_id c)) of Inl e \<Rightarrow> (Inl e, st, [])
      | Inr authoritative \<Rightarrow>
     (case gate_adapter req authoritative registry of Inl e \<Rightarrow> (Inl e, st, [])
      | Inr ad \<Rightarrow>
     (case gate_admission authoritative ad
             (lifecycle_status (pr_lifecycle registry) (ec_profile_id authoritative)) of
        Inl e \<Rightarrow> (Inl e, st, [])
      | Inr (Block out) \<Rightarrow>
          (case store_compare_and_set authoritative AttemptState.PLANNED
                  AttemptState.BLOCKED_PROFILE_DISABLED st of
             (True, st') \<Rightarrow> (Inr (blocked_result out), st', [])
           | (False, st') \<Rightarrow>
               (Inl (AttemptStateError (''could not block attempt '' @ ec_attempt_id c)), st', []))
      | Inr (Refuse out) \<Rightarrow> (Inr (refused_result out), st, [])
      | Inr Proceed \<Rightarrow>
          (case store_compare_and_set authoritative AttemptState.PLANNED AttemptState.DISPATCHED st of
             (False, st') \<Rightarrow>
               (Inl (AttemptStateError (''attempt '' @ ec_attempt_id c @
                  '' could not transition PLANNED -> DISPATCHED'')), st', [])
           | (True, st') \<Rightarrow>
               (case pa_execute ad req of
                  Inl e \<Rightarrow> (Inl e, st', [ec_attempt_id c])
                | Inr out \<Rightarrow> (Inr (called_result out), st', [ec_attempt_id c]))))))"

section \<open>Concurrent dispatchers\<close>

text \<open>
  Where a caller stands between two critical sections. \<open>w_sends\<close> is the list of attempt ids an
  Adapter was called for, \<open>w_results\<close> what each call of \<open>dispatch_attempt\<close> returned or raised, both newest
  first.
\<close>

datatype dispatcher =
    Idle
  | Entered ApplicationRequest AttemptExecutionContract
  | HasRecord ApplicationRequest AttemptExecutionContract
  | HasAdapter ApplicationRequest AttemptExecutionContract ProviderAdapter
  | Admitted ApplicationRequest AttemptExecutionContract ProviderAdapter
  | Blocking AttemptExecutionContract ProviderOutcome
  | Claimed ApplicationRequest AttemptExecutionContract ProviderAdapter

record world =
  w_store :: InMemoryAttemptStateStore
  w_registry :: ProviderRegistry
  w_pc :: "nat \<Rightarrow> dispatcher"
  w_sends :: "string list"
  w_results :: "(nat \<times> DispatchResult res) list"

definition move_to :: "nat \<Rightarrow> dispatcher \<Rightarrow> world \<Rightarrow> world" where
  "move_to t d w = w\<lparr>w_pc := (w_pc w)(t := d)\<rparr>"

text \<open>The end of a call: its result is recorded and the thread is idle again.\<close>

definition leave_with :: "nat \<Rightarrow> DispatchResult res \<Rightarrow> world \<Rightarrow> world" where
  "leave_with t res w = w\<lparr>w_pc := (w_pc w)(t := Idle), w_results := (t, res) # w_results w\<rparr>"

definition send_result :: "ProviderAdapter \<Rightarrow> ApplicationRequest \<Rightarrow> DispatchResult res" where
  "send_result ad req = (case pa_execute ad req of Inl e \<Rightarrow> Inl e | Inr out \<Rightarrow> Inr (called_result out))"

definition block_lost :: "AttemptExecutionContract \<Rightarrow> DispatchResult res" where
  "block_lost c = Inl (AttemptStateError (''could not block attempt '' @ ec_attempt_id c))"

definition claim_lost :: "AttemptExecutionContract \<Rightarrow> DispatchResult res" where
  "claim_lost c = Inl (AttemptStateError (''attempt '' @ ec_attempt_id c @ '' could not transition PLANNED -> DISPATCHED''))"

text \<open>One critical section of the call thread \<open>t\<close> is in. It changes neither the registry nor another thread.\<close>

inductive dispatcher_step :: "nat \<Rightarrow> world \<Rightarrow> world \<Rightarrow> bool" for t :: nat where
  read_record: "w_pc w t = Entered req c \<Longrightarrow>
     gate_record c (store_get_record (w_store w) (ec_attempt_id c)) = Inr authoritative \<Longrightarrow>
     dispatcher_step t w (move_to t (HasRecord req authoritative) w)"
| read_fails: "w_pc w t = Entered req c \<Longrightarrow>
     gate_record c (store_get_record (w_store w) (ec_attempt_id c)) = Inl e \<Longrightarrow>
     dispatcher_step t w (leave_with t (Inl e) w)"
| resolve: "w_pc w t = HasRecord req c \<Longrightarrow> gate_adapter req c (w_registry w) = Inr ad \<Longrightarrow>
     dispatcher_step t w (move_to t (HasAdapter req c ad) w)"
| resolve_fails: "w_pc w t = HasRecord req c \<Longrightarrow> gate_adapter req c (w_registry w) = Inl e \<Longrightarrow>
     dispatcher_step t w (leave_with t (Inl e) w)"
| admit: "w_pc w t = HasAdapter req c ad \<Longrightarrow>
     gate_admission c ad (lifecycle_status (pr_lifecycle (w_registry w)) (ec_profile_id c)) = Inr Proceed \<Longrightarrow>
     dispatcher_step t w (move_to t (Admitted req c ad) w)"
| admit_block: "w_pc w t = HasAdapter req c ad \<Longrightarrow>
     gate_admission c ad (lifecycle_status (pr_lifecycle (w_registry w)) (ec_profile_id c)) = Inr (Block out) \<Longrightarrow>
     dispatcher_step t w (move_to t (Blocking c out) w)"
| admit_refuse: "w_pc w t = HasAdapter req c ad \<Longrightarrow>
     gate_admission c ad (lifecycle_status (pr_lifecycle (w_registry w)) (ec_profile_id c)) = Inr (Refuse out) \<Longrightarrow>
     dispatcher_step t w (leave_with t (Inr (refused_result out)) w)"
| admit_fails: "w_pc w t = HasAdapter req c ad \<Longrightarrow>
     gate_admission c ad (lifecycle_status (pr_lifecycle (w_registry w)) (ec_profile_id c)) = Inl e \<Longrightarrow>
     dispatcher_step t w (leave_with t (Inl e) w)"
| block: "w_pc w t = Blocking c out \<Longrightarrow>
     store_compare_and_set c AttemptState.PLANNED AttemptState.BLOCKED_PROFILE_DISABLED (w_store w) = (b, st) \<Longrightarrow>
     dispatcher_step t w (leave_with t (if b then Inr (blocked_result out) else block_lost c) (w\<lparr>w_store := st\<rparr>))"
| claim: "w_pc w t = Admitted req c ad \<Longrightarrow>
     store_compare_and_set c AttemptState.PLANNED AttemptState.DISPATCHED (w_store w) = (True, st) \<Longrightarrow>
     dispatcher_step t w (move_to t (Claimed req c ad) (w\<lparr>w_store := st\<rparr>))"
| lost_race: "w_pc w t = Admitted req c ad \<Longrightarrow>
     store_compare_and_set c AttemptState.PLANNED AttemptState.DISPATCHED (w_store w) = (False, st) \<Longrightarrow>
     dispatcher_step t w (leave_with t (claim_lost c) w)"
| send: "w_pc w t = Claimed req c ad \<Longrightarrow>
     dispatcher_step t w (leave_with t (send_result ad req) (w\<lparr>w_sends := ec_attempt_id c # w_sends w\<rparr>))"

inductive_simps dispatcher_step_iff: "dispatcher_step t w w'"

text \<open>
  The steps of the whole system: planning, any change of the registry, a new call of an idle thread, and
  the steps of the calls.
\<close>

inductive world_step :: "world \<Rightarrow> world \<Rightarrow> bool" where
  plan: "store_plan c (w_store w) = Inr st \<Longrightarrow> world_step w (w\<lparr>w_store := st\<rparr>)"
| registry: "world_step w (w\<lparr>w_registry := r\<rparr>)"
| enter: "w_pc w t = Idle \<Longrightarrow> world_step w (move_to t (Entered req c) w)"
| thread: "dispatcher_step t w w' \<Longrightarrow> world_step w w'"

inductive_cases world_stepE: "world_step w w'"

inductive reachable :: "world \<Rightarrow> bool" where
  start: "(\<forall>t. w_pc w t = Idle) \<Longrightarrow> w_sends w = [] \<Longrightarrow> w_store w = Map.empty \<Longrightarrow> reachable w"
| step: "reachable w \<Longrightarrow> world_step w w' \<Longrightarrow> reachable w'"

text \<open>The attempts a thread has claimed but not yet sent for.\<close>

fun pending_send :: "dispatcher \<Rightarrow> string option" where
  "pending_send (Claimed req c ad) = Some (ec_attempt_id c)"
| "pending_send _ = None"

definition dispatched :: "InMemoryAttemptStateStore \<Rightarrow> string \<Rightarrow> bool" where
  "dispatched st a \<longleftrightarrow> (\<exists>r. st a = Some r \<and> at_state r = AttemptState.DISPATCHED)"

text \<open>
  The invariant that makes the single call safe: sent and pending attempts are DISPATCHED, each
  was sent at most once, no attempt is both sent and pending, and no two threads hold the same
  pending attempt.
\<close>

definition world_inv :: "world \<Rightarrow> bool" where
  "world_inv w \<longleftrightarrow>
     distinct (w_sends w) \<and>
     (\<forall>a \<in> set (w_sends w). dispatched (w_store w) a) \<and>
     (\<forall>t a. pending_send (w_pc w t) = Some a \<longrightarrow>
        dispatched (w_store w) a \<and> a \<notin> set (w_sends w)) \<and>
     (\<forall>t u a. pending_send (w_pc w t) = Some a \<and> pending_send (w_pc w u) = Some a \<longrightarrow> t = u)"

lemma dispatched_plan: "store_plan c st = Inr st' \<Longrightarrow> dispatched st a \<Longrightarrow> dispatched st' a"
  by (auto simp: store_plan_def dispatched_def split: if_splits)

lemma dispatched_cas:
  "store_compare_and_set c AttemptState.PLANNED n st = (b, st') \<Longrightarrow> dispatched st a \<Longrightarrow> dispatched st' a"
  by (auto simp: store_compare_and_set_def dispatched_def split: option.splits if_splits)

lemma claim_dispatched:
  "store_compare_and_set c AttemptState.PLANNED AttemptState.DISPATCHED st = (True, st') \<Longrightarrow>
     \<not> dispatched st (ec_attempt_id c) \<and> dispatched st' (ec_attempt_id c)"
  by (auto simp: cas_True dispatched_def)

lemma world_inv_pc:
  assumes "world_inv w" and "pending_send d = None"
  shows "world_inv (move_to t d w)"
  using assms unfolding world_inv_def move_to_def by auto

lemma world_inv_leave: "world_inv w \<Longrightarrow> world_inv (leave_with t res w)"
  unfolding world_inv_def leave_with_def by auto

lemma world_inv_store:
  assumes "world_inv w" and "\<And>a. dispatched (w_store w) a \<Longrightarrow> dispatched st a"
  shows "world_inv (w\<lparr>w_store := st\<rparr>)"
  using assms unfolding world_inv_def by auto

lemma world_inv_claim:
  assumes inv: "world_inv w"
    and cas: "store_compare_and_set c AttemptState.PLANNED AttemptState.DISPATCHED (w_store w) = (True, st)"
  shows "world_inv (move_to t (Claimed req c ad) (w\<lparr>w_store := st\<rparr>))"
proof -
  have mono: "\<And>a. dispatched (w_store w) a \<Longrightarrow> dispatched st a"
    using dispatched_cas [OF cas] .
  have new: "\<not> dispatched (w_store w) (ec_attempt_id c)" "dispatched st (ec_attempt_id c)"
    using claim_dispatched [OF cas] by auto
  show ?thesis
    using inv mono new unfolding world_inv_def move_to_def by (auto split: if_splits)
qed

lemma world_inv_send:
  assumes inv: "world_inv w" and pc: "w_pc w t = Claimed req c ad"
  shows "world_inv (leave_with t res (w\<lparr>w_sends := ec_attempt_id c # w_sends w\<rparr>))"
proof -
  have "pending_send (w_pc w t) = Some (ec_attempt_id c)" using pc by simp
  with inv show ?thesis unfolding world_inv_def leave_with_def by (auto split: if_splits)
qed

lemma dispatcher_step_inv: "dispatcher_step t w w' \<Longrightarrow> world_inv w \<Longrightarrow> world_inv w'"
proof (induction rule: dispatcher_step.induct)
  case (block w c out b st)
  show ?case by (rule world_inv_leave [OF world_inv_store [OF block.prems dispatched_cas [OF block.hyps(2)]]])
next
  case (claim w req c ad st)
  then show ?case by (intro world_inv_claim)
next
  case (send w req c ad)
  then show ?case by (intro world_inv_send)
qed (auto intro: world_inv_pc world_inv_leave)

lemma world_step_inv: "world_step w w' \<Longrightarrow> world_inv w \<Longrightarrow> world_inv w'"
proof (induction rule: world_step.induct)
  case (plan c w st)
  show ?case by (rule world_inv_store [OF plan.prems dispatched_plan [OF plan.hyps]])
next
  case (registry w r)
  then show ?case by (simp add: world_inv_def)
qed (auto intro: world_inv_pc dispatcher_step_inv)

lemma reachable_world_inv: "reachable w \<Longrightarrow> world_inv w"
proof (induction rule: reachable.induct)
  case (start w)
  then show ?case by (simp add: world_inv_def)
next
  case (step w w')
  then show ?case by (auto intro: world_step_inv)
qed

section \<open>The sequential function and the concurrent steps\<close>

text \<open>What has to hold for a dispatch to reach the Provider, stated on its inputs.\<close>

definition dispatch_allowed ::
    "ApplicationRequest \<Rightarrow> AttemptExecutionContract \<Rightarrow> ProviderRegistry
      \<Rightarrow> InMemoryAttemptStateStore \<Rightarrow> bool" where
  "dispatch_allowed req c registry st \<longleftrightarrow>
     st (ec_attempt_id c) = Some \<lparr>at_contract = c, at_state = AttemptState.PLANNED\<rparr> \<and>
     ar_job_id req = ec_job_id c \<and> ar_application_contract req = ec_application_contract c \<and>
     pr_lifecycle registry (ec_profile_id c) = Some ProfileStatus.ACTIVE \<and>
     (case pr_by_profile registry (ec_profile_id c) of
        None \<Rightarrow> False
      | Some ad \<Rightarrow> binds c (pa_profile ad) \<and> supports (pa_profile ad) (ec_application_contract c))"

definition dispatch_blocked ::
    "ApplicationRequest \<Rightarrow> AttemptExecutionContract \<Rightarrow> ProviderRegistry
      \<Rightarrow> InMemoryAttemptStateStore \<Rightarrow> bool" where
  "dispatch_blocked req c registry st \<longleftrightarrow>
     st (ec_attempt_id c) = Some \<lparr>at_contract = c, at_state = AttemptState.PLANNED\<rparr> \<and>
     ar_job_id req = ec_job_id c \<and> ar_application_contract req = ec_application_contract c \<and>
     withdrawn (ec_profile_id c) registry \<and>
     (case pr_by_profile registry (ec_profile_id c) of
        None \<Rightarrow> False | Some ad \<Rightarrow> binds c (pa_profile ad))"

lemma gate_record_ok:
  "gate_record c rec = Inr auth \<longleftrightarrow>
     auth = c \<and> rec = Some \<lparr>at_contract = c, at_state = AttemptState.PLANNED\<rparr>"
proof (cases rec)
  case (Some r)
  then show ?thesis by (cases r) (auto simp: gate_record_def)
qed (simp add: gate_record_def)

lemma gate_adapter_ok:
  "gate_adapter req c r = Inr ad \<longleftrightarrow>
     pr_by_profile r (ec_profile_id c) = Some ad \<and> binds c (pa_profile ad) \<and>
     ar_job_id req = ec_job_id c \<and> ar_application_contract req = ec_application_contract c"
  by (auto simp: gate_adapter_def bind_res_eq_Inr resolve_bound_ok validate_ok)

lemma gate_admission_Proceed:
  "gate_admission c ad status = Inr Proceed \<longleftrightarrow>
     status = ProfileStatus.ACTIVE \<and> supports (pa_profile ad) (ec_application_contract c)"
  by (auto simp: gate_admission_def Let_def admitted_iff split: option.splits if_splits)

lemma gate_admission_Block:
  "(\<exists>out. gate_admission c ad status = Inr (Block out)) \<longleftrightarrow>
     status \<in> {ProfileStatus.DISABLED, ProfileStatus.QUARANTINED}"
  by (cases status) (auto simp: gate_admission_def Let_def admit_capability_def capability_error_def)

lemmas gate_ok = gate_record_ok gate_adapter_ok gate_admission_Proceed

text \<open>The state in which a call of thread \<open>t\<close> ends when nobody else moves.\<close>

definition dispatched_world :: "nat \<Rightarrow> DispatchResult res \<times> InMemoryAttemptStateStore \<times> string list \<Rightarrow> world \<Rightarrow> world" where
  "dispatched_world t r w = (case r of (res, st, sends) \<Rightarrow>
     w\<lparr>w_store := st, w_pc := (w_pc w)(t := Idle), w_sends := sends @ w_sends w, w_results := (t, res) # w_results w\<rparr>)"

lemma dispatched_world_leave: "dispatched_world t (res, w_store w, []) w = leave_with t res w"
  by (simp add: dispatched_world_def leave_with_def)

lemmas step_rules = dispatcher_step.intros

lemma dispatch_steps:
  assumes entered: "w_pc w t = Entered req c"
  shows "(dispatcher_step t)\<^sup>*\<^sup>* w (dispatched_world t (dispatch_attempt req c (w_registry w) (w_store w)) w)"
proof (cases "gate_record c (store_get_record (w_store w) (ec_attempt_id c))")
  case (Inl e)
  then show ?thesis using read_fails [OF entered Inl] by (simp add: dispatch_attempt_def dispatched_world_leave)
next
  case (Inr a)
  let ?w1 = "move_to t (HasRecord req a) w"
  have r1: "dispatcher_step t w ?w1" by (rule read_record [OF entered Inr])
  note rec = Inr
  have f1: "w_pc ?w1 t = HasRecord req a" "w_registry ?w1 = w_registry w" "w_store ?w1 = w_store w"
    "leave_with t x ?w1 = leave_with t x w" "move_to t y ?w1 = move_to t y w" for x y by (simp_all add: move_to_def leave_with_def)
  show ?thesis
  proof (cases "gate_adapter req a (w_registry w)")
    case (Inl e)
    have "dispatcher_step t ?w1 (leave_with t (Inl e) w)" using resolve_fails [of ?w1 t req a e] Inl by (simp only: f1)
    with r1 show ?thesis using rec Inl by (simp add: dispatch_attempt_def dispatched_world_leave)
  next
    case (Inr ad)
    note adapter = Inr
    let ?w2 = "move_to t (HasAdapter req a ad) w" and ?status = "lifecycle_status (pr_lifecycle (w_registry w)) (ec_profile_id a)"
    have r2: "(dispatcher_step t)\<^sup>*\<^sup>* w ?w2" using r1 resolve [of ?w1 t req a ad] Inr by (simp add: f1)
    have f2: "w_pc ?w2 t = HasAdapter req a ad" "w_registry ?w2 = w_registry w" "w_store ?w2 = w_store w"
      "leave_with t x ?w2 = leave_with t x w" "move_to t y ?w2 = move_to t y w" for x y by (simp_all add: move_to_def leave_with_def)
    have ac: "a = c" using rec by (auto simp: gate_record_def split: option.splits if_splits)
    show ?thesis
    proof (cases "gate_admission a ad ?status")
      case (Inl e)
      have "dispatcher_step t ?w2 (leave_with t (Inl e) w)" using admit_fails [of ?w2 t req a ad e] Inl by (simp only: f2)
      with r2 show ?thesis using rec adapter Inl by (simp add: dispatch_attempt_def dispatched_world_leave)
    next
      case (Inr g)
      show ?thesis
      proof (cases g)
        case (Refuse out)
        have "dispatcher_step t ?w2 (leave_with t (Inr (refused_result out)) w)"
          using admit_refuse [of ?w2 t req a ad out] Inr Refuse by (simp only: f2)
        with r2 show ?thesis using rec adapter Inr Refuse by (simp add: dispatch_attempt_def dispatched_world_leave)
      next
        case (Block out)
        obtain b st where cas: "store_compare_and_set a AttemptState.PLANNED AttemptState.BLOCKED_PROFILE_DISABLED (w_store w) = (b, st)"
          by (metis surj_pair)
        let ?w3 = "move_to t (Blocking a out) w"
        have "dispatcher_step t ?w2 ?w3" using admit_block [of ?w2 t req a ad out] Inr Block by (simp only: f2)
        moreover have "dispatcher_step t ?w3 (leave_with t (if b then Inr (blocked_result out) else block_lost a) (w\<lparr>w_store := st\<rparr>))"
          using block [of ?w3 t a out b st] cas by (simp add: move_to_def leave_with_def)
        ultimately show ?thesis using r2 rec adapter Inr Block cas ac
          by (cases b) (simp_all add: dispatch_attempt_def dispatched_world_def leave_with_def block_lost_def)
      next
        case Proceed
        obtain b st where cas: "store_compare_and_set a AttemptState.PLANNED AttemptState.DISPATCHED (w_store w) = (b, st)"
          by (metis surj_pair)
        let ?w3 = "move_to t (Admitted req a ad) w"
        have s3: "dispatcher_step t ?w2 ?w3" using admit [of ?w2 t req a ad] Inr Proceed by (simp only: f2)
        show ?thesis
        proof (cases b)
          case False
          have "st = w_store w" using cas_False [of a _ _ "w_store w" st] cas False by simp
          moreover have "dispatcher_step t ?w3 (leave_with t (claim_lost a) w)"
            using lost_race [of ?w3 t req a ad st] cas False by (simp add: move_to_def leave_with_def)
          ultimately show ?thesis using r2 s3 rec adapter Inr Proceed cas ac False
            by (simp add: dispatch_attempt_def dispatched_world_leave claim_lost_def)
        next
          case True
          let ?w4 = "move_to t (Claimed req a ad) (w\<lparr>w_store := st\<rparr>)"
          have "dispatcher_step t ?w3 ?w4" using claim [of ?w3 t req a ad st] cas True by (simp add: move_to_def)
          moreover have "dispatcher_step t ?w4 (dispatched_world t (send_result ad req, st, [ec_attempt_id a]) w)"
          proof -
            have "leave_with t (send_result ad req) (?w4\<lparr>w_sends := ec_attempt_id a # w_sends ?w4\<rparr>) =
                dispatched_world t (send_result ad req, st, [ec_attempt_id a]) w"
              by (rule world.equality) (simp_all add: leave_with_def dispatched_world_def move_to_def)
            with send [of ?w4 t req a ad] show ?thesis by (simp add: move_to_def)
          qed
          moreover have "dispatch_attempt req c (w_registry w) (w_store w) = (send_result ad req, st, [ec_attempt_id a])"
            using rec adapter Inr Proceed cas ac True by (simp add: dispatch_attempt_def send_result_def split: sum.splits)
          ultimately show ?thesis using r2 s3 by simp
        qed
      qed
    qed
  qed
qed

text \<open>A thread has at most one next step, and none when it is idle.\<close>

lemma dispatcher_step_det: "dispatcher_step t w w1 \<Longrightarrow> dispatcher_step t w w2 \<Longrightarrow> w1 = w2"
  by (erule dispatcher_step.cases; erule dispatcher_step.cases; simp)

lemma dispatcher_step_busy: "dispatcher_step t w w' \<Longrightarrow> w_pc w t \<noteq> Idle"
  by (erule dispatcher_step.cases) simp_all

lemma steps_end_unique:
  assumes "(dispatcher_step t)\<^sup>*\<^sup>* w v" and "w_pc v t = Idle" and "(dispatcher_step t)\<^sup>*\<^sup>* w u" and "w_pc u t = Idle"
  shows "u = v"
  using assms
proof (induction rule: converse_rtranclp_induct)
  case base
  from base(2) show ?case by (cases rule: converse_rtranclpE) (use base(1) dispatcher_step_busy in blast)+
next
  case (step w w')
  from step.prems(2) step.hyps(1) have "(dispatcher_step t)\<^sup>*\<^sup>* w' u"
    by (cases rule: converse_rtranclpE) (use step.prems(3) dispatcher_step_busy dispatcher_step_det step.hyps(1) in blast)+
  with step show ?case by blast
qed

section \<open>Properties\<close>

text \<open>
  C1. One Attempt makes at most one external call. In every reachable state of any number of
  concurrent dispatchers, with Attempts planned and the registry changed arbitrarily in between,
  each attempt id occurs at most once among the external sends, and an attempt that was sent is
  recorded DISPATCHED.
\<close>

theorem dispatch_at_most_one_call:
  assumes "reachable w"
  shows "count_list (w_sends w) a \<le> 1 \<and>
    (a \<in> set (w_sends w) \<longrightarrow>
       (\<exists>r. w_store w a = Some r \<and> at_state r = AttemptState.DISPATCHED))"
proof -
  from reachable_world_inv [OF assms] have "distinct (w_sends w)"
    and "a \<in> set (w_sends w) \<longrightarrow> dispatched (w_store w) a"
    by (auto simp: world_inv_def)
  then show ?thesis
    by (auto simp: dispatched_def count_list_distinct_le)
qed

text \<open>
  C2. The sequential \<open>dispatch_attempt\<close> is exactly what the steps of one caller do when nobody interferes: from
  any state in which a thread has entered a call, its steps end, and the states in which they can end are just
  the one with the store, the external sends and the result or exception of \<open>dispatch_attempt\<close>. The
  registry stays as it is throughout, so every gate of the function is a gate of the steps.
\<close>

theorem dispatch_attempt_refines_steps:
  assumes "w_pc w t = Entered req c"
  shows "((dispatcher_step t)\<^sup>*\<^sup>* w w' \<and> w_pc w' t = Idle) \<longleftrightarrow>
    w' = dispatched_world t (dispatch_attempt req c (w_registry w) (w_store w)) w"
proof -
  have "w_pc (dispatched_world t r w) t = Idle" for r by (simp add: dispatched_world_def split: prod.split)
  with dispatch_steps [OF assms] steps_end_unique show ?thesis by blast
qed

text \<open>
  What \<open>dispatch_attempt\<close> sends and writes, on every branch. It calls the Adapter exactly when
  the stored record is PLANNED under the caller's contract, the request names the contract's job
  and application contract, the registered Adapter carries the same six version fields and
  supports the contract, and the current lifecycle status is ACTIVE; then the record becomes
  DISPATCHED whether or not the Adapter raises. Otherwise nothing is sent, and the store changes
  only by blocking an Attempt whose bound profile is disabled or quarantined.
\<close>

theorem dispatch_attempt_effects:
  "snd (dispatch_attempt req c registry st) =
     (if dispatch_allowed req c registry st
      then (st(ec_attempt_id c \<mapsto> \<lparr>at_contract = c, at_state = AttemptState.DISPATCHED\<rparr>),
            [ec_attempt_id c])
      else if dispatch_blocked req c registry st
      then (st(ec_attempt_id c \<mapsto>
              \<lparr>at_contract = c, at_state = AttemptState.BLOCKED_PROFILE_DISABLED\<rparr>), [])
      else (st, []))"
proof (cases "\<exists>ad. gate_record c (store_get_record st (ec_attempt_id c)) = Inr c \<and>
                  gate_adapter req c registry = Inr ad")
  case False
  then have "snd (dispatch_attempt req c registry st) = (st, [])"
    by (auto simp: dispatch_attempt_def gate_record_ok split: sum.splits)
  moreover from False have "\<not> dispatch_allowed req c registry st"
    "\<not> dispatch_blocked req c registry st"
    by (auto simp: gate_ok dispatch_allowed_def dispatch_blocked_def store_get_record_def
             split: option.splits)
  ultimately show ?thesis by simp
next
  case True
  then obtain ad where gates: "gate_record c (store_get_record st (ec_attempt_id c)) = Inr c"
    "gate_adapter req c registry = Inr ad" by blast
  let ?status = "lifecycle_status (pr_lifecycle registry) (ec_profile_id c)"
  have st: "st (ec_attempt_id c) = Some \<lparr>at_contract = c, at_state = AttemptState.PLANNED\<rparr>"
    using gates(1) by (simp add: gate_record_ok store_get_record_def)
  then have cas: "store_compare_and_set c AttemptState.PLANNED n st =
      (True, st(ec_attempt_id c \<mapsto> \<lparr>at_contract = c, at_state = n\<rparr>))" for n
    by (simp add: cas_True)
  have allowed: "dispatch_allowed req c registry st \<longleftrightarrow> gate_admission c ad ?status = Inr Proceed"
    using gates st by (auto simp: dispatch_allowed_def gate_ok lifecycle_status_def split: option.splits)
  have blocked: "dispatch_blocked req c registry st \<longleftrightarrow>
      (\<exists>out. gate_admission c ad ?status = Inr (Block out))"
    using gates st by (simp add: dispatch_blocked_def gate_ok gate_admission_Block withdrawn_def)
  show ?thesis
    unfolding dispatch_attempt_def allowed blocked
    using gates by (auto simp: cas split: sum.splits admission_gate.splits)
qed

text \<open>A concrete run in which the Provider is called once, used by the witnesses.\<close>

definition demo_adapter :: ProviderAdapter where
  "demo_adapter = \<lparr>pa_ident = 1, pa_profile = demo_profile,
     pa_execute = (\<lambda>_. Inr \<lparr>po_kind = ProviderOutcomeKind.SUCCESS, po_provider_request_id = Some ''r1'',
       po_detail = ''finish'', po_safe_evidence = []\<rparr>)\<rparr>"

definition demo_request :: ApplicationRequest where
  "demo_request = \<lparr>ar_job_id = ''j1'', ar_tenant_id = ''t1'',
     ar_application_contract = ''research_claims.v1'', ar_task_type = ''research'',
     ar_max_output_tokens = 100, ar_correlation_id = ''c1'', ar_prompt = []\<rparr>"

definition demo_world :: world where
  "demo_world = \<lparr>w_store = Map.empty,
     w_registry = \<lparr>pr_by_profile = [''p1'' \<mapsto> demo_adapter],
                   pr_lifecycle = [''p1'' \<mapsto> ProfileStatus.ACTIVE]\<rparr>,
     w_pc = (\<lambda>_. Idle), w_sends = [], w_results = []\<rparr>"

definition demo_planned :: world where
  "demo_planned = demo_world\<lparr>w_store :=
     [''a1'' \<mapsto> \<lparr>at_contract = demo_contract, at_state = AttemptState.PLANNED\<rparr>]\<rparr>"

lemmas demo_dispatch_defs = demo_adapter_def demo_request_def demo_world_def demo_planned_def
  demo_contract_def demo_profile_def contract_plan_def

lemma demo_planned_reachable: "reachable demo_planned"
proof (rule reachable.step [OF reachable.start])
  show "world_step demo_world demo_planned"
    unfolding demo_planned_def
    by (rule world_step.plan [of demo_contract])
       (simp add: store_plan_def demo_dispatch_defs)
qed (simp_all add: demo_world_def)

lemma demo_dispatch:
  "snd (dispatch_attempt demo_request demo_contract (w_registry demo_planned) (w_store demo_planned)) =
     ([''a1'' \<mapsto> \<lparr>at_contract = demo_contract, at_state = AttemptState.DISPATCHED\<rparr>], [''a1''])"
  by (simp add: dispatch_attempt_def gate_record_def gate_adapter_def gate_admission_def
        store_get_record_def resolve_bound_attempt_def validate_attempt_binding_def BINDING_FIELDS_def
        admit_capability_def supports_def lifecycle_status_def store_compare_and_set_def
        demo_dispatch_defs)

lemma reachable_steps: "(dispatcher_step t)\<^sup>*\<^sup>* w w' \<Longrightarrow> reachable w \<Longrightarrow> reachable w'"
  by (induction rule: rtranclp_induct) (auto intro: reachable.step world_step.thread)

definition demo_entered :: world where
  "demo_entered = move_to 0 (Entered demo_request demo_contract) demo_planned"

definition demo_sent :: world where
  "demo_sent = dispatched_world 0 (dispatch_attempt demo_request demo_contract (w_registry demo_entered) (w_store demo_entered)) demo_entered"

lemma demo_entered_fields:
  "w_pc demo_entered 0 = Entered demo_request demo_contract" "w_registry demo_entered = w_registry demo_planned"
  "w_store demo_entered = w_store demo_planned" "w_sends demo_entered = []"
  by (simp_all add: demo_entered_def move_to_def demo_planned_def demo_world_def)

lemma demo_sent_fields: "w_sends demo_sent = [''a1'']" "w_pc demo_sent 0 = Idle"
  "w_store demo_sent = [''a1'' \<mapsto> \<lparr>at_contract = demo_contract, at_state = AttemptState.DISPATCHED\<rparr>]"
proof -
  obtain r st sends where d: "dispatch_attempt demo_request demo_contract (w_registry demo_planned) (w_store demo_planned) = (r, st, sends)"
    by (metis prod_cases3)
  with demo_dispatch have "st = [''a1'' \<mapsto> \<lparr>at_contract = demo_contract, at_state = AttemptState.DISPATCHED\<rparr>]" "sends = [''a1'']"
    by simp_all
  with d show "w_sends demo_sent = [''a1'']" "w_pc demo_sent 0 = Idle"
    "w_store demo_sent = [''a1'' \<mapsto> \<lparr>at_contract = demo_contract, at_state = AttemptState.DISPATCHED\<rparr>]"
    by (simp_all add: demo_sent_def dispatched_world_def demo_entered_fields)
qed

lemma demo_sent_reachable: "reachable demo_sent"
proof -
  have "reachable demo_entered"
    unfolding demo_entered_def
    by (rule reachable.step [OF demo_planned_reachable world_step.enter]) (simp add: demo_planned_def demo_world_def)
  then show ?thesis
    using reachable_steps dispatch_steps [OF demo_entered_fields(1)] unfolding demo_sent_def by blast
qed

theorem dispatch_at_most_one_call_witness:
  "reachable demo_sent \<and> w_sends demo_sent = [''a1''] \<and> count_list (w_sends demo_sent) ''a1'' \<le> 1 \<and>
   (\<exists>r. w_store demo_sent ''a1'' = Some r \<and> at_state r = AttemptState.DISPATCHED)"
  using demo_sent_reachable demo_sent_fields(1) dispatch_at_most_one_call [OF demo_sent_reachable, of "''a1''"] by simp

theorem dispatch_attempt_refines_steps_witness:
  "(dispatcher_step 0)\<^sup>*\<^sup>* demo_entered demo_sent \<and> w_sends demo_sent = [''a1'']"
  using dispatch_attempt_refines_steps [OF demo_entered_fields(1), of demo_sent] demo_sent_fields(1) by (simp add: demo_sent_def)

end
