(* ===== verification/Routing_Policy.thy ===== *)
theory Routing_Policy
  imports Provider_Contract
begin

text \<open>
  \<^verbatim>\<open>src/projects/ai-agent/src/routing_policy.py\<close>: eligibility-first route selection. Every candidate
  is checked against the hard gates (status, contract, latency and pricing evidence) before any
  preference is looked at; the client's selector may only reorder eligible candidates.
\<close>

section \<open>Data\<close>

record LatencyEvidence =
  la_profile_id :: string
  la_boundary :: string
  la_p95_ms :: int
  la_observed_at_ms :: int
  la_max_age_ms :: int

record PricingEvidence =
  pe_profile_id :: string
  pe_revision :: string
  pe_estimated_units :: int
  pe_observed_at_ms :: int
  pe_max_age_ms :: int

record Candidate =
  ca_profile :: CapabilityProfile
  ca_current_status :: ProfileStatus
  ca_latency :: LatencyEvidence
  ca_pricing :: PricingEvidence

record RoutingPolicy =
  rp_policy_id :: string
  rp_revision :: string
  rp_preference :: "string list"
  rp_max_provider_p95_ms :: int
  rp_max_estimated_units :: int

record CandidateDecision =
  cd_profile_id :: string
  cd_eligible :: bool
  cd_reasons :: "string list"

record RoutingDecision =
  rd_job_id :: string
  rd_attempt_id :: string
  rd_policy_id :: string
  rd_policy_revision :: string
  rd_selected_profile_id :: "string option"
  rd_pricing_revision :: "string option"
  rd_candidate_decisions :: "CandidateDecision list"
  rd_decided_at_ms :: int

section \<open>Operations\<close>

definition latency_reasons :: "Candidate \<Rightarrow> RoutingPolicy \<Rightarrow> int \<Rightarrow> string list" where
  "latency_reasons ca pol now_ms =
     (let l = ca_latency ca in
      if la_profile_id l \<noteq> cp_profile_id (ca_profile ca) then [''LATENCY_IDENTITY_MISMATCH'']
      else if la_p95_ms l < 0 \<or> la_max_age_ms l < 0 then [''LATENCY_EVIDENCE_INVALID'']
      else if la_observed_at_ms l > now_ms then [''LATENCY_EVIDENCE_FROM_FUTURE'']
      else if now_ms - la_observed_at_ms l > la_max_age_ms l then [''LATENCY_STALE'']
      else if la_boundary l \<noteq> ''PROVIDER_COMPLETE'' then [''LATENCY_BOUNDARY_MISMATCH'']
      else if la_p95_ms l > rp_max_provider_p95_ms pol then [''LATENCY_BUDGET_EXCEEDED'']
      else [])"

definition pricing_reasons :: "Candidate \<Rightarrow> RoutingPolicy \<Rightarrow> int \<Rightarrow> string list" where
  "pricing_reasons ca pol now_ms =
     (let p = ca_pricing ca in
      if pe_profile_id p \<noteq> cp_profile_id (ca_profile ca) then [''PRICING_IDENTITY_MISMATCH'']
      else if pe_estimated_units p < 0 \<or> pe_max_age_ms p < 0 then [''PRICING_EVIDENCE_INVALID'']
      else if pe_observed_at_ms p > now_ms then [''PRICING_EVIDENCE_FROM_FUTURE'']
      else if now_ms - pe_observed_at_ms p > pe_max_age_ms p then [''PRICING_STALE'']
      else if pe_estimated_units p > rp_max_estimated_units pol then [''COST_BUDGET_EXCEEDED'']
      else [])"

definition evaluate_candidate ::
    "Candidate \<Rightarrow> string \<Rightarrow> RoutingPolicy \<Rightarrow> int \<Rightarrow> CandidateDecision" where
  "evaluate_candidate ca application_contract pol now_ms =
     (let reasons =
        (if ca_current_status ca \<noteq> ProfileStatus.ACTIVE then [''PROFILE_NOT_ACTIVE''] else []) @
        (if \<not> supports (ca_profile ca) application_contract then [''CONTRACT_INCOMPATIBLE''] else []) @
        latency_reasons ca pol now_ms @ pricing_reasons ca pol now_ms
      in \<lparr>cd_profile_id = cp_profile_id (ca_profile ca), cd_eligible = (reasons = []),
          cd_reasons = reasons\<rparr>)"

text \<open>The loop that builds \<open>by_id\<close>, an insertion-ordered dictionary without duplicates.\<close>

fun index_candidates :: "(string \<times> Candidate) list \<Rightarrow> Candidate list \<Rightarrow> (string \<times> Candidate) list res" where
  "index_candidates by_id [] = Inr by_id"
| "index_candidates by_id (ca # cas) =
     (let profile_id = cp_profile_id (ca_profile ca) in
      if profile_id \<in> fst ` set by_id
      then Inl (ValueError (''duplicate candidate profile_id: '' @ profile_id))
      else index_candidates (by_id @ [(profile_id, ca)]) cas)"

definition preference_order ::
    "RoutingPolicy \<Rightarrow> string set \<Rightarrow> string option \<Rightarrow> string list" where
  "preference_order pol eligible client_selector =
     (case client_selector of
        Some s \<Rightarrow> if s \<in> eligible then s # filter (\<lambda>i. i \<noteq> s) (rp_preference pol) else rp_preference pol
      | None \<Rightarrow> rp_preference pol)"

definition route ::
    "string \<Rightarrow> string \<Rightarrow> string \<Rightarrow> RoutingPolicy \<Rightarrow> Candidate list \<Rightarrow> int \<Rightarrow> string option
      \<Rightarrow> (RoutingDecision \<times> AttemptExecutionContract option) res" where
  "route job_id attempt_id application_contract pol candidates now_ms client_selector =
     bind_res (index_candidates [] candidates) (\<lambda>by_id.
       let decisions =
             map (\<lambda>(_, ca). evaluate_candidate ca application_contract pol now_ms) by_id;
           eligible = set (map cd_profile_id (filter cd_eligible decisions));
           order = preference_order pol eligible client_selector;
           selected_id = List.find (\<lambda>i. i \<in> eligible) order;
           selected = (case selected_id of
                         Some i \<Rightarrow> if truthy i then map_of by_id i else None
                       | None \<Rightarrow> None);
           decision = \<lparr>rd_job_id = job_id, rd_attempt_id = attempt_id,
             rd_policy_id = rp_policy_id pol, rd_policy_revision = rp_revision pol,
             rd_selected_profile_id = selected_id,
             rd_pricing_revision = map_option (\<lambda>ca. pe_revision (ca_pricing ca)) selected,
             rd_candidate_decisions = decisions, rd_decided_at_ms = now_ms\<rparr>
       in Inr (decision,
               map_option (\<lambda>ca. contract_plan attempt_id job_id (ca_profile ca) application_contract)
                 selected))"

section \<open>Eligibility\<close>

text \<open>
  The specification of an eligible candidate, independent of the order in which
  \<open>evaluate_candidate\<close> looks at the evidence.
\<close>

definition fresh :: "int \<Rightarrow> int \<Rightarrow> int \<Rightarrow> bool" where
  "fresh observed_at max_age now_ms \<longleftrightarrow> observed_at \<le> now_ms \<and> now_ms \<le> observed_at + max_age"

definition candidate_ok :: "Candidate \<Rightarrow> string \<Rightarrow> RoutingPolicy \<Rightarrow> int \<Rightarrow> bool" where
  "candidate_ok ca ac pol now_ms \<longleftrightarrow>
     ca_current_status ca = ProfileStatus.ACTIVE \<and> ac \<in> cp_supported_contracts (ca_profile ca) \<and>
     (let l = ca_latency ca in
        la_profile_id l = cp_profile_id (ca_profile ca) \<and> la_boundary l = ''PROVIDER_COMPLETE'' \<and>
        0 \<le> la_p95_ms l \<and> la_p95_ms l \<le> rp_max_provider_p95_ms pol \<and>
        fresh (la_observed_at_ms l) (la_max_age_ms l) now_ms) \<and>
     (let p = ca_pricing ca in
        pe_profile_id p = cp_profile_id (ca_profile ca) \<and>
        0 \<le> pe_estimated_units p \<and> pe_estimated_units p \<le> rp_max_estimated_units pol \<and>
        fresh (pe_observed_at_ms p) (pe_max_age_ms p) now_ms)"

lemma evaluate_candidate_profile [simp]:
  "cd_profile_id (evaluate_candidate ca ac pol now_ms) = cp_profile_id (ca_profile ca)"
  by (simp add: evaluate_candidate_def Let_def)

lemma latency_reasons_Nil:
  "latency_reasons ca pol now_ms = [] \<longleftrightarrow>
     la_profile_id (ca_latency ca) = cp_profile_id (ca_profile ca) \<and>
     la_boundary (ca_latency ca) = ''PROVIDER_COMPLETE'' \<and> 0 \<le> la_p95_ms (ca_latency ca) \<and>
     la_p95_ms (ca_latency ca) \<le> rp_max_provider_p95_ms pol \<and>
     fresh (la_observed_at_ms (ca_latency ca)) (la_max_age_ms (ca_latency ca)) now_ms"
  by (auto simp: latency_reasons_def Let_def fresh_def)

lemma pricing_reasons_Nil:
  "pricing_reasons ca pol now_ms = [] \<longleftrightarrow>
     pe_profile_id (ca_pricing ca) = cp_profile_id (ca_profile ca) \<and>
     0 \<le> pe_estimated_units (ca_pricing ca) \<and>
     pe_estimated_units (ca_pricing ca) \<le> rp_max_estimated_units pol \<and>
     fresh (pe_observed_at_ms (ca_pricing ca)) (pe_max_age_ms (ca_pricing ca)) now_ms"
  by (auto simp: pricing_reasons_def Let_def fresh_def)

lemma evaluate_candidate_eligible:
  "cd_eligible (evaluate_candidate ca ac pol now_ms) \<longleftrightarrow> candidate_ok ca ac pol now_ms"
  unfolding evaluate_candidate_def candidate_ok_def Let_def
  by (simp add: latency_reasons_Nil pricing_reasons_Nil supports_def)

section \<open>Indexing\<close>

lemma index_candidates_ok:
  "index_candidates by_id cas = Inr ix \<Longrightarrow>
     ix = by_id @ map (\<lambda>ca. (cp_profile_id (ca_profile ca), ca)) cas"
proof (induction by_id cas rule: index_candidates.induct)
  case (2 by_id ca cas)
  then show ?case by (auto simp: Let_def split: if_splits)
qed simp

lemma index_candidates_distinct:
  "index_candidates by_id cas = Inr ix \<Longrightarrow> distinct (map fst by_id) \<Longrightarrow> distinct (map fst ix)"
proof (induction by_id cas rule: index_candidates.induct)
  case (2 by_id ca cas)
  then show ?case by (auto simp: Let_def split: if_splits)
qed simp

lemma index_candidates_raises:
  "\<not> is_ok (index_candidates by_id cas) \<longleftrightarrow>
     \<not> (distinct (map (\<lambda>ca. cp_profile_id (ca_profile ca)) cas) \<and>
        fst ` set by_id \<inter> (\<lambda>ca. cp_profile_id (ca_profile ca)) ` set cas = {})"
proof (induction by_id cas rule: index_candidates.induct)
  case (2 by_id ca cas)
  then show ?case by (auto simp: Let_def)
qed simp

definition eligible_ids :: "Candidate list \<Rightarrow> string \<Rightarrow> RoutingPolicy \<Rightarrow> int \<Rightarrow> string set" where
  "eligible_ids cas ac pol now_ms =
     {cp_profile_id (ca_profile ca) | ca. ca \<in> set cas \<and> candidate_ok ca ac pol now_ms}"

lemma route_eligible_set:
  assumes "index_candidates [] cas = Inr ix"
  shows "set (map cd_profile_id (filter cd_eligible
           (map (\<lambda>(_, ca). evaluate_candidate ca ac pol now_ms) ix))) =
         eligible_ids cas ac pol now_ms"
  using index_candidates_ok [OF assms]
  by (auto simp: eligible_ids_def evaluate_candidate_eligible image_iff)
     (metis evaluate_candidate_eligible evaluate_candidate_profile)

lemma eligible_lookup:
  assumes ix: "index_candidates [] cas = Inr ix" and "i \<in> eligible_ids cas ac pol now_ms"
  obtains ca where "ca \<in> set cas" "candidate_ok ca ac pol now_ms" "i = cp_profile_id (ca_profile ca)"
    "map_of ix i = Some ca"
proof -
  from assms(2) obtain ca where ca: "ca \<in> set cas" "candidate_ok ca ac pol now_ms"
    "i = cp_profile_id (ca_profile ca)" by (auto simp: eligible_ids_def)
  have "(i, ca) \<in> set ix" using ca index_candidates_ok [OF ix] by auto
  with index_candidates_distinct [OF ix] have "map_of ix i = Some ca" by simp
  with ca show thesis by (rule that)
qed

lemma find_preference_order:
  "List.find (\<lambda>i. i \<in> E) (preference_order pol E sel) = None \<longleftrightarrow>
     set (rp_preference pol) \<inter> E = {} \<and> (\<forall>s. sel = Some s \<longrightarrow> s \<notin> E)"
  "List.find (\<lambda>i. i \<in> E) (preference_order pol E sel) = Some i \<Longrightarrow>
     sel = Some i \<or> (\<exists>ys zs. rp_preference pol = ys @ i # zs \<and> set ys \<inter> E = {})"
  "s \<in> E \<Longrightarrow> List.find (\<lambda>i. i \<in> E) (preference_order pol E (Some s)) = Some s"
proof -
  show "List.find (\<lambda>i. i \<in> E) (preference_order pol E sel) = None \<longleftrightarrow>
     set (rp_preference pol) \<inter> E = {} \<and> (\<forall>s. sel = Some s \<longrightarrow> s \<notin> E)"
    by (auto simp: preference_order_def find_None_iff split: option.splits)
  show "s \<in> E \<Longrightarrow> List.find (\<lambda>i. i \<in> E) (preference_order pol E (Some s)) = Some s"
    by (simp add: preference_order_def)
  have split: "\<exists>ys zs. xs = ys @ i # zs \<and> set ys \<inter> E = {}"
    if "List.find (\<lambda>i. i \<in> E) xs = Some i" for xs i
    using that by (induction xs) (auto split: if_splits intro: exI [of _ "[]"],
                                  metis append_Cons disjoint_insert(1) inf_commute list.set(2))
  show "List.find (\<lambda>i. i \<in> E) (preference_order pol E sel) = Some i \<Longrightarrow>
     sel = Some i \<or> (\<exists>ys zs. rp_preference pol = ys @ i # zs \<and> set ys \<inter> E = {})"
    using split by (auto simp: preference_order_def split: option.splits if_splits)
qed

section \<open>Properties\<close>

text \<open>
  Eligibility comes before preference. A binding is made exactly when some profile of the
  policy's preference, or the client's selector, names an eligible candidate; the bound profile
  is that of an eligible candidate (active, contract supported, latency and pricing evidence of
  its own identity, fresh and within the policy's limits), it is the client's selector or the
  first eligible entry of the preference, an eligible selector always wins, and the decision
  records the selected profile and its pricing revision. (Profile ids are non-empty.)
\<close>

theorem route_spec:
  assumes r: "route job_id attempt_id ac pol cas now_ms sel = Inr (d, b)"
    and ne: "\<forall>ca \<in> set cas. cp_profile_id (ca_profile ca) \<noteq> []"
  shows "(b = None \<longleftrightarrow> set (rp_preference pol) \<inter> eligible_ids cas ac pol now_ms = {} \<and>
            (\<forall>s. sel = Some s \<longrightarrow> s \<notin> eligible_ids cas ac pol now_ms)) \<and>
    (\<forall>s. sel = Some s \<and> s \<in> eligible_ids cas ac pol now_ms \<longrightarrow> rd_selected_profile_id d = Some s) \<and>
    (\<forall>c. b = Some c \<longrightarrow> (\<exists>ca \<in> set cas. candidate_ok ca ac pol now_ms \<and>
       c = contract_plan attempt_id job_id (ca_profile ca) ac \<and>
       rd_selected_profile_id d = Some (cp_profile_id (ca_profile ca)) \<and>
       rd_pricing_revision d = Some (pe_revision (ca_pricing ca)) \<and>
       (sel = Some (cp_profile_id (ca_profile ca)) \<or>
        (\<exists>ys zs. rp_preference pol = ys @ cp_profile_id (ca_profile ca) # zs \<and>
                 set ys \<inter> eligible_ids cas ac pol now_ms = {}))))"
proof -
  let ?E = "eligible_ids cas ac pol now_ms"
  let ?sel = "List.find (\<lambda>i. i \<in> ?E) (preference_order pol ?E sel)"
  from r obtain ix where ix: "index_candidates [] cas = Inr ix"
    by (auto simp: route_def bind_res_eq_Inr)
  have d: "rd_selected_profile_id d = ?sel"
    and pr: "rd_pricing_revision d = map_option (\<lambda>ca. pe_revision (ca_pricing ca))
        (case ?sel of Some i \<Rightarrow> if truthy i then map_of ix i else None | None \<Rightarrow> None)"
    and b: "b = map_option (\<lambda>ca. contract_plan attempt_id job_id (ca_profile ca) ac)
        (case ?sel of Some i \<Rightarrow> if truthy i then map_of ix i else None | None \<Rightarrow> None)"
    using r unfolding route_def ix bind_res_simps Let_def route_eligible_set [OF ix] by auto
  show ?thesis
  proof (cases ?sel)
    case None
    with b d find_preference_order(1) [of ?E pol sel] show ?thesis by auto
  next
    case (Some i)
    then have "i \<in> ?E" by (auto dest: find_SomeD)
    then obtain ca where ca: "ca \<in> set cas" "candidate_ok ca ac pol now_ms"
      "i = cp_profile_id (ca_profile ca)" "map_of ix i = Some ca"
      using eligible_lookup [OF ix] by metis
    have "truthy i" using ne ca by (auto simp: truthy_def)
    with Some b pr ca have sel: "b = Some (contract_plan attempt_id job_id (ca_profile ca) ac)"
      "rd_pricing_revision d = Some (pe_revision (ca_pricing ca))" by auto
    have first: "sel = Some i \<or> (\<exists>ys zs. rp_preference pol = ys @ i # zs \<and> set ys \<inter> ?E = {})"
      using find_preference_order(2) [OF Some] .
    have none: "\<not> (set (rp_preference pol) \<inter> ?E = {} \<and> (\<forall>s. sel = Some s \<longrightarrow> s \<notin> ?E))"
      using find_preference_order(1) [of ?E pol sel] Some by auto
    have wins: "\<forall>s. sel = Some s \<and> s \<in> ?E \<longrightarrow> rd_selected_profile_id d = Some s"
      using d find_preference_order(3) by auto
    have bound: "\<exists>ca \<in> set cas. candidate_ok ca ac pol now_ms \<and>
       c = contract_plan attempt_id job_id (ca_profile ca) ac \<and>
       rd_selected_profile_id d = Some (cp_profile_id (ca_profile ca)) \<and>
       rd_pricing_revision d = Some (pe_revision (ca_pricing ca)) \<and>
       (sel = Some (cp_profile_id (ca_profile ca)) \<or>
        (\<exists>ys zs. rp_preference pol = ys @ cp_profile_id (ca_profile ca) # zs \<and> set ys \<inter> ?E = {}))"
      if "b = Some c" for c
      by (rule bexI [of _ ca]) (use that sel d Some ca first in auto)
    show ?thesis
    proof (intro conjI allI impI)
      show "b = None \<longleftrightarrow> set (rp_preference pol) \<inter> ?E = {} \<and> (\<forall>s. sel = Some s \<longrightarrow> s \<notin> ?E)"
        using sel(1) none by simp
    qed (use wins bound in blast)+
  qed
qed

text \<open>A concrete candidate of the profile used in the other examples, and a policy that prefers it.\<close>

definition demo_candidate :: Candidate where
  "demo_candidate =
     \<lparr>ca_profile = demo_profile, ca_current_status = ProfileStatus.ACTIVE,
      ca_latency = \<lparr>la_profile_id = ''p1'', la_boundary = ''PROVIDER_COMPLETE'', la_p95_ms = 80,
        la_observed_at_ms = 90, la_max_age_ms = 20\<rparr>,
      ca_pricing = \<lparr>pe_profile_id = ''p1'', pe_revision = ''r7'', pe_estimated_units = 5,
        pe_observed_at_ms = 95, pe_max_age_ms = 20\<rparr>\<rparr>"

definition demo_policy :: RoutingPolicy where
  "demo_policy = \<lparr>rp_policy_id = ''pol'', rp_revision = ''1'', rp_preference = [''p0'', ''p1''],
     rp_max_provider_p95_ms = 100, rp_max_estimated_units = 10\<rparr>"

theorem route_spec_witness:
  "\<exists>d c. route ''j1'' ''a1'' ''research_claims.v1'' demo_policy [demo_candidate] 100 None = Inr (d, Some c) \<and>
     candidate_ok demo_candidate ''research_claims.v1'' demo_policy 100 \<and>
     c = contract_plan ''a1'' ''j1'' demo_profile ''research_claims.v1'' \<and>
     rd_selected_profile_id d = Some ''p1'' \<and> rd_pricing_revision d = Some ''r7''"
proof -
  have "\<exists>d c. route ''j1'' ''a1'' ''research_claims.v1'' demo_policy [demo_candidate] 100 None = Inr (d, Some c)"
    by (simp add: route_def Let_def preference_order_def evaluate_candidate_def latency_reasons_def
          pricing_reasons_def supports_def truthy_def demo_policy_def demo_candidate_def demo_profile_def
          del: set_filter set_map)
  then obtain d c where r:
    "route ''j1'' ''a1'' ''research_claims.v1'' demo_policy [demo_candidate] 100 None = Inr (d, Some c)"
    by blast
  have "\<forall>ca \<in> set [demo_candidate]. cp_profile_id (ca_profile ca) \<noteq> []"
    by (simp add: demo_candidate_def demo_profile_def)
  from route_spec [OF r this] r show ?thesis
    by (auto simp: demo_candidate_def demo_profile_def)
qed

end
