(* ===== verification/Recovery_Cost.thy ===== *)
theory Recovery_Cost
  imports Provider_Contract
begin

text \<open>
  \<^verbatim>\<open>src/projects/ai-agent/src/recovery_cost.py\<close>: classified recovery of a failed Attempt and the
  cost ledger of one Attempt (reservation, unknown usage, settlement), batch cost allocation and
  the incident closure gate. \<open>RecoveryAction\<close> of this file is \<open>FallbackAction\<close> here, because three
  modules of the program declare an enum of that name.
\<close>

section \<open>Classified recovery\<close>

datatype ExecutionCertainty76 = DEFINITELY_NOT_ACCEPTED | TIMEOUT_UNKNOWN

datatype FailureClass =
  RATE_LIMITED | TRANSPORT_BEFORE_DISPATCH | OUTPUT_INVALID | UNAUTHORIZED
| CONTRACT_INCOMPATIBLE | AUTH_OR_CONFIGURATION

datatype FallbackAction =
  FALLBACK_NEW_ATTEMPT | RECONCILE | REJECT | DISABLE_PATH | FALLBACK_EXHAUSTED

record FallbackPolicy =
  fp_revision :: string
  fp_max_attempts :: int
  fp_budget_units :: int
  fp_allowed :: "FailureClass list"

record RecoveryDecision =
  rv_source_attempt_id :: string
  rv_action :: FallbackAction
  rv_reason :: string
  rv_policy_revision :: string
  rv_new_attempt_id :: "string option"
  rv_target_profile_id :: "string option"

definition recovery_decision ::
    "AttemptExecutionContract \<Rightarrow> FallbackAction \<Rightarrow> string \<Rightarrow> FallbackPolicy \<Rightarrow> RecoveryDecision" where
  "recovery_decision source act reason pol =
     \<lparr>rv_source_attempt_id = ec_attempt_id source, rv_action = act, rv_reason = reason,
      rv_policy_revision = fp_revision pol, rv_new_attempt_id = None, rv_target_profile_id = None\<rparr>"

definition target_eligible ::
    "AttemptExecutionContract \<Rightarrow> CapabilityProfile option \<Rightarrow> ProfileStatus \<Rightarrow> bool" where
  "target_eligible source target status \<longleftrightarrow>
     (case target of
        None \<Rightarrow> False
      | Some p \<Rightarrow> status = ProfileStatus.ACTIVE \<and> supports p (ec_application_contract source))"

definition plan_recovery ::
    "AttemptExecutionContract \<Rightarrow> FailureClass \<Rightarrow> ExecutionCertainty76 \<Rightarrow> FallbackPolicy
      \<Rightarrow> int \<Rightarrow> int \<Rightarrow> int \<Rightarrow> int \<Rightarrow> CapabilityProfile option \<Rightarrow> ProfileStatus \<Rightarrow> string
      \<Rightarrow> (RecoveryDecision \<times> AttemptExecutionContract option) res" where
  "plan_recovery source failure certainty pol attempt_count remaining_deadline_ms
     job_cost_and_reservations target_estimated_cost target target_current_status new_attempt_id =
     (if certainty = ExecutionCertainty76.TIMEOUT_UNKNOWN
      then Inr (recovery_decision source FallbackAction.RECONCILE ''EXECUTION_UNKNOWN'' pol, None)
      else if failure \<in> {FailureClass.UNAUTHORIZED, FailureClass.CONTRACT_INCOMPATIBLE}
      then Inr (recovery_decision source FallbackAction.REJECT ''BOUNDARY_REJECTION'' pol, None)
      else if failure = FailureClass.AUTH_OR_CONFIGURATION
      then Inr (recovery_decision source FallbackAction.DISABLE_PATH ''REPAIR_CONFIGURATION'' pol, None)
      else if failure \<notin> set (fp_allowed pol)
        \<or> \<not> target_eligible source target target_current_status
        \<or> attempt_count \<ge> fp_max_attempts pol
        \<or> remaining_deadline_ms \<le> 0
        \<or> job_cost_and_reservations + target_estimated_cost > fp_budget_units pol
      then Inr (recovery_decision source FallbackAction.FALLBACK_EXHAUSTED ''NO_COMPLIANT_FALLBACK'' pol, None)
      else case target of
        None \<Rightarrow> Inl AssertionError
      | Some p \<Rightarrow>
          Inr (\<lparr>rv_source_attempt_id = ec_attempt_id source,
                rv_action = FallbackAction.FALLBACK_NEW_ATTEMPT, rv_reason = ''CLASSIFIED_FALLBACK'',
                rv_policy_revision = fp_revision pol, rv_new_attempt_id = Some new_attempt_id,
                rv_target_profile_id = Some (cp_profile_id p)\<rparr>,
               Some (contract_plan new_attempt_id (ec_job_id source) p (ec_application_contract source))))"

section \<open>The cost of one Attempt\<close>

datatype CostStatus = RESERVED | SETTLED | PENDING_RECONCILIATION

record AttemptCost =
  ac_attempt_id :: string
  ac_pricing_revision :: string
  ac_estimate :: int
  ac_reservation :: int
  ac_actual :: "int option"
  ac_released :: int
  ac_status :: CostStatus

definition mark_unknown :: "AttemptCost \<Rightarrow> AttemptCost" where
  "mark_unknown item = item\<lparr>ac_actual := None, ac_released := 0,
     ac_status := CostStatus.PENDING_RECONCILIATION\<rparr>"

definition settle :: "AttemptCost \<Rightarrow> string \<Rightarrow> int \<Rightarrow> AttemptCost res" where
  "settle item pricing_revision actual =
     (if pricing_revision \<noteq> ac_pricing_revision item then Inl (ValueError ''pricing revision mismatch'')
      else if actual < 0 \<or> actual > ac_reservation item
      then Inl (ValueError ''invalid cost or explicit overage policy required'')
      else Inr (item\<lparr>ac_actual := Some actual, ac_released := ac_reservation item - actual,
                     ac_status := CostStatus.SETTLED\<rparr>))"

section \<open>Batch cost allocation and incident closure\<close>

datatype BatchItemCostStatus = PROVIDER_REPORTED | UNKNOWN

record BatchItemCost =
  bc_item_id :: string
  bc_units :: "int option"
  bc_status :: BatchItemCostStatus

definition record_batch_cost ::
    "string list \<Rightarrow> int \<Rightarrow> (string \<times> int) list option \<Rightarrow> BatchItemCost list res" where
  "record_batch_cost item_ids total_units per_item =
     (if total_units < 0 \<or> \<not> distinct item_ids then Inl (ValueError ''invalid batch identity/total'')
      else case per_item of
        None \<Rightarrow>
          Inr (map (\<lambda>i. \<lparr>bc_item_id = i, bc_units = None, bc_status = BatchItemCostStatus.UNKNOWN\<rparr>) item_ids)
      | Some kvs \<Rightarrow>
          (let reported = py_dict kvs in
           if length reported \<noteq> length kvs
              \<or> set (map fst reported) \<noteq> set item_ids
              \<or> (\<exists>u \<in> set (map snd reported). u < 0)
              \<or> sum_list (map snd reported) \<noteq> total_units
           then Inl (ValueError ''per-item evidence mismatch'')
           else Inr (map (\<lambda>i. \<lparr>bc_item_id = i, bc_units = map_of reported i,
                              bc_status = BatchItemCostStatus.PROVIDER_REPORTED\<rparr>) item_ids)))"

record IncidentRecoveryEvidence =
  ie_stable_policy_active :: bool
  ie_bad_policy_stopped :: bool
  ie_bad_profile_quarantined :: bool
  ie_attempts_classified :: bool
  ie_unknowns_reconciling_or_resolved :: bool
  ie_costs_settled_or_reconciling :: bool
  ie_repairs_verified :: bool
  ie_compensations_verified :: bool
  ie_regression_tests_passed :: bool

definition may_close_incident :: "IncidentRecoveryEvidence \<Rightarrow> bool" where
  "may_close_incident i \<longleftrightarrow>
     ie_stable_policy_active i \<and> ie_bad_policy_stopped i \<and> ie_bad_profile_quarantined i \<and>
     ie_attempts_classified i \<and> ie_unknowns_reconciling_or_resolved i \<and>
     ie_costs_settled_or_reconciling i \<and> ie_repairs_verified i \<and> ie_compensations_verified i \<and>
     ie_regression_tests_passed i"

section \<open>Recovery\<close>

lemma target_eligible_iff:
  "target_eligible c t st \<longleftrightarrow>
     (\<exists>p. t = Some p \<and> st = ProfileStatus.ACTIVE \<and> supports p (ec_application_contract c))"
  by (auto simp: target_eligible_def split: option.splits)

lemma FailureClass_fallback_iff:
  "f \<in> {FailureClass.RATE_LIMITED, FailureClass.TRANSPORT_BEFORE_DISPATCH, FailureClass.OUTPUT_INVALID}
   \<longleftrightarrow> f \<notin> {FailureClass.UNAUTHORIZED, FailureClass.CONTRACT_INCOMPATIBLE} \<and>
       f \<noteq> FailureClass.AUTH_OR_CONFIGURATION"
  by (cases f) auto

lemma ExecutionCertainty76_iff:
  "c = ExecutionCertainty76.DEFINITELY_NOT_ACCEPTED \<longleftrightarrow> c \<noteq> ExecutionCertainty76.TIMEOUT_UNKNOWN"
  by (cases c) auto

text \<open>
  The guard under which a new Attempt may be created on another path: the provider certainly did
  not accept the source Attempt, the failure is of a retryable class the policy lists, the target
  is active and supports the frozen application contract, and attempts, deadline and budget remain.
\<close>

definition fallback_guard ::
    "AttemptExecutionContract \<Rightarrow> FailureClass \<Rightarrow> ExecutionCertainty76 \<Rightarrow> FallbackPolicy
      \<Rightarrow> int \<Rightarrow> int \<Rightarrow> int \<Rightarrow> int \<Rightarrow> CapabilityProfile option \<Rightarrow> ProfileStatus \<Rightarrow> bool" where
  "fallback_guard source failure certainty pol n deadline cost est target status \<longleftrightarrow>
     certainty = ExecutionCertainty76.DEFINITELY_NOT_ACCEPTED \<and>
     failure \<in> {FailureClass.RATE_LIMITED, FailureClass.TRANSPORT_BEFORE_DISPATCH, FailureClass.OUTPUT_INVALID} \<and>
     failure \<in> set (fp_allowed pol) \<and> target_eligible source target status \<and>
     n < fp_max_attempts pol \<and> 0 < deadline \<and> cost + est \<le> fp_budget_units pol"

text \<open>
  \<open>plan_recovery\<close> never raises (its assertion cannot fire), and it plans a new Attempt exactly
  when the provider certainly did not accept the source Attempt, the failure class is retryable
  and listed by the policy, the target profile is active and supports the frozen application
  contract, and attempts, deadline and budget remain. The new binding then carries the fresh
  Attempt id, the source's job and application contract and the target's own profile; in every
  other case no binding is produced and no attempt id is handed out. An unknown outcome is always
  sent to reconciliation, and nothing else is.
\<close>

theorem plan_recovery_spec:
  "\<exists>d b. plan_recovery source failure certainty pol n deadline cost est target status new_id = Inr (d, b) \<and>
     rv_source_attempt_id d = ec_attempt_id source \<and> rv_policy_revision d = fp_revision pol \<and>
     (rv_action d = FallbackAction.FALLBACK_NEW_ATTEMPT \<longleftrightarrow>
        fallback_guard source failure certainty pol n deadline cost est target status) \<and>
     (rv_action d = FallbackAction.RECONCILE \<longleftrightarrow> certainty = ExecutionCertainty76.TIMEOUT_UNKNOWN) \<and>
     (case b of
        None \<Rightarrow> rv_action d \<noteq> FallbackAction.FALLBACK_NEW_ATTEMPT \<and> rv_new_attempt_id d = None
      | Some c \<Rightarrow> rv_action d = FallbackAction.FALLBACK_NEW_ATTEMPT \<and> rv_new_attempt_id d = Some new_id \<and>
          ec_attempt_id c = new_id \<and> ec_job_id c = ec_job_id source \<and>
          ec_application_contract c = ec_application_contract source \<and>
          rv_target_profile_id d = Some (ec_profile_id c))"
proof (cases "fallback_guard source failure certainty pol n deadline cost est target status")
  case True
  then show ?thesis
    unfolding fallback_guard_def FailureClass_fallback_iff ExecutionCertainty76_iff plan_recovery_def
    by (auto simp: target_eligible_iff contract_plan_def)
next
  case False
  then show ?thesis
    unfolding fallback_guard_def FailureClass_fallback_iff ExecutionCertainty76_iff plan_recovery_def
    by (auto simp: recovery_decision_def not_less not_le)
qed

section \<open>The ledger of one Attempt\<close>

text \<open>
  The two operations as requests on a stored \<open>AttemptCost\<close>; a raised error leaves the item as it
  was. The invariant says that the reservation is never lost: while usage is unknown all of it is
  held, and once settled it is split exactly between actual cost and release.
\<close>

datatype CostEvent = MarkUnknown | Settle string int

fun cost_step :: "CostEvent \<Rightarrow> AttemptCost \<Rightarrow> AttemptCost" where
  "cost_step MarkUnknown item = mark_unknown item"
| "cost_step (Settle pr actual) item =
     (case settle item pr actual of Inl _ \<Rightarrow> item | Inr item' \<Rightarrow> item')"

definition cost_inv :: "AttemptCost \<Rightarrow> bool" where
  "cost_inv c \<longleftrightarrow>
     (case ac_actual c of
        None \<Rightarrow> ac_released c = 0 \<and> ac_status c \<noteq> CostStatus.SETTLED
      | Some a \<Rightarrow> ac_status c = CostStatus.SETTLED \<and> 0 \<le> a \<and> a \<le> ac_reservation c \<and>
          a + ac_released c = ac_reservation c)"

definition cost_frame :: "AttemptCost \<Rightarrow> string \<times> string \<times> int \<times> int" where
  "cost_frame c = (ac_attempt_id c, ac_pricing_revision c, ac_estimate c, ac_reservation c)"

lemma settle_ok:
  "settle c pr a = Inr c' \<longleftrightarrow>
     pr = ac_pricing_revision c \<and> 0 \<le> a \<and> a \<le> ac_reservation c \<and>
     c' = c\<lparr>ac_actual := Some a, ac_released := ac_reservation c - a, ac_status := CostStatus.SETTLED\<rparr>"
  by (auto simp: settle_def)

lemma cost_step_inv: "cost_inv c \<Longrightarrow> cost_inv (cost_step e c)"
  by (cases e) (auto simp: cost_inv_def mark_unknown_def settle_ok split: sum.splits)

lemma cost_step_frame: "cost_frame (cost_step e c) = cost_frame c"
  by (cases e) (auto simp: cost_frame_def mark_unknown_def settle_ok split: sum.splits)

interpretation cost_ledger: invariant_machine cost_step cost_inv
  by unfold_locales (rule cost_step_inv)

interpretation cost_identity: invariant_machine cost_step "\<lambda>c. cost_frame c = cost_frame c0" for c0
  by unfold_locales (simp add: cost_step_frame)

definition new_attempt_cost :: "string \<Rightarrow> string \<Rightarrow> int \<Rightarrow> int \<Rightarrow> AttemptCost" where
  "new_attempt_cost aid pr est reservation =
     \<lparr>ac_attempt_id = aid, ac_pricing_revision = pr, ac_estimate = est, ac_reservation = reservation,
      ac_actual = None, ac_released = 0, ac_status = CostStatus.RESERVED\<rparr>"

text \<open>
  Whatever sequence of settlements (with right or wrong pricing revision, in or out of range)
  and unknown-usage marks is applied to a newly reserved Attempt cost, its identity, pricing
  revision, estimate and reservation never change, and the reservation is conserved: either no
  actual is recorded and nothing was released, or the item is settled, the actual lies between 0
  and the reservation, and actual plus released is exactly the reservation.
\<close>

theorem attempt_cost_conserved:
  "let c = fold cost_step es (new_attempt_cost aid pr est reservation) in
     cost_frame c = (aid, pr, est, reservation) \<and>
     (case ac_actual c of
        None \<Rightarrow> ac_released c = 0 \<and> ac_status c \<noteq> CostStatus.SETTLED
      | Some a \<Rightarrow> ac_status c = CostStatus.SETTLED \<and> 0 \<le> a \<and> a \<le> reservation \<and>
          a + ac_released c = reservation)"
proof -
  let ?c0 = "new_attempt_cost aid pr est reservation"
  have "cost_inv (fold cost_step es ?c0)"
    by (rule cost_ledger.run_inv) (simp add: cost_inv_def new_attempt_cost_def)
  moreover have "cost_frame (fold cost_step es ?c0) = (aid, pr, est, reservation)"
    using cost_identity.run_inv [of ?c0 ?c0 es] by (simp add: cost_frame_def new_attempt_cost_def)
  ultimately show ?thesis
    by (auto simp: cost_inv_def cost_frame_def Let_def split: option.splits)
qed

section \<open>Batch allocation\<close>

lemma record_batch_cost_reported:
  "record_batch_cost ids tot (Some kvs) = Inr items \<longleftrightarrow>
     0 \<le> tot \<and> distinct ids \<and> distinct (map fst kvs) \<and> fst ` set kvs = set ids \<and>
     (\<forall>u \<in> snd ` set kvs. 0 \<le> u) \<and> sum_list (map snd kvs) = tot \<and>
     items = map (\<lambda>i. \<lparr>bc_item_id = i, bc_units = map_of kvs i,
                       bc_status = BatchItemCostStatus.PROVIDER_REPORTED\<rparr>) ids"
  by (cases "distinct (map fst kvs)")
    (simp_all add: record_batch_cost_def Let_def length_py_dict_iff py_dict_distinct flip: not_less, auto)

lemma record_batch_cost_total:
  assumes "record_batch_cost ids tot (Some kvs) = Inr items"
  shows "sum_list (map (\<lambda>b. the (bc_units b)) items) = tot"
    and "\<forall>b \<in> set items. \<exists>u. bc_units b = Some u \<and> 0 \<le> u \<and> (bc_item_id b, u) \<in> set kvs"
proof -
  note spec = assms [unfolded record_batch_cost_reported]
  with sum_list_map_of [of kvs ids] show "sum_list (map (\<lambda>b. the (bc_units b)) items) = tot"
    by (simp add: o_def)
  have "\<exists>u. map_of kvs i = Some u" if "i \<in> set ids" for i
    using spec that by (metis domD dom_map_of_conv_image_fst)
  with spec show "\<forall>b \<in> set items. \<exists>u. bc_units b = Some u \<and> 0 \<le> u \<and> (bc_item_id b, u) \<in> set kvs"
    by (fastforce dest: map_of_SomeD)
qed

text \<open>
  Whenever \<open>record_batch_cost\<close> accepts, it returns exactly one entry per item in the order of
  the batch. Without per-item evidence every entry is unknown (no equal split is invented); with
  evidence every entry is the non-negative amount the provider reported for that very item and
  the entries add up to the batch total.
\<close>

theorem record_batch_cost_faithful:
  assumes "record_batch_cost ids tot per_item = Inr items"
  shows "map bc_item_id items = ids \<and> distinct ids \<and>
    (case per_item of
       None \<Rightarrow> (\<forall>b \<in> set items. bc_units b = None \<and> bc_status b = BatchItemCostStatus.UNKNOWN)
     | Some kvs \<Rightarrow> sum_list (map (\<lambda>b. the (bc_units b)) items) = tot \<and>
         (\<forall>b \<in> set items. \<exists>u. bc_units b = Some u \<and> 0 \<le> u \<and> (bc_item_id b, u) \<in> set kvs))"
proof (cases per_item)
  case None
  with assms show ?thesis
    by (auto simp: record_batch_cost_def o_def split: if_splits)
next
  case (Some kvs)
  with assms record_batch_cost_total [of ids tot kvs items] show ?thesis
    by (simp add: record_batch_cost_reported o_def)
qed

theorem record_batch_cost_faithful_witness:
  "\<exists>items. record_batch_cost [''a'', ''b''] 7 (Some [(''b'', 3), (''a'', 4)]) = Inr items \<and>
     sum_list (map (\<lambda>b. the (bc_units b)) items) = 7"
proof -
  obtain items where r: "record_batch_cost [''a'', ''b''] 7 (Some [(''b'', 3), (''a'', 4)]) = Inr items"
    by (simp add: record_batch_cost_reported insert_commute)
  with record_batch_cost_faithful [OF r] show ?thesis by simp
qed

end
