(* ===== verification/Stream_Assembler.thy ===== *)
theory Stream_Assembler
  imports Machines
begin

text \<open>
  \<^verbatim>\<open>src/projects/ai-agent/src/streaming_cache_batching.py\<close>, first part: the assembler that
  validates the identity, order and size of one provider stream and emits a complete candidate
  only at the stream's end.
\<close>

section \<open>Data\<close>

datatype StreamEventType = CONTENT_DELTA | PROGRESS | COMPLETED | ERROR

datatype StreamAssemblyStatus = BUFFERING | COMPLETE_CANDIDATE | MALFORMED_STREAM | STREAM_ERROR

datatype DisconnectEffect = SUBSCRIPTION_ENDED_ONLY

record StreamEvent =
  sv_tenant_id :: string
  sv_job_id :: string
  sv_attempt_id :: string
  sv_stream_id :: string
  sv_sequence :: int
  sv_event_type :: StreamEventType
  sv_data :: string

record CompleteCandidate =
  cc_tenant_id :: string
  cc_job_id :: string
  cc_attempt_id :: string
  cc_stream_id :: string
  cc_raw_output :: string

record StreamAssemblyDecision =
  sd_status :: StreamAssemblyStatus
  sd_safe_reason_code :: string
  sd_candidate :: "CompleteCandidate option"

record StreamAssembler =
  sa_tenant_id :: string
  sa_job_id :: string
  sa_attempt_id :: string
  sa_stream_id :: string
  sa_max_buffer_bytes :: int
  sa_next_sequence :: int
  sa_buffer_bytes :: int
  sa_parts :: "string list"
  sa_terminal :: bool

section \<open>Operations\<close>

definition StreamAssembler_init ::
    "string \<Rightarrow> string \<Rightarrow> string \<Rightarrow> string \<Rightarrow> int \<Rightarrow> StreamAssembler res" where
  "StreamAssembler_init tenant_id job_id attempt_id stream_id max_buffer_bytes =
     (if max_buffer_bytes \<le> 0 then Inl (ValueError ''max_buffer_bytes must be positive'')
      else Inr \<lparr>sa_tenant_id = tenant_id, sa_job_id = job_id, sa_attempt_id = attempt_id,
                sa_stream_id = stream_id, sa_max_buffer_bytes = max_buffer_bytes,
                sa_next_sequence = 1, sa_buffer_bytes = 0, sa_parts = [], sa_terminal = False\<rparr>)"

definition stream_decision :: "StreamAssemblyStatus \<Rightarrow> string \<Rightarrow> StreamAssemblyDecision" where
  [py_defs]: "stream_decision st reason =
     \<lparr>sd_status = st, sd_safe_reason_code = reason, sd_candidate = None\<rparr>"

definition stream_identity_matches :: "StreamAssembler \<Rightarrow> StreamEvent \<Rightarrow> bool" where
  "stream_identity_matches a ev \<longleftrightarrow>
     sv_tenant_id ev = sa_tenant_id a \<and> sv_job_id ev = sa_job_id a \<and>
     sv_attempt_id ev = sa_attempt_id a \<and> sv_stream_id ev = sa_stream_id a"

text \<open>The method mutates the assembler, so it returns the decision and the updated assembler.\<close>

definition stream_accept :: "StreamAssembler \<Rightarrow> StreamEvent \<Rightarrow> StreamAssemblyDecision \<times> StreamAssembler" where
  "stream_accept a ev =
     (if sa_terminal a
      then (stream_decision StreamAssemblyStatus.MALFORMED_STREAM ''EVENT_AFTER_TERMINAL'', a)
      else if \<not> stream_identity_matches a ev
      then (stream_decision StreamAssemblyStatus.MALFORMED_STREAM ''STREAM_IDENTITY_MISMATCH'',
            a\<lparr>sa_terminal := True\<rparr>)
      else if sv_sequence ev \<noteq> sa_next_sequence a
      then (stream_decision StreamAssemblyStatus.MALFORMED_STREAM ''STREAM_SEQUENCE_MISMATCH'',
            a\<lparr>sa_terminal := True\<rparr>)
      else
        let a1 = a\<lparr>sa_next_sequence := sa_next_sequence a + 1\<rparr>
        in case sv_event_type ev of
             StreamEventType.CONTENT_DELTA \<Rightarrow>
               (let delta_bytes = int (length (sv_data ev))
                in if sa_buffer_bytes a1 + delta_bytes > sa_max_buffer_bytes a1
                   then (stream_decision StreamAssemblyStatus.MALFORMED_STREAM ''STREAM_BUFFER_LIMIT_EXCEEDED'',
                         a1\<lparr>sa_terminal := True\<rparr>)
                   else (stream_decision StreamAssemblyStatus.BUFFERING ''CONTENT_BUFFERED'',
                         a1\<lparr>sa_parts := sa_parts a1 @ [sv_data ev],
                            sa_buffer_bytes := sa_buffer_bytes a1 + delta_bytes\<rparr>))
           | StreamEventType.PROGRESS \<Rightarrow>
               (stream_decision StreamAssemblyStatus.BUFFERING ''PROGRESS_OBSERVED_NOT_CANDIDATE_CONTENT'', a1)
           | StreamEventType.ERROR \<Rightarrow>
               (stream_decision StreamAssemblyStatus.STREAM_ERROR ''PROVIDER_STREAM_ERROR'',
                a1\<lparr>sa_terminal := True\<rparr>)
           | StreamEventType.COMPLETED \<Rightarrow>
               (\<lparr>sd_status = StreamAssemblyStatus.COMPLETE_CANDIDATE,
                 sd_safe_reason_code = ''STREAM_COMPLETED'',
                 sd_candidate = Some \<lparr>cc_tenant_id = sa_tenant_id a1, cc_job_id = sa_job_id a1,
                   cc_attempt_id = sa_attempt_id a1, cc_stream_id = sa_stream_id a1,
                   cc_raw_output = concat (sa_parts a1)\<rparr>\<rparr>,
                a1\<lparr>sa_terminal := True\<rparr>))"

definition client_disconnect :: "DisconnectEffect" where
  "client_disconnect = DisconnectEffect.SUBSCRIPTION_ENDED_ONLY"

text \<open>The assembler as a machine, and the decisions of a whole run.\<close>

definition stream_step :: "StreamEvent \<Rightarrow> StreamAssembler \<Rightarrow> StreamAssembler" where
  [step_defs]: "stream_step ev a = snd (stream_accept a ev)"

fun stream_decisions :: "StreamAssembler \<Rightarrow> StreamEvent list \<Rightarrow> StreamAssemblyDecision list" where
  "stream_decisions a [] = []"
| "stream_decisions a (ev # evs) = fst (stream_accept a ev) # stream_decisions (stream_step ev a) evs"

section \<open>Specification of a well-formed stream\<close>

text \<open>
  A buffered prefix: every event carries the assembler's identity, the sequence numbers run
  \<open>n, n+1, ...\<close>, and every event is a delta or a progress report. Its content is the concatenation of
  its deltas.
\<close>

fun buffered_prefix :: "StreamAssembler \<Rightarrow> int \<Rightarrow> StreamEvent list \<Rightarrow> bool" where
  "buffered_prefix a n [] = True"
| "buffered_prefix a n (ev # evs) \<longleftrightarrow>
     stream_identity_matches a ev \<and> sv_sequence ev = n \<and>
     sv_event_type ev \<in> {StreamEventType.CONTENT_DELTA, StreamEventType.PROGRESS} \<and>
     buffered_prefix a (n + 1) evs"

definition deltas :: "StreamEvent list \<Rightarrow> string list" where
  "deltas evs = map sv_data (filter (\<lambda>ev. sv_event_type ev = StreamEventType.CONTENT_DELTA) evs)"

definition stream_bytes :: "StreamEvent list \<Rightarrow> int" where
  "stream_bytes evs = int (length (concat (deltas evs)))"

lemma deltas_Nil [simp]: "deltas [] = []"
  by (simp add: deltas_def)

lemma deltas_Cons [simp]:
  "deltas (ev # evs) = (if sv_event_type ev = StreamEventType.CONTENT_DELTA then [sv_data ev] else []) @ deltas evs"
  by (simp add: deltas_def)

section \<open>Invariant and terminal state\<close>

definition stream_inv :: "StreamAssembler \<Rightarrow> bool" where
  "stream_inv a \<longleftrightarrow> sa_buffer_bytes a = int (length (concat (sa_parts a))) \<and>
     sa_buffer_bytes a \<le> sa_max_buffer_bytes a \<and> 1 \<le> sa_next_sequence a"

definition stream_frame :: "StreamAssembler \<Rightarrow> string \<times> string \<times> string \<times> string \<times> int" where
  "stream_frame a = (sa_tenant_id a, sa_job_id a, sa_attempt_id a, sa_stream_id a, sa_max_buffer_bytes a)"

lemmas stream_accept_unfold = stream_accept_def Let_def stream_decision_def

lemma stream_step_inv: "stream_inv a \<Longrightarrow> stream_inv (stream_step ev a)"
  by (auto simp: stream_inv_def stream_step_def stream_accept_unfold split: StreamEventType.splits)

lemma stream_step_frame [simp]: "stream_frame (stream_step ev a) = stream_frame a"
  by (auto simp: stream_frame_def stream_step_def stream_accept_unfold split: StreamEventType.splits)

lemma stream_step_terminal: "sa_terminal a \<Longrightarrow> stream_step ev a = a"
  by (simp add: stream_step_def stream_accept_def)

lemma stream_step_sequence: "sa_next_sequence a \<le> sa_next_sequence (stream_step ev a)"
  by (auto simp: stream_step_def stream_accept_unfold split: StreamEventType.splits)

interpretation assembler: fenced_machine stream_step stream_inv sa_next_sequence sa_terminal "\<lambda>a. a"
  by unfold_locales (auto simp: stream_step_inv stream_step_terminal stream_step_sequence)

interpretation assembler_frame: invariant_machine stream_step "\<lambda>a. stream_frame a = stream_frame a0" for a0
  by unfold_locales simp

lemma stream_identity_frame:
  "stream_frame a = stream_frame b \<Longrightarrow> stream_identity_matches a ev = stream_identity_matches b ev"
  by (simp add: stream_frame_def stream_identity_matches_def)

lemma buffered_prefix_frame:
  "stream_frame a = stream_frame b \<Longrightarrow> buffered_prefix a n evs = buffered_prefix b n evs"
  by (induction evs arbitrary: n) (simp_all add: stream_frame_def stream_identity_matches_def)

section \<open>What a run of the assembler accepts\<close>

lemma stream_step_progress:
  assumes "stream_inv a" and "\<not> sa_terminal a"
  shows "\<not> sa_terminal (stream_step ev a) \<longleftrightarrow>
    stream_identity_matches a ev \<and> sv_sequence ev = sa_next_sequence a \<and>
    sv_event_type ev \<in> {StreamEventType.CONTENT_DELTA, StreamEventType.PROGRESS} \<and>
    sa_buffer_bytes a + stream_bytes [ev] \<le> sa_max_buffer_bytes a"
  using assms
  by (auto simp: stream_step_def stream_accept_unfold stream_bytes_def stream_inv_def
      split: StreamEventType.splits)

lemma stream_step_buffered:
  assumes "\<not> sa_terminal (stream_step ev a)"
  shows "stream_step ev a = a\<lparr>sa_next_sequence := sa_next_sequence a + 1,
    sa_buffer_bytes := sa_buffer_bytes a + stream_bytes [ev], sa_parts := sa_parts a @ deltas [ev]\<rparr>"
  using assms
  by (cases "sa_terminal a"; cases "stream_identity_matches a ev"; cases "sv_event_type ev";
      cases "sv_sequence ev = sa_next_sequence a";
      cases "sa_max_buffer_bytes a < sa_buffer_bytes a + int (length (sv_data ev))")
    (simp_all add: stream_step_def stream_accept_unfold stream_bytes_def)

lemma stream_run_open:
  assumes "stream_inv a" and "\<not> sa_terminal a"
  shows "\<not> sa_terminal (fold stream_step evs a) \<longleftrightarrow>
      buffered_prefix a (sa_next_sequence a) evs \<and>
      sa_buffer_bytes a + stream_bytes evs \<le> sa_max_buffer_bytes a"
  using assms
proof (induction evs arbitrary: a)
  case Nil
  then show ?case by (simp add: stream_bytes_def stream_inv_def)
next
  case (Cons ev evs)
  let ?b = "stream_step ev a"
  show ?case
  proof (cases "sa_terminal ?b")
    case True
    then have "sa_terminal (fold stream_step evs ?b)"
      using assembler.run_terminal [of ?b evs] Cons.prems(1) stream_step_inv by blast
    with True stream_step_progress [OF Cons.prems, of ev] Cons.prems(1) show ?thesis
      by (auto simp: stream_inv_def stream_bytes_def)
  next
    case False
    have frame: "buffered_prefix ?b n evs = buffered_prefix a n evs" for n
      by (rule buffered_prefix_frame) simp
    have "sa_max_buffer_bytes ?b = sa_max_buffer_bytes a"
      using stream_step_frame [of ev a] by (simp only: stream_frame_def prod.inject)
    moreover have "sa_next_sequence ?b = sa_next_sequence a + 1"
      "sa_buffer_bytes ?b = sa_buffer_bytes a + stream_bytes [ev]"
      by (simp_all add: stream_step_buffered [OF False])
    ultimately show ?thesis
      using Cons.IH [OF stream_step_inv [OF Cons.prems(1)] False] False
        stream_step_progress [OF Cons.prems, of ev]
      by (auto simp: frame stream_bytes_def)
  qed
qed

lemma stream_run_content:
  assumes "\<not> sa_terminal (fold stream_step evs a)" and "stream_inv a"
  shows "sa_parts (fold stream_step evs a) = sa_parts a @ deltas evs \<and>
    sa_next_sequence (fold stream_step evs a) = sa_next_sequence a + int (length evs)"
  using assms
proof (induction evs arbitrary: a)
  case (Cons ev evs)
  let ?b = "stream_step ev a"
  have "\<not> sa_terminal ?b"
    using Cons.prems assembler.run_terminal [of ?b evs] stream_step_inv by auto
  with Cons.IH [of ?b] Cons.prems stream_step_buffered [of ev a] show ?case
    by (simp add: stream_step_inv)
qed simp

lemma stream_accept_candidate:
  "sd_candidate (fst (stream_accept a ev)) = Some c \<longleftrightarrow>
     \<not> sa_terminal a \<and> stream_identity_matches a ev \<and> sv_sequence ev = sa_next_sequence a \<and>
     sv_event_type ev = StreamEventType.COMPLETED \<and>
     c = \<lparr>cc_tenant_id = sa_tenant_id a, cc_job_id = sa_job_id a, cc_attempt_id = sa_attempt_id a,
          cc_stream_id = sa_stream_id a, cc_raw_output = concat (sa_parts a)\<rparr>"
  by (auto simp: stream_accept_unfold split: StreamEventType.splits)

lemma stream_candidate_terminal:
  "sd_candidate (fst (stream_accept a ev)) \<noteq> None \<Longrightarrow> sa_terminal (stream_step ev a)"
  by (auto simp: stream_step_def stream_accept_unfold split: StreamEventType.splits if_splits)

lemma stream_decisions_terminal:
  "sa_terminal a \<Longrightarrow> filter (\<lambda>d. sd_candidate d \<noteq> None) (stream_decisions a evs) = []"
  by (induction evs) (auto simp: stream_step_terminal stream_accept_def stream_decision_def)

lemma stream_decisions_at_most_one:
  "length (filter (\<lambda>d. sd_candidate d \<noteq> None) (stream_decisions a evs)) \<le> 1"
proof (induction evs arbitrary: a)
  case (Cons ev evs)
  then show ?case
    using stream_candidate_terminal [of a ev] stream_decisions_terminal [of "stream_step ev a" evs]
    by auto
qed simp

text \<open>
  C39. The assembler emits a candidate exactly for well-formed streams: after any sequence of
  events, the next event produces a candidate if and only if all earlier events carried the
  stream's tenant, job, Attempt and stream identity with consecutive sequence numbers from 1 and
  were deltas or progress reports, their content stayed within the byte limit, and the event is
  the completion with the right identity and number; the candidate is then bound to that
  identity and is the exact concatenation of the deltas. No run emits more than one candidate.
\<close>

theorem stream_assembler_spec:
  assumes "StreamAssembler_init tenant job attempt stream limit = Inr a"
  shows "(sd_candidate (fst (stream_accept (fold stream_step evs a) ev)) = Some c \<longleftrightarrow>
      buffered_prefix a 1 evs \<and> stream_bytes evs \<le> limit \<and>
      stream_identity_matches a ev \<and> sv_sequence ev = 1 + int (length evs) \<and>
      sv_event_type ev = StreamEventType.COMPLETED \<and>
      c = \<lparr>cc_tenant_id = tenant, cc_job_id = job, cc_attempt_id = attempt,
           cc_stream_id = stream, cc_raw_output = concat (deltas evs)\<rparr>) \<and>
    length (filter (\<lambda>d. sd_candidate d \<noteq> None) (stream_decisions a evs)) \<le> 1"
proof -
  let ?b = "fold stream_step evs a"
  have a: "a = \<lparr>sa_tenant_id = tenant, sa_job_id = job, sa_attempt_id = attempt,
                sa_stream_id = stream, sa_max_buffer_bytes = limit,
                sa_next_sequence = 1, sa_buffer_bytes = 0, sa_parts = [], sa_terminal = False\<rparr>"
    and "0 < limit"
    using assms by (auto simp: StreamAssembler_init_def split: if_splits)
  then have inv: "stream_inv a" by (simp add: stream_inv_def)
  have frame: "stream_frame ?b = stream_frame a"
    using assembler_frame.run_inv [of a a evs] by simp
  have "\<not> sa_terminal ?b \<longleftrightarrow> buffered_prefix a 1 evs \<and> stream_bytes evs \<le> limit"
    using stream_run_open [OF inv, of evs] a by simp
  then show ?thesis
    using stream_run_content [OF _ inv, of evs] frame stream_identity_frame [OF frame, of ev]
      stream_decisions_at_most_one [of a evs] a
    by (auto simp: stream_accept_candidate stream_frame_def)
qed

definition demo_stream_event :: "int \<Rightarrow> StreamEventType \<Rightarrow> string \<Rightarrow> StreamEvent" where
  "demo_stream_event n ty d = \<lparr>sv_tenant_id = ''t'', sv_job_id = ''j'', sv_attempt_id = ''a'',
     sv_stream_id = ''s'', sv_sequence = n, sv_event_type = ty, sv_data = d\<rparr>"

theorem stream_assembler_spec_witness:
  "\<exists>a c. StreamAssembler_init ''t'' ''j'' ''a'' ''s'' 4 = Inr a \<and>
     sd_candidate (fst (stream_accept (fold stream_step
       [demo_stream_event 1 StreamEventType.CONTENT_DELTA ''ab'',
        demo_stream_event 2 StreamEventType.PROGRESS ''50%'',
        demo_stream_event 3 StreamEventType.CONTENT_DELTA ''cd''] a)
       (demo_stream_event 4 StreamEventType.COMPLETED []))) = Some c \<and> cc_raw_output c = ''abcd''"
proof -
  obtain a where a: "StreamAssembler_init ''t'' ''j'' ''a'' ''s'' 4 = Inr a"
    by (simp add: StreamAssembler_init_def)
  then have id: "sa_tenant_id a = ''t''" "sa_job_id a = ''j''" "sa_attempt_id a = ''a''" "sa_stream_id a = ''s''"
    by (auto simp: StreamAssembler_init_def)
  show ?thesis
    by (rule exI [of _ a], rule exI, intro conjI, rule a, subst stream_assembler_spec [OF a, THEN conjunct1])
      (auto simp: demo_stream_event_def stream_identity_matches_def stream_bytes_def id)
qed

end
