(* ===== verification/Response_Cache.thy ===== *)
theory Response_Cache
  imports Stream_Assembler
begin

text \<open>
  \<^verbatim>\<open>src/projects/ai-agent/src/streaming_cache_batching.py\<close>, second part: the exact-key candidate
  cache. The dictionary \<open>_entries\<close> is an association list in insertion order.
\<close>

section \<open>Data\<close>

record CacheKey =
  ck_tenant_id :: string
  ck_authorization_scope :: string
  ck_authorization_policy_version :: string
  ck_application_contract :: string
  ck_input_fingerprint :: string
  ck_prompt_contract_id :: string
  ck_prompt_contract_revision :: string
  ck_output_contract_version :: string
  ck_tool_contract_version :: string
  ck_provider_profile_revision :: string
  ck_model_id :: string
  ck_cache_policy_version :: string

datatype CacheSensitivity = TENANT_PROTECTED | SECRET

record CacheableCandidate =
  ce_candidate :: CompleteCandidate
  ce_resource_version :: int
  ce_created_at :: int
  ce_expires_at :: int
  ce_sensitivity :: CacheSensitivity

datatype CacheWriteStatus = STORED | REJECTED_SECRET | REJECTED_INVALID_TTL

datatype CacheLookupStatus = HIT | MISS | EXPIRED | STALE_RESOURCE | UNAUTHORIZED

record CacheLookupDecision =
  cl_status :: CacheLookupStatus
  cl_safe_reason_code :: string
  cl_candidate :: "CompleteCandidate option"

type_synonym ResponseCache = "(CacheKey \<times> CacheableCandidate) list"

section \<open>Operations\<close>

definition cache_put :: "ResponseCache \<Rightarrow> CacheKey \<Rightarrow> CacheableCandidate \<Rightarrow> (CacheWriteStatus \<times> ResponseCache) res" where
  "cache_put entries key entry =
     (if ce_sensitivity entry = CacheSensitivity.SECRET then Inr (CacheWriteStatus.REJECTED_SECRET, entries)
      else if ce_expires_at entry \<le> ce_created_at entry
      then Inr (CacheWriteStatus.REJECTED_INVALID_TTL, entries)
      else if cc_tenant_id (ce_candidate entry) \<noteq> ck_tenant_id key
      then Inl (ValueError ''cache key tenant does not match candidate tenant'')
      else Inr (CacheWriteStatus.STORED, AList.update key entry entries))"

definition cache_get ::
    "ResponseCache \<Rightarrow> CacheKey \<Rightarrow> int \<Rightarrow> string \<Rightarrow> bool \<Rightarrow> int \<Rightarrow> CacheLookupDecision" where
  "cache_get entries key now trusted_tenant_id currently_authorized current_resource_version =
     (if trusted_tenant_id \<noteq> ck_tenant_id key \<or> \<not> currently_authorized
      then \<lparr>cl_status = CacheLookupStatus.UNAUTHORIZED,
            cl_safe_reason_code = ''CURRENT_AUTHORIZATION_REQUIRED'', cl_candidate = None\<rparr>
      else case map_of entries key of
        None \<Rightarrow> \<lparr>cl_status = CacheLookupStatus.MISS, cl_safe_reason_code = ''CACHE_MISS'', cl_candidate = None\<rparr>
      | Some entry \<Rightarrow>
          (if now \<ge> ce_expires_at entry
           then \<lparr>cl_status = CacheLookupStatus.EXPIRED,
                 cl_safe_reason_code = ''CACHE_ENTRY_EXPIRED'', cl_candidate = None\<rparr>
           else if ce_resource_version entry \<noteq> current_resource_version
           then \<lparr>cl_status = CacheLookupStatus.STALE_RESOURCE,
                 cl_safe_reason_code = ''CACHE_RESOURCE_VERSION_STALE'', cl_candidate = None\<rparr>
           else \<lparr>cl_status = CacheLookupStatus.HIT,
                 cl_safe_reason_code = ''CACHE_HIT_REQUIRES_CURRENT_ADMISSION'',
                 cl_candidate = Some (ce_candidate entry)\<rparr>))"

definition cache_invalidate :: "ResponseCache \<Rightarrow> CacheKey \<Rightarrow> bool \<times> ResponseCache" where
  "cache_invalidate entries key = (map_of entries key \<noteq> None, AList.delete key entries)"

definition cache_invalidate_tenant :: "ResponseCache \<Rightarrow> string \<Rightarrow> int \<times> ResponseCache" where
  "cache_invalidate_tenant entries tenant_id =
     (let keys = filter (\<lambda>key. ck_tenant_id key = tenant_id) (map fst entries)
      in (int (length keys), fold AList.delete keys entries))"

section \<open>The cache as a machine\<close>

datatype CacheEvent =
    Put CacheKey CacheableCandidate
  | Invalidate CacheKey
  | InvalidateTenant string

fun cache_step :: "CacheEvent \<Rightarrow> ResponseCache \<Rightarrow> ResponseCache" where
  "cache_step (Put key entry) entries =
     (case cache_put entries key entry of Inl _ \<Rightarrow> entries | Inr (_, entries') \<Rightarrow> entries')"
| "cache_step (Invalidate key) entries = snd (cache_invalidate entries key)"
| "cache_step (InvalidateTenant t) entries = snd (cache_invalidate_tenant entries t)"

text \<open>An entry the cache may hold under a key.\<close>

definition storable :: "CacheKey \<Rightarrow> CacheableCandidate \<Rightarrow> bool" where
  "storable key entry \<longleftrightarrow> ce_sensitivity entry \<noteq> CacheSensitivity.SECRET \<and>
     ce_created_at entry < ce_expires_at entry \<and> cc_tenant_id (ce_candidate entry) = ck_tenant_id key"

text \<open>The effect of a request on the entry of one key: untouched, or set to an optional entry.\<close>

fun cache_effect :: "CacheKey \<Rightarrow> CacheEvent \<Rightarrow> CacheableCandidate option option" where
  "cache_effect key (Put key' entry) = (if key' = key \<and> storable key entry then Some (Some entry) else None)"
| "cache_effect key (Invalidate key') = (if key' = key then Some None else None)"
| "cache_effect key (InvalidateTenant t) = (if ck_tenant_id key = t then Some None else None)"

lemma cache_put_stored:
  "cache_put entries key entry = Inr (CacheWriteStatus.STORED, entries') \<longleftrightarrow>
     storable key entry \<and> entries' = AList.update key entry entries"
  by (auto simp: cache_put_def storable_def)

lemma cache_put_kept:
  "\<not> storable key entry \<Longrightarrow> cache_step (Put key entry) entries = entries"
  by (auto simp: cache_put_def storable_def)

lemma map_of_fold_delete: "map_of (fold AList.delete ks al) k = (if k \<in> set ks then None else map_of al k)"
  by (induction ks arbitrary: al) (auto simp: delete_conv')

lemma cache_step_lookup:
  "map_of (cache_step ev entries) key =
     (case cache_effect key ev of None \<Rightarrow> map_of entries key | Some r \<Rightarrow> r)"
proof (cases ev)
  case (Put key' entry)
  show ?thesis
  proof (cases "storable key' entry")
    case True
    with Put show ?thesis
      by (auto simp: update_conv' cache_put_def storable_def)
  next
    case False
    with Put show ?thesis by (auto simp: cache_put_kept simp del: cache_step.simps)
  qed
next
  case (Invalidate key')
  then show ?thesis by (auto simp: cache_invalidate_def delete_conv')
next
  case (InvalidateTenant t)
  then show ?thesis
    by (auto simp: cache_invalidate_tenant_def Let_def map_of_fold_delete map_of_eq_None_iff)
qed

section \<open>What the cache holds after any history\<close>

lemma cache_history:
  "map_of (fold cache_step evs []) key = Some entry \<longleftrightarrow>
     storable key entry \<and> last_with (\<lambda>ev. cache_effect key ev = None) (Put key entry) evs"
proof (induction evs rule: rev_induct)
  case (snoc ev evs)
  then show ?case by (cases ev) (auto simp: cache_step_lookup simp del: cache_step.simps)
qed simp

lemma cache_get_hit:
  "cl_candidate (cache_get entries key now tenant auth version) = Some c \<longleftrightarrow>
     tenant = ck_tenant_id key \<and> auth \<and>
     (\<exists>entry. map_of entries key = Some entry \<and> now < ce_expires_at entry \<and>
        ce_resource_version entry = version \<and> c = ce_candidate entry)"
  by (auto simp: cache_get_def split: option.splits)

lemma cache_get_status:
  "cl_status (cache_get entries key now tenant auth version) = CacheLookupStatus.HIT \<longleftrightarrow>
     cl_candidate (cache_get entries key now tenant auth version) \<noteq> None"
  by (auto simp: cache_get_def split: option.splits)

text \<open>
  After any history of writes and invalidations the cache returns a candidate exactly when
  the caller is currently authorized for the key's own tenant, and the last request that affected
  this exact key was a write of an admissible (non-secret, positive lifetime, same tenant) entry
  that has not expired and was made for the current resource version. In particular a hit never
  crosses tenants and never survives an invalidation of its key or tenant.
\<close>

theorem cache_get_history:
  "cl_candidate (cache_get (fold cache_step evs []) key now tenant auth version) = Some c \<longleftrightarrow>
     tenant = ck_tenant_id key \<and> auth \<and>
     (\<exists>entry. storable key entry \<and>
        last_with (\<lambda>ev. cache_effect key ev = None) (Put key entry) evs \<and>
        now < ce_expires_at entry \<and> ce_resource_version entry = version \<and>
        c = ce_candidate entry \<and> cc_tenant_id c = tenant)"
  by (auto simp: cache_get_hit cache_history storable_def)

lemma cache_distinct: "distinct (map fst entries) \<Longrightarrow> distinct (map fst (cache_step ev entries))"
proof (cases ev)
  case (InvalidateTenant t)
  have "distinct (map fst al) \<Longrightarrow> distinct (map fst (fold AList.delete ks al))" for ks and al :: ResponseCache
    by (induction ks arbitrary: al) (auto simp: distinct_delete)
  with InvalidateTenant show "distinct (map fst entries) \<Longrightarrow> ?thesis"
    by (simp add: cache_invalidate_tenant_def Let_def)
qed (auto simp: cache_put_def cache_invalidate_def distinct_update distinct_delete)

interpretation cache_keys: invariant_machine cache_step "\<lambda>entries. distinct (map fst entries)"
  by unfold_locales (rule cache_distinct)

text \<open>
  \<open>invalidate_tenant\<close> removes every entry of the tenant and no other entry, and its return
  value is exactly the number of entries of the tenant that were in the cache.
\<close>

theorem invalidate_tenant_exact:
  assumes "entries = fold cache_step evs []" and "cache_invalidate_tenant entries t = (n, entries')"
  shows "map_of entries' = (\<lambda>k. if ck_tenant_id k = t then None else map_of entries k) \<and>
    n = int (card {k \<in> dom (map_of entries). ck_tenant_id k = t})"
proof -
  have d: "distinct (map fst entries)"
    using cache_keys.run_inv [of "[]" evs] assms(1) by simp
  let ?ks = "filter (\<lambda>k. ck_tenant_id k = t) (map fst entries)"
  have "set ?ks = {k \<in> dom (map_of entries). ck_tenant_id k = t}"
    by (auto simp: dom_map_of_conv_image_fst)
  moreover have "card (set ?ks) = length ?ks"
    using d by (intro distinct_card) simp
  moreover have "n = int (length ?ks)"
    using assms(2) by (auto simp: cache_invalidate_tenant_def Let_def)
  moreover have "map_of entries' = (\<lambda>k. if ck_tenant_id k = t then None else map_of entries k)"
    using assms(2) cache_step_lookup [of "InvalidateTenant t" entries] by auto
  ultimately show ?thesis by simp
qed

definition demo_cache_key :: "string \<Rightarrow> CacheKey" where
  "demo_cache_key t = \<lparr>ck_tenant_id = t, ck_authorization_scope = ''s'',
     ck_authorization_policy_version = ''1'', ck_application_contract = ''c'',
     ck_input_fingerprint = ''f'', ck_prompt_contract_id = ''p'', ck_prompt_contract_revision = ''1'',
     ck_output_contract_version = ''1'', ck_tool_contract_version = ''1'',
     ck_provider_profile_revision = ''1'', ck_model_id = ''m'', ck_cache_policy_version = ''1''\<rparr>"

definition demo_cache_entry :: "string \<Rightarrow> CacheableCandidate" where
  "demo_cache_entry t = \<lparr>ce_candidate = \<lparr>cc_tenant_id = t, cc_job_id = ''j'', cc_attempt_id = ''a'',
       cc_stream_id = ''s'', cc_raw_output = ''x''\<rparr>,
     ce_resource_version = 1, ce_created_at = 0, ce_expires_at = 10,
     ce_sensitivity = CacheSensitivity.TENANT_PROTECTED\<rparr>"

theorem invalidate_tenant_exact_witness:
  "let evs = [Put (demo_cache_key ''t'') (demo_cache_entry ''t''), Put (demo_cache_key ''u'') (demo_cache_entry ''u'')];
       entries = fold cache_step evs []
   in fst (cache_invalidate_tenant entries ''t'') = int (card {k \<in> dom (map_of entries). ck_tenant_id k = ''t''})
      \<and> fst (cache_invalidate_tenant entries ''t'') = 1"
proof -
  let ?evs = "[Put (demo_cache_key ''t'') (demo_cache_entry ''t''), Put (demo_cache_key ''u'') (demo_cache_entry ''u'')]"
  have "fst (cache_invalidate_tenant (fold cache_step ?evs []) ''t'') = 1"
    by (simp add: cache_invalidate_tenant_def cache_put_def demo_cache_key_def demo_cache_entry_def)
  with invalidate_tenant_exact [OF refl prod.collapse [symmetric], of ?evs "''t''", THEN conjunct2]
  show ?thesis by (simp only: Let_def)
qed

end
