(* ===== verification/Batch_Queue.thy ===== *)
theory Batch_Queue
  imports Machines "HOL-Library.Multiset"
begin

text \<open>
  \<^verbatim>\<open>src/projects/ai-agent/src/streaming_cache_batching.py\<close>, third part: the bounded queue with its
  per-batch tenant round-robin, the pre-dispatch fence, and the mapping of a provider's batch
  response back to the items. \<open>RecoveryAction\<close> of this file is \<open>BatchRecoveryAction\<close> here.
\<close>

section \<open>Data\<close>

record BatchCompatibilityKey =
  bk_provider_profile_revision :: string
  bk_model_id :: string
  bk_parameter_policy_revision :: string
  bk_output_contract_version :: string

record BatchItem =
  bi_item_id :: string
  bi_tenant_id :: string
  bi_job_id :: string
  bi_attempt_id :: string
  bi_tool_call_id :: string
  bi_idempotency_key :: string
  bi_compatibility :: BatchCompatibilityKey
  bi_enqueued_at :: int
  bi_deadline :: int

datatype QueueAdmissionStatus = ACCEPTED | DUPLICATE_ITEM | BACKPRESSURE_REJECTED

record BoundedBatchQueue =
  bq_capacity :: int
  bq_max_batch_size :: int
  bq_max_wait :: int
  bq_max_items_per_tenant :: int
  bq_items :: "BatchItem list"
  bq_ids :: "string set"

section \<open>Queue operations\<close>

definition BoundedBatchQueue_init :: "int \<Rightarrow> int \<Rightarrow> int \<Rightarrow> int \<Rightarrow> BoundedBatchQueue res" where
  "BoundedBatchQueue_init capacity max_batch_size max_wait max_items_per_tenant =
     (if min (min (min capacity max_batch_size) max_wait) max_items_per_tenant \<le> 0
      then Inl (ValueError ''queue limits must be positive'')
      else Inr \<lparr>bq_capacity = capacity, bq_max_batch_size = max_batch_size, bq_max_wait = max_wait,
                bq_max_items_per_tenant = max_items_per_tenant, bq_items = [], bq_ids = {}\<rparr>)"

definition queue_admit :: "BoundedBatchQueue \<Rightarrow> BatchItem \<Rightarrow> QueueAdmissionStatus \<times> BoundedBatchQueue" where
  "queue_admit q item =
     (if bi_item_id item \<in> bq_ids q then (QueueAdmissionStatus.DUPLICATE_ITEM, q)
      else if int (length (bq_items q)) \<ge> bq_capacity q then (QueueAdmissionStatus.BACKPRESSURE_REJECTED, q)
      else (QueueAdmissionStatus.ACCEPTED,
            q\<lparr>bq_items := bq_items q @ [item], bq_ids := insert (bi_item_id item) (bq_ids q)\<rparr>))"

definition should_flush :: "BoundedBatchQueue \<Rightarrow> int \<Rightarrow> bool" where
  "should_flush q now =
     (case bq_items q of
        [] \<Rightarrow> False
      | oldest # _ \<Rightarrow>
          (let compatible_count = int (length (filter (\<lambda>i. bi_compatibility i = bi_compatibility oldest) (bq_items q)));
               oldest_wait = now - bi_enqueued_at oldest
           in compatible_count \<ge> bq_max_batch_size q \<or> oldest_wait \<ge> bq_max_wait q))"

text \<open>
  Grouping of the compatible items: \<open>tenant_order\<close> lists the tenants by first appearance,
  \<open>by_tenant\<close> holds the items of each tenant in queue order.
\<close>

definition group_item ::
    "BatchItem \<Rightarrow> string list \<times> (string \<rightharpoonup> BatchItem list) \<Rightarrow> string list \<times> (string \<rightharpoonup> BatchItem list)" where
  "group_item item g =
     (case g of (tenant_order, by_tenant) \<Rightarrow>
        (case by_tenant (bi_tenant_id item) of
           None \<Rightarrow> (tenant_order @ [bi_tenant_id item], by_tenant(bi_tenant_id item \<mapsto> [item]))
         | Some queue \<Rightarrow> (tenant_order, by_tenant(bi_tenant_id item \<mapsto> queue @ [item]))))"

definition group_by_tenant :: "BatchItem list \<Rightarrow> string list \<times> (string \<rightharpoonup> BatchItem list)" where
  "group_by_tenant compatible = fold group_item compatible ([], Map.empty)"

text \<open>The local variables of the selection loop of \<open>pop_batch\<close>.\<close>

record RoundRobin =
  rr_selected :: "BatchItem list"
  rr_by_tenant :: "string \<rightharpoonup> BatchItem list"
  rr_tenant_counts :: "string \<rightharpoonup> int"
  rr_progress :: bool

text \<open>
  One pass of the inner \<open>for\<close> loop over the tenants still to visit; a missing dictionary key is a
  \<open>KeyError\<close>.
\<close>

fun rr_pass :: "int \<Rightarrow> int \<Rightarrow> string list \<Rightarrow> RoundRobin \<Rightarrow> RoundRobin res" where
  "rr_pass max_batch_size max_items_per_tenant [] s = Inr s"
| "rr_pass max_batch_size max_items_per_tenant (tenant_id # rest) s =
     (if int (length (rr_selected s)) \<ge> max_batch_size then Inr s
      else
        (case rr_tenant_counts s tenant_id of
           None \<Rightarrow> Inl (KeyError tenant_id)
         | Some cnt \<Rightarrow>
             (if cnt \<ge> max_items_per_tenant then rr_pass max_batch_size max_items_per_tenant rest s
              else
                (case rr_by_tenant s tenant_id of
                   None \<Rightarrow> Inl (KeyError tenant_id)
                 | Some [] \<Rightarrow> rr_pass max_batch_size max_items_per_tenant rest s
                 | Some (item # queue) \<Rightarrow>
                     rr_pass max_batch_size max_items_per_tenant rest
                       (s\<lparr>rr_selected := rr_selected s @ [item],
                          rr_by_tenant := (rr_by_tenant s)(tenant_id \<mapsto> queue),
                          rr_tenant_counts := (rr_tenant_counts s)(tenant_id \<mapsto> cnt + 1),
                          rr_progress := True\<rparr>)))))"

lemma rr_pass_length:
  "rr_pass b m ts s = Inr s' \<Longrightarrow>
     length (rr_selected s) \<le> length (rr_selected s') \<and>
     (rr_progress s' \<longrightarrow> rr_progress s \<or> length (rr_selected s) < length (rr_selected s'))"
  by (induction b m ts s rule: rr_pass.induct)
    (fastforce split: if_splits option.splits list.splits)+

text \<open>The outer \<open>while\<close> loop.\<close>

function rr_loop :: "int \<Rightarrow> int \<Rightarrow> string list \<Rightarrow> RoundRobin \<Rightarrow> RoundRobin res" where
  "rr_loop max_batch_size max_items_per_tenant tenant_order s =
     (if int (length (rr_selected s)) < max_batch_size
      then case rr_pass max_batch_size max_items_per_tenant tenant_order (s\<lparr>rr_progress := False\<rparr>) of
             Inl e \<Rightarrow> Inl e
           | Inr s' \<Rightarrow>
               if \<not> rr_progress s' then Inr s'
               else rr_loop max_batch_size max_items_per_tenant tenant_order s'
      else Inr s)"
  by pat_completeness auto

termination
proof (relation "measure (\<lambda>(b, m, ts, s). nat (b - int (length (rr_selected s))))")
  fix b m :: int and ts s s'
  assume "int (length (rr_selected s)) < b" and "rr_pass b m ts (s\<lparr>rr_progress := False\<rparr>) = Inr s'"
    and "\<not> \<not> rr_progress s'"
  then show "((b, m, ts, s'), (b, m, ts, s)) \<in> measure (\<lambda>(b, m, ts, s). nat (b - int (length (rr_selected s))))"
    using rr_pass_length [of b m ts "s\<lparr>rr_progress := False\<rparr>" s'] by auto
qed simp

declare rr_loop.simps [simp del]

definition pop_batch :: "BoundedBatchQueue \<Rightarrow> int \<Rightarrow> (BatchItem list \<times> BoundedBatchQueue) res" where
  "pop_batch q now =
     (if \<not> should_flush q now then Inr ([], q)
      else
        let compatibility = bi_compatibility (hd (bq_items q));
            compatible = filter (\<lambda>i. bi_compatibility i = compatibility) (bq_items q);
            (tenant_order, by_tenant) = group_by_tenant compatible
        in case rr_loop (bq_max_batch_size q) (bq_max_items_per_tenant q) tenant_order
                 \<lparr>rr_selected = [], rr_by_tenant = by_tenant,
                  rr_tenant_counts = (\<lambda>t. if t \<in> set tenant_order then Some 0 else None),
                  rr_progress = False\<rparr> of
             Inl e \<Rightarrow> Inl e
           | Inr s \<Rightarrow>
               let selected_ids = set (map bi_item_id (rr_selected s))
               in Inr (rr_selected s,
                       q\<lparr>bq_items := filter (\<lambda>i. bi_item_id i \<notin> selected_ids) (bq_items q),
                         bq_ids := bq_ids q - selected_ids\<rparr>))"

definition queue_len :: "BoundedBatchQueue \<Rightarrow> int" where
  "queue_len q = int (length (bq_items q))"

section \<open>Reference definition of the round-robin\<close>

text \<open>
  Round \<open>k\<close> takes the \<open>k\<close>-th item of every tenant that has one, in tenant order; a batch is a
  prefix of the rounds \<open>0, 1, ..., m - 1\<close>.
\<close>

definition rr_round :: "string list \<Rightarrow> (string \<Rightarrow> BatchItem list) \<Rightarrow> nat \<Rightarrow> BatchItem list" where
  "rr_round ts G k = concat (map (\<lambda>t. if k < length (G t) then [G t ! k] else []) ts)"

definition rr_rounds :: "string list \<Rightarrow> (string \<Rightarrow> BatchItem list) \<Rightarrow> nat \<Rightarrow> nat \<Rightarrow> BatchItem list" where
  "rr_rounds ts G k m = concat (map (rr_round ts G) [k..<m])"

definition rr_level :: "(string \<Rightarrow> BatchItem list) \<Rightarrow> nat \<Rightarrow> nat \<Rightarrow> RoundRobin \<Rightarrow> string \<Rightarrow> bool" where
  "rr_level G m k s t \<longleftrightarrow>
     rr_tenant_counts s t = Some (int (min k (min m (length (G t))))) \<and>
     rr_by_tenant s t = Some (drop (min k (min m (length (G t)))) (G t))"

lemma rr_round_Nil [simp]: "rr_round [] G k = []"
  by (simp add: rr_round_def)

lemma rr_round_Cons [simp]:
  "rr_round (t # ts) G k = (if k < length (G t) then [G t ! k] else []) @ rr_round ts G k"
  by (simp add: rr_round_def)

lemma rr_rounds_step: "k < m \<Longrightarrow> rr_rounds ts G k m = rr_round ts G k @ rr_rounds ts G (Suc k) m"
  by (simp add: rr_rounds_def upt_conv_Cons)

lemma rr_rounds_done: "m \<le> k \<Longrightarrow> rr_rounds ts G k m = []"
  by (simp add: rr_rounds_def)

lemma rr_rounds_empty:
  assumes "rr_round ts G k = []"
  shows "rr_rounds ts G k m = []"
proof -
  have "rr_round ts G k' = []" if "k \<le> k'" for k'
    using assms that by (induction ts) (auto split: if_splits)
  then show ?thesis by (auto simp: rr_rounds_def)
qed

text \<open>A visited tenant moves up one level; its item joins the selection if it has one.\<close>

lemma rr_level_stay: "rr_level G m k s t \<Longrightarrow> min m (length (G t)) \<le> k \<Longrightarrow> rr_level G m (Suc k) s t"
  by (simp add: rr_level_def min_def split: if_splits)

lemma rr_pass_rounds:
  assumes "distinct (seen @ rest)"
    and "\<forall>t \<in> set seen. rr_level G m (Suc k) s t" and "\<forall>t \<in> set rest. rr_level G m k s t"
    and "length (rr_selected s) \<le> b" and "k < m"
  shows "\<exists>s'. rr_pass (int b) (int m) rest s = Inr s' \<and>
    rr_selected s' = take b (rr_selected s @ rr_round rest G k) \<and>
    (length (rr_selected s') < b \<longrightarrow>
       (\<forall>t \<in> set (seen @ rest). rr_level G m (Suc k) s' t) \<and>
       rr_progress s' = (rr_progress s \<or> rr_round rest G k \<noteq> []))"
  using assms
proof (induction rest arbitrary: seen s)
  case Nil
  then show ?case by simp
next
  case (Cons t rest)
  have lev: "rr_level G m k s t" using Cons.prems(3) by simp
  show ?case
  proof (cases "length (rr_selected s) = b")
    case True
    then show ?thesis by simp
  next
    case False
    then have lt: "length (rr_selected s) < b" using Cons.prems(4) by simp
    show ?thesis
    proof (cases "k < length (G t)")
      case False
      then have skip: "rr_pass (int b) (int m) (t # rest) s = rr_pass (int b) (int m) rest s"
        using lev lt by (auto simp: rr_level_def min_def split: if_splits)
      have up: "rr_level G m (Suc k) s t" using lev False by (intro rr_level_stay) auto
      with Cons.IH [of "seen @ [t]" s] Cons.prems False show ?thesis
        unfolding skip by auto
    next
      case True
      define s1 where "s1 = s\<lparr>rr_selected := rr_selected s @ [G t ! k],
                  rr_by_tenant := (rr_by_tenant s)(t \<mapsto> drop (Suc k) (G t)),
                  rr_tenant_counts := (rr_tenant_counts s)(t \<mapsto> int k + 1), rr_progress := True\<rparr>"
      have "rr_by_tenant s t = Some (G t ! k # drop (Suc k) (G t))" "rr_tenant_counts s t = Some (int k)"
        using lev True \<open>k < m\<close> by (simp_all add: rr_level_def Cons_nth_drop_Suc)
      then have step: "rr_pass (int b) (int m) (t # rest) s = rr_pass (int b) (int m) rest s1"
        using lt \<open>k < m\<close> by (simp add: s1_def)
      have "rr_level G m (Suc k) s1 t" using True \<open>k < m\<close> by (simp add: rr_level_def s1_def)
      moreover have "rr_level G m l s1 u = rr_level G m l s u" if "u \<noteq> t" for l u
        using that by (simp add: rr_level_def s1_def)
      ultimately have "\<forall>u \<in> set (seen @ [t]). rr_level G m (Suc k) s1 u" "\<forall>u \<in> set rest. rr_level G m k s1 u"
        using Cons.prems(1-3) by (metis Un_iff distinct.simps(2) distinct_append empty_iff list.set_intros(2)
            list.simps(15) set_append set_ConsD list.set(1))+
      moreover have "rr_selected s1 = rr_selected s @ [G t ! k]" "rr_progress s1" by (simp_all add: s1_def)
      ultimately show ?thesis
        using Cons.IH [of "seen @ [t]" s1] Cons.prems(1,5) lt True unfolding step by auto
    qed
  qed
qed

lemma rr_loop_rounds:
  assumes "distinct ts" and "\<forall>t \<in> set ts. rr_level G m k s t" and "length (rr_selected s) \<le> b" and "k \<le> m"
  shows "\<exists>s'. rr_loop (int b) (int m) ts s = Inr s' \<and>
    rr_selected s' = take b (rr_selected s @ rr_rounds ts G k m)"
  using assms
proof (induction "Suc m - k" arbitrary: k s)
  case 0
  then show ?case by simp
next
  case (Suc n)
  show ?case
  proof (cases "length (rr_selected s) < b")
    case False
    with Suc.prems(3) show ?thesis by (subst rr_loop.simps) simp
  next
    case lt: True
    let ?s = "s\<lparr>rr_progress := False\<rparr>"
    show ?thesis
    proof (cases "k < m")
      case True
      have "\<forall>t \<in> set ts. rr_level G m k ?s t" using Suc.prems(2) by (simp add: rr_level_def)
      with rr_pass_rounds [of "[]" ts G m k ?s b] Suc.prems True
      obtain s' where pass: "rr_pass (int b) (int m) ts ?s = Inr s'"
        and sel: "rr_selected s' = take b (rr_selected s @ rr_round ts G k)"
        and more: "length (rr_selected s') < b \<Longrightarrow> (\<forall>t \<in> set ts. rr_level G m (Suc k) s' t) \<and>
           rr_progress s' = (rr_round ts G k \<noteq> [])"
        by auto
      show ?thesis
      proof (cases "length (rr_selected s') < b")
        case False
        with sel have "rr_selected s' = take b (rr_selected s @ rr_rounds ts G k m)"
          using True by (simp add: rr_rounds_step)
        with False lt pass show ?thesis
          by (subst rr_loop.simps) (auto simp: rr_loop.simps [of _ _ _ s'])
      next
        case short: True
        with sel have sel': "rr_selected s' = rr_selected s @ rr_round ts G k" by auto
        show ?thesis
        proof (cases "rr_round ts G k = []")
          case True
          with sel' more [OF short] lt pass rr_rounds_empty [OF True] show ?thesis
            by (subst rr_loop.simps) simp
        next
          case False
          have "n = Suc m - Suc k" using Suc.hyps(2) by simp
          then obtain s'' where "rr_loop (int b) (int m) ts s' = Inr s''"
            "rr_selected s'' = take b (rr_selected s' @ rr_rounds ts G (Suc k) m)"
            using Suc.hyps(1) [of "Suc k" s'] Suc.prems(1) more [OF short] short True by auto
          with False sel' more [OF short] lt pass True show ?thesis
            by (subst rr_loop.simps) (simp add: rr_rounds_step)
        qed
      qed
    next
      case False
      with Suc.prems(4) have "k = m" by simp
      have "rr_pass (int b) (int m) us u = Inr u" if "\<forall>t \<in> set us. rr_level G m m u t" for us u
        using that by (induction us) (auto simp: rr_level_def min_def split: if_splits option.splits)
      then have "rr_pass (int b) (int m) ts ?s = Inr ?s"
        using Suc.prems(2) \<open>k = m\<close> by (simp add: rr_level_def)
      with lt \<open>k = m\<close> show ?thesis by (subst rr_loop.simps) (simp add: rr_rounds_done)
    qed
  qed
qed

section \<open>Grouping and the whole selection\<close>

definition tenant_items :: "BatchItem list \<Rightarrow> string \<Rightarrow> BatchItem list" where
  "tenant_items items t = filter (\<lambda>i. bi_tenant_id i = t) items"

definition tenants_in_order :: "BatchItem list \<Rightarrow> string list" where
  "tenants_in_order items = rev (remdups (rev (map bi_tenant_id items)))"

lemma set_tenants_in_order: "set (tenants_in_order items) = bi_tenant_id ` set items"
  by (simp add: tenants_in_order_def)

lemma distinct_tenants_in_order: "distinct (tenants_in_order items)"
  by (simp add: tenants_in_order_def)

lemma group_by_tenant_eq:
  "group_by_tenant items =
     (tenants_in_order items,
      \<lambda>t. if t \<in> bi_tenant_id ` set items then Some (tenant_items items t) else None)"
proof (induction items rule: rev_induct)
  case Nil
  then show ?case by (simp add: group_by_tenant_def tenants_in_order_def)
next
  case (snoc item items)
  have "group_by_tenant (items @ [item]) = group_item item (group_by_tenant items)"
    by (simp add: group_by_tenant_def)
  then show ?case
    unfolding snoc
    by (auto simp: group_item_def tenants_in_order_def tenant_items_def fun_eq_iff filter_empty_conv)
      (metis image_eqI)
qed

definition head_compatible :: "BoundedBatchQueue \<Rightarrow> BatchItem list" where
  "head_compatible q =
     filter (\<lambda>i. bi_compatibility i = bi_compatibility (hd (bq_items q))) (bq_items q)"

text \<open>The reference batch: the first \<open>max_batch_size\<close> items of the rounds.\<close>

definition reference_batch :: "BoundedBatchQueue \<Rightarrow> int \<Rightarrow> BatchItem list" where
  "reference_batch q now =
     (if should_flush q now
      then take (nat (bq_max_batch_size q))
        (rr_rounds (tenants_in_order (head_compatible q)) (tenant_items (head_compatible q)) 0
           (nat (bq_max_items_per_tenant q)))
      else [])"

definition rr_initial :: "BatchItem list \<Rightarrow> RoundRobin" where
  "rr_initial items =
     \<lparr>rr_selected = [],
      rr_by_tenant = (\<lambda>t. if t \<in> bi_tenant_id ` set items then Some (tenant_items items t) else None),
      rr_tenant_counts = (\<lambda>t. if t \<in> set (tenants_in_order items) then Some 0 else None),
      rr_progress = False\<rparr>"

lemma rr_loop_initial:
  assumes "0 < b" and "0 < m"
  shows "\<exists>s'. rr_loop b m (tenants_in_order items) (rr_initial items) = Inr s' \<and>
    rr_selected s' = take (nat b) (rr_rounds (tenants_in_order items) (tenant_items items) 0 (nat m))"
proof -
  have "\<forall>t \<in> set (tenants_in_order items). rr_level (tenant_items items) (nat m) 0 (rr_initial items) t"
    by (simp add: rr_level_def rr_initial_def set_tenants_in_order)
  with rr_loop_rounds [OF distinct_tenants_in_order, of items "tenant_items items" "nat m" 0 "rr_initial items" "nat b"]
  show ?thesis using assms by (simp add: rr_initial_def)
qed

definition queue_limits :: "BoundedBatchQueue \<Rightarrow> bool" where
  "queue_limits q \<longleftrightarrow> 0 < bq_capacity q \<and> 0 < bq_max_batch_size q \<and> 0 < bq_max_wait q \<and>
     0 < bq_max_items_per_tenant q"

lemma pop_batch_reference:
  assumes "queue_limits q"
  shows "pop_batch q now = Inr (reference_batch q now,
    q\<lparr>bq_items := filter (\<lambda>i. bi_item_id i \<notin> bi_item_id ` set (reference_batch q now)) (bq_items q),
      bq_ids := bq_ids q - bi_item_id ` set (reference_batch q now)\<rparr>)"
proof (cases "should_flush q now")
  case True
  with rr_loop_initial [of "bq_max_batch_size q" "bq_max_items_per_tenant q" "head_compatible q"] assms
  show ?thesis
    by (auto simp: pop_batch_def Let_def group_by_tenant_eq reference_batch_def queue_limits_def
        simp flip: head_compatible_def rr_initial_def)
next
  case False
  then show ?thesis by (simp add: pop_batch_def reference_batch_def)
qed

section \<open>What a batch contains\<close>

lemma filter_rr_round:
  assumes "distinct ts" and "t \<in> set ts" and "\<And>u i. i \<in> set (G u) \<Longrightarrow> bi_tenant_id i = u"
  shows "tenant_items (rr_round ts G k) t = (if k < length (G t) then [G t ! k] else [])"
  using assms(1,2)
proof (induction ts)
  case (Cons u ts)
  have other: "tenant_items (rr_round us G k) t = []" if "t \<notin> set us" for us
    using that assms(3) by (induction us) (auto simp: tenant_items_def)
  have own: "k < length (G u) \<Longrightarrow> bi_tenant_id (G u ! k) = u" using assms(3) by simp
  with Cons other [of ts] show ?case by (cases "t = u") (auto simp: tenant_items_def)
qed simp

lemma filter_rr_rounds:
  assumes "distinct ts" and "t \<in> set ts" and "\<And>u i. i \<in> set (G u) \<Longrightarrow> bi_tenant_id i = u"
  shows "tenant_items (rr_rounds ts G 0 m) t = take m (G t)"
proof (induction m)
  case 0
  then show ?case by (simp add: rr_rounds_def tenant_items_def)
next
  case (Suc m)
  have "tenant_items (rr_rounds ts G 0 (Suc m)) t =
      tenant_items (rr_rounds ts G 0 m) t @ tenant_items (rr_round ts G m) t"
    by (simp add: rr_rounds_def tenant_items_def)
  with Suc filter_rr_round [OF assms] show ?case by (simp add: take_Suc_conv_app_nth)
qed

lemma tenant_of_rr_rounds: "i \<in> set (rr_rounds ts G k m) \<Longrightarrow> \<exists>t \<in> set ts. i \<in> set (G t)"
  by (auto simp: rr_rounds_def rr_round_def split: if_splits) (use nth_mem in blast)

lemma prefix_filter_take: "prefix (filter P (take n xs)) (filter P xs)"
  by (metis append_take_drop_id filter_append prefixI)

lemma tenant_items_own: "i \<in> set (tenant_items items u) \<Longrightarrow> bi_tenant_id i = u"
  by (simp add: tenant_items_def)

lemma reference_batch_tenant:
  "\<exists>n \<le> nat (bq_max_items_per_tenant q).
     tenant_items (reference_batch q now) t = take n (tenant_items (head_compatible q) t)"
proof (cases "should_flush q now \<and> t \<in> set (tenants_in_order (head_compatible q))")
  case True
  let ?m = "nat (bq_max_items_per_tenant q)"
  let ?all = "rr_rounds (tenants_in_order (head_compatible q)) (tenant_items (head_compatible q)) 0 ?m"
  have all: "tenant_items ?all t = take ?m (tenant_items (head_compatible q) t)"
    using True by (intro filter_rr_rounds distinct_tenants_in_order) (auto simp: tenant_items_own)
  have "prefix (tenant_items (reference_batch q now) t) (tenant_items ?all t)"
    using True by (simp add: reference_batch_def tenant_items_def prefix_filter_take)
  then obtain n where "tenant_items (reference_batch q now) t = take n (take ?m (tenant_items (head_compatible q) t))"
    unfolding all by (metis append_eq_conv_conj prefixE)
  then show ?thesis by (intro exI [of _ "min n ?m"]) (simp add: min.commute)
next
  case False
  have "tenant_items (reference_batch q now) t = []"
  proof (cases "should_flush q now")
    case flush: True
    have "bi_tenant_id i \<noteq> t" if "i \<in> set (reference_batch q now)" for i
    proof -
      from that flush obtain u where "u \<in> set (tenants_in_order (head_compatible q))"
        "i \<in> set (tenant_items (head_compatible q) u)"
        by (auto simp: reference_batch_def dest!: in_set_takeD tenant_of_rr_rounds)
      with False flush show ?thesis using tenant_items_own by blast
    qed
    then show ?thesis by (auto simp: tenant_items_def filter_empty_conv)
  qed (simp add: reference_batch_def tenant_items_def)
  then show ?thesis by (intro exI [of _ 0]) simp
qed

lemma reference_batch_subset: "mset (reference_batch q now) \<subseteq># mset (head_compatible q)"
proof (rule mset_subset_eqI)
  fix i :: BatchItem
  let ?t = "bi_tenant_id i"
  have own: "count (mset (tenant_items xs ?t)) i = count (mset xs) i" for xs
    by (simp add: tenant_items_def mset_filter)
  obtain n where "tenant_items (reference_batch q now) ?t = take n (tenant_items (head_compatible q) ?t)"
    using reference_batch_tenant by blast
  then have "mset (tenant_items (reference_batch q now) ?t) \<subseteq># mset (tenant_items (head_compatible q) ?t)"
    by (metis append_take_drop_id mset_append mset_subset_eq_add_left)
  then show "count (mset (reference_batch q now)) i \<le> count (mset (head_compatible q)) i"
    by (metis own mset_subset_eq_count)
qed

lemma head_compatible_subset: "mset (head_compatible q) \<subseteq># mset (bq_items q)"
  by (simp add: head_compatible_def mset_filter)

lemma reference_batch_length: "0 < bq_max_batch_size q \<Longrightarrow> int (length (reference_batch q now)) \<le> bq_max_batch_size q"
  by (auto simp: reference_batch_def)

text \<open>The head of the queue is always taken: a flush makes progress.\<close>

lemma reference_batch_nonempty:
  assumes "queue_limits q"
  shows "reference_batch q now \<noteq> [] \<longleftrightarrow> should_flush q now"
proof
  assume flush: "should_flush q now"
  then obtain x xs where items: "bq_items q = x # xs" by (auto simp: should_flush_def split: list.splits)
  let ?ts = "tenants_in_order (head_compatible q)" and ?G = "tenant_items (head_compatible q)"
  have "x \<in> set (head_compatible q)" using items by (simp add: head_compatible_def)
  then have t: "bi_tenant_id x \<in> set ?ts" and G: "?G (bi_tenant_id x) \<noteq> []"
    by (auto simp: set_tenants_in_order tenant_items_def filter_empty_conv)
  have "0 < nat (bq_max_items_per_tenant q)" using assms by (simp add: queue_limits_def)
  then have "take (nat (bq_max_items_per_tenant q)) (?G (bi_tenant_id x)) \<noteq> []" using G by simp
  moreover have "tenant_items (rr_rounds ?ts ?G 0 (nat (bq_max_items_per_tenant q))) (bi_tenant_id x) =
      take (nat (bq_max_items_per_tenant q)) (?G (bi_tenant_id x))"
    by (rule filter_rr_rounds [OF distinct_tenants_in_order t]) (rule tenant_items_own)
  ultimately have "rr_rounds ?ts ?G 0 (nat (bq_max_items_per_tenant q)) \<noteq> []"
    by (metis filter.simps(1) tenant_items_def)
  with flush assms show "reference_batch q now \<noteq> []" by (simp add: reference_batch_def queue_limits_def)
qed (auto simp: reference_batch_def split: if_splits)

section \<open>The queue as a machine\<close>

datatype QueueEvent = Admit BatchItem | PopBatch int

fun queue_step :: "QueueEvent \<Rightarrow> BoundedBatchQueue \<Rightarrow> BoundedBatchQueue" where
  "queue_step (Admit item) q = snd (queue_admit q item)"
| "queue_step (PopBatch now) q = (case pop_batch q now of Inl _ \<Rightarrow> q | Inr (_, q') \<Rightarrow> q')"

text \<open>What a request lets into and out of the queue.\<close>

fun queue_in :: "QueueEvent \<Rightarrow> BoundedBatchQueue \<Rightarrow> BatchItem list" where
  "queue_in (Admit item) q = (if fst (queue_admit q item) = QueueAdmissionStatus.ACCEPTED then [item] else [])"
| "queue_in (PopBatch now) q = []"

fun queue_out :: "QueueEvent \<Rightarrow> BoundedBatchQueue \<Rightarrow> BatchItem list" where
  "queue_out (Admit item) q = []"
| "queue_out (PopBatch now) q = (case pop_batch q now of Inl _ \<Rightarrow> [] | Inr (batch, _) \<Rightarrow> batch)"

fun queue_trace :: "(QueueEvent \<Rightarrow> BoundedBatchQueue \<Rightarrow> BatchItem list) \<Rightarrow> QueueEvent list \<Rightarrow> BoundedBatchQueue \<Rightarrow> BatchItem list" where
  "queue_trace f [] q = []"
| "queue_trace f (ev # evs) q = f ev q @ queue_trace f evs (queue_step ev q)"

definition queue_inv :: "BoundedBatchQueue \<Rightarrow> bool" where
  "queue_inv q \<longleftrightarrow> queue_limits q \<and> int (length (bq_items q)) \<le> bq_capacity q \<and>
     distinct (map bi_item_id (bq_items q)) \<and> bq_ids q = bi_item_id ` set (bq_items q)"

lemma queue_init_inv: "BoundedBatchQueue_init c b w m = Inr q \<Longrightarrow> queue_inv q"
  by (auto simp: BoundedBatchQueue_init_def queue_inv_def queue_limits_def split: if_splits)

text \<open>With distinct ids, dropping the selected ids drops exactly the selected items.\<close>

lemma filter_ids_mset:
  assumes "distinct (map bi_item_id items)" and "mset batch \<subseteq># mset items"
  shows "mset items = mset batch + mset (filter (\<lambda>i. bi_item_id i \<notin> bi_item_id ` set batch) items)"
proof -
  have sub: "set batch \<subseteq> set items" using assms(2) by (metis set_mset_mono set_mset_mset)
  have inj: "inj_on bi_item_id (set items)" using assms(1) by (simp add: distinct_map)
  have "bi_item_id i \<in> bi_item_id ` set batch \<longleftrightarrow> i \<in> set batch" if "i \<in> set items" for i
    using inj that sub by (rule inj_on_image_mem_iff)
  then have keep: "filter (\<lambda>i. bi_item_id i \<notin> bi_item_id ` set batch) items = filter (\<lambda>i. i \<notin> set batch) items"
    by (intro filter_cong) auto
  have d: "distinct items" using assms(1) by (simp add: distinct_map)
  obtain rest where "mset items = mset (batch @ rest)"
    using assms(2) by (metis ex_mset mset_append mset_subset_eq_exists_conv)
  then have "distinct batch" using d by (metis distinct_append mset_eq_imp_distinct_iff)
  moreover have "set batch = set (filter (\<lambda>i. i \<in> set batch) items)" using sub by auto
  ultimately have "mset batch = mset (filter (\<lambda>i. i \<in> set batch) items)"
    using d by (simp only: set_eq_iff_mset_eq_distinct distinct_filter)
  then show ?thesis unfolding keep by (simp only: mset_filter) (rule multiset_partition)
qed

lemma reference_batch_items: "mset (reference_batch q now) \<subseteq># mset (bq_items q)"
  using reference_batch_subset head_compatible_subset by (rule subset_mset.order_trans)

lemma queue_step_inv: "queue_inv q \<Longrightarrow> queue_inv (queue_step ev q)"
proof (cases ev)
  case (Admit item)
  assume "queue_inv q"
  with Admit show ?thesis
    by (auto simp: queue_admit_def queue_inv_def queue_limits_def)
next
  case (PopBatch now)
  assume inv: "queue_inv q"
  then have ok: "pop_batch q now = Inr (reference_batch q now,
    q\<lparr>bq_items := filter (\<lambda>i. bi_item_id i \<notin> bi_item_id ` set (reference_batch q now)) (bq_items q),
      bq_ids := bq_ids q - bi_item_id ` set (reference_batch q now)\<rparr>)"
    by (intro pop_batch_reference) (simp add: queue_inv_def)
  let ?keep = "filter (\<lambda>i. bi_item_id i \<notin> bi_item_id ` set (reference_batch q now)) (bq_items q)"
  have "length ?keep \<le> length (bq_items q)" by (rule length_filter_le)
  moreover have "int (length (bq_items q)) \<le> bq_capacity q" using inv by (simp add: queue_inv_def)
  ultimately have "int (length ?keep) \<le> bq_capacity q" by linarith
  moreover have "distinct (map bi_item_id ?keep)"
    using inv by (simp add: queue_inv_def distinct_map_filter)
  ultimately show ?thesis
    using inv PopBatch ok by (auto simp: queue_inv_def queue_limits_def)
qed

interpretation batch_queue: invariant_machine queue_step queue_inv
  by unfold_locales (rule queue_step_inv)

lemma queue_step_conserves:
  assumes "queue_inv q"
  shows "mset (bq_items q) + mset (queue_in ev q) = mset (queue_out ev q) + mset (bq_items (queue_step ev q))"
proof (cases ev)
  case (Admit item)
  then show ?thesis by (auto simp: queue_admit_def)
next
  case (PopBatch now)
  with assms filter_ids_mset [OF _ reference_batch_items, of q now] show ?thesis
    by (simp add: pop_batch_reference queue_inv_def)
qed

lemma queue_run_conserves:
  "queue_inv q \<Longrightarrow>
     mset (bq_items q) + mset (queue_trace queue_in evs q) =
     mset (queue_trace queue_out evs q) + mset (bq_items (fold queue_step evs q))"
proof (induction evs arbitrary: q)
  case (Cons ev evs)
  from Cons.IH [OF queue_step_inv [OF Cons.prems]] queue_step_conserves [OF Cons.prems, of ev]
  show ?case by (simp add: ac_simps) (metis add.commute add.left_commute)
qed simp

section \<open>Fairness\<close>

lemma take_rr_rounds:
  "\<exists>k j. take b (rr_rounds ts G 0 m) = rr_rounds ts G 0 k @ take j (rr_round ts G k)"
proof (induction m)
  case 0
  have "take b (rr_rounds ts G 0 0) = rr_rounds ts G 0 0 @ take 0 (rr_round ts G 0)"
    by (simp add: rr_rounds_def)
  then show ?case by blast
next
  case (Suc m)
  have app: "rr_rounds ts G 0 (Suc m) = rr_rounds ts G 0 m @ rr_round ts G m"
    by (simp add: rr_rounds_def)
  show ?case
  proof (cases "b \<le> length (rr_rounds ts G 0 m)")
    case True
    with Suc show ?thesis by (simp add: app)
  next
    case False
    then have "take b (rr_rounds ts G 0 (Suc m)) =
        rr_rounds ts G 0 m @ take (b - length (rr_rounds ts G 0 m)) (rr_round ts G m)"
      by (simp add: app)
    then show ?thesis by blast
  qed
qed

lemma tenant_items_none: "t \<notin> set (tenants_in_order items) \<Longrightarrow> tenant_items items t = []"
  by (auto simp: set_tenants_in_order tenant_items_def filter_empty_conv)

lemma tenant_items_append [simp]: "tenant_items (xs @ ys) t = tenant_items xs t @ tenant_items ys t"
  by (simp add: tenant_items_def)

lemma length_tenant_round:
  assumes "distinct ts" and "\<And>u i. i \<in> set (G u) \<Longrightarrow> bi_tenant_id i = u" and "t \<in> set ts"
  shows "length (tenant_items (take j (rr_round ts G k)) t) \<le> 1"
proof -
  have "prefix (tenant_items (take j (rr_round ts G k)) t) (tenant_items (rr_round ts G k) t)"
    unfolding tenant_items_def by (rule prefix_filter_take)
  moreover have "tenant_items (rr_round ts G k) t = (if k < length (G t) then [G t ! k] else [])"
    using assms by (intro filter_rr_round)
  ultimately show ?thesis by (auto dest!: prefix_length_le split: if_splits)
qed

lemma round_robin_fair:
  assumes "distinct ts" and "\<And>u i. i \<in> set (G u) \<Longrightarrow> bi_tenant_id i = u"
    and "t \<in> set ts" and "u \<in> set ts"
    and "length (tenant_items (take b (rr_rounds ts G 0 m)) t) < length (G t)"
  shows "length (tenant_items (take b (rr_rounds ts G 0 m)) u) \<le>
    Suc (length (tenant_items (take b (rr_rounds ts G 0 m)) t))"
proof -
  obtain k j where eq: "take b (rr_rounds ts G 0 m) = rr_rounds ts G 0 k @ take j (rr_round ts G k)"
    using take_rr_rounds by blast
  have "tenant_items (rr_rounds ts G 0 k) v = take k (G v)" if "v \<in> set ts" for v
    using assms(1,2) that by (intro filter_rr_rounds)
  moreover have "length (tenant_items (take j (rr_round ts G k)) u) \<le> 1"
    using assms(1,2,4) by (intro length_tenant_round)
  ultimately show ?thesis
    using assms(3-5) unfolding eq by auto
qed

section \<open>Properties of the queue\<close>

text \<open>
  C4. On every queue reached from construction by any sequence of admissions and pops,
  \<open>pop_batch\<close> raises nothing, its loop ends, and it returns exactly the reference batch: the first
  \<open>max_batch_size\<close> items of the round-robin over the tenants in order of first appearance, taking
  the \<open>k\<close>-th compatible item of each tenant in round \<open>k\<close>, for at most \<open>max_items_per_tenant\<close>
  rounds. The items kept are exactly the others, in their old order.
\<close>

theorem pop_batch_is_round_robin:
  assumes "BoundedBatchQueue_init c b w m = Inr q0" and "q = fold queue_step evs q0"
  shows "pop_batch q now = Inr (reference_batch q now,
    q\<lparr>bq_items := filter (\<lambda>i. bi_item_id i \<notin> bi_item_id ` set (reference_batch q now)) (bq_items q),
      bq_ids := bq_ids q - bi_item_id ` set (reference_batch q now)\<rparr>)"
  using batch_queue.run_inv [OF queue_init_inv [OF assms(1)], of evs] assms(2)
  by (intro pop_batch_reference) (simp add: queue_inv_def)

text \<open>
  C5. Every item accepted by the queue is, after any sequence of admissions and pops, either
  still queued or was returned by exactly one pop: accepted items are the returned ones plus the
  queued ones, as multisets. The queue never exceeds its capacity, never holds two items with one
  id, and its id set is exactly the ids of the queued items.
\<close>

theorem batch_queue_conserves:
  assumes "BoundedBatchQueue_init c b w m = Inr q0"
  shows "mset (queue_trace queue_in evs q0) =
      mset (queue_trace queue_out evs q0) + mset (bq_items (fold queue_step evs q0)) \<and>
    queue_len (fold queue_step evs q0) \<le> bq_capacity (fold queue_step evs q0) \<and>
    distinct (map bi_item_id (bq_items (fold queue_step evs q0))) \<and>
    bq_ids (fold queue_step evs q0) = bi_item_id ` set (bq_items (fold queue_step evs q0))"
proof -
  have inv: "queue_inv q0" by (rule queue_init_inv [OF assms])
  moreover have "bq_items q0 = []"
    using assms by (auto simp: BoundedBatchQueue_init_def split: if_splits)
  ultimately show ?thesis
    using queue_run_conserves [of q0 evs] batch_queue.run_inv [of q0 evs]
    by (simp add: queue_inv_def queue_len_def)
qed

text \<open>
  A popped batch is bounded and fair: it is non-empty exactly when a flush is due, has at most
  \<open>max_batch_size\<close> items, all compatible with the oldest queued item, holds for every tenant a
  prefix (in queue order) of that tenant's compatible items of at most \<open>max_items_per_tenant\<close>
  items, and no tenant receives more than one item more than a tenant that still has compatible
  items waiting.
\<close>

theorem pop_batch_bounded_and_fair:
  assumes "queue_inv q" and "pop_batch q now = Inr (batch, q')"
  shows "(batch \<noteq> [] \<longleftrightarrow> should_flush q now) \<and>
    int (length batch) \<le> bq_max_batch_size q \<and>
    (\<forall>i \<in> set batch. bi_compatibility i = bi_compatibility (hd (bq_items q))) \<and>
    (\<forall>t. int (length (tenant_items batch t)) \<le> bq_max_items_per_tenant q \<and>
         prefix (tenant_items batch t) (tenant_items (head_compatible q) t)) \<and>
    (\<forall>t u. length (tenant_items batch t) < length (tenant_items (head_compatible q) t) \<longrightarrow>
         should_flush q now \<longrightarrow>
         length (tenant_items batch u) \<le> Suc (length (tenant_items batch t)))"
proof (intro conjI allI impI)
  have lim: "queue_limits q" using assms(1) by (simp add: queue_inv_def)
  then have batch: "batch = reference_batch q now" using assms(2) pop_batch_reference by simp
  show "batch \<noteq> [] \<longleftrightarrow> should_flush q now" using lim batch reference_batch_nonempty by simp
  show "int (length batch) \<le> bq_max_batch_size q"
    using lim batch by (simp add: queue_limits_def reference_batch_length)
  have "set batch \<subseteq> set (head_compatible q)"
    using reference_batch_subset batch by (metis set_mset_mono set_mset_mset)
  then show "\<forall>i \<in> set batch. bi_compatibility i = bi_compatibility (hd (bq_items q))"
    by (auto simp: head_compatible_def)
  fix t
  obtain n where n: "n \<le> nat (bq_max_items_per_tenant q)"
    "tenant_items batch t = take n (tenant_items (head_compatible q) t)"
    using reference_batch_tenant batch by blast
  then show "int (length (tenant_items batch t)) \<le> bq_max_items_per_tenant q"
    using lim by (auto simp: queue_limits_def min_def)
  show "prefix (tenant_items batch t) (tenant_items (head_compatible q) t)"
    using n(2) take_is_prefix by simp
  fix u
  assume less: "length (tenant_items batch t) < length (tenant_items (head_compatible q) t)"
    and flush: "should_flush q now"
  let ?ts = "tenants_in_order (head_compatible q)"
  have t: "t \<in> set ?ts" using less tenant_items_none by fastforce
  show "length (tenant_items batch u) \<le> Suc (length (tenant_items batch t))"
  proof (cases "u \<in> set ?ts")
    case True
    have "batch = take (nat (bq_max_batch_size q)) (rr_rounds ?ts (tenant_items (head_compatible q)) 0
        (nat (bq_max_items_per_tenant q)))"
      using batch flush by (simp add: reference_batch_def)
    with less t True show ?thesis
      by (simp only:) (intro round_robin_fair distinct_tenants_in_order tenant_items_own)
  next
    case False
    then have "tenant_items (head_compatible q) u = []" by (rule tenant_items_none)
    then show ?thesis using reference_batch_tenant [of q now u] batch by auto
  qed
qed

definition demo_batch_item :: "string \<Rightarrow> string \<Rightarrow> BatchItem" where
  "demo_batch_item i t = \<lparr>bi_item_id = i, bi_tenant_id = t, bi_job_id = ''j'', bi_attempt_id = ''a'',
     bi_tool_call_id = ''tc'', bi_idempotency_key = i,
     bi_compatibility = \<lparr>bk_provider_profile_revision = ''r'', bk_model_id = ''m'',
       bk_parameter_policy_revision = ''p'', bk_output_contract_version = ''o''\<rparr>,
     bi_enqueued_at = 0, bi_deadline = 9\<rparr>"

definition demo_queue :: "BoundedBatchQueue" where
  "demo_queue = \<lparr>bq_capacity = 4, bq_max_batch_size = 2, bq_max_wait = 5, bq_max_items_per_tenant = 1,
     bq_items = [], bq_ids = {}\<rparr>"

definition demo_queue_events :: "QueueEvent list" where
  "demo_queue_events = [Admit (demo_batch_item ''a1'' ''t''), Admit (demo_batch_item ''a2'' ''t''),
     Admit (demo_batch_item ''b1'' ''u'')]"

lemma demo_queue_init: "BoundedBatchQueue_init 4 2 5 1 = Inr demo_queue"
  by (simp add: BoundedBatchQueue_init_def demo_queue_def)

lemma demo_queue_batch:
  "map bi_item_id (reference_batch (fold queue_step demo_queue_events demo_queue) 0) = [''a1'', ''b1'']"
  by code_simp

theorem pop_batch_is_round_robin_witness:
  "\<exists>batch q'. pop_batch (fold queue_step demo_queue_events demo_queue) 0 = Inr (batch, q') \<and>
     map bi_item_id batch = [''a1'', ''b1'']"
  by (intro exI conjI, rule pop_batch_is_round_robin [OF demo_queue_init refl], rule demo_queue_batch)

theorem batch_queue_conserves_witness:
  "let evs = demo_queue_events @ [PopBatch 0] in
     mset (queue_trace queue_in evs demo_queue) =
     mset (queue_trace queue_out evs demo_queue) + mset (bq_items (fold queue_step evs demo_queue))"
  using batch_queue_conserves [OF demo_queue_init, of "demo_queue_events @ [PopBatch 0]"]
  by (simp add: Let_def)

theorem pop_batch_bounded_and_fair_witness:
  "let q = fold queue_step demo_queue_events demo_queue in
     \<exists>batch q'. pop_batch q 0 = Inr (batch, q') \<and> int (length batch) \<le> bq_max_batch_size q \<and> batch \<noteq> []"
proof -
  let ?q = "fold queue_step demo_queue_events demo_queue"
  have inv: "queue_inv ?q" by (rule batch_queue.run_inv [OF queue_init_inv [OF demo_queue_init]])
  then have "pop_batch ?q 0 = Inr (reference_batch ?q 0,
    ?q\<lparr>bq_items := filter (\<lambda>i. bi_item_id i \<notin> bi_item_id ` set (reference_batch ?q 0)) (bq_items ?q),
      bq_ids := bq_ids ?q - bi_item_id ` set (reference_batch ?q 0)\<rparr>)"
    by (intro pop_batch_reference) (simp add: queue_inv_def)
  moreover from pop_batch_bounded_and_fair [OF inv this]
  have "int (length (reference_batch ?q 0)) \<le> bq_max_batch_size ?q" by blast
  moreover have "reference_batch ?q 0 \<noteq> []" using demo_queue_batch by auto
  ultimately show ?thesis unfolding Let_def by blast
qed

section \<open>Pre-dispatch fence and batch results\<close>

record CurrentItemState =
  ci_current_attempt_id :: string
  ci_authorized :: bool
  ci_cancellation_requested :: bool
  ci_terminal :: bool

datatype PreDispatchStatus =
  READY | STALE_ATTEMPT | UNAUTHORIZED | CANCELLED_BEFORE_DISPATCH | DEADLINE_EXPIRED | TERMINAL_NOOP

definition pre_dispatch_fence :: "BatchItem \<Rightarrow> CurrentItemState \<Rightarrow> int \<Rightarrow> PreDispatchStatus" where
  "pre_dispatch_fence item state now =
     (if ci_terminal state then PreDispatchStatus.TERMINAL_NOOP
      else if ci_current_attempt_id state \<noteq> bi_attempt_id item then PreDispatchStatus.STALE_ATTEMPT
      else if \<not> ci_authorized state then PreDispatchStatus.UNAUTHORIZED
      else if ci_cancellation_requested state then PreDispatchStatus.CANCELLED_BEFORE_DISPATCH
      else if now \<ge> bi_deadline item then PreDispatchStatus.DEADLINE_EXPIRED
      else PreDispatchStatus.READY)"

datatype BatchItemOutcome =
  GUARDED_SUCCEEDED | OUTPUT_SCHEMA_INVALID | DEFINITELY_NOT_ACCEPTED | UNAUTHORIZED | TIMEOUT_UNKNOWN

datatype BatchRecoveryAction = COMPLETE | REJECT | RETRY_NEW_ATTEMPT | RECONCILE

record ProviderBatchItemResult =
  pr_item_id :: string
  pr_outcome :: BatchItemOutcome

record BatchItemResult =
  br_item_id :: string
  br_tenant_id :: string
  br_job_id :: string
  br_attempt_id :: string
  br_outcome :: BatchItemOutcome
  br_recovery :: BatchRecoveryAction

datatype BatchEnvelopeStatus = MAPPED | ENVELOPE_FAILURE

datatype BatchSummaryStatus = SUCCEEDED | PARTIAL_SUCCESS | FAILED_OR_UNRESOLVED

record BatchResultDecision =
  bd_status :: BatchEnvelopeStatus
  bd_safe_reason_code :: string
  bd_item_results :: "BatchItemResult list"

definition recovery_for_outcome :: "BatchItemOutcome \<Rightarrow> BatchRecoveryAction" where
  "recovery_for_outcome outcome =
     (if outcome = BatchItemOutcome.GUARDED_SUCCEEDED then BatchRecoveryAction.COMPLETE
      else if outcome = BatchItemOutcome.DEFINITELY_NOT_ACCEPTED then BatchRecoveryAction.RETRY_NEW_ATTEMPT
      else if outcome = BatchItemOutcome.TIMEOUT_UNKNOWN then BatchRecoveryAction.RECONCILE
      else BatchRecoveryAction.REJECT)"

text \<open>\<open>item_by_id[result.item_id]\<close> raises \<open>KeyError\<close> when the id is missing.\<close>

definition map_result :: "(string \<times> BatchItem) list \<Rightarrow> ProviderBatchItemResult \<Rightarrow> BatchItemResult res" where
  "map_result item_by_id result =
     (case map_of item_by_id (pr_item_id result) of
        None \<Rightarrow> Inl (KeyError (pr_item_id result))
      | Some item \<Rightarrow>
          Inr \<lparr>br_item_id = pr_item_id result, br_tenant_id = bi_tenant_id item,
               br_job_id = bi_job_id item, br_attempt_id = bi_attempt_id item,
               br_outcome = pr_outcome result, br_recovery = recovery_for_outcome (pr_outcome result)\<rparr>)"

definition exact_identity :: "BatchItem list \<Rightarrow> ProviderBatchItemResult list \<Rightarrow> bool" where
  "exact_identity items results \<longleftrightarrow>
     (let item_by_id = py_dict (map (\<lambda>i. (bi_item_id i, i)) items);
          result_ids = map pr_item_id results
      in length item_by_id = length items \<and>
         card (set result_ids) = length result_ids \<and>
         set result_ids = set (map fst item_by_id))"

definition unresolved_result :: "BatchItem \<Rightarrow> BatchItemResult" where
  "unresolved_result item =
     \<lparr>br_item_id = bi_item_id item, br_tenant_id = bi_tenant_id item, br_job_id = bi_job_id item,
      br_attempt_id = bi_attempt_id item, br_outcome = BatchItemOutcome.TIMEOUT_UNKNOWN,
      br_recovery = BatchRecoveryAction.RECONCILE\<rparr>"

definition map_batch_results ::
    "BatchItem list \<Rightarrow> ProviderBatchItemResult list \<Rightarrow> BatchResultDecision res" where
  "map_batch_results items results =
     (if \<not> exact_identity items results
      then Inr \<lparr>bd_status = BatchEnvelopeStatus.ENVELOPE_FAILURE,
                bd_safe_reason_code = ''BATCH_RESULT_IDENTITY_UNRELIABLE'',
                bd_item_results = map unresolved_result items\<rparr>
      else bind_res (map_res (map_result (py_dict (map (\<lambda>i. (bi_item_id i, i)) items))) results)
        (\<lambda>mapped. Inr \<lparr>bd_status = BatchEnvelopeStatus.MAPPED,
                bd_safe_reason_code = ''BATCH_RESULTS_MAPPED_BY_EXACT_ITEM_ID'',
                bd_item_results = mapped\<rparr>))"

definition summarize_batch :: "BatchItemResult list \<Rightarrow> BatchSummaryStatus" where
  "summarize_batch results =
     (if results \<noteq> [] \<and> list_all (\<lambda>r. br_outcome r = BatchItemOutcome.GUARDED_SUCCEEDED) results
      then BatchSummaryStatus.SUCCEEDED
      else if list_ex (\<lambda>r. br_outcome r = BatchItemOutcome.GUARDED_SUCCEEDED) results
      then BatchSummaryStatus.PARTIAL_SUCCESS
      else BatchSummaryStatus.FAILED_OR_UNRESOLVED)"

definition cancellation_after_dispatch :: "BatchRecoveryAction" where
  "cancellation_after_dispatch = BatchRecoveryAction.RECONCILE"

lemma exact_identity_iff:
  "exact_identity items results \<longleftrightarrow>
     distinct (map bi_item_id items) \<and> distinct (map pr_item_id results) \<and>
     pr_item_id ` set results = bi_item_id ` set items"
proof -
  let ?kvs = "map (\<lambda>i. (bi_item_id i, i)) items"
  have "length (py_dict ?kvs) = length items \<longleftrightarrow> distinct (map bi_item_id items)"
    using length_py_dict_iff [of ?kvs] by (simp add: o_def)
  moreover have "fst ` set (py_dict ?kvs) = bi_item_id ` set items"
    using set_py_dict [of ?kvs] by (simp add: image_image)
  moreover have "card (set (map pr_item_id results)) = length (map pr_item_id results) \<longleftrightarrow>
      distinct (map pr_item_id results)"
    using card_distinct distinct_card by blast
  ultimately show ?thesis by (simp add: exact_identity_def Let_def)
qed

lemma map_result_exact:
  assumes "distinct (map bi_item_id items)" and "item \<in> set items" and "pr_item_id r = bi_item_id item"
  shows "map_result (py_dict (map (\<lambda>i. (bi_item_id i, i)) items)) r =
    Inr \<lparr>br_item_id = bi_item_id item, br_tenant_id = bi_tenant_id item, br_job_id = bi_job_id item,
         br_attempt_id = bi_attempt_id item, br_outcome = pr_outcome r,
         br_recovery = recovery_for_outcome (pr_outcome r)\<rparr>"
proof -
  let ?kvs = "map (\<lambda>i. (bi_item_id i, i)) items"
  have "distinct (map fst ?kvs)" using assms(1) by (simp add: o_def)
  moreover have "(bi_item_id item, item) \<in> set ?kvs" using assms(2) by auto
  ultimately have "map_of (py_dict ?kvs) (pr_item_id r) = Some item"
    using assms(3) by (simp only: py_dict_distinct map_of_is_SomeI)
  then show ?thesis using assms(3) by (simp add: map_result_def)
qed

definition result_of :: "BatchItem \<Rightarrow> ProviderBatchItemResult \<Rightarrow> BatchItemResult" where
  "result_of item r =
     \<lparr>br_item_id = bi_item_id item, br_tenant_id = bi_tenant_id item, br_job_id = bi_job_id item,
      br_attempt_id = bi_attempt_id item, br_outcome = pr_outcome r,
      br_recovery = recovery_for_outcome (pr_outcome r)\<rparr>"

lemma map_batch_results_mapped:
  assumes "exact_identity items results"
  shows "\<exists>mapped. map_batch_results items results =
      Inr \<lparr>bd_status = BatchEnvelopeStatus.MAPPED,
           bd_safe_reason_code = ''BATCH_RESULTS_MAPPED_BY_EXACT_ITEM_ID'', bd_item_results = mapped\<rparr> \<and>
    list_all2 (\<lambda>r b. \<exists>item. item \<in> set items \<and> bi_item_id item = pr_item_id r \<and> b = result_of item r)
      results mapped"
proof -
  let ?d = "py_dict (map (\<lambda>i. (bi_item_id i, i)) items)"
  have ids: "distinct (map bi_item_id items)" "pr_item_id ` set results = bi_item_id ` set items"
    using assms by (simp_all add: exact_identity_iff)
  have ex: "\<exists>item. item \<in> set items \<and> bi_item_id item = pr_item_id r \<and> map_result ?d r = Inr (result_of item r)"
    if "r \<in> set results" for r
  proof -
    have "pr_item_id r \<in> bi_item_id ` set items" using ids(2) that by blast
    then obtain item where "item \<in> set items" "pr_item_id r = bi_item_id item" by blast
    with map_result_exact [OF ids(1) this] show ?thesis by (auto simp: result_of_def)
  qed
  have "\<forall>r \<in> set results. \<exists>item. item \<in> set items \<and> bi_item_id item = pr_item_id r \<and>
      map_result ?d r = Inr (result_of item r)"
    using ex by blast
  from bchoice [OF this] obtain g where g: "\<And>r. r \<in> set results \<Longrightarrow>
      g r \<in> set items \<and> bi_item_id (g r) = pr_item_id r \<and> map_result ?d r = Inr (result_of (g r) r)"
    by blast
  then have "map_res (map_result ?d) results = Inr (map (\<lambda>r. result_of (g r) r) results)"
    by (intro map_res_ok) blast
  moreover have "list_all2 (\<lambda>r b. \<exists>item. item \<in> set items \<and> bi_item_id item = pr_item_id r \<and> b = result_of item r)
      results (map (\<lambda>r. result_of (g r) r) results)"
    using g by (auto simp: list_all2_map2 list_all2_same)
  ultimately show ?thesis using assms by (simp add: map_batch_results_def)
qed

lemma list_all2_outcomes:
  "list_all2 (\<lambda>r b. \<exists>item. item \<in> set items \<and> bi_item_id item = pr_item_id r \<and> b = result_of item r) results mapped
   \<Longrightarrow> map br_outcome mapped = map pr_outcome results"
  by (induction rule: list_all2_induct) (auto simp: result_of_def)

text \<open>
  C40. \<open>map_batch_results\<close> never raises. It maps exactly when the provider returned one result per
  batch item under exactly the item ids; every mapped result then carries the tenant, job and
  Attempt of the item with its id, the reported outcome and the recovery of that outcome, in the
  provider's order. Otherwise every item, in batch order and under its own identity, is recorded
  as unknown and sent to reconciliation, so no provider claim is applied. A batch is summarized as
  succeeded only for a mapped, non-empty response in which every item succeeded.
\<close>

theorem map_batch_results_exact:
  "\<exists>d. map_batch_results items results = Inr d \<and>
     (bd_status d = BatchEnvelopeStatus.MAPPED \<longleftrightarrow>
        distinct (map bi_item_id items) \<and> distinct (map pr_item_id results) \<and>
        pr_item_id ` set results = bi_item_id ` set items) \<and>
     (case bd_status d of
        BatchEnvelopeStatus.MAPPED \<Rightarrow>
          list_all2 (\<lambda>r b. \<exists>item. item \<in> set items \<and> bi_item_id item = pr_item_id r \<and> b = result_of item r)
            results (bd_item_results d)
      | BatchEnvelopeStatus.ENVELOPE_FAILURE \<Rightarrow> bd_item_results d = map unresolved_result items) \<and>
     (summarize_batch (bd_item_results d) = BatchSummaryStatus.SUCCEEDED \<longleftrightarrow>
        bd_status d = BatchEnvelopeStatus.MAPPED \<and> results \<noteq> [] \<and>
        pr_outcome ` set results \<subseteq> {BatchItemOutcome.GUARDED_SUCCEEDED})"
proof (cases "exact_identity items results")
  case True
  then obtain mapped where m: "map_batch_results items results =
      Inr \<lparr>bd_status = BatchEnvelopeStatus.MAPPED,
           bd_safe_reason_code = ''BATCH_RESULTS_MAPPED_BY_EXACT_ITEM_ID'', bd_item_results = mapped\<rparr>"
    and rel: "list_all2 (\<lambda>r b. \<exists>item. item \<in> set items \<and> bi_item_id item = pr_item_id r \<and> b = result_of item r)
      results mapped"
    using map_batch_results_mapped by blast
  have out: "set (map br_outcome mapped) = pr_outcome ` set results"
    using list_all2_outcomes [OF rel] by simp
  moreover have "mapped = [] \<longleftrightarrow> results = []" using list_all2_outcomes [OF rel] by (metis map_is_Nil_conv)
  ultimately have "summarize_batch mapped = BatchSummaryStatus.SUCCEEDED \<longleftrightarrow>
      results \<noteq> [] \<and> pr_outcome ` set results \<subseteq> {BatchItemOutcome.GUARDED_SUCCEEDED}"
    by (auto simp: summarize_batch_def list_all_iff)
  with True m rel show ?thesis by (simp add: exact_identity_iff)
next
  case False
  then show ?thesis
    by (auto simp: map_batch_results_def exact_identity_iff summarize_batch_def unresolved_result_def
        list_all_iff neq_Nil_conv)
qed

end
