(* ===== verification/Sha256.thy ===== *)
theory Sha256
  imports Prelude "HOL-Library.Word"
begin

text \<open>
  \<^verbatim>\<open>hashlib.sha256\<close> of the Python standard library (FIPS 180-4), which the sources use to derive
  identities and fingerprints. Bytes are integers from 0 to 255; the arithmetic is on 32-bit words.
\<close>

unbundle bit_operations_syntax

type_synonym u32 = "32 word"

text \<open>The round constants, the first 32 fractional bits of the cube roots of the first 64 primes.\<close>

definition sha_K :: "u32 list" where
  "sha_K = [
    1116352408, 1899447441, 3049323471, 3921009573, 961987163, 1508970993,
    2453635748, 2870763221, 3624381080, 310598401, 607225278, 1426881987,
    1925078388, 2162078206, 2614888103, 3248222580, 3835390401, 4022224774,
    264347078, 604807628, 770255983, 1249150122, 1555081692, 1996064986,
    2554220882, 2821834349, 2952996808, 3210313671, 3336571891, 3584528711,
    113926993, 338241895, 666307205, 773529912, 1294757372, 1396182291,
    1695183700, 1986661051, 2177026350, 2456956037, 2730485921, 2820302411,
    3259730800, 3345764771, 3516065817, 3600352804, 4094571909, 275423344,
    430227734, 506948616, 659060556, 883997877, 958139571, 1322822218,
    1537002063, 1747873779, 1955562222, 2024104815, 2227730452, 2361852424,
    2428436474, 2756734187, 3204031479, 3329325298]"

definition rotr :: "nat \<Rightarrow> u32 \<Rightarrow> u32" where
  "rotr n x = drop_bit n x OR push_bit (32 - n) x"

definition sha_Ch :: "u32 \<Rightarrow> u32 \<Rightarrow> u32 \<Rightarrow> u32" where
  "sha_Ch x y z = (x AND y) XOR (NOT x AND z)"

definition sha_Maj :: "u32 \<Rightarrow> u32 \<Rightarrow> u32 \<Rightarrow> u32" where
  "sha_Maj x y z = (x AND y) XOR (x AND z) XOR (y AND z)"

definition big_sigma0 :: "u32 \<Rightarrow> u32" where
  "big_sigma0 x = rotr 2 x XOR rotr 13 x XOR rotr 22 x"
definition big_sigma1 :: "u32 \<Rightarrow> u32" where
  "big_sigma1 x = rotr 6 x XOR rotr 11 x XOR rotr 25 x"
definition small_sigma0 :: "u32 \<Rightarrow> u32" where
  "small_sigma0 x = rotr 7 x XOR rotr 18 x XOR drop_bit 3 x"
definition small_sigma1 :: "u32 \<Rightarrow> u32" where
  "small_sigma1 x = rotr 17 x XOR rotr 19 x XOR drop_bit 10 x"

text \<open>The message schedule keeps the last 16 words, most recent first.\<close>

fun sha_schedule :: "nat \<Rightarrow> u32 list \<Rightarrow> u32 list" where
  "sha_schedule 0 w = w"
| "sha_schedule (Suc n) w =
     sha_schedule n ((small_sigma1 (w ! 1) + w ! 6 + small_sigma0 (w ! 14) + w ! 15) # w)"

type_synonym sha_state = "u32 \<times> u32 \<times> u32 \<times> u32 \<times> u32 \<times> u32 \<times> u32 \<times> u32"

fun sha_round :: "u32 \<times> u32 \<Rightarrow> sha_state \<Rightarrow> sha_state" where
  "sha_round (k, w) (a, b, c, d, e, f, g, h) =
     (let t1 = h + big_sigma1 e + sha_Ch e f g + k + w;
          t2 = big_sigma0 a + sha_Maj a b c
      in (t1 + t2, a, b, c, d + t1, e, f, g))"

fun sha_add :: "sha_state \<Rightarrow> sha_state \<Rightarrow> sha_state" where
  "sha_add (a, b, c, d, e, f, g, h) (a', b', c', d', e', f', g', h') =
     (a + a', b + b', c + c', d + d', e + e', f + f', g + g', h + h')"

definition sha_block :: "u32 list \<Rightarrow> sha_state \<Rightarrow> sha_state" where
  "sha_block ws s =
     sha_add s (fold sha_round (zip sha_K (rev (sha_schedule 48 (rev ws)))) s)"

definition sha_init :: sha_state where
  "sha_init = (1779033703, 3144134277, 1013904242, 2773480762,
               1359893119, 2600822924, 528734635, 1541459225)"

definition be_word :: "int list \<Rightarrow> u32" where
  "be_word bs = of_int (foldl (\<lambda>acc b. acc * 256 + b) 0 bs)"

fun sha_chunks :: "nat \<Rightarrow> 'a list \<Rightarrow> 'a list list" where
  "sha_chunks n xs = (if n = 0 \<or> xs = [] then [] else take n xs # sha_chunks n (drop n xs))"
declare sha_chunks.simps [simp del]

fun be_bytes :: "nat \<Rightarrow> int \<Rightarrow> int list" where
  "be_bytes 0 n = []"
| "be_bytes (Suc k) n = be_bytes k (n div 256) @ [n mod 256]"

definition sha_pad :: "int list \<Rightarrow> int list" where
  "sha_pad m = m @ 128 # replicate ((55 + 64 - length m mod 64) mod 64) 0
                 @ be_bytes 8 (8 * int (length m))"

definition sha_words :: "sha_state \<Rightarrow> u32 list" where
  "sha_words s = (case s of (a, b, c, d, e, f, g, h) \<Rightarrow> [a, b, c, d, e, f, g, h])"

definition sha256_bytes :: "int list \<Rightarrow> int list" where
  "sha256_bytes m =
     concat (map (be_bytes 4 \<circ> uint)
       (sha_words (fold (\<lambda>blk s. sha_block (map be_word (sha_chunks 4 blk)) s) (sha_chunks 64 (sha_pad m)) sha_init)))"

definition hex_digit :: "int \<Rightarrow> char" where
  "hex_digit n = ''0123456789abcdef'' ! nat n"

definition hexlify :: "int list \<Rightarrow> string" where
  "hexlify bs = concat (map (\<lambda>b. [hex_digit (b div 16), hex_digit (b mod 16)]) bs)"

definition sha256_digest :: "string \<Rightarrow> int list" where
  "sha256_digest s = sha256_bytes (map of_char s)"

definition sha256_hexdigest :: "string \<Rightarrow> string" where
  "sha256_hexdigest s = hexlify (sha256_digest s)"

text \<open>\<^verbatim>\<open>"\\x1f".join(parts)\<close>, hashed: the shape of almost every derived identity of the sources.\<close>

definition unit_sep :: char where
  "unit_sep = CHR 0x1F"

definition join_us :: "string list \<Rightarrow> string" where
  "join_us parts = str_join [unit_sep] parts"

lemma join_us_inj:
  assumes "join_us ps = join_us qs" and "ps \<noteq> []" and "qs \<noteq> []"
    and "\<forall>p \<in> set ps. unit_sep \<notin> set p" and "\<forall>q \<in> set qs. unit_sep \<notin> set q"
  shows "ps = qs"
  using assms unfolding join_us_def by (rule str_join_inj)

lemma length_be_bytes [simp]: "length (be_bytes k n) = k"
  by (induction k arbitrary: n) simp_all

lemma be_bytes_range: "b \<in> set (be_bytes k n) \<Longrightarrow> 0 \<le> b \<and> b < 256"
  by (induction k arbitrary: n) auto

lemma length_sha_words [simp]: "length (sha_words s) = 8"
  by (auto simp: sha_words_def split: prod.splits)

lemma length_concat_be: "length (concat (map (be_bytes k \<circ> f) ws)) = k * length ws"
  by (induction ws) simp_all

lemma length_sha256_digest: "length (sha256_digest s) = 32"
  unfolding sha256_digest_def sha256_bytes_def by (simp only: length_concat_be length_sha_words)

lemma sha256_digest_range: "b \<in> set (sha256_digest s) \<Longrightarrow> 0 \<le> b \<and> b < 256"
  by (auto simp: sha256_digest_def sha256_bytes_def dest: be_bytes_range)

lemma length_hexlify: "length (hexlify bs) = 2 * length bs"
  by (induction bs) (simp_all add: hexlify_def)

lemma length_sha256_hexdigest: "length (sha256_hexdigest s) = 64"
  by (simp add: sha256_hexdigest_def length_hexlify length_sha256_digest)

end
