(* ===== verification/Json.thy ===== *)
theory Json
  imports Prelude
begin

text \<open>
  The part of \<^verbatim>\<open>json.dumps\<close> the sources use to fingerprint data: compact separators, sorted keys and
  the default ASCII escaping of strings. A string is its UTF-8 bytes (see Prelude), so the encoder
  first decodes code points; a code point outside the printable ASCII range is written as one or
  two \<open>\uXXXX\<close> escapes.
\<close>

text \<open>Decoding of well-formed UTF-8; a malformed byte stands for itself.\<close>

definition byte_of :: "char \<Rightarrow> nat" where
  "byte_of c = of_char c"

fun utf8_decode :: "string \<Rightarrow> nat list" where
  "utf8_decode [] = []"
| "utf8_decode (a # rest) =
     (let x = byte_of a in
      if x < 192 then x # utf8_decode rest
      else if x < 224 then
        (case rest of
           b # rest' \<Rightarrow> ((x - 192) * 64 + (byte_of b - 128)) # utf8_decode rest'
         | _ \<Rightarrow> x # utf8_decode rest)
      else if x < 240 then
        (case rest of
           b # c # rest' \<Rightarrow> ((x - 224) * 4096 + (byte_of b - 128) * 64 + (byte_of c - 128)) # utf8_decode rest'
         | _ \<Rightarrow> x # utf8_decode rest)
      else
        (case rest of
           b # c # d # rest' \<Rightarrow>
             ((x - 240) * 262144 + (byte_of b - 128) * 4096 + (byte_of c - 128) * 64 + (byte_of d - 128))
               # utf8_decode rest'
         | _ \<Rightarrow> x # utf8_decode rest))"

definition hex4 :: "nat \<Rightarrow> string" where
  "hex4 n = map (\<lambda>k. ''0123456789abcdef'' ! ((n div 16 ^ k) mod 16)) [3, 2, 1, 0]"

definition json_escape :: "nat \<Rightarrow> string" where
  "json_escape n =
     (if n = 34 then [CHR 0x5C, CHR 0x22]
      else if n = 92 then [CHR 0x5C, CHR 0x5C]
      else if n = 10 then [CHR 0x5C, CHR ''n'']
      else if n = 13 then [CHR 0x5C, CHR ''r'']
      else if n = 9 then [CHR 0x5C, CHR ''t'']
      else if n = 12 then [CHR 0x5C, CHR ''f'']
      else if n = 8 then [CHR 0x5C, CHR ''b'']
      else if 32 \<le> n \<and> n \<le> 126 then [char_of n]
      else if n < 65536 then [CHR 0x5C, CHR ''u''] @ hex4 n
      else [CHR 0x5C, CHR ''u''] @ hex4 (55296 + (n - 65536) div 1024) @
           [CHR 0x5C, CHR ''u''] @ hex4 (56320 + (n - 65536) mod 1024))"

definition json_str :: "string \<Rightarrow> string" where
  "json_str s = [CHR 0x22] @ concat (map json_escape (utf8_decode s)) @ [CHR 0x22]"

datatype json =
    JNull
  | JBool bool
  | JInt int
  | JFloat string
  | JStr string
  | JList "json list"
  | JObj "(string \<times> json) list"

text \<open>
  \<open>dumps(v, sort_keys=True, separators=(",", ":"))\<close> for a given encoding of strings; the members of an
  object are given in key order. A float is given by its \<open>repr\<close>, which is what \<open>dumps\<close> writes.
\<close>

fun json_dumps_with :: "(string \<Rightarrow> string) \<Rightarrow> json \<Rightarrow> string" where
  "json_dumps_with enc JNull = ''null''"
| "json_dumps_with enc (JBool b) = (if b then ''true'' else ''false'')"
| "json_dumps_with enc (JInt n) = str_int n"
| "json_dumps_with enc (JFloat r) = r"
| "json_dumps_with enc (JStr s) = enc s"
| "json_dumps_with enc (JList vs) = ''['' @ str_join '','' (map (json_dumps_with enc) vs) @ '']''"
| "json_dumps_with enc (JObj kvs) =
     ''{'' @ str_join '','' (map (\<lambda>kv. enc (fst kv) @ '':'' @ json_dumps_with enc (snd kv)) kvs) @ ''}''"

definition json_dumps :: "json \<Rightarrow> string" where
  "json_dumps v = json_dumps_with json_str v"

text \<open>
  With \<open>ensure_ascii=False\<close> only quotes, backslashes and control characters are escaped; the bytes of
  the other code points stay as they are.
\<close>

definition json_str_utf8 :: "string \<Rightarrow> string" where
  "json_str_utf8 s =
     [CHR 0x22] @ concat (map (\<lambda>c. let n = byte_of c in if n < 32 \<or> n = 34 \<or> n = 92 then json_escape n else [c]) s) @ [CHR 0x22]"

definition json_dumps_utf8 :: "json \<Rightarrow> string" where
  "json_dumps_utf8 v = json_dumps_with json_str_utf8 v"

text \<open>The examples of the encoders: a nested value, and a string with a quote and a non-ASCII letter.\<close>

lemma json_dumps_example:
  "json_dumps (JObj [(''a'', JList [JInt 1, JBool True]), (''b'', JStr [CHR ''x'', CHR 0xC3, CHR 0xA9])]) =
   [CHR ''{'', CHR 0x22, CHR ''a'', CHR 0x22] @ '':[1,true],'' @ [CHR 0x22, CHR ''b'', CHR 0x22, CHR '':'', CHR 0x22, CHR ''x'', CHR 0x5C] @ ''u00e9'' @ [CHR 0x22, CHR ''}'']"
  by (simp add: json_dumps_def json_str_def byte_of_def json_escape_def hex4_def str_int_def str_nat.simps digit_char_def char_of_def bit_numeral_iff bit_iff_odd)

lemma json_str_utf8_example:
  "json_str_utf8 [CHR 0x22, CHR 0xC3, CHR 0xA9] = [CHR 0x22, CHR 0x5C, CHR 0x22, CHR 0xC3, CHR 0xA9, CHR 0x22]"
  by (simp add: json_str_utf8_def byte_of_def json_escape_def)

end
