(* ===== verification/Coordination.thy ===== *)
theory Coordination
  imports Machines Sha256 Json "HOL-Library.List_Lexorder" "HOL-Library.Char_ord"
begin

text \<open>
  \<^verbatim>\<open>src/projects/ai-agent/src/multi_agent_coordination.py\<close>: handoff candidates, delegated grants and
  child allocations, and the in-process coordination store with its acceptance, claim, lease
  takeover, dispatch, cancellation, result verification and aggregation. The worker behind
  \<open>WorkerPort\<close> is modelled by its deterministic fixture \<open>FakeWorker\<close>.
\<close>

section \<open>Enumerations\<close>

datatype HandoffState =
  ACCEPTED | CLAIMED | DISPATCHED | PENDING_RECONCILIATION | VERIFIED_COMPLETED | FAILED | CANCELLED

datatype AcceptanceStatus =
  ACCEPTED | DUPLICATE | SEMANTIC_CONFLICT | SCOPE_MISMATCH | CAPABILITY_NOT_DELEGATABLE
| CAPABILITY_NOT_CURRENTLY_ALLOWED | OUTPUT_CONTRACT_REJECTED | CONTEXT_REJECTED | BUDGET_EXCEEDED
| DEADLINE_EXPIRED | DELEGATION_DEPTH_EXCEEDED | FAN_OUT_EXCEEDED | CONCURRENCY_LIMIT_REACHED

datatype ClaimStatus = CLAIMED | DUPLICATE | ALREADY_CLAIMED | HANDOFF_NOT_FOUND | HANDOFF_NOT_CLAIMABLE

datatype DispatchStatus =
  ALLOWED | HANDOFF_NOT_FOUND | NOT_CURRENT_OWNER | STALE_FENCE | LEASE_EXPIRED
| CURRENT_AUTHORIZATION_DENIED | HANDOFF_NOT_CLAIMED

datatype ResultVerificationStatus =
  VERIFIED | HANDOFF_NOT_FOUND | CHILD_ATTEMPT_MISMATCH | OUTPUT_CONTRACT_MISMATCH
| SOURCE_VERSION_STALE | STALE_FENCE | NOT_CURRENT_OWNER | PARENT_TERMINAL | HANDOFF_NOT_READY

datatype CancellationStatus =
  CANCELLED_BEFORE_DISPATCH | COOPERATIVE_CANCELLATION_PENDING | HANDOFF_NOT_FOUND | TERMINAL_NOOP

datatype AggregationStatus = WAITING_FOR_REQUIRED | READY | PARTIAL | CONFLICT | PARENT_TERMINAL

datatype FakeWorkerMode = SUCCESS | FAILURE | CRASH_BEFORE_CLAIM | DELAYED | OUTCOME_UNKNOWN | CONFLICT

section \<open>Records\<close>

type_synonym source_versions = "(string \<times> int) list"

record HandoffCandidate =
  hc_tenant_id :: string
  hc_parent_job_id :: string
  hc_parent_attempt_id :: string
  hc_parent_step_id :: string
  hc_handoff_id :: string
  hc_idempotency_key :: string
  hc_policy_version :: string
  hc_objective :: string
  hc_input_contract :: string
  hc_output_contract :: string
  hc_context_manifest_id :: string
  hc_context_source_versions :: source_versions
  hc_requested_capabilities :: "string list"
  hc_requested_tokens :: int
  hc_receiver_role :: string
  hc_aggregation_slot :: string
  hc_required :: bool
  hc_deadline :: int
  hc_delegation_depth :: int

definition HandoffCandidate_post_init :: "HandoffCandidate \<Rightarrow> HandoffCandidate res" where
  "HandoffCandidate_post_init c =
     (if \<not> all_truthy [hc_tenant_id c, hc_parent_job_id c, hc_parent_attempt_id c, hc_parent_step_id c,
           hc_handoff_id c, hc_idempotency_key c, hc_policy_version c, hc_objective c, hc_input_contract c,
           hc_output_contract c, hc_context_manifest_id c, hc_receiver_role c, hc_aggregation_slot c]
      then Inl (ValueError ''handoff identity and contracts must be non-empty'')
      else if hc_requested_tokens c \<le> 0 then Inl (ValueError ''requested_tokens must be positive'')
      else if hc_delegation_depth c \<le> 0 then Inl (ValueError ''delegation_depth must be positive'')
      else if \<not> distinct (hc_requested_capabilities c)
      then Inl (ValueError ''requested capabilities must be unique'')
      else Inr c)"

definition handoff_fingerprint :: "HandoffCandidate \<Rightarrow> string" where
  "handoff_fingerprint c =
     sha256_hexdigest (json_dumps (JObj
       [(''aggregation_slot'', JStr (hc_aggregation_slot c)),
        (''context_manifest_id'', JStr (hc_context_manifest_id c)),
        (''context_source_versions'',
           JList (map (\<lambda>(s, v). JList [JStr s, JInt v]) (hc_context_source_versions c))),
        (''deadline'', JInt (hc_deadline c)),
        (''delegation_depth'', JInt (hc_delegation_depth c)),
        (''input_contract'', JStr (hc_input_contract c)),
        (''objective'', JStr (hc_objective c)),
        (''output_contract'', JStr (hc_output_contract c)),
        (''parent_attempt_id'', JStr (hc_parent_attempt_id c)),
        (''parent_job_id'', JStr (hc_parent_job_id c)),
        (''parent_step_id'', JStr (hc_parent_step_id c)),
        (''policy_version'', JStr (hc_policy_version c)),
        (''receiver_role'', JStr (hc_receiver_role c)),
        (''requested_capabilities'', JList (map JStr (sort (hc_requested_capabilities c)))),
        (''requested_tokens'', JInt (hc_requested_tokens c)),
        (''required'', JBool (hc_required c)),
        (''tenant_id'', JStr (hc_tenant_id c))]))"

record CurrentCoordinationFacts =
  cf_tenant_id :: string
  cf_delegatable_capabilities :: "string list"
  cf_currently_allowed_capabilities :: "string list"
  cf_accepted_output_contracts :: "string list"
  cf_readable_context_manifests :: "string list"
  cf_current_policy_version :: string
  cf_max_delegation_depth :: int
  cf_max_fan_out :: int
  cf_concurrency_limit :: int

record DelegationGrant =
  dg_tenant_id :: string
  dg_handoff_id :: string
  dg_child_job_id :: string
  dg_child_attempt_id :: string
  dg_capabilities :: "string list"
  dg_policy_version :: string
  dg_expires_at :: int

record ChildAllocation =
  ca_parent_job_id :: string
  ca_handoff_id :: string
  ca_reserved_tokens :: int
  ca_status :: string

record CoordinationOutboxIntent =
  ci_intent_id :: string
  ci_handoff_id :: string
  ci_child_job_id :: string
  ci_fingerprint :: string
  ci_published_at :: "int option"

record HandoffRecord =
  hr_candidate :: HandoffCandidate
  hr_fingerprint :: string
  hr_child_job_id :: string
  hr_child_attempt_id :: string
  hr_grant :: DelegationGrant
  hr_allocation :: ChildAllocation
  hr_outbox_intent :: CoordinationOutboxIntent
  hr_state :: HandoffState
  hr_state_version :: int
  hr_claim_owner :: "string option"
  hr_lease_expires_at :: "int option"
  hr_fence_token :: int
  hr_operation_id :: "string option"
  hr_cancellation_requested :: bool

record AcceptanceDecision =
  acd_status :: AcceptanceStatus
  acd_handoff_id :: string
  acd_fingerprint :: string
  acd_record :: "HandoffRecord option"

record ClaimDecision =
  cld_status :: ClaimStatus
  cld_handoff_id :: string
  cld_owner :: "string option"
  cld_fence_token :: "int option"

record DispatchDecision =
  did_status :: DispatchStatus
  did_handoff_id :: string
  did_provider_calls :: int

record ChildResultCandidate =
  cr_result_id :: string
  cr_handoff_id :: string
  cr_child_attempt_id :: string
  cr_worker_id :: string
  cr_fence_token :: int
  cr_output_contract :: string
  cr_source_versions :: source_versions
  cr_evidence_reference :: string
  cr_completeness :: string
  cr_fact_key :: string
  cr_fact_value :: string

record ResultEvidence =
  re_candidate :: ChildResultCandidate
  re_status :: ResultVerificationStatus
  re_applied_to_current_state :: bool

record ResultVerificationDecision =
  rvd_status :: ResultVerificationStatus
  rvd_handoff_id :: string
  rvd_applied_to_current_state :: bool

record CancellationDecision =
  cnd_status :: CancellationStatus
  cnd_handoff_id :: string
  cnd_allocation_status :: string

record AggregationDecision =
  agd_status :: AggregationStatus
  agd_required_total :: int
  agd_required_verified :: int
  agd_optional_total :: int
  agd_optional_verified :: int
  agd_failed :: int
  agd_pending_reconciliation :: int
  agd_parent_completed :: bool

record WorkerRequest =
  wr_handoff_id :: string
  wr_child_attempt_id :: string
  wr_objective :: string
  wr_fence_token :: int

record WorkerOutcome =
  wo_mode :: FakeWorkerMode
  wo_status :: string
  wo_fact_value :: "string option"
  wo_fake_provider_calls :: int

record FakeWorker =
  fw_mode :: FakeWorkerMode
  fw_requests :: "WorkerRequest list"

definition fake_worker_execute :: "FakeWorker \<Rightarrow> WorkerRequest \<Rightarrow> WorkerOutcome \<times> FakeWorker" where
  "fake_worker_execute w request =
     (let outcome = (\<lambda>status fact calls.
            \<lparr>wo_mode = fw_mode w, wo_status = status, wo_fact_value = fact, wo_fake_provider_calls = calls\<rparr>)
      in (case fw_mode w of
            FakeWorkerMode.SUCCESS \<Rightarrow> outcome ''RESULT_CANDIDATE'' (Some ''confirmed'') 1
          | FakeWorkerMode.FAILURE \<Rightarrow> outcome ''FAILED'' None 1
          | FakeWorkerMode.CRASH_BEFORE_CLAIM \<Rightarrow> outcome ''CRASHED_BEFORE_CLAIM'' None 0
          | FakeWorkerMode.DELAYED \<Rightarrow> outcome ''DELAYED'' None 0
          | FakeWorkerMode.OUTCOME_UNKNOWN \<Rightarrow> outcome ''PENDING_RECONCILIATION'' None 1
          | FakeWorkerMode.CONFLICT \<Rightarrow> outcome ''RESULT_CANDIDATE'' (Some ''contradicted'') 1,
          w\<lparr>fw_requests := fw_requests w @ [request]\<rparr>))"

section \<open>The store\<close>

record CoordinationStore =
  cst_parent_job_id :: string
  cst_parent_token_reservation :: int
  cst_records :: "(string \<times> HandoffRecord) list"
  cst_result_evidence :: "ResultEvidence list"
  cst_parent_terminal :: bool

definition CoordinationStore_init :: "string \<Rightarrow> int \<Rightarrow> CoordinationStore res" where
  "CoordinationStore_init parent_job_id parent_token_reservation =
     (if parent_token_reservation \<le> 0 then Inl (ValueError ''parent_token_reservation must be positive'')
      else Inr \<lparr>cst_parent_job_id = parent_job_id, cst_parent_token_reservation = parent_token_reservation,
                cst_records = [], cst_result_evidence = [], cst_parent_terminal = False\<rparr>)"

definition store_records :: "CoordinationStore \<Rightarrow> HandoffRecord list" where
  [py_defs]: "store_records s = map snd (cst_records s)"

definition allocated_tokens :: "CoordinationStore \<Rightarrow> int" where
  "allocated_tokens s =
     sum_list (map (\<lambda>r. ca_reserved_tokens (hr_allocation r))
       (filter (\<lambda>r. ca_status (hr_allocation r) = ''HELD'') (store_records s)))"

definition unpublished_handoff_intents :: "CoordinationStore \<Rightarrow> CoordinationOutboxIntent list" where
  "unpublished_handoff_intents s =
     filter (\<lambda>i. ci_published_at i = None) (map hr_outbox_intent (store_records s))"

definition get_handoff :: "CoordinationStore \<Rightarrow> string \<Rightarrow> HandoffRecord option" where
  [py_defs]: "get_handoff s handoff_id = map_of (cst_records s) handoff_id"

definition put_handoff :: "string \<Rightarrow> HandoffRecord \<Rightarrow> CoordinationStore \<Rightarrow> CoordinationStore" where
  [py_defs]: "put_handoff handoff_id r s = s\<lparr>cst_records := AList.update handoff_id r (cst_records s)\<rparr>"

definition new_handoff_record :: "HandoffCandidate \<Rightarrow> HandoffRecord" where
  "new_handoff_record candidate =
     (let fingerprint = handoff_fingerprint candidate;
          child_job_id = hc_parent_job_id candidate @ '':child:'' @ hc_handoff_id candidate;
          child_attempt_id = child_job_id @ '':attempt:1''
      in \<lparr>hr_candidate = candidate, hr_fingerprint = fingerprint, hr_child_job_id = child_job_id,
          hr_child_attempt_id = child_attempt_id,
          hr_grant = \<lparr>dg_tenant_id = hc_tenant_id candidate, dg_handoff_id = hc_handoff_id candidate,
            dg_child_job_id = child_job_id, dg_child_attempt_id = child_attempt_id,
            dg_capabilities = sort (remdups (hc_requested_capabilities candidate)),
            dg_policy_version = hc_policy_version candidate, dg_expires_at = hc_deadline candidate\<rparr>,
          hr_allocation = \<lparr>ca_parent_job_id = hc_parent_job_id candidate, ca_handoff_id = hc_handoff_id candidate,
            ca_reserved_tokens = hc_requested_tokens candidate, ca_status = ''HELD''\<rparr>,
          hr_outbox_intent = \<lparr>ci_intent_id = ''handoff-dispatch:'' @ hc_handoff_id candidate,
            ci_handoff_id = hc_handoff_id candidate, ci_child_job_id = child_job_id,
            ci_fingerprint = fingerprint, ci_published_at = None\<rparr>,
          hr_state = HandoffState.ACCEPTED, hr_state_version = 1, hr_claim_owner = None,
          hr_lease_expires_at = None, hr_fence_token = 0, hr_operation_id = None,
          hr_cancellation_requested = False\<rparr>)"

definition accept_handoff ::
    "CoordinationStore \<Rightarrow> HandoffCandidate \<Rightarrow> CurrentCoordinationFacts \<Rightarrow> int
      \<Rightarrow> AcceptanceDecision \<times> CoordinationStore" where
  "accept_handoff s candidate facts now =
     (let fingerprint = handoff_fingerprint candidate;
          decision = (\<lambda>status r. \<lparr>acd_status = status, acd_handoff_id = hc_handoff_id candidate,
                                  acd_fingerprint = fingerprint, acd_record = r\<rparr>);
          active = int (length (filter
            (\<lambda>r. hr_state r \<notin> {HandoffState.CANCELLED, HandoffState.VERIFIED_COMPLETED, HandoffState.FAILED})
            (store_records s)));
          requested = set (hc_requested_capabilities candidate)
      in case get_handoff s (hc_handoff_id candidate) of
           Some existing \<Rightarrow>
             (decision (if hr_fingerprint existing = fingerprint then AcceptanceStatus.DUPLICATE
                        else AcceptanceStatus.SEMANTIC_CONFLICT) (Some existing), s)
         | None \<Rightarrow>
             if hc_tenant_id candidate \<noteq> cf_tenant_id facts then (decision AcceptanceStatus.SCOPE_MISMATCH None, s)
             else if hc_policy_version candidate \<noteq> cf_current_policy_version facts
             then (decision AcceptanceStatus.CONTEXT_REJECTED None, s)
             else if now \<ge> hc_deadline candidate then (decision AcceptanceStatus.DEADLINE_EXPIRED None, s)
             else if hc_delegation_depth candidate > cf_max_delegation_depth facts
             then (decision AcceptanceStatus.DELEGATION_DEPTH_EXCEEDED None, s)
             else if int (length (cst_records s)) \<ge> cf_max_fan_out facts
             then (decision AcceptanceStatus.FAN_OUT_EXCEEDED None, s)
             else if active \<ge> cf_concurrency_limit facts
             then (decision AcceptanceStatus.CONCURRENCY_LIMIT_REACHED None, s)
             else if hc_output_contract candidate \<notin> set (cf_accepted_output_contracts facts)
             then (decision AcceptanceStatus.OUTPUT_CONTRACT_REJECTED None, s)
             else if hc_context_manifest_id candidate \<notin> set (cf_readable_context_manifests facts)
             then (decision AcceptanceStatus.CONTEXT_REJECTED None, s)
             else if \<not> requested \<subseteq> set (cf_delegatable_capabilities facts)
             then (decision AcceptanceStatus.CAPABILITY_NOT_DELEGATABLE None, s)
             else if \<not> requested \<subseteq> set (cf_currently_allowed_capabilities facts)
             then (decision AcceptanceStatus.CAPABILITY_NOT_CURRENTLY_ALLOWED None, s)
             else if allocated_tokens s + hc_requested_tokens candidate > cst_parent_token_reservation s
             then (decision AcceptanceStatus.BUDGET_EXCEEDED None, s)
             else (decision AcceptanceStatus.ACCEPTED (Some (new_handoff_record candidate)),
                   put_handoff (hc_handoff_id candidate) (new_handoff_record candidate) s))"

definition mark_outbox_published :: "CoordinationStore \<Rightarrow> string \<Rightarrow> int \<Rightarrow> bool \<times> CoordinationStore" where
  "mark_outbox_published s handoff_id published_at =
     (case get_handoff s handoff_id of
        None \<Rightarrow> (False, s)
      | Some r \<Rightarrow>
          if ci_published_at (hr_outbox_intent r) \<noteq> None then (True, s)
          else (True, put_handoff handoff_id
                  (r\<lparr>hr_outbox_intent := (hr_outbox_intent r)\<lparr>ci_published_at := Some published_at\<rparr>\<rparr>) s))"

definition claim_decision ::
    "ClaimStatus \<Rightarrow> string \<Rightarrow> string option \<Rightarrow> int option \<Rightarrow> ClaimDecision" where
  [py_defs]: "claim_decision status handoff_id owner fence =
     \<lparr>cld_status = status, cld_handoff_id = handoff_id, cld_owner = owner, cld_fence_token = fence\<rparr>"

definition claim_handoff ::
    "CoordinationStore \<Rightarrow> string \<Rightarrow> string \<Rightarrow> int \<Rightarrow> int \<Rightarrow> (ClaimDecision \<times> CoordinationStore) res" where
  "claim_handoff s handoff_id worker_id now lease_duration =
     (if lease_duration \<le> 0 then Inl (ValueError ''lease_duration must be positive'')
      else case get_handoff s handoff_id of
        None \<Rightarrow> Inr (claim_decision ClaimStatus.HANDOFF_NOT_FOUND handoff_id None None, s)
      | Some r \<Rightarrow>
          if hr_state r = HandoffState.CANCELLED
          then Inr (claim_decision ClaimStatus.HANDOFF_NOT_CLAIMABLE handoff_id (hr_claim_owner r)
                      (Some (hr_fence_token r)), s)
          else if hr_claim_owner r \<noteq> None
          then Inr (claim_decision
                      (if hr_claim_owner r = Some worker_id then ClaimStatus.DUPLICATE else ClaimStatus.ALREADY_CLAIMED)
                      handoff_id (hr_claim_owner r) (Some (hr_fence_token r)), s)
          else Inr (claim_decision ClaimStatus.CLAIMED handoff_id (Some worker_id) (Some (hr_fence_token r + 1)),
                    put_handoff handoff_id
                      (r\<lparr>hr_state := HandoffState.CLAIMED, hr_state_version := hr_state_version r + 1,
                         hr_claim_owner := Some worker_id, hr_lease_expires_at := Some (now + lease_duration),
                         hr_fence_token := hr_fence_token r + 1\<rparr>) s))"

definition take_over_handoff_lease ::
    "CoordinationStore \<Rightarrow> string \<Rightarrow> string \<Rightarrow> int \<Rightarrow> int \<Rightarrow> (ClaimDecision \<times> CoordinationStore) res" where
  "take_over_handoff_lease s handoff_id worker_id now lease_duration =
     (if lease_duration \<le> 0 then Inl (ValueError ''lease_duration must be positive'')
      else case get_handoff s handoff_id of
        None \<Rightarrow> Inr (claim_decision ClaimStatus.HANDOFF_NOT_FOUND handoff_id None None, s)
      | Some r \<Rightarrow>
          if hr_claim_owner r = None \<or>
             (case hr_lease_expires_at r of None \<Rightarrow> True | Some expiry \<Rightarrow> now < expiry)
          then Inr (claim_decision ClaimStatus.HANDOFF_NOT_CLAIMABLE handoff_id (hr_claim_owner r)
                      (Some (hr_fence_token r)), s)
          else Inr (claim_decision ClaimStatus.CLAIMED handoff_id (Some worker_id) (Some (hr_fence_token r + 1)),
                    put_handoff handoff_id
                      (r\<lparr>hr_state_version := hr_state_version r + 1, hr_claim_owner := Some worker_id,
                         hr_lease_expires_at := Some (now + lease_duration),
                         hr_fence_token := hr_fence_token r + 1\<rparr>) s))"

definition authorize_provider_dispatch ::
    "CoordinationStore \<Rightarrow> string \<Rightarrow> string \<Rightarrow> int \<Rightarrow> string \<Rightarrow> string list \<Rightarrow> int \<Rightarrow> DispatchDecision" where
  "authorize_provider_dispatch s handoff_id worker_id fence_token required_capability
     current_allowed_capabilities now =
     (let decision = (\<lambda>status. \<lparr>did_status = status, did_handoff_id = handoff_id, did_provider_calls = 0\<rparr>)
      in case get_handoff s handoff_id of
           None \<Rightarrow> decision DispatchStatus.HANDOFF_NOT_FOUND
         | Some r \<Rightarrow>
             if hr_state r \<noteq> HandoffState.CLAIMED then decision DispatchStatus.HANDOFF_NOT_CLAIMED
             else if hr_fence_token r \<noteq> fence_token then decision DispatchStatus.STALE_FENCE
             else if hr_claim_owner r \<noteq> Some worker_id then decision DispatchStatus.NOT_CURRENT_OWNER
             else if (case hr_lease_expires_at r of None \<Rightarrow> True | Some expiry \<Rightarrow> now \<ge> expiry)
             then decision DispatchStatus.LEASE_EXPIRED
             else if required_capability \<notin> set (dg_capabilities (hr_grant r)) \<or>
                required_capability \<notin> set current_allowed_capabilities
             then decision DispatchStatus.CURRENT_AUTHORIZATION_DENIED
             else decision DispatchStatus.ALLOWED)"

definition record_provider_dispatch ::
    "CoordinationStore \<Rightarrow> string \<Rightarrow> string \<Rightarrow> int \<Rightarrow> string \<Rightarrow> string list \<Rightarrow> string \<Rightarrow> int
      \<Rightarrow> (DispatchDecision \<times> CoordinationStore) res" where
  "record_provider_dispatch s handoff_id worker_id fence_token required_capability
     current_allowed_capabilities operation_id now =
     (let decision = authorize_provider_dispatch s handoff_id worker_id fence_token required_capability
                       current_allowed_capabilities now
      in if did_status decision \<noteq> DispatchStatus.ALLOWED then Inr (decision, s)
         else case get_handoff s handoff_id of
           None \<Rightarrow> Inl (KeyError handoff_id)
         | Some r \<Rightarrow>
             Inr (decision, put_handoff handoff_id
               (r\<lparr>hr_state := HandoffState.DISPATCHED, hr_state_version := hr_state_version r + 1,
                  hr_operation_id := Some operation_id\<rparr>) s))"

definition mark_outcome_unknown :: "CoordinationStore \<Rightarrow> string \<Rightarrow> string \<Rightarrow> bool \<times> CoordinationStore" where
  "mark_outcome_unknown s handoff_id operation_id =
     (case get_handoff s handoff_id of
        None \<Rightarrow> (False, s)
      | Some r \<Rightarrow>
          if hr_state r \<noteq> HandoffState.DISPATCHED \<or> hr_operation_id r \<noteq> Some operation_id then (False, s)
          else (True, put_handoff handoff_id
                  (r\<lparr>hr_state := HandoffState.PENDING_RECONCILIATION,
                     hr_state_version := hr_state_version r + 1\<rparr>) s))"

definition cancel_handoff :: "CoordinationStore \<Rightarrow> string \<Rightarrow> CancellationDecision \<times> CoordinationStore" where
  "cancel_handoff s handoff_id =
     (let decision = (\<lambda>status alloc. \<lparr>cnd_status = status, cnd_handoff_id = handoff_id, cnd_allocation_status = alloc\<rparr>)
      in case get_handoff s handoff_id of
           None \<Rightarrow> (decision CancellationStatus.HANDOFF_NOT_FOUND ''NONE'', s)
         | Some r \<Rightarrow>
             if hr_state r \<in> {HandoffState.CANCELLED, HandoffState.VERIFIED_COMPLETED}
             then (decision CancellationStatus.TERMINAL_NOOP (ca_status (hr_allocation r)), s)
             else if hr_state r \<in> {HandoffState.ACCEPTED, HandoffState.CLAIMED}
             then (decision CancellationStatus.CANCELLED_BEFORE_DISPATCH ''RELEASED'',
                   put_handoff handoff_id
                     (r\<lparr>hr_state := HandoffState.CANCELLED, hr_state_version := hr_state_version r + 1,
                        hr_cancellation_requested := True,
                        hr_allocation := (hr_allocation r)\<lparr>ca_status := ''RELEASED''\<rparr>\<rparr>) s)
             else (decision CancellationStatus.COOPERATIVE_CANCELLATION_PENDING (ca_status (hr_allocation r)),
                   put_handoff handoff_id
                     (r\<lparr>hr_state := HandoffState.PENDING_RECONCILIATION,
                        hr_state_version := hr_state_version r + 1, hr_cancellation_requested := True\<rparr>) s))"

definition verification_status ::
    "CoordinationStore \<Rightarrow> HandoffRecord \<Rightarrow> ChildResultCandidate \<Rightarrow> source_versions \<Rightarrow> ResultVerificationStatus" where
  "verification_status s r candidate current_source_versions =
     (if cst_parent_terminal s then ResultVerificationStatus.PARENT_TERMINAL
      else if cr_child_attempt_id candidate \<noteq> hr_child_attempt_id r
      then ResultVerificationStatus.CHILD_ATTEMPT_MISMATCH
      else if cr_output_contract candidate \<noteq> hc_output_contract (hr_candidate r)
      then ResultVerificationStatus.OUTPUT_CONTRACT_MISMATCH
      else if cr_source_versions candidate \<noteq> hc_context_source_versions (hr_candidate r)
        \<or> current_source_versions \<noteq> cr_source_versions candidate
      then ResultVerificationStatus.SOURCE_VERSION_STALE
      else if cr_fence_token candidate \<noteq> hr_fence_token r then ResultVerificationStatus.STALE_FENCE
      else if Some (cr_worker_id candidate) \<noteq> hr_claim_owner r then ResultVerificationStatus.NOT_CURRENT_OWNER
      else if hr_state r \<noteq> HandoffState.DISPATCHED then ResultVerificationStatus.HANDOFF_NOT_READY
      else ResultVerificationStatus.VERIFIED)"

definition verify_result ::
    "CoordinationStore \<Rightarrow> ChildResultCandidate \<Rightarrow> source_versions
      \<Rightarrow> ResultVerificationDecision \<times> CoordinationStore" where
  "verify_result s candidate current_source_versions =
     (case get_handoff s (cr_handoff_id candidate) of
        None \<Rightarrow>
          (\<lparr>rvd_status = ResultVerificationStatus.HANDOFF_NOT_FOUND, rvd_handoff_id = cr_handoff_id candidate,
            rvd_applied_to_current_state = False\<rparr>, s)
      | Some r \<Rightarrow>
          (let status = verification_status s r candidate current_source_versions;
               applied = (status = ResultVerificationStatus.VERIFIED);
               s1 = s\<lparr>cst_result_evidence := cst_result_evidence s @
                        [\<lparr>re_candidate = candidate, re_status = status, re_applied_to_current_state = applied\<rparr>]\<rparr>;
               s2 = (if applied
                     then put_handoff (cr_handoff_id candidate)
                            (r\<lparr>hr_state := HandoffState.VERIFIED_COMPLETED,
                               hr_state_version := hr_state_version r + 1\<rparr>) s1
                     else s1)
           in (\<lparr>rvd_status = status, rvd_handoff_id = cr_handoff_id candidate,
                rvd_applied_to_current_state = applied\<rparr>, s2)))"

text \<open>\<open>values.setdefault(item.fact_key, set()).add(item.fact_value)\<close> over the applied results.\<close>

definition add_fact :: "ChildResultCandidate \<Rightarrow> (string \<times> string set) list \<Rightarrow> (string \<times> string set) list" where
  "add_fact item vals =
     AList.update (cr_fact_key item)
       (insert (cr_fact_value item) (case map_of vals (cr_fact_key item) of None \<Rightarrow> {} | Some vs \<Rightarrow> vs)) vals"

definition fact_values :: "ChildResultCandidate list \<Rightarrow> (string \<times> string set) list" where
  "fact_values verified = fold add_fact verified []"

definition fact_conflict :: "ChildResultCandidate list \<Rightarrow> bool" where
  "fact_conflict verified \<longleftrightarrow> list_ex (\<lambda>kv. card (snd kv) > 1) (fact_values verified)"

definition aggregate_handoffs :: "CoordinationStore \<Rightarrow> AggregationDecision" where
  "aggregate_handoffs s =
     (let records = store_records s;
          required = filter (\<lambda>r. hc_required (hr_candidate r)) records;
          optional = filter (\<lambda>r. \<not> hc_required (hr_candidate r)) records;
          required_verified = int (length (filter (\<lambda>r. hr_state r = HandoffState.VERIFIED_COMPLETED) required));
          optional_verified = int (length (filter (\<lambda>r. hr_state r = HandoffState.VERIFIED_COMPLETED) optional));
          failed = int (length (filter (\<lambda>r. hr_state r = HandoffState.FAILED) records));
          pending = int (length (filter (\<lambda>r. hr_state r = HandoffState.PENDING_RECONCILIATION) records));
          verified = map re_candidate (filter re_applied_to_current_state (cst_result_evidence s));
          status =
            (if cst_parent_terminal s then AggregationStatus.PARENT_TERMINAL
             else if required_verified \<noteq> int (length required) then AggregationStatus.WAITING_FOR_REQUIRED
             else if fact_conflict verified then AggregationStatus.CONFLICT
             else if optional_verified \<noteq> int (length optional) then AggregationStatus.PARTIAL
             else AggregationStatus.READY)
      in \<lparr>agd_status = status, agd_required_total = int (length required),
          agd_required_verified = required_verified, agd_optional_total = int (length optional),
          agd_optional_verified = optional_verified, agd_failed = failed,
          agd_pending_reconciliation = pending, agd_parent_completed = False\<rparr>)"

section \<open>The lifecycle of one handoff\<close>

text \<open>
  The abstract state machine of a handoff record: every change the store may make to a record.
\<close>

inductive handoff_trans :: "HandoffRecord \<Rightarrow> HandoffRecord \<Rightarrow> bool" where
  publish: "ci_published_at (hr_outbox_intent r) = None \<Longrightarrow>
    handoff_trans r (r\<lparr>hr_outbox_intent := (hr_outbox_intent r)\<lparr>ci_published_at := Some t\<rparr>\<rparr>)"
| claim: "hr_claim_owner r = None \<Longrightarrow> hr_state r \<noteq> HandoffState.CANCELLED \<Longrightarrow>
    handoff_trans r (r\<lparr>hr_state := HandoffState.CLAIMED, hr_state_version := hr_state_version r + 1,
      hr_claim_owner := Some w, hr_lease_expires_at := Some e, hr_fence_token := hr_fence_token r + 1\<rparr>)"
| take_over: "hr_claim_owner r \<noteq> None \<Longrightarrow> hr_lease_expires_at r = Some e0 \<Longrightarrow> e0 \<le> now \<Longrightarrow>
    handoff_trans r (r\<lparr>hr_state_version := hr_state_version r + 1, hr_claim_owner := Some w,
      hr_lease_expires_at := Some e, hr_fence_token := hr_fence_token r + 1\<rparr>)"
| dispatch: "hr_state r = HandoffState.CLAIMED \<Longrightarrow>
    handoff_trans r (r\<lparr>hr_state := HandoffState.DISPATCHED, hr_state_version := hr_state_version r + 1,
      hr_operation_id := Some op\<rparr>)"
| unknown: "hr_state r = HandoffState.DISPATCHED \<Longrightarrow>
    handoff_trans r (r\<lparr>hr_state := HandoffState.PENDING_RECONCILIATION, hr_state_version := hr_state_version r + 1\<rparr>)"
| cancel_unstarted: "hr_state r \<in> {HandoffState.ACCEPTED, HandoffState.CLAIMED} \<Longrightarrow>
    handoff_trans r (r\<lparr>hr_state := HandoffState.CANCELLED, hr_state_version := hr_state_version r + 1,
      hr_cancellation_requested := True, hr_allocation := (hr_allocation r)\<lparr>ca_status := ''RELEASED''\<rparr>\<rparr>)"
| cancel_started: "hr_state r \<in> {HandoffState.DISPATCHED, HandoffState.PENDING_RECONCILIATION, HandoffState.FAILED} \<Longrightarrow>
    handoff_trans r (r\<lparr>hr_state := HandoffState.PENDING_RECONCILIATION,
      hr_state_version := hr_state_version r + 1, hr_cancellation_requested := True\<rparr>)"
| verify: "hr_state r = HandoffState.DISPATCHED \<Longrightarrow>
    handoff_trans r (r\<lparr>hr_state := HandoffState.VERIFIED_COMPLETED, hr_state_version := hr_state_version r + 1\<rparr>)"

section \<open>The store as a machine\<close>

datatype CoordEvent =
    Accept HandoffCandidate CurrentCoordinationFacts int
  | Publish string int
  | Claim string string int int
  | TakeOverLease string string int int
  | Dispatch string string int string "string list" string int
  | OutcomeUnknown string string
  | Cancel string
  | VerifyResult ChildResultCandidate source_versions
  | ParentTerminal

text \<open>
  A candidate exists only if its constructor accepted it, so an \<open>Accept\<close> whose candidate fails
  \<open>__post_init__\<close> is no request at all; \<open>ParentTerminal\<close> is the assignment of the public attribute
  \<open>parent_terminal\<close>.
\<close>

fun coord_step :: "CoordEvent \<Rightarrow> CoordinationStore \<Rightarrow> CoordinationStore" where
  "coord_step (Accept c facts now) s =
     (case HandoffCandidate_post_init c of Inl _ \<Rightarrow> s | Inr c' \<Rightarrow> snd (accept_handoff s c' facts now))"
| "coord_step (Publish h t) s = snd (mark_outbox_published s h t)"
| "coord_step (Claim h w now d) s = (case claim_handoff s h w now d of Inl _ \<Rightarrow> s | Inr (_, s') \<Rightarrow> s')"
| "coord_step (TakeOverLease h w now d) s =
     (case take_over_handoff_lease s h w now d of Inl _ \<Rightarrow> s | Inr (_, s') \<Rightarrow> s')"
| "coord_step (Dispatch h w f cap allowed op now) s =
     (case record_provider_dispatch s h w f cap allowed op now of Inl _ \<Rightarrow> s | Inr (_, s') \<Rightarrow> s')"
| "coord_step (OutcomeUnknown h op) s = snd (mark_outcome_unknown s h op)"
| "coord_step (Cancel h) s = snd (cancel_handoff s h)"
| "coord_step (VerifyResult c versions) s = snd (verify_result s c versions)"
| "coord_step ParentTerminal s = s\<lparr>cst_parent_terminal := True\<rparr>"

lemma get_put [simp]:
  "get_handoff (put_handoff h r s) h' = (if h' = h then Some r else get_handoff s h')"
  by (simp add: get_handoff_def put_handoff_def update_conv')

text \<open>What a step may do to the records: nothing, one transition of one record, or one acceptance.\<close>

definition handoff_moves :: "CoordinationStore \<Rightarrow> CoordinationStore \<Rightarrow> bool" where
  "handoff_moves s s' \<longleftrightarrow>
     (\<exists>h r r'. get_handoff s h = Some r \<and> handoff_trans r r' \<and>
        cst_records s' = AList.update h r' (cst_records s))"

definition handoff_accepted :: "CoordinationStore \<Rightarrow> CoordinationStore \<Rightarrow> bool" where
  "handoff_accepted s s' \<longleftrightarrow>
     (\<exists>c. HandoffCandidate_post_init c = Inr c \<and> get_handoff s (hc_handoff_id c) = None \<and>
        allocated_tokens s + hc_requested_tokens c \<le> cst_parent_token_reservation s \<and>
        cst_records s' = AList.update (hc_handoff_id c) (new_handoff_record c) (cst_records s))"

definition active_handoffs :: "CoordinationStore \<Rightarrow> int" where
  "active_handoffs s = int (length (filter
     (\<lambda>r. hr_state r \<notin> {HandoffState.CANCELLED, HandoffState.VERIFIED_COMPLETED, HandoffState.FAILED})
     (store_records s)))"

definition accept_guard ::
    "CoordinationStore \<Rightarrow> HandoffCandidate \<Rightarrow> CurrentCoordinationFacts \<Rightarrow> int \<Rightarrow> bool" where
  "accept_guard s c facts now \<longleftrightarrow>
     get_handoff s (hc_handoff_id c) = None \<and> hc_tenant_id c = cf_tenant_id facts \<and>
     hc_policy_version c = cf_current_policy_version facts \<and> now < hc_deadline c \<and>
     hc_delegation_depth c \<le> cf_max_delegation_depth facts \<and>
     int (length (cst_records s)) < cf_max_fan_out facts \<and> active_handoffs s < cf_concurrency_limit facts \<and>
     hc_output_contract c \<in> set (cf_accepted_output_contracts facts) \<and>
     hc_context_manifest_id c \<in> set (cf_readable_context_manifests facts) \<and>
     set (hc_requested_capabilities c) \<subseteq> set (cf_delegatable_capabilities facts) \<and>
     set (hc_requested_capabilities c) \<subseteq> set (cf_currently_allowed_capabilities facts) \<and>
     allocated_tokens s + hc_requested_tokens c \<le> cst_parent_token_reservation s"

lemma accept_handoff_accepted:
  assumes "accept_guard s c facts now"
  shows "accept_handoff s c facts now =
    (\<lparr>acd_status = AcceptanceStatus.ACCEPTED, acd_handoff_id = hc_handoff_id c,
      acd_fingerprint = handoff_fingerprint c, acd_record = Some (new_handoff_record c)\<rparr>,
     put_handoff (hc_handoff_id c) (new_handoff_record c) s)"
  using assms
  by (simp only: accept_guard_def accept_handoff_def Let_def active_handoffs_def [symmetric]) (simp add: not_le not_less)

lemma accept_handoff_refused:
  assumes "\<not> accept_guard s c facts now"
  shows "\<exists>status rec. status \<noteq> AcceptanceStatus.ACCEPTED \<and> accept_handoff s c facts now =
    (\<lparr>acd_status = status, acd_handoff_id = hc_handoff_id c,
      acd_fingerprint = handoff_fingerprint c, acd_record = rec\<rparr>, s)"
proof (cases "get_handoff s (hc_handoff_id c)")
  case (Some existing)
  then show ?thesis by (auto simp: accept_handoff_def Let_def)
next
  case None
  let ?P = "\<lambda>x. \<exists>status rec. status \<noteq> AcceptanceStatus.ACCEPTED \<and>
    x = (\<lparr>acd_status = status, acd_handoff_id = hc_handoff_id c,
      acd_fingerprint = handoff_fingerprint c, acd_record = rec\<rparr>, s)"
  have refuse: "?P (\<lparr>acd_status = st, acd_handoff_id = hc_handoff_id c,
      acd_fingerprint = handoff_fingerprint c, acd_record = None\<rparr>, s)" if "st \<noteq> AcceptanceStatus.ACCEPTED" for st
    using that by blast
  show ?thesis
    unfolding accept_handoff_def Let_def None option.case active_handoffs_def [symmetric]
    by (rule if_prop [where P = ?P], rule refuse, simp)+
      (use assms None in \<open>simp add: accept_guard_def not_le not_less\<close>)
qed

lemma HandoffCandidate_post_init_id: "HandoffCandidate_post_init c = Inr c' \<Longrightarrow> c' = c"
  by (simp add: HandoffCandidate_post_init_def split: if_splits)

lemma put_records: "cst_records (put_handoff h r s) = AList.update h r (cst_records s)"
  by (simp add: put_handoff_def)

lemma handoff_movesI:
  "get_handoff s h = Some r \<Longrightarrow> handoff_trans r r' \<Longrightarrow> cst_records s' = AList.update h r' (cst_records s) \<Longrightarrow>
   handoff_moves s s'"
  by (auto simp: handoff_moves_def)

lemma coord_step_shape:
  "cst_records (coord_step e s) = cst_records s \<or> handoff_moves s (coord_step e s) \<or> handoff_accepted s (coord_step e s)"
proof (cases e)
  case (Accept c facts now)
  show ?thesis
  proof (cases "HandoffCandidate_post_init c")
    case (Inl err)
    with Accept show ?thesis by simp
  next
    case (Inr c')
    then have "c' = c" by (rule HandoffCandidate_post_init_id)
    with Accept Inr have step: "coord_step e s = snd (accept_handoff s c facts now)" by simp
    show ?thesis
    proof (cases "accept_guard s c facts now")
      case True
      then have "handoff_accepted s (coord_step e s)"
        using Inr \<open>c' = c\<close> unfolding step accept_handoff_accepted [OF True]
        by (auto simp: handoff_accepted_def put_records accept_guard_def)
      then show ?thesis by blast
    next
      case False
      then show ?thesis using accept_handoff_refused [OF False] unfolding step by auto
    qed
  qed
next
  case (Publish h t)
  then show ?thesis
    by (auto simp: mark_outbox_published_def put_records intro!: handoff_movesI handoff_trans.publish
        split: option.splits)
next
  case (Claim h w now d)
  then show ?thesis
    by (auto simp: claim_handoff_def put_records intro!: handoff_movesI handoff_trans.claim
        split: option.splits)
next
  case (TakeOverLease h w now d)
  then show ?thesis
    by (auto simp: take_over_handoff_lease_def put_records intro!: handoff_movesI handoff_trans.take_over
        split: option.splits if_splits)
next
  case (Dispatch h w f cap allowed op now)
  then show ?thesis
    by (auto simp: record_provider_dispatch_def authorize_provider_dispatch_def Let_def put_records
        intro!: handoff_movesI handoff_trans.dispatch split: option.splits if_splits)
next
  case (OutcomeUnknown h op)
  then show ?thesis
    by (auto simp: mark_outcome_unknown_def put_records intro!: handoff_movesI handoff_trans.unknown
        split: option.splits)
next
  case (Cancel h)
  show ?thesis
  proof (cases "get_handoff s h")
    case None
    with Cancel show ?thesis by (simp add: cancel_handoff_def Let_def)
  next
    case (Some r)
    with Cancel show ?thesis
      by (cases "hr_state r")
        (auto simp: cancel_handoff_def Let_def put_records
          intro!: handoff_movesI handoff_trans.cancel_unstarted handoff_trans.cancel_started)
  qed
next
  case (VerifyResult c versions)
  then show ?thesis
    by (auto simp: verify_result_def verification_status_def Let_def put_records
        intro!: handoff_movesI handoff_trans.verify split: option.splits if_splits)
next
  case ParentTerminal
  then show ?thesis by simp
qed

section \<open>Invariants\<close>

definition record_ok :: "HandoffRecord \<Rightarrow> bool" where
  "record_ok r \<longleftrightarrow>
     0 < ca_reserved_tokens (hr_allocation r) \<and>
     (ca_status (hr_allocation r) = ''HELD'' \<longleftrightarrow> hr_state r \<noteq> HandoffState.CANCELLED) \<and>
     (hr_claim_owner r = None \<longrightarrow> hr_state r \<in> {HandoffState.ACCEPTED, HandoffState.CANCELLED}) \<and>
     (hr_state r = HandoffState.ACCEPTED \<longrightarrow> hr_claim_owner r = None) \<and>
     hr_state r \<noteq> HandoffState.FAILED \<and> 0 \<le> hr_fence_token r \<and>
     set (dg_capabilities (hr_grant r)) = set (hc_requested_capabilities (hr_candidate r))"

definition held_tokens :: "HandoffRecord \<Rightarrow> int" where
  "held_tokens r = (if ca_status (hr_allocation r) = ''HELD'' then ca_reserved_tokens (hr_allocation r) else 0)"

lemma allocated_tokens_eq: "allocated_tokens s = (\<Sum>kv\<leftarrow>cst_records s. held_tokens (snd kv))"
proof -
  have "sum_list (map f (filter P (map snd xs))) = (\<Sum>kv\<leftarrow>xs. if P (snd kv) then f (snd kv) else 0)"
    for f :: "HandoffRecord \<Rightarrow> int" and P and xs :: "(string \<times> HandoffRecord) list"
    by (induction xs) auto
  then show ?thesis by (simp add: allocated_tokens_def store_records_def held_tokens_def)
qed

lemma sum_update_old:
  fixes f :: "'v \<Rightarrow> int"
  shows "distinct (map fst al) \<Longrightarrow> map_of al k = Some v \<Longrightarrow>
    (\<Sum>kv\<leftarrow>AList.update k v' al. f (snd kv)) = (\<Sum>kv\<leftarrow>al. f (snd kv)) - f v + f v'"
  by (induction al) (auto split: if_splits)

lemma sum_update_new:
  fixes f :: "'v \<Rightarrow> int"
  shows "map_of al k = None \<Longrightarrow> (\<Sum>kv\<leftarrow>AList.update k v' al. f (snd kv)) = (\<Sum>kv\<leftarrow>al. f (snd kv)) + f v'"
  by (induction al) (auto split: if_splits)

lemma trans_ok: "handoff_trans r r' \<Longrightarrow> record_ok r \<Longrightarrow> record_ok r'"
  by (induction rule: handoff_trans.induct) (auto simp: record_ok_def)

lemma trans_held: "handoff_trans r r' \<Longrightarrow> record_ok r \<Longrightarrow> held_tokens r' \<le> held_tokens r"
  by (induction rule: handoff_trans.induct) (auto simp: record_ok_def held_tokens_def)

lemma trans_frame:
  "handoff_trans r r' \<Longrightarrow> hr_candidate r' = hr_candidate r \<and> hr_grant r' = hr_grant r \<and>
     hr_child_attempt_id r' = hr_child_attempt_id r \<and> hr_fence_token r \<le> hr_fence_token r'"
  by (induction rule: handoff_trans.induct) auto

lemma trans_closed:
  "handoff_trans r r' \<Longrightarrow> record_ok r \<Longrightarrow> hr_state r \<in> {HandoffState.CANCELLED, HandoffState.VERIFIED_COMPLETED} \<Longrightarrow>
     hr_state r' = hr_state r"
  by (induction rule: handoff_trans.induct) (auto simp: record_ok_def)

definition coord_inv :: "CoordinationStore \<Rightarrow> bool" where
  "coord_inv s \<longleftrightarrow> distinct (map fst (cst_records s)) \<and>
     (\<forall>h r. get_handoff s h = Some r \<longrightarrow> record_ok r \<and> hc_handoff_id (hr_candidate r) = h) \<and>
     allocated_tokens s \<le> cst_parent_token_reservation s"

lemma new_record_ok: "HandoffCandidate_post_init c = Inr c \<Longrightarrow> record_ok (new_handoff_record c)"
  by (auto simp: record_ok_def new_handoff_record_def Let_def HandoffCandidate_post_init_def split: if_splits)

lemma coord_step_reservation: "cst_parent_token_reservation (coord_step e s) = cst_parent_token_reservation s"
proof (cases e)
  case (Accept c facts now)
  show ?thesis
  proof (cases "HandoffCandidate_post_init c")
    case (Inr c')
    show ?thesis
    proof (cases "accept_guard s c' facts now")
      case True
      with Accept Inr show ?thesis by (simp add: accept_handoff_accepted put_handoff_def)
    next
      case False
      with Accept Inr accept_handoff_refused [OF False] show ?thesis by auto
    qed
  qed (simp add: Accept)
qed (auto simp: mark_outbox_published_def claim_handoff_def take_over_handoff_lease_def
    record_provider_dispatch_def mark_outcome_unknown_def cancel_handoff_def verify_result_def Let_def
    put_handoff_def split: option.splits if_splits)

lemma get_of_records: "cst_records s' = AList.update h r (cst_records s) \<Longrightarrow>
    get_handoff s' h' = (if h' = h then Some r else get_handoff s h')"
  by (simp add: get_handoff_def update_conv')

lemma coord_step_inv:
  assumes inv: "coord_inv s"
  shows "coord_inv (coord_step e s)"
proof -
  let ?s = "coord_step e s"
  consider "cst_records ?s = cst_records s" | "handoff_moves s ?s" | "handoff_accepted s ?s"
    using coord_step_shape by blast
  then show ?thesis
  proof cases
    case 1
    with inv coord_step_reservation [of e s] show ?thesis
      by (simp add: coord_inv_def get_handoff_def allocated_tokens_eq)
  next
    case 2
    then obtain h r r' where m: "get_handoff s h = Some r" "handoff_trans r r'"
      "cst_records ?s = AList.update h r' (cst_records s)"
      by (auto simp: handoff_moves_def)
    have ok: "record_ok r" "hc_handoff_id (hr_candidate r) = h" using inv m(1) by (auto simp: coord_inv_def)
    have "allocated_tokens ?s \<le> allocated_tokens s"
      using inv m(1) trans_held [OF m(2) ok(1)]
      by (simp add: allocated_tokens_eq m(3) coord_inv_def get_handoff_def sum_update_old)
    then show ?thesis
      using inv trans_ok [OF m(2) ok(1)] trans_frame [OF m(2)] ok(2) coord_step_reservation [of e s]
      by (auto simp: coord_inv_def get_of_records [OF m(3)] m(3) distinct_update)
  next
    case 3
    then obtain c where c: "HandoffCandidate_post_init c = Inr c" "get_handoff s (hc_handoff_id c) = None"
      "allocated_tokens s + hc_requested_tokens c \<le> cst_parent_token_reservation s"
      "cst_records ?s = AList.update (hc_handoff_id c) (new_handoff_record c) (cst_records s)"
      by (auto simp: handoff_accepted_def)
    have "allocated_tokens ?s = allocated_tokens s + hc_requested_tokens c"
      using c(2) by (simp add: allocated_tokens_eq c(4) get_handoff_def sum_update_new)
        (simp add: held_tokens_def new_handoff_record_def Let_def)
    moreover have "hc_handoff_id (hr_candidate (new_handoff_record c)) = hc_handoff_id c"
      by (simp add: new_handoff_record_def Let_def)
    ultimately show ?thesis
      using inv new_record_ok [OF c(1)] c(3) coord_step_reservation [of e s]
      by (auto simp: coord_inv_def get_of_records [OF c(4)] c(4) distinct_update)
  qed
qed

section \<open>Every handoff is a fenced machine\<close>

definition handoff_fence :: "string \<Rightarrow> CoordinationStore \<Rightarrow> int" where
  "handoff_fence h s = (case get_handoff s h of None \<Rightarrow> 0 | Some r \<Rightarrow> hr_fence_token r)"

definition handoff_closed :: "string \<Rightarrow> CoordinationStore \<Rightarrow> bool" where
  "handoff_closed h s \<longleftrightarrow>
     (\<exists>r. get_handoff s h = Some r \<and> hr_state r \<in> {HandoffState.CANCELLED, HandoffState.VERIFIED_COMPLETED})"

text \<open>The record of one handoff after a step: the same, a transition of it, or newly accepted.\<close>

lemma coord_step_record:
  "get_handoff (coord_step e s) h = get_handoff s h \<or>
   (\<exists>r r'. get_handoff s h = Some r \<and> handoff_trans r r' \<and> get_handoff (coord_step e s) h = Some r') \<or>
   (\<exists>c. get_handoff s h = None \<and> HandoffCandidate_post_init c = Inr c \<and> hc_handoff_id c = h \<and>
      get_handoff (coord_step e s) h = Some (new_handoff_record c))"
proof -
  consider "cst_records (coord_step e s) = cst_records s" | "handoff_moves s (coord_step e s)"
    | "handoff_accepted s (coord_step e s)"
    using coord_step_shape by blast
  then show ?thesis
  proof cases
    case 1
    then show ?thesis by (simp add: get_handoff_def)
  next
    case 2
    then obtain k r r' where m: "get_handoff s k = Some r" "handoff_trans r r'"
      "cst_records (coord_step e s) = AList.update k r' (cst_records s)"
      by (auto simp: handoff_moves_def)
    then show ?thesis using get_of_records [OF m(3), of h] by (cases "h = k") auto
  next
    case 3
    then obtain c where c: "HandoffCandidate_post_init c = Inr c" "get_handoff s (hc_handoff_id c) = None"
      "cst_records (coord_step e s) = AList.update (hc_handoff_id c) (new_handoff_record c) (cst_records s)"
      by (auto simp: handoff_accepted_def)
    then show ?thesis using get_of_records [OF c(3), of h] by (cases "h = hc_handoff_id c") auto
  qed
qed

lemma coord_step_fence: "coord_inv s \<Longrightarrow> handoff_fence h s \<le> handoff_fence h (coord_step e s)"
proof -
  assume "coord_inv s"
  then have "coord_inv (coord_step e s)" by (rule coord_step_inv)
  then have "\<And>r. get_handoff (coord_step e s) h = Some r \<Longrightarrow> 0 \<le> hr_fence_token r"
    by (auto simp: coord_inv_def record_ok_def)
  with coord_step_record [of e s h] show ?thesis
    by (auto simp: handoff_fence_def dest: trans_frame split: option.splits)
qed

lemma coord_step_closed:
  assumes "coord_inv s" and "handoff_closed h s"
  shows "handoff_closed h (coord_step e s) \<and>
    map_option hr_state (get_handoff (coord_step e s) h) = map_option hr_state (get_handoff s h)"
proof -
  from assms obtain r where r: "get_handoff s h = Some r" "record_ok r"
    "hr_state r \<in> {HandoffState.CANCELLED, HandoffState.VERIFIED_COMPLETED}"
    by (auto simp: handoff_closed_def coord_inv_def)
  with coord_step_record [of e s h] trans_closed [OF _ r(2,3)] show ?thesis
    by (auto simp: handoff_closed_def)
qed

interpretation handoff: fenced_machine coord_step coord_inv "handoff_fence h" "handoff_closed h"
  "\<lambda>s. map_option hr_state (get_handoff s h)" for h
  by unfold_locales (simp_all add: coord_step_inv coord_step_fence coord_step_closed)

lemma coord_init_inv: "CoordinationStore_init p n = Inr s \<Longrightarrow> coord_inv s"
  by (auto simp: CoordinationStore_init_def coord_inv_def allocated_tokens_def store_records_def get_handoff_def
      split: if_splits)

section \<open>Properties of the store\<close>

text \<open>
  Delegated work never exceeds the parent's reservation: after any sequence of requests the
  tokens held by child allocations are at most the parent's token reservation, which never
  changes; every handoff that is not cancelled keeps its positive allocation held, and a cancelled
  one holds nothing.
\<close>

theorem child_allocations_within_parent:
  assumes "CoordinationStore_init parent n = Inr s0" and "s = fold coord_step es s0"
  shows "allocated_tokens s \<le> n \<and> cst_parent_token_reservation s = n \<and>
    (\<forall>h r. get_handoff s h = Some r \<longrightarrow> 0 < ca_reserved_tokens (hr_allocation r) \<and>
       (ca_status (hr_allocation r) = ''HELD'' \<longleftrightarrow> hr_state r \<noteq> HandoffState.CANCELLED))"
proof -
  have "cst_parent_token_reservation (fold coord_step es t) = cst_parent_token_reservation t" for t
    by (induction es arbitrary: t) (simp_all add: coord_step_reservation)
  moreover have "cst_parent_token_reservation s0 = n"
    using assms(1) by (auto simp: CoordinationStore_init_def split: if_splits)
  moreover have "coord_inv s"
    unfolding assms(2) by (rule handoff.run_inv [OF coord_init_inv [OF assms(1)]])
  ultimately show ?thesis using assms(2) by (auto simp: coord_inv_def record_ok_def)
qed

text \<open>
  C38. Ownership is fenced: once the fence of a handoff has moved past a token, no holder of that
  token is ever again allowed to dispatch, and no result carrying it is ever applied, whatever
  happens afterwards. A handoff that was cancelled or verified keeps that state for ever.
\<close>

theorem handoff_fencing:
  assumes "coord_inv s"
  shows "(f < handoff_fence h s \<longrightarrow>
      did_status (authorize_provider_dispatch (fold coord_step es s) h w f cap allowed now) \<noteq> DispatchStatus.ALLOWED \<and>
      (cr_handoff_id c = h \<and> cr_fence_token c = f \<longrightarrow>
        \<not> rvd_applied_to_current_state (fst (verify_result (fold coord_step es s) c versions)))) \<and>
    (handoff_closed h s \<longrightarrow>
      map_option hr_state (get_handoff (fold coord_step es s) h) = map_option hr_state (get_handoff s h))"
proof (intro conjI impI)
  assume "f < handoff_fence h s"
  then have "handoff_fence h (fold coord_step es s) \<noteq> f"
    using handoff.stale_fence_forever [OF assms] by blast
  then have stale: "\<And>r. get_handoff (fold coord_step es s) h = Some r \<Longrightarrow> hr_fence_token r \<noteq> f"
    by (simp add: handoff_fence_def)
  then show "did_status (authorize_provider_dispatch (fold coord_step es s) h w f cap allowed now) \<noteq> DispatchStatus.ALLOWED"
    by (auto simp: authorize_provider_dispatch_def Let_def split: option.splits)
  assume "cr_handoff_id c = h \<and> cr_fence_token c = f"
  with stale show "\<not> rvd_applied_to_current_state (fst (verify_result (fold coord_step es s) c versions))"
    by (auto simp: verify_result_def verification_status_def Let_def split: option.splits)
next
  assume "handoff_closed h s"
  then show "map_option hr_state (get_handoff (fold coord_step es s) h) = map_option hr_state (get_handoff s h)"
    using handoff.run_terminal [OF assms] by blast
qed

text \<open>
  Acceptance is exact and attenuating: a candidate is accepted exactly when its handoff id is
  new, tenant and policy version are current, the deadline lies ahead, depth, fan-out and
  concurrency limits hold, output contract and context manifest are admitted, every requested
  capability is both delegatable and currently allowed, and its tokens fit what is left of the
  parent's reservation. The record then grants exactly the requested capabilities; in every other
  case the store is unchanged. Offering an accepted candidate again is answered DUPLICATE.
\<close>

theorem acceptance_exact:
  "(acd_status (fst (accept_handoff s c facts now)) = AcceptanceStatus.ACCEPTED \<longleftrightarrow> accept_guard s c facts now) \<and>
   snd (accept_handoff s c facts now) =
     (if accept_guard s c facts now then put_handoff (hc_handoff_id c) (new_handoff_record c) s else s) \<and>
   set (dg_capabilities (hr_grant (new_handoff_record c))) = set (hc_requested_capabilities c) \<and>
   acd_status (fst (accept_handoff (put_handoff (hc_handoff_id c) (new_handoff_record c) s) c facts' now')) =
     AcceptanceStatus.DUPLICATE"
proof -
  have "acd_status (fst (accept_handoff (put_handoff (hc_handoff_id c) (new_handoff_record c) s) c facts' now')) =
      AcceptanceStatus.DUPLICATE"
    by (simp add: accept_handoff_def Let_def) (simp add: new_handoff_record_def Let_def)
  moreover have "set (dg_capabilities (hr_grant (new_handoff_record c))) = set (hc_requested_capabilities c)"
    by (simp add: new_handoff_record_def Let_def)
  ultimately show ?thesis
    using accept_handoff_accepted [of s c facts now] accept_handoff_refused [of s c facts now]
    by (cases "accept_guard s c facts now") auto
qed

text \<open>
  The acceptance guard never reads the parent job: a candidate of another parent is accepted just
  the same and held against this parent's reservation.
\<close>

lemma accepts_foreign_parent:
  "accept_guard s (c\<lparr>hc_parent_job_id := p\<rparr>) facts now = accept_guard s c facts now"
  by (simp add: accept_guard_def)

section \<open>Results and aggregation\<close>

definition handoff_verified :: "string \<Rightarrow> CoordinationStore \<Rightarrow> bool" where
  "handoff_verified h s \<longleftrightarrow> (\<exists>r. get_handoff s h = Some r \<and> hr_state r = HandoffState.VERIFIED_COMPLETED)"

definition applied_results :: "string \<Rightarrow> CoordinationStore \<Rightarrow> ResultEvidence list" where
  "applied_results h s =
     filter (\<lambda>e. re_applied_to_current_state e \<and> cr_handoff_id (re_candidate e) = h) (cst_result_evidence s)"

definition evidence_inv :: "CoordinationStore \<Rightarrow> bool" where
  "evidence_inv s \<longleftrightarrow> (\<forall>h. length (applied_results h s) = (if handoff_verified h s then 1 else 0))"

lemma verify_result_effect:
  assumes "coord_inv s"
  shows "(rvd_applied_to_current_state (fst (verify_result s c v)) \<longrightarrow>
      \<not> handoff_verified (cr_handoff_id c) s \<and>
      applied_results h (snd (verify_result s c v)) =
        applied_results h s @ (if h = cr_handoff_id c
          then [\<lparr>re_candidate = c, re_status = ResultVerificationStatus.VERIFIED, re_applied_to_current_state = True\<rparr>] else []) \<and>
      (handoff_verified h (snd (verify_result s c v)) \<longleftrightarrow> h = cr_handoff_id c \<or> handoff_verified h s)) \<and>
    (\<not> rvd_applied_to_current_state (fst (verify_result s c v)) \<longrightarrow>
      applied_results h (snd (verify_result s c v)) = applied_results h s \<and>
      handoff_verified h (snd (verify_result s c v)) = handoff_verified h s)"
  by (auto simp: verify_result_def verification_status_def Let_def handoff_verified_def applied_results_def
      get_handoff_def put_handoff_def update_conv' split: option.splits if_splits)

lemma handoff_verified_put:
  "handoff_verified h (put_handoff k r s) \<longleftrightarrow>
     (if h = k then hr_state r = HandoffState.VERIFIED_COMPLETED else handoff_verified h s)"
  by (simp add: handoff_verified_def)

lemma verified_unchanged:
  assumes "coord_inv s" and "\<And>c v. e \<noteq> VerifyResult c v"
  shows "handoff_verified h (coord_step e s) = handoff_verified h s \<and>
    cst_result_evidence (coord_step e s) = cst_result_evidence s"
proof -
  have ok: "\<And>k r. get_handoff s k = Some r \<Longrightarrow> record_ok r" using assms(1) by (auto simp: coord_inv_def)
  have put: "cst_result_evidence (put_handoff k r s) = cst_result_evidence s" for k r
    by (simp add: put_handoff_def)
  show ?thesis
  proof (cases e)
    case (Accept c facts now)
    show ?thesis
    proof (cases "HandoffCandidate_post_init c")
      case (Inr c')
      show ?thesis
      proof (cases "accept_guard s c' facts now")
        case True
        then have "get_handoff s (hc_handoff_id c') = None" by (simp add: accept_guard_def)
        moreover have "hr_state (new_handoff_record c') = HandoffState.ACCEPTED"
          by (simp add: new_handoff_record_def Let_def)
        ultimately show ?thesis
          using Accept Inr True by (auto simp: accept_handoff_accepted handoff_verified_put put handoff_verified_def)
      next
        case False
        with Accept Inr accept_handoff_refused [OF False] show ?thesis by auto
      qed
    qed (simp add: Accept)
  next
    case (VerifyResult c v)
    with assms(2) show ?thesis by blast
  next
    case (Claim k w now d)
    show ?thesis
    proof (cases "get_handoff s k")
      case None
      with Claim show ?thesis by (simp add: claim_handoff_def)
    next
      case (Some r)
      with Claim ok [OF Some] show ?thesis
        by (auto simp: claim_handoff_def handoff_verified_put put handoff_verified_def record_ok_def)
    qed
  next
    case ParentTerminal
    then show ?thesis by (simp add: handoff_verified_def get_handoff_def)
  next
    case (Dispatch k w f cap allowed op now)
    then show ?thesis
      by (auto simp: record_provider_dispatch_def authorize_provider_dispatch_def Let_def handoff_verified_put put
          handoff_verified_def split: option.splits if_splits)
  qed (auto simp: mark_outbox_published_def take_over_handoff_lease_def mark_outcome_unknown_def
      cancel_handoff_def Let_def handoff_verified_put put handoff_verified_def split: option.splits if_splits)
qed

lemma coord_step_evidence:
  assumes "coord_inv s" and "evidence_inv s"
  shows "evidence_inv (coord_step e s)"
proof (cases "\<exists>c v. e = VerifyResult c v")
  case True
  then obtain c v where e: "e = VerifyResult c v" by blast
  show ?thesis unfolding evidence_inv_def
  proof
    fix h
    have "length (applied_results h s) = (if handoff_verified h s then 1 else 0)"
      using assms(2) by (simp add: evidence_inv_def)
    with verify_result_effect [OF assms(1), of c v h]
    show "length (applied_results h (coord_step e s)) = (if handoff_verified h (coord_step e s) then 1 else 0)"
      unfolding e by (cases "rvd_applied_to_current_state (fst (verify_result s c v))") auto
  qed
next
  case False
  then have "\<And>c v. e \<noteq> VerifyResult c v" by blast
  from verified_unchanged [OF assms(1) this] assms(2) show ?thesis
    by (simp add: evidence_inv_def applied_results_def)
qed

interpretation coordination: invariant_machine coord_step "\<lambda>s. coord_inv s \<and> evidence_inv s"
  by unfold_locales (simp add: coord_step_inv coord_step_evidence)

text \<open>
  Every handoff contributes at most one fact: after any sequence of requests exactly one
  result was applied for a handoff that is verified and none for any other, however many results
  were reported by current, stale or foreign workers.
\<close>

theorem one_applied_result_per_handoff:
  assumes "CoordinationStore_init parent n = Inr s0" and "s = fold coord_step es s0"
  shows "length (applied_results h s) = (if handoff_verified h s then 1 else 0)"
proof -
  have "evidence_inv s0"
    using assms(1) by (auto simp: CoordinationStore_init_def evidence_inv_def applied_results_def
        handoff_verified_def get_handoff_def split: if_splits)
  with coordination.run_inv [of s0 es] coord_init_inv [OF assms(1)] assms(2) show ?thesis
    by (simp add: evidence_inv_def)
qed

lemma map_of_fact_values:
  "map_of (fact_values rs) k =
     (if k \<in> cr_fact_key ` set rs then Some {cr_fact_value r |r. r \<in> set rs \<and> cr_fact_key r = k} else None)"
proof (induction rs rule: rev_induct)
  case (snoc r rs)
  have "fact_values (rs @ [r]) = add_fact r (fact_values rs)" by (simp add: fact_values_def)
  with snoc show ?case
    by (cases "cr_fact_key r \<in> cr_fact_key ` set rs")
      (auto simp: add_fact_def update_conv', metis image_eqI)
qed (simp add: fact_values_def)

lemma distinct_fact_values: "distinct (map fst (fact_values rs))"
proof (induction rs rule: rev_induct)
  case (snoc r rs)
  then show ?case by (simp add: fact_values_def add_fact_def distinct_update)
qed (simp add: fact_values_def)

lemma fact_conflict_iff:
  "fact_conflict rs \<longleftrightarrow>
     (\<exists>a b. a \<in> set rs \<and> b \<in> set rs \<and> cr_fact_key a = cr_fact_key b \<and> cr_fact_value a \<noteq> cr_fact_value b)"
proof
  assume "fact_conflict rs"
  then obtain k vs where kv: "(k, vs) \<in> set (fact_values rs)" "1 < card vs"
    by (auto simp: fact_conflict_def list_ex_iff)
  then have "map_of (fact_values rs) k = Some vs" by (simp add: distinct_fact_values)
  then have vs: "vs = {cr_fact_value r |r. r \<in> set rs \<and> cr_fact_key r = k}"
    by (simp add: map_of_fact_values split: if_splits)
  have "finite vs" using kv(2) card_ge_0_finite [of vs] by simp
  then obtain v w where "v \<in> vs" "w \<in> vs" "v \<noteq> w"
    using kv(2) card_le_Suc0_iff_eq [of vs] by fastforce
  then obtain a b where "a \<in> set rs" "cr_fact_key a = k" "v = cr_fact_value a"
    "b \<in> set rs" "cr_fact_key b = k" "w = cr_fact_value b"
    unfolding vs by auto
  with \<open>v \<noteq> w\<close> show "\<exists>a b. a \<in> set rs \<and> b \<in> set rs \<and> cr_fact_key a = cr_fact_key b \<and> cr_fact_value a \<noteq> cr_fact_value b"
    by metis
next
  assume "\<exists>a b. a \<in> set rs \<and> b \<in> set rs \<and> cr_fact_key a = cr_fact_key b \<and> cr_fact_value a \<noteq> cr_fact_value b"
  then obtain a b where ab: "a \<in> set rs" "b \<in> set rs" "cr_fact_key a = cr_fact_key b" "cr_fact_value a \<noteq> cr_fact_value b"
    by blast
  let ?k = "cr_fact_key a" and ?vs = "{cr_fact_value r |r. r \<in> set rs \<and> cr_fact_key r = cr_fact_key a}"
  have "map_of (fact_values rs) ?k = Some ?vs" using ab(1) by (simp add: map_of_fact_values)
  then have "(?k, ?vs) \<in> set (fact_values rs)" by (rule map_of_SomeD)
  moreover have "card {cr_fact_value a, cr_fact_value b} \<le> card ?vs"
    using ab by (intro card_mono) auto
  ultimately show "fact_conflict rs"
    using ab(4) unfolding fact_conflict_def list_ex_iff by (intro bexI [of _ "(?k, ?vs)"]) simp_all
qed

lemma filter_length_all: "length (filter P xs) = length xs \<longleftrightarrow> (\<forall>x \<in> set xs. P x)"
  by (metis filter_True filter_id_conv length_filter_less linorder_neq_iff)

text \<open>
  Aggregation is conservative: READY is reported exactly when the parent is not terminal,
  every child is verified and no two applied results give one fact key different values; CONFLICT
  is reported exactly when every required child is verified but two applied results disagree;
  and no aggregation ever declares the parent completed.
\<close>

theorem aggregation_spec:
  "(agd_status (aggregate_handoffs s) = AggregationStatus.READY \<longleftrightarrow>
      \<not> cst_parent_terminal s \<and> hr_state ` set (store_records s) \<subseteq> {HandoffState.VERIFIED_COMPLETED} \<and>
      \<not> fact_conflict (map re_candidate (filter re_applied_to_current_state (cst_result_evidence s)))) \<and>
   (agd_status (aggregate_handoffs s) = AggregationStatus.CONFLICT \<longleftrightarrow>
      \<not> cst_parent_terminal s \<and>
      hr_state ` {r \<in> set (store_records s). hc_required (hr_candidate r)} \<subseteq> {HandoffState.VERIFIED_COMPLETED} \<and>
      (\<exists>a b. a \<in> set (cst_result_evidence s) \<and> b \<in> set (cst_result_evidence s) \<and>
         re_applied_to_current_state a \<and> re_applied_to_current_state b \<and>
         cr_fact_key (re_candidate a) = cr_fact_key (re_candidate b) \<and>
         cr_fact_value (re_candidate a) \<noteq> cr_fact_value (re_candidate b))) \<and>
   \<not> agd_parent_completed (aggregate_handoffs s)"
proof -
  let ?V = "\<lambda>r. hr_state r = HandoffState.VERIFIED_COMPLETED"
  let ?req = "filter (\<lambda>r. hc_required (hr_candidate r)) (store_records s)"
  let ?opt = "filter (\<lambda>r. \<not> hc_required (hr_candidate r)) (store_records s)"
  let ?res = "map re_candidate (filter re_applied_to_current_state (cst_result_evidence s))"
  have all: "(int (length (filter ?V xs)) \<noteq> int (length xs)) = (\<not> hr_state ` set xs \<subseteq> {HandoffState.VERIFIED_COMPLETED})"
    for xs :: "HandoffRecord list"
    using filter_length_all [of ?V xs] by auto
  have status: "agd_status (aggregate_handoffs s) =
      (if cst_parent_terminal s then AggregationStatus.PARENT_TERMINAL
       else if \<not> hr_state ` set ?req \<subseteq> {HandoffState.VERIFIED_COMPLETED} then AggregationStatus.WAITING_FOR_REQUIRED
       else if fact_conflict ?res then AggregationStatus.CONFLICT
       else if \<not> hr_state ` set ?opt \<subseteq> {HandoffState.VERIFIED_COMPLETED} then AggregationStatus.PARTIAL
       else AggregationStatus.READY)"
    by (simp only: aggregate_handoffs_def Let_def AggregationDecision.select_convs all)
  have split: "hr_state ` set (store_records s) \<subseteq> {HandoffState.VERIFIED_COMPLETED} \<longleftrightarrow>
      hr_state ` set ?req \<subseteq> {HandoffState.VERIFIED_COMPLETED} \<and> hr_state ` set ?opt \<subseteq> {HandoffState.VERIFIED_COMPLETED}"
    by auto
  have conflict: "fact_conflict ?res \<longleftrightarrow>
      (\<exists>a b. a \<in> set (cst_result_evidence s) \<and> b \<in> set (cst_result_evidence s) \<and>
         re_applied_to_current_state a \<and> re_applied_to_current_state b \<and>
         cr_fact_key (re_candidate a) = cr_fact_key (re_candidate b) \<and>
         cr_fact_value (re_candidate a) \<noteq> cr_fact_value (re_candidate b))"
    unfolding fact_conflict_iff by auto
  have "\<not> agd_parent_completed (aggregate_handoffs s)"
    by (simp add: aggregate_handoffs_def Let_def)
  then show ?thesis
    unfolding status split conflict [symmetric] set_filter [symmetric] by simp
qed

section \<open>Concrete runs\<close>

definition demo_handoff :: "HandoffCandidate" where
  "demo_handoff = \<lparr>hc_tenant_id = ''t'', hc_parent_job_id = ''p'', hc_parent_attempt_id = ''pa'',
     hc_parent_step_id = ''ps'', hc_handoff_id = ''h'', hc_idempotency_key = ''k'', hc_policy_version = ''v1'',
     hc_objective = ''o'', hc_input_contract = ''i'', hc_output_contract = ''out'', hc_context_manifest_id = ''m'',
     hc_context_source_versions = [(''src'', 1)], hc_requested_capabilities = [''read''], hc_requested_tokens = 4,
     hc_receiver_role = ''r'', hc_aggregation_slot = ''slot'', hc_required = True, hc_deadline = 100,
     hc_delegation_depth = 1\<rparr>"

definition demo_facts :: "CurrentCoordinationFacts" where
  "demo_facts = \<lparr>cf_tenant_id = ''t'', cf_delegatable_capabilities = [''read''],
     cf_currently_allowed_capabilities = [''read''], cf_accepted_output_contracts = [''out''],
     cf_readable_context_manifests = [''m''], cf_current_policy_version = ''v1'', cf_max_delegation_depth = 2,
     cf_max_fan_out = 3, cf_concurrency_limit = 2\<rparr>"

definition demo_coordination :: "CoordinationStore" where
  "demo_coordination = \<lparr>cst_parent_job_id = ''p'', cst_parent_token_reservation = 5, cst_records = [],
     cst_result_evidence = [], cst_parent_terminal = False\<rparr>"

definition demo_coord_events :: "CoordEvent list" where
  "demo_coord_events = [Accept demo_handoff demo_facts 1, Claim ''h'' ''w'' 2 10,
     Dispatch ''h'' ''w'' 1 ''read'' [''read''] ''op'' 3,
     VerifyResult \<lparr>cr_result_id = ''r'', cr_handoff_id = ''h'', cr_child_attempt_id = ''p:child:h:attempt:1'',
       cr_worker_id = ''w'', cr_fence_token = 1, cr_output_contract = ''out'', cr_source_versions = [(''src'', 1)],
       cr_evidence_reference = ''e'', cr_completeness = ''full'', cr_fact_key = ''fact'', cr_fact_value = ''yes''\<rparr>
       [(''src'', 1)]]"

lemma demo_coordination_init: "CoordinationStore_init ''p'' 5 = Inr demo_coordination"
  by (simp add: CoordinationStore_init_def demo_coordination_def)

lemma demo_accept_guard: "accept_guard demo_coordination demo_handoff demo_facts 1"
  by (simp add: accept_guard_def demo_coordination_def demo_handoff_def demo_facts_def get_handoff_def
      active_handoffs_def store_records_def allocated_tokens_def)

lemma demo_accept:
  "coord_step (Accept demo_handoff demo_facts 1) demo_coordination =
     put_handoff ''h'' (new_handoff_record demo_handoff) demo_coordination"
  using accept_handoff_accepted [OF demo_accept_guard]
  by (simp add: HandoffCandidate_post_init_def demo_handoff_def all_truthy_def truthy_def)

lemma demo_run_verified: "handoff_verified ''h'' (fold coord_step demo_coord_events demo_coordination)"
  by (simp add: demo_coord_events_def demo_accept del: coord_step.simps(1))
    (simp add: claim_handoff_def record_provider_dispatch_def authorize_provider_dispatch_def Let_def
      verify_result_def verification_status_def handoff_verified_put new_handoff_record_def demo_handoff_def
      get_handoff_def put_handoff_def demo_coordination_def handoff_verified_def)

theorem child_allocations_within_parent_witness:
  "allocated_tokens (fold coord_step demo_coord_events demo_coordination) \<le> 5"
  using child_allocations_within_parent [OF demo_coordination_init refl, of demo_coord_events] by blast

theorem one_applied_result_per_handoff_witness:
  "length (applied_results ''h'' (fold coord_step demo_coord_events demo_coordination)) = 1"
  using one_applied_result_per_handoff [OF demo_coordination_init refl, of "''h''" demo_coord_events]
    demo_run_verified by simp

theorem handoff_fencing_witness:
  "map_option hr_state (get_handoff (fold coord_step [Cancel ''h'', Claim ''h'' ''x'' 50 5]
       (fold coord_step demo_coord_events demo_coordination)) ''h'') = Some HandoffState.VERIFIED_COMPLETED"
proof -
  let ?s = "fold coord_step demo_coord_events demo_coordination"
  have inv: "coord_inv ?s" by (rule handoff.run_inv [OF coord_init_inv [OF demo_coordination_init]])
  obtain r where r: "get_handoff ?s ''h'' = Some r" "hr_state r = HandoffState.VERIFIED_COMPLETED"
    using demo_run_verified by (auto simp: handoff_verified_def)
  then have "handoff_closed ''h'' ?s" by (simp add: handoff_closed_def)
  with handoff_fencing [OF inv, of _ "''h''" "[Cancel ''h'', Claim ''h'' ''x'' 50 5]"] r show ?thesis
    by (simp del: fold_simps)
qed

end
