(* ===== verification/Agent_Loop.thy ===== *)
theory Agent_Loop
  imports Machines Sha256
begin

text \<open>
  \<^verbatim>\<open>src/projects/ai-agent/src/agent_loop.py\<close>: the control decision of one Agent step, its stable
  identities, the in-process control store and the orchestration of the next step, together with
  the \<open>RuntimeResult\<close> data of \<^verbatim>\<open>application_runtime.py\<close> the decision reads. \<open>RecoveryAction\<close> of that file is
  \<open>RuntimeRecoveryAction\<close> here. The runtime behind \<open>AgentRuntimePort\<close> is a parameter.
\<close>

section \<open>Runtime results\<close>

datatype RuntimeStage =
  PREPARATION | PROVIDER_DISPATCH | CANDIDATE_VALIDATION | TOOL_EXECUTION | OUTCOME_VERIFICATION
| COMPLETION | COST_SETTLEMENT

datatype RuntimeStatus = COMPLETED | REJECTED | BLOCKED_PRE_DISPATCH | PENDING_RECONCILIATION

datatype RuntimeRecoveryAction = NONE | REJECT | RECONCILE_ORIGINAL_IDENTITY

datatype EvidenceLevel = CONCEPTUAL | STATIC | EXECUTED_LOCAL_RUNTIME | INTEGRATION_RUNTIME | PRODUCTION

record RuntimeResult =
  rr_job_id :: string
  rr_attempt_id :: string
  rr_stage :: RuntimeStage
  rr_status :: RuntimeStatus
  rr_recovery_action :: RuntimeRecoveryAction
  rr_evidence_level :: EvidenceLevel
  rr_reason :: string
  rr_safe_evidence :: "string \<rightharpoonup> string"
  rr_operation_id :: "string option"

definition RuntimeResult_post_init :: "RuntimeResult \<Rightarrow> RuntimeResult res" where
  "RuntimeResult_post_init r =
     (if \<not> truthy (rr_job_id r) \<or> \<not> truthy (rr_attempt_id r) \<or> \<not> truthy (rr_reason r)
      then Inl (ValueError ''job_id, attempt_id, and reason are required'')
      else if rr_status r = RuntimeStatus.PENDING_RECONCILIATION \<and>
         rr_recovery_action r \<noteq> RuntimeRecoveryAction.RECONCILE_ORIGINAL_IDENTITY
      then Inl (ValueError ''pending reconciliation must preserve identity'')
      else if rr_status r = RuntimeStatus.COMPLETED \<and> rr_recovery_action r \<noteq> RuntimeRecoveryAction.NONE
      then Inl (ValueError ''completed results cannot request recovery'')
      else Inr r)"

section \<open>Step input, step result\<close>

datatype ControlDecision = CONTINUE | COMPLETE | WAIT | FAIL | RECONCILE

datatype ControlApplyStatus = CREATED | DUPLICATE_REPLAY | NOOP_STALE | NOOP_TERMINAL | NOT_APPLICABLE

fun ControlDecision_value :: "ControlDecision \<Rightarrow> string" where
  "ControlDecision_value ControlDecision.CONTINUE = ''CONTINUE''"
| "ControlDecision_value ControlDecision.COMPLETE = ''COMPLETE''"
| "ControlDecision_value ControlDecision.WAIT = ''WAIT''"
| "ControlDecision_value ControlDecision.FAIL = ''FAIL''"
| "ControlDecision_value ControlDecision.RECONCILE = ''RECONCILE''"

record AgentStepInput =
  si_tenant_id :: string
  si_job_id :: string
  si_current_step_id :: string
  si_runtime_attempt_id :: string
  si_goal_required_observations :: int
  si_verified_observation_ids :: "string list"
  si_job_is_terminal :: bool
  si_runtime_result :: "RuntimeResult option"
  si_pending_reconciliation_identity :: "string option"
  si_waiting_for :: "string option"
  si_model_proposal :: "string option"

definition AgentStepInput_post_init :: "AgentStepInput \<Rightarrow> AgentStepInput res" where
  "AgentStepInput_post_init s =
     (if \<not> truthy (si_tenant_id s) \<or> \<not> truthy (si_job_id s) \<or> \<not> truthy (si_current_step_id s)
      then Inl (ValueError ''tenant_id, job_id, and current_step_id are required'')
      else if \<not> truthy (si_runtime_attempt_id s) then Inl (ValueError ''runtime_attempt_id is required'')
      else if si_goal_required_observations s < 1
      then Inl (ValueError ''goal_required_observations must be positive'')
      else if \<not> distinct (si_verified_observation_ids s)
      then Inl (ValueError ''verified observation identities must be unique'')
      else if (case si_runtime_result s of None \<Rightarrow> False
                 | Some r \<Rightarrow> rr_job_id r \<noteq> si_job_id s \<or> rr_attempt_id r \<noteq> si_runtime_attempt_id s)
      then Inl (ValueError ''RuntimeResult identity does not match Agent step'')
      else Inr s)"

record NextStepRequest =
  nr_tenant_id :: string
  nr_job_id :: string
  nr_step_id :: string
  nr_parent_step_id :: string
  nr_runtime_attempt_id :: string
  nr_control_decision_id :: string
  nr_verified_observation_ids :: "string list"

record AgentStepResult =
  sr_tenant_id :: string
  sr_job_id :: string
  sr_step_id :: string
  sr_source_attempt_id :: string
  sr_control_decision_id :: string
  sr_decision :: ControlDecision
  sr_reason :: string
  sr_next_step :: "NextStepRequest option"

definition AgentStepResult_post_init :: "AgentStepResult \<Rightarrow> AgentStepResult res" where
  "AgentStepResult_post_init r =
     (if \<not> truthy (sr_reason r) \<or> \<not> truthy (sr_control_decision_id r)
      then Inl (ValueError ''reason and control_decision_id are required'')
      else if (sr_decision r = ControlDecision.CONTINUE) \<noteq> (sr_next_step r \<noteq> None)
      then Inl (ValueError ''only CONTINUE must carry exactly one next step'')
      else Inr r)"

section \<open>Stable identities and the control decision\<close>

definition stable_id :: "string \<Rightarrow> string list \<Rightarrow> string" where
  "stable_id pre parts = pre @ ''-'' @ take 20 (sha256_hexdigest (join_us parts))"

definition decision_id_of :: "AgentStepInput \<Rightarrow> ControlDecision \<Rightarrow> string \<Rightarrow> string" where
  "decision_id_of step decision reason =
     stable_id ''decision''
       [si_tenant_id step, si_job_id step, si_current_step_id step, si_runtime_attempt_id step,
        ControlDecision_value decision, reason, str_join '','' (si_verified_observation_ids step)]"

definition next_step_of :: "AgentStepInput \<Rightarrow> string \<Rightarrow> NextStepRequest" where
  "next_step_of step decision_id =
     (let next_step_id = stable_id ''step'' [si_job_id step, si_current_step_id step, decision_id];
          next_attempt_id = stable_id ''attempt'' [si_job_id step, next_step_id]
      in \<lparr>nr_tenant_id = si_tenant_id step, nr_job_id = si_job_id step, nr_step_id = next_step_id,
          nr_parent_step_id = si_current_step_id step, nr_runtime_attempt_id = next_attempt_id,
          nr_control_decision_id = decision_id,
          nr_verified_observation_ids = si_verified_observation_ids step\<rparr>)"

definition step_result :: "AgentStepInput \<Rightarrow> ControlDecision \<Rightarrow> string \<Rightarrow> AgentStepResult res" where
  "step_result step decision reason =
     (let decision_id = decision_id_of step decision reason;
          next_step = (if decision = ControlDecision.CONTINUE then Some (next_step_of step decision_id) else None)
      in AgentStepResult_post_init
           \<lparr>sr_tenant_id = si_tenant_id step, sr_job_id = si_job_id step, sr_step_id = si_current_step_id step,
            sr_source_attempt_id = si_runtime_attempt_id step, sr_control_decision_id = decision_id,
            sr_decision = decision, sr_reason = reason, sr_next_step = next_step\<rparr>)"

definition decide_control :: "AgentStepInput \<Rightarrow> AgentStepResult res" where
  "decide_control step =
     (if si_job_is_terminal step then step_result step ControlDecision.COMPLETE ''job_already_terminal''
      else if si_pending_reconciliation_identity step \<noteq> None
      then step_result step ControlDecision.RECONCILE ''external_outcome_unknown''
      else if (case si_runtime_result step of None \<Rightarrow> False
                 | Some r \<Rightarrow> rr_status r = RuntimeStatus.PENDING_RECONCILIATION)
      then step_result step ControlDecision.RECONCILE ''runtime_pending_reconciliation''
      else if (case si_runtime_result step of None \<Rightarrow> False
                 | Some r \<Rightarrow> rr_status r \<in> {RuntimeStatus.REJECTED, RuntimeStatus.BLOCKED_PRE_DISPATCH})
      then step_result step ControlDecision.FAIL ''runtime_explicit_non_success''
      else if int (length (si_verified_observation_ids step)) \<ge> si_goal_required_observations step
      then step_result step ControlDecision.COMPLETE ''goal_satisfied_by_verified_observations''
      else if si_waiting_for step \<noteq> None
      then step_result step ControlDecision.WAIT ''known_prerequisite_pending''
      else step_result step ControlDecision.CONTINUE ''goal_not_yet_satisfied'')"

section \<open>The control store\<close>

record AgentJobState =
  js_tenant_id :: string
  js_job_id :: string
  js_current_step_id :: string
  js_is_terminal :: bool

definition AgentJobState_post_init :: "AgentJobState \<Rightarrow> AgentJobState res" where
  "AgentJobState_post_init s =
     (if \<not> truthy (js_tenant_id s) \<or> \<not> truthy (js_job_id s) \<or> \<not> truthy (js_current_step_id s)
      then Inl (ValueError ''tenant_id, job_id, and current_step_id are required'')
      else Inr s)"

record ControlStore =
  cs_state :: AgentJobState
  cs_next_steps_by_decision :: "string \<rightharpoonup> NextStepRequest"

definition ControlStore_init :: "AgentJobState \<Rightarrow> ControlStore" where
  "ControlStore_init state = \<lparr>cs_state = state, cs_next_steps_by_decision = Map.empty\<rparr>"

definition apply_continue :: "ControlStore \<Rightarrow> AgentStepResult \<Rightarrow> (ControlApplyStatus \<times> ControlStore) res" where
  "apply_continue store result =
     (if sr_tenant_id result \<noteq> js_tenant_id (cs_state store) \<or> sr_job_id result \<noteq> js_job_id (cs_state store)
      then Inl (ValueError ''control result does not match store identity'')
      else if sr_decision result \<noteq> ControlDecision.CONTINUE then Inr (ControlApplyStatus.NOT_APPLICABLE, store)
      else if js_is_terminal (cs_state store) then Inr (ControlApplyStatus.NOOP_TERMINAL, store)
      else if cs_next_steps_by_decision store (sr_control_decision_id result) \<noteq> None
      then Inr (ControlApplyStatus.DUPLICATE_REPLAY, store)
      else if js_current_step_id (cs_state store) \<noteq> sr_step_id result
      then Inr (ControlApplyStatus.NOOP_STALE, store)
      else case sr_next_step result of
        None \<Rightarrow> Inl AssertionError
      | Some next_step \<Rightarrow>
          Inr (ControlApplyStatus.CREATED,
               \<lparr>cs_state = (cs_state store)\<lparr>js_current_step_id := nr_step_id next_step\<rparr>,
                cs_next_steps_by_decision =
                  (cs_next_steps_by_decision store)(sr_control_decision_id result \<mapsto> next_step)\<rparr>))"

definition next_step_for :: "ControlStore \<Rightarrow> string \<Rightarrow> NextStepRequest option" where
  "next_step_for store control_decision_id = cs_next_steps_by_decision store control_decision_id"

text \<open>
  \<open>orchestrate_next_step\<close> mutates the store and calls the runtime; the model returns the result, the
  store after the call and the list of requests handed to \<open>execute_step\<close>. The runtime may raise:
  the store update that preceded the call then stays.
\<close>

definition orchestrate_next_step ::
    "(NextStepRequest \<Rightarrow> RuntimeResult res) \<Rightarrow> ControlStore \<Rightarrow> AgentStepResult
      \<Rightarrow> (ControlApplyStatus \<times> RuntimeResult option) res \<times> ControlStore \<times> NextStepRequest list" where
  "orchestrate_next_step execute_step store result =
     (case apply_continue store result of
        Inl e \<Rightarrow> (Inl e, store, [])
      | Inr (status, store') \<Rightarrow>
          (if status \<noteq> ControlApplyStatus.CREATED then (Inr (status, None), store', [])
           else case sr_next_step result of
             None \<Rightarrow> (Inl AssertionError, store', [])
           | Some next_step \<Rightarrow>
               (bind_res (execute_step next_step) (\<lambda>r. Inr (status, Some r)), store', [next_step])))"

section \<open>The decision table\<close>

lemma stable_id_truthy [simp]: "truthy (stable_id pre parts)"
  by (simp add: stable_id_def truthy_def)

lemma step_result_eq:
  "truthy reason \<Longrightarrow> step_result step d reason =
     Inr \<lparr>sr_tenant_id = si_tenant_id step, sr_job_id = si_job_id step, sr_step_id = si_current_step_id step,
          sr_source_attempt_id = si_runtime_attempt_id step,
          sr_control_decision_id = decision_id_of step d reason, sr_decision = d, sr_reason = reason,
          sr_next_step = (if d = ControlDecision.CONTINUE
                          then Some (next_step_of step (decision_id_of step d reason)) else None)\<rparr>"
  by (simp add: step_result_def Let_def AgentStepResult_post_init_def decision_id_of_def)

definition runtime_pending :: "AgentStepInput \<Rightarrow> bool" where
  "runtime_pending step \<longleftrightarrow> si_pending_reconciliation_identity step \<noteq> None \<or>
     (\<exists>r. si_runtime_result step = Some r \<and> rr_status r = RuntimeStatus.PENDING_RECONCILIATION)"

definition runtime_refused :: "AgentStepInput \<Rightarrow> bool" where
  "runtime_refused step \<longleftrightarrow>
     (\<exists>r. si_runtime_result step = Some r \<and>
        rr_status r \<in> {RuntimeStatus.REJECTED, RuntimeStatus.BLOCKED_PRE_DISPATCH})"

definition goal_reached :: "AgentStepInput \<Rightarrow> bool" where
  "goal_reached step \<longleftrightarrow> si_goal_required_observations step \<le> int (length (si_verified_observation_ids step))"

lemma decide_control_next:
  assumes "decide_control step = Inr r"
  shows "sr_tenant_id r = si_tenant_id step \<and> sr_job_id r = si_job_id step \<and>
    sr_step_id r = si_current_step_id step \<and>
    sr_next_step r = (if sr_decision r = ControlDecision.CONTINUE
       then Some (next_step_of step (sr_control_decision_id r)) else None)"
  using assms by (auto simp: decide_control_def step_result_eq truthy_def split: if_splits)

text \<open>
\<open>decide_control\<close> always returns a valid result bound to the step it was asked about, and the
  decision is exactly this: COMPLETE when the job is already terminal, or when no outcome is
  unknown or refused and enough observations are verified; RECONCILE whenever an outcome is
  unknown; FAIL when the runtime refused; WAIT and CONTINUE only when the goal is open, nothing
  is unknown or refused, and a prerequisite is, respectively is not, awaited. Only CONTINUE
  carries a next step, whose parent is the step decided on, under the same tenant and job.
\<close>

theorem decide_control_spec:
  "\<exists>r. decide_control step = Inr r \<and> AgentStepResult_post_init r = Inr r \<and>
     sr_tenant_id r = si_tenant_id step \<and> sr_job_id r = si_job_id step \<and>
     sr_step_id r = si_current_step_id step \<and> sr_source_attempt_id r = si_runtime_attempt_id step \<and>
     (sr_decision r = ControlDecision.COMPLETE \<longleftrightarrow>
        si_job_is_terminal step \<or> \<not> runtime_pending step \<and> \<not> runtime_refused step \<and> goal_reached step) \<and>
     (sr_decision r = ControlDecision.RECONCILE \<longleftrightarrow> \<not> si_job_is_terminal step \<and> runtime_pending step) \<and>
     (sr_decision r = ControlDecision.FAIL \<longleftrightarrow>
        \<not> si_job_is_terminal step \<and> \<not> runtime_pending step \<and> runtime_refused step) \<and>
     (sr_decision r = ControlDecision.WAIT \<longleftrightarrow>
        \<not> si_job_is_terminal step \<and> \<not> runtime_pending step \<and> \<not> runtime_refused step \<and>
        \<not> goal_reached step \<and> si_waiting_for step \<noteq> None) \<and>
     (sr_decision r = ControlDecision.CONTINUE \<longleftrightarrow>
        \<not> si_job_is_terminal step \<and> \<not> runtime_pending step \<and> \<not> runtime_refused step \<and>
        \<not> goal_reached step \<and> si_waiting_for step = None) \<and>
     sr_next_step r = (if sr_decision r = ControlDecision.CONTINUE
       then Some (next_step_of step (sr_control_decision_id r)) else None)"
  by (cases "si_runtime_result step")
    (simp_all add: decide_control_def step_result_eq truthy_def runtime_pending_def runtime_refused_def
      goal_reached_def AgentStepResult_post_init_def decision_id_of_def stable_id_def)

section \<open>The store as a machine\<close>

definition control_step :: "AgentStepResult \<Rightarrow> ControlStore \<Rightarrow> ControlStore" where
  [step_defs]: "control_step result store =
     (case apply_continue store result of Inl _ \<Rightarrow> store | Inr (_, store') \<Rightarrow> store')"

definition control_key :: "AgentStepResult \<Rightarrow> string option" where
  "control_key result = Some (sr_control_decision_id result)"

lemma apply_continue_ok:
  assumes "apply_continue store result = Inr (status, store')"
  shows "status \<noteq> ControlApplyStatus.CREATED \<and> store' = store \<or>
    status = ControlApplyStatus.CREATED \<and> \<not> js_is_terminal (cs_state store) \<and>
    cs_next_steps_by_decision store (sr_control_decision_id result) = None \<and>
    js_current_step_id (cs_state store) = sr_step_id result \<and>
    (\<exists>next_step. sr_next_step result = Some next_step \<and>
      store' = \<lparr>cs_state = (cs_state store)\<lparr>js_current_step_id := nr_step_id next_step\<rparr>,
                cs_next_steps_by_decision =
                  (cs_next_steps_by_decision store)(sr_control_decision_id result \<mapsto> next_step)\<rparr>)"
  using assms by (auto simp: apply_continue_def split: if_splits option.splits)

lemma control_step_cases:
  obtains (same) "control_step result store = store"
  | (created) next_step where
    "apply_continue store result = Inr (ControlApplyStatus.CREATED, control_step result store)"
    "sr_next_step result = Some next_step" "\<not> js_is_terminal (cs_state store)"
    "cs_next_steps_by_decision store (sr_control_decision_id result) = None"
    "js_current_step_id (cs_state store) = sr_step_id result"
    "control_step result store =
       \<lparr>cs_state = (cs_state store)\<lparr>js_current_step_id := nr_step_id next_step\<rparr>,
        cs_next_steps_by_decision =
          (cs_next_steps_by_decision store)(sr_control_decision_id result \<mapsto> next_step)\<rparr>"
proof (cases "apply_continue store result")
  case (Inl e)
  then show ?thesis by (intro same) (simp add: control_step_def)
next
  case (Inr p)
  then obtain status store' where p: "apply_continue store result = Inr (status, store')" by (cases p) auto
  then have "control_step result store = store'" by (simp add: control_step_def)
  with apply_continue_ok [OF p] p same created show ?thesis by (elim disjE conjE exE) simp_all
qed

interpretation control_replay: replay_machine control_step control_key "\<lambda>s. dom (cs_next_steps_by_decision s)"
proof
  fix e k and s :: ControlStore
  assume "control_key e = Some k" and "k \<in> dom (cs_next_steps_by_decision s)"
  then show "control_step e s = s"
    by (cases rule: control_step_cases [of e s]) (auto simp: control_key_def)
next
  fix e k and s :: ControlStore
  assume "control_key e = Some k" and "control_step e s \<noteq> s"
  then show "k \<in> dom (cs_next_steps_by_decision (control_step e s))"
    by (cases rule: control_step_cases [of e s]) (auto simp: control_key_def)
next
  fix e and s :: ControlStore
  show "dom (cs_next_steps_by_decision s) \<subseteq> dom (cs_next_steps_by_decision (control_step e s))"
    by (cases rule: control_step_cases [of e s]) auto
qed

section \<open>A whole run of the loop\<close>

text \<open>
  The loop: each step input is decided, and the decision orchestrated. The executed requests are
  collected in order, whatever the runtime returns or raises.
\<close>

fun control_run ::
    "(NextStepRequest \<Rightarrow> RuntimeResult res) \<Rightarrow> AgentStepInput list \<Rightarrow> ControlStore
      \<Rightarrow> NextStepRequest list \<times> ControlStore" where
  "control_run execute_step [] store = ([], store)"
| "control_run execute_step (step # steps) store =
     (case decide_control step of
        Inl _ \<Rightarrow> control_run execute_step steps store
      | Inr result \<Rightarrow>
          (case orchestrate_next_step execute_step store result of
             (_, store', calls) \<Rightarrow>
               (case control_run execute_step steps store' of (later_calls, final) \<Rightarrow> (calls @ later_calls, final))))"

text \<open>A chain of requests: each starts at the step its predecessor created.\<close>

fun step_chain :: "string \<Rightarrow> NextStepRequest list \<Rightarrow> string \<Rightarrow> bool" where
  "step_chain current [] final \<longleftrightarrow> current = final"
| "step_chain current (r # rs) final \<longleftrightarrow> nr_parent_step_id r = current \<and> step_chain (nr_step_id r) rs final"

lemma orchestrate_eq:
  assumes "decide_control step = Inr result"
  shows "snd (orchestrate_next_step ex store result) =
    (control_step result store,
     if control_step result store = store then [] else [next_step_of step (sr_control_decision_id result)])"
proof (cases rule: control_step_cases [of result store])
  case same
  have "apply_continue store result \<noteq> Inr (ControlApplyStatus.CREATED, store)"
    by (auto simp: apply_continue_def split: option.splits)
      (metis ControlStore.select_convs(2) fun_upd_same option.distinct(1))
  with same show ?thesis
    by (auto simp: orchestrate_next_step_def control_step_def split: sum.splits prod.splits)
next
  case (created next_step)
  have "cs_next_steps_by_decision (control_step result store) (sr_control_decision_id result) \<noteq> None"
    using created by simp
  then have "control_step result store \<noteq> store" using created by metis
  moreover have "next_step = next_step_of step (sr_control_decision_id result)"
    using created(2) decide_control_next [OF assms] by (auto split: if_splits)
  ultimately show ?thesis using created by (simp add: orchestrate_next_step_def)
qed

lemma control_run_Cons:
  assumes "decide_control step = Inr result"
  shows "control_run ex (step # steps) store =
    (let (later_calls, final) = control_run ex steps (control_step result store)
     in ((if control_step result store = store then [] else [next_step_of step (sr_control_decision_id result)])
         @ later_calls, final))"
  using orchestrate_eq [OF assms, of ex store] assms
  by (cases "orchestrate_next_step ex store result") (auto split: prod.splits)

lemma next_step_of_simps [simp]:
  "nr_control_decision_id (next_step_of step d) = d"
  "nr_parent_step_id (next_step_of step d) = si_current_step_id step"
  by (simp_all add: next_step_of_def Let_def)

lemma control_run_facts:
  assumes "control_run ex steps store = (calls, final)"
  shows "step_chain (js_current_step_id (cs_state store)) calls (js_current_step_id (cs_state final)) \<and>
    distinct (map nr_control_decision_id calls) \<and>
    dom (cs_next_steps_by_decision final) =
      dom (cs_next_steps_by_decision store) \<union> set (map nr_control_decision_id calls) \<and>
    dom (cs_next_steps_by_decision store) \<inter> set (map nr_control_decision_id calls) = {} \<and>
    (js_is_terminal (cs_state store) = js_is_terminal (cs_state final)) \<and>
    (js_is_terminal (cs_state store) \<longrightarrow> calls = [])"
  using assms
proof (induction steps arbitrary: store calls)
  case Nil
  then show ?case by simp
next
  case (Cons step steps)
  show ?case
  proof (cases "decide_control step")
    case (Inl e)
    with Cons show ?thesis by simp
  next
    case (Inr result)
    let ?store = "control_step result store"
    obtain later_calls where rest: "control_run ex steps ?store = (later_calls, final)"
      and calls: "calls = (if ?store = store then [] else [next_step_of step (sr_control_decision_id result)]) @ later_calls"
      using Cons.prems by (auto simp: control_run_Cons [OF Inr] Let_def simp del: control_run.simps split: prod.splits)
    note IH = Cons.IH [OF rest]
    show ?thesis
    proof (cases rule: control_step_cases [of result store])
      case same
      with IH calls show ?thesis by simp
    next
      case (created next_step)
      have "next_step = next_step_of step (sr_control_decision_id result)"
        "sr_step_id result = si_current_step_id step"
        using created(2) decide_control_next [OF Inr] by (auto split: if_splits)
      moreover have "?store \<noteq> store" using created(4,6) by (metis ControlStore.select_convs(2) fun_upd_same option.distinct(1))
      moreover have "dom (cs_next_steps_by_decision ?store) =
          insert (sr_control_decision_id result) (dom (cs_next_steps_by_decision store))"
        "js_current_step_id (cs_state ?store) = nr_step_id next_step"
        "js_is_terminal (cs_state ?store) = js_is_terminal (cs_state store)"
        using created(6) by auto
      ultimately show ?thesis using IH calls created(3,4,5) by auto
    qed
  qed
qed

text \<open>
  In every run of the loop over any sequence of step inputs (repeated, stale and out-of-order
  ones included) and any runtime, the next steps executed form one chain: the first starts at the
  job's current step, each later one at the step its predecessor created, and the chain ends at
  the current step of the final state. No control decision executes twice, the executed decisions
  are exactly the ones recorded, and a terminal job executes nothing.
\<close>

theorem control_run_executes_chain_once:
  assumes "control_run ex steps (ControlStore_init state) = (calls, final)"
  shows "step_chain (js_current_step_id state) calls (js_current_step_id (cs_state final)) \<and>
    distinct (map nr_control_decision_id calls) \<and>
    dom (cs_next_steps_by_decision final) = set (map nr_control_decision_id calls) \<and>
    (js_is_terminal state \<longrightarrow> calls = [])"
  using control_run_facts [OF assms] by (auto simp: ControlStore_init_def)

definition demo_step_input :: "string \<Rightarrow> AgentStepInput" where
  "demo_step_input cur = \<lparr>si_tenant_id = ''t'', si_job_id = ''j'', si_current_step_id = cur,
     si_runtime_attempt_id = ''a'', si_goal_required_observations = 1, si_verified_observation_ids = [],
     si_job_is_terminal = False, si_runtime_result = None, si_pending_reconciliation_identity = None,
     si_waiting_for = None, si_model_proposal = None\<rparr>"

definition demo_job_state :: "AgentJobState" where
  "demo_job_state = \<lparr>js_tenant_id = ''t'', js_job_id = ''j'', js_current_step_id = ''s0'', js_is_terminal = False\<rparr>"

text \<open>A concrete run: the first decision executes, its duplicate does not.\<close>

theorem control_run_executes_chain_once_witness:
  "\<exists>calls final. control_run (\<lambda>_. Inl AssertionError) [demo_step_input ''s0'', demo_step_input ''s0'']
       (ControlStore_init demo_job_state) = (calls, final) \<and>
     step_chain ''s0'' calls (js_current_step_id (cs_state final)) \<and> length calls = 1"
proof -
  let ?i = "demo_step_input ''s0''" and ?s = "ControlStore_init demo_job_state"
  obtain calls final where run: "control_run (\<lambda>_. Inl AssertionError) [?i, ?i] ?s = (calls, final)"
    by (metis surj_pair)
  obtain r where r: "decide_control ?i = Inr r" "sr_decision r = ControlDecision.CONTINUE"
    by (auto simp: decide_control_def step_result_eq truthy_def demo_step_input_def)
  have "control_step r ?s \<noteq> ?s"
    using r decide_control_next [OF r(1)]
    by (auto simp: control_step_def apply_continue_def ControlStore_init_def demo_job_state_def demo_step_input_def fun_eq_iff)
  moreover have "control_step r (control_step r ?s) = control_step r ?s"
    by (rule control_replay.step_idem) (simp add: control_key_def)
  ultimately have "length calls = 1"
    using run by (auto simp: control_run_Cons [OF r(1)] Let_def simp del: control_run.simps(2))
  with control_run_executes_chain_once [OF run] run show ?thesis by (auto simp: demo_job_state_def)
qed

section \<open>Identities\<close>

text \<open>
  Distinct identity material under one prefix gives distinct ids unless the first 80 bits of the
  SHA-256 digests collide: the join of separator-free parts is injective.
\<close>

lemma stable_id_distinct:
  assumes "stable_id pre ps = stable_id pre qs" and "ps \<noteq> []" "qs \<noteq> []"
    and "\<forall>p \<in> set ps. unit_sep \<notin> set p" "\<forall>q \<in> set qs. unit_sep \<notin> set q"
  shows "ps = qs \<or> (join_us ps \<noteq> join_us qs \<and>
    take 20 (sha256_hexdigest (join_us ps)) = take 20 (sha256_hexdigest (join_us qs)))"
  using assms join_us_inj [of ps qs] by (auto simp: stable_id_def)

text \<open>
  The observation ids, however, are joined with a plain comma before hashing, so two steps whose
  verified observations differ only in where a comma separates them share one decision id: the
  store then takes the second decision for a replay of the first.
\<close>

lemma decision_id_comma_collision:
  "decision_id_of (step\<lparr>si_verified_observation_ids := [''a'', ''b'']\<rparr>) d reason =
   decision_id_of (step\<lparr>si_verified_observation_ids := [''a,b'']\<rparr>) d reason"
  by (simp add: decision_id_of_def)

end
