(* ===== verification/Agent_State_Machine.thy ===== *)
theory Agent_State_Machine
  imports Agent_Loop "HOL-Library.List_Lexorder" "HOL-Library.Char_ord" "HOL-Library.Multiset"
begin

text \<open>
  \<^verbatim>\<open>src/projects/ai-agent/src/agent_state_machine.py\<close>: Agent states, step, token, cost and context
  budgets, the deterministic transition decision and the process-local store with its conditional
  apply. \<open>RecoveryAction\<close> of this file is \<open>AgentRecoveryAction\<close> here. Python's \<open>sorted\<close> on strings is
  \<^const>\<open>sort\<close> in the lexicographic order of the bytes, which for UTF-8 is the order of the code points.
\<close>

section \<open>States and budgets\<close>

datatype AgentState =
  READY | RUNNING | WAITING | PENDING_RECONCILIATION | COMPLETED | TERMINATED | FAILED | CANCELLED

fun AgentState_value :: "AgentState \<Rightarrow> string" where
  "AgentState_value AgentState.READY = ''READY''"
| "AgentState_value AgentState.RUNNING = ''RUNNING''"
| "AgentState_value AgentState.WAITING = ''WAITING''"
| "AgentState_value AgentState.PENDING_RECONCILIATION = ''PENDING_RECONCILIATION''"
| "AgentState_value AgentState.COMPLETED = ''COMPLETED''"
| "AgentState_value AgentState.TERMINATED = ''TERMINATED''"
| "AgentState_value AgentState.FAILED = ''FAILED''"
| "AgentState_value AgentState.CANCELLED = ''CANCELLED''"

definition TERMINAL_STATES :: "AgentState set" where
  "TERMINAL_STATES = {AgentState.COMPLETED, AgentState.TERMINATED, AgentState.FAILED, AgentState.CANCELLED}"

datatype TransitionAction = CONTINUE | WAIT | RECONCILE | COMPLETE | TERMINATE | FAIL | NOOP

fun TransitionAction_value :: "TransitionAction \<Rightarrow> string" where
  "TransitionAction_value TransitionAction.CONTINUE = ''CONTINUE''"
| "TransitionAction_value TransitionAction.WAIT = ''WAIT''"
| "TransitionAction_value TransitionAction.RECONCILE = ''RECONCILE''"
| "TransitionAction_value TransitionAction.COMPLETE = ''COMPLETE''"
| "TransitionAction_value TransitionAction.TERMINATE = ''TERMINATE''"
| "TransitionAction_value TransitionAction.FAIL = ''FAIL''"
| "TransitionAction_value TransitionAction.NOOP = ''NOOP''"

datatype TerminationReason =
  GOAL_SATISFIED | NO_PROGRESS_LOOP_DETECTED | STEP_BUDGET_EXHAUSTED | TOKEN_BUDGET_EXHAUSTED
| COST_BUDGET_EXHAUSTED | AUTHORIZATION_REVOKED | NON_RECOVERABLE_FAILURE

datatype AgentRecoveryAction =
  NONE | RECONCILE_ORIGINAL_IDENTITY | WAIT_FOR_PREREQUISITE | WAIT_FOR_REPLAN
| REPLAN_WITH_CURRENT_CAPABILITIES

datatype TransitionApplyStatus =
  APPLIED | DUPLICATE_REPLAY | NOOP_TERMINAL | NOOP_STALE | RESERVATION_CONFLICT | NOT_APPLICABLE

datatype InvocationGovernanceStatus =
  ALLOWED_TO_DAY74_ADMISSION | ORIGINAL_SNAPSHOT_MISMATCH | ORIGINAL_TOOL_NOT_VISIBLE
| CURRENT_PERMISSION_REVOKED | CURRENT_REGISTRY_BLOCKED | SCHEMA_BINDING_MISMATCH

fun InvocationGovernanceStatus_value :: "InvocationGovernanceStatus \<Rightarrow> string" where
  "InvocationGovernanceStatus_value InvocationGovernanceStatus.ALLOWED_TO_DAY74_ADMISSION = ''ALLOWED_TO_DAY74_ADMISSION''"
| "InvocationGovernanceStatus_value InvocationGovernanceStatus.ORIGINAL_SNAPSHOT_MISMATCH = ''ORIGINAL_SNAPSHOT_MISMATCH''"
| "InvocationGovernanceStatus_value InvocationGovernanceStatus.ORIGINAL_TOOL_NOT_VISIBLE = ''ORIGINAL_TOOL_NOT_VISIBLE''"
| "InvocationGovernanceStatus_value InvocationGovernanceStatus.CURRENT_PERMISSION_REVOKED = ''CURRENT_PERMISSION_REVOKED''"
| "InvocationGovernanceStatus_value InvocationGovernanceStatus.CURRENT_REGISTRY_BLOCKED = ''CURRENT_REGISTRY_BLOCKED''"
| "InvocationGovernanceStatus_value InvocationGovernanceStatus.SCHEMA_BINDING_MISMATCH = ''SCHEMA_BINDING_MISMATCH''"

record BudgetSnapshot =
  bs_step_limit :: int
  bs_steps_used :: int
  bs_token_limit :: int
  bs_settled_tokens :: int
  bs_held_token_reservations :: int
  bs_cost_limit :: int
  bs_settled_cost :: int
  bs_held_cost_reservations :: int

definition budget_values :: "BudgetSnapshot \<Rightarrow> int list" where
  [py_defs]: "budget_values b =
     [bs_step_limit b, bs_steps_used b, bs_token_limit b, bs_settled_tokens b,
      bs_held_token_reservations b, bs_cost_limit b, bs_settled_cost b, bs_held_cost_reservations b]"

definition BudgetSnapshot_post_init :: "BudgetSnapshot \<Rightarrow> BudgetSnapshot res" where
  "BudgetSnapshot_post_init b =
     (if list_ex (\<lambda>v. v < 0) (budget_values b)
      then Inl (ValueError ''budget values must be non-negative'') else Inr b)"

definition remaining_steps :: "BudgetSnapshot \<Rightarrow> int" where
  [py_defs]: "remaining_steps b = bs_step_limit b - bs_steps_used b"

definition available_tokens :: "BudgetSnapshot \<Rightarrow> int" where
  [py_defs]: "available_tokens b = bs_token_limit b - bs_settled_tokens b - bs_held_token_reservations b"

definition available_cost :: "BudgetSnapshot \<Rightarrow> int" where
  [py_defs]: "available_cost b = bs_cost_limit b - bs_settled_cost b - bs_held_cost_reservations b"

record ContextBudget =
  cb_input_tokens :: int
  cb_reserved_output_tokens :: int
  cb_safety_margin :: int
  cb_permitted_context_budget :: int
  cb_provider_context_limit :: int

definition ContextBudget_post_init :: "ContextBudget \<Rightarrow> ContextBudget res" where
  "ContextBudget_post_init b =
     (if list_ex (\<lambda>v. v < 0)
           [cb_input_tokens b, cb_reserved_output_tokens b, cb_safety_margin b,
            cb_permitted_context_budget b, cb_provider_context_limit b]
      then Inl (ValueError ''context budget values must be non-negative'') else Inr b)"

definition required_capacity :: "ContextBudget \<Rightarrow> int" where
  [py_defs]: "required_capacity b = cb_input_tokens b + cb_reserved_output_tokens b + cb_safety_margin b"

definition context_admitted :: "ContextBudget \<Rightarrow> bool" where
  [py_defs]: "context_admitted b \<longleftrightarrow> required_capacity b \<le> cb_permitted_context_budget b \<and>
     cb_permitted_context_budget b \<le> cb_provider_context_limit b"

section \<open>Progress\<close>

record ProgressSnapshot =
  ps_state :: AgentState
  ps_remaining_goal_conditions :: "string list"
  ps_verified_observation_ids :: "string list"
  ps_action_fingerprint :: string

definition ProgressSnapshot_post_init :: "ProgressSnapshot \<Rightarrow> ProgressSnapshot res" where
  "ProgressSnapshot_post_init p =
     (if \<not> distinct (ps_verified_observation_ids p)
      then Inl (ValueError ''verified observation identities must be unique'')
      else if \<not> truthy (ps_action_fingerprint p) then Inl (ValueError ''action fingerprint is required'')
      else Inr p)"

definition progress_fingerprint :: "ProgressSnapshot \<Rightarrow> string" where
  "progress_fingerprint p =
     sha256_hexdigest (join_us
       [AgentState_value (ps_state p),
        str_join '','' (sort (ps_remaining_goal_conditions p)),
        str_join '','' (sort (ps_verified_observation_ids p))])"

definition no_progress_threshold_reached :: "ProgressSnapshot list \<Rightarrow> int \<Rightarrow> bool res" where
  "no_progress_threshold_reached history threshold =
     (if threshold < 2 then Inl (ValueError ''no-progress threshold must be at least two'')
      else if int (length history) < threshold then Inr False
      else let window = drop (length history - nat threshold) history
           in Inr (card (set (map progress_fingerprint window)) = 1))"

section \<open>Transition input and decision\<close>

record AgentTransitionInput =
  ti_tenant_id :: string
  ti_job_id :: string
  ti_step_id :: string
  ti_attempt_id :: string
  ti_state :: AgentState
  ti_fence_token :: int
  ti_day79_result :: AgentStepResult
  ti_goal_verified :: bool
  ti_pending_reconciliation_identity :: "string option"
  ti_current_authorization :: bool
  ti_day80_governance :: "InvocationGovernanceStatus option"
  ti_hard_loop_detected :: bool
  ti_budget :: BudgetSnapshot
  ti_context_budget :: ContextBudget
  ti_requested_token_reservation :: int
  ti_requested_cost_reservation :: int

definition AgentTransitionInput_post_init :: "AgentTransitionInput \<Rightarrow> AgentTransitionInput res" where
  "AgentTransitionInput_post_init i =
     (if \<not> all_truthy [ti_tenant_id i, ti_job_id i, ti_step_id i, ti_attempt_id i]
      then Inl (ValueError ''tenant, Job, Step, and Attempt identities required'')
      else if ti_fence_token i < 0 then Inl (ValueError ''fence token must be non-negative'')
      else if ti_requested_token_reservation i < 0 then Inl (ValueError ''negative token reservation'')
      else if ti_requested_cost_reservation i < 0 then Inl (ValueError ''negative cost reservation'')
      else if (sr_tenant_id (ti_day79_result i), sr_job_id (ti_day79_result i),
               sr_step_id (ti_day79_result i), sr_source_attempt_id (ti_day79_result i)) \<noteq>
              (ti_tenant_id i, ti_job_id i, ti_step_id i, ti_attempt_id i)
      then Inl (ValueError ''Day79 result identity mismatch'')
      else Inr i)"

record TransitionDecision =
  td_phase :: string
  td_status :: string
  td_transition_id :: string
  td_tenant_id :: string
  td_job_id :: string
  td_step_id :: string
  td_attempt_id :: string
  td_expected_state :: AgentState
  td_expected_fence_token :: int
  td_action :: TransitionAction
  td_proposed_next_state :: AgentState
  td_termination_reason :: "TerminationReason option"
  td_recovery_action :: AgentRecoveryAction
  td_next_step :: "NextStepRequest option"
  td_requested_token_reservation :: int
  td_requested_cost_reservation :: int
  td_evidence :: "string list"

definition TransitionDecision_post_init :: "TransitionDecision \<Rightarrow> TransitionDecision res" where
  "TransitionDecision_post_init d =
     (if (td_action d = TransitionAction.CONTINUE) \<noteq> (td_next_step d \<noteq> None)
      then Inl (ValueError ''only CONTINUE carries a Day79 next Step'') else Inr d)"

definition transition_id :: "AgentTransitionInput \<Rightarrow> TransitionAction \<Rightarrow> string \<Rightarrow> string" where
  "transition_id item act status =
     ''transition-'' @ take 20 (sha256_hexdigest (join_us
       [ti_tenant_id item, ti_job_id item, ti_step_id item, ti_attempt_id item,
        str_int (ti_fence_token item), sr_control_decision_id (ti_day79_result item),
        TransitionAction_value act, status]))"

definition transition_decision ::
    "AgentTransitionInput \<Rightarrow> TransitionAction \<Rightarrow> AgentState \<Rightarrow> string \<Rightarrow> TerminationReason option
      \<Rightarrow> AgentRecoveryAction \<Rightarrow> NextStepRequest option \<Rightarrow> bool \<Rightarrow> string list \<Rightarrow> TransitionDecision res" where
  "transition_decision item act next_state status reason recovery next_step reserve evidence =
     TransitionDecision_post_init
       \<lparr>td_phase = ''PRE_NEXT_STEP_GUARD'', td_status = status,
        td_transition_id = transition_id item act status,
        td_tenant_id = ti_tenant_id item, td_job_id = ti_job_id item, td_step_id = ti_step_id item,
        td_attempt_id = ti_attempt_id item, td_expected_state = ti_state item,
        td_expected_fence_token = ti_fence_token item, td_action = act,
        td_proposed_next_state = next_state, td_termination_reason = reason,
        td_recovery_action = recovery, td_next_step = next_step,
        td_requested_token_reservation = (if reserve then ti_requested_token_reservation item else 0),
        td_requested_cost_reservation = (if reserve then ti_requested_cost_reservation item else 0),
        td_evidence = evidence\<rparr>"

text \<open>\<open>a or b\<close> on an optional string.\<close>

definition or_default :: "string option \<Rightarrow> string \<Rightarrow> string" where
  "or_default a b = (case a of None \<Rightarrow> b | Some s \<Rightarrow> if truthy s then s else b)"

definition decide_transition :: "AgentTransitionInput \<Rightarrow> TransitionDecision res" where
  "decide_transition item =
     (if ti_state item \<in> TERMINAL_STATES
      then transition_decision item TransitionAction.NOOP (ti_state item) ''ALREADY_TERMINAL''
             None AgentRecoveryAction.NONE None False [''terminal_history_preserved'']
      else if ti_pending_reconciliation_identity item \<noteq> None
        \<or> sr_decision (ti_day79_result item) = ControlDecision.RECONCILE
      then transition_decision item TransitionAction.RECONCILE AgentState.PENDING_RECONCILIATION
             ''EXTERNAL_OUTCOME_UNKNOWN'' None AgentRecoveryAction.RECONCILE_ORIGINAL_IDENTITY None False
             [or_default (ti_pending_reconciliation_identity item) (sr_source_attempt_id (ti_day79_result item)),
              ''reservation_must_remain_held'']
      else if ti_goal_verified item
      then transition_decision item TransitionAction.COMPLETE AgentState.COMPLETED ''GOAL_VERIFIED''
             (Some TerminationReason.GOAL_SATISFIED) AgentRecoveryAction.NONE None False [''verified_goal_evidence'']
      else if sr_decision (ti_day79_result item) = ControlDecision.WAIT
      then transition_decision item TransitionAction.WAIT AgentState.WAITING ''KNOWN_PREREQUISITE_PENDING''
             None AgentRecoveryAction.WAIT_FOR_PREREQUISITE None False []
      else if sr_decision (ti_day79_result item) = ControlDecision.FAIL
      then transition_decision item TransitionAction.FAIL AgentState.FAILED ''NON_RECOVERABLE_CONTROL_FAILURE''
             (Some TerminationReason.NON_RECOVERABLE_FAILURE) AgentRecoveryAction.NONE None False []
      else if ti_hard_loop_detected item
      then transition_decision item TransitionAction.TERMINATE AgentState.TERMINATED ''HARD_LOOP_DETECTED''
             (Some TerminationReason.NO_PROGRESS_LOOP_DETECTED) AgentRecoveryAction.NONE None False
             [''no_progress_threshold_reached'']
      else if \<not> ti_current_authorization item
      then transition_decision item TransitionAction.TERMINATE AgentState.TERMINATED ''CURRENT_AUTHORIZATION_REVOKED''
             (Some TerminationReason.AUTHORIZATION_REVOKED) AgentRecoveryAction.NONE None False
             [''current_authorization_recheck_failed'']
      else if ti_day80_governance item = Some InvocationGovernanceStatus.CURRENT_PERMISSION_REVOKED
      then transition_decision item TransitionAction.TERMINATE AgentState.TERMINATED ''DAY80_CURRENT_PERMISSION_REVOKED''
             (Some TerminationReason.AUTHORIZATION_REVOKED) AgentRecoveryAction.NONE None False
             [InvocationGovernanceStatus_value InvocationGovernanceStatus.CURRENT_PERMISSION_REVOKED]
      else if ti_day80_governance item \<notin> {None, Some InvocationGovernanceStatus.ALLOWED_TO_DAY74_ADMISSION}
      then transition_decision item TransitionAction.WAIT AgentState.WAITING ''DAY80_GOVERNANCE_REPLAN_REQUIRED''
             None AgentRecoveryAction.REPLAN_WITH_CURRENT_CAPABILITIES None False
             [InvocationGovernanceStatus_value (the (ti_day80_governance item)), ''old_binding_not_rewritten'']
      else if sr_decision (ti_day79_result item) \<noteq> ControlDecision.CONTINUE
      then transition_decision item TransitionAction.FAIL AgentState.FAILED ''UNSUPPORTED_DAY79_DECISION''
             (Some TerminationReason.NON_RECOVERABLE_FAILURE) AgentRecoveryAction.NONE None False []
      else if remaining_steps (ti_budget item) \<le> 0
      then transition_decision item TransitionAction.TERMINATE AgentState.TERMINATED ''STEP_BUDGET_EXHAUSTED''
             (Some TerminationReason.STEP_BUDGET_EXHAUSTED) AgentRecoveryAction.NONE None False []
      else if \<not> context_admitted (ti_context_budget item)
      then transition_decision item TransitionAction.WAIT AgentState.WAITING ''CONTEXT_BUDGET_EXCEEDED''
             None AgentRecoveryAction.WAIT_FOR_REPLAN None False
             [''required_capacity='' @ str_int (required_capacity (ti_context_budget item)),
              ''identity_authorization_and_evidence_must_be_preserved'']
      else if ti_requested_token_reservation item > available_tokens (ti_budget item)
      then transition_decision item TransitionAction.TERMINATE AgentState.TERMINATED ''TOKEN_BUDGET_EXHAUSTED''
             (Some TerminationReason.TOKEN_BUDGET_EXHAUSTED) AgentRecoveryAction.NONE None False []
      else if ti_requested_cost_reservation item > available_cost (ti_budget item)
      then transition_decision item TransitionAction.TERMINATE AgentState.TERMINATED ''COST_BUDGET_EXHAUSTED''
             (Some TerminationReason.COST_BUDGET_EXHAUSTED) AgentRecoveryAction.NONE None False []
      else case sr_next_step (ti_day79_result item) of
        None \<Rightarrow> Inl AssertionError
      | Some next_step \<Rightarrow>
          transition_decision item TransitionAction.CONTINUE AgentState.RUNNING ''NEXT_STEP_CANDIDATE''
            None AgentRecoveryAction.NONE (Some next_step) True [''snapshot_guards_passed_candidate_only''])"

section \<open>The authoritative store\<close>

record AuthoritativeAgentRecord =
  ar_tenant_id :: string
  ar_job_id :: string
  ar_current_step_id :: string
  ar_state :: AgentState
  ar_fence_token :: int
  ar_budget :: BudgetSnapshot

record AgentStateStore =
  as_record :: AuthoritativeAgentRecord
  as_applied :: "string \<rightharpoonup> TransitionDecision"

definition AgentStateStore_init :: "AuthoritativeAgentRecord \<Rightarrow> AgentStateStore" where
  "AgentStateStore_init record = \<lparr>as_record = record, as_applied = Map.empty\<rparr>"

definition state_store_apply ::
    "AgentStateStore \<Rightarrow> TransitionDecision \<Rightarrow> (TransitionApplyStatus \<times> AgentStateStore) res" where
  "state_store_apply store decision =
     (let current = as_record store in
      if as_applied store (td_transition_id decision) \<noteq> None
      then Inr (TransitionApplyStatus.DUPLICATE_REPLAY, store)
      else if ar_tenant_id current \<noteq> td_tenant_id decision \<or> ar_job_id current \<noteq> td_job_id decision
      then Inr (TransitionApplyStatus.NOOP_STALE, store)
      else if ar_state current \<in> TERMINAL_STATES then Inr (TransitionApplyStatus.NOOP_TERMINAL, store)
      else if ar_state current \<noteq> td_expected_state decision \<or> ar_current_step_id current \<noteq> td_step_id decision
        \<or> ar_fence_token current \<noteq> td_expected_fence_token decision
      then Inr (TransitionApplyStatus.NOOP_STALE, store)
      else if td_action decision = TransitionAction.CONTINUE
      then
        (let budget = ar_budget current in
         if remaining_steps budget \<le> 0
           \<or> td_requested_token_reservation decision > available_tokens budget
           \<or> td_requested_cost_reservation decision > available_cost budget
         then Inr (TransitionApplyStatus.RESERVATION_CONFLICT, store)
         else case td_next_step decision of
           None \<Rightarrow> Inl AssertionError
         | Some next_step \<Rightarrow>
             bind_res (BudgetSnapshot_post_init
               (budget\<lparr>bs_steps_used := bs_steps_used budget + 1,
                       bs_held_token_reservations :=
                         bs_held_token_reservations budget + td_requested_token_reservation decision,
                       bs_held_cost_reservations :=
                         bs_held_cost_reservations budget + td_requested_cost_reservation decision\<rparr>))
             (\<lambda>budget'.
                Inr (TransitionApplyStatus.APPLIED,
                     \<lparr>as_record = current\<lparr>ar_current_step_id := nr_step_id next_step,
                                         ar_state := td_proposed_next_state decision,
                                         ar_fence_token := ar_fence_token current + 1,
                                         ar_budget := budget'\<rparr>,
                      as_applied = (as_applied store)(td_transition_id decision \<mapsto> decision)\<rparr>)))
      else if td_action decision \<in> {TransitionAction.WAIT, TransitionAction.RECONCILE,
                TransitionAction.COMPLETE, TransitionAction.TERMINATE, TransitionAction.FAIL}
      then Inr (TransitionApplyStatus.APPLIED,
                \<lparr>as_record = current\<lparr>ar_state := td_proposed_next_state decision,
                                    ar_fence_token := ar_fence_token current + 1\<rparr>,
                 as_applied = (as_applied store)(td_transition_id decision \<mapsto> decision)\<rparr>)
      else Inr (TransitionApplyStatus.NOT_APPLICABLE, store))"

section \<open>The decision\<close>

text \<open>The hard stops, in the order the code tests them, and the conditions of a next step.\<close>

definition outcome_unknown :: "AgentTransitionInput \<Rightarrow> bool" where
  "outcome_unknown i \<longleftrightarrow> ti_pending_reconciliation_identity i \<noteq> None
     \<or> sr_decision (ti_day79_result i) = ControlDecision.RECONCILE"

definition continue_guard :: "AgentTransitionInput \<Rightarrow> bool" where
  "continue_guard i \<longleftrightarrow>
     ti_state i \<notin> TERMINAL_STATES \<and> \<not> outcome_unknown i \<and> \<not> ti_goal_verified i \<and>
     sr_decision (ti_day79_result i) = ControlDecision.CONTINUE \<and> \<not> ti_hard_loop_detected i \<and>
     ti_current_authorization i \<and>
     ti_day80_governance i \<in> {None, Some InvocationGovernanceStatus.ALLOWED_TO_DAY74_ADMISSION} \<and>
     0 < remaining_steps (ti_budget i) \<and> context_admitted (ti_context_budget i) \<and>
     ti_requested_token_reservation i \<le> available_tokens (ti_budget i) \<and>
     ti_requested_cost_reservation i \<le> available_cost (ti_budget i)"

lemma transition_decision_ok:
  "transition_decision item act st status reason recovery next reserve ev = Inr d \<longleftrightarrow>
     (act = TransitionAction.CONTINUE) = (next \<noteq> None) \<and>
     d = \<lparr>td_phase = ''PRE_NEXT_STEP_GUARD'', td_status = status,
        td_transition_id = transition_id item act status,
        td_tenant_id = ti_tenant_id item, td_job_id = ti_job_id item, td_step_id = ti_step_id item,
        td_attempt_id = ti_attempt_id item, td_expected_state = ti_state item,
        td_expected_fence_token = ti_fence_token item, td_action = act,
        td_proposed_next_state = st, td_termination_reason = reason,
        td_recovery_action = recovery, td_next_step = next,
        td_requested_token_reservation = (if reserve then ti_requested_token_reservation item else 0),
        td_requested_cost_reservation = (if reserve then ti_requested_cost_reservation item else 0),
        td_evidence = ev\<rparr>"
  by (auto simp: transition_decision_def TransitionDecision_post_init_def)

lemma transition_decision_stop:
  "act \<noteq> TransitionAction.CONTINUE \<Longrightarrow>
     \<exists>d. transition_decision item act st status reason recovery None False ev = Inr d \<and>
       td_action d = act \<and> td_proposed_next_state d = st \<and> td_next_step d = None \<and>
       td_requested_token_reservation d = 0 \<and> td_requested_cost_reservation d = 0 \<and>
       td_expected_state d = ti_state item \<and> td_expected_fence_token d = ti_fence_token item \<and>
       td_step_id d = ti_step_id item"
  by (simp add: transition_decision_ok)

text \<open>
  For a well-formed loop result, \<open>decide_transition\<close> always returns a decision bound to the
  snapshot it was made on (state, fence and step). It proposes a next step exactly when the job is
  not terminal, no outcome is unknown, the goal is not yet verified, the loop asked to continue,
  no hard loop was detected, authorization and tool governance currently hold, a step remains, the
  context fits, and the requested tokens and cost fit what is available; only then does it carry
  the loop's next step and request reservations. An unknown outcome goes to reconciliation before
  anything else is considered, a terminal job is left alone, and the decision proposes a terminal
  state only through COMPLETE, TERMINATE or FAIL (or keeps the terminal state it found).
\<close>

theorem decide_transition_spec:
  assumes "AgentStepResult_post_init (ti_day79_result i) = Inr (ti_day79_result i)"
  shows "\<exists>d. decide_transition i = Inr d \<and>
    (td_expected_state d, td_expected_fence_token d, td_step_id d) = (ti_state i, ti_fence_token i, ti_step_id i) \<and>
    (td_action d = TransitionAction.CONTINUE \<longleftrightarrow> continue_guard i) \<and>
    (td_action d = TransitionAction.RECONCILE \<longleftrightarrow> ti_state i \<notin> TERMINAL_STATES \<and> outcome_unknown i) \<and>
    (td_action d = TransitionAction.NOOP \<longleftrightarrow> ti_state i \<in> TERMINAL_STATES) \<and>
    (td_action d = TransitionAction.COMPLETE \<longleftrightarrow>
       ti_state i \<notin> TERMINAL_STATES \<and> \<not> outcome_unknown i \<and> ti_goal_verified i) \<and>
    td_next_step d = (if continue_guard i then sr_next_step (ti_day79_result i) else None) \<and>
    td_requested_token_reservation d = (if continue_guard i then ti_requested_token_reservation i else 0) \<and>
    td_requested_cost_reservation d = (if continue_guard i then ti_requested_cost_reservation i else 0) \<and>
    (td_proposed_next_state d \<in> TERMINAL_STATES \<longleftrightarrow>
       td_action d \<in> {TransitionAction.COMPLETE, TransitionAction.TERMINATE, TransitionAction.FAIL, TransitionAction.NOOP})"
proof -
  have next_step: "sr_decision (ti_day79_result i) = ControlDecision.CONTINUE \<Longrightarrow>
      \<exists>n. sr_next_step (ti_day79_result i) = Some n"
    using assms by (auto simp: AgentStepResult_post_init_def split: if_splits)
  have terminal: "AgentState.COMPLETED \<in> TERMINAL_STATES" "AgentState.TERMINATED \<in> TERMINAL_STATES"
    "AgentState.FAILED \<in> TERMINAL_STATES" "AgentState.RUNNING \<notin> TERMINAL_STATES"
    "AgentState.WAITING \<notin> TERMINAL_STATES" "AgentState.PENDING_RECONCILIATION \<notin> TERMINAL_STATES"
    by (simp_all add: TERMINAL_STATES_def)
  show ?thesis
  proof (cases "continue_guard i")
    case True
    then obtain n where n: "sr_next_step (ti_day79_result i) = Some n"
      using next_step by (auto simp: continue_guard_def)
    with True have "decide_transition i =
        transition_decision i TransitionAction.CONTINUE AgentState.RUNNING ''NEXT_STEP_CANDIDATE''
          None AgentRecoveryAction.NONE (Some n) True [''snapshot_guards_passed_candidate_only'']"
      by (simp add: decide_transition_def continue_guard_def outcome_unknown_def) auto
    with True n show ?thesis
      by (simp add: transition_decision_def TransitionDecision_post_init_def terminal)
        (simp add: continue_guard_def)
  next
    case False
    note stop = transition_decision_def TransitionDecision_post_init_def terminal outcome_unknown_def
      decide_transition_def
    from False show ?thesis
      by (cases "ti_state i \<in> TERMINAL_STATES", simp add: stop,
          cases "outcome_unknown i", simp add: stop,
          cases "ti_goal_verified i", simp add: stop,
          cases "sr_decision (ti_day79_result i)", simp_all add: stop)
        (auto simp: continue_guard_def outcome_unknown_def)
  qed
qed

section \<open>The store as a machine\<close>

definition budget_ok :: "BudgetSnapshot \<Rightarrow> bool" where
  "budget_ok b \<longleftrightarrow> list_all (\<lambda>v. 0 \<le> v) (budget_values b) \<and> 0 \<le> remaining_steps b \<and>
     0 \<le> available_tokens b \<and> 0 \<le> available_cost b"

definition state_step :: "TransitionDecision \<Rightarrow> AgentStateStore \<Rightarrow> AgentStateStore" where
  [step_defs]: "state_step d store =
     (case state_store_apply store d of Inl _ \<Rightarrow> store | Inr (_, store') \<Rightarrow> store')"

definition state_applies :: "TransitionDecision \<Rightarrow> AgentStateStore \<Rightarrow> bool" where
  "state_applies d store \<longleftrightarrow>
     (\<exists>store'. state_store_apply store d = Inr (TransitionApplyStatus.APPLIED, store'))"

text \<open>Everything an accepted decision does to the store; a decision not accepted changes nothing.\<close>

lemma state_store_apply_ok:
  assumes "state_store_apply store d = Inr (status, store')"
  shows "status \<noteq> TransitionApplyStatus.APPLIED \<and> store' = store \<or>
    status = TransitionApplyStatus.APPLIED \<and>
    as_applied store (td_transition_id d) = None \<and>
    ar_state (as_record store) \<notin> TERMINAL_STATES \<and>
    ar_fence_token (as_record store) = td_expected_fence_token d \<and>
    ar_fence_token (as_record store') = ar_fence_token (as_record store) + 1 \<and>
    as_applied store' = (as_applied store)(td_transition_id d \<mapsto> d) \<and>
    (td_action d \<noteq> TransitionAction.CONTINUE \<and> ar_budget (as_record store') = ar_budget (as_record store) \<or>
     td_action d = TransitionAction.CONTINUE \<and> td_next_step d \<noteq> None \<and>
     0 < remaining_steps (ar_budget (as_record store)) \<and>
     td_requested_token_reservation d \<le> available_tokens (ar_budget (as_record store)) \<and>
     td_requested_cost_reservation d \<le> available_cost (ar_budget (as_record store)) \<and>
     BudgetSnapshot_post_init (ar_budget (as_record store')) = Inr (ar_budget (as_record store')) \<and>
     ar_budget (as_record store') = (ar_budget (as_record store))
       \<lparr>bs_steps_used := bs_steps_used (ar_budget (as_record store)) + 1,
        bs_held_token_reservations :=
          bs_held_token_reservations (ar_budget (as_record store)) + td_requested_token_reservation d,
        bs_held_cost_reservations :=
          bs_held_cost_reservations (ar_budget (as_record store)) + td_requested_cost_reservation d\<rparr>)"
proof (cases "state_store_apply store d = Inr (status, store) \<and> status \<noteq> TransitionApplyStatus.APPLIED")
  case True
  with assms show ?thesis by simp
next
  case False
  have pre: "as_applied store (td_transition_id d) = None" "ar_state (as_record store) \<notin> TERMINAL_STATES"
    "ar_fence_token (as_record store) = td_expected_fence_token d"
    using assms False by (auto simp: state_store_apply_def Let_def split: if_splits)
  show ?thesis
  proof (cases "td_action d = TransitionAction.CONTINUE")
    case True
    with assms False pre show ?thesis
      by (auto simp: state_store_apply_def Let_def bind_res_eq_Inr BudgetSnapshot_post_init_def
          split: if_splits option.splits)
  next
    case not_continue: False
    with assms False pre show ?thesis
      by (auto simp: state_store_apply_def Let_def split: if_splits)
  qed
qed

lemma state_step_cases:
  obtains (same) "state_step d store = store" "\<not> state_applies d store"
  | (applied) "state_store_apply store d = Inr (TransitionApplyStatus.APPLIED, state_step d store)" "state_applies d store"
proof (cases "state_store_apply store d")
  case (Inl e)
  then show ?thesis by (intro same) (simp_all add: state_step_def state_applies_def)
next
  case (Inr p)
  then obtain status store' where p: "state_store_apply store d = Inr (status, store')" by (cases p) auto
  then have step: "state_step d store = store'" by (simp add: state_step_def)
  show ?thesis
  proof (cases "status = TransitionApplyStatus.APPLIED")
    case True
    with p step show ?thesis by (intro applied) (simp_all add: state_applies_def)
  next
    case False
    with state_store_apply_ok [OF p] p step show ?thesis by (intro same) (auto simp: state_applies_def)
  qed
qed

lemmas state_step_applied = state_store_apply_ok [where status = TransitionApplyStatus.APPLIED, simplified]

lemma state_step_budget:
  assumes "budget_ok (ar_budget (as_record store))"
  shows "budget_ok (ar_budget (as_record (state_step d store)))"
proof (cases rule: state_step_cases [of d store])
  case same
  with assms show ?thesis by simp
next
  case applied
  from state_step_applied [OF applied(1)] assms show ?thesis
    by (auto simp: budget_ok_def BudgetSnapshot_post_init_def py_defs split: if_splits)
qed

interpretation agent_store: fenced_machine state_step "\<lambda>s. budget_ok (ar_budget (as_record s))"
  "\<lambda>s. ar_fence_token (as_record s)" "\<lambda>s. ar_state (as_record s) \<in> TERMINAL_STATES" as_record
proof
  fix s :: AgentStateStore and e
  show "budget_ok (ar_budget (as_record s)) \<Longrightarrow> budget_ok (ar_budget (as_record (state_step e s)))"
    by (rule state_step_budget)
  show "ar_fence_token (as_record s) \<le> ar_fence_token (as_record (state_step e s))"
    by (cases rule: state_step_cases [of e s]) (auto dest: state_step_applied)
  show "ar_state (as_record s) \<in> TERMINAL_STATES \<Longrightarrow>
      ar_state (as_record (state_step e s)) \<in> TERMINAL_STATES \<and> as_record (state_step e s) = as_record s"
    by (cases rule: state_step_cases [of e s]) (auto dest: state_step_applied)
qed

interpretation agent_store_replay: replay_machine state_step "\<lambda>d. Some (td_transition_id d)" "\<lambda>s. dom (as_applied s)"
proof
  fix s :: AgentStateStore and e k
  show "Some (td_transition_id e) = Some k \<Longrightarrow> k \<in> dom (as_applied s) \<Longrightarrow> state_step e s = s"
    by (cases rule: state_step_cases [of e s]) (auto dest: state_step_applied)
  show "Some (td_transition_id e) = Some k \<Longrightarrow> state_step e s \<noteq> s \<Longrightarrow> k \<in> dom (as_applied (state_step e s))"
    by (cases rule: state_step_cases [of e s]) (auto dest: state_step_applied)
  show "dom (as_applied s) \<subseteq> dom (as_applied (state_step e s))"
    by (cases rule: state_step_cases [of e s]) (auto dest: state_step_applied)
qed

section \<open>Bounded execution\<close>

text \<open>The decisions of a run that created a next step, in order.\<close>

fun created_steps :: "TransitionDecision list \<Rightarrow> AgentStateStore \<Rightarrow> TransitionDecision list" where
  "created_steps [] store = []"
| "created_steps (d # ds) store =
     (if state_applies d store \<and> td_action d = TransitionAction.CONTINUE then [d] else []) @
     created_steps ds (state_step d store)"

lemma created_steps_count:
  "bs_steps_used (ar_budget (as_record (fold state_step ds store))) =
     bs_steps_used (ar_budget (as_record store)) + int (length (created_steps ds store)) \<and>
   bs_step_limit (ar_budget (as_record (fold state_step ds store))) = bs_step_limit (ar_budget (as_record store)) \<and>
   bs_held_token_reservations (ar_budget (as_record (fold state_step ds store))) =
     bs_held_token_reservations (ar_budget (as_record store)) +
     (\<Sum>d\<leftarrow>created_steps ds store. td_requested_token_reservation d)"
proof (induction ds arbitrary: store)
  case (Cons d ds)
  show ?case
  proof (cases rule: state_step_cases [of d store])
    case same
    with Cons [of store] show ?thesis by simp
  next
    case applied
    from state_step_applied [OF applied(1)] applied(2) Cons [of "state_step d store"] show ?thesis by auto
  qed
qed simp

text \<open>
  C3. The Agent loop is bounded whatever decisions are applied, in whatever order: after any
  sequence of applies to a store whose budget is sound, all budget values are non-negative,
  steps used stay within the step limit, and settled plus held tokens and cost stay within their
  limits; and the number of next steps ever created is exactly the growth of the step counter,
  hence at most the steps that remained at the start. Held tokens grow by exactly what the
  created steps reserved.
\<close>

theorem agent_run_within_budget:
  assumes "budget_ok (ar_budget (as_record store))"
  shows "budget_ok (ar_budget (as_record (fold state_step ds store))) \<and>
    int (length (created_steps ds store)) =
      bs_steps_used (ar_budget (as_record (fold state_step ds store))) - bs_steps_used (ar_budget (as_record store)) \<and>
    int (length (created_steps ds store)) \<le> remaining_steps (ar_budget (as_record store)) \<and>
    (\<Sum>d\<leftarrow>created_steps ds store. td_requested_token_reservation d) \<le> available_tokens (ar_budget (as_record store))"
proof -
  have ok: "budget_ok (ar_budget (as_record (fold state_step ds store)))"
    using agent_store.run_inv [OF assms] .
  have frame: "bs_token_limit (ar_budget (as_record (fold state_step ds store))) = bs_token_limit (ar_budget (as_record store)) \<and>
      bs_settled_tokens (ar_budget (as_record (fold state_step ds store))) = bs_settled_tokens (ar_budget (as_record store))"
  proof (induction ds arbitrary: store)
    case (Cons d ds)
    then show ?case
      by (cases rule: state_step_cases [of d store]) (auto dest: state_step_applied)
  qed simp
  from ok frame created_steps_count [of ds store] show ?thesis
    by (auto simp: budget_ok_def remaining_steps_def available_tokens_def)
qed

definition demo_budget :: "BudgetSnapshot" where
  "demo_budget = \<lparr>bs_step_limit = 2, bs_steps_used = 1, bs_token_limit = 10, bs_settled_tokens = 0,
     bs_held_token_reservations = 0, bs_cost_limit = 10, bs_settled_cost = 0, bs_held_cost_reservations = 0\<rparr>"

definition demo_agent_store :: "AgentStateStore" where
  "demo_agent_store = AgentStateStore_init
     \<lparr>ar_tenant_id = ''t'', ar_job_id = ''j'', ar_current_step_id = ''s0'', ar_state = AgentState.RUNNING,
      ar_fence_token = 0, ar_budget = demo_budget\<rparr>"

definition demo_transition :: "string \<Rightarrow> TransitionDecision" where
  "demo_transition tid =
     \<lparr>td_phase = ''PRE_NEXT_STEP_GUARD'', td_status = ''NEXT_STEP_CANDIDATE'', td_transition_id = tid,
      td_tenant_id = ''t'', td_job_id = ''j'', td_step_id = ''s0'', td_attempt_id = ''a'',
      td_expected_state = AgentState.RUNNING, td_expected_fence_token = 0,
      td_action = TransitionAction.CONTINUE, td_proposed_next_state = AgentState.RUNNING,
      td_termination_reason = None, td_recovery_action = AgentRecoveryAction.NONE,
      td_next_step = Some \<lparr>nr_tenant_id = ''t'', nr_job_id = ''j'', nr_step_id = ''s1'',
        nr_parent_step_id = ''s0'', nr_runtime_attempt_id = ''a1'', nr_control_decision_id = ''d'',
        nr_verified_observation_ids = []\<rparr>,
      td_requested_token_reservation = 4, td_requested_cost_reservation = 4, td_evidence = []\<rparr>"

lemma demo_transition_applies: "state_applies (demo_transition tid) demo_agent_store"
  by (simp add: state_applies_def state_store_apply_def Let_def demo_agent_store_def AgentStateStore_init_def
      demo_transition_def demo_budget_def TERMINAL_STATES_def BudgetSnapshot_post_init_def py_defs)

lemma demo_budget_ok: "budget_ok (ar_budget (as_record demo_agent_store))"
  by (simp add: demo_agent_store_def AgentStateStore_init_def demo_budget_def budget_ok_def py_defs)

theorem agent_run_within_budget_witness:
  "int (length (created_steps [demo_transition ''x'', demo_transition ''y''] demo_agent_store)) \<le> 1 \<and>
   created_steps [demo_transition ''x'', demo_transition ''y''] demo_agent_store \<noteq> []"
  using agent_run_within_budget [OF demo_budget_ok, of "[demo_transition ''x'', demo_transition ''y'']"]
    demo_transition_applies [of "''x''"]
  by (simp add: demo_agent_store_def AgentStateStore_init_def demo_budget_def remaining_steps_def demo_transition_def)

text \<open>
  Decisions race safely: when two decisions were made on the same snapshot (the same fence)
  and one is applied, the other changes nothing, now or after any further activity, even under a
  different transition id; and a decision applied once is never applied again. Every applied
  decision advances the fence by one.
\<close>

theorem stale_decision_never_applies:
  assumes "budget_ok (ar_budget (as_record store))"
    and "state_applies d store" and "td_expected_fence_token d' \<le> td_expected_fence_token d"
  shows "state_step d' (fold state_step ds (state_step d store)) = fold state_step ds (state_step d store) \<and>
    \<not> state_applies d' (fold state_step ds (state_step d store)) \<and>
    ar_fence_token (as_record (state_step d store)) = ar_fence_token (as_record store) + 1"
proof -
  let ?s = "state_step d store"
  from assms(2) have ap: "state_store_apply store d = Inr (TransitionApplyStatus.APPLIED, ?s)"
    by (cases rule: state_step_cases [of d store]) auto
  note eff = state_step_applied [OF ap]
  then have "td_expected_fence_token d' < ar_fence_token (as_record ?s)" using assms(3) by simp
  moreover have "budget_ok (ar_budget (as_record ?s))" using assms(1) by (rule state_step_budget)
  ultimately have "ar_fence_token (as_record (fold state_step ds ?s)) \<noteq> td_expected_fence_token d'"
    by (intro agent_store.stale_fence_forever)
  then have "\<not> state_applies d' (fold state_step ds ?s)"
    by (auto simp: state_applies_def dest: state_step_applied)
  then show ?thesis using eff
    by (cases rule: state_step_cases [of d' "fold state_step ds ?s"]) auto
qed

theorem stale_decision_never_applies_witness:
  "\<not> state_applies (demo_transition ''y'') (state_step (demo_transition ''x'') demo_agent_store)"
  using stale_decision_never_applies [OF demo_budget_ok demo_transition_applies, of "demo_transition ''y''" "''x''" "[]"]
  by (simp add: demo_transition_def)

text \<open>
  A terminal Agent record is final: after any sequence of applies the record is unchanged
  (state, step, fence and budget), so no further step is ever created.
\<close>

theorem terminal_record_is_final:
  assumes "budget_ok (ar_budget (as_record store))" and "ar_state (as_record store) \<in> TERMINAL_STATES"
  shows "as_record (fold state_step ds store) = as_record store \<and> created_steps ds store = []"
proof
  show "as_record (fold state_step ds store) = as_record store"
    using agent_store.run_terminal [OF assms] by blast
  with created_steps_count [of ds store] show "created_steps ds store = []" by simp
qed

theorem terminal_record_is_final_witness:
  "let store = demo_agent_store\<lparr>as_record := (as_record demo_agent_store)\<lparr>ar_state := AgentState.FAILED\<rparr>\<rparr>
   in as_record (fold state_step [demo_transition ''x''] store) = as_record store"
  using terminal_record_is_final
    [of "demo_agent_store\<lparr>as_record := (as_record demo_agent_store)\<lparr>ar_state := AgentState.FAILED\<rparr>\<rparr>" "[demo_transition ''x'']"]
    demo_budget_ok
  by (simp add: TERMINAL_STATES_def Let_def)

section \<open>Progress detection\<close>

text \<open>
  The fingerprint depends only on the state and on the contents, not the order, of the two id
  tuples, so a window in which nothing but order and action changed is reported as no progress.
\<close>

lemma progress_fingerprint_cong:
  assumes "ps_state p = ps_state q"
    and "mset (ps_remaining_goal_conditions p) = mset (ps_remaining_goal_conditions q)"
    and "mset (ps_verified_observation_ids p) = mset (ps_verified_observation_ids q)"
  shows "progress_fingerprint p = progress_fingerprint q"
proof -
  have "sort (ps_remaining_goal_conditions p) = sort (ps_remaining_goal_conditions q)"
    "sort (ps_verified_observation_ids p) = sort (ps_verified_observation_ids q)"
    using assms(2,3) by (metis properties_for_sort mset_sort sorted_sort)+
  with assms(1) show ?thesis by (simp add: progress_fingerprint_def)
qed

text \<open>
  \<open>no_progress_threshold_reached\<close> reports a loop whenever the last \<open>threshold\<close> snapshots agree on
  the state and on which goal conditions remain and which observations are verified, whatever
  their order and whatever actions were tried; with fewer snapshots than the threshold it never
  does.
\<close>

theorem no_progress_detected:
  assumes "2 \<le> threshold"
    and "\<forall>p \<in> set (drop (length history - nat threshold) history).
      ps_state p = st \<and> mset (ps_remaining_goal_conditions p) = G \<and> mset (ps_verified_observation_ids p) = V"
  shows "no_progress_threshold_reached history threshold = Inr (threshold \<le> int (length history))"
proof (cases "threshold \<le> int (length history)")
  case True
  let ?w = "drop (length history - nat threshold) history"
  have "length ?w = nat threshold" using True assms(1) by (simp add: nat_le_iff)
  then obtain p0 ps where w: "?w = p0 # ps" using assms(1) by (cases ?w) auto
  then have p0: "p0 \<in> set ?w" by simp
  have "progress_fingerprint p = progress_fingerprint p0" if "p \<in> set ?w" for p
    using bspec [OF assms(2) that] bspec [OF assms(2) p0] by (intro progress_fingerprint_cong) simp_all
  then have "progress_fingerprint ` set ?w = {progress_fingerprint p0}"
    using p0 by blast
  then show ?thesis using assms(1) True
    by (simp add: no_progress_threshold_reached_def Let_def)
next
  case False
  with assms(1) show ?thesis by (simp add: no_progress_threshold_reached_def)
qed

definition demo_progress :: "string list \<Rightarrow> string \<Rightarrow> ProgressSnapshot" where
  "demo_progress obs act = \<lparr>ps_state = AgentState.RUNNING, ps_remaining_goal_conditions = [''g''],
     ps_verified_observation_ids = obs, ps_action_fingerprint = act\<rparr>"

theorem no_progress_detected_witness:
  "no_progress_threshold_reached
     [demo_progress [] ''x'', demo_progress [''a'', ''b''] ''x'', demo_progress [''b'', ''a''] ''y''] 2 = Inr True"
proof -
  let ?h = "[demo_progress [] ''x'', demo_progress [''a'', ''b''] ''x'', demo_progress [''b'', ''a''] ''y'']"
  have "\<forall>p \<in> set (drop (length ?h - nat 2) ?h). ps_state p = AgentState.RUNNING \<and>
      mset (ps_remaining_goal_conditions p) = {#''g''#} \<and>
      mset (ps_verified_observation_ids p) = {#''a'', ''b''#}"
    by (simp add: demo_progress_def add_mset_commute)
  from no_progress_detected [OF _ this] show ?thesis by simp
qed

text \<open>
  Because the ids are joined with commas before hashing, verified progress can be missed: two
  snapshots of which the second has verified one observation more are reported as no progress
  when an observation id contains a comma.
\<close>

lemma progress_comma_collision:
  "no_progress_threshold_reached [demo_progress [''a,b''] ''x'', demo_progress [''a'', ''b''] ''y''] 2 = Inr True"
proof -
  have "sort [''a,b''] = [''a,b'']" "sort [''a'', ''b''] = [''a'', ''b'']" by simp_all
  then have "progress_fingerprint (demo_progress [''a,b''] ''x'') = progress_fingerprint (demo_progress [''a'', ''b''] ''y'')"
    by (simp add: progress_fingerprint_def demo_progress_def)
  then show ?thesis by (simp add: no_progress_threshold_reached_def Let_def)
qed

section \<open>A concrete transition\<close>

definition demo_transition_input :: "AgentStepResult \<Rightarrow> AgentTransitionInput" where
  "demo_transition_input r =
     \<lparr>ti_tenant_id = ''t'', ti_job_id = ''j'', ti_step_id = ''s0'', ti_attempt_id = ''a'',
      ti_state = AgentState.RUNNING, ti_fence_token = 0, ti_day79_result = r, ti_goal_verified = False,
      ti_pending_reconciliation_identity = None, ti_current_authorization = True,
      ti_day80_governance = None, ti_hard_loop_detected = False, ti_budget = demo_budget,
      ti_context_budget = \<lparr>cb_input_tokens = 1, cb_reserved_output_tokens = 1, cb_safety_margin = 1,
        cb_permitted_context_budget = 4, cb_provider_context_limit = 8\<rparr>,
      ti_requested_token_reservation = 4, ti_requested_cost_reservation = 4\<rparr>"

theorem decide_transition_spec_witness:
  "\<exists>r d. decide_control (demo_step_input ''s0'') = Inr r \<and>
     decide_transition (demo_transition_input r) = Inr d \<and> td_action d = TransitionAction.CONTINUE"
proof -
  obtain r where r: "decide_control (demo_step_input ''s0'') = Inr r" "sr_decision r = ControlDecision.CONTINUE"
    "AgentStepResult_post_init r = Inr r"
    by (auto simp: decide_control_def step_result_eq truthy_def demo_step_input_def
        AgentStepResult_post_init_def decision_id_of_def stable_id_def)
  then have "continue_guard (demo_transition_input r)"
    by (simp add: continue_guard_def outcome_unknown_def demo_transition_input_def demo_budget_def
        TERMINAL_STATES_def py_defs)
  with decide_transition_spec [of "demo_transition_input r"] r show ?thesis
    by (auto simp: demo_transition_input_def)
qed

end
