(* ===== verification/Durable_Agent_Jobs.thy ===== *)
theory Durable_Agent_Jobs
  imports Agent_State_Machine
begin

text \<open>
  \<^verbatim>\<open>src/projects/ai-agent/src/durable_agent_jobs.py\<close>: the recovery decision for a durable Agent job, the
  conditional apply of a recovery candidate (reservations, outbox intents, checkpoint chain,
  fence), lease takeover, the acceptance of worker results, and the outbox consumer guard.
\<close>

section \<open>Enumerations\<close>

datatype ExternalCertainty = DEFINITELY_NOT_DISPATCHED | OUTCOME_UNKNOWN | VERIFIED_TERMINAL

datatype DurableRecoveryDecision =
  RESUME | RETRY | REPLAN | RECONCILE | REPAIR | SETTLE | COMPENSATE | ESCALATE | BLOCKED
| TERMINAL_NOOP | REJECT_STALE

fun DurableRecoveryDecision_value :: "DurableRecoveryDecision \<Rightarrow> string" where
  "DurableRecoveryDecision_value DurableRecoveryDecision.RESUME = ''RESUME''"
| "DurableRecoveryDecision_value DurableRecoveryDecision.RETRY = ''RETRY''"
| "DurableRecoveryDecision_value DurableRecoveryDecision.REPLAN = ''REPLAN''"
| "DurableRecoveryDecision_value DurableRecoveryDecision.RECONCILE = ''RECONCILE''"
| "DurableRecoveryDecision_value DurableRecoveryDecision.REPAIR = ''REPAIR''"
| "DurableRecoveryDecision_value DurableRecoveryDecision.SETTLE = ''SETTLE''"
| "DurableRecoveryDecision_value DurableRecoveryDecision.COMPENSATE = ''COMPENSATE''"
| "DurableRecoveryDecision_value DurableRecoveryDecision.ESCALATE = ''ESCALATE''"
| "DurableRecoveryDecision_value DurableRecoveryDecision.BLOCKED = ''BLOCKED''"
| "DurableRecoveryDecision_value DurableRecoveryDecision.TERMINAL_NOOP = ''TERMINAL_NOOP''"
| "DurableRecoveryDecision_value DurableRecoveryDecision.REJECT_STALE = ''REJECT_STALE''"

datatype ReservationStatus = HELD | SETTLED | RELEASED

datatype ReservationAction = NO_CHANGE | KEEP_HELD | RELEASE | SETTLE_VERIFIED

datatype OutboxAction = NONE | CREATE_RECOVERY_INTENT | PUBLISH_ORIGINAL_INTENT

datatype RecoveryApplyStatus = APPLIED | DUPLICATE_REPLAY | NOOP_STALE | NOOP_TERMINAL | NOT_APPLICABLE

datatype DeliveryStatus = NEW | DUPLICATE | IDENTITY_CONFLICT

section \<open>Records\<close>

record ExecutionBindings =
  eb_controller_release :: string
  eb_prompt_binding :: string
  eb_provider_binding :: string
  eb_tool_binding :: string
  eb_policy_binding :: string

definition ExecutionBindings_post_init :: "ExecutionBindings \<Rightarrow> ExecutionBindings res" where
  "ExecutionBindings_post_init b =
     (if \<not> all_truthy [eb_controller_release b, eb_prompt_binding b, eb_provider_binding b,
                       eb_tool_binding b, eb_policy_binding b]
      then Inl (ValueError ''all execution bindings are required'') else Inr b)"

record DurableCheckpoint =
  dc_tenant_id :: string
  dc_job_id :: string
  dc_step_id :: string
  dc_attempt_id :: string
  dc_checkpoint_id :: string
  dc_checkpoint_version :: int
  dc_authoritative_state :: AgentState
  dc_state_version :: int
  dc_fence_token :: int
  dc_lease_generation :: int
  dc_bindings :: ExecutionBindings
  dc_progress_fingerprint :: string
  dc_verified_observation_ids :: "string list"
  dc_reservation_ids :: "string list"
  dc_pending_reconciliation_ids :: "string list"
  dc_previous_checkpoint_id :: "string option"

definition DurableCheckpoint_post_init :: "DurableCheckpoint \<Rightarrow> DurableCheckpoint res" where
  "DurableCheckpoint_post_init c =
     (if \<not> all_truthy [dc_tenant_id c, dc_job_id c, dc_step_id c, dc_attempt_id c, dc_checkpoint_id c,
                       dc_progress_fingerprint c]
      then Inl (ValueError ''checkpoint identity and progress are required'')
      else if list_ex (\<lambda>v. v < 0) [dc_checkpoint_version c, dc_state_version c, dc_fence_token c, dc_lease_generation c]
      then Inl (ValueError ''checkpoint versions must be non-negative'')
      else if \<not> distinct (dc_verified_observation_ids c)
      then Inl (ValueError ''verified observation identities must be unique'')
      else Inr c)"

record ReservationRecord =
  rs_reservation_id :: string
  rs_attempt_id :: string
  rs_reserved_units :: int
  rs_status :: ReservationStatus
  rs_settled_units :: "int option"
  rs_released_units :: int

definition ReservationRecord_post_init :: "ReservationRecord \<Rightarrow> ReservationRecord res" where
  "ReservationRecord_post_init r =
     (if \<not> truthy (rs_reservation_id r) \<or> \<not> truthy (rs_attempt_id r)
      then Inl (ValueError ''reservation identity is required'')
      else if rs_reserved_units r < 0 \<or> rs_released_units r < 0
      then Inl (ValueError ''reservation units must be non-negative'')
      else if (case rs_settled_units r of None \<Rightarrow> False | Some u \<Rightarrow> \<not> (0 \<le> u \<and> u \<le> rs_reserved_units r))
      then Inl (ValueError ''settled units must fit reservation'')
      else Inr r)"

record OutboxIntent =
  oi_event_id :: string
  oi_job_id :: string
  oi_step_id :: string
  oi_attempt_id :: string
  oi_event_type :: string
  oi_published_at_epoch_ms :: "int option"

record RecoveryOperation =
  ro_recovery_id :: string
  ro_source_attempt_id :: string
  ro_recovery_generation :: int
  ro_attempts_used :: int
  ro_attempt_limit :: int
  ro_deadline_epoch_ms :: int
  ro_last_evidence_fingerprint :: "string option"

definition automatic_recovery_available :: "RecoveryOperation \<Rightarrow> bool" where
  [py_defs]: "automatic_recovery_available r \<longleftrightarrow> ro_attempts_used r < ro_attempt_limit r"

record DurableAgentJobRecord =
  dj_tenant_id :: string
  dj_job_id :: string
  dj_current_step_id :: string
  dj_current_attempt_id :: string
  dj_state :: AgentState
  dj_state_version :: int
  dj_fence_token :: int
  dj_lease_owner :: "string option"
  dj_lease_expiry_epoch_ms :: "int option"
  dj_lease_generation :: int
  dj_current_checkpoint :: DurableCheckpoint
  dj_reservations :: "ReservationRecord list"
  dj_recovery_operations :: "RecoveryOperation list"
  dj_outbox_intents :: "OutboxIntent list"
  dj_audit_events :: "string list"

record RecoveryRequest =
  rq_recovery_id :: string
  rq_tenant_id :: string
  rq_job_id :: string
  rq_step_id :: string
  rq_attempt_id :: string
  rq_checkpoint_id :: string
  rq_expected_state :: AgentState
  rq_expected_state_version :: int
  rq_expected_fence_token :: int
  rq_now_epoch_ms :: int
  rq_external_certainty :: ExternalCertainty
  rq_current_authorization :: bool
  rq_original_binding_currently_allowed :: bool
  rq_internal_repair_required :: bool
  rq_verified_effect_unwanted :: bool
  rq_verified_usage_units :: "int option"

record DurableRecoveryCandidate =
  rc_phase :: string
  rc_status :: string
  rc_recovery_id :: string
  rc_tenant_id :: string
  rc_job_id :: string
  rc_step_id :: string
  rc_attempt_id :: string
  rc_checkpoint_id :: string
  rc_expected_state :: AgentState
  rc_expected_state_version :: int
  rc_expected_fence_token :: int
  rc_decision :: DurableRecoveryDecision
  rc_recovery_reason :: string
  rc_next_state :: AgentState
  rc_reservation_action :: ReservationAction
  rc_outbox_action :: OutboxAction
  rc_evidence :: "string list"
  rc_verified_usage_units :: "int option"

section \<open>The recovery decision\<close>

definition recovery_candidate ::
    "RecoveryRequest \<Rightarrow> DurableRecoveryDecision \<Rightarrow> string \<Rightarrow> string \<Rightarrow> AgentState
      \<Rightarrow> ReservationAction \<Rightarrow> OutboxAction \<Rightarrow> string list \<Rightarrow> DurableRecoveryCandidate" where
  "recovery_candidate request decision status reason next_state reservation_action outbox_action evidence =
     \<lparr>rc_phase = ''DURABLE_RECOVERY'', rc_status = status, rc_recovery_id = rq_recovery_id request,
      rc_tenant_id = rq_tenant_id request, rc_job_id = rq_job_id request, rc_step_id = rq_step_id request,
      rc_attempt_id = rq_attempt_id request, rc_checkpoint_id = rq_checkpoint_id request,
      rc_expected_state = rq_expected_state request,
      rc_expected_state_version = rq_expected_state_version request,
      rc_expected_fence_token = rq_expected_fence_token request, rc_decision = decision,
      rc_recovery_reason = reason, rc_next_state = next_state,
      rc_reservation_action = reservation_action, rc_outbox_action = outbox_action,
      rc_evidence = evidence, rc_verified_usage_units = rq_verified_usage_units request\<rparr>"

definition recovery_identity_matches :: "DurableAgentJobRecord \<Rightarrow> RecoveryRequest \<Rightarrow> bool" where
  "recovery_identity_matches record request \<longleftrightarrow>
     (rq_tenant_id request, rq_job_id request, rq_step_id request, rq_attempt_id request, rq_checkpoint_id request) =
     (dj_tenant_id record, dj_job_id record, dj_current_step_id record, dj_current_attempt_id record,
      dc_checkpoint_id (dj_current_checkpoint record))"

definition recovery_snapshot_matches :: "DurableAgentJobRecord \<Rightarrow> RecoveryRequest \<Rightarrow> bool" where
  "recovery_snapshot_matches record request \<longleftrightarrow>
     rq_expected_state request = dj_state record \<and>
     rq_expected_state_version request = dj_state_version record \<and>
     rq_expected_fence_token request = dj_fence_token record"

definition decide_durable_recovery ::
    "DurableAgentJobRecord \<Rightarrow> RecoveryOperation \<Rightarrow> RecoveryRequest \<Rightarrow> DurableRecoveryCandidate" where
  "decide_durable_recovery record recovery request =
     (let held_state = (if dj_state record \<in> TERMINAL_STATES then dj_state record
                        else AgentState.PENDING_RECONCILIATION) in
      if \<not> recovery_identity_matches record request
      then recovery_candidate request DurableRecoveryDecision.REJECT_STALE ''CHECKPOINT_IDENTITY_MISMATCH''
             ''recovery identity does not match durable current identity'' (dj_state record)
             ReservationAction.NO_CHANGE OutboxAction.NONE [''reload_authoritative_record'']
      else if \<not> recovery_snapshot_matches record request
      then recovery_candidate request DurableRecoveryDecision.REJECT_STALE ''STALE_RECOVERY_SNAPSHOT''
             ''state, version, or fence advanced'' (dj_state record)
             ReservationAction.NO_CHANGE OutboxAction.NONE [''conditional_apply_would_affect_zero_rows'']
      else if \<not> automatic_recovery_available recovery \<or> rq_now_epoch_ms request \<ge> ro_deadline_epoch_ms recovery
      then recovery_candidate request DurableRecoveryDecision.ESCALATE ''BOUNDED_RECOVERY_EXHAUSTED''
             ''automatic recovery limit or deadline reached'' held_state
             ReservationAction.KEEP_HELD OutboxAction.NONE [''manual_or_operator_owned_follow_up_required'']
      else if rq_external_certainty request = ExternalCertainty.OUTCOME_UNKNOWN
      then recovery_candidate request DurableRecoveryDecision.RECONCILE ''EXTERNAL_OUTCOME_UNKNOWN''
             ''query and classify the original operation identity'' held_state
             ReservationAction.KEEP_HELD OutboxAction.CREATE_RECOVERY_INTENT
             [''original_attempt_identity_preserved'', ''unknown_usage_is_not_zero'']
      else if rq_internal_repair_required request
      then recovery_candidate request DurableRecoveryDecision.REPAIR ''INTERNAL_DURABLE_REFERENCE_REPAIR''
             ''repair internal truth without changing history'' (dj_state record)
             ReservationAction.NO_CHANGE OutboxAction.NONE [''append_only_repair_audit_required'']
      else if rq_verified_effect_unwanted request
      then (if \<not> rq_current_authorization request
            then recovery_candidate request DurableRecoveryDecision.BLOCKED ''COMPENSATION_NOT_AUTHORIZED''
                   ''new external effect requires current authorization'' (dj_state record)
                   ReservationAction.NO_CHANGE OutboxAction.NONE [''verified_effect_remains_historical_fact'']
            else recovery_candidate request DurableRecoveryDecision.COMPENSATE ''COMPENSATION_CANDIDATE''
                   ''create a new operation for the unwanted verified effect'' (dj_state record)
                   ReservationAction.NO_CHANGE OutboxAction.CREATE_RECOVERY_INTENT [''source_attempt_not_rewritten''])
      else if rq_verified_usage_units request \<noteq> None
      then recovery_candidate request DurableRecoveryDecision.SETTLE ''VERIFIED_USAGE_SETTLEMENT''
             ''settle actual usage and release unused capacity'' (dj_state record)
             ReservationAction.SETTLE_VERIFIED OutboxAction.NONE [''verified_usage_evidence'']
      else if dj_state record \<in> TERMINAL_STATES
      then recovery_candidate request DurableRecoveryDecision.TERMINAL_NOOP ''ALREADY_TERMINAL''
             ''terminal Job cannot be reopened by recovery'' (dj_state record)
             ReservationAction.NO_CHANGE OutboxAction.NONE [''terminal_history_preserved'']
      else if \<not> rq_original_binding_currently_allowed request
      then (if \<not> rq_current_authorization request
            then recovery_candidate request DurableRecoveryDecision.BLOCKED ''CURRENT_AUTHORIZATION_REVOKED''
                   ''old binding is preserved and new planning is blocked'' (dj_state record)
                   ReservationAction.RELEASE OutboxAction.NONE [''old_binding_not_rewritten'']
            else recovery_candidate request DurableRecoveryDecision.REPLAN ''CURRENT_BINDING_REPLAN_REQUIRED''
                   ''old binding is no longer valid for new execution'' AgentState.WAITING
                   ReservationAction.RELEASE OutboxAction.CREATE_RECOVERY_INTENT [''old_binding_not_rewritten''])
      else if rq_external_certainty request = ExternalCertainty.DEFINITELY_NOT_DISPATCHED
      then (if \<not> rq_current_authorization request
            then recovery_candidate request DurableRecoveryDecision.BLOCKED ''CURRENT_AUTHORIZATION_REVOKED''
                   ''Retry cannot bypass current authorization'' (dj_state record)
                   ReservationAction.RELEASE OutboxAction.NONE []
            else recovery_candidate request DurableRecoveryDecision.RETRY ''SAFE_NEW_ATTEMPT_CANDIDATE''
                   ''original execution is proven not dispatched'' AgentState.RUNNING
                   ReservationAction.RELEASE OutboxAction.CREATE_RECOVERY_INTENT [''new_attempt_identity_required''])
      else recovery_candidate request DurableRecoveryDecision.RESUME ''SAFE_RESUME_CANDIDATE''
             ''continue the same identity from committed facts'' (dj_state record)
             ReservationAction.NO_CHANGE OutboxAction.NONE [''immutable_execution_bindings_preserved''])"

section \<open>The store\<close>

definition next_checkpoint_id :: "DurableCheckpoint \<Rightarrow> string \<Rightarrow> string" where
  "next_checkpoint_id checkpoint recovery_id =
     ''checkpoint-'' @ take 20 (sha256_hexdigest (join_us
       [dc_checkpoint_id checkpoint, str_int (dc_checkpoint_version checkpoint), recovery_id]))"

record DurableJobStore =
  ds_record :: DurableAgentJobRecord
  ds_applied_recovery_ids :: "string set"

definition DurableJobStore_init :: "DurableAgentJobRecord \<Rightarrow> DurableJobStore" where
  "DurableJobStore_init record = \<lparr>ds_record = record, ds_applied_recovery_ids = {}\<rparr>"

text \<open>One iteration of the reservation loop of \<open>apply\<close>.\<close>

definition apply_reservation ::
    "DurableRecoveryCandidate \<Rightarrow> ReservationRecord \<Rightarrow> ReservationRecord res" where
  "apply_reservation candidate reservation =
     (if rs_attempt_id reservation \<noteq> rc_attempt_id candidate then Inr reservation
      else if rc_reservation_action candidate = ReservationAction.RELEASE
      then ReservationRecord_post_init
             (reservation\<lparr>rs_status := ReservationStatus.RELEASED,
                          rs_released_units := rs_reserved_units reservation\<rparr>)
      else if rc_reservation_action candidate = ReservationAction.SETTLE_VERIFIED
      then (case rc_verified_usage_units candidate of
              None \<Rightarrow> Inl (ValueError ''verified usage does not fit reservation'')
            | Some actual \<Rightarrow>
                if \<not> (0 \<le> actual \<and> actual \<le> rs_reserved_units reservation)
                then Inl (ValueError ''verified usage does not fit reservation'')
                else ReservationRecord_post_init
                       (reservation\<lparr>rs_status := ReservationStatus.SETTLED, rs_settled_units := Some actual,
                                    rs_released_units := rs_reserved_units reservation - actual\<rparr>))
      else Inr reservation)"

definition apply_outbox :: "DurableAgentJobRecord \<Rightarrow> DurableRecoveryCandidate \<Rightarrow> OutboxIntent list" where
  "apply_outbox current candidate =
     (if rc_outbox_action candidate = OutboxAction.CREATE_RECOVERY_INTENT
      then dj_outbox_intents current @
        [\<lparr>oi_event_id = ''recovery:'' @ rc_recovery_id candidate, oi_job_id = dj_job_id current,
          oi_step_id = dj_current_step_id current, oi_attempt_id = dj_current_attempt_id current,
          oi_event_type = DurableRecoveryDecision_value (rc_decision candidate),
          oi_published_at_epoch_ms = None\<rparr>]
      else dj_outbox_intents current)"

definition candidate_current :: "DurableAgentJobRecord \<Rightarrow> DurableRecoveryCandidate \<Rightarrow> bool" where
  "candidate_current current candidate \<longleftrightarrow>
     rc_tenant_id candidate = dj_tenant_id current \<and> rc_job_id candidate = dj_job_id current \<and>
     rc_step_id candidate = dj_current_step_id current \<and>
     rc_attempt_id candidate = dj_current_attempt_id current \<and>
     rc_checkpoint_id candidate = dc_checkpoint_id (dj_current_checkpoint current) \<and>
     rc_expected_state candidate = dj_state current \<and>
     rc_expected_state_version candidate = dj_state_version current \<and>
     rc_expected_fence_token candidate = dj_fence_token current"

definition terminal_allowed :: "DurableRecoveryDecision set" where
  "terminal_allowed =
     {DurableRecoveryDecision.RECONCILE, DurableRecoveryDecision.REPAIR, DurableRecoveryDecision.SETTLE,
      DurableRecoveryDecision.COMPENSATE, DurableRecoveryDecision.ESCALATE}"

definition next_checkpoint :: "DurableAgentJobRecord \<Rightarrow> DurableRecoveryCandidate \<Rightarrow> DurableCheckpoint" where
  "next_checkpoint current candidate =
     (let checkpoint = dj_current_checkpoint current in
      checkpoint\<lparr>dc_checkpoint_id := next_checkpoint_id checkpoint (rc_recovery_id candidate),
                 dc_checkpoint_version := dc_checkpoint_version checkpoint + 1,
                 dc_authoritative_state := rc_next_state candidate,
                 dc_state_version := dj_state_version current + 1,
                 dc_fence_token := dj_fence_token current + 1,
                 dc_previous_checkpoint_id := Some (dc_checkpoint_id checkpoint)\<rparr>)"

definition recovery_operation :: "DurableAgentJobRecord \<Rightarrow> DurableRecoveryCandidate \<Rightarrow> RecoveryOperation" where
  "recovery_operation current candidate =
     \<lparr>ro_recovery_id = rc_recovery_id candidate, ro_source_attempt_id = dj_current_attempt_id current,
      ro_recovery_generation = dj_lease_generation current, ro_attempts_used = 1, ro_attempt_limit = 1,
      ro_deadline_epoch_ms = 0,
      ro_last_evidence_fingerprint = Some (sha256_hexdigest (join_us (rc_evidence candidate)))\<rparr>"

definition durable_apply ::
    "DurableJobStore \<Rightarrow> DurableRecoveryCandidate \<Rightarrow> (RecoveryApplyStatus \<times> DurableJobStore) res" where
  "durable_apply store candidate =
     (let current = ds_record store in
      if rc_recovery_id candidate \<in> ds_applied_recovery_ids store
      then Inr (RecoveryApplyStatus.DUPLICATE_REPLAY, store)
      else if \<not> candidate_current current candidate then Inr (RecoveryApplyStatus.NOOP_STALE, store)
      else if dj_state current \<in> TERMINAL_STATES \<and> rc_decision candidate \<notin> terminal_allowed
      then Inr (RecoveryApplyStatus.NOOP_TERMINAL, store)
      else if rc_decision candidate \<in> {DurableRecoveryDecision.REJECT_STALE, DurableRecoveryDecision.TERMINAL_NOOP}
      then Inr (RecoveryApplyStatus.NOT_APPLICABLE, store)
      else if rc_decision candidate = DurableRecoveryDecision.BLOCKED \<and>
         rc_reservation_action candidate = ReservationAction.NO_CHANGE \<and>
         rc_outbox_action candidate = OutboxAction.NONE
      then Inr (RecoveryApplyStatus.NOT_APPLICABLE, store)
      else
        bind_res (map_res (apply_reservation candidate) (dj_reservations current)) (\<lambda>reservations.
        bind_res (DurableCheckpoint_post_init (next_checkpoint current candidate)) (\<lambda>checkpoint.
          Inr (RecoveryApplyStatus.APPLIED,
               \<lparr>ds_record = current
                  \<lparr>dj_state := rc_next_state candidate,
                   dj_state_version := dj_state_version current + 1,
                   dj_fence_token := dj_fence_token current + 1,
                   dj_current_checkpoint := checkpoint,
                   dj_reservations := reservations,
                   dj_recovery_operations := dj_recovery_operations current @ [recovery_operation current candidate],
                   dj_outbox_intents := apply_outbox current candidate,
                   dj_audit_events := dj_audit_events current @ [''recovery_applied:'' @ rc_recovery_id candidate]\<rparr>,
                ds_applied_recovery_ids = insert (rc_recovery_id candidate) (ds_applied_recovery_ids store)\<rparr>))))"

definition take_over_expired_lease :: "DurableJobStore \<Rightarrow> string \<Rightarrow> int \<Rightarrow> bool \<times> DurableJobStore" where
  "take_over_expired_lease store worker_id now_epoch_ms =
     (let current = ds_record store in
      if (case dj_lease_expiry_epoch_ms current of None \<Rightarrow> True | Some expiry \<Rightarrow> expiry > now_epoch_ms)
         \<or> dj_state current \<in> TERMINAL_STATES
      then (False, store)
      else (True,
            store\<lparr>ds_record := current
              \<lparr>dj_lease_owner := Some worker_id, dj_lease_expiry_epoch_ms := None,
               dj_lease_generation := dj_lease_generation current + 1,
               dj_fence_token := dj_fence_token current + 1,
               dj_audit_events := dj_audit_events current @ [''lease_taken_over:'' @ worker_id]\<rparr>\<rparr>))"

definition unpublished_outbox_intents :: "DurableJobStore \<Rightarrow> OutboxIntent list" where
  "unpublished_outbox_intents store =
     filter (\<lambda>i. oi_published_at_epoch_ms i = None) (dj_outbox_intents (ds_record store))"

definition accept_result :: "DurableJobStore \<Rightarrow> string \<Rightarrow> int \<Rightarrow> string \<Rightarrow> bool \<times> DurableJobStore" where
  "accept_result store worker_id result_fence_token evidence_id =
     (let current = ds_record store in
      (dj_lease_owner current = Some worker_id \<and> dj_fence_token current = result_fence_token \<and>
         dj_state current \<notin> TERMINAL_STATES,
       store\<lparr>ds_record := current
         \<lparr>dj_audit_events := dj_audit_events current @ [''late_or_current_result:'' @ evidence_id]\<rparr>\<rparr>))"

text \<open>The outbox consumer guard.\<close>

type_synonym ConsumerGuard = "string \<rightharpoonup> string \<times> string \<times> string"

definition guard_accept :: "ConsumerGuard \<Rightarrow> OutboxIntent \<Rightarrow> DeliveryStatus \<times> ConsumerGuard" where
  "guard_accept events intent =
     (let identity = (oi_job_id intent, oi_step_id intent, oi_attempt_id intent) in
      case events (oi_event_id intent) of
        None \<Rightarrow> (DeliveryStatus.NEW, events(oi_event_id intent \<mapsto> identity))
      | Some existing \<Rightarrow>
          if existing = identity then (DeliveryStatus.DUPLICATE, events)
          else (DeliveryStatus.IDENTITY_CONFLICT, events))"

section \<open>The recovery decision, characterised\<close>

lemma recovery_candidate_simps [simp]:
  "rc_decision (recovery_candidate q d st re ns ra oa ev) = d"
  "rc_next_state (recovery_candidate q d st re ns ra oa ev) = ns"
  "rc_reservation_action (recovery_candidate q d st re ns ra oa ev) = ra"
  "rc_outbox_action (recovery_candidate q d st re ns ra oa ev) = oa"
  "rc_recovery_id (recovery_candidate q d st re ns ra oa ev) = rq_recovery_id q"
  "rc_attempt_id (recovery_candidate q d st re ns ra oa ev) = rq_attempt_id q"
  "rc_expected_state (recovery_candidate q d st re ns ra oa ev) = rq_expected_state q"
  "rc_expected_state_version (recovery_candidate q d st re ns ra oa ev) = rq_expected_state_version q"
  "rc_expected_fence_token (recovery_candidate q d st re ns ra oa ev) = rq_expected_fence_token q"
  "rc_verified_usage_units (recovery_candidate q d st re ns ra oa ev) = rq_verified_usage_units q"
  by (simp_all add: recovery_candidate_def)

definition recovery_open :: "DurableAgentJobRecord \<Rightarrow> RecoveryOperation \<Rightarrow> RecoveryRequest \<Rightarrow> bool" where
  "recovery_open record recovery request \<longleftrightarrow>
     recovery_identity_matches record request \<and> recovery_snapshot_matches record request \<and>
     automatic_recovery_available recovery \<and> rq_now_epoch_ms request < ro_deadline_epoch_ms recovery"

text \<open>
  The recovery decision is safe in every case. A new Attempt (RETRY) is proposed exactly when
  the request matches the durable identity and snapshot, recovery is within its limits, no repair,
  compensation or settlement is pending, the job is open, its binding is still allowed, the caller
  is authorized and the original execution was definitely not dispatched. An unknown outcome is
  never retried, replanned, resumed or settled: the reservation stays held and it is reconciled
  (or escalated once the limits are reached). Capacity is released only for an open job whose
  outcome is not unknown. A terminal job keeps its state, and a new external effect
  (compensation, retry, replan) always requires current authorization.
\<close>

theorem durable_recovery_safe:
  "let c = decide_durable_recovery record recovery request in
     (rc_decision c = DurableRecoveryDecision.RETRY \<longleftrightarrow>
        recovery_open record recovery request \<and>
        rq_external_certainty request = ExternalCertainty.DEFINITELY_NOT_DISPATCHED \<and>
        \<not> rq_internal_repair_required request \<and> \<not> rq_verified_effect_unwanted request \<and>
        rq_verified_usage_units request = None \<and> dj_state record \<notin> TERMINAL_STATES \<and>
        rq_original_binding_currently_allowed request \<and> rq_current_authorization request) \<and>
     (rc_decision c \<in> {DurableRecoveryDecision.REJECT_STALE, DurableRecoveryDecision.ESCALATE, DurableRecoveryDecision.RECONCILE}
        \<or> rq_external_certainty request \<noteq> ExternalCertainty.OUTCOME_UNKNOWN) \<and>
     (rc_decision c = DurableRecoveryDecision.RECONCILE \<longleftrightarrow>
        recovery_open record recovery request \<and>
        rq_external_certainty request = ExternalCertainty.OUTCOME_UNKNOWN) \<and>
     (rc_reservation_action c \<noteq> ReservationAction.RELEASE \<or>
        rq_external_certainty request \<noteq> ExternalCertainty.OUTCOME_UNKNOWN \<and> dj_state record \<notin> TERMINAL_STATES) \<and>
     (dj_state record \<notin> TERMINAL_STATES \<or> rc_next_state c = dj_state record) \<and>
     (rc_decision c \<notin> {DurableRecoveryDecision.COMPENSATE, DurableRecoveryDecision.RETRY, DurableRecoveryDecision.REPLAN}
        \<or> rq_current_authorization request)"
  unfolding decide_durable_recovery_def Let_def recovery_open_def
  by (simp add: not_less not_le) 

section \<open>The store as a machine\<close>

text \<open>
  A recovery request is decided on some snapshot of the record, not necessarily the current one,
  and the candidate is then applied; workers take over the lease and report results in between.
\<close>

datatype DurableEvent =
    Recover DurableAgentJobRecord RecoveryOperation RecoveryRequest
  | TakeOver string int
  | AcceptResult string int string

fun durable_step :: "DurableEvent \<Rightarrow> DurableJobStore \<Rightarrow> DurableJobStore" where
  "durable_step (Recover snapshot recovery request) store =
     (case durable_apply store (decide_durable_recovery snapshot recovery request) of
        Inl _ \<Rightarrow> store | Inr (_, store') \<Rightarrow> store')"
| "durable_step (TakeOver worker now) store = snd (take_over_expired_lease store worker now)"
| "durable_step (AcceptResult worker fence evidence) store = snd (accept_result store worker fence evidence)"

lemma durable_apply_ok:
  assumes "durable_apply store c = Inr (status, store')"
  shows "status \<noteq> RecoveryApplyStatus.APPLIED \<and> store' = store \<or>
    status = RecoveryApplyStatus.APPLIED \<and>
    rc_recovery_id c \<notin> ds_applied_recovery_ids store \<and> candidate_current (ds_record store) c \<and>
    (dj_state (ds_record store) \<in> TERMINAL_STATES \<longrightarrow> rc_decision c \<in> terminal_allowed) \<and>
    (\<exists>reservations checkpoint.
       map_res (apply_reservation c) (dj_reservations (ds_record store)) = Inr reservations \<and>
       DurableCheckpoint_post_init (next_checkpoint (ds_record store) c) = Inr checkpoint \<and>
       ds_applied_recovery_ids store' = insert (rc_recovery_id c) (ds_applied_recovery_ids store) \<and>
       ds_record store' = (ds_record store)
         \<lparr>dj_state := rc_next_state c,
          dj_state_version := dj_state_version (ds_record store) + 1,
          dj_fence_token := dj_fence_token (ds_record store) + 1,
          dj_current_checkpoint := checkpoint,
          dj_reservations := reservations,
          dj_recovery_operations := dj_recovery_operations (ds_record store) @ [recovery_operation (ds_record store) c],
          dj_outbox_intents := apply_outbox (ds_record store) c,
          dj_audit_events := dj_audit_events (ds_record store) @ [''recovery_applied:'' @ rc_recovery_id c]\<rparr>)"
proof (cases "durable_apply store c = Inr (status, store) \<and> status \<noteq> RecoveryApplyStatus.APPLIED")
  case True
  with assms show ?thesis by simp
next
  case False
  have pre: "rc_recovery_id c \<notin> ds_applied_recovery_ids store" "candidate_current (ds_record store) c"
    "dj_state (ds_record store) \<in> TERMINAL_STATES \<longrightarrow> rc_decision c \<in> terminal_allowed"
    "rc_decision c \<notin> {DurableRecoveryDecision.REJECT_STALE, DurableRecoveryDecision.TERMINAL_NOOP}"
    "\<not> (rc_decision c = DurableRecoveryDecision.BLOCKED \<and>
         rc_reservation_action c = ReservationAction.NO_CHANGE \<and> rc_outbox_action c = OutboxAction.NONE)"
    using assms False by (auto simp: durable_apply_def Let_def split: if_splits)
  have "\<not> (dj_state (ds_record store) \<in> TERMINAL_STATES \<and> rc_decision c \<notin> terminal_allowed)"
    using pre(3) by blast
  with assms pre show ?thesis
    by (simp add: durable_apply_def Let_def bind_res_eq_Inr del: insert_iff) auto
qed

lemmas durable_applied = durable_apply_ok [where status = RecoveryApplyStatus.APPLIED, simplified]

lemma durable_recover_cases:
  obtains (same) "durable_step (Recover snap rop req) store = store"
  | (applied) "durable_apply store (decide_durable_recovery snap rop req) =
      Inr (RecoveryApplyStatus.APPLIED, durable_step (Recover snap rop req) store)"
proof (cases "durable_apply store (decide_durable_recovery snap rop req)")
  case (Inl e)
  then show ?thesis by (intro same) simp
next
  case (Inr p)
  then obtain status store' where p: "durable_apply store (decide_durable_recovery snap rop req) = Inr (status, store')"
    by (cases p) auto
  with durable_apply_ok [OF p] show ?thesis
    by (cases "status = RecoveryApplyStatus.APPLIED") (auto intro: same applied)
qed

text \<open>A candidate decided on any snapshot and applied to a terminal record keeps its state.\<close>

lemma decided_facts:
  "(dj_state snap \<in> TERMINAL_STATES \<longrightarrow>
      rc_next_state (decide_durable_recovery snap rop req) = dj_state snap) \<and>
   (rc_decision (decide_durable_recovery snap rop req) \<noteq> DurableRecoveryDecision.REJECT_STALE \<longrightarrow>
      rq_expected_state req = dj_state snap) \<and>
   rc_expected_state (decide_durable_recovery snap rop req) = rq_expected_state req"
  unfolding decide_durable_recovery_def Let_def by (simp add: recovery_snapshot_matches_def)

lemma decided_terminal:
  assumes "candidate_current current (decide_durable_recovery snap rop req)"
    and "dj_state current \<in> TERMINAL_STATES"
    and "rc_decision (decide_durable_recovery snap rop req) \<in> terminal_allowed"
  shows "rc_next_state (decide_durable_recovery snap rop req) = dj_state current"
proof -
  have "rc_decision (decide_durable_recovery snap rop req) \<noteq> DurableRecoveryDecision.REJECT_STALE"
    using assms(3) by (auto simp: terminal_allowed_def)
  with decided_facts [of snap rop req] assms(1,2) show ?thesis by (simp add: candidate_current_def)
qed

lemma durable_step_fence: "dj_fence_token (ds_record s) \<le> dj_fence_token (ds_record (durable_step e s))"
proof (cases e)
  case (Recover snap rop req)
  then show ?thesis
    by (cases rule: durable_recover_cases [of snap rop req s]) (auto dest!: durable_applied simp del: durable_step.simps)
qed (auto simp: take_over_expired_lease_def accept_result_def Let_def)

lemma durable_step_terminal:
  "dj_state (ds_record s) \<in> TERMINAL_STATES \<Longrightarrow> dj_state (ds_record (durable_step e s)) = dj_state (ds_record s)"
proof (cases e)
  case (Recover snap rop req)
  assume t: "dj_state (ds_record s) \<in> TERMINAL_STATES"
  show ?thesis
  proof (cases rule: durable_recover_cases [of snap rop req s])
    case same
    with Recover show ?thesis by (simp del: durable_step.simps)
  next
    case applied
    from durable_applied [OF applied] t decided_terminal [of "ds_record s" snap rop req] Recover show ?thesis
      by (auto simp del: durable_step.simps)
  qed
qed (auto simp: take_over_expired_lease_def accept_result_def Let_def)

text \<open>
  The invariant: the checkpoint is valid and agrees with the record, every applied recovery has
  exactly one operation, and the recovery intents have distinct event ids, each naming an applied
  recovery.
\<close>

definition durable_inv :: "DurableJobStore \<Rightarrow> bool" where
  "durable_inv s \<longleftrightarrow>
     dc_authoritative_state (dj_current_checkpoint (ds_record s)) = dj_state (ds_record s) \<and>
     dc_state_version (dj_current_checkpoint (ds_record s)) = dj_state_version (ds_record s) \<and>
     dc_fence_token (dj_current_checkpoint (ds_record s)) \<le> dj_fence_token (ds_record s) \<and>
     distinct (map ro_recovery_id (dj_recovery_operations (ds_record s))) \<and>
     set (map ro_recovery_id (dj_recovery_operations (ds_record s))) = ds_applied_recovery_ids s \<and>
     distinct (map oi_event_id (dj_outbox_intents (ds_record s))) \<and>
     oi_event_id ` set (dj_outbox_intents (ds_record s)) \<subseteq> (\<lambda>r. ''recovery:'' @ r) ` ds_applied_recovery_ids s"

lemma checkpoint_post_init_id: "DurableCheckpoint_post_init c = Inr c' \<Longrightarrow> c' = c"
  by (simp add: DurableCheckpoint_post_init_def split: if_splits)

lemma durable_apply_inv:
  assumes "durable_inv s" and "durable_apply s c = Inr (RecoveryApplyStatus.APPLIED, s')"
  shows "durable_inv s'"
proof -
  from durable_applied [OF assms(2)] obtain reservations where
    fresh: "rc_recovery_id c \<notin> ds_applied_recovery_ids s"
    and ids: "ds_applied_recovery_ids s' = insert (rc_recovery_id c) (ds_applied_recovery_ids s)"
    and rec: "ds_record s' = (ds_record s)
         \<lparr>dj_state := rc_next_state c,
          dj_state_version := dj_state_version (ds_record s) + 1,
          dj_fence_token := dj_fence_token (ds_record s) + 1,
          dj_current_checkpoint := next_checkpoint (ds_record s) c,
          dj_reservations := reservations,
          dj_recovery_operations := dj_recovery_operations (ds_record s) @ [recovery_operation (ds_record s) c],
          dj_outbox_intents := apply_outbox (ds_record s) c,
          dj_audit_events := dj_audit_events (ds_record s) @ [''recovery_applied:'' @ rc_recovery_id c]\<rparr>"
    by (auto dest!: checkpoint_post_init_id)
  from assms(1) fresh show ?thesis
    by (auto simp: durable_inv_def ids rec next_checkpoint_def Let_def recovery_operation_def apply_outbox_def)
qed

lemma durable_step_inv: "durable_inv s \<Longrightarrow> durable_inv (durable_step e s)"
proof (cases e)
  case (Recover snap rop req)
  assume inv: "durable_inv s"
  with Recover durable_apply_inv [OF inv] show ?thesis
    by (cases rule: durable_recover_cases [of snap rop req s]) (auto simp del: durable_step.simps)
qed (auto simp: take_over_expired_lease_def accept_result_def Let_def durable_inv_def)

interpretation durable: fenced_machine durable_step durable_inv "\<lambda>s. dj_fence_token (ds_record s)"
  "\<lambda>s. dj_state (ds_record s) \<in> TERMINAL_STATES" "\<lambda>s. dj_state (ds_record s)"
  by unfold_locales (simp_all add: durable_step_inv durable_step_fence durable_step_terminal)

section \<open>Properties of the store\<close>

text \<open>A durable record as it is first committed: a checkpoint that agrees with it, no history.\<close>

definition fresh_durable_record :: "DurableAgentJobRecord \<Rightarrow> bool" where
  "fresh_durable_record r \<longleftrightarrow>
     dc_authoritative_state (dj_current_checkpoint r) = dj_state r \<and>
     dc_state_version (dj_current_checkpoint r) = dj_state_version r \<and>
     dc_fence_token (dj_current_checkpoint r) \<le> dj_fence_token r \<and>
     dj_recovery_operations r = [] \<and> dj_outbox_intents r = []"

lemma fresh_durable_inv: "fresh_durable_record r \<Longrightarrow> durable_inv (DurableJobStore_init r)"
  by (simp add: fresh_durable_record_def durable_inv_def DurableJobStore_init_def)

text \<open>
  C6. After any interleaving of recovery requests (decided on current or outdated snapshots),
  lease takeovers and result reports: the current checkpoint records exactly the job's state and
  state version and never a newer fence; every recovery id was applied at most once and has
  exactly one operation; and no two recovery intents of the outbox share an event id, each naming
  an applied recovery.
\<close>

theorem durable_store_consistent:
  assumes "fresh_durable_record r" and "s = fold durable_step evs (DurableJobStore_init r)"
  shows "dc_authoritative_state (dj_current_checkpoint (ds_record s)) = dj_state (ds_record s) \<and>
    dc_state_version (dj_current_checkpoint (ds_record s)) = dj_state_version (ds_record s) \<and>
    dc_fence_token (dj_current_checkpoint (ds_record s)) \<le> dj_fence_token (ds_record s) \<and>
    distinct (map ro_recovery_id (dj_recovery_operations (ds_record s))) \<and>
    set (map ro_recovery_id (dj_recovery_operations (ds_record s))) = ds_applied_recovery_ids s \<and>
    distinct (map oi_event_id (dj_outbox_intents (ds_record s))) \<and>
    oi_event_id ` set (dj_outbox_intents (ds_record s)) \<subseteq> (\<lambda>q. ''recovery:'' @ q) ` ds_applied_recovery_ids s"
  using durable.run_inv [OF fresh_durable_inv [OF assms(1)], of evs] assms(2)
  by (simp add: durable_inv_def)

text \<open>
  Recovery never reopens a terminal job: whatever is requested on whatever snapshot, and
  whoever takes over or reports, the state of a terminal job stays what it was.
\<close>

theorem terminal_job_never_reopened:
  assumes "durable_inv s" and "dj_state (ds_record s) \<in> TERMINAL_STATES"
  shows "dj_state (ds_record (fold durable_step evs s)) = dj_state (ds_record s)"
  using durable.run_terminal [OF assms] by blast

text \<open>
  Fencing: a worker holding a fence token older than the record's is never again granted
  write authority, whatever happens afterwards; and a successful takeover makes every token handed
  out before it old.
\<close>

theorem stale_worker_never_authorized:
  assumes "durable_inv s"
  shows "(f < dj_fence_token (ds_record s) \<longrightarrow>
      \<not> fst (accept_result (fold durable_step evs s) worker f evidence)) \<and>
    (fst (take_over_expired_lease s w now) \<longrightarrow>
      dj_fence_token (ds_record s) < dj_fence_token (ds_record (durable_step (TakeOver w now) s)) \<and>
      dj_lease_owner (ds_record (durable_step (TakeOver w now) s)) = Some w)"
  using durable.stale_fence_forever [OF assms, of f evs]
  by (auto simp: accept_result_def Let_def take_over_expired_lease_def)

section \<open>Reservations\<close>

definition reservation_frame :: "ReservationRecord \<Rightarrow> string \<times> string \<times> int" where
  "reservation_frame r = (rs_reservation_id r, rs_attempt_id r, rs_reserved_units r)"

lemma apply_reservation_frame: "apply_reservation c r = Inr r' \<Longrightarrow> reservation_frame r' = reservation_frame r"
  by (auto simp: apply_reservation_def reservation_frame_def ReservationRecord_post_init_def
      split: if_splits option.splits)

lemma map_res_Inr_map:
  "map_res f xs = Inr ys \<Longrightarrow> (\<And>x y. f x = Inr y \<Longrightarrow> g y = h x) \<Longrightarrow> map g ys = map h xs"
  by (induction xs arbitrary: ys) (auto simp: bind_res_eq_Inr)

lemma apply_reservation_kept:
  "rc_reservation_action c \<in> {ReservationAction.NO_CHANGE, ReservationAction.KEEP_HELD} \<Longrightarrow>
     apply_reservation c r = Inr r"
  by (auto simp: apply_reservation_def)

lemma apply_reservation_others:
  "map_res (apply_reservation c) rs = Inr rs' \<Longrightarrow>
     filter (\<lambda>r. rs_attempt_id r \<noteq> rc_attempt_id c) rs' = filter (\<lambda>r. rs_attempt_id r \<noteq> rc_attempt_id c) rs"
proof (induction rs arbitrary: rs')
  case (Cons r rs)
  then obtain r1 rs1 where r: "apply_reservation c r = Inr r1" "map_res (apply_reservation c) rs = Inr rs1"
    "rs' = r1 # rs1"
    by (auto simp: bind_res_eq_Inr)
  have "rs_attempt_id r1 = rs_attempt_id r" using apply_reservation_frame [OF r(1)] by (simp add: reservation_frame_def)
  moreover have "rs_attempt_id r \<noteq> rc_attempt_id c \<Longrightarrow> r1 = r" using r(1) by (simp add: apply_reservation_def)
  ultimately show ?case using Cons.IH [OF r(2)] r(3) by auto
qed simp

lemma apply_reservation_settled:
  assumes "map_res (apply_reservation c) rs = Inr rs'"
    and "rc_reservation_action c = ReservationAction.SETTLE_VERIFIED"
  shows "\<forall>r \<in> set rs'. rs_attempt_id r \<noteq> rc_attempt_id c \<or>
    (\<exists>u. rs_settled_units r = Some u \<and> 0 \<le> u \<and> u + rs_released_units r = rs_reserved_units r)"
  using assms(1)
proof (induction rs arbitrary: rs')
  case (Cons r rs)
  then obtain r1 rs1 where r: "apply_reservation c r = Inr r1" "map_res (apply_reservation c) rs = Inr rs1"
    "rs' = r1 # rs1"
    by (auto simp: bind_res_eq_Inr)
  have "rs_attempt_id r1 \<noteq> rc_attempt_id c \<or>
      (\<exists>u. rs_settled_units r1 = Some u \<and> 0 \<le> u \<and> u + rs_released_units r1 = rs_reserved_units r1)"
    using r(1) assms(2)
    by (auto simp: apply_reservation_def ReservationRecord_post_init_def split: if_splits option.splits)
  with Cons.IH [OF r(2)] r(3) show ?case by simp
qed simp

lemma decided_settle:
  "rc_decision (decide_durable_recovery snap rop req) = DurableRecoveryDecision.SETTLE \<longrightarrow>
   rc_reservation_action (decide_durable_recovery snap rop req) = ReservationAction.SETTLE_VERIFIED"
  unfolding decide_durable_recovery_def Let_def by simp

text \<open>
  Applying a recovery never creates, drops or resizes a reservation, and touches only the
  reservations of the candidate's own Attempt. While the external outcome is unknown all
  reservations stay exactly as they were, so its capacity stays held; a verified settlement splits
  every reservation of the Attempt exactly into settled and released units.
\<close>

theorem recovery_reservations:
  assumes "durable_apply s c = Inr (RecoveryApplyStatus.APPLIED, s')"
    and "c = decide_durable_recovery snap rop req"
  shows "map reservation_frame (dj_reservations (ds_record s')) = map reservation_frame (dj_reservations (ds_record s)) \<and>
    filter (\<lambda>r. rs_attempt_id r \<noteq> rc_attempt_id c) (dj_reservations (ds_record s')) =
      filter (\<lambda>r. rs_attempt_id r \<noteq> rc_attempt_id c) (dj_reservations (ds_record s)) \<and>
    (rq_external_certainty req = ExternalCertainty.OUTCOME_UNKNOWN \<longrightarrow>
       dj_reservations (ds_record s') = dj_reservations (ds_record s)) \<and>
    (rc_decision c = DurableRecoveryDecision.SETTLE \<longrightarrow>
       (\<forall>r \<in> set (dj_reservations (ds_record s')). rs_attempt_id r \<noteq> rc_attempt_id c \<or>
          (\<exists>u. rs_settled_units r = Some u \<and> 0 \<le> u \<and> u + rs_released_units r = rs_reserved_units r)))"
proof (intro conjI impI)
  from durable_applied [OF assms(1)]
  have run: "map_res (apply_reservation c) (dj_reservations (ds_record s)) = Inr (dj_reservations (ds_record s'))"
    by auto
  then show "map reservation_frame (dj_reservations (ds_record s')) = map reservation_frame (dj_reservations (ds_record s))"
    by (rule map_res_Inr_map) (rule apply_reservation_frame)
  show "filter (\<lambda>r. rs_attempt_id r \<noteq> rc_attempt_id c) (dj_reservations (ds_record s')) =
      filter (\<lambda>r. rs_attempt_id r \<noteq> rc_attempt_id c) (dj_reservations (ds_record s))"
    using run apply_reservation_others by blast
  show "dj_reservations (ds_record s') = dj_reservations (ds_record s)"
    if "rq_external_certainty req = ExternalCertainty.OUTCOME_UNKNOWN"
  proof -
    have "rc_reservation_action c \<in> {ReservationAction.NO_CHANGE, ReservationAction.KEEP_HELD}"
      using that unfolding assms(2) decide_durable_recovery_def Let_def by simp
    then have "map_res (apply_reservation c) (dj_reservations (ds_record s)) = Inr (map (\<lambda>r. r) (dj_reservations (ds_record s)))"
      by (intro map_res_ok apply_reservation_kept)
    with run show ?thesis by simp
  qed
  show "\<forall>r \<in> set (dj_reservations (ds_record s')). rs_attempt_id r \<noteq> rc_attempt_id c \<or>
          (\<exists>u. rs_settled_units r = Some u \<and> 0 \<le> u \<and> u + rs_released_units r = rs_reserved_units r)"
    if "rc_decision c = DurableRecoveryDecision.SETTLE"
  proof -
    have "rc_reservation_action c = ReservationAction.SETTLE_VERIFIED"
      using that decided_settle unfolding assms(2) by blast
    with run apply_reservation_settled show ?thesis by blast
  qed
qed

section \<open>The outbox consumer guard\<close>

fun guard_run :: "ConsumerGuard \<Rightarrow> OutboxIntent list \<Rightarrow> (OutboxIntent \<times> DeliveryStatus) list" where
  "guard_run events [] = []"
| "guard_run events (i # is) =
     (i, fst (guard_accept events i)) # guard_run (snd (guard_accept events i)) is"

lemma guard_accept_facts:
  "fst (guard_accept events i) = DeliveryStatus.NEW \<longleftrightarrow> events (oi_event_id i) = None"
  "dom (snd (guard_accept events i)) = insert (oi_event_id i) (dom events)"
  by (auto simp: guard_accept_def Let_def split: option.splits)

definition new_deliveries :: "(OutboxIntent \<times> DeliveryStatus) list \<Rightarrow> string list" where
  "new_deliveries ds = map (oi_event_id \<circ> fst) (filter (\<lambda>d. snd d = DeliveryStatus.NEW) ds)"

lemma guard_run_new:
  "distinct (new_deliveries (guard_run events is)) \<and>
   set (new_deliveries (guard_run events is)) = oi_event_id ` set is - dom events"
proof (induction "is" arbitrary: events)
  case (Cons i "is")
  from Cons.IH [of "snd (guard_accept events i)"] show ?case
    by (auto simp: new_deliveries_def guard_accept_facts)
qed (simp add: new_deliveries_def)

text \<open>
  Under at-least-once delivery the consumer guard admits every event exactly once: for any
  sequence of deliveries, the events answered NEW are exactly the distinct event ids that occur,
  each once.
\<close>

theorem consumer_guard_exactly_once:
  "distinct (new_deliveries (guard_run Map.empty deliveries)) \<and>
   set (new_deliveries (guard_run Map.empty deliveries)) = oi_event_id ` set deliveries"
  using guard_run_new [of Map.empty deliveries] by simp

section \<open>Concrete runs\<close>

definition demo_checkpoint :: "DurableCheckpoint" where
  "demo_checkpoint = \<lparr>dc_tenant_id = ''t'', dc_job_id = ''j'', dc_step_id = ''s'', dc_attempt_id = ''a'',
     dc_checkpoint_id = ''c0'', dc_checkpoint_version = 0, dc_authoritative_state = AgentState.RUNNING,
     dc_state_version = 0, dc_fence_token = 0, dc_lease_generation = 0,
     dc_bindings = \<lparr>eb_controller_release = ''r'', eb_prompt_binding = ''p'', eb_provider_binding = ''m'',
       eb_tool_binding = ''t'', eb_policy_binding = ''q''\<rparr>,
     dc_progress_fingerprint = ''f'', dc_verified_observation_ids = [], dc_reservation_ids = [''x''],
     dc_pending_reconciliation_ids = [], dc_previous_checkpoint_id = None\<rparr>"

definition demo_job :: "DurableAgentJobRecord" where
  "demo_job = \<lparr>dj_tenant_id = ''t'', dj_job_id = ''j'', dj_current_step_id = ''s'', dj_current_attempt_id = ''a'',
     dj_state = AgentState.RUNNING, dj_state_version = 0, dj_fence_token = 0, dj_lease_owner = Some ''w0'',
     dj_lease_expiry_epoch_ms = Some 5, dj_lease_generation = 0, dj_current_checkpoint = demo_checkpoint,
     dj_reservations = [\<lparr>rs_reservation_id = ''x'', rs_attempt_id = ''a'', rs_reserved_units = 5,
       rs_status = ReservationStatus.HELD, rs_settled_units = None, rs_released_units = 0\<rparr>],
     dj_recovery_operations = [], dj_outbox_intents = [], dj_audit_events = []\<rparr>"

definition demo_recovery :: "RecoveryOperation" where
  "demo_recovery = \<lparr>ro_recovery_id = ''r'', ro_source_attempt_id = ''a'', ro_recovery_generation = 0,
     ro_attempts_used = 0, ro_attempt_limit = 3, ro_deadline_epoch_ms = 100, ro_last_evidence_fingerprint = None\<rparr>"

text \<open>A request made on the current record, for a job whose outcome is verified.\<close>

definition demo_recovery_request ::
    "string \<Rightarrow> DurableAgentJobRecord \<Rightarrow> ExternalCertainty \<Rightarrow> bool \<Rightarrow> int option \<Rightarrow> RecoveryRequest" where
  "demo_recovery_request rid r certainty binding_ok usage =
     \<lparr>rq_recovery_id = rid, rq_tenant_id = dj_tenant_id r, rq_job_id = dj_job_id r,
      rq_step_id = dj_current_step_id r, rq_attempt_id = dj_current_attempt_id r,
      rq_checkpoint_id = dc_checkpoint_id (dj_current_checkpoint r), rq_expected_state = dj_state r,
      rq_expected_state_version = dj_state_version r, rq_expected_fence_token = dj_fence_token r,
      rq_now_epoch_ms = 10, rq_external_certainty = certainty, rq_current_authorization = True,
      rq_original_binding_currently_allowed = binding_ok, rq_internal_repair_required = False,
      rq_verified_effect_unwanted = False, rq_verified_usage_units = usage\<rparr>"

lemmas demo_durable_defs = demo_recovery_request_def demo_recovery_def demo_job_def demo_checkpoint_def
  recovery_identity_matches_def recovery_snapshot_matches_def automatic_recovery_available_def
  TERMINAL_STATES_def

lemma durable_apply_succeeds:
  assumes "rc_recovery_id c \<notin> ds_applied_recovery_ids s" and "candidate_current (ds_record s) c"
    and "dj_state (ds_record s) \<notin> TERMINAL_STATES"
    and "rc_decision c \<notin> {DurableRecoveryDecision.REJECT_STALE, DurableRecoveryDecision.TERMINAL_NOOP, DurableRecoveryDecision.BLOCKED}"
    and "map_res (apply_reservation c) (dj_reservations (ds_record s)) = Inr rs"
    and "DurableCheckpoint_post_init (next_checkpoint (ds_record s) c) = Inr cp"
  shows "\<exists>s'. durable_apply s c = Inr (RecoveryApplyStatus.APPLIED, s') \<and> dj_reservations (ds_record s') = rs"
  using assms by (simp add: durable_apply_def Let_def)

lemma demo_checkpoint_ok:
  "DurableCheckpoint_post_init (next_checkpoint (demo_job\<lparr>dj_reservations := rs\<rparr>) c) =
     Inr (next_checkpoint (demo_job\<lparr>dj_reservations := rs\<rparr>) c)"
  by (simp add: DurableCheckpoint_post_init_def next_checkpoint_def Let_def demo_job_def demo_checkpoint_def
      next_checkpoint_id_def truthy_def all_truthy_def)

lemma demo_candidate_current:
  "candidate_current r (recovery_candidate (demo_recovery_request rid r certainty ok usage) d st re ns ra oa ev)"
  by (simp add: candidate_current_def recovery_candidate_def demo_recovery_request_def)

theorem durable_recovery_safe_witness:
  "rc_decision (decide_durable_recovery demo_job demo_recovery
     (demo_recovery_request ''r1'' demo_job ExternalCertainty.DEFINITELY_NOT_DISPATCHED True None)) = DurableRecoveryDecision.RETRY"
  using durable_recovery_safe [of demo_job demo_recovery
      "demo_recovery_request ''r1'' demo_job ExternalCertainty.DEFINITELY_NOT_DISPATCHED True None"]
  by (simp add: Let_def recovery_open_def recovery_identity_matches_def recovery_snapshot_matches_def
      automatic_recovery_available_def demo_recovery_request_def demo_recovery_def demo_job_def demo_checkpoint_def
      TERMINAL_STATES_def)

lemma demo_job_fresh: "fresh_durable_record demo_job"
  by (simp add: fresh_durable_record_def demo_job_def demo_checkpoint_def)

definition demo_events :: "DurableEvent list" where
  "demo_events = [Recover demo_job demo_recovery
     (demo_recovery_request ''r1'' demo_job ExternalCertainty.OUTCOME_UNKNOWN True None), TakeOver ''w1'' 7]"

lemma demo_unknown_candidate:
  "decide_durable_recovery demo_job demo_recovery
     (demo_recovery_request ''r1'' demo_job ExternalCertainty.OUTCOME_UNKNOWN True None) =
   recovery_candidate (demo_recovery_request ''r1'' demo_job ExternalCertainty.OUTCOME_UNKNOWN True None)
     DurableRecoveryDecision.RECONCILE ''EXTERNAL_OUTCOME_UNKNOWN''
     ''query and classify the original operation identity'' AgentState.PENDING_RECONCILIATION
     ReservationAction.KEEP_HELD OutboxAction.CREATE_RECOVERY_INTENT
     [''original_attempt_identity_preserved'', ''unknown_usage_is_not_zero'']"
  by (simp add: decide_durable_recovery_def Let_def demo_durable_defs)

lemma demo_apply_unknown:
  "\<exists>s. durable_apply (DurableJobStore_init demo_job) (decide_durable_recovery demo_job demo_recovery
     (demo_recovery_request ''r1'' demo_job ExternalCertainty.OUTCOME_UNKNOWN True None)) = Inr (RecoveryApplyStatus.APPLIED, s)"
proof -
  let ?c = "decide_durable_recovery demo_job demo_recovery
     (demo_recovery_request ''r1'' demo_job ExternalCertainty.OUTCOME_UNKNOWN True None)"
  have "map_res (apply_reservation ?c) (dj_reservations demo_job) = Inr (map (\<lambda>r. r) (dj_reservations demo_job))"
    by (intro map_res_ok apply_reservation_kept) (simp add: demo_unknown_candidate)
  moreover have "DurableCheckpoint_post_init (next_checkpoint demo_job ?c) = Inr (next_checkpoint demo_job ?c)"
    using demo_checkpoint_ok [of "dj_reservations demo_job" ?c] by simp
  moreover have "candidate_current demo_job ?c"
    unfolding demo_unknown_candidate by (rule demo_candidate_current)
  moreover have "dj_state demo_job \<notin> TERMINAL_STATES" by (simp add: demo_job_def TERMINAL_STATES_def)
  ultimately show ?thesis
    using durable_apply_succeeds [of ?c "DurableJobStore_init demo_job"]
    by (auto simp: demo_unknown_candidate DurableJobStore_init_def simp del: map_res.simps)
qed

theorem durable_store_consistent_witness:
  "let s = fold durable_step demo_events (DurableJobStore_init demo_job) in
     dc_authoritative_state (dj_current_checkpoint (ds_record s)) = dj_state (ds_record s)"
  using durable_store_consistent [OF demo_job_fresh refl, of demo_events] by (simp add: Let_def)

theorem terminal_job_never_reopened_witness:
  "let r = demo_job\<lparr>dj_state := AgentState.COMPLETED,
       dj_current_checkpoint := demo_checkpoint\<lparr>dc_authoritative_state := AgentState.COMPLETED\<rparr>\<rparr> in
     dj_state (ds_record (fold durable_step demo_events (DurableJobStore_init r))) = AgentState.COMPLETED"
proof -
  let ?r = "demo_job\<lparr>dj_state := AgentState.COMPLETED,
       dj_current_checkpoint := demo_checkpoint\<lparr>dc_authoritative_state := AgentState.COMPLETED\<rparr>\<rparr>"
  have "durable_inv (DurableJobStore_init ?r)"
    by (rule fresh_durable_inv) (simp add: fresh_durable_record_def demo_job_def demo_checkpoint_def)
  moreover have "dj_state (ds_record (DurableJobStore_init ?r)) \<in> TERMINAL_STATES"
    by (simp add: DurableJobStore_init_def TERMINAL_STATES_def)
  ultimately show ?thesis
    using terminal_job_never_reopened [of "DurableJobStore_init ?r" demo_events]
    by (simp add: DurableJobStore_init_def)
qed

theorem stale_worker_never_authorized_witness:
  "fst (take_over_expired_lease (DurableJobStore_init demo_job) ''w1'' 7) \<and>
   dj_lease_owner (ds_record (durable_step (TakeOver ''w1'' 7) (DurableJobStore_init demo_job))) = Some ''w1''"
proof -
  have "fst (take_over_expired_lease (DurableJobStore_init demo_job) ''w1'' 7)"
    by (simp add: take_over_expired_lease_def Let_def DurableJobStore_init_def demo_job_def TERMINAL_STATES_def)
  with stale_worker_never_authorized [OF fresh_durable_inv [OF demo_job_fresh], of _ _ _ _ "''w1''" 7]
  show ?thesis by blast
qed

theorem recovery_reservations_witness:
  "\<exists>s'. durable_apply (DurableJobStore_init demo_job) (decide_durable_recovery demo_job demo_recovery
       (demo_recovery_request ''r1'' demo_job ExternalCertainty.OUTCOME_UNKNOWN True None)) = Inr (RecoveryApplyStatus.APPLIED, s') \<and>
     dj_reservations (ds_record s') = dj_reservations demo_job"
proof -
  obtain s' where s': "durable_apply (DurableJobStore_init demo_job) (decide_durable_recovery demo_job demo_recovery
       (demo_recovery_request ''r1'' demo_job ExternalCertainty.OUTCOME_UNKNOWN True None)) = Inr (RecoveryApplyStatus.APPLIED, s')"
    using demo_apply_unknown by blast
  from recovery_reservations [OF s' refl] s' show ?thesis
    by (simp add: DurableJobStore_init_def demo_recovery_request_def)
qed

text \<open>
  The exact split is not kept by later recoveries: a recovery of the same Attempt that releases
  (a replan after the binding was withdrawn) overwrites a settled reservation, so that units
  already consumed are released as well.
\<close>

definition demo_settled :: "ReservationRecord" where
  "demo_settled = \<lparr>rs_reservation_id = ''x'', rs_attempt_id = ''a'', rs_reserved_units = 5,
     rs_status = ReservationStatus.SETTLED, rs_settled_units = Some 3, rs_released_units = 2\<rparr>"

lemma release_after_settle:
  "let r = demo_job\<lparr>dj_reservations := [demo_settled]\<rparr>;
       c = decide_durable_recovery r demo_recovery (demo_recovery_request ''r2'' r ExternalCertainty.VERIFIED_TERMINAL False None)
   in \<exists>s'. durable_apply (DurableJobStore_init r) c = Inr (RecoveryApplyStatus.APPLIED, s') \<and>
        dj_reservations (ds_record s') = [demo_settled\<lparr>rs_status := ReservationStatus.RELEASED, rs_released_units := 5\<rparr>]"
proof -
  let ?r = "demo_job\<lparr>dj_reservations := [demo_settled]\<rparr>"
  let ?q = "demo_recovery_request ''r2'' ?r ExternalCertainty.VERIFIED_TERMINAL False None"
  let ?c = "decide_durable_recovery ?r demo_recovery ?q"
  have c: "?c = recovery_candidate ?q DurableRecoveryDecision.REPLAN ''CURRENT_BINDING_REPLAN_REQUIRED''
      ''old binding is no longer valid for new execution'' AgentState.WAITING
      ReservationAction.RELEASE OutboxAction.CREATE_RECOVERY_INTENT [''old_binding_not_rewritten'']"
    by (simp add: decide_durable_recovery_def Let_def demo_durable_defs)
  have ra: "rc_reservation_action ?c = ReservationAction.RELEASE" "rc_decision ?c = DurableRecoveryDecision.REPLAN"
    by (simp_all add: c)
  have att: "rc_attempt_id ?c = ''a''" unfolding c by (simp add: demo_recovery_request_def demo_job_def)
  have "map_res (apply_reservation ?c) [demo_settled] =
      Inr [demo_settled\<lparr>rs_status := ReservationStatus.RELEASED, rs_released_units := 5\<rparr>]"
    by (simp add: apply_reservation_def att ra) (simp add: ReservationRecord_post_init_def demo_settled_def truthy_def)
  moreover have "DurableCheckpoint_post_init (next_checkpoint ?r ?c) = Inr (next_checkpoint ?r ?c)"
    by (rule demo_checkpoint_ok)
  moreover have "candidate_current ?r ?c" unfolding c by (rule demo_candidate_current)
  moreover have "dj_state ?r \<notin> TERMINAL_STATES" by (simp add: demo_job_def TERMINAL_STATES_def)
  ultimately show ?thesis
    using durable_apply_succeeds [of ?c "DurableJobStore_init ?r"]
    by (simp add: Let_def DurableJobStore_init_def ra del: map_res.simps)
qed

end
