(* ===== verification/Human_Control.thy ===== *)
theory Human_Control
  imports Durable_Agent_Jobs Json
begin

text \<open>
  \<^verbatim>\<open>src/projects/ai-agent/src/human_control.py\<close>, lines 1 to 533: approvals, interrupts and recoveries
  decided for one Agent job under human control. \<open>decide_human_control\<close> is a pure function from the
  current snapshot, a command and the trusted current facts to a candidate. The store that applies
  candidates and claims the dispatch is in the theory Human_Control_Store.

  Python's defensive \<open>isinstance\<close> tests on enums, booleans and integers always pass here, because
  the fields have those types.
\<close>

section \<open>Enumerations\<close>

datatype ApprovalStatus =
  NOT_REQUIRED | PENDING | APPROVED | REJECTED | EXPIRED | REVOKED | SUPERSEDED | CANCELLED | CONFLICT

fun ApprovalStatus_value :: "ApprovalStatus \<Rightarrow> string" where
  "ApprovalStatus_value ApprovalStatus.NOT_REQUIRED = ''NOT_REQUIRED''"
| "ApprovalStatus_value ApprovalStatus.PENDING = ''PENDING''"
| "ApprovalStatus_value ApprovalStatus.APPROVED = ''APPROVED''"
| "ApprovalStatus_value ApprovalStatus.REJECTED = ''REJECTED''"
| "ApprovalStatus_value ApprovalStatus.EXPIRED = ''EXPIRED''"
| "ApprovalStatus_value ApprovalStatus.REVOKED = ''REVOKED''"
| "ApprovalStatus_value ApprovalStatus.SUPERSEDED = ''SUPERSEDED''"
| "ApprovalStatus_value ApprovalStatus.CANCELLED = ''CANCELLED''"
| "ApprovalStatus_value ApprovalStatus.CONFLICT = ''CONFLICT''"

datatype Risk = LOW | HIGH

fun Risk_value :: "Risk \<Rightarrow> string" where
  "Risk_value Risk.LOW = ''LOW''"
| "Risk_value Risk.HIGH = ''HIGH''"

datatype Operation = DECISION | GATE | INTERRUPT | OBSERVE_CANCEL | RECOVER | LATE_RESULT | INVALIDATE

fun ReservationStatus_value :: "ReservationStatus \<Rightarrow> string" where
  "ReservationStatus_value ReservationStatus.HELD = ''HELD''"
| "ReservationStatus_value ReservationStatus.SETTLED = ''SETTLED''"
| "ReservationStatus_value ReservationStatus.RELEASED = ''RELEASED''"

section \<open>Fingerprints\<close>

text \<open>
  \<open>json.dumps(..., sort_keys=True)\<close> orders the members of every object by key; \<open>asdict\<close> yields them
  in declaration order. A \<open>str\<close> enum is encoded as its value, a tuple as an array.
\<close>

definition json_object :: "(string \<times> json) list \<Rightarrow> json" where
  "json_object members = JObj (sort_key fst members)"

definition json_option :: "('a \<Rightarrow> json) \<Rightarrow> 'a option \<Rightarrow> json" where
  "json_option f v = (case v of None \<Rightarrow> JNull | Some x \<Rightarrow> f x)"

definition json_strs :: "string list \<Rightarrow> json" where
  "json_strs ss = JList (map JStr ss)"

definition fingerprint :: "json \<Rightarrow> string" where
  "fingerprint value = sha256_hexdigest (json_dumps value)"

definition truthy_opt :: "string option \<Rightarrow> bool" where
  [py_defs]: "truthy_opt v \<longleftrightarrow> (case v of None \<Rightarrow> False | Some s \<Rightarrow> truthy s)"

section \<open>Records\<close>

record Principal =
  pn_tenant_id :: string
  pn_actor_id :: string
  pn_role :: string
  pn_authenticated :: bool
  pn_permissions :: "string list"

record ActionBinding =
  ab_tenant_id :: string
  ab_job_id :: string
  ab_step_id :: string
  ab_attempt_id :: string
  ab_operation_id :: string
  ab_action_type :: string
  ab_tool_name :: string
  ab_tool_version :: string
  ab_arguments_fingerprint :: string
  ab_artifact_id :: string
  ab_artifact_version :: string
  ab_requester_id :: string
  ab_policy_id :: string
  ab_policy_version :: string
  ab_risk :: Risk
  ab_execution_binding_fingerprint :: string

definition action_strings :: "ActionBinding \<Rightarrow> (string \<times> string) list" where
  "action_strings a =
     [(''tenant_id'', ab_tenant_id a), (''job_id'', ab_job_id a), (''step_id'', ab_step_id a),
      (''attempt_id'', ab_attempt_id a), (''operation_id'', ab_operation_id a),
      (''action_type'', ab_action_type a), (''tool_name'', ab_tool_name a),
      (''tool_version'', ab_tool_version a), (''arguments_fingerprint'', ab_arguments_fingerprint a),
      (''artifact_id'', ab_artifact_id a), (''artifact_version'', ab_artifact_version a),
      (''requester_id'', ab_requester_id a), (''policy_id'', ab_policy_id a),
      (''policy_version'', ab_policy_version a), (''risk'', Risk_value (ab_risk a)),
      (''execution_binding_fingerprint'', ab_execution_binding_fingerprint a)]"

definition json_action :: "ActionBinding \<Rightarrow> json" where
  "json_action a = json_object (map (\<lambda>(k, v). (k, JStr v)) (action_strings a))"

definition action_digest :: "ActionBinding \<Rightarrow> string" where
  "action_digest a = fingerprint (json_action a)"

record ApprovalRequest =
  aq_request_id :: string
  aq_binding :: ActionBinding
  aq_requested_at :: int
  aq_respond_by :: int
  aq_expires_at :: int
  aq_eligible_roles :: "string list"
  aq_separation_required :: bool
  aq_issued_state_version :: int
  aq_issued_fence :: int
  aq_supersedes :: "string option"

definition json_request :: "ApprovalRequest \<Rightarrow> json" where
  "json_request q = json_object
     [(''request_id'', JStr (aq_request_id q)), (''binding'', json_action (aq_binding q)),
      (''requested_at'', JInt (aq_requested_at q)), (''respond_by'', JInt (aq_respond_by q)),
      (''expires_at'', JInt (aq_expires_at q)), (''eligible_roles'', json_strs (aq_eligible_roles q)),
      (''separation_required'', JBool (aq_separation_required q)),
      (''issued_state_version'', JInt (aq_issued_state_version q)),
      (''issued_fence'', JInt (aq_issued_fence q)), (''supersedes'', json_option JStr (aq_supersedes q))]"

record ApprovalDecision =
  de_decision_id :: string
  de_request_id :: string
  de_binding_fingerprint :: string
  de_actor_id :: string
  de_tenant_id :: string
  de_choice :: ApprovalStatus
  de_decided_at :: int
  de_reason_code :: string

definition json_decision :: "ApprovalDecision \<Rightarrow> json" where
  "json_decision d = json_object
     [(''decision_id'', JStr (de_decision_id d)), (''request_id'', JStr (de_request_id d)),
      (''binding_fingerprint'', JStr (de_binding_fingerprint d)), (''actor_id'', JStr (de_actor_id d)),
      (''tenant_id'', JStr (de_tenant_id d)), (''choice'', JStr (ApprovalStatus_value (de_choice d))),
      (''decided_at'', JInt (de_decided_at d)), (''reason_code'', JStr (de_reason_code d))]"

definition decision_digest :: "ApprovalDecision \<Rightarrow> string" where
  "decision_digest d = fingerprint (json_decision d)"

record CurrentFacts =
  fx_executor :: Principal
  fx_approver :: Principal
  fx_policy_available :: bool
  fx_policy_id :: string
  fx_policy_version :: string
  fx_policy_quarantined :: bool
  fx_approval_required :: bool
  fx_governance :: InvocationGovernanceStatus
  fx_admission_allowed :: bool
  fx_business_valid :: bool
  fx_budget_allowed :: bool
  fx_certainty :: ExternalCertainty
  fx_recovery :: RecoveryOperation
  fx_policy_wait_deadline :: int
  fx_owner :: Principal
  fx_fallback_owner :: Principal
  fx_owner_available :: bool
  fx_escalation_deadline :: int
  fx_verified_usage :: "int option"
  fx_outcome_evidence_id :: "string option"

record Command =
  cm_command_id :: string
  cm_operation :: Operation
  cm_actor :: Principal
  cm_expected_state :: AgentState
  cm_expected_state_version :: int
  cm_expected_fence :: int
  cm_decision :: "ApprovalDecision option"
  cm_invalidate_to :: "ApprovalStatus option"
  cm_evidence_id :: "string option"
  cm_source_attempt_id :: "string option"
  cm_source_operation_id :: "string option"
  cm_source_fence :: "int option"

record Escalation =
  es_escalation_id :: string
  es_tenant_id :: string
  es_attempt_id :: string
  es_operation_id :: string
  es_owner_id :: "string option"
  es_reason :: string
  es_priority :: string
  es_deadline :: int
  es_alert_status :: string
  es_evidence :: "string list"

record Snapshot =
  sn_job :: DurableAgentJobRecord
  sn_action :: ActionBinding
  sn_request :: ApprovalRequest
  sn_approval :: ApprovalStatus
  sn_decisions :: "ApprovalDecision list"
  sn_decision_evidence :: "ApprovalDecision list"
  sn_interrupt_id :: "string option"
  sn_cancellation_observed_by :: "string list"
  sn_dispatch_started :: bool
  sn_claimed_events :: "string list"
  sn_escalations :: "Escalation list"
  sn_checkpoint_history :: "DurableCheckpoint list"

section \<open>The digest of a snapshot\<close>

definition json_bindings :: "ExecutionBindings \<Rightarrow> json" where
  "json_bindings b = json_object
     [(''controller_release'', JStr (eb_controller_release b)), (''prompt_binding'', JStr (eb_prompt_binding b)),
      (''provider_binding'', JStr (eb_provider_binding b)), (''tool_binding'', JStr (eb_tool_binding b)),
      (''policy_binding'', JStr (eb_policy_binding b))]"

definition json_checkpoint :: "DurableCheckpoint \<Rightarrow> json" where
  "json_checkpoint c = json_object
     [(''tenant_id'', JStr (dc_tenant_id c)), (''job_id'', JStr (dc_job_id c)), (''step_id'', JStr (dc_step_id c)),
      (''attempt_id'', JStr (dc_attempt_id c)), (''checkpoint_id'', JStr (dc_checkpoint_id c)),
      (''checkpoint_version'', JInt (dc_checkpoint_version c)),
      (''authoritative_state'', JStr (AgentState_value (dc_authoritative_state c))),
      (''state_version'', JInt (dc_state_version c)), (''fence_token'', JInt (dc_fence_token c)),
      (''lease_generation'', JInt (dc_lease_generation c)), (''bindings'', json_bindings (dc_bindings c)),
      (''progress_fingerprint'', JStr (dc_progress_fingerprint c)),
      (''verified_observation_ids'', json_strs (dc_verified_observation_ids c)),
      (''reservation_ids'', json_strs (dc_reservation_ids c)),
      (''pending_reconciliation_ids'', json_strs (dc_pending_reconciliation_ids c)),
      (''previous_checkpoint_id'', json_option JStr (dc_previous_checkpoint_id c))]"

definition json_reservation :: "ReservationRecord \<Rightarrow> json" where
  "json_reservation r = json_object
     [(''reservation_id'', JStr (rs_reservation_id r)), (''attempt_id'', JStr (rs_attempt_id r)),
      (''reserved_units'', JInt (rs_reserved_units r)), (''status'', JStr (ReservationStatus_value (rs_status r))),
      (''settled_units'', json_option JInt (rs_settled_units r)), (''released_units'', JInt (rs_released_units r))]"

definition json_recovery_operation :: "RecoveryOperation \<Rightarrow> json" where
  "json_recovery_operation r = json_object
     [(''recovery_id'', JStr (ro_recovery_id r)), (''source_attempt_id'', JStr (ro_source_attempt_id r)),
      (''recovery_generation'', JInt (ro_recovery_generation r)), (''attempts_used'', JInt (ro_attempts_used r)),
      (''attempt_limit'', JInt (ro_attempt_limit r)), (''deadline_epoch_ms'', JInt (ro_deadline_epoch_ms r)),
      (''last_evidence_fingerprint'', json_option JStr (ro_last_evidence_fingerprint r))]"

definition json_outbox_intent :: "OutboxIntent \<Rightarrow> json" where
  "json_outbox_intent e = json_object
     [(''event_id'', JStr (oi_event_id e)), (''job_id'', JStr (oi_job_id e)), (''step_id'', JStr (oi_step_id e)),
      (''attempt_id'', JStr (oi_attempt_id e)), (''event_type'', JStr (oi_event_type e)),
      (''published_at_epoch_ms'', json_option JInt (oi_published_at_epoch_ms e))]"

definition json_job :: "DurableAgentJobRecord \<Rightarrow> json" where
  "json_job j = json_object
     [(''tenant_id'', JStr (dj_tenant_id j)), (''job_id'', JStr (dj_job_id j)),
      (''current_step_id'', JStr (dj_current_step_id j)), (''current_attempt_id'', JStr (dj_current_attempt_id j)),
      (''state'', JStr (AgentState_value (dj_state j))), (''state_version'', JInt (dj_state_version j)),
      (''fence_token'', JInt (dj_fence_token j)), (''lease_owner'', json_option JStr (dj_lease_owner j)),
      (''lease_expiry_epoch_ms'', json_option JInt (dj_lease_expiry_epoch_ms j)),
      (''lease_generation'', JInt (dj_lease_generation j)),
      (''current_checkpoint'', json_checkpoint (dj_current_checkpoint j)),
      (''reservations'', JList (map json_reservation (dj_reservations j))),
      (''recovery_operations'', JList (map json_recovery_operation (dj_recovery_operations j))),
      (''outbox_intents'', JList (map json_outbox_intent (dj_outbox_intents j))),
      (''audit_events'', json_strs (dj_audit_events j))]"

definition json_escalation :: "Escalation \<Rightarrow> json" where
  "json_escalation e = json_object
     [(''escalation_id'', JStr (es_escalation_id e)), (''tenant_id'', JStr (es_tenant_id e)),
      (''attempt_id'', JStr (es_attempt_id e)), (''operation_id'', JStr (es_operation_id e)),
      (''owner_id'', json_option JStr (es_owner_id e)), (''reason'', JStr (es_reason e)),
      (''priority'', JStr (es_priority e)), (''deadline'', JInt (es_deadline e)),
      (''alert_status'', JStr (es_alert_status e)), (''evidence'', json_strs (es_evidence e))]"

definition json_snapshot :: "Snapshot \<Rightarrow> json" where
  "json_snapshot s = json_object
     [(''job'', json_job (sn_job s)), (''action'', json_action (sn_action s)),
      (''request'', json_request (sn_request s)), (''approval'', JStr (ApprovalStatus_value (sn_approval s))),
      (''decisions'', JList (map json_decision (sn_decisions s))),
      (''decision_evidence'', JList (map json_decision (sn_decision_evidence s))),
      (''interrupt_id'', json_option JStr (sn_interrupt_id s)),
      (''cancellation_observed_by'', json_strs (sn_cancellation_observed_by s)),
      (''dispatch_started'', JBool (sn_dispatch_started s)),
      (''claimed_events'', json_strs (sn_claimed_events s)),
      (''escalations'', JList (map json_escalation (sn_escalations s))),
      (''checkpoint_history'', JList (map json_checkpoint (sn_checkpoint_history s)))]"

definition snapshot_digest :: "Snapshot \<Rightarrow> string" where
  "snapshot_digest s = fingerprint (json_snapshot s)"

section \<open>Candidates\<close>

record HumanControlCandidate =
  hx_phase :: string
  hx_snapshot_fingerprint :: string
  hx_command :: Command
  hx_status :: string
  hx_next_state :: AgentState
  hx_approval_status :: ApprovalStatus
  hx_execution_allowed :: bool
  hx_reservation_action :: ReservationAction
  hx_outbox_action :: string
  hx_follow_up :: string
  hx_authorization_result :: bool
  hx_separation_result :: bool
  hx_evidence :: "string list"
  hx_escalation :: "Escalation option"
  hx_recovery_candidate :: "DurableRecoveryCandidate option"

definition permitted :: "Principal \<Rightarrow> string \<Rightarrow> string \<Rightarrow> bool" where
  "permitted p tenant permission \<longleftrightarrow>
     pn_authenticated p \<and> pn_tenant_id p = tenant \<and> permission \<in> set (pn_permissions p)"

definition control_authz :: "Snapshot \<Rightarrow> CurrentFacts \<Rightarrow> bool" where
  "control_authz s facts \<longleftrightarrow>
     permitted (fx_executor facts) (ab_tenant_id (sn_action s)) (ab_action_type (sn_action s)) \<and>
     pn_actor_id (fx_executor facts) = ab_requester_id (sn_action s)"

definition control_sod :: "Snapshot \<Rightarrow> CurrentFacts \<Rightarrow> bool" where
  "control_sod s facts \<longleftrightarrow>
     \<not> aq_separation_required (sn_request s) \<or>
     pn_actor_id (fx_approver facts) \<noteq> ab_requester_id (sn_action s)"

text \<open>
  The closure \<open>result\<close> with every keyword argument at its default; the keyword arguments of a call
  are updates of the candidate it returns.
\<close>

definition human_result :: "Snapshot \<Rightarrow> Command \<Rightarrow> CurrentFacts \<Rightarrow> string \<Rightarrow> HumanControlCandidate" where
  "human_result s command facts status =
     \<lparr>hx_phase = ''HUMAN_CONTROL'', hx_snapshot_fingerprint = snapshot_digest s, hx_command = command,
      hx_status = status, hx_next_state = dj_state (sn_job s), hx_approval_status = sn_approval s,
      hx_execution_allowed = False, hx_reservation_action = ReservationAction.NO_CHANGE,
      hx_outbox_action = ''NONE'', hx_follow_up = ''NONE'',
      hx_authorization_result = control_authz s facts, hx_separation_result = control_sod s facts,
      hx_evidence = [], hx_escalation = None, hx_recovery_candidate = None\<rparr>"

text \<open>
  The closure \<open>escalate\<close>. No call passes \<open>reservation\<close>, so the reservation is kept held exactly
  when the outcome is unknown.
\<close>

definition human_escalate ::
    "Snapshot \<Rightarrow> Command \<Rightarrow> CurrentFacts \<Rightarrow> int \<Rightarrow> string \<Rightarrow> AgentState option \<Rightarrow> ApprovalStatus option
      \<Rightarrow> DurableRecoveryCandidate option \<Rightarrow> string list \<Rightarrow> HumanControlCandidate" where
  "human_escalate s command facts now reason state approval recovery evidence =
     (let action = sn_action s;
          owner = (if fx_owner_available facts then fx_owner facts else fx_fallback_owner facts);
          owner_ok = permitted owner (ab_tenant_id action) ''operate'';
          extra = (if fx_owner_available facts then [] else [''OWNER_UNAVAILABLE'']);
          unknown = (fx_certainty facts = ExternalCertainty.OUTCOME_UNKNOWN)
      in if fx_escalation_deadline facts \<le> now
         then human_result s command facts ''INVALID_ESCALATION_DEADLINE''
         else (human_result s command facts (''ESCALATE_'' @ reason))
           \<lparr>hx_next_state := (case state of None \<Rightarrow> dj_state (sn_job s) | Some st \<Rightarrow> st),
            hx_approval_status := (case approval of None \<Rightarrow> sn_approval s | Some a \<Rightarrow> a),
            hx_reservation_action := (if unknown then ReservationAction.KEEP_HELD else ReservationAction.NO_CHANGE),
            hx_outbox_action := ''ESCALATION_ALERT'', hx_follow_up := ''OPERATOR_REVIEW'',
            hx_evidence := evidence @ extra,
            hx_escalation := Some
              \<lparr>es_escalation_id = ''escalation:'' @ cm_command_id command, es_tenant_id = ab_tenant_id action,
               es_attempt_id = ab_attempt_id action, es_operation_id = ab_operation_id action,
               es_owner_id = (if owner_ok then Some (pn_actor_id owner) else None), es_reason = reason,
               es_priority = ''HIGH'', es_deadline = fx_escalation_deadline facts,
               es_alert_status = (if owner_ok then ''PENDING'' else ''UNROUTABLE''),
               es_evidence = evidence @ extra\<rparr>,
            hx_recovery_candidate := recovery\<rparr>)"

section \<open>The guards every command passes\<close>

definition facts_valid :: "Snapshot \<Rightarrow> Command \<Rightarrow> int \<Rightarrow> bool" where
  "facts_valid s command now \<longleftrightarrow>
     truthy (cm_command_id command) \<and> 0 \<le> now \<and> truthy (aq_request_id (sn_request s)) \<and>
     0 \<le> aq_requested_at (sn_request s) \<and> aq_requested_at (sn_request s) \<le> aq_respond_by (sn_request s) \<and>
     aq_respond_by (sn_request s) \<le> aq_expires_at (sn_request s) \<and>
     all_truthy (map snd (action_strings (sn_action s)))"

definition binding_matches :: "Snapshot \<Rightarrow> bool" where
  "binding_matches s \<longleftrightarrow>
     (dj_tenant_id (sn_job s), dj_job_id (sn_job s), dj_current_step_id (sn_job s), dj_current_attempt_id (sn_job s)) =
     (ab_tenant_id (sn_action s), ab_job_id (sn_action s), ab_step_id (sn_action s), ab_attempt_id (sn_action s)) \<and>
     ab_execution_binding_fingerprint (sn_action s) =
       fingerprint (json_bindings (dc_bindings (dj_current_checkpoint (sn_job s))))"

definition human_command_current :: "Snapshot \<Rightarrow> Command \<Rightarrow> bool" where
  "human_command_current s command \<longleftrightarrow>
     (cm_expected_state command, cm_expected_state_version command, cm_expected_fence command) =
     (dj_state (sn_job s), dj_state_version (sn_job s), dj_fence_token (sn_job s))"

section \<open>One function per operation\<close>

definition decide_late_result :: "Snapshot \<Rightarrow> Command \<Rightarrow> CurrentFacts \<Rightarrow> HumanControlCandidate" where
  "decide_late_result s command facts =
     (if \<not> truthy_opt (cm_evidence_id command)
         \<or> cm_source_attempt_id command \<noteq> Some (ab_attempt_id (sn_action s))
         \<or> cm_source_operation_id command \<noteq> Some (ab_operation_id (sn_action s))
      then human_result s command facts ''RESULT_IDENTITY_MISMATCH''
      else
        let stale = (cm_source_fence command \<noteq> Some (dj_fence_token (sn_job s))
                     \<or> Some (pn_actor_id (cm_actor command)) \<noteq> dj_lease_owner (sn_job s)
                     \<or> dj_state (sn_job s) \<in> TERMINAL_STATES)
        in (human_result s command facts (if stale then ''STALE_RESULT_EVIDENCE'' else ''RESULT_EVIDENCE''))
             \<lparr>hx_evidence := ''original_identity_evidence'' # (case cm_evidence_id command of None \<Rightarrow> [] | Some e \<Rightarrow> [e]),
              hx_follow_up := ''VERIFY_ORIGINAL_RESULT''\<rparr>)"

text \<open>The identity checks of a decision; \<^const>\<open>None\<close> lets the command go on.\<close>

definition decision_identity ::
    "Snapshot \<Rightarrow> Command \<Rightarrow> CurrentFacts \<Rightarrow> int \<Rightarrow> HumanControlCandidate option" where
  "decision_identity s command facts now =
     (case cm_decision command of
        None \<Rightarrow> Some (human_result s command facts ''INVALID_DECISION'')
      | Some decision \<Rightarrow>
          if \<not> truthy (de_decision_id decision)
            \<or> de_choice decision \<notin> {ApprovalStatus.APPROVED, ApprovalStatus.REJECTED}
          then Some (human_result s command facts ''INVALID_DECISION'')
          else if \<not> permitted (cm_actor command) (ab_tenant_id (sn_action s)) ''approve''
            \<or> pn_actor_id (cm_actor command) \<noteq> de_actor_id decision
            \<or> pn_tenant_id (cm_actor command) \<noteq> de_tenant_id decision
            \<or> cm_actor command \<noteq> fx_approver facts
          then Some (human_result s command facts ''APPROVER_NOT_AUTHORIZED'')
          else case List.find (\<lambda>d. de_decision_id d = de_decision_id decision) (sn_decisions s) of
            None \<Rightarrow> None
          | Some previous \<Rightarrow>
              if previous = decision
              then Some ((human_result s command facts ''DUPLICATE_DECISION'')
                     \<lparr>hx_evidence := [''duplicate_no_business_effect'']\<rparr>)
              else Some (human_escalate s command facts now ''DECISION_IDENTITY_CONFLICT'' None
                     (Some ApprovalStatus.CONFLICT) None [decision_digest previous, decision_digest decision]))"

text \<open>\<open>prior_recoveries[-1] if prior_recoveries else facts.recovery\<close>.\<close>

definition control_recovery :: "Snapshot \<Rightarrow> CurrentFacts \<Rightarrow> RecoveryOperation" where
  "control_recovery s facts =
     (let prior = filter (\<lambda>r. ro_source_attempt_id r = ab_attempt_id (sn_action s)) (dj_recovery_operations (sn_job s))
      in if prior \<noteq> [] then last prior else fx_recovery facts)"

definition control_recovery_request :: "Snapshot \<Rightarrow> Command \<Rightarrow> CurrentFacts \<Rightarrow> int \<Rightarrow> RecoveryRequest" where
  "control_recovery_request s command facts now =
     \<lparr>rq_recovery_id = cm_command_id command, rq_tenant_id = ab_tenant_id (sn_action s),
      rq_job_id = ab_job_id (sn_action s), rq_step_id = ab_step_id (sn_action s),
      rq_attempt_id = ab_attempt_id (sn_action s),
      rq_checkpoint_id = dc_checkpoint_id (dj_current_checkpoint (sn_job s)),
      rq_expected_state = dj_state (sn_job s), rq_expected_state_version = dj_state_version (sn_job s),
      rq_expected_fence_token = dj_fence_token (sn_job s), rq_now_epoch_ms = now,
      rq_external_certainty = fx_certainty facts, rq_current_authorization = control_authz s facts,
      rq_original_binding_currently_allowed = (\<not> fx_policy_quarantined facts),
      rq_internal_repair_required = False, rq_verified_effect_unwanted = False,
      rq_verified_usage_units = fx_verified_usage facts\<rparr>"

text \<open>
  The tests on a verified usage: an early return, or the recovery operation to decide with (a
  one-step settlement operation when a usage is verified, the given one otherwise).
\<close>

definition settlement_recovery ::
    "Snapshot \<Rightarrow> Command \<Rightarrow> CurrentFacts \<Rightarrow> int \<Rightarrow> RecoveryOperation \<Rightarrow> HumanControlCandidate + RecoveryOperation" where
  "settlement_recovery s command facts now recovery =
     (case fx_verified_usage facts of
        None \<Rightarrow> Inr recovery
      | Some usage \<Rightarrow>
          if fx_certainty facts \<noteq> ExternalCertainty.VERIFIED_TERMINAL \<or> \<not> truthy_opt (fx_outcome_evidence_id facts)
          then Inl (human_result s command facts ''USAGE_EVIDENCE_REQUIRED'')
          else
            let reservations = filter (\<lambda>r. rs_attempt_id r = ab_attempt_id (sn_action s)) (dj_reservations (sn_job s))
            in if length reservations \<noteq> 1 \<or> \<not> (0 \<le> usage \<and> usage \<le> rs_reserved_units (hd reservations))
               then Inl (human_result s command facts ''INVALID_VERIFIED_USAGE'')
               else let reservation = hd reservations in
                 if rs_status reservation = ReservationStatus.SETTLED
                 then Inl (if rs_settled_units reservation = Some usage
                           then human_result s command facts ''SETTLEMENT_ALREADY_RECORDED''
                           else human_escalate s command facts now ''SETTLEMENT_CONFLICT'' None None None
                                  [''settled_usage_not_rewritten''])
                 else if rs_status reservation \<noteq> ReservationStatus.HELD
                 then Inl (human_escalate s command facts now ''SETTLEMENT_RESERVATION_CONFLICT'' None None None [])
                 else Inr \<lparr>ro_recovery_id = ''settlement:'' @ cm_command_id command,
                           ro_source_attempt_id = ab_attempt_id (sn_action s),
                           ro_recovery_generation = ro_recovery_generation recovery,
                           ro_attempts_used = 0, ro_attempt_limit = 1, ro_deadline_epoch_ms = now + 1,
                           ro_last_evidence_fingerprint = fx_outcome_evidence_id facts\<rparr>)"

definition decide_recover :: "Snapshot \<Rightarrow> Command \<Rightarrow> CurrentFacts \<Rightarrow> int \<Rightarrow> HumanControlCandidate" where
  "decide_recover s command facts now =
     (let recovery = control_recovery s facts in
      if \<not> permitted (cm_actor command) (ab_tenant_id (sn_action s)) ''operate''
        \<or> ro_source_attempt_id recovery \<noteq> ab_attempt_id (sn_action s)
        \<or> ro_attempts_used recovery < 0 \<or> ro_attempt_limit recovery < 1
      then human_result s command facts ''RECOVERY_NOT_AUTHORIZED''
      else case settlement_recovery s command facts now recovery of
        Inl early \<Rightarrow> early
      | Inr recovery' \<Rightarrow>
          if fx_certainty facts = ExternalCertainty.DEFINITELY_NOT_DISPATCHED
          then human_result s command facts ''NO_EXTERNAL_OPERATION_TO_RECONCILE''
          else
            let candidate = decide_durable_recovery (sn_job s) recovery'
                              (control_recovery_request s command facts now)
            in if rc_decision candidate = DurableRecoveryDecision.ESCALATE
               then human_escalate s command facts now ''BOUNDED_RECOVERY_EXHAUSTED''
                      (Some (rc_next_state candidate)) None (Some candidate) [''original_identity_preserved'']
               else if rc_decision candidate = DurableRecoveryDecision.RECONCILE
               then (human_result s command facts ''RECONCILE'')
                      \<lparr>hx_next_state := rc_next_state candidate,
                       hx_reservation_action := ReservationAction.KEEP_HELD,
                       hx_outbox_action := ''RECONCILIATION_QUERY'',
                       hx_follow_up := ''RECONCILE_ORIGINAL_OPERATION'',
                       hx_evidence := [''original_identity_preserved''],
                       hx_recovery_candidate := Some candidate\<rparr>
               else if rc_decision candidate = DurableRecoveryDecision.SETTLE
               then (human_result s command facts ''SETTLE'')
                      \<lparr>hx_reservation_action := ReservationAction.SETTLE_VERIFIED,
                       hx_evidence := [''verified_usage''], hx_recovery_candidate := Some candidate\<rparr>
               else human_result s command facts ''RECOVERY_NO_NEW_BUSINESS_EXECUTION'')"

definition decide_observe_cancel :: "Snapshot \<Rightarrow> Command \<Rightarrow> CurrentFacts \<Rightarrow> HumanControlCandidate" where
  "decide_observe_cancel s command facts =
     (if \<not> truthy_opt (sn_interrupt_id s) then human_result s command facts ''NO_CANCELLATION_REQUEST''
      else (human_result s command facts ''CANCELLATION_OBSERVED'')
             \<lparr>hx_evidence := [''worker_observed_not_external_absence'']\<rparr>)"

definition definitely_unused :: "Snapshot \<Rightarrow> CurrentFacts \<Rightarrow> bool" where
  "definitely_unused s facts \<longleftrightarrow>
     \<not> sn_dispatch_started s \<and> fx_certainty facts = ExternalCertainty.DEFINITELY_NOT_DISPATCHED"

definition decide_interrupt :: "Snapshot \<Rightarrow> Command \<Rightarrow> CurrentFacts \<Rightarrow> HumanControlCandidate" where
  "decide_interrupt s command facts =
     (if \<not> permitted (cm_actor command) (ab_tenant_id (sn_action s)) ''interrupt''
      then human_result s command facts ''INTERRUPT_NOT_AUTHORIZED''
      else if truthy_opt (sn_interrupt_id s) then human_result s command facts ''DUPLICATE_INTERRUPT''
      else
        let unused = definitely_unused s facts
        in (human_result s command facts (if unused then ''INTERRUPTED_PRE_DISPATCH'' else ''INTERRUPTED_POST_DISPATCH''))
             \<lparr>hx_next_state := (if dj_state (sn_job s) \<in> TERMINAL_STATES then dj_state (sn_job s)
                               else if unused then AgentState.CANCELLED else AgentState.PENDING_RECONCILIATION),
              hx_reservation_action := (if unused then ReservationAction.RELEASE else ReservationAction.KEEP_HELD),
              hx_follow_up := (if unused then ''NONE'' else ''CANCELLATION_REQUEST_AND_RECONCILIATION''),
              hx_evidence := [''interrupt_is_not_external_absence'']\<rparr>)"

definition decide_invalidate :: "Snapshot \<Rightarrow> Command \<Rightarrow> CurrentFacts \<Rightarrow> HumanControlCandidate" where
  "decide_invalidate s command facts =
     (case cm_invalidate_to command of
        None \<Rightarrow> human_result s command facts ''INVALID_LIFECYCLE_CHANGE''
      | Some to \<Rightarrow>
          if \<not> permitted (cm_actor command) (ab_tenant_id (sn_action s)) ''operate''
            \<or> to \<notin> {ApprovalStatus.REVOKED, ApprovalStatus.SUPERSEDED, ApprovalStatus.CANCELLED}
          then human_result s command facts ''INVALID_LIFECYCLE_CHANGE''
          else (human_result s command facts (''APPROVAL_'' @ ApprovalStatus_value to))
                 \<lparr>hx_approval_status := to, hx_evidence := [''approval_history_preserved'']\<rparr>)"

section \<open>The guards shared by decisions and the dispatch gate\<close>

definition CLOSED_APPROVALS :: "ApprovalStatus set" where
  "CLOSED_APPROVALS =
     {ApprovalStatus.REJECTED, ApprovalStatus.EXPIRED, ApprovalStatus.REVOKED, ApprovalStatus.SUPERSEDED,
      ApprovalStatus.CANCELLED, ApprovalStatus.CONFLICT}"

definition lifecycle_guard ::
    "Snapshot \<Rightarrow> Command \<Rightarrow> CurrentFacts \<Rightarrow> int \<Rightarrow> HumanControlCandidate option" where
  "lifecycle_guard s command facts now =
     (let action = sn_action s; request = sn_request s; result = human_result s command facts in
      if dj_state (sn_job s) \<in> TERMINAL_STATES
      then Some ((result ''TERMINAL_NOOP'')\<lparr>hx_evidence := [''terminal_not_reopened'']\<rparr>)
      else if truthy_opt (sn_interrupt_id s) then Some (result ''INTERRUPT_BLOCKED'')
      else if sn_approval s \<in> CLOSED_APPROVALS
      then Some (result (''APPROVAL_'' @ ApprovalStatus_value (sn_approval s)))
      else if aq_binding request \<noteq> action
      then Some ((result ''APPROVAL_BINDING_MISMATCH'')\<lparr>hx_evidence := [''new_request_required'']\<rparr>)
      else if now \<ge> aq_expires_at request \<and> fx_approval_required facts
      then Some ((result ''APPROVAL_EXPIRED'')
             \<lparr>hx_approval_status := ApprovalStatus.EXPIRED, hx_evidence := [''no_silent_renewal'']\<rparr>)
      else if fx_policy_quarantined facts
      then Some ((result ''POLICY_QUARANTINED'')\<lparr>hx_evidence := [''old_binding_preserved'']\<rparr>)
      else if \<not> fx_policy_available facts
      then Some (if now \<ge> fx_policy_wait_deadline facts
                 then human_escalate s command facts now ''APPROVAL_POLICY_UNAVAILABLE''
                        (Some AgentState.WAITING) None None [''POLICY_WAIT_DEADLINE_EXCEEDED'']
                 else (result ''POLICY_UNAVAILABLE'')\<lparr>hx_next_state := AgentState.WAITING\<rparr>)
      else if (fx_policy_id facts, fx_policy_version facts) \<noteq> (ab_policy_id action, ab_policy_version action)
      then Some (result ''POLICY_BINDING_MISMATCH'')
      else if ab_risk action = Risk.HIGH \<and> \<not> fx_approval_required facts
      then Some (result ''RISK_POLICY_CONFLICT'')
      else None)"

text \<open>
  Recording a decision. The source asserts that the decision is present, which the identity checks
  have ensured; \<^const>\<open>None\<close> here stands for that impossible case and is given the same answer as a
  missing decision.
\<close>

definition decide_decision :: "Snapshot \<Rightarrow> Command \<Rightarrow> CurrentFacts \<Rightarrow> int \<Rightarrow> HumanControlCandidate" where
  "decide_decision s command facts now =
     (let action = sn_action s; request = sn_request s; result = human_result s command facts in
      case cm_decision command of
        None \<Rightarrow> result ''INVALID_DECISION''
      | Some decision \<Rightarrow>
          if de_request_id decision \<noteq> aq_request_id request \<or> de_binding_fingerprint decision \<noteq> action_digest action
          then result ''DECISION_BINDING_MISMATCH''
          else if \<not> (aq_requested_at request \<le> de_decided_at decision \<and> de_decided_at decision \<le> now)
            \<or> de_decided_at decision \<ge> aq_expires_at request
          then result ''DECISION_TIME_INVALID''
          else if pn_role (cm_actor command) \<notin> set (aq_eligible_roles request) \<or> \<not> control_sod s facts
          then result ''APPROVER_POLICY_REJECTED''
          else if sn_decisions s \<noteq> []
          then human_escalate s command facts now ''CONFLICTING_HUMAN_DECISION'' None
                 (Some ApprovalStatus.CONFLICT) None [''original_decision_preserved'']
          else (result ''DECISION_RECORDED'')
                 \<lparr>hx_approval_status := de_choice decision, hx_evidence := [''human_decision_not_dispatch'']\<rparr>)"

definition approver_current :: "Snapshot \<Rightarrow> CurrentFacts \<Rightarrow> ApprovalDecision \<Rightarrow> bool" where
  "approver_current s facts approved \<longleftrightarrow>
     de_choice approved = ApprovalStatus.APPROVED \<and>
     de_binding_fingerprint approved = action_digest (sn_action s) \<and>
     de_request_id approved = aq_request_id (sn_request s) \<and>
     de_actor_id approved = pn_actor_id (fx_approver facts) \<and>
     permitted (fx_approver facts) (ab_tenant_id (sn_action s)) ''approve'' \<and>
     pn_role (fx_approver facts) \<in> set (aq_eligible_roles (sn_request s)) \<and> control_sod s facts"

text \<open>The part of the gate that looks at the approval; \<^const>\<open>None\<close> lets the execution go on.\<close>

definition approval_gate ::
    "Snapshot \<Rightarrow> Command \<Rightarrow> CurrentFacts \<Rightarrow> int \<Rightarrow> HumanControlCandidate option" where
  "approval_gate s command facts now =
     (if \<not> fx_approval_required facts then None
      else if sn_approval s \<noteq> ApprovalStatus.APPROVED
      then Some (if now \<ge> aq_respond_by (sn_request s)
                 then human_escalate s command facts now ''APPROVAL_OVERDUE'' (Some AgentState.WAITING) None None []
                 else (human_result s command facts ''APPROVAL_PENDING'')
                        \<lparr>hx_next_state := AgentState.WAITING, hx_outbox_action := ''APPROVAL_REQUEST''\<rparr>)
      else case sn_decisions s of
        [] \<Rightarrow> Some (human_result s command facts ''APPROVAL_EVIDENCE_MISSING'')
      | approved # _ \<Rightarrow>
          if \<not> approver_current s facts approved
          then Some (human_result s command facts ''CURRENT_APPROVER_INVALID'') else None)"

definition reservation_held :: "Snapshot \<Rightarrow> bool" where
  "reservation_held s \<longleftrightarrow>
     list_ex (\<lambda>r. rs_attempt_id r = ab_attempt_id (sn_action s) \<and> rs_status r = ReservationStatus.HELD)
       (dj_reservations (sn_job s))"

definition decide_gate :: "Snapshot \<Rightarrow> Command \<Rightarrow> CurrentFacts \<Rightarrow> int \<Rightarrow> HumanControlCandidate" where
  "decide_gate s command facts now =
     (let result = human_result s command facts in
      if \<not> control_authz s facts
      then (result ''AUTHORIZATION_REVOKED'')
             \<lparr>hx_reservation_action := (if definitely_unused s facts then ReservationAction.RELEASE
                                       else ReservationAction.KEEP_HELD)\<rparr>
      else if fx_governance facts \<noteq> InvocationGovernanceStatus.ALLOWED_TO_DAY74_ADMISSION
      then result ''TOOL_GOVERNANCE_BLOCKED''
      else if \<not> fx_business_valid facts then result ''BUSINESS_VALIDATION_FAILED''
      else if \<not> fx_admission_allowed facts then result ''TOOL_ADMISSION_BLOCKED''
      else if \<not> fx_budget_allowed facts then result ''BUDGET_BLOCKED''
      else if sn_dispatch_started s then result ''ALREADY_DISPATCH_CLAIMED''
      else if fx_certainty facts \<noteq> ExternalCertainty.DEFINITELY_NOT_DISPATCHED
      then result ''EXTERNAL_OPERATION_ALREADY_POSSIBLE''
      else if \<not> reservation_held s then result ''RESERVATION_NOT_HELD''
      else case approval_gate s command facts now of
        Some early \<Rightarrow> early
      | None \<Rightarrow>
          (result ''EXECUTION_CANDIDATE'')
            \<lparr>hx_next_state := AgentState.RUNNING,
             hx_approval_status := (if fx_approval_required facts then sn_approval s else ApprovalStatus.NOT_REQUIRED),
             hx_execution_allowed := True, hx_outbox_action := ''PUBLISH'',
             hx_evidence := [''current_guards_passed_candidate_only'']\<rparr>)"

section \<open>The decision\<close>

definition decide_current :: "Snapshot \<Rightarrow> Command \<Rightarrow> CurrentFacts \<Rightarrow> int \<Rightarrow> HumanControlCandidate" where
  "decide_current s command facts now =
     (case cm_operation command of
        Operation.RECOVER \<Rightarrow> decide_recover s command facts now
      | Operation.OBSERVE_CANCEL \<Rightarrow> decide_observe_cancel s command facts
      | Operation.INTERRUPT \<Rightarrow> decide_interrupt s command facts
      | Operation.INVALIDATE \<Rightarrow> decide_invalidate s command facts
      | op \<Rightarrow>
          (case lifecycle_guard s command facts now of
             Some early \<Rightarrow> early
           | None \<Rightarrow>
               if op = Operation.DECISION then decide_decision s command facts now
               else decide_gate s command facts now))"

definition decide_human_control ::
    "Snapshot \<Rightarrow> Command \<Rightarrow> CurrentFacts \<Rightarrow> int \<Rightarrow> HumanControlCandidate" where
  "decide_human_control s command facts now =
     (if \<not> facts_valid s command now
      then (human_result s command facts ''INVALID_FACTS'')\<lparr>hx_evidence := [''fail_closed'']\<rparr>
      else if \<not> permitted (cm_actor command) (ab_tenant_id (sn_action s)) ''control''
      then human_result s command facts ''CONTROL_NOT_AUTHORIZED''
      else if \<not> binding_matches s then human_result s command facts ''EXECUTION_BINDING_MISMATCH''
      else if cm_operation command = Operation.LATE_RESULT then decide_late_result s command facts
      else case (if cm_operation command = Operation.DECISION then decision_identity s command facts now else None) of
        Some early \<Rightarrow> early
      | None \<Rightarrow>
          if \<not> human_command_current s command
          then (human_result s command facts ''STALE_CANDIDATE'')\<lparr>hx_evidence := [''reload_current_facts'']\<rparr>
          else decide_current s command facts now)"

end
