(* ===== verification/Human_Control_Store.thy ===== *)
theory Human_Control_Store
  imports Human_Control
begin

text \<open>
  \<^verbatim>\<open>src/projects/ai-agent/src/human_control.py\<close>, lines 535 to 725: the store that applies human
  control candidates and claims the one dispatch of a job, what every candidate of the decision
  guarantees, and the store as a fenced machine whose steps are applies and dispatch attempts in
  lock order. Durable recoveries are staged on the durable job store of Durable_Agent_Jobs.
\<close>

section \<open>The store\<close>

record HumanControlStore =
  hs_snapshot :: Snapshot
  hs_commands :: "string \<rightharpoonup> Command"

definition HumanControlStore_init :: "Snapshot \<Rightarrow> HumanControlStore" where
  "HumanControlStore_init s = \<lparr>hs_snapshot = s, hs_commands = Map.empty\<rparr>"

definition human_plan :: "HumanControlStore \<Rightarrow> Command \<Rightarrow> CurrentFacts \<Rightarrow> int \<Rightarrow> HumanControlCandidate" where
  "human_plan store command facts now = decide_human_control (hs_snapshot store) command facts now"

text \<open>The set \<open>transitions\<close> after the conditional \<open>discard\<close>, and the two prefix tests.\<close>

definition transitions_for :: "HumanControlCandidate \<Rightarrow> string list" where
  "transitions_for candidate =
     (let transitions =
        [''DECISION_RECORDED'', ''EXECUTION_CANDIDATE'', ''APPROVAL_PENDING'', ''APPROVAL_EXPIRED'',
         ''APPROVAL_REVOKED'', ''APPROVAL_CANCELLED'', ''APPROVAL_SUPERSEDED'', ''POLICY_UNAVAILABLE'',
         ''RECONCILE'', ''SETTLE'', ''CANCELLATION_OBSERVED'', ''AUTHORIZATION_REVOKED'']
      in if cm_operation (hx_command candidate) \<noteq> Operation.INVALIDATE \<and>
            hx_status candidate \<in> set [''APPROVAL_REVOKED'', ''APPROVAL_CANCELLED'', ''APPROVAL_SUPERSEDED'']
         then filter (\<lambda>t. t \<noteq> hx_status candidate) transitions else transitions)"

definition is_interrupting :: "HumanControlCandidate \<Rightarrow> bool" where
  "is_interrupting candidate \<longleftrightarrow> prefix ''INTERRUPTED_'' (hx_status candidate)"

definition is_transition :: "HumanControlCandidate \<Rightarrow> bool" where
  "is_transition candidate \<longleftrightarrow>
     hx_status candidate \<in> set (transitions_for candidate) \<or>
     prefix ''ESCALATE_'' (hx_status candidate) \<or> is_interrupting candidate"

definition command_decisions :: "HumanControlCandidate \<Rightarrow> ApprovalDecision list" where
  "command_decisions candidate =
     (case cm_decision (hx_command candidate) of None \<Rightarrow> [] | Some d \<Rightarrow> [d])"

text \<open>
  Staging the durable recovery on a local store; \<open>Inr None\<close> is the early return
  \<open>RECOVERY_APPLY_REJECTED\<close>.
\<close>

definition recorded_recovery :: "Snapshot \<Rightarrow> HumanControlCandidate \<Rightarrow> CurrentFacts \<Rightarrow> RecoveryOperation" where
  "recorded_recovery current candidate facts =
     (let control = control_recovery current facts in
      control\<lparr>ro_recovery_id := cm_command_id (hx_command candidate),
              ro_attempts_used := ro_attempts_used control + (if hx_status candidate = ''RECONCILE'' then 1 else 0),
              ro_last_evidence_fingerprint := Some (fingerprint (json_strs (hx_evidence candidate)))\<rparr>)"

definition stage_recovery ::
    "Snapshot \<Rightarrow> HumanControlCandidate \<Rightarrow> CurrentFacts \<Rightarrow> DurableAgentJobRecord option res" where
  "stage_recovery current candidate facts =
     (let job = sn_job current in
      case hx_recovery_candidate candidate of
        None \<Rightarrow> Inr (Some job)
      | Some recovery \<Rightarrow>
          bind_res (durable_apply (DurableJobStore_init job) recovery) (\<lambda>(status, staged).
            if status \<noteq> RecoveryApplyStatus.APPLIED then Inr None
            else Inr (Some ((ds_record staged)
              \<lparr>dj_recovery_operations := dj_recovery_operations job @ [recorded_recovery current candidate facts],
               dj_outbox_intents := dj_outbox_intents job\<rparr>))))"

definition release_unused :: "Snapshot \<Rightarrow> ReservationRecord \<Rightarrow> ReservationRecord res" where
  "release_unused current r =
     (if rs_attempt_id r = ab_attempt_id (sn_action current) \<and> rs_status r = ReservationStatus.HELD
      then ReservationRecord_post_init
             (r\<lparr>rs_status := ReservationStatus.RELEASED, rs_released_units := rs_reserved_units r\<rparr>)
      else Inr r)"

definition control_event_id :: "Snapshot \<Rightarrow> HumanControlCandidate \<Rightarrow> string" where
  "control_event_id current candidate =
     fingerprint (json_strs
       [action_digest (sn_action current), aq_request_id (sn_request current), hx_outbox_action candidate,
        if hx_escalation candidate \<noteq> None \<or> hx_outbox_action candidate = ''RECONCILIATION_QUERY''
        then cm_command_id (hx_command candidate) else []])"

definition control_events :: "Snapshot \<Rightarrow> HumanControlCandidate \<Rightarrow> OutboxIntent list \<Rightarrow> OutboxIntent list" where
  "control_events current candidate events =
     (let job = sn_job current; event_id = control_event_id current candidate in
      if hx_outbox_action candidate = ''NONE'' then events
      else if list_ex (\<lambda>e. oi_event_id e = event_id) events then events
      else events @ [\<lparr>oi_event_id = event_id, oi_job_id = dj_job_id job, oi_step_id = dj_current_step_id job,
                      oi_attempt_id = dj_current_attempt_id job, oi_event_type = hx_outbox_action candidate,
                      oi_published_at_epoch_ms = None\<rparr>])"

definition control_fence :: "Snapshot \<Rightarrow> HumanControlCandidate \<Rightarrow> DurableAgentJobRecord \<Rightarrow> int" where
  "control_fence current candidate next_job =
     (if hx_recovery_candidate candidate \<noteq> None then dj_fence_token next_job
      else dj_fence_token (sn_job current) + (if is_interrupting candidate then 1 else 0))"

definition control_checkpoint ::
    "Snapshot \<Rightarrow> HumanControlCandidate \<Rightarrow> DurableAgentJobRecord \<Rightarrow> DurableCheckpoint" where
  "control_checkpoint current candidate next_job =
     (let job = sn_job current in
      (dj_current_checkpoint next_job)
        \<lparr>dc_checkpoint_id := ''human:'' @ cm_command_id (hx_command candidate),
         dc_checkpoint_version := dc_checkpoint_version (dj_current_checkpoint job) + 1,
         dc_authoritative_state := hx_next_state candidate,
         dc_state_version := dj_state_version job + 1,
         dc_fence_token := control_fence current candidate next_job,
         dc_previous_checkpoint_id := Some (dc_checkpoint_id (dj_current_checkpoint job))\<rparr>)"

text \<open>The snapshot committed by an applied candidate.\<close>

definition control_commit ::
    "Snapshot \<Rightarrow> HumanControlCandidate \<Rightarrow> DurableAgentJobRecord \<Rightarrow> ReservationRecord list \<Rightarrow> DurableCheckpoint \<Rightarrow> Snapshot" where
  "control_commit current candidate next_job reservations checkpoint =
     (let job = sn_job current; interrupting = is_interrupting candidate in
      current
        \<lparr>sn_job := next_job
           \<lparr>dj_state := hx_next_state candidate, dj_state_version := dj_state_version job + 1,
            dj_fence_token := control_fence current candidate next_job,
            dj_current_checkpoint := checkpoint,
            dj_lease_owner := (if interrupting then None else dj_lease_owner next_job),
            dj_lease_expiry_epoch_ms := (if interrupting then None else dj_lease_expiry_epoch_ms next_job),
            dj_reservations := reservations,
            dj_outbox_intents := control_events current candidate (dj_outbox_intents next_job),
            dj_audit_events := dj_audit_events next_job @ [hx_status candidate] @ hx_evidence candidate\<rparr>,
         sn_approval := hx_approval_status candidate,
         sn_decisions := sn_decisions current @
           (if hx_status candidate = ''DECISION_RECORDED'' then command_decisions candidate else []),
         sn_decision_evidence := sn_decision_evidence current @ command_decisions candidate,
         sn_interrupt_id := (if interrupting then Some (cm_command_id (hx_command candidate)) else sn_interrupt_id current),
         sn_cancellation_observed_by := sn_cancellation_observed_by current @
           (if hx_status candidate = ''CANCELLATION_OBSERVED'' then [pn_actor_id (cm_actor (hx_command candidate))] else []),
         sn_escalations := sn_escalations current @
           (case hx_escalation candidate of None \<Rightarrow> [] | Some e \<Rightarrow> [e]),
         sn_checkpoint_history := sn_checkpoint_history current @ [dj_current_checkpoint job]\<rparr>)"

definition audit_commit :: "Snapshot \<Rightarrow> HumanControlCandidate \<Rightarrow> Snapshot" where
  "audit_commit current candidate =
     current
       \<lparr>sn_decision_evidence := sn_decision_evidence current @ command_decisions candidate,
        sn_job := (sn_job current)
          \<lparr>dj_audit_events := dj_audit_events (sn_job current) @ [hx_status candidate] @ hx_evidence candidate\<rparr>\<rparr>"

definition record_command :: "HumanControlStore \<Rightarrow> HumanControlCandidate \<Rightarrow> Snapshot \<Rightarrow> HumanControlStore" where
  "record_command store candidate s =
     \<lparr>hs_snapshot = s,
      hs_commands = (hs_commands store)(cm_command_id (hx_command candidate) \<mapsto> hx_command candidate)\<rparr>"

definition human_apply ::
    "HumanControlStore \<Rightarrow> HumanControlCandidate \<Rightarrow> CurrentFacts \<Rightarrow> int \<Rightarrow> bool \<Rightarrow> (string \<times> HumanControlStore) res" where
  "human_apply store candidate facts now fail_before_commit =
     (let current = hs_snapshot store in
      case hs_commands store (cm_command_id (hx_command candidate)) of
        Some previous \<Rightarrow>
          Inr (if previous = hx_command candidate then ''DUPLICATE_COMMAND'' else ''COMMAND_IDENTITY_CONFLICT'', store)
      | None \<Rightarrow>
          if hx_snapshot_fingerprint candidate \<noteq> snapshot_digest current then Inr (''STALE_CANDIDATE'', store)
          else if decide_human_control current (hx_command candidate) facts now \<noteq> candidate
          then Inr (''CURRENT_FACTS_CHANGED'', store)
          else if \<not> is_transition candidate
          then (if fail_before_commit then Inl (RuntimeError ''INJECTED_BEFORE_COMMIT'')
                else Inr (''AUDIT_ONLY'', record_command store candidate (audit_commit current candidate)))
          else
            bind_res (stage_recovery current candidate facts) (\<lambda>staged.
              case staged of
                None \<Rightarrow> Inr (''RECOVERY_APPLY_REJECTED'', store)
              | Some next_job \<Rightarrow>
                  if hx_reservation_action candidate = ReservationAction.RELEASE \<and>
                    (sn_dispatch_started current \<or> fx_certainty facts \<noteq> ExternalCertainty.DEFINITELY_NOT_DISPATCHED)
                  then Inr (''UNSAFE_RELEASE_REJECTED'', store)
                  else
                    bind_res (if hx_reservation_action candidate = ReservationAction.RELEASE
                              then map_res (release_unused current) (dj_reservations next_job)
                              else Inr (dj_reservations next_job)) (\<lambda>reservations.
                    bind_res (DurableCheckpoint_post_init (control_checkpoint current candidate next_job)) (\<lambda>checkpoint.
                      if fail_before_commit then Inl (RuntimeError ''INJECTED_BEFORE_COMMIT'')
                      else Inr (''APPLIED'', record_command store candidate
                                  (control_commit current candidate next_job reservations checkpoint))))))"

text \<open>
  \<open>dispatch_once\<close> claims the event under the lock and calls the port \<open>effect\<close> afterwards. The model
  returns the result, the store and the list of bindings the port was called with; an exception of
  the port is passed on, and the claim stays.
\<close>

definition dispatch_command :: "Snapshot \<Rightarrow> string \<Rightarrow> Principal \<Rightarrow> int \<Rightarrow> Command" where
  "dispatch_command s event_id worker expected_fence =
     \<lparr>cm_command_id = ''dispatch:'' @ event_id, cm_operation = Operation.GATE, cm_actor = worker,
      cm_expected_state = dj_state (sn_job s), cm_expected_state_version = dj_state_version (sn_job s),
      cm_expected_fence = expected_fence, cm_decision = None, cm_invalidate_to = None, cm_evidence_id = None,
      cm_source_attempt_id = None, cm_source_operation_id = None, cm_source_fence = None\<rparr>"

definition dispatch_checkpoint :: "Snapshot \<Rightarrow> string \<Rightarrow> DurableCheckpoint" where
  "dispatch_checkpoint s event_id =
     (let cp = dj_current_checkpoint (sn_job s) in
      cp\<lparr>dc_checkpoint_id := ''dispatch:'' @ event_id, dc_checkpoint_version := dc_checkpoint_version cp + 1,
         dc_state_version := dj_state_version (sn_job s) + 1,
         dc_previous_checkpoint_id := Some (dc_checkpoint_id cp)\<rparr>)"

definition dispatch_claim :: "Snapshot \<Rightarrow> string \<Rightarrow> DurableCheckpoint \<Rightarrow> Snapshot" where
  "dispatch_claim s event_id cp =
     s\<lparr>sn_dispatch_started := True, sn_claimed_events := sn_claimed_events s @ [event_id],
       sn_checkpoint_history := sn_checkpoint_history s @ [dj_current_checkpoint (sn_job s)],
       sn_job := (sn_job s)\<lparr>dj_state_version := dj_state_version (sn_job s) + 1, dj_current_checkpoint := cp,
                            dj_audit_events := dj_audit_events (sn_job s) @ [''DISPATCH_CLAIMED'']\<rparr>\<rparr>"

definition dispatch_blocked_now :: "Snapshot \<Rightarrow> string \<Rightarrow> Principal \<Rightarrow> int \<Rightarrow> int \<Rightarrow> bool" where
  "dispatch_blocked_now s event_id worker expected_fence now \<longleftrightarrow>
     List.find (\<lambda>e. oi_event_id e = event_id \<and> oi_event_type e = ''PUBLISH'') (dj_outbox_intents (sn_job s)) = None
     \<or> event_id \<in> set (sn_claimed_events s) \<or> expected_fence \<noteq> dj_fence_token (sn_job s)
     \<or> Some (pn_actor_id worker) \<noteq> dj_lease_owner (sn_job s)
     \<or> (case dj_lease_expiry_epoch_ms (sn_job s) of None \<Rightarrow> True | Some expiry \<Rightarrow> now \<ge> expiry)"

definition dispatch_once ::
    "HumanControlStore \<Rightarrow> string \<Rightarrow> Principal \<Rightarrow> int \<Rightarrow> CurrentFacts \<Rightarrow> int \<Rightarrow> (ActionBinding \<Rightarrow> unit res)
      \<Rightarrow> bool res \<times> HumanControlStore \<times> ActionBinding list" where
  "dispatch_once store event_id worker expected_fence facts now effect =
     (let s = hs_snapshot store in
      if dispatch_blocked_now s event_id worker expected_fence now then (Inr False, store, [])
      else if \<not> hx_execution_allowed
                 (decide_human_control s (dispatch_command s event_id worker expected_fence) facts now)
      then (Inr False, store, [])
      else case DurableCheckpoint_post_init (dispatch_checkpoint s event_id) of
        Inl e \<Rightarrow> (Inl e, store, [])
      | Inr cp \<Rightarrow>
          (bind_res (effect (sn_action s)) (\<lambda>_. Inr True),
           store\<lparr>hs_snapshot := dispatch_claim s event_id cp\<rparr>, [sn_action s]))"

section \<open>What every candidate guarantees\<close>

text \<open>The conditions under which a human decision is recorded.\<close>

definition decision_admissible :: "Snapshot \<Rightarrow> ApprovalDecision \<Rightarrow> bool" where
  "decision_admissible s d \<longleftrightarrow>
     de_choice d \<in> {ApprovalStatus.APPROVED, ApprovalStatus.REJECTED} \<and>
     de_request_id d = aq_request_id (sn_request s) \<and> de_binding_fingerprint d = action_digest (sn_action s) \<and>
     (aq_separation_required (sn_request s) \<longrightarrow> de_actor_id d \<noteq> ab_requester_id (sn_action s)) \<and>
     aq_requested_at (sn_request s) \<le> de_decided_at d \<and> de_decided_at d < aq_expires_at (sn_request s)"

text \<open>What a staged recovery may do: it never releases, and it settles only the one held reservation.\<close>

definition recovery_sound :: "Snapshot \<Rightarrow> HumanControlCandidate \<Rightarrow> DurableRecoveryCandidate \<Rightarrow> bool" where
  "recovery_sound s x rc \<longleftrightarrow>
     rc_attempt_id rc = ab_attempt_id (sn_action s) \<and>
     (rc_reservation_action rc = ReservationAction.KEEP_HELD \<or>
      rc_reservation_action rc = ReservationAction.SETTLE_VERIFIED \<and>
      (\<exists>r u. filter (\<lambda>r. rs_attempt_id r = ab_attempt_id (sn_action s)) (dj_reservations (sn_job s)) = [r] \<and>
             rs_status r = ReservationStatus.HELD \<and> rc_verified_usage_units rc = Some u \<and>
             0 \<le> u \<and> u \<le> rs_reserved_units r))"

definition candidate_sound :: "Snapshot \<Rightarrow> Command \<Rightarrow> CurrentFacts \<Rightarrow> HumanControlCandidate \<Rightarrow> bool" where
  "candidate_sound s c f x \<longleftrightarrow>
     hx_command x = c \<and> hx_snapshot_fingerprint x = snapshot_digest s \<and>
     (dj_state (sn_job s) \<in> TERMINAL_STATES \<longrightarrow> hx_next_state x = dj_state (sn_job s)) \<and>
     (sn_approval s \<in> CLOSED_APPROVALS \<longrightarrow> hx_approval_status x \<in> CLOSED_APPROVALS) \<and>
     (hx_approval_status x = ApprovalStatus.APPROVED \<longrightarrow>
        hx_status x = ''DECISION_RECORDED'' \<or> sn_approval s = ApprovalStatus.APPROVED) \<and>
     (hx_status x = ''DECISION_RECORDED'' \<longrightarrow> sn_decisions s = [] \<and>
        (\<exists>d. cm_decision c = Some d \<and> decision_admissible s d \<and> hx_approval_status x = de_choice d)) \<and>
     (is_interrupting x \<longrightarrow> \<not> truthy_opt (sn_interrupt_id s)) \<and>
     (hx_reservation_action x = ReservationAction.RELEASE \<longrightarrow> hx_recovery_candidate x = None \<and> definitely_unused s f) \<and>
     (\<forall>rc. hx_recovery_candidate x = Some rc \<longrightarrow> recovery_sound s x rc)"

named_theorems sound_intros \<open>soundness of the candidates each part of the decision returns\<close>

lemma human_result_simps [simp]:
  "hx_command (human_result s c f st) = c" "hx_snapshot_fingerprint (human_result s c f st) = snapshot_digest s"
  "hx_status (human_result s c f st) = st"
  "hx_next_state (human_result s c f st) = dj_state (sn_job s)"
  "hx_approval_status (human_result s c f st) = sn_approval s"
  "hx_execution_allowed (human_result s c f st) = False"
  "hx_reservation_action (human_result s c f st) = ReservationAction.NO_CHANGE"
  "hx_outbox_action (human_result s c f st) = ''NONE''"
  "hx_escalation (human_result s c f st) = None" "hx_recovery_candidate (human_result s c f st) = None"
  by (simp_all add: human_result_def)

text \<open>The closures are sound for every status but those with a meaning of their own.\<close>

lemma result_sound [sound_intros]:
  assumes "st \<noteq> ''DECISION_RECORDED''" and "\<not> prefix ''INTERRUPTED_'' st"
  shows "candidate_sound s c f (human_result s c f st)"
    and "candidate_sound s c f ((human_result s c f st)\<lparr>hx_evidence := ev\<rparr>)"
    and "candidate_sound s c f ((human_result s c f st)\<lparr>hx_evidence := ev, hx_follow_up := fu\<rparr>)"
    and "dj_state (sn_job s) \<notin> TERMINAL_STATES \<Longrightarrow>
      candidate_sound s c f ((human_result s c f st)\<lparr>hx_next_state := ns\<rparr>)"
    and "dj_state (sn_job s) \<notin> TERMINAL_STATES \<Longrightarrow>
      candidate_sound s c f ((human_result s c f st)\<lparr>hx_next_state := ns, hx_outbox_action := oa\<rparr>)"
    and "a \<in> CLOSED_APPROVALS \<Longrightarrow>
      candidate_sound s c f ((human_result s c f st)\<lparr>hx_approval_status := a, hx_evidence := ev\<rparr>)"
  using assms by (auto simp: candidate_sound_def is_interrupting_def CLOSED_APPROVALS_def)

lemma escalate_sound [sound_intros]:
  assumes "\<And>ns. st = Some ns \<Longrightarrow> dj_state (sn_job s) \<notin> TERMINAL_STATES \<or> ns = dj_state (sn_job s)"
    and "\<And>a. ap = Some a \<Longrightarrow> a \<in> CLOSED_APPROVALS"
    and "\<And>rc x. rec = Some rc \<Longrightarrow> recovery_sound s x rc"
  shows "candidate_sound s c f (human_escalate s c f now reason st ap rec ev)"
  using assms
  by (auto simp: human_escalate_def Let_def candidate_sound_def is_interrupting_def CLOSED_APPROVALS_def
      split: option.splits)

lemma closed_approvals [simp]:
  "ApprovalStatus.CONFLICT \<in> CLOSED_APPROVALS" "ApprovalStatus.EXPIRED \<in> CLOSED_APPROVALS"
  "ApprovalStatus.REVOKED \<in> CLOSED_APPROVALS" "ApprovalStatus.SUPERSEDED \<in> CLOSED_APPROVALS"
  "ApprovalStatus.CANCELLED \<in> CLOSED_APPROVALS" "ApprovalStatus.REJECTED \<in> CLOSED_APPROVALS"
  "ApprovalStatus.APPROVED \<notin> CLOSED_APPROVALS"
  by (simp_all add: CLOSED_APPROVALS_def)

lemma late_result_sound [sound_intros]: "candidate_sound s c f (decide_late_result s c f)"
  unfolding decide_late_result_def Let_def by (auto intro!: result_sound)

lemma decision_identity_sound:
  "decision_identity s c f now = Some x \<Longrightarrow> candidate_sound s c f x"
  by (auto simp: decision_identity_def split: option.splits if_splits intro!: sound_intros)

lemma decision_identity_None:
  "decision_identity s c f now = None \<Longrightarrow> \<exists>d. cm_decision c = Some d \<and>
     de_choice d \<in> {ApprovalStatus.APPROVED, ApprovalStatus.REJECTED} \<and>
     permitted (cm_actor c) (ab_tenant_id (sn_action s)) ''approve'' \<and>
     pn_actor_id (cm_actor c) = de_actor_id d \<and> cm_actor c = fx_approver f"
  by (auto simp: decision_identity_def split: option.splits if_splits)

lemma lifecycle_guard_sound: "lifecycle_guard s c f now = Some x \<Longrightarrow> candidate_sound s c f x"
  by (auto simp: lifecycle_guard_def Let_def split: if_splits intro!: sound_intros)

lemma lifecycle_guard_None:
  "lifecycle_guard s c f now = None \<longleftrightarrow>
     dj_state (sn_job s) \<notin> TERMINAL_STATES \<and> \<not> truthy_opt (sn_interrupt_id s) \<and>
     sn_approval s \<notin> CLOSED_APPROVALS \<and> aq_binding (sn_request s) = sn_action s \<and>
     (fx_approval_required f \<longrightarrow> now < aq_expires_at (sn_request s)) \<and>
     \<not> fx_policy_quarantined f \<and> fx_policy_available f \<and>
     (fx_policy_id f, fx_policy_version f) = (ab_policy_id (sn_action s), ab_policy_version (sn_action s)) \<and>
     (ab_risk (sn_action s) = Risk.HIGH \<longrightarrow> fx_approval_required f)"
  by (auto simp: lifecycle_guard_def Let_def not_le)

lemma decision_sound:
  assumes "decision_identity s c f now = None" and "lifecycle_guard s c f now = None"
  shows "candidate_sound s c f (decide_decision s c f now)"
proof -
  obtain d where d: "cm_decision c = Some d" "de_choice d \<in> {ApprovalStatus.APPROVED, ApprovalStatus.REJECTED}"
    "pn_actor_id (cm_actor c) = de_actor_id d" "cm_actor c = fx_approver f"
    using decision_identity_None [OF assms(1)] by blast
  have open_job: "dj_state (sn_job s) \<notin> TERMINAL_STATES" "sn_approval s \<notin> CLOSED_APPROVALS"
    using assms(2) by (auto simp: lifecycle_guard_None)
  let ?P = "candidate_sound s c f"
  show ?thesis
    unfolding decide_decision_def Let_def d(1) option.case
    by ((rule if_prop [where P = ?P], (rule sound_intros; simp))+)
      (use d open_job in \<open>simp add: candidate_sound_def is_interrupting_def decision_admissible_def control_sod_def\<close>)
qed

lemma approval_gate_sound:
  "approval_gate s c f now = Some x \<Longrightarrow> dj_state (sn_job s) \<notin> TERMINAL_STATES \<Longrightarrow> candidate_sound s c f x"
  by (auto simp: approval_gate_def split: if_splits list.splits intro!: sound_intros)

lemma gate_sound:
  assumes "lifecycle_guard s c f now = None"
  shows "candidate_sound s c f (decide_gate s c f now)"
proof -
  have open_job: "dj_state (sn_job s) \<notin> TERMINAL_STATES" "sn_approval s \<notin> CLOSED_APPROVALS"
    using assms by (auto simp: lifecycle_guard_None)
  show ?thesis
    unfolding decide_gate_def Let_def
    by (auto simp: candidate_sound_def [where x = "hx_reservation_action_update _ _"]
          candidate_sound_def [where x = "hx_evidence_update _ (hx_outbox_action_update _ (hx_execution_allowed_update _ _))"]
          is_interrupting_def open_job
        split: option.splits intro!: sound_intros dest: approval_gate_sound [OF _ open_job(1)])
qed

lemma observe_cancel_sound [sound_intros]: "candidate_sound s c f (decide_observe_cancel s c f)"
  unfolding decide_observe_cancel_def by (auto intro!: result_sound)

lemma invalidate_sound [sound_intros]: "candidate_sound s c f (decide_invalidate s c f)"
  unfolding decide_invalidate_def by (auto split: option.splits intro!: result_sound)

lemma interrupt_sound [sound_intros]: "candidate_sound s c f (decide_interrupt s c f)"
  unfolding decide_interrupt_def Let_def
  by (intro if_prop [where P = "candidate_sound s c f"] result_sound)
    (simp_all add: candidate_sound_def)

lemma settlement_recovery_cases:
  "case settlement_recovery s c f now rop of
     Inl x \<Rightarrow> candidate_sound s c f x
   | Inr rop' \<Rightarrow> \<forall>u. fx_verified_usage f = Some u \<longrightarrow>
       (\<exists>r. filter (\<lambda>r. rs_attempt_id r = ab_attempt_id (sn_action s)) (dj_reservations (sn_job s)) = [r] \<and>
            rs_status r = ReservationStatus.HELD \<and> 0 \<le> u \<and> u \<le> rs_reserved_units r)"
proof (cases "fx_verified_usage f")
  case None
  then show ?thesis by (simp add: settlement_recovery_def)
next
  case (Some u)
  show ?thesis
    unfolding settlement_recovery_def Let_def Some option.case
    by (auto simp: length_Suc_conv split: if_splits intro!: sound_intros)
qed

lemma control_request_simps [simp]:
  "rq_attempt_id (control_recovery_request s c f now) = ab_attempt_id (sn_action s)"
  "rq_recovery_id (control_recovery_request s c f now) = cm_command_id c"
  "rq_expected_state (control_recovery_request s c f now) = dj_state (sn_job s)"
  "rq_verified_usage_units (control_recovery_request s c f now) = fx_verified_usage f"
  "rq_internal_repair_required (control_recovery_request s c f now) = False"
  "rq_verified_effect_unwanted (control_recovery_request s c f now) = False"
  by (simp_all add: control_recovery_request_def)

text \<open>The facts of the durable recovery decision that human control relies on.\<close>

lemma durable_decision_facts:
  "let rc = decide_durable_recovery j rop (control_recovery_request s c f now) in
     rc_attempt_id rc = ab_attempt_id (sn_action s) \<and> rc_recovery_id rc = cm_command_id c \<and>
     rc_verified_usage_units rc = fx_verified_usage f \<and>
     (rc_decision rc = DurableRecoveryDecision.ESCALATE \<longrightarrow> rc_reservation_action rc = ReservationAction.KEEP_HELD) \<and>
     (rc_decision rc = DurableRecoveryDecision.RECONCILE \<longrightarrow> rc_reservation_action rc = ReservationAction.KEEP_HELD) \<and>
     (rc_decision rc = DurableRecoveryDecision.SETTLE \<longrightarrow>
        rc_reservation_action rc = ReservationAction.SETTLE_VERIFIED \<and> fx_verified_usage f \<noteq> None) \<and>
     (dj_state j \<in> TERMINAL_STATES \<longrightarrow> rc_next_state rc = dj_state j)"
  unfolding decide_durable_recovery_def Let_def by simp

lemma recover_sound [sound_intros]: "candidate_sound s c f (decide_recover s c f now)"
proof (cases "settlement_recovery s c f now (control_recovery s f)")
  case (Inl x)
  with settlement_recovery_cases [of s c f now "control_recovery s f"] show ?thesis
    unfolding decide_recover_def Let_def by (simp add: result_sound)
next
  case (Inr rop')
  define rc where "rc = decide_durable_recovery (sn_job s) rop' (control_recovery_request s c f now)"
  note facts = durable_decision_facts [of "sn_job s" rop' s c f now, folded rc_def, unfolded Let_def]
  have keep: "recovery_sound s x rc" if "rc_reservation_action rc = ReservationAction.KEEP_HELD" for x
    using that facts by (simp add: recovery_sound_def)
  have settle: "recovery_sound s x rc" if "rc_decision rc = DurableRecoveryDecision.SETTLE" for x
    using that facts Inr settlement_recovery_cases [of s c f now "control_recovery s f"]
    by (auto simp: recovery_sound_def)
  let ?P = "candidate_sound s c f"
  show ?thesis
    unfolding decide_recover_def Let_def Inr sum.case rc_def [symmetric]
    by (rule if_prop [where P = ?P], rule result_sound, simp, simp)+
      (rule if_prop [where P = ?P], rule sound_intros, use facts keep in \<open>auto\<close>,
       auto simp: candidate_sound_def is_interrupting_def facts keep settle intro: result_sound)
qed

lemma decide_sound: "candidate_sound s c f (decide_human_control s c f now)"
proof -
  have current: "candidate_sound s c f (decide_current s c f now)"
    if "cm_operation c = Operation.DECISION \<longrightarrow> decision_identity s c f now = None"
    using that unfolding decide_current_def
    by (auto split: Operation.splits option.splits
        intro!: recover_sound observe_cancel_sound invalidate_sound interrupt_sound decision_sound gate_sound
        dest: lifecycle_guard_sound)
  let ?P = "candidate_sound s c f"
  show ?thesis
    unfolding decide_human_control_def
    by (rule if_prop [where P = ?P], rule result_sound, simp, simp)+
      (auto intro!: late_result_sound current result_sound dest: decision_identity_sound
        split: option.splits if_splits)
qed

section \<open>When execution is allowed\<close>

lemma not_allowed [simp]: "hx_execution_allowed (human_escalate s c f now reason st ap rec ev) = False"
  by (simp add: human_escalate_def Let_def)

lemma identity_not_allowed: "decision_identity s c f now = Some x \<Longrightarrow> \<not> hx_execution_allowed x"
  by (auto simp: decision_identity_def split: option.splits if_splits)

lemma lifecycle_not_allowed: "lifecycle_guard s c f now = Some x \<Longrightarrow> \<not> hx_execution_allowed x"
  by (auto simp: lifecycle_guard_def Let_def split: if_splits)

lemma approval_gate_not_allowed: "approval_gate s c f now = Some x \<Longrightarrow> \<not> hx_execution_allowed x"
  by (auto simp: approval_gate_def split: if_splits list.splits)

lemma settlement_not_allowed: "settlement_recovery s c f now rop = Inl x \<Longrightarrow> \<not> hx_execution_allowed x"
  by (auto simp: settlement_recovery_def Let_def split: option.splits if_splits)

lemma operations_not_allowed:
  "\<not> hx_execution_allowed (decide_recover s c f now)" "\<not> hx_execution_allowed (decide_observe_cancel s c f)"
  "\<not> hx_execution_allowed (decide_interrupt s c f)" "\<not> hx_execution_allowed (decide_invalidate s c f)"
  "\<not> hx_execution_allowed (decide_late_result s c f)" "\<not> hx_execution_allowed (decide_decision s c f now)"
  by (simp_all add: decide_recover_def decide_observe_cancel_def decide_interrupt_def decide_invalidate_def
      decide_late_result_def decide_decision_def Let_def settlement_not_allowed split: option.split sum.split)

definition human_approved :: "Snapshot \<Rightarrow> CurrentFacts \<Rightarrow> bool" where
  "human_approved s f \<longleftrightarrow>
     sn_approval s = ApprovalStatus.APPROVED \<and> (\<exists>d ds. sn_decisions s = d # ds \<and> approver_current s f d)"

lemma approval_gate_None:
  "approval_gate s c f now = None \<longleftrightarrow> (fx_approval_required f \<longrightarrow> human_approved s f)"
  by (auto simp: approval_gate_def human_approved_def split: list.splits)

definition execution_guard :: "Snapshot \<Rightarrow> CurrentFacts \<Rightarrow> int \<Rightarrow> bool" where
  "execution_guard s f now \<longleftrightarrow>
     (dj_state (sn_job s) \<notin> TERMINAL_STATES \<and> \<not> truthy_opt (sn_interrupt_id s) \<and>
      sn_approval s \<notin> CLOSED_APPROVALS \<and> aq_binding (sn_request s) = sn_action s) \<and>
     (fx_policy_available f \<and> \<not> fx_policy_quarantined f \<and>
      fx_policy_id f = ab_policy_id (sn_action s) \<and> fx_policy_version f = ab_policy_version (sn_action s)) \<and>
     (fx_governance f = InvocationGovernanceStatus.ALLOWED_TO_DAY74_ADMISSION \<and>
      fx_business_valid f \<and> fx_admission_allowed f \<and> fx_budget_allowed f \<and> control_authz s f) \<and>
     (\<not> sn_dispatch_started s \<and> fx_certainty f = ExternalCertainty.DEFINITELY_NOT_DISPATCHED \<and> reservation_held s) \<and>
     (ab_risk (sn_action s) = Risk.HIGH \<longrightarrow> fx_approval_required f) \<and>
     (fx_approval_required f \<longrightarrow> now < aq_expires_at (sn_request s) \<and> human_approved s f)"

lemma gate_allowed:
  "hx_execution_allowed (decide_gate s c f now) \<longleftrightarrow>
     control_authz s f \<and> fx_governance f = InvocationGovernanceStatus.ALLOWED_TO_DAY74_ADMISSION \<and>
     fx_business_valid f \<and> fx_admission_allowed f \<and> fx_budget_allowed f \<and> \<not> sn_dispatch_started s \<and>
     fx_certainty f = ExternalCertainty.DEFINITELY_NOT_DISPATCHED \<and> reservation_held s \<and>
     approval_gate s c f now = None"
  unfolding decide_gate_def Let_def by (auto split: option.splits dest: approval_gate_not_allowed)

lemma current_allowed:
  "hx_execution_allowed (decide_current s c f now) \<longleftrightarrow>
     cm_operation c \<in> {Operation.GATE, Operation.LATE_RESULT} \<and> execution_guard s f now"
proof (cases "lifecycle_guard s c f now")
  case None
  have "execution_guard s f now \<longleftrightarrow> hx_execution_allowed (decide_gate s c f now)"
    using lifecycle_guard_None [of s c f now] None
    by (auto simp: gate_allowed approval_gate_None execution_guard_def)
  with None show ?thesis
    by (simp add: decide_current_def operations_not_allowed split: Operation.split)
next
  case (Some x)
  then have "\<not> execution_guard s f now"
    using lifecycle_guard_None [of s c f now] by (auto simp: execution_guard_def)
  with Some show ?thesis
    by (simp add: decide_current_def operations_not_allowed lifecycle_not_allowed split: Operation.split)
qed

lemma decide_allowed:
  "hx_execution_allowed (decide_human_control s c f now) \<longleftrightarrow>
     facts_valid s c now \<and> permitted (cm_actor c) (ab_tenant_id (sn_action s)) ''control'' \<and> binding_matches s \<and>
     cm_operation c = Operation.GATE \<and> human_command_current s c \<and> execution_guard s f now"
  unfolding decide_human_control_def
  by (auto simp: operations_not_allowed current_allowed dest: identity_not_allowed split: option.splits if_splits)

section \<open>The store as a machine\<close>

text \<open>
  Any candidate may be handed to \<open>apply\<close>, at any time and under any facts; workers try to dispatch
  in between.
\<close>

datatype HumanEvent =
    HumanApply HumanControlCandidate CurrentFacts int bool
  | HumanDispatch string Principal int CurrentFacts int "ActionBinding \<Rightarrow> unit res"

fun human_step :: "HumanEvent \<Rightarrow> HumanControlStore \<Rightarrow> HumanControlStore" where
  "human_step (HumanApply candidate facts now fail) store =
     (case human_apply store candidate facts now fail of Inl _ \<Rightarrow> store | Inr (_, store') \<Rightarrow> store')"
| "human_step (HumanDispatch event_id worker fence facts now effect) store =
     fst (snd (dispatch_once store event_id worker fence facts now effect))"

fun human_effects :: "HumanEvent \<Rightarrow> HumanControlStore \<Rightarrow> ActionBinding list" where
  "human_effects (HumanApply candidate facts now fail) store = []"
| "human_effects (HumanDispatch event_id worker fence facts now effect) store =
     snd (snd (dispatch_once store event_id worker fence facts now effect))"

fun human_trace :: "HumanEvent list \<Rightarrow> HumanControlStore \<Rightarrow> ActionBinding list" where
  "human_trace [] store = []"
| "human_trace (e # es) store = human_effects e store @ human_trace es (human_step e store)"

lemma checkpoint_id_eq: "DurableCheckpoint_post_init c = Inr c' \<longleftrightarrow> c' = c \<and> is_ok (DurableCheckpoint_post_init c)"
  by (auto simp: DurableCheckpoint_post_init_def split: if_splits)

text \<open>
  The two ways \<open>apply\<close> changes the store. In both the candidate is the decision on the current
  snapshot.
\<close>

definition commits ::
    "Snapshot \<Rightarrow> HumanControlCandidate \<Rightarrow> CurrentFacts \<Rightarrow> DurableAgentJobRecord \<Rightarrow> ReservationRecord list \<Rightarrow> bool" where
  "commits s x f next_job reservations \<longleftrightarrow>
     stage_recovery s x f = Inr (Some next_job) \<and>
     (if hx_reservation_action x = ReservationAction.RELEASE
      then definitely_unused s f \<and> map_res (release_unused s) (dj_reservations next_job) = Inr reservations
      else reservations = dj_reservations next_job)"

lemma human_apply_transition:
  assumes ap: "human_apply store x f now fail = Inr (status, store')"
    and None: "hs_commands store (cm_command_id (hx_command x)) = None"
    and fp: "hx_snapshot_fingerprint x = snapshot_digest (hs_snapshot store)"
    and dec: "decide_human_control (hs_snapshot store) (hx_command x) f now = x" and tr: "is_transition x"
  obtains (same) "store' = store" "status \<notin> {''AUDIT_ONLY'', ''APPLIED''}"
  | (commit) next_job reservations where "status = ''APPLIED''"
      "commits (hs_snapshot store) x f next_job reservations"
      "store' = record_command store x (control_commit (hs_snapshot store) x next_job reservations
         (control_checkpoint (hs_snapshot store) x next_job))"
proof -
  let ?s = "hs_snapshot store"
  note facts = ap None fp dec tr
  obtain staged where staged: "stage_recovery ?s x f = Inr staged"
    using facts
    by (cases "stage_recovery ?s x f") (auto simp: human_apply_def Let_def)
  show ?thesis
  proof (cases staged)
    case None': None
    with facts staged show ?thesis
      by (intro same) (auto simp: human_apply_def Let_def)
  next
    case (Some next_job)
    note staged' = staged [unfolded Some]
    show ?thesis
    proof (cases "hx_reservation_action x = ReservationAction.RELEASE")
      case rel: True
      show ?thesis
      proof (cases "definitely_unused ?s f")
        case True
        with facts staged' rel obtain reservations where
          "map_res (release_unused ?s) (dj_reservations next_job) = Inr reservations"
          by (cases "map_res (release_unused ?s) (dj_reservations next_job)")
            (auto simp: human_apply_def Let_def definitely_unused_def)
        with facts staged' rel True show ?thesis
          by (intro commit [of next_job reservations])
            (auto simp: human_apply_def Let_def definitely_unused_def bind_res_eq_Inr checkpoint_id_eq
              commits_def split: if_splits)
      next
        case False
        with facts staged' rel show ?thesis
          by (intro same) (auto simp: human_apply_def Let_def definitely_unused_def)
      qed
    next
      case rel: False
      with facts staged' show ?thesis
        by (intro commit [of next_job "dj_reservations next_job"])
          (auto simp: human_apply_def Let_def bind_res_eq_Inr checkpoint_id_eq commits_def split: if_splits)
    qed
  qed
qed

lemma human_apply_cases:
  assumes "human_apply store x f now fail = Inr (status, store')"
  obtains (same) "store' = store" "status \<notin> {''AUDIT_ONLY'', ''APPLIED''}"
  | (audit) "status = ''AUDIT_ONLY''" "hs_commands store (cm_command_id (hx_command x)) = None"
      "x = decide_human_control (hs_snapshot store) (hx_command x) f now" "\<not> is_transition x"
      "store' = record_command store x (audit_commit (hs_snapshot store) x)"
  | (commit) next_job reservations where
      "status = ''APPLIED''" "hs_commands store (cm_command_id (hx_command x)) = None"
      "x = decide_human_control (hs_snapshot store) (hx_command x) f now" "is_transition x"
      "commits (hs_snapshot store) x f next_job reservations"
      "store' = record_command store x (control_commit (hs_snapshot store) x next_job reservations
         (control_checkpoint (hs_snapshot store) x next_job))"
proof (cases "hs_commands store (cm_command_id (hx_command x))")
  case (Some previous)
  with assms show ?thesis by (intro same) (auto simp: human_apply_def Let_def split: if_splits)
next
  case None
  let ?s = "hs_snapshot store"
  show ?thesis
  proof (cases "hx_snapshot_fingerprint x \<noteq> snapshot_digest ?s \<or> decide_human_control ?s (hx_command x) f now \<noteq> x")
    case True
    with assms None show ?thesis by (intro same) (auto simp: human_apply_def Let_def split: if_splits)
  next
    case False
    then have dec: "x = decide_human_control ?s (hx_command x) f now"
      and fp: "hx_snapshot_fingerprint x = snapshot_digest ?s" by auto
    show ?thesis
    proof (cases "is_transition x")
      case tr: False
      with assms None fp dec [symmetric] show ?thesis
        by (intro audit) (auto simp: human_apply_def Let_def split: if_splits)
    next
      case tr: True
      show ?thesis
      proof (rule human_apply_transition [OF assms None fp dec [symmetric] tr], goal_cases)
        case 1
        then show ?thesis by (rule same)
      next
        case (2 next_job reservations)
        then show ?thesis by (rule commit [OF _ None dec tr])
      qed
    qed
  qed
qed

lemma dispatch_once_cases:
  obtains (same) "fst (snd (dispatch_once store event_id w fence f now effect)) = store"
      "snd (snd (dispatch_once store event_id w fence f now effect)) = []"
  | (claim) "\<not> dispatch_blocked_now (hs_snapshot store) event_id w fence now"
      "execution_guard (hs_snapshot store) f now"
      "permitted w (ab_tenant_id (sn_action (hs_snapshot store))) ''control''" "binding_matches (hs_snapshot store)"
      "fst (snd (dispatch_once store event_id w fence f now effect)) =
         store\<lparr>hs_snapshot := dispatch_claim (hs_snapshot store) event_id (dispatch_checkpoint (hs_snapshot store) event_id)\<rparr>"
      "snd (snd (dispatch_once store event_id w fence f now effect)) = [sn_action (hs_snapshot store)]"
proof (cases "dispatch_blocked_now (hs_snapshot store) event_id w fence now \<or>
    \<not> hx_execution_allowed (decide_human_control (hs_snapshot store)
        (dispatch_command (hs_snapshot store) event_id w fence) f now) \<or>
    \<not> is_ok (DurableCheckpoint_post_init (dispatch_checkpoint (hs_snapshot store) event_id))")
  case True
  then show ?thesis
    by (intro same) (auto simp: dispatch_once_def Let_def split: sum.splits)
next
  case False
  then obtain cp where cp: "DurableCheckpoint_post_init (dispatch_checkpoint (hs_snapshot store) event_id) = Inr cp"
    by (auto simp: is_ok_iff)
  then have "cp = dispatch_checkpoint (hs_snapshot store) event_id" by (simp add: checkpoint_id_eq)
  with False cp show ?thesis
    by (intro claim) (auto simp: dispatch_once_def Let_def decide_allowed dispatch_command_def)
qed

text \<open>One step, as a case distinction: nothing, evidence only, a committed candidate, or a claim.\<close>

lemma human_step_cases:
  obtains (same) "human_step e store = store" "human_effects e store = []"
  | (audit) x f now fail where "e = HumanApply x f now fail" "human_effects e store = []"
      "hs_commands store (cm_command_id (hx_command x)) = None"
      "x = decide_human_control (hs_snapshot store) (hx_command x) f now" "\<not> is_transition x"
      "human_step e store = record_command store x (audit_commit (hs_snapshot store) x)"
  | (commit) x f now fail next_job reservations where
      "e = HumanApply x f now fail" "human_effects e store = []"
      "hs_commands store (cm_command_id (hx_command x)) = None"
      "x = decide_human_control (hs_snapshot store) (hx_command x) f now"
      "commits (hs_snapshot store) x f next_job reservations"
      "human_step e store = record_command store x (control_commit (hs_snapshot store) x next_job reservations
         (control_checkpoint (hs_snapshot store) x next_job))"
  | (claim) event_id w fence f now effect where
      "e = HumanDispatch event_id w fence f now effect"
      "execution_guard (hs_snapshot store) f now"
      "human_step e store =
         store\<lparr>hs_snapshot := dispatch_claim (hs_snapshot store) event_id (dispatch_checkpoint (hs_snapshot store) event_id)\<rparr>"
      "human_effects e store = [sn_action (hs_snapshot store)]"
proof (cases e)
  case (HumanApply x f now fail)
  show ?thesis
  proof (cases "human_apply store x f now fail")
    case (Inl err)
    with HumanApply show ?thesis by (intro same) simp_all
  next
    case (Inr p)
    obtain status store' where p: "p = (status, store')" by (cases p)
    with HumanApply Inr have st: "human_step e store = store'" "human_effects e store = []" by simp_all
    from Inr [unfolded p] show ?thesis
      by (cases rule: human_apply_cases)
        (use st same audit [OF HumanApply] commit [OF HumanApply] in blast)+
  qed
next
  case (HumanDispatch event_id w fence f now effect)
  then show ?thesis
    by (cases rule: dispatch_once_cases [of store event_id w fence f now effect])
      (auto intro: same claim [OF HumanDispatch])
qed

section \<open>What a committed candidate does to the job\<close>

text \<open>The staged job: the record itself, or the record after the durable recovery.\<close>

lemma stage_None: "hx_recovery_candidate x = None \<Longrightarrow> stage_recovery s x f = Inr (Some j) \<Longrightarrow> j = sn_job s"
  by (simp add: stage_recovery_def Let_def)

lemma stage_Some:
  assumes "hx_recovery_candidate x = Some rc" and "stage_recovery s x f = Inr (Some j)"
  shows "dj_fence_token j = dj_fence_token (sn_job s) + 1 \<and>
    map_res (apply_reservation rc) (dj_reservations (sn_job s)) = Inr (dj_reservations j) \<and>
    dj_recovery_operations j = dj_recovery_operations (sn_job s) @ [recorded_recovery s x f]"
proof -
  obtain staged where ap: "durable_apply (DurableJobStore_init (sn_job s)) rc = Inr (RecoveryApplyStatus.APPLIED, staged)"
    and j: "j = (ds_record staged)
      \<lparr>dj_recovery_operations := dj_recovery_operations (sn_job s) @ [recorded_recovery s x f],
       dj_outbox_intents := dj_outbox_intents (sn_job s)\<rparr>"
    using assms by (auto simp: stage_recovery_def Let_def bind_res_eq_Inr split: if_splits)
  have rec: "ds_record (DurableJobStore_init (sn_job s)) = sn_job s" by (simp add: DurableJobStore_init_def)
  from durable_applied [OF ap, unfolded rec] obtain reservations where
    "map_res (apply_reservation rc) (dj_reservations (sn_job s)) = Inr reservations"
    "dj_fence_token (ds_record staged) = dj_fence_token (sn_job s) + 1" "dj_reservations (ds_record staged) = reservations"
    by (elim conjE exE) simp
  then show ?thesis unfolding j by simp
qed

lemma control_fence_mono:
  "stage_recovery s x f = Inr (Some j) \<Longrightarrow> dj_fence_token (sn_job s) \<le> control_fence s x j"
  using stage_Some [of x _ s f j] by (auto simp: control_fence_def)

text \<open>The reservations after a commit, one by one.\<close>

lemma post_init_id: "ReservationRecord_post_init r = Inr r' \<Longrightarrow> r' = r"
  by (simp add: ReservationRecord_post_init_def split: if_splits)

definition reservation_moves :: "ReservationRecord \<Rightarrow> ReservationRecord \<Rightarrow> bool" where
  "reservation_moves r r' \<longleftrightarrow>
     r' = r \<or> rs_status r = ReservationStatus.HELD \<and>
       (r' = r\<lparr>rs_status := ReservationStatus.RELEASED, rs_released_units := rs_reserved_units r\<rparr> \<or>
        (\<exists>u. 0 \<le> u \<and> u \<le> rs_reserved_units r \<and>
           r' = r\<lparr>rs_status := ReservationStatus.SETTLED, rs_settled_units := Some u,
                  rs_released_units := rs_reserved_units r - u\<rparr>))"

lemma release_unused_moves: "release_unused s r = Inr r' \<Longrightarrow> reservation_moves r r'"
  by (auto simp: release_unused_def reservation_moves_def dest!: post_init_id split: if_splits)

lemma settle_moves:
  assumes "recovery_sound s x rc" and "r \<in> set (dj_reservations (sn_job s))" and "apply_reservation rc r = Inr r'"
  shows "reservation_moves r r'"
proof (cases "rc_reservation_action rc = ReservationAction.SETTLE_VERIFIED \<and> rs_attempt_id r = ab_attempt_id (sn_action s)")
  case True
  with assms(1) obtain q u where
    q: "filter (\<lambda>r. rs_attempt_id r = ab_attempt_id (sn_action s)) (dj_reservations (sn_job s)) = [q]"
      "rs_status q = ReservationStatus.HELD" "rc_verified_usage_units rc = Some u" "0 \<le> u" "u \<le> rs_reserved_units q"
    and at: "rc_attempt_id rc = ab_attempt_id (sn_action s)"
    by (auto simp: recovery_sound_def)
  have "r \<in> set (filter (\<lambda>r. rs_attempt_id r = ab_attempt_id (sn_action s)) (dj_reservations (sn_job s)))"
    using True assms(2) by simp
  then have "r = q" unfolding q(1) by simp
  with True q at assms(3) show ?thesis
    by (auto simp: apply_reservation_def reservation_moves_def dest!: post_init_id)
next
  case False
  with assms(1,3) show ?thesis
    by (auto simp: apply_reservation_def recovery_sound_def reservation_moves_def split: if_splits)
qed

lemma commit_reservations:
  assumes "candidate_sound s c f x" and "commits s x f j rs"
  shows "list_all2 reservation_moves (dj_reservations (sn_job s)) rs"
proof (cases "hx_recovery_candidate x")
  case None
  with assms(2) have j: "j = sn_job s" by (auto simp: commits_def dest: stage_None)
  show ?thesis
  proof (cases "hx_reservation_action x = ReservationAction.RELEASE")
    case True
    with assms(2) j have m: "map_res (release_unused s) (dj_reservations (sn_job s)) = Inr rs"
      by (simp add: commits_def)
    from map_res_length [OF m] map_res_nth [OF m] show ?thesis
      by (auto simp: list_all2_conv_all_nth intro: release_unused_moves)
  next
    case False
    with assms(2) j show ?thesis
      by (simp add: commits_def list_all2_same reservation_moves_def)
  qed
next
  case (Some rc)
  with assms(1) have "hx_reservation_action x \<noteq> ReservationAction.RELEASE" and snd: "recovery_sound s x rc"
    by (auto simp: candidate_sound_def)
  with assms(2) have m: "map_res (apply_reservation rc) (dj_reservations (sn_job s)) = Inr rs"
    using stage_Some [OF Some, of s f j] by (auto simp: commits_def)
  from map_res_length [OF m] map_res_nth [OF m] show ?thesis
    by (auto simp: list_all2_conv_all_nth intro: settle_moves [OF snd])
qed

section \<open>Invariant\<close>

definition checkpoint_next :: "DurableCheckpoint \<Rightarrow> DurableCheckpoint \<Rightarrow> bool" where
  "checkpoint_next a b \<longleftrightarrow>
     dc_previous_checkpoint_id b = Some (dc_checkpoint_id a) \<and>
     dc_checkpoint_version b = dc_checkpoint_version a + 1 \<and>
     dc_state_version b = dc_state_version a + 1 \<and> dc_fence_token a \<le> dc_fence_token b"

fun linked :: "DurableCheckpoint list \<Rightarrow> bool" where
  "linked (a # b # cs) \<longleftrightarrow> checkpoint_next a b \<and> linked (b # cs)"
| "linked _ \<longleftrightarrow> True"

lemma linked_snoc: "linked (cs @ [a, b]) \<longleftrightarrow> linked (cs @ [a]) \<and> checkpoint_next a b"
  by (induction cs rule: linked.induct) auto

definition reservation_ok :: "ReservationRecord \<Rightarrow> bool" where
  "reservation_ok r \<longleftrightarrow>
     (case rs_status r of
        ReservationStatus.HELD \<Rightarrow> rs_settled_units r = None \<and> rs_released_units r = 0
      | ReservationStatus.SETTLED \<Rightarrow>
          (\<exists>u. rs_settled_units r = Some u \<and> 0 \<le> u \<and> 0 \<le> rs_released_units r \<and>
               u + rs_released_units r = rs_reserved_units r)
      | ReservationStatus.RELEASED \<Rightarrow> rs_settled_units r = None \<and> rs_released_units r = rs_reserved_units r)"

lemma reservation_moves_ok: "reservation_moves r r' \<Longrightarrow> reservation_ok r \<Longrightarrow> reservation_ok r'"
  by (auto simp: reservation_moves_def reservation_ok_def)

definition checkpoint_agrees :: "Snapshot \<Rightarrow> bool" where
  "checkpoint_agrees s \<longleftrightarrow>
     dc_authoritative_state (dj_current_checkpoint (sn_job s)) = dj_state (sn_job s) \<and>
     dc_state_version (dj_current_checkpoint (sn_job s)) = dj_state_version (sn_job s) \<and>
     dc_fence_token (dj_current_checkpoint (sn_job s)) = dj_fence_token (sn_job s) \<and>
     linked (sn_checkpoint_history s @ [dj_current_checkpoint (sn_job s)])"

definition approval_evidenced :: "Snapshot \<Rightarrow> bool" where
  "approval_evidenced s \<longleftrightarrow>
     length (sn_decisions s) \<le> 1 \<and> list_all (decision_admissible s) (sn_decisions s) \<and>
     (sn_approval s = ApprovalStatus.APPROVED \<longrightarrow>
        (\<exists>d. sn_decisions s = [d] \<and> de_choice d = ApprovalStatus.APPROVED))"

definition human_inv :: "HumanControlStore \<Rightarrow> bool" where
  "human_inv store \<longleftrightarrow>
     checkpoint_agrees (hs_snapshot store) \<and> approval_evidenced (hs_snapshot store) \<and>
     list_all reservation_ok (dj_reservations (sn_job (hs_snapshot store)))"

lemma record_command_simps [simp]:
  "hs_snapshot (record_command store x s) = s"
  "hs_commands (record_command store x s) = (hs_commands store)(cm_command_id (hx_command x) \<mapsto> hx_command x)"
  by (simp_all add: record_command_def)

lemma commit_checkpoint:
  assumes "checkpoint_agrees s" and "commits s x f j rs"
  shows "checkpoint_agrees (control_commit s x j rs (control_checkpoint s x j))"
proof -
  have "dj_fence_token (sn_job s) \<le> control_fence s x j"
    using assms(2) by (auto simp: commits_def intro: control_fence_mono)
  with assms(1) show ?thesis
    by (simp add: checkpoint_agrees_def control_commit_def control_checkpoint_def Let_def linked_snoc checkpoint_next_def)
qed

lemma admissible_cong:
  "sn_request s' = sn_request s \<Longrightarrow> sn_action s' = sn_action s \<Longrightarrow> decision_admissible s' = decision_admissible s"
  by (rule ext) (simp add: decision_admissible_def)

lemma commit_approval:
  assumes "approval_evidenced s" and "candidate_sound s (hx_command x) f x"
  shows "approval_evidenced (control_commit s x j rs cp)"
proof -
  let ?s = "control_commit s x j rs cp"
  have adm: "decision_admissible ?s = decision_admissible s"
    by (rule admissible_cong) (simp_all add: control_commit_def Let_def)
  show ?thesis
  proof (cases "hx_status x = ''DECISION_RECORDED''")
    case True
    with assms(2) obtain d where "sn_decisions s = []" "cm_decision (hx_command x) = Some d"
      "decision_admissible s d" "hx_approval_status x = de_choice d"
      by (auto simp: candidate_sound_def)
    then have "sn_decisions ?s = [d]" "sn_approval ?s = de_choice d" "decision_admissible s d"
      using True by (simp_all add: control_commit_def Let_def command_decisions_def)
    then show ?thesis by (simp add: approval_evidenced_def adm)
  next
    case False
    then have "sn_decisions ?s = sn_decisions s" "sn_approval ?s = hx_approval_status x"
      by (simp_all add: control_commit_def Let_def)
    moreover have "hx_approval_status x = ApprovalStatus.APPROVED \<longrightarrow> sn_approval s = ApprovalStatus.APPROVED"
      using assms(2) False by (simp add: candidate_sound_def)
    ultimately show ?thesis using assms(1) by (simp add: approval_evidenced_def adm)
  qed
qed

lemma moves_ok_all: "list_all2 reservation_moves xs ys \<Longrightarrow> list_all reservation_ok xs \<Longrightarrow> list_all reservation_ok ys"
  by (induction rule: list_all2_induct) (auto intro: reservation_moves_ok)

lemma step_reservations:
  "list_all2 reservation_moves (dj_reservations (sn_job (hs_snapshot store)))
     (dj_reservations (sn_job (hs_snapshot (human_step e store))))"
proof (cases rule: human_step_cases [of e store])
  case (commit x f now fail next_job reservations)
  have "candidate_sound (hs_snapshot store) (hx_command x) f x"
    by (subst commit(4)) (rule decide_sound)
  from commit_reservations [OF this commit(5)] commit(6) show ?thesis
    by (simp add: control_commit_def Let_def)
qed (simp_all add: audit_commit_def dispatch_claim_def list_all2_same reservation_moves_def)

lemma human_step_inv: "human_inv store \<Longrightarrow> human_inv (human_step e store)"
proof (cases rule: human_step_cases [of e store])
  case (audit x f now fail)
  assume inv: "human_inv store"
  let ?s' = "audit_commit (hs_snapshot store) x"
  have "decision_admissible ?s' = decision_admissible (hs_snapshot store)"
    by (rule admissible_cong) (simp_all add: audit_commit_def)
  with inv audit(6) show ?thesis
    by (simp add: human_inv_def checkpoint_agrees_def approval_evidenced_def) (simp add: audit_commit_def)
next
  case (commit x f now fail next_job reservations)
  assume inv: "human_inv store"
  have "candidate_sound (hs_snapshot store) (hx_command x) f x"
    by (subst commit(4)) (rule decide_sound)
  with inv commit(5,6) show ?thesis
    using moves_ok_all [OF step_reservations [of store e]]
    by (simp add: human_inv_def commit_checkpoint commit_approval)
next
  case (claim event_id w fence f now effect)
  assume inv: "human_inv store"
  let ?s = "hs_snapshot store" and ?s' = "dispatch_claim (hs_snapshot store) event_id (dispatch_checkpoint (hs_snapshot store) event_id)"
  have "decision_admissible ?s' = decision_admissible ?s"
    by (rule admissible_cong) (simp_all add: dispatch_claim_def)
  moreover have "checkpoint_agrees ?s'"
    using inv by (simp add: human_inv_def checkpoint_agrees_def dispatch_claim_def dispatch_checkpoint_def Let_def
        linked_snoc checkpoint_next_def)
  ultimately show ?thesis
    using inv claim(3) by (simp add: human_inv_def approval_evidenced_def) (simp add: dispatch_claim_def)
qed simp

lemma human_step_frame:
  "sn_action (hs_snapshot (human_step e store)) = sn_action (hs_snapshot store) \<and>
   sn_request (hs_snapshot (human_step e store)) = sn_request (hs_snapshot store)"
  by (cases rule: human_step_cases [of e store])
    (simp_all add: audit_commit_def control_commit_def dispatch_claim_def Let_def)

lemma human_step_fence:
  "dj_fence_token (sn_job (hs_snapshot store)) \<le> dj_fence_token (sn_job (hs_snapshot (human_step e store)))"
proof (cases rule: human_step_cases [of e store])
  case (commit x f now fail next_job reservations)
  then have "stage_recovery (hs_snapshot store) x f = Inr (Some next_job)" by (simp add: commits_def)
  from control_fence_mono [OF this] commit(6) show ?thesis by (simp add: control_commit_def Let_def)
qed (simp_all add: audit_commit_def dispatch_claim_def)

lemma human_step_terminal:
  assumes "dj_state (sn_job (hs_snapshot store)) \<in> TERMINAL_STATES"
  shows "dj_state (sn_job (hs_snapshot (human_step e store))) = dj_state (sn_job (hs_snapshot store))"
proof (cases rule: human_step_cases [of e store])
  case (commit x f now fail next_job reservations)
  have "candidate_sound (hs_snapshot store) (hx_command x) f x"
    by (subst commit(4)) (rule decide_sound)
  with assms commit(6) show ?thesis
    by (simp add: control_commit_def Let_def candidate_sound_def)
qed (simp_all add: audit_commit_def dispatch_claim_def)

interpretation human: fenced_machine human_step human_inv
  "\<lambda>store. dj_fence_token (sn_job (hs_snapshot store))"
  "\<lambda>store. dj_state (sn_job (hs_snapshot store)) \<in> TERMINAL_STATES"
  "\<lambda>store. dj_state (sn_job (hs_snapshot store))"
proof
  show "human_inv (human_step e s)" if "human_inv s" for s e using that by (rule human_step_inv)
  show "dj_fence_token (sn_job (hs_snapshot s)) \<le> dj_fence_token (sn_job (hs_snapshot (human_step e s)))" for s e
    by (rule human_step_fence)
  show "dj_state (sn_job (hs_snapshot (human_step e s))) \<in> TERMINAL_STATES \<and>
      dj_state (sn_job (hs_snapshot (human_step e s))) = dj_state (sn_job (hs_snapshot s))"
    if "dj_state (sn_job (hs_snapshot s)) \<in> TERMINAL_STATES" for s e
    using human_step_terminal [OF that, of e] that by simp
qed

fun human_key :: "HumanEvent \<Rightarrow> string option" where
  "human_key (HumanApply x f now fail) = Some (cm_command_id (hx_command x))"
| "human_key (HumanDispatch event_id w fence f now effect) = None"

interpretation human_replay: replay_machine human_step human_key "\<lambda>store. dom (hs_commands store)"
proof
  fix e k s
  assume k: "human_key e = Some k"
  then obtain x f now fail where e: "e = HumanApply x f now fail" and kx: "k = cm_command_id (hx_command x)"
    by (cases e) auto
  show "human_step e s = s" if "k \<in> dom (hs_commands s)"
    using that unfolding e kx by (auto simp: human_apply_def Let_def)
  show "k \<in> dom (hs_commands (human_step e s))" if "human_step e s \<noteq> s"
    by (cases rule: human_step_cases [of e s]) (use that e kx in \<open>auto simp del: human_step.simps\<close>)
next
  show "dom (hs_commands s) \<subseteq> dom (hs_commands (human_step e s))" for s e
    by (cases rule: human_step_cases [of e s]) auto
qed

end
