(* ===== verification/Human_Control_Safety.thy ===== *)
theory Human_Control_Safety
  imports Human_Control_Store
begin

text \<open>
  What human control guarantees of every run of the store: when a dispatch happens, that it happens
  at most once and never after a stop, that checkpoints form a chain, that reservations are settled
  or released once, and that an approval rests on one admissible decision.
\<close>

section \<open>Properties\<close>

text \<open>
  C7. A dispatch happens exactly when it is allowed now. \<open>dispatch_once\<close> calls the port either not at
  all or once with the bound action, and it calls it exactly when the worker holds the lease and
  the current fence for an unclaimed publish event and, at that moment, every guard holds: the job
  is open and not interrupted, the policy, governance, business, admission, budget and
  authorization facts agree, nothing was dispatched and the reservation is held, a high-risk action
  is under approval, and an action under approval carries an unexpired approval of this very
  binding by a currently permitted approver who is not the requester where separation is required.
\<close>

theorem dispatch_exactly_when_allowed:
  "let s = hs_snapshot store; c = dispatch_command s event_id w fence;
       calls = snd (snd (dispatch_once store event_id w fence f now effect)) in
     (calls = [] \<or> calls = [sn_action s]) \<and>
     (calls \<noteq> [] \<longleftrightarrow>
        \<not> dispatch_blocked_now s event_id w fence now \<and> facts_valid s c now \<and>
        permitted w (ab_tenant_id (sn_action s)) ''control'' \<and> binding_matches s \<and> execution_guard s f now \<and>
        is_ok (DurableCheckpoint_post_init (dispatch_checkpoint s event_id))) \<and>
     (calls \<noteq> [] \<longleftrightarrow> fst (snd (dispatch_once store event_id w fence f now effect)) \<noteq> store)"
proof -
  have "hs_snapshot store \<noteq> dispatch_claim (hs_snapshot store) event_id cp" for cp
  proof
    assume eq: "hs_snapshot store = dispatch_claim (hs_snapshot store) event_id cp"
    have "sn_claimed_events (hs_snapshot store) = sn_claimed_events (hs_snapshot store) @ [event_id]"
      by (subst (1) eq) (simp add: dispatch_claim_def)
    then show False by simp
  qed
  then have changed: "store\<lparr>hs_snapshot := dispatch_claim (hs_snapshot store) event_id cp\<rparr> \<noteq> store" for cp
    by (metis HumanControlStore.select_convs(1) HumanControlStore.surjective HumanControlStore.update_convs(1))
  have current: "human_command_current (hs_snapshot store) (dispatch_command (hs_snapshot store) event_id w fence)"
    if "\<not> dispatch_blocked_now (hs_snapshot store) event_id w fence now"
    using that by (simp add: human_command_current_def dispatch_command_def dispatch_blocked_now_def)
  have gate: "cm_operation (dispatch_command (hs_snapshot store) event_id w fence) = Operation.GATE"
    "cm_actor (dispatch_command (hs_snapshot store) event_id w fence) = w"
    by (simp_all add: dispatch_command_def)
  show ?thesis
    unfolding dispatch_once_def Let_def decide_allowed gate
    by (cases "DurableCheckpoint_post_init (dispatch_checkpoint (hs_snapshot store) event_id)")
      (auto simp: changed current)
qed

text \<open>
  C8. At most one dispatch: whatever candidates are applied and whatever workers try, in whatever
  order, the port is called at most once in the life of the store, with the action the snapshot
  started with, and never when a dispatch had already been claimed.
\<close>

theorem human_dispatch_at_most_once:
  "length (human_trace es store) \<le> 1 \<and> set (human_trace es store) \<subseteq> {sn_action (hs_snapshot store)} \<and>
   (human_trace es store = [] \<or> \<not> sn_dispatch_started (hs_snapshot store))"
proof (induction es arbitrary: store)
  case (Cons e es)
  note IH = Cons.IH [of "human_step e store"] and frame = human_step_frame [of e store]
  show ?case
  proof (cases rule: human_step_cases [of e store])
    case (audit x f now fail)
    with IH frame show ?thesis by (simp add: audit_commit_def)
  next
    case (commit x f now fail next_job reservations)
    with IH frame show ?thesis by (simp add: control_commit_def Let_def)
  next
    case (claim event_id w fence f now effect)
    have "human_trace es (human_step e store) = []"
      using IH claim(3) by (simp add: dispatch_claim_def)
    with claim show ?thesis by (simp add: execution_guard_def)
  qed (use IH frame in simp)
qed simp

definition human_stopped :: "Snapshot \<Rightarrow> bool" where
  "human_stopped s \<longleftrightarrow>
     dj_state (sn_job s) \<in> TERMINAL_STATES \<or> truthy_opt (sn_interrupt_id s) \<or>
     sn_approval s \<in> CLOSED_APPROVALS \<or> sn_dispatch_started s"

lemma human_step_stopped:
  assumes "human_stopped (hs_snapshot store)"
  shows "human_stopped (hs_snapshot (human_step e store)) \<and> human_effects e store = []"
proof (cases rule: human_step_cases [of e store])
  case (commit x f now fail next_job reservations)
  let ?s = "hs_snapshot store" and ?s' = "hs_snapshot (human_step e store)"
  have snd: "candidate_sound ?s (hx_command x) f x"
    by (subst commit(4)) (rule decide_sound)
  have eff: "dj_state (sn_job ?s') = hx_next_state x" "sn_approval ?s' = hx_approval_status x"
    "\<not> is_interrupting x \<longrightarrow> sn_interrupt_id ?s' = sn_interrupt_id ?s" "sn_dispatch_started ?s' = sn_dispatch_started ?s"
    unfolding commit(6) by (simp_all add: control_commit_def Let_def)
  have "dj_state (sn_job ?s) \<in> TERMINAL_STATES \<longrightarrow> dj_state (sn_job ?s') \<in> TERMINAL_STATES"
    "truthy_opt (sn_interrupt_id ?s) \<longrightarrow> truthy_opt (sn_interrupt_id ?s')"
    "sn_approval ?s \<in> CLOSED_APPROVALS \<longrightarrow> sn_approval ?s' \<in> CLOSED_APPROVALS"
    using snd eff unfolding candidate_sound_def by (metis, metis, metis)
  with assms eff(4) commit(2) show ?thesis unfolding human_stopped_def by blast
next
  case (claim event_id w fence f now effect)
  with assms show ?thesis by (simp add: human_stopped_def execution_guard_def)
qed (use assms in \<open>simp_all add: human_stopped_def audit_commit_def\<close>)

text \<open>
  A stop is permanent. Once the job is terminal, interrupted, its approval rejected, expired,
  revoked, superseded, cancelled or in conflict, or its dispatch claimed, no later command or worker
  can cause a dispatch, and the store stays stopped in the same sense.
\<close>

theorem human_stop_is_permanent:
  assumes "human_stopped (hs_snapshot store)"
  shows "human_trace es store = [] \<and> human_stopped (hs_snapshot (fold human_step es store))"
  using assms by (induction es arbitrary: store) (auto simp: human_step_stopped)

text \<open>
  Checkpoints of a job under human control: from a consistent snapshot, after any sequence of
  events the current checkpoint states the job's state, version and fence, and the history together
  with the current checkpoint is one chain, each entry naming its predecessor, with versions that
  grow by one and fences that never fall. A terminal job keeps its state.
\<close>

theorem human_checkpoint_chain:
  assumes "human_inv store" and "s = hs_snapshot (fold human_step es store)"
  shows "dc_authoritative_state (dj_current_checkpoint (sn_job s)) = dj_state (sn_job s) \<and>
    dc_state_version (dj_current_checkpoint (sn_job s)) = dj_state_version (sn_job s) \<and>
    dc_fence_token (dj_current_checkpoint (sn_job s)) = dj_fence_token (sn_job s) \<and>
    linked (sn_checkpoint_history s @ [dj_current_checkpoint (sn_job s)]) \<and>
    dj_fence_token (sn_job (hs_snapshot store)) \<le> dj_fence_token (sn_job s) \<and>
    (dj_state (sn_job (hs_snapshot store)) \<in> TERMINAL_STATES \<longrightarrow>
       dj_state (sn_job s) = dj_state (sn_job (hs_snapshot store)))"
  using human.run_inv [OF assms(1), of es] human.run_fence [OF assms(1), of es]
    human.run_terminal [OF assms(1), of es] assms(2)
  by (simp add: human_inv_def checkpoint_agrees_def)

lemma moves_trans: "reservation_moves a b \<Longrightarrow> reservation_moves b c \<Longrightarrow> reservation_moves a c"
  by (auto simp: reservation_moves_def)

lemma run_reservations:
  "list_all2 reservation_moves (dj_reservations (sn_job (hs_snapshot store)))
     (dj_reservations (sn_job (hs_snapshot (fold human_step es store))))"
proof (induction es arbitrary: store)
  case Nil
  show ?case by (simp add: list_all2_same reservation_moves_def)
next
  case (Cons e es)
  from list_all2_trans [OF moves_trans step_reservations [of store e] Cons.IH [of "human_step e store"]]
  show ?case by simp
qed

text \<open>
  Reservations under human control: whatever happens, no reservation appears, disappears or
  changes its identity, attempt or amount; one that is settled or released never changes again; and
  the units of each stay accounted for: all held, all released, or split exactly into the settled
  and the released part.
\<close>

theorem human_reservations_settled_once:
  assumes "human_inv store" and "i < length (dj_reservations (sn_job (hs_snapshot store)))"
  shows "let rs = dj_reservations (sn_job (hs_snapshot store));
             rs' = dj_reservations (sn_job (hs_snapshot (fold human_step es store))) in
    length rs' = length rs \<and> reservation_frame (rs' ! i) = reservation_frame (rs ! i) \<and>
    (rs_status (rs ! i) = ReservationStatus.HELD \<or> rs' ! i = rs ! i) \<and> reservation_ok (rs' ! i)"
proof -
  let ?rs = "dj_reservations (sn_job (hs_snapshot store))"
  let ?rs' = "dj_reservations (sn_job (hs_snapshot (fold human_step es store)))"
  note run = run_reservations [of store es]
  have len: "length ?rs' = length ?rs" using list_all2_lengthD [OF run] by simp
  have mv: "reservation_moves (?rs ! i) (?rs' ! i)" using run assms(2) by (simp add: list_all2_conv_all_nth)
  have "reservation_ok (?rs' ! i)"
    using human.run_inv [OF assms(1), of es] assms(2) len by (simp add: human_inv_def list_all_length)
  with mv len show ?thesis
    by (auto simp: Let_def reservation_moves_def reservation_frame_def)
qed

text \<open>
  C9. An approval always rests on one recorded human decision: in every reachable snapshot at most
  one decision is recorded, it chose approval or rejection, was made for this request and this
  action within the approval window and, where separation is required, by someone other than the
  requester; and the status is APPROVED only if that decision approved.
\<close>

theorem approval_rests_on_one_decision:
  assumes "human_inv store" and "s = hs_snapshot (fold human_step es store)"
  shows "length (sn_decisions s) \<le> 1 \<and>
    (\<forall>d \<in> set (sn_decisions s).
       de_choice d \<in> {ApprovalStatus.APPROVED, ApprovalStatus.REJECTED} \<and>
       de_request_id d = aq_request_id (sn_request s) \<and> de_binding_fingerprint d = action_digest (sn_action s) \<and>
       (aq_separation_required (sn_request s) \<longrightarrow> de_actor_id d \<noteq> ab_requester_id (sn_action s)) \<and>
       aq_requested_at (sn_request s) \<le> de_decided_at d \<and> de_decided_at d < aq_expires_at (sn_request s)) \<and>
    (sn_approval s = ApprovalStatus.APPROVED \<longrightarrow>
       (\<exists>d. sn_decisions s = [d] \<and> de_choice d = ApprovalStatus.APPROVED))"
  using human.run_inv [OF assms(1), of es] assms(2)
  by (simp add: human_inv_def approval_evidenced_def list_all_iff decision_admissible_def)

text \<open>
  A command is applied at most once, also when it is delivered again or under another candidate
  after any other events.
\<close>

lemma human_command_once:
  "human_key e = Some k \<Longrightarrow> human_key e' = Some k \<Longrightarrow> human_step e store \<noteq> store \<Longrightarrow>
     human_step e' (fold human_step es (human_step e store)) = fold human_step es (human_step e store)"
  by (rule human_replay.at_most_one_effect)

text \<open>A candidate that is applied as planned, without a recovery or release, takes effect.\<close>

lemma plan_applies:
  assumes "hs_commands store (cm_command_id c) = None" and x: "x = human_plan store c f now" and "is_transition x"
    and "hx_recovery_candidate x = None" and "hx_reservation_action x \<noteq> ReservationAction.RELEASE"
    and "is_ok (DurableCheckpoint_post_init (control_checkpoint (hs_snapshot store) x (sn_job (hs_snapshot store))))"
  shows "human_apply store x f now False =
    Inr (''APPLIED'', record_command store x (control_commit (hs_snapshot store) x (sn_job (hs_snapshot store))
      (dj_reservations (sn_job (hs_snapshot store))) (control_checkpoint (hs_snapshot store) x (sn_job (hs_snapshot store)))))"
proof -
  have s: "hx_command x = c" "hx_snapshot_fingerprint x = snapshot_digest (hs_snapshot store)"
    using decide_sound [of "hs_snapshot store" c f now] unfolding x human_plan_def by (simp_all add: candidate_sound_def)
  have d: "decide_human_control (hs_snapshot store) c f now = x" by (simp add: x human_plan_def)
  obtain cp where cp: "DurableCheckpoint_post_init (control_checkpoint (hs_snapshot store) x (sn_job (hs_snapshot store))) = Inr cp"
    using assms(6) by (auto simp: is_ok_iff)
  moreover have "cp = control_checkpoint (hs_snapshot store) x (sn_job (hs_snapshot store))"
    using cp by (simp add: checkpoint_id_eq)
  ultimately show ?thesis
    using assms(1,3,4,5) by (simp add: human_apply_def Let_def s d stage_recovery_def)
qed

section \<open>An approval that has expired keeps advancing the job\<close>

text \<open>
  A gate command on a snapshot whose approval is already EXPIRED changes no fact, yet its status is
  one of the transitions (it is not discarded as the other closed statuses are), so applying it
  advances the version, the checkpoint and the history.
\<close>

lemma expired_gate_is_transition:
  assumes "facts_valid s c now" and "permitted (cm_actor c) (ab_tenant_id (sn_action s)) ''control''"
    and "binding_matches s" and "human_command_current s c" and "cm_operation c = Operation.GATE"
    and "dj_state (sn_job s) \<notin> TERMINAL_STATES" and "\<not> truthy_opt (sn_interrupt_id s)"
    and "sn_approval s = ApprovalStatus.EXPIRED"
  shows "is_transition (decide_human_control s c f now) \<and>
    hx_approval_status (decide_human_control s c f now) = sn_approval s \<and>
    hx_next_state (decide_human_control s c f now) = dj_state (sn_job s)"
proof -
  have "decide_human_control s c f now = human_result s c f ''APPROVAL_EXPIRED''"
    using assms by (simp add: decide_human_control_def decide_current_def lifecycle_guard_def Let_def)
  with assms(5) show ?thesis by (simp add: is_transition_def transitions_for_def Let_def)
qed

section \<open>A concrete run\<close>

definition demo_principal :: "string \<Rightarrow> Principal" where
  "demo_principal who = \<lparr>pn_tenant_id = ''t'', pn_actor_id = who, pn_role = ''lead'', pn_authenticated = True,
     pn_permissions = [''control'', ''approve'', ''operate'', ''interrupt'', ''send'']\<rparr>"

definition demo_action :: ActionBinding where
  "demo_action = \<lparr>ab_tenant_id = ''t'', ab_job_id = ''j'', ab_step_id = ''s'', ab_attempt_id = ''a'',
     ab_operation_id = ''o'', ab_action_type = ''send'', ab_tool_name = ''mail'', ab_tool_version = ''1'',
     ab_arguments_fingerprint = ''g'', ab_artifact_id = ''d'', ab_artifact_version = ''7'', ab_requester_id = ''rq'',
     ab_policy_id = ''p'', ab_policy_version = ''1'', ab_risk = Risk.HIGH,
     ab_execution_binding_fingerprint = fingerprint (json_bindings (dc_bindings demo_checkpoint))\<rparr>"

definition demo_snapshot :: Snapshot where
  "demo_snapshot = \<lparr>sn_job = demo_job, sn_action = demo_action,
     sn_request = \<lparr>aq_request_id = ''q'', aq_binding = demo_action, aq_requested_at = 0, aq_respond_by = 50,
       aq_expires_at = 80, aq_eligible_roles = [''lead''], aq_separation_required = True,
       aq_issued_state_version = 0, aq_issued_fence = 0, aq_supersedes = None\<rparr>,
     sn_approval = ApprovalStatus.PENDING, sn_decisions = [], sn_decision_evidence = [], sn_interrupt_id = None,
     sn_cancellation_observed_by = [], sn_dispatch_started = False, sn_claimed_events = [],
     sn_escalations = [], sn_checkpoint_history = []\<rparr>"

definition demo_control_facts :: CurrentFacts where
  "demo_control_facts = \<lparr>fx_executor = demo_principal ''rq'', fx_approver = demo_principal ''boss'',
     fx_policy_available = True, fx_policy_id = ''p'', fx_policy_version = ''1'', fx_policy_quarantined = False,
     fx_approval_required = True, fx_governance = InvocationGovernanceStatus.ALLOWED_TO_DAY74_ADMISSION,
     fx_admission_allowed = True, fx_business_valid = True, fx_budget_allowed = True,
     fx_certainty = ExternalCertainty.DEFINITELY_NOT_DISPATCHED, fx_recovery = demo_recovery,
     fx_policy_wait_deadline = 100, fx_owner = demo_principal ''op'', fx_fallback_owner = demo_principal ''op2'',
     fx_owner_available = True, fx_escalation_deadline = 200, fx_verified_usage = None, fx_outcome_evidence_id = None\<rparr>"

definition demo_decision :: ApprovalDecision where
  "demo_decision = \<lparr>de_decision_id = ''d1'', de_request_id = ''q'', de_binding_fingerprint = action_digest demo_action,
     de_actor_id = ''boss'', de_tenant_id = ''t'', de_choice = ApprovalStatus.APPROVED, de_decided_at = 2,
     de_reason_code = ''ok''\<rparr>"

definition demo_control_command :: "string \<Rightarrow> Operation \<Rightarrow> string \<Rightarrow> ApprovalDecision option \<Rightarrow> Command" where
  "demo_control_command cid op who d = \<lparr>cm_command_id = cid, cm_operation = op, cm_actor = demo_principal who,
     cm_expected_state = AgentState.RUNNING, cm_expected_state_version = 0, cm_expected_fence = 0,
     cm_decision = d, cm_invalidate_to = None, cm_evidence_id = None, cm_source_attempt_id = None,
     cm_source_operation_id = None, cm_source_fence = None\<rparr>"

definition demo_human_store :: HumanControlStore where
  "demo_human_store = HumanControlStore_init demo_snapshot"

definition demo_human_event :: "Command \<Rightarrow> HumanEvent" where
  "demo_human_event c = HumanApply (human_plan demo_human_store c demo_control_facts 3) demo_control_facts 3 False"

definition demo_approve :: Command where
  "demo_approve = demo_control_command ''c1'' Operation.DECISION ''boss'' (Some demo_decision)"

lemmas demo_human_defs = demo_human_store_def HumanControlStore_init_def demo_snapshot_def demo_job_def
  demo_action_def demo_control_command_def demo_principal_def demo_control_facts_def

lemma truthy_fingerprint [simp]: "fingerprint v \<noteq> []"
  using length_sha256_hexdigest [of "json_dumps v"] by (auto simp: fingerprint_def)

lemma demo_valid [simp]:
  "facts_valid demo_snapshot (demo_control_command (x # xs) op who d) 3"
  "permitted (demo_principal who) ''t'' ''control''" "permitted (demo_principal who) ''t'' ''approve''"
  "permitted (demo_principal who) ''t'' ''interrupt''" "binding_matches demo_snapshot"
  "human_command_current demo_snapshot (demo_control_command cid op who d)"
  by (simp_all add: facts_valid_def permitted_def binding_matches_def human_command_current_def demo_human_defs
      action_strings_def all_truthy_def truthy_def)

lemma demo_human_inv: "human_inv demo_human_store"
  by (simp add: human_inv_def checkpoint_agrees_def approval_evidenced_def reservation_ok_def demo_human_defs
      demo_checkpoint_def)

lemma demo_store_simps [simp]:
  "hs_snapshot demo_human_store = demo_snapshot" "hs_commands demo_human_store = Map.empty" "sn_job demo_snapshot = demo_job"
  by (simp_all add: demo_human_store_def HumanControlStore_init_def demo_snapshot_def)

lemma demo_control_checkpoint_ok:
  "hx_recovery_candidate x = None \<Longrightarrow> is_ok (DurableCheckpoint_post_init (control_checkpoint demo_snapshot x demo_job))"
  by (simp add: control_checkpoint_def DurableCheckpoint_post_init_def Let_def control_fence_def demo_job_def
      demo_checkpoint_def all_truthy_def truthy_def)

lemma demo_approved:
  "sn_approval (hs_snapshot (human_step (demo_human_event demo_approve) demo_human_store)) = ApprovalStatus.APPROVED"
proof -
  let ?c = "demo_control_command ''c1'' Operation.DECISION ''boss'' (Some demo_decision)"
  let ?x = "decide_human_control demo_snapshot ?c demo_control_facts 3"
  have c: "cm_decision ?c = Some demo_decision" "cm_operation ?c = Operation.DECISION"
    "cm_actor ?c = demo_principal ''boss''" "cm_command_id ?c = ''c1''"
    by (simp_all add: demo_control_command_def)
  have id: "decision_identity demo_snapshot ?c demo_control_facts 3 = None"
    unfolding decision_identity_def c
    by (simp add: demo_decision_def demo_snapshot_def demo_control_facts_def demo_action_def truthy_def)
      (simp add: demo_principal_def)
  have lg: "lifecycle_guard demo_snapshot ?c demo_control_facts 3 = None"
    unfolding lifecycle_guard_None
    by (simp add: demo_human_defs TERMINAL_STATES_def truthy_opt_def CLOSED_APPROVALS_def)
  have tenant: "ab_tenant_id (sn_action demo_snapshot) = ''t''" by (simp add: demo_snapshot_def demo_action_def)
  have x: "?x = (human_result demo_snapshot ?c demo_control_facts ''DECISION_RECORDED'')
      \<lparr>hx_approval_status := ApprovalStatus.APPROVED, hx_evidence := [''human_decision_not_dispatch'']\<rparr>"
    unfolding decide_human_control_def decide_current_def c tenant
    by (simp add: id lg)
      (simp add: decide_decision_def Let_def c, simp add: demo_decision_def demo_human_defs control_sod_def)
  have "human_apply demo_human_store ?x demo_control_facts 3 False =
      Inr (''APPLIED'', record_command demo_human_store ?x (control_commit demo_snapshot ?x demo_job
        (dj_reservations demo_job) (control_checkpoint demo_snapshot ?x demo_job)))"
    using plan_applies [of demo_human_store ?c ?x demo_control_facts 3]
    unfolding human_plan_def demo_store_simps c
    by (simp add: x is_transition_def transitions_for_def c demo_control_checkpoint_ok)
  then show ?thesis
    by (simp add: demo_human_event_def demo_approve_def human_plan_def demo_store_simps control_commit_def Let_def x)
qed

text \<open>The approved action with its publish event, ready for the worker that holds the lease.\<close>

definition demo_ready :: HumanControlStore where
  "demo_ready = HumanControlStore_init (demo_snapshot
     \<lparr>sn_approval := ApprovalStatus.APPROVED, sn_decisions := [demo_decision],
      sn_job := demo_job\<lparr>dj_outbox_intents := [\<lparr>oi_event_id = ''e'', oi_job_id = ''j'', oi_step_id = ''s'',
        oi_attempt_id = ''a'', oi_event_type = ''PUBLISH'', oi_published_at_epoch_ms = None\<rparr>]\<rparr>\<rparr>)"

definition demo_dispatch :: HumanEvent where
  "demo_dispatch = HumanDispatch ''e'' (demo_principal ''w0'') 0 demo_control_facts 3 (\<lambda>_. Inr ())"

lemma demo_dispatch_effect: "human_effects demo_dispatch demo_ready = [demo_action]"
proof -
  let ?s = "hs_snapshot demo_ready" and ?w = "demo_principal ''w0''"
  have guard: "execution_guard ?s demo_control_facts 3"
    by (simp add: execution_guard_def human_approved_def approver_current_def control_sod_def control_authz_def
        reservation_held_def permitted_def truthy_opt_def TERMINAL_STATES_def demo_ready_def demo_decision_def demo_human_defs)
  have valid: "facts_valid ?s (dispatch_command ?s ''e'' ?w 0) 3" "binding_matches ?s"
    "human_command_current ?s (dispatch_command ?s ''e'' ?w 0)"
    by (simp_all add: facts_valid_def binding_matches_def human_command_current_def dispatch_command_def demo_ready_def
        demo_human_defs action_strings_def all_truthy_def truthy_def)
  have free: "\<not> dispatch_blocked_now ?s ''e'' ?w 0 3"
    by (simp add: dispatch_blocked_now_def demo_ready_def demo_human_defs)
  have cp: "is_ok (DurableCheckpoint_post_init (dispatch_checkpoint ?s ''e''))"
    by (simp add: dispatch_checkpoint_def DurableCheckpoint_post_init_def Let_def demo_ready_def demo_human_defs
        demo_checkpoint_def all_truthy_def truthy_def)
  have op: "cm_operation (dispatch_command ?s ''e'' ?w 0) = Operation.GATE" "cm_actor (dispatch_command ?s ''e'' ?w 0) = ?w"
    "ab_tenant_id demo_action = ''t''" "sn_action ?s = demo_action"
    by (simp_all add: dispatch_command_def demo_ready_def demo_human_defs)
  show ?thesis
    using guard valid free cp
    by (auto simp: demo_dispatch_def dispatch_once_def Let_def decide_allowed op is_ok_iff)
qed

theorem human_dispatch_at_most_once_witness: "human_trace [demo_dispatch, demo_dispatch] demo_ready = [demo_action]"
  using human_dispatch_at_most_once [of "[demo_dispatch, demo_dispatch]" demo_ready] demo_dispatch_effect
  by (simp del: human_effects.simps human_step.simps)

theorem human_stop_is_permanent_witness:
  "human_trace [HumanDispatch ''e'' (demo_principal ''w0'') 0 demo_control_facts 3 (\<lambda>_. Inr ())]
     (demo_human_store\<lparr>hs_snapshot := demo_snapshot\<lparr>sn_approval := ApprovalStatus.REVOKED\<rparr>\<rparr>) = []"
  using human_stop_is_permanent [of "demo_human_store\<lparr>hs_snapshot := demo_snapshot\<lparr>sn_approval := ApprovalStatus.REVOKED\<rparr>\<rparr>"]
  by (simp add: human_stopped_def del: human_trace.simps)

theorem human_checkpoint_chain_witness:
  "let s = hs_snapshot (fold human_step [demo_human_event demo_approve] demo_human_store) in
     linked (sn_checkpoint_history s @ [dj_current_checkpoint (sn_job s)])"
  using human_checkpoint_chain [OF demo_human_inv refl, of "[demo_human_event demo_approve]"]
  by (simp add: Let_def del: human_step.simps)

theorem human_reservations_settled_once_witness:
  "reservation_ok (dj_reservations (sn_job (hs_snapshot (fold human_step [demo_human_event demo_approve] demo_human_store))) ! 0)"
proof -
  have "0 < length (dj_reservations (sn_job (hs_snapshot demo_human_store)))"
    by (simp add: demo_human_defs)
  from human_reservations_settled_once [OF demo_human_inv this, of "[demo_human_event demo_approve]"]
  show ?thesis by (simp add: Let_def del: human_step.simps)
qed

theorem approval_rests_on_one_decision_witness:
  "\<exists>d. sn_decisions (hs_snapshot (fold human_step [demo_human_event demo_approve] demo_human_store)) = [d] \<and>
       de_choice d = ApprovalStatus.APPROVED"
  using approval_rests_on_one_decision [OF demo_human_inv refl, of "[demo_human_event demo_approve]"] demo_approved
  by (simp del: human_step.simps)

end
