(* ===== verification/Unicode_Text.thy ===== *)
theory Unicode_Text
  imports Sha256 Json
begin

text \<open>
  Python text as the RAG components use it: sequences of code points that are indexed, sliced,
  stripped, split into lines and encoded. Identifiers elsewhere stay byte strings; document text is
  a \<open>utext\<close>, a list of code points. Canonical texts are decoded from UTF-8, so they contain no
  surrogates and every one of them can be encoded.
\<close>

type_synonym utext = "nat list"

text \<open>The code points for which \<open>str.isspace\<close> holds; they are also the ones \<open>\s\<close> matches.\<close>

definition is_space :: "nat \<Rightarrow> bool" where
  "is_space c \<longleftrightarrow>
     9 \<le> c \<and> c \<le> 13 \<or> 28 \<le> c \<and> c \<le> 32 \<or> c = 133 \<or> c = 160 \<or> c = 5760 \<or>
     8192 \<le> c \<and> c \<le> 8202 \<or> c = 8232 \<or> c = 8233 \<or> c = 8239 \<or> c = 8287 \<or> c = 12288"

text \<open>\<open>[A-Za-z0-9_]\<close>.\<close>

definition is_word :: "nat \<Rightarrow> bool" where
  "is_word c \<longleftrightarrow> 48 \<le> c \<and> c \<le> 57 \<or> 65 \<le> c \<and> c \<le> 90 \<or> c = 95 \<or> 97 \<le> c \<and> c \<le> 122"

lemma word_not_space: "is_word c \<Longrightarrow> \<not> is_space c"
  by (auto simp: is_word_def is_space_def)

text \<open>\<open>text[a:b]\<close> for non-negative bounds.\<close>

definition slice :: "nat \<Rightarrow> nat \<Rightarrow> 'a list \<Rightarrow> 'a list" where
  "slice a b xs = take (b - a) (drop a xs)"

definition lstrip :: "utext \<Rightarrow> utext" where
  "lstrip t = dropWhile is_space t"

definition rstrip :: "utext \<Rightarrow> utext" where
  "rstrip t = rev (dropWhile is_space (rev t))"

text \<open>\<open>line.rstrip("\r\n")\<close>.\<close>

definition rstrip_newlines :: "utext \<Rightarrow> utext" where
  "rstrip_newlines t = rev (dropWhile (\<lambda>c. c = 10 \<or> c = 13) (rev t))"

text \<open>The line boundaries of \<open>str.splitlines\<close>; \<open>\r\n\<close> is one boundary.\<close>

definition is_line_break :: "nat \<Rightarrow> bool" where
  "is_line_break c \<longleftrightarrow> 10 \<le> c \<and> c \<le> 13 \<or> 28 \<le> c \<and> c \<le> 30 \<or> c = 133 \<or> c = 8232 \<or> c = 8233"

text \<open>One line with its terminator, and the rest of the text.\<close>

fun take_line :: "utext \<Rightarrow> utext \<times> utext" where
  "take_line [] = ([], [])"
| "take_line (c # cs) =
     (if c = 13 then (case cs of d # ds \<Rightarrow> if d = 10 then ([13, 10], ds) else ([13], cs) | [] \<Rightarrow> ([13], []))
      else if is_line_break c then ([c], cs)
      else (case take_line cs of (l, r) \<Rightarrow> (c # l, r)))"

lemma take_line_append: "fst (take_line t) @ snd (take_line t) = t"
proof (induction t rule: take_line.induct)
  case (2 c cs)
  show ?case
  proof (cases "c = 13 \<or> is_line_break c")
    case True
    then show ?thesis by (cases cs) auto
  next
    case False
    with 2 show ?thesis by (simp add: split_beta)
  qed
qed simp

lemma take_line_nonempty: "fst (take_line (c # cs)) \<noteq> []"
  by (cases cs) (simp_all add: split_beta)

lemma take_line_shorter: "length (snd (take_line (c # cs))) \<le> length cs"
proof -
  have "length (fst (take_line (c # cs))) + length (snd (take_line (c # cs))) = Suc (length cs)"
    by (metis take_line_append length_append length_Cons)
  moreover have "0 < length (fst (take_line (c # cs)))" using take_line_nonempty [of c cs] by blast
  ultimately show ?thesis by linarith
qed

declare take_line.simps [simp del]

text \<open>\<open>splitlines(keepends=True)\<close>.\<close>

function splitlines_keepends :: "utext \<Rightarrow> utext list" where
  "splitlines_keepends [] = []"
| "splitlines_keepends (c # cs) = fst (take_line (c # cs)) # splitlines_keepends (snd (take_line (c # cs)))"
  by pat_completeness auto
termination
  by (relation "measure length") (simp_all add: take_line_shorter less_Suc_eq_le)

lemma concat_splitlines: "concat (splitlines_keepends t) = t"
  by (induction t rule: splitlines_keepends.induct) (simp_all add: take_line_append)

lemma splitlines_nonempty: "l \<in> set (splitlines_keepends t) \<Longrightarrow> l \<noteq> []"
  by (induction t rule: splitlines_keepends.induct) (auto simp: take_line_nonempty take_line_nonempty [symmetric])

text \<open>\<open>text.count("```")\<close>: non-overlapping occurrences.\<close>

fun count_fences :: "utext \<Rightarrow> nat" where
  "count_fences (a # b # c # t) =
     (if a = 96 \<and> b = 96 \<and> c = 96 then Suc (count_fences t) else count_fences (b # c # t))"
| "count_fences _ = 0"

text \<open>\<open>"\n".join(parts)\<close> for texts.\<close>

fun ujoin :: "utext \<Rightarrow> utext list \<Rightarrow> utext" where
  "ujoin sep [] = []"
| "ujoin sep [p] = p"
| "ujoin sep (p # q # ps) = p @ sep @ ujoin sep (q # ps)"

section \<open>Encoding\<close>

definition utf8_char :: "nat \<Rightarrow> string" where
  "utf8_char c = map char_of
     (if c < 128 then [c]
      else if c < 2048 then [192 + c div 64, 128 + c mod 64]
      else if c < 65536 then [224 + c div 4096, 128 + c div 64 mod 64, 128 + c mod 64]
      else [240 + c div 262144, 128 + c div 4096 mod 64, 128 + c div 64 mod 64, 128 + c mod 64])"

definition utf8_encode :: "utext \<Rightarrow> string" where
  "utf8_encode t = concat (map utf8_char t)"

text \<open>
  \<open>text.encode("utf-8")\<close>: the strict encoder refuses a code point in the surrogate range. No caller
  below catches the exception, a \<open>ValueError\<close>, on the paths that encode document text.
\<close>

definition surrogate :: "nat \<Rightarrow> bool" where
  "surrogate c \<longleftrightarrow> 55296 \<le> c \<and> c \<le> 57343"

definition encodable :: "utext \<Rightarrow> bool" where
  "encodable t \<longleftrightarrow> list_all (\<lambda>c. \<not> surrogate c) t"

definition encode_utf8 :: "utext \<Rightarrow> string res" where
  "encode_utf8 t = (if encodable t then Inr (utf8_encode t) else Inl UnicodeEncodeError)"

definition sha256_text :: "utext \<Rightarrow> string res" where
  "sha256_text t = bind_res (encode_utf8 t) (\<lambda>encoded. Inr (''sha256:'' @ sha256_hexdigest encoded))"

text \<open>The checksum of a text that has one.\<close>

definition text_checksum :: "utext \<Rightarrow> string" where
  "text_checksum t = ''sha256:'' @ sha256_hexdigest (utf8_encode t)"

lemma sha256_text_eq: "sha256_text t = (if encodable t then Inr (text_checksum t) else Inl UnicodeEncodeError)"
  by (simp add: sha256_text_def encode_utf8_def text_checksum_def)

lemma sha256_text_Inr: "sha256_text t = Inr h \<longleftrightarrow> encodable t \<and> h = text_checksum t"
  by (auto simp: sha256_text_eq)

lemma sha256_text_Inl: "sha256_text t = Inl e \<longleftrightarrow> \<not> encodable t \<and> e = UnicodeEncodeError"
  by (auto simp: sha256_text_eq)

lemma encodable_simps [simp]:
  "encodable []" "encodable (c # t) \<longleftrightarrow> \<not> surrogate c \<and> encodable t" "encodable (t @ u) \<longleftrightarrow> encodable t \<and> encodable u"
  by (simp_all add: encodable_def)

lemma encodable_subset: "set t \<subseteq> set u \<Longrightarrow> encodable u \<Longrightarrow> encodable t"
  by (auto simp: encodable_def list_all_iff)

lemma encodable_slice: "encodable t \<Longrightarrow> encodable (slice a b t)"
  using set_take_subset [of "b - a" "drop a t"] set_drop_subset [of a t]
  by (intro encodable_subset [of "slice a b t" t]) (auto simp: slice_def)

text \<open>Decoding inverts encoding for every code point.\<close>

lemma byte_of_char_of: "n < 256 \<Longrightarrow> byte_of (char_of n) = n"
  by (simp add: byte_of_def)

lemma base64_3: "c div 4096 * 4096 + c div 64 mod 64 * 64 + c mod 64 = (c :: nat)"
proof -
  have "c div 4096 * 64 + c div 64 mod 64 = c div 64"
    using div_mult_mod_eq [of "c div 64" 64] by (simp add: div_mult2_eq [symmetric])
  then have "(c div 4096 * 64 + c div 64 mod 64) * 64 + c mod 64 = c"
    using div_mult_mod_eq [of c 64] by simp
  then show ?thesis by (simp add: add_mult_distrib)
qed

lemma base64_4: "c div 262144 * 262144 + c div 4096 mod 64 * 4096 + c div 64 mod 64 * 64 + c mod 64 = (c :: nat)"
proof -
  have "c div 262144 * 64 + c div 4096 mod 64 = c div 4096"
    using div_mult_mod_eq [of "c div 4096" 64] by (simp add: div_mult2_eq [symmetric])
  then have "(c div 262144 * 64 + c div 4096 mod 64) * 4096 + c div 64 mod 64 * 64 + c mod 64 = c"
    using base64_3 [of c] by simp
  then show ?thesis by (simp add: add_mult_distrib)
qed

lemma utf8_decode_char:
  assumes "c < 1114112"
  shows "utf8_decode (utf8_char c @ rest) = c # utf8_decode rest"
proof -
  consider "c < 128" | "128 \<le> c" "c < 2048" | "2048 \<le> c" "c < 65536" | "65536 \<le> c" "c < 1114112"
    using assms by linarith
  then show ?thesis
  proof cases
    case 1
    then show ?thesis by (simp add: utf8_char_def byte_of_char_of)
  next
    case 2
    then have "c div 64 < 32" by simp
    with 2 show ?thesis by (simp add: utf8_char_def byte_of_char_of)
  next
    case 3
    then have "c div 4096 < 16" by simp
    moreover have "c div 4096 * 4096 + c div 64 mod 64 * 64 + c mod 64 = c"
      by (rule base64_3)
    ultimately show ?thesis using 3 by (simp add: utf8_char_def byte_of_char_of)
  next
    case 4
    then have "c div 262144 < 5" by simp
    moreover have "c div 262144 * 262144 + c div 4096 mod 64 * 4096 + c div 64 mod 64 * 64 + c mod 64 = c"
      by (rule base64_4)
    ultimately show ?thesis using 4 by (simp add: utf8_char_def byte_of_char_of)
  qed
qed

lemma utf8_roundtrip: "\<forall>c \<in> set t. c < 1114112 \<Longrightarrow> utf8_decode (utf8_encode t) = t"
  by (induction t) (simp_all add: utf8_encode_def utf8_decode_char)

end
