(* ===== verification/Rag_Contracts.thy ===== *)
theory Rag_Contracts
  imports Unicode_Text
begin

text \<open>
  \<^verbatim>\<open>src/projects/ai-agent/src/rag_ingestion_contracts.py\<close>: identities, source evidence, parse manifests and
  the validation of a parser's candidate; the lifecycle records of
  \<^verbatim>\<open>rag_ingestion_committer.py\<close> that later stages read; and the eligibility of a document version for
  chunking, \<^verbatim>\<open>rag_document_lifecycle.py\<close>.
\<close>

section \<open>Identities and evidence\<close>

text \<open>\<open>all(value.strip() for value in values)\<close>.\<close>

definition non_blank :: "string \<Rightarrow> bool" where
  "non_blank v \<longleftrightarrow> list_ex (\<lambda>c. \<not> is_space c) (utf8_decode v)"

definition require_non_empty :: "string list \<Rightarrow> 'a \<Rightarrow> 'a res" where
  "require_non_empty values x =
     (if \<not> list_all non_blank values then Inl (ValueError ''identity and contract values must not be empty'')
      else Inr x)"

datatype DocumentHeadState = REGISTERED | ACTIVE | TOMBSTONED

datatype CandidateValidationOutcome =
  READY_FOR_COMMIT | CORRELATION_CONFLICT | MANIFEST_BINDING_CONFLICT | SOURCE_CHECKSUM_CONFLICT
| STRUCTURE_INVALID | OUTPUT_CHECKSUM_CONFLICT

record DocumentIdentity =
  di_tenant_id :: string
  di_document_id :: string

definition DocumentIdentity_post_init :: "DocumentIdentity \<Rightarrow> DocumentIdentity res" where
  "DocumentIdentity_post_init d = require_non_empty [di_tenant_id d, di_document_id d] d"

record DocumentVersionIdentity =
  vi_tenant_id :: string
  vi_document_id :: string
  vi_document_version_id :: string

definition DocumentVersionIdentity_post_init :: "DocumentVersionIdentity \<Rightarrow> DocumentVersionIdentity res" where
  "DocumentVersionIdentity_post_init v =
     require_non_empty [vi_tenant_id v, vi_document_id v, vi_document_version_id v] v"

text \<open>
  The property constructs a \<open>DocumentIdentity\<close>, whose check passes because the version's own check
  has passed on the same values.
\<close>

definition vi_document :: "DocumentVersionIdentity \<Rightarrow> DocumentIdentity" where
  "vi_document v = \<lparr>di_tenant_id = vi_tenant_id v, di_document_id = vi_document_id v\<rparr>"

lemma vi_document_constructs:
  "DocumentVersionIdentity_post_init v = Inr v \<Longrightarrow> DocumentIdentity_post_init (vi_document v) = Inr (vi_document v)"
  by (simp add: DocumentVersionIdentity_post_init_def DocumentIdentity_post_init_def require_non_empty_def vi_document_def
      split: if_splits)

record DocumentHeadSnapshot =
  dh_identity :: DocumentIdentity
  dh_state :: DocumentHeadState
  dh_active_version_id :: "string option"
  dh_state_version :: int
  dh_fence_token :: int

definition opt_nonempty :: "string option \<Rightarrow> bool" where
  "opt_nonempty v \<longleftrightarrow> (case v of None \<Rightarrow> False | Some s \<Rightarrow> s \<noteq> [])"

definition DocumentHeadSnapshot_post_init :: "DocumentHeadSnapshot \<Rightarrow> DocumentHeadSnapshot res" where
  "DocumentHeadSnapshot_post_init d =
     (if dh_state_version d < 0 \<or> dh_fence_token d < 0
      then Inl (ValueError ''document state version and fence must be non-negative'')
      else if dh_state d = DocumentHeadState.ACTIVE \<and> \<not> opt_nonempty (dh_active_version_id d)
      then Inl (ValueError ''an active document requires an active version pointer'')
      else if dh_state d \<noteq> DocumentHeadState.ACTIVE \<and> opt_nonempty (dh_active_version_id d)
      then Inl (ValueError ''only an active document may carry an active pointer'')
      else Inr d)"

record SourceArtifactReference =
  sx_version :: DocumentVersionIdentity
  sx_source_artifact_id :: string
  sx_object_bucket :: string
  sx_object_key :: string
  sx_object_version :: string
  sx_checksum_sha256 :: string
  sx_size_bytes :: int
  sx_detected_media_type :: string

definition SourceArtifactReference_post_init :: "SourceArtifactReference \<Rightarrow> SourceArtifactReference res" where
  "SourceArtifactReference_post_init s =
     bind_res (require_non_empty [sx_source_artifact_id s, sx_object_bucket s, sx_object_key s, sx_object_version s,
                                  sx_checksum_sha256 s, sx_detected_media_type s] s) (\<lambda>s.
       if sx_size_bytes s \<le> 0 then Inl (ValueError ''a verified source artifact must be non-empty'') else Inr s)"

record DocumentVersionDefinition =
  vd_identity :: DocumentVersionIdentity
  vd_source_artifact_id :: string
  vd_parse_contract_version :: string
  vd_created_by_operation_id :: string

definition DocumentVersionDefinition_post_init :: "DocumentVersionDefinition \<Rightarrow> DocumentVersionDefinition res" where
  "DocumentVersionDefinition_post_init d =
     require_non_empty [vd_source_artifact_id d, vd_parse_contract_version d, vd_created_by_operation_id d] d"

record IngestionOperationIdentity =
  io_tenant_id :: string
  io_document_id :: string
  io_document_version_id :: string
  io_source_artifact_id :: string
  io_operation_id :: string
  io_idempotency_key :: string

definition IngestionOperationIdentity_post_init :: "IngestionOperationIdentity \<Rightarrow> IngestionOperationIdentity res" where
  "IngestionOperationIdentity_post_init o' =
     require_non_empty [io_tenant_id o', io_document_id o', io_document_version_id o', io_source_artifact_id o',
                        io_operation_id o', io_idempotency_key o'] o'"

definition io_version :: "IngestionOperationIdentity \<Rightarrow> DocumentVersionIdentity" where
  "io_version i = \<lparr>vi_tenant_id = io_tenant_id i, vi_document_id = io_document_id i,
                  vi_document_version_id = io_document_version_id i\<rparr>"

record ParserAttemptIdentity =
  pt_operation_id :: string
  pt_idempotency_key :: string
  pt_attempt_number :: int
  pt_parser_request_id :: string
  pt_parser_generation :: int

definition ParserAttemptIdentity_post_init :: "ParserAttemptIdentity \<Rightarrow> ParserAttemptIdentity res" where
  "ParserAttemptIdentity_post_init a =
     bind_res (require_non_empty [pt_operation_id a, pt_idempotency_key a, pt_parser_request_id a] a) (\<lambda>a.
       if pt_attempt_number a \<le> 0 then Inl (ValueError ''parser attempt number must be positive'')
       else if pt_parser_generation a < 0 then Inl (ValueError ''parser generation must be non-negative'')
       else Inr a)"

record ParseManifest =
  pm_tenant_id :: string
  pm_document_id :: string
  pm_document_version_id :: string
  pm_source_artifact_id :: string
  pm_source_checksum_sha256 :: string
  pm_operation_id :: string
  pm_idempotency_key :: string
  pm_parser_name :: string
  pm_parser_version :: string
  pm_parse_contract_version :: string
  pm_attempt_number :: int
  pm_parser_request_id :: string
  pm_parser_generation :: int
  pm_output_checksum_sha256 :: string
  pm_page_count :: int
  pm_section_count :: int
  pm_record_count :: int
  pm_warnings :: "string list"
  pm_errors :: "string list"

definition ParseManifest_post_init :: "ParseManifest \<Rightarrow> ParseManifest res" where
  "ParseManifest_post_init p =
     bind_res (require_non_empty [pm_tenant_id p, pm_document_id p, pm_document_version_id p, pm_source_artifact_id p,
         pm_source_checksum_sha256 p, pm_operation_id p, pm_idempotency_key p, pm_parser_name p, pm_parser_version p,
         pm_parse_contract_version p, pm_parser_request_id p, pm_output_checksum_sha256 p] p) (\<lambda>p.
       if pm_attempt_number p \<le> 0 \<or> pm_parser_generation p < 0
       then Inl (ValueError ''manifest attempt identity is invalid'')
       else if list_ex (\<lambda>n. n < 0) [pm_page_count p, pm_section_count p, pm_record_count p]
       then Inl (ValueError ''manifest counts must be non-negative'')
       else Inr p)"

record ParsedDocumentCandidate =
  pc_manifest :: ParseManifest
  pc_canonical_text :: utext
  pc_sections :: "utext list"

record ParsedArtifactDefinition =
  px_parsed_artifact_id :: string
  px_version :: DocumentVersionIdentity
  px_source_artifact_id :: string
  px_output_checksum_sha256 :: string
  px_canonical_text :: utext
  px_sections :: "utext list"
  px_manifest :: ParseManifest

record IngestionActivationProposal =
  ap_operation :: IngestionOperationIdentity
  ap_attempt :: ParserAttemptIdentity
  ap_parsed_artifact :: ParsedArtifactDefinition

record CandidateValidationDecision =
  vc_outcome :: CandidateValidationOutcome
  vc_safe_reason :: string
  vc_proposal :: "IngestionActivationProposal option"
  vc_correlation_checks :: int
  vc_manifest_validation_calls :: int
  vc_structural_validation_calls :: int
  vc_output_validation_calls :: int
  vc_committer_calls :: int
  vc_durable_transitions :: int

definition CandidateValidationDecision_post_init :: "CandidateValidationDecision \<Rightarrow> CandidateValidationDecision res" where
  "CandidateValidationDecision_post_init d =
     (if (vc_outcome d = CandidateValidationOutcome.READY_FOR_COMMIT) \<noteq> (vc_proposal d \<noteq> None)
      then Inl (ValueError ''only a ready validation decision carries a proposal'')
      else if vc_committer_calls d \<noteq> 0 \<or> vc_durable_transitions d \<noteq> 0
      then Inl (ValueError ''candidate validation cannot own durable authority'')
      else Inr d)"

section \<open>Validation of a parser candidate\<close>

definition parse_blocked ::
    "CandidateValidationOutcome \<Rightarrow> string \<Rightarrow> int \<Rightarrow> int \<Rightarrow> int \<Rightarrow> int \<Rightarrow> CandidateValidationDecision res" where
  "parse_blocked outcome reason correlation manifest structural output =
     CandidateValidationDecision_post_init
       \<lparr>vc_outcome = outcome, vc_safe_reason = reason, vc_proposal = None, vc_correlation_checks = correlation,
        vc_manifest_validation_calls = manifest, vc_structural_validation_calls = structural,
        vc_output_validation_calls = output, vc_committer_calls = 0, vc_durable_transitions = 0\<rparr>"

definition correlation_ok ::
    "IngestionOperationIdentity \<Rightarrow> ParserAttemptIdentity \<Rightarrow> ParseManifest \<Rightarrow> bool" where
  "correlation_ok operation attempt manifest \<longleftrightarrow>
     pt_operation_id attempt = io_operation_id operation \<and> pt_idempotency_key attempt = io_idempotency_key operation \<and>
     pm_operation_id manifest = pt_operation_id attempt \<and> pm_idempotency_key manifest = pt_idempotency_key attempt \<and>
     pm_attempt_number manifest = pt_attempt_number attempt \<and>
     pm_parser_request_id manifest = pt_parser_request_id attempt \<and>
     pm_parser_generation manifest = pt_parser_generation attempt"

definition manifest_binding_ok ::
    "IngestionOperationIdentity \<Rightarrow> DocumentVersionDefinition \<Rightarrow> SourceArtifactReference \<Rightarrow> ParseManifest \<Rightarrow> bool" where
  "manifest_binding_ok operation version source manifest \<longleftrightarrow>
     vd_identity version = io_version operation \<and> sx_version source = io_version operation \<and>
     vd_source_artifact_id version = io_source_artifact_id operation \<and>
     sx_source_artifact_id source = io_source_artifact_id operation \<and>
     pm_tenant_id manifest = io_tenant_id operation \<and> pm_document_id manifest = io_document_id operation \<and>
     pm_document_version_id manifest = io_document_version_id operation \<and>
     pm_source_artifact_id manifest = io_source_artifact_id operation \<and>
     pm_parse_contract_version manifest = vd_parse_contract_version version"

definition structure_ok :: "ParsedDocumentCandidate \<Rightarrow> bool" where
  "structure_ok candidate \<longleftrightarrow>
     list_ex (\<lambda>c. \<not> is_space c) (pc_canonical_text candidate) \<and>
     pm_section_count (pc_manifest candidate) = int (length (pc_sections candidate)) \<and>
     pm_errors (pc_manifest candidate) = []"

definition parsed_artifact_id :: "IngestionOperationIdentity \<Rightarrow> ParseManifest \<Rightarrow> string" where
  "parsed_artifact_id operation manifest =
     ''parsed:'' @ sha256_hexdigest (join_us [io_operation_id operation, io_document_version_id operation,
       pm_output_checksum_sha256 manifest, pm_parse_contract_version manifest])"

definition evaluate_parsed_candidate ::
    "IngestionOperationIdentity \<Rightarrow> DocumentVersionDefinition \<Rightarrow> SourceArtifactReference \<Rightarrow> ParserAttemptIdentity
      \<Rightarrow> ParsedDocumentCandidate \<Rightarrow> CandidateValidationDecision res" where
  "evaluate_parsed_candidate operation version source attempt candidate =
     (let manifest = pc_manifest candidate in
      if \<not> correlation_ok operation attempt manifest
      then parse_blocked CandidateValidationOutcome.CORRELATION_CONFLICT
             ''PARSER_RESPONSE_DOES_NOT_BIND_CURRENT_ATTEMPT'' 1 0 0 0
      else if \<not> manifest_binding_ok operation version source manifest
      then parse_blocked CandidateValidationOutcome.MANIFEST_BINDING_CONFLICT
             ''PARSE_MANIFEST_DOES_NOT_BIND_EXPECTED_DOCUMENT_VERSION'' 1 1 0 0
      else if pm_source_checksum_sha256 manifest \<noteq> sx_checksum_sha256 source
      then parse_blocked CandidateValidationOutcome.SOURCE_CHECKSUM_CONFLICT
             ''PARSE_MANIFEST_SOURCE_CHECKSUM_MISMATCH'' 1 1 0 0
      else if \<not> structure_ok candidate
      then parse_blocked CandidateValidationOutcome.STRUCTURE_INVALID ''PARSED_CANDIDATE_STRUCTURE_REJECTED'' 1 1 1 0
      else bind_res (sha256_text (pc_canonical_text candidate)) (\<lambda>output_checksum.
      if pm_output_checksum_sha256 manifest \<noteq> output_checksum
      then parse_blocked CandidateValidationOutcome.OUTPUT_CHECKSUM_CONFLICT ''PARSED_OUTPUT_CHECKSUM_MISMATCH'' 1 1 1 1
      else CandidateValidationDecision_post_init
        \<lparr>vc_outcome = CandidateValidationOutcome.READY_FOR_COMMIT, vc_safe_reason = ''CANDIDATE_VALIDATION_PASSED'',
         vc_proposal = Some
           \<lparr>ap_operation = operation, ap_attempt = attempt, ap_parsed_artifact =
             \<lparr>px_parsed_artifact_id = parsed_artifact_id operation manifest, px_version = io_version operation,
              px_source_artifact_id = io_source_artifact_id operation,
              px_output_checksum_sha256 = pm_output_checksum_sha256 manifest,
              px_canonical_text = pc_canonical_text candidate, px_sections = pc_sections candidate,
              px_manifest = manifest\<rparr>\<rparr>,
         vc_correlation_checks = 1, vc_manifest_validation_calls = 1, vc_structural_validation_calls = 1,
         vc_output_validation_calls = 1, vc_committer_calls = 0, vc_durable_transitions = 0\<rparr>))"

text \<open>
  The validation raises only for a candidate that reaches the checksum with a text that cannot be
  encoded, and what it proposes is bound: the artifact carries the candidate's text under its own
  checksum and the identities of the operation and of the manifest.
\<close>

definition artifact_bound :: "ParsedArtifactDefinition \<Rightarrow> bool" where
  "artifact_bound p \<longleftrightarrow>
     sha256_text (px_canonical_text p) = Inr (px_output_checksum_sha256 p) \<and>
     pm_output_checksum_sha256 (px_manifest p) = px_output_checksum_sha256 p \<and>
     pm_tenant_id (px_manifest p) = vi_tenant_id (px_version p) \<and>
     pm_document_id (px_manifest p) = vi_document_id (px_version p) \<and>
     pm_document_version_id (px_manifest p) = vi_document_version_id (px_version p) \<and>
     pm_source_artifact_id (px_manifest p) = px_source_artifact_id p"

text \<open>The candidate passes every check before the one of the output checksum.\<close>

definition reaches_checksum ::
    "IngestionOperationIdentity \<Rightarrow> DocumentVersionDefinition \<Rightarrow> SourceArtifactReference \<Rightarrow> ParserAttemptIdentity
      \<Rightarrow> ParsedDocumentCandidate \<Rightarrow> bool" where
  "reaches_checksum operation version source attempt candidate \<longleftrightarrow>
     correlation_ok operation attempt (pc_manifest candidate) \<and>
     manifest_binding_ok operation version source (pc_manifest candidate) \<and>
     pm_source_checksum_sha256 (pc_manifest candidate) = sx_checksum_sha256 source \<and> structure_ok candidate"

lemma evaluate_parsed_candidate_raises:
  "evaluate_parsed_candidate operation version source attempt candidate = Inl e \<longleftrightarrow>
     e = UnicodeEncodeError \<and> reaches_checksum operation version source attempt candidate \<and>
     \<not> encodable (pc_canonical_text candidate)"
  by (auto simp: evaluate_parsed_candidate_def parse_blocked_def CandidateValidationDecision_post_init_def Let_def
      reaches_checksum_def sha256_text_eq)

lemma parsed_candidate_bound:
  assumes "evaluate_parsed_candidate operation version source attempt candidate = Inr d"
  shows "(vc_outcome d = CandidateValidationOutcome.READY_FOR_COMMIT \<longleftrightarrow> vc_proposal d \<noteq> None) \<and>
     (\<forall>q. vc_proposal d = Some q \<longrightarrow> ap_operation q = operation \<and> ap_attempt q = attempt \<and>
        artifact_bound (ap_parsed_artifact q) \<and> px_version (ap_parsed_artifact q) = io_version operation \<and>
        px_canonical_text (ap_parsed_artifact q) = pc_canonical_text candidate \<and>
        correlation_ok operation attempt (px_manifest (ap_parsed_artifact q)))"
  using assms
  by (auto simp: evaluate_parsed_candidate_def parse_blocked_def CandidateValidationDecision_post_init_def Let_def
      artifact_bound_def manifest_binding_ok_def io_version_def sha256_text_eq split: if_splits)

section \<open>Lifecycle records\<close>

datatype DocumentVersionLifecycle = REGISTERED | ACTIVE | SUPERSEDED | QUARANTINED | TOMBSTONED | STALE_RESULT

datatype IngestionOperationState =
  READY_FOR_DISPATCH | PARSE_DISPATCH_STARTED | PENDING_RECONCILIATION | COMPLETED | FAILED | QUARANTINED
| PROVEN_NOT_EXECUTED

record DocumentVersionLifecycleRecord =
  vl_definition :: DocumentVersionDefinition
  vl_state :: DocumentVersionLifecycle
  vl_parsed_artifact_id :: "string option"
  vl_activation_commit_id :: "string option"
  vl_state_version :: int
  vl_fence_token :: int

definition DocumentVersionLifecycleRecord_post_init ::
    "DocumentVersionLifecycleRecord \<Rightarrow> DocumentVersionLifecycleRecord res" where
  "DocumentVersionLifecycleRecord_post_init v =
     (let complete = (opt_nonempty (vl_parsed_artifact_id v) \<and> opt_nonempty (vl_activation_commit_id v));
          partial = (opt_nonempty (vl_parsed_artifact_id v) \<noteq> opt_nonempty (vl_activation_commit_id v)) in
      if vl_state_version v < 0 \<or> vl_fence_token v < 0
      then Inl (ValueError ''version state version and fence must be non-negative'')
      else if partial then Inl (ValueError ''publication facts must be complete or absent'')
      else if vl_state v \<in> {DocumentVersionLifecycle.ACTIVE, DocumentVersionLifecycle.SUPERSEDED} \<and> \<not> complete
      then Inl (ValueError ''activated or superseded version requires publication facts'')
      else if vl_state v \<in> {DocumentVersionLifecycle.REGISTERED, DocumentVersionLifecycle.QUARANTINED,
                            DocumentVersionLifecycle.STALE_RESULT} \<and> complete
      then Inl (ValueError ''unpublished lifecycle state cannot carry publication facts'')
      else Inr v)"

record IngestionOperationRecord =
  ir_identity :: IngestionOperationIdentity
  ir_state :: IngestionOperationState
  ir_state_version :: int
  ir_fence_token :: int
  ir_attempt :: "ParserAttemptIdentity option"
  ir_attempt_history :: "ParserAttemptIdentity list"

definition IngestionOperationRecord_post_init :: "IngestionOperationRecord \<Rightarrow> IngestionOperationRecord res" where
  "IngestionOperationRecord_post_init r =
     (if ir_state_version r < 0 \<or> ir_fence_token r < 0
      then Inl (ValueError ''operation state version and fence must be non-negative'')
      else if ir_state r \<in> {IngestionOperationState.PARSE_DISPATCH_STARTED,
                            IngestionOperationState.PENDING_RECONCILIATION, IngestionOperationState.COMPLETED}
        \<and> ir_attempt r = None
      then Inl (ValueError ''dispatched ingestion state requires an attempt'')
      else if \<not> distinct (map pt_attempt_number (ir_attempt_history r))
      then Inl (ValueError ''attempt history numbers must be unique'')
      else if \<not> distinct (map pt_parser_request_id (ir_attempt_history r))
      then Inl (ValueError ''attempt history parser request ids must be unique'')
      else if list_ex (\<lambda>a. pt_operation_id a \<noteq> io_operation_id (ir_identity r)
                        \<or> pt_idempotency_key a \<noteq> io_idempotency_key (ir_identity r)) (ir_attempt_history r)
      then Inl (ValueError ''attempt history must retain operation identity'')
      else Inr r)"

section \<open>Eligibility for chunking\<close>

datatype ChunkingEligibilityOutcome =
  ELIGIBLE | DOCUMENT_NOT_ACTIVE | ACTIVE_POINTER_MISMATCH | VERSION_NOT_ACTIVE | PARSED_ARTIFACT_MISSING
| INGESTION_NOT_COMPLETED | IDENTITY_CONFLICT

record ChunkingEligibilityDecision =
  eg_outcome :: ChunkingEligibilityOutcome
  eg_safe_reason :: string
  eg_parsed_artifact_id :: "string option"
  eg_durable_transitions :: int

definition eligible :: "ChunkingEligibilityDecision \<Rightarrow> bool" where
  "eligible d \<longleftrightarrow> eg_outcome d = ChunkingEligibilityOutcome.ELIGIBLE"

definition ineligible :: "ChunkingEligibilityOutcome \<Rightarrow> string \<Rightarrow> ChunkingEligibilityDecision" where
  "ineligible outcome reason =
     \<lparr>eg_outcome = outcome, eg_safe_reason = reason, eg_parsed_artifact_id = None, eg_durable_transitions = 0\<rparr>"

definition evaluate_chunking_eligibility ::
    "DocumentHeadSnapshot \<Rightarrow> DocumentVersionLifecycleRecord \<Rightarrow> IngestionOperationRecord \<Rightarrow> ChunkingEligibilityDecision" where
  "evaluate_chunking_eligibility document version operation =
     (let version_identity = vd_identity (vl_definition version) in
      if dh_identity document \<noteq> vi_document version_identity
        \<or> io_version (ir_identity operation) \<noteq> version_identity
        \<or> io_source_artifact_id (ir_identity operation) \<noteq> vd_source_artifact_id (vl_definition version)
      then ineligible ChunkingEligibilityOutcome.IDENTITY_CONFLICT ''DOCUMENT_VERSION_OPERATION_BINDING_CONFLICT''
      else if dh_state document \<noteq> DocumentHeadState.ACTIVE
      then ineligible ChunkingEligibilityOutcome.DOCUMENT_NOT_ACTIVE ''DOCUMENT_HEAD_IS_NOT_ACTIVE''
      else if dh_active_version_id document \<noteq> Some (vi_document_version_id version_identity)
      then ineligible ChunkingEligibilityOutcome.ACTIVE_POINTER_MISMATCH ''VERSION_IS_NOT_THE_DOCUMENT_ACTIVE_POINTER''
      else if vl_state version \<noteq> DocumentVersionLifecycle.ACTIVE
      then ineligible ChunkingEligibilityOutcome.VERSION_NOT_ACTIVE ''DOCUMENT_VERSION_IS_NOT_ACTIVE''
      else if vl_parsed_artifact_id version = None
      then ineligible ChunkingEligibilityOutcome.PARSED_ARTIFACT_MISSING ''ACTIVE_VERSION_REQUIRES_IMMUTABLE_PARSED_ARTIFACT''
      else if ir_state operation \<noteq> IngestionOperationState.COMPLETED
      then ineligible ChunkingEligibilityOutcome.INGESTION_NOT_COMPLETED ''INGESTION_OPERATION_IS_NOT_DURABLY_COMPLETED''
      else \<lparr>eg_outcome = ChunkingEligibilityOutcome.ELIGIBLE,
            eg_safe_reason = ''ACTIVE_VALIDATED_PARSED_ARTIFACT_READY_FOR_DAY96'',
            eg_parsed_artifact_id = vl_parsed_artifact_id version, eg_durable_transitions = 0\<rparr>)"

lemma eligible_iff:
  "eligible (evaluate_chunking_eligibility d v r) \<longleftrightarrow>
     dh_identity d = vi_document (vd_identity (vl_definition v)) \<and>
     io_version (ir_identity r) = vd_identity (vl_definition v) \<and>
     io_source_artifact_id (ir_identity r) = vd_source_artifact_id (vl_definition v) \<and>
     dh_state d = DocumentHeadState.ACTIVE \<and>
     dh_active_version_id d = Some (vi_document_version_id (vd_identity (vl_definition v))) \<and>
     vl_state v = DocumentVersionLifecycle.ACTIVE \<and> vl_parsed_artifact_id v \<noteq> None \<and>
     ir_state r = IngestionOperationState.COMPLETED"
  by (auto simp: evaluate_chunking_eligibility_def Let_def eligible_def ineligible_def)

lemma eligible_artifact:
  "eligible (evaluate_chunking_eligibility d v r) \<Longrightarrow>
     eg_parsed_artifact_id (evaluate_chunking_eligibility d v r) = vl_parsed_artifact_id v"
  by (simp add: evaluate_chunking_eligibility_def Let_def eligible_def ineligible_def split: if_splits)

end
