(* ===== verification/Chunking.thy ===== *)
theory Chunking
  imports Rag_Contracts Complex_Main "HOL-Library.List_Lexorder" "HOL-Library.Char_ord"
begin

text \<open>
  Chunking of a parsed document, its data and its two text ports: \<^verbatim>\<open>rag_chunking_contracts.py\<close>,
  \<^verbatim>\<open>rag_chunking_normalization.py\<close> and \<^verbatim>\<open>rag_tokenizer_adapter.py\<close> under
  \<^verbatim>\<open>src/projects/ai-agent/src\<close>. The tokenizer is a port, a record of functions that may raise, with
  the classroom tokenizer as its implementation. Positions in a text are natural numbers; token
  counts and the numbers of the contract are integers.
\<close>

section \<open>Contracts\<close>

text \<open>A Python float: its exact value and its \<open>repr\<close>.\<close>

record PyFloat =
  pf_value :: rat
  pf_repr :: string

datatype ChunkStrategy = FIXED_TOKEN | RECURSIVE | SECTION_AWARE

fun ChunkStrategy_value :: "ChunkStrategy \<Rightarrow> string" where
  "ChunkStrategy_value ChunkStrategy.FIXED_TOKEN = ''fixed-token''"
| "ChunkStrategy_value ChunkStrategy.RECURSIVE = ''recursive-structure-aware''"
| "ChunkStrategy_value ChunkStrategy.SECTION_AWARE = ''section-paragraph-sentence-aware''"

datatype OversizedPolicy = FAIL_CLOSED | BOUNDED_FALLBACK

fun OversizedPolicy_value :: "OversizedPolicy \<Rightarrow> string" where
  "OversizedPolicy_value OversizedPolicy.FAIL_CLOSED = ''fail-closed''"
| "OversizedPolicy_value OversizedPolicy.BOUNDED_FALLBACK = ''bounded-token-fallback''"

text \<open>
  Identifiers, names and labels are held as their UTF-8 bytes, so \<open>json\<close> values always have an
  encoding; document text is encoded where it enters a value, and raises there if it has none.
\<close>

definition stable_hash :: "json \<Rightarrow> string" where
  "stable_hash v = ''sha256:'' @ sha256_hexdigest (json_dumps_utf8 v)"

text \<open>The members of an object, sorted by key as \<open>dumps\<close> does.\<close>

definition json_members :: "(string \<times> json) list \<Rightarrow> json" where
  "json_members kvs = JObj (sort_key fst kvs)"

record TokenizerContract =
  tc_name :: string
  tc_version :: string

definition TokenizerContract_post_init :: "TokenizerContract \<Rightarrow> TokenizerContract res" where
  "TokenizerContract_post_init t =
     (if \<not> truthy (tc_name t) \<or> \<not> truthy (tc_version t)
      then Inl (ValueError ''tokenizer name and version are required'') else Inr t)"

record ChunkingContract =
  cg_strategy :: ChunkStrategy
  cg_strategy_version :: string
  cg_tokenizer :: TokenizerContract
  cg_normalization_version :: string
  cg_soft_target_tokens :: int
  cg_hard_max_tokens :: int
  cg_min_useful_tokens :: int
  cg_overlap_tokens :: int
  cg_max_chunk_count :: int
  cg_max_input_chars :: int
  cg_max_output_chars :: int
  cg_deadline_seconds :: PyFloat
  cg_oversized_policy :: OversizedPolicy
  cg_max_token_work_units :: int
  cg_max_estimated_memory_bytes :: int
  cg_boundary_policy_version :: string

definition supported_normalizations :: "string list" where
  "supported_normalizations = [''identity-v1'', ''collapse-horizontal-space-v1'']"

definition ChunkingContract_post_init :: "ChunkingContract \<Rightarrow> ChunkingContract res" where
  "ChunkingContract_post_init c =
     (if \<not> all_truthy [cg_strategy_version c, cg_normalization_version c, cg_boundary_policy_version c]
      then Inl (ValueError ''all behavioral policy versions are required'')
      else if cg_normalization_version c \<notin> set supported_normalizations
      then Inl (ValueError ''unsupported normalization requires a source map'')
      else if cg_soft_target_tokens c \<le> 0 \<or> cg_hard_max_tokens c \<le> 0
      then Inl (ValueError ''token budgets must be positive'')
      else if cg_soft_target_tokens c > cg_hard_max_tokens c
      then Inl (ValueError ''soft target cannot exceed hard maximum'')
      else if \<not> (0 < cg_min_useful_tokens c \<and> cg_min_useful_tokens c \<le> cg_hard_max_tokens c)
      then Inl (ValueError ''minimum useful size is invalid'')
      else if \<not> (0 \<le> cg_overlap_tokens c \<and> cg_overlap_tokens c < cg_soft_target_tokens c)
      then Inl (ValueError ''overlap must be smaller than soft target'')
      else if list_ex (\<lambda>v. v \<le> 0) [cg_max_chunk_count c, cg_max_input_chars c, cg_max_output_chars c,
                 cg_max_token_work_units c, cg_max_estimated_memory_bytes c]
        \<or> pf_value (cg_deadline_seconds c) \<le> 0
      then Inl (ValueError ''resource budgets must be positive'')
      else Inr c)"

definition json_tokenizer :: "TokenizerContract \<Rightarrow> json" where
  "json_tokenizer t = json_members [(''name'', JStr (tc_name t)), (''version'', JStr (tc_version t))]"

definition contract_fingerprint :: "ChunkingContract \<Rightarrow> string" where
  "contract_fingerprint c = stable_hash (json_members
     [(''strategy'', JStr (ChunkStrategy_value (cg_strategy c))),
      (''strategy_version'', JStr (cg_strategy_version c)),
      (''tokenizer'', json_tokenizer (cg_tokenizer c)),
      (''normalization_version'', JStr (cg_normalization_version c)),
      (''soft_target_tokens'', JInt (cg_soft_target_tokens c)),
      (''hard_max_tokens'', JInt (cg_hard_max_tokens c)),
      (''min_useful_tokens'', JInt (cg_min_useful_tokens c)),
      (''overlap_tokens'', JInt (cg_overlap_tokens c)),
      (''max_chunk_count'', JInt (cg_max_chunk_count c)),
      (''max_input_chars'', JInt (cg_max_input_chars c)),
      (''max_output_chars'', JInt (cg_max_output_chars c)),
      (''deadline_seconds'', JFloat (pf_repr (cg_deadline_seconds c))),
      (''oversized_policy'', JStr (OversizedPolicy_value (cg_oversized_policy c))),
      (''max_token_work_units'', JInt (cg_max_token_work_units c)),
      (''max_estimated_memory_bytes'', JInt (cg_max_estimated_memory_bytes c)),
      (''boundary_policy_version'', JStr (cg_boundary_policy_version c))])"

record ChunkingOperationIdentity =
  cop_version :: DocumentVersionIdentity
  cop_source_artifact_id :: string
  cop_parsed_artifact_id :: string
  cop_operation_id :: string
  cop_idempotency_key :: string
  cop_contract_fingerprint :: string

definition ChunkingOperationIdentity_post_init :: "ChunkingOperationIdentity \<Rightarrow> ChunkingOperationIdentity res" where
  "ChunkingOperationIdentity_post_init c =
     (if \<not> all_truthy [cop_source_artifact_id c, cop_parsed_artifact_id c, cop_operation_id c, cop_idempotency_key c,
                       cop_contract_fingerprint c]
      then Inl (ValueError ''chunking operation bindings are required'') else Inr c)"

definition stable_result_key :: "ChunkingOperationIdentity \<Rightarrow> string" where
  "stable_result_key c = stable_hash (JList
     [JStr (vi_tenant_id (cop_version c)), JStr (vi_document_id (cop_version c)),
      JStr (vi_document_version_id (cop_version c)), JStr (cop_source_artifact_id c),
      JStr (cop_parsed_artifact_id c), JStr (cop_contract_fingerprint c)])"

record ChunkingAttemptIdentity =
  cat_operation_id :: string
  cat_attempt_number :: int
  cat_request_id :: string
  cat_generation :: int

definition ChunkingAttemptIdentity_post_init :: "ChunkingAttemptIdentity \<Rightarrow> ChunkingAttemptIdentity res" where
  "ChunkingAttemptIdentity_post_init a =
     (if \<not> truthy (cat_operation_id a) \<or> \<not> truthy (cat_request_id a)
      then Inl (ValueError ''attempt correlation is required'')
      else if cat_attempt_number a \<le> 0 \<or> cat_generation a \<le> 0
      then Inl (ValueError ''attempt and generation must be positive'')
      else Inr a)"

text \<open>The constructor refuses a negative start, so the bounds of a segment are natural numbers.\<close>

record SourceSegment =
  sg_start :: nat
  sg_end :: nat
  sg_role :: string

definition SourceSegment_post_init :: "SourceSegment \<Rightarrow> SourceSegment res" where
  "SourceSegment_post_init s =
     (if sg_end s \<le> sg_start s \<or> \<not> truthy (sg_role s)
      then Inl (ValueError ''source segment must be non-empty and non-negative'') else Inr s)"

record ChunkCandidate =
  ckc_ordinal :: int
  ckc_text :: utext
  ckc_source_segments :: "SourceSegment list"
  ckc_token_count :: int
  ckc_content_hash :: string
  ckc_boundary_reason :: string
  ckc_overlap_left_tokens :: int
  ckc_overlap_right_tokens :: int
  ckc_joiner :: utext

record ChunkManifest =
  cmf_chunk_count :: int
  cmf_source_checksum :: string
  cmf_contract_fingerprint :: string
  cmf_chunks_checksum :: string

record ChunkSetCandidate =
  csc_operation :: ChunkingOperationIdentity
  csc_attempt :: ChunkingAttemptIdentity
  csc_experiment_id :: string
  csc_chunks :: "ChunkCandidate list"
  csc_manifest :: ChunkManifest

record Chunk =
  chk_chunk_id :: string
  chk_chunk_set_id :: string
  chk_candidate :: ChunkCandidate

record ChunkSet =
  cse_chunk_set_id :: string
  cse_operation :: ChunkingOperationIdentity
  cse_experiment_id :: string
  cse_manifest :: ChunkManifest
  cse_chunks :: "Chunk list"

definition json_segment :: "SourceSegment \<Rightarrow> json" where
  "json_segment s = json_members
     [(''start'', JInt (int (sg_start s))), (''end'', JInt (int (sg_end s))), (''role'', JStr (sg_role s))]"

definition chunk_members :: "ChunkCandidate \<Rightarrow> string \<Rightarrow> string \<Rightarrow> json" where
  "chunk_members c text joiner = json_members
     [(''ordinal'', JInt (ckc_ordinal c)), (''text'', JStr text),
      (''source_segments'', JList (map json_segment (ckc_source_segments c))),
      (''token_count'', JInt (ckc_token_count c)), (''content_hash'', JStr (ckc_content_hash c)),
      (''boundary_reason'', JStr (ckc_boundary_reason c)),
      (''overlap_left_tokens'', JInt (ckc_overlap_left_tokens c)),
      (''overlap_right_tokens'', JInt (ckc_overlap_right_tokens c)), (''joiner'', JStr joiner)]"

text \<open>A chunk as a JSON value: its text and its joiner are the document text in it.\<close>

definition json_chunk :: "ChunkCandidate \<Rightarrow> json res" where
  "json_chunk c =
     bind_res (encode_utf8 (ckc_text c)) (\<lambda>text.
     bind_res (encode_utf8 (ckc_joiner c)) (\<lambda>joiner. Inr (chunk_members c text joiner)))"

definition candidate_chunks_checksum :: "ChunkCandidate list \<Rightarrow> string res" where
  "candidate_chunks_checksum chunks = bind_res (map_res json_chunk chunks) (\<lambda>js. Inr (stable_hash (JList js)))"

text \<open>The checksum of chunks that have one.\<close>

definition chunk_encodable :: "ChunkCandidate \<Rightarrow> bool" where
  "chunk_encodable c \<longleftrightarrow> encodable (ckc_text c) \<and> encodable (ckc_joiner c)"

definition chunks_checksum :: "ChunkCandidate list \<Rightarrow> string" where
  "chunks_checksum chunks =
     stable_hash (JList (map (\<lambda>c. chunk_members c (utf8_encode (ckc_text c)) (utf8_encode (ckc_joiner c))) chunks))"

lemma json_chunk_eq: "json_chunk c =
    (if chunk_encodable c then Inr (chunk_members c (utf8_encode (ckc_text c)) (utf8_encode (ckc_joiner c))) else Inl UnicodeEncodeError)"
  by (simp add: json_chunk_def encode_utf8_def chunk_encodable_def)

lemma map_json_chunk: "map_res json_chunk chunks =
    (if list_all chunk_encodable chunks
     then Inr (map (\<lambda>c. chunk_members c (utf8_encode (ckc_text c)) (utf8_encode (ckc_joiner c))) chunks) else Inl UnicodeEncodeError)"
  by (induction chunks) (simp_all add: json_chunk_eq)

lemma candidate_chunks_checksum_eq: "candidate_chunks_checksum chunks =
    (if list_all chunk_encodable chunks then Inr (chunks_checksum chunks) else Inl UnicodeEncodeError)"
  by (simp add: candidate_chunks_checksum_def map_json_chunk chunks_checksum_def)

section \<open>Normalization\<close>

record NormalizedText =
  nt_text :: utext
  nt_source_offsets :: "(nat \<times> nat) list"

definition source_interval :: "NormalizedText \<Rightarrow> nat \<Rightarrow> nat \<Rightarrow> (nat \<times> nat) res" where
  "source_interval n a b =
     (if b \<le> a \<or> b > length (nt_source_offsets n) then Inl (ValueError ''normalized interval is invalid'')
      else Inr (fst (nt_source_offsets n ! a), snd (nt_source_offsets n ! (b - 1))))"

definition is_blank :: "nat \<Rightarrow> bool" where
  "is_blank c \<longleftrightarrow> c = 32 \<or> c = 9"

text \<open>The loop of \<open>normalize\<close> from position \<open>index\<close> on: each output code point with its source interval.\<close>

function collapse_from :: "nat \<Rightarrow> utext \<Rightarrow> (nat \<times> nat \<times> nat) list" where
  "collapse_from index [] = []"
| "collapse_from index (c # cs) =
     (if is_blank c
      then let stop = index + 1 + length (takeWhile is_blank cs)
           in (32, index, stop) # collapse_from stop (dropWhile is_blank cs)
      else (c, index, index + 1) # collapse_from (index + 1) cs)"
  by pat_completeness auto
termination
  by (relation "measure (\<lambda>(i, t). length t)") (auto simp: le_imp_less_Suc length_dropWhile_le)

definition normalize :: "utext \<Rightarrow> string \<Rightarrow> NormalizedText res" where
  "normalize t version =
     (if version \<notin> set supported_normalizations then Inl (ValueError ''unsupported normalization version'')
      else if version = ''identity-v1''
      then Inr \<lparr>nt_text = t, nt_source_offsets = map (\<lambda>i. (i, i + 1)) [0..<length t]\<rparr>
      else let out = collapse_from 0 t
           in Inr \<lparr>nt_text = map fst out, nt_source_offsets = map snd out\<rparr>)"

text \<open>Normalization keeps code points or writes spaces, so it keeps a text encodable.\<close>

lemma collapse_from_codes: "x \<in> set (collapse_from i t) \<Longrightarrow> fst x = 32 \<or> fst x \<in> set t"
proof (induction i t rule: collapse_from.induct)
  case (2 i c cs)
  then show ?case using set_dropWhileD [of "fst x" is_blank cs] by (auto simp: Let_def split: if_splits)
qed simp

lemma normalize_encodable:
  assumes "normalize t version = Inr n" "encodable t"
  shows "encodable (nt_text n)"
proof -
  have "set (nt_text n) \<subseteq> insert 32 (set t)"
    using assms(1) collapse_from_codes [of _ 0 t] by (fastforce simp: normalize_def Let_def split: if_splits)
  with assms(2) show ?thesis by (auto simp: encodable_def list_all_iff surrogate_def)
qed

section \<open>Tokenizer\<close>

record TokenSpan =
  ts_start :: nat
  ts_end :: nat

record TokenizerPort =
  tp_contract :: TokenizerContract
  tp_spans :: "utext \<Rightarrow> TokenSpan list res"
  tp_count :: "utext \<Rightarrow> int res"

text \<open>
  \<open>finditer\<close> of \<open>[A-Za-z0-9_]+|\s|[^\s]\<close>: at each position the longest run of word characters, or one
  other code point.
\<close>

function token_matches :: "nat \<Rightarrow> utext \<Rightarrow> TokenSpan list" where
  "token_matches pos [] = []"
| "token_matches pos (c # cs) =
     (if is_word c
      then let stop = pos + 1 + length (takeWhile is_word cs)
           in \<lparr>ts_start = pos, ts_end = stop\<rparr> # token_matches stop (dropWhile is_word cs)
      else \<lparr>ts_start = pos, ts_end = pos + 1\<rparr> # token_matches (pos + 1) cs)"
  by pat_completeness auto
termination
  by (relation "measure (\<lambda>(i, t). length t)") (auto simp: le_imp_less_Suc length_dropWhile_le)

definition classroom_spans :: "utext \<Rightarrow> TokenSpan list res" where
  "classroom_spans t =
     (let spans = token_matches 0 t
      in if concat (map (\<lambda>s. slice (ts_start s) (ts_end s) t) spans) \<noteq> t
         then Inl (ValueError ''tokenizer did not cover exact canonical text'') else Inr spans)"

definition ClassroomTokenizer :: TokenizerPort where
  "ClassroomTokenizer = \<lparr>tp_contract = \<lparr>tc_name = ''classroom-lexical'', tc_version = ''1.0.0''\<rparr>,
     tp_spans = classroom_spans, tp_count = (\<lambda>t. bind_res (classroom_spans t) (\<lambda>s. Inr (int (length s))))\<rparr>"

end
