(* ===== verification/Chunking_Strategy.thy ===== *)
theory Chunking_Strategy
  imports Chunking
begin

text \<open>
  \<^verbatim>\<open>src/projects/ai-agent/src/rag_chunking_strategies.py\<close>: the three chunking strategies. The tokenizer
  port and the readings of the clock are arguments of \<open>generate_chunks\<close>; the \<open>k\<close>-th call of the clock
  reads \<open>clock k\<close>, an exact rational (the rounding of the float subtraction is not modelled).
\<close>

section \<open>Boundary predicates\<close>

definition is_section :: "utext \<Rightarrow> nat \<Rightarrow> bool" where
  "is_section t offset \<longleftrightarrow>
     slice offset (offset + 1) t = [35] \<and> (offset = 0 \<or> t ! (offset - 1) = 10)"

definition is_paragraph :: "utext \<Rightarrow> nat \<Rightarrow> bool" where
  "is_paragraph t offset \<longleftrightarrow> slice (offset - 2) offset t = [10, 10]"

definition is_sentence :: "utext \<Rightarrow> nat \<Rightarrow> bool" where
  "is_sentence t offset \<longleftrightarrow>
     (let pre = rstrip (take offset t) in pre \<noteq> [] \<and> last pre \<in> {46, 33, 63, 12290, 65281, 65311})"

definition is_whitespace :: "utext \<Rightarrow> nat \<Rightarrow> bool" where
  "is_whitespace t offset \<longleftrightarrow> offset > 0 \<and> is_space (t ! (offset - 1))"

definition is_table_row :: "utext \<Rightarrow> nat \<Rightarrow> bool" where
  "is_table_row t offset \<longleftrightarrow> offset > 0 \<and> t ! (offset - 1) = 10 \<and> slice offset (offset + 1) t = [124]"

definition is_code_line :: "utext \<Rightarrow> nat \<Rightarrow> bool" where
  "is_code_line t offset \<longleftrightarrow> offset > 0 \<and> t ! (offset - 1) = 10 \<and> count_fences (take offset t) mod 2 = 1"

section \<open>Choice of the end of a chunk\<close>

definition boundary_priorities :: "ChunkingContract \<Rightarrow> (string \<times> (utext \<Rightarrow> nat \<Rightarrow> bool)) list" where
  "boundary_priorities contract =
     (if cg_strategy contract = ChunkStrategy.SECTION_AWARE
      then [(''SECTION'', is_section), (''PARAGRAPH'', is_paragraph), (''TABLE_ROW'', is_table_row),
            (''CODE_LINE'', is_code_line), (''SENTENCE'', is_sentence)]
      else [(''SECTION'', is_section), (''PARAGRAPH'', is_paragraph), (''SENTENCE'', is_sentence)]) @
     (if cg_oversized_policy contract = OversizedPolicy.BOUNDED_FALLBACK
      then [(''WHITESPACE_FALLBACK'', is_whitespace)] else [])"

text \<open>\<open>min(choices, key=lambda index: (abs(index - target), index))\<close>.\<close>

definition closer :: "int \<Rightarrow> int \<Rightarrow> int \<Rightarrow> bool" where
  "closer target i j \<longleftrightarrow> abs (i - target) < abs (j - target) \<or> abs (i - target) = abs (j - target) \<and> i < j"

definition closest :: "int \<Rightarrow> int list \<Rightarrow> int" where
  "closest target choices = foldl (\<lambda>best i. if closer target i best then i else best) (hd choices) (tl choices)"

fun first_boundary ::
    "(string \<times> (utext \<Rightarrow> nat \<Rightarrow> bool)) list \<Rightarrow> utext \<Rightarrow> TokenSpan list \<Rightarrow> int \<Rightarrow> int \<Rightarrow> int \<Rightarrow> (int \<times> string) option" where
  "first_boundary [] t spans lower limit target = None"
| "first_boundary ((reason, predicate) # ps) t spans lower limit target =
     (let choices = filter (\<lambda>i. predicate t (ts_end (spans ! nat (i - 1)))) [lower..limit]
      in if choices \<noteq> [] then Some (closest target choices, reason)
         else first_boundary ps t spans lower limit target)"

definition choose_end ::
    "utext \<Rightarrow> TokenSpan list \<Rightarrow> int \<Rightarrow> ChunkingContract \<Rightarrow> int \<Rightarrow> (int \<times> string) res" where
  "choose_end t spans start contract body_budget =
     (let total_spans = int (length spans) in
      if total_spans - start \<le> body_budget then Inr (total_spans, ''SOURCE_END'')
      else
        let limit = min (start + body_budget) total_spans;
            target = min (start + cg_soft_target_tokens contract) limit
        in if cg_strategy contract = ChunkStrategy.FIXED_TOKEN then Inr (target, ''FIXED_TOKEN_WINDOW'')
           else
             let lower = start + max (cg_min_useful_tokens contract) (cg_overlap_tokens contract + 1)
             in case first_boundary (boundary_priorities contract) t spans lower limit target of
                  Some choice \<Rightarrow> Inr choice
                | None \<Rightarrow>
                    if cg_oversized_policy contract = OversizedPolicy.FAIL_CLOSED
                    then Inl (ChunkGenerationError ''OVERSIZED_ATOMIC_UNIT'')
                    else Inr (limit, ''HARD_TOKEN_FALLBACK''))"

section \<open>Structural context\<close>

record ContextScan =
  cx_heading :: "SourceSegment option"
  cx_table_header :: "SourceSegment option"
  cx_current_table :: "(nat \<times> nat) option"

definition starts_with :: "nat \<Rightarrow> utext \<Rightarrow> bool" where
  "starts_with c t \<longleftrightarrow> (case t of [] \<Rightarrow> False | d # _ \<Rightarrow> d = c)"

text \<open>The loop over the lines, up to the line that holds the start of the body.\<close>

definition scan_line :: "nat \<Rightarrow> nat \<Rightarrow> utext \<Rightarrow> ContextScan \<Rightarrow> ContextScan" where
  "scan_line body_start offset line st =
     (let line_end = offset + length line;
          visible_end = offset + length (rstrip_newlines line);
          stripped = lstrip line;
          heading = (if starts_with 35 stripped \<and> offset \<le> body_start
                     then Some \<lparr>sg_start = offset, sg_end = visible_end, sg_role = ''heading-context''\<rparr>
                     else cx_heading st)
      in if starts_with 124 stripped
         then \<lparr>cx_heading = heading,
               cx_table_header = (if cx_current_table st = None
                 then Some \<lparr>sg_start = offset, sg_end = visible_end, sg_role = ''table-header-context''\<rparr>
                 else cx_table_header st),
               cx_current_table = Some (offset, line_end)\<rparr>
         else \<lparr>cx_heading = heading, cx_table_header = None, cx_current_table = None\<rparr>)"

fun scan_lines :: "nat \<Rightarrow> nat \<Rightarrow> utext list \<Rightarrow> ContextScan \<Rightarrow> ContextScan" where
  "scan_lines body_start offset [] st = st"
| "scan_lines body_start offset (line # ls) st =
     (let st' = scan_line body_start offset line st
      in if offset \<le> body_start \<and> body_start < offset + length line then st'
         else scan_lines body_start (offset + length line) ls st')"

definition context_segments :: "utext \<Rightarrow> nat \<Rightarrow> SourceSegment list" where
  "context_segments canonical body_start =
     (let st = scan_lines body_start 0 (splitlines_keepends canonical)
                 \<lparr>cx_heading = None, cx_table_header = None, cx_current_table = None\<rparr>
      in (case cx_heading st of Some h \<Rightarrow> if sg_end h \<le> body_start then [h] else [] | None \<Rightarrow> []) @
         (if cx_current_table st = None then []
          else case cx_table_header st of Some h \<Rightarrow> if sg_end h \<le> body_start then [h] else [] | None \<Rightarrow> []))"

definition context_parts :: "utext \<Rightarrow> string \<Rightarrow> SourceSegment list \<Rightarrow> utext list res" where
  "context_parts canonical version segments =
     map_res (\<lambda>s. bind_res (normalize (slice (sg_start s) (sg_end s) canonical) version) (\<lambda>n. Inr (nt_text n))) segments"

section \<open>Generation\<close>

record ChunkLoop =
  gl_start :: int
  gl_chunks :: "ChunkCandidate list"
  gl_output_chars :: int
  gl_work_units :: int

text \<open>
  One iteration: the chunk, the token index it ends at, the start of the next one, and the running
  totals.
\<close>

definition chunk_body ::
    "TokenizerPort \<Rightarrow> ChunkingContract \<Rightarrow> NormalizedText \<Rightarrow> TokenSpan list \<Rightarrow> int \<Rightarrow> ChunkLoop
      \<Rightarrow> SourceSegment list \<Rightarrow> utext \<Rightarrow> int \<Rightarrow> int \<Rightarrow> string \<Rightarrow> (ChunkCandidate \<times> int \<times> int \<times> int \<times> int) res" where
  "chunk_body port contract normalized spans memory st segments context_prefix work_units stop reason =
     (let start = gl_start st; total_spans = int (length spans);
          normalized_start = ts_start (spans ! nat start); normalized_end = ts_end (spans ! nat (stop - 1)) in
      if stop \<le> start \<or> stop - start > cg_hard_max_tokens contract
      then Inl (ChunkGenerationError ''INVALID_STRATEGY_BOUNDARY'')
      else
        bind_res (source_interval normalized normalized_start normalized_end) (\<lambda>(chunk_start, chunk_end).
        let content = context_prefix @ slice normalized_start normalized_end (nt_text normalized) in
        bind_res (tp_count port content) (\<lambda>actual_count.
        let output_chars = gl_output_chars st + int (length content);
            next_start = max 0 (stop - cg_overlap_tokens contract) in
        if actual_count > cg_hard_max_tokens contract
        then Inl (ChunkGenerationError ''STRUCTURAL_CONTEXT_EXCEEDS_TOKEN_BUDGET'')
        else if output_chars > cg_max_output_chars contract
        then Inl (ChunkGenerationError ''OUTPUT_SIZE_BUDGET_EXCEEDED'')
        else if memory + 4 * output_chars > cg_max_estimated_memory_bytes contract
        then Inl (ChunkGenerationError ''ESTIMATED_MEMORY_BUDGET_EXCEEDED'')
        else if stop - start < cg_min_useful_tokens contract \<and> total_spans \<ge> cg_min_useful_tokens contract
        then Inl (ChunkGenerationError ''MINIMUM_USEFUL_SIZE_NOT_MET'')
        else if stop < total_spans \<and> next_start \<le> start
        then Inl (ChunkGenerationError ''NON_ADVANCING_OVERLAP'')
        else
          bind_res (SourceSegment_post_init \<lparr>sg_start = chunk_start, sg_end = chunk_end, sg_role = ''body''\<rparr>) (\<lambda>body.
          bind_res (sha256_text content) (\<lambda>content_hash.
          Inr (\<lparr>ckc_ordinal = int (length (gl_chunks st)), ckc_text = content,
                ckc_source_segments = segments @ [body], ckc_token_count = actual_count,
                ckc_content_hash = content_hash, ckc_boundary_reason = reason,
                ckc_overlap_left_tokens = (if start > 0 then cg_overlap_tokens contract else 0),
                ckc_overlap_right_tokens = (if stop < total_spans then cg_overlap_tokens contract else 0),
                ckc_joiner = (if segments \<noteq> [] then [10] else [])\<rparr>,
               stop, next_start, output_chars, work_units))))))"

text \<open>The context of the chunk that starts at token \<open>start\<close>.\<close>

definition chunk_context ::
    "ChunkingContract \<Rightarrow> utext \<Rightarrow> NormalizedText \<Rightarrow> TokenSpan list \<Rightarrow> int \<Rightarrow> SourceSegment list" where
  "chunk_context contract canonical normalized spans start =
     (if cg_strategy contract = ChunkStrategy.SECTION_AWARE
      then context_segments canonical (fst (nt_source_offsets normalized ! ts_start (spans ! nat start)))
      else [])"

definition context_prefix :: "utext list \<Rightarrow> utext" where
  "context_prefix parts = ujoin [10] parts @ (if parts \<noteq> [] then [10] else [])"

definition chunk_step ::
    "TokenizerPort \<Rightarrow> (nat \<Rightarrow> rat) \<Rightarrow> ChunkingContract \<Rightarrow> utext \<Rightarrow> NormalizedText \<Rightarrow> TokenSpan list \<Rightarrow> int
      \<Rightarrow> ChunkLoop \<Rightarrow> (ChunkCandidate \<times> int \<times> int \<times> int \<times> int) res" where
  "chunk_step port clock contract canonical normalized spans memory st =
     (let start = gl_start st;
          work_units = gl_work_units st + min (cg_hard_max_tokens contract) (int (length spans) - start);
          segments = chunk_context contract canonical normalized spans start in
      if clock (length (gl_chunks st) + 1) - clock 0 > pf_value (cg_deadline_seconds contract)
      then Inl (ChunkGenerationError ''CHUNKING_DEADLINE_EXCEEDED'')
      else if int (length (gl_chunks st)) \<ge> cg_max_chunk_count contract
      then Inl (ChunkGenerationError ''MAX_CHUNK_COUNT_EXCEEDED'')
      else if work_units > cg_max_token_work_units contract
      then Inl (ChunkGenerationError ''TOKEN_WORK_BUDGET_EXCEEDED'')
      else
        bind_res (context_parts canonical (cg_normalization_version contract) segments) (\<lambda>parts.
        bind_res (tp_count port (context_prefix parts)) (\<lambda>prefix_count.
        let body_budget = cg_hard_max_tokens contract - prefix_count in
        if body_budget < max (cg_min_useful_tokens contract) (cg_overlap_tokens contract + 1)
        then Inl (ChunkGenerationError ''STRUCTURAL_CONTEXT_EXCEEDS_TOKEN_BUDGET'')
        else
          bind_res (choose_end (nt_text normalized) spans start contract body_budget) (\<lambda>(stop, reason).
          chunk_body port contract normalized spans memory st segments (context_prefix parts) work_units stop reason))))"

text \<open>A chosen end lies within the spans, so the loop advances.\<close>

lemma foldl_pick: "foldl (\<lambda>best i. if P i best then i else best) b xs \<in> set (b # xs)"
proof (induction xs arbitrary: b)
  case (Cons x xs)
  show ?case using Cons.IH [of x] Cons.IH [of b] by (cases "P x b") auto
qed simp

lemma closest_in: "choices \<noteq> [] \<Longrightarrow> closest target choices \<in> set choices"
  using foldl_pick [of "closer target" "hd choices" "tl choices"] by (simp add: closest_def)

lemma first_boundary_range:
  "first_boundary ps t spans lower limit target = Some (i, reason) \<Longrightarrow> lower \<le> i \<and> i \<le> limit"
proof (induction ps t spans lower limit target rule: first_boundary.induct)
  case (2 reason' predicate ps t spans lower limit target)
  let ?choices = "filter (\<lambda>i. predicate t (ts_end (spans ! nat (i - 1)))) [lower..limit]"
  show ?case
  proof (cases "?choices = []")
    case True
    with 2 show ?thesis by simp
  next
    case False
    with 2(2) have "i = closest target ?choices" by (simp add: Let_def split: if_splits)
    with closest_in [OF False, of target] show ?thesis by simp
  qed
qed simp

text \<open>
  A chosen end, short of the end of the text, leaves room for the overlap and stays within the
  budget.
\<close>

lemma choose_end_cases:
  assumes "choose_end t spans start contract budget = Inr (stop, reason)"
  obtains (rest) "stop = int (length spans)" "stop - start \<le> budget"
  | (target) "start + budget < int (length spans)"
      "stop = min (start + cg_soft_target_tokens contract) (start + budget)"
  | (boundary) "start + budget < int (length spans)"
      "start + max (cg_min_useful_tokens contract) (cg_overlap_tokens contract + 1) \<le> stop" "stop \<le> start + budget"
  | (fallback) "start + budget < int (length spans)" "stop = start + budget"
proof (cases "int (length spans) - start \<le> budget")
  case True
  with assms show ?thesis by (intro rest) (simp_all add: choose_end_def)
next
  case False
  then have small: "start + budget < int (length spans)" by simp
  then have lim: "min (start + budget) (int (length spans)) = start + budget" by simp
  show ?thesis
  proof (cases "cg_strategy contract = ChunkStrategy.FIXED_TOKEN")
    case True
    with assms False show ?thesis by (intro target [OF small]) (simp add: choose_end_def Let_def lim)
  next
    case nf: False
    let ?lower = "start + max (cg_min_useful_tokens contract) (cg_overlap_tokens contract + 1)"
    let ?fb = "first_boundary (boundary_priorities contract) t spans ?lower (start + budget)
      (min (start + cg_soft_target_tokens contract) (start + budget))"
    show ?thesis
    proof (cases ?fb)
      case None
      with assms False nf show ?thesis
        by (intro fallback [OF small]) (simp add: choose_end_def Let_def lim split: if_splits)
    next
      case (Some c)
      with assms False nf have "?fb = Some (stop, reason)" by (simp add: choose_end_def Let_def lim)
      from first_boundary_range [OF this] show ?thesis by (intro boundary [OF small]) simp_all
    qed
  qed
qed

lemma choose_end_le:
  assumes "choose_end t spans start contract budget = Inr (stop, reason)"
  shows "stop \<le> int (length spans)"
  using assms by (cases rule: choose_end_cases) auto

text \<open>The facts a successful iteration establishes.\<close>

lemma chunk_body_ok:
  assumes "chunk_body port contract normalized spans memory st segments pre w stop reason =
    Inr (chunk, stop', nxt, out, work)"
  obtains a b where
    "stop' = stop" "gl_start st < stop" "stop - gl_start st \<le> cg_hard_max_tokens contract"
    "source_interval normalized (ts_start (spans ! nat (gl_start st))) (ts_end (spans ! nat (stop - 1))) = Inr (a, b)"
    "a < b" "tp_count port (ckc_text chunk) = Inr (ckc_token_count chunk)"
    "ckc_token_count chunk \<le> cg_hard_max_tokens contract"
    "out \<le> cg_max_output_chars contract" "out = gl_output_chars st + int (length (ckc_text chunk))"
    "cg_min_useful_tokens contract \<le> stop - gl_start st \<or> int (length spans) < cg_min_useful_tokens contract"
    "nxt = max 0 (stop - cg_overlap_tokens contract)" "stop < int (length spans) \<longrightarrow> gl_start st < nxt"
    "ckc_ordinal chunk = int (length (gl_chunks st))"
    "ckc_text chunk = pre @ slice (ts_start (spans ! nat (gl_start st))) (ts_end (spans ! nat (stop - 1))) (nt_text normalized)"
    "ckc_source_segments chunk = segments @ [\<lparr>sg_start = a, sg_end = b, sg_role = ''body''\<rparr>]"
    "sha256_text (ckc_text chunk) = Inr (ckc_content_hash chunk)"
    "ckc_overlap_left_tokens chunk = (if gl_start st > 0 then cg_overlap_tokens contract else 0)"
    "ckc_overlap_right_tokens chunk = (if stop < int (length spans) then cg_overlap_tokens contract else 0)"
    "ckc_joiner chunk = (if segments \<noteq> [] then [10] else [])"
proof -
  obtain a b where iv: "source_interval normalized (ts_start (spans ! nat (gl_start st))) (ts_end (spans ! nat (stop - 1))) = Inr (a, b)"
    using assms unfolding chunk_body_def Let_def if_Inl_eq_Inr
    by (cases "source_interval normalized (ts_start (spans ! nat (gl_start st))) (ts_end (spans ! nat (stop - 1)))") auto
  define content where
    "content = pre @ slice (ts_start (spans ! nat (gl_start st))) (ts_end (spans ! nat (stop - 1))) (nt_text normalized)"
  obtain n where n: "tp_count port content = Inr n"
    using assms unfolding chunk_body_def Let_def if_Inl_eq_Inr iv bind_res_simps prod.case content_def [symmetric]
    by (cases "tp_count port content") auto
  have post: "SourceSegment_post_init \<lparr>sg_start = a, sg_end = b, sg_role = ''body''\<rparr> = Inr \<lparr>sg_start = a, sg_end = b, sg_role = ''body''\<rparr>"
  proof (cases "SourceSegment_post_init \<lparr>sg_start = a, sg_end = b, sg_role = ''body''\<rparr>")
    case (Inl e)
    with assms show ?thesis
      unfolding chunk_body_def Let_def if_Inl_eq_Inr iv bind_res_simps prod.case content_def [symmetric] n by simp
  qed (simp add: SourceSegment_post_init_def split: if_splits)
  obtain h where h: "sha256_text content = Inr h"
    using assms
    unfolding chunk_body_def Let_def if_Inl_eq_Inr iv bind_res_simps prod.case content_def [symmetric] n post
    by (cases "sha256_text content") auto
  have facts: "\<not> (stop \<le> gl_start st \<or> stop - gl_start st > cg_hard_max_tokens contract)"
    "\<not> n > cg_hard_max_tokens contract" "\<not> gl_output_chars st + int (length content) > cg_max_output_chars contract"
    "\<not> (stop - gl_start st < cg_min_useful_tokens contract \<and> int (length spans) \<ge> cg_min_useful_tokens contract)"
    "\<not> (stop < int (length spans) \<and> max 0 (stop - cg_overlap_tokens contract) \<le> gl_start st)"
    and res: "chunk = \<lparr>ckc_ordinal = int (length (gl_chunks st)), ckc_text = content,
      ckc_source_segments = segments @ [\<lparr>sg_start = a, sg_end = b, sg_role = ''body''\<rparr>], ckc_token_count = n,
      ckc_content_hash = h, ckc_boundary_reason = reason,
      ckc_overlap_left_tokens = (if gl_start st > 0 then cg_overlap_tokens contract else 0),
      ckc_overlap_right_tokens = (if stop < int (length spans) then cg_overlap_tokens contract else 0),
      ckc_joiner = (if segments \<noteq> [] then [10] else [])\<rparr>"
      "stop' = stop" "nxt = max 0 (stop - cg_overlap_tokens contract)" "out = gl_output_chars st + int (length content)"
    using assms
    unfolding chunk_body_def Let_def if_Inl_eq_Inr iv bind_res_simps prod.case content_def [symmetric] n post h
      sum.inject prod.inject
    by blast+
  have ab: "a < b" using post by (simp add: SourceSegment_post_init_def split: if_splits)
  have adv: "stop < int (length spans) \<longrightarrow> gl_start st < nxt"
    using facts(5) res(3) by linarith
  show ?thesis
    by (rule that [OF res(2) _ _ iv ab _ _ _ _ _ res(3) adv])
      (use facts res(1,4) n h in \<open>simp_all add: content_def not_le not_less\<close>)
qed

lemma chunk_step_ok:
  assumes "chunk_step port clock contract canonical normalized spans memory st = Inr (chunk, stop, nxt, out, work)"
  obtains parts prefix_count reason where
    "context_parts canonical (cg_normalization_version contract)
       (chunk_context contract canonical normalized spans (gl_start st)) = Inr parts"
    "tp_count port (context_prefix parts) = Inr prefix_count"
    "max (cg_min_useful_tokens contract) (cg_overlap_tokens contract + 1) \<le> cg_hard_max_tokens contract - prefix_count"
    "int (length (gl_chunks st)) < cg_max_chunk_count contract"
    "choose_end (nt_text normalized) spans (gl_start st) contract (cg_hard_max_tokens contract - prefix_count) = Inr (stop, reason)"
    "chunk_body port contract normalized spans memory st
       (chunk_context contract canonical normalized spans (gl_start st)) (context_prefix parts) work stop reason =
     Inr (chunk, stop, nxt, out, work)"
proof -
  from assms obtain parts prefix_count stop' reason w where
    f: "context_parts canonical (cg_normalization_version contract)
       (chunk_context contract canonical normalized spans (gl_start st)) = Inr parts"
      "tp_count port (context_prefix parts) = Inr prefix_count"
      "\<not> cg_hard_max_tokens contract - prefix_count < max (cg_min_useful_tokens contract) (cg_overlap_tokens contract + 1)"
      "\<not> int (length (gl_chunks st)) \<ge> cg_max_chunk_count contract"
      "choose_end (nt_text normalized) spans (gl_start st) contract (cg_hard_max_tokens contract - prefix_count) = Inr (stop', reason)"
    and body: "chunk_body port contract normalized spans memory st
       (chunk_context contract canonical normalized spans (gl_start st)) (context_prefix parts) w stop' reason =
     Inr (chunk, stop, nxt, out, work)"
    unfolding chunk_step_def Let_def if_Inl_eq_Inr bind_res_eq_Inr by (auto split: prod.splits)
  have "stop' = stop" using body by (rule chunk_body_ok) simp
  moreover have "w = work"
    using body by (auto simp: chunk_body_def Let_def if_Inl_eq_Inr bind_res_eq_Inr split: prod.splits)
  ultimately show ?thesis using f body by (intro that) auto
qed

lemma chunk_step_advances:
  assumes "chunk_step port clock contract canonical normalized spans memory st = Inr (chunk, stop, nxt, out, work)"
  shows "gl_start st < stop \<and> stop \<le> int (length spans) \<and> (stop < int (length spans) \<longrightarrow> gl_start st < nxt)"
proof (rule chunk_step_ok [OF assms])
  fix parts prefix_count reason
  assume ce: "choose_end (nt_text normalized) spans (gl_start st) contract (cg_hard_max_tokens contract - prefix_count) = Inr (stop, reason)"
    and body: "chunk_body port contract normalized spans memory st
       (chunk_context contract canonical normalized spans (gl_start st)) (context_prefix parts) work stop reason =
     Inr (chunk, stop, nxt, out, work)"
  from body show ?thesis by (rule chunk_body_ok) (use choose_end_le [OF ce] in simp)
qed

function chunk_loop ::
    "TokenizerPort \<Rightarrow> (nat \<Rightarrow> rat) \<Rightarrow> ChunkingContract \<Rightarrow> utext \<Rightarrow> NormalizedText \<Rightarrow> TokenSpan list \<Rightarrow> int
      \<Rightarrow> ChunkLoop \<Rightarrow> ChunkCandidate list res" where
  "chunk_loop port clock contract canonical normalized spans memory st =
     (if gl_start st < int (length spans)
      then case chunk_step port clock contract canonical normalized spans memory st of
             Inl e \<Rightarrow> Inl e
           | Inr (chunk, stop, next_start, output_chars, work_units) \<Rightarrow>
               if stop = int (length spans) then Inr (gl_chunks st @ [chunk])
               else chunk_loop port clock contract canonical normalized spans memory
                      \<lparr>gl_start = next_start, gl_chunks = gl_chunks st @ [chunk],
                       gl_output_chars = output_chars, gl_work_units = work_units\<rparr>
      else Inr (gl_chunks st))"
  by pat_completeness auto

termination
proof (relation "measure (\<lambda>(port, clock, contract, canonical, normalized, spans, memory, st).
    nat (int (length spans) - gl_start st))", goal_cases)
  case (2 port clock contract canonical normalized spans memory st p chunk r1 stop r2 nxt r3 out work)
  then have "chunk_step port clock contract canonical normalized spans memory st = Inr (chunk, stop, nxt, out, work)"
    by simp
  from chunk_step_advances [OF this] 2 show ?case by auto
qed simp

declare chunk_loop.simps [simp del]

definition encoded_memory :: "utext \<Rightarrow> utext \<Rightarrow> TokenSpan list \<Rightarrow> int res" where
  "encoded_memory canonical t spans =
     bind_res (encode_utf8 canonical) (\<lambda>a. bind_res (encode_utf8 t) (\<lambda>b.
       Inr (int (length a) + int (length b) + 32 * int (length spans))))"

text \<open>Its value for texts that can be encoded.\<close>

definition estimated_memory :: "utext \<Rightarrow> utext \<Rightarrow> TokenSpan list \<Rightarrow> int" where
  "estimated_memory canonical t spans =
     int (length (utf8_encode canonical)) + int (length (utf8_encode t)) + 32 * int (length spans)"

lemma encoded_memory_eq:
  "encodable canonical \<Longrightarrow> encodable t \<Longrightarrow> encoded_memory canonical t spans = Inr (estimated_memory canonical t spans)"
  by (simp add: encoded_memory_def estimated_memory_def encode_utf8_def)

definition generate_chunks ::
    "TokenizerPort \<Rightarrow> (nat \<Rightarrow> rat) \<Rightarrow> ParsedArtifactDefinition \<Rightarrow> ChunkingContract \<Rightarrow> ChunkingOperationIdentity
      \<Rightarrow> ChunkingAttemptIdentity \<Rightarrow> string \<Rightarrow> ChunkSetCandidate res" where
  "generate_chunks port clock parsed contract operation attempt experiment_id =
     (let canonical = px_canonical_text parsed in
      if \<not> truthy experiment_id then Inl (ChunkGenerationError ''EXPERIMENT_ID_REQUIRED'')
      else if cg_tokenizer contract \<noteq> tp_contract port
      then Inl (ChunkGenerationError ''TOKENIZER_CONTRACT_MISMATCH'')
      else if cop_contract_fingerprint operation \<noteq> contract_fingerprint contract
      then Inl (ChunkGenerationError ''CHUNKING_CONTRACT_MISMATCH'')
      else if cop_parsed_artifact_id operation \<noteq> px_parsed_artifact_id parsed
      then Inl (ChunkGenerationError ''PARSED_ARTIFACT_BINDING_MISMATCH'')
      else if cat_operation_id attempt \<noteq> cop_operation_id operation
      then Inl (ChunkGenerationError ''ATTEMPT_OPERATION_MISMATCH'')
      else if canonical = [] \<or> int (length canonical) > cg_max_input_chars contract
      then Inl (ChunkGenerationError ''INPUT_SIZE_BUDGET_EXCEEDED'')
      else
        bind_res (sha256_text canonical) (\<lambda>checksum.
        if px_output_checksum_sha256 parsed \<noteq> checksum
        then Inl (ChunkGenerationError ''PARSED_ARTIFACT_CHECKSUM_MISMATCH'')
        else
        bind_res (normalize canonical (cg_normalization_version contract)) (\<lambda>normalized.
        bind_res (tp_spans port (nt_text normalized)) (\<lambda>spans.
        if spans = [] then Inl (ChunkGenerationError ''EMPTY_PARSED_ARTIFACT'')
        else
        bind_res (encoded_memory canonical (nt_text normalized) spans) (\<lambda>memory.
        if int (length spans) > cg_max_token_work_units contract
        then Inl (ChunkGenerationError ''TOKEN_WORK_BUDGET_EXCEEDED'')
        else if memory > cg_max_estimated_memory_bytes contract
        then Inl (ChunkGenerationError ''ESTIMATED_MEMORY_BUDGET_EXCEEDED'')
        else
          bind_res (chunk_loop port clock contract canonical normalized spans memory
                      \<lparr>gl_start = 0, gl_chunks = [], gl_output_chars = 0, gl_work_units = int (length spans)\<rparr>) (\<lambda>chunks.
          bind_res (candidate_chunks_checksum chunks) (\<lambda>checksum.
          Inr \<lparr>csc_operation = operation, csc_attempt = attempt, csc_experiment_id = experiment_id, csc_chunks = chunks,
               csc_manifest = \<lparr>cmf_chunk_count = int (length chunks),
                 cmf_source_checksum = px_output_checksum_sha256 parsed,
                 cmf_contract_fingerprint = contract_fingerprint contract,
                 cmf_chunks_checksum = checksum\<rparr>\<rparr>)))))))"

end
