(* ===== verification/Chunking_Text.thy ===== *)
theory Chunking_Text
  imports Chunking
begin

text \<open>
  Lemmas about the two text ports of chunking. Both the normalization and the tokenizer scan a text
  from left to right into pieces that tile it, and both can be restarted at a piece boundary: the
  locale \<open>scanner\<close> states this contract, with interpretations for the identity and the collapsing
  normalization and for the tokenizer. The locale \<open>tokenizer_port\<close> is what the generator and the
  validator of chunks rely on.
\<close>

section \<open>Tilings\<close>

fun tiles :: "nat \<Rightarrow> (nat \<times> nat) list \<Rightarrow> nat \<Rightarrow> bool" where
  "tiles a [] b \<longleftrightarrow> a = b"
| "tiles a ((x, y) # r) b \<longleftrightarrow> x = a \<and> x < y \<and> tiles y r b"

lemma tiles_append: "tiles a (xs @ ys) c \<longleftrightarrow> (\<exists>b. tiles a xs b \<and> tiles b ys c)"
  by (induction a xs c rule: tiles.induct) auto

lemma tiles_nth:
  "tiles a xs b \<Longrightarrow> i < length xs \<Longrightarrow> fst (xs ! i) < snd (xs ! i)"
proof (induction a xs b arbitrary: i rule: tiles.induct)
  case (2 a x y r b)
  then show ?case by (cases i) auto
qed simp

lemma tiles_link:
  "tiles a xs b \<Longrightarrow> Suc i < length xs \<Longrightarrow> snd (xs ! i) = fst (xs ! Suc i)"
proof (induction a xs b arbitrary: i rule: tiles.induct)
  case (2 a x y r b)
  then show ?case by (cases r; cases i) auto
qed simp

lemma tiles_hd: "tiles a xs b \<Longrightarrow> xs \<noteq> [] \<Longrightarrow> fst (xs ! 0) = a"
  by (cases xs) auto

lemma tiles_last: "tiles a xs b \<Longrightarrow> xs \<noteq> [] \<Longrightarrow> snd (xs ! (length xs - 1)) = b"
proof (induction a xs b rule: tiles.induct)
  case (2 a x y r b)
  then show ?case by (cases r) auto
qed simp

text \<open>The boundaries of a tiling, from the first start to the last end.\<close>

definition bound :: "(nat \<times> nat) list \<Rightarrow> nat \<Rightarrow> nat \<Rightarrow> nat" where
  "bound xs b i = (if i < length xs then fst (xs ! i) else b)"

lemma bound_0: "tiles a xs b \<Longrightarrow> bound xs b 0 = a"
  by (cases xs) (auto simp: bound_def)

lemma bound_end: "length xs \<le> i \<Longrightarrow> bound xs b i = b"
  by (simp add: bound_def)

lemma bound_Suc: "tiles a xs b \<Longrightarrow> i < length xs \<Longrightarrow> snd (xs ! i) = bound xs b (Suc i)"
proof (cases "Suc i = length xs")
  case True
  then have "i = length xs - 1" "xs \<noteq> []" by auto
  moreover assume "tiles a xs b"
  ultimately show ?thesis using tiles_last [of a xs b] True by (simp add: bound_def)
qed (use tiles_link [of a xs b i] in \<open>auto simp: bound_def\<close>)

lemma bound_less:
  assumes "tiles a xs b" "i < j" "j \<le> length xs"
  shows "bound xs b i < bound xs b j"
proof -
  have step: "bound xs b k < bound xs b (Suc k)" if "k < length xs" for k
    using tiles_nth [OF assms(1) that] bound_Suc [OF assms(1) that] that by (simp add: bound_def)
  from assms(2) have "j \<le> length xs \<longrightarrow> bound xs b i < bound xs b j"
  proof (induction rule: less_Suc_induct)
    case (1 k)
    then show ?case using step [of k] by simp
  qed auto
  with assms(3) show ?thesis by simp
qed

lemma bound_mono: "tiles a xs b \<Longrightarrow> i \<le> j \<Longrightarrow> j \<le> length xs \<Longrightarrow> bound xs b i \<le> bound xs b j"
  using bound_less [of a xs b i j] by (cases "i = j") auto

lemma bound_le: "tiles a xs b \<Longrightarrow> bound xs b i \<le> b"
  using bound_mono [of a xs b i "length xs"] by (cases "i \<le> length xs") (auto simp: bound_end)

lemma slice_nth_iv: "i < j \<Longrightarrow> j \<le> length xs \<Longrightarrow> slice i j xs \<noteq> [] \<and> hd (slice i j xs) = xs ! i \<and> length (slice i j xs) = j - i"
  by (auto simp: slice_def hd_drop_conv_nth)

lemma slice_append_mid: "slice (length u) (length u + length v) (u @ v @ w) = v"
  by (simp add: slice_def)

lemma slice_within: "slice a b t = slice a b (take c t)" if "b \<le> c"
  using that by (simp add: slice_def drop_take min_def)

section \<open>Scanners\<close>

locale scanner =
  fixes scan :: "nat \<Rightarrow> 'a list \<Rightarrow> 'b list" and iv :: "'b \<Rightarrow> nat \<times> nat"
  assumes scan_tiles: "tiles k (map iv (scan k t)) (k + length t)"
    and scan_split: "i \<le> length (scan k t) \<Longrightarrow>
      \<exists>t1 t2. t = t1 @ t2 \<and> scan k t1 = take i (scan k t) \<and> scan (k + length t1) t2 = drop i (scan k t)"
begin

lemma scan_between:
  assumes "i < j" "j \<le> length (scan 0 t)"
  shows "scan (fst (iv (scan 0 t ! i))) (slice (fst (iv (scan 0 t ! i))) (snd (iv (scan 0 t ! (j - 1)))) t)
    = slice i j (scan 0 t)"
proof -
  from scan_split [OF assms(2)] obtain t1 t2
    where t: "t = t1 @ t2" and s1: "scan 0 t1 = take j (scan 0 t)" by auto
  have len: "length (scan 0 t1) = j" using s1 assms(2) by simp
  from scan_split [of i 0 t1] len assms(1) obtain u v
    where t1: "t1 = u @ v" and u: "scan 0 u = take i (scan 0 t1)" and v: "scan (length u) v = drop i (scan 0 t1)"
    by auto
  have vs: "scan (length u) v = slice i j (scan 0 t)"
    using v s1 by (simp add: slice_def drop_take)
  have a: "fst (iv (scan 0 t ! i)) = length u"
  proof -
    obtain x xs where x: "slice i j (scan 0 t) = x # xs" "x = scan 0 t ! i"
      using slice_nth_iv [OF assms] by (cases "slice i j (scan 0 t)") auto
    then show ?thesis using tiles_hd [OF scan_tiles [of "length u" v]] vs by simp
  qed
  have b: "snd (iv (scan 0 t ! (j - 1))) = length t1"
    using tiles_last [OF scan_tiles [of 0 t1]] len assms s1 by (cases "scan 0 t = []") (simp_all add: nth_take)
  have "slice (length u) (length t1) t = v" using slice_append_mid [of u v t2] t t1 by simp
  then show ?thesis unfolding a b using vs by simp
qed

end

section \<open>Normalization\<close>

lemma takeWhile_prefix: "(\<And>x. x \<in> set p \<Longrightarrow> P x) \<Longrightarrow> r = [] \<or> \<not> P (hd r) \<Longrightarrow> takeWhile P (p @ r) = p \<and> dropWhile P (p @ r) = r"
  by (cases r) auto

lemma run_split:
  assumes "dropWhile P cs = t1 @ t2"
  shows "cs = (takeWhile P cs @ t1) @ t2"
    and "takeWhile P (takeWhile P cs @ t1) = takeWhile P cs"
    and "dropWhile P (takeWhile P cs @ t1) = t1"
proof -
  show "cs = (takeWhile P cs @ t1) @ t2" using assms by (metis append_assoc takeWhile_dropWhile_id)
  have "t1 = [] \<or> \<not> P (hd t1)"
    using assms hd_dropWhile [of P cs] by (cases t1) auto
  then have "takeWhile P (takeWhile P cs @ t1) = takeWhile P cs \<and> dropWhile P (takeWhile P cs @ t1) = t1"
    by (intro takeWhile_prefix) (auto dest: set_takeWhileD)
  then show "takeWhile P (takeWhile P cs @ t1) = takeWhile P cs" "dropWhile P (takeWhile P cs @ t1) = t1"
    by auto
qed

lemma collapse_tiles: "tiles k (map snd (collapse_from k t)) (k + length t)"
proof (induction k t rule: collapse_from.induct)
  case (2 k c cs)
  have "length (takeWhile is_blank cs) + length (dropWhile is_blank cs) = length cs"
    by (metis length_append takeWhile_dropWhile_id)
  with 2 show ?case by (auto simp: Let_def ac_simps)
qed simp

lemma collapse_split:
  "i \<le> length (collapse_from k t) \<Longrightarrow>
     \<exists>t1 t2. t = t1 @ t2 \<and> collapse_from k t1 = take i (collapse_from k t)
       \<and> collapse_from (k + length t1) t2 = drop i (collapse_from k t)"
proof (induction k t arbitrary: i rule: collapse_from.induct)
  case (2 k c cs)
  show ?case
  proof (cases i)
    case 0
    show ?thesis by (rule exI [of _ "[]"]) (simp add: 0)
  next
    case (Suc m)
    show ?thesis
    proof (cases "is_blank c")
      case True
      let ?stop = "k + 1 + length (takeWhile is_blank cs)"
      have le: "m \<le> length (collapse_from ?stop (dropWhile is_blank cs))" using 2(3) True Suc by (simp add: Let_def)
      from 2(1) [OF True refl le] obtain t1 t2 where d: "dropWhile is_blank cs = t1 @ t2"
        and h: "collapse_from ?stop t1 = take m (collapse_from ?stop (dropWhile is_blank cs))"
          "collapse_from (?stop + length t1) t2 = drop m (collapse_from ?stop (dropWhile is_blank cs))"
        by blast
      show ?thesis
        by (rule exI [of _ "c # takeWhile is_blank cs @ t1"], rule exI [of _ t2])
          (use True Suc h run_split [OF d] in \<open>simp add: Let_def ac_simps\<close>)
    next
      case False
      have le: "m \<le> length (collapse_from (k + 1) cs)" using 2(3) False Suc by simp
      from 2(2) [OF False le] obtain t1 t2 where "cs = t1 @ t2"
        "collapse_from (k + 1) t1 = take m (collapse_from (k + 1) cs)"
        "collapse_from (k + 1 + length t1) t2 = drop m (collapse_from (k + 1) cs)"
        by blast
      then show ?thesis
        by (intro exI [of _ "c # t1"] exI [of _ t2]) (use False Suc in simp)
    qed
  qed
qed simp

interpretation collapsing: scanner collapse_from snd
  by unfold_locales (fact collapse_tiles, fact collapse_split)

lemma collapse_shift: "map fst (collapse_from k t) = map fst (collapse_from 0 t)"
proof -
  have "map fst (collapse_from k t) = map fst (collapse_from m t)" for m
  proof (induction k t arbitrary: m rule: collapse_from.induct)
    case (2 k c cs)
    show ?case
      using 2(1) [OF _ refl, of "m + 1 + length (takeWhile is_blank cs)"] 2(2) [of "m + 1"]
      by (cases "is_blank c") (simp_all add: Let_def)
  qed simp
  then show ?thesis .
qed

text \<open>The identity map as a scanner: every code point is a piece of its own.\<close>

fun identity_from :: "nat \<Rightarrow> utext \<Rightarrow> (nat \<times> nat \<times> nat) list" where
  "identity_from k [] = []"
| "identity_from k (c # cs) = (c, k, k + 1) # identity_from (k + 1) cs"

lemma identity_tiles: "tiles k (map snd (identity_from k t)) (k + length t)"
  by (induction k t rule: identity_from.induct) auto

lemma identity_split:
  "i \<le> length (identity_from k t) \<Longrightarrow>
     \<exists>t1 t2. t = t1 @ t2 \<and> identity_from k t1 = take i (identity_from k t)
       \<and> identity_from (k + length t1) t2 = drop i (identity_from k t)"
proof (induction k t arbitrary: i rule: identity_from.induct)
  case (2 k c cs)
  show ?case
  proof (cases i)
    case 0
    show ?thesis by (rule exI [of _ "[]"]) (simp add: 0)
  next
    case (Suc m)
    have le: "m \<le> length (identity_from (k + 1) cs)" using 2(2) Suc by simp
    from 2(1) [OF le] obtain t1 t2 where "cs = t1 @ t2" "identity_from (k + 1) t1 = take m (identity_from (k + 1) cs)"
      "identity_from (k + 1 + length t1) t2 = drop m (identity_from (k + 1) cs)" by blast
    then show ?thesis by (intro exI [of _ "c # t1"] exI [of _ t2]) (use Suc in simp)
  qed
qed simp

interpretation identical: scanner identity_from snd
  by unfold_locales (fact identity_tiles, fact identity_split)

lemma identity_text: "map fst (identity_from k t) = t"
  by (induction k t rule: identity_from.induct) auto

lemma identity_offsets: "map snd (identity_from k t) = map (\<lambda>i. (i, i + 1)) [k..<k + length t]"
  by (induction k t rule: identity_from.induct) (auto simp: upt_rec)

text \<open>The normalization is one of the two scans.\<close>

lemma normalize_cases:
  assumes "normalize t version = Inr n"
  obtains (identity) "version = ''identity-v1''" "nt_text n = map fst (identity_from 0 t)"
      "nt_source_offsets n = map snd (identity_from 0 t)"
  | (collapse) "version = ''collapse-horizontal-space-v1''" "nt_text n = map fst (collapse_from 0 t)"
      "nt_source_offsets n = map snd (collapse_from 0 t)"
  using assms identity_offsets [of 0 t]
  by (auto simp: normalize_def supported_normalizations_def identity_text Let_def split: if_splits)

lemma normalize_ok: "normalize t version = Inr n \<Longrightarrow> \<exists>m. normalize u version = Inr m"
  by (auto simp: normalize_def Let_def split: if_splits)

lemma normalize_tiles:
  assumes "normalize t version = Inr n"
  shows "tiles 0 (nt_source_offsets n) (length t)" and "length (nt_source_offsets n) = length (nt_text n)"
  using assms identity_tiles [of 0 t] collapse_tiles [of 0 t] by (auto elim!: normalize_cases)

lemma normalize_between:
  assumes "normalize t version = Inr n" "i < j" "j \<le> length (nt_text n)"
  shows "\<exists>m. normalize (slice (fst (nt_source_offsets n ! i)) (snd (nt_source_offsets n ! (j - 1))) t) version = Inr m
    \<and> nt_text m = slice i j (nt_text n)"
  using assms(1)
proof (cases rule: normalize_cases)
  case identity
  with assms(2,3) have "nt_text n ! i = nt_text n ! i" by simp
  let ?s = "slice (fst (nt_source_offsets n ! i)) (snd (nt_source_offsets n ! (j - 1))) t"
  obtain m where m: "normalize ?s version = Inr m" using normalize_ok [OF assms(1)] by blast
  have "nt_text m = map fst (identity_from (fst (nt_source_offsets n ! i)) ?s)"
    using m identity(1) by (cases rule: normalize_cases) (simp_all add: identity_text)
  also have "\<dots> = map fst (slice i j (identity_from 0 t))"
    using identical.scan_between [of i j t] identity assms(2,3) by simp
  also have "\<dots> = slice i j (nt_text n)" using identity by (simp add: slice_def take_map drop_map)
  finally show ?thesis using m by blast
next
  case collapse
  let ?s = "slice (fst (nt_source_offsets n ! i)) (snd (nt_source_offsets n ! (j - 1))) t"
  obtain m where m: "normalize ?s version = Inr m" using normalize_ok [OF assms(1)] by blast
  have "nt_text m = map fst (collapse_from (fst (nt_source_offsets n ! i)) ?s)"
    using m collapse(1) by (cases rule: normalize_cases) (simp_all add: collapse_shift [symmetric])
  also have "\<dots> = map fst (slice i j (collapse_from 0 t))"
    using collapsing.scan_between [of i j t] collapse assms(2,3) by simp
  also have "\<dots> = slice i j (nt_text n)" using collapse by (simp add: slice_def take_map drop_map)
  finally show ?thesis using m by blast
qed

section \<open>The classroom tokenizer\<close>

definition span_iv :: "TokenSpan \<Rightarrow> nat \<times> nat" where
  [py_defs]: "span_iv s = (ts_start s, ts_end s)"

lemma token_tiles: "tiles k (map span_iv (token_matches k t)) (k + length t)"
proof (induction k t rule: token_matches.induct)
  case (2 k c cs)
  have "length (takeWhile is_word cs) + length (dropWhile is_word cs) = length cs"
    by (metis length_append takeWhile_dropWhile_id)
  with 2 show ?case by (auto simp: Let_def span_iv_def ac_simps)
qed simp

lemma token_split:
  "i \<le> length (token_matches k t) \<Longrightarrow>
     \<exists>t1 t2. t = t1 @ t2 \<and> token_matches k t1 = take i (token_matches k t)
       \<and> token_matches (k + length t1) t2 = drop i (token_matches k t)"
proof (induction k t arbitrary: i rule: token_matches.induct)
  case (2 k c cs)
  show ?case
  proof (cases i)
    case 0
    show ?thesis by (rule exI [of _ "[]"]) (simp add: 0)
  next
    case (Suc m)
    show ?thesis
    proof (cases "is_word c")
      case True
      let ?stop = "k + 1 + length (takeWhile is_word cs)"
      have le: "m \<le> length (token_matches ?stop (dropWhile is_word cs))" using 2(3) True Suc by (simp add: Let_def)
      from 2(1) [OF True refl le] obtain t1 t2 where d: "dropWhile is_word cs = t1 @ t2"
        and h: "token_matches ?stop t1 = take m (token_matches ?stop (dropWhile is_word cs))"
          "token_matches (?stop + length t1) t2 = drop m (token_matches ?stop (dropWhile is_word cs))"
        by blast
      show ?thesis
        by (rule exI [of _ "c # takeWhile is_word cs @ t1"], rule exI [of _ t2])
          (use True Suc h run_split [OF d] in \<open>simp add: Let_def ac_simps\<close>)
    next
      case False
      have le: "m \<le> length (token_matches (k + 1) cs)" using 2(3) False Suc by simp
      from 2(2) [OF False le] obtain t1 t2 where "cs = t1 @ t2"
        "token_matches (k + 1) t1 = take m (token_matches (k + 1) cs)"
        "token_matches (k + 1 + length t1) t2 = drop m (token_matches (k + 1) cs)"
        by blast
      then show ?thesis
        by (intro exI [of _ "c # t1"] exI [of _ t2]) (use False Suc in simp)
    qed
  qed
qed simp

interpretation lexing: scanner token_matches span_iv
  by unfold_locales (fact token_tiles, fact token_split)

lemma token_shift: "length (token_matches k t) = length (token_matches 0 t)"
proof -
  have "length (token_matches k t) = length (token_matches m t)" for m
  proof (induction k t arbitrary: m rule: token_matches.induct)
    case (2 k c cs)
    show ?case
      using 2(1) [OF _ refl, of "m + 1 + length (takeWhile is_word cs)"] 2(2) [of "m + 1"]
      by (cases "is_word c") (simp_all add: Let_def)
  qed simp
  then show ?thesis .
qed

text \<open>A tiling of a text by slices is the text, so the tokenizer never raises.\<close>

lemma tiles_concat:
  "tiles a (map iv xs) (length t) \<Longrightarrow> concat (map (\<lambda>x. slice (fst (iv x)) (snd (iv x)) t) xs) = drop a t"
proof (induction xs arbitrary: a)
  case (Cons x xs)
  from Cons.prems have a: "fst (iv x) = a" "a < snd (iv x)" and r: "tiles (snd (iv x)) (map iv xs) (length t)"
    by (cases "iv x"; simp)+
  have "slice a (snd (iv x)) t @ drop (snd (iv x)) t = drop a t"
    using a(2) append_take_drop_id [of "snd (iv x) - a" "drop a t"] by (simp add: slice_def)
  with Cons.IH [OF r] a(1) show ?case by simp
qed simp

lemma classroom_total: "classroom_spans t = Inr (token_matches 0 t)"
  using tiles_concat [of 0 span_iv "token_matches 0 t" t] token_tiles [of 0 t]
  by (simp add: classroom_spans_def span_iv_def)

lemma token_newline: "token_matches k (p @ 10 # q) = token_matches k (p @ [10]) @ token_matches (k + length p + 1) q"
proof (induction k p rule: token_matches.induct)
  case (1 k)
  show ?case by (simp add: is_word_def)
next
  case (2 k c cs)
  show ?case
  proof (cases "is_word c")
    case True
    have nw: "\<not> is_word 10" by (simp add: is_word_def)
    have tw: "takeWhile is_word (cs @ 10 # r) = takeWhile is_word cs" for r
      using nw by (induction cs) auto
    have dw: "dropWhile is_word (cs @ 10 # r) = dropWhile is_word cs @ 10 # r" for r
      using nw by (induction cs) auto
    have len: "length cs = length (takeWhile is_word cs) + length (dropWhile is_word cs)"
      by (metis length_append takeWhile_dropWhile_id)
    show ?thesis using 2(1) [OF True refl] True by (simp add: Let_def tw dw len add.assoc)
  next
    case False
    with 2(2) [OF False] show ?thesis by simp
  qed
qed

section \<open>What chunking relies on\<close>

locale tokenizer_port =
  fixes port :: TokenizerPort
  assumes spans_total: "\<exists>ss. tp_spans port t = Inr ss"
    and spans_tile: "tp_spans port t = Inr ss \<Longrightarrow> tiles 0 (map span_iv ss) (length t)"
    and count_spans: "tp_spans port t = Inr ss \<Longrightarrow> tp_count port t = Inr (int (length ss))"
    and count_between: "tp_spans port t = Inr ss \<Longrightarrow> i < j \<Longrightarrow> j \<le> length ss \<Longrightarrow>
      tp_count port (slice (ts_start (ss ! i)) (ts_end (ss ! (j - 1))) t) = Inr (int (j - i))"
    and count_newline: "tp_count port (p @ [10]) = Inr m \<Longrightarrow> tp_count port q = Inr n \<Longrightarrow>
      tp_count port (p @ 10 # q) = Inr (m + n)"

interpretation classroom: tokenizer_port ClassroomTokenizer
proof
  fix t ss and i j :: nat
  assume "tp_spans ClassroomTokenizer t = Inr ss" "i < j" "j \<le> length ss"
  then have ss: "ss = token_matches 0 t" and ij: "i < j" "j \<le> length (token_matches 0 t)"
    by (auto simp: ClassroomTokenizer_def classroom_total)
  have "length (token_matches (ts_start (ss ! i)) (slice (ts_start (ss ! i)) (ts_end (ss ! (j - 1))) t)) = j - i"
    using lexing.scan_between [OF ij] slice_nth_iv [OF ij] by (simp add: ss span_iv_def)
  then have "length (token_matches 0 (slice (ts_start (ss ! i)) (ts_end (ss ! (j - 1))) t)) = j - i"
    by (simp only: token_shift [of "ts_start (ss ! i)"])
  then show "tp_count ClassroomTokenizer (slice (ts_start (ss ! i)) (ts_end (ss ! (j - 1))) t) = Inr (int (j - i))"
    by (simp add: ClassroomTokenizer_def classroom_total)
next
  fix p q m n
  assume "tp_count ClassroomTokenizer (p @ [10]) = Inr m" "tp_count ClassroomTokenizer q = Inr n"
  then show "tp_count ClassroomTokenizer (p @ 10 # q) = Inr (m + n)"
    using token_newline [of 0 p q] token_shift [of "length p + 1" q]
    by (auto simp: ClassroomTokenizer_def classroom_total)
qed (auto simp: ClassroomTokenizer_def classroom_total token_tiles [of 0, simplified])

end
