(* ===== verification/Chunking_Validator.thy ===== *)
theory Chunking_Validator
  imports Chunking_Strategy Chunking_Text "HOL-Library.Product_Lexorder"
begin

text \<open>
  \<^verbatim>\<open>src/projects/ai-agent/src/rag_chunking_validator.py\<close>: the validation of an untrusted chunk set
  against the current lifecycle facts. The checks of the loop over the chunks are functions that
  return the first defect they find; an exception of the tokenizer or of the normalization ends the
  evaluation.
\<close>

section \<open>Decisions\<close>

datatype ChunkValidationOutcome =
  READY_FOR_COMMIT | INELIGIBLE | BINDING_CONFLICT | CORRELATION_CONFLICT | MANIFEST_CONFLICT
| SOURCE_SPAN_INVALID | COVERAGE_GAP | TOKEN_BUDGET_INVALID | OVERLAP_INVALID | CONTENT_MISMATCH

record ChunkValidationDecision =
  cvd_outcome :: ChunkValidationOutcome
  cvd_safe_reason :: string
  cvd_candidate :: "ChunkSetCandidate option"
  cvd_committer_calls :: int
  cvd_durable_transitions :: int

definition chunk_ready :: "ChunkValidationDecision \<Rightarrow> bool" where
  "chunk_ready d \<longleftrightarrow> cvd_outcome d = ChunkValidationOutcome.READY_FOR_COMMIT"

definition ChunkValidationDecision_post_init :: "ChunkValidationDecision \<Rightarrow> ChunkValidationDecision res" where
  "ChunkValidationDecision_post_init d =
     (if chunk_ready d \<noteq> (cvd_candidate d \<noteq> None)
      then Inl (ValueError ''only a ready decision may contain a candidate'')
      else if cvd_committer_calls d \<noteq> 0 \<or> cvd_durable_transitions d \<noteq> 0
      then Inl (ValueError ''validation has no durable write authority'')
      else Inr d)"

definition chunk_blocked :: "ChunkValidationOutcome \<Rightarrow> string \<Rightarrow> ChunkValidationDecision res" where
  "chunk_blocked outcome reason = ChunkValidationDecision_post_init
     \<lparr>cvd_outcome = outcome, cvd_safe_reason = reason, cvd_candidate = None, cvd_committer_calls = 0,
      cvd_durable_transitions = 0\<rparr>"

type_synonym defect = "(ChunkValidationOutcome \<times> string) option"

section \<open>Bindings\<close>

text \<open>The parsed artifact and the operation are bound to the current ingestion facts.\<close>

definition parse_bound ::
    "DocumentVersionLifecycleRecord \<Rightarrow> IngestionOperationRecord \<Rightarrow> ParsedArtifactDefinition \<Rightarrow> SourceArtifactReference
      \<Rightarrow> string option \<Rightarrow> ChunkingOperationIdentity \<Rightarrow> bool" where
  "parse_bound version ingestion parsed source eligible_artifact operation \<longleftrightarrow>
     px_version parsed = vd_identity (vl_definition version) \<and>
     sx_version source = px_version parsed \<and>
     sx_source_artifact_id source = px_source_artifact_id parsed \<and>
     sx_checksum_sha256 source = pm_source_checksum_sha256 (px_manifest parsed) \<and>
     px_source_artifact_id parsed = vd_source_artifact_id (vl_definition version) \<and>
     Some (px_parsed_artifact_id parsed) = eligible_artifact \<and>
     pm_tenant_id (px_manifest parsed) = vi_tenant_id (px_version parsed) \<and>
     pm_document_id (px_manifest parsed) = vi_document_id (px_version parsed) \<and>
     pm_document_version_id (px_manifest parsed) = vi_document_version_id (px_version parsed) \<and>
     pm_source_artifact_id (px_manifest parsed) = px_source_artifact_id parsed \<and>
     pm_operation_id (px_manifest parsed) = io_operation_id (ir_identity ingestion) \<and>
     pm_idempotency_key (px_manifest parsed) = io_idempotency_key (ir_identity ingestion) \<and>
     pm_parse_contract_version (px_manifest parsed) = vd_parse_contract_version (vl_definition version) \<and>
     io_version (ir_identity ingestion) = px_version parsed \<and>
     io_source_artifact_id (ir_identity ingestion) = px_source_artifact_id parsed \<and>
     (case ir_attempt ingestion of None \<Rightarrow> False | Some attempt \<Rightarrow>
        pm_attempt_number (px_manifest parsed) = pt_attempt_number attempt \<and>
        pm_parser_request_id (px_manifest parsed) = pt_parser_request_id attempt \<and>
        pm_parser_generation (px_manifest parsed) = pt_parser_generation attempt) \<and>
     cop_version operation = px_version parsed \<and>
     cop_source_artifact_id operation = px_source_artifact_id parsed \<and>
     cop_parsed_artifact_id operation = px_parsed_artifact_id parsed"

text \<open>The comparisons of the manifest check that come between its two checksums.\<close>

definition manifest_fields_ok :: "ParsedArtifactDefinition \<Rightarrow> ChunkingContract \<Rightarrow> ChunkSetCandidate \<Rightarrow> bool" where
  "manifest_fields_ok parsed contract candidate \<longleftrightarrow>
     pm_output_checksum_sha256 (px_manifest parsed) = px_output_checksum_sha256 parsed \<and>
     cmf_source_checksum (csc_manifest candidate) = px_output_checksum_sha256 parsed \<and>
     cmf_contract_fingerprint (csc_manifest candidate) = contract_fingerprint contract \<and>
     cmf_chunk_count (csc_manifest candidate) = int (length (csc_chunks candidate))"

definition manifest_ok :: "ParsedArtifactDefinition \<Rightarrow> ChunkingContract \<Rightarrow> ChunkSetCandidate \<Rightarrow> bool res" where
  "manifest_ok parsed contract candidate =
     bind_res (sha256_text (px_canonical_text parsed)) (\<lambda>checksum.
     if px_output_checksum_sha256 parsed \<noteq> checksum \<or> \<not> manifest_fields_ok parsed contract candidate then Inr False
     else bind_res (candidate_chunks_checksum (csc_chunks candidate)) (\<lambda>chunks_checksum.
       Inr (cmf_chunks_checksum (csc_manifest candidate) = chunks_checksum)))"

lemma manifest_ok_True:
  "manifest_ok parsed contract candidate = Inr True \<longleftrightarrow>
     sha256_text (px_canonical_text parsed) = Inr (px_output_checksum_sha256 parsed) \<and>
     manifest_fields_ok parsed contract candidate \<and>
     candidate_chunks_checksum (csc_chunks candidate) = Inr (cmf_chunks_checksum (csc_manifest candidate))"
  by (auto simp: manifest_ok_def sha256_text_eq candidate_chunks_checksum_eq)

section \<open>Checks of one chunk\<close>

definition segment_key :: "SourceSegment \<Rightarrow> nat \<times> nat \<times> string" where
  "segment_key s = (sg_start s, sg_end s, sg_role s)"

definition sorted_segments :: "SourceSegment list \<Rightarrow> SourceSegment list" where
  "sorted_segments segs = sort_key segment_key segs"

definition roles_ok :: "ChunkCandidate \<Rightarrow> bool" where
  "roles_ok chunk \<longleftrightarrow> (let segs = ckc_source_segments chunk in
     sg_role (last segs) = ''body'' \<and> length (filter (\<lambda>s. sg_role s = ''body'') segs) = 1 \<and>
     ckc_joiner chunk = (if length segs > 1 then [10] else []) \<and>
     list_all (\<lambda>s. sg_role s \<in> {''body'', ''heading-context'', ''table-header-context''}) segs)"

definition body_progress :: "SourceSegment option \<Rightarrow> SourceSegment \<Rightarrow> bool" where
  "body_progress previous_body body = (case previous_body of
     None \<Rightarrow> sg_start body = 0
   | Some p \<Rightarrow> sg_start body \<le> sg_end p \<and> sg_end p < sg_end body)"

definition context_source_ok :: "utext \<Rightarrow> SourceSegment \<Rightarrow> bool" where
  "context_source_ok t segment \<longleftrightarrow> (let source_text = lstrip (slice (sg_start segment) (sg_end segment) t) in
     \<not> (sg_role segment = ''heading-context'' \<and> \<not> starts_with 35 source_text \<or>
        sg_role segment = ''table-header-context'' \<and> \<not> starts_with 124 source_text))"

definition segment_defect :: "utext \<Rightarrow> int \<Rightarrow> SourceSegment option \<Rightarrow> ChunkCandidate \<Rightarrow> defect" where
  "segment_defect t ordinal previous_body chunk =
     (let segs = ckc_source_segments chunk in
      if ckc_ordinal chunk \<noteq> ordinal \<or> segs = []
      then Some (ChunkValidationOutcome.SOURCE_SPAN_INVALID, ''CHUNK_ORDINAL_OR_SEGMENTS_INVALID'')
      else if sorted_segments segs \<noteq> segs
      then Some (ChunkValidationOutcome.SOURCE_SPAN_INVALID, ''UNSORTED_SOURCE_SEGMENTS'')
      else if list_ex (\<lambda>(left, right). sg_end left > sg_start right) (zip segs (tl segs))
      then Some (ChunkValidationOutcome.SOURCE_SPAN_INVALID, ''OVERLAPPING_SEGMENTS_WITHIN_CHUNK'')
      else if \<not> roles_ok chunk
      then Some (ChunkValidationOutcome.SOURCE_SPAN_INVALID, ''SEGMENT_ROLE_OR_JOINER_POLICY_INVALID'')
      else if list_ex (\<lambda>s. sg_end s > length t) segs
      then Some (ChunkValidationOutcome.SOURCE_SPAN_INVALID, ''SOURCE_SEGMENT_OUT_OF_RANGE'')
      else if \<not> body_progress previous_body (last segs)
      then Some (ChunkValidationOutcome.SOURCE_SPAN_INVALID, ''BODY_SOURCE_ORDER_OR_PROGRESS_INVALID'')
      else if \<not> list_all (context_source_ok t) (butlast segs)
      then Some (ChunkValidationOutcome.SOURCE_SPAN_INVALID, ''STRUCTURAL_CONTEXT_SOURCE_INVALID'')
      else None)"

definition reconstruct :: "ChunkingContract \<Rightarrow> utext \<Rightarrow> ChunkCandidate \<Rightarrow> utext res" where
  "reconstruct contract t chunk =
     bind_res (context_parts t (cg_normalization_version contract) (ckc_source_segments chunk)) (\<lambda>parts.
       Inr (ujoin (ckc_joiner chunk) parts))"

text \<open>The text, the token count and the running output size.\<close>

definition content_defect :: "TokenizerPort \<Rightarrow> ChunkingContract \<Rightarrow> utext \<Rightarrow> int \<Rightarrow> ChunkCandidate \<Rightarrow> defect res" where
  "content_defect port contract t output_chars chunk =
     bind_res (reconstruct contract t chunk) (\<lambda>reconstructed.
     bind_res (if ckc_text chunk \<noteq> reconstructed then Inr True
               else bind_res (sha256_text reconstructed) (\<lambda>h. Inr (ckc_content_hash chunk \<noteq> h \<or> ckc_text chunk = [])))
       (\<lambda>mismatch.
     if mismatch
     then Inr (Some (ChunkValidationOutcome.CONTENT_MISMATCH, ''CHUNK_TEXT_DOES_NOT_ROUNDTRIP_TO_SOURCE''))
     else
       bind_res (tp_count port (ckc_text chunk)) (\<lambda>actual_tokens.
       if actual_tokens \<noteq> ckc_token_count chunk \<or> actual_tokens > cg_hard_max_tokens contract
       then Inr (Some (ChunkValidationOutcome.TOKEN_BUDGET_INVALID, ''CHUNK_TOKEN_OR_OUTPUT_BUDGET_INVALID''))
       else
         bind_res (if actual_tokens < cg_min_useful_tokens contract
                   then bind_res (tp_count port t) (\<lambda>n. Inr (n \<ge> cg_min_useful_tokens contract)) else Inr False) (\<lambda>too_small.
         if too_small \<or> output_chars + int (length (ckc_text chunk)) > cg_max_output_chars contract
         then Inr (Some (ChunkValidationOutcome.TOKEN_BUDGET_INVALID, ''CHUNK_TOKEN_OR_OUTPUT_BUDGET_INVALID''))
         else Inr None))))"

definition common_bodies :: "ChunkCandidate \<Rightarrow> ChunkCandidate \<Rightarrow> (nat \<times> nat) list" where
  "common_bodies previous chunk =
     concat (map (\<lambda>a. concat (map (\<lambda>b.
       if sg_role a = ''body'' \<and> sg_role b = ''body'' \<and> max (sg_start a) (sg_start b) < min (sg_end a) (sg_end b)
       then [(max (sg_start a) (sg_start b), min (sg_end a) (sg_end b))] else [])
       (ckc_source_segments chunk))) (ckc_source_segments previous))"

definition source_overlap :: "TokenizerPort \<Rightarrow> ChunkingContract \<Rightarrow> utext \<Rightarrow> ChunkCandidate \<Rightarrow> ChunkCandidate \<Rightarrow> int res" where
  "source_overlap port contract t previous chunk =
     bind_res (map_res (\<lambda>(a, b). bind_res (normalize (slice a b t) (cg_normalization_version contract)) (\<lambda>n.
         tp_count port (nt_text n))) (common_bodies previous chunk)) (\<lambda>counts.
       Inr (sum_list counts))"

definition overlap_defect ::
    "TokenizerPort \<Rightarrow> ChunkingContract \<Rightarrow> utext \<Rightarrow> ChunkCandidate option \<Rightarrow> ChunkCandidate \<Rightarrow> defect res" where
  "overlap_defect port contract t previous chunk =
     (case previous of
        Some p \<Rightarrow> bind_res (source_overlap port contract t p chunk) (\<lambda>overlap.
          if overlap \<noteq> ckc_overlap_right_tokens p \<or> overlap \<noteq> ckc_overlap_left_tokens chunk
            \<or> overlap > cg_overlap_tokens contract
          then Inr (Some (ChunkValidationOutcome.OVERLAP_INVALID, ''SOURCE_OVERLAP_DOES_NOT_MATCH_CONTRACT''))
          else Inr None)
      | None \<Rightarrow>
          if ckc_overlap_left_tokens chunk \<noteq> 0
          then Inr (Some (ChunkValidationOutcome.OVERLAP_INVALID, ''FIRST_CHUNK_CANNOT_HAVE_LEFT_OVERLAP''))
          else Inr None)"

text \<open>The body of the loop over the chunks, then the loop.\<close>

definition chunk_defect ::
    "TokenizerPort \<Rightarrow> ChunkingContract \<Rightarrow> utext \<Rightarrow> int \<Rightarrow> int \<Rightarrow> ChunkCandidate option \<Rightarrow> ChunkCandidate \<Rightarrow> defect res" where
  "chunk_defect port contract t ordinal output_chars previous chunk =
     (case segment_defect t ordinal (map_option (\<lambda>p. last (ckc_source_segments p)) previous) chunk of
        Some d \<Rightarrow> Inr (Some d)
      | None \<Rightarrow>
          bind_res (content_defect port contract t output_chars chunk) (\<lambda>defect.
          case defect of Some d \<Rightarrow> Inr (Some d) | None \<Rightarrow> overlap_defect port contract t previous chunk))"

fun chunks_defect ::
    "TokenizerPort \<Rightarrow> ChunkingContract \<Rightarrow> utext \<Rightarrow> int \<Rightarrow> int \<Rightarrow> ChunkCandidate option \<Rightarrow> ChunkCandidate list \<Rightarrow> defect res" where
  "chunks_defect port contract t ordinal output_chars previous [] = Inr None"
| "chunks_defect port contract t ordinal output_chars previous (chunk # chunks) =
     bind_res (chunk_defect port contract t ordinal output_chars previous chunk) (\<lambda>defect.
     case defect of
       Some d \<Rightarrow> Inr (Some d)
     | None \<Rightarrow> chunks_defect port contract t (ordinal + 1) (output_chars + int (length (ckc_text chunk))) (Some chunk) chunks)"

text \<open>The cursor over the sorted segments: \<open>None\<close> is a gap.\<close>

fun cover :: "nat \<Rightarrow> SourceSegment list \<Rightarrow> nat option" where
  "cover cursor [] = Some cursor"
| "cover cursor (s # segs) = (if sg_start s > cursor then None else cover (max cursor (sg_end s)) segs)"

section \<open>Evaluation\<close>

definition evaluate_chunk_set ::
    "TokenizerPort \<Rightarrow> DocumentHeadSnapshot \<Rightarrow> DocumentVersionLifecycleRecord \<Rightarrow> IngestionOperationRecord
      \<Rightarrow> ParsedArtifactDefinition \<Rightarrow> SourceArtifactReference \<Rightarrow> ChunkingContract \<Rightarrow> ChunkSetCandidate
      \<Rightarrow> ChunkValidationDecision res" where
  "evaluate_chunk_set port document version ingestion parsed source contract candidate =
     (let eligibility = evaluate_chunking_eligibility document version ingestion;
          operation = csc_operation candidate; t = px_canonical_text parsed; chunks = csc_chunks candidate in
      if \<not> eligible eligibility then chunk_blocked ChunkValidationOutcome.INELIGIBLE (eg_safe_reason eligibility)
      else if \<not> parse_bound version ingestion parsed source (eg_parsed_artifact_id eligibility) operation
      then chunk_blocked ChunkValidationOutcome.BINDING_CONFLICT ''DAY95_PARSED_ARTIFACT_BINDING_CONFLICT''
      else if cat_operation_id (csc_attempt candidate) \<noteq> cop_operation_id operation \<or> \<not> truthy (csc_experiment_id candidate)
      then chunk_blocked ChunkValidationOutcome.CORRELATION_CONFLICT ''CHUNKING_ATTEMPT_CORRELATION_CONFLICT''
      else if cg_tokenizer contract \<noteq> tp_contract port \<or> cop_contract_fingerprint operation \<noteq> contract_fingerprint contract
      then chunk_blocked ChunkValidationOutcome.BINDING_CONFLICT ''CHUNKING_CONTRACT_BINDING_CONFLICT''
      else
      bind_res (manifest_ok parsed contract candidate) (\<lambda>manifest_matches.
      if \<not> manifest_matches
      then chunk_blocked ChunkValidationOutcome.MANIFEST_CONFLICT ''CHUNK_OR_PARSE_MANIFEST_CHECKSUM_MISMATCH''
      else if chunks = [] \<or> int (length chunks) > cg_max_chunk_count contract
      then chunk_blocked ChunkValidationOutcome.TOKEN_BUDGET_INVALID ''CHUNK_COUNT_BUDGET_INVALID''
      else if int (length t) > cg_max_input_chars contract
      then chunk_blocked ChunkValidationOutcome.TOKEN_BUDGET_INVALID ''INPUT_SIZE_BUDGET_EXCEEDED''
      else
        bind_res (chunks_defect port contract t 0 0 None chunks) (\<lambda>defect.
        case defect of
          Some (outcome, reason) \<Rightarrow> chunk_blocked outcome reason
        | None \<Rightarrow>
            if ckc_overlap_right_tokens (last chunks) \<noteq> 0
            then chunk_blocked ChunkValidationOutcome.OVERLAP_INVALID ''LAST_CHUNK_CANNOT_HAVE_RIGHT_OVERLAP''
            else if cover 0 (sorted_segments (concat (map ckc_source_segments chunks))) \<noteq> Some (length t)
            then chunk_blocked ChunkValidationOutcome.COVERAGE_GAP ''CANONICAL_SOURCE_COVERAGE_GAP''
            else ChunkValidationDecision_post_init
              \<lparr>cvd_outcome = ChunkValidationOutcome.READY_FOR_COMMIT,
               cvd_safe_reason = ''CANDIDATE_SOURCE_AND_BUDGET_VALIDATED'', cvd_candidate = Some candidate,
               cvd_committer_calls = 0, cvd_durable_transitions = 0\<rparr>)))"

end
