(* ===== verification/Chunking_Correct.thy ===== *)
theory Chunking_Correct
  imports Chunking_Validator
begin

text \<open>
  The generator and the validator of chunk sets together. What the generator produces is a chain of
  token windows; windows are mapped back to the canonical text through the tilings of the tokenizer
  and of the normalization; and a chain of windows passes every check of the validator.
\<close>

section \<open>The windows of the generated chunks\<close>

definition chunk_window ::
    "TokenizerPort \<Rightarrow> ChunkingContract \<Rightarrow> utext \<Rightarrow> NormalizedText \<Rightarrow> TokenSpan list \<Rightarrow> nat \<Rightarrow> nat \<Rightarrow> nat
      \<Rightarrow> ChunkCandidate \<Rightarrow> bool" where
  "chunk_window port contract canonical normalized spans ordinal start stop c \<longleftrightarrow>
     start < stop \<and> stop \<le> length spans \<and>
     (stop = length spans \<or> int start + cg_overlap_tokens contract < int stop) \<and>
     (cg_min_useful_tokens contract \<le> int (stop - start) \<or> int (length spans) < cg_min_useful_tokens contract) \<and>
     ckc_ordinal c = int ordinal \<and>
     (\<exists>parts prefix_count. context_parts canonical (cg_normalization_version contract)
          (chunk_context contract canonical normalized spans (int start)) = Inr parts \<and>
        tp_count port (context_prefix parts) = Inr prefix_count \<and>
        ckc_text c = context_prefix parts @
          slice (ts_start (spans ! start)) (ts_end (spans ! (stop - 1))) (nt_text normalized)) \<and>
     ckc_source_segments c = chunk_context contract canonical normalized spans (int start) @
       [\<lparr>sg_start = fst (nt_source_offsets normalized ! ts_start (spans ! start)),
         sg_end = snd (nt_source_offsets normalized ! (ts_end (spans ! (stop - 1)) - 1)), sg_role = ''body''\<rparr>] \<and>
     tp_count port (ckc_text c) = Inr (ckc_token_count c) \<and> ckc_token_count c \<le> cg_hard_max_tokens contract \<and>
     sha256_text (ckc_text c) = Inr (ckc_content_hash c) \<and>
     ckc_overlap_left_tokens c = (if start > 0 then cg_overlap_tokens contract else 0) \<and>
     ckc_overlap_right_tokens c = (if stop < length spans then cg_overlap_tokens contract else 0) \<and>
     ckc_joiner c = (if chunk_context contract canonical normalized spans (int start) \<noteq> [] then [10] else [])"

text \<open>Each window starts \<open>overlap\<close> tokens before the end of the one before it; the last one ends the text.\<close>

fun window_chain :: "(nat \<Rightarrow> nat \<Rightarrow> nat \<Rightarrow> 'c \<Rightarrow> bool) \<Rightarrow> nat \<Rightarrow> nat \<Rightarrow> nat \<Rightarrow> nat \<Rightarrow> 'c list \<Rightarrow> bool" where
  "window_chain W n overlap ordinal start [] \<longleftrightarrow> False"
| "window_chain W n overlap ordinal start (c # cs) \<longleftrightarrow>
     (\<exists>stop. W ordinal start stop c \<and>
        (if cs = [] then stop = n
         else stop < n \<and> start + overlap < stop \<and> window_chain W n overlap (Suc ordinal) (stop - overlap) cs))"

lemma int_window: "a = int s \<Longrightarrow> a < b \<Longrightarrow> b \<le> int n \<Longrightarrow> \<exists>e. b = int e \<and> s < e \<and> e \<le> n"
  by (intro exI [of _ "nat b"]) linarith

lemma choose_end_beyond_overlap:
  assumes "choose_end t spans start contract budget = Inr (stop, reason)"
    and "cg_overlap_tokens contract < budget" "cg_overlap_tokens contract < cg_soft_target_tokens contract"
  shows "stop = int (length spans) \<or> start + cg_overlap_tokens contract < stop"
  using assms(1) by (cases rule: choose_end_cases) (use assms(2,3) in auto)

lemma chunk_step_window:
  assumes step: "chunk_step port clock contract canonical normalized spans memory st = Inr (chunk, stop, nxt, out, work)"
    and start: "gl_start st = int s" and ov: "cg_overlap_tokens contract < cg_soft_target_tokens contract"
  shows "\<exists>e. stop = int e \<and>
    chunk_window port contract canonical normalized spans (length (gl_chunks st)) s e chunk \<and>
    nxt = max 0 (stop - cg_overlap_tokens contract) \<and>
    out = gl_output_chars st + int (length (ckc_text chunk)) \<and> out \<le> cg_max_output_chars contract \<and>
    int (length (gl_chunks st)) < cg_max_chunk_count contract"
proof (rule chunk_step_ok [OF step])
  fix parts prefix_count reason
  assume parts: "context_parts canonical (cg_normalization_version contract)
       (chunk_context contract canonical normalized spans (gl_start st)) = Inr parts"
    and pc: "tp_count port (context_prefix parts) = Inr prefix_count"
    and budget: "max (cg_min_useful_tokens contract) (cg_overlap_tokens contract + 1) \<le> cg_hard_max_tokens contract - prefix_count"
    and cnt: "int (length (gl_chunks st)) < cg_max_chunk_count contract"
    and ce: "choose_end (nt_text normalized) spans (gl_start st) contract (cg_hard_max_tokens contract - prefix_count) = Inr (stop, reason)"
    and body: "chunk_body port contract normalized spans memory st
       (chunk_context contract canonical normalized spans (gl_start st)) (context_prefix parts) work stop reason =
     Inr (chunk, stop, nxt, out, work)"
  from chunk_step_advances [OF step] obtain e where e: "stop = int e" "s < e" "e \<le> length spans"
    using int_window [OF start, of stop "length spans"] by blast
  have far: "stop = int (length spans) \<or> gl_start st + cg_overlap_tokens contract < stop"
    by (rule choose_end_beyond_overlap [OF ce _ ov]) (use budget in simp)
  from body show ?thesis
  proof (rule chunk_body_ok)
    fix a b
    assume iv: "source_interval normalized (ts_start (spans ! nat (gl_start st))) (ts_end (spans ! nat (stop - 1))) = Inr (a, b)"
      and facts: "tp_count port (ckc_text chunk) = Inr (ckc_token_count chunk)"
        "ckc_token_count chunk \<le> cg_hard_max_tokens contract"
        "out \<le> cg_max_output_chars contract" "out = gl_output_chars st + int (length (ckc_text chunk))"
        "cg_min_useful_tokens contract \<le> stop - gl_start st \<or> int (length spans) < cg_min_useful_tokens contract"
        "nxt = max 0 (stop - cg_overlap_tokens contract)" "ckc_ordinal chunk = int (length (gl_chunks st))"
        "ckc_text chunk = context_prefix parts @ slice (ts_start (spans ! nat (gl_start st))) (ts_end (spans ! nat (stop - 1))) (nt_text normalized)"
        "ckc_source_segments chunk = chunk_context contract canonical normalized spans (gl_start st) @ [\<lparr>sg_start = a, sg_end = b, sg_role = ''body''\<rparr>]"
        "sha256_text (ckc_text chunk) = Inr (ckc_content_hash chunk)"
        "ckc_overlap_left_tokens chunk = (if gl_start st > 0 then cg_overlap_tokens contract else 0)"
        "ckc_overlap_right_tokens chunk = (if stop < int (length spans) then cg_overlap_tokens contract else 0)"
        "ckc_joiner chunk = (if chunk_context contract canonical normalized spans (gl_start st) \<noteq> [] then [10] else [])"
    have idx: "nat (gl_start st) = s" "nat (stop - 1) = e - 1" using start e by auto
    have ab: "a = fst (nt_source_offsets normalized ! ts_start (spans ! s))"
      "b = snd (nt_source_offsets normalized ! (ts_end (spans ! (e - 1)) - 1))"
      using iv unfolding idx source_interval_def by (auto split: if_splits)
    have "chunk_window port contract canonical normalized spans (length (gl_chunks st)) s e chunk"
      unfolding chunk_window_def
      using facts e far parts pc unfolding idx start ab by (auto simp: of_nat_diff)
    with facts cnt e(1) show ?thesis by blast
  qed
qed

lemma chunk_loop_chain:
  assumes "chunk_loop port clock contract canonical normalized spans memory st = Inr chunks"
    and "gl_start st = int s" "s < length spans" "0 \<le> cg_overlap_tokens contract"
    and "cg_overlap_tokens contract < cg_soft_target_tokens contract"
  shows "\<exists>cs. chunks = gl_chunks st @ cs \<and>
    window_chain (chunk_window port contract canonical normalized spans) (length spans)
      (nat (cg_overlap_tokens contract)) (length (gl_chunks st)) s cs \<and>
    gl_output_chars st + (\<Sum>c\<leftarrow>cs. int (length (ckc_text c))) \<le> cg_max_output_chars contract \<and>
    int (length chunks) \<le> cg_max_chunk_count contract"
  using assms
proof (induction port clock contract canonical normalized spans memory st arbitrary: s rule: chunk_loop.induct)
  case (1 port clock contract canonical normalized spans memory st)
  from 1(2,3,4) obtain chunk stop nxt out work where
    step: "chunk_step port clock contract canonical normalized spans memory st = Inr (chunk, stop, nxt, out, work)"
    by (cases "chunk_step port clock contract canonical normalized spans memory st")
      (auto simp: chunk_loop.simps [of port clock contract canonical normalized spans memory st])
  from chunk_step_window [OF step 1(3) 1(6)] obtain e where e: "stop = int e"
    and w: "chunk_window port contract canonical normalized spans (length (gl_chunks st)) s e chunk"
    and nxt: "nxt = max 0 (stop - cg_overlap_tokens contract)"
    and out: "out = gl_output_chars st + int (length (ckc_text chunk))" "out \<le> cg_max_output_chars contract"
    and cnt: "int (length (gl_chunks st)) < cg_max_chunk_count contract" by blast
  show ?case
  proof (cases "e = length spans")
    case True
    with 1(2,3,4) step e have "chunks = gl_chunks st @ [chunk]"
      by (simp add: chunk_loop.simps [of port clock contract canonical normalized spans memory st])
    with True w out cnt show ?thesis by (intro exI [of _ "[chunk]"]) auto
  next
    case False
    let ?st = "\<lparr>gl_start = nxt, gl_chunks = gl_chunks st @ [chunk], gl_output_chars = out, gl_work_units = work\<rparr>"
    let ?ov = "nat (cg_overlap_tokens contract)"
    have ewin: "s < e" "e < length spans" "int s + cg_overlap_tokens contract < int e"
      using w False by (auto simp: chunk_window_def)
    have rest: "chunk_loop port clock contract canonical normalized spans memory ?st = Inr chunks"
      using 1(2,3,4) step e False
      by (simp add: chunk_loop.simps [of port clock contract canonical normalized spans memory st])
    have nx: "gl_start ?st = int (e - ?ov)" using nxt e ewin 1(5) by (simp add: of_nat_diff)
    have lt: "e - ?ov < length spans" using ewin by simp
    have neq: "stop \<noteq> int (length spans)" using e False by simp
    have pre: "gl_start st < int (length spans)" using 1(3,4) by simp
    from 1(1) [OF pre step refl refl refl refl neq rest nx lt 1(5,6)] obtain cs where cs:
      "chunks = (gl_chunks st @ [chunk]) @ cs"
      "window_chain (chunk_window port contract canonical normalized spans) (length spans) ?ov
         (Suc (length (gl_chunks st))) (e - ?ov) cs"
      "out + (\<Sum>c\<leftarrow>cs. int (length (ckc_text c))) \<le> cg_max_output_chars contract"
      "int (length chunks) \<le> cg_max_chunk_count contract" by auto
    have ne: "cs \<noteq> []" using cs(2) by auto
    have "window_chain (chunk_window port contract canonical normalized spans) (length spans) ?ov
         (length (gl_chunks st)) s (chunk # cs)"
      using w cs(2) ne ewin 1(5) by (auto intro!: exI [of _ e])
    with cs out show ?thesis by (intro exI [of _ "chunk # cs"]) auto
  qed
qed


section \<open>Structural context\<close>

lemma rstrip_newlines_prefix:
  obtains nl where "l = rstrip_newlines l @ nl" "\<forall>c \<in> set nl. c = 10 \<or> c = 13"
proof (rule that)
  let ?P = "\<lambda>c :: nat. c = 10 \<or> c = 13"
  have "rev l = takeWhile ?P (rev l) @ dropWhile ?P (rev l)" by simp
  then show "l = rstrip_newlines l @ rev (takeWhile ?P (rev l))"
    unfolding rstrip_newlines_def by (metis rev_append rev_rev_ident)
  show "\<forall>c \<in> set (rev (takeWhile ?P (rev l))). c = 10 \<or> c = 13"
    by (auto dest: set_takeWhileD)
qed

lemma starts_with_visible:
  assumes "starts_with c (lstrip l)"
  shows "starts_with c (lstrip (rstrip_newlines l))" and "rstrip_newlines l \<noteq> []"
proof -
  obtain nl where l: "l = rstrip_newlines l @ nl" and nl: "\<forall>c \<in> set nl. c = 10 \<or> c = 13"
    by (rule rstrip_newlines_prefix)
  have sp: "\<forall>c \<in> set nl. is_space c" using nl by (auto simp: is_space_def)
  have ex: "\<exists>x \<in> set (rstrip_newlines l). \<not> is_space x"
  proof (rule ccontr)
    assume "\<not> ?thesis"
    with sp l have "\<forall>x \<in> set l. is_space x" by (metis Un_iff set_append)
    then have "lstrip l = []" by (simp add: lstrip_def)
    with assms show False by (simp add: starts_with_def)
  qed
  then have "lstrip l = lstrip (rstrip_newlines l) @ nl"
    by (subst l) (auto simp: lstrip_def dropWhile_append)
  moreover have "lstrip (rstrip_newlines l) \<noteq> []"
    using ex by (auto simp: lstrip_def dropWhile_eq_Nil_conv)
  ultimately show "starts_with c (lstrip (rstrip_newlines l))"
    using assms by (cases "lstrip (rstrip_newlines l)") (auto simp: starts_with_def)
  show "rstrip_newlines l \<noteq> []" using ex by auto
qed

text \<open>A context segment is a non-empty source interval that starts with the mark of its role.\<close>

definition context_at :: "utext \<Rightarrow> string \<Rightarrow> nat \<Rightarrow> nat \<Rightarrow> SourceSegment \<Rightarrow> bool" where
  "context_at t role mark limit s \<longleftrightarrow> sg_role s = role \<and> sg_start s < sg_end s \<and> sg_end s \<le> limit \<and>
     starts_with mark (lstrip (slice (sg_start s) (sg_end s) t))"

definition scan_ok :: "utext \<Rightarrow> nat \<Rightarrow> ContextScan \<Rightarrow> bool" where
  "scan_ok t offset st \<longleftrightarrow>
     (\<forall>h. cx_heading st = Some h \<longrightarrow> context_at t ''heading-context'' 35 offset h) \<and>
     (\<forall>h. cx_table_header st = Some h \<longrightarrow> context_at t ''table-header-context'' 124 offset h \<and>
        (\<forall>g. cx_heading st = Some g \<longrightarrow> sg_end g \<le> sg_start h))"

lemma context_at_mono: "context_at t role mark a s \<Longrightarrow> a \<le> b \<Longrightarrow> context_at t role mark b s"
  by (auto simp: context_at_def)

lemma line_context:
  assumes "starts_with mark (lstrip line)" "t = pre @ line @ rest"
  shows "context_at t role mark (length pre + length line)
    \<lparr>sg_start = length pre, sg_end = length pre + length (rstrip_newlines line), sg_role = role\<rparr>"
proof -
  obtain nl where l: "line = rstrip_newlines line @ nl" by (rule rstrip_newlines_prefix)
  have len: "length (rstrip_newlines line) \<le> length line" by (subst (2) l) simp
  have "slice (length pre) (length pre + length (rstrip_newlines line)) t = rstrip_newlines line"
    unfolding assms(2) by (subst (2) l) (simp add: slice_append_mid [of pre "rstrip_newlines line" "nl @ rest"])
  with len starts_with_visible [OF assms(1)] show ?thesis by (simp add: context_at_def)
qed

lemma scan_line_ok:
  assumes ok: "scan_ok t (length pre) st" and t: "t = pre @ line @ rest"
  shows "scan_ok t (length pre + length line) (scan_line body_start (length pre) line st)"
proof -
  let ?r = "scan_line body_start (length pre) line st"
  note line = line_context [OF _ t]
  have old: "context_at t ''heading-context'' 35 (length pre) h" if "cx_heading st = Some h" for h
    using ok that by (simp add: scan_ok_def)
  have heading: "context_at t ''heading-context'' 35 (length pre + length line) h" if "cx_heading ?r = Some h" for h
    using that line [of 35] context_at_mono [OF old]
    by (auto simp: scan_line_def Let_def split: if_splits)
  show ?thesis
  proof (cases "starts_with 124 (lstrip line)")
    case False
    with heading show ?thesis by (simp add: scan_ok_def scan_line_def Let_def)
  next
    case True
    then have no: "\<not> starts_with 35 (lstrip line)" by (auto simp: starts_with_def split: list.splits)
    then have same: "cx_heading ?r = cx_heading st" using True by (simp add: scan_line_def Let_def)
    have "context_at t ''table-header-context'' 124 (length pre + length line) h \<and>
        (\<forall>g. cx_heading st = Some g \<longrightarrow> sg_end g \<le> sg_start h)" if "cx_table_header ?r = Some h" for h
    proof (cases "cx_current_table st")
      case None
      with that True have "h = \<lparr>sg_start = length pre, sg_end = length pre + length (rstrip_newlines line),
        sg_role = ''table-header-context''\<rparr>" by (simp add: scan_line_def Let_def)
      with line [OF True] old show ?thesis by (auto simp: context_at_def)
    next
      case (Some x)
      with that True have "cx_table_header st = Some h" by (simp add: scan_line_def Let_def)
      with ok context_at_mono show ?thesis unfolding scan_ok_def by fastforce
    qed
    with heading same show ?thesis by (simp add: scan_ok_def)
  qed
qed

lemma scan_lines_ok:
  "scan_ok t (length pre) st \<Longrightarrow> t = pre @ concat ls \<Longrightarrow>
     scan_ok t (length t) (scan_lines body_start (length pre) ls st)"
proof (induction ls arbitrary: pre st)
  case (Cons l ls)
  have t: "t = pre @ l @ concat ls" using Cons.prems(2) by simp
  note ok = scan_line_ok [OF Cons.prems(1) t]
  have mono: "scan_ok t (length t) s" if "scan_ok t (length pre + length l) s" for s
    using that t context_at_mono unfolding scan_ok_def by fastforce
  have "scan_ok t (length t) (scan_lines body_start (length (pre @ l)) ls (scan_line body_start (length pre) l st))"
    by (rule Cons.IH) (use ok t in simp_all)
  with mono [OF ok] show ?case by (simp add: Let_def)
qed simp

text \<open>
  The context of a body is at most a heading and then a table header, disjoint, in order and before
  the body.
\<close>

definition segments_before :: "utext \<Rightarrow> nat \<Rightarrow> SourceSegment list \<Rightarrow> bool" where
  "segments_before t p segs \<longleftrightarrow>
     (\<forall>s \<in> set segs. sg_start s < sg_end s \<and> sg_end s \<le> p \<and> sg_end s \<le> length t \<and> context_source_ok t s \<and>
        sg_role s \<in> {''heading-context'', ''table-header-context''}) \<and>
     (segs = [] \<or> (\<exists>a. segs = [a]) \<or> (\<exists>a b. segs = [a, b] \<and> sg_end a \<le> sg_start b))"

lemma context_segments_before: "segments_before t p (context_segments t p)"
proof -
  define st where "st = scan_lines p 0 (splitlines_keepends t)
    \<lparr>cx_heading = None, cx_table_header = None, cx_current_table = None\<rparr>"
  have ok: "scan_ok t (length t) st"
    unfolding st_def by (rule scan_lines_ok [of t "[]", simplified]) (simp_all add: scan_ok_def concat_splitlines)
  have h: "context_source_ok t h \<and> sg_start h < sg_end h \<and> sg_end h \<le> length t \<and> sg_role h = ''heading-context''"
    if "cx_heading st = Some h" for h
    using ok that by (auto simp: scan_ok_def context_at_def context_source_ok_def Let_def)
  have b: "context_source_ok t h \<and> sg_start h < sg_end h \<and> sg_end h \<le> length t \<and> sg_role h = ''table-header-context'' \<and>
      (\<forall>g. cx_heading st = Some g \<longrightarrow> sg_end g \<le> sg_start h)"
    if "cx_table_header st = Some h" for h
    using ok that by (auto simp: scan_ok_def context_at_def context_source_ok_def Let_def)
  show ?thesis
    unfolding context_segments_def Let_def st_def [symmetric] segments_before_def
    using h b by (auto split: option.splits)
qed

section \<open>Windows in the canonical text\<close>

text \<open>The position in the canonical text of the boundary before token \<open>i\<close>.\<close>

definition token_pos :: "utext \<Rightarrow> NormalizedText \<Rightarrow> TokenSpan list \<Rightarrow> nat \<Rightarrow> nat" where
  "token_pos t n spans i =
     bound (nt_source_offsets n) (length t) (bound (map span_iv spans) (length (nt_text n)) i)"

locale chunking = tokenizer_port port for port +
  fixes contract :: ChunkingContract and canonical :: utext and normalized :: NormalizedText
    and spans :: "TokenSpan list"
  assumes norm: "normalize canonical (cg_normalization_version contract) = Inr normalized"
    and toks: "tp_spans port (nt_text normalized) = Inr spans"
    and overlap_nonneg: "0 \<le> cg_overlap_tokens contract"
begin

lemma tiling:
  "tiles 0 (nt_source_offsets normalized) (length canonical)"
  "length (nt_source_offsets normalized) = length (nt_text normalized)"
  "tiles 0 (map span_iv spans) (length (nt_text normalized))"
  using normalize_tiles [OF norm] spans_tile [OF toks] by auto

lemma span_bounds:
  assumes "i < j" "j \<le> length spans"
  shows "ts_start (spans ! i) = bound (map span_iv spans) (length (nt_text normalized)) i"
    and "ts_end (spans ! (j - 1)) = bound (map span_iv spans) (length (nt_text normalized)) j"
    and "ts_start (spans ! i) < ts_end (spans ! (j - 1))"
    and "ts_end (spans ! (j - 1)) \<le> length (nt_text normalized)"
proof -
  show s: "ts_start (spans ! i) = bound (map span_iv spans) (length (nt_text normalized)) i"
    using assms by (simp add: bound_def span_iv_def)
  show e: "ts_end (spans ! (j - 1)) = bound (map span_iv spans) (length (nt_text normalized)) j"
    using bound_Suc [OF tiling(3), of "j - 1"] assms by (simp add: span_iv_def)
  show "ts_start (spans ! i) < ts_end (spans ! (j - 1))"
    using bound_less [OF tiling(3) assms(1)] assms(2) s e by simp
  show "ts_end (spans ! (j - 1)) \<le> length (nt_text normalized)"
    using bound_le [OF tiling(3), of j] e by simp
qed

lemma pos_0: "token_pos canonical normalized spans 0 = 0"
  by (simp add: token_pos_def bound_0 [OF tiling(3)] bound_0 [OF tiling(1)])

lemma pos_end: "token_pos canonical normalized spans (length spans) = length canonical"
  by (simp add: token_pos_def bound_end tiling(2))

lemma pos_less:
  assumes "i < j" "j \<le> length spans"
  shows "token_pos canonical normalized spans i < token_pos canonical normalized spans j"
  unfolding token_pos_def
proof (rule bound_less [OF tiling(1)])
  show "bound (map span_iv spans) (length (nt_text normalized)) i < bound (map span_iv spans) (length (nt_text normalized)) j"
    using bound_less [OF tiling(3) assms(1)] assms(2) by simp
  show "bound (map span_iv spans) (length (nt_text normalized)) j \<le> length (nt_source_offsets normalized)"
    using bound_le [OF tiling(3)] tiling(2) by simp
qed

lemma pos_mono: "i \<le> j \<Longrightarrow> j \<le> length spans \<Longrightarrow>
    token_pos canonical normalized spans i \<le> token_pos canonical normalized spans j"
  using pos_less [of i j] by (cases "i = j") auto

lemma body_bounds:
  assumes "i < j" "j \<le> length spans"
  shows "fst (nt_source_offsets normalized ! ts_start (spans ! i)) = token_pos canonical normalized spans i"
    and "snd (nt_source_offsets normalized ! (ts_end (spans ! (j - 1)) - 1)) = token_pos canonical normalized spans j"
proof -
  note sb = span_bounds [OF assms]
  show "fst (nt_source_offsets normalized ! ts_start (spans ! i)) = token_pos canonical normalized spans i"
    unfolding token_pos_def sb(1) [symmetric] using sb(3,4) tiling(2) by (simp add: bound_def)
  have lt: "ts_end (spans ! (j - 1)) - 1 < length (nt_source_offsets normalized)" using sb(3,4) tiling(2) by simp
  have suc: "Suc (ts_end (spans ! (j - 1)) - 1) = ts_end (spans ! (j - 1))" using sb(3) by simp
  show "snd (nt_source_offsets normalized ! (ts_end (spans ! (j - 1)) - 1)) = token_pos canonical normalized spans j"
    unfolding token_pos_def sb(2) [symmetric] using bound_Suc [OF tiling(1) lt] unfolding suc .
qed

text \<open>The body of a window, read from the canonical text and normalized again, is the window's text.\<close>

lemma body_source:
  assumes "i < j" "j \<le> length spans"
  shows "\<exists>m. normalize (slice (token_pos canonical normalized spans i) (token_pos canonical normalized spans j) canonical)
      (cg_normalization_version contract) = Inr m \<and>
    nt_text m = slice (ts_start (spans ! i)) (ts_end (spans ! (j - 1))) (nt_text normalized) \<and>
    tp_count port (nt_text m) = Inr (int (j - i))"
  using normalize_between [OF norm span_bounds(3,4) [OF assms]] count_between [OF toks assms]
  unfolding body_bounds [OF assms] by auto

end


section \<open>A chain of windows passes the checks\<close>

lemma sort_key_unchanged:
  assumes "sorted (map f xs)" shows "sort_key f xs = xs"
  using assms by (rule sort_key_id_if_sorted)

lemma segments_sorted:
  assumes "segments_before t p segs" "p \<le> sg_start b"
  shows "sorted (map segment_key (segs @ [b]))"
    and "\<not> list_ex (\<lambda>(l, r). sg_end l > sg_start r) (zip (segs @ [b]) (tl (segs @ [b])))"
  using assms by (auto simp: segments_before_def segment_key_def less_eq_prod_def)

lemma ujoin_snoc: "ps \<noteq> [] \<Longrightarrow> ujoin sep (ps @ [p]) = ujoin sep ps @ sep @ p"
proof (induction sep ps rule: ujoin.induct)
  case (3 sep p q ps)
  then show ?case by simp
qed auto

lemma map_res_append: "map_res f (xs @ ys) = bind_res (map_res f xs) (\<lambda>a. bind_res (map_res f ys) (\<lambda>b. Inr (a @ b)))"
proof (induction xs)
  case Nil
  show ?case by (cases "map_res f ys") auto
next
  case (Cons x xs)
  then show ?case by (cases "f x"; cases "map_res f xs"; cases "map_res f ys") auto
qed

lemma context_parts_snoc:
  assumes "context_parts t v segs = Inr parts" "normalize (slice (sg_start b) (sg_end b) t) v = Inr m"
  shows "context_parts t v (segs @ [b]) = Inr (parts @ [nt_text m])"
  using assms by (simp add: context_parts_def map_res_append)

lemma context_prefix_join:
  assumes "joiner = (if parts \<noteq> [] then [10] else [])"
  shows "ujoin joiner (parts @ [body]) = context_prefix parts @ body"
  using assms by (cases "parts = []") (simp_all add: context_prefix_def ujoin_snoc)

lemma common_bodies_pair:
  assumes "segments_before t p segs" "segments_before t q segs'"
    and "ckc_source_segments c = segs @ [a]" "ckc_source_segments c' = segs' @ [b]"
    and "sg_role a = ''body''" "sg_role b = ''body''"
  shows "common_bodies c c' = (if max (sg_start a) (sg_start b) < min (sg_end a) (sg_end b)
    then [(max (sg_start a) (sg_start b), min (sg_end a) (sg_end b))] else [])"
proof -
  have nb: "sg_role s \<noteq> ''body''" if "s \<in> set segs \<union> set segs'" for s
    using assms(1,2) that by (auto simp: segments_before_def)
  define f where "f = (\<lambda>(y :: SourceSegment) (x :: SourceSegment). if sg_role y = ''body'' \<and> sg_role x = ''body'' \<and>
        max (sg_start y) (sg_start x) < min (sg_end y) (sg_end x)
      then [(max (sg_start y) (sg_start x), min (sg_end y) (sg_end x))] else [])"
  have none: "concat (map g xs) = []" if "\<And>x. x \<in> set xs \<Longrightarrow> g x = []" for g :: "SourceSegment \<Rightarrow> (nat \<times> nat) list" and xs
    using that by (simp add: concat_eq_Nil_conv)
  have "common_bodies c c' = concat (map (\<lambda>y. concat (map (f y) (segs' @ [b]))) (segs @ [a]))"
    by (simp only: common_bodies_def assms(3,4) f_def)
  also have "\<dots> = concat (map (\<lambda>y. concat (map (f y) (segs' @ [b]))) segs) @ concat (map (f a) segs') @ f a b"
    by simp
  also have "concat (map (f a) segs') = []" by (rule none) (use nb in \<open>simp add: f_def\<close>)
  also have "concat (map (\<lambda>y. concat (map (f y) (segs' @ [b]))) segs) = []"
    by (rule none, rule none) (use nb in \<open>simp add: f_def\<close>)
  finally show ?thesis by (simp add: f_def assms(5,6))
qed

context chunking
begin

lemma context_before:
  assumes "s < length spans"
  shows "segments_before canonical (token_pos canonical normalized spans s)
    (chunk_context contract canonical normalized spans (int s))"
  using context_segments_before body_bounds(1) [of s "Suc s"] assms
  by (simp add: chunk_context_def segments_before_def)

lemma window_segments:
  assumes "chunk_window port contract canonical normalized spans k s e c"
  shows "ckc_source_segments c = chunk_context contract canonical normalized spans (int s) @
    [\<lparr>sg_start = token_pos canonical normalized spans s, sg_end = token_pos canonical normalized spans e,
      sg_role = ''body''\<rparr>]"
    and "s < e" "e \<le> length spans"
proof -
  show se: "s < e" "e \<le> length spans" using assms by (auto simp: chunk_window_def)
  show "ckc_source_segments c = chunk_context contract canonical normalized spans (int s) @
    [\<lparr>sg_start = token_pos canonical normalized spans s, sg_end = token_pos canonical normalized spans e,
      sg_role = ''body''\<rparr>]"
    using assms body_bounds [OF se] by (simp add: chunk_window_def)
qed

lemma window_segment_ok:
  assumes w: "chunk_window port contract canonical normalized spans k s e c"
    and prog: "case pb of None \<Rightarrow> s = 0 | Some p \<Rightarrow> \<exists>e'. sg_end p = token_pos canonical normalized spans e' \<and> s \<le> e' \<and> e' < e"
  shows "segment_defect canonical (int k) pb c = None"
proof -
  note seg = window_segments [OF w]
  let ?ctx = "chunk_context contract canonical normalized spans (int s)"
  let ?b = "\<lparr>sg_start = token_pos canonical normalized spans s, sg_end = token_pos canonical normalized spans e, sg_role = ''body''\<rparr>"
  have before: "segments_before canonical (token_pos canonical normalized spans s) ?ctx"
    by (rule context_before) (use seg in simp)
  have srt: "sorted_segments (?ctx @ [?b]) = ?ctx @ [?b]"
    unfolding sorted_segments_def by (rule sort_key_unchanged, rule segments_sorted(1) [OF before]) simp
  have dis: "\<not> list_ex (\<lambda>(l, r). sg_end l > sg_start r) (zip (?ctx @ [?b]) (tl (?ctx @ [?b])))"
    by (rule segments_sorted(2) [OF before]) simp
  have nobody: "filter (\<lambda>s. sg_role s = ''body'') ?ctx = []"
    using before by (auto simp: segments_before_def filter_empty_conv)
  have roles: "roles_ok c"
    using w seg(1) before nobody
    by (auto simp: roles_ok_def Let_def chunk_window_def segments_before_def list_all_iff)
  have rng: "\<not> list_ex (\<lambda>x. sg_end x > length canonical) (?ctx @ [?b])"
    using before pos_mono [of e "length spans"] pos_end seg(3)
    by (auto simp: segments_before_def list_ex_iff)
  have bp: "body_progress pb ?b"
    using prog pos_0 pos_mono pos_less seg(2,3)
    by (auto simp: body_progress_def split: option.splits)
  have ctx: "list_all (context_source_ok canonical) ?ctx"
    using before by (auto simp: segments_before_def list_all_iff)
  have ord: "ckc_ordinal c = int k" using w by (simp add: chunk_window_def)
  show ?thesis
    unfolding segment_defect_def Let_def seg(1) using srt dis roles rng bp ctx ord by simp
qed

lemma window_text:
  assumes w: "chunk_window port contract canonical normalized spans k s e c"
  shows "reconstruct contract canonical c = Inr (ckc_text c)" and "ckc_text c \<noteq> []"
    and "int (e - s) \<le> ckc_token_count c"
proof -
  note seg = window_segments [OF w]
  obtain m where m: "normalize (slice (token_pos canonical normalized spans s) (token_pos canonical normalized spans e) canonical)
      (cg_normalization_version contract) = Inr m"
    "nt_text m = slice (ts_start (spans ! s)) (ts_end (spans ! (e - 1))) (nt_text normalized)"
    "tp_count port (nt_text m) = Inr (int (e - s))"
    using body_source [OF seg(2,3)] by blast
  obtain parts pc where parts: "context_parts canonical (cg_normalization_version contract)
      (chunk_context contract canonical normalized spans (int s)) = Inr parts"
    and pc: "tp_count port (context_prefix parts) = Inr pc" and tx: "ckc_text c = context_prefix parts @ nt_text m"
    and join: "ckc_joiner c = (if chunk_context contract canonical normalized spans (int s) \<noteq> [] then [10] else [])"
    and count: "tp_count port (ckc_text c) = Inr (ckc_token_count c)"
    using w m(2) by (auto simp: chunk_window_def)
  have "length parts = length (chunk_context contract canonical normalized spans (int s))"
    using parts unfolding context_parts_def by (rule map_res_length)
  then have "parts = [] \<longleftrightarrow> chunk_context contract canonical normalized spans (int s) = []"
    by (metis length_0_conv)
  with join have j: "ckc_joiner c = (if parts \<noteq> [] then [10] else [])" by simp
  have "context_parts canonical (cg_normalization_version contract) (ckc_source_segments c) = Inr (parts @ [nt_text m])"
    unfolding seg(1) using parts m(1) by (intro context_parts_snoc) simp_all
  then show "reconstruct contract canonical c = Inr (ckc_text c)"
    by (simp add: reconstruct_def context_prefix_join [OF j] tx)
  have "nt_text m \<noteq> []"
    using m(2) span_bounds(3,4) [OF seg(2,3)] by (auto simp: slice_def)
  then show "ckc_text c \<noteq> []" using tx by simp
  show "int (e - s) \<le> ckc_token_count c"
  proof (cases "parts = []")
    case True
    then show ?thesis using tx count m(3) by (simp add: context_prefix_def)
  next
    case False
    have nonneg: "0 \<le> pc" using pc spans_total [of "context_prefix parts"] count_spans by fastforce
    have "tp_count port (ckc_text c) = Inr (pc + int (e - s))"
      using count_newline [of "ujoin [10] parts" pc "nt_text m"] pc m(3) tx False by (simp add: context_prefix_def)
    with count nonneg show ?thesis by simp
  qed
qed

end


context chunking
begin

text \<open>
  The generator compares the minimal size with the number of tokens of the normalized text, the
  validator with that of the canonical text; \<open>useful_agree\<close> says that this makes no difference.
\<close>

definition useful_agree :: bool where
  "useful_agree \<longleftrightarrow> (\<forall>n. int (length spans) < cg_min_useful_tokens contract \<longrightarrow> tp_count port canonical = Inr n \<longrightarrow>
     n < cg_min_useful_tokens contract)"

lemma window_small:
  assumes w: "chunk_window port contract canonical normalized spans k 0 e c"
  shows "ckc_token_count c = int e"
proof -
  note seg = window_segments [OF w]
  have "segments_before canonical 0 (chunk_context contract canonical normalized spans (int 0))"
    using context_before [of 0] seg pos_0 by (cases "spans = []") simp_all
  then have "chunk_context contract canonical normalized spans (int 0) = []"
    by (auto simp: segments_before_def)
  then have "ckc_text c = slice (ts_start (spans ! 0)) (ts_end (spans ! (e - 1))) (nt_text normalized)"
    using w by (auto simp: chunk_window_def context_parts_def context_prefix_def)
  moreover have "tp_count port (ckc_text c) = Inr (ckc_token_count c)" using w by (simp add: chunk_window_def)
  ultimately show ?thesis using count_between [OF toks seg(2,3)] by simp
qed

text \<open>Where the two sizes disagree, the first chunk already fails the check.\<close>

lemma window_too_small:
  assumes w: "chunk_window port contract canonical normalized spans 0 0 e c" and "\<not> useful_agree"
  shows "\<exists>reason. chunk_defect port contract canonical 0 out None c =
    Inr (Some (ChunkValidationOutcome.TOKEN_BUDGET_INVALID, reason))"
proof -
  note t = window_text [OF w]
  obtain n where n: "tp_count port canonical = Inr n" "cg_min_useful_tokens contract \<le> n"
    "int (length spans) < cg_min_useful_tokens contract"
    using assms(2) by (auto simp: useful_agree_def not_less)
  have "ckc_token_count c < cg_min_useful_tokens contract"
    using window_small [OF w] n(3) window_segments(3) [OF w] by simp
  moreover have "segment_defect canonical (int 0) None c = None" by (rule window_segment_ok [OF w]) simp
  ultimately show ?thesis
    using t(1,2) n w by (simp add: chunk_defect_def content_defect_def chunk_window_def)
qed

lemma window_content_ok:
  assumes w: "chunk_window port contract canonical normalized spans k s e c" and useful_agree
    and "out + int (length (ckc_text c)) \<le> cg_max_output_chars contract"
  shows "content_defect port contract canonical out c = Inr None"
proof -
  note t = window_text [OF w]
  have facts: "tp_count port (ckc_text c) = Inr (ckc_token_count c)" "ckc_token_count c \<le> cg_hard_max_tokens contract"
    "sha256_text (ckc_text c) = Inr (ckc_content_hash c)"
    "cg_min_useful_tokens contract \<le> int (e - s) \<or> int (length spans) < cg_min_useful_tokens contract"
    using w by (auto simp: chunk_window_def)
  obtain n where n: "tp_count port canonical = Inr n"
    using spans_total [of canonical] count_spans by blast
  have "\<not> n \<ge> cg_min_useful_tokens contract" if "ckc_token_count c < cg_min_useful_tokens contract"
    using that facts(4) t(3) n assms(2) by (auto simp: useful_agree_def not_le)
  then show ?thesis
    using t(1,2) facts n assms(3) by (simp add: content_defect_def)
qed

lemma window_overlap_ok:
  assumes w: "chunk_window port contract canonical normalized spans k s e c"
    and p: "chunk_window port contract canonical normalized spans k' s' e' p"
    and link: "s' + nat (cg_overlap_tokens contract) < e'" "e' < length spans" "s = e' - nat (cg_overlap_tokens contract)"
    and "e' < e"
  shows "overlap_defect port contract canonical (Some p) c = Inr None"
proof -
  let ?pos = "token_pos canonical normalized spans" and ?ov = "nat (cg_overlap_tokens contract)"
  note seg = window_segments [OF w] and seg' = window_segments [OF p]
  have pos: "?pos s' < ?pos s" "?pos e' < ?pos e" "?pos s \<le> ?pos e'"
    using pos_less [of s' s] pos_less [of e' e] pos_mono [of s e'] link assms(6) seg(3) by auto
  have cb: "common_bodies p c = (if ?pos s < ?pos e' then [(?pos s, ?pos e')] else [])"
    using common_bodies_pair [OF context_before context_before seg'(1) seg(1)] pos seg seg' by (simp add: max_def min_def)
  have right: "ckc_overlap_right_tokens p = cg_overlap_tokens contract"
    using p link(2) by (simp add: chunk_window_def)
  have left: "ckc_overlap_left_tokens c = cg_overlap_tokens contract"
    using w link by (simp add: chunk_window_def)
  have "source_overlap port contract canonical p c = Inr (cg_overlap_tokens contract)"
  proof (cases "s < e'")
    case True
    with pos_less [of s e'] link(2) have lt: "?pos s < ?pos e'" by simp
    obtain m where "normalize (slice (?pos s) (?pos e') canonical) (cg_normalization_version contract) = Inr m"
      "tp_count port (nt_text m) = Inr (int (e' - s))"
      using body_source [of s e'] True link(2) by auto
    moreover have "int (e' - s) = cg_overlap_tokens contract" using link overlap_nonneg by auto
    ultimately show ?thesis using lt by (simp add: source_overlap_def cb)
  next
    case False
    then have "cg_overlap_tokens contract = 0" "s = e'" using link overlap_nonneg by auto
    then show ?thesis by (simp add: source_overlap_def cb)
  qed
  then show ?thesis by (simp add: overlap_defect_def right left)
qed

text \<open>The chunk before a window, if there is one, ended \<open>overlap\<close> tokens after its start.\<close>

definition follows :: "ChunkCandidate option \<Rightarrow> nat \<Rightarrow> bool" where
  "follows previous s \<longleftrightarrow> (case previous of None \<Rightarrow> s = 0
     | Some p \<Rightarrow> \<exists>k' s' e'. chunk_window port contract canonical normalized spans k' s' e' p \<and>
         s' + nat (cg_overlap_tokens contract) < e' \<and> e' < length spans \<and> s = e' - nat (cg_overlap_tokens contract))"

lemma window_chunk_ok:
  assumes w: "chunk_window port contract canonical normalized spans k s e c" and useful_agree
    and "out + int (length (ckc_text c)) \<le> cg_max_output_chars contract" and f: "follows previous s"
  shows "chunk_defect port contract canonical (int k) out previous c = Inr None"
proof (cases previous)
  case None
  with f have "s = 0" by (simp add: follows_def)
  with w have "overlap_defect port contract canonical None c = Inr None"
    by (simp add: overlap_defect_def chunk_window_def)
  moreover have "segment_defect canonical (int k) None c = None"
    by (rule window_segment_ok [OF w]) (simp add: \<open>s = 0\<close>)
  ultimately show ?thesis
    using window_content_ok [OF w assms(2,3)] by (simp add: chunk_defect_def None)
next
  case (Some p)
  with f obtain k' s' e' where p: "chunk_window port contract canonical normalized spans k' s' e' p"
    and link: "s' + nat (cg_overlap_tokens contract) < e'" "e' < length spans" "s = e' - nat (cg_overlap_tokens contract)"
    by (auto simp: follows_def)
  have "e = length spans \<or> int s + cg_overlap_tokens contract < int e" using w by (simp add: chunk_window_def)
  then have lt: "e' < e" using link overlap_nonneg by auto
  have "segment_defect canonical (int k) (Some (last (ckc_source_segments p))) c = None"
  proof (rule window_segment_ok [OF w])
    show "case Some (last (ckc_source_segments p)) of None \<Rightarrow> s = 0
      | Some p \<Rightarrow> \<exists>e'. sg_end p = token_pos canonical normalized spans e' \<and> s \<le> e' \<and> e' < e"
      using window_segments(1) [OF p] link lt by (auto intro!: exI [of _ e'])
  qed
  then show ?thesis
    using window_content_ok [OF w assms(2,3)] window_overlap_ok [OF w p link lt] by (simp add: chunk_defect_def Some)
qed

lemma chain_checks:
  assumes "window_chain (chunk_window port contract canonical normalized spans) (length spans)
      (nat (cg_overlap_tokens contract)) k s cs" and useful_agree
    and "out + (\<Sum>c\<leftarrow>cs. int (length (ckc_text c))) \<le> cg_max_output_chars contract" and "follows previous s"
  shows "chunks_defect port contract canonical (int k) out previous cs = Inr None"
  using assms(1,3,4)
proof (induction cs arbitrary: k s out previous)
  case (Cons c cs)
  from Cons.prems(1) obtain e where w: "chunk_window port contract canonical normalized spans k s e c"
    and rest: "if cs = [] then e = length spans else e < length spans \<and> s + nat (cg_overlap_tokens contract) < e \<and>
      window_chain (chunk_window port contract canonical normalized spans) (length spans)
        (nat (cg_overlap_tokens contract)) (Suc k) (e - nat (cg_overlap_tokens contract)) cs" by auto
  have nonneg: "0 \<le> (\<Sum>c\<leftarrow>cs. int (length (ckc_text c)))" by (induction cs) auto
  have "chunk_defect port contract canonical (int k) out previous c = Inr None"
    by (rule window_chunk_ok [OF w assms(2) _ Cons.prems(3)]) (use Cons.prems(2) nonneg in simp)
  moreover have "chunks_defect port contract canonical (int (Suc k)) (out + int (length (ckc_text c))) (Some c) cs = Inr None"
  proof (cases "cs = []")
    case False
    show ?thesis
      by (rule Cons.IH [of "Suc k" "e - nat (cg_overlap_tokens contract)"])
        (use False rest w Cons.prems(2) in \<open>auto simp: follows_def\<close>)
  qed simp
  ultimately show ?case by (simp add: add.commute)
qed simp

lemma chain_covers:
  assumes "window_chain (chunk_window port contract canonical normalized spans) (length spans) ov k s cs"
    and "token_pos canonical normalized spans s \<le> p" "p < length canonical"
  shows "\<exists>c \<in> set cs. sg_start (last (ckc_source_segments c)) \<le> p \<and> p < sg_end (last (ckc_source_segments c))"
  using assms(1,2)
proof (induction cs arbitrary: k s)
  case (Cons c cs)
  from Cons.prems(1) obtain e where w: "chunk_window port contract canonical normalized spans k s e c"
    and rest: "if cs = [] then e = length spans else e < length spans \<and> s + ov < e \<and>
      window_chain (chunk_window port contract canonical normalized spans) (length spans) ov (Suc k) (e - ov) cs" by auto
  note seg = window_segments [OF w]
  show ?case
  proof (cases "p < token_pos canonical normalized spans e")
    case True
    then show ?thesis using seg(1) Cons.prems(2) by simp
  next
    case False
    then have ne: "cs \<noteq> []" using rest assms(3) pos_end by auto
    have "token_pos canonical normalized spans (e - ov) \<le> p"
      using False pos_mono [of "e - ov" e] seg(3) by simp
    with Cons.IH [of "Suc k" "e - ov"] rest ne show ?thesis by auto
  qed
qed simp

end

section \<open>Coverage\<close>

lemma window_chain_member:
  assumes "window_chain W n ov k s cs" "c \<in> set cs"
  shows "\<exists>k' s' e'. W k' s' e' c"
  using assms by (induction cs arbitrary: k s) (auto split: if_splits)

lemma window_chain_last: "window_chain W n ov k s cs \<Longrightarrow> \<exists>k' s'. W k' s' n (last cs)"
  by (induction cs arbitrary: k s) (auto split: if_splits)

lemma cover_complete:
  assumes "sorted (map sg_start segs)" "\<forall>s \<in> set segs. sg_start s < sg_end s \<and> sg_end s \<le> n" "c \<le> n"
    and "\<And>p. c \<le> p \<Longrightarrow> p < n \<Longrightarrow> \<exists>s \<in> set segs. sg_start s \<le> p \<and> p < sg_end s"
  shows "cover c segs = Some n"
  using assms
proof (induction segs arbitrary: c)
  case Nil
  then have "c = n" by (metis empty_iff empty_set le_neq_implies_less order_refl)
  then show ?case by simp
next
  case (Cons s segs)
  have le: "sg_start s \<le> c"
  proof (rule ccontr)
    assume neg: "\<not> sg_start s \<le> c"
    with Cons.prems(2) have "c < n" by fastforce
    with Cons.prems(4) obtain s' where s': "s' \<in> set (s # segs)" "sg_start s' \<le> c" by blast
    then have "s' \<in> set segs" using neg by auto
    then have "sg_start s \<le> sg_start s'" using Cons.prems(1) by auto
    with s'(2) neg show False by simp
  qed
  have "cover (max c (sg_end s)) segs = Some n"
  proof (rule Cons.IH)
    fix p
    assume p: "max c (sg_end s) \<le> p" "p < n"
    then obtain s' where "s' \<in> set (s # segs)" "sg_start s' \<le> p" "p < sg_end s'" using Cons.prems(4) [of p] by auto
    then show "\<exists>s \<in> set segs. sg_start s \<le> p \<and> p < sg_end s" using p(1) by auto
  qed (use Cons.prems in auto)
  with le show ?case by simp
qed

lemma sorted_segments_start: "sorted (map sg_start (sorted_segments segs))"
proof -
  have "sorted (map segment_key (sorted_segments segs))" unfolding sorted_segments_def by (rule sorted_sort_key)
  then show ?thesis
    by (simp add: sorted_iff_nth_mono segment_key_def less_eq_prod_def) (meson less_imp_le_nat)
qed

lemma set_sorted_segments: "set (sorted_segments segs) = set segs"
  by (simp add: sorted_segments_def)

context chunking
begin

lemma chain_cover:
  assumes ch: "window_chain (chunk_window port contract canonical normalized spans) (length spans) ov 0 0 cs"
  shows "cover 0 (sorted_segments (concat (map ckc_source_segments cs))) = Some (length canonical)"
proof (rule cover_complete [OF sorted_segments_start])
  show "\<forall>s \<in> set (sorted_segments (concat (map ckc_source_segments cs))).
      sg_start s < sg_end s \<and> sg_end s \<le> length canonical"
  proof
    fix x
    assume "x \<in> set (sorted_segments (concat (map ckc_source_segments cs)))"
    then obtain c where c: "c \<in> set cs" "x \<in> set (ckc_source_segments c)" by (auto simp: set_sorted_segments)
    from window_chain_member [OF ch c(1)] obtain k s e where w: "chunk_window port contract canonical normalized spans k s e c" by blast
    note seg = window_segments [OF w]
    have "token_pos canonical normalized spans s < token_pos canonical normalized spans e"
      "token_pos canonical normalized spans e \<le> length canonical"
      using pos_less [OF seg(2,3)] pos_mono [OF seg(3)] pos_end by auto
    with c(2) seg context_before [of s] show "sg_start x < sg_end x \<and> sg_end x \<le> length canonical"
      by (auto simp: segments_before_def)
  qed
next
  fix p
  assume "p < length canonical"
  from chain_covers [OF ch _ this] pos_0 obtain c where c: "c \<in> set cs"
    "sg_start (last (ckc_source_segments c)) \<le> p" "p < sg_end (last (ckc_source_segments c))" by auto
  from window_chain_member [OF ch c(1)] obtain k s e where w: "chunk_window port contract canonical normalized spans k s e c" by blast
  have "last (ckc_source_segments c) \<in> set (ckc_source_segments c)" using window_segments(1) [OF w] by simp
  with c show "\<exists>s \<in> set (sorted_segments (concat (map ckc_source_segments cs))). sg_start s \<le> p \<and> p < sg_end s"
    by (auto simp: set_sorted_segments)
qed simp

text \<open>The verdict of the validator on a chain.\<close>

lemma chain_verdict:
  assumes ch: "window_chain (chunk_window port contract canonical normalized spans) (length spans)
      (nat (cg_overlap_tokens contract)) 0 0 cs"
    and out: "(\<Sum>c\<leftarrow>cs. int (length (ckc_text c))) \<le> cg_max_output_chars contract"
  shows "if useful_agree then chunks_defect port contract canonical 0 0 None cs = Inr None
    else \<exists>reason. chunks_defect port contract canonical 0 0 None cs =
      Inr (Some (ChunkValidationOutcome.TOKEN_BUDGET_INVALID, reason))"
proof (cases useful_agree)
  case True
  with chain_checks [OF ch True, of 0 None] out show ?thesis by (simp add: follows_def)
next
  case False
  from ch obtain c r e where "cs = c # r" "chunk_window port contract canonical normalized spans 0 0 e c"
    by (cases cs) auto
  with window_too_small [OF _ False, of e c 0] False show ?thesis by auto
qed

lemma chain_last_overlap:
  assumes "window_chain (chunk_window port contract canonical normalized spans) (length spans) ov k s cs"
  shows "ckc_overlap_right_tokens (last cs) = 0"
  using window_chain_last [OF assms] by (auto simp: chunk_window_def)

end

section \<open>Generation and validation together\<close>

lemma contract_valid:
  assumes "ChunkingContract_post_init contract = Inr contract'"
  shows "0 \<le> cg_overlap_tokens contract" "cg_overlap_tokens contract < cg_soft_target_tokens contract"
    "0 < cg_min_useful_tokens contract" "cg_normalization_version contract \<in> set supported_normalizations"
  using assms unfolding ChunkingContract_post_init_def if_Inl_eq_Inr by auto

lemma generate_chunks_ok:
  assumes "generate_chunks port clock parsed contract operation attempt experiment_id = Inr candidate"
  obtains normalized spans memory chunks where
    "truthy experiment_id" "cg_tokenizer contract = tp_contract port"
    "cop_contract_fingerprint operation = contract_fingerprint contract"
    "cat_operation_id attempt = cop_operation_id operation"
    "int (length (px_canonical_text parsed)) \<le> cg_max_input_chars contract"
    "sha256_text (px_canonical_text parsed) = Inr (px_output_checksum_sha256 parsed)"
    "normalize (px_canonical_text parsed) (cg_normalization_version contract) = Inr normalized"
    "tp_spans port (nt_text normalized) = Inr spans" "spans \<noteq> []"
    "chunk_loop port clock contract (px_canonical_text parsed) normalized spans memory
       \<lparr>gl_start = 0, gl_chunks = [], gl_output_chars = 0, gl_work_units = int (length spans)\<rparr> = Inr chunks" "list_all chunk_encodable chunks"
    "candidate = \<lparr>csc_operation = operation, csc_attempt = attempt, csc_experiment_id = experiment_id, csc_chunks = chunks,
       csc_manifest = \<lparr>cmf_chunk_count = int (length chunks), cmf_source_checksum = px_output_checksum_sha256 parsed,
         cmf_contract_fingerprint = contract_fingerprint contract, cmf_chunks_checksum = chunks_checksum chunks\<rparr>\<rparr>"
proof -
  from assms obtain normalized spans chunks memory h where
    f: "truthy experiment_id" "cg_tokenizer contract = tp_contract port"
      "cop_contract_fingerprint operation = contract_fingerprint contract"
      "cat_operation_id attempt = cop_operation_id operation"
      "\<not> (px_canonical_text parsed = [] \<or> int (length (px_canonical_text parsed)) > cg_max_input_chars contract)"
      "sha256_text (px_canonical_text parsed) = Inr (px_output_checksum_sha256 parsed)"
      "normalize (px_canonical_text parsed) (cg_normalization_version contract) = Inr normalized"
      "tp_spans port (nt_text normalized) = Inr spans" "spans \<noteq> []"
      "chunk_loop port clock contract (px_canonical_text parsed) normalized spans memory
         \<lparr>gl_start = 0, gl_chunks = [], gl_output_chars = 0, gl_work_units = int (length spans)\<rparr> = Inr chunks"
      "candidate_chunks_checksum chunks = Inr h"
      "candidate = \<lparr>csc_operation = operation, csc_attempt = attempt, csc_experiment_id = experiment_id, csc_chunks = chunks,
         csc_manifest = \<lparr>cmf_chunk_count = int (length chunks), cmf_source_checksum = px_output_checksum_sha256 parsed,
           cmf_contract_fingerprint = contract_fingerprint contract, cmf_chunks_checksum = h\<rparr>\<rparr>"
    unfolding generate_chunks_def Let_def if_Inl_eq_Inr bind_res_eq_Inr sum.inject by blast
  have enc: "list_all chunk_encodable chunks" "h = chunks_checksum chunks"
    using f(11) unfolding candidate_chunks_checksum_eq by (simp_all split: if_splits)
  show ?thesis by (rule that [OF f(1-4) _ f(6-10) enc(1)]) (use f(5,12) enc(2) in simp_all)
qed

text \<open>For every tokenizer with the laws of the port, the validator's verdict on a generated set.\<close>

context tokenizer_port
begin

lemma generated_verdict:
  assumes gen: "generate_chunks port clock parsed contract operation attempt experiment_id = Inr candidate"
    and con: "ChunkingContract_post_init contract = Inr contract"
    and el: "eligible (evaluate_chunking_eligibility document version ingestion)"
    and bound: "parse_bound version ingestion parsed source (vl_parsed_artifact_id version) operation"
    and out: "pm_output_checksum_sha256 (px_manifest parsed) = px_output_checksum_sha256 parsed"
    and nrm: "normalize (px_canonical_text parsed) (cg_normalization_version contract) = Inr normalized"
    and counts: "tp_count port (nt_text normalized) = Inr n" "tp_count port (px_canonical_text parsed) = Inr m"
  shows "\<exists>d. evaluate_chunk_set port document version ingestion parsed source contract candidate = Inr d \<and>
    (chunk_ready d \<longleftrightarrow> \<not> (n < cg_min_useful_tokens contract \<and> cg_min_useful_tokens contract \<le> m)) \<and>
    (chunk_ready d \<longrightarrow> cvd_candidate d = Some candidate) \<and>
    (\<not> chunk_ready d \<longrightarrow> cvd_outcome d = ChunkValidationOutcome.TOKEN_BUDGET_INVALID)"
  using gen
proof (rule generate_chunks_ok)
  fix normalized' spans memory chunks
  assume g: "truthy experiment_id" "cg_tokenizer contract = tp_contract port"
    "cop_contract_fingerprint operation = contract_fingerprint contract"
    "cat_operation_id attempt = cop_operation_id operation"
    "int (length (px_canonical_text parsed)) \<le> cg_max_input_chars contract"
    "sha256_text (px_canonical_text parsed) = Inr (px_output_checksum_sha256 parsed)"
    and nrm': "normalize (px_canonical_text parsed) (cg_normalization_version contract) = Inr normalized'"
    and toks: "tp_spans port (nt_text normalized') = Inr spans" "spans \<noteq> []"
    and loop: "chunk_loop port clock contract (px_canonical_text parsed) normalized' spans memory
       \<lparr>gl_start = 0, gl_chunks = [], gl_output_chars = 0, gl_work_units = int (length spans)\<rparr> = Inr chunks"
    and enc: "list_all chunk_encodable chunks"
    and cand: "candidate = \<lparr>csc_operation = operation, csc_attempt = attempt, csc_experiment_id = experiment_id, csc_chunks = chunks,
       csc_manifest = \<lparr>cmf_chunk_count = int (length chunks), cmf_source_checksum = px_output_checksum_sha256 parsed,
         cmf_contract_fingerprint = contract_fingerprint contract, cmf_chunks_checksum = chunks_checksum chunks\<rparr>\<rparr>"
  have nn: "normalized' = normalized" using nrm nrm' by simp
  have nt: "n = int (length spans)" using count_spans [OF toks(1)] counts(1) nn by simp
  have ck: "chunking port contract (px_canonical_text parsed) normalized spans"
    using nrm toks(1) nn contract_valid(1) [OF con] tokenizer_port_axioms
    by (simp add: chunking_def chunking_axioms_def)
  obtain cs where cs: "chunks = cs"
    "window_chain (chunk_window port contract (px_canonical_text parsed) normalized spans) (length spans)
      (nat (cg_overlap_tokens contract)) 0 0 cs"
    "(\<Sum>c\<leftarrow>cs. int (length (ckc_text c))) \<le> cg_max_output_chars contract"
    "int (length chunks) \<le> cg_max_chunk_count contract"
    using chunk_loop_chain [OF loop, of 0] toks(2) contract_valid(1,2) [OF con] nn by auto
  have ne: "chunks \<noteq> []" using cs by auto
  have mo: "manifest_ok parsed contract candidate = Inr True"
    unfolding manifest_ok_True using g(6) out enc by (simp add: manifest_fields_ok_def candidate_chunks_checksum_eq cand)
  have proj: "csc_operation candidate = operation" "csc_attempt candidate = attempt"
    "csc_experiment_id candidate = experiment_id" "csc_chunks candidate = chunks"
    by (simp_all add: cand)
  have ea: "eg_parsed_artifact_id (evaluate_chunking_eligibility document version ingestion) = vl_parsed_artifact_id version"
    by (rule eligible_artifact [OF el])
  have ev: "evaluate_chunk_set port document version ingestion parsed source contract candidate =
    bind_res (chunks_defect port contract (px_canonical_text parsed) 0 0 None chunks) (\<lambda>defect.
      case defect of Some (outcome, reason) \<Rightarrow> chunk_blocked outcome reason
      | None \<Rightarrow> ChunkValidationDecision_post_init
          \<lparr>cvd_outcome = ChunkValidationOutcome.READY_FOR_COMMIT,
           cvd_safe_reason = ''CANDIDATE_SOURCE_AND_BUDGET_VALIDATED'', cvd_candidate = Some candidate,
           cvd_committer_calls = 0, cvd_durable_transitions = 0\<rparr>)"
    unfolding evaluate_chunk_set_def Let_def
    using el bound ea mo ne g cs(4) chunking.chain_cover [OF ck cs(2)] chunking.chain_last_overlap [OF ck cs(2)] cs(1)
    by (simp add: proj)
  have agree: "chunking.useful_agree port contract (px_canonical_text parsed) spans \<longleftrightarrow>
      \<not> (n < cg_min_useful_tokens contract \<and> cg_min_useful_tokens contract \<le> m)"
    using counts(2) nt by (auto simp: chunking.useful_agree_def [OF ck] not_less)
  show ?thesis
    using chunking.chain_verdict [OF ck cs(2,3)] agree cs(1) unfolding ev
    by (auto simp: ChunkValidationDecision_post_init_def chunk_blocked_def chunk_ready_def split: if_splits)
qed

end

end
