(* ===== verification/Chunking_Safety.thy ===== *)
theory Chunking_Safety
  imports Chunking_Correct
begin

text \<open>
  The properties of chunking: what an accepted chunk set guarantees whoever produced it, that the
  generator's sets are accepted, that generation ends within its budgets and succeeds where they
  allow it, and that the source map of the normalization is reversible.
\<close>

section \<open>What acceptance means\<close>

lemma segment_defect_None:
  assumes "segment_defect t k pb c = None"
  shows "ckc_ordinal c = k" "ckc_source_segments c \<noteq> []"
    "\<not> list_ex (\<lambda>(l, r). sg_end l > sg_start r) (zip (ckc_source_segments c) (tl (ckc_source_segments c)))"
    "\<forall>s \<in> set (ckc_source_segments c). sg_end s \<le> length t"
    "body_progress pb (last (ckc_source_segments c))"
  using assms by (auto simp: segment_defect_def Let_def list_ex_iff split: if_splits)

lemma content_defect_None:
  assumes "content_defect port contract t out c = Inr None"
  shows "reconstruct contract t c = Inr (ckc_text c)" "sha256_text (ckc_text c) = Inr (ckc_content_hash c)" "ckc_text c \<noteq> []"
    "tp_count port (ckc_text c) = Inr (ckc_token_count c)" "ckc_token_count c \<le> cg_hard_max_tokens contract"
    "out + int (length (ckc_text c)) \<le> cg_max_output_chars contract"
  using assms by (auto simp: content_defect_def bind_res_eq_Inr split: if_splits)

text \<open>A sequence of checks finds nothing exactly when each of them finds nothing.\<close>

lemma checks_None:
  "bind_res m (\<lambda>defect. case defect of Some d \<Rightarrow> Inr (Some d) | None \<Rightarrow> k) = Inr None \<longleftrightarrow> m = Inr None \<and> k = Inr None"
  by (cases m) (auto split: option.splits)

lemma chunk_defect_None:
  assumes "chunk_defect port contract t k out previous c = Inr None"
  shows "segment_defect t k (map_option (\<lambda>p. last (ckc_source_segments p)) previous) c = None"
    "content_defect port contract t out c = Inr None"
  using assms unfolding chunk_defect_def
  by (cases "segment_defect t k (map_option (\<lambda>p. last (ckc_source_segments p)) previous) c"; simp add: checks_None)+

definition prev_at :: "'c option \<Rightarrow> 'c list \<Rightarrow> nat \<Rightarrow> 'c option" where
  "prev_at previous cs i = (if i = 0 then previous else Some (cs ! (i - 1)))"

lemma chunks_defect_nth:
  "chunks_defect port contract t k out previous cs = Inr None \<Longrightarrow> i < length cs \<Longrightarrow>
     chunk_defect port contract t (k + int i) (out + (\<Sum>c\<leftarrow>take i cs. int (length (ckc_text c)))) (prev_at previous cs i)
       (cs ! i) = Inr None"
proof (induction cs arbitrary: k out previous i)
  case (Cons c cs)
  from Cons.prems(1) have head: "chunk_defect port contract t k out previous c = Inr None"
    and tl: "chunks_defect port contract t (k + 1) (out + int (length (ckc_text c))) (Some c) cs = Inr None"
    by (simp_all add: checks_None)
  show ?case
  proof (cases i)
    case 0
    with head show ?thesis by (simp add: prev_at_def)
  next
    case (Suc j)
    have "prev_at (Some c) cs j = prev_at previous (c # cs) i" using Suc by (cases j) (auto simp: prev_at_def)
    with Cons.IH [OF tl, of j] Cons.prems(2) Suc show ?thesis by (simp add: add.assoc)
  qed
qed simp

lemma sum_list_take_last:
  fixes f :: "'c \<Rightarrow> int"
  shows "xs \<noteq> [] \<Longrightarrow> (\<Sum>x\<leftarrow>take (length xs - 1) xs. f x) + f (xs ! (length xs - 1)) = (\<Sum>x\<leftarrow>xs. f x)"
  by (cases xs rule: rev_cases) auto

lemma chunks_defect_total:
  assumes "chunks_defect port contract t k out previous cs = Inr None" "cs \<noteq> []"
  shows "out + (\<Sum>c\<leftarrow>cs. int (length (ckc_text c))) \<le> cg_max_output_chars contract"
proof -
  have i: "length cs - 1 < length cs" using assms(2) by simp
  show ?thesis
    using content_defect_None(6) [OF chunk_defect_None(2) [OF chunks_defect_nth [OF assms(1) i]]]
      sum_list_take_last [OF assms(2), of "\<lambda>c. int (length (ckc_text c))"] by simp
qed

text \<open>Bodies that start at 0, leave no gap and keep growing cover everything up to the last end.\<close>

lemma bodies_cover:
  fixes b :: "nat \<Rightarrow> SourceSegment"
  assumes "\<And>i. i < n \<Longrightarrow> body_progress (if i = 0 then None else Some (b (i - 1))) (b i)"
    and "p < sg_end (b k)" "k < n"
  shows "\<exists>i < n. sg_start (b i) \<le> p \<and> p < sg_end (b i)"
  using assms(2,3)
proof (induction k)
  case 0
  with assms(1) [of 0] show ?case by (auto simp: body_progress_def)
next
  case (Suc k)
  show ?case
  proof (cases "p < sg_end (b k)")
    case True
    with Suc show ?thesis by simp
  next
    case False
    with assms(1) [of "Suc k"] Suc.prems show ?thesis by (auto simp: body_progress_def)
  qed
qed

lemma segments_end_le_last:
  assumes "\<forall>s \<in> set segs. sg_start s < sg_end s" "s \<in> set segs"
    and "\<not> list_ex (\<lambda>(l, r). sg_end l > sg_start r) (zip segs (tl segs))"
  shows "sg_end s \<le> sg_end (last segs)"
  using assms
proof (induction segs arbitrary: s)
  case (Cons a segs)
  show ?case
  proof (cases segs)
    case Nil
    with Cons.prems show ?thesis by simp
  next
    case (Cons b r)
    have ih: "sg_end x \<le> sg_end (last segs)" if "x \<in> set segs" for x
      using Cons.IH Cons.prems that Cons by simp
    have "sg_end a \<le> sg_start b" "sg_start b < sg_end b" using Cons.prems Cons by auto
    then have "sg_end a \<le> sg_end (last segs)" using ih [of b] Cons by simp
    with ih Cons.prems(2) Cons show ?thesis by auto
  qed
qed simp

lemma cover_sound: "cover c segs = Some n \<Longrightarrow> c \<le> p \<Longrightarrow> p < n \<Longrightarrow> \<exists>s \<in> set segs. p < sg_end s"
proof (induction segs arbitrary: c)
  case (Cons s segs)
  show ?case
  proof (cases "p < sg_end s")
    case False
    with Cons.prems Cons.IH [of "max c (sg_end s)"] show ?thesis by (auto split: if_splits)
  qed simp
qed simp

lemma evaluate_ready:
  assumes "evaluate_chunk_set port document version ingestion parsed source contract candidate = Inr d" "chunk_ready d"
  shows "eligible (evaluate_chunking_eligibility document version ingestion)"
    "parse_bound version ingestion parsed source (vl_parsed_artifact_id version) (csc_operation candidate)"
    "cat_operation_id (csc_attempt candidate) = cop_operation_id (csc_operation candidate)"
    "cop_contract_fingerprint (csc_operation candidate) = contract_fingerprint contract"
    "manifest_ok parsed contract candidate = Inr True"
    "csc_chunks candidate \<noteq> []" "int (length (csc_chunks candidate)) \<le> cg_max_chunk_count contract"
    "chunks_defect port contract (px_canonical_text parsed) 0 0 None (csc_chunks candidate) = Inr None"
    "cover 0 (sorted_segments (concat (map ckc_source_segments (csc_chunks candidate)))) = Some (length (px_canonical_text parsed))"
    "cvd_candidate d = Some candidate"
proof -
  have blocked_ne: "chunk_blocked o' r \<noteq> Inr d" for o' r
    using assms(2) by (auto simp: chunk_blocked_def ChunkValidationDecision_post_init_def chunk_ready_def split: if_splits)
  define el where "el = evaluate_chunking_eligibility document version ingestion"
  have if_blocked: "(if b then chunk_blocked o' r else m) = Inr d \<longleftrightarrow> \<not> b \<and> m = Inr d" for b o' r m
    using blocked_ne by simp
  obtain b where b: "manifest_ok parsed contract candidate = Inr b"
    using assms(1) unfolding evaluate_chunk_set_def Let_def el_def [symmetric] if_blocked not_not bind_res_eq_Inr by blast
  have f: "eligible el" "parse_bound version ingestion parsed source (eg_parsed_artifact_id el) (csc_operation candidate)"
    "\<not> (cat_operation_id (csc_attempt candidate) \<noteq> cop_operation_id (csc_operation candidate) \<or> \<not> truthy (csc_experiment_id candidate))"
    "\<not> (cg_tokenizer contract \<noteq> tp_contract port \<or> cop_contract_fingerprint (csc_operation candidate) \<noteq> contract_fingerprint contract)"
    "b" "\<not> (csc_chunks candidate = [] \<or> int (length (csc_chunks candidate)) > cg_max_chunk_count contract)"
    and r: "bind_res (chunks_defect port contract (px_canonical_text parsed) 0 0 None (csc_chunks candidate)) (\<lambda>defect.
        case defect of
          Some (outcome, reason) \<Rightarrow> chunk_blocked outcome reason
        | None \<Rightarrow>
            if ckc_overlap_right_tokens (last (csc_chunks candidate)) \<noteq> 0
            then chunk_blocked ChunkValidationOutcome.OVERLAP_INVALID ''LAST_CHUNK_CANNOT_HAVE_RIGHT_OVERLAP''
            else if cover 0 (sorted_segments (concat (map ckc_source_segments (csc_chunks candidate)))) \<noteq> Some (length (px_canonical_text parsed))
            then chunk_blocked ChunkValidationOutcome.COVERAGE_GAP ''CANONICAL_SOURCE_COVERAGE_GAP''
            else ChunkValidationDecision_post_init
              \<lparr>cvd_outcome = ChunkValidationOutcome.READY_FOR_COMMIT,
               cvd_safe_reason = ''CANDIDATE_SOURCE_AND_BUDGET_VALIDATED'', cvd_candidate = Some candidate,
               cvd_committer_calls = 0, cvd_durable_transitions = 0\<rparr>) = Inr d"
    using assms(1) unfolding evaluate_chunk_set_def Let_def el_def [symmetric] if_blocked not_not b bind_res_simps by blast+
  show "eligible (evaluate_chunking_eligibility document version ingestion)" using f(1) unfolding el_def .
  from eligible_artifact [OF this] f(2)
  show "parse_bound version ingestion parsed source (vl_parsed_artifact_id version) (csc_operation candidate)"
    unfolding el_def by simp
  show "cat_operation_id (csc_attempt candidate) = cop_operation_id (csc_operation candidate)"
    "cop_contract_fingerprint (csc_operation candidate) = contract_fingerprint contract"
    "manifest_ok parsed contract candidate = Inr True" "csc_chunks candidate \<noteq> []"
    "int (length (csc_chunks candidate)) \<le> cg_max_chunk_count contract" using f(3-6) b by auto
  show cd: "chunks_defect port contract (px_canonical_text parsed) 0 0 None (csc_chunks candidate) = Inr None"
  proof -
    from r obtain x where x: "chunks_defect port contract (px_canonical_text parsed) 0 0 None (csc_chunks candidate) = Inr x"
      unfolding bind_res_eq_Inr by blast
    show ?thesis
    proof (cases x)
      case (Some y)
      with r x blocked_ne show ?thesis by (cases y) simp
    qed (simp add: x)
  qed
  show "cover 0 (sorted_segments (concat (map ckc_source_segments (csc_chunks candidate)))) = Some (length (px_canonical_text parsed))"
    "cvd_candidate d = Some candidate"
    using r unfolding cd bind_res_simps option.case if_blocked
    by (auto simp: ChunkValidationDecision_post_init_def chunk_ready_def)
qed

text \<open>
  An accepted chunk set is sound, whoever produced it: it is bound to an eligible version and to
  its parsed artifact; its chunks are numbered in order; the text of every chunk is exactly the
  normalization of the source intervals it names, under its own hash and token count, within the
  token budget; the chunks stay within the count and output budgets; and every position of the
  canonical text lies in the body of some chunk.
\<close>

lemma accepted_chunk_set_sound:
  assumes ev: "evaluate_chunk_set port document version ingestion parsed source contract candidate = Inr d" "chunk_ready d"
    and segs: "\<forall>c \<in> set (csc_chunks candidate). \<forall>s \<in> set (ckc_source_segments c). SourceSegment_post_init s = Inr s"
  shows "cvd_candidate d = Some candidate \<and>
    eligible (evaluate_chunking_eligibility document version ingestion) \<and>
    parse_bound version ingestion parsed source (vl_parsed_artifact_id version) (csc_operation candidate) \<and>
    (\<forall>i < length (csc_chunks candidate). let c = csc_chunks candidate ! i in
       ckc_ordinal c = int i \<and> reconstruct contract (px_canonical_text parsed) c = Inr (ckc_text c) \<and>
       sha256_text (ckc_text c) = Inr (ckc_content_hash c) \<and> tp_count port (ckc_text c) = Inr (ckc_token_count c) \<and>
       ckc_token_count c \<le> cg_hard_max_tokens contract) \<and>
    int (length (csc_chunks candidate)) \<le> cg_max_chunk_count contract \<and>
    (\<Sum>c\<leftarrow>csc_chunks candidate. int (length (ckc_text c))) \<le> cg_max_output_chars contract \<and>
    (\<forall>p < length (px_canonical_text parsed). \<exists>c \<in> set (csc_chunks candidate).
       sg_start (last (ckc_source_segments c)) \<le> p \<and> p < sg_end (last (ckc_source_segments c)))"
proof -
  note r = evaluate_ready [OF ev]
  let ?cs = "csc_chunks candidate" and ?t = "px_canonical_text parsed"
  have at: "chunk_defect port contract ?t (int i) (\<Sum>c\<leftarrow>take i ?cs. int (length (ckc_text c))) (prev_at None ?cs i) (?cs ! i) = Inr None"
    if "i < length ?cs" for i using chunks_defect_nth [OF r(8) that] by simp
  note seg = segment_defect_None [OF chunk_defect_None(1) [OF at]]
  note con = content_defect_None [OF chunk_defect_None(2) [OF at]]
  have proper: "\<forall>s \<in> set (ckc_source_segments c). sg_start s < sg_end s" if "c \<in> set ?cs" for c
    using segs that unfolding SourceSegment_post_init_def if_Inl_eq_Inr by force
  have covered: "\<exists>c \<in> set ?cs. sg_start (last (ckc_source_segments c)) \<le> p \<and> p < sg_end (last (ckc_source_segments c))"
    if p: "p < length ?t" for p
  proof -
    from cover_sound [OF r(9) _ p] obtain s c where sc: "c \<in> set ?cs" "s \<in> set (ckc_source_segments c)" "p < sg_end s"
      by (auto simp: set_sorted_segments)
    then obtain k where k: "k < length ?cs" "c = ?cs ! k" by (metis in_set_conv_nth)
    have "sg_end s \<le> sg_end (last (ckc_source_segments (?cs ! k)))"
      using segments_end_le_last [OF proper [OF sc(1)] sc(2)] seg(3) [OF k(1)] k(2) by simp
    then have lt: "p < sg_end (last (ckc_source_segments (?cs ! k)))" using sc(3) by simp
    have prog: "body_progress (if i = 0 then None else Some (last (ckc_source_segments (?cs ! (i - 1)))))
        (last (ckc_source_segments (?cs ! i)))" if "i < length ?cs" for i
      using seg(5) [OF that] by (simp add: prev_at_def split: if_splits)
    from bodies_cover [where b = "\<lambda>i. last (ckc_source_segments (?cs ! i))", OF prog lt k(1)]
    obtain i where "i < length ?cs" "sg_start (last (ckc_source_segments (?cs ! i))) \<le> p"
      "p < sg_end (last (ckc_source_segments (?cs ! i)))" by auto
    then show ?thesis by (intro bexI [of _ "?cs ! i"]) auto
  qed
  show ?thesis
    using r seg(1) con(1,2,4,5) chunks_defect_total [OF r(8,6)] covered by (auto simp: Let_def)
qed

section \<open>When the validator raises\<close>

context tokenizer_port
begin

lemma count_total: "\<exists>n. tp_count port t = Inr n"
  using spans_total [of t] count_spans by blast

lemma map_res_total: "(\<And>x. x \<in> set xs \<Longrightarrow> \<exists>y. g x = Inr y) \<Longrightarrow> \<exists>ys. map_res g xs = Inr ys"
proof (induction xs)
  case (Cons x xs)
  from Cons.prems [of x] obtain y where "g x = Inr y" by auto
  moreover from Cons obtain ys where "map_res g xs = Inr ys" by auto
  ultimately show ?case by simp
qed simp

lemma chunk_defect_total:
  assumes v: "cg_normalization_version contract \<in> set supported_normalizations" and enc: "encodable (ckc_text c)"
  shows "\<exists>x. chunk_defect port contract t k out previous c = Inr x"
proof -
  have nrm: "\<exists>n. normalize u (cg_normalization_version contract) = Inr n" for u
    using v by (auto simp: normalize_def supported_normalizations_def Let_def)
  have "\<exists>parts. context_parts t (cg_normalization_version contract) (ckc_source_segments c) = Inr parts"
    unfolding context_parts_def by (rule map_res_total) (use nrm in \<open>force simp: bind_res_eq_Inr\<close>)
  then obtain parts where "context_parts t (cg_normalization_version contract) (ckc_source_segments c) = Inr parts" ..
  moreover obtain n where "tp_count port (ckc_text c) = Inr n" using count_total by blast
  moreover obtain m where "tp_count port t = Inr m" using count_total by blast
  ultimately have con: "\<exists>x. content_defect port contract t out c = Inr x"
    using enc by (auto simp: content_defect_def reconstruct_def sha256_text_eq)
  have "\<exists>n. source_overlap port contract t p c = Inr n" for p
  proof -
    have "\<exists>ns. map_res (\<lambda>(a, b). bind_res (normalize (slice a b t) (cg_normalization_version contract)) (\<lambda>n.
        tp_count port (nt_text n))) (common_bodies p c) = Inr ns"
    proof (rule map_res_total)
      fix x
      show "\<exists>y. (case x of (a, b) \<Rightarrow> bind_res (normalize (slice a b t) (cg_normalization_version contract)) (\<lambda>n.
        tp_count port (nt_text n))) = Inr y"
        using nrm [of "slice (fst x) (snd x) t"] count_total by (auto simp: split_beta bind_res_eq_Inr)
    qed
    then show ?thesis by (auto simp: source_overlap_def)
  qed
  then have "\<exists>x. overlap_defect port contract t previous c = Inr x"
    by (cases previous) (auto simp: overlap_defect_def bind_res_def split: sum.splits, metis sum.distinct(1))
  with con show ?thesis
    by (auto simp: chunk_defect_def split: option.splits)
qed

lemma chunks_defect_ok:
  assumes "cg_normalization_version contract \<in> set supported_normalizations" and "list_all chunk_encodable cs"
  shows "\<exists>x. chunks_defect port contract t k out previous cs = Inr x"
  using assms(2)
proof (induction cs arbitrary: k out previous)
  case (Cons c cs)
  have "encodable (ckc_text c)" using Cons.prems by (simp add: chunk_encodable_def)
  from chunk_defect_total [OF assms(1) this] obtain x where
    x: "chunk_defect port contract t k out previous c = Inr x" by blast
  show ?case using Cons by (cases x) (simp_all add: x)
qed simp

end

lemma chunk_defect_outcome:
  assumes "chunk_defect port contract t k out previous c = Inr (Some (outcome, reason))"
  shows "outcome \<noteq> ChunkValidationOutcome.READY_FOR_COMMIT"
proof -
  have seg: "segment_defect t k pb c = Some (outcome, reason) \<Longrightarrow> outcome = ChunkValidationOutcome.SOURCE_SPAN_INVALID" for pb
    by (auto simp: segment_defect_def Let_def split: if_splits)
  have con: "content_defect port contract t out c = Inr (Some (outcome, reason)) \<Longrightarrow>
      outcome \<in> {ChunkValidationOutcome.CONTENT_MISMATCH, ChunkValidationOutcome.TOKEN_BUDGET_INVALID}"
    by (auto simp: content_defect_def bind_res_eq_Inr split: if_splits)
  have ov: "overlap_defect port contract t previous c = Inr (Some (outcome, reason)) \<Longrightarrow>
      outcome = ChunkValidationOutcome.OVERLAP_INVALID"
    by (auto simp: overlap_defect_def bind_res_eq_Inr split: if_splits option.splits)
  show ?thesis
  proof (cases "segment_defect t k (map_option (\<lambda>p. last (ckc_source_segments p)) previous) c")
    case (Some d)
    with assms seg show ?thesis by (auto simp: chunk_defect_def)
  next
    case None
    with assms obtain x where x: "content_defect port contract t out c = Inr x"
      "(case x of Some d \<Rightarrow> Inr (Some d) | None \<Rightarrow> overlap_defect port contract t previous c) = Inr (Some (outcome, reason))"
      by (auto simp: chunk_defect_def bind_res_eq_Inr)
    then show ?thesis using con ov by (cases x) auto
  qed
qed

lemma chunks_defect_outcome:
  "chunks_defect port contract t k out previous cs = Inr (Some (outcome, reason)) \<Longrightarrow>
     outcome \<noteq> ChunkValidationOutcome.READY_FOR_COMMIT"
proof (induction cs arbitrary: k out previous)
  case (Cons c cs)
  from Cons.prems obtain x where x: "chunk_defect port contract t k out previous c = Inr x"
    by (auto simp: bind_res_eq_Inr)
  show ?case
  proof (cases x)
    case None
    with Cons x show ?thesis by simp
  next
    case (Some d)
    with Cons.prems x chunk_defect_outcome [of port contract t k out previous c] show ?thesis by simp
  qed
qed simp

text \<open>The guards before the manifest check, and the texts it cannot encode.\<close>

definition reaches_manifest ::
    "DocumentHeadSnapshot \<Rightarrow> DocumentVersionLifecycleRecord \<Rightarrow> IngestionOperationRecord \<Rightarrow> ParsedArtifactDefinition
      \<Rightarrow> SourceArtifactReference \<Rightarrow> ChunkingContract \<Rightarrow> ChunkSetCandidate \<Rightarrow> bool" where
  "reaches_manifest document version ingestion parsed source contract candidate \<longleftrightarrow>
     eligible (evaluate_chunking_eligibility document version ingestion) \<and>
     parse_bound version ingestion parsed source
       (eg_parsed_artifact_id (evaluate_chunking_eligibility document version ingestion)) (csc_operation candidate) \<and>
     cat_operation_id (csc_attempt candidate) = cop_operation_id (csc_operation candidate) \<and>
     truthy (csc_experiment_id candidate) \<and> cg_tokenizer contract = tp_contract ClassroomTokenizer \<and>
     cop_contract_fingerprint (csc_operation candidate) = contract_fingerprint contract"

definition manifest_unencodable :: "ParsedArtifactDefinition \<Rightarrow> ChunkingContract \<Rightarrow> ChunkSetCandidate \<Rightarrow> bool" where
  "manifest_unencodable parsed contract candidate \<longleftrightarrow>
     \<not> encodable (px_canonical_text parsed) \<or>
     px_output_checksum_sha256 parsed = text_checksum (px_canonical_text parsed) \<and>
     manifest_fields_ok parsed contract candidate \<and> \<not> list_all chunk_encodable (csc_chunks candidate)"

lemma manifest_ok_raises:
  "manifest_ok parsed contract candidate = Inl e \<longleftrightarrow> e = UnicodeEncodeError \<and> manifest_unencodable parsed contract candidate"
  by (auto simp: manifest_ok_def manifest_unencodable_def sha256_text_eq candidate_chunks_checksum_eq)

lemma validation_decided:
  assumes "ChunkingContract_post_init contract = Inr contract"
    and m: "reaches_manifest document version ingestion parsed source contract candidate \<Longrightarrow>
      \<exists>b. manifest_ok parsed contract candidate = Inr b"
  shows "\<exists>d. evaluate_chunk_set ClassroomTokenizer document version ingestion parsed source contract candidate = Inr d \<and>
    cvd_candidate d = (if chunk_ready d then Some candidate else None) \<and>
    cvd_committer_calls d = 0 \<and> cvd_durable_transitions d = 0"
proof -
  define P where "P r \<longleftrightarrow> (\<exists>d. r = Inr d \<and> cvd_candidate d = (if chunk_ready d then Some candidate else None) \<and>
    cvd_committer_calls d = 0 \<and> cvd_durable_transitions d = 0)" for r :: "ChunkValidationDecision res"
  have blocked: "P (chunk_blocked o' r)" if "o' \<noteq> ChunkValidationOutcome.READY_FOR_COMMIT" for o' r
    using that by (auto simp: P_def chunk_blocked_def ChunkValidationDecision_post_init_def chunk_ready_def)
  have ready: "P (ChunkValidationDecision_post_init
      \<lparr>cvd_outcome = ChunkValidationOutcome.READY_FOR_COMMIT, cvd_safe_reason = r, cvd_candidate = Some candidate,
       cvd_committer_calls = 0, cvd_durable_transitions = 0\<rparr>)" for r
    by (simp add: P_def ChunkValidationDecision_post_init_def chunk_ready_def)
  have inner: "P (bind_res (chunks_defect ClassroomTokenizer contract (px_canonical_text parsed) 0 0 None (csc_chunks candidate))
      (\<lambda>x. case x of Some (o', r) \<Rightarrow> chunk_blocked o' r | None \<Rightarrow> rest))"
    if "P rest" and m: "manifest_ok parsed contract candidate = Inr True" for rest
  proof -
    have "list_all chunk_encodable (csc_chunks candidate)"
      using m [unfolded manifest_ok_True candidate_chunks_checksum_eq] by (simp split: if_splits)
    then obtain x where x: "chunks_defect ClassroomTokenizer contract (px_canonical_text parsed) 0 0 None (csc_chunks candidate) = Inr x"
      using classroom.chunks_defect_ok [OF contract_valid(4) [OF assms(1)]] by blast
    show ?thesis
    proof (cases x)
      case (Some y)
      obtain o' r where y: "y = (o', r)" by (cases y)
      from x have "o' \<noteq> ChunkValidationOutcome.READY_FOR_COMMIT" unfolding Some y by (rule chunks_defect_outcome)
      with Some y x show ?thesis by (simp add: blocked)
    qed (simp add: x that(1))
  qed
  have after: "P (bind_res (manifest_ok parsed contract candidate) f)"
    if reach: "reaches_manifest document version ingestion parsed source contract candidate"
      and ok: "\<And>b. manifest_ok parsed contract candidate = Inr b \<Longrightarrow> P (f b)" for f
    using m [OF reach] ok by auto
  have "P (evaluate_chunk_set ClassroomTokenizer document version ingestion parsed source contract candidate)"
    unfolding evaluate_chunk_set_def Let_def
    by (intro if_prop [where P = P] blocked after inner ready) (auto simp: reaches_manifest_def)
  then show ?thesis by (simp add: P_def)
qed

lemma validation_raises:
  assumes "reaches_manifest document version ingestion parsed source contract candidate"
    and "manifest_ok parsed contract candidate = Inl e"
  shows "evaluate_chunk_set ClassroomTokenizer document version ingestion parsed source contract candidate = Inl e"
  using assms by (simp add: evaluate_chunk_set_def Let_def reaches_manifest_def)

text \<open>
  C37. For the classroom tokenizer and a contract its constructor admits, the validator raises in one
  case only, whatever the candidate: the identities before the manifest check hold and a text the
  check hashes holds a lone surrogate, the canonical text, or, when everything but the last checksum
  agrees, the text or joiner of a chunk. Otherwise it returns a decision that carries the candidate
  exactly when it is ready and that claims no durable effect.
\<close>

theorem chunk_validation_total:
  assumes "ChunkingContract_post_init contract = Inr contract"
  shows "(\<forall>e. evaluate_chunk_set ClassroomTokenizer document version ingestion parsed source contract candidate = Inl e \<longleftrightarrow>
      e = UnicodeEncodeError \<and> reaches_manifest document version ingestion parsed source contract candidate \<and>
      manifest_unencodable parsed contract candidate) \<and>
    (\<forall>d. evaluate_chunk_set ClassroomTokenizer document version ingestion parsed source contract candidate = Inr d \<longrightarrow>
      cvd_candidate d = (if chunk_ready d then Some candidate else None) \<and>
      cvd_committer_calls d = 0 \<and> cvd_durable_transitions d = 0)"
proof (cases "reaches_manifest document version ingestion parsed source contract candidate \<and>
    manifest_unencodable parsed contract candidate")
  case True
  then have "manifest_ok parsed contract candidate = Inl UnicodeEncodeError" by (simp add: manifest_ok_raises)
  from validation_raises [OF _ this] True show ?thesis by auto
next
  case False
  have "\<exists>b. manifest_ok parsed contract candidate = Inr b"
    if "reaches_manifest document version ingestion parsed source contract candidate"
    using that False manifest_ok_raises by (cases "manifest_ok parsed contract candidate") blast+
  then have "\<exists>d. evaluate_chunk_set ClassroomTokenizer document version ingestion parsed source contract candidate = Inr d \<and>
    cvd_candidate d = (if chunk_ready d then Some candidate else None) \<and>
    cvd_committer_calls d = 0 \<and> cvd_durable_transitions d = 0"
    using validation_decided [OF assms] by blast
  with False show ?thesis by auto
qed

section \<open>Generated sets are accepted\<close>

text \<open>
  C34. A chunk set the generator returns for a parsed artifact bound to an eligible version is judged by
  the validator on one point only: it is accepted unless the normalized text is shorter than the
  contract's minimal chunk while the canonical text is not, and then it is rejected as a token budget
  violation. Under the identity normalization every generated set is accepted.
\<close>

theorem generated_chunks_accepted:
  assumes gen: "generate_chunks ClassroomTokenizer clock parsed contract operation attempt experiment_id = Inr candidate"
    and con: "ChunkingContract_post_init contract = Inr contract"
    and el: "eligible (evaluate_chunking_eligibility document version ingestion)"
    and bound: "parse_bound version ingestion parsed source (vl_parsed_artifact_id version) operation"
    and out: "pm_output_checksum_sha256 (px_manifest parsed) = px_output_checksum_sha256 parsed"
    and nrm: "normalize (px_canonical_text parsed) (cg_normalization_version contract) = Inr normalized"
  shows "\<exists>d n m. evaluate_chunk_set ClassroomTokenizer document version ingestion parsed source contract candidate = Inr d \<and>
    tp_count ClassroomTokenizer (nt_text normalized) = Inr n \<and>
    tp_count ClassroomTokenizer (px_canonical_text parsed) = Inr m \<and>
    (chunk_ready d \<longleftrightarrow> \<not> (n < cg_min_useful_tokens contract \<and> cg_min_useful_tokens contract \<le> m)) \<and>
    (\<not> chunk_ready d \<longrightarrow> cvd_outcome d = ChunkValidationOutcome.TOKEN_BUDGET_INVALID) \<and>
    (cg_normalization_version contract = ''identity-v1'' \<longrightarrow> chunk_ready d)"
proof -
  obtain n m where nm: "tp_count ClassroomTokenizer (nt_text normalized) = Inr n"
    "tp_count ClassroomTokenizer (px_canonical_text parsed) = Inr m"
    using classroom.count_total by blast
  have same: "n = m" if "cg_normalization_version contract = ''identity-v1''"
    using nrm nm that by (auto simp: normalize_def supported_normalizations_def)
  from classroom.generated_verdict [OF gen con el bound out nrm nm] obtain d where
    d: "evaluate_chunk_set ClassroomTokenizer document version ingestion parsed source contract candidate = Inr d"
    "chunk_ready d \<longleftrightarrow> \<not> (n < cg_min_useful_tokens contract \<and> cg_min_useful_tokens contract \<le> m)"
    "\<not> chunk_ready d \<longrightarrow> cvd_outcome d = ChunkValidationOutcome.TOKEN_BUDGET_INVALID" by blast
  show ?thesis
    by (intro exI [of _ d] exI [of _ n] exI [of _ m] conjI) (use d nm same in auto)
qed

text \<open>
  C35. The source map of the normalization is reversible: its intervals tile the canonical text, one
  for each code point of the normalized text, and reading any interval of the normalized text back
  from the source and normalizing it again gives exactly that part of the normalized text.
\<close>

theorem normalization_roundtrip:
  assumes "normalize t v = Inr n"
  shows "tiles 0 (nt_source_offsets n) (length t) \<and> length (nt_source_offsets n) = length (nt_text n) \<and>
    (\<forall>i j. i < j \<longrightarrow> j \<le> length (nt_text n) \<longrightarrow>
      (\<exists>a b m. source_interval n i j = Inr (a, b) \<and> normalize (slice a b t) v = Inr m \<and>
         nt_text m = slice i j (nt_text n)))"
proof -
  have "\<exists>a b m. source_interval n i j = Inr (a, b) \<and> normalize (slice a b t) v = Inr m \<and> nt_text m = slice i j (nt_text n)"
    if "i < j" "j \<le> length (nt_text n)" for i j
    using normalize_between [OF assms that] that normalize_tiles(2) [OF assms]
    by (auto simp: source_interval_def)
  with normalize_tiles [OF assms] show ?thesis by blast
qed


section \<open>Generation ends and succeeds\<close>

text \<open>Each window of a chain starts after the one before it, so there are at most as many windows as tokens.\<close>

lemma chain_length:
  assumes "window_chain W n ov k s cs" "\<And>k s e c. W k s e c \<Longrightarrow> s < e \<and> e \<le> n"
  shows "length cs \<le> n - s"
  using assms(1)
proof (induction cs arbitrary: k s)
  case (Cons c cs)
  from Cons.prems obtain e where e: "W k s e c"
    "if cs = [] then e = n else e < n \<and> s + ov < e \<and> window_chain W n ov (Suc k) (e - ov) cs" by auto
  show ?case
  proof (cases "cs = []")
    case True
    then show ?thesis using e assms(2) by fastforce
  next
    case False
    with e Cons.IH have "length cs \<le> n - (e - ov)" "s < e - ov" "e \<le> n" by fastforce+
    then show ?thesis by simp
  qed
qed simp

text \<open>
  C36. Generation ends within its budgets: whatever the tokenizer and the clock return, a generated
  set has at most one chunk per token and at most the contract's number of chunks, every chunk is
  within the token budget, and the chunks together within the output budget.
\<close>

theorem generation_bounded:
  assumes "generate_chunks port clock parsed contract operation attempt experiment_id = Inr candidate"
    and con: "ChunkingContract_post_init contract = Inr contract"
  shows "\<exists>n spans. normalize (px_canonical_text parsed) (cg_normalization_version contract) = Inr n \<and>
    tp_spans port (nt_text n) = Inr spans \<and>
    0 < length (csc_chunks candidate) \<and> length (csc_chunks candidate) \<le> length spans \<and>
    int (length (csc_chunks candidate)) \<le> cg_max_chunk_count contract \<and>
    (\<forall>c \<in> set (csc_chunks candidate). ckc_token_count c \<le> cg_hard_max_tokens contract) \<and>
    (\<Sum>c\<leftarrow>csc_chunks candidate. int (length (ckc_text c))) \<le> cg_max_output_chars contract"
  using assms(1)
proof (rule generate_chunks_ok)
  fix normalized spans memory chunks
  assume n: "normalize (px_canonical_text parsed) (cg_normalization_version contract) = Inr normalized"
    and toks: "tp_spans port (nt_text normalized) = Inr spans" "spans \<noteq> []"
    and loop: "chunk_loop port clock contract (px_canonical_text parsed) normalized spans memory
       \<lparr>gl_start = 0, gl_chunks = [], gl_output_chars = 0, gl_work_units = int (length spans)\<rparr> = Inr chunks"
    and cand: "candidate = \<lparr>csc_operation = operation, csc_attempt = attempt, csc_experiment_id = experiment_id, csc_chunks = chunks,
       csc_manifest = \<lparr>cmf_chunk_count = int (length chunks), cmf_source_checksum = px_output_checksum_sha256 parsed,
         cmf_contract_fingerprint = contract_fingerprint contract, cmf_chunks_checksum = chunks_checksum chunks\<rparr>\<rparr>"
  have ch: "window_chain (chunk_window port contract (px_canonical_text parsed) normalized spans) (length spans)
      (nat (cg_overlap_tokens contract)) 0 0 chunks"
    and b: "(\<Sum>c\<leftarrow>chunks. int (length (ckc_text c))) \<le> cg_max_output_chars contract"
      "int (length chunks) \<le> cg_max_chunk_count contract"
    using chunk_loop_chain [OF loop, of 0] toks(2) contract_valid(1,2) [OF con] by auto
  have "length chunks \<le> length spans - 0" by (rule chain_length [OF ch]) (simp add: chunk_window_def)
  moreover have "ckc_token_count c \<le> cg_hard_max_tokens contract" if "c \<in> set chunks" for c
    using window_chain_member [OF ch that] by (auto simp: chunk_window_def)
  moreover have "chunks \<noteq> []" using ch by auto
  ultimately show ?thesis using n toks(1) b by (simp add: cand)
qed


text \<open>
  The resources of a contract suffice for \<open>n\<close> tokens in \<open>L\<close> normalized code points: every reading of
  the clock within the deadline, and room for \<open>n\<close> chunks of the whole text.
\<close>

definition budgets_allow :: "(nat \<Rightarrow> rat) \<Rightarrow> ChunkingContract \<Rightarrow> nat \<Rightarrow> nat \<Rightarrow> int \<Rightarrow> bool" where
  "budgets_allow clock contract n L memory \<longleftrightarrow>
     (\<forall>k \<le> n. clock k - clock 0 \<le> pf_value (cg_deadline_seconds contract)) \<and>
     int n \<le> cg_max_chunk_count contract \<and>
     int n + int n * cg_hard_max_tokens contract \<le> cg_max_token_work_units contract \<and>
     int n * int L \<le> cg_max_output_chars contract \<and>
     memory + 4 * (int n * int L) \<le> cg_max_estimated_memory_bytes contract"

lemma contract_sizes:
  assumes "ChunkingContract_post_init contract = Inr contract'"
  shows "cg_soft_target_tokens contract \<le> cg_hard_max_tokens contract" "cg_min_useful_tokens contract \<le> cg_hard_max_tokens contract"
    "0 < cg_hard_max_tokens contract"
  using assms unfolding ChunkingContract_post_init_def if_Inl_eq_Inr by auto

lemma tiles_le: "tiles a xs b \<Longrightarrow> a \<le> b"
  by (induction a xs b rule: tiles.induct) auto

text \<open>The state of the loop after \<open>k\<close> chunks that start at token \<open>s\<close>.\<close>

definition loop_within :: "ChunkingContract \<Rightarrow> nat \<Rightarrow> nat \<Rightarrow> nat \<Rightarrow> ChunkLoop \<Rightarrow> bool" where
  "loop_within contract n L s st \<longleftrightarrow>
     gl_start st = int s \<and> s < n \<and> length (gl_chunks st) \<le> s \<and>
     gl_output_chars st \<le> int (length (gl_chunks st)) * int L \<and>
     gl_work_units st \<le> int n + int (length (gl_chunks st)) * cg_hard_max_tokens contract \<and>
     (s = 0 \<or> cg_overlap_tokens contract < int (n - s))"

context chunking
begin

lemma count_empty: "tp_count port [] = Inr 0"
proof -
  obtain ss where ss: "tp_spans port [] = Inr ss" using spans_total by blast
  have "ss = []" using spans_tile [OF ss] by (cases ss) (auto simp: span_iv_def dest: tiles_le)
  with count_spans [OF ss] show ?thesis by simp
qed

lemma window_slice_length:
  "length (slice a b (nt_text normalized)) \<le> length (nt_text normalized)"
  by (simp add: slice_def)

lemma fixed_body:
  assumes enc: "encodable (nt_text normalized)" and win: "s < e" "e \<le> length spans" "gl_start st = int s" "int (e - s) \<le> cg_hard_max_tokens contract"
    and useful: "cg_min_useful_tokens contract \<le> int (e - s) \<or> int (length spans) < cg_min_useful_tokens contract"
    and adv: "e = length spans \<or> int s < int e - cg_overlap_tokens contract"
    and out: "gl_output_chars st + int (length (nt_text normalized)) \<le> cg_max_output_chars contract"
      "memory + 4 * (gl_output_chars st + int (length (nt_text normalized))) \<le> cg_max_estimated_memory_bytes contract"
  shows "\<exists>chunk out'. chunk_body port contract normalized spans memory st [] [] w (int e) reason =
      Inr (chunk, int e, max 0 (int e - cg_overlap_tokens contract), out', w) \<and>
    out' \<le> gl_output_chars st + int (length (nt_text normalized))"
proof -
  note sb = span_bounds [OF win(1,2)]
  have idx: "nat (gl_start st) = s" "nat (int e - 1) = e - 1" using win by auto
  obtain a b where iv: "source_interval normalized (ts_start (spans ! s)) (ts_end (spans ! (e - 1))) = Inr (a, b)" "a < b"
    using sb(3,4) tiling(2) body_bounds [OF win(1,2)] pos_less [OF win(1,2)] by (simp add: source_interval_def)
  define content where "content = slice (ts_start (spans ! s)) (ts_end (spans ! (e - 1))) (nt_text normalized)"
  have cnt: "tp_count port content = Inr (int (e - s))" unfolding content_def by (rule count_between [OF toks win(1,2)])
  have len: "int (length content) \<le> int (length (nt_text normalized))" unfolding content_def using window_slice_length by simp
  have seg: "SourceSegment_post_init \<lparr>sg_start = a, sg_end = b, sg_role = ''body''\<rparr> = Inr \<lparr>sg_start = a, sg_end = b, sg_role = ''body''\<rparr>"
    using iv(2) by (simp add: SourceSegment_post_init_def truthy_def)
  have hash: "sha256_text content = Inr (text_checksum content)"
    unfolding content_def by (simp add: sha256_text_Inr encodable_slice [OF enc])
  have guards: "\<not> (int e \<le> gl_start st \<or> int e - gl_start st > cg_hard_max_tokens contract)"
    "\<not> int (e - s) > cg_hard_max_tokens contract"
    "\<not> gl_output_chars st + int (length content) > cg_max_output_chars contract"
    "\<not> memory + 4 * (gl_output_chars st + int (length content)) > cg_max_estimated_memory_bytes contract"
    "\<not> (int e - gl_start st < cg_min_useful_tokens contract \<and> int (length spans) \<ge> cg_min_useful_tokens contract)"
    "\<not> (int e < int (length spans) \<and> max 0 (int e - cg_overlap_tokens contract) \<le> gl_start st)"
    using win useful adv out len by auto
  show ?thesis
    unfolding chunk_body_def Let_def idx append_Nil content_def [symmetric] iv(1) bind_res_simps prod.case cnt seg hash
    using guards len by (simp del: of_nat_diff)
qed

lemma fixed_step:
  assumes enc: "encodable (nt_text normalized)" and con: "ChunkingContract_post_init contract = Inr contract"
    and fixed: "cg_strategy contract = ChunkStrategy.FIXED_TOKEN"
    and min: "cg_min_useful_tokens contract \<le> cg_overlap_tokens contract + 1"
    and bud: "budgets_allow clock contract (length spans) (length (nt_text normalized)) memory"
    and st: "loop_within contract (length spans) (length (nt_text normalized)) s st"
  shows "\<exists>chunk e out'. chunk_step port clock contract canonical normalized spans memory st =
      Inr (chunk, int e, max 0 (int e - cg_overlap_tokens contract), out',
        gl_work_units st + min (cg_hard_max_tokens contract) (int (length spans) - gl_start st)) \<and>
    out' \<le> gl_output_chars st + int (length (nt_text normalized)) \<and>
    (e = length spans \<or> int e = int s + cg_soft_target_tokens contract \<and> e < length spans)"
proof -
  let ?n = "length spans" and ?L = "length (nt_text normalized)"
  let ?k = "length (gl_chunks st)" and ?hard = "cg_hard_max_tokens contract" and ?ov = "cg_overlap_tokens contract"
  note cv = contract_valid [OF con] and cz = contract_sizes [OF con]
  have s: "gl_start st = int s" "s < ?n" "?k \<le> s" "gl_output_chars st \<le> int ?k * int ?L"
    "gl_work_units st \<le> int ?n + int ?k * ?hard" "s = 0 \<or> ?ov < int (?n - s)"
    using st by (auto simp: loop_within_def)
  have kn: "?k + 1 \<le> ?n" using s(2,3) by simp
  have mult: "(int ?k + 1) * x \<le> int ?n * x" if "0 \<le> x" for x
    using kn that by (intro mult_right_mono) auto
  have out: "gl_output_chars st + int ?L \<le> int ?n * int ?L"
    using s(4) mult [of "int ?L"] by (simp add: algebra_simps)
  have work: "\<not> gl_work_units st + min ?hard (int ?n - gl_start st) > cg_max_token_work_units contract"
    using s(5) mult [of ?hard] cz(3) bud by (auto simp: budgets_allow_def algebra_simps min_def)
  have clk: "\<not> clock (?k + 1) - clock 0 > pf_value (cg_deadline_seconds contract)"
    using bud kn by (auto simp: budgets_allow_def not_less)
  have room: "\<not> int ?k \<ge> cg_max_chunk_count contract" using bud kn by (auto simp: budgets_allow_def)
  define e where "e = (if int ?n - int s \<le> ?hard then ?n else nat (int s + cg_soft_target_tokens contract))"
  have e: "s < e" "e \<le> ?n" "int (e - s) \<le> ?hard" "e = ?n \<or> int e = int s + cg_soft_target_tokens contract \<and> e < ?n"
    using s(2) cv(1,2) cz by (auto simp: e_def)
  have ce: "\<exists>reason. choose_end (nt_text normalized) spans (gl_start st) contract (?hard - 0) = Inr (int e, reason)"
    using fixed s(1) cz cv by (simp add: choose_end_def Let_def e_def min_def)
  have useful: "cg_min_useful_tokens contract \<le> int (e - s) \<or> int ?n < cg_min_useful_tokens contract"
    using e s(6) min cv(2) by auto
  have adv: "e = ?n \<or> int s < int e - ?ov" using e(4) cv(2) by auto
  have outs: "gl_output_chars st + int ?L \<le> cg_max_output_chars contract"
    "memory + 4 * (gl_output_chars st + int ?L) \<le> cg_max_estimated_memory_bytes contract"
    using out bud by (auto simp: budgets_allow_def)
  have ctx: "chunk_context contract canonical normalized spans (gl_start st) = []"
    using fixed by (simp add: chunk_context_def)
  have pre: "context_parts canonical (cg_normalization_version contract) [] = Inr []" "context_prefix [] = []"
    by (simp_all add: context_parts_def context_prefix_def)
  have budget: "\<not> ?hard - 0 < max (cg_min_useful_tokens contract) (?ov + 1)" using cz cv by auto
  from ce obtain reason where r: "choose_end (nt_text normalized) spans (gl_start st) contract (?hard - 0) = Inr (int e, reason)" ..
  from fixed_body [OF enc e(1,2) s(1) e(3) useful adv outs] obtain chunk out' where
    body: "chunk_body port contract normalized spans memory st [] [] (gl_work_units st + min ?hard (int ?n - gl_start st)) (int e) reason =
      Inr (chunk, int e, max 0 (int e - ?ov), out', gl_work_units st + min ?hard (int ?n - gl_start st))"
    "out' \<le> gl_output_chars st + int ?L" by blast
  have "chunk_step port clock contract canonical normalized spans memory st =
      Inr (chunk, int e, max 0 (int e - ?ov), out', gl_work_units st + min ?hard (int ?n - gl_start st))"
    unfolding chunk_step_def Let_def ctx pre bind_res_simps count_empty r prod.case body(1)
    using clk room work budget by simp
  with body(2) e(4) show ?thesis by blast
qed

lemma fixed_loop:
  assumes enc: "encodable (nt_text normalized)" and con: "ChunkingContract_post_init contract = Inr contract"
    and fixed: "cg_strategy contract = ChunkStrategy.FIXED_TOKEN"
    and min: "cg_min_useful_tokens contract \<le> cg_overlap_tokens contract + 1"
    and bud: "budgets_allow clock contract (length spans) (length (nt_text normalized)) memory"
    and st: "loop_within contract (length spans) (length (nt_text normalized)) s st"
  shows "\<exists>chunks. chunk_loop port clock contract canonical normalized spans memory st = Inr chunks"
  using st
proof (induction "length spans - s" arbitrary: s st rule: less_induct)
  case less
  let ?n = "length spans" and ?L = "length (nt_text normalized)" and ?ov = "cg_overlap_tokens contract"
  note cv = contract_valid [OF con] and cz = contract_sizes [OF con]
  have s: "gl_start st = int s" "s < ?n" "length (gl_chunks st) \<le> s"
    "gl_output_chars st \<le> int (length (gl_chunks st)) * int ?L"
    "gl_work_units st \<le> int ?n + int (length (gl_chunks st)) * cg_hard_max_tokens contract"
    using less.prems by (auto simp: loop_within_def)
  obtain chunk e out' where step: "chunk_step port clock contract canonical normalized spans memory st =
      Inr (chunk, int e, max 0 (int e - ?ov), out',
        gl_work_units st + min (cg_hard_max_tokens contract) (int ?n - gl_start st))"
    and out: "out' \<le> gl_output_chars st + int ?L"
    and e: "e = ?n \<or> int e = int s + cg_soft_target_tokens contract \<and> e < ?n"
    using fixed_step [OF enc con fixed min bud less.prems] by blast
  show ?case
  proof (cases "e = ?n")
    case True
    with step s show ?thesis by (subst chunk_loop.simps) simp
  next
    case False
    let ?s' = "nat (int e - ?ov)"
    let ?st = "\<lparr>gl_start = max 0 (int e - ?ov), gl_chunks = gl_chunks st @ [chunk], gl_output_chars = out',
      gl_work_units = gl_work_units st + min (cg_hard_max_tokens contract) (int ?n - gl_start st)\<rparr>"
    have e': "int e = int s + cg_soft_target_tokens contract" "e < ?n" using e False by auto
    have s': "s < ?s'" "?s' < ?n" "?ov < int (?n - ?s')" using e' cv(1,2) by auto
    have "loop_within contract ?n ?L ?s' ?st"
      using s s' out e' cv(1,2) by (auto simp: loop_within_def algebra_simps)
    then have "\<exists>chunks. chunk_loop port clock contract canonical normalized spans memory ?st = Inr chunks"
      by (rule less.hyps [rotated]) (use s' in simp)
    with step s False show ?thesis
      by (subst chunk_loop.simps) simp
  qed
qed

end

lemma window_encodable:
  "chunk_window port contract canonical normalized spans k s e c \<Longrightarrow> chunk_encodable c"
  by (auto simp: chunk_window_def chunk_encodable_def sha256_text_Inr surrogate_def)

text \<open>
  Fixed-token chunking succeeds whenever the contract allows it: with valid bindings, a minimal
  chunk size that a final overlapping window always reaches, and resource budgets that suffice for
  one chunk per token, generation returns a candidate.
\<close>

lemma fixed_token_generation_succeeds:
  assumes con: "ChunkingContract_post_init contract = Inr contract"
    and fixed: "cg_strategy contract = ChunkStrategy.FIXED_TOKEN" "cg_tokenizer contract = tp_contract ClassroomTokenizer"
    and min: "cg_min_useful_tokens contract \<le> cg_overlap_tokens contract + 1"
    and ids: "experiment_id \<noteq> []" "cop_contract_fingerprint operation = contract_fingerprint contract"
      "cop_parsed_artifact_id operation = px_parsed_artifact_id parsed" "cat_operation_id attempt = cop_operation_id operation"
    and t: "px_canonical_text parsed \<noteq> []" "int (length (px_canonical_text parsed)) \<le> cg_max_input_chars contract"
      "sha256_text (px_canonical_text parsed) = Inr (px_output_checksum_sha256 parsed)"
    and nrm: "normalize (px_canonical_text parsed) (cg_normalization_version contract) = Inr n"
    and toks: "tp_spans ClassroomTokenizer (nt_text n) = Inr spans"
    and bud: "budgets_allow clock contract (length spans) (length (nt_text n))
      (estimated_memory (px_canonical_text parsed) (nt_text n) spans)"
  shows "\<exists>candidate. generate_chunks ClassroomTokenizer clock parsed contract operation attempt experiment_id = Inr candidate"
proof -
  let ?mem = "estimated_memory (px_canonical_text parsed) (nt_text n) spans"
  let ?st = "\<lparr>gl_start = 0, gl_chunks = [], gl_output_chars = 0, gl_work_units = int (length spans)\<rparr>"
  have "nt_source_offsets n \<noteq> []" using normalize_tiles(1) [OF nrm] t(1) by (cases "nt_source_offsets n") auto
  then have "nt_text n \<noteq> []" using normalize_tiles(2) [OF nrm] by auto
  then have ne: "spans \<noteq> []" using classroom.spans_tile [OF toks] by (cases spans) auto
  have ck: "chunking ClassroomTokenizer contract (px_canonical_text parsed) n spans"
    using nrm toks contract_valid(1) [OF con] classroom.tokenizer_port_axioms
    by (simp add: chunking_def chunking_axioms_def)
  have start: "loop_within contract (length spans) (length (nt_text n)) 0 ?st" using ne by (simp add: loop_within_def)
  have enc: "encodable (px_canonical_text parsed)" using t(3) by (simp add: sha256_text_Inr)
  note enc' = normalize_encodable [OF nrm enc]
  from chunking.fixed_loop [OF ck enc' con fixed(1) min bud start] obtain chunks where
    loop: "chunk_loop ClassroomTokenizer clock contract (px_canonical_text parsed) n spans ?mem ?st = Inr chunks" by blast
  have "0 \<le> int (length spans) * cg_hard_max_tokens contract" "0 \<le> int (length spans) * int (length (nt_text n))"
    using contract_sizes(3) [OF con] by simp_all
  then have w: "int (length spans) \<le> cg_max_token_work_units contract" and m: "?mem \<le> cg_max_estimated_memory_bytes contract"
    using bud unfolding budgets_allow_def by linarith+
  obtain cs where "chunks = cs" "window_chain (chunk_window ClassroomTokenizer contract (px_canonical_text parsed) n spans)
      (length spans) (nat (cg_overlap_tokens contract)) 0 0 cs"
    using chunk_loop_chain [OF loop, of 0] ne contract_valid(1,2) [OF con] by auto
  then have chunks: "list_all chunk_encodable chunks"
    using window_chain_member window_encodable unfolding list_all_iff by metis
  show ?thesis
    unfolding generate_chunks_def Let_def t(3) nrm toks encoded_memory_eq [OF enc enc'] loop bind_res_simps
      candidate_chunks_checksum_eq if_P [OF chunks]
    using fixed ids t ne w m by (simp add: truthy_def)
qed

section \<open>A concrete document\<close>

text \<open>The text \<open>a b\<close>, in two overlapping windows of two tokens, and the facts it is bound to.\<close>

definition sample_contract :: ChunkingContract where
  "sample_contract = \<lparr>cg_strategy = ChunkStrategy.FIXED_TOKEN, cg_strategy_version = ''v1'',
     cg_tokenizer = tp_contract ClassroomTokenizer, cg_normalization_version = ''identity-v1'',
     cg_soft_target_tokens = 2, cg_hard_max_tokens = 2, cg_min_useful_tokens = 1, cg_overlap_tokens = 1,
     cg_max_chunk_count = 5, cg_max_input_chars = 10, cg_max_output_chars = 100,
     cg_deadline_seconds = \<lparr>pf_value = 1, pf_repr = ''1.0''\<rparr>, cg_oversized_policy = OversizedPolicy.FAIL_CLOSED,
     cg_max_token_work_units = 100, cg_max_estimated_memory_bytes = 1000, cg_boundary_policy_version = ''v1''\<rparr>"

definition sample_version :: DocumentVersionIdentity where
  "sample_version = \<lparr>vi_tenant_id = ''t'', vi_document_id = ''d'', vi_document_version_id = ''v''\<rparr>"

definition sample_parsed :: "utext \<Rightarrow> ParsedArtifactDefinition" where
  "sample_parsed text = \<lparr>px_parsed_artifact_id = ''p'', px_version = sample_version, px_source_artifact_id = ''s'',
     px_output_checksum_sha256 = text_checksum text, px_canonical_text = text, px_sections = [],
     px_manifest = \<lparr>pm_tenant_id = ''t'', pm_document_id = ''d'', pm_document_version_id = ''v'', pm_source_artifact_id = ''s'',
       pm_source_checksum_sha256 = ''sum'', pm_operation_id = ''op'', pm_idempotency_key = ''key'', pm_parser_name = ''parser'',
       pm_parser_version = ''1'', pm_parse_contract_version = ''pc'', pm_attempt_number = 1, pm_parser_request_id = ''r'',
       pm_parser_generation = 0, pm_output_checksum_sha256 = text_checksum text, pm_page_count = 1, pm_section_count = 0,
       pm_record_count = 0, pm_warnings = [], pm_errors = []\<rparr>\<rparr>"

definition sample_source :: SourceArtifactReference where
  "sample_source = \<lparr>sx_version = sample_version, sx_source_artifact_id = ''s'', sx_object_bucket = ''b'', sx_object_key = ''k'',
     sx_object_version = ''1'', sx_checksum_sha256 = ''sum'', sx_size_bytes = 3, sx_detected_media_type = ''text/plain''\<rparr>"

definition sample_document :: DocumentHeadSnapshot where
  "sample_document = \<lparr>dh_identity = vi_document sample_version, dh_state = DocumentHeadState.ACTIVE,
     dh_active_version_id = Some ''v'', dh_state_version = 1, dh_fence_token = 1\<rparr>"

definition sample_lifecycle :: DocumentVersionLifecycleRecord where
  "sample_lifecycle = \<lparr>vl_definition = \<lparr>vd_identity = sample_version, vd_source_artifact_id = ''s'',
       vd_parse_contract_version = ''pc'', vd_created_by_operation_id = ''op''\<rparr>,
     vl_state = DocumentVersionLifecycle.ACTIVE, vl_parsed_artifact_id = Some ''p'', vl_activation_commit_id = Some ''c'',
     vl_state_version = 1, vl_fence_token = 1\<rparr>"

definition sample_ingestion :: IngestionOperationRecord where
  "sample_ingestion = \<lparr>ir_identity = \<lparr>io_tenant_id = ''t'', io_document_id = ''d'', io_document_version_id = ''v'',
       io_source_artifact_id = ''s'', io_operation_id = ''op'', io_idempotency_key = ''key''\<rparr>,
     ir_state = IngestionOperationState.COMPLETED, ir_state_version = 2, ir_fence_token = 1,
     ir_attempt = Some \<lparr>pt_operation_id = ''op'', pt_idempotency_key = ''key'', pt_attempt_number = 1,
       pt_parser_request_id = ''r'', pt_parser_generation = 0\<rparr>,
     ir_attempt_history = []\<rparr>"

definition sample_operation :: "ChunkingContract \<Rightarrow> ChunkingOperationIdentity" where
  "sample_operation contract = \<lparr>cop_version = sample_version, cop_source_artifact_id = ''s'', cop_parsed_artifact_id = ''p'',
     cop_operation_id = ''chunk-op'', cop_idempotency_key = ''chunk-key'',
     cop_contract_fingerprint = contract_fingerprint contract\<rparr>"

definition sample_attempt :: ChunkingAttemptIdentity where
  "sample_attempt = \<lparr>cat_operation_id = ''chunk-op'', cat_attempt_number = 1, cat_request_id = ''q'', cat_generation = 1\<rparr>"

lemmas sample_defs = sample_contract_def sample_version_def sample_parsed_def sample_source_def sample_document_def
  sample_lifecycle_def sample_ingestion_def sample_operation_def sample_attempt_def

lemma sample_contract_ok: "ChunkingContract_post_init sample_contract = Inr sample_contract"
  by (simp add: ChunkingContract_post_init_def sample_contract_def supported_normalizations_def all_truthy_def truthy_def)

lemma sample_eligible: "eligible (evaluate_chunking_eligibility sample_document sample_lifecycle sample_ingestion)"
  by (simp add: eligible_iff sample_defs vi_document_def io_version_def)

lemma sample_bound:
  "parse_bound sample_lifecycle sample_ingestion (sample_parsed text) sample_source
     (vl_parsed_artifact_id sample_lifecycle) (sample_operation contract)"
  by (simp add: parse_bound_def sample_defs io_version_def)

lemmas text_eval = token_matches.simps is_word_def normalize_def supported_normalizations_def Let_def

lemma sample_tokens: "tp_spans ClassroomTokenizer [97, 32, 98] =
    Inr [\<lparr>ts_start = 0, ts_end = 1\<rparr>, \<lparr>ts_start = 1, ts_end = 2\<rparr>, \<lparr>ts_start = 2, ts_end = 3\<rparr>]"
  by (simp add: ClassroomTokenizer_def classroom_total is_word_def)

lemma sample_counts:
  "tp_count ClassroomTokenizer [] = Inr 0" "tp_count ClassroomTokenizer [97, 32] = Inr 2"
  "tp_count ClassroomTokenizer [32, 98] = Inr 2"
  by (simp_all add: ClassroomTokenizer_def classroom_total is_word_def)

definition sample_candidate :: ChunkSetCandidate where
  "sample_candidate = (let chunks =
     [\<lparr>ckc_ordinal = 0, ckc_text = [97, 32], ckc_source_segments = [\<lparr>sg_start = 0, sg_end = 2, sg_role = ''body''\<rparr>],
       ckc_token_count = 2, ckc_content_hash = text_checksum [97, 32], ckc_boundary_reason = ''FIXED_TOKEN_WINDOW'',
       ckc_overlap_left_tokens = 0, ckc_overlap_right_tokens = 1, ckc_joiner = []\<rparr>,
      \<lparr>ckc_ordinal = 1, ckc_text = [32, 98], ckc_source_segments = [\<lparr>sg_start = 1, sg_end = 3, sg_role = ''body''\<rparr>],
       ckc_token_count = 2, ckc_content_hash = text_checksum [32, 98], ckc_boundary_reason = ''SOURCE_END'',
       ckc_overlap_left_tokens = 1, ckc_overlap_right_tokens = 0, ckc_joiner = []\<rparr>]
     in \<lparr>csc_operation = sample_operation sample_contract, csc_attempt = sample_attempt, csc_experiment_id = ''e'',
         csc_chunks = chunks,
         csc_manifest = \<lparr>cmf_chunk_count = 2, cmf_source_checksum = text_checksum [97, 32, 98],
           cmf_contract_fingerprint = contract_fingerprint sample_contract,
           cmf_chunks_checksum = chunks_checksum chunks\<rparr>\<rparr>)"

lemma sample_normalized: "normalize [97, 32, 98] ''identity-v1'' =
    Inr \<lparr>nt_text = [97, 32, 98], nt_source_offsets = [(0, 1), (1, 2), (2, 3)]\<rparr>"
  by (simp add: normalize_def supported_normalizations_def upt_rec)

lemma sample_fields:
  "cg_strategy sample_contract = ChunkStrategy.FIXED_TOKEN" "cg_tokenizer sample_contract = tp_contract ClassroomTokenizer"
  "cg_normalization_version sample_contract = ''identity-v1''" "cg_soft_target_tokens sample_contract = 2"
  "cg_hard_max_tokens sample_contract = 2" "cg_min_useful_tokens sample_contract = 1" "cg_overlap_tokens sample_contract = 1"
  "cg_max_chunk_count sample_contract = 5" "cg_max_input_chars sample_contract = 10" "cg_max_output_chars sample_contract = 100"
  "pf_value (cg_deadline_seconds sample_contract) = 1" "cg_max_token_work_units sample_contract = 100"
  "cg_max_estimated_memory_bytes sample_contract = 1000"
  by (simp_all add: sample_contract_def)

definition sample_spans :: "TokenSpan list" where
  "sample_spans = [\<lparr>ts_start = 0, ts_end = 1\<rparr>, \<lparr>ts_start = 1, ts_end = 2\<rparr>, \<lparr>ts_start = 2, ts_end = 3\<rparr>]"

definition sample_text :: NormalizedText where
  "sample_text = \<lparr>nt_text = [97, 32, 98], nt_source_offsets = [(0, 1), (1, 2), (2, 3)]\<rparr>"

lemmas sample_step = chunk_step_def chunk_body_def chunk_context_def context_parts_def context_prefix_def choose_end_def
  source_interval_def SourceSegment_post_init_def truthy_def slice_def sha256_text_eq surrogate_def sample_fields sample_spans_def sample_text_def sample_counts

lemma sample_loop:
  "chunk_loop ClassroomTokenizer (\<lambda>_. 0) sample_contract [97, 32, 98] sample_text sample_spans 102
     \<lparr>gl_start = 0, gl_chunks = [], gl_output_chars = 0, gl_work_units = 3\<rparr> = Inr (csc_chunks sample_candidate)"
proof -
  let ?cs = "csc_chunks sample_candidate"
  have one: "chunk_step ClassroomTokenizer (\<lambda>_. 0) sample_contract [97, 32, 98] sample_text sample_spans 102
     \<lparr>gl_start = 0, gl_chunks = [], gl_output_chars = 0, gl_work_units = 3\<rparr> = Inr (?cs ! 0, 2, 1, 2, 5)"
    by (simp add: sample_step sample_candidate_def Let_def)
  have two: "chunk_step ClassroomTokenizer (\<lambda>_. 0) sample_contract [97, 32, 98] sample_text sample_spans 102
     \<lparr>gl_start = 1, gl_chunks = [?cs ! 0], gl_output_chars = 2, gl_work_units = 5\<rparr> = Inr (?cs ! 1, 3, 2, 4, 7)"
    by (simp add: sample_step sample_candidate_def Let_def)
  have cs: "?cs = [?cs ! 0, ?cs ! 1]" by (simp add: sample_candidate_def Let_def)
  have len: "int (length sample_spans) = 3" by (simp add: sample_spans_def)
  have "chunk_loop ClassroomTokenizer (\<lambda>_. 0) sample_contract [97, 32, 98] sample_text sample_spans 102
     \<lparr>gl_start = 1, gl_chunks = [?cs ! 0], gl_output_chars = 2, gl_work_units = 5\<rparr> = Inr [?cs ! 0, ?cs ! 1]"
    by (subst chunk_loop.simps) (simp add: two len)
  then show ?thesis by (subst chunk_loop.simps, subst cs) (simp add: one len)
qed

lemma sample_memory: "encoded_memory [97, 32, 98] [97, 32, 98] sample_spans = Inr 102"
  by (simp add: encoded_memory_def encode_utf8_def surrogate_def utf8_encode_def utf8_char_def sample_spans_def)

lemma sample_encodable: "sha256_text [97, 32, 98] = Inr (text_checksum [97, 32, 98])"
    "candidate_chunks_checksum (csc_chunks sample_candidate) = Inr (chunks_checksum (csc_chunks sample_candidate))"
  by (simp_all add: sha256_text_Inr surrogate_def candidate_chunks_checksum_eq chunk_encodable_def sample_candidate_def Let_def)

lemma sample_generated:
  "generate_chunks ClassroomTokenizer (\<lambda>_. 0) (sample_parsed [97, 32, 98]) sample_contract (sample_operation sample_contract)
     sample_attempt ''e'' = Inr sample_candidate"
proof -
  have t: "px_canonical_text (sample_parsed [97, 32, 98]) = [97, 32, 98]"
    "px_output_checksum_sha256 (sample_parsed [97, 32, 98]) = text_checksum [97, 32, 98]"
    "px_parsed_artifact_id (sample_parsed [97, 32, 98]) = ''p''"
    by (simp_all add: sample_parsed_def)
  have ids: "cop_contract_fingerprint (sample_operation sample_contract) = contract_fingerprint sample_contract"
    "cop_parsed_artifact_id (sample_operation sample_contract) = ''p''"
    "cat_operation_id sample_attempt = cop_operation_id (sample_operation sample_contract)"
    by (simp_all add: sample_operation_def sample_attempt_def)
  have tk: "tp_spans ClassroomTokenizer [97, 32, 98] = Inr sample_spans"
    using sample_tokens by (simp add: sample_spans_def)
  have nr: "normalize [97, 32, 98] ''identity-v1'' = Inr sample_text" using sample_normalized by (simp add: sample_text_def)
  have ne: "sample_spans \<noteq> []" "int (length sample_spans) = 3" "nt_text sample_text = [97, 32, 98]"
    by (simp_all add: sample_spans_def sample_text_def)
  show ?thesis
    unfolding generate_chunks_def Let_def t ids sample_fields nr bind_res_simps tk ne(2,3) sample_memory sample_loop sample_encodable
    using ne(1) by (simp add: truthy_def) (simp add: sample_candidate_def Let_def)
qed

lemma sample_checksum: "pm_output_checksum_sha256 (px_manifest (sample_parsed t)) = px_output_checksum_sha256 (sample_parsed t)"
  by (simp add: sample_parsed_def)

lemma sample_normalize:
  "normalize (px_canonical_text (sample_parsed [97, 32, 98])) (cg_normalization_version sample_contract) = Inr sample_text"
  using sample_normalized by (simp add: sample_parsed_def sample_fields sample_text_def)

lemma sample_ready:
  "\<exists>d. evaluate_chunk_set ClassroomTokenizer sample_document sample_lifecycle sample_ingestion (sample_parsed [97, 32, 98])
     sample_source sample_contract sample_candidate = Inr d \<and> chunk_ready d"
proof -
  have "tp_count ClassroomTokenizer (nt_text sample_text) = Inr 3"
    "tp_count ClassroomTokenizer (px_canonical_text (sample_parsed [97, 32, 98])) = Inr 3"
    by (simp_all add: sample_text_def sample_parsed_def ClassroomTokenizer_def classroom_total is_word_def)
  from classroom.generated_verdict [OF sample_generated sample_contract_ok sample_eligible sample_bound sample_checksum
      sample_normalize this]
  show ?thesis by (auto simp: sample_fields)
qed

text \<open>Witnesses of the properties above on this document.\<close>

theorem generated_chunks_accepted_witness:
  "\<exists>d. evaluate_chunk_set ClassroomTokenizer sample_document sample_lifecycle sample_ingestion (sample_parsed [97, 32, 98])
     sample_source sample_contract sample_candidate = Inr d \<and> chunk_ready d"
  using generated_chunks_accepted [OF sample_generated sample_contract_ok sample_eligible sample_bound sample_checksum
      sample_normalize] sample_fields(3) by blast

theorem chunk_validation_total_witness:
  "evaluate_chunk_set ClassroomTokenizer sample_document sample_lifecycle sample_ingestion (sample_parsed [55296])
     sample_source sample_contract sample_candidate = Inl UnicodeEncodeError"
proof -
  have "reaches_manifest sample_document sample_lifecycle sample_ingestion (sample_parsed [55296]) sample_source sample_contract
      sample_candidate"
    using sample_eligible sample_bound [of "[55296]" sample_contract] eligible_artifact [OF sample_eligible]
    by (simp add: reaches_manifest_def sample_candidate_def sample_fields sample_attempt_def sample_operation_def truthy_def Let_def)
  moreover have "manifest_unencodable (sample_parsed [55296]) sample_contract sample_candidate"
    by (simp add: manifest_unencodable_def sample_parsed_def surrogate_def)
  ultimately show ?thesis using chunk_validation_total [OF sample_contract_ok] by blast
qed

theorem normalization_roundtrip_witness:
  "\<exists>a b m. source_interval \<lparr>nt_text = [97, 32, 98], nt_source_offsets = [(0, 1), (1, 4), (4, 5)]\<rparr> 1 3 = Inr (a, b) \<and>
     normalize (slice a b [97, 32, 9, 32, 98]) ''collapse-horizontal-space-v1'' = Inr m \<and> nt_text m = [32, 98]"
proof -
  have "normalize [97, 32, 9, 32, 98] ''collapse-horizontal-space-v1'' =
    Inr \<lparr>nt_text = [97, 32, 98], nt_source_offsets = [(0, 1), (1, 4), (4, 5)]\<rparr>"
    by (simp add: normalize_def supported_normalizations_def is_blank_def Let_def)
  from normalization_roundtrip [OF this, THEN conjunct2, THEN conjunct2, rule_format, of 1 3]
  show ?thesis by (simp add: slice_def)
qed

theorem generation_bounded_witness: "length (csc_chunks sample_candidate) \<le> 3"
proof -
  from generation_bounded [OF sample_generated sample_contract_ok] obtain spans where
    "tp_spans ClassroomTokenizer (nt_text sample_text) = Inr spans" "length (csc_chunks sample_candidate) \<le> length spans"
    unfolding sample_normalize by auto
  then show ?thesis using sample_tokens by (auto simp: sample_text_def)
qed

text \<open>
  The two notions of minimal size disagree under the collapsing normalization: the text \<open>a   b\<close> with a
  minimal chunk of five tokens is chunked by the generator and then rejected, always, by the validator.
\<close>

definition collapse_contract :: ChunkingContract where
  "collapse_contract = sample_contract\<lparr>cg_normalization_version := ''collapse-horizontal-space-v1'', cg_soft_target_tokens := 5,
     cg_hard_max_tokens := 5, cg_min_useful_tokens := 5, cg_overlap_tokens := 0\<rparr>"

lemma collapse_generated_then_rejected:
  "\<exists>candidate d. generate_chunks ClassroomTokenizer (\<lambda>_. 0) (sample_parsed [97, 32, 32, 32, 98]) collapse_contract
     (sample_operation collapse_contract) sample_attempt ''e'' = Inr candidate \<and>
   evaluate_chunk_set ClassroomTokenizer sample_document sample_lifecycle sample_ingestion (sample_parsed [97, 32, 32, 32, 98])
     sample_source collapse_contract candidate = Inr d \<and> cvd_outcome d = ChunkValidationOutcome.TOKEN_BUDGET_INVALID"
proof -
  let ?t = "[97, 32, 32, 32, 98] :: utext"
  let ?n = "\<lparr>nt_text = [97, 32, 98], nt_source_offsets = [(0, 1), (1, 4), (4, 5)]\<rparr>"
  have f: "cg_strategy collapse_contract = ChunkStrategy.FIXED_TOKEN" "cg_tokenizer collapse_contract = tp_contract ClassroomTokenizer"
    "cg_normalization_version collapse_contract = ''collapse-horizontal-space-v1''" "cg_soft_target_tokens collapse_contract = 5"
    "cg_hard_max_tokens collapse_contract = 5" "cg_min_useful_tokens collapse_contract = 5" "cg_overlap_tokens collapse_contract = 0"
    "cg_max_chunk_count collapse_contract = 5" "cg_max_input_chars collapse_contract = 10" "cg_max_output_chars collapse_contract = 100"
    "pf_value (cg_deadline_seconds collapse_contract) = 1" "cg_max_token_work_units collapse_contract = 100"
    "cg_max_estimated_memory_bytes collapse_contract = 1000"
    by (simp_all add: collapse_contract_def sample_contract_def)
  have con: "ChunkingContract_post_init collapse_contract = Inr collapse_contract"
    by (simp add: ChunkingContract_post_init_def collapse_contract_def sample_contract_def supported_normalizations_def
        all_truthy_def truthy_def)
  have t: "px_canonical_text (sample_parsed ?t) = ?t" "px_output_checksum_sha256 (sample_parsed ?t) = text_checksum ?t"
    "px_parsed_artifact_id (sample_parsed ?t) = ''p''" by (simp_all add: sample_parsed_def)
  have nrm: "normalize (px_canonical_text (sample_parsed ?t)) (cg_normalization_version collapse_contract) = Inr ?n"
    by (simp add: f t normalize_def supported_normalizations_def is_blank_def Let_def)
  have tk: "tp_spans ClassroomTokenizer (nt_text ?n) = Inr sample_spans" using sample_tokens by (simp add: sample_spans_def)
  have counts: "tp_count ClassroomTokenizer (nt_text ?n) = Inr 3" "tp_count ClassroomTokenizer (px_canonical_text (sample_parsed ?t)) = Inr 5"
    by (simp_all add: t ClassroomTokenizer_def classroom_total is_word_def)
  have mem: "encoded_memory ?t (nt_text ?n) sample_spans = Inr 104"
    by (simp add: encoded_memory_def encode_utf8_def surrogate_def utf8_encode_def utf8_char_def sample_spans_def)
  have sum: "sha256_text ?t = Inr (text_checksum ?t)" by (simp add: sha256_text_Inr surrogate_def)
  have "\<exists>chunks. chunk_loop ClassroomTokenizer (\<lambda>_. 0) collapse_contract ?t ?n sample_spans 104
     \<lparr>gl_start = 0, gl_chunks = [], gl_output_chars = 0, gl_work_units = 3\<rparr> = Inr chunks"
    using counts(1) by (subst chunk_loop.simps)
      (simp add: chunk_step_def chunk_body_def chunk_context_def context_parts_def context_prefix_def choose_end_def
        source_interval_def SourceSegment_post_init_def truthy_def slice_def f sample_spans_def sample_counts sha256_text_eq surrogate_def Let_def)
  then obtain chunks where loop: "chunk_loop ClassroomTokenizer (\<lambda>_. 0) collapse_contract ?t ?n sample_spans 104
     \<lparr>gl_start = 0, gl_chunks = [], gl_output_chars = 0, gl_work_units = 3\<rparr> = Inr chunks" ..
  have chunks: "list_all chunk_encodable chunks"
  proof -
    obtain cs where "chunks = cs" "window_chain (chunk_window ClassroomTokenizer collapse_contract ?t ?n sample_spans)
        (length sample_spans) (nat (cg_overlap_tokens collapse_contract)) 0 0 cs"
      using chunk_loop_chain [OF loop, of 0] contract_valid(1,2) [OF con] by (auto simp: sample_spans_def)
    then show ?thesis using window_chain_member window_encodable unfolding list_all_iff by metis
  qed
  have ids: "cop_contract_fingerprint (sample_operation collapse_contract) = contract_fingerprint collapse_contract"
    "cop_parsed_artifact_id (sample_operation collapse_contract) = ''p''"
    "cat_operation_id sample_attempt = cop_operation_id (sample_operation collapse_contract)"
    by (simp_all add: sample_operation_def sample_attempt_def)
  have sp: "sample_spans \<noteq> []" "int (length sample_spans) = 3" by (simp_all add: sample_spans_def)
  have "\<exists>candidate. generate_chunks ClassroomTokenizer (\<lambda>_. 0) (sample_parsed ?t) collapse_contract
     (sample_operation collapse_contract) sample_attempt ''e'' = Inr candidate"
    unfolding generate_chunks_def Let_def t nrm [unfolded t] bind_res_simps tk ids sp(2) mem sum loop f(1,2) f(4-)
      candidate_chunks_checksum_eq if_P [OF chunks]
    using sp(1) by (simp add: truthy_def)
  then obtain candidate where gen: "generate_chunks ClassroomTokenizer (\<lambda>_. 0) (sample_parsed ?t) collapse_contract
     (sample_operation collapse_contract) sample_attempt ''e'' = Inr candidate" ..
  from classroom.generated_verdict [OF gen con sample_eligible sample_bound sample_checksum nrm counts] f(6) gen
  show ?thesis by auto
qed

end
