(* ===== verification/Ingestion_Lifecycle.thy ===== *)
theory Ingestion_Lifecycle
  imports Rag_Contracts Machines
begin

text \<open>
  \<^verbatim>\<open>src/projects/ai-agent/src/rag_ingestion_committer.py\<close>: the lifecycle store of documents, versions,
  ingestion operations and artifacts, and its sole writer. The dictionaries are maps; the outbox,
  which is listed, is an association list. Operations return the new store and their result. The
  activation may raise after it has superseded the previous version, so it returns the store beside
  the result also when it raises.
\<close>

section \<open>Outcomes and results\<close>

datatype IngestionCommitOutcome =
  COMMITTED | ALREADY_COMMITTED | NOT_READY | BINDING_CONFLICT | DOCUMENT_STALE | VERSION_STALE | OPERATION_STALE
| ARTIFACT_CONFLICT

datatype IngestionDispatchClaimOutcome =
  CLAIMED | ALREADY_CLAIMED | IDENTITY_CONFLICT | STATE_CONFLICT | VERSION_CONFLICT | FENCE_CONFLICT
| ATTEMPT_SEQUENCE_CONFLICT

datatype IngestionOperationTransitionOutcome = COMMITTED | ALREADY_COMMITTED | IDENTITY_CONFLICT | STALE

datatype IngestionIntakeOutcome =
  CREATED | NEW_IMMUTABLE_VERSION | EXACT_DUPLICATE | IDENTITY_CONFLICT | DOCUMENT_TOMBSTONED

record IngestionDispatchClaim =
  dcl_outcome :: IngestionDispatchClaimOutcome
  dcl_record :: "IngestionOperationRecord option"
  dcl_durable_transition :: bool

record IngestionOperationTransitionResult =
  otr_outcome :: IngestionOperationTransitionOutcome
  otr_record :: "IngestionOperationRecord option"
  otr_committer_calls :: int
  otr_durable_transition :: bool

record IngestionIntakeResult =
  iir_outcome :: IngestionIntakeOutcome
  iir_safe_reason :: string
  iir_document :: "DocumentHeadSnapshot option"
  iir_version :: "DocumentVersionLifecycleRecord option"
  iir_operation :: "IngestionOperationRecord option"
  iir_source :: "SourceArtifactReference option"
  iir_committer_calls :: int
  iir_durable_transition :: bool

record IngestionActivationGuard =
  ag_document_state :: DocumentHeadState
  ag_active_version_id :: "string option"
  ag_document_state_version :: int
  ag_document_fence :: int
  ag_version_state :: DocumentVersionLifecycle
  ag_version_state_version :: int
  ag_version_fence :: int
  ag_operation_state :: IngestionOperationState
  ag_operation_state_version :: int
  ag_operation_fence :: int

definition IngestionActivationGuard_post_init :: "IngestionActivationGuard \<Rightarrow> IngestionActivationGuard res" where
  "IngestionActivationGuard_post_init g =
     (if list_ex (\<lambda>v. v < 0) [ag_document_state_version g, ag_document_fence g, ag_version_state_version g,
          ag_version_fence g, ag_operation_state_version g, ag_operation_fence g]
      then Inl (ValueError ''activation guards must be non-negative'') else Inr g)"

record IngestionLifecycleOutboxIntent =
  lo_event_id :: string
  lo_event_type :: string
  lo_tenant_id :: string
  lo_document_id :: string
  lo_document_version_id :: string
  lo_operation_id :: string
  lo_published_at_epoch_ms :: "int option"

record IngestionCommitResult =
  icr_outcome :: IngestionCommitOutcome
  icr_safe_reason :: string
  icr_document :: "DocumentHeadSnapshot option"
  icr_version :: "DocumentVersionLifecycleRecord option"
  icr_operation :: "IngestionOperationRecord option"
  icr_parsed_artifact :: "ParsedArtifactDefinition option"
  icr_committer_calls :: int
  icr_durable_transition :: bool

section \<open>The store\<close>

type_synonym source_fingerprint = "string \<times> int \<times> string \<times> string"

record LifecycleStore =
  ls_documents :: "string \<times> string \<rightharpoonup> DocumentHeadSnapshot"
  ls_versions :: "string \<times> string \<times> string \<rightharpoonup> DocumentVersionLifecycleRecord"
  ls_operations :: "string \<rightharpoonup> IngestionOperationRecord"
  ls_parsed_artifacts :: "string \<rightharpoonup> ParsedArtifactDefinition"
  ls_source_artifacts :: "string \<rightharpoonup> SourceArtifactReference"
  ls_operation_source_fingerprints :: "string \<rightharpoonup> source_fingerprint"
  ls_idempotency_operations :: "string \<times> string \<rightharpoonup> string"
  ls_document_fingerprints :: "string \<times> string \<times> source_fingerprint \<rightharpoonup> string"
  ls_outbox :: "(string \<times> IngestionLifecycleOutboxIntent) list"

definition LifecycleStore_init :: LifecycleStore where
  "LifecycleStore_init = \<lparr>ls_documents = Map.empty, ls_versions = Map.empty, ls_operations = Map.empty,
     ls_parsed_artifacts = Map.empty, ls_source_artifacts = Map.empty, ls_operation_source_fingerprints = Map.empty,
     ls_idempotency_operations = Map.empty, ls_document_fingerprints = Map.empty, ls_outbox = []\<rparr>"

definition document_key :: "DocumentIdentity \<Rightarrow> string \<times> string" where
  "document_key i = (di_tenant_id i, di_document_id i)"

definition version_key :: "DocumentVersionIdentity \<Rightarrow> string \<times> string \<times> string" where
  "version_key i = (vi_tenant_id i, vi_document_id i, vi_document_version_id i)"

text \<open>\<open>outbox.setdefault(event.event_id, event)\<close>.\<close>

definition add_event :: "IngestionLifecycleOutboxIntent \<Rightarrow> LifecycleStore \<Rightarrow> LifecycleStore" where
  "add_event ev s = (if map_of (ls_outbox s) (lo_event_id ev) = None
     then s\<lparr>ls_outbox := ls_outbox s @ [(lo_event_id ev, ev)]\<rparr> else s)"

definition register_facts ::
    "DocumentHeadSnapshot \<Rightarrow> DocumentVersionLifecycleRecord \<Rightarrow> IngestionOperationRecord \<Rightarrow> LifecycleStore
      \<Rightarrow> LifecycleStore res" where
  "register_facts document version operation s =
     (let identity = vd_identity (vl_definition version);
          dkey = document_key (dh_identity document); vkey = version_key identity;
          okey = io_operation_id (ir_identity operation) in
      if vi_document identity \<noteq> dh_identity document then Inl (ValueError ''version does not belong to document head'')
      else if io_version (ir_identity operation) \<noteq> identity
      then Inl (ValueError ''operation does not belong to document version'')
      else if io_source_artifact_id (ir_identity operation) \<noteq> vd_source_artifact_id (vl_definition version)
      then Inl (ValueError ''operation source does not bind document version'')
      else if ls_documents s dkey \<noteq> None \<and> ls_documents s dkey \<noteq> Some document
      then Inl (ValueError ''conflicting document head registration'')
      else if ls_versions s vkey \<noteq> None then Inl (ValueError ''document version is already registered'')
      else if ls_operations s okey \<noteq> None then Inl (ValueError ''ingestion operation is already registered'')
      else Inr (s\<lparr>ls_documents := (ls_documents s)(dkey \<mapsto> document), ls_versions := (ls_versions s)(vkey \<mapsto> version),
                  ls_operations := (ls_operations s)(okey \<mapsto> operation)\<rparr>))"

definition read_document :: "LifecycleStore \<Rightarrow> DocumentIdentity \<Rightarrow> DocumentHeadSnapshot res" where
  "read_document s identity =
     (case ls_documents s (document_key identity) of Some d \<Rightarrow> Inr d | None \<Rightarrow> Inl (KeyError (di_document_id identity)))"

definition read_version :: "LifecycleStore \<Rightarrow> DocumentVersionIdentity \<Rightarrow> DocumentVersionLifecycleRecord res" where
  "read_version s identity =
     (case ls_versions s (version_key identity) of Some v \<Rightarrow> Inr v | None \<Rightarrow> Inl (KeyError (vi_document_version_id identity)))"

definition read_operation :: "LifecycleStore \<Rightarrow> string \<Rightarrow> IngestionOperationRecord res" where
  "read_operation s operation_id =
     (case ls_operations s operation_id of Some r \<Rightarrow> Inr r | None \<Rightarrow> Inl (KeyError operation_id))"

definition read_parsed_artifact :: "LifecycleStore \<Rightarrow> string \<Rightarrow> ParsedArtifactDefinition option" where
  "read_parsed_artifact s i = ls_parsed_artifacts s i"

definition read_source_artifact :: "LifecycleStore \<Rightarrow> string \<Rightarrow> SourceArtifactReference option" where
  "read_source_artifact s i = ls_source_artifacts s i"

definition outbox_intents :: "LifecycleStore \<Rightarrow> IngestionLifecycleOutboxIntent list" where
  "outbox_intents s = map snd (ls_outbox s)"

section \<open>Claiming a parse dispatch\<close>

definition claim_result ::
    "IngestionDispatchClaimOutcome \<Rightarrow> IngestionOperationRecord option \<Rightarrow> IngestionDispatchClaim" where
  "claim_result outcome rec = \<lparr>dcl_outcome = outcome, dcl_record = rec, dcl_durable_transition = False\<rparr>"

text \<open>\<open>history += (attempt,)\<close> unless it is there already.\<close>

definition with_attempt :: "ParserAttemptIdentity \<Rightarrow> ParserAttemptIdentity list \<Rightarrow> ParserAttemptIdentity list" where
  "with_attempt a history = (if a \<in> set history then history else history @ [a])"

definition claim_parse_dispatch ::
    "IngestionOperationIdentity \<Rightarrow> ParserAttemptIdentity \<Rightarrow> IngestionOperationState \<Rightarrow> int \<Rightarrow> int \<Rightarrow> LifecycleStore
      \<Rightarrow> (LifecycleStore \<times> IngestionDispatchClaim) res" where
  "claim_parse_dispatch identity attempt expected_state expected_state_version expected_fence s =
     (case ls_operations s (io_operation_id identity) of
        None \<Rightarrow> Inr (s, claim_result IngestionDispatchClaimOutcome.IDENTITY_CONFLICT None)
      | Some current \<Rightarrow>
          if ir_identity current \<noteq> identity
          then Inr (s, claim_result IngestionDispatchClaimOutcome.IDENTITY_CONFLICT None)
          else if pt_operation_id attempt \<noteq> io_operation_id identity \<or> pt_idempotency_key attempt \<noteq> io_idempotency_key identity
          then Inr (s, claim_result IngestionDispatchClaimOutcome.IDENTITY_CONFLICT (Some current))
          else if ir_state current = IngestionOperationState.PARSE_DISPATCH_STARTED \<and> ir_attempt current = Some attempt
          then Inr (s, claim_result IngestionDispatchClaimOutcome.ALREADY_CLAIMED (Some current))
          else if ir_state current \<noteq> expected_state
          then Inr (s, claim_result IngestionDispatchClaimOutcome.STATE_CONFLICT (Some current))
          else if ir_state_version current \<noteq> expected_state_version
          then Inr (s, claim_result IngestionDispatchClaimOutcome.VERSION_CONFLICT (Some current))
          else if ir_fence_token current \<noteq> expected_fence
          then Inr (s, claim_result IngestionDispatchClaimOutcome.FENCE_CONFLICT (Some current))
          else if (case ir_attempt current of None \<Rightarrow> False | Some a \<Rightarrow>
              pt_attempt_number attempt \<noteq> pt_attempt_number a + 1 \<or> pt_parser_request_id attempt = pt_parser_request_id a)
          then Inr (s, claim_result IngestionDispatchClaimOutcome.ATTEMPT_SEQUENCE_CONFLICT (Some current))
          else
            let history = (case ir_attempt current of None \<Rightarrow> ir_attempt_history current
                           | Some a \<Rightarrow> with_attempt a (ir_attempt_history current)) in
            bind_res (IngestionOperationRecord_post_init
                (current\<lparr>ir_state := IngestionOperationState.PARSE_DISPATCH_STARTED,
                         ir_state_version := ir_state_version current + 1, ir_fence_token := ir_fence_token current + 1,
                         ir_attempt := Some attempt, ir_attempt_history := with_attempt attempt history\<rparr>)) (\<lambda>claimed.
            Inr (s\<lparr>ls_operations := (ls_operations s)(io_operation_id identity \<mapsto> claimed)\<rparr>,
                 \<lparr>dcl_outcome = IngestionDispatchClaimOutcome.CLAIMED, dcl_record = Some claimed,
                  dcl_durable_transition = True\<rparr>)))"

section \<open>Intake\<close>

definition intake_result :: "IngestionIntakeOutcome \<Rightarrow> string \<Rightarrow> IngestionIntakeResult" where
  "intake_result outcome reason = \<lparr>iir_outcome = outcome, iir_safe_reason = reason, iir_document = None, iir_version = None,
     iir_operation = None, iir_source = None, iir_committer_calls = 1, iir_durable_transition = False\<rparr>"

definition new_document :: "DocumentIdentity \<Rightarrow> DocumentHeadSnapshot" where
  "new_document identity = \<lparr>dh_identity = identity, dh_state = DocumentHeadState.REGISTERED, dh_active_version_id = None,
     dh_state_version = 0, dh_fence_token = 0\<rparr>"

definition new_version :: "DocumentVersionDefinition \<Rightarrow> DocumentVersionLifecycleRecord" where
  "new_version definition' = \<lparr>vl_definition = definition', vl_state = DocumentVersionLifecycle.REGISTERED,
     vl_parsed_artifact_id = None, vl_activation_commit_id = None, vl_state_version = 0, vl_fence_token = 0\<rparr>"

definition new_operation :: "IngestionOperationIdentity \<Rightarrow> IngestionOperationRecord" where
  "new_operation identity = \<lparr>ir_identity = identity, ir_state = IngestionOperationState.READY_FOR_DISPATCH,
     ir_state_version = 0, ir_fence_token = 0, ir_attempt = None, ir_attempt_history = []\<rparr>"

definition source_fingerprint_of :: "SourceArtifactReference \<Rightarrow> DocumentVersionDefinition \<Rightarrow> source_fingerprint" where
  "source_fingerprint_of source version =
     (sx_checksum_sha256 source, sx_size_bytes source, sx_detected_media_type source, vd_parse_contract_version version)"

definition operation_event :: "string \<Rightarrow> string \<Rightarrow> IngestionOperationIdentity \<Rightarrow> IngestionLifecycleOutboxIntent" where
  "operation_event event_id event_type i = \<lparr>lo_event_id = event_id, lo_event_type = event_type,
     lo_tenant_id = io_tenant_id i, lo_document_id = io_document_id i, lo_document_version_id = io_document_version_id i,
     lo_operation_id = io_operation_id i, lo_published_at_epoch_ms = None\<rparr>"

text \<open>An operation id that is known: the exact repetition of its intake, or a conflict.\<close>

definition intake_existing ::
    "IngestionOperationIdentity \<Rightarrow> DocumentVersionDefinition \<Rightarrow> SourceArtifactReference \<Rightarrow> IngestionOperationRecord
      \<Rightarrow> LifecycleStore \<Rightarrow> IngestionIntakeResult" where
  "intake_existing operation version source existing s =
     (let existing_version = ls_versions s (version_key (io_version (ir_identity existing)));
          existing_source = ls_source_artifacts s (io_source_artifact_id (ir_identity existing)) in
      if ir_identity existing = operation
        \<and> ls_operation_source_fingerprints s (io_operation_id operation) = Some (source_fingerprint_of source version)
        \<and> map_option vl_definition existing_version = Some version \<and> existing_source = Some source
      then (intake_result IngestionIntakeOutcome.EXACT_DUPLICATE ''EXACT_OPERATION_AND_SOURCE_FINGERPRINT_REUSED'')
             \<lparr>iir_document := ls_documents s (document_key (vi_document (vd_identity version))),
              iir_version := existing_version, iir_operation := Some existing, iir_source := existing_source\<rparr>
      else (intake_result IngestionIntakeOutcome.IDENTITY_CONFLICT ''OPERATION_ID_ALREADY_BINDS_DIFFERENT_INGESTION_INPUT'')
             \<lparr>iir_operation := Some existing\<rparr>)"

definition intake_create ::
    "IngestionOperationIdentity \<Rightarrow> DocumentVersionDefinition \<Rightarrow> SourceArtifactReference \<Rightarrow> LifecycleStore
      \<Rightarrow> LifecycleStore \<times> IngestionIntakeResult" where
  "intake_create operation version source s =
     (let dkey = document_key (vi_document (vd_identity version)); vkey = version_key (vd_identity version);
          oid = io_operation_id operation; fp = source_fingerprint_of source version;
          current_document = ls_documents s dkey;
          created_document = (case current_document of Some d \<Rightarrow> d | None \<Rightarrow> new_document (vi_document (vd_identity version))) in
      (add_event (operation_event (''ingestion-registered:'' @ oid) ''INGESTION_REGISTERED'' operation)
         (s\<lparr>ls_documents := (ls_documents s)(dkey \<mapsto> created_document),
            ls_versions := (ls_versions s)(vkey \<mapsto> new_version version),
            ls_operations := (ls_operations s)(oid \<mapsto> new_operation operation),
            ls_source_artifacts := (ls_source_artifacts s)(sx_source_artifact_id source \<mapsto> source),
            ls_operation_source_fingerprints := (ls_operation_source_fingerprints s)(oid \<mapsto> fp),
            ls_idempotency_operations := (ls_idempotency_operations s)((io_tenant_id operation, io_idempotency_key operation) \<mapsto> oid),
            ls_document_fingerprints := (ls_document_fingerprints s)((io_tenant_id operation, io_document_id operation, fp) \<mapsto> oid)\<rparr>),
       \<lparr>iir_outcome = (if current_document = None then IngestionIntakeOutcome.CREATED
                       else IngestionIntakeOutcome.NEW_IMMUTABLE_VERSION),
        iir_safe_reason = (if current_document = None then ''DOCUMENT_AND_FIRST_IMMUTABLE_VERSION_REGISTERED''
                           else ''NEW_IMMUTABLE_DOCUMENT_VERSION_REGISTERED''),
        iir_document = Some created_document, iir_version = Some (new_version version),
        iir_operation = Some (new_operation operation), iir_source = Some source, iir_committer_calls = 1,
        iir_durable_transition = True\<rparr>))"

definition register_intake ::
    "IngestionOperationIdentity \<Rightarrow> DocumentVersionDefinition \<Rightarrow> SourceArtifactReference \<Rightarrow> LifecycleStore
      \<Rightarrow> (LifecycleStore \<times> IngestionIntakeResult) res" where
  "register_intake operation version source s =
     (let fp = source_fingerprint_of source version; dkey = document_key (vi_document (vd_identity version));
          vkey = version_key (vd_identity version) in
      if io_version operation \<noteq> vd_identity version \<or> sx_version source \<noteq> vd_identity version
        \<or> io_source_artifact_id operation \<noteq> sx_source_artifact_id source
        \<or> vd_source_artifact_id version \<noteq> sx_source_artifact_id source
        \<or> vd_created_by_operation_id version \<noteq> io_operation_id operation
      then Inr (s, intake_result IngestionIntakeOutcome.IDENTITY_CONFLICT ''INTAKE_DOCUMENT_VERSION_SOURCE_BINDING_CONFLICT'')
      else case ls_operations s (io_operation_id operation) of
        Some existing \<Rightarrow> Inr (s, intake_existing operation version source existing s)
      | None \<Rightarrow>
        (case ls_idempotency_operations s (io_tenant_id operation, io_idempotency_key operation) of
          Some other \<Rightarrow> bind_res (read_operation s other) (\<lambda>r.
            Inr (s, (intake_result IngestionIntakeOutcome.IDENTITY_CONFLICT ''IDEMPOTENCY_KEY_ALREADY_BINDS_ANOTHER_OPERATION'')
                      \<lparr>iir_operation := Some r\<rparr>))
        | None \<Rightarrow>
          (case ls_document_fingerprints s (io_tenant_id operation, io_document_id operation, fp) of
            Some duplicate \<Rightarrow> bind_res (read_operation s duplicate) (\<lambda>r.
              bind_res (read_version s (io_version (ir_identity r))) (\<lambda>v.
              case ls_source_artifacts s (io_source_artifact_id (ir_identity r)) of
                None \<Rightarrow> Inl (KeyError (io_source_artifact_id (ir_identity r)))
              | Some src \<Rightarrow>
                  Inr (s, (intake_result IngestionIntakeOutcome.EXACT_DUPLICATE ''DOCUMENT_SOURCE_AND_PARSE_CONTRACT_ALREADY_REGISTERED'')
                            \<lparr>iir_document := ls_documents s dkey, iir_version := Some v, iir_operation := Some r,
                             iir_source := Some src\<rparr>)))
          | None \<Rightarrow>
            if map_option dh_state (ls_documents s dkey) = Some DocumentHeadState.TOMBSTONED
            then Inr (s, (intake_result IngestionIntakeOutcome.DOCUMENT_TOMBSTONED
                            ''TOMBSTONED_DOCUMENT_REQUIRES_EXPLICIT_RESTORE_POLICY'')\<lparr>iir_document := ls_documents s dkey\<rparr>)
            else if ls_versions s vkey \<noteq> None
            then Inr (s, (intake_result IngestionIntakeOutcome.IDENTITY_CONFLICT
                            ''DOCUMENT_VERSION_ID_IS_IMMUTABLE_AND_ALREADY_EXISTS'')
                           \<lparr>iir_document := ls_documents s dkey, iir_version := ls_versions s vkey\<rparr>)
            else if ls_source_artifacts s (sx_source_artifact_id source) \<noteq> None
            then Inr (s, (intake_result IngestionIntakeOutcome.IDENTITY_CONFLICT
                            ''SOURCE_ARTIFACT_ID_IS_IMMUTABLE_AND_ALREADY_EXISTS'')\<lparr>iir_document := ls_documents s dkey\<rparr>)
            else Inr (intake_create operation version source s))))"

section \<open>Operation transitions\<close>

definition transition_result ::
    "IngestionOperationTransitionOutcome \<Rightarrow> IngestionOperationRecord option \<Rightarrow> bool \<Rightarrow> IngestionOperationTransitionResult" where
  "transition_result outcome rec durable =
     \<lparr>otr_outcome = outcome, otr_record = rec, otr_committer_calls = 1, otr_durable_transition = durable\<rparr>"

text \<open>The record the transitions move: the next state, with version and fence advanced.\<close>

definition advance_operation :: "IngestionOperationState \<Rightarrow> IngestionOperationRecord \<Rightarrow> IngestionOperationRecord" where
  "advance_operation st r = r\<lparr>ir_state := st, ir_state_version := ir_state_version r + 1, ir_fence_token := ir_fence_token r + 1\<rparr>"

definition current_operation :: "IngestionOperationIdentity \<Rightarrow> LifecycleStore \<Rightarrow> IngestionOperationRecord option" where
  "current_operation identity s = (case ls_operations s (io_operation_id identity) of
     None \<Rightarrow> None | Some r \<Rightarrow> if ir_identity r \<noteq> identity then None else Some r)"

definition guarded_operation :: "IngestionOperationRecord \<Rightarrow> IngestionOperationState \<Rightarrow> int \<Rightarrow> int \<Rightarrow> bool" where
  "guarded_operation r st expected_state_version expected_fence \<longleftrightarrow>
     ir_state r = st \<and> ir_state_version r = expected_state_version \<and> ir_fence_token r = expected_fence"

definition prepare_proven_not_executed_retry ::
    "IngestionOperationIdentity \<Rightarrow> int \<Rightarrow> int \<Rightarrow> LifecycleStore \<Rightarrow> (LifecycleStore \<times> IngestionOperationTransitionResult) res" where
  "prepare_proven_not_executed_retry identity expected_state_version expected_fence s =
     (case current_operation identity s of
        None \<Rightarrow> Inr (s, transition_result IngestionOperationTransitionOutcome.IDENTITY_CONFLICT None False)
      | Some current \<Rightarrow>
          if ir_state current = IngestionOperationState.READY_FOR_DISPATCH
          then Inr (s, transition_result IngestionOperationTransitionOutcome.ALREADY_COMMITTED (Some current) False)
          else if \<not> guarded_operation current IngestionOperationState.PROVEN_NOT_EXECUTED expected_state_version expected_fence
          then Inr (s, transition_result IngestionOperationTransitionOutcome.STALE (Some current) False)
          else case ir_attempt current of
            None \<Rightarrow> Inr (s, transition_result IngestionOperationTransitionOutcome.STALE (Some current) False)
          | Some a \<Rightarrow>
              bind_res (IngestionOperationRecord_post_init
                ((advance_operation IngestionOperationState.READY_FOR_DISPATCH current)
                   \<lparr>ir_attempt_history := with_attempt a (ir_attempt_history current)\<rparr>)) (\<lambda>ready.
              Inr (add_event (operation_event (''ingestion-retry-ready:'' @ io_operation_id identity @ '':'' @ str_int (ir_state_version ready))
                       ''INGESTION_RETRY_READY'' identity)
                     (s\<lparr>ls_operations := (ls_operations s)(io_operation_id identity \<mapsto> ready)\<rparr>),
                   transition_result IngestionOperationTransitionOutcome.COMMITTED (Some ready) True)))"

definition mark_pending_reconciliation ::
    "IngestionOperationIdentity \<Rightarrow> int \<Rightarrow> int \<Rightarrow> LifecycleStore \<Rightarrow> (LifecycleStore \<times> IngestionOperationTransitionResult) res" where
  "mark_pending_reconciliation identity expected_state_version expected_fence s =
     (case current_operation identity s of
        None \<Rightarrow> Inr (s, transition_result IngestionOperationTransitionOutcome.IDENTITY_CONFLICT None False)
      | Some current \<Rightarrow>
          if ir_state current = IngestionOperationState.PENDING_RECONCILIATION
          then Inr (s, transition_result IngestionOperationTransitionOutcome.ALREADY_COMMITTED (Some current) False)
          else if \<not> guarded_operation current IngestionOperationState.PARSE_DISPATCH_STARTED expected_state_version expected_fence
          then Inr (s, transition_result IngestionOperationTransitionOutcome.STALE (Some current) False)
          else
            bind_res (IngestionOperationRecord_post_init
                (advance_operation IngestionOperationState.PENDING_RECONCILIATION current)) (\<lambda>pending.
            Inr (add_event (operation_event (''ingestion-reconcile:'' @ io_operation_id identity) ''INGESTION_RECONCILIATION_REQUIRED'' identity)
                   (s\<lparr>ls_operations := (ls_operations s)(io_operation_id identity \<mapsto> pending)\<rparr>),
                 transition_result IngestionOperationTransitionOutcome.COMMITTED (Some pending) True)))"

definition mark_quarantined ::
    "IngestionOperationIdentity \<Rightarrow> int \<Rightarrow> int \<Rightarrow> LifecycleStore \<Rightarrow> (LifecycleStore \<times> IngestionOperationTransitionResult) res" where
  "mark_quarantined identity expected_state_version expected_fence s =
     (case current_operation identity s of
        None \<Rightarrow> Inr (s, transition_result IngestionOperationTransitionOutcome.IDENTITY_CONFLICT None False)
      | Some current \<Rightarrow>
          if ir_state current = IngestionOperationState.QUARANTINED
          then Inr (s, transition_result IngestionOperationTransitionOutcome.ALREADY_COMMITTED (Some current) False)
          else if \<not> guarded_operation current IngestionOperationState.PARSE_DISPATCH_STARTED expected_state_version expected_fence
          then Inr (s, transition_result IngestionOperationTransitionOutcome.STALE (Some current) False)
          else
            bind_res (IngestionOperationRecord_post_init
                (advance_operation IngestionOperationState.QUARANTINED current)) (\<lambda>quarantined.
            case ls_versions s (version_key (io_version identity)) of
              None \<Rightarrow> Inr (s, transition_result IngestionOperationTransitionOutcome.STALE (Some current) False)
            | Some v \<Rightarrow>
                if vl_state v \<noteq> DocumentVersionLifecycle.REGISTERED
                then Inr (s, transition_result IngestionOperationTransitionOutcome.STALE (Some current) False)
                else
                  bind_res (DocumentVersionLifecycleRecord_post_init
                      (v\<lparr>vl_state := DocumentVersionLifecycle.QUARANTINED, vl_state_version := vl_state_version v + 1,
                         vl_fence_token := vl_fence_token v + 1\<rparr>)) (\<lambda>quarantined_version.
                  Inr (add_event (operation_event (''ingestion-quarantined:'' @ io_operation_id identity) ''INGESTION_QUARANTINED'' identity)
                         (s\<lparr>ls_operations := (ls_operations s)(io_operation_id identity \<mapsto> quarantined),
                            ls_versions := (ls_versions s)(version_key (io_version identity) \<mapsto> quarantined_version)\<rparr>),
                       transition_result IngestionOperationTransitionOutcome.COMMITTED (Some quarantined) True))))"

definition commit_authoritative_reconciliation ::
    "IngestionOperationIdentity \<Rightarrow> IngestionOperationState \<Rightarrow> int \<Rightarrow> int \<Rightarrow> LifecycleStore
      \<Rightarrow> (LifecycleStore \<times> IngestionOperationTransitionResult) res" where
  "commit_authoritative_reconciliation identity target_state expected_state_version expected_fence s =
     (if target_state \<notin> {IngestionOperationState.FAILED, IngestionOperationState.PROVEN_NOT_EXECUTED}
      then Inl (ValueError ''unsupported authoritative reconciliation target'')
      else case current_operation identity s of
        None \<Rightarrow> Inr (s, transition_result IngestionOperationTransitionOutcome.IDENTITY_CONFLICT None False)
      | Some current \<Rightarrow>
          if ir_state current = target_state
          then Inr (s, transition_result IngestionOperationTransitionOutcome.ALREADY_COMMITTED (Some current) False)
          else if \<not> guarded_operation current IngestionOperationState.PENDING_RECONCILIATION expected_state_version expected_fence
          then Inr (s, transition_result IngestionOperationTransitionOutcome.STALE (Some current) False)
          else
            bind_res (IngestionOperationRecord_post_init (advance_operation target_state current)) (\<lambda>reconciled.
            let (prefix, event_type) = (if target_state = IngestionOperationState.PROVEN_NOT_EXECUTED
                   then (''ingestion_proven_not_executed:'', ''INGESTION_PROVEN_NOT_EXECUTED'')
                   else (''ingestion_authoritative_failure:'', ''INGESTION_AUTHORITATIVE_FAILURE'')) in
            Inr (add_event (operation_event (prefix @ io_operation_id identity) event_type identity)
                   (s\<lparr>ls_operations := (ls_operations s)(io_operation_id identity \<mapsto> reconciled)\<rparr>),
                 transition_result IngestionOperationTransitionOutcome.COMMITTED (Some reconciled) True)))"

section \<open>Tombstones\<close>

definition commit_result :: "IngestionCommitOutcome \<Rightarrow> string \<Rightarrow> IngestionCommitResult" where
  "commit_result outcome reason = \<lparr>icr_outcome = outcome, icr_safe_reason = reason, icr_document = None, icr_version = None,
     icr_operation = None, icr_parsed_artifact = None, icr_committer_calls = 1, icr_durable_transition = False\<rparr>"

definition advance_version :: "DocumentVersionLifecycle \<Rightarrow> DocumentVersionLifecycleRecord \<Rightarrow> DocumentVersionLifecycleRecord" where
  "advance_version st v = v\<lparr>vl_state := st, vl_state_version := vl_state_version v + 1, vl_fence_token := vl_fence_token v + 1\<rparr>"

text \<open>The active version under the document's pointer, if there is a pointer.\<close>

definition tombstone_version ::
    "DocumentIdentity \<Rightarrow> DocumentHeadSnapshot \<Rightarrow> LifecycleStore
      \<Rightarrow> (DocumentVersionLifecycleRecord option + (LifecycleStore \<times> DocumentVersionLifecycleRecord option)) res" where
  "tombstone_version identity document s =
     (case dh_active_version_id document of
        None \<Rightarrow> Inr (Inr (s, None))
      | Some vid \<Rightarrow>
          let key = (di_tenant_id identity, di_document_id identity, vid) in
          (case ls_versions s key of
             None \<Rightarrow> Inr (Inl None)
           | Some v \<Rightarrow>
               if vl_state v \<noteq> DocumentVersionLifecycle.ACTIVE then Inr (Inl (Some v))
               else
                 bind_res (DocumentVersionLifecycleRecord_post_init (advance_version DocumentVersionLifecycle.TOMBSTONED v)) (\<lambda>v'.
                 Inr (Inr (s\<lparr>ls_versions := (ls_versions s)(key \<mapsto> v')\<rparr>, Some v')))))"

definition tombstone_document ::
    "DocumentIdentity \<Rightarrow> DocumentHeadState \<Rightarrow> int \<Rightarrow> int \<Rightarrow> LifecycleStore \<Rightarrow> (LifecycleStore \<times> IngestionCommitResult) res" where
  "tombstone_document identity expected_state expected_state_version expected_fence s =
     (case ls_documents s (document_key identity) of
        None \<Rightarrow> Inr (s, commit_result IngestionCommitOutcome.BINDING_CONFLICT ''DOCUMENT_NOT_FOUND'')
      | Some document \<Rightarrow>
          if dh_state document = DocumentHeadState.TOMBSTONED
          then Inr (s, (commit_result IngestionCommitOutcome.ALREADY_COMMITTED ''DOCUMENT_ALREADY_TOMBSTONED'')
                         \<lparr>icr_document := Some document\<rparr>)
          else if dh_state document \<noteq> expected_state \<or> dh_state_version document \<noteq> expected_state_version
            \<or> dh_fence_token document \<noteq> expected_fence
          then Inr (s, (commit_result IngestionCommitOutcome.DOCUMENT_STALE ''DOCUMENT_STATE_VERSION_OR_FENCE_CHANGED'')
                         \<lparr>icr_document := Some document\<rparr>)
          else
            bind_res (tombstone_version identity document s) (\<lambda>r.
            case r of
              Inl v \<Rightarrow> Inr (s, (commit_result IngestionCommitOutcome.VERSION_STALE ''ACTIVE_POINTER_DOES_NOT_BIND_ACTIVE_VERSION'')
                              \<lparr>icr_document := Some document, icr_version := v\<rparr>)
            | Inr (s', active_version) \<Rightarrow>
                bind_res (DocumentHeadSnapshot_post_init
                    (document\<lparr>dh_state := DocumentHeadState.TOMBSTONED, dh_active_version_id := None,
                              dh_state_version := dh_state_version document + 1, dh_fence_token := dh_fence_token document + 1\<rparr>)) (\<lambda>tombstoned.
                Inr (add_event \<lparr>lo_event_id = ''document-tombstoned:'' @ di_tenant_id identity @ '':'' @ di_document_id identity @ '':'' @
                         str_int (dh_state_version tombstoned),
                       lo_event_type = ''DOCUMENT_TOMBSTONED'', lo_tenant_id = di_tenant_id identity,
                       lo_document_id = di_document_id identity,
                       lo_document_version_id = (case active_version of
                          Some v \<Rightarrow> vi_document_version_id (vd_identity (vl_definition v)) | None \<Rightarrow> ''none''),
                       lo_operation_id = ''lifecycle-tombstone'', lo_published_at_epoch_ms = None\<rparr>
                       (s'\<lparr>ls_documents := (ls_documents s')(document_key identity \<mapsto> tombstoned)\<rparr>),
                     (commit_result IngestionCommitOutcome.COMMITTED ''DOCUMENT_TOMBSTONE_PUBLISHED_EVIDENCE_RETAINED'')
                       \<lparr>icr_document := Some tombstoned, icr_version := active_version, icr_durable_transition := True\<rparr>))))"


section \<open>Activation\<close>

definition bindings_match ::
    "DocumentHeadSnapshot \<Rightarrow> DocumentVersionLifecycleRecord \<Rightarrow> IngestionOperationRecord \<Rightarrow> IngestionActivationProposal \<Rightarrow> bool" where
  "bindings_match document version operation proposal \<longleftrightarrow>
     (let po = ap_operation proposal; artifact = ap_parsed_artifact proposal in
      dh_identity document = vi_document (io_version po) \<and>
      vd_identity (vl_definition version) = io_version po \<and>
      vd_source_artifact_id (vl_definition version) = io_source_artifact_id po \<and>
      ir_identity operation = po \<and>
      ir_attempt operation = Some (ap_attempt proposal) \<and>
      px_version artifact = io_version po \<and>
      px_source_artifact_id artifact = io_source_artifact_id po \<and>
      pm_operation_id (px_manifest artifact) = io_operation_id po \<and>
      pm_idempotency_key (px_manifest artifact) = io_idempotency_key po)"

definition already_committed ::
    "DocumentHeadSnapshot \<Rightarrow> DocumentVersionLifecycleRecord \<Rightarrow> IngestionOperationRecord \<Rightarrow> ParsedArtifactDefinition \<Rightarrow> bool" where
  "already_committed document version operation artifact \<longleftrightarrow>
     dh_state document = DocumentHeadState.ACTIVE \<and>
     dh_active_version_id document = Some (vi_document_version_id (vd_identity (vl_definition version))) \<and>
     vl_state version = DocumentVersionLifecycle.ACTIVE \<and>
     vl_parsed_artifact_id version = Some (px_parsed_artifact_id artifact) \<and>
     ir_state operation = IngestionOperationState.COMPLETED"

definition document_guard_matches :: "DocumentHeadSnapshot \<Rightarrow> IngestionActivationGuard \<Rightarrow> bool" where
  "document_guard_matches document g \<longleftrightarrow>
     dh_state document = ag_document_state g \<and> dh_active_version_id document = ag_active_version_id g \<and>
     dh_state_version document = ag_document_state_version g \<and> dh_fence_token document = ag_document_fence g"

definition version_guard_matches :: "DocumentVersionLifecycleRecord \<Rightarrow> IngestionActivationGuard \<Rightarrow> bool" where
  "version_guard_matches version g \<longleftrightarrow>
     vl_state version = ag_version_state g \<and> vl_state_version version = ag_version_state_version g \<and>
     vl_fence_token version = ag_version_fence g"

definition operation_guard_matches :: "IngestionOperationRecord \<Rightarrow> IngestionActivationGuard \<Rightarrow> bool" where
  "operation_guard_matches operation g \<longleftrightarrow>
     ir_state operation = ag_operation_state g \<and> ir_state_version operation = ag_operation_state_version g \<and>
     ir_fence_token operation = ag_operation_fence g"

text \<open>Superseding the version the pointer names, when it is another one: \<open>None\<close> is a pointer to no active version.\<close>

definition supersede_previous ::
    "DocumentHeadSnapshot \<Rightarrow> DocumentVersionIdentity \<Rightarrow> LifecycleStore \<Rightarrow> LifecycleStore option res" where
  "supersede_previous document identity s =
     (case dh_active_version_id document of
        None \<Rightarrow> Inr (Some s)
      | Some previous_id \<Rightarrow>
          if previous_id = [] \<or> previous_id = vi_document_version_id identity then Inr (Some s)
          else
            let key = (vi_tenant_id identity, vi_document_id identity, previous_id) in
            (case ls_versions s key of
               None \<Rightarrow> Inr None
             | Some previous \<Rightarrow>
                 if vl_state previous \<noteq> DocumentVersionLifecycle.ACTIVE then Inr None
                 else
                   bind_res (DocumentVersionLifecycleRecord_post_init (advance_version DocumentVersionLifecycle.SUPERSEDED previous)) (\<lambda>p.
                   Inr (Some (s\<lparr>ls_versions := (ls_versions s)(key \<mapsto> p)\<rparr>)))))"

definition activate ::
    "DocumentHeadSnapshot \<Rightarrow> DocumentVersionLifecycleRecord \<Rightarrow> IngestionOperationRecord \<Rightarrow> IngestionActivationProposal
      \<Rightarrow> LifecycleStore \<Rightarrow> (LifecycleStore \<times> IngestionCommitResult) res" where
  "activate document version operation proposal s =
     (let po = ap_operation proposal; artifact = ap_parsed_artifact proposal; identity = io_version po;
          commit_id = ''activate:'' @ io_operation_id po @ '':'' @ str_int (dh_state_version document + 1) in
      bind_res (DocumentVersionLifecycleRecord_post_init
          (version\<lparr>vl_state := DocumentVersionLifecycle.ACTIVE, vl_parsed_artifact_id := Some (px_parsed_artifact_id artifact),
                   vl_activation_commit_id := Some commit_id, vl_state_version := vl_state_version version + 1,
                   vl_fence_token := vl_fence_token version + 1\<rparr>)) (\<lambda>committed_version.
      bind_res (DocumentHeadSnapshot_post_init
          (document\<lparr>dh_state := DocumentHeadState.ACTIVE, dh_active_version_id := Some (vi_document_version_id identity),
                    dh_state_version := dh_state_version document + 1, dh_fence_token := dh_fence_token document + 1\<rparr>)) (\<lambda>committed_document.
      bind_res (IngestionOperationRecord_post_init (advance_operation IngestionOperationState.COMPLETED operation)) (\<lambda>committed_operation.
      Inr (add_event (operation_event (''document-version-active:'' @ io_operation_id po) ''DOCUMENT_VERSION_ACTIVATED'' po)
             (s\<lparr>ls_parsed_artifacts := (case ls_parsed_artifacts s (px_parsed_artifact_id artifact) of
                  Some _ \<Rightarrow> ls_parsed_artifacts s
                | None \<Rightarrow> (ls_parsed_artifacts s)(px_parsed_artifact_id artifact \<mapsto> artifact)),
                ls_versions := (ls_versions s)(version_key identity \<mapsto> committed_version),
                ls_documents := (ls_documents s)(document_key (vi_document identity) \<mapsto> committed_document),
                ls_operations := (ls_operations s)(io_operation_id po \<mapsto> committed_operation)\<rparr>),
           \<lparr>icr_outcome = IngestionCommitOutcome.COMMITTED, icr_safe_reason = ''DOCUMENT_VERSION_ACTIVATED'',
            icr_document = Some committed_document, icr_version = Some committed_version,
            icr_operation = Some committed_operation, icr_parsed_artifact = Some artifact, icr_committer_calls = 1,
            icr_durable_transition = True\<rparr>)))))"

definition commit_facts ::
    "IngestionCommitOutcome \<Rightarrow> string \<Rightarrow> DocumentHeadSnapshot \<Rightarrow> DocumentVersionLifecycleRecord \<Rightarrow> IngestionOperationRecord
      \<Rightarrow> IngestionCommitResult" where
  "commit_facts outcome reason document version operation =
     (commit_result outcome reason)\<lparr>icr_document := Some document, icr_version := Some version, icr_operation := Some operation\<rparr>"

text \<open>The activation once the three current facts are read: the store, and the result or the exception.\<close>

definition commit_current ::
    "DocumentHeadSnapshot \<Rightarrow> DocumentVersionLifecycleRecord \<Rightarrow> IngestionOperationRecord \<Rightarrow> IngestionActivationProposal
      \<Rightarrow> IngestionActivationGuard \<Rightarrow> LifecycleStore \<Rightarrow> LifecycleStore \<times> IngestionCommitResult res" where
  "commit_current document version operation proposal g s =
     (let artifact = ap_parsed_artifact proposal in
      if \<not> bindings_match document version operation proposal
      then (s, Inr (commit_facts IngestionCommitOutcome.BINDING_CONFLICT ''ACTIVATION_PROPOSAL_BINDING_CONFLICT'' document version operation))
      else if already_committed document version operation artifact
      then (s, Inr ((commit_facts IngestionCommitOutcome.ALREADY_COMMITTED ''ACTIVATION_ALREADY_COMMITTED'' document version operation)
                      \<lparr>icr_parsed_artifact := Some artifact\<rparr>))
      else if \<not> document_guard_matches document g
      then (s, Inr (commit_facts IngestionCommitOutcome.DOCUMENT_STALE ''DOCUMENT_STATE_VERSION_OR_FENCE_CHANGED'' document version operation))
      else if \<not> version_guard_matches version g
      then (s, Inr (commit_facts IngestionCommitOutcome.VERSION_STALE ''DOCUMENT_VERSION_STATE_VERSION_OR_FENCE_CHANGED'' document version operation))
      else if \<not> operation_guard_matches operation g
      then (s, Inr (commit_facts IngestionCommitOutcome.OPERATION_STALE ''INGESTION_OPERATION_STATE_VERSION_OR_FENCE_CHANGED'' document version operation))
      else if ls_parsed_artifacts s (px_parsed_artifact_id artifact) \<noteq> None
        \<and> ls_parsed_artifacts s (px_parsed_artifact_id artifact) \<noteq> Some artifact
      then (s, Inr (commit_facts IngestionCommitOutcome.ARTIFACT_CONFLICT ''PARSED_ARTIFACT_IDENTITY_CONFLICT'' document version operation))
      else case supersede_previous document (io_version (ap_operation proposal)) s of
        Inl e \<Rightarrow> (s, Inl e)
      | Inr None \<Rightarrow> (s, Inr (commit_facts IngestionCommitOutcome.BINDING_CONFLICT ''ACTIVE_POINTER_DOES_NOT_BIND_AN_ACTIVE_VERSION''
                              document version operation))
      | Inr (Some s') \<Rightarrow>
          (case activate document version operation proposal s' of Inl e \<Rightarrow> (s', Inl e) | Inr (s'', r) \<Rightarrow> (s'', Inr r)))"

definition commit_activation ::
    "CandidateValidationDecision \<Rightarrow> IngestionActivationGuard \<Rightarrow> LifecycleStore \<Rightarrow> LifecycleStore \<times> IngestionCommitResult res" where
  "commit_activation decision g s =
     (if vc_outcome decision \<noteq> CandidateValidationOutcome.READY_FOR_COMMIT
      then (s, Inr (commit_result IngestionCommitOutcome.NOT_READY ''VALIDATED_ACTIVATION_PROPOSAL_REQUIRED''))
      else case vc_proposal decision of
        None \<Rightarrow> (s, Inr (commit_result IngestionCommitOutcome.NOT_READY ''VALIDATED_ACTIVATION_PROPOSAL_REQUIRED''))
      | Some proposal \<Rightarrow>
          (case (ls_documents s (document_key (vi_document (io_version (ap_operation proposal)))),
                 ls_versions s (version_key (io_version (ap_operation proposal))),
                 ls_operations s (io_operation_id (ap_operation proposal))) of
             (Some document, Some version, Some operation) \<Rightarrow> commit_current document version operation proposal g s
           | _ \<Rightarrow> (s, Inr (commit_result IngestionCommitOutcome.BINDING_CONFLICT ''CURRENT_LIFECYCLE_FACTS_NOT_FOUND''))))"

section \<open>The lifecycle as a machine\<close>

text \<open>
  The requests a store receives. The arguments are constructed dataclasses; a request whose
  identities their constructors refuse does not exist and changes nothing. Activations carry the
  decision of the candidate validator, as both callers of \<open>commit\<close> do. The store's \<^verbatim>\<open>register\<close>
  (\<open>register_facts\<close>), which seeds a store with arbitrary facts for tests and exercises, is not a request: a reachable
  store is one reached from the empty store through the committer.
\<close>

datatype LifecycleEvent =
    Intake IngestionOperationIdentity DocumentVersionDefinition SourceArtifactReference
  | ClaimDispatch IngestionOperationIdentity ParserAttemptIdentity IngestionOperationState int int
  | PrepareRetry IngestionOperationIdentity int int
  | MarkPending IngestionOperationIdentity int int
  | MarkQuarantined IngestionOperationIdentity int int
  | Reconcile IngestionOperationIdentity IngestionOperationState int int
  | Tombstone DocumentIdentity DocumentHeadState int int
  | Activate IngestionOperationIdentity DocumentVersionDefinition SourceArtifactReference ParserAttemptIdentity
      ParsedDocumentCandidate IngestionActivationGuard

definition store_after :: "LifecycleStore \<Rightarrow> (LifecycleStore \<times> 'r) res \<Rightarrow> LifecycleStore" where
  "store_after s r = (case r of Inl _ \<Rightarrow> s | Inr (s', _) \<Rightarrow> s')"

fun lifecycle_step :: "LifecycleEvent \<Rightarrow> LifecycleStore \<Rightarrow> LifecycleStore" where
  "lifecycle_step (Intake operation version source) s =
     (if is_ok (IngestionOperationIdentity_post_init operation) \<and> is_ok (DocumentVersionIdentity_post_init (vd_identity version))
      then store_after s (register_intake operation version source s) else s)"
| "lifecycle_step (ClaimDispatch identity attempt st sv fence) s = store_after s (claim_parse_dispatch identity attempt st sv fence s)"
| "lifecycle_step (PrepareRetry identity sv fence) s = store_after s (prepare_proven_not_executed_retry identity sv fence s)"
| "lifecycle_step (MarkPending identity sv fence) s = store_after s (mark_pending_reconciliation identity sv fence s)"
| "lifecycle_step (MarkQuarantined identity sv fence) s = store_after s (mark_quarantined identity sv fence s)"
| "lifecycle_step (Reconcile identity target sv fence) s = store_after s (commit_authoritative_reconciliation identity target sv fence s)"
| "lifecycle_step (Tombstone identity st sv fence) s = store_after s (tombstone_document identity st sv fence s)"
| "lifecycle_step (Activate operation version source attempt candidate g) s =
     (case evaluate_parsed_candidate operation version source attempt candidate of
        Inl _ \<Rightarrow> s
      | Inr decision \<Rightarrow> fst (commit_activation decision g s))"

definition lifecycle_run :: "LifecycleEvent list \<Rightarrow> LifecycleStore" where
  "lifecycle_run events = fold lifecycle_step events LifecycleStore_init"

end
