(* ===== verification/Ingestion_Invariant.thy ===== *)
theory Ingestion_Invariant
  imports Ingestion_Lifecycle
begin

text \<open>
  The invariant of the lifecycle store. The central clause equates, for every document, the set of
  its active versions with what its head points to, so there is at most one active version; the
  other clauses keep every stored record constructible, every publication backed by a stored and
  bound artifact, and every index entry resolvable.
\<close>

section \<open>The invariant\<close>

definition active_versions :: "LifecycleStore \<Rightarrow> string \<times> string \<Rightarrow> string set" where
  "active_versions s k = {v. \<exists>r. ls_versions s (fst k, snd k, v) = Some r \<and> vl_state r = DocumentVersionLifecycle.ACTIVE}"

definition pointed_version :: "LifecycleStore \<Rightarrow> string \<times> string \<Rightarrow> string set" where
  "pointed_version s k = (case ls_documents s k of None \<Rightarrow> {} | Some d \<Rightarrow> set_option (dh_active_version_id d))"

definition pointers_ok :: "LifecycleStore \<Rightarrow> bool" where
  "pointers_ok s \<longleftrightarrow> (\<forall>k. active_versions s k = pointed_version s k)"

definition document_ok :: "string \<times> string \<Rightarrow> DocumentHeadSnapshot \<Rightarrow> bool" where
  "document_ok k d \<longleftrightarrow> document_key (dh_identity d) = k \<and> DocumentHeadSnapshot_post_init d = Inr d"

definition version_ok :: "(string \<rightharpoonup> ParsedArtifactDefinition) \<Rightarrow> string \<times> string \<times> string \<Rightarrow> DocumentVersionLifecycleRecord \<Rightarrow> bool" where
  "version_ok artifacts k r \<longleftrightarrow>
     version_key (vd_identity (vl_definition r)) = k \<and> vi_document_version_id (vd_identity (vl_definition r)) \<noteq> [] \<and>
     DocumentVersionLifecycleRecord_post_init r = Inr r \<and>
     (\<forall>a. vl_parsed_artifact_id r = Some a \<longrightarrow> (\<exists>p. artifacts a = Some p \<and> px_parsed_artifact_id p = a \<and> artifact_bound p \<and>
        px_version p = vd_identity (vl_definition r) \<and> px_source_artifact_id p = vd_source_artifact_id (vl_definition r)))"

definition operation_ok :: "LifecycleStore \<Rightarrow> string \<Rightarrow> IngestionOperationRecord \<Rightarrow> bool" where
  "operation_ok s k r \<longleftrightarrow>
     io_operation_id (ir_identity r) = k \<and> IngestionOperationRecord_post_init r = Inr r \<and>
     (\<exists>v src. ls_versions s (version_key (io_version (ir_identity r))) = Some v \<and>
        vd_created_by_operation_id (vl_definition v) = k \<and>
        vd_source_artifact_id (vl_definition v) = io_source_artifact_id (ir_identity r) \<and>
        ls_source_artifacts s (io_source_artifact_id (ir_identity r)) = Some src \<and>
        sx_version src = io_version (ir_identity r) \<and> sx_source_artifact_id src = io_source_artifact_id (ir_identity r) \<and>
        (ir_state r = IngestionOperationState.COMPLETED \<longrightarrow> (\<exists>att a p. ir_attempt r = Some att \<and>
           vl_parsed_artifact_id v = Some a \<and> ls_parsed_artifacts s a = Some p \<and>
           correlation_ok (ir_identity r) att (px_manifest p))))"

definition indexes_ok :: "LifecycleStore \<Rightarrow> bool" where
  "indexes_ok s \<longleftrightarrow>
     (\<forall>k oid. ls_idempotency_operations s k = Some oid \<longrightarrow> ls_operations s oid \<noteq> None) \<and>
     (\<forall>k oid. ls_document_fingerprints s k = Some oid \<longrightarrow> ls_operations s oid \<noteq> None)"

definition lifecycle_inv :: "LifecycleStore \<Rightarrow> bool" where
  "lifecycle_inv s \<longleftrightarrow> pointers_ok s \<and> (\<forall>k d. ls_documents s k = Some d \<longrightarrow> document_ok k d) \<and>
     (\<forall>k r. ls_versions s k = Some r \<longrightarrow> version_ok (ls_parsed_artifacts s) k r) \<and>
     (\<forall>k r. ls_operations s k = Some r \<longrightarrow> operation_ok s k r) \<and> indexes_ok s"

lemma pointers_okD: "pointers_ok s \<Longrightarrow> active_versions s k = pointed_version s k"
  unfolding pointers_ok_def by blast

lemma inv_init: "lifecycle_inv LifecycleStore_init"
  by (simp add: lifecycle_inv_def LifecycleStore_init_def pointers_ok_def active_versions_def pointed_version_def indexes_ok_def)

lemma inv_add_event [simp]: "lifecycle_inv (add_event ev s) = lifecycle_inv s"
  by (simp add: add_event_def lifecycle_inv_def pointers_ok_def active_versions_def pointed_version_def operation_ok_def indexes_ok_def)

lemma inv_dest:
  assumes "lifecycle_inv s"
  shows "ls_documents s k = Some d \<Longrightarrow> document_ok k d"
    "ls_versions s v = Some r \<Longrightarrow> version_ok (ls_parsed_artifacts s) v r"
    "ls_operations s i = Some x \<Longrightarrow> operation_ok s i x" "pointers_ok s" "indexes_ok s"
  using assms unfolding lifecycle_inv_def by blast+

text \<open>Constructors that accept a record accept it with its counters advanced.\<close>

lemma operation_advance_ok:
  assumes "IngestionOperationRecord_post_init r = Inr r" "ir_attempt r \<noteq> None \<or> st \<in> {IngestionOperationState.FAILED,
    IngestionOperationState.QUARANTINED, IngestionOperationState.PROVEN_NOT_EXECUTED, IngestionOperationState.READY_FOR_DISPATCH}"
  shows "IngestionOperationRecord_post_init (advance_operation st r) = Inr (advance_operation st r)"
  using assms by (auto simp: IngestionOperationRecord_post_init_def advance_operation_def split: if_splits)

lemma operation_post_init_id: "IngestionOperationRecord_post_init r = Inr r' \<Longrightarrow> r' = r"
  by (auto simp: IngestionOperationRecord_post_init_def split: if_splits)

lemma version_post_init_id: "DocumentVersionLifecycleRecord_post_init r = Inr r' \<Longrightarrow> r' = r"
  by (auto simp: DocumentVersionLifecycleRecord_post_init_def Let_def split: if_splits)

lemma document_post_init_id: "DocumentHeadSnapshot_post_init r = Inr r' \<Longrightarrow> r' = r"
  by (auto simp: DocumentHeadSnapshot_post_init_def split: if_splits)

section \<open>Updates of one record\<close>

lemma operation_ok_cong:
  assumes "operation_ok s k r" "ls_source_artifacts s' = ls_source_artifacts s"
    and "\<And>v. ls_versions s (version_key (io_version (ir_identity r))) = Some v \<Longrightarrow>
      \<exists>v'. ls_versions s' (version_key (io_version (ir_identity r))) = Some v' \<and> vl_definition v' = vl_definition v \<and>
        vl_parsed_artifact_id v' = vl_parsed_artifact_id v"
    and "\<And>a p. ls_parsed_artifacts s a = Some p \<Longrightarrow> ls_parsed_artifacts s' a = Some p"
  shows "operation_ok s' k r"
proof -
  obtain v src where v: "ls_versions s (version_key (io_version (ir_identity r))) = Some v"
    "vd_created_by_operation_id (vl_definition v) = k"
    "vd_source_artifact_id (vl_definition v) = io_source_artifact_id (ir_identity r)"
    "ls_source_artifacts s (io_source_artifact_id (ir_identity r)) = Some src"
    "sx_version src = io_version (ir_identity r)" "sx_source_artifact_id src = io_source_artifact_id (ir_identity r)"
    "ir_state r = IngestionOperationState.COMPLETED \<Longrightarrow> \<exists>att a p. ir_attempt r = Some att \<and>
       vl_parsed_artifact_id v = Some a \<and> ls_parsed_artifacts s a = Some p \<and> correlation_ok (ir_identity r) att (px_manifest p)"
    using assms(1) unfolding operation_ok_def by blast
  obtain v' where v': "ls_versions s' (version_key (io_version (ir_identity r))) = Some v'" "vl_definition v' = vl_definition v"
    "vl_parsed_artifact_id v' = vl_parsed_artifact_id v"
    using assms(3) [OF v(1)] by blast
  have "\<exists>att a p. ir_attempt r = Some att \<and> vl_parsed_artifact_id v' = Some a \<and> ls_parsed_artifacts s' a = Some p \<and>
      correlation_ok (ir_identity r) att (px_manifest p)" if "ir_state r = IngestionOperationState.COMPLETED"
    using v(7) [OF that] assms(4) v'(3) by metis
  with assms(1,2) v v' show ?thesis unfolding operation_ok_def by auto
qed

text \<open>A new record for an operation, with its identity kept.\<close>

lemma inv_update_operation:
  assumes inv: "lifecycle_inv s" and r: "ls_operations s k = Some r"
    and r': "ir_identity r' = ir_identity r" "IngestionOperationRecord_post_init r' = Inr r'"
      "ir_state r' \<noteq> IngestionOperationState.COMPLETED"
  shows "lifecycle_inv (s\<lparr>ls_operations := (ls_operations s)(k \<mapsto> r')\<rparr>)"
proof -
  have "operation_ok s k r" using inv_dest(3) [OF inv r] .
  then have new: "operation_ok s k r'" using r' by (auto simp: operation_ok_def)
  have cong: "operation_ok (s\<lparr>ls_operations := x\<rparr>) j y = operation_ok s j y" for x j y
    by (simp add: operation_ok_def)
  show ?thesis
    using inv new unfolding lifecycle_inv_def
    by (auto simp: cong pointers_ok_def active_versions_def pointed_version_def indexes_ok_def)
qed

lemma current_operation_Some:
  "current_operation identity s = Some r \<longleftrightarrow> ls_operations s (io_operation_id identity) = Some r \<and> ir_identity r = identity"
  by (auto simp: current_operation_def split: option.splits if_splits)

text \<open>Results that leave the invariant intact, whatever they report.\<close>

definition keeps_inv :: "(LifecycleStore \<times> 'r) res \<Rightarrow> bool" where
  "keeps_inv m \<longleftrightarrow> (\<forall>s' r. m = Inr (s', r) \<longrightarrow> lifecycle_inv s')"

lemma keeps_same: "lifecycle_inv s \<Longrightarrow> keeps_inv (Inr (s, r))"
  by (simp add: keeps_inv_def)

lemma keeps_raise: "keeps_inv (Inl e)"
  by (simp add: keeps_inv_def)

lemma keeps_store_after: "lifecycle_inv s \<Longrightarrow> keeps_inv m \<Longrightarrow> lifecycle_inv (store_after s m)"
  by (cases m) (auto simp: keeps_inv_def store_after_def)

lemmas keeps_if = if_prop [where P = keeps_inv]

text \<open>The common end of the transitions: construct the next record, store it, add an event.\<close>

lemma keeps_operation:
  assumes inv: "lifecycle_inv s" and r: "ls_operations s k = Some r"
    and x: "ir_identity x = ir_identity r" "ir_state x \<noteq> IngestionOperationState.COMPLETED"
  shows "keeps_inv (bind_res (IngestionOperationRecord_post_init x) (\<lambda>r'. Inr (s\<lparr>ls_operations := (ls_operations s)(k \<mapsto> r')\<rparr>, res' r')))"
    and "keeps_inv (bind_res (IngestionOperationRecord_post_init x) (\<lambda>r'. Inr (add_event (ev r')
      (s\<lparr>ls_operations := (ls_operations s)(k \<mapsto> r')\<rparr>), res' r')))"
  unfolding keeps_inv_def
  using inv_update_operation [OF inv r] x operation_post_init_id [of x] by (auto simp: bind_res_eq_Inr)

lemma inv_claim:
  assumes inv: "lifecycle_inv s"
  shows "keeps_inv (claim_parse_dispatch identity attempt st sv fence s)"
proof (cases "ls_operations s (io_operation_id identity)")
  case None
  then show ?thesis by (simp add: claim_parse_dispatch_def keeps_same inv)
next
  case (Some r)
  show ?thesis
    unfolding claim_parse_dispatch_def Some option.case Let_def
    by (intro keeps_if keeps_same inv keeps_operation(1) [OF inv Some]) simp_all
qed

lemma inv_prepare_retry:
  assumes inv: "lifecycle_inv s"
  shows "keeps_inv (prepare_proven_not_executed_retry identity sv fence s)"
proof (cases "current_operation identity s")
  case None
  then show ?thesis by (simp add: prepare_proven_not_executed_retry_def keeps_same inv)
next
  case (Some r)
  then have r: "ls_operations s (io_operation_id identity) = Some r" by (simp add: current_operation_Some)
  have "keeps_inv (case ir_attempt r of
      None \<Rightarrow> Inr (s, transition_result IngestionOperationTransitionOutcome.STALE (Some r) False)
    | Some a \<Rightarrow> bind_res (IngestionOperationRecord_post_init
          ((advance_operation IngestionOperationState.READY_FOR_DISPATCH r)\<lparr>ir_attempt_history := with_attempt a (ir_attempt_history r)\<rparr>)) (\<lambda>ready.
        Inr (add_event (ev ready) (s\<lparr>ls_operations := (ls_operations s)(io_operation_id identity \<mapsto> ready)\<rparr>), res ready)))" for ev res
    by (cases "ir_attempt r") (auto intro!: keeps_same inv keeps_operation(2) [OF inv r] simp: advance_operation_def)
  then show ?thesis
    unfolding prepare_proven_not_executed_retry_def Some option.case by (intro keeps_if keeps_same inv)
qed

lemma inv_mark_pending:
  assumes inv: "lifecycle_inv s"
  shows "keeps_inv (mark_pending_reconciliation identity sv fence s)"
proof (cases "current_operation identity s")
  case None
  then show ?thesis by (simp add: mark_pending_reconciliation_def keeps_same inv)
next
  case (Some r)
  then have r: "ls_operations s (io_operation_id identity) = Some r" by (simp add: current_operation_Some)
  show ?thesis
    unfolding mark_pending_reconciliation_def Some option.case
    by (intro keeps_if keeps_same inv keeps_operation(2) [OF inv r]) (simp_all add: advance_operation_def)
qed

lemma inv_reconcile:
  assumes inv: "lifecycle_inv s"
  shows "keeps_inv (commit_authoritative_reconciliation identity target sv fence s)"
proof (cases "current_operation identity s")
  case None
  then show ?thesis by (simp add: commit_authoritative_reconciliation_def keeps_same keeps_raise inv)
next
  case (Some r)
  then have r: "ls_operations s (io_operation_id identity) = Some r" by (simp add: current_operation_Some)
  show ?thesis
    unfolding commit_authoritative_reconciliation_def Some option.case Let_def split_beta
    by (intro keeps_if keeps_same keeps_raise inv keeps_operation(2) [OF inv r]) (auto simp: advance_operation_def)
qed

section \<open>Updates of versions and documents\<close>

text \<open>A version that is not and does not become active.\<close>

lemma version_ok_mono:
  assumes "version_ok A k r" "\<And>a p. A a = Some p \<Longrightarrow> A' a = Some p"
  shows "version_ok A' k r"
  using assms unfolding version_ok_def by blast

lemma version_ok_advance:
  assumes "version_ok A k r" "vl_definition r' = vl_definition r" "vl_parsed_artifact_id r' = vl_parsed_artifact_id r"
    "DocumentVersionLifecycleRecord_post_init r' = Inr r'"
  shows "version_ok A k r'"
  using assms unfolding version_ok_def by simp

lemma version_advance_valid:
  assumes "DocumentVersionLifecycleRecord_post_init v = Inr v" "vl_state v = DocumentVersionLifecycle.ACTIVE"
    "st \<in> {DocumentVersionLifecycle.SUPERSEDED, DocumentVersionLifecycle.TOMBSTONED}"
  shows "DocumentVersionLifecycleRecord_post_init (advance_version st v) = Inr (advance_version st v)"
  using assms by (auto simp: DocumentVersionLifecycleRecord_post_init_def advance_version_def Let_def split: if_splits)

lemma active_versions_upd:
  "active_versions (s\<lparr>ls_versions := (ls_versions s)((t, d, v) \<mapsto> r)\<rparr>) k =
     (if k = (t, d)
      then (if vl_state r = DocumentVersionLifecycle.ACTIVE then insert v (active_versions s k) else active_versions s k - {v})
      else active_versions s k)"
  by (cases k) (auto simp: active_versions_def)

lemma inv_quarantine:
  assumes inv: "lifecycle_inv s"
  shows "keeps_inv (mark_quarantined identity sv fence s)"
proof (cases "current_operation identity s")
  case None
  then show ?thesis by (simp add: mark_quarantined_def keeps_same inv)
next
  case (Some r)
  then have r: "ls_operations s (io_operation_id identity) = Some r" "ir_identity r = identity"
    by (simp_all add: current_operation_Some)
  let ?q = "advance_operation IngestionOperationState.QUARANTINED r"
  let ?k = "version_key (io_version identity)"
  have upd: "lifecycle_inv (s\<lparr>ls_operations := (ls_operations s)(io_operation_id identity \<mapsto> ?q),
      ls_versions := (ls_versions s)(?k \<mapsto> v')\<rparr>)"
    if q: "IngestionOperationRecord_post_init ?q = Inr ?q" and v: "ls_versions s ?k = Some v"
      and reg: "vl_state v = DocumentVersionLifecycle.REGISTERED"
      and v': "v' = v\<lparr>vl_state := DocumentVersionLifecycle.QUARANTINED, vl_state_version := vl_state_version v + 1,
                vl_fence_token := vl_fence_token v + 1\<rparr>" "DocumentVersionLifecycleRecord_post_init v' = Inr v'" for v v'
  proof -
    let ?s1 = "s\<lparr>ls_operations := (ls_operations s)(io_operation_id identity \<mapsto> ?q)\<rparr>"
    have i1: "lifecycle_inv ?s1"
      using inv_update_operation [OF inv r(1), of ?q] q by (simp add: advance_operation_def)
    have vk: "?k = (vi_tenant_id (io_version identity), vi_document_id (io_version identity), vi_document_version_id (io_version identity))"
      by (simp add: version_key_def)
    have act: "active_versions (?s1\<lparr>ls_versions := (ls_versions s)(?k \<mapsto> v')\<rparr>) k = active_versions ?s1 k" for k
      using v reg v'(1) active_versions_upd [of ?s1 "vi_tenant_id (io_version identity)" "vi_document_id (io_version identity)"
          "vi_document_version_id (io_version identity)" v' k]
      by (auto simp: vk active_versions_def)
    have ops: "operation_ok (?s1\<lparr>ls_versions := (ls_versions s)(?k \<mapsto> v')\<rparr>) i x" if "ls_operations ?s1 i = Some x" for i x
      by (rule operation_ok_cong [OF inv_dest(3) [OF i1 that]]) (use v v' in auto)
    have vers: "version_ok (ls_parsed_artifacts s) ?k v'"
      by (rule version_ok_advance [OF inv_dest(2) [OF inv v]]) (use v' in simp_all)
    show ?thesis
      using i1 ops vers unfolding lifecycle_inv_def pointers_ok_def
      by (auto simp: act pointed_version_def indexes_ok_def simp del: fun_upd_apply) (auto split: if_splits)
  qed
  have inner: "keeps_inv (case ls_versions s ?k of
      None \<Rightarrow> Inr (s, r1)
    | Some v \<Rightarrow> if vl_state v \<noteq> DocumentVersionLifecycle.REGISTERED then Inr (s, r1)
        else bind_res (DocumentVersionLifecycleRecord_post_init
            (v\<lparr>vl_state := DocumentVersionLifecycle.QUARANTINED, vl_state_version := vl_state_version v + 1,
               vl_fence_token := vl_fence_token v + 1\<rparr>)) (\<lambda>v'.
          Inr (add_event ev (s\<lparr>ls_operations := (ls_operations s)(io_operation_id identity \<mapsto> ?q),
             ls_versions := (ls_versions s)(?k \<mapsto> v')\<rparr>), r2)))"
    if "IngestionOperationRecord_post_init ?q = Inr ?q" for r1 r2 ev
  proof (cases "ls_versions s ?k")
    case None
    then show ?thesis by (simp add: keeps_same inv)
  next
    case v: (Some v)
    let ?v = "v\<lparr>vl_state := DocumentVersionLifecycle.QUARANTINED, vl_state_version := vl_state_version v + 1,
               vl_fence_token := vl_fence_token v + 1\<rparr>"
    show ?thesis
    proof (cases "vl_state v = DocumentVersionLifecycle.REGISTERED")
      case True
      show ?thesis
      proof (cases "DocumentVersionLifecycleRecord_post_init ?v")
        case (Inr v')
        with upd [OF that v True, of v'] version_post_init_id [OF Inr] show ?thesis
          by (simp add: v True keeps_inv_def)
      qed (simp add: v True keeps_raise)
    qed (simp add: v keeps_same inv)
  qed
  show ?thesis
  proof (cases "IngestionOperationRecord_post_init ?q")
    case (Inl e)
    show ?thesis unfolding mark_quarantined_def Some option.case Inl bind_res_simps
      by (intro keeps_if keeps_same keeps_raise inv)
  next
    case (Inr q)
    then have q: "IngestionOperationRecord_post_init ?q = Inr ?q" using operation_post_init_id [OF Inr] by simp
    show ?thesis unfolding mark_quarantined_def Some option.case q bind_res_simps
      by (intro keeps_if keeps_same inv inner [OF q])
  qed
qed


text \<open>New versions and documents that keep what the operations rely on.\<close>

lemma inv_versions_documents:
  assumes inv: "lifecycle_inv s"
    and vs: "\<And>k r. vs k = Some r \<Longrightarrow> version_ok (ls_parsed_artifacts s) k r"
    and ds: "\<And>k d. ds k = Some d \<Longrightarrow> document_ok k d"
    and keep: "\<And>k v. ls_versions s k = Some v \<Longrightarrow> \<exists>v'. vs k = Some v' \<and> vl_definition v' = vl_definition v \<and>
      vl_parsed_artifact_id v' = vl_parsed_artifact_id v"
    and ptr: "\<And>k. active_versions (s\<lparr>ls_versions := vs\<rparr>) k = pointed_version (s\<lparr>ls_documents := ds\<rparr>) k"
  shows "lifecycle_inv (s\<lparr>ls_versions := vs, ls_documents := ds\<rparr>)"
proof -
  let ?s = "s\<lparr>ls_versions := vs, ls_documents := ds\<rparr>"
  have ops: "operation_ok ?s i x" if "ls_operations s i = Some x" for i x
    by (rule operation_ok_cong [OF inv_dest(3) [OF inv that]]) (use keep in auto)
  have "active_versions ?s k = pointed_version ?s k" for k
    using ptr [of k] by (simp add: active_versions_def pointed_version_def)
  then show ?thesis
    using vs ds ops inv_dest(5) [OF inv] unfolding lifecycle_inv_def pointers_ok_def indexes_ok_def by simp
qed

lemma pointed_upd:
  "pointed_version (s\<lparr>ls_documents := (ls_documents s)(k \<mapsto> d)\<rparr>) j =
     (if j = k then set_option (dh_active_version_id d) else pointed_version s j)"
  by (simp add: pointed_version_def)

lemma inv_tombstone:
  assumes inv: "lifecycle_inv s"
  shows "keeps_inv (tombstone_document identity st sv fence s)"
proof (cases "ls_documents s (document_key identity)")
  case None
  then show ?thesis by (simp add: tombstone_document_def keeps_same inv)
next
  case (Some d)
  let ?k = "document_key identity"
  let ?d = "d\<lparr>dh_state := DocumentHeadState.TOMBSTONED, dh_active_version_id := None,
      dh_state_version := dh_state_version d + 1, dh_fence_token := dh_fence_token d + 1\<rparr>"
  have dok: "document_ok ?k d" using inv_dest(1) [OF inv Some] .
  have d': "DocumentHeadSnapshot_post_init ?d = Inr ?d"
    using dok by (auto simp: document_ok_def DocumentHeadSnapshot_post_init_def opt_nonempty_def split: if_splits)
  have dok': "document_ok ?k ?d" using dok d' by (simp add: document_ok_def)
  have ds: "document_ok j x" if "((ls_documents s)(?k \<mapsto> ?d)) j = Some x" for j x
    using that dok' inv_dest(1) [OF inv, of j x] by (auto split: if_splits)
  have ptr: "active_versions s j = pointed_version s j" for j by (rule pointers_okD [OF inv_dest(4) [OF inv]])
  have tk: "?k = (di_tenant_id identity, di_document_id identity)" by (simp add: document_key_def)
  have inner: "keeps_inv (bind_res (tombstone_version identity d s) (\<lambda>r. case r of Inl v \<Rightarrow> Inr (s, f v)
      | Inr (s', av) \<Rightarrow> bind_res (DocumentHeadSnapshot_post_init ?d) (\<lambda>t.
          Inr (add_event (ev t av) (s'\<lparr>ls_documents := (ls_documents s')(?k \<mapsto> t)\<rparr>), g t av))))" for f g ev
  proof (cases "dh_active_version_id d")
    case None
    have "lifecycle_inv (s\<lparr>ls_versions := ls_versions s, ls_documents := (ls_documents s)(?k \<mapsto> ?d)\<rparr>)"
    proof (rule inv_versions_documents [OF inv])
      show "active_versions (s\<lparr>ls_versions := ls_versions s\<rparr>) j = pointed_version (s\<lparr>ls_documents := (ls_documents s)(?k \<mapsto> ?d)\<rparr>) j" for j
        using ptr [of j] Some None by (auto simp: pointed_upd) (auto simp: pointed_version_def)
    qed (use ds inv_dest(2) [OF inv] in auto)
    then show ?thesis unfolding tombstone_version_def None option.case bind_res_simps d' sum.case prod.case
      by (simp add: keeps_inv_def)
  next
    case vid: (Some vid)
    let ?vk = "(di_tenant_id identity, di_document_id identity, vid)"
    show ?thesis
    proof (cases "ls_versions s ?vk")
      case None
      then show ?thesis by (simp add: tombstone_version_def vid keeps_same inv)
    next
      case v: (Some v)
      show ?thesis
      proof (cases "vl_state v = DocumentVersionLifecycle.ACTIVE")
        case False
        then show ?thesis by (simp add: tombstone_version_def vid v keeps_same inv)
      next
        case True
        let ?v = "advance_version DocumentVersionLifecycle.TOMBSTONED v"
        have vok: "version_ok (ls_parsed_artifacts s) ?vk v" using inv_dest(2) [OF inv v] .
        then have v': "DocumentVersionLifecycleRecord_post_init ?v = Inr ?v"
          using True by (intro version_advance_valid) (auto simp: version_ok_def)
        have vok': "version_ok (ls_parsed_artifacts s) ?vk ?v"
          by (rule version_ok_advance [OF vok]) (use v' in \<open>simp_all add: advance_version_def\<close>)
        have "lifecycle_inv (s\<lparr>ls_versions := (ls_versions s)(?vk \<mapsto> ?v), ls_documents := (ls_documents s)(?k \<mapsto> ?d)\<rparr>)"
        proof (rule inv_versions_documents [OF inv])
          show "version_ok (ls_parsed_artifacts s) j x" if "((ls_versions s)(?vk \<mapsto> ?v)) j = Some x" for j x
            using that vok' inv_dest(2) [OF inv, of j x] by (auto split: if_splits)
          show "\<exists>y. ((ls_versions s)(?vk \<mapsto> ?v)) j = Some y \<and> vl_definition y = vl_definition x \<and>
              vl_parsed_artifact_id y = vl_parsed_artifact_id x" if "ls_versions s j = Some x" for j x
            using that v by (auto simp: advance_version_def)
          show "active_versions (s\<lparr>ls_versions := (ls_versions s)(?vk \<mapsto> ?v)\<rparr>) j =
              pointed_version (s\<lparr>ls_documents := (ls_documents s)(?k \<mapsto> ?d)\<rparr>) j" for j
            using ptr [of j] Some vid
            by (auto simp: pointed_upd active_versions_upd tk advance_version_def) (auto simp: pointed_version_def tk)
        qed (use ds in auto)
        then show ?thesis unfolding tombstone_version_def vid v option.case Let_def
          using True by (simp add: v' d' keeps_inv_def)
      qed
    qed
  qed
  show ?thesis unfolding tombstone_document_def Some option.case
    by (intro keeps_if keeps_same inv inner)
qed

section \<open>Intake\<close>

lemma inv_create:
  assumes inv: "lifecycle_inv s"
    and ids: "io_version operation = vd_identity version" "sx_version source = vd_identity version"
      "io_source_artifact_id operation = sx_source_artifact_id source" "vd_source_artifact_id version = sx_source_artifact_id source"
      "vd_created_by_operation_id version = io_operation_id operation"
    and valid: "vi_document_version_id (vd_identity version) \<noteq> []"
    and fresh: "ls_operations s (io_operation_id operation) = None" "ls_versions s (version_key (vd_identity version)) = None"
      "ls_source_artifacts s (sx_source_artifact_id source) = None"
  shows "lifecycle_inv (fst (intake_create operation version source s))"
proof -
  let ?vk = "version_key (vd_identity version)" and ?dk = "document_key (vi_document (vd_identity version))"
  define d where "d = (case ls_documents s ?dk of Some d \<Rightarrow> d | None \<Rightarrow> new_document (vi_document (vd_identity version)))"
  define s' where "s' = s\<lparr>ls_documents := (ls_documents s)(?dk \<mapsto> d), ls_versions := (ls_versions s)(?vk \<mapsto> new_version version),
    ls_operations := (ls_operations s)(io_operation_id operation \<mapsto> new_operation operation),
    ls_source_artifacts := (ls_source_artifacts s)(sx_source_artifact_id source \<mapsto> source),
    ls_operation_source_fingerprints := (ls_operation_source_fingerprints s)(io_operation_id operation \<mapsto> source_fingerprint_of source version),
    ls_idempotency_operations := (ls_idempotency_operations s)((io_tenant_id operation, io_idempotency_key operation) \<mapsto> io_operation_id operation),
    ls_document_fingerprints := (ls_document_fingerprints s)((io_tenant_id operation, io_document_id operation, source_fingerprint_of source version)
      \<mapsto> io_operation_id operation)\<rparr>"
  have fields: "ls_documents s' = (ls_documents s)(?dk \<mapsto> d)" "ls_versions s' = (ls_versions s)(?vk \<mapsto> new_version version)"
    "ls_operations s' = (ls_operations s)(io_operation_id operation \<mapsto> new_operation operation)"
    "ls_parsed_artifacts s' = ls_parsed_artifacts s"
    "ls_source_artifacts s' = (ls_source_artifacts s)(sx_source_artifact_id source \<mapsto> source)"
    "ls_idempotency_operations s' = (ls_idempotency_operations s)((io_tenant_id operation, io_idempotency_key operation) \<mapsto> io_operation_id operation)"
    "ls_document_fingerprints s' = (ls_document_fingerprints s)((io_tenant_id operation, io_document_id operation, source_fingerprint_of source version)
      \<mapsto> io_operation_id operation)"
    by (simp_all add: s'_def)
  have res: "fst (intake_create operation version source s) = add_event (operation_event (''ingestion-registered:'' @ io_operation_id operation)
      ''INGESTION_REGISTERED'' operation) s'"
    by (simp add: intake_create_def Let_def s'_def d_def)
  have dok: "document_ok ?dk d"
  proof (cases "ls_documents s ?dk")
    case None
    then show ?thesis by (simp add: d_def document_ok_def new_document_def DocumentHeadSnapshot_post_init_def opt_nonempty_def)
  qed (use inv_dest(1) [OF inv, of ?dk] in \<open>simp add: d_def\<close>)
  have dptr: "set_option (dh_active_version_id d) = pointed_version s ?dk"
    by (simp add: d_def pointed_version_def new_document_def split: option.splits)
  have docs: "document_ok k x" if "ls_documents s' k = Some x" for k x
    using that dok inv_dest(1) [OF inv, of k x] by (auto simp: fields split: if_splits)
  have nv: "version_ok (ls_parsed_artifacts s) ?vk (new_version version)"
    using valid by (simp add: version_ok_def new_version_def DocumentVersionLifecycleRecord_post_init_def opt_nonempty_def Let_def)
  have vers: "version_ok (ls_parsed_artifacts s') k x" if "ls_versions s' k = Some x" for k x
    using that nv inv_dest(2) [OF inv, of k x] by (auto simp: fields split: if_splits)
  have act: "active_versions s' k = active_versions s k" for k
    using fresh(2) unfolding active_versions_def fields
    by (auto simp: new_version_def)
  have ptr: "active_versions s' k = pointed_version s' k" for k
    using pointers_okD [OF inv_dest(4) [OF inv], of k] dptr unfolding act
    by (cases "k = ?dk") (auto simp: pointed_version_def fields)
  have nop: "operation_ok s' (io_operation_id operation) (new_operation operation)"
    using ids by (simp add: operation_ok_def new_operation_def fields IngestionOperationRecord_post_init_def new_version_def)
  have old: "operation_ok s' k x" if x: "ls_operations s k = Some x" for k x
  proof -
    have o1: "operation_ok s k x" using inv_dest(3) [OF inv x] .
    then have ne: "version_key (io_version (ir_identity x)) \<noteq> ?vk" "io_source_artifact_id (ir_identity x) \<noteq> sx_source_artifact_id source"
      using fresh(2,3) by (auto simp: operation_ok_def)
    show ?thesis using o1 ne unfolding operation_ok_def fields by simp
  qed
  have ops: "operation_ok s' k x" if "ls_operations s' k = Some x" for k x
    using that nop old by (auto simp: fields split: if_splits)
  have idx: "indexes_ok s'" using inv_dest(5) [OF inv] unfolding indexes_ok_def fields by auto
  have "lifecycle_inv s'" unfolding lifecycle_inv_def pointers_ok_def using ptr docs vers ops idx by blast
  then show ?thesis by (simp add: res)
qed

lemma inv_intake:
  assumes inv: "lifecycle_inv s" and valid: "vi_document_version_id (vd_identity version) \<noteq> []"
  shows "keeps_inv (register_intake operation version source s)"
proof (cases "register_intake operation version source s")
  case (Inr r)
  have "fst r = s \<or> (fst r = fst (intake_create operation version source s) \<and>
    io_version operation = vd_identity version \<and> sx_version source = vd_identity version \<and>
    io_source_artifact_id operation = sx_source_artifact_id source \<and> vd_source_artifact_id version = sx_source_artifact_id source \<and>
    vd_created_by_operation_id version = io_operation_id operation \<and>
    ls_operations s (io_operation_id operation) = None \<and> ls_versions s (version_key (vd_identity version)) = None \<and>
    ls_source_artifacts s (sx_source_artifact_id source) = None)"
    using Inr unfolding register_intake_def Let_def
    by (auto simp: bind_res_eq_Inr split: if_splits option.splits)
  with inv_create [OF inv _ _ _ _ _ valid] inv show ?thesis
    by (cases r) (auto simp: Inr keeps_inv_def)
qed (simp add: keeps_raise)


section \<open>Activation\<close>

lemma keys: "document_key (vi_document i) = (vi_tenant_id i, vi_document_id i)"
  "version_key i = (vi_tenant_id i, vi_document_id i, vi_document_version_id i)"
  by (simp_all add: document_key_def vi_document_def version_key_def)

text \<open>Superseding never fails in a consistent store and leaves at most the activated version active.\<close>

lemma supersede_ok:
  assumes inv: "lifecycle_inv s" and d: "ls_documents s (document_key (vi_document i)) = Some d"
  shows "\<exists>vs. supersede_previous d i s = Inr (Some (s\<lparr>ls_versions := vs\<rparr>)) \<and>
    (\<forall>k r. vs k = Some r \<longrightarrow> version_ok (ls_parsed_artifacts s) k r) \<and>
    (\<forall>k v. ls_versions s k = Some v \<longrightarrow> (\<exists>v'. vs k = Some v' \<and> vl_definition v' = vl_definition v \<and>
      vl_parsed_artifact_id v' = vl_parsed_artifact_id v)) \<and>
    vs (version_key i) = ls_versions s (version_key i) \<and>
    (\<forall>k. k \<noteq> document_key (vi_document i) \<longrightarrow> active_versions (s\<lparr>ls_versions := vs\<rparr>) k = active_versions s k) \<and>
    active_versions (s\<lparr>ls_versions := vs\<rparr>) (document_key (vi_document i)) \<subseteq> {vi_document_version_id i}"
proof -
  let ?dk = "document_key (vi_document i)"
  have act: "active_versions s ?dk = set_option (dh_active_version_id d)"
    using pointers_okD [OF inv_dest(4) [OF inv], of ?dk] d by (simp add: pointed_version_def)
  have same: "s\<lparr>ls_versions := ls_versions s\<rparr> = s" by simp
  show ?thesis
  proof (cases "dh_active_version_id d = None \<or> dh_active_version_id d = Some (vi_document_version_id i)")
    case True
    then have "supersede_previous d i s = Inr (Some (s\<lparr>ls_versions := ls_versions s\<rparr>))" by (auto simp: supersede_previous_def)
    moreover have "active_versions s ?dk \<subseteq> {vi_document_version_id i}" using True act by auto
    ultimately show ?thesis
      by (intro exI [of _ "ls_versions s"]) (use inv_dest(2) [OF inv] in \<open>auto simp: same\<close>)
  next
    case False
    then obtain pid where pid: "dh_active_version_id d = Some pid" "pid \<noteq> vi_document_version_id i" by auto
    let ?pk = "(vi_tenant_id i, vi_document_id i, pid)"
    have "pid \<in> active_versions s ?dk" using act pid by simp
    then obtain p where p: "ls_versions s ?pk = Some p" "vl_state p = DocumentVersionLifecycle.ACTIVE"
      by (auto simp: active_versions_def keys)
    have pok: "version_ok (ls_parsed_artifacts s) ?pk p" using inv_dest(2) [OF inv p(1)] .
    have ne: "pid \<noteq> []" using pok by (auto simp: version_ok_def version_key_def)
    let ?p = "advance_version DocumentVersionLifecycle.SUPERSEDED p"
    have p': "DocumentVersionLifecycleRecord_post_init ?p = Inr ?p"
      using pok p(2) by (intro version_advance_valid) (auto simp: version_ok_def)
    have pok': "version_ok (ls_parsed_artifacts s) ?pk ?p"
      by (rule version_ok_advance [OF pok]) (use p' in \<open>simp_all add: advance_version_def\<close>)
    let ?vs = "(ls_versions s)(?pk \<mapsto> ?p)"
    have "supersede_previous d i s = Inr (Some (s\<lparr>ls_versions := ?vs\<rparr>))"
      using pid ne p p' by (simp add: supersede_previous_def Let_def)
    moreover have "version_ok (ls_parsed_artifacts s) k r" if "?vs k = Some r" for k r
      using that pok' inv_dest(2) [OF inv, of k r] by (auto split: if_splits)
    moreover have "\<exists>v'. ?vs k = Some v' \<and> vl_definition v' = vl_definition v \<and> vl_parsed_artifact_id v' = vl_parsed_artifact_id v"
      if "ls_versions s k = Some v" for k v using that p by (auto simp: advance_version_def)
    moreover have "?vs (version_key i) = ls_versions s (version_key i)" using pid(2) by (simp add: keys)
    moreover have "active_versions (s\<lparr>ls_versions := ?vs\<rparr>) k = active_versions s k" if "k \<noteq> ?dk" for k
      using that by (simp add: active_versions_upd keys)
    moreover have "active_versions (s\<lparr>ls_versions := ?vs\<rparr>) ?dk \<subseteq> {vi_document_version_id i}"
      using act pid by (auto simp: active_versions_upd keys advance_version_def)
    ultimately show ?thesis by blast
  qed
qed

text \<open>What a proposal of the candidate validator carries.\<close>

definition proposal_ok :: "IngestionActivationProposal \<Rightarrow> bool" where
  "proposal_ok q \<longleftrightarrow> (let p = ap_parsed_artifact q in
     px_parsed_artifact_id p \<noteq> [] \<and> artifact_bound p \<and> correlation_ok (ap_operation q) (ap_attempt q) (px_manifest p))"

lemma validated_proposal_ok:
  assumes "evaluate_parsed_candidate operation version source attempt candidate = Inr decision" "vc_proposal decision = Some q"
  shows "proposal_ok q \<and> ap_operation q = operation \<and> vc_outcome decision = CandidateValidationOutcome.READY_FOR_COMMIT"
proof -
  have "px_parsed_artifact_id (ap_parsed_artifact q) \<noteq> []"
    using assms by (auto simp: evaluate_parsed_candidate_def parse_blocked_def CandidateValidationDecision_post_init_def Let_def
        parsed_artifact_id_def sha256_text_eq split: if_splits)
  with parsed_candidate_bound [OF assms(1)] assms(2) show ?thesis
    by (auto simp: proposal_ok_def Let_def)
qed

lemma activate_ok:
  assumes inv: "lifecycle_inv s"
    and d: "ls_documents s (document_key (vi_document (io_version (ap_operation q)))) = Some d"
    and v: "ls_versions s (version_key (io_version (ap_operation q))) = Some v"
    and o1: "ls_operations s (io_operation_id (ap_operation q)) = Some r"
    and bind: "bindings_match d v r q" and q: "proposal_ok q"
    and art: "ls_parsed_artifacts s (px_parsed_artifact_id (ap_parsed_artifact q)) \<in> {None, Some (ap_parsed_artifact q)}"
    and vs: "\<forall>k x. vs k = Some x \<longrightarrow> version_ok (ls_parsed_artifacts s) k x"
      "\<forall>k x. ls_versions s k = Some x \<longrightarrow> (\<exists>y. vs k = Some y \<and> vl_definition y = vl_definition x \<and>
        vl_parsed_artifact_id y = vl_parsed_artifact_id x)"
      "\<forall>k. k \<noteq> document_key (vi_document (io_version (ap_operation q))) \<longrightarrow>
        active_versions (s\<lparr>ls_versions := vs\<rparr>) k = active_versions s k"
      "active_versions (s\<lparr>ls_versions := vs\<rparr>) (document_key (vi_document (io_version (ap_operation q))))
        \<subseteq> {vi_document_version_id (io_version (ap_operation q))}"
  shows "\<exists>s' res. activate d v r q (s\<lparr>ls_versions := vs\<rparr>) = Inr (s', res) \<and> lifecycle_inv s'"
proof -
  define i where "i = io_version (ap_operation q)"
  define p where "p = ap_parsed_artifact q"
  let ?oid = "io_operation_id (ap_operation q)"
  define v' where "v' = v\<lparr>vl_state := DocumentVersionLifecycle.ACTIVE, vl_parsed_artifact_id := Some (px_parsed_artifact_id p),
    vl_activation_commit_id := Some (''activate:'' @ ?oid @ '':'' @ str_int (dh_state_version d + 1)),
    vl_state_version := vl_state_version v + 1, vl_fence_token := vl_fence_token v + 1\<rparr>"
  define d' where "d' = d\<lparr>dh_state := DocumentHeadState.ACTIVE, dh_active_version_id := Some (vi_document_version_id i),
    dh_state_version := dh_state_version d + 1, dh_fence_token := dh_fence_token d + 1\<rparr>"
  define r' where "r' = advance_operation IngestionOperationState.COMPLETED r"
  define A where "A = (case ls_parsed_artifacts s (px_parsed_artifact_id p) of Some _ \<Rightarrow> ls_parsed_artifacts s
    | None \<Rightarrow> (ls_parsed_artifacts s)(px_parsed_artifact_id p \<mapsto> p))"
  have vok: "version_ok (ls_parsed_artifacts s) (version_key i) v" using inv_dest(2) [OF inv v] by (simp add: i_def)
  have dok: "document_ok (document_key (vi_document i)) d" using inv_dest(1) [OF inv d] by (simp add: i_def)
  have rok: "operation_ok s ?oid r" using inv_dest(3) [OF inv o1] .
  have b: "vd_identity (vl_definition v) = i" "vd_source_artifact_id (vl_definition v) = io_source_artifact_id (ap_operation q)"
    "ir_identity r = ap_operation q" "ir_attempt r = Some (ap_attempt q)" "px_version p = i"
    "px_source_artifact_id p = io_source_artifact_id (ap_operation q)"
    using bind by (simp_all add: bindings_match_def Let_def i_def p_def)
  have pq: "px_parsed_artifact_id p \<noteq> []" "artifact_bound p" "correlation_ok (ap_operation q) (ap_attempt q) (px_manifest p)"
    using q by (simp_all add: proposal_ok_def Let_def p_def)
  have vid: "vi_document_version_id i \<noteq> []" using vok b(1) by (simp add: version_ok_def)
  have v'ok: "DocumentVersionLifecycleRecord_post_init v' = Inr v'"
    using vok pq(1) by (auto simp: version_ok_def v'_def DocumentVersionLifecycleRecord_post_init_def opt_nonempty_def Let_def split: if_splits)
  have d'ok: "DocumentHeadSnapshot_post_init d' = Inr d'"
    using dok vid by (auto simp: document_ok_def d'_def DocumentHeadSnapshot_post_init_def opt_nonempty_def split: if_splits)
  have r'ok: "IngestionOperationRecord_post_init r' = Inr r'"
    unfolding r'_def by (rule operation_advance_ok) (use rok b(4) in \<open>simp_all add: operation_ok_def\<close>)
  have Ap: "A (px_parsed_artifact_id p) = Some p" using art by (auto simp: A_def p_def split: option.splits)
  have Amono: "A a = Some x" if "ls_parsed_artifacts s a = Some x" for a x
    using that by (auto simp: A_def split: option.splits)
  let ?s = "s\<lparr>ls_parsed_artifacts := A, ls_versions := vs(version_key i \<mapsto> v'),
    ls_documents := (ls_documents s)(document_key (vi_document i) \<mapsto> d'), ls_operations := (ls_operations s)(?oid \<mapsto> r')\<rparr>"
  have res: "\<exists>res. activate d v r q (s\<lparr>ls_versions := vs\<rparr>) =
      Inr (add_event (operation_event (''document-version-active:'' @ ?oid) ''DOCUMENT_VERSION_ACTIVATED'' (ap_operation q)) ?s, res)"
    unfolding activate_def Let_def i_def [symmetric] p_def [symmetric] v'_def [symmetric] d'_def [symmetric] r'_def [symmetric]
    using v'ok d'ok r'ok by (simp add: A_def cong: option.case_cong)
  have v'v: "version_ok A (version_key i) v'"
    using vok v'ok Ap pq b unfolding version_ok_def by (auto simp: v'_def)
  have vers: "version_ok A k x" if "(vs(version_key i \<mapsto> v')) k = Some x" for k x
  proof (cases "k = version_key i")
    case False
    with that have "vs k = Some x" by simp
    with vs(1) have "version_ok (ls_parsed_artifacts s) k x" by blast
    then show ?thesis by (rule version_ok_mono) (rule Amono)
  qed (use that v'v in simp)
  have docs: "document_ok k x" if "((ls_documents s)(document_key (vi_document i) \<mapsto> d')) k = Some x" for k x
    using that dok d'ok inv_dest(1) [OF inv, of k x] by (auto simp: document_ok_def d'_def split: if_splits)
  have ptr: "active_versions ?s k = pointed_version ?s k" for k
  proof -
    have a: "active_versions ?s k = active_versions ((s\<lparr>ls_versions := vs\<rparr>)\<lparr>ls_versions := (ls_versions (s\<lparr>ls_versions := vs\<rparr>))
        ((vi_tenant_id i, vi_document_id i, vi_document_version_id i) \<mapsto> v')\<rparr>) k"
      by (simp add: active_versions_def keys)
    have pt: "pointed_version ?s k = (if k = document_key (vi_document i) then {vi_document_version_id i} else pointed_version s k)"
      by (simp add: pointed_version_def d'_def)
    show ?thesis
    proof (cases "k = document_key (vi_document i)")
      case True
      with vs(4) show ?thesis unfolding a active_versions_upd pt by (auto simp: keys i_def v'_def)
    next
      case False
      have "active_versions (s\<lparr>ls_versions := vs\<rparr>) k = active_versions s k" using False vs(3) unfolding i_def by blast
      with False pointers_okD [OF inv_dest(4) [OF inv], of k] show ?thesis
        unfolding a active_versions_upd pt by (auto simp: keys i_def)
    qed
  qed
  have newop: "operation_ok ?s ?oid r'"
  proof -
    from rok obtain src where "vd_created_by_operation_id (vl_definition v) = ?oid"
      "ls_source_artifacts s (io_source_artifact_id (ir_identity r)) = Some src"
      "sx_version src = io_version (ir_identity r)" "sx_source_artifact_id src = io_source_artifact_id (ir_identity r)"
      using v b(3) by (auto simp: operation_ok_def)
    then show ?thesis
      using rok r'ok b Ap pq(3) unfolding operation_ok_def
      by (auto simp: r'_def advance_operation_def i_def v'_def)
  qed
  have oldop: "operation_ok ?s k x" if x: "ls_operations s k = Some x" "k \<noteq> ?oid" for k x
  proof -
    have xo: "operation_ok s k x" using inv_dest(3) [OF inv x(1)] .
    have "version_key (io_version (ir_identity x)) \<noteq> version_key i"
    proof
      assume eq: "version_key (io_version (ir_identity x)) = version_key i"
      have "vd_created_by_operation_id (vl_definition v) = k" using xo v eq by (auto simp: operation_ok_def i_def)
      moreover have "vd_created_by_operation_id (vl_definition v) = ?oid" using rok v b(3) by (auto simp: operation_ok_def)
      ultimately show False using x(2) by simp
    qed
    then show ?thesis
      by (intro operation_ok_cong [OF xo]) (use vs(2) Amono in \<open>simp_all del: split_paired_All\<close>)
  qed
  have ops: "operation_ok ?s k x" if "ls_operations ?s k = Some x" for k x
    using that newop oldop by (auto split: if_splits)
  have "lifecycle_inv ?s"
    unfolding lifecycle_inv_def pointers_ok_def
    using ptr docs vers ops inv_dest(5) [OF inv] by (auto simp: indexes_ok_def simp del: fun_upd_apply) (auto simp: indexes_ok_def)
  with res show ?thesis by auto
qed


text \<open>
  An activation of a validated proposal never raises and keeps the invariant. When it passes its
  guards it commits.
\<close>

lemma commit_current_ok:
  assumes inv: "lifecycle_inv s"
    and d: "ls_documents s (document_key (vi_document (io_version (ap_operation q)))) = Some d"
    and v: "ls_versions s (version_key (io_version (ap_operation q))) = Some v"
    and o1: "ls_operations s (io_operation_id (ap_operation q)) = Some r" and q: "proposal_ok q"
  shows "\<exists>s' res. commit_current d v r q g s = (s', Inr res) \<and> lifecycle_inv s'"
proof -
  define P where "P x \<longleftrightarrow> (\<exists>s' res. x = (s', Inr res) \<and> lifecycle_inv s')" for x :: "LifecycleStore \<times> IngestionCommitResult res"
  have same: "P (s, Inr res)" for res using inv by (simp add: P_def)
  have last: "P (case supersede_previous d (io_version (ap_operation q)) s of
        Inl e \<Rightarrow> (s, Inl e)
      | Inr None \<Rightarrow> (s, Inr z)
      | Inr (Some s') \<Rightarrow> (case activate d v r q s' of Inl e \<Rightarrow> (s', Inl e) | Inr (s'', x) \<Rightarrow> (s'', Inr x)))"
    if b: "bindings_match d v r q"
      and a: "ls_parsed_artifacts s (px_parsed_artifact_id (ap_parsed_artifact q)) \<in> {None, Some (ap_parsed_artifact q)}" for z
  proof -
    from supersede_ok [OF inv d] obtain vs where
      sup: "supersede_previous d (io_version (ap_operation q)) s = Inr (Some (s\<lparr>ls_versions := vs\<rparr>))"
      and vs: "\<forall>k r. vs k = Some r \<longrightarrow> version_ok (ls_parsed_artifacts s) k r"
        "\<forall>k v. ls_versions s k = Some v \<longrightarrow> (\<exists>v'. vs k = Some v' \<and> vl_definition v' = vl_definition v \<and>
          vl_parsed_artifact_id v' = vl_parsed_artifact_id v)"
        "\<forall>k. k \<noteq> document_key (vi_document (io_version (ap_operation q))) \<longrightarrow>
          active_versions (s\<lparr>ls_versions := vs\<rparr>) k = active_versions s k"
        "active_versions (s\<lparr>ls_versions := vs\<rparr>) (document_key (vi_document (io_version (ap_operation q))))
          \<subseteq> {vi_document_version_id (io_version (ap_operation q))}" by blast
    from activate_ok [OF inv d v o1 b q a vs] show ?thesis by (auto simp: sup P_def)
  qed
  have "P (commit_current d v r q g s)"
    unfolding commit_current_def Let_def by (intro if_prop [where P = P] same last) auto
  then show ?thesis by (simp add: P_def)
qed

lemma commit_activation_ok:
  assumes inv: "lifecycle_inv s" and ev: "evaluate_parsed_candidate operation version source attempt candidate = Inr decision"
  shows "\<exists>s' res. commit_activation decision g s = (s', Inr res) \<and> lifecycle_inv s'"
proof (cases "vc_proposal decision")
  case None
  with inv show ?thesis by (simp add: commit_activation_def)
next
  case (Some q)
  from validated_proposal_ok [OF ev Some] have q: "proposal_ok q" "vc_outcome decision = CandidateValidationOutcome.READY_FOR_COMMIT"
    by simp_all
  show ?thesis
    unfolding commit_activation_def Some option.case
    using q(2) inv commit_current_ok [OF inv _ _ _ q(1)] by (auto split: option.splits)
qed

section \<open>The store as a machine\<close>

lemma identity_nonempty:
  assumes "is_ok (DocumentVersionIdentity_post_init i)"
  shows "vi_document_version_id i \<noteq> []"
  using assms by (auto simp: DocumentVersionIdentity_post_init_def require_non_empty_def non_blank_def split: if_splits)

lemma lifecycle_step_inv: "lifecycle_inv s \<Longrightarrow> lifecycle_inv (lifecycle_step e s)"
proof (cases e)
  case (Activate operation version source attempt candidate g)
  assume inv: "lifecycle_inv s"
  show ?thesis
  proof (cases "evaluate_parsed_candidate operation version source attempt candidate")
    case (Inr decision)
    with commit_activation_ok [OF inv Inr, of g] show ?thesis by (auto simp: Activate)
  qed (simp add: Activate inv)
qed (auto intro!: keeps_store_after inv_intake inv_claim inv_prepare_retry inv_mark_pending inv_quarantine inv_reconcile
    inv_tombstone dest: identity_nonempty)

interpretation ingestion: invariant_machine lifecycle_step lifecycle_inv
  by unfold_locales (rule lifecycle_step_inv)

lemma lifecycle_run_inv: "lifecycle_inv (lifecycle_run es)"
  unfolding lifecycle_run_def by (rule ingestion.run_inv [OF inv_init])

end
