(* ===== verification/Ingestion_Safety.thy ===== *)
theory Ingestion_Safety
  imports Ingestion_Invariant
begin

text \<open>
  What the ingestion lifecycle promises to the rest of the program: records only move forward under
  their fences, published evidence never changes, the activation commits exactly under its guards,
  and an active version is the one its document points to, with a stored, bound artifact.
\<close>

section \<open>Records move forward\<close>

definition moves :: "('r \<Rightarrow> int) \<Rightarrow> ('r \<Rightarrow> 'i) \<Rightarrow> ('k \<rightharpoonup> 'r) \<Rightarrow> ('k \<rightharpoonup> 'r) \<Rightarrow> bool" where
  "moves fence ident m m' \<longleftrightarrow> (\<forall>k r. m k = Some r \<longrightarrow>
     (\<exists>r'. m' k = Some r' \<and> ident r' = ident r \<and> (r' = r \<or> fence r < fence r')))"

lemma moves_refl [simp]: "moves f i m m"
  by (simp add: moves_def)

lemma moves_new [simp]: "m k = None \<Longrightarrow> moves f i m (m(k \<mapsto> r))"
  by (auto simp: moves_def)

lemma moves_upd: "m k = Some r \<Longrightarrow> i r' = i r \<Longrightarrow> r' = r \<or> f r < f r' \<Longrightarrow> moves f i m (m(k \<mapsto> r'))"
  by (auto simp: moves_def)

lemma moves_upd_after:
  assumes "moves f i m m1" and "m1 k = m k" and "m k = Some r" and "i r' = i r" and "f r < f r'"
  shows "moves f i m (m1(k \<mapsto> r'))"
  using assms by (auto simp: moves_def)

text \<open>An operation that has an attempt keeps one, with a number at least as high.\<close>

definition attempts_advance ::
    "(string \<rightharpoonup> IngestionOperationRecord) \<Rightarrow> (string \<rightharpoonup> IngestionOperationRecord) \<Rightarrow> bool" where
  "attempts_advance m m' \<longleftrightarrow> (\<forall>k r a. m k = Some r \<longrightarrow> ir_attempt r = Some a \<longrightarrow>
     (\<exists>r' a'. m' k = Some r' \<and> ir_attempt r' = Some a' \<and> pt_attempt_number a \<le> pt_attempt_number a'))"

lemma attempts_advance_refl [simp]: "attempts_advance m m"
  by (simp add: attempts_advance_def)

lemma attempts_advance_new [simp]: "m k = None \<Longrightarrow> attempts_advance m (m(k \<mapsto> r))"
  by (auto simp: attempts_advance_def)

lemma attempts_advance_upd:
  "m k = Some r \<Longrightarrow> (\<And>a. ir_attempt r = Some a \<Longrightarrow> \<exists>a'. ir_attempt r' = Some a' \<and> pt_attempt_number a \<le> pt_attempt_number a') \<Longrightarrow>
   attempts_advance m (m(k \<mapsto> r'))"
  by (auto simp: attempts_advance_def)

definition evolves :: "LifecycleStore \<Rightarrow> LifecycleStore \<Rightarrow> bool" where
  "evolves s s' \<longleftrightarrow>
     moves dh_fence_token dh_identity (ls_documents s) (ls_documents s') \<and>
     moves vl_fence_token vl_definition (ls_versions s) (ls_versions s') \<and>
     moves ir_fence_token ir_identity (ls_operations s) (ls_operations s') \<and>
     attempts_advance (ls_operations s) (ls_operations s') \<and>
     moves (\<lambda>_. 0) id (ls_parsed_artifacts s) (ls_parsed_artifacts s') \<and>
     moves (\<lambda>_. 0) id (ls_source_artifacts s) (ls_source_artifacts s') \<and>
     (\<forall>k. ls_versions s' k \<noteq> None \<longrightarrow> ls_versions s k \<noteq> None \<or> ls_documents s' (fst k, fst (snd k)) \<noteq> None)"

lemma evolves_refl [simp]: "evolves s s"
  by (simp add: evolves_def)

lemma evolves_add_event [simp]: "evolves s (add_event ev s') = evolves s s'"
  by (simp add: evolves_def add_event_def)

definition evolving :: "LifecycleStore \<Rightarrow> (LifecycleStore \<times> 'r) res \<Rightarrow> bool" where
  "evolving s m \<longleftrightarrow> (\<forall>s' r. m = Inr (s', r) \<longrightarrow> evolves s s')"

lemma evolving_Inr [simp]: "evolving s (Inr (s', r)) = evolves s s'"
  by (simp add: evolving_def)

lemma evolving_same: "evolving s (Inr (s, r))"
  by simp

lemma evolving_raise [simp]: "evolving s (Inl e)"
  by (simp add: evolving_def)

lemma evolves_store_after: "evolving s m \<Longrightarrow> evolves s (store_after s m)"
  by (auto simp: evolving_def store_after_def split: sum.splits)

lemmas evolving_if = if_prop [where P = "evolving s" for s]

lemma evolving_bind:
  assumes "\<And>x. m = Inr x \<Longrightarrow> evolving s (f x)"
  shows "evolving s (bind_res m f)"
  using assms by (cases m) simp_all

text \<open>The one-record updates of the transitions.\<close>

lemma evolving_operation:
  assumes "ls_operations s k = Some r" and "IngestionOperationRecord_post_init q = Inr r'"
    and "ir_identity q = ir_identity r" and "ir_fence_token q = ir_fence_token r + 1"
    and "\<And>a. ir_attempt r = Some a \<Longrightarrow> \<exists>a'. ir_attempt q = Some a' \<and> pt_attempt_number a \<le> pt_attempt_number a'"
  shows "evolving s (Inr (s\<lparr>ls_operations := (ls_operations s)(k \<mapsto> r')\<rparr>, res))"
    "evolving s (Inr (add_event ev (s\<lparr>ls_operations := (ls_operations s)(k \<mapsto> r')\<rparr>), res))"
  using assms operation_post_init_id [OF assms(2)]
  by (simp_all, simp_all add: evolves_def moves_upd [where r = r] attempts_advance_upd [where r = r])

lemma current_operation_stored:
  assumes "current_operation identity s = Some r"
  shows "ls_operations s (io_operation_id identity) = Some r"
  using assms by (simp add: current_operation_def split: option.splits if_splits)

lemma evolves_claim: "evolving s (claim_parse_dispatch identity attempt st sv fence s)"
proof (cases "ls_operations s (io_operation_id identity)")
  case (Some r)
  show ?thesis
    unfolding claim_parse_dispatch_def Let_def Some option.case
    by (intro evolving_if evolving_same evolving_bind) (erule evolving_operation(1) [OF Some]; simp)
qed (simp add: claim_parse_dispatch_def)

lemma evolves_prepare_retry: "evolving s (prepare_proven_not_executed_retry identity sv fence s)"
proof (cases "current_operation identity s")
  case (Some r)
  show ?thesis
    unfolding prepare_proven_not_executed_retry_def Some option.case
    by (cases "ir_attempt r"; simp only: option.case; intro evolving_if evolving_same evolving_bind)
      (erule evolving_operation(2) [OF current_operation_stored [OF Some]]; simp add: advance_operation_def)
qed (simp add: prepare_proven_not_executed_retry_def)

lemma evolves_mark_pending: "evolving s (mark_pending_reconciliation identity sv fence s)"
proof (cases "current_operation identity s")
  case (Some r)
  show ?thesis
    unfolding mark_pending_reconciliation_def Some option.case
    by (intro evolving_if evolving_same evolving_bind)
      (erule evolving_operation(2) [OF current_operation_stored [OF Some]]; simp add: advance_operation_def)
qed (simp add: mark_pending_reconciliation_def)

lemma evolves_reconcile: "evolving s (commit_authoritative_reconciliation identity target sv fence s)"
proof (cases "current_operation identity s")
  case (Some r)
  show ?thesis
    unfolding commit_authoritative_reconciliation_def Some option.case
    by (intro evolving_if evolving_same evolving_raise evolving_bind; simp only: Let_def split_beta)
      (erule evolving_operation(2) [OF current_operation_stored [OF Some]]; simp add: advance_operation_def)
qed (simp add: commit_authoritative_reconciliation_def)

lemma evolves_quarantine: "evolving s (mark_quarantined identity sv fence s)"
proof (cases "current_operation identity s")
  case (Some r)
  note r = current_operation_stored [OF Some]
  show ?thesis
  proof (cases "ls_versions s (version_key (io_version identity))")
    case None
    then show ?thesis
      unfolding mark_quarantined_def Some option.case by (intro evolving_if evolving_same evolving_bind) simp
  next
    case v: (Some v)
    have "evolving s (Inr (add_event ev (s\<lparr>ls_operations := (ls_operations s)(io_operation_id identity \<mapsto> r'),
        ls_versions := (ls_versions s)(version_key (io_version identity) \<mapsto> v')\<rparr>), res))"
      if "IngestionOperationRecord_post_init (advance_operation IngestionOperationState.QUARANTINED r) = Inr r'"
        "DocumentVersionLifecycleRecord_post_init (v\<lparr>vl_state := DocumentVersionLifecycle.QUARANTINED,
           vl_state_version := vl_state_version v + 1, vl_fence_token := vl_fence_token v + 1\<rparr>) = Inr v'" for r' v' ev and res :: 'r
      using operation_post_init_id [OF that(1)] version_post_init_id [OF that(2)]
      by (simp, auto simp: evolves_def advance_operation_def intro: moves_upd attempts_advance_upd r v)
    then show ?thesis
      unfolding mark_quarantined_def Some v option.case
      by (intro evolving_if evolving_same evolving_bind) auto
  qed
qed (simp add: mark_quarantined_def)

lemma evolves_tombstone: "evolving s (tombstone_document identity st sv fence s)"
proof (cases "ls_documents s (document_key identity)")
  case d: (Some d)
  have tv: "ls_documents s' = ls_documents s \<and> ls_operations s' = ls_operations s \<and>
      ls_parsed_artifacts s' = ls_parsed_artifacts s \<and> ls_source_artifacts s' = ls_source_artifacts s \<and>
      moves vl_fence_token vl_definition (ls_versions s) (ls_versions s') \<and>
      (\<forall>k. ls_versions s' k \<noteq> None \<longrightarrow> ls_versions s k \<noteq> None)"
    if "tombstone_version identity d s = Inr (Inr (s', x))" for s' x
    using that
    by (auto simp: tombstone_version_def Let_def bind_res_eq_Inr advance_version_def split: option.splits if_splits
        dest!: version_post_init_id intro!: moves_upd)
  have "evolving s (Inr (add_event ev (s'\<lparr>ls_documents := (ls_documents s')(document_key identity \<mapsto> t)\<rparr>), res))"
    if "tombstone_version identity d s = Inr (Inr (s', x))"
      "DocumentHeadSnapshot_post_init (d\<lparr>dh_state := DocumentHeadState.TOMBSTONED, dh_active_version_id := None,
         dh_state_version := dh_state_version d + 1, dh_fence_token := dh_fence_token d + 1\<rparr>) = Inr t" for s' x t ev and res :: 'r
    using tv [OF that(1)] document_post_init_id [OF that(2)]
    by (simp, auto simp: evolves_def intro: moves_upd d)
  then show ?thesis
    unfolding tombstone_document_def d option.case
    by (intro evolving_if evolving_same evolving_bind) (auto intro!: evolving_bind split: sum.splits prod.splits)
qed (simp add: tombstone_document_def)

lemma evolves_create:
  assumes "ls_operations s (io_operation_id operation) = None" "ls_versions s (version_key (vd_identity version)) = None"
    and "ls_source_artifacts s (sx_source_artifact_id source) = None"
  shows "evolving s (Inr (intake_create operation version source s))"
proof -
  have "moves dh_fence_token dh_identity (ls_documents s) ((ls_documents s)(k \<mapsto> case ls_documents s k of Some d \<Rightarrow> d | None \<Rightarrow> n))"
    for k n by (auto simp: moves_def)
  with assms show ?thesis by (simp add: intake_create_def Let_def) (simp add: evolves_def version_key_def document_key_def vi_document_def)
qed

lemma evolves_intake: "evolving s (register_intake operation version source s)"
  unfolding register_intake_def Let_def
  by (auto intro!: evolving_if evolving_bind evolves_create simp del: evolving_Inr intro: evolving_same split: option.splits)

lemma supersede_moves:
  assumes "supersede_previous d i s = Inr (Some s')"
  shows "\<exists>vs. s' = s\<lparr>ls_versions := vs\<rparr> \<and> moves vl_fence_token vl_definition (ls_versions s) vs \<and>
    vs (version_key i) = ls_versions s (version_key i) \<and> (\<forall>k. vs k \<noteq> None \<longrightarrow> ls_versions s k \<noteq> None)"
proof (cases "s' = s")
  case True
  then show ?thesis by (intro exI [of _ "ls_versions s"]) simp
next
  case False
  with assms obtain p v v' where v: "p \<noteq> vi_document_version_id i"
    "ls_versions s (vi_tenant_id i, vi_document_id i, p) = Some v"
    "DocumentVersionLifecycleRecord_post_init (advance_version DocumentVersionLifecycle.SUPERSEDED v) = Inr v'"
    "s' = s\<lparr>ls_versions := (ls_versions s)((vi_tenant_id i, vi_document_id i, p) \<mapsto> v')\<rparr>"
    by (auto simp: supersede_previous_def Let_def bind_res_eq_Inr split: option.splits if_splits)
  then show ?thesis
    using version_post_init_id [OF v(3)]
    by (intro exI [of _ "(ls_versions s)((vi_tenant_id i, vi_document_id i, p) \<mapsto> v')"])
      (auto simp: version_key_def advance_version_def intro: moves_upd)
qed

lemma evolves_activate:
  assumes d: "ls_documents s (document_key (vi_document (io_version (ap_operation q)))) = Some d"
    and v: "ls_versions s (version_key (io_version (ap_operation q))) = Some v"
    and r: "ls_operations s (io_operation_id (ap_operation q)) = Some r"
    and vs: "moves vl_fence_token vl_definition (ls_versions s) vs" "vs (version_key (io_version (ap_operation q))) = Some v"
      "\<forall>k. vs k \<noteq> None \<longrightarrow> ls_versions s k \<noteq> None"
    and act: "activate d v r q (s\<lparr>ls_versions := vs\<rparr>) = Inr (s', res)"
  shows "evolves s s'"
proof -
  have "moves (\<lambda>_. 0) id m (case m a of Some _ \<Rightarrow> m | None \<Rightarrow> m(a \<mapsto> x))" for m :: "string \<rightharpoonup> ParsedArtifactDefinition" and a x
    by (cases "m a") simp_all
  moreover have "moves vl_fence_token vl_definition (ls_versions s) (vs(version_key (io_version (ap_operation q)) \<mapsto> x))"
    if "vl_definition x = vl_definition v" "vl_fence_token x = vl_fence_token v + 1" for x
    by (rule moves_upd_after [OF vs(1) _ v]) (use that v vs(2) in simp_all)
  moreover have old: "\<exists>y. ls_versions s k = Some y" if "(vs(version_key (io_version (ap_operation q)) \<mapsto> x)) k = Some y" for x k y
    using vs(3) v that by (cases "k = version_key (io_version (ap_operation q))") (auto simp del: split_paired_All)
  ultimately show ?thesis
    using act by (auto simp: activate_def Let_def bind_res_eq_Inr advance_operation_def simp del: fun_upd_apply
        dest!: version_post_init_id document_post_init_id operation_post_init_id cong: option.case_cong)
      (auto simp: evolves_def simp del: fun_upd_apply split_paired_All intro: moves_upd attempts_advance_upd d r dest: old cong: option.case_cong)
qed

lemma evolves_commit: "evolves s (fst (commit_activation decision g s))"
proof -
  define P where "P x \<longleftrightarrow> evolves s (fst x)" for x :: "LifecycleStore \<times> IngestionCommitResult res"
  have same: "P (s, res)" for res by (simp add: P_def)
  have "P (commit_current d v r q g s)"
    if f: "ls_documents s (document_key (vi_document (io_version (ap_operation q)))) = Some d"
      "ls_versions s (version_key (io_version (ap_operation q))) = Some v"
      "ls_operations s (io_operation_id (ap_operation q)) = Some r" for d v r q
  proof -
    have act: "P (case activate d v r q s' of Inl e \<Rightarrow> (s', Inl e) | Inr (s'', x) \<Rightarrow> (s'', Inr x))"
      if "supersede_previous d (io_version (ap_operation q)) s = Inr (Some s')" for s'
    proof -
      from supersede_moves [OF that] f(2) obtain vs where vs: "s' = s\<lparr>ls_versions := vs\<rparr>"
        "moves vl_fence_token vl_definition (ls_versions s) vs" "vs (version_key (io_version (ap_operation q))) = Some v"
        "\<forall>k. vs k \<noteq> None \<longrightarrow> ls_versions s k \<noteq> None" by (auto simp del: split_paired_All)
      have "evolves s s'" using vs by (simp add: evolves_def)
      with evolves_activate [OF f vs(2,3,4)] show ?thesis by (auto simp: P_def vs(1) split: sum.splits)
    qed
    have "P (case supersede_previous d (io_version (ap_operation q)) s of
        Inl e \<Rightarrow> (s, Inl e)
      | Inr None \<Rightarrow> (s, Inr z)
      | Inr (Some s') \<Rightarrow> (case activate d v r q s' of Inl e \<Rightarrow> (s', Inl e) | Inr (s'', x) \<Rightarrow> (s'', Inr x)))" for z
    proof (cases "supersede_previous d (io_version (ap_operation q)) s")
      case (Inr x)
      with act same show ?thesis by (cases x) auto
    qed (simp add: same)
    then show ?thesis
      unfolding commit_current_def Let_def by (intro if_prop [where P = P] same)
  qed
  then show ?thesis
    unfolding P_def commit_activation_def by (auto split: option.splits)
qed

lemma lifecycle_step_evolves: "evolves s (lifecycle_step e s)"
  by (cases e) (auto intro!: evolves_store_after evolves_intake evolves_claim evolves_prepare_retry evolves_mark_pending
      evolves_quarantine evolves_reconcile evolves_tombstone evolves_commit split: sum.splits)

lemma step_moves:
  "moves dh_fence_token dh_identity (ls_documents s) (ls_documents (lifecycle_step e s))"
  "moves vl_fence_token vl_definition (ls_versions s) (ls_versions (lifecycle_step e s))"
  "moves ir_fence_token ir_identity (ls_operations s) (ls_operations (lifecycle_step e s))"
  "attempts_advance (ls_operations s) (ls_operations (lifecycle_step e s))"
  "moves (\<lambda>_. 0) id (ls_parsed_artifacts s) (ls_parsed_artifacts (lifecycle_step e s))"
  "moves (\<lambda>_. 0) id (ls_source_artifacts s) (ls_source_artifacts (lifecycle_step e s))"
  using lifecycle_step_evolves [of s e] unfolding evolves_def by blast+

text \<open>Every version of a reachable store belongs to a stored document.\<close>

definition homed :: "LifecycleStore \<Rightarrow> bool" where
  "homed s \<longleftrightarrow> (\<forall>k. ls_versions s k \<noteq> None \<longrightarrow> ls_documents s (fst k, fst (snd k)) \<noteq> None)"

interpretation homed: invariant_machine lifecycle_step homed
proof
  fix s e
  assume s: "homed s"
  have "ls_documents (lifecycle_step e s) j \<noteq> None" if "ls_documents s j \<noteq> None" for j
    using step_moves(1) [of s e] that unfolding moves_def by blast
  with s lifecycle_step_evolves [of s e] show "homed (lifecycle_step e s)"
    unfolding homed_def evolves_def by blast
qed

lemma version_has_document:
  assumes "ls_versions (lifecycle_run es) (version_key i) = Some v"
  shows "\<exists>d. ls_documents (lifecycle_run es) (document_key (vi_document i)) = Some d"
proof -
  have "homed (lifecycle_run es)"
    unfolding lifecycle_run_def by (rule homed.run_inv) (simp add: homed_def LifecycleStore_init_def)
  with assms show ?thesis unfolding homed_def by (force simp: version_key_def document_key_def vi_document_def)
qed

interpretation documents: versioned_store lifecycle_step ls_documents dh_fence_token dh_identity
  using step_moves(1) unfolding moves_def by unfold_locales blast

interpretation versions: versioned_store lifecycle_step ls_versions vl_fence_token vl_definition
  using step_moves(2) unfolding moves_def by unfold_locales blast

interpretation operations: versioned_store lifecycle_step ls_operations ir_fence_token ir_identity
  using step_moves(3) unfolding moves_def by unfold_locales blast

interpretation parsed_artifacts: versioned_store lifecycle_step ls_parsed_artifacts "\<lambda>_. 0" id
  using step_moves(5) unfolding moves_def by unfold_locales blast

interpretation source_artifacts: versioned_store lifecycle_step ls_source_artifacts "\<lambda>_. 0" id
  using step_moves(6) unfolding moves_def by unfold_locales blast

section \<open>The activation\<close>

text \<open>The guards of the activation, in the order of the code.\<close>

definition activation_admissible ::
    "LifecycleStore \<Rightarrow> IngestionActivationProposal \<Rightarrow> IngestionActivationGuard \<Rightarrow> bool" where
  "activation_admissible s q g \<longleftrightarrow> (\<exists>d v r.
     ls_documents s (document_key (vi_document (io_version (ap_operation q)))) = Some d \<and>
     ls_versions s (version_key (io_version (ap_operation q))) = Some v \<and>
     ls_operations s (io_operation_id (ap_operation q)) = Some r \<and>
     bindings_match d v r q \<and> \<not> already_committed d v r (ap_parsed_artifact q) \<and>
     document_guard_matches d g \<and> version_guard_matches v g \<and> operation_guard_matches r g \<and>
     ls_parsed_artifacts s (px_parsed_artifact_id (ap_parsed_artifact q)) \<in> {None, Some (ap_parsed_artifact q)})"

text \<open>What a store holds of an activated version: pointer, version, artifact, operation and event.\<close>

definition published :: "LifecycleStore \<Rightarrow> IngestionActivationProposal \<Rightarrow> bool" where
  "published s q \<longleftrightarrow> (let i = io_version (ap_operation q) in
     (\<exists>d. ls_documents s (document_key (vi_document i)) = Some d \<and> dh_state d = DocumentHeadState.ACTIVE \<and>
        dh_active_version_id d = Some (vi_document_version_id i)) \<and>
     (\<exists>v. ls_versions s (version_key i) = Some v \<and> vl_state v = DocumentVersionLifecycle.ACTIVE \<and>
        vl_parsed_artifact_id v = Some (px_parsed_artifact_id (ap_parsed_artifact q))) \<and>
     (\<exists>r. ls_operations s (io_operation_id (ap_operation q)) = Some r \<and> ir_state r = IngestionOperationState.COMPLETED) \<and>
     ls_parsed_artifacts s (px_parsed_artifact_id (ap_parsed_artifact q)) = Some (ap_parsed_artifact q) \<and>
     map_of (ls_outbox s) (''document-version-active:'' @ io_operation_id (ap_operation q)) \<noteq> None)"

lemma add_event_fields:
  "ls_documents (add_event ev s) = ls_documents s" "ls_versions (add_event ev s) = ls_versions s"
  "ls_operations (add_event ev s) = ls_operations s" "ls_parsed_artifacts (add_event ev s) = ls_parsed_artifacts s"
  by (simp_all add: add_event_def)

lemma add_event_listed: "\<exists>e. map_of (ls_outbox (add_event (operation_event i t x) s)) i = Some e"
  by (cases "map_of (ls_outbox s) i") (simp_all add: add_event_def operation_event_def map_add_def)

lemma activate_published:
  assumes act: "activate d v r q s = Inr (s', res)"
    and art: "ls_parsed_artifacts s (px_parsed_artifact_id (ap_parsed_artifact q)) \<in> {None, Some (ap_parsed_artifact q)}"
  shows "published s' q \<and> icr_outcome res = IngestionCommitOutcome.COMMITTED"
  using act art unfolding activate_def Let_def bind_res_eq_Inr published_def
  by (auto simp: add_event_fields add_event_listed advance_operation_def simp del: append.simps
      dest!: version_post_init_id document_post_init_id operation_post_init_id)

lemma commit_activation_current:
  assumes "vc_outcome decision = CandidateValidationOutcome.READY_FOR_COMMIT" "vc_proposal decision = Some q"
    and "ls_documents s (document_key (vi_document (io_version (ap_operation q)))) = Some d"
      "ls_versions s (version_key (io_version (ap_operation q))) = Some v"
      "ls_operations s (io_operation_id (ap_operation q)) = Some r"
  shows "commit_activation decision g s = commit_current d v r q g s"
  using assms by (simp add: commit_activation_def)

lemma commit_current_cases:
  assumes inv: "lifecycle_inv s" and q: "proposal_ok q"
    and f: "ls_documents s (document_key (vi_document (io_version (ap_operation q)))) = Some d"
      "ls_versions s (version_key (io_version (ap_operation q))) = Some v"
      "ls_operations s (io_operation_id (ap_operation q)) = Some r"
  shows "\<exists>s' res. commit_current d v r q g s = (s', Inr res) \<and>
    (icr_outcome res = IngestionCommitOutcome.COMMITTED \<longleftrightarrow> activation_admissible s q g) \<and>
    (if activation_admissible s q g then published s' q else s' = s)"
proof -
  have adm: "activation_admissible s q g \<longleftrightarrow>
     bindings_match d v r q \<and> \<not> already_committed d v r (ap_parsed_artifact q) \<and>
     document_guard_matches d g \<and> version_guard_matches v g \<and> operation_guard_matches r g \<and>
     ls_parsed_artifacts s (px_parsed_artifact_id (ap_parsed_artifact q)) \<in> {None, Some (ap_parsed_artifact q)}"
    using f by (simp add: activation_admissible_def)
  show ?thesis
  proof (cases "activation_admissible s q g")
    case False
    then show ?thesis
      unfolding adm commit_current_def Let_def by (auto simp: commit_facts_def commit_result_def)
  next
    case True
    then have c: "commit_current d v r q g s = (case supersede_previous d (io_version (ap_operation q)) s of
        Inl e \<Rightarrow> (s, Inl e)
      | Inr None \<Rightarrow> (s, Inr (commit_facts IngestionCommitOutcome.BINDING_CONFLICT ''ACTIVE_POINTER_DOES_NOT_BIND_AN_ACTIVE_VERSION'' d v r))
      | Inr (Some s') \<Rightarrow> (case activate d v r q s' of Inl e \<Rightarrow> (s', Inl e) | Inr (s'', x) \<Rightarrow> (s'', Inr x)))"
      unfolding adm commit_current_def Let_def by auto
    from supersede_ok [OF inv f(1)] obtain vs where
      sup: "supersede_previous d (io_version (ap_operation q)) s = Inr (Some (s\<lparr>ls_versions := vs\<rparr>))" by blast
    from commit_current_ok [OF inv f q, of g] obtain s' res where ok: "commit_current d v r q g s = (s', Inr res)" by blast
    with c sup have "activate d v r q (s\<lparr>ls_versions := vs\<rparr>) = Inr (s', res)" by (auto split: sum.splits)
    from activate_published [OF this] True ok show ?thesis by (simp add: adm)
  qed
qed

section \<open>A run\<close>

text \<open>One document: intake, dispatch and activation, with and without a tombstone in between.\<close>

definition run_io :: IngestionOperationIdentity where
  "run_io = \<lparr>io_tenant_id = ''t'', io_document_id = ''d'', io_document_version_id = ''v'', io_source_artifact_id = ''s'',
     io_operation_id = ''op'', io_idempotency_key = ''key''\<rparr>"

definition run_version :: DocumentVersionDefinition where
  "run_version = \<lparr>vd_identity = io_version run_io, vd_source_artifact_id = ''s'', vd_parse_contract_version = ''pc'',
     vd_created_by_operation_id = ''op''\<rparr>"

definition run_source :: SourceArtifactReference where
  "run_source = \<lparr>sx_version = io_version run_io, sx_source_artifact_id = ''s'', sx_object_bucket = ''b'', sx_object_key = ''k'',
     sx_object_version = ''1'', sx_checksum_sha256 = ''sum'', sx_size_bytes = 3, sx_detected_media_type = ''text/plain''\<rparr>"

definition run_attempt :: ParserAttemptIdentity where
  "run_attempt = \<lparr>pt_operation_id = ''op'', pt_idempotency_key = ''key'', pt_attempt_number = 1, pt_parser_request_id = ''r'',
     pt_parser_generation = 0\<rparr>"

definition run_manifest :: ParseManifest where
  "run_manifest = \<lparr>pm_tenant_id = ''t'', pm_document_id = ''d'', pm_document_version_id = ''v'', pm_source_artifact_id = ''s'',
     pm_source_checksum_sha256 = ''sum'', pm_operation_id = ''op'', pm_idempotency_key = ''key'', pm_parser_name = ''parser'',
     pm_parser_version = ''1'', pm_parse_contract_version = ''pc'', pm_attempt_number = 1, pm_parser_request_id = ''r'',
     pm_parser_generation = 0, pm_output_checksum_sha256 = text_checksum [97], pm_page_count = 1, pm_section_count = 0,
     pm_record_count = 0, pm_warnings = [], pm_errors = []\<rparr>"

definition run_candidate :: ParsedDocumentCandidate where
  "run_candidate = \<lparr>pc_manifest = run_manifest, pc_canonical_text = [97], pc_sections = []\<rparr>"

definition run_proposal :: IngestionActivationProposal where
  "run_proposal = \<lparr>ap_operation = run_io, ap_attempt = run_attempt, ap_parsed_artifact =
     \<lparr>px_parsed_artifact_id = parsed_artifact_id run_io run_manifest, px_version = io_version run_io,
      px_source_artifact_id = ''s'', px_output_checksum_sha256 = text_checksum [97], px_canonical_text = [97], px_sections = [],
      px_manifest = run_manifest\<rparr>\<rparr>"

definition run_decision :: CandidateValidationDecision where
  "run_decision = \<lparr>vc_outcome = CandidateValidationOutcome.READY_FOR_COMMIT, vc_safe_reason = ''CANDIDATE_VALIDATION_PASSED'',
     vc_proposal = Some run_proposal, vc_correlation_checks = 1, vc_manifest_validation_calls = 1,
     vc_structural_validation_calls = 1, vc_output_validation_calls = 1, vc_committer_calls = 0, vc_durable_transitions = 0\<rparr>"

text \<open>The guard a caller builds from the facts it has just read.\<close>

definition run_guard :: "DocumentHeadState \<Rightarrow> int \<Rightarrow> IngestionActivationGuard" where
  "run_guard st n = \<lparr>ag_document_state = st, ag_active_version_id = None, ag_document_state_version = n, ag_document_fence = n,
     ag_version_state = DocumentVersionLifecycle.REGISTERED, ag_version_state_version = 0, ag_version_fence = 0,
     ag_operation_state = IngestionOperationState.PARSE_DISPATCH_STARTED, ag_operation_state_version = 1, ag_operation_fence = 1\<rparr>"

definition run_start :: "LifecycleEvent list" where
  "run_start = [Intake run_io run_version run_source,
     ClaimDispatch run_io run_attempt IngestionOperationState.READY_FOR_DISPATCH 0 0]"

definition run_tombstone :: LifecycleEvent where
  "run_tombstone = Tombstone (vi_document (io_version run_io)) DocumentHeadState.REGISTERED 0 0"

definition run_activate :: "IngestionActivationGuard \<Rightarrow> LifecycleEvent" where
  "run_activate g = Activate run_io run_version run_source run_attempt run_candidate g"

lemmas run_fields = run_io_def run_version_def run_source_def run_attempt_def run_proposal_def io_version_def vi_document_def
  document_key_def version_key_def

lemma run_validated: "evaluate_parsed_candidate run_io run_version run_source run_attempt run_candidate = Inr run_decision"
  by (simp add: evaluate_parsed_candidate_def correlation_ok_def manifest_binding_ok_def structure_ok_def run_decision_def run_candidate_def
      run_manifest_def CandidateValidationDecision_post_init_def run_fields is_space_def Let_def sha256_text_eq surrogate_def)

lemma run_identities:
  "is_ok (IngestionOperationIdentity_post_init run_io)" "is_ok (DocumentVersionIdentity_post_init (vd_identity run_version))"
  by (simp_all add: IngestionOperationIdentity_post_init_def DocumentVersionIdentity_post_init_def require_non_empty_def non_blank_def
      run_fields byte_of_def is_space_def is_ok_def)

definition run_operation :: IngestionOperationRecord where
  "run_operation = \<lparr>ir_identity = run_io, ir_state = IngestionOperationState.PARSE_DISPATCH_STARTED, ir_state_version = 1,
     ir_fence_token = 1, ir_attempt = Some run_attempt, ir_attempt_history = [run_attempt]\<rparr>"

lemma run_started:
  "ls_documents (lifecycle_run run_start) = [document_key (vi_document (io_version run_io)) \<mapsto> new_document (vi_document (io_version run_io))]"
  "ls_versions (lifecycle_run run_start) = [version_key (io_version run_io) \<mapsto> new_version run_version]"
  "ls_operations (lifecycle_run run_start) = [''op'' \<mapsto> run_operation]"
  "ls_parsed_artifacts (lifecycle_run run_start) = Map.empty"
  "ls_source_artifacts (lifecycle_run run_start) = [''s'' \<mapsto> run_source]"
  using run_identities
  by (simp_all add: lifecycle_run_def run_start_def register_intake_def LifecycleStore_init_def intake_create_def
      source_fingerprint_of_def claim_parse_dispatch_def store_after_def add_event_def operation_event_def new_operation_def
      run_operation_def with_attempt_def IngestionOperationRecord_post_init_def run_fields Let_def)

lemma run_snoc: "lifecycle_run (es @ [e]) = lifecycle_step e (lifecycle_run es)"
  by (simp add: lifecycle_run_def)

lemma run_append: "lifecycle_run (es @ later) = fold lifecycle_step later (lifecycle_run es)"
  by (simp add: lifecycle_run_def)

lemma run_ids: "ap_operation run_proposal = run_io" "io_operation_id run_io = ''op''"
  by (simp_all add: run_proposal_def run_io_def)

lemma run_admissible: "activation_admissible (lifecycle_run run_start) run_proposal (run_guard DocumentHeadState.REGISTERED 0)"
  by (simp add: activation_admissible_def run_started run_fields bindings_match_def already_committed_def new_document_def
      new_version_def run_operation_def document_guard_matches_def version_guard_matches_def operation_guard_matches_def
      run_guard_def run_manifest_def Let_def)

section \<open>Properties\<close>

text \<open>
  C19. The activation of a validated candidate in any store the lifecycle can reach never raises. It
  commits exactly when document, version and operation are stored and bound to the proposal, the
  activation is not there already, all three guards (state, version and fence) are current and the
  artifact id is free or names the same artifact; a commit publishes pointer, version, artifact,
  completed operation and event together, and every other outcome leaves the store as it was.
\<close>

theorem activation_exactly_under_guards:
  assumes "evaluate_parsed_candidate operation version source attempt candidate = Inr decision"
    and "vc_proposal decision = Some q"
  shows "\<exists>s' res. commit_activation decision g (lifecycle_run es) = (s', Inr res) \<and>
    (icr_outcome res = IngestionCommitOutcome.COMMITTED \<longleftrightarrow> activation_admissible (lifecycle_run es) q g) \<and>
    (if activation_admissible (lifecycle_run es) q g then published s' q else s' = lifecycle_run es)"
proof -
  note ready = validated_proposal_ok [OF assms]
  show ?thesis
  proof (cases "\<exists>d v r. ls_documents (lifecycle_run es) (document_key (vi_document (io_version (ap_operation q)))) = Some d \<and>
      ls_versions (lifecycle_run es) (version_key (io_version (ap_operation q))) = Some v \<and>
      ls_operations (lifecycle_run es) (io_operation_id (ap_operation q)) = Some r")
    case True
    then obtain d v r where f: "ls_documents (lifecycle_run es) (document_key (vi_document (io_version (ap_operation q)))) = Some d"
      "ls_versions (lifecycle_run es) (version_key (io_version (ap_operation q))) = Some v"
      "ls_operations (lifecycle_run es) (io_operation_id (ap_operation q)) = Some r" by blast
    have "proposal_ok q" "vc_outcome decision = CandidateValidationOutcome.READY_FOR_COMMIT" using ready by simp_all
    with commit_current_cases [OF lifecycle_run_inv _ f, of g] show ?thesis
      unfolding commit_activation_current [OF \<open>vc_outcome decision = _\<close> assms(2) f] by blast
  next
    case False
    then have "\<not> activation_admissible (lifecycle_run es) q g" unfolding activation_admissible_def by blast
    with False ready show ?thesis
      by (auto simp: commit_activation_def assms(2) commit_result_def split: option.splits)
  qed
qed

theorem activation_exactly_under_guards_witness:
  "\<exists>s' res. commit_activation run_decision (run_guard DocumentHeadState.REGISTERED 0) (lifecycle_run run_start) = (s', Inr res) \<and>
    icr_outcome res = IngestionCommitOutcome.COMMITTED \<and> published s' run_proposal"
  using activation_exactly_under_guards [OF run_validated, of run_proposal "run_guard DocumentHeadState.REGISTERED 0" run_start]
    run_admissible
  by (auto simp: run_decision_def)

text \<open>The run after an admissible activation has published the version.\<close>

lemma run_activation:
  assumes "activation_admissible (lifecycle_run es) run_proposal g"
  shows "published (lifecycle_run (es @ [run_activate g])) run_proposal"
proof -
  have ready: "proposal_ok run_proposal" "vc_outcome run_decision = CandidateValidationOutcome.READY_FOR_COMMIT"
    "vc_proposal run_decision = Some run_proposal"
    using validated_proposal_ok [OF run_validated] by (simp_all add: run_decision_def)
  from assms obtain d v r where f:
    "ls_documents (lifecycle_run es) (document_key (vi_document (io_version (ap_operation run_proposal)))) = Some d"
    "ls_versions (lifecycle_run es) (version_key (io_version (ap_operation run_proposal))) = Some v"
    "ls_operations (lifecycle_run es) (io_operation_id (ap_operation run_proposal)) = Some r"
    unfolding activation_admissible_def by blast
  from commit_current_cases [OF lifecycle_run_inv ready(1) f, of g] assms
  obtain s' res where "commit_current d v r run_proposal g (lifecycle_run es) = (s', Inr res)" "published s' run_proposal" by auto
  then show ?thesis
    by (simp add: run_snoc run_activate_def run_validated commit_activation_current [OF ready(2,3) f])
qed

lemmas run_activated = run_activation [OF run_admissible]

text \<open>
  C20. Whatever requests a lifecycle store receives, an active version is the one its document points
  to, the document is active, no other version of the document is active, and the version carries
  publication facts that name a stored artifact with the version's own identity and source, whose
  text has the recorded checksum.
\<close>

theorem active_version_published:
  assumes "ls_versions (lifecycle_run es) (t, d, v) = Some r" and "vl_state r = DocumentVersionLifecycle.ACTIVE"
  shows "(\<exists>h. ls_documents (lifecycle_run es) (t, d) = Some h \<and> dh_state h = DocumentHeadState.ACTIVE \<and>
      dh_active_version_id h = Some v) \<and>
    (\<forall>v' r'. ls_versions (lifecycle_run es) (t, d, v') = Some r' \<longrightarrow> vl_state r' = DocumentVersionLifecycle.ACTIVE \<longrightarrow> v' = v) \<and>
    (\<exists>a p. vl_parsed_artifact_id r = Some a \<and> ls_parsed_artifacts (lifecycle_run es) a = Some p \<and>
      px_version p = vd_identity (vl_definition r) \<and> px_source_artifact_id p = vd_source_artifact_id (vl_definition r) \<and>
      artifact_bound p)"
proof -
  let ?s = "lifecycle_run es"
  note inv = lifecycle_run_inv [of es]
  have act: "x \<in> active_versions ?s (t, d) \<longleftrightarrow> (\<exists>r. ls_versions ?s (t, d, x) = Some r \<and> vl_state r = DocumentVersionLifecycle.ACTIVE)" for x
    by (simp add: active_versions_def)
  have "v \<in> pointed_version ?s (t, d)" using pointers_okD [OF inv_dest(4) [OF inv]] act assms by blast
  then obtain h where h: "ls_documents ?s (t, d) = Some h" "dh_active_version_id h = Some v"
    by (auto simp: pointed_version_def split: option.splits)
  have ok: "version_ok (ls_parsed_artifacts ?s) (t, d, v) r" using inv_dest(2) [OF inv assms(1)] .
  then have "vl_parsed_artifact_id r \<noteq> None" "v \<noteq> []"
    using assms(2) by (auto simp: version_ok_def version_key_def DocumentVersionLifecycleRecord_post_init_def opt_nonempty_def Let_def
        split: if_splits option.splits)
  moreover have "dh_state h = DocumentHeadState.ACTIVE"
    using inv_dest(1) [OF inv h(1)] h(2) \<open>v \<noteq> []\<close>
    by (auto simp: document_ok_def DocumentHeadSnapshot_post_init_def opt_nonempty_def split: if_splits)
  moreover have "active_versions ?s (t, d) = {v}"
    using pointers_okD [OF inv_dest(4) [OF inv], of "(t, d)"] h by (simp add: pointed_version_def)
  ultimately show ?thesis
    using h act ok unfolding version_ok_def by blast
qed

text \<open>The run that activates the version has it active.\<close>

theorem active_version_published_witness:
  "\<exists>r a p. ls_versions (lifecycle_run (run_start @ [run_activate (run_guard DocumentHeadState.REGISTERED 0)])) (''t'', ''d'', ''v'') = Some r \<and>
     vl_parsed_artifact_id r = Some a \<and>
     ls_parsed_artifacts (lifecycle_run (run_start @ [run_activate (run_guard DocumentHeadState.REGISTERED 0)])) a = Some p \<and> artifact_bound p"
proof -
  have k: "version_key (io_version (ap_operation run_proposal)) = (''t'', ''d'', ''v'')" by (simp add: run_fields)
  from run_activated obtain r where
    r: "ls_versions (lifecycle_run (run_start @ [run_activate (run_guard DocumentHeadState.REGISTERED 0)])) (''t'', ''d'', ''v'') = Some r"
      "vl_state r = DocumentVersionLifecycle.ACTIVE"
    unfolding published_def Let_def k by blast
  from active_version_published [OF r] r(1) show ?thesis by blast
qed

text \<open>
  Records of the lifecycle store only move forward, whatever requests follow. A document, a
  version and an operation are never removed and never change their identity or definition, and a
  record whose fence token is the same is the same record, so a caller whose guard still matches has
  seen the current facts. Source and parsed artifacts never change.
\<close>

theorem lifecycle_records_move_forward:
  "(ls_documents (lifecycle_run es) dk = Some d \<longrightarrow> (\<exists>d'. ls_documents (lifecycle_run (es @ later)) dk = Some d' \<and>
      dh_identity d' = dh_identity d \<and> dh_fence_token d \<le> dh_fence_token d' \<and> (dh_fence_token d' = dh_fence_token d \<longrightarrow> d' = d))) \<and>
   (ls_versions (lifecycle_run es) vk = Some v \<longrightarrow> (\<exists>v'. ls_versions (lifecycle_run (es @ later)) vk = Some v' \<and>
      vl_definition v' = vl_definition v \<and> vl_fence_token v \<le> vl_fence_token v' \<and> (vl_fence_token v' = vl_fence_token v \<longrightarrow> v' = v))) \<and>
   (ls_operations (lifecycle_run es) oid = Some r \<longrightarrow> (\<exists>r'. ls_operations (lifecycle_run (es @ later)) oid = Some r' \<and>
      ir_identity r' = ir_identity r \<and> ir_fence_token r \<le> ir_fence_token r' \<and> (ir_fence_token r' = ir_fence_token r \<longrightarrow> r' = r))) \<and>
   (ls_parsed_artifacts (lifecycle_run es) pid = Some p \<longrightarrow> ls_parsed_artifacts (lifecycle_run (es @ later)) pid = Some p) \<and>
   (ls_source_artifacts (lifecycle_run es) sid = Some src \<longrightarrow> ls_source_artifacts (lifecycle_run (es @ later)) sid = Some src)"
  unfolding run_append
  using documents.run_evolves [of "lifecycle_run es" dk d later] versions.run_evolves [of "lifecycle_run es" vk v later]
    operations.run_evolves [of "lifecycle_run es" oid r later] parsed_artifacts.run_evolves [of "lifecycle_run es" pid p later]
    source_artifacts.run_evolves [of "lifecycle_run es" sid src later]
  by (intro conjI impI) fastforce+

text \<open>The activated version with all its records, followed by a tombstone.\<close>

definition run_active :: "LifecycleEvent list" where
  "run_active = run_start @ [run_activate (run_guard DocumentHeadState.REGISTERED 0)]"

theorem lifecycle_records_move_forward_witness:
  "\<exists>d v r d' v' r'. ls_documents (lifecycle_run run_active) (''t'', ''d'') = Some d \<and>
     ls_versions (lifecycle_run run_active) (''t'', ''d'', ''v'') = Some v \<and> ls_operations (lifecycle_run run_active) ''op'' = Some r \<and>
     ls_documents (lifecycle_run (run_active @ [run_tombstone])) (''t'', ''d'') = Some d' \<and> dh_identity d' = dh_identity d \<and>
     ls_versions (lifecycle_run (run_active @ [run_tombstone])) (''t'', ''d'', ''v'') = Some v' \<and> vl_definition v' = vl_definition v \<and>
     ls_operations (lifecycle_run (run_active @ [run_tombstone])) ''op'' = Some r' \<and> ir_identity r' = ir_identity r \<and>
     ls_parsed_artifacts (lifecycle_run (run_active @ [run_tombstone])) (px_parsed_artifact_id (ap_parsed_artifact run_proposal)) =
       Some (ap_parsed_artifact run_proposal) \<and>
     ls_source_artifacts (lifecycle_run (run_active @ [run_tombstone])) ''s'' = Some run_source"
proof -
  have k: "document_key (vi_document (io_version run_io)) = (''t'', ''d'')" "version_key (io_version run_io) = (''t'', ''d'', ''v'')"
    by (simp_all add: run_fields)
  from run_activated obtain d v r where
    "ls_documents (lifecycle_run run_active) (''t'', ''d'') = Some d" "ls_versions (lifecycle_run run_active) (''t'', ''d'', ''v'') = Some v"
    "ls_operations (lifecycle_run run_active) ''op'' = Some r"
    "ls_parsed_artifacts (lifecycle_run run_active) (px_parsed_artifact_id (ap_parsed_artifact run_proposal)) =
       Some (ap_parsed_artifact run_proposal)"
    unfolding published_def Let_def run_ids k run_active_def by blast
  moreover have "ls_source_artifacts (lifecycle_run run_active) ''s'' = Some run_source"
    using source_artifacts.any_step_evolves [of "lifecycle_run run_start" "''s''" run_source]
    by (simp add: run_started run_active_def run_snoc)
  ultimately show ?thesis
    using lifecycle_records_move_forward [of run_active "(''t'', ''d'')" d "[run_tombstone]" "(''t'', ''d'', ''v'')" v "''op''" r
        "px_parsed_artifact_id (ap_parsed_artifact run_proposal)" "ap_parsed_artifact run_proposal" "''s''" run_source]
    by blast
qed

text \<open>
  A completed operation of a reachable store rests on the evidence of its own last attempt: its
  version, created by this operation from this source, names a stored artifact whose manifest
  carries the operation, the idempotency key and the attempt's number, request and generation.
\<close>

theorem completed_operation_evidence:
  assumes "ls_operations (lifecycle_run es) oid = Some r" and "ir_state r = IngestionOperationState.COMPLETED"
  shows "\<exists>v att a p src. ls_versions (lifecycle_run es) (version_key (io_version (ir_identity r))) = Some v \<and>
    vd_created_by_operation_id (vl_definition v) = oid \<and> ir_attempt r = Some att \<and> vl_parsed_artifact_id v = Some a \<and>
    ls_parsed_artifacts (lifecycle_run es) a = Some p \<and> artifact_bound p \<and> px_version p = vd_identity (vl_definition v) \<and>
    correlation_ok (ir_identity r) att (px_manifest p) \<and>
    ls_source_artifacts (lifecycle_run es) (io_source_artifact_id (ir_identity r)) = Some src \<and>
    sx_version src = io_version (ir_identity r)"
proof -
  from inv_dest(3) [OF lifecycle_run_inv assms(1)] assms(2) obtain v src att a p where
    v: "ls_versions (lifecycle_run es) (version_key (io_version (ir_identity r))) = Some v"
      "vd_created_by_operation_id (vl_definition v) = oid" "ir_attempt r = Some att" "vl_parsed_artifact_id v = Some a"
      "ls_parsed_artifacts (lifecycle_run es) a = Some p" "correlation_ok (ir_identity r) att (px_manifest p)"
      "ls_source_artifacts (lifecycle_run es) (io_source_artifact_id (ir_identity r)) = Some src" "sx_version src = io_version (ir_identity r)"
    unfolding operation_ok_def by blast
  moreover have "version_ok (ls_parsed_artifacts (lifecycle_run es)) (version_key (io_version (ir_identity r))) v"
    using inv_dest(2) [OF lifecycle_run_inv v(1)] .
  ultimately show ?thesis unfolding version_ok_def by (metis option.inject)
qed

theorem completed_operation_evidence_witness:
  "\<exists>r att a p. ls_operations (lifecycle_run (run_start @ [run_activate (run_guard DocumentHeadState.REGISTERED 0)])) ''op'' = Some r \<and>
     ir_attempt r = Some att \<and>
     ls_parsed_artifacts (lifecycle_run (run_start @ [run_activate (run_guard DocumentHeadState.REGISTERED 0)])) a = Some p \<and>
     correlation_ok (ir_identity r) att (px_manifest p)"
proof -
  from run_activated obtain r where
    r: "ls_operations (lifecycle_run (run_start @ [run_activate (run_guard DocumentHeadState.REGISTERED 0)])) ''op'' = Some r"
      "ir_state r = IngestionOperationState.COMPLETED"
    unfolding published_def Let_def run_ids by blast
  from completed_operation_evidence [OF r] r(1) show ?thesis by blast
qed

section \<open>Observations\<close>

text \<open>
  The intake refuses a tombstoned document until an explicit restore policy exists. The activation
  compares the head with the guard only, and its callers read the guard from the current head, so an
  ingestion in flight when its document is tombstoned makes the document active again.
\<close>

lemma run_tombstoned:
  "map_option dh_state (ls_documents (lifecycle_run (run_start @ [run_tombstone])) (''t'', ''d'')) = Some DocumentHeadState.TOMBSTONED"
  "activation_admissible (lifecycle_run (run_start @ [run_tombstone])) run_proposal (run_guard DocumentHeadState.TOMBSTONED 1)"
  by (simp_all add: run_snoc run_tombstone_def tombstone_document_def tombstone_version_def store_after_def add_event_fields
      DocumentHeadSnapshot_post_init_def opt_nonempty_def activation_admissible_def run_started run_fields bindings_match_def
      already_committed_def new_document_def new_version_def run_operation_def document_guard_matches_def version_guard_matches_def
      operation_guard_matches_def run_guard_def run_manifest_def Let_def)

lemma tombstone_undone_by_activation_in_flight:
  "map_option dh_state (ls_documents (lifecycle_run (run_start @ [run_tombstone])) (''t'', ''d'')) = Some DocumentHeadState.TOMBSTONED \<and>
   map_option dh_state (ls_documents (lifecycle_run ((run_start @ [run_tombstone]) @
     [run_activate (run_guard DocumentHeadState.TOMBSTONED 1)])) (''t'', ''d'')) = Some DocumentHeadState.ACTIVE"
proof -
  have "document_key (vi_document (io_version run_io)) = (''t'', ''d'')" by (simp add: run_fields)
  then show ?thesis
    using run_tombstoned(1) run_activation [OF run_tombstoned(2)] unfolding published_def Let_def run_ids by auto
qed

end
