(* ===== verification/Chunk_Store.thy ===== *)
theory Chunk_Store
  imports Chunking_Safety Ingestion_Safety "HOL-Library.AList"
begin

text \<open>
  \<^verbatim>\<open>src/projects/ai-agent/src/rag_chunking_committer.py\<close> and
  \<^verbatim>\<open>src/projects/ai-agent/src/rag_chunking_orchestrator.py\<close>: claims, the immutable chunk sets, the
  selection of one set per document and its outbox, and the run from an active version to a stored set.
  The committer reads the ingestion lifecycle store under its lock and never writes it, so its
  operations take that store as an argument; the requests of both stores interleave in one machine.
  The keys of sets, chunks and events are the code's own hashes.
\<close>

section \<open>Data\<close>

datatype ChunkCommitOutcome =
  COMMITTED | ALREADY_COMMITTED | IDENTITY_CONFLICT | NOT_READY | STALE_ATTEMPT | STALE_DAY95_INPUT | NOT_FOUND

datatype SelectionOutcome = SELECTED | ALREADY_SELECTED | STALE_SELECTION | STALE_DAY95_INPUT | STALE_ATTEMPT | NOT_FOUND

record ChunkingClaim =
  ccl_operation :: ChunkingOperationIdentity
  ccl_attempt :: ChunkingAttemptIdentity
  ccl_revision :: int
  ccl_fence :: int

record ChunkSelection =
  csl_tenant_id :: string
  csl_document_id :: string
  csl_document_version_id :: string
  csl_chunk_set_id :: string
  csl_revision :: int
  csl_fence :: int

record ChunkSelectionOutboxIntent =
  coi_event_id :: string
  coi_tenant_id :: string
  coi_document_id :: string
  coi_document_version_id :: string
  coi_chunk_set_id :: string
  coi_selection_revision :: int
  coi_state :: string

record ChunkCommitResult =
  ccr_outcome :: ChunkCommitOutcome
  ccr_safe_reason :: string
  ccr_chunk_set :: "ChunkSet option"
  ccr_durable_transition :: bool

record ChunkSelectionResult =
  csr_outcome :: SelectionOutcome
  csr_safe_reason :: string
  csr_selection :: "ChunkSelection option"
  csr_durable_transition :: bool

record ChunkSetStore =
  cst_operations :: "string \<rightharpoonup> ChunkingOperationIdentity"
  cst_idempotency :: "string \<times> string \<rightharpoonup> string"
  cst_claims :: "string \<rightharpoonup> ChunkingClaim"
  cst_sets :: "string \<rightharpoonup> ChunkSet"
  cst_result_keys :: "string \<rightharpoonup> string"
  cst_selections :: "string \<times> string \<rightharpoonup> ChunkSelection"
  cst_outbox :: "(string \<times> ChunkSelectionOutboxIntent) list"

definition ChunkSetStore_init :: ChunkSetStore where
  "ChunkSetStore_init = \<lparr>cst_operations = Map.empty, cst_idempotency = Map.empty, cst_claims = Map.empty, cst_sets = Map.empty,
     cst_result_keys = Map.empty, cst_selections = Map.empty, cst_outbox = []\<rparr>"

definition read_chunk_set :: "ChunkSetStore \<Rightarrow> string \<Rightarrow> ChunkSet option" where
  "read_chunk_set st chunk_set_id = cst_sets st chunk_set_id"

definition read_selection :: "ChunkSetStore \<Rightarrow> DocumentIdentity \<Rightarrow> ChunkSelection option" where
  "read_selection st identity = cst_selections st (di_tenant_id identity, di_document_id identity)"

definition read_claim :: "ChunkSetStore \<Rightarrow> string \<Rightarrow> ChunkingClaim option" where
  "read_claim st operation_id = cst_claims st operation_id"

definition chunk_outbox_intents :: "ChunkSetStore \<Rightarrow> ChunkSelectionOutboxIntent list" where
  "chunk_outbox_intents st = map snd (cst_outbox st)"

definition pending_outbox_intents :: "ChunkSetStore \<Rightarrow> ChunkSelectionOutboxIntent list" where
  "pending_outbox_intents st = filter (\<lambda>i. coi_state i = ''PENDING'') (chunk_outbox_intents st)"

definition mark_outbox_dispatched :: "string \<Rightarrow> ChunkSetStore \<Rightarrow> ChunkSetStore \<times> bool" where
  "mark_outbox_dispatched event_id st =
     (case map_of (cst_outbox st) event_id of
        None \<Rightarrow> (st, False)
      | Some current \<Rightarrow>
          if coi_state current = ''DISPATCHED'' then (st, True)
          else (st\<lparr>cst_outbox := AList.update event_id (current\<lparr>coi_state := ''DISPATCHED''\<rparr>) (cst_outbox st)\<rparr>, True))"

section \<open>Claims\<close>

text \<open>The three facts every operation of the committer reads; \<open>KeyError\<close> is \<open>None\<close>.\<close>

definition read_day95 ::
    "LifecycleStore \<Rightarrow> DocumentVersionIdentity
      \<Rightarrow> (DocumentHeadSnapshot \<times> DocumentVersionLifecycleRecord \<times> IngestionOperationRecord) option" where
  "read_day95 day95 identity =
     (case (read_document day95 (vi_document identity), read_version day95 identity) of
        (Inr document, Inr version) \<Rightarrow>
          (case read_operation day95 (vd_created_by_operation_id (vl_definition version)) of
             Inr ingestion \<Rightarrow> Some (document, version, ingestion)
           | Inl _ \<Rightarrow> None)
      | _ \<Rightarrow> None)"

definition claim_bound ::
    "DocumentVersionLifecycleRecord \<Rightarrow> IngestionOperationRecord \<Rightarrow> ParsedArtifactDefinition \<Rightarrow> SourceArtifactReference
      \<Rightarrow> ChunkingOperationIdentity \<Rightarrow> bool" where
  "claim_bound version ingestion parsed source operation \<longleftrightarrow>
     px_version parsed = cop_version operation \<and> sx_version source = cop_version operation \<and>
     px_source_artifact_id parsed = sx_source_artifact_id source \<and>
     pm_source_checksum_sha256 (px_manifest parsed) = sx_checksum_sha256 source \<and>
     px_source_artifact_id parsed = vd_source_artifact_id (vl_definition version) \<and>
     pm_tenant_id (px_manifest parsed) = vi_tenant_id (cop_version operation) \<and>
     pm_document_id (px_manifest parsed) = vi_document_id (cop_version operation) \<and>
     pm_document_version_id (px_manifest parsed) = vi_document_version_id (cop_version operation) \<and>
     pm_source_artifact_id (px_manifest parsed) = cop_source_artifact_id operation \<and>
     pm_operation_id (px_manifest parsed) = io_operation_id (ir_identity ingestion) \<and>
     pm_idempotency_key (px_manifest parsed) = io_idempotency_key (ir_identity ingestion) \<and>
     pm_parse_contract_version (px_manifest parsed) = vd_parse_contract_version (vl_definition version) \<and>
     io_version (ir_identity ingestion) = cop_version operation \<and>
     io_source_artifact_id (ir_identity ingestion) = cop_source_artifact_id operation \<and>
     (case ir_attempt ingestion of None \<Rightarrow> False | Some attempt \<Rightarrow>
        pm_attempt_number (px_manifest parsed) = pt_attempt_number attempt \<and>
        pm_parser_request_id (px_manifest parsed) = pt_parser_request_id attempt \<and>
        pm_parser_generation (px_manifest parsed) = pt_parser_generation attempt)"

text \<open>The checksums come last in the condition, so a text without an encoding raises only there.\<close>

definition claim_admissible :: "LifecycleStore \<Rightarrow> ChunkingOperationIdentity \<Rightarrow> bool res" where
  "claim_admissible day95 operation =
     (case read_day95 day95 (cop_version operation) of
        None \<Rightarrow> Inr False
      | Some (document, version, ingestion) \<Rightarrow>
          let eligibility = evaluate_chunking_eligibility document version ingestion in
          (case (read_parsed_artifact day95 (cop_parsed_artifact_id operation),
                 read_source_artifact day95 (cop_source_artifact_id operation)) of
             (Some parsed, Some source) \<Rightarrow>
               if \<not> eligible eligibility \<or> eg_parsed_artifact_id eligibility \<noteq> Some (cop_parsed_artifact_id operation)
                 \<or> \<not> claim_bound version ingestion parsed source operation
               then Inr False
               else bind_res (sha256_text (px_canonical_text parsed)) (\<lambda>checksum.
                 Inr (px_output_checksum_sha256 parsed = checksum \<and>
                      pm_output_checksum_sha256 (px_manifest parsed) = px_output_checksum_sha256 parsed))
           | _ \<Rightarrow> Inr False))"

definition next_claim :: "ChunkingOperationIdentity \<Rightarrow> ChunkingAttemptIdentity \<Rightarrow> ChunkingClaim option \<Rightarrow> ChunkingClaim" where
  "next_claim operation attempt previous =
     \<lparr>ccl_operation = operation, ccl_attempt = attempt,
      ccl_revision = (case previous of None \<Rightarrow> 1 | Some p \<Rightarrow> ccl_revision p + 1),
      ccl_fence = (case previous of None \<Rightarrow> 1 | Some p \<Rightarrow> ccl_fence p + 1)\<rparr>"

definition chunk_claim ::
    "LifecycleStore \<Rightarrow> ChunkingOperationIdentity \<Rightarrow> ChunkingAttemptIdentity \<Rightarrow> ChunkSetStore
      \<Rightarrow> ChunkSetStore \<times> ChunkingClaim option res" where
  "chunk_claim day95 operation attempt st =
     (let oid = cop_operation_id operation; idem = (vi_tenant_id (cop_version operation), cop_idempotency_key operation);
          previous = cst_claims st oid; claim = next_claim operation attempt previous in
      if cat_operation_id attempt \<noteq> oid then (st, Inr None)
      else case claim_admissible day95 operation of Inl e \<Rightarrow> (st, Inl e) | Inr admissible \<Rightarrow>
      if \<not> admissible then (st, Inr None)
      else if cst_operations st oid \<notin> {None, Some operation} then (st, Inr None)
      else if cst_idempotency st idem \<notin> {None, Some oid} then (st, Inr None)
      else if (case previous of Some p \<Rightarrow> attempt = ccl_attempt p | None \<Rightarrow> False) then (st, Inr previous)
      else if (case previous of
           Some p \<Rightarrow> cat_attempt_number attempt \<noteq> cat_attempt_number (ccl_attempt p) + 1 \<or>
                    cat_generation attempt \<noteq> cat_generation (ccl_attempt p) + 1 \<or>
                    cat_request_id attempt = cat_request_id (ccl_attempt p)
         | None \<Rightarrow> cat_attempt_number attempt \<noteq> 1 \<or> cat_generation attempt \<noteq> 1)
      then (st, Inr None)
      else (st\<lparr>cst_operations := (cst_operations st)(oid \<mapsto> operation), cst_idempotency := (cst_idempotency st)(idem \<mapsto> oid),
               cst_claims := (cst_claims st)(oid \<mapsto> claim)\<rparr>, Inr (Some claim)))"

section \<open>Chunk sets\<close>

definition removeprefix :: "string \<Rightarrow> string \<Rightarrow> string" where
  "removeprefix p s = (if prefix p s then drop (length p) s else s)"

definition chunk_set_id :: "ChunkingOperationIdentity \<Rightarrow> string" where
  "chunk_set_id operation = ''chunk-set:'' @ removeprefix ''sha256:'' (stable_result_key operation)"

definition chunk_id :: "string \<Rightarrow> ChunkCandidate \<Rightarrow> string" where
  "chunk_id set_id item = ''chunk:'' @ removeprefix ''sha256:'' (stable_hash (JList
     [JStr set_id, JInt (ckc_ordinal item),
      JList (map (\<lambda>s. JList [JInt (int (sg_start s)), JInt (int (sg_end s)), JStr (sg_role s)]) (ckc_source_segments item))]))"

definition new_chunk_set :: "ChunkSetCandidate \<Rightarrow> ChunkSet" where
  "new_chunk_set candidate =
     (let set_id = chunk_set_id (csc_operation candidate) in
      \<lparr>cse_chunk_set_id = set_id, cse_operation = csc_operation candidate, cse_experiment_id = csc_experiment_id candidate,
       cse_manifest = csc_manifest candidate,
       cse_chunks = map (\<lambda>item. \<lparr>chk_chunk_id = chunk_id set_id item, chk_chunk_set_id = set_id, chk_candidate = item\<rparr>)
         (csc_chunks candidate)\<rparr>)"

definition chunk_commit_result :: "ChunkCommitOutcome \<Rightarrow> string \<Rightarrow> ChunkSet option \<Rightarrow> bool \<Rightarrow> ChunkCommitResult" where
  "chunk_commit_result outcome reason cs durable =
     \<lparr>ccr_outcome = outcome, ccr_safe_reason = reason, ccr_chunk_set = cs, ccr_durable_transition = durable\<rparr>"

text \<open>The insertion, once the candidate has been validated again.\<close>

definition insert_chunk_set :: "ChunkSetCandidate \<Rightarrow> ChunkSetStore \<Rightarrow> (ChunkSetStore \<times> ChunkCommitResult) res" where
  "insert_chunk_set candidate st =
     (let operation = csc_operation candidate; key = stable_result_key operation in
      case cst_result_keys st key of
        Some existing_id \<Rightarrow>
          (case cst_sets st existing_id of
             None \<Rightarrow> Inl (KeyError existing_id)
           | Some existing_set \<Rightarrow>
               if cse_manifest existing_set \<noteq> csc_manifest candidate \<or>
                  cop_contract_fingerprint (cse_operation existing_set) \<noteq> cop_contract_fingerprint operation
               then Inr (st, chunk_commit_result ChunkCommitOutcome.IDENTITY_CONFLICT ''SAME_RESULT_IDENTITY_HAS_DIFFERENT_MANIFEST'' None False)
               else Inr (st, chunk_commit_result ChunkCommitOutcome.ALREADY_COMMITTED ''EXACT_CHUNK_SET_ALREADY_COMMITTED''
                          (Some existing_set) False))
      | None \<Rightarrow>
          let new = new_chunk_set candidate in
          Inr (st\<lparr>cst_sets := (cst_sets st)(cse_chunk_set_id new \<mapsto> new),
                  cst_result_keys := (cst_result_keys st)(key \<mapsto> cse_chunk_set_id new)\<rparr>,
               chunk_commit_result ChunkCommitOutcome.COMMITTED ''IMMUTABLE_CHUNK_SET_COMMITTED'' (Some new) True))"

definition persist ::
    "TokenizerPort \<Rightarrow> LifecycleStore \<Rightarrow> ChunkingContract \<Rightarrow> ChunkValidationDecision \<Rightarrow> ChunkSetStore
      \<Rightarrow> (ChunkSetStore \<times> ChunkCommitResult) res" where
  "persist port day95 contract decision st =
     (case (chunk_ready decision, cvd_candidate decision) of
        (True, Some candidate) \<Rightarrow>
          let operation = csc_operation candidate in
          if map_option ccl_attempt (cst_claims st (cop_operation_id operation)) \<noteq> Some (csc_attempt candidate)
          then Inr (st, chunk_commit_result ChunkCommitOutcome.STALE_ATTEMPT ''CHUNKING_ATTEMPT_GENERATION_STALE'' None False)
          else (case read_day95 day95 (cop_version operation) of
             None \<Rightarrow> Inr (st, chunk_commit_result ChunkCommitOutcome.STALE_DAY95_INPUT ''DAY95_LIFECYCLE_FACT_MISSING'' None False)
           | Some (document, version, ingestion) \<Rightarrow>
               (case (read_parsed_artifact day95 (cop_parsed_artifact_id operation),
                      read_source_artifact day95 (cop_source_artifact_id operation)) of
                  (Some parsed, Some source) \<Rightarrow>
                    bind_res (evaluate_chunk_set port document version ingestion parsed source contract candidate) (\<lambda>refreshed.
                    if \<not> chunk_ready refreshed
                    then Inr (st, chunk_commit_result ChunkCommitOutcome.STALE_DAY95_INPUT (cvd_safe_reason refreshed) None False)
                    else insert_chunk_set candidate st)
                | _ \<Rightarrow> Inr (st, chunk_commit_result ChunkCommitOutcome.STALE_DAY95_INPUT
                            ''DAY95_SOURCE_OR_PARSED_ARTIFACT_MISSING'' None False)))
      | _ \<Rightarrow> Inr (st, chunk_commit_result ChunkCommitOutcome.NOT_READY ''CANDIDATE_NOT_READY'' None False))"

section \<open>Selection\<close>

definition selection_result :: "SelectionOutcome \<Rightarrow> string \<Rightarrow> ChunkSelection option \<Rightarrow> bool \<Rightarrow> ChunkSelectionResult" where
  "selection_result outcome reason selection durable =
     \<lparr>csr_outcome = outcome, csr_safe_reason = reason, csr_selection = selection, csr_durable_transition = durable\<rparr>"

definition selection_key :: "DocumentVersionIdentity \<Rightarrow> string \<times> string" where
  "selection_key i = (vi_tenant_id i, vi_document_id i)"

definition selection_event_id :: "string \<times> string \<Rightarrow> int \<Rightarrow> string \<Rightarrow> string" where
  "selection_event_id key revision set_id =
     stable_hash (JList [JList [JStr (fst key), JStr (snd key)], JInt revision, JStr set_id])"

text \<open>The facts of the ingestion store a selection rests on.\<close>

definition selection_current :: "LifecycleStore \<Rightarrow> ChunkingOperationIdentity \<Rightarrow> int \<Rightarrow> int
    \<Rightarrow> DocumentHeadSnapshot \<Rightarrow> DocumentVersionLifecycleRecord \<Rightarrow> IngestionOperationRecord \<Rightarrow> bool res" where
  "selection_current day95 operation expected_document_state_version expected_document_fence document version ingestion =
     (let eligibility = evaluate_chunking_eligibility document version ingestion in
      if \<not> eligible eligibility \<or> eg_parsed_artifact_id eligibility \<noteq> Some (cop_parsed_artifact_id operation) then Inr False
      else case (read_parsed_artifact day95 (cop_parsed_artifact_id operation),
                 read_source_artifact day95 (cop_source_artifact_id operation)) of
         (Some parsed, Some source) \<Rightarrow>
           bind_res (sha256_text (px_canonical_text parsed)) (\<lambda>checksum.
             Inr (px_output_checksum_sha256 parsed = checksum \<and>
                  pm_source_checksum_sha256 (px_manifest parsed) = sx_checksum_sha256 source \<and>
                  dh_state_version document = expected_document_state_version \<and> dh_fence_token document = expected_document_fence))
       | _ \<Rightarrow> Inr False)"

definition apply_selection ::
    "DocumentVersionIdentity \<Rightarrow> string \<Rightarrow> string option \<Rightarrow> int \<Rightarrow> ChunkingClaim \<Rightarrow> ChunkSetStore
      \<Rightarrow> ChunkSetStore \<times> ChunkSelectionResult" where
  "apply_selection version set_id expected_selected_id expected_selection_revision claim st =
     (let key = selection_key version; previous = cst_selections st key;
          actual_revision = (case previous of None \<Rightarrow> 0 | Some p \<Rightarrow> csl_revision p);
          revision = actual_revision + 1; event_id = selection_event_id key revision set_id;
          selection = \<lparr>csl_tenant_id = vi_tenant_id version, csl_document_id = vi_document_id version,
            csl_document_version_id = vi_document_version_id version, csl_chunk_set_id = set_id,
            csl_revision = revision, csl_fence = ccl_fence claim\<rparr>;
          outbox = \<lparr>coi_event_id = event_id, coi_tenant_id = vi_tenant_id version, coi_document_id = vi_document_id version,
            coi_document_version_id = vi_document_version_id version, coi_chunk_set_id = set_id,
            coi_selection_revision = revision, coi_state = ''PENDING''\<rparr> in
      if map_option csl_chunk_set_id previous = Some set_id
      then (st, selection_result SelectionOutcome.ALREADY_SELECTED ''CHUNK_SET_ALREADY_SELECTED'' previous False)
      else if map_option csl_chunk_set_id previous \<noteq> expected_selected_id \<or> actual_revision \<noteq> expected_selection_revision
      then (st, selection_result SelectionOutcome.STALE_SELECTION ''SELECTED_CHUNK_SET_BASELINE_CHANGED'' previous False)
      else (st\<lparr>cst_selections := (cst_selections st)(key \<mapsto> selection),
               cst_outbox := AList.update event_id outbox (cst_outbox st)\<rparr>,
            selection_result SelectionOutcome.SELECTED ''CHUNK_SET_SELECTED_WITH_OUTBOX_INTENT'' (Some selection) True))"

definition select_chunk_set ::
    "LifecycleStore \<Rightarrow> string \<Rightarrow> string option \<Rightarrow> int \<Rightarrow> int \<Rightarrow> int \<Rightarrow> ChunkingClaim \<Rightarrow> ChunkSetStore
      \<Rightarrow> ChunkSetStore \<times> ChunkSelectionResult res" where
  "select_chunk_set day95 set_id expected_selected_id expected_selection_revision expected_document_state_version
       expected_document_fence claim st =
     (case cst_sets st set_id of
        None \<Rightarrow> (st, Inr (selection_result SelectionOutcome.NOT_FOUND ''CHUNK_SET_NOT_FOUND'' None False))
      | Some cs \<Rightarrow>
          if stable_result_key (ccl_operation claim) \<noteq> stable_result_key (cse_operation cs) \<or>
             cst_claims st (cop_operation_id (ccl_operation claim)) \<noteq> Some claim
          then (st, Inr (selection_result SelectionOutcome.STALE_ATTEMPT ''CHUNKING_CLAIM_FENCE_STALE'' None False))
          else (case read_day95 day95 (cop_version (cse_operation cs)) of
             None \<Rightarrow> (st, Inr (selection_result SelectionOutcome.STALE_DAY95_INPUT ''DAY95_LIFECYCLE_FACT_MISSING'' None False))
           | Some (document, version, ingestion) \<Rightarrow>
               (case selection_current day95 (cse_operation cs) expected_document_state_version expected_document_fence
                       document version ingestion of
                  Inl e \<Rightarrow> (st, Inl e)
                | Inr current \<Rightarrow>
                    if \<not> current
                    then (st, Inr (selection_result SelectionOutcome.STALE_DAY95_INPUT ''DAY95_ACTIVE_VERSION_OR_FENCE_CHANGED'' None False))
                    else map_prod id Inr (apply_selection (cop_version (cse_operation cs)) set_id expected_selected_id
                           expected_selection_revision claim st))))"

section \<open>The machine of both stores\<close>

datatype ChunkEvent =
    Day95 LifecycleEvent
  | ClaimChunking ChunkingOperationIdentity ChunkingAttemptIdentity
  | PersistSet ChunkingContract ChunkValidationDecision
  | SelectSet string "string option" int int int ChunkingClaim
  | MarkDispatched string

record ChunkWorld =
  cw_day95 :: LifecycleStore
  cw_chunks :: ChunkSetStore

definition ChunkWorld_init :: ChunkWorld where
  "ChunkWorld_init = \<lparr>cw_day95 = LifecycleStore_init, cw_chunks = ChunkSetStore_init\<rparr>"

text \<open>A candidate whose source segments have been constructed.\<close>

definition candidate_constructed :: "ChunkValidationDecision \<Rightarrow> bool" where
  "candidate_constructed d \<longleftrightarrow> (case cvd_candidate d of None \<Rightarrow> True | Some candidate \<Rightarrow>
     (\<forall>c \<in> set (csc_chunks candidate). \<forall>s \<in> set (ckc_source_segments c). is_ok (SourceSegment_post_init s)))"

fun chunk_world_step :: "TokenizerPort \<Rightarrow> ChunkEvent \<Rightarrow> ChunkWorld \<Rightarrow> ChunkWorld" where
  "chunk_world_step port (Day95 e) w = w\<lparr>cw_day95 := lifecycle_step e (cw_day95 w)\<rparr>"
| "chunk_world_step port (ClaimChunking operation attempt) w =
     w\<lparr>cw_chunks := fst (chunk_claim (cw_day95 w) operation attempt (cw_chunks w))\<rparr>"
| "chunk_world_step port (PersistSet contract decision) w =
     (if candidate_constructed decision
      then (case persist port (cw_day95 w) contract decision (cw_chunks w) of
              Inl _ \<Rightarrow> w | Inr (st, _) \<Rightarrow> w\<lparr>cw_chunks := st\<rparr>)
      else w)"
| "chunk_world_step port (SelectSet set_id selected_id revision sv fence claim) w =
     w\<lparr>cw_chunks := fst (select_chunk_set (cw_day95 w) set_id selected_id revision sv fence claim (cw_chunks w))\<rparr>"
| "chunk_world_step port (MarkDispatched event_id) w = w\<lparr>cw_chunks := fst (mark_outbox_dispatched event_id (cw_chunks w))\<rparr>"

definition chunk_run :: "TokenizerPort \<Rightarrow> ChunkEvent list \<Rightarrow> ChunkWorld" where
  "chunk_run port es = fold (chunk_world_step port) es ChunkWorld_init"

section \<open>The chunking run\<close>

datatype ChunkingRunOutcome =
  COMMITTED | ALREADY_COMMITTED | CANCELLED | CAPACITY_DENIED | INELIGIBLE | CLAIM_CONFLICT | GENERATION_FAILED | VALIDATION_FAILED
| COMMIT_REJECTED

record ChunkingRunRequest =
  crq_operation :: ChunkingOperationIdentity
  crq_attempt :: ChunkingAttemptIdentity
  crq_contract :: ChunkingContract
  crq_experiment_id :: string
  crq_cancelled :: bool
  crq_capacity_admitted :: bool

record ChunkingRunResult =
  crr_outcome :: ChunkingRunOutcome
  crr_safe_reason :: string
  crr_chunk_set :: "ChunkSet option"
  crr_adapter_calls :: int
  crr_validation_calls :: int
  crr_committer_persist_calls :: int
  crr_durable_chunk_set_transitions :: int

definition chunking_result :: "ChunkingRunOutcome \<Rightarrow> string \<Rightarrow> ChunkingRunResult" where
  "chunking_result outcome reason =
     \<lparr>crr_outcome = outcome, crr_safe_reason = reason, crr_chunk_set = None, crr_adapter_calls = 0, crr_validation_calls = 0,
      crr_committer_persist_calls = 0, crr_durable_chunk_set_transitions = 0\<rparr>"

definition run_artifact_ok ::
    "DocumentHeadSnapshot \<Rightarrow> DocumentVersionLifecycleRecord \<Rightarrow> IngestionOperationRecord \<Rightarrow> ParsedArtifactDefinition
      \<Rightarrow> SourceArtifactReference \<Rightarrow> ChunkingOperationIdentity \<Rightarrow> bool res" where
  "run_artifact_ok document version ingestion parsed source operation =
     (let eligibility = evaluate_chunking_eligibility document version ingestion in
      if \<not> (eligible eligibility \<and> eg_parsed_artifact_id eligibility = Some (cop_parsed_artifact_id operation) \<and>
             px_version parsed = cop_version operation \<and> px_source_artifact_id parsed = cop_source_artifact_id operation \<and>
             sx_version source = cop_version operation \<and> sx_checksum_sha256 source = pm_source_checksum_sha256 (px_manifest parsed))
      then Inr False
      else bind_res (sha256_text (px_canonical_text parsed)) (\<lambda>checksum. Inr (px_output_checksum_sha256 parsed = checksum)))"

text \<open>
  The facts the run reads, one locked call after another; \<open>others\<close> gives the requests of other callers
  the stores serve before each of its calls.
\<close>

type_synonym day95_facts = "DocumentHeadSnapshot \<times> DocumentVersionLifecycleRecord \<times> IngestionOperationRecord"

definition read_facts ::
    "TokenizerPort \<Rightarrow> (nat \<Rightarrow> ChunkEvent list) \<Rightarrow> DocumentVersionIdentity \<Rightarrow> ChunkWorld \<Rightarrow> ChunkWorld \<times> day95_facts option" where
  "read_facts port others identity w =
     (let w = fold (chunk_world_step port) (others 0) w in
      case read_document (cw_day95 w) (vi_document identity) of
        Inl _ \<Rightarrow> (w, None)
      | Inr document \<Rightarrow>
          let w = fold (chunk_world_step port) (others 1) w in
          (case read_version (cw_day95 w) identity of
             Inl _ \<Rightarrow> (w, None)
           | Inr version \<Rightarrow>
               let w = fold (chunk_world_step port) (others 2) w in
               (case read_operation (cw_day95 w) (vd_created_by_operation_id (vl_definition version)) of
                  Inl _ \<Rightarrow> (w, None)
                | Inr ingestion \<Rightarrow> (w, Some (document, version, ingestion)))))"

definition run_outcome :: "ChunkCommitOutcome \<Rightarrow> ChunkingRunOutcome" where
  "run_outcome committed =
     (if committed = ChunkCommitOutcome.COMMITTED then ChunkingRunOutcome.COMMITTED
      else if committed = ChunkCommitOutcome.ALREADY_COMMITTED then ChunkingRunOutcome.ALREADY_COMMITTED
      else ChunkingRunOutcome.COMMIT_REJECTED)"

text \<open>From a claim: generation, validation against the facts read before, and the commit.\<close>

definition chunk_claimed ::
    "TokenizerPort \<Rightarrow> (nat \<Rightarrow> rat) \<Rightarrow> (nat \<Rightarrow> ChunkEvent list) \<Rightarrow> ChunkingRunRequest \<Rightarrow> day95_facts \<Rightarrow> ParsedArtifactDefinition
      \<Rightarrow> SourceArtifactReference \<Rightarrow> ChunkWorld \<Rightarrow> ChunkWorld \<times> ChunkingRunResult res" where
  "chunk_claimed port clock others request facts parsed source w =
     (case generate_chunks port clock parsed (crq_contract request) (crq_operation request) (crq_attempt request) (crq_experiment_id request) of
        Inl (ChunkGenerationError reason) \<Rightarrow>
          (w, Inr ((chunking_result ChunkingRunOutcome.GENERATION_FAILED reason)\<lparr>crr_adapter_calls := 1\<rparr>))
      | Inl e \<Rightarrow> (w, Inl e)
      | Inr candidate \<Rightarrow>
          (let (document, version, ingestion) = facts in
           case evaluate_chunk_set port document version ingestion parsed source (crq_contract request) candidate of
             Inl e \<Rightarrow> (w, Inl e)
           | Inr decision \<Rightarrow>
               if \<not> chunk_ready decision
               then (w, Inr ((chunking_result ChunkingRunOutcome.VALIDATION_FAILED (cvd_safe_reason decision))
                       \<lparr>crr_adapter_calls := 1, crr_validation_calls := 1\<rparr>))
               else
                 let w = fold (chunk_world_step port) (others 6) w in
                 (case persist port (cw_day95 w) (crq_contract request) decision (cw_chunks w) of
                    Inl e \<Rightarrow> (w, Inl e)
                  | Inr (st, committed) \<Rightarrow>
                      (w\<lparr>cw_chunks := st\<rparr>, Inr ((chunking_result (run_outcome (ccr_outcome committed)) (ccr_safe_reason committed))
                         \<lparr>crr_chunk_set := ccr_chunk_set committed, crr_adapter_calls := 1, crr_validation_calls := 1,
                          crr_committer_persist_calls := 1,
                          crr_durable_chunk_set_transitions := of_bool (ccr_durable_transition committed)\<rparr>)))))"

definition run_chunking ::
    "TokenizerPort \<Rightarrow> (nat \<Rightarrow> rat) \<Rightarrow> (nat \<Rightarrow> ChunkEvent list) \<Rightarrow> ChunkingRunRequest \<Rightarrow> ChunkWorld
      \<Rightarrow> ChunkWorld \<times> ChunkingRunResult res" where
  "run_chunking port clock others request w =
     (let operation = crq_operation request in
      if crq_cancelled request
      then (w, Inr (chunking_result ChunkingRunOutcome.CANCELLED ''CALLER_CANCELLED_BEFORE_CLAIM''))
      else if \<not> crq_capacity_admitted request
      then (w, Inr (chunking_result ChunkingRunOutcome.CAPACITY_DENIED ''CHUNKING_CAPACITY_DENIED''))
      else if cop_contract_fingerprint operation \<noteq> contract_fingerprint (crq_contract request)
      then (w, Inr (chunking_result ChunkingRunOutcome.INELIGIBLE ''CHUNKING_CONTRACT_MISMATCH''))
      else
        (case read_facts port others (cop_version operation) w of
           (w, None) \<Rightarrow> (w, Inr (chunking_result ChunkingRunOutcome.INELIGIBLE ''DAY95_LIFECYCLE_FACT_MISSING''))
         | (w, Some (document, version, ingestion)) \<Rightarrow>
             let w3 = fold (chunk_world_step port) (others 3) w; parsed = read_parsed_artifact (cw_day95 w3) (cop_parsed_artifact_id operation);
                 w4 = fold (chunk_world_step port) (others 4) w3; source = read_source_artifact (cw_day95 w4) (cop_source_artifact_id operation) in
             (case (parsed, source) of
                (Some parsed, Some source) \<Rightarrow>
                  (case run_artifact_ok document version ingestion parsed source operation of
                     Inl e \<Rightarrow> (w4, Inl e)
                   | Inr artifact_ok \<Rightarrow>
                  if \<not> artifact_ok
                  then (w4, Inr (chunking_result ChunkingRunOutcome.INELIGIBLE ''DAY95_ACTIVE_PARSED_ARTIFACT_NOT_ELIGIBLE''))
                  else
                    let w5 = fold (chunk_world_step port) (others 5) w4 in
                    (case chunk_claim (cw_day95 w5) operation (crq_attempt request) (cw_chunks w5) of
                       (st, Inl e) \<Rightarrow> (w5, Inl e)
                     | (st, Inr None) \<Rightarrow> (w5, Inr (chunking_result ChunkingRunOutcome.CLAIM_CONFLICT
                                       ''CHUNKING_OPERATION_OR_ATTEMPT_CONFLICT''))
                     | (st, Inr (Some claim)) \<Rightarrow>
                         chunk_claimed port clock others request (document, version, ingestion) parsed source (w5\<lparr>cw_chunks := st\<rparr>)))
              | _ \<Rightarrow> (w4, Inr (chunking_result ChunkingRunOutcome.INELIGIBLE ''DAY95_ACTIVE_PARSED_ARTIFACT_NOT_ELIGIBLE'')))))"

end
