(* ===== verification/Chunk_Store_Invariant.thy ===== *)
theory Chunk_Store_Invariant
  imports Chunk_Store
begin

text \<open>
  The invariant of the chunk store beside the ingestion store: stored sets lie under their result
  identity and were accepted against an artifact that is still there, claims carry one counter, a
  selection names a stored set of its document and has its event in the outbox. Every request keeps
  it, and sets, claims and selections only move forward.
\<close>

section \<open>The invariant\<close>

text \<open>
  A stored set is a candidate the validator accepted against the artifact and the source that the
  ingestion store still holds.
\<close>

definition accepted_set :: "TokenizerPort \<Rightarrow> LifecycleStore \<Rightarrow> ChunkSet \<Rightarrow> bool" where
  "accepted_set port day95 cs \<longleftrightarrow> (\<exists>contract document version ingestion parsed source candidate d.
     evaluate_chunk_set port document version ingestion parsed source contract candidate = Inr d \<and> chunk_ready d \<and>
     candidate_constructed d \<and> cs = new_chunk_set candidate \<and>
     ls_parsed_artifacts day95 (cop_parsed_artifact_id (cse_operation cs)) = Some parsed \<and>
     ls_source_artifacts day95 (cop_source_artifact_id (cse_operation cs)) = Some source)"

definition sets_ok :: "TokenizerPort \<Rightarrow> LifecycleStore \<Rightarrow> ChunkSetStore \<Rightarrow> bool" where
  "sets_ok port day95 st \<longleftrightarrow>
     (\<forall>k cs. cst_sets st k = Some cs \<longrightarrow> k = chunk_set_id (cse_operation cs) \<and> cse_chunk_set_id cs = k \<and>
        cst_result_keys st (stable_result_key (cse_operation cs)) = Some k \<and> accepted_set port day95 cs) \<and>
     (\<forall>key k. cst_result_keys st key = Some k \<longrightarrow> (\<exists>cs. cst_sets st k = Some cs \<and> stable_result_key (cse_operation cs) = key))"

text \<open>Revision, fence, attempt number and generation of a claim are one counter.\<close>

definition claims_ok :: "ChunkSetStore \<Rightarrow> bool" where
  "claims_ok st \<longleftrightarrow>
     (\<forall>oid c. cst_claims st oid = Some c \<longrightarrow> cop_operation_id (ccl_operation c) = oid \<and>
        cst_operations st oid = Some (ccl_operation c) \<and> cat_operation_id (ccl_attempt c) = oid \<and> 1 \<le> ccl_revision c \<and>
        ccl_fence c = ccl_revision c \<and> cat_attempt_number (ccl_attempt c) = ccl_revision c \<and>
        cat_generation (ccl_attempt c) = ccl_revision c) \<and>
     (\<forall>oid i. cst_operations st oid = Some i \<longrightarrow> cop_operation_id i = oid \<and> cst_claims st oid \<noteq> None \<and>
        cst_idempotency st (vi_tenant_id (cop_version i), cop_idempotency_key i) = Some oid)"

definition selections_ok :: "ChunkSetStore \<Rightarrow> bool" where
  "selections_ok st \<longleftrightarrow> (\<forall>key sel. cst_selections st key = Some sel \<longrightarrow>
     (csl_tenant_id sel, csl_document_id sel) = key \<and> 1 \<le> csl_revision sel \<and>
     (\<exists>cs. cst_sets st (csl_chunk_set_id sel) = Some cs \<and> selection_key (cop_version (cse_operation cs)) = key \<and>
        vi_document_version_id (cop_version (cse_operation cs)) = csl_document_version_id sel) \<and>
     map_of (cst_outbox st) (selection_event_id key (csl_revision sel) (csl_chunk_set_id sel)) \<noteq> None)"

definition outbox_ok :: "ChunkSetStore \<Rightarrow> bool" where
  "outbox_ok st \<longleftrightarrow> (\<forall>i x. map_of (cst_outbox st) i = Some x \<longrightarrow> coi_event_id x = i \<and>
     i = selection_event_id (coi_tenant_id x, coi_document_id x) (coi_selection_revision x) (coi_chunk_set_id x) \<and>
     coi_state x \<in> {''PENDING'', ''DISPATCHED''})"

definition chunk_inv :: "TokenizerPort \<Rightarrow> ChunkWorld \<Rightarrow> bool" where
  "chunk_inv port w \<longleftrightarrow> sets_ok port (cw_day95 w) (cw_chunks w) \<and> claims_ok (cw_chunks w) \<and> selections_ok (cw_chunks w) \<and>
     outbox_ok (cw_chunks w)"

lemma chunk_inv_init: "chunk_inv port ChunkWorld_init"
  by (simp add: chunk_inv_def ChunkWorld_init_def ChunkSetStore_init_def sets_ok_def claims_ok_def selections_ok_def outbox_ok_def)

lemma removeprefix_inj: "prefix p a \<Longrightarrow> prefix p b \<Longrightarrow> removeprefix p a = removeprefix p b \<longleftrightarrow> a = b"
  by (auto simp: removeprefix_def prefix_def)

lemma result_key_prefix: "prefix ''sha256:'' (stable_result_key i)"
  by (simp add: stable_result_key_def stable_hash_def)

lemma chunk_set_id_eq: "chunk_set_id i = chunk_set_id j \<longleftrightarrow> stable_result_key i = stable_result_key j"
  unfolding chunk_set_id_def same_append_eq by (rule removeprefix_inj [OF result_key_prefix result_key_prefix])

subsection \<open>The ingestion store moves on\<close>

lemma accepted_set_mono:
  assumes "accepted_set port day95 cs"
    and "moves (\<lambda>_. 0) id (ls_parsed_artifacts day95) (ls_parsed_artifacts day95')"
    and "moves (\<lambda>_. 0) id (ls_source_artifacts day95) (ls_source_artifacts day95')"
  shows "accepted_set port day95' cs"
  using assms unfolding accepted_set_def moves_def id_apply less_irrefl simp_thms by metis

lemma day95_keeps: "chunk_inv port w \<Longrightarrow> chunk_inv port (chunk_world_step port (Day95 e) w)"
  unfolding chunk_inv_def sets_ok_def
  using accepted_set_mono [OF _ step_moves(5) [of "cw_day95 w" e] step_moves(6) [of "cw_day95 w" e]] by (auto simp del: lifecycle_step.simps)

subsection \<open>Claims\<close>

lemma claim_cases:
  assumes "\<And>c. P (st, c)"
    and "cat_operation_id attempt = cop_operation_id operation \<Longrightarrow> claim_admissible day95 operation = Inr True \<Longrightarrow>
      cst_operations st (cop_operation_id operation) \<in> {None, Some operation} \<Longrightarrow>
      cst_idempotency st (vi_tenant_id (cop_version operation), cop_idempotency_key operation) \<in> {None, Some (cop_operation_id operation)} \<Longrightarrow>
      (case cst_claims st (cop_operation_id operation) of
           Some p \<Rightarrow> cat_attempt_number attempt = cat_attempt_number (ccl_attempt p) + 1 \<and>
                    cat_generation attempt = cat_generation (ccl_attempt p) + 1 \<and>
                    cat_request_id attempt \<noteq> cat_request_id (ccl_attempt p)
         | None \<Rightarrow> cat_attempt_number attempt = 1 \<and> cat_generation attempt = 1) \<Longrightarrow>
      P (st\<lparr>cst_operations := (cst_operations st)(cop_operation_id operation \<mapsto> operation),
            cst_idempotency := (cst_idempotency st)((vi_tenant_id (cop_version operation), cop_idempotency_key operation) \<mapsto> cop_operation_id operation),
            cst_claims := (cst_claims st)(cop_operation_id operation \<mapsto> next_claim operation attempt (cst_claims st (cop_operation_id operation)))\<rparr>,
         Inr (Some (next_claim operation attempt (cst_claims st (cop_operation_id operation)))))"
  shows "P (chunk_claim day95 operation attempt st)"
proof (cases "claim_admissible day95 operation")
  case (Inl e)
  show ?thesis
    unfolding chunk_claim_def Let_def Inl sum.case by (intro if_prop [where P = P] assms(1))
next
  case (Inr b)
  then show ?thesis
    unfolding chunk_claim_def Let_def Inr sum.case
    by (intro if_prop [where P = P]) (use assms Inr in \<open>auto split: option.splits\<close>)
qed

lemma claims_ok_claim: "claims_ok st \<Longrightarrow> claims_ok (fst (chunk_claim day95 operation attempt st))"
proof (rule claim_cases [where P = "\<lambda>r. claims_ok (fst r)"])
  assume ok: "claims_ok st" and a: "cat_operation_id attempt = cop_operation_id operation"
    and o: "cst_operations st (cop_operation_id operation) \<in> {None, Some operation}"
    and i: "cst_idempotency st (vi_tenant_id (cop_version operation), cop_idempotency_key operation) \<in> {None, Some (cop_operation_id operation)}"
    and n: "case cst_claims st (cop_operation_id operation) of
           Some p \<Rightarrow> cat_attempt_number attempt = cat_attempt_number (ccl_attempt p) + 1 \<and>
                    cat_generation attempt = cat_generation (ccl_attempt p) + 1 \<and>
                    cat_request_id attempt \<noteq> cat_request_id (ccl_attempt p)
         | None \<Rightarrow> cat_attempt_number attempt = 1 \<and> cat_generation attempt = 1"
  let ?c = "next_claim operation attempt (cst_claims st (cop_operation_id operation))"
  have pos: "cst_claims st oid = Some p \<Longrightarrow> 0 \<le> ccl_revision p" for oid p using ok unfolding claims_ok_def by force
  have c: "ccl_operation ?c = operation" "ccl_attempt ?c = attempt" "1 \<le> ccl_revision ?c" "ccl_fence ?c = ccl_revision ?c"
    "cat_attempt_number attempt = ccl_revision ?c" "cat_generation attempt = ccl_revision ?c"
    using ok n pos unfolding claims_ok_def next_claim_def by (auto split: option.splits)
  let ?k = "cop_operation_id operation" and ?i = "(vi_tenant_id (cop_version operation), cop_idempotency_key operation)"
  have "cop_operation_id (ccl_operation x) = oid \<and> ((cst_operations st)(?k \<mapsto> operation)) oid = Some (ccl_operation x) \<and>
      cat_operation_id (ccl_attempt x) = oid \<and> 1 \<le> ccl_revision x \<and> ccl_fence x = ccl_revision x \<and>
      cat_attempt_number (ccl_attempt x) = ccl_revision x \<and> cat_generation (ccl_attempt x) = ccl_revision x"
    if x: "((cst_claims st)(?k \<mapsto> ?c)) oid = Some x" for oid x
  proof (cases "oid = ?k")
    case True
    with x have "x = ?c" by simp
    with True a c show ?thesis by simp
  next
    case False
    with x have "cst_claims st oid = Some x" by simp
    with ok False show ?thesis unfolding claims_ok_def by simp
  qed
  moreover have "cop_operation_id x = oid \<and> ((cst_claims st)(?k \<mapsto> ?c)) oid \<noteq> None \<and>
      ((cst_idempotency st)(?i \<mapsto> ?k)) (vi_tenant_id (cop_version x), cop_idempotency_key x) = Some oid"
    if x: "((cst_operations st)(?k \<mapsto> operation)) oid = Some x" for oid x
  proof (cases "oid = ?k")
    case True
    with x show ?thesis by simp
  next
    case False
    with x have "cst_operations st oid = Some x" by simp
    with ok have "cop_operation_id x = oid \<and> cst_claims st oid \<noteq> None \<and>
        cst_idempotency st (vi_tenant_id (cop_version x), cop_idempotency_key x) = Some oid" unfolding claims_ok_def by blast
    with False i show ?thesis by (auto simp: fun_upd_def)
  qed
  moreover define st' where "st' = st\<lparr>cst_operations := (cst_operations st)(?k \<mapsto> operation),
      cst_idempotency := (cst_idempotency st)(?i \<mapsto> ?k), cst_claims := (cst_claims st)(?k \<mapsto> ?c)\<rparr>"
  moreover have f: "cst_operations st' = (cst_operations st)(?k \<mapsto> operation)" "cst_idempotency st' = (cst_idempotency st)(?i \<mapsto> ?k)"
    "cst_claims st' = (cst_claims st)(?k \<mapsto> ?c)" by (simp_all add: st'_def)
  ultimately have "claims_ok st'" unfolding claims_ok_def f by blast
  then show "claims_ok (fst (st\<lparr>cst_operations := (cst_operations st)(?k \<mapsto> operation),
      cst_idempotency := (cst_idempotency st)(?i \<mapsto> ?k), cst_claims := (cst_claims st)(?k \<mapsto> ?c)\<rparr>, Inr (Some ?c)))"
    by (simp add: st'_def)
qed simp

lemma claim_frame:
  "cst_sets (fst (chunk_claim day95 operation attempt st)) = cst_sets st \<and>
   cst_result_keys (fst (chunk_claim day95 operation attempt st)) = cst_result_keys st \<and>
   cst_selections (fst (chunk_claim day95 operation attempt st)) = cst_selections st \<and>
   cst_outbox (fst (chunk_claim day95 operation attempt st)) = cst_outbox st"
  by (rule claim_cases) simp_all

lemma claim_keeps: "chunk_inv port w \<Longrightarrow> chunk_inv port (chunk_world_step port (ClaimChunking operation attempt) w)"
  using claim_frame [of "cw_day95 w" operation attempt "cw_chunks w"] claims_ok_claim [of "cw_chunks w"]
  by (simp add: chunk_inv_def sets_ok_def selections_ok_def outbox_ok_def)

subsection \<open>Chunk sets\<close>

lemma persist_cases:
  assumes "persist port day95 contract decision st = Inr (st', res)"
  obtains "st' = st" "ccr_outcome res \<notin> {ChunkCommitOutcome.COMMITTED, ChunkCommitOutcome.ALREADY_COMMITTED}"
    | candidate document version ingestion parsed source refreshed where
      "cvd_candidate decision = Some candidate"
      "map_option ccl_attempt (cst_claims st (cop_operation_id (csc_operation candidate))) = Some (csc_attempt candidate)"
      "read_day95 day95 (cop_version (csc_operation candidate)) = Some (document, version, ingestion)"
      "ls_parsed_artifacts day95 (cop_parsed_artifact_id (csc_operation candidate)) = Some parsed"
      "ls_source_artifacts day95 (cop_source_artifact_id (csc_operation candidate)) = Some source"
      "evaluate_chunk_set port document version ingestion parsed source contract candidate = Inr refreshed" "chunk_ready refreshed"
      "insert_chunk_set candidate st = Inr (st', res)"
proof (cases "\<exists>candidate. chunk_ready decision \<and> cvd_candidate decision = Some candidate \<and>
    map_option ccl_attempt (cst_claims st (cop_operation_id (csc_operation candidate))) = Some (csc_attempt candidate)")
  case False
  with assms have "st' = st" "ccr_outcome res \<notin> {ChunkCommitOutcome.COMMITTED, ChunkCommitOutcome.ALREADY_COMMITTED}"
    by (auto simp: persist_def chunk_commit_result_def Let_def split: bool.splits option.splits if_splits)
  then show thesis by (rule that(1))
next
  case True
  then obtain candidate where c: "chunk_ready decision" "cvd_candidate decision = Some candidate"
    "map_option ccl_attempt (cst_claims st (cop_operation_id (csc_operation candidate))) = Some (csc_attempt candidate)" by blast
  show thesis
  proof (cases "read_day95 day95 (cop_version (csc_operation candidate)) = None \<or>
      ls_parsed_artifacts day95 (cop_parsed_artifact_id (csc_operation candidate)) = None \<or>
      ls_source_artifacts day95 (cop_source_artifact_id (csc_operation candidate)) = None")
    case True
    with assms c have "st' = st" "ccr_outcome res \<notin> {ChunkCommitOutcome.COMMITTED, ChunkCommitOutcome.ALREADY_COMMITTED}"
      by (auto simp: persist_def chunk_commit_result_def read_parsed_artifact_def read_source_artifact_def Let_def split: option.splits)
    then show thesis by (rule that(1))
  next
    case False
    then obtain document version ingestion parsed source where
      f: "read_day95 day95 (cop_version (csc_operation candidate)) = Some (document, version, ingestion)"
        "ls_parsed_artifacts day95 (cop_parsed_artifact_id (csc_operation candidate)) = Some parsed"
        "ls_source_artifacts day95 (cop_source_artifact_id (csc_operation candidate)) = Some source" by auto
    with assms c obtain refreshed where
      r: "evaluate_chunk_set port document version ingestion parsed source contract candidate = Inr refreshed"
      "(if \<not> chunk_ready refreshed
        then Inr (st, chunk_commit_result ChunkCommitOutcome.STALE_DAY95_INPUT (cvd_safe_reason refreshed) None False)
        else insert_chunk_set candidate st) = Inr (st', res)"
      by (auto simp: persist_def read_parsed_artifact_def read_source_artifact_def bind_res_eq_Inr Let_def)
    show thesis
    proof (cases "chunk_ready refreshed")
      case True
      with r show thesis by (intro that(2) [OF c(2,3) f r(1) True]) simp
    next
      case False
      with r(2) have "st' = st" "ccr_outcome res \<notin> {ChunkCommitOutcome.COMMITTED, ChunkCommitOutcome.ALREADY_COMMITTED}"
        by (auto simp: chunk_commit_result_def)
      then show thesis by (rule that(1))
    qed
  qed
qed

lemma insert_cases:
  assumes ok: "sets_ok port day95 st" and "insert_chunk_set candidate st = Inr (st', res)"
  obtains (conflict) "st' = st" "ccr_outcome res = ChunkCommitOutcome.IDENTITY_CONFLICT"
    | (stored) cs where "st' = st" "ccr_outcome res = ChunkCommitOutcome.ALREADY_COMMITTED" "ccr_chunk_set res = Some cs"
        "cst_sets st (chunk_set_id (csc_operation candidate)) = Some cs" "cse_manifest cs = csc_manifest candidate"
    | (fresh) "st' = st\<lparr>cst_sets := (cst_sets st)(chunk_set_id (csc_operation candidate) \<mapsto> new_chunk_set candidate),
          cst_result_keys := (cst_result_keys st)(stable_result_key (csc_operation candidate) \<mapsto> chunk_set_id (csc_operation candidate))\<rparr>"
        "cst_sets st (chunk_set_id (csc_operation candidate)) = None"
        "ccr_outcome res = ChunkCommitOutcome.COMMITTED" "ccr_chunk_set res = Some (new_chunk_set candidate)"
proof (cases "cst_result_keys st (stable_result_key (csc_operation candidate))")
  case None
  have "cst_sets st (chunk_set_id (csc_operation candidate)) = None"
  proof (rule ccontr)
    assume "cst_sets st (chunk_set_id (csc_operation candidate)) \<noteq> None"
    then obtain cs where cs: "cst_sets st (chunk_set_id (csc_operation candidate)) = Some cs" by blast
    with ok have "chunk_set_id (csc_operation candidate) = chunk_set_id (cse_operation cs)"
      "cst_result_keys st (stable_result_key (cse_operation cs)) = Some (chunk_set_id (csc_operation candidate))"
      unfolding sets_ok_def by blast+
    with None show False by (simp add: chunk_set_id_eq)
  qed
  with assms(2) None show thesis
    by (intro fresh) (auto simp: insert_chunk_set_def Let_def new_chunk_set_def chunk_commit_result_def)
next
  case (Some k)
  with ok obtain cs where cs: "cst_sets st k = Some cs" "stable_result_key (cse_operation cs) = stable_result_key (csc_operation candidate)"
    unfolding sets_ok_def by blast
  with ok have "k = chunk_set_id (csc_operation candidate)" unfolding sets_ok_def by (metis chunk_set_id_eq)
  with assms(2) Some cs show thesis
    by (auto simp: insert_chunk_set_def Let_def chunk_commit_result_def split: if_splits intro: conflict stored)
qed

lemma sets_ok_insert:
  assumes ok: "sets_ok port day95 st" and none: "cst_sets st (chunk_set_id i) = None"
    and new: "accepted_set port day95 cs" "cse_operation cs = i" "cse_chunk_set_id cs = chunk_set_id i"
  shows "sets_ok port day95 (st\<lparr>cst_sets := (cst_sets st)(chunk_set_id i \<mapsto> cs),
    cst_result_keys := (cst_result_keys st)(stable_result_key i \<mapsto> chunk_set_id i)\<rparr>)"
proof -
  have diff: "stable_result_key (cse_operation c) \<noteq> stable_result_key i" if "cst_sets st k = Some c" for k c
    using ok that none unfolding sets_ok_def by (metis chunk_set_id_eq option.distinct(1))
  have other: "cst_result_keys st key \<noteq> Some (chunk_set_id i)" for key
    using ok none unfolding sets_ok_def by fastforce
  show ?thesis using ok new unfolding sets_ok_def by (auto simp: other dest: diff)
qed

lemma selections_ok_insert:
  assumes "selections_ok st" "cst_sets st k = None"
  shows "selections_ok (st\<lparr>cst_sets := (cst_sets st)(k \<mapsto> cs), cst_result_keys := m\<rparr>)"
proof -
  have kept: "cst_sets st j = Some c \<Longrightarrow> ((cst_sets st)(k \<mapsto> cs)) j = Some c" for j c using assms(2) by auto
  let ?st = "st\<lparr>cst_sets := (cst_sets st)(k \<mapsto> cs), cst_result_keys := m\<rparr>"
  have f: "cst_selections ?st = cst_selections st" "cst_outbox ?st = cst_outbox st" "cst_sets ?st = (cst_sets st)(k \<mapsto> cs)" by simp_all
  show ?thesis
    using assms(1) unfolding selections_ok_def f by (blast intro: kept)
qed

lemma persist_keeps:
  assumes inv: "chunk_inv port w"
  shows "chunk_inv port (chunk_world_step port (PersistSet contract decision) w)"
proof (cases "persist port (cw_day95 w) contract decision (cw_chunks w)")
  case (Inr r)
  obtain st' res where p: "persist port (cw_day95 w) contract decision (cw_chunks w) = Inr (st', res)" using Inr by (cases r) auto
  have "chunk_inv port (w\<lparr>cw_chunks := st'\<rparr>)" if con: "candidate_constructed decision"
    using p
  proof (cases rule: persist_cases)
    case 1
    with inv show ?thesis by simp
  next
    case (2 candidate document version ingestion parsed source refreshed)
    have ok: "sets_ok port (cw_day95 w) (cw_chunks w)" using inv by (simp add: chunk_inv_def)
    have acc: "accepted_set port (cw_day95 w) (new_chunk_set candidate)"
      unfolding accepted_set_def using 2 con evaluate_ready(10) [OF 2(6,7)]
      by (intro exI [of _ contract] exI [of _ document] exI [of _ version] exI [of _ ingestion] exI [of _ parsed] exI [of _ source]
          exI [of _ candidate] exI [of _ refreshed]) (simp add: candidate_constructed_def new_chunk_set_def Let_def)
    from ok 2(8) show ?thesis
    proof (cases rule: insert_cases)
      case fresh
      have "sets_ok port (cw_day95 w) st'" unfolding fresh(1)
        by (rule sets_ok_insert [OF ok fresh(2) acc]) (simp_all add: new_chunk_set_def Let_def)
      moreover have "selections_ok st'" unfolding fresh(1)
        by (rule selections_ok_insert) (use inv fresh(2) in \<open>simp_all add: chunk_inv_def\<close>)
      ultimately show ?thesis using inv unfolding fresh(1) by (simp add: chunk_inv_def claims_ok_def outbox_ok_def)
    qed (use inv in simp_all)
  qed
  with p inv show ?thesis by simp
qed (use assms in simp)

subsection \<open>Selection and outbox\<close>

lemma select_cases:
  assumes "\<And>r. \<forall>x. r = Inr x \<longrightarrow> csr_outcome x \<noteq> SelectionOutcome.SELECTED \<Longrightarrow> P (st, r)"
    and "\<And>cs document version ingestion revision selection. cst_sets st set_id = Some cs \<Longrightarrow>
      stable_result_key (ccl_operation claim) = stable_result_key (cse_operation cs) \<Longrightarrow>
      cst_claims st (cop_operation_id (ccl_operation claim)) = Some claim \<Longrightarrow>
      read_day95 day95 (cop_version (cse_operation cs)) = Some (document, version, ingestion) \<Longrightarrow>
      selection_current day95 (cse_operation cs) sv fence document version ingestion = Inr True \<Longrightarrow>
      map_option csl_chunk_set_id (cst_selections st (selection_key (cop_version (cse_operation cs)))) = selected_id \<Longrightarrow>
      selected_id \<noteq> Some set_id \<Longrightarrow>
      (case cst_selections st (selection_key (cop_version (cse_operation cs))) of None \<Rightarrow> 0 | Some p \<Rightarrow> csl_revision p) = expected_revision \<Longrightarrow>
      revision = expected_revision + 1 \<Longrightarrow>
      selection = \<lparr>csl_tenant_id = vi_tenant_id (cop_version (cse_operation cs)), csl_document_id = vi_document_id (cop_version (cse_operation cs)),
        csl_document_version_id = vi_document_version_id (cop_version (cse_operation cs)), csl_chunk_set_id = set_id,
        csl_revision = revision, csl_fence = ccl_fence claim\<rparr> \<Longrightarrow>
      P (st\<lparr>cst_selections := (cst_selections st)(selection_key (cop_version (cse_operation cs)) \<mapsto> selection),
            cst_outbox := AList.update (selection_event_id (selection_key (cop_version (cse_operation cs))) revision set_id)
              \<lparr>coi_event_id = selection_event_id (selection_key (cop_version (cse_operation cs))) revision set_id,
               coi_tenant_id = vi_tenant_id (cop_version (cse_operation cs)), coi_document_id = vi_document_id (cop_version (cse_operation cs)),
               coi_document_version_id = vi_document_version_id (cop_version (cse_operation cs)), coi_chunk_set_id = set_id,
               coi_selection_revision = revision, coi_state = ''PENDING''\<rparr> (cst_outbox st)\<rparr>,
         Inr (selection_result SelectionOutcome.SELECTED ''CHUNK_SET_SELECTED_WITH_OUTBOX_INTENT'' (Some selection) True))"
  shows "P (select_chunk_set day95 set_id selected_id expected_revision sv fence claim st)"
proof (cases "cst_sets st set_id")
  case None
  with assms(1) show ?thesis by (simp add: select_chunk_set_def selection_result_def)
next
  case (Some cs)
  note cs = Some
  show ?thesis
  proof (cases "stable_result_key (ccl_operation claim) \<noteq> stable_result_key (cse_operation cs) \<or>
      cst_claims st (cop_operation_id (ccl_operation claim)) \<noteq> Some claim \<or> read_day95 day95 (cop_version (cse_operation cs)) = None")
    case True
    with cs assms(1) show ?thesis by (auto simp: select_chunk_set_def selection_result_def)
  next
    case False
    then obtain document version ingestion where f: "stable_result_key (ccl_operation claim) = stable_result_key (cse_operation cs)"
      "cst_claims st (cop_operation_id (ccl_operation claim)) = Some claim"
      "read_day95 day95 (cop_version (cse_operation cs)) = Some (document, version, ingestion)" by auto
    show ?thesis
    proof (cases "selection_current day95 (cse_operation cs) sv fence document version ingestion = Inr True")
      case True
      have "P (map_prod id Inr (apply_selection (cop_version (cse_operation cs)) set_id selected_id expected_revision claim st))"
        unfolding apply_selection_def Let_def
      proof (intro if_prop [where P = "\<lambda>x. P (map_prod id Inr x)"], goal_cases)
        case 3
        then show ?case unfolding map_prod_simp id_apply by (intro assms(2) [OF cs f True]) auto
      qed (auto intro!: assms(1) simp: selection_result_def)
      then show ?thesis using cs f True by (simp add: select_chunk_set_def)
    next
      case False
      with cs f show ?thesis
        by (cases "selection_current day95 (cse_operation cs) sv fence document version ingestion")
          (auto intro!: assms(1) simp: select_chunk_set_def selection_result_def)
    qed
  qed
qed

lemma update_listed: "map_of (AList.update k v xs) j = (if j = k then Some v else map_of xs j)"
  by (simp add: update_conv')

lemma select_frame:
  "cst_sets (fst (select_chunk_set day95 set_id selected_id erev sv fence claim st)) = cst_sets st \<and>
   cst_result_keys (fst (select_chunk_set day95 set_id selected_id erev sv fence claim st)) = cst_result_keys st \<and>
   cst_claims (fst (select_chunk_set day95 set_id selected_id erev sv fence claim st)) = cst_claims st \<and>
   cst_operations (fst (select_chunk_set day95 set_id selected_id erev sv fence claim st)) = cst_operations st \<and>
   cst_idempotency (fst (select_chunk_set day95 set_id selected_id erev sv fence claim st)) = cst_idempotency st"
  by (rule select_cases) simp_all

lemma selections_ok_upd:
  assumes ok: "selections_ok st" and cs: "cst_sets st (csl_chunk_set_id sel) = Some cs"
    and sel: "(csl_tenant_id sel, csl_document_id sel) = key" "1 \<le> csl_revision sel"
      "selection_key (cop_version (cse_operation cs)) = key"
      "vi_document_version_id (cop_version (cse_operation cs)) = csl_document_version_id sel"
      "event = selection_event_id key (csl_revision sel) (csl_chunk_set_id sel)"
  shows "selections_ok (st\<lparr>cst_selections := (cst_selections st)(key \<mapsto> sel), cst_outbox := AList.update event x (cst_outbox st)\<rparr>)"
proof -
  let ?st = "st\<lparr>cst_selections := (cst_selections st)(key \<mapsto> sel), cst_outbox := AList.update event x (cst_outbox st)\<rparr>"
  have f: "cst_selections ?st = (cst_selections st)(key \<mapsto> sel)" "cst_sets ?st = cst_sets st"
    "map_of (cst_outbox ?st) j \<noteq> None \<longleftrightarrow> j = event \<or> map_of (cst_outbox st) j \<noteq> None" for j
    by (simp_all add: update_listed)
  show ?thesis
    using ok cs sel unfolding selections_ok_def f fun_upd_apply by (simp split: if_splits del: split_paired_All)
qed

lemma selections_ok_select:
  "selections_ok st \<Longrightarrow> selections_ok (fst (select_chunk_set day95 set_id selected_id erev sv fence claim st))"
proof (rule select_cases [where P = "\<lambda>r. selections_ok (fst r)"])
  fix cs document version ingestion revision selection
  assume ok: "selections_ok st" and cs: "cst_sets st set_id = Some cs"
    and r: "(case cst_selections st (selection_key (cop_version (cse_operation cs))) of None \<Rightarrow> 0 | Some p \<Rightarrow> csl_revision p) = erev"
      "revision = erev + 1"
    and sel: "selection = \<lparr>csl_tenant_id = vi_tenant_id (cop_version (cse_operation cs)), csl_document_id = vi_document_id (cop_version (cse_operation cs)),
        csl_document_version_id = vi_document_version_id (cop_version (cse_operation cs)), csl_chunk_set_id = set_id,
        csl_revision = revision, csl_fence = ccl_fence claim\<rparr>"
  have "1 \<le> csl_revision p" if "cst_selections st key = Some p" for key p using ok that unfolding selections_ok_def by blast
  with r have pos: "1 \<le> revision" by (cases "cst_selections st (selection_key (cop_version (cse_operation cs)))") fastforce+
  show "selections_ok (fst (st\<lparr>cst_selections := (cst_selections st)(selection_key (cop_version (cse_operation cs)) \<mapsto> selection),
            cst_outbox := AList.update (selection_event_id (selection_key (cop_version (cse_operation cs))) revision set_id)
              \<lparr>coi_event_id = selection_event_id (selection_key (cop_version (cse_operation cs))) revision set_id,
               coi_tenant_id = vi_tenant_id (cop_version (cse_operation cs)), coi_document_id = vi_document_id (cop_version (cse_operation cs)),
               coi_document_version_id = vi_document_version_id (cop_version (cse_operation cs)), coi_chunk_set_id = set_id,
               coi_selection_revision = revision, coi_state = ''PENDING''\<rparr> (cst_outbox st)\<rparr>,
         Inr (selection_result SelectionOutcome.SELECTED ''CHUNK_SET_SELECTED_WITH_OUTBOX_INTENT'' (Some selection) True)))"
    unfolding fst_conv by (rule selections_ok_upd [OF ok, where cs = cs]) (simp_all add: sel cs pos selection_key_def)
qed simp

lemma outbox_ok_select: "outbox_ok st \<Longrightarrow> outbox_ok (fst (select_chunk_set day95 set_id selected_id erev sv fence claim st))"
  by (rule select_cases [where P = "\<lambda>r. outbox_ok (fst r)"]) (simp_all add: outbox_ok_def update_listed selection_key_def)

lemma select_keeps: "chunk_inv port w \<Longrightarrow> chunk_inv port (chunk_world_step port (SelectSet set_id selected_id erev sv fence claim) w)"
  using select_frame [of "cw_day95 w" set_id selected_id erev sv fence claim "cw_chunks w"]
    selections_ok_select [of "cw_chunks w"] outbox_ok_select [of "cw_chunks w"]
  by (simp add: chunk_inv_def sets_ok_def claims_ok_def)

lemma dispatched_keeps: "chunk_inv port w \<Longrightarrow> chunk_inv port (chunk_world_step port (MarkDispatched event_id) w)"
  by (auto simp: chunk_inv_def mark_outbox_dispatched_def sets_ok_def claims_ok_def selections_ok_def outbox_ok_def update_listed
      split: option.splits)

interpretation chunks: invariant_machine "chunk_world_step port" "chunk_inv port" for port
proof
  fix w e
  assume "chunk_inv port w"
  then show "chunk_inv port (chunk_world_step port e w)"
    by (cases e) (simp_all only: day95_keeps claim_keeps persist_keeps select_keeps dispatched_keeps)
qed

lemma chunk_run_inv: "chunk_inv port (chunk_run port es)"
  unfolding chunk_run_def by (rule chunks.run_inv [OF chunk_inv_init])

section \<open>Records of the chunk store move forward\<close>

lemma persist_frame:
  assumes "persist port day95 contract decision st = Inr (st', res)"
  shows "cst_claims st' = cst_claims st \<and> cst_selections st' = cst_selections st"
  using assms
proof (cases rule: persist_cases)
  case 2
  then show ?thesis by (auto simp: insert_chunk_set_def Let_def split: option.splits if_splits)
qed simp

lemma step_sets:
  assumes inv: "chunk_inv port w" and k: "cst_sets (cw_chunks w) k = Some cs"
  shows "cst_sets (cw_chunks (chunk_world_step port e w)) k = Some cs"
proof (cases e)
  case (PersistSet contract decision)
  have "cst_sets st' k = Some cs" if p: "persist port (cw_day95 w) contract decision (cw_chunks w) = Inr (st', res)" for st' res
    using p
  proof (cases rule: persist_cases)
    case (2 candidate)
    have ok: "sets_ok port (cw_day95 w) (cw_chunks w)" using inv by (simp add: chunk_inv_def)
    from ok 2(8) show ?thesis by (cases rule: insert_cases) (use k in auto)
  qed (use k in simp)
  with PersistSet k show ?thesis by (auto split: sum.splits)
qed (use k claim_frame select_frame in \<open>auto simp: mark_outbox_dispatched_def split: option.splits\<close>)

lemma step_claims:
  assumes inv: "chunk_inv port w" and k: "cst_claims (cw_chunks w) k = Some c"
  shows "\<exists>c'. cst_claims (cw_chunks (chunk_world_step port e w)) k = Some c' \<and> ccl_operation c' = ccl_operation c \<and>
    (c' = c \<or> ccl_fence c < ccl_fence c')"
proof (cases e)
  case (ClaimChunking operation attempt)
  have c: "cst_operations (cw_chunks w) k = Some (ccl_operation c)"
    using inv k unfolding chunk_inv_def claims_ok_def by blast
  have "\<exists>c'. cst_claims (fst (chunk_claim (cw_day95 w) operation attempt (cw_chunks w))) k = Some c' \<and>
      ccl_operation c' = ccl_operation c \<and> (c' = c \<or> ccl_fence c < ccl_fence c')"
    by (rule claim_cases) (use k c in \<open>auto simp: next_claim_def\<close>)
  with ClaimChunking show ?thesis by simp
next
  case (PersistSet contract decision)
  with k persist_frame [of port "cw_day95 w" contract decision "cw_chunks w"] show ?thesis by (auto split: sum.splits)
qed (use k select_frame in \<open>auto simp: mark_outbox_dispatched_def split: option.splits\<close>)

lemma step_selections:
  assumes inv: "chunk_inv port w" and k: "cst_selections (cw_chunks w) key = Some s"
  shows "\<exists>s'. cst_selections (cw_chunks (chunk_world_step port e w)) key = Some s' \<and>
    (csl_tenant_id s', csl_document_id s') = (csl_tenant_id s, csl_document_id s) \<and> (s' = s \<or> csl_revision s < csl_revision s')"
proof (cases e)
  case (SelectSet set_id selected_id erev sv fence claim)
  have s: "(csl_tenant_id s, csl_document_id s) = key" using inv k unfolding chunk_inv_def selections_ok_def by blast
  have "\<exists>s'. cst_selections (fst (select_chunk_set (cw_day95 w) set_id selected_id erev sv fence claim (cw_chunks w))) key = Some s' \<and>
      (csl_tenant_id s', csl_document_id s') = (csl_tenant_id s, csl_document_id s) \<and> (s' = s \<or> csl_revision s < csl_revision s')"
    by (rule select_cases) (use k s in \<open>auto simp: selection_key_def\<close>)
  with SelectSet show ?thesis by simp
next
  case (PersistSet contract decision)
  with k persist_frame [of port "cw_day95 w" contract decision "cw_chunks w"] show ?thesis by (auto split: sum.splits)
qed (use k claim_frame in \<open>auto simp: mark_outbox_dispatched_def split: option.splits\<close>)

interpretation chunk_sets: versioned_machine "chunk_world_step port" "chunk_inv port" "\<lambda>w. cst_sets (cw_chunks w)" "\<lambda>_. 0" id for port
  by unfold_locales (simp add: step_sets)

interpretation chunk_claims: versioned_machine "chunk_world_step port" "chunk_inv port" "\<lambda>w. cst_claims (cw_chunks w)" ccl_fence ccl_operation
  for port
  by unfold_locales (rule step_claims)

interpretation chunk_selections: versioned_machine "chunk_world_step port" "chunk_inv port" "\<lambda>w. cst_selections (cw_chunks w)" csl_revision
  "\<lambda>s. (csl_tenant_id s, csl_document_id s)" for port
  by unfold_locales (rule step_selections)

lemma chunk_run_append: "chunk_run port (es @ later) = fold (chunk_world_step port) later (chunk_run port es)"
  by (simp add: chunk_run_def)

end
