(* ===== verification/Chunk_Store_Safety.thy ===== *)
theory Chunk_Store_Safety
  imports Chunk_Store_Invariant
begin

text \<open>
  What the chunk store and the chunking run promise: stored sets are sound for good, a selection has
  its provenance in the history, a superseded attempt is fenced off, and the run is sound under
  interference and goes through without it.
\<close>

section \<open>Properties\<close>

text \<open>
  C31. Every chunk set of the store is sound, and stays so. Whatever requests both stores receive, a
  stored set lies under its own result identity; the parsed artifact it was cut from is still stored,
  unchanged and for the same version; its chunks carry their ids, are numbered in order, and are the
  normalization of the source intervals they name under their own hash and token count and within the
  token limit of a contract with the fingerprint of the operation; every position of the artifact's
  text lies in the body of a chunk; and no later request changes or removes the set.
\<close>

theorem stored_chunk_sets_sound:
  assumes "cst_sets (cw_chunks (chunk_run port es)) k = Some cs"
  shows "cse_chunk_set_id cs = k \<and> k = chunk_set_id (cse_operation cs) \<and>
    (\<exists>p contract. ls_parsed_artifacts (cw_day95 (chunk_run port es)) (cop_parsed_artifact_id (cse_operation cs)) = Some p \<and>
       px_version p = cop_version (cse_operation cs) \<and> cop_contract_fingerprint (cse_operation cs) = contract_fingerprint contract \<and>
       sha256_text (px_canonical_text p) = Inr (cmf_source_checksum (cse_manifest cs)) \<and>
       (\<forall>i < length (cse_chunks cs). let c = cse_chunks cs ! i; x = chk_candidate c in
          chk_chunk_set_id c = k \<and> chk_chunk_id c = chunk_id k x \<and> ckc_ordinal x = int i \<and>
          reconstruct contract (px_canonical_text p) x = Inr (ckc_text x) \<and> sha256_text (ckc_text x) = Inr (ckc_content_hash x) \<and>
          tp_count port (ckc_text x) = Inr (ckc_token_count x) \<and> ckc_token_count x \<le> cg_hard_max_tokens contract) \<and>
       (\<forall>q < length (px_canonical_text p). \<exists>c \<in> set (cse_chunks cs).
          sg_start (last (ckc_source_segments (chk_candidate c))) \<le> q \<and> q < sg_end (last (ckc_source_segments (chk_candidate c))))) \<and>
    (\<forall>later. cst_sets (cw_chunks (chunk_run port (es @ later))) k = Some cs)"
proof -
  have "sets_ok port (cw_day95 (chunk_run port es)) (cw_chunks (chunk_run port es))"
    using chunk_run_inv [of port es] by (simp add: chunk_inv_def)
  with assms have k: "k = chunk_set_id (cse_operation cs)" "cse_chunk_set_id cs = k" and
    acc: "accepted_set port (cw_day95 (chunk_run port es)) cs" unfolding sets_ok_def by blast+
  from acc obtain contract document version ingestion parsed source candidate d where
    ev: "evaluate_chunk_set port document version ingestion parsed source contract candidate = Inr d" "chunk_ready d"
      and con: "candidate_constructed d" and cs: "cs = new_chunk_set candidate"
      and p: "ls_parsed_artifacts (cw_day95 (chunk_run port es)) (cop_parsed_artifact_id (cse_operation cs)) = Some parsed"
    unfolding accepted_set_def by blast
  note r = evaluate_ready [OF ev]
  have segs: "\<forall>c \<in> set (csc_chunks candidate). \<forall>s \<in> set (ckc_source_segments c). SourceSegment_post_init s = Inr s"
    using con r(10) by (auto simp: candidate_constructed_def is_ok_def SourceSegment_post_init_def split: if_splits)
  note sound = accepted_chunk_set_sound [OF ev segs]
  have f: "cse_operation cs = csc_operation candidate" "cse_manifest cs = csc_manifest candidate"
    "cse_chunks cs = map (\<lambda>x. \<lparr>chk_chunk_id = chunk_id k x, chk_chunk_set_id = k, chk_candidate = x\<rparr>) (csc_chunks candidate)"
    using k by (simp_all add: cs new_chunk_set_def Let_def)
  have b: "px_version parsed = cop_version (csc_operation candidate)" "sha256_text (px_canonical_text parsed) = Inr (cmf_source_checksum (csc_manifest candidate))"
    using r(2) r(5) [unfolded manifest_ok_True] by (simp_all add: parse_bound_def manifest_fields_ok_def)
  have "\<exists>p contract. ls_parsed_artifacts (cw_day95 (chunk_run port es)) (cop_parsed_artifact_id (cse_operation cs)) = Some p \<and>
       px_version p = cop_version (cse_operation cs) \<and> cop_contract_fingerprint (cse_operation cs) = contract_fingerprint contract \<and>
       sha256_text (px_canonical_text p) = Inr (cmf_source_checksum (cse_manifest cs)) \<and>
       (\<forall>i < length (cse_chunks cs). let c = cse_chunks cs ! i; x = chk_candidate c in
          chk_chunk_set_id c = k \<and> chk_chunk_id c = chunk_id k x \<and> ckc_ordinal x = int i \<and>
          reconstruct contract (px_canonical_text p) x = Inr (ckc_text x) \<and> sha256_text (ckc_text x) = Inr (ckc_content_hash x) \<and>
          tp_count port (ckc_text x) = Inr (ckc_token_count x) \<and> ckc_token_count x \<le> cg_hard_max_tokens contract) \<and>
       (\<forall>q < length (px_canonical_text p). \<exists>c \<in> set (cse_chunks cs).
          sg_start (last (ckc_source_segments (chk_candidate c))) \<le> q \<and> q < sg_end (last (ckc_source_segments (chk_candidate c))))"
    using p b r(4) sound by (intro exI [of _ parsed] exI [of _ contract]) (simp add: f Let_def)
  moreover have "cst_sets (cw_chunks (chunk_run port (es @ later))) k = Some cs" for later
    using chunk_sets.run_evolves [OF chunk_run_inv assms, of later] by (simp add: chunk_run_append)
  ultimately show ?thesis using k by blast
qed

text \<open>The state in which a selection was made: the claim, the set and the active version it rests on.\<close>

definition selected_in :: "ChunkWorld \<Rightarrow> ChunkSelection \<Rightarrow> int \<Rightarrow> int \<Rightarrow> int \<Rightarrow> ChunkingClaim \<Rightarrow> bool" where
  "selected_in w s revision sv fence claim \<longleftrightarrow>
     csl_revision s = revision + 1 \<and> csl_fence s = ccl_fence claim \<and>
     cst_claims (cw_chunks w) (cop_operation_id (ccl_operation claim)) = Some claim \<and>
     (\<exists>cs d v. cst_sets (cw_chunks w) (csl_chunk_set_id s) = Some cs \<and>
        stable_result_key (ccl_operation claim) = stable_result_key (cse_operation cs) \<and>
        ls_documents (cw_day95 w) (csl_tenant_id s, csl_document_id s) = Some d \<and> dh_state d = DocumentHeadState.ACTIVE \<and>
        dh_active_version_id d = Some (csl_document_version_id s) \<and> dh_state_version d = sv \<and> dh_fence_token d = fence \<and>
        ls_versions (cw_day95 w) (csl_tenant_id s, csl_document_id s, csl_document_version_id s) = Some v \<and>
        vl_state v = DocumentVersionLifecycle.ACTIVE \<and> vl_parsed_artifact_id v = Some (cop_parsed_artifact_id (cse_operation cs)))"

lemma read_day95_Some:
  "read_day95 day95 i = Some (d, v, r) \<longleftrightarrow> ls_documents day95 (document_key (vi_document i)) = Some d \<and>
     ls_versions day95 (version_key i) = Some v \<and> ls_operations day95 (vd_created_by_operation_id (vl_definition v)) = Some r"
  by (auto simp: read_day95_def read_document_def read_version_def read_operation_def split: option.splits)

lemma select_effect:
  assumes lc: "lifecycle_inv (cw_day95 w)"
    and sel: "cst_selections (fst (select_chunk_set (cw_day95 w) set_id selected_id n sv fence claim (cw_chunks w))) key = Some s"
    and new: "cst_selections (cw_chunks w) key \<noteq> Some s"
  shows "csl_chunk_set_id s = set_id \<and> selected_in w s n sv fence claim"
proof -
  have "cst_selections (fst r) key = Some s \<longrightarrow> csl_chunk_set_id s = set_id \<and> selected_in w s n sv fence claim"
    if r: "r = select_chunk_set (cw_day95 w) set_id selected_id n sv fence claim (cw_chunks w)" for r
    unfolding r
  proof (rule select_cases)
    fix cs document version ingestion revision selection
    assume cs: "cst_sets (cw_chunks w) set_id = Some cs"
      and claim: "stable_result_key (ccl_operation claim) = stable_result_key (cse_operation cs)"
        "cst_claims (cw_chunks w) (cop_operation_id (ccl_operation claim)) = Some claim"
      and facts: "read_day95 (cw_day95 w) (cop_version (cse_operation cs)) = Some (document, version, ingestion)"
        "selection_current (cw_day95 w) (cse_operation cs) sv fence document version ingestion = Inr True"
      and rv: "revision = n + 1"
      and s: "selection = \<lparr>csl_tenant_id = vi_tenant_id (cop_version (cse_operation cs)), csl_document_id = vi_document_id (cop_version (cse_operation cs)),
        csl_document_version_id = vi_document_version_id (cop_version (cse_operation cs)), csl_chunk_set_id = set_id,
        csl_revision = revision, csl_fence = ccl_fence claim\<rparr>"
    have vk: "version_key (vd_identity (vl_definition version)) = version_key (cop_version (cse_operation cs))"
      using inv_dest(2) [OF lc] facts(1) unfolding read_day95_Some version_ok_def by blast
    have "eligible (evaluate_chunking_eligibility document version ingestion)"
      "vl_parsed_artifact_id version = Some (cop_parsed_artifact_id (cse_operation cs))"
      "dh_state_version document = sv" "dh_fence_token document = fence"
      using facts(2) eligible_artifact
      by (auto simp: selection_current_def Let_def bind_res_eq_Inr split: if_splits option.splits)
    then have "selected_in w selection n sv fence claim"
      using cs claim facts(1) vk unfolding selected_in_def s rv read_day95_Some eligible_iff
      by (auto simp: document_key_def version_key_def vi_document_def)
    then show "cst_selections (fst (cw_chunks w\<lparr>cst_selections := (cst_selections (cw_chunks w))(selection_key (cop_version (cse_operation cs)) \<mapsto> selection),
            cst_outbox := AList.update (selection_event_id (selection_key (cop_version (cse_operation cs))) revision set_id)
              \<lparr>coi_event_id = selection_event_id (selection_key (cop_version (cse_operation cs))) revision set_id,
               coi_tenant_id = vi_tenant_id (cop_version (cse_operation cs)), coi_document_id = vi_document_id (cop_version (cse_operation cs)),
               coi_document_version_id = vi_document_version_id (cop_version (cse_operation cs)), coi_chunk_set_id = set_id,
               coi_selection_revision = revision, coi_state = ''PENDING''\<rparr> (cst_outbox (cw_chunks w))\<rparr>,
         Inr (selection_result SelectionOutcome.SELECTED ''CHUNK_SET_SELECTED_WITH_OUTBOX_INTENT'' (Some selection) True))) key = Some s \<longrightarrow>
       csl_chunk_set_id s = set_id \<and> selected_in w s n sv fence claim"
      using new by (auto simp: s)
  qed (use new in simp)
  with sel show ?thesis by blast
qed

lemma chunk_run_day95: "\<exists>ds. cw_day95 (chunk_run port es) = lifecycle_run ds"
proof (induction es rule: rev_induct)
  case Nil
  show ?case by (rule exI [of _ "[]"]) (simp add: chunk_run_def ChunkWorld_init_def lifecycle_run_def)
next
  case (snoc e es)
  then obtain ds where ds: "cw_day95 (chunk_run port es) = lifecycle_run ds" by blast
  show ?case
  proof (cases e)
    case (Day95 l)
    then show ?thesis
      by (intro exI [of _ "ds @ [l]"]) (simp add: chunk_run_append ds run_snoc del: lifecycle_step.simps)
  qed (use ds in \<open>auto simp: chunk_run_append split: sum.splits\<close>)
qed

lemma selection_step:
  assumes "cst_selections (cw_chunks (chunk_run port (es @ [e]))) key = Some s"
    and "cst_selections (cw_chunks (chunk_run port es)) key \<noteq> Some s"
  obtains selected_id n sv fence claim where "e = SelectSet (csl_chunk_set_id s) selected_id n sv fence claim"
    "selected_in (chunk_run port es) s n sv fence claim"
proof -
  from chunk_run_day95 [of port es] have lc: "lifecycle_inv (cw_day95 (chunk_run port es))" using lifecycle_run_inv by auto
  show thesis
  proof (cases e)
    case (SelectSet set_id selected_id n sv fence claim)
    with assms(1) have "cst_selections (fst (select_chunk_set (cw_day95 (chunk_run port es)) set_id selected_id n sv fence claim
        (cw_chunks (chunk_run port es)))) key = Some s" by (simp add: chunk_run_append)
    from select_effect [OF lc this assms(2)] SelectSet show thesis using that by blast
  next
    case (PersistSet contract decision)
    with assms persist_frame [of port "cw_day95 (chunk_run port es)" contract decision "cw_chunks (chunk_run port es)"]
    show thesis by (auto simp: chunk_run_append split: sum.splits if_splits)
  qed (use assms claim_frame in \<open>auto simp: chunk_run_append mark_outbox_dispatched_def split: option.splits if_splits\<close>)
qed

text \<open>
  The selected set of a document has a provenance. A selection in the store was made by one
  request in its history, and has been the selection ever since. When it was made, the request held
  the current claim of an operation with the result identity of the set, the set was stored, and the
  document was active in exactly the state version and fence the request expected, with the selected
  version as its active version and the artifact of the set as that version's artifact; the revision
  is one more than the one the request expected. Its event is in the outbox.
\<close>

theorem selected_set_provenance:
  assumes "cst_selections (cw_chunks (chunk_run port es)) key = Some s"
  shows "key = (csl_tenant_id s, csl_document_id s) \<and>
    map_of (cst_outbox (cw_chunks (chunk_run port es))) (selection_event_id key (csl_revision s) (csl_chunk_set_id s)) \<noteq> None \<and>
    (\<exists>before later selected_id n sv fence claim.
       es = before @ SelectSet (csl_chunk_set_id s) selected_id n sv fence claim # later \<and>
       selected_in (chunk_run port before) s n sv fence claim \<and>
       (\<forall>mid rest. later = mid @ rest \<longrightarrow>
          cst_selections (cw_chunks (chunk_run port (before @ SelectSet (csl_chunk_set_id s) selected_id n sv fence claim # mid))) key = Some s))"
proof -
  have "selections_ok (cw_chunks (chunk_run port es))" using chunk_run_inv [of port es] by (simp add: chunk_inv_def)
  with assms have "key = (csl_tenant_id s, csl_document_id s)"
    "map_of (cst_outbox (cw_chunks (chunk_run port es))) (selection_event_id key (csl_revision s) (csl_chunk_set_id s)) \<noteq> None"
    unfolding selections_ok_def by blast+
  moreover have "\<exists>before later selected_id n sv fence claim.
       es = before @ SelectSet (csl_chunk_set_id s) selected_id n sv fence claim # later \<and>
       selected_in (chunk_run port before) s n sv fence claim \<and>
       (\<forall>mid rest. later = mid @ rest \<longrightarrow>
          cst_selections (cw_chunks (chunk_run port (before @ SelectSet (csl_chunk_set_id s) selected_id n sv fence claim # mid))) key = Some s)"
    using assms
  proof (induction es rule: rev_induct)
    case Nil
    then show ?case by (simp add: chunk_run_def ChunkWorld_init_def ChunkSetStore_init_def)
  next
    case (snoc e es)
    show ?case
    proof (cases "cst_selections (cw_chunks (chunk_run port es)) key = Some s")
      case True
      from snoc.IH [OF True] obtain before later selected_id n sv fence claim where
        es: "es = before @ SelectSet (csl_chunk_set_id s) selected_id n sv fence claim # later"
          "selected_in (chunk_run port before) s n sv fence claim" and
        mid: "\<And>mid rest. later = mid @ rest \<Longrightarrow>
          cst_selections (cw_chunks (chunk_run port (before @ SelectSet (csl_chunk_set_id s) selected_id n sv fence claim # mid))) key = Some s"
        by blast
      have "cst_selections (cw_chunks (chunk_run port (before @ SelectSet (csl_chunk_set_id s) selected_id n sv fence claim # m))) key = Some s"
        if "later @ [e] = m @ rest" for m rest
      proof (cases rest rule: rev_cases)
        case Nil
        with that snoc.prems show ?thesis by (simp add: es(1))
      next
        case (snoc rest' x)
        with that show ?thesis by (intro mid [of m rest']) simp
      qed
      with es show ?thesis by (intro exI [of _ before] exI [of _ "later @ [e]"]) auto
    next
      case False
      from selection_step [OF snoc.prems False] obtain selected_id n sv fence claim where
        "e = SelectSet (csl_chunk_set_id s) selected_id n sv fence claim" "selected_in (chunk_run port es) s n sv fence claim" .
      with snoc.prems show ?thesis by (intro exI [of _ es] exI [of _ "[]"]) auto
    qed
  qed
  ultimately show ?thesis by blast
qed

text \<open>
  A superseded attempt is fenced off for good. Once an operation has a claim other than the one a
  worker holds, in every later state of the stores a selection with the old claim is refused and a
  candidate of the old attempt is not stored, whatever the worker sends.
\<close>

theorem superseded_attempt_fenced:
  assumes c: "cst_claims (cw_chunks (chunk_run port es)) oid = Some c"
    and c': "cst_claims (cw_chunks (chunk_run port (es @ mid))) oid = Some c'" "c' \<noteq> c"
  shows "\<forall>later. let w = chunk_run port (es @ mid @ later) in
    (\<forall>set_id selected_id n sv fence res.
       snd (select_chunk_set (cw_day95 w) set_id selected_id n sv fence c (cw_chunks w)) = Inr res \<longrightarrow>
       csr_outcome res \<noteq> SelectionOutcome.SELECTED) \<and>
    (\<forall>contract decision candidate st res. cvd_candidate decision = Some candidate \<longrightarrow>
       cop_operation_id (csc_operation candidate) = oid \<longrightarrow> csc_attempt candidate = ccl_attempt c \<longrightarrow>
       persist port (cw_day95 w) contract decision (cw_chunks w) = Inr (st, res) \<longrightarrow>
       st = cw_chunks w \<and> ccr_outcome res \<notin> {ChunkCommitOutcome.COMMITTED, ChunkCommitOutcome.ALREADY_COMMITTED})"
proof (unfold Let_def, intro allI conjI)
  fix later
  let ?w = "chunk_run port (es @ mid @ later)"
  have ok: "claims_ok (cw_chunks (chunk_run port xs))" for xs using chunk_run_inv [of port xs] by (simp add: chunk_inv_def)
  have less: "ccl_fence c < ccl_fence c'"
    using chunk_claims.run_evolves [OF chunk_run_inv c, of mid] c' by (auto simp: chunk_run_append)
  from chunk_claims.run_evolves [OF chunk_run_inv c'(1), of later] obtain c2 where
    c2: "cst_claims (cw_chunks ?w) oid = Some c2" "ccl_fence c < ccl_fence c2"
    using less by (auto simp: chunk_run_append)
  have id: "cop_operation_id (ccl_operation c) = oid" "cat_attempt_number (ccl_attempt c) = ccl_fence c"
    "cat_attempt_number (ccl_attempt c2) = ccl_fence c2"
    using ok c c2(1) unfolding claims_ok_def by metis+
  show "snd (select_chunk_set (cw_day95 ?w) set_id selected_id n sv fence c (cw_chunks ?w)) = Inr res \<longrightarrow>
      csr_outcome res \<noteq> SelectionOutcome.SELECTED" for set_id selected_id n sv fence res
    by (rule select_cases) (use c2 id(1) in auto)
  show "cvd_candidate decision = Some candidate \<longrightarrow> cop_operation_id (csc_operation candidate) = oid \<longrightarrow>
      csc_attempt candidate = ccl_attempt c \<longrightarrow> persist port (cw_day95 ?w) contract decision (cw_chunks ?w) = Inr (st, res) \<longrightarrow>
      st = cw_chunks ?w \<and> ccr_outcome res \<notin> {ChunkCommitOutcome.COMMITTED, ChunkCommitOutcome.ALREADY_COMMITTED}"
    for contract decision candidate st res
  proof (intro impI)
    assume a: "cvd_candidate decision = Some candidate" "cop_operation_id (csc_operation candidate) = oid"
      "csc_attempt candidate = ccl_attempt c" and "persist port (cw_day95 ?w) contract decision (cw_chunks ?w) = Inr (st, res)"
    from this(4) show "st = cw_chunks ?w \<and> ccr_outcome res \<notin> {ChunkCommitOutcome.COMMITTED, ChunkCommitOutcome.ALREADY_COMMITTED}"
    proof (cases rule: persist_cases)
      case (2 candidate' document version ingestion parsed source refreshed)
      with a c2 have "ccl_attempt c2 = ccl_attempt c" by simp
      with id(2,3) c2(2) show ?thesis by simp
    qed simp
  qed
qed

section \<open>The run is sound\<close>

context tokenizer_port
begin

text \<open>The segments of a generated candidate have been constructed.\<close>

lemma generated_constructed:
  assumes gen: "generate_chunks port clock parsed contract operation attempt experiment_id = Inr candidate"
    and con: "ChunkingContract_post_init contract = Inr contract"
    and c: "c \<in> set (csc_chunks candidate)" "s \<in> set (ckc_source_segments c)"
  shows "SourceSegment_post_init s = Inr s"
  using gen
proof (rule generate_chunks_ok)
  fix normalized spans memory chunks
  assume nrm: "normalize (px_canonical_text parsed) (cg_normalization_version contract) = Inr normalized"
    and toks: "tp_spans port (nt_text normalized) = Inr spans" "spans \<noteq> []"
    and loop: "chunk_loop port clock contract (px_canonical_text parsed) normalized spans memory
       \<lparr>gl_start = 0, gl_chunks = [], gl_output_chars = 0, gl_work_units = int (length spans)\<rparr> = Inr chunks"
    and cand: "candidate = \<lparr>csc_operation = operation, csc_attempt = attempt, csc_experiment_id = experiment_id, csc_chunks = chunks,
       csc_manifest = \<lparr>cmf_chunk_count = int (length chunks), cmf_source_checksum = px_output_checksum_sha256 parsed,
         cmf_contract_fingerprint = contract_fingerprint contract, cmf_chunks_checksum = chunks_checksum chunks\<rparr>\<rparr>"
  have ck: "chunking port contract (px_canonical_text parsed) normalized spans"
    using nrm toks(1) contract_valid(1) [OF con] tokenizer_port_axioms by (simp add: chunking_def chunking_axioms_def)
  obtain k i j where w: "chunk_window port contract (px_canonical_text parsed) normalized spans k i j c"
    using chunk_loop_chain [OF loop, of 0] toks(2) contract_valid(1,2) [OF con] c(1) cand window_chain_member by fastforce
  note seg = chunking.window_segments [OF ck w]
  have ij: "i < length spans" using seg(2,3) by simp
  from c(2) consider "s \<in> set (chunk_context contract (px_canonical_text parsed) normalized spans (int i))"
    | "s = \<lparr>sg_start = token_pos (px_canonical_text parsed) normalized spans i,
         sg_end = token_pos (px_canonical_text parsed) normalized spans j, sg_role = ''body''\<rparr>"
    unfolding seg(1) by auto
  then show ?thesis
  proof cases
    case 1
    then show ?thesis
      using chunking.context_before [OF ck ij] by (auto simp: segments_before_def SourceSegment_post_init_def truthy_def)
  next
    case 2
    then show ?thesis
      using chunking.pos_less [OF ck seg(2,3)] by (simp add: SourceSegment_post_init_def truthy_def)
  qed
qed

end

definition chunks_lead :: "TokenizerPort \<Rightarrow> ChunkWorld \<Rightarrow> ChunkWorld \<Rightarrow> bool" where
  "chunks_lead port w w' \<longleftrightarrow> (\<exists>es. w' = fold (chunk_world_step port) es w)"

lemma chunks_lead_refl [simp]: "chunks_lead port w w"
  unfolding chunks_lead_def by (rule exI [of _ "[]"]) simp

lemma chunks_lead_fold: "chunks_lead port w w' \<Longrightarrow> chunks_lead port w (fold (chunk_world_step port) es w')"
  unfolding chunks_lead_def by (metis fold_append comp_apply)

lemma chunks_lead_trans: "chunks_lead port u v \<Longrightarrow> chunks_lead port v w \<Longrightarrow> chunks_lead port u w"
  unfolding chunks_lead_def by (metis fold_append comp_apply)

lemma chunks_lead_step: "chunks_lead port w w' \<Longrightarrow> chunks_lead port w (chunk_world_step port e w')"
  using chunks_lead_fold [of port w w' "[e]"] by simp

lemma read_facts_leads:
  assumes "chunks_lead port w0 w" "read_facts port others identity w = (w', r)"
  shows "chunks_lead port w0 w'"
  using assms by (auto simp: read_facts_def Let_def intro!: chunks_lead_fold split: sum.splits)

text \<open>What a run may report of the store it leaves.\<close>

definition run_reports :: "ChunkingRunRequest \<Rightarrow> ChunkWorld \<Rightarrow> ChunkingRunResult \<Rightarrow> bool" where
  "run_reports request w res \<longleftrightarrow>
     (crr_outcome res \<in> {ChunkingRunOutcome.COMMITTED, ChunkingRunOutcome.ALREADY_COMMITTED} \<longrightarrow>
        (\<exists>cs. crr_chunk_set res = Some cs \<and> cst_sets (cw_chunks w) (chunk_set_id (crq_operation request)) = Some cs \<and>
           cop_contract_fingerprint (cse_operation cs) = contract_fingerprint (crq_contract request) \<and>
           (crr_outcome res = ChunkingRunOutcome.COMMITTED \<longrightarrow> cse_operation cs = crq_operation request \<and>
              cse_experiment_id cs = crq_experiment_id request)))"

lemma run_reports_simple: "o' \<notin> {ChunkingRunOutcome.COMMITTED, ChunkingRunOutcome.ALREADY_COMMITTED} \<Longrightarrow>
    run_reports request w (chunking_result o' reason)"
  by (simp add: run_reports_def chunking_result_def)

lemma persist_reports:
  assumes inv: "chunk_inv port w" and p: "persist port (cw_day95 w) contract decision (cw_chunks w) = Inr (st, committed)"
    and cand: "cvd_candidate decision = Some candidate" "csc_operation candidate = crq_operation request"
      "csc_experiment_id candidate = crq_experiment_id request"
    and fp: "cop_contract_fingerprint (crq_operation request) = contract_fingerprint (crq_contract request)"
    and out: "crr_outcome res = run_outcome (ccr_outcome committed)" "crr_chunk_set res = ccr_chunk_set committed"
  shows "run_reports request (w\<lparr>cw_chunks := st\<rparr>) res"
  using p
proof (cases rule: persist_cases)
  case 1
  then show ?thesis using out by (auto simp: run_reports_def run_outcome_def)
next
  case (2 candidate' document version ingestion parsed source refreshed)
  then have c: "candidate' = candidate" using cand by simp
  have ok: "sets_ok port (cw_day95 w) (cw_chunks w)" using inv by (simp add: chunk_inv_def)
  from ok 2(8) show ?thesis
  proof (cases rule: insert_cases)
    case conflict
    then show ?thesis using out by (simp add: run_reports_def run_outcome_def)
  next
    case (stored cs)
    moreover have "cop_contract_fingerprint (cse_operation cs) = cop_contract_fingerprint (csc_operation candidate)"
      using 2(8) stored by (auto simp: insert_chunk_set_def Let_def chunk_commit_result_def c split: option.splits if_splits)
    ultimately show ?thesis using out cand fp by (simp add: run_reports_def run_outcome_def c)
  next
    case fresh
    then show ?thesis using out cand fp
      by (simp add: run_reports_def run_outcome_def c) (simp add: new_chunk_set_def Let_def)
  qed
qed

text \<open>The artifact of an eligible version in a reachable store is bound, so its text has an encoding.\<close>

lemma version_artifact_bound:
  assumes "ls_versions (lifecycle_run ds) k = Some v" "vl_parsed_artifact_id v = Some a"
  obtains p where "ls_parsed_artifacts (lifecycle_run ds) a = Some p" "px_parsed_artifact_id p = a" "encodable (px_canonical_text p)"
  using inv_dest(2) [OF lifecycle_run_inv assms(1)] assms(2)
  by (auto simp: version_ok_def artifact_bound_def sha256_text_Inr)

lemma claim_admissible_total: "\<exists>b. claim_admissible (lifecycle_run ds) operation = Inr b"
proof (cases "\<exists>d v r p src. read_day95 (lifecycle_run ds) (cop_version operation) = Some (d, v, r) \<and>
    ls_parsed_artifacts (lifecycle_run ds) (cop_parsed_artifact_id operation) = Some p \<and>
    ls_source_artifacts (lifecycle_run ds) (cop_source_artifact_id operation) = Some src \<and>
    eligible (evaluate_chunking_eligibility d v r) \<and>
    eg_parsed_artifact_id (evaluate_chunking_eligibility d v r) = Some (cop_parsed_artifact_id operation)")
  case True
  then obtain d v r p src where f: "read_day95 (lifecycle_run ds) (cop_version operation) = Some (d, v, r)"
    "ls_parsed_artifacts (lifecycle_run ds) (cop_parsed_artifact_id operation) = Some p"
    "ls_source_artifacts (lifecycle_run ds) (cop_source_artifact_id operation) = Some src"
    and el: "eligible (evaluate_chunking_eligibility d v r)"
    and ea: "eg_parsed_artifact_id (evaluate_chunking_eligibility d v r) = Some (cop_parsed_artifact_id operation)" by blast
  have "vl_parsed_artifact_id v = Some (cop_parsed_artifact_id operation)" using eligible_artifact [OF el] ea by simp
  then have "encodable (px_canonical_text p)"
    using version_artifact_bound [of ds "version_key (cop_version operation)" v] f(1,2) unfolding read_day95_Some by force
  with f el ea show ?thesis
    by (cases "claim_bound v r p src operation")
      (auto simp: claim_admissible_def read_parsed_artifact_def read_source_artifact_def sha256_text_eq Let_def)
next
  case False
  then show ?thesis
    by (auto simp: claim_admissible_def read_parsed_artifact_def read_source_artifact_def Let_def split: option.splits prod.splits)
qed

lemma persist_total:
  assumes con: "ChunkingContract_post_init contract = Inr contract"
    and cand: "\<And>candidate. cvd_candidate decision = Some candidate \<Longrightarrow> list_all chunk_encodable (csc_chunks candidate)"
  shows "\<exists>st res. persist ClassroomTokenizer (cw_day95 (chunk_run ClassroomTokenizer es)) contract decision
    (cw_chunks (chunk_run ClassroomTokenizer es)) = Inr (st, res)"
proof -
  let ?w = "chunk_run ClassroomTokenizer es"
  obtain ds where ds: "cw_day95 ?w = lifecycle_run ds" using chunk_run_day95 by blast
  have ins: "\<exists>st res. insert_chunk_set candidate (cw_chunks ?w) = Inr (st, res)" for candidate
  proof (cases "cst_result_keys (cw_chunks ?w) (stable_result_key (csc_operation candidate))")
    case (Some k)
    with chunk_run_inv [of ClassroomTokenizer es] obtain cs where "cst_sets (cw_chunks ?w) k = Some cs"
      unfolding chunk_inv_def sets_ok_def by blast
    with Some show ?thesis by (simp add: insert_chunk_set_def Let_def)
  qed (simp add: insert_chunk_set_def Let_def)
  have ev: "\<exists>d. evaluate_chunk_set ClassroomTokenizer document version ingestion parsed source contract candidate = Inr d"
    if c: "cvd_candidate decision = Some candidate"
      and rd: "read_day95 (lifecycle_run ds) (cop_version (csc_operation candidate)) = Some (document, version, ingestion)"
      and p: "ls_parsed_artifacts (lifecycle_run ds) (cop_parsed_artifact_id (csc_operation candidate)) = Some parsed"
    for document version ingestion parsed source candidate
  proof -
    have "\<exists>b. manifest_ok parsed contract candidate = Inr b"
      if reach: "reaches_manifest document version ingestion parsed source contract candidate"
    proof -
      from reach eligible_artifact have "vl_parsed_artifact_id version = Some (px_parsed_artifact_id parsed)"
        "cop_parsed_artifact_id (csc_operation candidate) = px_parsed_artifact_id parsed"
        by (auto simp: reaches_manifest_def parse_bound_def)
      then have "encodable (px_canonical_text parsed)"
        using version_artifact_bound [of ds "version_key (cop_version (csc_operation candidate))" version] rd p
        unfolding read_day95_Some by force
      with cand [OF c] show ?thesis
        using manifest_ok_raises [of parsed contract candidate] unfolding manifest_unencodable_def
        by (cases "manifest_ok parsed contract candidate") auto
    qed
    from validation_decided [OF con this] show ?thesis by blast
  qed
  show ?thesis
  proof (cases "cvd_candidate decision")
    case (Some candidate)
    show ?thesis
    proof (cases "read_day95 (lifecycle_run ds) (cop_version (csc_operation candidate))")
      case rd: (Some f)
      obtain document version ingestion where f: "f = (document, version, ingestion)" by (cases f)
      show ?thesis
      proof (cases "ls_parsed_artifacts (lifecycle_run ds) (cop_parsed_artifact_id (csc_operation candidate))")
        case p: (Some parsed)
        show ?thesis
        proof (cases "ls_source_artifacts (lifecycle_run ds) (cop_source_artifact_id (csc_operation candidate))")
          case src: (Some source)
          from ev [OF Some rd [unfolded f] p, of source] obtain d where
            "evaluate_chunk_set ClassroomTokenizer document version ingestion parsed source contract candidate = Inr d" ..
          with Some rd f p src ins [of candidate] show ?thesis
            by (auto simp: persist_def ds read_parsed_artifact_def read_source_artifact_def Let_def split: bool.splits)
        qed (use Some rd f p in \<open>auto simp: persist_def ds read_parsed_artifact_def read_source_artifact_def Let_def split: bool.splits\<close>)
      qed (use Some rd f in \<open>auto simp: persist_def ds read_parsed_artifact_def read_source_artifact_def Let_def split: bool.splits\<close>)
    qed (use Some in \<open>auto simp: persist_def ds Let_def split: bool.splits\<close>)
  qed (auto simp: persist_def split: bool.splits)
qed

lemma chunk_claimed_sound:
  assumes w: "w = chunk_run ClassroomTokenizer es" and con: "ChunkingContract_post_init (crq_contract request) = Inr (crq_contract request)"
    and fp: "cop_contract_fingerprint (crq_operation request) = contract_fingerprint (crq_contract request)"
    and run: "chunk_claimed ClassroomTokenizer clock others request facts parsed source w = (w', out)"
  shows "chunks_lead ClassroomTokenizer w w' \<and> (\<forall>res. out = Inr res \<longrightarrow> run_reports request w' res) \<and>
    (\<forall>e. out = Inl e \<longrightarrow> generate_chunks ClassroomTokenizer clock parsed (crq_contract request) (crq_operation request)
       (crq_attempt request) (crq_experiment_id request) = Inl e)"
proof (cases "generate_chunks ClassroomTokenizer clock parsed (crq_contract request) (crq_operation request)
    (crq_attempt request) (crq_experiment_id request)")
  case (Inl e)
  with run show ?thesis by (cases e) (auto simp: chunk_claimed_def run_reports_def chunking_result_def)
next
  case (Inr candidate)
  obtain document version ingestion where facts: "facts = (document, version, ingestion)" by (cases facts)
  have enc: "encodable (px_canonical_text parsed)" "list_all chunk_encodable (csc_chunks candidate)"
    using Inr by (auto elim!: generate_chunks_ok simp: sha256_text_Inr)
  then have "\<exists>b. manifest_ok parsed (crq_contract request) candidate = Inr b"
    using manifest_ok_raises [of parsed "crq_contract request" candidate] unfolding manifest_unencodable_def
    by (cases "manifest_ok parsed (crq_contract request) candidate") auto
  from validation_decided [OF con this] obtain d where
    d: "evaluate_chunk_set ClassroomTokenizer document version ingestion parsed source (crq_contract request) candidate = Inr d"
      "cvd_candidate d = (if chunk_ready d then Some candidate else None)" by blast
  show ?thesis
  proof (cases "chunk_ready d")
    case False
    with run Inr d show ?thesis by (auto simp: chunk_claimed_def facts run_reports_def chunking_result_def)
  next
    case True
    let ?w = "fold (chunk_world_step ClassroomTokenizer) (others 6) w"
    have w': "?w = chunk_run ClassroomTokenizer (es @ others 6)" by (simp add: w chunk_run_append)
    have inv': "chunk_inv ClassroomTokenizer ?w" unfolding w' by (rule chunk_run_inv)
    from persist_total [OF con, of d "es @ others 6"] d(2) enc(2) obtain st c where
      p: "persist ClassroomTokenizer (cw_day95 ?w) (crq_contract request) d (cw_chunks ?w) = Inr (st, c)"
      unfolding w' by (auto split: if_splits)
    have "candidate_constructed d"
      using classroom.generated_constructed [OF Inr con] True d(2) by (auto simp: candidate_constructed_def is_ok_def)
    then have "?w\<lparr>cw_chunks := st\<rparr> = chunk_world_step ClassroomTokenizer (PersistSet (crq_contract request) d) ?w" using p by simp
    then have lead: "chunks_lead ClassroomTokenizer w (?w\<lparr>cw_chunks := st\<rparr>)" by (simp only: chunks_lead_step chunks_lead_fold chunks_lead_refl)
    have cand: "csc_operation candidate = crq_operation request" "csc_experiment_id candidate = crq_experiment_id request"
      using Inr by (auto elim!: generate_chunks_ok)
    have "run_reports request (?w\<lparr>cw_chunks := st\<rparr>) res"
      if "crr_outcome res = run_outcome (ccr_outcome c)" "crr_chunk_set res = ccr_chunk_set c" for res
      by (rule persist_reports [OF inv' p _ cand fp that]) (simp add: d(2) True)
    with run Inr d True p lead show ?thesis by (auto simp: chunk_claimed_def facts Let_def chunking_result_def)
  qed
qed

text \<open>A stored artifact stays, and the artifact of the version the run reads is stored when it is read.\<close>

lemma artifact_stays:
  assumes "ls_parsed_artifacts (cw_day95 w) a = Some p"
  shows "ls_parsed_artifacts (cw_day95 (fold (chunk_world_step port) es w)) a = Some p"
  using assms
proof (induction es arbitrary: w)
  case (Cons e es)
  have "ls_parsed_artifacts (cw_day95 (chunk_world_step port e w)) a = Some p"
  proof (cases e)
    case (Day95 l)
    with Cons.prems step_moves(5) [of "cw_day95 w" l] show ?thesis
      by (auto simp: moves_def simp del: lifecycle_step.simps)
  qed (use Cons.prems in \<open>auto split: sum.splits\<close>)
  with Cons.IH show ?case by simp
qed simp

lemma read_facts_artifact:
  assumes rf: "read_facts port others identity (chunk_run port es) = (w', Some (d, v, i))"
    and a: "vl_parsed_artifact_id v = Some a"
  obtains p where "ls_parsed_artifacts (cw_day95 w') a = Some p" "encodable (px_canonical_text p)"
proof -
  define w1 where "w1 = chunk_run port ((es @ others 0) @ others 1)"
  have w: "fold (chunk_world_step port) (others (Suc 0)) (fold (chunk_world_step port) (others 0) (chunk_run port es)) = w1"
    by (simp add: w1_def chunk_run_append)
  obtain ds where ds: "cw_day95 w1 = lifecycle_run ds" using chunk_run_day95 w1_def by blast
  from rf have "read_version (cw_day95 w1) identity = Inr v" "w' = fold (chunk_world_step port) (others 2) w1"
    by (auto simp: read_facts_def Let_def w split: sum.splits)
  moreover from this(1) have "ls_versions (lifecycle_run ds) (version_key identity) = Some v"
    by (simp add: read_version_def ds split: option.splits)
  from version_artifact_bound [OF this a] obtain p where "ls_parsed_artifacts (cw_day95 w1) a = Some p" "encodable (px_canonical_text p)"
    by (metis ds)
  ultimately show thesis using artifact_stays [of w1 a p port "others 2"] that by blast
qed

lemma run_sound:
  assumes run: "run_chunking ClassroomTokenizer clock others request (chunk_run ClassroomTokenizer es) = (w', out)"
    and con: "ChunkingContract_post_init (crq_contract request) = Inr (crq_contract request)"
  shows "(\<exists>later. w' = chunk_run ClassroomTokenizer (es @ later)) \<and> (\<forall>res. out = Inr res \<longrightarrow> run_reports request w' res) \<and>
    (\<forall>e. out = Inl e \<longrightarrow> (\<exists>parsed. generate_chunks ClassroomTokenizer clock parsed (crq_contract request) (crq_operation request)
       (crq_attempt request) (crq_experiment_id request) = Inl e))"
proof -
  let ?w = "chunk_run ClassroomTokenizer es" and ?op = "crq_operation request"
  define P where "P r \<longleftrightarrow> chunks_lead ClassroomTokenizer ?w (fst r) \<and> (\<forall>res. snd r = Inr res \<longrightarrow> run_reports request (fst r) res) \<and>
    (\<forall>e. snd r = Inl e \<longrightarrow> (\<exists>parsed. generate_chunks ClassroomTokenizer clock parsed (crq_contract request) ?op
       (crq_attempt request) (crq_experiment_id request) = Inl e))" for r :: "ChunkWorld \<times> ChunkingRunResult res"
  have plain: "P (w, Inr (chunking_result o' reason))"
    if "chunks_lead ClassroomTokenizer ?w w" "o' \<notin> {ChunkingRunOutcome.COMMITTED, ChunkingRunOutcome.ALREADY_COMMITTED}" for w o' reason
    using that by (simp add: P_def run_reports_simple)
  have claimed: "P (chunk_claimed ClassroomTokenizer clock others request facts parsed source (w\<lparr>cw_chunks := st\<rparr>))"
    if "chunks_lead ClassroomTokenizer ?w w" "chunk_claim (cw_day95 w) ?op (crq_attempt request) (cw_chunks w) = (st, Inr (Some c))"
      "cop_contract_fingerprint ?op = contract_fingerprint (crq_contract request)" for facts parsed source w st c
  proof -
    have st: "w\<lparr>cw_chunks := st\<rparr> = chunk_world_step ClassroomTokenizer (ClaimChunking ?op (crq_attempt request)) w" using that(2) by simp
    have lead: "chunks_lead ClassroomTokenizer ?w (w\<lparr>cw_chunks := st\<rparr>)" unfolding st by (rule chunks_lead_step [OF that(1)])
    then obtain later where reach: "w\<lparr>cw_chunks := st\<rparr> = chunk_run ClassroomTokenizer (es @ later)"
      unfolding chunks_lead_def chunk_run_append by blast
    obtain w2 out2 where c: "chunk_claimed ClassroomTokenizer clock others request facts parsed source (w\<lparr>cw_chunks := st\<rparr>) = (w2, out2)"
      by fastforce
    from chunk_claimed_sound [OF reach con that(3) c] chunks_lead_trans [OF lead, of w2] show ?thesis
      unfolding c P_def by auto
  qed
  have "P (run_chunking ClassroomTokenizer clock others request ?w)"
  proof (cases "crq_cancelled request \<or> \<not> crq_capacity_admitted request \<or>
      cop_contract_fingerprint ?op \<noteq> contract_fingerprint (crq_contract request)")
    case True
    then show ?thesis by (auto simp: run_chunking_def Let_def intro!: plain)
  next
    case False
    obtain w1 r where rf: "read_facts ClassroomTokenizer others (cop_version ?op) ?w = (w1, r)" by fastforce
    define w3 where "w3 = fold (chunk_world_step ClassroomTokenizer) (others 3) w1"
    define w4 where "w4 = fold (chunk_world_step ClassroomTokenizer) (others 4) w3"
    define w5 where "w5 = fold (chunk_world_step ClassroomTokenizer) (others 5) w4"
    have lead: "chunks_lead ClassroomTokenizer ?w w1" "chunks_lead ClassroomTokenizer ?w w4" "chunks_lead ClassroomTokenizer ?w w5"
      using read_facts_leads [OF chunks_lead_refl rf] by (simp_all add: w3_def w4_def w5_def chunks_lead_fold)
    obtain st c where cl: "chunk_claim (cw_day95 w5) ?op (crq_attempt request) (cw_chunks w5) = (st, c)" by fastforce
    have claim_ok: "\<exists>x. c = Inr x"
    proof -
      obtain later where "w5 = chunk_run ClassroomTokenizer (es @ later)" using lead(3) unfolding chunks_lead_def chunk_run_append by blast
      then obtain ds where "cw_day95 w5 = lifecycle_run ds" using chunk_run_day95 by blast
      with claim_admissible_total [of ds ?op] cl show ?thesis
        by (auto simp: chunk_claim_def Let_def split: if_splits)
    qed
    have claim: "P (case (st, c) of (st, Inl e) \<Rightarrow> (w5, Inl e) | (st, Inr None) \<Rightarrow> (w5, Inr (chunking_result ChunkingRunOutcome.CLAIM_CONFLICT
          ''CHUNKING_OPERATION_OR_ATTEMPT_CONFLICT''))
        | (st, Inr (Some claim)) \<Rightarrow> chunk_claimed ClassroomTokenizer clock others request facts parsed source (w5\<lparr>cw_chunks := st\<rparr>))"
      for facts parsed source
    proof -
      from claim_ok obtain x where x: "c = Inr x" by blast
      show ?thesis using claimed [OF lead(3), of st _ facts parsed source] cl False lead(3) unfolding x by (cases x) (simp_all add: plain)
    qed
    have art: "\<exists>b. run_artifact_ok d v i p src ?op = Inr b"
      if rs: "r = Some (d, v, i)" and p: "read_parsed_artifact (cw_day95 w3) (cop_parsed_artifact_id ?op) = Some p" for d v i p src
    proof (cases "eligible (evaluate_chunking_eligibility d v i) \<and>
        eg_parsed_artifact_id (evaluate_chunking_eligibility d v i) = Some (cop_parsed_artifact_id ?op)")
      case True
      then have "vl_parsed_artifact_id v = Some (cop_parsed_artifact_id ?op)" using eligible_artifact [of d v i] by simp
      from read_facts_artifact [OF rf [unfolded rs] this] obtain q where
        "ls_parsed_artifacts (cw_day95 w1) (cop_parsed_artifact_id ?op) = Some q" "encodable (px_canonical_text q)" .
      with artifact_stays [of w1 "cop_parsed_artifact_id ?op" q ClassroomTokenizer "others 3"] p have "encodable (px_canonical_text p)"
        by (simp add: read_parsed_artifact_def w3_def)
      then show ?thesis by (auto simp: run_artifact_ok_def sha256_text_eq Let_def intro: exI [of Not False])
    qed (auto simp: run_artifact_ok_def Let_def)
    show ?thesis
      using False lead claim unfolding run_chunking_def Let_def rf prod.case w3_def [symmetric] w4_def [symmetric] w5_def [symmetric] cl
      by (auto intro!: plain split: option.splits sum.splits) (metis art Inr_Inl_False)
  qed
  with run show ?thesis by (auto simp: P_def chunks_lead_def chunk_run_append)
qed

section \<open>Without interference a fresh operation commits\<close>

text \<open>What the claim checks is what the run and the validator check.\<close>

lemma claim_admissible_facts:
  assumes "claim_admissible (lifecycle_run ds) operation = Inr True"
  obtains d v r p src where "read_day95 (lifecycle_run ds) (cop_version operation) = Some (d, v, r)"
    "ls_parsed_artifacts (lifecycle_run ds) (cop_parsed_artifact_id operation) = Some p"
    "ls_source_artifacts (lifecycle_run ds) (cop_source_artifact_id operation) = Some src"
    "eligible (evaluate_chunking_eligibility d v r)" "parse_bound v r p src (vl_parsed_artifact_id v) operation"
    "px_parsed_artifact_id p = cop_parsed_artifact_id operation" "run_artifact_ok d v r p src operation = Inr True"
    "pm_output_checksum_sha256 (px_manifest p) = px_output_checksum_sha256 p"
    "sha256_text (px_canonical_text p) = Inr (px_output_checksum_sha256 p)"
proof -
  from assms obtain d v r p src where f: "read_day95 (lifecycle_run ds) (cop_version operation) = Some (d, v, r)"
    "ls_parsed_artifacts (lifecycle_run ds) (cop_parsed_artifact_id operation) = Some p"
    "ls_source_artifacts (lifecycle_run ds) (cop_source_artifact_id operation) = Some src"
    and el: "eligible (evaluate_chunking_eligibility d v r)"
    and ea: "eg_parsed_artifact_id (evaluate_chunking_eligibility d v r) = Some (cop_parsed_artifact_id operation)"
    and b: "claim_bound v r p src operation"
    and sums: "sha256_text (px_canonical_text p) = Inr (px_output_checksum_sha256 p)"
      "pm_output_checksum_sha256 (px_manifest p) = px_output_checksum_sha256 p"
    by (auto simp: claim_admissible_def Let_def read_parsed_artifact_def read_source_artifact_def bind_res_eq_Inr
        split: option.splits if_splits)
  note e = el [unfolded eligible_iff]
  have va: "vl_parsed_artifact_id v = Some (cop_parsed_artifact_id operation)" using eligible_artifact [OF el] ea by simp
  have "version_ok (ls_parsed_artifacts (lifecycle_run ds)) (version_key (cop_version operation)) v"
    using inv_dest(2) [OF lifecycle_run_inv] f(1) unfolding read_day95_Some by blast
  then have pid: "px_parsed_artifact_id p = cop_parsed_artifact_id operation" using va f(2) by (auto simp: version_ok_def)
  have c: "px_source_artifact_id p = cop_source_artifact_id operation" "px_version p = vd_identity (vl_definition v)"
    using b e unfolding claim_bound_def by metis+
  have pb: "parse_bound v r p src (vl_parsed_artifact_id v) operation"
    using b c va pid unfolding claim_bound_def parse_bound_def by (auto split: option.splits)
  have ra: "run_artifact_ok d v r p src operation = Inr True"
    using b c el ea sums(1) by (simp add: run_artifact_ok_def claim_bound_def Let_def)
  from f el pb pid ra sums(2,1) show thesis by (rule that)
qed

lemma first_claim:
  assumes ok: "claims_ok st" and "claim_admissible day95 operation = Inr True"
    and "cat_operation_id attempt = cop_operation_id operation" "cat_attempt_number attempt = 1" "cat_generation attempt = 1"
    and "cst_operations st (cop_operation_id operation) = None"
      "cst_idempotency st (vi_tenant_id (cop_version operation), cop_idempotency_key operation) = None"
  shows "\<exists>st' c. chunk_claim day95 operation attempt st = (st', Inr (Some c)) \<and> cst_result_keys st' = cst_result_keys st \<and>
    cst_selections st' = cst_selections st \<and> cst_claims st' (cop_operation_id operation) = Some (next_claim operation attempt None)"
proof -
  have "cst_claims st (cop_operation_id operation) = None"
    using ok assms(6) unfolding claims_ok_def by (metis option.distinct(1) not_None_eq)
  with assms show ?thesis by (simp add: chunk_claim_def Let_def)
qed

lemma run_commits:
  assumes adm: "claim_admissible (cw_day95 (chunk_run ClassroomTokenizer es)) (crq_operation request) = Inr True"
    and flags: "\<not> crq_cancelled request" "crq_capacity_admitted request"
    and con: "ChunkingContract_post_init (crq_contract request) = Inr (crq_contract request)"
    and fixed: "cg_strategy (crq_contract request) = ChunkStrategy.FIXED_TOKEN"
      "cg_tokenizer (crq_contract request) = tp_contract ClassroomTokenizer"
      "cg_min_useful_tokens (crq_contract request) \<le> cg_overlap_tokens (crq_contract request) + 1"
    and ids: "crq_experiment_id request \<noteq> []"
      "cop_contract_fingerprint (crq_operation request) = contract_fingerprint (crq_contract request)"
    and first: "cat_operation_id (crq_attempt request) = cop_operation_id (crq_operation request)"
      "cat_attempt_number (crq_attempt request) = 1" "cat_generation (crq_attempt request) = 1"
    and fresh: "cst_operations (cw_chunks (chunk_run ClassroomTokenizer es)) (cop_operation_id (crq_operation request)) = None"
      "cst_idempotency (cw_chunks (chunk_run ClassroomTokenizer es))
         (vi_tenant_id (cop_version (crq_operation request)), cop_idempotency_key (crq_operation request)) = None"
      "cst_result_keys (cw_chunks (chunk_run ClassroomTokenizer es)) (stable_result_key (crq_operation request)) = None"
    and p: "ls_parsed_artifacts (cw_day95 (chunk_run ClassroomTokenizer es)) (cop_parsed_artifact_id (crq_operation request)) = Some p"
    and t: "px_canonical_text p \<noteq> []" "int (length (px_canonical_text p)) \<le> cg_max_input_chars (crq_contract request)"
    and nrm: "normalize (px_canonical_text p) (cg_normalization_version (crq_contract request)) = Inr n"
    and toks: "tp_spans ClassroomTokenizer (nt_text n) = Inr spans" "cg_min_useful_tokens (crq_contract request) \<le> int (length spans)"
    and bud: "budgets_allow clock (crq_contract request) (length spans) (length (nt_text n))
      (estimated_memory (px_canonical_text p) (nt_text n) spans)"
  shows "\<exists>w' res. run_chunking ClassroomTokenizer clock (\<lambda>_. []) request (chunk_run ClassroomTokenizer es) = (w', Inr res) \<and>
    crr_outcome res = ChunkingRunOutcome.COMMITTED \<and> cw_day95 w' = cw_day95 (chunk_run ClassroomTokenizer es) \<and>
    cst_selections (cw_chunks w') = cst_selections (cw_chunks (chunk_run ClassroomTokenizer es)) \<and>
    cst_claims (cw_chunks w') (cop_operation_id (crq_operation request)) = Some (next_claim (crq_operation request) (crq_attempt request) None)"
proof -
  let ?w = "chunk_run ClassroomTokenizer es" and ?op = "crq_operation request" and ?con = "crq_contract request"
  obtain ds where ds: "cw_day95 ?w = lifecycle_run ds" using chunk_run_day95 by blast
  from claim_admissible_facts [OF adm [unfolded ds]] p [unfolded ds] obtain d v r src where
    f: "read_day95 (lifecycle_run ds) (cop_version ?op) = Some (d, v, r)"
      "ls_source_artifacts (lifecycle_run ds) (cop_source_artifact_id ?op) = Some src"
      "eligible (evaluate_chunking_eligibility d v r)" "parse_bound v r p src (vl_parsed_artifact_id v) ?op"
      "px_parsed_artifact_id p = cop_parsed_artifact_id ?op" "run_artifact_ok d v r p src ?op = Inr True"
      "pm_output_checksum_sha256 (px_manifest p) = px_output_checksum_sha256 p"
      "sha256_text (px_canonical_text p) = Inr (px_output_checksum_sha256 p)" by (metis option.inject)
  have inv: "claims_ok (cw_chunks ?w)" using chunk_run_inv [of ClassroomTokenizer es] by (simp add: chunk_inv_def)
  from first_claim [OF inv adm first fresh(1,2)] obtain st c where
    cl: "chunk_claim (lifecycle_run ds) ?op (crq_attempt request) (cw_chunks ?w) = (st, Inr (Some c))"
      "cst_result_keys st = cst_result_keys (cw_chunks ?w)"
      "cst_selections st = cst_selections (cw_chunks ?w)"
      "cst_claims st (cop_operation_id ?op) = Some (next_claim ?op (crq_attempt request) None)" unfolding ds by blast
  from fixed_token_generation_succeeds [OF con fixed ids _ first(1) t f(8) nrm toks(1) bud] f(5) obtain cand where
    gen: "generate_chunks ClassroomTokenizer clock p ?con ?op (crq_attempt request) (crq_experiment_id request) = Inr cand" by auto
  have cand: "csc_operation cand = ?op" "csc_attempt cand = crq_attempt request" using gen by (auto elim!: generate_chunks_ok)
  obtain m where m: "tp_count ClassroomTokenizer (px_canonical_text p) = Inr m" using classroom.count_total by blast
  have cnt: "tp_count ClassroomTokenizer (nt_text n) = Inr (int (length spans))" by (rule classroom.count_spans [OF toks(1)])
  from classroom.generated_verdict [OF gen con f(3,4,7) nrm cnt m] toks(2) obtain dec where
    dec: "evaluate_chunk_set ClassroomTokenizer d v r p src ?con cand = Inr dec" "chunk_ready dec" "cvd_candidate dec = Some cand" by auto
  have rf: "read_facts ClassroomTokenizer (\<lambda>_. []) (cop_version ?op) ?w = (?w, Some (d, v, r))"
    using f(1) unfolding read_day95_Some by (simp add: read_facts_def Let_def ds read_document_def read_version_def read_operation_def)
  have ins: "\<exists>st' cr. insert_chunk_set cand st = Inr (st', cr) \<and> ccr_outcome cr = ChunkCommitOutcome.COMMITTED"
    using fresh(3) by (simp add: insert_chunk_set_def cand cl(2) Let_def chunk_commit_result_def)
  have "\<exists>st' cr. persist ClassroomTokenizer (lifecycle_run ds) ?con dec st = Inr (st', cr) \<and> ccr_outcome cr = ChunkCommitOutcome.COMMITTED"
    using ins f(1,2) p dec cl(4) by (auto simp: persist_def Let_def cand ds read_parsed_artifact_def read_source_artifact_def next_claim_def)
  then obtain st' cr where per: "persist ClassroomTokenizer (lifecycle_run ds) ?con dec st = Inr (st', cr)"
    "ccr_outcome cr = ChunkCommitOutcome.COMMITTED" by blast
  have "run_chunking ClassroomTokenizer clock (\<lambda>_. []) request ?w =
      chunk_claimed ClassroomTokenizer clock (\<lambda>_. []) request (d, v, r) p src (?w\<lparr>cw_chunks := st\<rparr>)"
    using flags ids(2) f(2,6) p cl(1) by (simp add: run_chunking_def rf ds read_parsed_artifact_def read_source_artifact_def)
  also have "\<exists>w' res. \<dots> = (w', Inr res) \<and> crr_outcome res = ChunkingRunOutcome.COMMITTED \<and> cw_day95 w' = cw_day95 ?w \<and>
      cst_selections (cw_chunks w') = cst_selections (cw_chunks ?w) \<and>
      cst_claims (cw_chunks w') (cop_operation_id ?op) = Some (next_claim ?op (crq_attempt request) None)"
    using gen dec per persist_frame [OF per(1)] cl(3,4) by (simp add: chunk_claimed_def ds chunking_result_def run_outcome_def)
  finally show ?thesis .
qed

text \<open>
  C32. A chunking run is sound under interference. Whatever other callers ask of both stores between its
  calls, a run of a constructed contract leaves a state those requests and its own lead to, raises
  only what the generator raises, and when it reports a committed set, that set is stored under the
  result identity of the operation, for a contract of the requested fingerprint, and is the set of
  this very operation and experiment unless an equal one was there before.
\<close>

theorem chunking_run_sound:
  assumes run: "run_chunking ClassroomTokenizer clock others request (chunk_run ClassroomTokenizer es) = (w', out)"
    and con: "ChunkingContract_post_init (crq_contract request) = Inr (crq_contract request)"
  shows "(\<exists>later. w' = chunk_run ClassroomTokenizer (es @ later)) \<and> (\<forall>res. out = Inr res \<longrightarrow> run_reports request w' res) \<and>
    (\<forall>e. out = Inl e \<longrightarrow> (\<exists>parsed. generate_chunks ClassroomTokenizer clock parsed (crq_contract request) (crq_operation request)
       (crq_attempt request) (crq_experiment_id request) = Inl e))"
  using run_sound [OF assms] .

text \<open>
  C33. Chunking goes through. For a version whose artifact the committer admits, a first attempt of a
  fresh operation with a fixed-token contract whose budgets suffice commits its chunk set, when
  nobody interferes: the run reads the facts, claims, generates, validates and stores.
\<close>

theorem chunking_run_commits:
  assumes adm: "claim_admissible (cw_day95 (chunk_run ClassroomTokenizer es)) (crq_operation request) = Inr True"
    and flags: "\<not> crq_cancelled request" "crq_capacity_admitted request"
    and con: "ChunkingContract_post_init (crq_contract request) = Inr (crq_contract request)"
    and fixed: "cg_strategy (crq_contract request) = ChunkStrategy.FIXED_TOKEN"
      "cg_tokenizer (crq_contract request) = tp_contract ClassroomTokenizer"
      "cg_min_useful_tokens (crq_contract request) \<le> cg_overlap_tokens (crq_contract request) + 1"
    and ids: "crq_experiment_id request \<noteq> []"
      "cop_contract_fingerprint (crq_operation request) = contract_fingerprint (crq_contract request)"
    and first: "cat_operation_id (crq_attempt request) = cop_operation_id (crq_operation request)"
      "cat_attempt_number (crq_attempt request) = 1" "cat_generation (crq_attempt request) = 1"
    and fresh: "cst_operations (cw_chunks (chunk_run ClassroomTokenizer es)) (cop_operation_id (crq_operation request)) = None"
      "cst_idempotency (cw_chunks (chunk_run ClassroomTokenizer es))
         (vi_tenant_id (cop_version (crq_operation request)), cop_idempotency_key (crq_operation request)) = None"
      "cst_result_keys (cw_chunks (chunk_run ClassroomTokenizer es)) (stable_result_key (crq_operation request)) = None"
    and p: "ls_parsed_artifacts (cw_day95 (chunk_run ClassroomTokenizer es)) (cop_parsed_artifact_id (crq_operation request)) = Some p"
    and t: "px_canonical_text p \<noteq> []" "int (length (px_canonical_text p)) \<le> cg_max_input_chars (crq_contract request)"
    and nrm: "normalize (px_canonical_text p) (cg_normalization_version (crq_contract request)) = Inr n"
    and toks: "tp_spans ClassroomTokenizer (nt_text n) = Inr spans" "cg_min_useful_tokens (crq_contract request) \<le> int (length spans)"
    and bud: "budgets_allow clock (crq_contract request) (length spans) (length (nt_text n))
      (estimated_memory (px_canonical_text p) (nt_text n) spans)"
  shows "\<exists>w' res. run_chunking ClassroomTokenizer clock (\<lambda>_. []) request (chunk_run ClassroomTokenizer es) = (w', Inr res) \<and>
    crr_outcome res = ChunkingRunOutcome.COMMITTED \<and>
    run_reports request w' res"
proof -
  from run_commits [OF assms] obtain w' res where
    run: "run_chunking ClassroomTokenizer clock (\<lambda>_. []) request (chunk_run ClassroomTokenizer es) = (w', Inr res)"
      "crr_outcome res = ChunkingRunOutcome.COMMITTED" by blast
  with run_sound [OF run(1) con] show ?thesis by blast
qed

section \<open>A small run\<close>

definition small_operation :: ChunkingOperationIdentity where
  "small_operation = \<lparr>cop_version = io_version run_io, cop_source_artifact_id = ''s'',
     cop_parsed_artifact_id = px_parsed_artifact_id (ap_parsed_artifact run_proposal),
     cop_operation_id = ''chunk-op'', cop_idempotency_key = ''chunk-key'', cop_contract_fingerprint = contract_fingerprint sample_contract\<rparr>"

definition small_attempt :: "int \<Rightarrow> string \<Rightarrow> ChunkingAttemptIdentity" where
  "small_attempt k request_id =
     \<lparr>cat_operation_id = ''chunk-op'', cat_attempt_number = k, cat_request_id = request_id, cat_generation = k\<rparr>"

definition small_request :: ChunkingRunRequest where
  "small_request = \<lparr>crq_operation = small_operation, crq_attempt = small_attempt 1 ''q'', crq_contract = sample_contract,
     crq_experiment_id = ''e'', crq_cancelled = False, crq_capacity_admitted = True\<rparr>"

definition small_start :: "ChunkEvent list" where
  "small_start = map Day95 run_active"

lemma small_start_run: "chunk_run port small_start = \<lparr>cw_day95 = lifecycle_run run_active, cw_chunks = ChunkSetStore_init\<rparr>"
proof -
  have "fold (chunk_world_step port) (map Day95 es) w = w\<lparr>cw_day95 := fold lifecycle_step es (cw_day95 w)\<rparr>" for es w
    by (induction es arbitrary: w) (simp_all del: lifecycle_step.simps)
  then show ?thesis by (simp add: chunk_run_def small_start_def ChunkWorld_init_def lifecycle_run_def)
qed

text \<open>What the lifecycle store holds after the activation.\<close>

lemma run_active_facts:
  obtains d v r where "ls_documents (lifecycle_run run_active) (''t'', ''d'') = Some d"
    "ls_versions (lifecycle_run run_active) (''t'', ''d'', ''v'') = Some v" "ls_operations (lifecycle_run run_active) ''op'' = Some r"
    "ls_parsed_artifacts (lifecycle_run run_active) (px_parsed_artifact_id (ap_parsed_artifact run_proposal)) =
       Some (ap_parsed_artifact run_proposal)"
    "ls_source_artifacts (lifecycle_run run_active) ''s'' = Some run_source"
    "vl_definition v = run_version" "vl_parsed_artifact_id v = Some (px_parsed_artifact_id (ap_parsed_artifact run_proposal))"
    "ir_identity r = run_io" "eligible (evaluate_chunking_eligibility d v r)"
proof -
  let ?s = "lifecycle_run run_active" and ?a = "px_parsed_artifact_id (ap_parsed_artifact run_proposal)"
  let ?later = "[run_activate (run_guard DocumentHeadState.REGISTERED 0)]"
  have k: "document_key (vi_document (io_version run_io)) = (''t'', ''d'')" "version_key (io_version run_io) = (''t'', ''d'', ''v'')"
    "vi_document_version_id (io_version run_io) = ''v''"
    by (simp_all add: run_fields)
  from run_activated obtain d v r where f:
    "ls_documents ?s (''t'', ''d'') = Some d" "dh_state d = DocumentHeadState.ACTIVE" "dh_active_version_id d = Some ''v''"
    "ls_versions ?s (''t'', ''d'', ''v'') = Some v" "vl_state v = DocumentVersionLifecycle.ACTIVE" "vl_parsed_artifact_id v = Some ?a"
    "ls_operations ?s ''op'' = Some r" "ir_state r = IngestionOperationState.COMPLETED"
    "ls_parsed_artifacts ?s ?a = Some (ap_parsed_artifact run_proposal)"
    unfolding published_def Let_def run_ids k run_active_def by blast
  have i: "vl_definition v = run_version" "dh_identity d = vi_document (io_version run_io)" "ir_identity r = run_io"
    using versions.run_ident [of "lifecycle_run run_start" "(''t'', ''d'', ''v'')" "new_version run_version" ?later v]
      documents.run_ident [of "lifecycle_run run_start" "(''t'', ''d'')" "new_document (vi_document (io_version run_io))" ?later d]
      operations.run_ident [of "lifecycle_run run_start" "''op''" run_operation ?later r] f(1,4,7)
    by (simp_all add: run_started k run_active_def run_append new_version_def new_document_def run_operation_def)
  have src: "ls_source_artifacts ?s ''s'' = Some run_source"
    using source_artifacts.run_evolves [of "lifecycle_run run_start" "''s''" run_source ?later]
    by (simp add: run_started run_active_def run_append del: fold.simps)
  have v: "vd_identity run_version = io_version run_io" "vd_source_artifact_id run_version = ''s''" "io_source_artifact_id run_io = ''s''"
    by (simp_all add: run_fields)
  have "eligible (evaluate_chunking_eligibility d v r)" using f by (simp add: eligible_iff i v k)
  with f i src show thesis by (intro that) simp_all
qed

lemma small_admissible: "claim_admissible (lifecycle_run run_active) small_operation = Inr True"
proof -
  obtain d v r where f: "ls_documents (lifecycle_run run_active) (''t'', ''d'') = Some d"
    "ls_versions (lifecycle_run run_active) (''t'', ''d'', ''v'') = Some v" "ls_operations (lifecycle_run run_active) ''op'' = Some r"
    "ls_parsed_artifacts (lifecycle_run run_active) (px_parsed_artifact_id (ap_parsed_artifact run_proposal)) =
       Some (ap_parsed_artifact run_proposal)"
    "ls_source_artifacts (lifecycle_run run_active) ''s'' = Some run_source"
    "vl_definition v = run_version" "vl_parsed_artifact_id v = Some (px_parsed_artifact_id (ap_parsed_artifact run_proposal))"
    "ir_identity r = run_io" and el: "eligible (evaluate_chunking_eligibility d v r)" by (rule run_active_facts)
  from inv_dest(3) [OF lifecycle_run_inv f(3)] el f obtain att where
    att: "ir_attempt r = Some att" "correlation_ok run_io att (px_manifest (ap_parsed_artifact run_proposal))"
    by (auto simp: operation_ok_def eligible_iff run_fields)
  have rd: "read_day95 (lifecycle_run run_active) (io_version run_io) = Some (d, v, r)"
    using f by (simp add: read_day95_Some run_fields)
  have p: "px_version (ap_parsed_artifact run_proposal) = io_version run_io" "px_source_artifact_id (ap_parsed_artifact run_proposal) = ''s''"
    "px_output_checksum_sha256 (ap_parsed_artifact run_proposal) = text_checksum [97]"
    "px_canonical_text (ap_parsed_artifact run_proposal) = [97]" "px_manifest (ap_parsed_artifact run_proposal) = run_manifest"
    by (simp_all add: run_proposal_def)
  have m: "pm_source_checksum_sha256 run_manifest = ''sum''" "pm_tenant_id run_manifest = vi_tenant_id (io_version run_io)"
    "pm_document_id run_manifest = vi_document_id (io_version run_io)" "pm_document_version_id run_manifest = vi_document_version_id (io_version run_io)"
    "pm_source_artifact_id run_manifest = ''s''" "pm_parse_contract_version run_manifest = ''pc''"
    "pm_output_checksum_sha256 run_manifest = text_checksum [97]"
    by (simp_all add: run_manifest_def run_io_def io_version_def)
  have x: "sx_version run_source = io_version run_io" "sx_source_artifact_id run_source = ''s''" "sx_checksum_sha256 run_source = ''sum''"
    "vd_source_artifact_id run_version = ''s''" "vd_parse_contract_version run_version = ''pc''" "io_source_artifact_id run_io = ''s''"
    by (simp_all add: run_source_def run_version_def run_io_def)
  have o: "cop_version small_operation = io_version run_io" "cop_source_artifact_id small_operation = ''s''"
    by (simp_all add: small_operation_def)
  have "claim_bound v r (ap_parsed_artifact run_proposal) run_source small_operation"
    using att(2) unfolding claim_bound_def f(6,8) p m x o att(1) option.case correlation_ok_def by metis
  then show ?thesis
    using f el eligible_artifact [OF el] rd p(3-5) m(7)
    by (simp add: claim_admissible_def Let_def small_operation_def read_parsed_artifact_def read_source_artifact_def sha256_text_eq
        surrogate_def)
qed

lemma small_tokens: "tp_spans ClassroomTokenizer [97] = Inr [\<lparr>ts_start = 0, ts_end = 1\<rparr>]"
  by (simp add: ClassroomTokenizer_def classroom_spans_def text_eval slice_def)

lemma small_budget: "budgets_allow (\<lambda>_. 0) sample_contract (length [\<lparr>ts_start = 0, ts_end = 1\<rparr>]) (length [97 :: nat])
    (estimated_memory [97] [97] [\<lparr>ts_start = 0, ts_end = 1\<rparr>])"
  by (simp add: budgets_allow_def sample_contract_def estimated_memory_def utf8_encode_def utf8_char_def)

lemma small_fields:
  "crq_operation small_request = small_operation" "crq_attempt small_request = small_attempt 1 ''q''" "crq_contract small_request = sample_contract"
  "crq_experiment_id small_request = ''e''" "\<not> crq_cancelled small_request" "crq_capacity_admitted small_request"
  "cat_operation_id (small_attempt k i) = ''chunk-op''" "cat_attempt_number (small_attempt k i) = k" "cat_generation (small_attempt k i) = k"
  "cat_request_id (small_attempt k i) = i"
  "cop_operation_id small_operation = ''chunk-op''" "cop_contract_fingerprint small_operation = contract_fingerprint sample_contract"
  "cop_parsed_artifact_id small_operation = px_parsed_artifact_id (ap_parsed_artifact run_proposal)"
  by (simp_all add: small_request_def small_attempt_def small_operation_def)

lemma small_contract:
  "cg_strategy sample_contract = ChunkStrategy.FIXED_TOKEN" "cg_tokenizer sample_contract = tp_contract ClassroomTokenizer"
  "cg_min_useful_tokens sample_contract \<le> cg_overlap_tokens sample_contract + 1" "cg_max_input_chars sample_contract = 10"
  "cg_normalization_version sample_contract = ''identity-v1''" "cg_min_useful_tokens sample_contract = 1"
  by (simp_all add: sample_contract_def)

lemma small_text:
  "normalize [97] ''identity-v1'' = Inr \<lparr>nt_text = [97], nt_source_offsets = [(0, 1)]\<rparr>"
  by (simp add: normalize_def supported_normalizations_def)

lemma small_artifact:
  "ls_parsed_artifacts (lifecycle_run run_active) (px_parsed_artifact_id (ap_parsed_artifact run_proposal)) = Some (ap_parsed_artifact run_proposal)"
  "px_canonical_text (ap_parsed_artifact run_proposal) = [97]"
  by (rule run_active_facts, assumption) (simp add: run_proposal_def)

lemmas small_premises = small_admissible sample_contract_ok small_contract small_text small_tokens small_budget small_artifact

lemma small_commits:
  obtains w' res where "run_chunking ClassroomTokenizer (\<lambda>_. 0) (\<lambda>_. []) small_request (chunk_run ClassroomTokenizer small_start) = (w', Inr res)"
    "crr_outcome res = ChunkingRunOutcome.COMMITTED" "cw_day95 w' = lifecycle_run run_active" "cst_selections (cw_chunks w') = Map.empty"
    "cst_claims (cw_chunks w') ''chunk-op'' = Some (next_claim small_operation (small_attempt 1 ''q'') None)"
  using run_commits [of small_start small_request "ap_parsed_artifact run_proposal" "\<lparr>nt_text = [97], nt_source_offsets = [(0, 1)]\<rparr>"
      "[\<lparr>ts_start = 0, ts_end = 1\<rparr>]" "\<lambda>_. 0"] small_premises
  by (simp add: small_start_run small_fields ChunkSetStore_init_def) blast

theorem chunking_run_commits_witness:
  "\<exists>w' res. run_chunking ClassroomTokenizer (\<lambda>_. 0) (\<lambda>_. []) small_request (chunk_run ClassroomTokenizer small_start) = (w', Inr res) \<and>
     crr_outcome res = ChunkingRunOutcome.COMMITTED"
  using chunking_run_commits [of small_start small_request "ap_parsed_artifact run_proposal" "\<lparr>nt_text = [97], nt_source_offsets = [(0, 1)]\<rparr>"
      "[\<lparr>ts_start = 0, ts_end = 1\<rparr>]" "\<lambda>_. 0"] small_premises
  by (simp add: small_start_run small_fields ChunkSetStore_init_def) blast

lemma small_stored:
  obtains es cs where "cst_sets (cw_chunks (chunk_run ClassroomTokenizer (small_start @ es))) (chunk_set_id small_operation) = Some cs"
    "cw_day95 (chunk_run ClassroomTokenizer (small_start @ es)) = lifecycle_run run_active"
    "cst_selections (cw_chunks (chunk_run ClassroomTokenizer (small_start @ es))) = Map.empty" "cse_operation cs = small_operation"
    "cst_claims (cw_chunks (chunk_run ClassroomTokenizer (small_start @ es))) ''chunk-op'' =
       Some (next_claim small_operation (small_attempt 1 ''q'') None)"
proof -
  obtain w' res where run: "run_chunking ClassroomTokenizer (\<lambda>_. 0) (\<lambda>_. []) small_request (chunk_run ClassroomTokenizer small_start) = (w', Inr res)"
    "crr_outcome res = ChunkingRunOutcome.COMMITTED" "cw_day95 w' = lifecycle_run run_active" "cst_selections (cw_chunks w') = Map.empty"
    "cst_claims (cw_chunks w') ''chunk-op'' = Some (next_claim small_operation (small_attempt 1 ''q'') None)" by (rule small_commits)
  have con: "ChunkingContract_post_init (crq_contract small_request) = Inr (crq_contract small_request)"
    by (simp add: small_fields sample_contract_ok)
  from run_sound [OF run(1) con] obtain es where es: "w' = chunk_run ClassroomTokenizer (small_start @ es)"
    and rep: "run_reports small_request w' res" by blast
  from rep run(2) obtain cs where "cst_sets (cw_chunks w') (chunk_set_id small_operation) = Some cs" "cse_operation cs = small_operation"
    by (auto simp: run_reports_def small_fields)
  with run(3-) show thesis unfolding es by (intro that)
qed

theorem chunking_run_sound_witness:
  "\<exists>w' res. run_chunking ClassroomTokenizer (\<lambda>_. 0) (\<lambda>_. []) small_request (chunk_run ClassroomTokenizer small_start) = (w', Inr res) \<and>
     run_reports small_request w' res"
proof -
  obtain w' res where run: "run_chunking ClassroomTokenizer (\<lambda>_. 0) (\<lambda>_. []) small_request (chunk_run ClassroomTokenizer small_start) = (w', Inr res)"
    by (rule small_commits)
  have con: "ChunkingContract_post_init (crq_contract small_request) = Inr (crq_contract small_request)"
    by (simp add: small_fields sample_contract_ok)
  from chunking_run_sound [OF run con] run show ?thesis by blast
qed

theorem stored_chunk_sets_sound_witness:
  "\<exists>es cs. cst_sets (cw_chunks (chunk_run ClassroomTokenizer es)) (chunk_set_id small_operation) = Some cs \<and>
     (\<forall>later. cst_sets (cw_chunks (chunk_run ClassroomTokenizer (es @ later))) (chunk_set_id small_operation) = Some cs)"
proof -
  obtain es cs where "cst_sets (cw_chunks (chunk_run ClassroomTokenizer (small_start @ es))) (chunk_set_id small_operation) = Some cs"
    by (rule small_stored)
  with stored_chunk_sets_sound [OF this] show ?thesis by blast
qed

theorem selected_set_provenance_witness:
  "\<exists>es s before n sv fence claim. cst_selections (cw_chunks (chunk_run ClassroomTokenizer es)) (''t'', ''d'') = Some s \<and>
     selected_in (chunk_run ClassroomTokenizer before) s n sv fence claim"
proof -
  let ?c = "next_claim small_operation (small_attempt 1 ''q'') None"
  obtain es cs where s: "cst_sets (cw_chunks (chunk_run ClassroomTokenizer (small_start @ es))) (chunk_set_id small_operation) = Some cs"
    "cw_day95 (chunk_run ClassroomTokenizer (small_start @ es)) = lifecycle_run run_active"
    "cst_selections (cw_chunks (chunk_run ClassroomTokenizer (small_start @ es))) = Map.empty" "cse_operation cs = small_operation"
    "cst_claims (cw_chunks (chunk_run ClassroomTokenizer (small_start @ es))) ''chunk-op'' = Some ?c" by (rule small_stored)
  from claim_admissible_facts [OF small_admissible] obtain d v r p src where
    f: "read_day95 (lifecycle_run run_active) (cop_version small_operation) = Some (d, v, r)"
      "ls_parsed_artifacts (lifecycle_run run_active) (cop_parsed_artifact_id small_operation) = Some p"
      "ls_source_artifacts (lifecycle_run run_active) (cop_source_artifact_id small_operation) = Some src"
      "run_artifact_ok d v r p src small_operation = Inr True" .
  have cur: "selection_current (lifecycle_run run_active) small_operation (dh_state_version d) (dh_fence_token d) d v r = Inr True"
    using f(2-4) by (auto simp: selection_current_def run_artifact_ok_def read_parsed_artifact_def read_source_artifact_def Let_def
        bind_res_eq_Inr split: if_splits)
  let ?e = "SelectSet (chunk_set_id small_operation) None 0 (dh_state_version d) (dh_fence_token d) ?c"
  have c: "ccl_operation ?c = small_operation" by (simp add: next_claim_def)
  have k: "selection_key (cop_version small_operation) = (''t'', ''d'')" by (simp add: selection_key_def small_operation_def run_fields)
  have "\<exists>x. cst_selections (cw_chunks (chunk_run ClassroomTokenizer ((small_start @ es) @ [?e]))) (''t'', ''d'') = Some x"
    unfolding chunk_run_append [of _ "small_start @ es"] fold_simps chunk_world_step.simps
    by (simp add: s select_chunk_set_def c small_fields f(1) cur apply_selection_def k Let_def)
  then obtain x where x: "cst_selections (cw_chunks (chunk_run ClassroomTokenizer ((small_start @ es) @ [?e]))) (''t'', ''d'') = Some x" ..
  from selected_set_provenance [OF this] x show ?thesis by blast
qed

theorem superseded_attempt_fenced_witness:
  "\<exists>es mid c c'. cst_claims (cw_chunks (chunk_run ClassroomTokenizer es)) ''chunk-op'' = Some c \<and>
     cst_claims (cw_chunks (chunk_run ClassroomTokenizer (es @ mid))) ''chunk-op'' = Some c' \<and> c' \<noteq> c \<and>
     (\<forall>res. snd (select_chunk_set (lifecycle_run run_active) ''x'' None 0 0 0 c
       (cw_chunks (chunk_run ClassroomTokenizer (es @ mid @ [])))) = Inr res \<longrightarrow> csr_outcome res \<noteq> SelectionOutcome.SELECTED)"
proof -
  let ?es = "small_start @ [ClaimChunking small_operation (small_attempt 1 ''q'')]"
  let ?mid = "[ClaimChunking small_operation (small_attempt 2 ''z'')]"
  let ?c = "next_claim small_operation (small_attempt 1 ''q'') None"
  let ?c' = "next_claim small_operation (small_attempt 2 ''z'') (Some ?c)"
  have n: "ccl_attempt ?c = small_attempt 1 ''q''" "small_attempt 2 ''z'' \<noteq> small_attempt 1 ''q''"
    by (simp_all add: next_claim_def small_attempt_def)
  have c: "cst_claims (cw_chunks (chunk_run ClassroomTokenizer ?es)) ''chunk-op'' = Some ?c"
    by (simp add: chunk_run_append small_start_run chunk_claim_def small_fields small_admissible ChunkSetStore_init_def Let_def)
  have c': "cst_claims (cw_chunks (chunk_run ClassroomTokenizer (?es @ ?mid))) ''chunk-op'' = Some ?c'"
    by (simp add: chunk_run_append small_start_run chunk_claim_def small_fields small_admissible ChunkSetStore_init_def Let_def n)
  have ne: "?c' \<noteq> ?c" by (simp add: next_claim_def)
  have d: "cw_day95 (chunk_run ClassroomTokenizer (?es @ ?mid @ [])) = lifecycle_run run_active"
    by (simp add: chunk_run_append small_start_run)
  from superseded_attempt_fenced [OF c c' ne, THEN spec, of "[]", unfolded Let_def d, THEN conjunct1] have
    "\<forall>res. snd (select_chunk_set (lifecycle_run run_active) ''x'' None 0 0 0 ?c
       (cw_chunks (chunk_run ClassroomTokenizer (?es @ ?mid @ [])))) = Inr res \<longrightarrow> csr_outcome res \<noteq> SelectionOutcome.SELECTED"
    by blast
  with c c' ne show ?thesis by blast
qed

end
