(* ===== verification/Ingestion_Frontend.thy ===== *)
theory Ingestion_Frontend
  imports Rag_Contracts
begin

text \<open>
  The two gates an uploaded document passes before it reaches the lifecycle store:
  \<^verbatim>\<open>src/projects/ai-agent/src/rag_source_admission.py\<close>, which checks the bytes against the verified
  evidence and detects their media type, and \<^verbatim>\<open>src/projects/ai-agent/src/rag_parser_adapter.py\<close>, which
  turns admitted bytes into a parse candidate. \<open>bytes\<close> are strings. Unicode normalization and the
  callbacks of \<^verbatim>\<open>html.parser\<close> come from a record of library functions.
\<close>

section \<open>Strict UTF-8\<close>

text \<open>\<open>content.decode("utf-8")\<close>: \<^const>\<open>None\<close> is a \<open>UnicodeDecodeError\<close>.\<close>

definition is_scalar :: "nat \<Rightarrow> bool" where
  "is_scalar c \<longleftrightarrow> c < 1114112 \<and> \<not> (55296 \<le> c \<and> c < 57344)"

definition continuation :: "char \<Rightarrow> bool" where
  "continuation b \<longleftrightarrow> 128 \<le> byte_of b \<and> byte_of b < 192"

definition cons_scalar :: "nat \<Rightarrow> nat \<Rightarrow> utext option \<Rightarrow> utext option" where
  "cons_scalar low c rest = (if low \<le> c \<and> is_scalar c then map_option (Cons c) rest else None)"

fun utf8_strict :: "string \<Rightarrow> utext option" where
  "utf8_strict [] = Some []"
| "utf8_strict (a # rest) =
     (let x = byte_of a in
      if x < 128 then map_option (Cons x) (utf8_strict rest)
      else if x < 192 then None
      else if x < 224 then
        (case rest of
           b # rest' \<Rightarrow> if continuation b then cons_scalar 128 ((x - 192) * 64 + (byte_of b - 128)) (utf8_strict rest') else None
         | _ \<Rightarrow> None)
      else if x < 240 then
        (case rest of
           b # c # rest' \<Rightarrow>
             if continuation b \<and> continuation c
             then cons_scalar 2048 ((x - 224) * 4096 + (byte_of b - 128) * 64 + (byte_of c - 128)) (utf8_strict rest') else None
         | _ \<Rightarrow> None)
      else if x < 248 then
        (case rest of
           b # c # d # rest' \<Rightarrow>
             if continuation b \<and> continuation c \<and> continuation d
             then cons_scalar 65536
               ((x - 240) * 262144 + (byte_of b - 128) * 4096 + (byte_of c - 128) * 64 + (byte_of d - 128)) (utf8_strict rest')
             else None
         | _ \<Rightarrow> None)
      else None)"

section \<open>Source admission\<close>

datatype SourceAdmissionOutcome =
  ADMITTED | EMPTY_SOURCE | OVERSIZED_SOURCE | SIZE_MISMATCH | CHECKSUM_MISMATCH | UNSAFE_FILENAME
| UNSUPPORTED_MEDIA_TYPE | MEDIA_TYPE_MISMATCH | UNSUPPORTED_ARCHIVE | ENCRYPTED_DOCUMENT | MALFORMED_TEXT

record SourceAdmissionPolicy =
  sap_maximum_size_bytes :: int
  sap_supported_media_types :: "string list"

definition SourceAdmissionPolicy_post_init :: "SourceAdmissionPolicy \<Rightarrow> SourceAdmissionPolicy res" where
  "SourceAdmissionPolicy_post_init p =
     (if sap_maximum_size_bytes p \<le> 0 then Inl (ValueError ''source size limit must be positive'')
      else if sap_supported_media_types p = [] then Inl (ValueError ''at least one supported media type is required'')
      else if list_ex (\<lambda>t. \<not> truthy t) (sap_supported_media_types p)
      then Inl (ValueError ''supported media types must not be empty'')
      else Inr p)"

record SourceUploadCandidate =
  su_version :: DocumentVersionIdentity
  su_source_artifact_id :: string
  su_original_filename :: string
  su_declared_media_type :: string
  su_object_bucket :: string
  su_object_key :: string
  su_object_version :: string
  su_expected_size_bytes :: int
  su_expected_checksum_sha256 :: string
  su_content :: string

definition SourceUploadCandidate_post_init :: "SourceUploadCandidate \<Rightarrow> SourceUploadCandidate res" where
  "SourceUploadCandidate_post_init c =
     (if \<not> list_all non_blank [su_source_artifact_id c, su_original_filename c, su_declared_media_type c, su_object_bucket c,
          su_object_key c, su_object_version c, su_expected_checksum_sha256 c]
      then Inl (ValueError ''source candidate identity and evidence are required'')
      else if su_expected_size_bytes c < 0 then Inl (ValueError ''expected source size must be non-negative'')
      else Inr c)"

record SourceAdmissionDecision =
  sd_outcome :: SourceAdmissionOutcome
  sd_safe_reason :: string
  sd_source_artifact :: "SourceArtifactReference option"
  sd_detected_media_type :: "string option"
  sd_quarantine_required :: bool
  sd_parser_calls :: int
  sd_committer_calls :: int

definition SourceAdmissionDecision_post_init :: "SourceAdmissionDecision \<Rightarrow> SourceAdmissionDecision res" where
  "SourceAdmissionDecision_post_init d =
     (if (sd_outcome d = SourceAdmissionOutcome.ADMITTED) \<noteq> (sd_source_artifact d \<noteq> None)
      then Inl (ValueError ''only an admitted source carries an artifact reference'')
      else if sd_parser_calls d \<noteq> 0 \<or> sd_committer_calls d \<noteq> 0
      then Inl (ValueError ''source admission cannot parse or commit'')
      else Inr d)"

record MediaDetection =
  md_outcome :: SourceAdmissionOutcome
  md_safe_reason :: string
  md_detected_media_type :: "string option"
  md_quarantine_required :: bool

definition ZIP_SIGNATURES :: "string list" where
  "ZIP_SIGNATURES = [''PK'' @ [CHR 0x03, CHR 0x04], ''PK'' @ [CHR 0x05, CHR 0x06], ''PK'' @ [CHR 0x07, CHR 0x08]]"

text \<open>\<open>pattern in sequence\<close>.\<close>

fun contains :: "'a list \<Rightarrow> 'a list \<Rightarrow> bool" where
  "contains p [] \<longleftrightarrow> p = []"
| "contains p (x # xs) \<longleftrightarrow> prefix p (x # xs) \<or> contains p xs"

text \<open>
  \<open>str.lower\<close> for the comparisons with ASCII tags. Outside ASCII only the Kelvin sign and the dotted
  capital I have a lower case with an ASCII letter, \<open>k\<close> and \<open>i\<close> with a combining dot, and no tag the
  sources look for contains \<open>k\<close> or can contain that sequence.
\<close>

definition lower_ascii :: "nat \<Rightarrow> nat" where
  "lower_ascii c = (if 65 \<le> c \<and> c \<le> 90 then c + 32 else c)"

definition utx :: "string \<Rightarrow> utext" where
  "utx s = map byte_of s"

definition looks_like_html :: "utext \<Rightarrow> bool" where
  "looks_like_html decoded \<longleftrightarrow>
     (let lowered = map lower_ascii (lstrip decoded) in
      prefix (utx ''<!doctype html'') lowered \<or> prefix (utx ''<html'') lowered \<or>
      contains (utx ''<body'') lowered \<and> contains (utx ''</body>'') lowered)"

definition detect_media :: "string \<Rightarrow> string \<Rightarrow> MediaDetection" where
  "detect_media content declared =
     (if list_ex (\<lambda>z. prefix z content) ZIP_SIGNATURES
      then \<lparr>md_outcome = SourceAdmissionOutcome.UNSUPPORTED_ARCHIVE, md_safe_reason = ''ARCHIVE_CONTENT_IS_OUTSIDE_DAY95_CONTRACT'',
            md_detected_media_type = Some ''application/zip'', md_quarantine_required = True\<rparr>
      else if prefix ''%PDF-'' content
      then (if contains ''/Encrypt'' content
            then \<lparr>md_outcome = SourceAdmissionOutcome.ENCRYPTED_DOCUMENT,
                  md_safe_reason = ''ENCRYPTED_PDF_REQUIRES_A_SEPARATE_CONTROLLED_WORKFLOW'',
                  md_detected_media_type = Some ''application/pdf'', md_quarantine_required = True\<rparr>
            else if declared \<noteq> ''application/pdf''
            then \<lparr>md_outcome = SourceAdmissionOutcome.MEDIA_TYPE_MISMATCH,
                  md_safe_reason = ''DECLARED_MEDIA_TYPE_CONFLICTS_WITH_PDF_SIGNATURE'',
                  md_detected_media_type = Some ''application/pdf'', md_quarantine_required = True\<rparr>
            else \<lparr>md_outcome = SourceAdmissionOutcome.ADMITTED, md_safe_reason = ''PDF_SIGNATURE_CONFIRMED'',
                  md_detected_media_type = Some ''application/pdf'', md_quarantine_required = False\<rparr>)
      else case utf8_strict content of
        None \<Rightarrow> \<lparr>md_outcome = SourceAdmissionOutcome.MALFORMED_TEXT,
                 md_safe_reason = ''CONTENT_IS_NEITHER_SUPPORTED_BINARY_NOR_VALID_UTF8'',
                 md_detected_media_type = None, md_quarantine_required = True\<rparr>
      | Some decoded \<Rightarrow>
          if looks_like_html decoded \<and> declared \<noteq> ''text/html''
          then \<lparr>md_outcome = SourceAdmissionOutcome.MEDIA_TYPE_MISMATCH,
                md_safe_reason = ''DECLARED_MEDIA_TYPE_CONFLICTS_WITH_HTML_CONTENT'',
                md_detected_media_type = Some ''text/html'', md_quarantine_required = True\<rparr>
          else if \<not> looks_like_html decoded \<and> declared \<notin> {''text/plain'', ''text/markdown''}
          then \<lparr>md_outcome = SourceAdmissionOutcome.MEDIA_TYPE_MISMATCH,
                md_safe_reason = ''DECLARED_MEDIA_TYPE_CONFLICTS_WITH_UTF8_TEXT_CONTENT'',
                md_detected_media_type = Some ''text/plain'', md_quarantine_required = True\<rparr>
          else \<lparr>md_outcome = SourceAdmissionOutcome.ADMITTED, md_safe_reason = ''CONTROLLED_CONTENT_TYPE_CONFIRMED'',
                md_detected_media_type = Some (if looks_like_html decoded then ''text/html'' else declared),
                md_quarantine_required = False\<rparr>)"

definition safe_filename :: "string \<Rightarrow> bool" where
  "safe_filename filename \<longleftrightarrow>
     \<not> (filename \<in> {''.'', ''..''} \<or> CHR 0x00 \<in> set filename) \<and>
     \<not> (CHR ''/'' \<in> set filename \<or> CHR 0x5C \<in> set filename) \<and> non_blank filename"

definition source_blocked ::
    "SourceAdmissionOutcome \<Rightarrow> string \<Rightarrow> string option \<Rightarrow> bool \<Rightarrow> SourceAdmissionDecision res" where
  "source_blocked outcome reason detected quarantine =
     SourceAdmissionDecision_post_init
       \<lparr>sd_outcome = outcome, sd_safe_reason = reason, sd_source_artifact = None, sd_detected_media_type = detected,
        sd_quarantine_required = quarantine, sd_parser_calls = 0, sd_committer_calls = 0\<rparr>"

definition bytes_checksum :: "string \<Rightarrow> string" where
  "bytes_checksum content = ''sha256:'' @ sha256_hexdigest content"

definition evaluate_source :: "SourceAdmissionPolicy \<Rightarrow> SourceUploadCandidate \<Rightarrow> SourceAdmissionDecision res" where
  "evaluate_source policy candidate =
     (let content = su_content candidate; actual_size = int (length content); checksum = bytes_checksum content;
          detection = detect_media content (su_declared_media_type candidate) in
      if \<not> safe_filename (su_original_filename candidate)
      then source_blocked SourceAdmissionOutcome.UNSAFE_FILENAME ''ORIGINAL_FILENAME_IS_UNSAFE_PRESENTATION_METADATA'' None True
      else if actual_size = 0
      then source_blocked SourceAdmissionOutcome.EMPTY_SOURCE ''SOURCE_BYTES_ARE_EMPTY'' None False
      else if actual_size > sap_maximum_size_bytes policy
      then source_blocked SourceAdmissionOutcome.OVERSIZED_SOURCE ''SOURCE_SIZE_EXCEEDS_CURRENT_POLICY'' None True
      else if actual_size \<noteq> su_expected_size_bytes candidate
      then source_blocked SourceAdmissionOutcome.SIZE_MISMATCH ''OBSERVED_SOURCE_SIZE_DOES_NOT_MATCH_VERIFIED_EVIDENCE'' None True
      else if checksum \<noteq> su_expected_checksum_sha256 candidate
      then source_blocked SourceAdmissionOutcome.CHECKSUM_MISMATCH
             ''OBSERVED_SOURCE_CHECKSUM_DOES_NOT_MATCH_VERIFIED_EVIDENCE'' None True
      else if md_outcome detection \<noteq> SourceAdmissionOutcome.ADMITTED
      then source_blocked (md_outcome detection) (md_safe_reason detection) (md_detected_media_type detection)
             (md_quarantine_required detection)
      else case md_detected_media_type detection of
        None \<Rightarrow> Inl AssertionError
      | Some media \<Rightarrow>
          if media \<notin> set (sap_supported_media_types policy)
          then source_blocked SourceAdmissionOutcome.UNSUPPORTED_MEDIA_TYPE ''DETECTED_MEDIA_TYPE_IS_NOT_IN_CURRENT_CONTRACT''
                 (Some media) False
          else
            bind_res (SourceArtifactReference_post_init
              \<lparr>sx_version = su_version candidate, sx_source_artifact_id = su_source_artifact_id candidate,
               sx_object_bucket = su_object_bucket candidate, sx_object_key = su_object_key candidate,
               sx_object_version = su_object_version candidate, sx_checksum_sha256 = checksum, sx_size_bytes = actual_size,
               sx_detected_media_type = media\<rparr>) (\<lambda>source.
            SourceAdmissionDecision_post_init
              \<lparr>sd_outcome = SourceAdmissionOutcome.ADMITTED, sd_safe_reason = ''SOURCE_ADMISSION_PASSED'',
               sd_source_artifact = Some source, sd_detected_media_type = Some media, sd_quarantine_required = False,
               sd_parser_calls = 0, sd_committer_calls = 0\<rparr>))"

section \<open>The controlled parser\<close>

datatype ParserPreflightOutcome =
  READY | BINDING_CONFLICT | CONTRACT_MISMATCH | UNSUPPORTED_MEDIA_TYPE | RESOURCE_LIMIT | GENERATION_MISMATCH

datatype ParserAdapterOutcome = CANDIDATE | PREFLIGHT_BLOCKED | SOURCE_BYTES_CHANGED | PARSER_FAILED

record ParserCapability =
  pca_parser_name :: string
  pca_parser_version :: string
  pca_parse_contract_version :: string
  pca_parser_generation :: int
  pca_supported_media_types :: "string list"
  pca_maximum_input_bytes :: int

definition ParserCapability_post_init :: "ParserCapability \<Rightarrow> ParserCapability res" where
  "ParserCapability_post_init p =
     (if \<not> list_all non_blank [pca_parser_name p, pca_parser_version p, pca_parse_contract_version p]
      then Inl (ValueError ''parser capability identity is required'')
      else if pca_parser_generation p < 0 then Inl (ValueError ''parser generation must be non-negative'')
      else if pca_supported_media_types p = [] then Inl (ValueError ''parser must support at least one media type'')
      else if pca_maximum_input_bytes p \<le> 0 then Inl (ValueError ''parser input budget must be positive'')
      else Inr p)"

record ParserPreflightDecision =
  ppd_outcome :: ParserPreflightOutcome
  ppd_safe_reason :: string
  ppd_parser_calls :: int
  ppd_committer_calls :: int

definition preflight_ready :: "ParserPreflightDecision \<Rightarrow> bool" where
  "preflight_ready d \<longleftrightarrow> ppd_outcome d = ParserPreflightOutcome.READY"

record ParserAdapterResult =
  par_outcome :: ParserAdapterOutcome
  par_safe_reason :: string
  par_candidate :: "ParsedDocumentCandidate option"
  par_parser_calls :: int
  par_committer_calls :: int
  par_durable_transitions :: int

definition ParserAdapterResult_post_init :: "ParserAdapterResult \<Rightarrow> ParserAdapterResult res" where
  "ParserAdapterResult_post_init r =
     (if (par_outcome r = ParserAdapterOutcome.CANDIDATE) \<noteq> (par_candidate r \<noteq> None)
      then Inl (ValueError ''only successful parsing carries a candidate'')
      else if par_committer_calls r \<noteq> 0 \<or> par_durable_transitions r \<noteq> 0
      then Inl (ValueError ''Parser Adapter cannot own durable authority'')
      else Inr r)"

text \<open>The decisions are built with zero call counts, which is all the constructor of the decision checks.\<close>

definition preflight_decision :: "ParserPreflightOutcome \<Rightarrow> string \<Rightarrow> ParserPreflightDecision" where
  "preflight_decision outcome reason =
     \<lparr>ppd_outcome = outcome, ppd_safe_reason = reason, ppd_parser_calls = 0, ppd_committer_calls = 0\<rparr>"

definition parser_preflight ::
    "ParserCapability \<Rightarrow> IngestionOperationIdentity \<Rightarrow> DocumentVersionDefinition \<Rightarrow> SourceArtifactReference
      \<Rightarrow> ParserAttemptIdentity \<Rightarrow> ParserPreflightDecision" where
  "parser_preflight cap operation version source attempt =
     (if io_version operation \<noteq> vd_identity version \<or> io_version operation \<noteq> sx_version source
        \<or> io_source_artifact_id operation \<noteq> vd_source_artifact_id version
        \<or> io_source_artifact_id operation \<noteq> sx_source_artifact_id source
        \<or> pt_operation_id attempt \<noteq> io_operation_id operation \<or> pt_idempotency_key attempt \<noteq> io_idempotency_key operation
      then preflight_decision ParserPreflightOutcome.BINDING_CONFLICT ''PARSER_PREFLIGHT_IDENTITY_BINDING_CONFLICT''
      else if vd_parse_contract_version version \<noteq> pca_parse_contract_version cap
      then preflight_decision ParserPreflightOutcome.CONTRACT_MISMATCH ''DOCUMENT_VERSION_REQUIRES_A_DIFFERENT_PARSE_CONTRACT''
      else if sx_detected_media_type source \<notin> set (pca_supported_media_types cap)
      then preflight_decision ParserPreflightOutcome.UNSUPPORTED_MEDIA_TYPE ''PARSER_DOES_NOT_SUPPORT_DETECTED_MEDIA_TYPE''
      else if sx_size_bytes source > pca_maximum_input_bytes cap
      then preflight_decision ParserPreflightOutcome.RESOURCE_LIMIT ''SOURCE_EXCEEDS_PARSER_INPUT_BUDGET''
      else if pt_parser_generation attempt \<noteq> pca_parser_generation cap
      then preflight_decision ParserPreflightOutcome.GENERATION_MISMATCH ''ATTEMPT_IS_NOT_BOUND_TO_CURRENT_PARSER_GENERATION''
      else preflight_decision ParserPreflightOutcome.READY ''PARSER_PREFLIGHT_PASSED'')"

text \<open>
  What \<^verbatim>\<open>unicodedata.normalize("NFC", value)\<close> returns and which handlers \<^verbatim>\<open>HTMLParser.feed\<close> calls, in
  order; \<open>feed\<close> may raise.
\<close>

datatype HtmlEvent = StartTag utext | EndTag utext | Data utext

record TextLibrary =
  tl_nfc :: "utext \<Rightarrow> utext"
  tl_html_events :: "utext \<Rightarrow> HtmlEvent list res"

record HTMLTextExtractor =
  hx_parts :: "utext list"
  hx_ignored_depth :: int

definition ignored_tag :: "utext \<Rightarrow> bool" where
  "ignored_tag tag \<longleftrightarrow> map lower_ascii tag \<in> {utx ''script'', utx ''style''}"

definition strip :: "utext \<Rightarrow> utext" where
  "strip t = rstrip (lstrip t)"

fun handle_html :: "HtmlEvent \<Rightarrow> HTMLTextExtractor \<Rightarrow> HTMLTextExtractor" where
  "handle_html (StartTag tag) x = (if ignored_tag tag then x\<lparr>hx_ignored_depth := hx_ignored_depth x + 1\<rparr> else x)"
| "handle_html (EndTag tag) x =
     (if ignored_tag tag \<and> hx_ignored_depth x \<noteq> 0 then x\<lparr>hx_ignored_depth := hx_ignored_depth x - 1\<rparr> else x)"
| "handle_html (Data d) x =
     (if hx_ignored_depth x = 0 \<and> strip d \<noteq> [] then x\<lparr>hx_parts := hx_parts x @ [d]\<rparr> else x)"

definition html_text :: "HtmlEvent list \<Rightarrow> utext" where
  "html_text events = ujoin [10] (hx_parts (fold handle_html events \<lparr>hx_parts = [], hx_ignored_depth = 0\<rparr>))"

text \<open>\<open>replace("\r\n", "\n").replace("\r", "\n")\<close>, \<open>split("\n")\<close> and \<open>split("\n\n")\<close>.\<close>

fun unify_newlines :: "utext \<Rightarrow> utext" where
  "unify_newlines [] = []"
| "unify_newlines (c # cs) =
     (if c = 13 then 10 # (case cs of [] \<Rightarrow> [] | d # ds \<Rightarrow> if d = 10 then unify_newlines ds else unify_newlines cs)
      else c # unify_newlines cs)"

fun split_lines :: "utext \<Rightarrow> utext list" where
  "split_lines [] = [[]]"
| "split_lines (c # cs) =
     (if c = 10 then [] # split_lines cs
      else (case split_lines cs of [] \<Rightarrow> [[c]] | l # ls \<Rightarrow> (c # l) # ls))"

fun split_paragraphs :: "utext \<Rightarrow> utext list" where
  "split_paragraphs [] = [[]]"
| "split_paragraphs (c # cs) =
     (if c = 10 \<and> (case cs of [] \<Rightarrow> False | d # _ \<Rightarrow> d = 10) then [] # split_paragraphs (tl cs)
      else (case split_paragraphs cs of [] \<Rightarrow> [[c]] | p # ps \<Rightarrow> (c # p) # ps))"

definition canonicalize :: "TextLibrary \<Rightarrow> utext \<Rightarrow> utext" where
  "canonicalize lib v = strip (ujoin [10] (map rstrip (split_lines (unify_newlines (tl_nfc lib v)))))"

record PrivateParserOutput =
  pp_canonical_text :: utext
  pp_sections :: "utext list"
  pp_page_count :: int
  pp_warnings :: "string list"

definition private_parse :: "TextLibrary \<Rightarrow> string \<Rightarrow> string \<Rightarrow> PrivateParserOutput res" where
  "private_parse lib content media_type =
     (case utf8_strict content of
        None \<Rightarrow> Inl (ValueError ''invalid utf-8'')
      | Some decoded \<Rightarrow>
          bind_res (if media_type = ''text/html'' then bind_res (tl_html_events lib decoded) (\<lambda>events. Inr (html_text events))
                    else if media_type \<notin> {''text/plain'', ''text/markdown''}
                    then Inl (ValueError ''private parser received unsupported media type'')
                    else Inr decoded) (\<lambda>decoded.
          let canonical = canonicalize lib decoded in
          if canonical = [] then Inl (ValueError ''parser produced empty canonical content'')
          else Inr \<lparr>pp_canonical_text = canonical,
                    pp_sections = map strip (filter (\<lambda>s. strip s \<noteq> []) (split_paragraphs canonical)),
                    pp_page_count = 1, pp_warnings = []\<rparr>))"

definition adapter_result :: "ParserAdapterOutcome \<Rightarrow> string \<Rightarrow> int \<Rightarrow> ParserAdapterResult res" where
  "adapter_result outcome reason calls =
     ParserAdapterResult_post_init
       \<lparr>par_outcome = outcome, par_safe_reason = reason, par_candidate = None, par_parser_calls = calls,
        par_committer_calls = 0, par_durable_transitions = 0\<rparr>"

definition parse_manifest ::
    "ParserCapability \<Rightarrow> IngestionOperationIdentity \<Rightarrow> SourceArtifactReference \<Rightarrow> ParserAttemptIdentity \<Rightarrow> PrivateParserOutput
      \<Rightarrow> string \<Rightarrow> ParseManifest" where
  "parse_manifest cap operation source attempt output output_checksum =
     \<lparr>pm_tenant_id = io_tenant_id operation, pm_document_id = io_document_id operation,
      pm_document_version_id = io_document_version_id operation, pm_source_artifact_id = io_source_artifact_id operation,
      pm_source_checksum_sha256 = sx_checksum_sha256 source, pm_operation_id = io_operation_id operation,
      pm_idempotency_key = io_idempotency_key operation, pm_parser_name = pca_parser_name cap,
      pm_parser_version = pca_parser_version cap, pm_parse_contract_version = pca_parse_contract_version cap,
      pm_attempt_number = pt_attempt_number attempt, pm_parser_request_id = pt_parser_request_id attempt,
      pm_parser_generation = pt_parser_generation attempt,
      pm_output_checksum_sha256 = output_checksum, pm_page_count = pp_page_count output,
      pm_section_count = int (length (pp_sections output)), pm_record_count = int (length (pp_sections output)),
      pm_warnings = pp_warnings output, pm_errors = []\<rparr>"

definition controlled_parse ::
    "TextLibrary \<Rightarrow> ParserCapability \<Rightarrow> IngestionOperationIdentity \<Rightarrow> DocumentVersionDefinition \<Rightarrow> SourceArtifactReference
      \<Rightarrow> ParserAttemptIdentity \<Rightarrow> string \<Rightarrow> ParserAdapterResult res" where
  "controlled_parse lib cap operation version source attempt source_bytes =
     (let preflight = parser_preflight cap operation version source attempt in
      if \<not> preflight_ready preflight
      then adapter_result ParserAdapterOutcome.PREFLIGHT_BLOCKED (ppd_safe_reason preflight) 0
      else if int (length source_bytes) \<noteq> sx_size_bytes source \<or> bytes_checksum source_bytes \<noteq> sx_checksum_sha256 source
      then adapter_result ParserAdapterOutcome.SOURCE_BYTES_CHANGED ''PARSER_INPUT_DOES_NOT_MATCH_ADMITTED_SOURCE_ARTIFACT'' 0
      else case private_parse lib source_bytes (sx_detected_media_type source) of
        Inl (ValueError _) \<Rightarrow> adapter_result ParserAdapterOutcome.PARSER_FAILED ''CONTROLLED_PARSER_REJECTED_SOURCE'' 1
      | Inl e \<Rightarrow> Inl e
      | Inr output \<Rightarrow>
          bind_res (sha256_text (pp_canonical_text output)) (\<lambda>output_checksum.
          bind_res (ParseManifest_post_init (parse_manifest cap operation source attempt output output_checksum)) (\<lambda>manifest.
          ParserAdapterResult_post_init
            \<lparr>par_outcome = ParserAdapterOutcome.CANDIDATE, par_safe_reason = ''PARSER_RETURNED_APPLICATION_CANDIDATE'',
             par_candidate = Some \<lparr>pc_manifest = manifest, pc_canonical_text = pp_canonical_text output,
                                   pc_sections = pp_sections output\<rparr>,
             par_parser_calls = 1, par_committer_calls = 0, par_durable_transitions = 0\<rparr>)))"

section \<open>Decoding is exact\<close>

lemma utf8_strict_char:
  assumes "is_scalar c"
  shows "utf8_strict (utf8_char c @ rest) = map_option (Cons c) (utf8_strict rest)"
proof -
  consider "c < 128" | "128 \<le> c" "c < 2048" | "2048 \<le> c" "c < 65536" | "65536 \<le> c" "c < 1114112"
    using assms unfolding is_scalar_def by linarith
  then show ?thesis
  proof cases
    case 1
    then show ?thesis by (simp add: utf8_char_def byte_of_char_of)
  next
    case 2
    then have "c div 64 < 32" by simp
    with 2 assms show ?thesis by (simp add: utf8_char_def byte_of_char_of continuation_def cons_scalar_def)
  next
    case 3
    then have "c div 4096 < 16" "c div 64 div 64 = c div 4096" by (simp_all add: div_mult2_eq [symmetric])
    moreover have "c div 4096 * 4096 + c div 64 mod 64 * 64 + c mod 64 = c" by (rule base64_3)
    ultimately show ?thesis using 3 assms by (simp add: utf8_char_def byte_of_char_of continuation_def cons_scalar_def)
  next
    case 4
    then have "c div 262144 < 8" by simp
    moreover have "c div 262144 * 262144 + c div 4096 mod 64 * 4096 + c div 64 mod 64 * 64 + c mod 64 = c" by (rule base64_4)
    ultimately show ?thesis using 4 assms by (simp add: utf8_char_def byte_of_char_of continuation_def cons_scalar_def)
  qed
qed

lemma utf8_strict_encode: "list_all is_scalar t \<Longrightarrow> utf8_strict (utf8_encode t) = Some t"
  by (induction t) (simp_all add: utf8_encode_def utf8_strict_char)

lemma char_of_byte_of [simp]: "char_of (byte_of a) = a"
  by (simp add: byte_of_def)

lemma byte_of_less [simp]: "byte_of a < 256"
  by (simp add: byte_of_def)

lemma cons_scalar_Some: "cons_scalar low c r = Some t \<longleftrightarrow> (\<exists>t'. r = Some t' \<and> t = c # t' \<and> low \<le> c \<and> is_scalar c)"
  by (auto simp: cons_scalar_def)

text \<open>The digits of a number in base 64.\<close>

lemma digits64:
  assumes "(y :: nat) < 64" "z < 64" "w < 64"
  shows "(x * 64 + y) div 64 = x" "(x * 64 + y) mod 64 = y"
    "(x * 4096 + y * 64 + z) div 4096 = x" "(x * 4096 + y * 64 + z) div 64 mod 64 = y" "(x * 4096 + y * 64 + z) mod 64 = z"
    "(x * 262144 + y * 4096 + z * 64 + w) div 262144 = x" "(x * 262144 + y * 4096 + z * 64 + w) div 4096 mod 64 = y"
    "(x * 262144 + y * 4096 + z * 64 + w) div 64 mod 64 = z" "(x * 262144 + y * 4096 + z * 64 + w) mod 64 = w"
proof -
  have 1: "v < 64 \<Longrightarrow> (u * 64 + v) div 64 = u" "v < 64 \<Longrightarrow> (u * 64 + v) mod 64 = v" for u v :: nat by simp_all
  have 2: "x * 4096 + y * 64 + z = (x * 64 + y) * 64 + z" and e: "c div 4096 = c div 64 div 64" for c :: nat
    by (simp_all add: add_mult_distrib div_mult2_eq [symmetric])
  have 3: "x * 262144 + y * 4096 + z * 64 + w = ((x * 64 + y) * 64 + z) * 64 + w" and f: "c div 262144 = c div 64 div 64 div 64" for c :: nat
    by (simp_all add: add_mult_distrib div_mult2_eq [symmetric])
  show "(x * 64 + y) div 64 = x" "(x * 64 + y) mod 64 = y" by (simp_all only: 1 assms)
  show "(x * 4096 + y * 64 + z) div 4096 = x" "(x * 4096 + y * 64 + z) div 64 mod 64 = y" "(x * 4096 + y * 64 + z) mod 64 = z"
    by (simp_all only: 2 e 1 assms)
  show "(x * 262144 + y * 4096 + z * 64 + w) div 262144 = x" "(x * 262144 + y * 4096 + z * 64 + w) div 4096 mod 64 = y"
    "(x * 262144 + y * 4096 + z * 64 + w) div 64 mod 64 = z" "(x * 262144 + y * 4096 + z * 64 + w) mod 64 = w"
    by (simp_all only: 3 e f 1 assms)
qed

lemma continuation_digit: "continuation b \<Longrightarrow> byte_of b - 128 < 64 \<and> 128 + (byte_of b - 128) = byte_of b"
  by (auto simp: continuation_def)

lemma utf8_char_1: "byte_of a < 128 \<Longrightarrow> utf8_char (byte_of a) = [a]"
  by (simp add: utf8_char_def)

lemma utf8_char_2:
  assumes "192 \<le> byte_of a" "byte_of a < 224" "continuation b" "128 \<le> c" "c = (byte_of a - 192) * 64 + (byte_of b - 128)"
  shows "utf8_char c = [a, b]"
proof -
  note b = continuation_digit [OF assms(3)]
  have "c < 2048" using assms(2,5) b by linarith
  moreover have "c div 64 = byte_of a - 192" "c mod 64 = byte_of b - 128"
    unfolding assms(5) by (rule digits64 [OF b [THEN conjunct1] b [THEN conjunct1] b [THEN conjunct1]])+
  ultimately show ?thesis using assms(1,4) b by (simp add: utf8_char_def)
qed

lemma utf8_char_3:
  assumes "224 \<le> byte_of a" "byte_of a < 240" "continuation b" "continuation d" "2048 \<le> c"
    "c = (byte_of a - 224) * 4096 + (byte_of b - 128) * 64 + (byte_of d - 128)"
  shows "utf8_char c = [a, b, d]"
proof -
  note b = continuation_digit [OF assms(3)] continuation_digit [OF assms(4)]
  have "c < 65536" using assms(2,6) b by linarith
  moreover have "c div 4096 = byte_of a - 224" "c div 64 mod 64 = byte_of b - 128" "c mod 64 = byte_of d - 128"
    unfolding assms(6) by (rule digits64 [OF b(1) [THEN conjunct1] b(2) [THEN conjunct1] b(2) [THEN conjunct1]])+
  ultimately show ?thesis using assms(1,5) b by (simp add: utf8_char_def)
qed

lemma utf8_char_4:
  assumes "240 \<le> byte_of a" "byte_of a < 248" "continuation b" "continuation d" "continuation e" "65536 \<le> c"
    "c = (byte_of a - 240) * 262144 + (byte_of b - 128) * 4096 + (byte_of d - 128) * 64 + (byte_of e - 128)"
  shows "utf8_char c = [a, b, d, e]"
proof -
  note b = continuation_digit [OF assms(3)] continuation_digit [OF assms(4)] continuation_digit [OF assms(5)]
  have "c div 262144 = byte_of a - 240" "c div 4096 mod 64 = byte_of b - 128" "c div 64 mod 64 = byte_of d - 128"
    "c mod 64 = byte_of e - 128"
    unfolding assms(7) by (rule digits64 [OF b(1) [THEN conjunct1] b(2) [THEN conjunct1] b(3) [THEN conjunct1]])+
  then show ?thesis using assms(1,6) b by (simp add: utf8_char_def)
qed

lemma utf8_strict_sound: "utf8_strict bs = Some t \<Longrightarrow> utf8_encode t = bs \<and> list_all is_scalar t"
proof (induction bs arbitrary: t rule: utf8_strict.induct)
  case 1
  then show ?case by (simp add: utf8_encode_def)
next
  case (2 a rest)
  let ?x = "byte_of a"
  have enc: "utf8_encode (c # u) = utf8_char c @ utf8_encode u" for c u by (simp add: utf8_encode_def)
  consider "?x < 128" | "192 \<le> ?x" "?x < 224" | "224 \<le> ?x" "?x < 240" | "240 \<le> ?x" "?x < 248"
    using "2.prems" by (fastforce simp: Let_def split: if_splits)
  then show ?case
  proof cases
    case 1
    with "2.prems" obtain u where u: "utf8_strict rest = Some u" "t = ?x # u" by auto
    with 1 "2.IH"(1) [OF refl 1 u(1)] show ?thesis by (simp add: enc utf8_char_1 is_scalar_def)
  next
    case 2
    then have n: "\<not> ?x < 128" "\<not> ?x < 192" by simp_all
    with 2 "2.prems" obtain b rs u where u: "rest = b # rs" "continuation b" "utf8_strict rs = Some u"
      "t = ((?x - 192) * 64 + (byte_of b - 128)) # u" "128 \<le> (?x - 192) * 64 + (byte_of b - 128)"
      "is_scalar ((?x - 192) * 64 + (byte_of b - 128))"
      by (auto simp: cons_scalar_Some split: list.splits if_splits)
    with "2.IH"(2) [OF refl n 2(2) u(1,2,3)] show ?thesis
      by (simp add: enc utf8_char_2 [OF 2 u(2) u(5) refl])
  next
    case 3
    then have n: "\<not> ?x < 128" "\<not> ?x < 192" "\<not> ?x < 224" by simp_all
    let ?c = "\<lambda>b d. (?x - 224) * 4096 + (byte_of b - 128) * 64 + (byte_of d - 128)"
    from 3 n "2.prems" obtain b d rs u where u: "rest = b # d # rs" "continuation b" "continuation d" "utf8_strict rs = Some u"
      "t = ?c b d # u" "2048 \<le> ?c b d" "is_scalar (?c b d)"
      by (auto simp: cons_scalar_Some split: list.splits if_splits)
    with "2.IH"(3) [OF refl n 3(2) u(1) refl _ u(4)] show ?thesis
      by (simp add: enc utf8_char_3 [OF 3 u(2,3) u(6) refl])
  next
    case 4
    then have n: "\<not> ?x < 128" "\<not> ?x < 192" "\<not> ?x < 224" "\<not> ?x < 240" by simp_all
    let ?c = "\<lambda>b d e. (?x - 240) * 262144 + (byte_of b - 128) * 4096 + (byte_of d - 128) * 64 + (byte_of e - 128)"
    from 4 n "2.prems" obtain b d e rs u where u: "rest = b # d # e # rs" "continuation b" "continuation d" "continuation e"
      "utf8_strict rs = Some u" "t = ?c b d e # u" "65536 \<le> ?c b d e" "is_scalar (?c b d e)"
      by (auto simp: cons_scalar_Some split: list.splits if_splits)
    with "2.IH"(4) [OF refl n 4(2) u(1) refl refl _ u(5)] show ?thesis
      by (simp add: enc utf8_char_4 [OF 4 u(2,3,4) u(7) refl])
  qed
qed

lemma utf8_strict_iff: "utf8_strict bs = Some t \<longleftrightarrow> utf8_encode t = bs \<and> list_all is_scalar t"
  using utf8_strict_sound utf8_strict_encode by blast

section \<open>What admission admits\<close>

text \<open>
  The media types the gate recognises, stated on the bytes: a PDF that is not encrypted, or the UTF-8
  encoding of a text, HTML or not, in each case as declared.
\<close>

definition recognised :: "string \<Rightarrow> string \<Rightarrow> bool" where
  "recognised content declared \<longleftrightarrow>
     (\<forall>z \<in> set ZIP_SIGNATURES. \<not> prefix z content) \<and>
     (if prefix ''%PDF-'' content then declared = ''application/pdf'' \<and> \<not> contains ''/Encrypt'' content
      else \<exists>t. list_all is_scalar t \<and> content = utf8_encode t \<and>
        (if looks_like_html t then declared = ''text/html'' else declared \<in> {''text/plain'', ''text/markdown''}))"

definition admissible_source :: "SourceAdmissionPolicy \<Rightarrow> SourceUploadCandidate \<Rightarrow> bool" where
  "admissible_source policy c \<longleftrightarrow>
     safe_filename (su_original_filename c) \<and> su_content c \<noteq> [] \<and>
     int (length (su_content c)) \<le> sap_maximum_size_bytes policy \<and>
     su_expected_size_bytes c = int (length (su_content c)) \<and>
     su_expected_checksum_sha256 c = bytes_checksum (su_content c) \<and>
     recognised (su_content c) (su_declared_media_type c) \<and>
     su_declared_media_type c \<in> set (sap_supported_media_types policy)"

lemma encode_inj: "list_all is_scalar t \<Longrightarrow> list_all is_scalar u \<Longrightarrow> utf8_encode t = utf8_encode u \<longleftrightarrow> t = u"
  using utf8_strict_encode by (metis option.inject)

lemma detect_media_recognised:
  "md_outcome (detect_media content declared) = SourceAdmissionOutcome.ADMITTED \<longleftrightarrow> recognised content declared"
proof (cases "(\<exists>z \<in> set ZIP_SIGNATURES. prefix z content) \<or> prefix ''%PDF-'' content")
  case True
  then show ?thesis by (auto simp: detect_media_def recognised_def list_ex_iff)
next
  case False
  show ?thesis
  proof (cases "utf8_strict content")
    case None
    then have "\<not> (\<exists>t. list_all is_scalar t \<and> content = utf8_encode t)" by (auto simp: utf8_strict_encode)
    with None False show ?thesis by (simp add: detect_media_def recognised_def list_ex_iff) blast
  next
    case (Some t)
    then have t: "list_all is_scalar t" "content = utf8_encode t" using utf8_strict_sound by blast+
    have "(\<exists>u. list_all is_scalar u \<and> content = utf8_encode u \<and> P u) \<longleftrightarrow> P t" for P
      using t encode_inj by blast
    with Some False show ?thesis by (simp add: detect_media_def recognised_def list_ex_iff)
  qed
qed

lemma detect_media_type:
  "md_outcome (detect_media content declared) = SourceAdmissionOutcome.ADMITTED \<Longrightarrow>
     md_detected_media_type (detect_media content declared) = Some declared"
  by (auto simp: detect_media_def split: if_splits option.splits)

lemma non_blank_Cons: "byte_of a < 128 \<Longrightarrow> \<not> is_space (byte_of a) \<Longrightarrow> non_blank (a # s)"
  by (simp add: non_blank_def)

lemma non_blank_sha256: "non_blank (bytes_checksum content)" "non_blank (text_checksum t)"
  by (simp_all add: bytes_checksum_def text_checksum_def non_blank_Cons byte_of_def is_space_def)

text \<open>
  C29. Source admission is exact. On every constructed upload candidate the gate returns a decision
  without raising; it admits exactly the uploads with a safe filename, within the size limit, whose
  bytes have the verified size and checksum and are of a recognised and supported media type; and an
  admitted source reference carries the identity of the upload and the size, checksum and media type
  of the bytes themselves.
\<close>

theorem source_admission_exact:
  assumes "SourceUploadCandidate_post_init c = Inr c"
  shows "\<exists>d. evaluate_source policy c = Inr d \<and>
    (sd_outcome d = SourceAdmissionOutcome.ADMITTED \<longleftrightarrow> admissible_source policy c) \<and>
    (sd_source_artifact d = (if admissible_source policy c then Some
       \<lparr>sx_version = su_version c, sx_source_artifact_id = su_source_artifact_id c, sx_object_bucket = su_object_bucket c,
        sx_object_key = su_object_key c, sx_object_version = su_object_version c,
        sx_checksum_sha256 = bytes_checksum (su_content c), sx_size_bytes = int (length (su_content c)),
        sx_detected_media_type = su_declared_media_type c\<rparr> else None))"
proof -
  let ?d = "detect_media (su_content c) (su_declared_media_type c)"
  have nb: "list_all non_blank [su_source_artifact_id c, su_object_bucket c, su_object_key c, su_object_version c,
      bytes_checksum (su_content c), su_declared_media_type c]"
    using assms by (simp add: SourceUploadCandidate_post_init_def non_blank_sha256 split: if_splits)
  define n where "n = int (length (su_content c))"
  have n: "0 \<le> n" "su_content c \<noteq> [] \<longleftrightarrow> n \<noteq> 0" by (simp_all add: n_def)
  show ?thesis
  proof (cases "md_outcome ?d = SourceAdmissionOutcome.ADMITTED")
    case True
    note media = detect_media_type [OF True]
    show ?thesis
      using nb n(1) True True [unfolded detect_media_recognised]
      unfolding evaluate_source_def admissible_source_def Let_def n_def [symmetric] n(2)
      by (simp add: source_blocked_def SourceAdmissionDecision_post_init_def media
          SourceArtifactReference_post_init_def require_non_empty_def) auto
  next
    case False
    with False [unfolded detect_media_recognised] show ?thesis
      by (simp add: evaluate_source_def Let_def source_blocked_def SourceAdmissionDecision_post_init_def admissible_source_def)
  qed
qed

definition upload_example :: SourceUploadCandidate where
  "upload_example = \<lparr>su_version = \<lparr>vi_tenant_id = ''t'', vi_document_id = ''d'', vi_document_version_id = ''v''\<rparr>,
     su_source_artifact_id = ''s'', su_original_filename = ''a.txt'', su_declared_media_type = ''text/plain'',
     su_object_bucket = ''b'', su_object_key = ''k'', su_object_version = ''1'', su_expected_size_bytes = 1,
     su_expected_checksum_sha256 = bytes_checksum ''a'', su_content = ''a''\<rparr>"

lemma upload_example_ok:
  "SourceUploadCandidate_post_init upload_example = Inr upload_example"
  "admissible_source \<lparr>sap_maximum_size_bytes = 10, sap_supported_media_types = [''text/plain'']\<rparr> upload_example"
proof -
  show "SourceUploadCandidate_post_init upload_example = Inr upload_example"
    by (simp add: SourceUploadCandidate_post_init_def upload_example_def non_blank_sha256 non_blank_Cons byte_of_def is_space_def)
  have "\<not> looks_like_html [97]"
    by (simp add: looks_like_html_def utx_def lstrip_def is_space_def lower_ascii_def byte_of_def)
  moreover have "utf8_encode [97] = ''a''" by (simp add: utf8_encode_def utf8_char_def char_of_def bit_iff_odd)
  ultimately have "recognised ''a'' ''text/plain''"
    unfolding recognised_def by (auto simp: ZIP_SIGNATURES_def is_scalar_def intro!: exI [of _ "[97]"])
  then show "admissible_source \<lparr>sap_maximum_size_bytes = 10, sap_supported_media_types = [''text/plain'']\<rparr> upload_example"
    by (simp add: admissible_source_def upload_example_def safe_filename_def non_blank_Cons byte_of_def is_space_def)
qed

theorem source_admission_exact_witness:
  "\<exists>d. evaluate_source \<lparr>sap_maximum_size_bytes = 10, sap_supported_media_types = [''text/plain'']\<rparr> upload_example = Inr d \<and>
     sd_outcome d = SourceAdmissionOutcome.ADMITTED"
  using source_admission_exact [OF upload_example_ok(1)] upload_example_ok(2) by blast

section \<open>What the parser returns is ready to commit\<close>

lemma rstrip_visible: "rstrip t \<noteq> [] \<Longrightarrow> list_ex (\<lambda>c. \<not> is_space c) (rstrip t)"
proof -
  assume "rstrip t \<noteq> []"
  then have "dropWhile is_space (rev t) \<noteq> []" by (simp add: rstrip_def)
  then have "\<not> is_space (hd (dropWhile is_space (rev t)))" "hd (dropWhile is_space (rev t)) \<in> set (rstrip t)"
    using hd_dropWhile [OF \<open>dropWhile is_space (rev t) \<noteq> []\<close>] by (simp_all add: rstrip_def)
  then show ?thesis unfolding list_ex_iff by blast
qed

lemma private_parse_visible:
  assumes "private_parse lib content media = Inr out"
  shows "list_ex (\<lambda>c. \<not> is_space c) (pp_canonical_text out)"
  using assms rstrip_visible
  by (auto simp: private_parse_def bind_res_eq_Inr Let_def canonicalize_def strip_def split: option.splits if_splits)

text \<open>The objects of one parser call, as their constructors admit them.\<close>

definition parser_call_ok ::
    "ParserCapability \<Rightarrow> IngestionOperationIdentity \<Rightarrow> SourceArtifactReference \<Rightarrow> ParserAttemptIdentity \<Rightarrow> bool" where
  "parser_call_ok cap operation source attempt \<longleftrightarrow>
     ParserCapability_post_init cap = Inr cap \<and> IngestionOperationIdentity_post_init operation = Inr operation \<and>
     SourceArtifactReference_post_init source = Inr source \<and> ParserAttemptIdentity_post_init attempt = Inr attempt"

lemma parse_manifest_constructs:
  assumes "parser_call_ok cap operation source attempt" and "0 \<le> pp_page_count out" and "sha256_text t = Inr checksum"
  shows "ParseManifest_post_init (parse_manifest cap operation source attempt out checksum) =
    Inr (parse_manifest cap operation source attempt out checksum)"
  using assms
  by (simp add: parser_call_ok_def ParserCapability_post_init_def IngestionOperationIdentity_post_init_def
      SourceArtifactReference_post_init_def ParserAttemptIdentity_post_init_def require_non_empty_def ParseManifest_post_init_def
      parse_manifest_def non_blank_sha256 sha256_text_Inr split: if_splits)

lemma private_parse_pages: "private_parse lib content media = Inr out \<Longrightarrow> pp_page_count out = 1"
  by (auto simp: private_parse_def bind_res_eq_Inr Let_def split: option.splits if_splits)

lemma controlled_parse_cases:
  assumes "parser_call_ok cap operation source attempt"
    and "preflight_ready (parser_preflight cap operation version source attempt)"
    and "int (length bs) = sx_size_bytes source" "bytes_checksum bs = sx_checksum_sha256 source"
    and "private_parse lib bs (sx_detected_media_type source) = Inr out" "sha256_text (pp_canonical_text out) = Inr checksum"
  shows "controlled_parse lib cap operation version source attempt bs = Inr
    \<lparr>par_outcome = ParserAdapterOutcome.CANDIDATE, par_safe_reason = ''PARSER_RETURNED_APPLICATION_CANDIDATE'',
     par_candidate = Some \<lparr>pc_manifest = parse_manifest cap operation source attempt out checksum,
       pc_canonical_text = pp_canonical_text out, pc_sections = pp_sections out\<rparr>,
     par_parser_calls = 1, par_committer_calls = 0, par_durable_transitions = 0\<rparr>"
  using assms(2-6) parse_manifest_constructs [OF assms(1) _ assms(6), of out] private_parse_pages [OF assms(5)]
  by (simp add: controlled_parse_def Let_def ParserAdapterResult_post_init_def)

lemma controlled_parse_candidate:
  assumes call: "parser_call_ok cap operation source attempt"
    and parse: "controlled_parse lib cap operation version source attempt bs = Inr r" "par_candidate r = Some cand"
  obtains out checksum where "preflight_ready (parser_preflight cap operation version source attempt)"
    "private_parse lib bs (sx_detected_media_type source) = Inr out" "sha256_text (pp_canonical_text out) = Inr checksum"
    "cand = \<lparr>pc_manifest = parse_manifest cap operation source attempt out checksum, pc_canonical_text = pp_canonical_text out,
       pc_sections = pp_sections out\<rparr>"
proof -
  have pre: "preflight_ready (parser_preflight cap operation version source attempt)"
    "int (length bs) = sx_size_bytes source" "bytes_checksum bs = sx_checksum_sha256 source"
    using parse by (auto simp: controlled_parse_def adapter_result_def ParserAdapterResult_post_init_def Let_def split: if_splits)
  show thesis
  proof (cases "private_parse lib bs (sx_detected_media_type source)")
    case (Inl e)
    with parse pre show thesis
      by (cases e) (auto simp: controlled_parse_def adapter_result_def ParserAdapterResult_post_init_def Let_def)
  next
    case (Inr out)
    with parse pre obtain checksum where c: "sha256_text (pp_canonical_text out) = Inr checksum"
      by (auto simp: controlled_parse_def bind_res_eq_Inr Let_def)
    from controlled_parse_cases [OF call pre Inr c] parse have
      "cand = \<lparr>pc_manifest = parse_manifest cap operation source attempt out checksum, pc_canonical_text = pp_canonical_text out,
         pc_sections = pp_sections out\<rparr>" by auto
    with pre(1) Inr c show thesis by (rule that)
  qed
qed

lemma parser_preflight_ready_iff:
  "preflight_ready (parser_preflight cap operation version source attempt) \<longleftrightarrow>
     io_version operation = vd_identity version \<and> io_version operation = sx_version source \<and>
     io_source_artifact_id operation = vd_source_artifact_id version \<and>
     io_source_artifact_id operation = sx_source_artifact_id source \<and>
     pt_operation_id attempt = io_operation_id operation \<and> pt_idempotency_key attempt = io_idempotency_key operation \<and>
     vd_parse_contract_version version = pca_parse_contract_version cap \<and>
     sx_detected_media_type source \<in> set (pca_supported_media_types cap) \<and>
     sx_size_bytes source \<le> pca_maximum_input_bytes cap \<and> pt_parser_generation attempt = pca_parser_generation cap"
  by (auto simp: parser_preflight_def preflight_ready_def preflight_decision_def)

text \<open>
  Whatever the normalization and the HTML tokenizer of the library return, a candidate of the
  controlled parser passes the candidate validation: its manifest is bound to the call, its text is
  not blank and carries its own checksum, and its sections are counted. So the parser and the
  validator agree, and a rejected candidate comes from another parser.
\<close>

lemma controlled_candidate_validates:
  assumes "parser_call_ok cap operation source attempt"
    and "controlled_parse lib cap operation version source attempt bs = Inr r" "par_candidate r = Some cand"
  shows "\<exists>d. evaluate_parsed_candidate operation version source attempt cand = Inr d \<and>
    vc_outcome d = CandidateValidationOutcome.READY_FOR_COMMIT"
proof -
  from controlled_parse_candidate [OF assms] obtain out checksum where
    pre: "preflight_ready (parser_preflight cap operation version source attempt)"
    and out: "private_parse lib bs (sx_detected_media_type source) = Inr out" and c: "sha256_text (pp_canonical_text out) = Inr checksum"
    and cand: "cand = \<lparr>pc_manifest = parse_manifest cap operation source attempt out checksum, pc_canonical_text = pp_canonical_text out,
       pc_sections = pp_sections out\<rparr>" .
  show ?thesis
    using pre [unfolded parser_preflight_ready_iff] private_parse_visible [OF out]
    by (auto simp: cand evaluate_parsed_candidate_def Let_def correlation_ok_def manifest_binding_ok_def structure_ok_def
        parse_manifest_def CandidateValidationDecision_post_init_def c)
qed

end
