(* ===== verification/Ingestion_Orchestration.thy ===== *)
theory Ingestion_Orchestration
  imports Ingestion_Frontend Ingestion_Safety Complex_Main
begin

text \<open>
  \<^verbatim>\<open>src/projects/ai-agent/src/rag_ingestion_orchestrator.py\<close>: one ingestion attempt from its preflight to
  the activation. It calls the lifecycle store several times, each call under the lock of the store, so
  other callers may act in between: the argument \<open>others\<close> gives, for each of the calls in turn, the
  requests of other callers the store serves just before it. The parser transport is a protocol of the
  source and an argument here; the local transport is the controlled parser of \<open>Ingestion_Frontend\<close>.
  The state the code has reached is returned with the result also when it raises.
\<close>

section \<open>Preflight\<close>

datatype IngestionPreflightOutcome =
  READY | AUTHORIZATION_BLOCKED | CALLER_INTENT_INACTIVE | DEADLINE_EXHAUSTED | CAPACITY_REJECTED | CIRCUIT_OPEN
| PARSER_PREFLIGHT_BLOCKED

datatype IngestionOrchestrationOutcome =
  SUCCEEDED | PREFLIGHT_BLOCKED | DISPATCH_CLAIM_BLOCKED | PENDING_RECONCILIATION | PARSER_REJECTED | CANDIDATE_REJECTED
| COMMIT_BLOCKED

record IngestionOrchestrationRequest =
  orq_operation :: IngestionOperationIdentity
  orq_version :: DocumentVersionDefinition
  orq_source :: SourceArtifactReference
  orq_attempt :: ParserAttemptIdentity
  orq_source_bytes :: string
  orq_expected_operation_state :: IngestionOperationState
  orq_expected_operation_state_version :: int
  orq_expected_operation_fence :: int
  orq_current_authorization :: bool
  orq_parser_permit_current :: bool
  orq_caller_intent_active :: bool
  orq_cancelled :: bool
  orq_now :: rat
  orq_deadline :: rat
  orq_capacity_admitted :: bool
  orq_circuit_allows_request :: bool

record IngestionPreflightDecision =
  ipd_outcome :: IngestionPreflightOutcome
  ipd_safe_reason :: string
  ipd_parser_calls :: int
  ipd_committer_calls :: int

definition ingestion_preflight_decision :: "IngestionPreflightOutcome \<Rightarrow> string \<Rightarrow> IngestionPreflightDecision" where
  "ingestion_preflight_decision outcome reason =
     \<lparr>ipd_outcome = outcome, ipd_safe_reason = reason, ipd_parser_calls = 0, ipd_committer_calls = 0\<rparr>"

definition ipd_ready :: "IngestionPreflightDecision \<Rightarrow> bool" where
  "ipd_ready d \<longleftrightarrow> ipd_outcome d = IngestionPreflightOutcome.READY"

definition evaluate_preflight :: "ParserCapability \<Rightarrow> IngestionOrchestrationRequest \<Rightarrow> IngestionPreflightDecision" where
  "evaluate_preflight cap request =
     (if \<not> orq_current_authorization request \<or> \<not> orq_parser_permit_current request
      then ingestion_preflight_decision IngestionPreflightOutcome.AUTHORIZATION_BLOCKED
             ''CURRENT_AUTHORIZATION_AND_PARSER_PERMIT_REQUIRED''
      else if \<not> orq_caller_intent_active request \<or> orq_cancelled request
      then ingestion_preflight_decision IngestionPreflightOutcome.CALLER_INTENT_INACTIVE
             ''CALLER_INTENT_OR_CANCELLATION_BLOCKS_DISPATCH''
      else if orq_now request \<ge> orq_deadline request
      then ingestion_preflight_decision IngestionPreflightOutcome.DEADLINE_EXHAUSTED ''PARENT_DEADLINE_EXHAUSTED''
      else if \<not> orq_capacity_admitted request
      then ingestion_preflight_decision IngestionPreflightOutcome.CAPACITY_REJECTED ''CURRENT_PARSER_CAPACITY_NOT_ADMITTED''
      else if \<not> orq_circuit_allows_request request
      then ingestion_preflight_decision IngestionPreflightOutcome.CIRCUIT_OPEN ''PARSER_CIRCUIT_IS_OPEN''
      else
        let parser_preflight = parser_preflight cap (orq_operation request) (orq_version request) (orq_source request)
              (orq_attempt request) in
        if \<not> preflight_ready parser_preflight
        then ingestion_preflight_decision IngestionPreflightOutcome.PARSER_PREFLIGHT_BLOCKED (ppd_safe_reason parser_preflight)
        else ingestion_preflight_decision IngestionPreflightOutcome.READY ''INGESTION_PREFLIGHT_PASSED'')"

section \<open>Orchestration\<close>

record VerifiedIngestionObservation =
  vo_operation_id :: string
  vo_tenant_id :: string
  vo_document_id :: string
  vo_document_version_id :: string
  vo_parsed_artifact_id :: string
  vo_durable_document_state_version :: int

record IngestionOrchestrationResult =
  ior_outcome :: IngestionOrchestrationOutcome
  ior_safe_reason :: string
  ior_parser_transport_calls :: int
  ior_parser_calls :: int
  ior_candidate_validation_calls :: int
  ior_committer_calls :: int
  ior_durable_transitions :: int
  ior_verified_observation :: "VerifiedIngestionObservation option"

text \<open>
  What the transport does: it returns a result, raises \<open>ParserOutcomeUnknown\<close> with its reason and call
  count, or raises something else.
\<close>

datatype ParserResponse = Returned ParserAdapterResult | OutcomeUnknown string int | Raised exn

type_synonym parser_transport =
  "IngestionOperationIdentity \<Rightarrow> DocumentVersionDefinition \<Rightarrow> SourceArtifactReference \<Rightarrow> ParserAttemptIdentity \<Rightarrow> string
    \<Rightarrow> ParserResponse"

definition LocalControlledParserTransport :: "TextLibrary \<Rightarrow> ParserCapability \<Rightarrow> parser_transport" where
  "LocalControlledParserTransport lib cap operation version source attempt source_bytes =
     (case controlled_parse lib cap operation version source attempt source_bytes of Inl e \<Rightarrow> Raised e | Inr r \<Rightarrow> Returned r)"

fun IngestionDispatchClaimOutcome_value :: "IngestionDispatchClaimOutcome \<Rightarrow> string" where
  "IngestionDispatchClaimOutcome_value IngestionDispatchClaimOutcome.CLAIMED = ''CLAIMED''"
| "IngestionDispatchClaimOutcome_value IngestionDispatchClaimOutcome.ALREADY_CLAIMED = ''ALREADY_CLAIMED''"
| "IngestionDispatchClaimOutcome_value IngestionDispatchClaimOutcome.IDENTITY_CONFLICT = ''IDENTITY_CONFLICT''"
| "IngestionDispatchClaimOutcome_value IngestionDispatchClaimOutcome.STATE_CONFLICT = ''STATE_CONFLICT''"
| "IngestionDispatchClaimOutcome_value IngestionDispatchClaimOutcome.VERSION_CONFLICT = ''VERSION_CONFLICT''"
| "IngestionDispatchClaimOutcome_value IngestionDispatchClaimOutcome.FENCE_CONFLICT = ''FENCE_CONFLICT''"
| "IngestionDispatchClaimOutcome_value IngestionDispatchClaimOutcome.ATTEMPT_SEQUENCE_CONFLICT = ''ATTEMPT_SEQUENCE_CONFLICT''"

definition orchestration_result :: "IngestionOrchestrationOutcome \<Rightarrow> string \<Rightarrow> IngestionOrchestrationResult" where
  "orchestration_result outcome reason =
     \<lparr>ior_outcome = outcome, ior_safe_reason = reason, ior_parser_transport_calls = 0, ior_parser_calls = 0,
      ior_candidate_validation_calls = 0, ior_committer_calls = 0, ior_durable_transitions = 0, ior_verified_observation = None\<rparr>"

definition quarantine_claimed ::
    "IngestionOrchestrationOutcome \<Rightarrow> string \<Rightarrow> int \<Rightarrow> int \<Rightarrow> IngestionOrchestrationRequest \<Rightarrow> IngestionOperationRecord
      \<Rightarrow> LifecycleStore \<Rightarrow> LifecycleStore \<times> IngestionOrchestrationResult res" where
  "quarantine_claimed outcome reason parser_calls validation_calls request rec s =
     (case mark_quarantined (orq_operation request) (ir_state_version rec) (ir_fence_token rec) s of
        Inl e \<Rightarrow> (s, Inl e)
      | Inr (s', quarantined) \<Rightarrow>
          (s', Inr ((orchestration_result outcome reason)
             \<lparr>ior_parser_transport_calls := 1, ior_parser_calls := parser_calls, ior_candidate_validation_calls := validation_calls,
              ior_committer_calls := otr_committer_calls quarantined,
              ior_durable_transitions := 1 + of_bool (otr_durable_transition quarantined)\<rparr>)))"

definition read_guard ::
    "IngestionOperationState \<Rightarrow> IngestionOperationRecord \<Rightarrow> DocumentHeadSnapshot \<Rightarrow> DocumentVersionLifecycleRecord
      \<Rightarrow> IngestionActivationGuard" where
  "read_guard st rec document version =
     \<lparr>ag_document_state = dh_state document, ag_active_version_id = dh_active_version_id document,
      ag_document_state_version = dh_state_version document, ag_document_fence = dh_fence_token document,
      ag_version_state = vl_state version, ag_version_state_version = vl_state_version version,
      ag_version_fence = vl_fence_token version, ag_operation_state = st,
      ag_operation_state_version = ir_state_version rec, ag_operation_fence = ir_fence_token rec\<rparr>"

text \<open>\<open>read_document\<close>, \<open>read_version\<close>, the guard and \<open>commit\<close>, which both callers do alike.\<close>

definition read_and_commit ::
    "(nat \<Rightarrow> LifecycleEvent list) \<Rightarrow> nat \<Rightarrow> IngestionOperationState \<Rightarrow> IngestionOperationIdentity \<Rightarrow> IngestionOperationRecord
      \<Rightarrow> CandidateValidationDecision \<Rightarrow> LifecycleStore \<Rightarrow> LifecycleStore \<times> IngestionCommitResult res" where
  "read_and_commit others n st operation rec validation s =
     (case read_document s (vi_document (io_version operation)) of
        Inl e \<Rightarrow> (s, Inl e)
      | Inr document \<Rightarrow>
          let s' = fold lifecycle_step (others n) s in
          (case read_version s' (io_version operation) of
             Inl e \<Rightarrow> (s', Inl e)
           | Inr version \<Rightarrow>
               (case IngestionActivationGuard_post_init (read_guard st rec document version) of
                  Inl e \<Rightarrow> (s', Inl e)
                | Inr g \<Rightarrow> commit_activation validation g (fold lifecycle_step (others (Suc n)) s'))))"

definition orchestration_committed ::
    "IngestionOrchestrationRequest \<Rightarrow> int \<Rightarrow> IngestionCommitResult \<Rightarrow> IngestionOrchestrationResult res" where
  "orchestration_committed request parser_calls committed =
     (if icr_outcome committed \<notin> {IngestionCommitOutcome.COMMITTED, IngestionCommitOutcome.ALREADY_COMMITTED}
      then Inr ((orchestration_result IngestionOrchestrationOutcome.COMMIT_BLOCKED (icr_safe_reason committed))
             \<lparr>ior_parser_transport_calls := 1, ior_parser_calls := parser_calls, ior_candidate_validation_calls := 1,
              ior_committer_calls := icr_committer_calls committed, ior_durable_transitions := 1\<rparr>)
      else case (icr_document committed, icr_parsed_artifact committed) of
        (Some document, Some artifact) \<Rightarrow>
          Inr \<lparr>ior_outcome = IngestionOrchestrationOutcome.SUCCEEDED, ior_safe_reason = icr_safe_reason committed,
               ior_parser_transport_calls = 1, ior_parser_calls = parser_calls, ior_candidate_validation_calls = 1,
               ior_committer_calls = icr_committer_calls committed,
               ior_durable_transitions = 1 + of_bool (icr_durable_transition committed),
               ior_verified_observation = Some
                 \<lparr>vo_operation_id = io_operation_id (orq_operation request), vo_tenant_id = io_tenant_id (orq_operation request),
                  vo_document_id = io_document_id (orq_operation request),
                  vo_document_version_id = io_document_version_id (orq_operation request),
                  vo_parsed_artifact_id = px_parsed_artifact_id artifact,
                  vo_durable_document_state_version = dh_state_version document\<rparr>\<rparr>
      | _ \<Rightarrow> Inl AssertionError)"

text \<open>What follows a result of the parser.\<close>

definition settle_parser_result ::
    "(nat \<Rightarrow> LifecycleEvent list) \<Rightarrow> IngestionOrchestrationRequest \<Rightarrow> IngestionOperationRecord \<Rightarrow> ParserAdapterResult \<Rightarrow> LifecycleStore
      \<Rightarrow> LifecycleStore \<times> IngestionOrchestrationResult res" where
  "settle_parser_result others request rec parser_result s =
     (if par_outcome parser_result \<noteq> ParserAdapterOutcome.CANDIDATE
      then quarantine_claimed IngestionOrchestrationOutcome.PARSER_REJECTED (par_safe_reason parser_result)
             (par_parser_calls parser_result) 0 request rec s
      else case par_candidate parser_result of
        None \<Rightarrow> quarantine_claimed IngestionOrchestrationOutcome.PARSER_REJECTED (par_safe_reason parser_result)
                  (par_parser_calls parser_result) 0 request rec s
      | Some candidate \<Rightarrow>
          (case evaluate_parsed_candidate (orq_operation request) (orq_version request) (orq_source request) (orq_attempt request) candidate of
             Inl e \<Rightarrow> (s, Inl e)
           | Inr validation \<Rightarrow>
               if vc_outcome validation \<noteq> CandidateValidationOutcome.READY_FOR_COMMIT
               then quarantine_claimed IngestionOrchestrationOutcome.CANDIDATE_REJECTED (vc_safe_reason validation)
                      (par_parser_calls parser_result) 1 request rec s
               else
                 (case read_and_commit others 2 IngestionOperationState.PARSE_DISPATCH_STARTED (orq_operation request) rec validation s of
                    (s', Inl e) \<Rightarrow> (s', Inl e)
                  | (s', Inr committed) \<Rightarrow>
                      (s', orchestration_committed request (par_parser_calls parser_result) committed))))"

text \<open>The parser call under a claim, and what follows it.\<close>

definition dispatch_claimed ::
    "(nat \<Rightarrow> LifecycleEvent list) \<Rightarrow> parser_transport \<Rightarrow> IngestionOrchestrationRequest \<Rightarrow> IngestionOperationRecord \<Rightarrow> LifecycleStore
      \<Rightarrow> LifecycleStore \<times> IngestionOrchestrationResult res" where
  "dispatch_claimed others transport request rec s =
     (case transport (orq_operation request) (orq_version request) (orq_source request) (orq_attempt request)
         (orq_source_bytes request) of
        Raised e \<Rightarrow> (s, Inl e)
      | OutcomeUnknown reason calls \<Rightarrow>
          (case mark_pending_reconciliation (orq_operation request) (ir_state_version rec) (ir_fence_token rec) s of
             Inl e \<Rightarrow> (s, Inl e)
           | Inr (s', pending) \<Rightarrow>
               (s', Inr ((orchestration_result IngestionOrchestrationOutcome.PENDING_RECONCILIATION reason)
                  \<lparr>ior_parser_transport_calls := calls, ior_committer_calls := otr_committer_calls pending,
                   ior_durable_transitions := 1 + of_bool (otr_durable_transition pending)\<rparr>)))
      | Returned parser_result \<Rightarrow> settle_parser_result others request rec parser_result s)"

definition orchestrate_ingestion ::
    "(nat \<Rightarrow> LifecycleEvent list) \<Rightarrow> ParserCapability \<Rightarrow> parser_transport \<Rightarrow> IngestionOrchestrationRequest \<Rightarrow> LifecycleStore
      \<Rightarrow> LifecycleStore \<times> IngestionOrchestrationResult res" where
  "orchestrate_ingestion others cap transport request s =
     (let preflight = evaluate_preflight cap request in
      if \<not> ipd_ready preflight
      then (s, Inr (orchestration_result IngestionOrchestrationOutcome.PREFLIGHT_BLOCKED (ipd_safe_reason preflight)))
      else
        let s = fold lifecycle_step (others 0) s in
        (case claim_parse_dispatch (orq_operation request) (orq_attempt request) (orq_expected_operation_state request)
            (orq_expected_operation_state_version request) (orq_expected_operation_fence request) s of
           Inl e \<Rightarrow> (s, Inl e)
         | Inr (s, claim) \<Rightarrow>
             (case (dcl_outcome claim, dcl_record claim) of
                (IngestionDispatchClaimOutcome.CLAIMED, Some rec) \<Rightarrow>
                  dispatch_claimed others transport request rec (fold lifecycle_step (others 1) s)
              | _ \<Rightarrow> (s, Inr ((orchestration_result IngestionOrchestrationOutcome.DISPATCH_CLAIM_BLOCKED
                           (IngestionDispatchClaimOutcome_value (dcl_outcome claim)))
                          \<lparr>ior_durable_transitions := of_bool (dcl_durable_transition claim)\<rparr>)))))"

section \<open>Every call of the store is a request of its machine\<close>

lemma step_of_claim:
  "claim_parse_dispatch i a st sv f s = Inr (s', c) \<Longrightarrow> s' = lifecycle_step (ClaimDispatch i a st sv f) s"
  by (simp add: store_after_def)

lemma step_of_pending:
  "mark_pending_reconciliation i sv f s = Inr (s', c) \<Longrightarrow> s' = lifecycle_step (MarkPending i sv f) s"
  by (simp add: store_after_def)

lemma step_of_quarantine:
  "mark_quarantined i sv f s = Inr (s', c) \<Longrightarrow> s' = lifecycle_step (MarkQuarantined i sv f) s"
  by (simp add: store_after_def)

lemma step_of_reconcile:
  "commit_authoritative_reconciliation i target sv f s = Inr (s', c) \<Longrightarrow> s' = lifecycle_step (Reconcile i target sv f) s"
  by (simp add: store_after_def)

lemma step_of_commit:
  "evaluate_parsed_candidate operation version source attempt candidate = Inr validation \<Longrightarrow>
   fst (commit_activation validation g s) = lifecycle_step (Activate operation version source attempt candidate g) s"
  by simp

text \<open>A store that requests lead to from the store \<open>s\<close>.\<close>

definition leads_to :: "LifecycleStore \<Rightarrow> LifecycleStore \<Rightarrow> bool" where
  "leads_to s s' \<longleftrightarrow> (\<exists>es. s' = fold lifecycle_step es s)"

lemma leads_to_refl [simp]: "leads_to s s"
  unfolding leads_to_def by (rule exI [of _ "[]"]) simp

lemma leads_to_fold: "leads_to s t \<Longrightarrow> leads_to s (fold lifecycle_step es t)"
  unfolding leads_to_def by (metis fold_append comp_apply)

lemma leads_to_step: "leads_to s t \<Longrightarrow> leads_to s (lifecycle_step e t)"
  using leads_to_fold [of s t "[e]"] by simp

lemma leads_to_run: "leads_to (lifecycle_run es) s \<longleftrightarrow> (\<exists>later. s = lifecycle_run (es @ later))"
  by (simp add: leads_to_def run_append)

section \<open>What a commit reports is what is stored\<close>

definition active_with :: "LifecycleStore \<Rightarrow> IngestionOperationIdentity \<Rightarrow> DocumentHeadSnapshot \<Rightarrow> string \<Rightarrow> bool" where
  "active_with s operation document artifact_id \<longleftrightarrow>
     ls_documents s (document_key (vi_document (io_version operation))) = Some document \<and>
     dh_state document = DocumentHeadState.ACTIVE \<and> dh_active_version_id document = Some (io_document_version_id operation) \<and>
     (\<exists>v. ls_versions s (version_key (io_version operation)) = Some v \<and> vl_state v = DocumentVersionLifecycle.ACTIVE \<and>
        vl_parsed_artifact_id v = Some artifact_id) \<and>
     (\<exists>p. ls_parsed_artifacts s artifact_id = Some p \<and> px_version p = io_version operation) \<and>
     (\<exists>r. ls_operations s (io_operation_id operation) = Some r \<and> ir_identity r = operation \<and>
        ir_state r = IngestionOperationState.COMPLETED)"

lemma activate_reports:
  assumes act: "activate d v r q s = Inr (s', res)" and bind: "bindings_match d v r q"
    and art: "ls_parsed_artifacts s (px_parsed_artifact_id (ap_parsed_artifact q)) \<in> {None, Some (ap_parsed_artifact q)}"
  shows "\<exists>d'. icr_document res = Some d' \<and> icr_parsed_artifact res = Some (ap_parsed_artifact q) \<and>
    active_with s' (ap_operation q) d' (px_parsed_artifact_id (ap_parsed_artifact q))"
  using act art bind unfolding activate_def Let_def bind_res_eq_Inr active_with_def bindings_match_def
  by (auto simp: add_event_fields advance_operation_def io_version_def simp del: append.simps
      dest!: version_post_init_id document_post_init_id operation_post_init_id)

lemma commit_current_reports:
  assumes inv: "lifecycle_inv s" and q: "proposal_ok q"
    and f: "ls_documents s (document_key (vi_document (io_version (ap_operation q)))) = Some d"
      "ls_versions s (version_key (io_version (ap_operation q))) = Some v"
      "ls_operations s (io_operation_id (ap_operation q)) = Some r"
    and c: "commit_current d v r q g s = (s', Inr res)"
    and out: "icr_outcome res \<in> {IngestionCommitOutcome.COMMITTED, IngestionCommitOutcome.ALREADY_COMMITTED}"
  shows "\<exists>d'. icr_document res = Some d' \<and> icr_parsed_artifact res = Some (ap_parsed_artifact q) \<and>
    active_with s' (ap_operation q) d' (px_parsed_artifact_id (ap_parsed_artifact q))"
proof (cases "already_committed d v r (ap_parsed_artifact q)")
  case True
  have b: "bindings_match d v r q" using c out by (auto simp: commit_current_def commit_facts_def commit_result_def Let_def split: if_splits)
  have res: "s' = s" "icr_document res = Some d" "icr_parsed_artifact res = Some (ap_parsed_artifact q)"
    using c b True by (auto simp: commit_current_def commit_facts_def commit_result_def Let_def)
  have "version_ok (ls_parsed_artifacts s) (version_key (io_version (ap_operation q))) v" using inv_dest(2) [OF inv f(2)] .
  then show ?thesis
    using b True f unfolding res active_with_def version_ok_def already_committed_def bindings_match_def Let_def
    by (auto simp: io_version_def)
next
  case False
  note cases = c [unfolded commit_current_def Let_def]
  have b: "bindings_match d v r q"
    and art: "ls_parsed_artifacts s (px_parsed_artifact_id (ap_parsed_artifact q)) \<in> {None, Some (ap_parsed_artifact q)}"
    using cases out False by (auto simp: commit_facts_def commit_result_def split: if_splits)
  from supersede_ok [OF inv f(1)] obtain vs where
    sup: "supersede_previous d (io_version (ap_operation q)) s = Inr (Some (s\<lparr>ls_versions := vs\<rparr>))" by blast
  have "activate d v r q (s\<lparr>ls_versions := vs\<rparr>) = Inr (s', res)"
    using cases out False sup by (auto simp: commit_facts_def commit_result_def split: if_splits sum.splits)
  from activate_reports [OF this b] art show ?thesis by simp
qed

lemma commit_reports:
  assumes ev: "evaluate_parsed_candidate operation version source attempt candidate = Inr validation"
  obtains s' res where "commit_activation validation g (lifecycle_run es) = (s', Inr res)"
    "s' = lifecycle_step (Activate operation version source attempt candidate g) (lifecycle_run es)"
    "icr_outcome res \<in> {IngestionCommitOutcome.COMMITTED, IngestionCommitOutcome.ALREADY_COMMITTED} \<Longrightarrow>
      \<exists>d a. icr_document res = Some d \<and> icr_parsed_artifact res = Some a \<and> active_with s' operation d (px_parsed_artifact_id a)"
proof -
  let ?s = "lifecycle_run es"
  from commit_activation_ok [OF lifecycle_run_inv [of es] ev, of g] obtain s' res where
    c: "commit_activation validation g ?s = (s', Inr res)" by blast
  have s': "s' = lifecycle_step (Activate operation version source attempt candidate g) ?s"
    using step_of_commit [OF ev, of g ?s] c by simp
  have "\<exists>d a. icr_document res = Some d \<and> icr_parsed_artifact res = Some a \<and> active_with s' operation d (px_parsed_artifact_id a)"
    if out: "icr_outcome res \<in> {IngestionCommitOutcome.COMMITTED, IngestionCommitOutcome.ALREADY_COMMITTED}"
  proof -
    from c out obtain q d v r where q: "vc_proposal validation = Some q"
      and f: "ls_documents ?s (document_key (vi_document (io_version (ap_operation q)))) = Some d"
      "ls_versions ?s (version_key (io_version (ap_operation q))) = Some v"
      "ls_operations ?s (io_operation_id (ap_operation q)) = Some r" "commit_current d v r q g ?s = (s', Inr res)"
      by (auto simp: commit_activation_def commit_result_def split: if_splits option.splits)
    from validated_proposal_ok [OF ev q] have "proposal_ok q" "ap_operation q = operation" by simp_all
    with commit_current_reports [OF lifecycle_run_inv _ f out] show ?thesis by auto
  qed
  with c s' show thesis by (rule that)
qed

lemma stored_document_counters:
  "ls_documents (lifecycle_run es) k = Some d \<Longrightarrow> 0 \<le> dh_state_version d \<and> 0 \<le> dh_fence_token d"
  using inv_dest(1) [OF lifecycle_run_inv [of es], of k d]
  by (auto simp: document_ok_def DocumentHeadSnapshot_post_init_def split: if_splits)

lemma stored_version_counters:
  "ls_versions (lifecycle_run es) k = Some v \<Longrightarrow> 0 \<le> vl_state_version v \<and> 0 \<le> vl_fence_token v"
  using inv_dest(2) [OF lifecycle_run_inv [of es], of k v]
  by (auto simp: version_ok_def DocumentVersionLifecycleRecord_post_init_def Let_def split: if_splits)

lemma stored_operation_counters:
  "ls_operations (lifecycle_run es) k = Some r \<Longrightarrow> 0 \<le> ir_state_version r \<and> 0 \<le> ir_fence_token r"
  using inv_dest(3) [OF lifecycle_run_inv [of es], of k r]
  by (auto simp: operation_ok_def IngestionOperationRecord_post_init_def split: if_splits)

lemma read_and_commit_ok:
  assumes ev: "evaluate_parsed_candidate operation version source attempt candidate = Inr validation"
    and v: "ls_versions (lifecycle_run es) (version_key (io_version operation)) \<noteq> None"
    and rec: "0 \<le> ir_state_version rec" "0 \<le> ir_fence_token rec"
  obtains s' res where "read_and_commit others n st operation rec validation (lifecycle_run es) = (s', Inr res)"
    "leads_to (lifecycle_run es) s'"
    "icr_outcome res \<in> {IngestionCommitOutcome.COMMITTED, IngestionCommitOutcome.ALREADY_COMMITTED} \<Longrightarrow>
      \<exists>d a. icr_document res = Some d \<and> icr_parsed_artifact res = Some a \<and> active_with s' operation d (px_parsed_artifact_id a)"
proof -
  from v obtain v0 where v0: "ls_versions (lifecycle_run es) (version_key (io_version operation)) = Some v0" by blast
  from version_has_document [OF v0] obtain d where
    d: "ls_documents (lifecycle_run es) (document_key (vi_document (io_version operation))) = Some d" by blast
  from versions.run_evolves [OF v0, of "others n"] obtain v1 where
    v1: "ls_versions (lifecycle_run (es @ others n)) (version_key (io_version operation)) = Some v1" by (auto simp: run_append)
  have g: "IngestionActivationGuard_post_init (read_guard st rec d v1) = Inr (read_guard st rec d v1)"
    using stored_document_counters [OF d] stored_version_counters [OF v1] rec by (simp add: IngestionActivationGuard_post_init_def read_guard_def)
  have eq: "read_and_commit others n st operation rec validation (lifecycle_run es) =
      commit_activation validation (read_guard st rec d v1) (lifecycle_run (es @ others n @ others (Suc n)))"
    using d v1 g by (simp add: read_and_commit_def read_document_def read_version_def run_append)
  from commit_reports [OF ev, of "read_guard st rec d v1" "es @ others n @ others (Suc n)"] obtain s' res where
    c: "commit_activation validation (read_guard st rec d v1) (lifecycle_run (es @ others n @ others (Suc n))) = (s', Inr res)"
      "s' = lifecycle_step (Activate operation version source attempt candidate (read_guard st rec d v1))
         (lifecycle_run (es @ others n @ others (Suc n)))"
      "icr_outcome res \<in> {IngestionCommitOutcome.COMMITTED, IngestionCommitOutcome.ALREADY_COMMITTED} \<Longrightarrow>
        \<exists>d a. icr_document res = Some d \<and> icr_parsed_artifact res = Some a \<and> active_with s' operation d (px_parsed_artifact_id a)"
    by blast
  have "leads_to (lifecycle_run es) s'"
    unfolding c(2) by (intro leads_to_step) (auto simp: leads_to_run)
  with eq c(1,3) show thesis using that by simp
qed

section \<open>Orchestration is sound\<close>

text \<open>The transitions never raise in a reachable store.\<close>

lemma stored_operation_valid:
  assumes "current_operation i (lifecycle_run es) = Some r"
  shows "IngestionOperationRecord_post_init r = Inr r"
  using inv_dest(3) [OF lifecycle_run_inv current_operation_stored [OF assms]] by (simp add: operation_ok_def)

lemma started_has_attempt:
  "IngestionOperationRecord_post_init r = Inr r \<Longrightarrow> guarded_operation r IngestionOperationState.PARSE_DISPATCH_STARTED sv f \<Longrightarrow>
     ir_attempt r \<noteq> None"
  by (auto simp: IngestionOperationRecord_post_init_def guarded_operation_def split: if_splits)

lemma mark_pending_total: "\<exists>s' t. mark_pending_reconciliation i sv f (lifecycle_run es) = Inr (s', t)"
proof (cases "current_operation i (lifecycle_run es)")
  case (Some r)
  note valid = stored_operation_valid [OF Some]
  with operation_advance_ok [OF valid, of IngestionOperationState.PENDING_RECONCILIATION] started_has_attempt [OF valid, of sv f]
  show ?thesis by (auto simp: mark_pending_reconciliation_def Some)
qed (simp add: mark_pending_reconciliation_def)

lemma reconcile_total:
  assumes "target \<in> {IngestionOperationState.FAILED, IngestionOperationState.PROVEN_NOT_EXECUTED}"
  shows "\<exists>s' t. commit_authoritative_reconciliation i target sv f (lifecycle_run es) = Inr (s', t)"
proof (cases "current_operation i (lifecycle_run es)")
  case (Some r)
  with operation_advance_ok [OF stored_operation_valid [OF Some], of target] assms
  show ?thesis by (auto simp: commit_authoritative_reconciliation_def Let_def)
qed (use assms in \<open>auto simp: commit_authoritative_reconciliation_def\<close>)

lemma mark_quarantined_total: "\<exists>s' t. mark_quarantined i sv f (lifecycle_run es) = Inr (s', t)"
proof (cases "current_operation i (lifecycle_run es)")
  case (Some r)
  have op: "IngestionOperationRecord_post_init (advance_operation IngestionOperationState.QUARANTINED r) =
      Inr (advance_operation IngestionOperationState.QUARANTINED r)"
    by (rule operation_advance_ok [OF stored_operation_valid [OF Some]]) simp
  have "\<exists>v'. DocumentVersionLifecycleRecord_post_init (v\<lparr>vl_state := DocumentVersionLifecycle.QUARANTINED,
      vl_state_version := vl_state_version v + 1, vl_fence_token := vl_fence_token v + 1\<rparr>) = Inr v'"
    if "ls_versions (lifecycle_run es) (version_key (io_version i)) = Some v" "vl_state v = DocumentVersionLifecycle.REGISTERED" for v
    using inv_dest(2) [OF lifecycle_run_inv that(1)] that(2)
    by (auto simp: version_ok_def DocumentVersionLifecycleRecord_post_init_def Let_def split: if_splits)
  with op show ?thesis
    by (cases "ls_versions (lifecycle_run es) (version_key (io_version i))") (auto simp: mark_quarantined_def Some bind_res_def)
qed (simp add: mark_quarantined_def)

lemma quarantine_claimed_ok:
  assumes "quarantine_claimed outcome reason m k request rec (lifecycle_run es) = (s', out)"
  shows "leads_to (lifecycle_run es) s' \<and> (\<exists>res. out = Inr res \<and> ior_outcome res = outcome \<and> ior_parser_transport_calls res = 1)"
proof -
  from mark_quarantined_total obtain t c where
    q: "mark_quarantined (orq_operation request) (ir_state_version rec) (ir_fence_token rec) (lifecycle_run es) = Inr (t, c)" by blast
  with assms step_of_quarantine [OF q] show ?thesis
    by (auto simp: quarantine_claimed_def orchestration_result_def intro: leads_to_step simp del: lifecycle_step.simps)
qed

text \<open>The claim returns the record it has stored.\<close>

lemma claim_stored:
  assumes "claim_parse_dispatch i a st sv f s = Inr (s', c)" "dcl_outcome c = IngestionDispatchClaimOutcome.CLAIMED"
  obtains r where "dcl_record c = Some r" "ls_operations s' (io_operation_id i) = Some r" "ir_identity r = i"
    "ir_attempt r = Some a" "ir_state r = IngestionOperationState.PARSE_DISPATCH_STARTED"
  using assms
  by (auto simp: claim_parse_dispatch_def claim_result_def bind_res_eq_Inr Let_def split: option.splits if_splits
      dest!: operation_post_init_id)

text \<open>The observation a successful orchestration returns describes the store.\<close>

definition observed :: "LifecycleStore \<Rightarrow> IngestionOperationIdentity \<Rightarrow> IngestionOrchestrationResult \<Rightarrow> bool" where
  "observed s operation res \<longleftrightarrow> (\<exists>ob d. ior_verified_observation res = Some ob \<and>
     vo_operation_id ob = io_operation_id operation \<and> vo_tenant_id ob = io_tenant_id operation \<and>
     vo_document_id ob = io_document_id operation \<and> vo_document_version_id ob = io_document_version_id operation \<and>
     active_with s operation d (vo_parsed_artifact_id ob) \<and> vo_durable_document_state_version ob = dh_state_version d)"

lemma committed_observed:
  assumes "icr_outcome c \<in> {IngestionCommitOutcome.COMMITTED, IngestionCommitOutcome.ALREADY_COMMITTED} \<Longrightarrow>
      \<exists>d a. icr_document c = Some d \<and> icr_parsed_artifact c = Some a \<and>
        active_with s (orq_operation request) d (px_parsed_artifact_id a)"
  shows "\<exists>res. orchestration_committed request n c = Inr res \<and>
    (ior_outcome res = IngestionOrchestrationOutcome.SUCCEEDED \<longrightarrow> observed s (orq_operation request) res) \<and>
    (ior_outcome res = IngestionOrchestrationOutcome.SUCCEEDED \<or> ior_outcome res = IngestionOrchestrationOutcome.COMMIT_BLOCKED)"
proof (cases "icr_outcome c \<in> {IngestionCommitOutcome.COMMITTED, IngestionCommitOutcome.ALREADY_COMMITTED}")
  case True
  with assms obtain d a where "icr_document c = Some d" "icr_parsed_artifact c = Some a"
    "active_with s (orq_operation request) d (px_parsed_artifact_id a)" by blast
  with True show ?thesis by (auto simp: orchestration_committed_def observed_def)
qed (simp add: orchestration_committed_def orchestration_result_def)

text \<open>A result of the parser whose candidate passes every check up to the checksum of a text that has no encoding.\<close>

definition unencodable_result :: "IngestionOrchestrationRequest \<Rightarrow> ParserAdapterResult \<Rightarrow> bool" where
  "unencodable_result request result \<longleftrightarrow> par_outcome result = ParserAdapterOutcome.CANDIDATE \<and>
     (\<exists>candidate. par_candidate result = Some candidate \<and> \<not> encodable (pc_canonical_text candidate) \<and>
        reaches_checksum (orq_operation request) (orq_version request) (orq_source request) (orq_attempt request) candidate)"

lemma settle_leads:
  assumes settle: "settle_parser_result others request rec result (lifecycle_run es) = (s', out)"
    and v: "ls_versions (lifecycle_run es) (version_key (io_version (orq_operation request))) \<noteq> None"
    and rec: "0 \<le> ir_state_version rec" "0 \<le> ir_fence_token rec"
  shows "leads_to (lifecycle_run es) s' \<and> (\<forall>e. out = Inl e \<longleftrightarrow> e = UnicodeEncodeError \<and> unencodable_result request result) \<and>
    (\<forall>res. out = Inr res \<longrightarrow> ior_outcome res = IngestionOrchestrationOutcome.SUCCEEDED \<longrightarrow> observed s' (orq_operation request) res)"
proof -
  have no: "leads_to (lifecycle_run es) s' \<and>
      (\<exists>res. out = Inr res \<and> (ior_outcome res = IngestionOrchestrationOutcome.SUCCEEDED \<longrightarrow> observed s' (orq_operation request) res))"
    if "quarantine_claimed outcome reason m k request rec (lifecycle_run es) = (s', out)" "outcome \<noteq> IngestionOrchestrationOutcome.SUCCEEDED"
    for outcome reason m k
    using quarantine_claimed_ok [OF that(1)] that(2) by auto
  show ?thesis
  proof (cases "par_outcome result = ParserAdapterOutcome.CANDIDATE \<and> par_candidate result \<noteq> None")
    case False
    then have "\<not> unencodable_result request result" by (auto simp: unencodable_result_def)
    moreover from False have "leads_to (lifecycle_run es) s' \<and>
      (\<exists>res. out = Inr res \<and> (ior_outcome res = IngestionOrchestrationOutcome.SUCCEEDED \<longrightarrow> observed s' (orq_operation request) res))"
      using settle by (auto simp: settle_parser_result_def intro!: no split: if_splits option.splits)
    ultimately show ?thesis by auto
  next
    case True
    then obtain cand where cand: "par_outcome result = ParserAdapterOutcome.CANDIDATE" "par_candidate result = Some cand" by blast
    let ?ev = "evaluate_parsed_candidate (orq_operation request) (orq_version request) (orq_source request) (orq_attempt request) cand"
    have un: "unencodable_result request result \<longleftrightarrow> (\<exists>e. ?ev = Inl e)"
      by (auto simp: unencodable_result_def cand evaluate_parsed_candidate_raises)
    show ?thesis
    proof (cases ?ev)
    case (Inl e)
    with settle un show ?thesis by (auto simp: settle_parser_result_def cand evaluate_parsed_candidate_raises)
    next
    case ev: (Inr validation)
    have nun: "\<not> unencodable_result request result" using un ev by simp
    have "leads_to (lifecycle_run es) s' \<and>
      (\<exists>res. out = Inr res \<and> (ior_outcome res = IngestionOrchestrationOutcome.SUCCEEDED \<longrightarrow> observed s' (orq_operation request) res))"
    proof (cases "vc_outcome validation = CandidateValidationOutcome.READY_FOR_COMMIT")
      case False
      then show ?thesis using settle by (auto simp: settle_parser_result_def cand ev intro!: no)
    next
      case True
      from read_and_commit_ok [OF ev v rec, of others 2 IngestionOperationState.PARSE_DISPATCH_STARTED] obtain t c where
        rc: "read_and_commit others 2 IngestionOperationState.PARSE_DISPATCH_STARTED (orq_operation request) rec validation
            (lifecycle_run es) = (t, Inr c)" "leads_to (lifecycle_run es) t"
          "icr_outcome c \<in> {IngestionCommitOutcome.COMMITTED, IngestionCommitOutcome.ALREADY_COMMITTED} \<Longrightarrow>
            \<exists>d a. icr_document c = Some d \<and> icr_parsed_artifact c = Some a \<and>
              active_with t (orq_operation request) d (px_parsed_artifact_id a)" by blast
      from committed_observed [OF rc(3), of "par_parser_calls result"] rc(1,2) settle show ?thesis
        by (auto simp: settle_parser_result_def cand ev True)
    qed
    with nun show ?thesis by auto
    qed
  qed
qed

text \<open>After a claim the operation, its version and its document are stored, and stay so.\<close>

lemma claimed_version:
  assumes "claim_parse_dispatch i a st sv f (lifecycle_run es) = Inr (s', c)" "dcl_outcome c = IngestionDispatchClaimOutcome.CLAIMED"
  obtains r where "dcl_record c = Some r" "0 \<le> ir_state_version r" "0 \<le> ir_fence_token r"
    "ls_versions (fold lifecycle_step later s') (version_key (io_version i)) \<noteq> None"
    "fold lifecycle_step later s' = lifecycle_run (es @ ClaimDispatch i a st sv f # later)"
proof -
  let ?es = "es @ [ClaimDispatch i a st sv f]"
  from claim_stored [OF assms] obtain r where r: "dcl_record c = Some r" "ls_operations s' (io_operation_id i) = Some r"
    "ir_identity r = i" by blast
  have s': "s' = lifecycle_run ?es" using step_of_claim [OF assms(1)] by (simp add: run_snoc del: lifecycle_step.simps)
  have later: "fold lifecycle_step later s' = lifecycle_run (es @ ClaimDispatch i a st sv f # later)"
    unfolding s' run_append [symmetric] by simp
  have "operation_ok (lifecycle_run ?es) (io_operation_id i) r" using inv_dest(3) [OF lifecycle_run_inv] r(2) s' by blast
  then obtain v where "ls_versions s' (version_key (io_version i)) = Some v" using r(3) s' by (auto simp: operation_ok_def)
  from versions.run_evolves [OF this, of later] have
    "ls_versions (fold lifecycle_step later s') (version_key (io_version i)) \<noteq> None" by auto
  moreover have "0 \<le> ir_state_version r \<and> 0 \<le> ir_fence_token r"
    using stored_operation_counters [of ?es "io_operation_id i" r] r(2) s' by simp
  ultimately show thesis using r(1) later that by blast
qed

lemma orchestration_leads:
  assumes run: "orchestrate_ingestion others cap transport request (lifecycle_run es) = (s', out)"
  shows "(\<exists>later. s' = lifecycle_run (es @ later)) \<and>
    (\<forall>e. out = Inl e \<longrightarrow>
      transport (orq_operation request) (orq_version request) (orq_source request) (orq_attempt request) (orq_source_bytes request) = Raised e \<or>
      claim_parse_dispatch (orq_operation request) (orq_attempt request) (orq_expected_operation_state request)
        (orq_expected_operation_state_version request) (orq_expected_operation_fence request) (lifecycle_run (es @ others 0)) = Inl e \<or>
      e = UnicodeEncodeError \<and> (\<exists>result. unencodable_result request result \<and>
        transport (orq_operation request) (orq_version request) (orq_source request) (orq_attempt request) (orq_source_bytes request) =
          Returned result)) \<and>
    (\<forall>res. out = Inr res \<longrightarrow> ior_outcome res = IngestionOrchestrationOutcome.SUCCEEDED \<longrightarrow> observed s' (orq_operation request) res)"
    (is "?reach \<and> ?raises \<and> ?reports")
proof (cases "ipd_ready (evaluate_preflight cap request)")
  case False
  with run show ?thesis by (auto simp: orchestrate_ingestion_def orchestration_result_def intro: exI [of _ "[]"])
next
  case ready: True
  let ?claim = "claim_parse_dispatch (orq_operation request) (orq_attempt request) (orq_expected_operation_state request)
    (orq_expected_operation_state_version request) (orq_expected_operation_fence request)"
  let ?event = "ClaimDispatch (orq_operation request) (orq_attempt request) (orq_expected_operation_state request)
    (orq_expected_operation_state_version request) (orq_expected_operation_fence request)"
  let ?s0 = "lifecycle_run (es @ others 0)"
  have reach: ?reach if "leads_to (lifecycle_run (es @ others 0 @ later)) s'" for later
    using that by (auto simp: leads_to_run)
  show ?thesis
  proof (cases "?claim ?s0")
    case (Inl e)
    with run ready show ?thesis by (auto simp: orchestrate_ingestion_def Let_def run_append)
  next
    case (Inr sc)
    obtain s1 c where c: "?claim ?s0 = Inr (s1, c)" using Inr by (cases sc) simp
    have s1: "s1 = lifecycle_run (es @ others 0 @ [?event])"
      using step_of_claim [OF c] run_snoc [of "es @ others 0" ?event] by simp
    show ?thesis
    proof (cases "dcl_outcome c = IngestionDispatchClaimOutcome.CLAIMED")
      case False
      then have "s' = s1" "\<exists>res. out = Inr res \<and> ior_outcome res = IngestionOrchestrationOutcome.DISPATCH_CLAIM_BLOCKED"
        using run ready c
        by (auto simp: orchestrate_ingestion_def Let_def run_append [symmetric] orchestration_result_def
            split: IngestionDispatchClaimOutcome.splits)
      with s1 show ?thesis by auto
    next
      case True
      from claimed_version [OF c True, of "others 1"] obtain r where r: "dcl_record c = Some r" "0 \<le> ir_state_version r"
        "0 \<le> ir_fence_token r" and
        v: "ls_versions (fold lifecycle_step (others 1) s1) (version_key (io_version (orq_operation request))) \<noteq> None" and
        s2: "fold lifecycle_step (others 1) s1 = lifecycle_run ((es @ others 0) @ ?event # others 1)" .
      let ?es2 = "(es @ others 0) @ ?event # others 1"
      have reach2: ?reach if "leads_to (lifecycle_run ?es2) s'" using reach [of "?event # others 1"] that by simp
      have run2: "dispatch_claimed others transport request r (lifecycle_run ?es2) = (s', out)"
        using run ready c True r(1) unfolding s2 [symmetric] orchestrate_ingestion_def Let_def run_append by (simp add: store_after_def)
      show ?thesis
      proof (cases "transport (orq_operation request) (orq_version request) (orq_source request) (orq_attempt request) (orq_source_bytes request)")
        case (Returned result)
        with run2 have "settle_parser_result others request r result (lifecycle_run ?es2) = (s', out)"
          by (simp add: dispatch_claimed_def)
        from settle_leads [OF this v [unfolded s2] r(2,3)] reach2 Returned show ?thesis by auto
      next
        case (OutcomeUnknown reason calls)
        from mark_pending_total obtain t p where
          p: "mark_pending_reconciliation (orq_operation request) (ir_state_version r) (ir_fence_token r) (lifecycle_run ?es2) = Inr (t, p)"
          by blast
        have "leads_to (lifecycle_run ?es2) t" unfolding step_of_pending [OF p] by (intro leads_to_step) simp
        with run2 OutcomeUnknown p reach2 show ?thesis by (auto simp: dispatch_claimed_def orchestration_result_def)
      next
        case (Raised e)
        with run2 reach2 show ?thesis by (auto simp: dispatch_claimed_def)
      qed
    qed
  qed
qed

section \<open>Without interference a valid candidate is activated\<close>

lemma proposal_artifact_id:
  assumes "evaluate_parsed_candidate operation version source attempt candidate = Inr d" "vc_proposal d = Some q"
  shows "px_parsed_artifact_id (ap_parsed_artifact q) = parsed_artifact_id operation (pc_manifest candidate)"
  using assms
  by (auto simp: evaluate_parsed_candidate_def parse_blocked_def CandidateValidationDecision_post_init_def Let_def sha256_text_eq
      split: if_splits)

lemma document_key_eq: "document_key i = document_key j \<longleftrightarrow> i = j"
  by (cases i; cases j) (simp add: document_key_def)

lemma version_key_eq: "version_key i = version_key j \<longleftrightarrow> i = j"
  by (cases i; cases j) (simp add: version_key_def)

text \<open>A claimed operation is bound to every proposal its own attempt can make.\<close>

lemma claimed_bindings:
  assumes inv: "lifecycle_inv s" and d: "ls_documents s (document_key (vi_document (io_version operation))) = Some d"
    and v: "ls_versions s (version_key (io_version operation)) = Some v"
    and r: "ls_operations s (io_operation_id operation) = Some r" "ir_identity r = operation" "ir_attempt r = Some attempt"
    and q: "evaluate_parsed_candidate operation version source attempt candidate = Inr validation" "vc_proposal validation = Some q"
  shows "bindings_match d v r q"
proof -
  have "document_key (dh_identity d) = document_key (vi_document (io_version operation))"
    using inv_dest(1) [OF inv d] by (simp add: document_ok_def)
  moreover have "version_key (vd_identity (vl_definition v)) = version_key (io_version operation)"
    using inv_dest(2) [OF inv v] by (simp add: version_ok_def)
  moreover have "vd_source_artifact_id (vl_definition v) = io_source_artifact_id operation"
    using inv_dest(3) [OF inv r(1)] v r(2) by (auto simp: operation_ok_def)
  moreover have "px_source_artifact_id (ap_parsed_artifact q) = io_source_artifact_id operation \<and> ap_operation q = operation \<and>
      ap_attempt q = attempt \<and> px_version (ap_parsed_artifact q) = io_version operation \<and>
      pm_operation_id (px_manifest (ap_parsed_artifact q)) = io_operation_id operation \<and>
      pm_idempotency_key (px_manifest (ap_parsed_artifact q)) = io_idempotency_key operation"
    using q
    by (auto simp: evaluate_parsed_candidate_def parse_blocked_def CandidateValidationDecision_post_init_def Let_def
        correlation_ok_def manifest_binding_ok_def sha256_text_eq split: if_splits)
  ultimately show ?thesis
    using r by (simp add: bindings_match_def Let_def document_key_eq version_key_eq)
qed

lemma claim_keeps_artifacts:
  "claim_parse_dispatch i a st sv f s = Inr (s', c) \<Longrightarrow> ls_parsed_artifacts s' = ls_parsed_artifacts s"
  by (auto simp: claim_parse_dispatch_def bind_res_eq_Inr Let_def split: option.splits if_splits)

lemma settle_activates:
  assumes cand: "par_outcome result = ParserAdapterOutcome.CANDIDATE" "par_candidate result = Some candidate"
    and q: "evaluate_parsed_candidate (orq_operation request) (orq_version request) (orq_source request) (orq_attempt request)
      candidate = Inr validation" "vc_outcome validation = CandidateValidationOutcome.READY_FOR_COMMIT"
    and r: "ls_operations (lifecycle_run es) (io_operation_id (orq_operation request)) = Some r" "ir_identity r = orq_operation request"
      "ir_attempt r = Some (orq_attempt request)" "ir_state r = IngestionOperationState.PARSE_DISPATCH_STARTED"
    and fresh: "ls_parsed_artifacts (lifecycle_run es) (parsed_artifact_id (orq_operation request) (pc_manifest candidate)) = None"
  shows "\<exists>s' res. settle_parser_result (\<lambda>_. []) request r result (lifecycle_run es) = (s', Inr res) \<and>
    ior_outcome res = IngestionOrchestrationOutcome.SUCCEEDED \<and> ior_parser_calls res = par_parser_calls result"
proof -
  let ?s = "lifecycle_run es" and ?op = "orq_operation request"
  note inv = lifecycle_run_inv [of es]
  from inv_dest(3) [OF inv r(1)] r(2) obtain v where v: "ls_versions ?s (version_key (io_version ?op)) = Some v"
    by (auto simp: operation_ok_def)
  from version_has_document [OF v] obtain d where d: "ls_documents ?s (document_key (vi_document (io_version ?op))) = Some d" by blast
  from q(2) parsed_candidate_bound [OF q(1)]
  obtain p where p: "vc_proposal validation = Some p" "ap_operation p = ?op" by auto
  let ?g = "read_guard IngestionOperationState.PARSE_DISPATCH_STARTED r d v"
  have g: "IngestionActivationGuard_post_init ?g = Inr ?g"
    using stored_document_counters [OF d] stored_version_counters [OF v] stored_operation_counters [OF r(1)]
    by (simp add: IngestionActivationGuard_post_init_def read_guard_def)
  have adm: "activation_admissible ?s p ?g"
    using d v r claimed_bindings [OF inv d v r(1-3) q(1) p(1)] fresh proposal_artifact_id [OF q(1) p(1)]
    by (simp add: activation_admissible_def p(2) already_committed_def document_guard_matches_def version_guard_matches_def
        operation_guard_matches_def read_guard_def)
  have ok: "proposal_ok p" using validated_proposal_ok [OF q(1) p(1)] by simp
  from commit_current_cases [OF inv ok] d v r(1) adm obtain s' res where
    c: "commit_current d v r p ?g ?s = (s', Inr res)" "icr_outcome res = IngestionCommitOutcome.COMMITTED"
    unfolding p(2) by metis
  have "commit_activation validation ?g ?s = (s', Inr res)"
    using commit_activation_current [OF q(2) p(1)] d v r(1) c(1) unfolding p(2) by simp
  then have rc: "read_and_commit (\<lambda>_. []) 2 IngestionOperationState.PARSE_DISPATCH_STARTED ?op r validation ?s = (s', Inr res)"
    using d v g by (simp add: read_and_commit_def read_document_def read_version_def)
  from commit_current_reports [OF inv ok _ _ _ c(1)] d v r(1) c(2) have "icr_document res \<noteq> None \<and> icr_parsed_artifact res \<noteq> None"
    unfolding p(2) by auto
  with rc c(2) show ?thesis
    by (auto simp: settle_parser_result_def cand q orchestration_committed_def)
qed

lemma orchestration_activates:
  assumes call: "parser_call_ok cap (orq_operation request) (orq_source request) (orq_attempt request)"
    and ready: "ipd_ready (evaluate_preflight cap request)"
    and claim: "claim_parse_dispatch (orq_operation request) (orq_attempt request) (orq_expected_operation_state request)
      (orq_expected_operation_state_version request) (orq_expected_operation_fence request) (lifecycle_run es) = Inr (s1, c)"
      "dcl_outcome c = IngestionDispatchClaimOutcome.CLAIMED"
    and bytes: "int (length (orq_source_bytes request)) = sx_size_bytes (orq_source request)"
      "bytes_checksum (orq_source_bytes request) = sx_checksum_sha256 (orq_source request)"
    and parse: "private_parse lib (orq_source_bytes request) (sx_detected_media_type (orq_source request)) = Inr output"
    and sum: "sha256_text (pp_canonical_text output) = Inr checksum"
    and fresh: "ls_parsed_artifacts (lifecycle_run es) (parsed_artifact_id (orq_operation request)
      (parse_manifest cap (orq_operation request) (orq_source request) (orq_attempt request) output checksum)) = None"
  shows "\<exists>s' res. orchestrate_ingestion (\<lambda>_. []) cap (LocalControlledParserTransport lib cap) request (lifecycle_run es) = (s', Inr res) \<and>
    ior_outcome res = IngestionOrchestrationOutcome.SUCCEEDED \<and> ior_parser_calls res = 1"
proof -
  let ?op = "orq_operation request" and ?src = "orq_source request" and ?att = "orq_attempt request"
  let ?event = "ClaimDispatch ?op ?att (orq_expected_operation_state request)
    (orq_expected_operation_state_version request) (orq_expected_operation_fence request)"
  let ?cand = "\<lparr>pc_manifest = parse_manifest cap ?op ?src ?att output checksum, pc_canonical_text = pp_canonical_text output,
    pc_sections = pp_sections output\<rparr>"
  have pre: "preflight_ready (parser_preflight cap ?op (orq_version request) ?src ?att)"
    using ready by (auto simp: ipd_ready_def evaluate_preflight_def ingestion_preflight_decision_def Let_def split: if_splits)
  note parsed = controlled_parse_cases [OF call pre bytes parse sum]
  from controlled_candidate_validates [OF call parsed, of ?cand] obtain d where
    d: "evaluate_parsed_candidate ?op (orq_version request) ?src ?att ?cand = Inr d"
      "vc_outcome d = CandidateValidationOutcome.READY_FOR_COMMIT" by auto
  from claim_stored [OF claim] obtain r where r: "dcl_record c = Some r" "ls_operations s1 (io_operation_id ?op) = Some r"
    "ir_identity r = ?op" "ir_attempt r = Some ?att" "ir_state r = IngestionOperationState.PARSE_DISPATCH_STARTED" .
  have s1: "s1 = lifecycle_run (es @ [?event])"
    using step_of_claim [OF claim(1)] unfolding run_snoc by simp
  have fresh1: "ls_parsed_artifacts s1 (parsed_artifact_id ?op (pc_manifest ?cand)) = None"
    using fresh claim_keeps_artifacts [OF claim(1)] by simp
  obtain result where res: "result = \<lparr>par_outcome = ParserAdapterOutcome.CANDIDATE,
      par_safe_reason = ''PARSER_RETURNED_APPLICATION_CANDIDATE'', par_candidate = Some ?cand, par_parser_calls = 1,
      par_committer_calls = 0, par_durable_transitions = 0\<rparr>" by blast
  from settle_activates [OF _ _ d, of result "es @ [?event]" r] r(2-) fresh1 obtain s' out where
    settled: "settle_parser_result (\<lambda>_. []) request r result s1 = (s', Inr out)"
      "ior_outcome out = IngestionOrchestrationOutcome.SUCCEEDED" "ior_parser_calls out = 1"
    unfolding s1 [symmetric] by (auto simp: res)
  have "dispatch_claimed (\<lambda>_. []) (LocalControlledParserTransport lib cap) request r s1 = (s', Inr out)"
    using parsed settled(1) by (simp add: dispatch_claimed_def LocalControlledParserTransport_def res)
  then have "orchestrate_ingestion (\<lambda>_. []) cap (LocalControlledParserTransport lib cap) request (lifecycle_run es) = (s', Inr out)"
    using ready claim r(1) by (simp add: orchestrate_ingestion_def Let_def)
  with settled(2,3) show ?thesis by blast
qed

section \<open>An attempt is dispatched once\<close>

text \<open>The dispatches a list of requests is granted: the operation and the attempt of each granted claim.\<close>

fun claimed_by :: "LifecycleEvent \<Rightarrow> LifecycleStore \<Rightarrow> (string \<times> ParserAttemptIdentity) list" where
  "claimed_by (ClaimDispatch i a st sv f) s =
     (case claim_parse_dispatch i a st sv f s of
        Inl _ \<Rightarrow> []
      | Inr (_, c) \<Rightarrow> if dcl_outcome c = IngestionDispatchClaimOutcome.CLAIMED then [(io_operation_id i, a)] else [])"
| "claimed_by _ s = []"

fun dispatches :: "LifecycleEvent list \<Rightarrow> LifecycleStore \<Rightarrow> (string \<times> ParserAttemptIdentity) list" where
  "dispatches [] s = []"
| "dispatches (e # es) s = claimed_by e s @ dispatches es (lifecycle_step e s)"

lemma claimed_by_cases:
  assumes "(k, a) \<in> set (claimed_by e s)"
  obtains i st sv f s' c where "e = ClaimDispatch i a st sv f" "k = io_operation_id i"
    "claim_parse_dispatch i a st sv f s = Inr (s', c)" "dcl_outcome c = IngestionDispatchClaimOutcome.CLAIMED" "lifecycle_step e s = s'"
  using assms that by (cases "(e, s)" rule: claimed_by.cases) (auto simp: store_after_def eq_commute [of "Inr _" "claim_parse_dispatch _ _ _ _ _ _"] split: sum.splits if_splits)

lemma claim_next_attempt:
  assumes "claim_parse_dispatch i a st sv f s = Inr (s', c)" "dcl_outcome c = IngestionDispatchClaimOutcome.CLAIMED"
    and "ls_operations s (io_operation_id i) = Some r" "ir_attempt r = Some b"
  shows "pt_attempt_number a = pt_attempt_number b + 1"
  using assms by (auto simp: claim_parse_dispatch_def claim_result_def Let_def split: if_splits)

text \<open>Whatever comes, the attempts of an operation that has one have higher numbers.\<close>

lemma later_dispatches_higher:
  "(k, a) \<in> set (dispatches es s) \<Longrightarrow> ls_operations s k = Some r \<Longrightarrow> ir_attempt r = Some b \<Longrightarrow>
   pt_attempt_number b < pt_attempt_number a"
proof (induction es arbitrary: s r b)
  case (Cons e es)
  consider "(k, a) \<in> set (claimed_by e s)" | "(k, a) \<in> set (dispatches es (lifecycle_step e s))" using Cons.prems(1) by auto
  then show ?case
  proof cases
    case 1
    from claimed_by_cases [OF this] claim_next_attempt Cons.prems(2,3) show ?thesis by (metis less_add_one)
  next
    case 2
    from step_moves(4) [of s e] Cons.prems(2,3) obtain r' b' where
      "ls_operations (lifecycle_step e s) k = Some r'" "ir_attempt r' = Some b'" "pt_attempt_number b \<le> pt_attempt_number b'"
      unfolding attempts_advance_def by blast
    with Cons.IH [OF 2] show ?thesis by fastforce
  qed
qed simp

lemma dispatches_distinct: "distinct (map (\<lambda>(k, a). (k, pt_attempt_number a)) (dispatches es s))"
proof (induction es arbitrary: s)
  case (Cons e es)
  have "(k, pt_attempt_number a) \<noteq> (k', pt_attempt_number a')"
    if here: "(k, a) \<in> set (claimed_by e s)" and later: "(k', a') \<in> set (dispatches es (lifecycle_step e s))" for k a k' a'
  proof
    assume eq: "(k, pt_attempt_number a) = (k', pt_attempt_number a')"
    from claimed_by_cases [OF here] obtain i st sv f s' c where
      e: "e = ClaimDispatch i a st sv f" "k = io_operation_id i" "claim_parse_dispatch i a st sv f s = Inr (s', c)"
        "dcl_outcome c = IngestionDispatchClaimOutcome.CLAIMED" "lifecycle_step e s = s'" .
    from claim_stored [OF e(3,4)] e(2) obtain r where "ls_operations s' k = Some r" "ir_attempt r = Some a" by blast
    with later_dispatches_higher [OF later, of r a] eq e(5) show False by simp
  qed
  moreover have "distinct (map (\<lambda>(k, a). (k, pt_attempt_number a)) (claimed_by e s))"
    by (cases "(e, s)" rule: claimed_by.cases) (auto split: sum.splits)
  ultimately show ?case using Cons.IH by (force simp: image_iff)
qed simp

text \<open>The parser is reached through a granted claim only: otherwise no transport is called.\<close>

lemma parser_only_under_claim:
  assumes "\<not> ipd_ready (evaluate_preflight cap request) \<or>
    (\<forall>s1 c. claim_parse_dispatch (orq_operation request) (orq_attempt request) (orq_expected_operation_state request)
      (orq_expected_operation_state_version request) (orq_expected_operation_fence request) (fold lifecycle_step (others 0) s) =
        Inr (s1, c) \<longrightarrow> dcl_outcome c \<noteq> IngestionDispatchClaimOutcome.CLAIMED)"
  shows "orchestrate_ingestion others cap transport request s = orchestrate_ingestion others cap transport' request s"
  using assms
  by (auto simp: orchestrate_ingestion_def Let_def split: sum.splits prod.splits IngestionDispatchClaimOutcome.splits)

section \<open>A small ingestion\<close>

definition ingest_lib :: TextLibrary where
  "ingest_lib = \<lparr>tl_nfc = id, tl_html_events = (\<lambda>_. Inr [])\<rparr>"

definition ingest_source :: SourceArtifactReference where
  "ingest_source = run_source\<lparr>sx_checksum_sha256 := bytes_checksum ''a'', sx_size_bytes := 1\<rparr>"

definition ingest_capability :: ParserCapability where
  "ingest_capability = \<lparr>pca_parser_name = ''parser'', pca_parser_version = ''1'', pca_parse_contract_version = ''pc'',
     pca_parser_generation = 0, pca_supported_media_types = [''text/plain''], pca_maximum_input_bytes = 10\<rparr>"

definition ingest_request :: IngestionOrchestrationRequest where
  "ingest_request = \<lparr>orq_operation = run_io, orq_version = run_version, orq_source = ingest_source, orq_attempt = run_attempt,
     orq_source_bytes = ''a'', orq_expected_operation_state = IngestionOperationState.READY_FOR_DISPATCH,
     orq_expected_operation_state_version = 0, orq_expected_operation_fence = 0, orq_current_authorization = True,
     orq_parser_permit_current = True, orq_caller_intent_active = True, orq_cancelled = False, orq_now = 0, orq_deadline = 1,
     orq_capacity_admitted = True, orq_circuit_allows_request = True\<rparr>"

definition ingest_start :: "LifecycleEvent list" where
  "ingest_start = [Intake run_io run_version ingest_source]"

definition ingest_output :: PrivateParserOutput where
  "ingest_output = \<lparr>pp_canonical_text = [97], pp_sections = [[97]], pp_page_count = 1, pp_warnings = []\<rparr>"

lemmas ingest_defs = ingest_source_def ingest_capability_def ingest_request_def

lemma ingest_call: "parser_call_ok ingest_capability run_io ingest_source run_attempt"
  by (simp add: parser_call_ok_def ParserCapability_post_init_def IngestionOperationIdentity_post_init_def
      SourceArtifactReference_post_init_def ParserAttemptIdentity_post_init_def require_non_empty_def ingest_defs run_fields
      non_blank_sha256 non_blank_Cons byte_of_def is_space_def)

lemma ingest_ready: "ipd_ready (evaluate_preflight ingest_capability ingest_request)"
proof -
  have "preflight_ready (parser_preflight ingest_capability run_io run_version ingest_source run_attempt)"
    unfolding parser_preflight_ready_iff by (simp add: ingest_defs run_fields)
  then show ?thesis
    by (simp add: evaluate_preflight_def ipd_ready_def ingestion_preflight_decision_def ingest_request_def)
qed

lemma ingest_parses: "private_parse ingest_lib ''a'' ''text/plain'' = Inr ingest_output"
  by (simp add: private_parse_def canonicalize_def ingest_lib_def ingest_output_def byte_of_def strip_def lstrip_def rstrip_def
      is_space_def Let_def)

lemma ingest_encodes: "sha256_text (pp_canonical_text ingest_output) = Inr (text_checksum [97])"
  by (simp add: sha256_text_eq ingest_output_def surrogate_def)

lemma ingest_started:
  "ls_operations (lifecycle_run ingest_start) = [''op'' \<mapsto> new_operation run_io]"
  "ls_parsed_artifacts (lifecycle_run ingest_start) = Map.empty"
  using run_identities
  by (simp_all add: lifecycle_run_def ingest_start_def register_intake_def LifecycleStore_init_def intake_create_def
      source_fingerprint_of_def store_after_def add_event_def operation_event_def ingest_source_def run_fields Let_def)

lemma ingest_claim:
  obtains s1 c where "claim_parse_dispatch run_io run_attempt IngestionOperationState.READY_FOR_DISPATCH 0 0 (lifecycle_run ingest_start) =
    Inr (s1, c)" "dcl_outcome c = IngestionDispatchClaimOutcome.CLAIMED"
  by (simp add: claim_parse_dispatch_def ingest_started new_operation_def with_attempt_def IngestionOperationRecord_post_init_def
      run_fields Let_def)

lemma ingest_fields:
  "orq_operation ingest_request = run_io" "orq_version ingest_request = run_version" "orq_source ingest_request = ingest_source"
  "orq_attempt ingest_request = run_attempt" "orq_source_bytes ingest_request = ''a''"
  "orq_expected_operation_state ingest_request = IngestionOperationState.READY_FOR_DISPATCH"
  "orq_expected_operation_state_version ingest_request = 0" "orq_expected_operation_fence ingest_request = 0"
  "sx_size_bytes ingest_source = 1" "sx_checksum_sha256 ingest_source = bytes_checksum ''a''"
  "sx_detected_media_type ingest_source = ''text/plain''"
  by (simp_all add: ingest_request_def ingest_source_def run_source_def)

lemma ingest_succeeds:
  obtains s' res where "orchestrate_ingestion (\<lambda>_. []) ingest_capability (LocalControlledParserTransport ingest_lib ingest_capability)
      ingest_request (lifecycle_run ingest_start) = (s', Inr res)" "ior_outcome res = IngestionOrchestrationOutcome.SUCCEEDED"
proof -
  obtain s1 c where "claim_parse_dispatch run_io run_attempt IngestionOperationState.READY_FOR_DISPATCH 0 0 (lifecycle_run ingest_start) =
    Inr (s1, c)" "dcl_outcome c = IngestionDispatchClaimOutcome.CLAIMED" by (rule ingest_claim)
  with ingest_call ingest_ready ingest_parses that show thesis
    using orchestration_activates [of ingest_capability ingest_request ingest_start s1 c ingest_lib ingest_output "text_checksum [97]"]
    unfolding ingest_fields by (auto simp: ingest_started ingest_encodes)
qed

section \<open>Properties of an orchestration\<close>

text \<open>
  C21. Orchestration is sound under interference. Whatever requests other callers make between the
  calls of one orchestration, and whatever the parser transport does: the store it leaves is one the
  lifecycle requests lead to, so every invariant of the store holds; the orchestration raises only
  what the transport raises, what the constructor of the claimed record raises, or the encoding error
  of a returned candidate that passes every earlier check and whose text holds a lone surrogate, which
  the checksum of the validation does not catch; and when it reports success,
  the document is active with this version as its pointer, the version is active with the reported
  artifact, which is stored, the operation is completed, and the reported document version is the
  stored one.
\<close>

theorem orchestration_sound:
  assumes run: "orchestrate_ingestion others cap transport request (lifecycle_run es) = (s', out)"
  shows "(\<exists>later. s' = lifecycle_run (es @ later)) \<and>
    (\<forall>e. out = Inl e \<longrightarrow>
      transport (orq_operation request) (orq_version request) (orq_source request) (orq_attempt request) (orq_source_bytes request) = Raised e \<or>
      claim_parse_dispatch (orq_operation request) (orq_attempt request) (orq_expected_operation_state request)
        (orq_expected_operation_state_version request) (orq_expected_operation_fence request) (lifecycle_run (es @ others 0)) = Inl e \<or>
      e = UnicodeEncodeError \<and> (\<exists>result. unencodable_result request result \<and>
        transport (orq_operation request) (orq_version request) (orq_source request) (orq_attempt request) (orq_source_bytes request) =
          Returned result)) \<and>
    (\<forall>res. out = Inr res \<longrightarrow> ior_outcome res = IngestionOrchestrationOutcome.SUCCEEDED \<longrightarrow> observed s' (orq_operation request) res)"
  using orchestration_leads [OF run] .

theorem orchestration_sound_witness:
  "\<exists>s' res. orchestrate_ingestion (\<lambda>_. []) ingest_capability (LocalControlledParserTransport ingest_lib ingest_capability) ingest_request
     (lifecycle_run ingest_start) = (s', Inr res) \<and> ior_outcome res = IngestionOrchestrationOutcome.SUCCEEDED \<and> observed s' run_io res"
proof -
  obtain s' res where run: "orchestrate_ingestion (\<lambda>_. []) ingest_capability (LocalControlledParserTransport ingest_lib ingest_capability)
      ingest_request (lifecycle_run ingest_start) = (s', Inr res)" "ior_outcome res = IngestionOrchestrationOutcome.SUCCEEDED"
    by (rule ingest_succeeds)
  from orchestration_sound [OF run(1)] run(2) have "observed s' (orq_operation ingest_request) res" by blast
  with run show ?thesis unfolding ingest_fields by blast
qed

text \<open>
  C22. Ingestion goes through. When the preflight is ready, the operation can be claimed, the bytes are
  the admitted ones, the controlled parser can read them into a text that has an encoding, as every
  text decoded from UTF-8 does, and no artifact has the resulting id yet, an
  orchestration with the local transport that nobody interferes with succeeds: it claims, parses,
  validates, reads the guard and commits, and the document points to this version afterwards.
\<close>

theorem ingestion_reaches_active:
  assumes call: "parser_call_ok cap (orq_operation request) (orq_source request) (orq_attempt request)"
    and ready: "ipd_ready (evaluate_preflight cap request)"
    and claim: "claim_parse_dispatch (orq_operation request) (orq_attempt request) (orq_expected_operation_state request)
      (orq_expected_operation_state_version request) (orq_expected_operation_fence request) (lifecycle_run es) = Inr (s1, c)"
      "dcl_outcome c = IngestionDispatchClaimOutcome.CLAIMED"
    and bytes: "int (length (orq_source_bytes request)) = sx_size_bytes (orq_source request)"
      "bytes_checksum (orq_source_bytes request) = sx_checksum_sha256 (orq_source request)"
    and parse: "private_parse lib (orq_source_bytes request) (sx_detected_media_type (orq_source request)) = Inr output"
    and sum: "sha256_text (pp_canonical_text output) = Inr checksum"
    and fresh: "ls_parsed_artifacts (lifecycle_run es) (parsed_artifact_id (orq_operation request)
      (parse_manifest cap (orq_operation request) (orq_source request) (orq_attempt request) output checksum)) = None"
  shows "\<exists>s' res. orchestrate_ingestion (\<lambda>_. []) cap (LocalControlledParserTransport lib cap) request (lifecycle_run es) = (s', Inr res) \<and>
    ior_outcome res = IngestionOrchestrationOutcome.SUCCEEDED \<and> ior_parser_calls res = 1 \<and>
    observed s' (orq_operation request) res"
proof -
  from orchestration_activates [OF assms] obtain s' res where
    run: "orchestrate_ingestion (\<lambda>_. []) cap (LocalControlledParserTransport lib cap) request (lifecycle_run es) = (s', Inr res)"
      "ior_outcome res = IngestionOrchestrationOutcome.SUCCEEDED" "ior_parser_calls res = 1" by blast
  with orchestration_leads [OF run(1)] show ?thesis by blast
qed

theorem ingestion_reaches_active_witness:
  "\<exists>s' res. orchestrate_ingestion (\<lambda>_. []) ingest_capability (LocalControlledParserTransport ingest_lib ingest_capability) ingest_request
     (lifecycle_run ingest_start) = (s', Inr res) \<and> observed s' run_io res"
proof -
  obtain s1 c where "claim_parse_dispatch run_io run_attempt IngestionOperationState.READY_FOR_DISPATCH 0 0 (lifecycle_run ingest_start) =
    Inr (s1, c)" "dcl_outcome c = IngestionDispatchClaimOutcome.CLAIMED" by (rule ingest_claim)
  with ingest_call ingest_ready ingest_parses show ?thesis
    using ingestion_reaches_active [of ingest_capability ingest_request ingest_start s1 c ingest_lib ingest_output "text_checksum [97]"]
    unfolding ingest_fields by (auto simp: ingest_started ingest_encodes)
qed

text \<open>
  An attempt is dispatched to the parser once. In every history of requests, no two granted dispatch
  claims are for the same operation and attempt number, however claims, retries, recoveries and
  activations of different callers interleave.
\<close>

theorem attempts_dispatched_once:
  "distinct (map (\<lambda>(k, a). (k, pt_attempt_number a)) (dispatches es LifecycleStore_init))"
  by (rule dispatches_distinct)

end
