(* ===== verification/Ingestion_Recovery.thy ===== *)
theory Ingestion_Recovery
  imports Ingestion_Orchestration
begin

text \<open>
  \<^verbatim>\<open>src/projects/ai-agent/src/rag_ingestion_recovery.py\<close>: the recovery of an attempt whose outcome is
  unknown. It asks an authoritative registry, a protocol of the source and an argument here, and routes
  what it learns to the committer. As in \<open>Ingestion_Orchestration\<close>, \<open>others\<close> gives the requests of other
  callers the store serves between its calls.
\<close>

section \<open>Evidence and recovery\<close>

datatype AuthoritativeParseStatus = SUCCEEDED | FAILED | NOT_EXECUTED | NOT_FOUND | UNKNOWN

fun AuthoritativeParseStatus_value :: "AuthoritativeParseStatus \<Rightarrow> string" where
  "AuthoritativeParseStatus_value AuthoritativeParseStatus.SUCCEEDED = ''SUCCEEDED''"
| "AuthoritativeParseStatus_value AuthoritativeParseStatus.FAILED = ''FAILED''"
| "AuthoritativeParseStatus_value AuthoritativeParseStatus.NOT_EXECUTED = ''NOT_EXECUTED''"
| "AuthoritativeParseStatus_value AuthoritativeParseStatus.NOT_FOUND = ''NOT_FOUND''"
| "AuthoritativeParseStatus_value AuthoritativeParseStatus.UNKNOWN = ''UNKNOWN''"

datatype IngestionRecoveryOutcome =
  SUCCEEDED | FAILED_CONFIRMED | NOT_EXECUTED_CONFIRMED | PENDING_RECONCILIATION | AUTHORITY_BINDING_CONFLICT
| CANDIDATE_REJECTED | COMMIT_BLOCKED | OPERATION_NOT_RECOVERABLE

record AuthoritativeParseEvidence =
  ape_status :: AuthoritativeParseStatus
  ape_operation_id :: string
  ape_idempotency_key :: string
  ape_attempt_number :: int
  ape_parser_request_id :: string
  ape_parser_generation :: int
  ape_candidate :: "ParsedDocumentCandidate option"

definition AuthoritativeParseEvidence_post_init :: "AuthoritativeParseEvidence \<Rightarrow> AuthoritativeParseEvidence res" where
  "AuthoritativeParseEvidence_post_init e =
     (if (ape_status e = AuthoritativeParseStatus.SUCCEEDED) \<noteq> (ape_candidate e \<noteq> None)
      then Inl (ValueError ''only authoritative success carries a candidate'') else Inr e)"

record IngestionRecoveryPolicy =
  irp_maximum_queries :: int

definition IngestionRecoveryPolicy_post_init :: "IngestionRecoveryPolicy \<Rightarrow> IngestionRecoveryPolicy res" where
  "IngestionRecoveryPolicy_post_init p =
     (if irp_maximum_queries p \<le> 0 then Inl (ValueError ''reconciliation query budget must be positive'') else Inr p)"

record IngestionRecoveryResult =
  irr_outcome :: IngestionRecoveryOutcome
  irr_safe_reason :: string
  irr_registry_queries :: int
  irr_parser_transport_calls :: int
  irr_parser_calls :: int
  irr_candidate_validation_calls :: int
  irr_committer_calls :: int
  irr_durable_transitions :: int
  irr_requery_scheduled :: bool
  irr_operator_alert_required :: bool

definition recovery_result :: "IngestionRecoveryOutcome \<Rightarrow> string \<Rightarrow> int \<Rightarrow> int \<Rightarrow> int \<Rightarrow> IngestionRecoveryResult" where
  "recovery_result outcome reason queries committer_calls transitions =
     \<lparr>irr_outcome = outcome, irr_safe_reason = reason, irr_registry_queries = queries, irr_parser_transport_calls = 0,
      irr_parser_calls = 0, irr_candidate_validation_calls = 0, irr_committer_calls = committer_calls,
      irr_durable_transitions = transitions, irr_requery_scheduled = False, irr_operator_alert_required = False\<rparr>"

definition evidence_binds :: "AuthoritativeParseEvidence \<Rightarrow> IngestionOperationIdentity \<Rightarrow> ParserAttemptIdentity \<Rightarrow> bool" where
  "evidence_binds evidence operation attempt \<longleftrightarrow>
     ape_operation_id evidence = io_operation_id operation \<and> ape_idempotency_key evidence = io_idempotency_key operation \<and>
     ape_attempt_number evidence = pt_attempt_number attempt \<and>
     ape_parser_request_id evidence = pt_parser_request_id attempt \<and>
     ape_parser_generation evidence = pt_parser_generation attempt"

type_synonym parse_registry = "IngestionOperationIdentity \<Rightarrow> ParserAttemptIdentity \<Rightarrow> AuthoritativeParseEvidence res"

text \<open>Evidence of a successful parse: the same validation and commit as after a parser result.\<close>

definition recover_success ::
    "(nat \<Rightarrow> LifecycleEvent list) \<Rightarrow> IngestionOperationIdentity \<Rightarrow> DocumentVersionDefinition \<Rightarrow> SourceArtifactReference
      \<Rightarrow> ParserAttemptIdentity \<Rightarrow> ParsedDocumentCandidate \<Rightarrow> IngestionOperationRecord \<Rightarrow> int \<Rightarrow> int \<Rightarrow> LifecycleStore
      \<Rightarrow> LifecycleStore \<times> IngestionRecoveryResult res" where
  "recover_success others operation version source attempt candidate current calls transitions s =
     (case evaluate_parsed_candidate operation version source attempt candidate of
        Inl e \<Rightarrow> (s, Inl e)
      | Inr validation \<Rightarrow>
          if vc_outcome validation \<noteq> CandidateValidationOutcome.READY_FOR_COMMIT
          then (s, Inr ((recovery_result IngestionRecoveryOutcome.CANDIDATE_REJECTED (vc_safe_reason validation) 1 calls transitions)
                   \<lparr>irr_candidate_validation_calls := 1, irr_operator_alert_required := True\<rparr>))
          else
            (case read_and_commit others 3 IngestionOperationState.PENDING_RECONCILIATION operation current validation s of
               (s', Inl e) \<Rightarrow> (s', Inl e)
             | (s', Inr committed) \<Rightarrow>
                 (s', Inr (if icr_outcome committed \<notin> {IngestionCommitOutcome.COMMITTED, IngestionCommitOutcome.ALREADY_COMMITTED}
                    then (recovery_result IngestionRecoveryOutcome.COMMIT_BLOCKED (icr_safe_reason committed) 1
                            (calls + icr_committer_calls committed) transitions)\<lparr>irr_candidate_validation_calls := 1\<rparr>
                    else (recovery_result IngestionRecoveryOutcome.SUCCEEDED ''AUTHORITATIVE_PARSE_SUCCESS_COMMITTED'' 1
                            (calls + icr_committer_calls committed) (transitions + of_bool (icr_durable_transition committed)))
                           \<lparr>irr_candidate_validation_calls := 1\<rparr>))))"

text \<open>From the record of a pending operation: query the registry and act on what it says.\<close>

definition recover_pending ::
    "(nat \<Rightarrow> LifecycleEvent list) \<Rightarrow> parse_registry \<Rightarrow> IngestionRecoveryPolicy \<Rightarrow> IngestionOperationIdentity
      \<Rightarrow> DocumentVersionDefinition \<Rightarrow> SourceArtifactReference \<Rightarrow> int \<Rightarrow> IngestionOperationRecord \<Rightarrow> int \<Rightarrow> int \<Rightarrow> LifecycleStore
      \<Rightarrow> LifecycleStore \<times> IngestionRecoveryResult res" where
  "recover_pending others registry policy operation version source query_number current calls transitions s =
     (case ir_attempt current of
        None \<Rightarrow> (s, Inl AssertionError)
      | Some attempt \<Rightarrow>
          let s = fold lifecycle_step (others 2) s in
          (case registry operation attempt of
             Inl e \<Rightarrow> (s, Inl e)
           | Inr evidence \<Rightarrow>
               if \<not> evidence_binds evidence operation attempt
               then (s, Inr ((recovery_result IngestionRecoveryOutcome.AUTHORITY_BINDING_CONFLICT
                                ''AUTHORITATIVE_EVIDENCE_BINDING_CONFLICT'' 1 calls transitions)\<lparr>irr_operator_alert_required := True\<rparr>))
               else if ape_status evidence \<in> {AuthoritativeParseStatus.NOT_FOUND, AuthoritativeParseStatus.UNKNOWN}
               then let budget_remaining = query_number < irp_maximum_queries policy in
                    (s, Inr ((recovery_result IngestionRecoveryOutcome.PENDING_RECONCILIATION
                                (AuthoritativeParseStatus_value (ape_status evidence)) 1 calls transitions)
                       \<lparr>irr_requery_scheduled := budget_remaining, irr_operator_alert_required := \<not> budget_remaining\<rparr>))
               else if ape_status evidence \<in> {AuthoritativeParseStatus.FAILED, AuthoritativeParseStatus.NOT_EXECUTED}
               then let target = (if ape_status evidence = AuthoritativeParseStatus.FAILED then IngestionOperationState.FAILED
                                  else IngestionOperationState.PROVEN_NOT_EXECUTED) in
                    (case commit_authoritative_reconciliation operation target (ir_state_version current) (ir_fence_token current) s of
                       Inl e \<Rightarrow> (s, Inl e)
                     | Inr (s', committed) \<Rightarrow>
                         (s', Inr (recovery_result
                            (if target = IngestionOperationState.FAILED then IngestionRecoveryOutcome.FAILED_CONFIRMED
                             else IngestionRecoveryOutcome.NOT_EXECUTED_CONFIRMED)
                            (AuthoritativeParseStatus_value (ape_status evidence)) 1 (calls + otr_committer_calls committed)
                            (transitions + of_bool (otr_durable_transition committed)))))
               else (case ape_candidate evidence of
                 None \<Rightarrow> (s, Inl AssertionError)
               | Some candidate \<Rightarrow> recover_success others operation version source attempt candidate current calls transitions s)))"

text \<open>From the record of a dispatched operation: make it pending first.\<close>

definition recover_started ::
    "(nat \<Rightarrow> LifecycleEvent list) \<Rightarrow> parse_registry \<Rightarrow> IngestionRecoveryPolicy \<Rightarrow> IngestionOperationIdentity
      \<Rightarrow> DocumentVersionDefinition \<Rightarrow> SourceArtifactReference \<Rightarrow> int \<Rightarrow> IngestionOperationRecord \<Rightarrow> LifecycleStore
      \<Rightarrow> LifecycleStore \<times> IngestionRecoveryResult res" where
  "recover_started others registry policy operation version source query_number current s =
     (let s = fold lifecycle_step (others 1) s in
      case mark_pending_reconciliation operation (ir_state_version current) (ir_fence_token current) s of
        Inl e \<Rightarrow> (s, Inl e)
      | Inr (s', pending) \<Rightarrow>
          (case otr_record pending of
             None \<Rightarrow> (s', Inr (recovery_result IngestionRecoveryOutcome.COMMIT_BLOCKED
                        ''PENDING_RECONCILIATION_TRANSITION_BLOCKED'' 0 (otr_committer_calls pending)
                        (of_bool (otr_durable_transition pending))))
           | Some record' \<Rightarrow>
               recover_pending others registry policy operation version source query_number record'
                 (otr_committer_calls pending) (of_bool (otr_durable_transition pending)) s'))"

definition recover_ingestion ::
    "(nat \<Rightarrow> LifecycleEvent list) \<Rightarrow> parse_registry \<Rightarrow> IngestionRecoveryPolicy \<Rightarrow> IngestionOperationIdentity
      \<Rightarrow> DocumentVersionDefinition \<Rightarrow> SourceArtifactReference \<Rightarrow> int \<Rightarrow> LifecycleStore
      \<Rightarrow> LifecycleStore \<times> IngestionRecoveryResult res" where
  "recover_ingestion others registry policy operation version source query_number s =
     (if query_number \<le> 0 then (s, Inl (ValueError ''reconciliation query number must be positive''))
      else
        let s = fold lifecycle_step (others 0) s in
        (case read_operation s (io_operation_id operation) of
           Inl e \<Rightarrow> (s, Inl e)
         | Inr current \<Rightarrow>
             if ir_identity current \<noteq> operation \<or> ir_attempt current = None
             then (s, Inr (recovery_result IngestionRecoveryOutcome.OPERATION_NOT_RECOVERABLE
                             ''RECOVERY_OPERATION_BINDING_IS_INCOMPLETE'' 0 0 0))
             else if ir_state current = IngestionOperationState.PARSE_DISPATCH_STARTED
             then
               recover_started others registry policy operation version source query_number current s
             else if ir_state current \<noteq> IngestionOperationState.PENDING_RECONCILIATION
             then (s, Inr (recovery_result IngestionRecoveryOutcome.OPERATION_NOT_RECOVERABLE
                             ''OPERATION_IS_NOT_PENDING_RECONCILIATION'' 0 0 0))
             else recover_pending others registry policy operation version source query_number current 0 0 s))"
section \<open>Recovery is sound\<close>

text \<open>The registry has said this of the operation, in evidence bound to one of its attempts.\<close>

definition evidence_for :: "parse_registry \<Rightarrow> IngestionOperationIdentity \<Rightarrow> AuthoritativeParseStatus \<Rightarrow> bool" where
  "evidence_for registry operation status \<longleftrightarrow> (\<exists>attempt evidence. registry operation attempt = Inr evidence \<and>
     evidence_binds evidence operation attempt \<and> ape_status evidence = status)"

text \<open>What a recovery may answer: every final answer rests on bound evidence.\<close>

definition recovered :: "parse_registry \<Rightarrow> IngestionOperationIdentity \<Rightarrow> LifecycleStore \<Rightarrow> IngestionRecoveryResult \<Rightarrow> bool" where
  "recovered registry operation s res \<longleftrightarrow>
     (irr_outcome res = IngestionRecoveryOutcome.SUCCEEDED \<longrightarrow>
        evidence_for registry operation AuthoritativeParseStatus.SUCCEEDED \<and> (\<exists>d a. active_with s operation d a)) \<and>
     (irr_outcome res = IngestionRecoveryOutcome.FAILED_CONFIRMED \<longrightarrow>
        evidence_for registry operation AuthoritativeParseStatus.FAILED) \<and>
     (irr_outcome res = IngestionRecoveryOutcome.NOT_EXECUTED_CONFIRMED \<longrightarrow>
        evidence_for registry operation AuthoritativeParseStatus.NOT_EXECUTED)"

lemma recover_success_ok:
  assumes val: "evaluate_parsed_candidate operation version source attempt candidate = Inr validation"
    and ev: "evidence_for registry operation AuthoritativeParseStatus.SUCCEEDED"
    and v: "ls_versions (lifecycle_run es) (version_key (io_version operation)) \<noteq> None"
    and current: "0 \<le> ir_state_version current" "0 \<le> ir_fence_token current"
  shows "\<exists>s' res. recover_success others operation version source attempt candidate current calls transitions (lifecycle_run es) =
      (s', Inr res) \<and> leads_to (lifecycle_run es) s' \<and> recovered registry operation s' res"
proof -
  show ?thesis
  proof (cases "vc_outcome validation = CandidateValidationOutcome.READY_FOR_COMMIT")
    case False
    with val show ?thesis by (simp add: recover_success_def recovery_result_def recovered_def)
  next
    case True
    from read_and_commit_ok [OF val v current, of others 3 IngestionOperationState.PENDING_RECONCILIATION] obtain t c where
      rc: "read_and_commit others 3 IngestionOperationState.PENDING_RECONCILIATION operation current validation
          (lifecycle_run es) = (t, Inr c)" "leads_to (lifecycle_run es) t"
        "icr_outcome c \<in> {IngestionCommitOutcome.COMMITTED, IngestionCommitOutcome.ALREADY_COMMITTED} \<Longrightarrow>
          \<exists>d a. icr_document c = Some d \<and> icr_parsed_artifact c = Some a \<and> active_with t operation d (px_parsed_artifact_id a)" by blast
    show ?thesis
    proof (cases "icr_outcome c \<in> {IngestionCommitOutcome.COMMITTED, IngestionCommitOutcome.ALREADY_COMMITTED}")
      case stored: True
      with rc(3) have "\<exists>d a. active_with t operation d a" by blast
      with stored val True rc(1,2) ev show ?thesis by (simp add: recover_success_def recovery_result_def recovered_def)
    next
      case False
      with val True rc(1,2) show ?thesis by (simp add: recover_success_def recovery_result_def recovered_def)
    qed
  qed
qed

definition registry_raises :: "parse_registry \<Rightarrow> IngestionOperationIdentity \<Rightarrow> exn \<Rightarrow> bool" where
  "registry_raises registry operation e \<longleftrightarrow> (\<exists>attempt. registry operation attempt = Inl e \<or>
     (\<exists>evidence. registry operation attempt = Inr evidence \<and> \<not> is_ok (AuthoritativeParseEvidence_post_init evidence)))"

text \<open>The registry answers with bound evidence of success whose candidate passes every check before the
  checksum and whose text has no encoding.\<close>

definition unencodable_evidence ::
    "parse_registry \<Rightarrow> IngestionOperationIdentity \<Rightarrow> DocumentVersionDefinition \<Rightarrow> SourceArtifactReference \<Rightarrow> bool" where
  "unencodable_evidence registry operation version source \<longleftrightarrow> (\<exists>attempt evidence candidate.
     registry operation attempt = Inr evidence \<and> evidence_binds evidence operation attempt \<and>
     ape_status evidence = AuthoritativeParseStatus.SUCCEEDED \<and> ape_candidate evidence = Some candidate \<and>
     reaches_checksum operation version source attempt candidate \<and> \<not> encodable (pc_canonical_text candidate))"

definition recovery_raises ::
    "parse_registry \<Rightarrow> IngestionOperationIdentity \<Rightarrow> DocumentVersionDefinition \<Rightarrow> SourceArtifactReference \<Rightarrow> exn \<Rightarrow> bool" where
  "recovery_raises registry operation version source e \<longleftrightarrow> registry_raises registry operation e \<or>
     e = UnicodeEncodeError \<and> unencodable_evidence registry operation version source"

lemma recover_pending_ok:
  assumes run: "recover_pending others registry policy operation version source n current calls transitions (lifecycle_run es) = (s', out)"
    and v: "ls_versions (lifecycle_run es) (version_key (io_version operation)) \<noteq> None"
    and current: "0 \<le> ir_state_version current" "0 \<le> ir_fence_token current" "ir_attempt current = Some attempt"
  shows "leads_to (lifecycle_run es) s' \<and> (\<forall>e. out = Inl e \<longrightarrow> recovery_raises registry operation version source e) \<and>
    (\<forall>res. out = Inr res \<longrightarrow> recovered registry operation s' res)"
proof -
  let ?s = "lifecycle_run (es @ others 2)"
  have s: "fold lifecycle_step (others 2) (lifecycle_run es) = ?s" by (simp add: run_append)
  have lead: "leads_to (lifecycle_run es) t" if "leads_to ?s t" for t using that by (auto simp: leads_to_run)
  have here: "leads_to (lifecycle_run es) ?s" by (rule lead) simp
  note run = run [unfolded recover_pending_def current(3) option.case Let_def s]
  show ?thesis
  proof (cases "registry operation attempt")
    case (Inl e)
    with run here show ?thesis by (auto simp: recovery_raises_def registry_raises_def)
  next
    case (Inr evidence)
    show ?thesis
    proof (cases "evidence_binds evidence operation attempt")
      case False
      with run Inr here show ?thesis by (auto simp: recovery_result_def recovered_def)
    next
      case binds: True
      then have ev: "evidence_for registry operation (ape_status evidence)" using Inr by (auto simp: evidence_for_def)
      consider (pend) "ape_status evidence \<in> {AuthoritativeParseStatus.NOT_FOUND, AuthoritativeParseStatus.UNKNOWN}"
        | (final) "ape_status evidence \<in> {AuthoritativeParseStatus.FAILED, AuthoritativeParseStatus.NOT_EXECUTED}"
        | (success) "ape_status evidence = AuthoritativeParseStatus.SUCCEEDED"
        by (cases "ape_status evidence") auto
      then show ?thesis
      proof cases
        case pend
        with run Inr binds here show ?thesis by (auto simp: recovery_result_def recovered_def)
      next
        case final
        define target where "target = (if ape_status evidence = AuthoritativeParseStatus.FAILED then IngestionOperationState.FAILED
          else IngestionOperationState.PROVEN_NOT_EXECUTED)"
        have "target \<in> {IngestionOperationState.FAILED, IngestionOperationState.PROVEN_NOT_EXECUTED}" by (simp add: target_def)
        from reconcile_total [OF this, of operation "ir_state_version current" "ir_fence_token current" "es @ others 2"]
        obtain t c where c: "commit_authoritative_reconciliation operation target (ir_state_version current) (ir_fence_token current) ?s =
          Inr (t, c)" by blast
        have "leads_to (lifecycle_run es) t" unfolding step_of_reconcile [OF c] by (intro leads_to_step here)
        with run Inr binds final c ev show ?thesis
          unfolding target_def [symmetric] by (auto simp: recovery_result_def recovered_def target_def)
      next
        case success
        show ?thesis
        proof (cases "ape_candidate evidence")
          case None
          with run Inr binds success here show ?thesis
            by (auto simp: recovery_raises_def registry_raises_def AuthoritativeParseEvidence_post_init_def is_ok_def intro!: exI [of _ attempt])
        next
          case (Some candidate)
          with run Inr binds success have
            ok: "recover_success others operation version source attempt candidate current calls transitions ?s = (s', out)" by simp
          have "ls_versions ?s (version_key (io_version operation)) \<noteq> None"
            using v versions.run_evolves [of "lifecycle_run es" "version_key (io_version operation)" _ "others 2"] unfolding run_append by fastforce
          note v' = this
          show ?thesis
          proof (cases "evaluate_parsed_candidate operation version source attempt candidate")
            case (Inl e)
            with ok have "s' = ?s" "out = Inl e" by (auto simp: recover_success_def)
            moreover have "e = UnicodeEncodeError \<and> unencodable_evidence registry operation version source"
              using Inl [unfolded evaluate_parsed_candidate_raises] binds success Some \<open>registry operation attempt = Inr evidence\<close>
              by (auto simp: unencodable_evidence_def)
            ultimately show ?thesis using here by (auto simp: recovery_raises_def)
          next
            case val: (Inr validation)
            from recover_success_ok [OF val ev [unfolded success] v' current(1,2), of others calls transitions] ok lead
            show ?thesis by auto
          qed
        qed
      qed
    qed
  qed
qed

text \<open>The record a transition to pending answers with is stored.\<close>

lemma pending_record_stored:
  assumes "mark_pending_reconciliation i sv f s = Inr (s', p)" "otr_record p = Some r"
  shows "ls_operations s' (io_operation_id i) = Some r \<and> ir_identity r = i"
  using assms
  by (auto simp: mark_pending_reconciliation_def current_operation_def transition_result_def bind_res_eq_Inr add_event_fields
      advance_operation_def split: option.splits if_splits dest!: operation_post_init_id)

lemma stored_operation_version:
  assumes "ls_operations (lifecycle_run es) (io_operation_id i) = Some r" "ir_identity r = i"
  shows "ls_versions (lifecycle_run es) (version_key (io_version i)) \<noteq> None"
  using inv_dest(3) [OF lifecycle_run_inv assms(1)] assms(2) by (auto simp: operation_ok_def)

lemma attempt_kept:
  assumes "ls_operations s k = Some r" "ir_attempt r \<noteq> None"
  shows "\<exists>r'. ls_operations (fold lifecycle_step es s) k = Some r' \<and> ir_attempt r' \<noteq> None"
  using assms
proof (induction es arbitrary: s r)
  case (Cons e es)
  from Cons.prems step_moves(4) [of s e] obtain r' where "ls_operations (lifecycle_step e s) k = Some r'" "ir_attempt r' \<noteq> None"
    unfolding attempts_advance_def by blast
  from Cons.IH [OF this] show ?case by simp
qed simp

lemma recover_started_ok:
  assumes run: "recover_started others registry policy operation version source n r (lifecycle_run es) = (s', out)"
    and r: "ls_operations (lifecycle_run es) (io_operation_id operation) = Some r" "ir_attempt r \<noteq> None"
  shows "leads_to (lifecycle_run es) s' \<and> (\<forall>e. out = Inl e \<longrightarrow> recovery_raises registry operation version source e) \<and>
    (\<forall>res. out = Inr res \<longrightarrow> recovered registry operation s' res)"
proof -
  from mark_pending_total obtain t p where
    p: "mark_pending_reconciliation operation (ir_state_version r) (ir_fence_token r) (lifecycle_run (es @ others 1)) = Inr (t, p)" by blast
  let ?es = "es @ others 1 @ [MarkPending operation (ir_state_version r) (ir_fence_token r)]"
  have t: "t = lifecycle_run ?es" using step_of_pending [OF p] run_snoc [of "es @ others 1"] by simp
  have lead: "leads_to (lifecycle_run es) s'" if "leads_to t s'" using that unfolding t by (auto simp: leads_to_run)
  show ?thesis
  proof (cases "otr_record p")
    case None
    with run p lead show ?thesis by (auto simp: recover_started_def run_append recovery_result_def recovered_def)
  next
    case (Some r')
    note r' = pending_record_stored [OF p Some]
    obtain a' where a': "ir_attempt r' = Some a'"
      using attempt_kept [OF r, of "others 1 @ [MarkPending operation (ir_state_version r) (ir_fence_token r)]"] r'
      unfolding t by (auto simp: run_append)
    from run p Some have "recover_pending others registry policy operation version source n r' (otr_committer_calls p)
        (of_bool (otr_durable_transition p)) t = (s', out)" by (simp add: recover_started_def run_append)
    from recover_pending_ok [OF this [unfolded t] _ _ _ a'] stored_operation_version r' t
      stored_operation_counters [of ?es "io_operation_id operation" r'] lead show ?thesis by auto
  qed
qed

text \<open>
  C23. Recovery is sound under interference. Whatever other callers do between its calls and whatever
  the registry answers, a recovery leaves a store the lifecycle requests lead to. It raises only for a
  query number that is not positive, an unknown operation, what the registry raises or answers with
  malformed evidence, or the encoding error of bound evidence of success whose candidate passes every
  earlier check and whose text holds a lone surrogate. It reports success only on bound evidence of
  success and with the version active in the store it leaves, a confirmed failure only on bound
  evidence of failure, and a confirmed non-execution only on bound evidence of that.
\<close>

theorem recovery_sound:
  assumes run: "recover_ingestion others registry policy operation version source n (lifecycle_run es) = (s', out)"
  shows "(\<exists>later. s' = lifecycle_run (es @ later)) \<and>
    (\<forall>e. out = Inl e \<longrightarrow> n \<le> 0 \<or> ls_operations (lifecycle_run (es @ others 0)) (io_operation_id operation) = None \<or>
      recovery_raises registry operation version source e) \<and>
    (\<forall>res. out = Inr res \<longrightarrow> recovered registry operation s' res)"
    (is "?reach \<and> ?raises \<and> ?reports")
proof -
  let ?s = "lifecycle_run (es @ others 0)"
  have lead: ?reach if "leads_to ?s s'" using that by (auto simp: leads_to_run)
  consider (bad) "n \<le> 0" | (none) "0 < n" "ls_operations ?s (io_operation_id operation) = None"
    | (rec) r where "0 < n" "ls_operations ?s (io_operation_id operation) = Some r"
    by (cases "ls_operations ?s (io_operation_id operation)") (meson not_less)+
  then show ?thesis
  proof cases
    case bad
    with run show ?thesis by (auto simp: recover_ingestion_def intro: exI [of _ "[]"])
  next
    case none
    with run lead show ?thesis by (auto simp: recover_ingestion_def read_operation_def run_append Let_def)
  next
    case rec
    note run = run [unfolded recover_ingestion_def Let_def run_append [symmetric] read_operation_def rec(2)]
    show ?thesis
    proof (cases "ir_identity r = operation \<and> ir_attempt r \<noteq> None \<and>
        ir_state r \<in> {IngestionOperationState.PARSE_DISPATCH_STARTED, IngestionOperationState.PENDING_RECONCILIATION}")
      case False
      with run rec(1) lead show ?thesis
        by (auto simp: recovery_result_def recovered_def split: if_splits)
    next
      case True
      then obtain a where r: "ir_identity r = operation" "ir_attempt r = Some a" by auto
      show ?thesis
      proof (cases "ir_state r = IngestionOperationState.PENDING_RECONCILIATION")
        case pending: True
        with run rec(1) r have "recover_pending others registry policy operation version source n r 0 0 ?s = (s', out)" by simp
        from recover_pending_ok [OF this stored_operation_version [OF rec(2) r(1)] _ _ r(2)]
          stored_operation_counters [OF rec(2)] lead show ?thesis by auto
      next
        case False
        with run rec(1) r True have "recover_started others registry policy operation version source n r ?s = (s', out)" by simp
        from recover_started_ok [OF this rec(2)] r(2) lead show ?thesis by auto
      qed
    qed
  qed
qed

section \<open>A recovery\<close>

definition run_evidence :: "AuthoritativeParseStatus \<Rightarrow> AuthoritativeParseEvidence" where
  "run_evidence st = \<lparr>ape_status = st, ape_operation_id = ''op'', ape_idempotency_key = ''key'', ape_attempt_number = 1,
     ape_parser_request_id = ''r'', ape_parser_generation = 0, ape_candidate = None\<rparr>"

definition run_pending :: IngestionOperationRecord where
  "run_pending = advance_operation IngestionOperationState.PENDING_RECONCILIATION run_operation"

lemma run_binds: "evidence_binds (run_evidence st) run_io run_attempt"
  by (simp add: evidence_binds_def run_evidence_def run_fields)

lemma run_mark_pending:
  obtains s1 where "mark_pending_reconciliation run_io 1 1 (lifecycle_run run_start) =
      Inr (s1, transition_result IngestionOperationTransitionOutcome.COMMITTED (Some run_pending) True)"
    "ls_operations s1 = [''op'' \<mapsto> run_pending]"
  by (simp add: mark_pending_reconciliation_def current_operation_def run_started run_ids run_operation_def guarded_operation_def
      advance_operation_def IngestionOperationRecord_post_init_def run_pending_def add_event_fields run_attempt_def run_io_def)

lemma run_reconciles:
  assumes "ls_operations s = [''op'' \<mapsto> run_pending]"
    and "target \<in> {IngestionOperationState.FAILED, IngestionOperationState.PROVEN_NOT_EXECUTED}"
  obtains s' c where "commit_authoritative_reconciliation run_io target 2 2 s = Inr (s', c)"
    "ls_operations s' = [''op'' \<mapsto> advance_operation target run_pending]"
  using assms
  by (auto simp: commit_authoritative_reconciliation_def current_operation_def run_ids run_pending_def run_operation_def
      guarded_operation_def advance_operation_def IngestionOperationRecord_post_init_def add_event_fields run_attempt_def run_io_def Let_def)

text \<open>The recovery of the started operation when the registry answers that the parse has failed.\<close>

lemma run_recovery:
  assumes "others 0 = []" "others 1 = []"
    and "mark_pending_reconciliation run_io 1 1 (lifecycle_run run_start) =
      Inr (s1, transition_result IngestionOperationTransitionOutcome.COMMITTED (Some run_pending) True)"
    and "commit_authoritative_reconciliation run_io IngestionOperationState.FAILED 2 2 (fold lifecycle_step (others 2) s1) = Inr (s2, c)"
  shows "\<exists>res. recover_ingestion others (\<lambda>_ _. Inr (run_evidence AuthoritativeParseStatus.FAILED)) \<lparr>irp_maximum_queries = 1\<rparr> run_io
      run_version run_source 1 (lifecycle_run run_start) = (s2, Inr res) \<and> irr_outcome res = IngestionRecoveryOutcome.FAILED_CONFIRMED"
proof -
  have p: "ir_attempt run_pending = Some run_attempt" "ir_state_version run_pending = 2" "ir_fence_token run_pending = 2"
    by (simp_all add: run_pending_def advance_operation_def run_operation_def)
  have r: "ir_identity run_operation = run_io" "ir_attempt run_operation = Some run_attempt" "ir_state_version run_operation = 1"
    "ir_fence_token run_operation = 1" "ir_state run_operation = IngestionOperationState.PARSE_DISPATCH_STARTED"
    by (simp_all add: run_operation_def)
  show ?thesis
    using assms p r run_binds [of AuthoritativeParseStatus.FAILED]
    by (simp add: recover_ingestion_def read_operation_def run_started run_ids transition_result_def recover_started_def recover_pending_def
        Let_def recovery_result_def run_evidence_def [of AuthoritativeParseStatus.FAILED])
qed

theorem recovery_sound_witness:
  "\<exists>s' res. recover_ingestion (\<lambda>_. []) (\<lambda>_ _. Inr (run_evidence AuthoritativeParseStatus.FAILED)) \<lparr>irp_maximum_queries = 1\<rparr> run_io
      run_version run_source 1 (lifecycle_run run_start) = (s', Inr res) \<and> irr_outcome res = IngestionRecoveryOutcome.FAILED_CONFIRMED \<and>
    recovered (\<lambda>_ _. Inr (run_evidence AuthoritativeParseStatus.FAILED)) run_io s' res"
proof -
  obtain s1 where m: "mark_pending_reconciliation run_io 1 1 (lifecycle_run run_start) =
      Inr (s1, transition_result IngestionOperationTransitionOutcome.COMMITTED (Some run_pending) True)"
    and s1: "ls_operations s1 = [''op'' \<mapsto> run_pending]" by (rule run_mark_pending)
  obtain s2 c where c: "commit_authoritative_reconciliation run_io IngestionOperationState.FAILED 2 2 s1 = Inr (s2, c)"
    by (rule run_reconciles [OF s1, of IngestionOperationState.FAILED]) simp_all
  from run_recovery [OF _ _ m, of "\<lambda>_. []" s2 c] c obtain res where
    run: "recover_ingestion (\<lambda>_. []) (\<lambda>_ _. Inr (run_evidence AuthoritativeParseStatus.FAILED)) \<lparr>irp_maximum_queries = 1\<rparr> run_io
      run_version run_source 1 (lifecycle_run run_start) = (s2, Inr res)" "irr_outcome res = IngestionRecoveryOutcome.FAILED_CONFIRMED" by auto
  from recovery_sound [OF run(1)] run show ?thesis by blast
qed

text \<open>
  A confirmed failure need not be a stored one. The result of the recovery ignores what the reconciling
  transition answered: when another caller has reconciled the operation during the query, as not
  executed and so open to a retry, the transition is stale, and the recovery still reports
  \<open>FAILED_CONFIRMED\<close>.
\<close>

lemma stale_reconciliation_reported_confirmed:
  fixes others
  defines "others \<equiv> (\<lambda>_. [])(2 := [Reconcile run_io IngestionOperationState.PROVEN_NOT_EXECUTED 2 2])"
  shows "\<exists>s' res. recover_ingestion others (\<lambda>_ _. Inr (run_evidence AuthoritativeParseStatus.FAILED)) \<lparr>irp_maximum_queries = 1\<rparr> run_io
      run_version run_source 1 (lifecycle_run run_start) = (s', Inr res) \<and> irr_outcome res = IngestionRecoveryOutcome.FAILED_CONFIRMED \<and>
    map_option ir_state (ls_operations s' ''op'') = Some IngestionOperationState.PROVEN_NOT_EXECUTED"
proof -
  obtain s1 where m: "mark_pending_reconciliation run_io 1 1 (lifecycle_run run_start) =
      Inr (s1, transition_result IngestionOperationTransitionOutcome.COMMITTED (Some run_pending) True)"
    and s1: "ls_operations s1 = [''op'' \<mapsto> run_pending]" by (rule run_mark_pending)
  obtain s2 c where c: "commit_authoritative_reconciliation run_io IngestionOperationState.PROVEN_NOT_EXECUTED 2 2 s1 = Inr (s2, c)"
    and s2: "ls_operations s2 = [''op'' \<mapsto> advance_operation IngestionOperationState.PROVEN_NOT_EXECUTED run_pending]"
    by (rule run_reconciles [OF s1, of IngestionOperationState.PROVEN_NOT_EXECUTED]) simp_all
  have "fold lifecycle_step (others 2) s1 = s2" using c by (simp add: others_def store_after_def)
  moreover have "\<exists>c'. commit_authoritative_reconciliation run_io IngestionOperationState.FAILED 2 2 s2 = Inr (s2, c')"
    using s2 by (simp add: commit_authoritative_reconciliation_def current_operation_def run_ids guarded_operation_def
        advance_operation_def run_pending_def run_operation_def)
  ultimately obtain c' where
    "commit_authoritative_reconciliation run_io IngestionOperationState.FAILED 2 2 (fold lifecycle_step (others 2) s1) = Inr (s2, c')" by auto
  from run_recovery [where others = others, OF _ _ m this] show ?thesis
    using s2 by (auto simp: others_def advance_operation_def)
qed

end
