(* ===== verification/Binary64.thy ===== *)
theory Binary64
  imports Prelude Complex_Main "HOL-Library.Log_Nat"
begin

text \<open>
  Python's \<^verbatim>\<open>float\<close>: the finite IEEE 754 binary64 numbers as their exact rational values, the two
  infinities and NaN, with the operations the sources use. Arithmetic rounds to nearest, ties to even;
  a result that rounds beyond the largest finite number is an infinity. The two zeros are one value:
  no source divides by a float or prints one, the only operations that tell them apart.
\<close>

section \<open>Rounding to 53 bits\<close>

text \<open>The exponent of the binade of a positive number: \<open>\<lfloor>log\<^sub>2 x\<rfloor>\<close>, computed on the numerator and denominator.\<close>

definition binade :: "rat \<Rightarrow> int" where
  "binade x = (let (n, d) = quotient_of x; k = bitlen n - bitlen d in if x < 2 powi k then k - 1 else k)"

definition round_even :: "rat \<Rightarrow> int" where
  "round_even x = (let f = \<lfloor>x\<rfloor>; r = x - of_int f in
     if r < 1 / 2 then f else if r > 1 / 2 then f + 1 else if even f then f else f + 1)"

text \<open>The exponent of the last place: 53 significant bits, but never below the subnormal \<open>2\<^sup>-\<^sup>1\<^sup>0\<^sup>7\<^sup>4\<close>.\<close>

definition last_place :: "rat \<Rightarrow> int" where
  "last_place x = max (binade x - 52) (- 1074)"

definition round_pos :: "rat \<Rightarrow> rat" where
  "round_pos x = of_int (round_even (x / 2 powi last_place x)) * 2 powi last_place x"

definition round53 :: "rat \<Rightarrow> rat" where
  "round53 x = (if x = 0 then 0 else if 0 < x then round_pos x else - round_pos (- x))"

lemma bitlen_powi:
  assumes "0 < n"
  shows "(2::rat) powi (bitlen n - 1) \<le> of_int n" and "of_int n < (2::rat) powi bitlen n"
proof -
  have "1 \<le> bitlen n" using assms bitlen_eq_zero_iff [of n] bitlen_nonneg [of n] by linarith
  moreover have "(of_int (2 ^ nat (bitlen n - 1)) :: rat) \<le> of_int n" "(of_int n :: rat) < of_int (2 ^ nat (bitlen n))"
    using bitlen_bounds [OF assms] by (simp_all only: of_int_le_iff of_int_less_iff)
  ultimately show "(2::rat) powi (bitlen n - 1) \<le> of_int n" "of_int n < (2::rat) powi bitlen n"
    by (simp_all add: power_int_def)
qed

lemma binade_bounds:
  assumes "0 < x"
  shows "2 powi binade x \<le> x" and "x < 2 powi (binade x + 1)"
proof -
  obtain n d where q: "quotient_of x = (n, d)" by force
  have d: "0 < d" using quotient_of_denom_pos [OF q] .
  have x: "x = of_int n / of_int d" using quotient_of_div [OF q] .
  have n: "0 < n" using assms d x by (simp add: zero_less_divide_iff)
  let ?k = "bitlen n - bitlen d"
  have lo: "2 powi (?k - 1) \<le> x"
  proof -
    have "2 powi (?k - 1) = (2::rat) powi (bitlen n - 1) / 2 powi bitlen d"
      by (simp add: power_int_diff)
    also have "\<dots> \<le> of_int n / of_int d"
      using bitlen_powi [OF n] bitlen_powi [OF d] d n by (intro frac_le) auto
    finally show ?thesis by (simp add: x)
  qed
  have hi: "x < 2 powi (?k + 1)"
  proof -
    have "of_int n / of_int d < (2::rat) powi bitlen n / 2 powi (bitlen d - 1)"
      using bitlen_powi [OF n] bitlen_powi [OF d] d n by (intro frac_less) auto
    also have "\<dots> = 2 powi (?k + 1)" by (simp add: power_int_diff power_int_add)
    finally show ?thesis by (simp add: x)
  qed
  show "2 powi binade x \<le> x" "x < 2 powi (binade x + 1)"
    using lo hi by (auto simp: binade_def q Let_def)
qed

lemma binade_mono: "0 < x \<Longrightarrow> x \<le> y \<Longrightarrow> binade x \<le> binade y"
proof (rule ccontr)
  assume a: "0 < x" "x \<le> y" "\<not> binade x \<le> binade y"
  then have "(2::rat) powi (binade y + 1) \<le> 2 powi binade x" by (intro power_int_increasing) auto
  with binade_bounds [of x] binade_bounds [of y] a show False by linarith
qed

lemma round_even_of_int [simp]: "round_even (of_int n) = n"
  by (simp add: round_even_def)

lemma round_even_floor: "\<lfloor>x\<rfloor> \<le> round_even x" "round_even x \<le> \<lfloor>x\<rfloor> + 1"
  by (simp_all add: round_even_def Let_def)

lemma round_even_mono: "x \<le> y \<Longrightarrow> round_even x \<le> round_even y"
proof -
  assume a: "x \<le> y"
  show ?thesis
  proof (cases "\<lfloor>x\<rfloor> = \<lfloor>y\<rfloor>")
    case True
    with a show ?thesis by (auto simp: round_even_def Let_def)
  next
    case False
    with floor_mono [OF a] have "\<lfloor>x\<rfloor> + 1 \<le> \<lfloor>y\<rfloor>" by simp
    with round_even_floor(2) [of x] round_even_floor(1) [of y] show ?thesis by linarith
  qed
qed


lemma grid_mono:
  assumes "x \<le> y"
  shows "(of_int (round_even (x / 2 powi e)) :: rat) * 2 powi e \<le> of_int (round_even (y / 2 powi e)) * 2 powi e"
  using assms by (intro mult_right_mono) (simp_all add: round_even_mono divide_right_mono)

text \<open>A multiple of a coarser power of two is on the grid.\<close>

lemma grid_multiple:
  assumes "e \<le> k"
  shows "of_int (round_even (of_int m * 2 powi k / 2 powi e)) * 2 powi e = (of_int m * 2 powi k :: rat)"
proof -
  have q: "of_int m * 2 powi k / 2 powi e = (of_int (m * 2 ^ nat (k - e)) :: rat)"
    using assms power_int_diff [of "2 :: rat" k e] by (simp add: power_int_def)
  have "of_int (round_even (of_int m * 2 powi k / 2 powi e)) * 2 powi e = (of_int m * 2 powi k / 2 powi e * 2 powi e :: rat)"
    by (simp only: q round_even_of_int)
  then show ?thesis by simp
qed

lemmas grid_exact = grid_multiple [where m = 1, simplified]

lemma round_pos_mono:
  assumes "0 < x" and "x \<le> y"
  shows "round_pos x \<le> round_pos y"
proof (cases "last_place x = last_place y")
  case True
  then show ?thesis using grid_mono [OF assms(2)] by (simp add: round_pos_def)
next
  case False
  with binade_mono [OF assms] have lp: "last_place y = binade y - 52" "last_place x < last_place y"
    "binade x < binade y" by (auto simp: last_place_def)
  have "x \<le> 2 powi binade y"
  proof -
    have "(2::rat) powi (binade x + 1) \<le> 2 powi binade y" using lp(3) by (intro power_int_increasing) auto
    with binade_bounds(2) [OF assms(1)] show ?thesis by linarith
  qed
  from grid_mono [OF this, of "last_place x"] have "round_pos x \<le> 2 powi binade y"
    using grid_exact [of "last_place x" "binade y"] lp by (simp add: round_pos_def)
  moreover have "2 powi binade y \<le> round_pos y"
  proof -
    have "2 powi binade y \<le> y" using binade_bounds(1) [of y] assms by simp
    from grid_mono [OF this, of "last_place y"] show ?thesis
      using grid_exact [of "last_place y" "binade y"] lp(1) unfolding round_pos_def by linarith
  qed
  ultimately show ?thesis by simp
qed

lemma round_pos_nonneg: "0 < x \<Longrightarrow> 0 \<le> round_pos x"
  using round_even_mono [of 0 "x / 2 powi last_place x"] round_even_of_int [of 0] by (simp add: round_pos_def)

lemma round53_mono: "x \<le> y \<Longrightarrow> round53 x \<le> round53 y"
  using round_pos_mono [of x y] round_pos_mono [of "- y" "- x"] round_pos_nonneg [of y] round_pos_nonneg [of "- x"]
  by (auto simp: round53_def)

lemma round53_zero [simp]: "round53 0 = 0" by (simp add: round53_def)

lemma round53_neg [simp]: "round53 (- x) = - round53 x" by (simp add: round53_def)



lemma binade_pow [simp]: "binade (2 powi k) = k"
proof -
  have b: "(2::rat) powi binade (2 powi k) \<le> 2 powi k" "(2::rat) powi k < 2 powi (binade (2 powi k) + 1)"
    using binade_bounds [of "2 powi k"] by simp_all
  have "\<not> binade (2 powi k) < k"
    using b(2) power_int_increasing [of "binade (2 powi k) + 1" k "2 :: rat"] by auto
  moreover have "\<not> k < binade (2 powi k)"
    using b(1) power_int_strict_increasing [of k "binade (2 powi k)" "2 :: rat"] by auto
  ultimately show ?thesis by simp
qed

lemma round53_pow: "- 1022 \<le> k \<Longrightarrow> round53 (2 powi k) = 2 powi k"
  using grid_exact [of "last_place (2 powi k)" k] by (simp add: round53_def round_pos_def last_place_def)

text \<open>Rounding is idempotent: a computed number is one of the numbers it was rounded to.\<close>

lemma round_pos_grid:
  assumes "0 < m" and "m < 2 ^ 53" and "- 1074 \<le> e"
  shows "round_pos (of_int m * 2 powi e) = of_int m * 2 powi e"
proof -
  let ?r = "of_int m * 2 powi e :: rat"
  have "(of_int m :: rat) < of_int (2 ^ 53)" using assms(2) by (simp only: of_int_less_iff)
  then have "?r < 2 ^ 53 * 2 powi e" by (intro mult_strict_right_mono) simp_all
  also have "\<dots> = 2 powi (e + 53)" by (simp add: power_int_add mult.commute)
  finally have lt: "?r < 2 powi (e + 53)" .
  have "binade ?r \<le> e + 52"
  proof (rule ccontr)
    assume "\<not> binade ?r \<le> e + 52"
    then have "(2::rat) powi (e + 53) \<le> 2 powi binade ?r" by (intro power_int_increasing) auto
    with binade_bounds(1) [of ?r] lt assms(1) show False by simp
  qed
  with assms(3) have "last_place ?r \<le> e" by (simp add: last_place_def)
  from grid_multiple [OF this, of m] show ?thesis by (simp add: round_pos_def)
qed

lemma round_pos_idem:
  assumes "0 < x"
  shows "round53 (round_pos x) = round_pos x"
proof -
  let ?e = "last_place x"
  let ?m = "round_even (x / 2 powi ?e)"
  have r: "round_pos x = of_int ?m * 2 powi ?e" by (simp add: round_pos_def)
  have "0 \<le> ?m" using round_even_mono [of 0 "x / 2 powi ?e"] round_even_of_int [of 0] assms by simp
  have "x \<le> 2 powi (?e + 53)"
  proof -
    have "(2::rat) powi (binade x + 1) \<le> 2 powi (?e + 53)" by (intro power_int_increasing) (auto simp: last_place_def)
    with binade_bounds(2) [OF assms] show ?thesis by simp
  qed
  then have "x / 2 powi ?e \<le> of_int (2 ^ 53)" by (simp add: divide_le_eq power_int_add mult.commute)
  then have le: "?m \<le> 2 ^ 53" using round_even_mono [of "x / 2 powi ?e" "of_int (2 ^ 53)"] by (simp only: round_even_of_int)
  consider "?m = 0" | "?m = 2 ^ 53" | "0 < ?m" "?m < 2 ^ 53" using \<open>0 \<le> ?m\<close> le by linarith
  then show ?thesis
  proof cases
    case 1
    then show ?thesis by (simp add: r)
  next
    case 2
    then have "round_pos x = 2 powi (?e + 53)" by (simp add: r power_int_add)
    then show ?thesis using round53_pow [of "?e + 53"] by (simp add: last_place_def)
  next
    case 3
    have "round_pos (round_pos x) = round_pos x" unfolding r by (rule round_pos_grid [OF 3]) (simp add: last_place_def)
    moreover have "0 < round_pos x" using 3(1) by (simp add: r)
    ultimately show ?thesis by (simp add: round53_def)
  qed
qed

lemma round53_idem: "round53 (round53 x) = round53 x"
proof -
  consider "x = 0" | "0 < x" "round53 x = round_pos x" | "0 < - x" "round53 x = - round_pos (- x)"
    by (cases "x = 0"; cases "0 < x") (auto simp: round53_def)
  then show ?thesis by cases (simp_all add: round_pos_idem)
qed

section \<open>Values and operations\<close>

datatype pyfloat = Finite rat | PosInf | NegInf | NaN

definition max_finite :: rat where
  "max_finite = (2 ^ 53 - 1) * 2 ^ 971"

definition saturate :: "rat \<Rightarrow> pyfloat" where
  "saturate r = (if r > max_finite then PosInf else if r < - max_finite then NegInf else Finite r)"

definition fl :: "rat \<Rightarrow> pyfloat" where
  "fl x = saturate (round53 x)"

text \<open>The finite values a \<^verbatim>\<open>float\<close> object can have.\<close>

definition binary64 :: "rat \<Rightarrow> bool" where
  "binary64 x \<longleftrightarrow> round53 x = x \<and> \<bar>x\<bar> \<le> max_finite"

fun isfinite :: "pyfloat \<Rightarrow> bool" where
  "isfinite (Finite _) = True"
| "isfinite _ = False"

fun f_neg :: "pyfloat \<Rightarrow> pyfloat" where
  "f_neg (Finite a) = Finite (- a)"
| "f_neg PosInf = NegInf"
| "f_neg NegInf = PosInf"
| "f_neg NaN = NaN"

fun f_add :: "pyfloat \<Rightarrow> pyfloat \<Rightarrow> pyfloat" where
  "f_add (Finite a) (Finite b) = fl (a + b)"
| "f_add NaN _ = NaN"
| "f_add _ NaN = NaN"
| "f_add PosInf NegInf = NaN"
| "f_add NegInf PosInf = NaN"
| "f_add PosInf _ = PosInf"
| "f_add _ PosInf = PosInf"
| "f_add NegInf _ = NegInf"
| "f_add _ NegInf = NegInf"

definition f_sub :: "pyfloat \<Rightarrow> pyfloat \<Rightarrow> pyfloat" where
  "f_sub a b = f_add a (f_neg b)"

fun f_lt :: "pyfloat \<Rightarrow> pyfloat \<Rightarrow> bool" where
  "f_lt (Finite a) (Finite b) = (a < b)"
| "f_lt NaN _ = False"
| "f_lt _ NaN = False"
| "f_lt a PosInf = (a \<noteq> PosInf)"
| "f_lt NegInf b = (b \<noteq> NegInf)"
| "f_lt _ _ = False"

definition f_le :: "pyfloat \<Rightarrow> pyfloat \<Rightarrow> bool" where
  "f_le a b \<longleftrightarrow> a \<noteq> NaN \<and> b \<noteq> NaN \<and> \<not> f_lt b a"

text \<open>The sign decides the product with an infinity.\<close>

fun f_mul :: "pyfloat \<Rightarrow> pyfloat \<Rightarrow> pyfloat" where
  "f_mul (Finite a) (Finite b) = fl (a * b)"
| "f_mul a b =
     (if a = NaN \<or> b = NaN \<or> a = Finite 0 \<or> b = Finite 0 then NaN
      else if f_lt a (Finite 0) = f_lt b (Finite 0) then PosInf else NegInf)"

text \<open>
  \<^verbatim>\<open>min(a, b)\<close> and \<^verbatim>\<open>max(a, b)\<close> keep the first argument unless the second compares smaller (larger), also
  when one is NaN. Converting an integer that rounds beyond the finite range raises.
\<close>

definition f_min :: "pyfloat \<Rightarrow> pyfloat \<Rightarrow> pyfloat" where
  "f_min a b = (if f_lt b a then b else a)"

definition f_max :: "pyfloat \<Rightarrow> pyfloat \<Rightarrow> pyfloat" where
  "f_max a b = (if f_lt a b then b else a)"

definition float_of_int :: "int \<Rightarrow> pyfloat res" where
  "float_of_int n = (if isfinite (fl (of_int n)) then Inr (fl (of_int n))
     else Inl (OverflowError ''int too large to convert to float''))"

section \<open>Order\<close>

lemma f_le_refl: "a \<noteq> NaN \<Longrightarrow> f_le a a"
  by (cases a) (simp_all add: f_le_def)

lemma f_le_trans: "f_le a b \<Longrightarrow> f_le b c \<Longrightarrow> f_le a c"
  by (cases a; cases b; cases c) (auto simp: f_le_def)

lemma f_le_Finite [simp]: "f_le (Finite a) (Finite b) \<longleftrightarrow> a \<le> b"
  by (auto simp: f_le_def)

lemma max_finite_pos: "0 < max_finite" by (simp add: max_finite_def)

lemma saturate_cases:
  obtains "max_finite < r" and "saturate r = PosInf" | "r < - max_finite" and "saturate r = NegInf"
  | "- max_finite \<le> r" and "r \<le> max_finite" and "saturate r = Finite r"
  using max_finite_pos by (cases "max_finite < r"; cases "r < - max_finite") (auto simp: saturate_def)

lemma saturate_mono: "r \<le> q \<Longrightarrow> f_le (saturate r) (saturate q)"
  by (rule saturate_cases [of r]; rule saturate_cases [of q]) (use max_finite_pos in \<open>auto simp: f_le_def\<close>)

lemma fl_mono: "x \<le> y \<Longrightarrow> f_le (fl x) (fl y)"
  unfolding fl_def by (intro saturate_mono round53_mono)

lemma fl_exact: "binary64 x \<Longrightarrow> fl x = Finite x"
  by (auto simp: fl_def binary64_def abs_le_iff saturate_def)

lemma max_finite_ge: "4 \<le> max_finite"
  unfolding max_finite_def by (rule order_trans [OF _ mult_mono [of 4 _ 1]]) simp_all

lemma binary64_consts: "binary64 0" "binary64 1" "binary64 2"
proof -
  have "round53 1 = 1" "round53 2 = 2" by code_simp+
  then show "binary64 0" "binary64 1" "binary64 2" using max_finite_ge by (simp_all add: binary64_def)
qed

lemma binary64_fl: "fl x = Finite r \<Longrightarrow> binary64 r"
  by (auto simp: fl_def saturate_def binary64_def round53_idem abs_le_iff split: if_splits)

lemma binary64_uminus: "binary64 x \<Longrightarrow> binary64 (- x)"
  by (simp add: binary64_def)

text \<open>A computed value between two representable ones is finite and stays between them.\<close>

lemma fl_between:
  assumes "binary64 a" and "binary64 b" and "a \<le> x" and "x \<le> b"
  obtains r where "fl x = Finite r" and "a \<le> r" and "r \<le> b"
proof -
  have "f_le (Finite a) (fl x)" "f_le (fl x) (Finite b)"
    using fl_mono [OF assms(3)] fl_mono [OF assms(4)] by (simp_all add: fl_exact assms(1,2))
  with that show thesis by (cases "fl x") (auto simp: f_le_def)
qed

lemma f_min_le: "a \<noteq> NaN \<Longrightarrow> f_le (f_min a b) a"
  by (cases a; cases b) (auto simp: f_min_def f_le_def)

lemma f_le_min: "f_le c a \<Longrightarrow> f_le c b \<Longrightarrow> f_le c (f_min a b)"
  by (simp add: f_min_def)

lemma f_le_max: "a \<noteq> NaN \<Longrightarrow> f_le a (f_max a b)"
  by (cases a; cases b) (auto simp: f_max_def f_le_def)

text \<open>Powers of two are converted exactly up to the largest exponent, and refused from there on.\<close>

lemma max_finite_less: "max_finite < 2 ^ 1024"
  and pow_1023_le: "2 ^ 1023 \<le> max_finite"
proof -
  have e: "(2::rat) ^ 1024 = 2 ^ 53 * 2 ^ 971" "(2::rat) ^ 1023 = 2 ^ 52 * 2 ^ 971" by (simp_all flip: power_add)
  show "max_finite < 2 ^ 1024" "2 ^ 1023 \<le> max_finite"
    unfolding max_finite_def e by (intro mult_strict_right_mono mult_right_mono; simp)+
qed

lemma float_of_int_pow: "n \<le> 1023 \<Longrightarrow> float_of_int (2 ^ n) = Inr (Finite (2 ^ n))"
proof -
  assume n: "n \<le> 1023"
  have "(2::rat) ^ n \<le> 2 ^ 1023" using n by (intro power_increasing) auto
  with pow_1023_le have "2 ^ n \<le> max_finite" by (rule order_trans [rotated])
  then have "binary64 (2 ^ n)" using round53_pow [of "int n"] by (simp add: binary64_def)
  then show ?thesis by (simp add: float_of_int_def fl_exact)
qed

lemma float_of_int_pow_overflow: "1024 \<le> n \<Longrightarrow> float_of_int (2 ^ n) = Inl (OverflowError ''int too large to convert to float'')"
proof -
  assume n: "1024 \<le> n"
  have "(2::rat) ^ 1024 \<le> 2 ^ n" using n by (intro power_increasing) auto
  with max_finite_less have "max_finite < 2 ^ n" by (rule less_le_trans)
  then have "fl (2 ^ n) = PosInf" using round53_pow [of "int n"] by (simp add: fl_def saturate_def)
  then show ?thesis by (simp add: float_of_int_def)
qed

lemma float_of_int_ge: "float_of_int n = Inr f \<Longrightarrow> binary64 a \<Longrightarrow> a \<le> of_int n \<Longrightarrow> \<exists>q. f = Finite q \<and> a \<le> q"
  using fl_mono [of a "of_int n"] by (cases "fl (of_int n)") (auto simp: float_of_int_def fl_exact)

end
