(* ===== verification/Remote_Lifecycle.thy ===== *)
theory Remote_Lifecycle
  imports Binary64
begin

text \<open>
  \<^verbatim>\<open>src/projects/ai-agent/src/mcp_remote_lifecycle.py\<close>: the evidence an application keeps of a failed
  remote attempt, its classification, and the deadline shared by the phases of an operation.
  \<^verbatim>\<open>DispatchCertainty\<close> is from \<^verbatim>\<open>mcp_client_transport.py\<close>.
\<close>

datatype DispatchCertainty = PROVEN_NOT_SENT | POSSIBLY_SENT | PROVEN_SENT

datatype FailurePhase =
  CONNECT | SEND | READ | CANCELLATION | AUTHENTICATION_DEPENDENCY | CAPACITY | VERSION_NEGOTIATION | RECONCILIATION

datatype FailureKind =
  CONNECT_TIMEOUT | TRANSPORT_UNAVAILABLE | SEND_FAILURE | READ_TIMEOUT | CONNECTION_LOST | DISPATCH_OWNER_LOST
| CALLER_CANCELLED | JWKS_REFRESH_FAILED | CAPACITY_REJECTED | UNVERIFIED_REMOTE_FAILURE | CIRCUIT_OPEN
| UNSUPPORTED_VERSION | AUTHORITATIVE_NOT_EXECUTED

datatype LifecycleOutcome = PRE_DISPATCH_ABORTED | REJECTED_BEFORE_EXECUTION | PENDING_RECONCILIATION

datatype ExecutionCertainty = PROVEN_NOT_EXECUTED | POSSIBLY_EXECUTED | PROVEN_EXECUTED

text \<open>
  A protocol request id is a \<^verbatim>\<open>str\<close> or an \<^verbatim>\<open>int\<close>. The annotation of \<^verbatim>\<open>FailureEvidence\<close> does not admit
  \<^verbatim>\<open>None\<close>, but the class does not check it and a durable record may hold \<^verbatim>\<open>None\<close>, so the field is optional.
\<close>

datatype RequestId = StrId string | IntId int

fun str_RequestId :: "RequestId \<Rightarrow> string" where
  "str_RequestId (StrId s) = s"
| "str_RequestId (IntId n) = str_int n"

record FailureEvidence =
  fe_operation_id :: string
  fe_idempotency_key :: string
  fe_protocol_request_id :: "RequestId option"
  fe_attempt_number :: int
  fe_phase :: FailurePhase
  fe_kind :: FailureKind
  fe_dispatch_certainty :: DispatchCertainty
  fe_execution_certainty :: ExecutionCertainty
  fe_evidence_source :: string

definition FailureEvidence_post_init :: "FailureEvidence \<Rightarrow> FailureEvidence res" where
  "FailureEvidence_post_init e =
     (if \<not> truthy (fe_operation_id e) then Inl (ValueError ''operation_id must not be empty'')
      else if \<not> truthy (fe_idempotency_key e) then Inl (ValueError ''idempotency_key must not be empty'')
      else if fe_attempt_number e < 1 then Inl (ValueError ''attempt_number must be positive'')
      else if \<not> truthy (fe_evidence_source e) then Inl (ValueError ''evidence_source must not be empty'')
      else if fe_dispatch_certainty e = DispatchCertainty.PROVEN_NOT_SENT
        \<and> fe_execution_certainty e \<noteq> ExecutionCertainty.PROVEN_NOT_EXECUTED
      then Inl (ValueError ''not-sent evidence must also be not-executed'')
      else Inr e)"

record CancellationObservation =
  co_operation_id :: string
  co_idempotency_key :: string
  co_protocol_request_id :: RequestId
  co_attempt_number :: int
  co_dispatch_certainty :: DispatchCertainty
  co_remote_task_cancelled :: bool
  co_evidence_source :: string

definition cancellation_failure_evidence :: "CancellationObservation \<Rightarrow> FailureEvidence res" where
  "cancellation_failure_evidence observation = FailureEvidence_post_init
     \<lparr>fe_operation_id = co_operation_id observation, fe_idempotency_key = co_idempotency_key observation,
      fe_protocol_request_id = Some (co_protocol_request_id observation), fe_attempt_number = co_attempt_number observation,
      fe_phase = FailurePhase.CANCELLATION, fe_kind = FailureKind.CALLER_CANCELLED,
      fe_dispatch_certainty = co_dispatch_certainty observation,
      fe_execution_certainty =
        (if co_dispatch_certainty observation = DispatchCertainty.PROVEN_NOT_SENT
         then ExecutionCertainty.PROVEN_NOT_EXECUTED else ExecutionCertainty.POSSIBLY_EXECUTED),
      fe_evidence_source = co_evidence_source observation\<rparr>"

definition classify_lifecycle_outcome :: "FailureEvidence \<Rightarrow> LifecycleOutcome" where
  "classify_lifecycle_outcome evidence =
     (if fe_execution_certainty evidence = ExecutionCertainty.PROVEN_NOT_EXECUTED
      then if fe_dispatch_certainty evidence = DispatchCertainty.PROVEN_NOT_SENT
        then LifecycleOutcome.PRE_DISPATCH_ABORTED else LifecycleOutcome.REJECTED_BEFORE_EXECUTION
      else LifecycleOutcome.PENDING_RECONCILIATION)"

record DeadlineBudget =
  db_deadline :: pyfloat
  db_cleanup_reserve_seconds :: pyfloat

definition DeadlineBudget_post_init :: "DeadlineBudget \<Rightarrow> DeadlineBudget res" where
  "DeadlineBudget_post_init b =
     (if \<not> isfinite (db_deadline b) then Inl (ValueError ''deadline must be finite'')
      else if \<not> isfinite (db_cleanup_reserve_seconds b) \<or> f_lt (db_cleanup_reserve_seconds b) (Finite 0)
      then Inl (ValueError ''cleanup reserve must be finite and non-negative'') else Inr b)"

definition remaining :: "DeadlineBudget \<Rightarrow> pyfloat \<Rightarrow> pyfloat" where
  "remaining b now = f_max (Finite 0) (f_sub (f_sub (db_deadline b) now) (db_cleanup_reserve_seconds b))"

definition stage_timeout :: "DeadlineBudget \<Rightarrow> pyfloat \<Rightarrow> pyfloat \<Rightarrow> pyfloat res" where
  "stage_timeout b now configured_timeout =
     (if \<not> isfinite configured_timeout \<or> f_le configured_timeout (Finite 0)
      then Inl (ValueError ''configured timeout must be finite and positive'')
      else Inr (f_min configured_timeout (remaining b now)))"

section \<open>What evidence can say\<close>

lemma FailureEvidence_ok_iff:
  "FailureEvidence_post_init e = Inr e' \<longleftrightarrow> e' = e \<and> fe_operation_id e \<noteq> [] \<and> fe_idempotency_key e \<noteq> [] \<and>
     1 \<le> fe_attempt_number e \<and> fe_evidence_source e \<noteq> [] \<and>
     (fe_dispatch_certainty e = DispatchCertainty.PROVEN_NOT_SENT \<longrightarrow>
      fe_execution_certainty e = ExecutionCertainty.PROVEN_NOT_EXECUTED)"
  by (auto simp: FailureEvidence_post_init_def py_defs)

text \<open>
  Cancelling proves that nothing ran only when the request was never sent: any later cancellation
  leaves an operation that has to be reconciled.
\<close>

lemma cancellation_classified:
  assumes "cancellation_failure_evidence observation = Inr e"
  shows "classify_lifecycle_outcome e =
    (if co_dispatch_certainty observation = DispatchCertainty.PROVEN_NOT_SENT
     then LifecycleOutcome.PRE_DISPATCH_ABORTED else LifecycleOutcome.PENDING_RECONCILIATION)"
  using assms by (auto simp: cancellation_failure_evidence_def FailureEvidence_ok_iff classify_lifecycle_outcome_def)

text \<open>The time granted to a stage is never negative and never above the configured timeout.\<close>

lemma stage_timeout_bounds:
  assumes "stage_timeout b now t = Inr r"
  shows "f_le (Finite 0) r" and "f_le r t"
proof -
  have t: "isfinite t" "\<not> f_le t (Finite 0)" "r = f_min t (remaining b now)"
    using assms by (auto simp: stage_timeout_def split: if_splits)
  have "f_le (Finite 0) (remaining b now)" by (simp add: remaining_def f_le_max)
  moreover have "f_le (Finite 0) t" using t(1,2) by (cases t) auto
  ultimately show "f_le (Finite 0) r" by (simp add: t(3) f_le_min)
  show "f_le r t" unfolding t(3) using t(1) by (intro f_min_le) auto
qed

end
