(* ===== verification/Retry_Policy.thy ===== *)
theory Retry_Policy
  imports Remote_Lifecycle Machines Sha256
begin

text \<open>
  \<^verbatim>\<open>src/projects/ai-agent/src/mcp_retry_policy.py\<close>: when a failed remote attempt may be repeated, after
  which delay, and the store whose conditional update lets one caller dispatch the next attempt.
\<close>

section \<open>Decisions\<close>

datatype RetryDecisionKind =
  ELIGIBLE | POSSIBLE_DISPATCH | POSSIBLE_EXECUTION | CALLER_INTENT_INACTIVE | FAILURE_NOT_RETRYABLE
| RETRY_BUDGET_EXHAUSTED | DEADLINE_EXHAUSTED | AUTHORIZATION_NOT_CURRENT | CAPACITY_NOT_ADMITTED | CIRCUIT_OPEN

record RetryContext =
  rc_now :: pyfloat
  rc_deadline :: pyfloat
  rc_retries_used :: int
  rc_max_retries :: int
  rc_caller_intent_active :: bool
  rc_authorization_current :: bool
  rc_capacity_admitted :: bool
  rc_circuit_allows_request :: bool

definition RetryContext_post_init :: "RetryContext \<Rightarrow> RetryContext res" where
  "RetryContext_post_init c =
     (if \<not> isfinite (rc_now c) \<or> \<not> isfinite (rc_deadline c) then Inl (ValueError ''retry clock values must be finite'')
      else if rc_retries_used c < 0 \<or> rc_max_retries c < 0 then Inl (ValueError ''retry counts must be non-negative'')
      else Inr c)"

record RetryDecision =
  rd_kind :: RetryDecisionKind
  rd_operation_id :: string
  rd_idempotency_key :: string
  rd_next_attempt_number :: "int option"
  rd_delay_seconds :: "pyfloat option"

definition retry_eligible :: "RetryDecision \<Rightarrow> bool" where
  "retry_eligible d \<longleftrightarrow> rd_kind d = RetryDecisionKind.ELIGIBLE"

record RetryAttemptPlan =
  rap_operation_id :: string
  rap_idempotency_key :: string
  rap_protocol_request_id :: RequestId
  rap_attempt_number :: int
  rap_delay_seconds :: pyfloat
  rap_transport_generation :: "int option"

datatype RetryDispatchDecisionKind =
  ADMITTED | CALLER_INTENT_INACTIVE | DEADLINE_EXHAUSTED | AUTHORIZATION_NOT_CURRENT | CAPACITY_NOT_ADMITTED | CIRCUIT_OPEN

record RetryDispatchContext =
  rdc_now :: pyfloat
  rdc_deadline :: pyfloat
  rdc_caller_intent_active :: bool
  rdc_authorization_current :: bool
  rdc_capacity_admitted :: bool
  rdc_circuit_allows_request :: bool
  rdc_minimum_attempt_window_seconds :: pyfloat

definition RetryDispatchContext_post_init :: "RetryDispatchContext \<Rightarrow> RetryDispatchContext res" where
  "RetryDispatchContext_post_init c =
     (if \<not> isfinite (rdc_now c) \<or> \<not> isfinite (rdc_deadline c) then Inl (ValueError ''dispatch clock values must be finite'')
      else if f_lt (rdc_minimum_attempt_window_seconds c) (Finite 0)
      then Inl (ValueError ''minimum attempt window must be non-negative'') else Inr c)"

record RetryDispatchDecision =
  rdd_kind :: RetryDispatchDecisionKind
  rdd_attempt :: RetryAttemptPlan
  rdd_transport_calls :: int

definition admitted :: "RetryDispatchDecision \<Rightarrow> bool" where
  "admitted d \<longleftrightarrow> rdd_kind d = RetryDispatchDecisionKind.ADMITTED"

definition admit_retry_dispatch :: "RetryAttemptPlan \<Rightarrow> RetryDispatchContext \<Rightarrow> RetryDispatchDecision" where
  "admit_retry_dispatch attempt context =
     \<lparr>rdd_kind =
        (if \<not> rdc_caller_intent_active context then RetryDispatchDecisionKind.CALLER_INTENT_INACTIVE
         else if f_lt (rdc_deadline context) (f_add (rdc_now context) (rdc_minimum_attempt_window_seconds context))
         then RetryDispatchDecisionKind.DEADLINE_EXHAUSTED
         else if \<not> rdc_authorization_current context then RetryDispatchDecisionKind.AUTHORIZATION_NOT_CURRENT
         else if \<not> rdc_capacity_admitted context then RetryDispatchDecisionKind.CAPACITY_NOT_ADMITTED
         else if \<not> rdc_circuit_allows_request context then RetryDispatchDecisionKind.CIRCUIT_OPEN
         else RetryDispatchDecisionKind.ADMITTED),
      rdd_attempt = attempt, rdd_transport_calls = 0\<rparr>"

section \<open>The bounded policy\<close>

record BoundedRetryPolicy =
  brp_base_delay_seconds :: pyfloat
  brp_maximum_delay_seconds :: pyfloat
  brp_jitter_ratio :: pyfloat
  brp_minimum_attempt_window_seconds :: pyfloat

definition BoundedRetryPolicy_post_init :: "BoundedRetryPolicy \<Rightarrow> BoundedRetryPolicy res" where
  "BoundedRetryPolicy_post_init p =
     (if f_le (brp_base_delay_seconds p) (Finite 0) \<or> \<not> isfinite (brp_base_delay_seconds p)
      then Inl (ValueError ''base delay must be finite and positive'')
      else if f_lt (brp_maximum_delay_seconds p) (brp_base_delay_seconds p)
      then Inl (ValueError ''maximum delay must not be below base delay'')
      else if \<not> (f_le (Finite 0) (brp_jitter_ratio p) \<and> f_le (brp_jitter_ratio p) (Finite 1))
      then Inl (ValueError ''jitter ratio must be between zero and one'')
      else if f_lt (brp_minimum_attempt_window_seconds p) (Finite 0)
      then Inl (ValueError ''minimum attempt window must be non-negative'')
      else Inr p)"

definition default_retry_policy :: BoundedRetryPolicy where
  "default_retry_policy =
     \<lparr>brp_base_delay_seconds = fl (1 / 4), brp_maximum_delay_seconds = fl 5, brp_jitter_ratio = fl (1 / 5),
      brp_minimum_attempt_window_seconds = fl (1 / 20)\<rparr>"

text \<open>
  The jitter is derived from a SHA-256 digest of \<open>seed\<close>: its first eight bytes as a big-endian integer
  over \<open>2\<^sup>6\<^sup>4 - 1\<close>, a correctly rounded quotient. \<open>2 ** doublings\<close> is an integer, converted (or refused)
  when it meets the float.
\<close>

definition from_bytes_big :: "int list \<Rightarrow> int" where
  "from_bytes_big bs = foldl (\<lambda>n b. 256 * n + b) 0 bs"

definition jitter_unit :: "string \<Rightarrow> pyfloat" where
  "jitter_unit seed = fl (of_int (from_bytes_big (take 8 (sha256_digest seed))) / of_int (2 ^ 64 - 1))"

definition jittered_delay :: "pyfloat \<Rightarrow> pyfloat \<Rightarrow> pyfloat \<Rightarrow> nat \<Rightarrow> string \<Rightarrow> pyfloat res" where
  "jittered_delay base_delay maximum_delay jitter_ratio doublings seed =
     bind_res (float_of_int (2 ^ doublings)) (\<lambda>growth.
       let base = f_min maximum_delay (f_mul base_delay growth);
           factor = f_add (Finite 1) (f_mul jitter_ratio (f_sub (f_mul (Finite 2) (jitter_unit seed)) (Finite 1)))
       in Inr (f_min maximum_delay (f_mul base factor)))"

definition retry_delay_seconds :: "BoundedRetryPolicy \<Rightarrow> FailureEvidence \<Rightarrow> int \<Rightarrow> pyfloat res" where
  "retry_delay_seconds p evidence retries_used =
     jittered_delay (brp_base_delay_seconds p) (brp_maximum_delay_seconds p) (brp_jitter_ratio p) (nat retries_used)
       (fe_operation_id evidence @ '':'' @ fe_idempotency_key evidence @ '':'' @ str_int (fe_attempt_number evidence))"

definition retryable_kinds :: "FailureKind list" where
  "retryable_kinds =
     [FailureKind.CONNECT_TIMEOUT, FailureKind.TRANSPORT_UNAVAILABLE, FailureKind.SEND_FAILURE,
      FailureKind.JWKS_REFRESH_FAILED, FailureKind.CAPACITY_REJECTED, FailureKind.AUTHORITATIVE_NOT_EXECUTED]"

definition blocked_reason :: "FailureEvidence \<Rightarrow> RetryContext \<Rightarrow> RetryDecisionKind option" where
  "blocked_reason evidence context =
     (if fe_execution_certainty evidence \<noteq> ExecutionCertainty.PROVEN_NOT_EXECUTED then Some RetryDecisionKind.POSSIBLE_EXECUTION
      else if \<not> rc_caller_intent_active context then Some RetryDecisionKind.CALLER_INTENT_INACTIVE
      else if fe_kind evidence \<notin> set retryable_kinds then Some RetryDecisionKind.FAILURE_NOT_RETRYABLE
      else if rc_retries_used context \<ge> rc_max_retries context then Some RetryDecisionKind.RETRY_BUDGET_EXHAUSTED
      else if f_le (rc_deadline context) (rc_now context) then Some RetryDecisionKind.DEADLINE_EXHAUSTED
      else if \<not> rc_authorization_current context then Some RetryDecisionKind.AUTHORIZATION_NOT_CURRENT
      else if \<not> rc_capacity_admitted context then Some RetryDecisionKind.CAPACITY_NOT_ADMITTED
      else if \<not> rc_circuit_allows_request context then Some RetryDecisionKind.CIRCUIT_OPEN
      else None)"

definition retry_blocked :: "RetryDecisionKind \<Rightarrow> FailureEvidence \<Rightarrow> RetryDecision" where
  "retry_blocked kind evidence =
     \<lparr>rd_kind = kind, rd_operation_id = fe_operation_id evidence, rd_idempotency_key = fe_idempotency_key evidence,
      rd_next_attempt_number = None, rd_delay_seconds = None\<rparr>"

definition retry_decide :: "BoundedRetryPolicy \<Rightarrow> FailureEvidence \<Rightarrow> RetryContext \<Rightarrow> RetryDecision res" where
  "retry_decide p evidence context =
     (case blocked_reason evidence context of
        Some blocked \<Rightarrow> Inr (retry_blocked blocked evidence)
      | None \<Rightarrow>
          bind_res (retry_delay_seconds p evidence (rc_retries_used context)) (\<lambda>delay.
            if f_lt (rc_deadline context) (f_add (f_add (rc_now context) delay) (brp_minimum_attempt_window_seconds p))
            then Inr (retry_blocked RetryDecisionKind.DEADLINE_EXHAUSTED evidence)
            else Inr \<lparr>rd_kind = RetryDecisionKind.ELIGIBLE, rd_operation_id = fe_operation_id evidence,
                      rd_idempotency_key = fe_idempotency_key evidence,
                      rd_next_attempt_number = Some (fe_attempt_number evidence + 1), rd_delay_seconds = Some delay\<rparr>))"

definition plan_retry_attempt ::
    "FailureEvidence \<Rightarrow> RetryDecision \<Rightarrow> RequestId \<Rightarrow> int option \<Rightarrow> RetryAttemptPlan res" where
  "plan_retry_attempt evidence decision new_protocol_request_id transport_generation =
     (if \<not> retry_eligible decision then Inl (ValueError ''only an eligible retry decision can create an attempt'')
      else if rd_operation_id decision \<noteq> fe_operation_id evidence \<or> rd_idempotency_key decision \<noteq> fe_idempotency_key evidence
      then Inl (ValueError ''retry decision changed application operation identity'')
      else if Some new_protocol_request_id = fe_protocol_request_id evidence
      then Inl (ValueError ''a retry requires a fresh protocol_request_id'')
      else case rd_delay_seconds decision of
        None \<Rightarrow> Inl (ValueError ''retry decision has an invalid attempt sequence'')
      | Some delay \<Rightarrow>
          if rd_next_attempt_number decision \<noteq> Some (fe_attempt_number evidence + 1)
          then Inl (ValueError ''retry decision has an invalid attempt sequence'')
          else Inr \<lparr>rap_operation_id = fe_operation_id evidence, rap_idempotency_key = fe_idempotency_key evidence,
                    rap_protocol_request_id = new_protocol_request_id, rap_attempt_number = fe_attempt_number evidence + 1,
                    rap_delay_seconds = delay, rap_transport_generation = transport_generation\<rparr>)"

section \<open>Delays\<close>

lemma from_bytes_big_bounds:
  "\<forall>b\<in>set bs. 0 \<le> b \<and> b < 256 \<Longrightarrow> 0 \<le> from_bytes_big bs \<and> from_bytes_big bs < 256 ^ length bs"
proof (induction bs rule: rev_induct)
  case (snoc b bs)
  then have "0 \<le> from_bytes_big bs" "from_bytes_big bs + 1 \<le> 256 ^ length bs" "0 \<le> b" "b < 256" by auto
  then show ?case by (simp add: from_bytes_big_def)
qed (simp add: from_bytes_big_def)

lemma jitter_unit_bounds:
  obtains u where "jitter_unit seed = Finite u" and "0 \<le> u" and "u \<le> 1"
proof -
  let ?n = "from_bytes_big (take 8 (sha256_digest seed))"
  have "\<forall>b\<in>set (take 8 (sha256_digest seed)). 0 \<le> b \<and> b < 256"
    using sha256_digest_range by (blast dest: in_set_takeD)
  from from_bytes_big_bounds [OF this] have n: "0 \<le> ?n" "?n \<le> 2 ^ 64 - 1"
    by (simp_all add: length_sha256_digest)
  have "0 \<le> (of_int ?n / of_int (2 ^ 64 - 1) :: rat)" "(of_int ?n / of_int (2 ^ 64 - 1) :: rat) \<le> 1"
    using n by (simp_all del: of_int_diff of_int_power add: divide_le_eq)
  then show thesis
    by (rule fl_between [OF binary64_consts(1,2)]) (rule that [unfolded jitter_unit_def])
qed

lemma jitter_factor_nonneg:
  assumes "binary64 j" and "0 \<le> j" and "j \<le> 1"
  shows "\<exists>f. f_add (Finite 1) (f_mul (Finite j) (f_sub (f_mul (Finite 2) (jitter_unit seed)) (Finite 1))) = Finite f \<and> 0 \<le> f \<and> f \<le> 2"
proof -
  obtain u where u: "jitter_unit seed = Finite u" "0 \<le> u" "u \<le> 1" by (rule jitter_unit_bounds)
  obtain d where d: "fl (2 * u) = Finite d" "0 \<le> d" "d \<le> 2"
    by (rule fl_between [OF binary64_consts(1,3), of "2 * u"]) (use u in auto)
  obtain c where c: "fl (d + - 1) = Finite c" "- 1 \<le> c" "c \<le> 1"
    by (rule fl_between [OF binary64_uminus [OF binary64_consts(2)] binary64_consts(2), of "d + - 1"]) (use d in auto)
  have "- j \<le> j * c" "j * c \<le> j"
    using mult_left_mono [OF c(2) assms(2)] mult_left_mono [OF c(3) assms(2)] by simp_all
  then obtain p where p: "fl (j * c) = Finite p" "- j \<le> p" "p \<le> j"
    by (rule fl_between [OF binary64_uminus [OF assms(1)] assms(1)])
  obtain f where "fl (1 + p) = Finite f" "0 \<le> f" "f \<le> 2"
    by (rule fl_between [OF binary64_consts(1,3), of "1 + p"]) (use p assms in auto)
  with u(1) d(1) c(1) p(1) show ?thesis by (simp add: f_sub_def)
qed

lemma fl_nonneg: "0 \<le> x \<Longrightarrow> f_le (Finite 0) (fl x)"
  using fl_mono [of 0 x] by (simp add: fl_exact binary64_consts)

lemma f_min_Finite_nonneg:
  assumes "0 \<le> m" and "f_le (Finite 0) y"
  shows "\<exists>r. f_min (Finite m) y = Finite r \<and> 0 \<le> r \<and> r \<le> m"
  using assms by (cases y) (auto simp: f_min_def f_le_def)

text \<open>Whatever the digest and the number of doublings, the delay lies between zero and the maximum.\<close>

lemma jittered_delay_bounds:
  assumes "0 < b" and "b \<le> m" and "binary64 j" "0 \<le> j" "j \<le> 1"
    and "jittered_delay (Finite b) (Finite m) (Finite j) n seed = Inr d"
  shows "\<exists>r. d = Finite r \<and> 0 \<le> r \<and> r \<le> m"
proof -
  obtain g where g: "float_of_int (2 ^ n) = Inr g" using assms(6) by (auto simp: jittered_delay_def bind_res_eq_Inr)
  with float_of_int_ge [OF g binary64_consts(1)] obtain q where q: "g = Finite q" "0 \<le> q" by auto
  have m: "0 \<le> m" using assms(1,2) by simp
  obtain base where base: "f_min (Finite m) (fl (b * q)) = Finite base" "0 \<le> base" "base \<le> m"
    using f_min_Finite_nonneg [OF m fl_nonneg [of "b * q"]] assms(1) q(2) by auto
  obtain f where f: "f_add (Finite 1) (f_mul (Finite j) (f_sub (f_mul (Finite 2) (jitter_unit seed)) (Finite 1))) = Finite f" "0 \<le> f"
    using jitter_factor_nonneg [OF assms(3-5), of seed] by blast
  obtain r where r: "f_min (Finite m) (fl (base * f)) = Finite r" "0 \<le> r" "r \<le> m"
    using f_min_Finite_nonneg [OF m fl_nonneg [of "base * f"]] base(2) f(2) by auto
  from assms(6) have "d = Finite r"
    by (simp add: jittered_delay_def g q(1) base(1) f(1) r(1) Let_def del: f_add.simps)
  with r show ?thesis by blast
qed

lemma jittered_delay_total: "n \<le> 1023 \<Longrightarrow> \<exists>d. jittered_delay b m j n seed = Inr d"
  by (simp add: jittered_delay_def float_of_int_pow)

text \<open>From 1024 doublings on, the conversion of the integer power raises: the policy has no answer.\<close>

lemma jittered_delay_overflow:
  "1024 \<le> n \<Longrightarrow> jittered_delay b m j n seed = Inl (OverflowError ''int too large to convert to float'')"
  by (simp add: jittered_delay_def float_of_int_pow_overflow)

section \<open>What the policy decides\<close>

text \<open>
  The gates, as one predicate, and the policies that can be constructed from finite floats. The
  constructor also accepts an infinite or NaN maximum and window.
\<close>

definition retry_gates :: "FailureEvidence \<Rightarrow> RetryContext \<Rightarrow> bool" where
  "retry_gates e c \<longleftrightarrow> fe_execution_certainty e = ExecutionCertainty.PROVEN_NOT_EXECUTED \<and> rc_caller_intent_active c \<and>
     fe_kind e \<in> set retryable_kinds \<and> rc_retries_used c < rc_max_retries c \<and> \<not> f_le (rc_deadline c) (rc_now c) \<and>
     rc_authorization_current c \<and> rc_capacity_admitted c \<and> rc_circuit_allows_request c"

definition finite_policy :: "BoundedRetryPolicy \<Rightarrow> bool" where
  "finite_policy p \<longleftrightarrow> BoundedRetryPolicy_post_init p = Inr p \<and>
     (\<exists>b m j. brp_base_delay_seconds p = Finite b \<and> brp_maximum_delay_seconds p = Finite m \<and>
        brp_jitter_ratio p = Finite j \<and> binary64 j) \<and> isfinite (brp_minimum_attempt_window_seconds p)"

lemma blocked_reason_None: "blocked_reason e c = None \<longleftrightarrow> retry_gates e c"
  by (auto simp: blocked_reason_def retry_gates_def)

lemma retry_decide_blocked: "\<not> retry_gates e c \<Longrightarrow> \<exists>k. retry_decide p e c = Inr (retry_blocked k e) \<and> k \<noteq> RetryDecisionKind.ELIGIBLE"
  by (cases "blocked_reason e c")
    (auto simp: blocked_reason_None retry_decide_def blocked_reason_def retry_gates_def split: if_splits)

lemma retry_delay_bounds:
  assumes "finite_policy p" and "retry_delay_seconds p e n = Inr d"
  shows "\<exists>r m. d = Finite r \<and> brp_maximum_delay_seconds p = Finite m \<and> 0 \<le> r \<and> r \<le> m"
proof -
  from assms(1) obtain b m j where f: "brp_base_delay_seconds p = Finite b" "brp_maximum_delay_seconds p = Finite m"
    "brp_jitter_ratio p = Finite j" "binary64 j" "0 < b" "b \<le> m" "0 \<le> j" "j \<le> 1"
    by (auto simp: finite_policy_def BoundedRetryPolicy_post_init_def split: if_splits)
  from jittered_delay_bounds [OF f(5,6,4,7,8)] assms(2) show ?thesis unfolding retry_delay_seconds_def f by blast
qed

lemma retry_delay_total: "n \<le> 1023 \<Longrightarrow> \<exists>d. retry_delay_seconds p e n = Inr d"
  unfolding retry_delay_seconds_def by (rule jittered_delay_total) simp

lemma retry_decide_ok: "rc_retries_used c \<le> 1023 \<Longrightarrow> \<exists>d. retry_decide p e c = Inr d"
proof (cases "retry_gates e c")
  case True
  assume "rc_retries_used c \<le> 1023"
  then obtain d where "retry_delay_seconds p e (rc_retries_used c) = Inr d" using retry_delay_total by blast
  with True show ?thesis by (simp add: retry_decide_def flip: blocked_reason_None)
qed (use retry_decide_blocked in blast)

lemma retry_eligible_iff:
  assumes "retry_decide p e c = Inr d"
  shows "retry_eligible d \<longleftrightarrow> retry_gates e c \<and> (\<exists>delay. retry_delay_seconds p e (rc_retries_used c) = Inr delay \<and>
    \<not> f_lt (rc_deadline c) (f_add (f_add (rc_now c) delay) (brp_minimum_attempt_window_seconds p)))"
proof (cases "retry_gates e c")
  case True
  with assms show ?thesis
    by (auto simp: retry_decide_def retry_eligible_def retry_blocked_def bind_res_eq_Inr split: if_splits
        simp flip: blocked_reason_None)
next
  case False
  with retry_decide_blocked [OF False, of p] assms show ?thesis by (auto simp: retry_eligible_def retry_blocked_def)
qed

lemma retry_eligible_fields:
  assumes "retry_decide p e c = Inr d" and "retry_eligible d"
  shows "rd_operation_id d = fe_operation_id e" "rd_idempotency_key d = fe_idempotency_key e"
    "rd_next_attempt_number d = Some (fe_attempt_number e + 1)"
    "\<exists>delay. rd_delay_seconds d = Some delay \<and> retry_delay_seconds p e (rc_retries_used c) = Inr delay"
proof -
  have "blocked_reason e c = None" using retry_eligible_iff [OF assms(1)] assms(2) by (simp add: blocked_reason_None)
  with assms show "rd_operation_id d = fe_operation_id e" "rd_idempotency_key d = fe_idempotency_key e"
    "rd_next_attempt_number d = Some (fe_attempt_number e + 1)"
    "\<exists>delay. rd_delay_seconds d = Some delay \<and> retry_delay_seconds p e (rc_retries_used c) = Inr delay"
    by (auto simp: retry_decide_def retry_eligible_def retry_blocked_def bind_res_eq_Inr split: if_splits)
qed

lemma plan_of_eligible:
  assumes "retry_decide p e c = Inr d" and "retry_eligible d" and "Some q \<noteq> fe_protocol_request_id e"
  shows "\<exists>plan. plan_retry_attempt e d q generation = Inr plan \<and> rap_operation_id plan = fe_operation_id e \<and>
    rap_idempotency_key plan = fe_idempotency_key e \<and> rap_attempt_number plan = fe_attempt_number e + 1 \<and>
    rap_protocol_request_id plan = q \<and> rd_delay_seconds d = Some (rap_delay_seconds plan) \<and>
    rap_transport_generation plan = generation"
  using retry_eligible_fields [OF assms(1,2)] assms(2,3) by (auto simp: plan_retry_attempt_def)

lemma fl_not_NaN: "fl x \<noteq> NaN"
  by (simp add: fl_def saturate_def)

lemma f_add_not_NaN: "isfinite a \<Longrightarrow> b \<noteq> NaN \<Longrightarrow> f_add a b \<noteq> NaN"
  by (cases a; cases b) (simp_all add: fl_not_NaN)

lemma f_add_comm: "f_add a b = f_add b a"
  by (cases a; cases b) (simp_all add: add.commute)

text \<open>
  C25. The retry decision is exact, bounded and total. For a policy the constructor accepts and whose maximum
  delay and minimum window are finite (which the constructor does not check: see \<open>nan_maximum_ignores_deadline\<close>),
  and for a finite clock and deadline, the policy answers whenever at most 1023 retries were used. It answers ELIGIBLE
  exactly when the failure is proven not executed and of a retryable kind, the caller still wants it,
  budget, deadline, authorization, capacity and circuit allow it, and the jittered delay leaves the
  minimum window before the deadline in the same rounded arithmetic. The delay then lies between zero
  and the configured maximum whatever the digest and the number of doublings, the deadline is kept, and
  the next attempt can be planned under any fresh request id with the next number and the same
  operation identity.
\<close>

theorem retry_policy_sound:
  assumes "finite_policy p" and "isfinite (rc_now c)" "isfinite (rc_deadline c)" and "rc_retries_used c \<le> 1023"
  shows "\<exists>d. retry_decide p e c = Inr d \<and>
    (retry_eligible d \<longleftrightarrow> retry_gates e c \<and> (\<exists>delay. retry_delay_seconds p e (rc_retries_used c) = Inr delay \<and>
       f_le (f_add (f_add (rc_now c) delay) (brp_minimum_attempt_window_seconds p)) (rc_deadline c))) \<and>
    (retry_eligible d \<longrightarrow> (\<exists>r m. rd_delay_seconds d = Some (Finite r) \<and> brp_maximum_delay_seconds p = Finite m \<and>
       0 \<le> r \<and> r \<le> m \<and> (\<forall>q generation. Some q \<noteq> fe_protocol_request_id e \<longrightarrow>
         (\<exists>plan. plan_retry_attempt e d q generation = Inr plan \<and> rap_operation_id plan = fe_operation_id e \<and>
           rap_idempotency_key plan = fe_idempotency_key e \<and> rap_attempt_number plan = fe_attempt_number e + 1 \<and>
           rap_protocol_request_id plan = q \<and> rap_delay_seconds plan = Finite r))))"
proof -
  obtain d where d: "retry_decide p e c = Inr d" using retry_decide_ok [OF assms(4)] by blast
  have sum: "f_le (f_add (f_add (rc_now c) delay) (brp_minimum_attempt_window_seconds p)) (rc_deadline c) \<longleftrightarrow>
      \<not> f_lt (rc_deadline c) (f_add (f_add (rc_now c) delay) (brp_minimum_attempt_window_seconds p))"
    if dl: "retry_delay_seconds p e (rc_retries_used c) = Inr delay" for delay
  proof -
    obtain r where "delay = Finite r" using retry_delay_bounds [OF assms(1) dl] by blast
    then have "f_add (f_add (rc_now c) delay) (brp_minimum_attempt_window_seconds p) \<noteq> NaN"
      using assms(1,2) unfolding finite_policy_def by (subst f_add_comm) (intro f_add_not_NaN; simp)
    then show ?thesis using assms(3) by (auto simp: f_le_def)
  qed
  have el: "retry_eligible d \<longleftrightarrow> retry_gates e c \<and> (\<exists>delay. retry_delay_seconds p e (rc_retries_used c) = Inr delay \<and>
       f_le (f_add (f_add (rc_now c) delay) (brp_minimum_attempt_window_seconds p)) (rc_deadline c))"
    using retry_eligible_iff [OF d] sum by blast
  have "\<exists>r m. rd_delay_seconds d = Some (Finite r) \<and> brp_maximum_delay_seconds p = Finite m \<and> 0 \<le> r \<and> r \<le> m"
    if "retry_eligible d"
    using retry_eligible_fields(4) [OF d that] retry_delay_bounds [OF assms(1)] by blast
  then have "\<exists>r m. rd_delay_seconds d = Some (Finite r) \<and> brp_maximum_delay_seconds p = Finite m \<and>
       0 \<le> r \<and> r \<le> m \<and> (\<forall>q generation. Some q \<noteq> fe_protocol_request_id e \<longrightarrow>
         (\<exists>plan. plan_retry_attempt e d q generation = Inr plan \<and> rap_operation_id plan = fe_operation_id e \<and>
           rap_idempotency_key plan = fe_idempotency_key e \<and> rap_attempt_number plan = fe_attempt_number e + 1 \<and>
           rap_protocol_request_id plan = q \<and> rap_delay_seconds plan = Finite r))"
    if "retry_eligible d" using plan_of_eligible [OF d that] that by fastforce
  with d el show ?thesis by blast
qed

section \<open>The default policy\<close>

definition refused_connect :: FailureEvidence where
  "refused_connect =
     \<lparr>fe_operation_id = ''op'', fe_idempotency_key = ''key'', fe_protocol_request_id = Some (IntId 1), fe_attempt_number = 1,
      fe_phase = FailurePhase.CONNECT, fe_kind = FailureKind.CONNECT_TIMEOUT,
      fe_dispatch_certainty = DispatchCertainty.PROVEN_NOT_SENT,
      fe_execution_certainty = ExecutionCertainty.PROVEN_NOT_EXECUTED, fe_evidence_source = ''transport''\<rparr>"

definition relaxed_context :: RetryContext where
  "relaxed_context =
     \<lparr>rc_now = Finite 0, rc_deadline = Finite 64, rc_retries_used = 0, rc_max_retries = 3, rc_caller_intent_active = True,
      rc_authorization_current = True, rc_capacity_admitted = True, rc_circuit_allows_request = True\<rparr>"

lemma binary64_small: "binary64 (1 / 4)" "binary64 5" "binary64 8" "binary64 64"
proof -
  have r: "round53 (1 / 4) = 1 / 4" "round53 5 = 5" "round53 8 = 8" "round53 64 = 64" by code_simp+
  have "(64::rat) \<le> 2 ^ 1023" by (rule order_trans [of _ "2 ^ 6"]) (simp, rule power_increasing, simp_all)
  then have "64 \<le> max_finite" using pow_1023_le by (rule order_trans)
  with r show "binary64 (1 / 4)" "binary64 5" "binary64 8" "binary64 64" by (auto simp: binary64_def)
qed

lemma default_policy_finite: "finite_policy default_retry_policy"
  "\<exists>w. brp_minimum_attempt_window_seconds default_retry_policy = Finite w \<and> 0 \<le> w \<and> w \<le> 1"
  "brp_maximum_delay_seconds default_retry_policy = Finite 5"
proof -
  obtain j where j: "fl (1 / 5) = Finite j" "0 \<le> j" "j \<le> 1"
    by (rule fl_between [OF binary64_consts(1,2), of "1 / 5"]) auto
  obtain w where w: "fl (1 / 20) = Finite w" "0 \<le> w" "w \<le> 1"
    by (rule fl_between [OF binary64_consts(1,2), of "1 / 20"]) auto
  note v = fl_exact [OF binary64_small(1)] fl_exact [OF binary64_small(2)] j w binary64_fl [OF j(1)]
  show "finite_policy default_retry_policy"
    using v by (auto simp: finite_policy_def BoundedRetryPolicy_post_init_def default_retry_policy_def intro: exI [of _ "1 / 4"])
  show "\<exists>w. brp_minimum_attempt_window_seconds default_retry_policy = Finite w \<and> 0 \<le> w \<and> w \<le> 1"
    "brp_maximum_delay_seconds default_retry_policy = Finite 5"
    using v by (simp_all add: default_retry_policy_def)
qed

lemma relaxed_sum:
  assumes "0 \<le> r" "r \<le> 5" "0 \<le> w" "w \<le> 1"
  shows "f_le (f_add (f_add (Finite 0) (Finite r)) (Finite w)) (Finite 64)"
proof -
  obtain s where s: "fl r = Finite s" "0 \<le> s" "s \<le> 5"
    using fl_between [OF binary64_consts(1) binary64_small(2) assms(1,2)] by blast
  obtain t where "fl (s + w) = Finite t" "t \<le> 64"
    using fl_between [OF binary64_consts(1) binary64_small(4), of "s + w"] s assms by force
  with s(1) show ?thesis by simp
qed

lemma relaxed_delay:
  "\<exists>delay. retry_delay_seconds default_retry_policy e (rc_retries_used relaxed_context) = Inr delay \<and>
     f_le (f_add (f_add (rc_now relaxed_context) delay) (brp_minimum_attempt_window_seconds default_retry_policy)) (rc_deadline relaxed_context)"
proof -
  have "rc_retries_used relaxed_context \<le> 1023" by (simp add: relaxed_context_def)
  then obtain d where d: "retry_delay_seconds default_retry_policy e (rc_retries_used relaxed_context) = Inr d"
    using retry_delay_total by blast
  moreover from retry_delay_bounds [OF default_policy_finite(1) d] obtain r where "d = Finite r" "0 \<le> r" "r \<le> 5"
    by (auto simp: default_policy_finite(3))
  ultimately show ?thesis using default_policy_finite(2) relaxed_sum by (auto simp: relaxed_context_def)
qed

lemma relaxed_eligible:
  assumes "retry_gates e relaxed_context"
  shows "\<exists>d. retry_decide default_retry_policy e relaxed_context = Inr d \<and> retry_eligible d"
proof -
  have "rc_retries_used relaxed_context \<le> 1023" by (simp add: relaxed_context_def)
  then obtain d where d: "retry_decide default_retry_policy e relaxed_context = Inr d" using retry_decide_ok by blast
  with retry_eligible_iff [OF d] relaxed_delay [of e] assms show ?thesis by (auto simp: f_le_def)
qed

theorem retry_policy_sound_witness:
  "\<exists>d r. retry_decide default_retry_policy refused_connect relaxed_context = Inr d \<and> retry_eligible d \<and>
     rd_delay_seconds d = Some (Finite r) \<and> 0 \<le> r \<and> r \<le> 5"
proof -
  have "rc_retries_used relaxed_context \<le> 1023" "isfinite (rc_now relaxed_context)" "isfinite (rc_deadline relaxed_context)"
    "retry_gates refused_connect relaxed_context"
    by (simp_all add: relaxed_context_def refused_connect_def retry_gates_def retryable_kinds_def f_le_def)
  note c = this
  from retry_policy_sound [OF default_policy_finite(1) c(2,3,1), of refused_connect] relaxed_delay [of refused_connect]
    c(4) default_policy_finite(3) show ?thesis by auto
qed

text \<open>
  A policy whose maximum delay is NaN is constructed without an error, and then decides ELIGIBLE with a
  NaN delay however close the deadline is: every comparison with NaN is false.
\<close>

lemma nan_maximum_ignores_deadline:
  assumes "brp_maximum_delay_seconds p = NaN" and "retry_gates e c" and "rc_retries_used c \<le> 1023"
  shows "\<exists>d. retry_decide p e c = Inr d \<and> retry_eligible d \<and> rd_delay_seconds d = Some NaN"
proof -
  have nan: "f_min NaN y = NaN" "f_mul NaN y = NaN" "f_add NaN y = NaN" "f_add y NaN = NaN" "\<not> f_lt y NaN" for y
    by (cases y; simp add: f_min_def)+
  have "nat (rc_retries_used c) \<le> 1023" using assms(3) by simp
  then have "retry_delay_seconds p e (rc_retries_used c) = Inr NaN"
    by (simp add: retry_delay_seconds_def jittered_delay_def float_of_int_pow assms(1) nan)
  with assms(2) show ?thesis
    by (simp add: retry_decide_def retry_eligible_def nan flip: blocked_reason_None)
qed

end
