(* ===== verification/Ingestion_Retry.thy ===== *)
theory Ingestion_Retry
  imports Ingestion_Recovery Retry_Policy
begin

text \<open>
  \<^verbatim>\<open>src/projects/ai-agent/src/rag_ingestion_retry.py\<close>: from an authoritative non-execution to a fresh
  parse attempt. The coordinator reads the operation, asks the retry policy and the dispatch gates, and
  lets the committer reopen the operation; \<open>others\<close> are the requests the lifecycle store serves between
  the read and the commit.
\<close>

section \<open>The coordinator\<close>

datatype IngestionRetryOutcome =
  READY_FOR_PREFLIGHT | LIFECYCLE_NOT_RETRYABLE | POLICY_BLOCKED | DISPATCH_GATES_BLOCKED | ATTEMPT_IDENTITY_CONFLICT | COMMIT_BLOCKED

record IngestionRetryRequest =
  irq_operation :: IngestionOperationIdentity
  irq_new_parser_request_id :: string
  irq_current_parser_generation :: int
  irq_retry_context :: RetryContext
  irq_dispatch_context :: RetryDispatchContext

definition IngestionRetryRequest_post_init :: "IngestionRetryRequest \<Rightarrow> IngestionRetryRequest res" where
  "IngestionRetryRequest_post_init q =
     (if \<not> truthy (irq_new_parser_request_id q) then Inl (ValueError ''new parser request id must not be empty'')
      else if irq_current_parser_generation q < 0 then Inl (ValueError ''parser generation must be non-negative'')
      else Inr q)"

record IngestionRetryResult =
  irs_outcome :: IngestionRetryOutcome
  irs_safe_reason :: string
  irs_attempt :: "ParserAttemptIdentity option"
  irs_expected_operation_state :: "IngestionOperationState option"
  irs_expected_operation_state_version :: "int option"
  irs_expected_operation_fence :: "int option"
  irs_delay_seconds :: "pyfloat option"
  irs_policy_decision :: "RetryDecisionKind option"
  irs_dispatch_decision :: "RetryDispatchDecisionKind option"
  irs_committer_calls :: int
  irs_durable_transitions :: int
  irs_parser_calls :: int

definition retry_result :: "IngestionRetryOutcome \<Rightarrow> string \<Rightarrow> IngestionRetryResult" where
  "retry_result outcome reason =
     \<lparr>irs_outcome = outcome, irs_safe_reason = reason, irs_attempt = None, irs_expected_operation_state = None,
      irs_expected_operation_state_version = None, irs_expected_operation_fence = None, irs_delay_seconds = None,
      irs_policy_decision = None, irs_dispatch_decision = None, irs_committer_calls = 0, irs_durable_transitions = 0, irs_parser_calls = 0\<rparr>"

fun RetryDecisionKind_value :: "RetryDecisionKind \<Rightarrow> string" where
  "RetryDecisionKind_value RetryDecisionKind.ELIGIBLE = ''ELIGIBLE''"
| "RetryDecisionKind_value RetryDecisionKind.POSSIBLE_DISPATCH = ''POSSIBLE_DISPATCH''"
| "RetryDecisionKind_value RetryDecisionKind.POSSIBLE_EXECUTION = ''POSSIBLE_EXECUTION''"
| "RetryDecisionKind_value RetryDecisionKind.CALLER_INTENT_INACTIVE = ''CALLER_INTENT_INACTIVE''"
| "RetryDecisionKind_value RetryDecisionKind.FAILURE_NOT_RETRYABLE = ''FAILURE_NOT_RETRYABLE''"
| "RetryDecisionKind_value RetryDecisionKind.RETRY_BUDGET_EXHAUSTED = ''RETRY_BUDGET_EXHAUSTED''"
| "RetryDecisionKind_value RetryDecisionKind.DEADLINE_EXHAUSTED = ''DEADLINE_EXHAUSTED''"
| "RetryDecisionKind_value RetryDecisionKind.AUTHORIZATION_NOT_CURRENT = ''AUTHORIZATION_NOT_CURRENT''"
| "RetryDecisionKind_value RetryDecisionKind.CAPACITY_NOT_ADMITTED = ''CAPACITY_NOT_ADMITTED''"
| "RetryDecisionKind_value RetryDecisionKind.CIRCUIT_OPEN = ''CIRCUIT_OPEN''"

fun RetryDispatchDecisionKind_value :: "RetryDispatchDecisionKind \<Rightarrow> string" where
  "RetryDispatchDecisionKind_value RetryDispatchDecisionKind.ADMITTED = ''ADMITTED''"
| "RetryDispatchDecisionKind_value RetryDispatchDecisionKind.CALLER_INTENT_INACTIVE = ''CALLER_INTENT_INACTIVE''"
| "RetryDispatchDecisionKind_value RetryDispatchDecisionKind.DEADLINE_EXHAUSTED = ''DEADLINE_EXHAUSTED''"
| "RetryDispatchDecisionKind_value RetryDispatchDecisionKind.AUTHORIZATION_NOT_CURRENT = ''AUTHORIZATION_NOT_CURRENT''"
| "RetryDispatchDecisionKind_value RetryDispatchDecisionKind.CAPACITY_NOT_ADMITTED = ''CAPACITY_NOT_ADMITTED''"
| "RetryDispatchDecisionKind_value RetryDispatchDecisionKind.CIRCUIT_OPEN = ''CIRCUIT_OPEN''"

fun transition_outcome_value :: "IngestionOperationTransitionOutcome \<Rightarrow> string" where
  "transition_outcome_value IngestionOperationTransitionOutcome.COMMITTED = ''COMMITTED''"
| "transition_outcome_value IngestionOperationTransitionOutcome.ALREADY_COMMITTED = ''ALREADY_COMMITTED''"
| "transition_outcome_value IngestionOperationTransitionOutcome.IDENTITY_CONFLICT = ''IDENTITY_CONFLICT''"
| "transition_outcome_value IngestionOperationTransitionOutcome.STALE = ''STALE''"

definition retry_evidence :: "IngestionOperationIdentity \<Rightarrow> ParserAttemptIdentity \<Rightarrow> FailureEvidence" where
  "retry_evidence operation old_attempt =
     \<lparr>fe_operation_id = io_operation_id operation, fe_idempotency_key = io_idempotency_key operation,
      fe_protocol_request_id = Some (StrId (pt_parser_request_id old_attempt)), fe_attempt_number = pt_attempt_number old_attempt,
      fe_phase = FailurePhase.RECONCILIATION, fe_kind = FailureKind.AUTHORITATIVE_NOT_EXECUTED,
      fe_dispatch_certainty = DispatchCertainty.POSSIBLY_SENT, fe_execution_certainty = ExecutionCertainty.PROVEN_NOT_EXECUTED,
      fe_evidence_source = ''authoritative-parsed-artifact-registry''\<rparr>"

lemma retry_evidence_fields [simp]:
  "fe_operation_id (retry_evidence i a) = io_operation_id i" "fe_idempotency_key (retry_evidence i a) = io_idempotency_key i"
  "fe_protocol_request_id (retry_evidence i a) = Some (StrId (pt_parser_request_id a))"
  "fe_attempt_number (retry_evidence i a) = pt_attempt_number a"
  by (simp_all add: retry_evidence_def)

text \<open>From an admitted plan: the committer reopens the operation, and the fresh attempt is returned.\<close>

definition commit_retry ::
    "LifecycleEvent list \<Rightarrow> IngestionRetryRequest \<Rightarrow> IngestionOperationRecord \<Rightarrow> RetryDecision \<Rightarrow> RetryAttemptPlan \<Rightarrow> RetryDispatchDecision
      \<Rightarrow> LifecycleStore \<Rightarrow> LifecycleStore \<times> IngestionRetryResult res" where
  "commit_retry others request current decision planned dispatch s =
     (case prepare_proven_not_executed_retry (irq_operation request) (ir_state_version current) (ir_fence_token current)
         (fold lifecycle_step others s) of
        Inl e \<Rightarrow> (fold lifecycle_step others s, Inl e)
      | Inr (s', transition) \<Rightarrow>
          (s', case otr_record transition of
             None \<Rightarrow> Inr ((retry_result IngestionRetryOutcome.COMMIT_BLOCKED (transition_outcome_value (otr_outcome transition)))
               \<lparr>irs_policy_decision := Some (rd_kind decision), irs_dispatch_decision := Some (rdd_kind dispatch), irs_committer_calls := 1\<rparr>)
           | Some ready \<Rightarrow>
               if otr_outcome transition \<noteq> IngestionOperationTransitionOutcome.COMMITTED
               then Inr ((retry_result IngestionRetryOutcome.COMMIT_BLOCKED (transition_outcome_value (otr_outcome transition)))
                 \<lparr>irs_policy_decision := Some (rd_kind decision), irs_dispatch_decision := Some (rdd_kind dispatch), irs_committer_calls := 1\<rparr>)
               else bind_res (ParserAttemptIdentity_post_init
                   \<lparr>pt_operation_id = rap_operation_id planned, pt_idempotency_key = rap_idempotency_key planned,
                    pt_attempt_number = rap_attempt_number planned,
                    pt_parser_request_id = str_RequestId (rap_protocol_request_id planned),
                    pt_parser_generation = irq_current_parser_generation request\<rparr>) (\<lambda>attempt.
                 Inr ((retry_result IngestionRetryOutcome.READY_FOR_PREFLIGHT ''POLICY_APPROVED_RETRY_REQUIRES_FRESH_PREFLIGHT'')
                   \<lparr>irs_attempt := Some attempt, irs_expected_operation_state := Some IngestionOperationState.READY_FOR_DISPATCH,
                    irs_expected_operation_state_version := Some (ir_state_version ready),
                    irs_expected_operation_fence := Some (ir_fence_token ready),
                    irs_delay_seconds := Some (rap_delay_seconds planned), irs_policy_decision := Some (rd_kind decision),
                    irs_dispatch_decision := Some (rdd_kind dispatch), irs_committer_calls := 1, irs_durable_transitions := 1\<rparr>))))"

definition plan_and_commit ::
    "LifecycleEvent list \<Rightarrow> BoundedRetryPolicy \<Rightarrow> IngestionRetryRequest \<Rightarrow> IngestionOperationRecord \<Rightarrow> FailureEvidence
      \<Rightarrow> LifecycleStore \<Rightarrow> LifecycleStore \<times> IngestionRetryResult res" where
  "plan_and_commit others policy request current evidence s =
     (case retry_decide policy evidence (irq_retry_context request) of
        Inl e \<Rightarrow> (s, Inl e)
      | Inr decision \<Rightarrow>
          if \<not> retry_eligible decision
          then (s, Inr ((retry_result IngestionRetryOutcome.POLICY_BLOCKED (RetryDecisionKind_value (rd_kind decision)))
                 \<lparr>irs_policy_decision := Some (rd_kind decision)\<rparr>))
          else (case plan_retry_attempt evidence decision (StrId (irq_new_parser_request_id request))
                  (Some (irq_current_parser_generation request)) of
             Inl _ \<Rightarrow> (s, Inr ((retry_result IngestionRetryOutcome.ATTEMPT_IDENTITY_CONFLICT
                 ''FRESH_PARSER_REQUEST_ID_AND_ATTEMPT_SEQUENCE_REQUIRED'')\<lparr>irs_policy_decision := Some (rd_kind decision)\<rparr>))
           | Inr planned \<Rightarrow>
               let dispatch = admit_retry_dispatch planned (irq_dispatch_context request) in
               if \<not> admitted dispatch
               then (s, Inr ((retry_result IngestionRetryOutcome.DISPATCH_GATES_BLOCKED (RetryDispatchDecisionKind_value (rdd_kind dispatch)))
                      \<lparr>irs_policy_decision := Some (rd_kind decision), irs_dispatch_decision := Some (rdd_kind dispatch)\<rparr>))
               else commit_retry others request current decision planned dispatch s))"

definition prepare_retry ::
    "LifecycleEvent list \<Rightarrow> BoundedRetryPolicy \<Rightarrow> IngestionRetryRequest \<Rightarrow> LifecycleStore \<Rightarrow> LifecycleStore \<times> IngestionRetryResult res" where
  "prepare_retry others policy request s =
     (case read_operation s (io_operation_id (irq_operation request)) of
        Inl e \<Rightarrow> (s, Inl e)
      | Inr current \<Rightarrow>
          (case ir_attempt current of
             None \<Rightarrow> (s, Inr (retry_result IngestionRetryOutcome.LIFECYCLE_NOT_RETRYABLE ''AUTHORITATIVE_PROVEN_NOT_EXECUTED_STATE_REQUIRED''))
           | Some old_attempt \<Rightarrow>
               if ir_identity current \<noteq> irq_operation request \<or> ir_state current \<noteq> IngestionOperationState.PROVEN_NOT_EXECUTED
               then (s, Inr (retry_result IngestionRetryOutcome.LIFECYCLE_NOT_RETRYABLE ''AUTHORITATIVE_PROVEN_NOT_EXECUTED_STATE_REQUIRED''))
               else (case FailureEvidence_post_init (retry_evidence (irq_operation request) old_attempt) of
                  Inl e \<Rightarrow> (s, Inl e)
                | Inr evidence \<Rightarrow> plan_and_commit others policy request current evidence s)))"

section \<open>What the commit leaves\<close>

lemma step_of_prepare_retry:
  "prepare_proven_not_executed_retry i sv f s = Inr (s', c) \<Longrightarrow> s' = lifecycle_step (PrepareRetry i sv f) s"
  by (simp add: store_after_def)

definition reopened :: "IngestionOperationRecord \<Rightarrow> ParserAttemptIdentity \<Rightarrow> IngestionOperationRecord" where
  "reopened r a = (advance_operation IngestionOperationState.READY_FOR_DISPATCH r)\<lparr>ir_attempt_history := with_attempt a (ir_attempt_history r)\<rparr>"

lemma reopened_fields [simp]:
  "ir_identity (reopened r a) = ir_identity r" "ir_state (reopened r a) = IngestionOperationState.READY_FOR_DISPATCH"
  "ir_attempt (reopened r a) = ir_attempt r" "ir_state_version (reopened r a) = ir_state_version r + 1"
  "ir_fence_token (reopened r a) = ir_fence_token r + 1" "ir_attempt_history (reopened r a) = with_attempt a (ir_attempt_history r)"
  by (simp_all add: reopened_def advance_operation_def)

lemma prepare_committed:
  assumes "prepare_proven_not_executed_retry i sv f s = Inr (s', c)" and "otr_outcome c = IngestionOperationTransitionOutcome.COMMITTED"
  shows "\<exists>r a. ls_operations s (io_operation_id i) = Some r \<and> ir_identity r = i \<and> ir_attempt r = Some a \<and>
    guarded_operation r IngestionOperationState.PROVEN_NOT_EXECUTED sv f \<and> otr_record c = Some (reopened r a) \<and>
    IngestionOperationRecord_post_init (reopened r a) = Inr (reopened r a) \<and> ls_operations s' (io_operation_id i) = Some (reopened r a)"
proof -
  obtain r where r: "current_operation i s = Some r"
    using assms by (cases "current_operation i s") (auto simp: prepare_proven_not_executed_retry_def transition_result_def)
  have id: "ir_identity r = i" using r by (auto simp: current_operation_def split: option.splits if_splits)
  obtain a where a: "ir_attempt r = Some a"
    using assms r by (cases "ir_attempt r") (auto simp: prepare_proven_not_executed_retry_def transition_result_def split: if_splits)
  from assms have "guarded_operation r IngestionOperationState.PROVEN_NOT_EXECUTED sv f" and
    ok: "\<exists>q. IngestionOperationRecord_post_init (reopened r a) = Inr q \<and> otr_record c = Some q \<and> ls_operations s' (io_operation_id i) = Some q"
    by (auto simp: prepare_proven_not_executed_retry_def r a transition_result_def bind_res_eq_Inr reopened_def add_event_fields
        split: if_splits)
  with operation_post_init_id r id a current_operation_stored [OF r] show ?thesis by blast
qed

lemma prepare_not_committed:
  assumes "prepare_proven_not_executed_retry i sv f s = Inr (s', c)" and "otr_outcome c \<noteq> IngestionOperationTransitionOutcome.COMMITTED"
  shows "s' = s"
  using assms by (auto simp: prepare_proven_not_executed_retry_def transition_result_def bind_res_eq_Inr split: option.splits if_splits)

section \<open>Attempt numbers ascend\<close>

text \<open>
  In a reachable store the numbers of an operation's attempt history do not exceed that of its last attempt, so
  the next number is always new to the history. Request ids are compared with the last attempt only.
\<close>

definition attempts_ascend :: "IngestionOperationRecord \<Rightarrow> bool" where
  "attempts_ascend r \<longleftrightarrow> (case ir_attempt r of None \<Rightarrow> ir_attempt_history r = []
     | Some a \<Rightarrow> list_all (\<lambda>b. pt_attempt_number b \<le> pt_attempt_number a) (ir_attempt_history r))"

definition ascending :: "LifecycleStore \<Rightarrow> bool" where
  "ascending s \<longleftrightarrow> (\<forall>k r. ls_operations s k = Some r \<longrightarrow> attempts_ascend r)"

lemma ascendingD: "ascending s \<Longrightarrow> ls_operations s k = Some r \<Longrightarrow> attempts_ascend r"
  unfolding ascending_def by blast

lemma ascending_upd: "ascending s \<Longrightarrow> attempts_ascend r \<Longrightarrow> ls_operations s' = (ls_operations s)(k \<mapsto> r) \<Longrightarrow> ascending s'"
  by (simp add: ascending_def)

lemma ascending_same: "ascending s \<Longrightarrow> ls_operations s' = ls_operations s \<Longrightarrow> ascending s'"
  by (simp add: ascending_def)

lemma ascend_advance [simp]: "attempts_ascend (advance_operation st r) = attempts_ascend r"
  by (simp add: attempts_ascend_def advance_operation_def split: option.split)

lemma ascend_with_attempt:
  assumes "attempts_ascend r" and "ir_attempt r = Some a"
  shows "list_all (\<lambda>b. pt_attempt_number b \<le> pt_attempt_number a) (with_attempt a (ir_attempt_history r))"
  using assms by (simp add: attempts_ascend_def with_attempt_def)

text \<open>A handler keeps the order: rules for its branches, and for the one-record update most of them end with.\<close>

definition rises :: "LifecycleStore \<Rightarrow> (LifecycleStore \<times> 'r) res \<Rightarrow> bool" where
  "rises s m \<longleftrightarrow> (\<forall>s' r. m = Inr (s', r) \<longrightarrow> ascending s \<longrightarrow> ascending s')"

lemma rises_same: "rises s (Inr (s, r))"
  by (simp add: rises_def)

lemma rises_raise [simp]: "rises s (Inl e)"
  by (simp add: rises_def)

lemma rises_operations: "ls_operations s' = ls_operations s \<Longrightarrow> rises s (Inr (s', r))"
  by (auto simp: rises_def intro: ascending_same)

lemmas rises_if = if_prop [where P = "rises s" for s]

lemma rises_bind:
  assumes "\<And>x. m = Inr x \<Longrightarrow> rises s (f x)"
  shows "rises s (bind_res m f)"
  using assms by (cases m) simp_all

lemma rises_store_after: "rises s m \<Longrightarrow> ascending s \<Longrightarrow> ascending (store_after s m)"
  by (auto simp: rises_def store_after_def split: sum.splits)

lemma rises_update:
  assumes "IngestionOperationRecord_post_init q = Inr r'" and "ls_operations s k = Some r" "attempts_ascend r \<Longrightarrow> attempts_ascend q"
    and "ls_operations s' = (ls_operations s)(j \<mapsto> r')"
  shows "rises s (Inr (s', x))"
  using operation_post_init_id [OF assms(1)] ascending_upd [OF _ _ assms(4)] ascendingD [OF _ assms(2)] assms(3) by (auto simp: rises_def)

lemma ascending_claim:
  assumes s: "ascending s" and c: "claim_parse_dispatch i b st sv f s = Inr (s', x)"
  shows "ascending s'"
proof (cases "ls_operations s (io_operation_id i)")
  case None
  with c s show ?thesis by (simp add: claim_parse_dispatch_def)
next
  case (Some r)
  note asc = ascendingD [OF s Some]
  let ?h = "case ir_attempt r of None \<Rightarrow> ir_attempt_history r | Some a \<Rightarrow> with_attempt a (ir_attempt_history r)"
  let ?q = "r\<lparr>ir_state := IngestionOperationState.PARSE_DISPATCH_STARTED, ir_state_version := ir_state_version r + 1,
    ir_fence_token := ir_fence_token r + 1, ir_attempt := Some b, ir_attempt_history := with_attempt b ?h\<rparr>"
  have "s' = s \<or> ((case ir_attempt r of None \<Rightarrow> True | Some a \<Rightarrow> pt_attempt_number b = pt_attempt_number a + 1) \<and>
      (\<exists>r'. IngestionOperationRecord_post_init ?q = Inr r' \<and> ls_operations s' = (ls_operations s)(io_operation_id i \<mapsto> r')))"
    using c by (auto simp: claim_parse_dispatch_def Some Let_def bind_res_eq_Inr split: if_splits option.splits)
  then show ?thesis
  proof (elim disjE conjE exE)
    fix r' assume n: "case ir_attempt r of None \<Rightarrow> True | Some a \<Rightarrow> pt_attempt_number b = pt_attempt_number a + 1"
      and r': "IngestionOperationRecord_post_init ?q = Inr r'" "ls_operations s' = (ls_operations s)(io_operation_id i \<mapsto> r')"
    have "list_all (\<lambda>c. pt_attempt_number c \<le> pt_attempt_number b) (with_attempt b ?h)"
      using asc n by (cases "ir_attempt r") (fastforce simp: attempts_ascend_def with_attempt_def list_all_iff)+
    then have "attempts_ascend r'" using operation_post_init_id [OF r'(1)] by (simp add: attempts_ascend_def)
    from ascending_upd [OF s this r'(2)] show ?thesis .
  qed (use s in simp)
qed

lemma rises_prepare: "rises s (prepare_proven_not_executed_retry i sv f s)"
proof (cases "current_operation i s")
  case (Some r)
  note r = current_operation_stored [OF Some]
  show ?thesis
  proof (cases "ir_attempt r")
    case (Some a)
    have "attempts_ascend r \<Longrightarrow> attempts_ascend (reopened r a)"
      using ascend_with_attempt [OF _ Some] by (simp add: attempts_ascend_def Some)
    then show ?thesis
      unfolding prepare_proven_not_executed_retry_def \<open>current_operation i s = Some r\<close> Some option.case reopened_def [symmetric]
      by (intro rises_if rises_same rises_bind) (erule rises_update [OF _ r]; simp add: add_event_fields)
  qed (auto simp: prepare_proven_not_executed_retry_def Some intro!: rises_if rises_same)
qed (simp add: prepare_proven_not_executed_retry_def rises_same)

lemma rises_mark_pending: "rises s (mark_pending_reconciliation i sv f s)"
proof (cases "current_operation i s")
  case (Some r)
  show ?thesis
    unfolding mark_pending_reconciliation_def Some option.case
    by (intro rises_if rises_same rises_bind) (erule rises_update [OF _ current_operation_stored [OF Some]]; simp add: add_event_fields)
qed (simp add: mark_pending_reconciliation_def rises_same)

lemma rises_reconcile: "rises s (commit_authoritative_reconciliation i target sv f s)"
proof (cases "current_operation i s")
  case (Some r)
  show ?thesis
    unfolding commit_authoritative_reconciliation_def Some option.case
    by (intro rises_if rises_same rises_raise rises_bind; simp only: Let_def split_beta)
      (erule rises_update [OF _ current_operation_stored [OF Some]]; simp add: add_event_fields)
qed (auto simp: commit_authoritative_reconciliation_def intro!: rises_if rises_same)

lemma rises_quarantine: "rises s (mark_quarantined i sv f s)"
proof (cases "current_operation i s")
  case (Some r)
  show ?thesis
    unfolding mark_quarantined_def Some option.case
    by (intro rises_if rises_same rises_bind; cases "ls_versions s (version_key (io_version i))"; simp only: option.case;
        intro rises_if rises_same rises_bind; erule rises_update [OF _ current_operation_stored [OF Some]]; simp add: add_event_fields)
qed (simp add: mark_quarantined_def rises_same)

lemma rises_tombstone: "rises s (tombstone_document i st sv f s)"
proof -
  have tv: "ls_operations s' = ls_operations s" if "tombstone_version i d s = Inr (Inr (s', x))" for d s' x
    using that by (auto simp: tombstone_version_def Let_def bind_res_eq_Inr split: option.splits if_splits)
  show ?thesis
    by (cases "ls_documents s (document_key i)")
      (auto simp: tombstone_document_def tv add_event_fields intro!: rises_if rises_bind rises_operations split: sum.splits prod.splits)
qed

lemma rises_intake: "rises s (register_intake operation version source s)"
proof -
  have "rises s (Inr (intake_create operation version source s))"
    unfolding rises_def
  proof (intro allI impI)
    fix s' x assume s: "Inr (intake_create operation version source s) = Inr (s', x)" "ascending s"
    have "ls_operations (fst (intake_create operation version source s)) = (ls_operations s)(io_operation_id operation \<mapsto> new_operation operation)"
      by (simp add: intake_create_def Let_def add_event_fields)
    then have "ls_operations s' = (ls_operations s)(io_operation_id operation \<mapsto> new_operation operation)" using s(1) by simp
    moreover have "attempts_ascend (new_operation operation)" by (simp add: attempts_ascend_def new_operation_def)
    ultimately show "ascending s'" using ascending_upd [OF s(2)] by blast
  qed
  then show ?thesis
    unfolding register_intake_def Let_def
    by (intro rises_if rises_same) (auto intro!: rises_if rises_bind rises_same split: option.split)
qed

lemma ascending_commit:
  assumes s: "ascending s"
  shows "ascending (fst (commit_activation decision g s))"
proof -
  define P where "P x \<longleftrightarrow> ascending (fst x)" for x :: "LifecycleStore \<times> IngestionCommitResult res"
  have same: "P (s, res)" for res using s by (simp add: P_def)
  have "P (commit_current d v r q g s)" if r: "ls_operations s (io_operation_id (ap_operation q)) = Some r" for d v r q
  proof -
    have "P (case supersede_previous d (io_version (ap_operation q)) s of
        Inl e \<Rightarrow> (s, Inl e)
      | Inr None \<Rightarrow> (s, Inr z)
      | Inr (Some s') \<Rightarrow> (case activate d v r q s' of Inl e \<Rightarrow> (s', Inl e) | Inr (s'', x) \<Rightarrow> (s'', Inr x)))" for z
    proof (cases "supersede_previous d (io_version (ap_operation q)) s")
      case (Inr x)
      show ?thesis
      proof (cases x)
        case (Some s')
        from supersede_moves [of d "io_version (ap_operation q)" s s'] Inr Some obtain vs where s': "s' = s\<lparr>ls_versions := vs\<rparr>" by auto
        then have "rises s' (activate d v r q s')"
          unfolding activate_def Let_def
          by (intro rises_bind) (erule rises_update [where k = "io_operation_id (ap_operation q)" and r = r]; simp add: r add_event_fields)
        moreover have "ascending s'" by (rule ascending_same [OF s]) (simp add: s')
        ultimately show ?thesis using Inr Some by (auto simp: P_def rises_def split: sum.splits)
      qed (simp add: Inr same)
    qed (simp add: same)
    then show ?thesis
      unfolding commit_current_def Let_def by (intro if_prop [where P = P] same)
  qed
  then show ?thesis
    using s unfolding P_def commit_activation_def by (auto split: option.splits)
qed

interpretation ascending: invariant_machine lifecycle_step ascending
proof
  fix s e assume s: "ascending s"
  show "ascending (lifecycle_step e s)"
  proof (cases e)
    case (ClaimDispatch i b st sv f)
    with ascending_claim [OF s] have "rises s (claim_parse_dispatch i b st sv f s)" unfolding rises_def by blast
    with s show ?thesis by (simp add: ClaimDispatch rises_store_after)
  qed (use s in \<open>auto intro!: rises_store_after rises_intake rises_prepare rises_mark_pending rises_quarantine rises_reconcile
        rises_tombstone ascending_commit split: sum.splits\<close>)
qed

lemma run_attempts_ascend: "ls_operations (lifecycle_run es) k = Some r \<Longrightarrow> attempts_ascend r"
  unfolding lifecycle_run_def
  by (rule ascendingD [OF ascending.run_inv]) (simp_all add: ascending_def LifecycleStore_init_def)

section \<open>The claim of the next attempt\<close>

text \<open>
  A reopened operation grants the next attempt exactly if its request id is new to the history; for an id that an
  earlier attempt used, the claim raises instead of reporting a conflict.
\<close>

definition claim_verdict_of :: "ParserAttemptIdentity \<Rightarrow> ParserAttemptIdentity list \<Rightarrow> (LifecycleStore \<times> IngestionDispatchClaim) res \<Rightarrow> bool" where
  "claim_verdict_of b history claim \<longleftrightarrow>
     (if pt_parser_request_id b \<in> pt_parser_request_id ` set history
      then claim = Inl (ValueError ''attempt history parser request ids must be unique'')
      else \<exists>s' c. claim = Inr (s', c) \<and> dcl_outcome c = IngestionDispatchClaimOutcome.CLAIMED)"

lemma claim_reopened:
  assumes "ls_operations s (io_operation_id i) = Some (reopened r a)" and "IngestionOperationRecord_post_init (reopened r a) = Inr (reopened r a)"
    and "ir_identity r = i" "ir_attempt r = Some a" "attempts_ascend r"
    and "pt_operation_id b = io_operation_id i" "pt_idempotency_key b = io_idempotency_key i"
    and "pt_attempt_number b = pt_attempt_number a + 1" "pt_parser_request_id b \<noteq> pt_parser_request_id a"
  shows "claim_verdict_of b (ir_attempt_history r)
    (claim_parse_dispatch i b IngestionOperationState.READY_FOR_DISPATCH (ir_state_version r + 1) (ir_fence_token r + 1) s)"
proof -
  let ?h = "with_attempt a (ir_attempt_history r)"
  let ?q = "(reopened r a)\<lparr>ir_state := IngestionOperationState.PARSE_DISPATCH_STARTED,
      ir_state_version := ir_state_version r + 1 + 1, ir_fence_token := ir_fence_token r + 1 + 1, ir_attempt := Some b,
      ir_attempt_history := ?h @ [b]\<rparr>"
  have new: "pt_attempt_number b \<notin> pt_attempt_number ` set ?h"
    using ascend_with_attempt [OF assms(5,4)] assms(8) by (auto simp: list_all_iff)
  have h: "with_attempt a ?h = ?h" by (simp add: with_attempt_def)
  have hb: "with_attempt b ?h = ?h @ [b]" using new by (auto simp: with_attempt_def)
  have set: "set ?h = insert a (set (ir_attempt_history r))" by (auto simp: with_attempt_def)
  have ok: "distinct (map pt_attempt_number (?h @ [b]))" "0 \<le> ir_state_version r + 1" "0 \<le> ir_fence_token r + 1"
    using assms(2) new by (auto simp: IngestionOperationRecord_post_init_def split: if_splits)
  show ?thesis
  proof (cases "pt_parser_request_id b \<in> pt_parser_request_id ` set (ir_attempt_history r)")
    case True
    then have "\<not> distinct (map pt_parser_request_id (?h @ [b]))" using set by auto
    with ok True assms(1,3,4,6-9) show ?thesis
      by (simp add: claim_verdict_of_def claim_parse_dispatch_def h hb IngestionOperationRecord_post_init_def)
  next
    case False
    then have "IngestionOperationRecord_post_init ?q = Inr ?q"
      using assms(2,3,6,7,9) ok set by (auto simp: IngestionOperationRecord_post_init_def split: if_splits)
    then show ?thesis using False assms(1,3,4,6-9) by (simp add: claim_verdict_of_def claim_parse_dispatch_def h hb)
  qed
qed

section \<open>What the coordinator promises\<close>

text \<open>The attempt returned, the guards it is returned with, and the store it can be claimed in.\<close>

definition retry_ready ::
    "IngestionRetryRequest \<Rightarrow> IngestionOperationRecord \<Rightarrow> ParserAttemptIdentity \<Rightarrow> LifecycleStore \<Rightarrow> IngestionRetryResult \<Rightarrow> bool" where
  "retry_ready request r old s' res \<longleftrightarrow>
     (let operation = irq_operation request in \<exists>b. irs_attempt res = Some b \<and> pt_attempt_number b = pt_attempt_number old + 1 \<and>
      pt_parser_request_id b = irq_new_parser_request_id request \<and> pt_parser_request_id b \<noteq> pt_parser_request_id old \<and>
      pt_parser_generation b = irq_current_parser_generation request \<and>
      irs_expected_operation_state res = Some IngestionOperationState.READY_FOR_DISPATCH \<and>
      irs_expected_operation_state_version res = Some (ir_state_version r + 1) \<and> irs_expected_operation_fence res = Some (ir_fence_token r + 1) \<and>
      irs_parser_calls res = 0 \<and>
      claim_verdict_of b (ir_attempt_history r)
        (claim_parse_dispatch operation b IngestionOperationState.READY_FOR_DISPATCH (ir_state_version r + 1) (ir_fence_token r + 1) s'))"

lemma commit_retry_ok:
  assumes "commit_retry others request r decision planned dispatch (lifecycle_run es) = (s', Inr res)"
    and r: "ls_operations (lifecycle_run es) (io_operation_id (irq_operation request)) = Some r" "ir_identity r = irq_operation request"
      "ir_attempt r = Some old"
    and p: "rap_operation_id planned = io_operation_id (irq_operation request)" "rap_idempotency_key planned = io_idempotency_key (irq_operation request)"
      "rap_attempt_number planned = pt_attempt_number old + 1" "rap_protocol_request_id planned = StrId (irq_new_parser_request_id request)"
      "irq_new_parser_request_id request \<noteq> pt_parser_request_id old"
  shows "if irs_outcome res = IngestionRetryOutcome.READY_FOR_PREFLIGHT
    then retry_ready request r old s' res \<and> (\<exists>later. s' = lifecycle_run (es @ others @ later))
    else s' = lifecycle_run (es @ others)"
proof -
  let ?i = "irq_operation request" and ?t = "lifecycle_run (es @ others)"
  have t: "fold lifecycle_step others (lifecycle_run es) = ?t" by (simp add: lifecycle_run_def)
  obtain c where c: "prepare_proven_not_executed_retry ?i (ir_state_version r) (ir_fence_token r) ?t = Inr (s', c)"
    using assms(1) unfolding commit_retry_def t by (auto split: sum.splits)
  show ?thesis
  proof (cases "otr_outcome c = IngestionOperationTransitionOutcome.COMMITTED")
    case False
    with assms(1) have "irs_outcome res = IngestionRetryOutcome.COMMIT_BLOCKED"
      unfolding commit_retry_def t c by (auto simp: retry_result_def split: option.splits)
    with prepare_not_committed [OF c False] show ?thesis by simp
  next
    case True
    from prepare_committed [OF c True] obtain q a where q: "ls_operations ?t (io_operation_id ?i) = Some q" "ir_attempt q = Some a"
      "guarded_operation q IngestionOperationState.PROVEN_NOT_EXECUTED (ir_state_version r) (ir_fence_token r)"
      "otr_record c = Some (reopened q a)" "IngestionOperationRecord_post_init (reopened q a) = Inr (reopened q a)"
      "ls_operations s' (io_operation_id ?i) = Some (reopened q a)" by blast
    have "q = r" using operations.run_unchanged [OF r(1), of others q] q(1,3) by (simp add: t guarded_operation_def)
    with q r(3) have q: "a = old" "otr_record c = Some (reopened r old)" "IngestionOperationRecord_post_init (reopened r old) = Inr (reopened r old)"
      "ls_operations s' (io_operation_id ?i) = Some (reopened r old)" by auto
    let ?b = "\<lparr>pt_operation_id = io_operation_id ?i, pt_idempotency_key = io_idempotency_key ?i, pt_attempt_number = pt_attempt_number old + 1,
      pt_parser_request_id = irq_new_parser_request_id request, pt_parser_generation = irq_current_parser_generation request\<rparr>"
    have "ParserAttemptIdentity_post_init ?b = Inr b \<Longrightarrow> b = ?b" for b
      by (auto simp: ParserAttemptIdentity_post_init_def require_non_empty_def bind_res_eq_Inr split: if_splits)
    then have res: "res = (retry_result IngestionRetryOutcome.READY_FOR_PREFLIGHT ''POLICY_APPROVED_RETRY_REQUIRES_FRESH_PREFLIGHT'')
        \<lparr>irs_attempt := Some ?b, irs_expected_operation_state := Some IngestionOperationState.READY_FOR_DISPATCH,
         irs_expected_operation_state_version := Some (ir_state_version r + 1), irs_expected_operation_fence := Some (ir_fence_token r + 1),
         irs_delay_seconds := Some (rap_delay_seconds planned), irs_policy_decision := Some (rd_kind decision),
         irs_dispatch_decision := Some (rdd_kind dispatch), irs_committer_calls := 1, irs_durable_transitions := 1\<rparr>"
      using assms(1) True unfolding commit_retry_def t c p q(2) str_RequestId.simps by (auto simp: q(2) bind_res_eq_Inr)
    have "retry_ready request r old s' res"
      using claim_reopened [OF q(4,3) r(2,3) run_attempts_ascend [OF r(1)], of ?b] p(5) by (simp add: retry_ready_def res retry_result_def)
    moreover have "s' = lifecycle_run (es @ others @ [PrepareRetry ?i (ir_state_version r) (ir_fence_token r)])"
      using step_of_prepare_retry [OF c] by (simp add: lifecycle_run_def del: lifecycle_step.simps)
    ultimately show ?thesis by (auto simp: res retry_result_def)
  qed
qed

text \<open>
  C28. A prepared retry can be dispatched exactly if its request id was never used, and nothing else moves the
  operation. Whatever other callers do between the read and the commit: when the coordinator answers
  READY_FOR_PREFLIGHT, the operation was proven not executed with a recorded attempt, the retry policy found
  that attempt eligible and the dispatch gates admitted the new one; the returned attempt has the next number
  and the requested request id, which differs from that of the last attempt, and comes with the state, version
  and fence of the reopened operation. In the store the coordinator leaves, the claim of that attempt under
  these guards is granted exactly if no attempt of the history used the request id; otherwise it raises
  \<^verbatim>\<open>ValueError\<close>, since the coordinator compared the id with the last attempt only. Every other answer leaves the
  store as the other callers made it. The parser is not an argument of the coordinator.
\<close>

theorem prepared_retry_dispatchable:
  assumes "prepare_retry others policy request (lifecycle_run es) = (s', Inr res)"
  shows "if irs_outcome res = IngestionRetryOutcome.READY_FOR_PREFLIGHT
    then (\<exists>r old plan. ls_operations (lifecycle_run es) (io_operation_id (irq_operation request)) = Some r \<and>
      ir_identity r = irq_operation request \<and> ir_state r = IngestionOperationState.PROVEN_NOT_EXECUTED \<and> ir_attempt r = Some old \<and>
      retry_gates (retry_evidence (irq_operation request) old) (irq_retry_context request) \<and>
      admitted (admit_retry_dispatch plan (irq_dispatch_context request)) \<and>
      retry_ready request r old s' res \<and> (\<exists>later. s' = lifecycle_run (es @ others @ later)))
    else s' \<in> {lifecycle_run es, lifecycle_run (es @ others)}"
proof -
  let ?i = "irq_operation request"
  obtain r where r: "ls_operations (lifecycle_run es) (io_operation_id ?i) = Some r"
    using assms by (cases "ls_operations (lifecycle_run es) (io_operation_id ?i)") (auto simp: prepare_retry_def read_operation_def)
  show ?thesis
  proof (cases "ir_identity r = ?i \<and> ir_state r = IngestionOperationState.PROVEN_NOT_EXECUTED \<and> ir_attempt r \<noteq> None")
    case False
    with assms show ?thesis
      by (auto simp: prepare_retry_def read_operation_def r retry_result_def split: option.splits)
  next
    case True
    then obtain old where old: "ir_identity r = ?i" "ir_state r = IngestionOperationState.PROVEN_NOT_EXECUTED" "ir_attempt r = Some old" by blast
    let ?e = "retry_evidence ?i old"
    have run: "plan_and_commit others policy request r ?e (lifecycle_run es) = (s', Inr res)"
      using assms by (auto simp: prepare_retry_def read_operation_def r old FailureEvidence_ok_iff split: sum.splits)
    then obtain d where d: "retry_decide policy ?e (irq_retry_context request) = Inr d"
      by (auto simp: plan_and_commit_def split: sum.splits)
    show ?thesis
    proof (cases "retry_eligible d \<and> irq_new_parser_request_id request \<noteq> pt_parser_request_id old")
      case False
      with run show ?thesis
        by (auto simp: plan_and_commit_def d retry_result_def plan_retry_attempt_def split: if_splits)
    next
      case True
      then have "Some (StrId (irq_new_parser_request_id request)) \<noteq> fe_protocol_request_id ?e" by simp
      from plan_of_eligible [OF d _ this, of "Some (irq_current_parser_generation request)"] True obtain plan
        where plan: "plan_retry_attempt ?e d (StrId (irq_new_parser_request_id request)) (Some (irq_current_parser_generation request)) = Inr plan"
          "rap_operation_id plan = io_operation_id ?i" "rap_idempotency_key plan = io_idempotency_key ?i"
          "rap_attempt_number plan = pt_attempt_number old + 1" "rap_protocol_request_id plan = StrId (irq_new_parser_request_id request)"
        by auto
      have gates: "retry_gates ?e (irq_retry_context request)" using retry_eligible_iff [OF d] True by blast
      show ?thesis
      proof (cases "admitted (admit_retry_dispatch plan (irq_dispatch_context request))")
        case False
        with run True show ?thesis by (auto simp: plan_and_commit_def d plan(1) retry_result_def Let_def)
      next
        case adm: True
        with run True have "commit_retry others request r d plan (admit_retry_dispatch plan (irq_dispatch_context request)) (lifecycle_run es) = (s', Inr res)"
          by (simp add: plan_and_commit_def d plan(1) Let_def)
        from commit_retry_ok [OF this r old(1,3) plan(2-5)] True gates adm r old show ?thesis
          by (auto split: if_splits)
      qed
    qed
  qed
qed

section \<open>A retry after a proven non-execution\<close>

definition open_gates :: RetryDispatchContext where
  "open_gates = \<lparr>rdc_now = Finite 0, rdc_deadline = Finite 64, rdc_caller_intent_active = True, rdc_authorization_current = True,
     rdc_capacity_admitted = True, rdc_circuit_allows_request = True, rdc_minimum_attempt_window_seconds = Finite 0\<rparr>"

definition run_retry :: IngestionRetryRequest where
  "run_retry = \<lparr>irq_operation = run_io, irq_new_parser_request_id = ''r2'', irq_current_parser_generation = 0,
     irq_retry_context = relaxed_context, irq_dispatch_context = open_gates\<rparr>"

definition run_not_executed :: "LifecycleEvent list" where
  "run_not_executed = run_start @ [MarkPending run_io 1 1, Reconcile run_io IngestionOperationState.PROVEN_NOT_EXECUTED 2 2]"

abbreviation not_executed_record :: IngestionOperationRecord where
  "not_executed_record \<equiv> advance_operation IngestionOperationState.PROVEN_NOT_EXECUTED run_pending"

lemma run_not_executed_operations: "ls_operations (lifecycle_run run_not_executed) = [''op'' \<mapsto> not_executed_record]"
proof -
  obtain s1 where m: "mark_pending_reconciliation run_io 1 1 (lifecycle_run run_start) =
      Inr (s1, transition_result IngestionOperationTransitionOutcome.COMMITTED (Some run_pending) True)"
    and s1: "ls_operations s1 = [''op'' \<mapsto> run_pending]" by (rule run_mark_pending)
  obtain s2 c where c: "commit_authoritative_reconciliation run_io IngestionOperationState.PROVEN_NOT_EXECUTED 2 2 s1 = Inr (s2, c)"
    "ls_operations s2 = [''op'' \<mapsto> not_executed_record]"
    by (rule run_reconciles [OF s1, of IngestionOperationState.PROVEN_NOT_EXECUTED]) simp_all
  have "lifecycle_run run_not_executed = s2"
    using step_of_pending [OF m] step_of_reconcile [OF c(1)]
    by (simp add: run_not_executed_def lifecycle_run_def del: lifecycle_step.simps)
  then show ?thesis by (simp add: c(2))
qed

lemma not_executed_fields:
  "ir_identity not_executed_record = run_io" "ir_state not_executed_record = IngestionOperationState.PROVEN_NOT_EXECUTED"
  "ir_attempt not_executed_record = Some run_attempt" "ir_attempt_history not_executed_record = [run_attempt]"
  "ir_state_version not_executed_record = 3" "ir_fence_token not_executed_record = 3"
  by (simp_all add: advance_operation_def run_pending_def run_operation_def)

lemma run_retry_ready:
  "\<exists>s' res. prepare_retry [] default_retry_policy run_retry (lifecycle_run run_not_executed) = (s', Inr res) \<and>
     irs_outcome res = IngestionRetryOutcome.READY_FOR_PREFLIGHT"
proof -
  let ?e = "retry_evidence run_io run_attempt" and ?s = "lifecycle_run run_not_executed"
  have gates: "retry_gates ?e relaxed_context"
    by (simp add: retry_gates_def retry_evidence_def relaxed_context_def retryable_kinds_def f_le_def)
  obtain d where d: "retry_decide default_retry_policy ?e relaxed_context = Inr d" "retry_eligible d" using relaxed_eligible [OF gates] by blast
  have "Some (StrId ''r2'') \<noteq> fe_protocol_request_id ?e" by (simp add: run_attempt_def)
  from plan_of_eligible [OF d this, of "Some 0"] obtain plan where plan: "plan_retry_attempt ?e d (StrId ''r2'') (Some 0) = Inr plan"
    "rap_operation_id plan = ''op''" "rap_idempotency_key plan = ''key''" "rap_attempt_number plan = 2" "rap_protocol_request_id plan = StrId ''r2''"
    by (auto simp: run_io_def run_attempt_def)
  have adm: "admitted (admit_retry_dispatch plan open_gates)"
    by (simp add: admitted_def admit_retry_dispatch_def open_gates_def fl_exact binary64_consts)
  have ev: "FailureEvidence_post_init ?e = Inr ?e"
    by (simp add: FailureEvidence_post_init_def retry_evidence_def run_io_def run_attempt_def py_defs)
  have ok: "IngestionOperationRecord_post_init (reopened not_executed_record run_attempt) = Inr (reopened not_executed_record run_attempt)"
    by (simp add: IngestionOperationRecord_post_init_def not_executed_fields with_attempt_def run_attempt_def run_io_def)
  have c: "\<exists>s' t. prepare_proven_not_executed_retry run_io 3 3 ?s = Inr (s', t) \<and>
      otr_outcome t = IngestionOperationTransitionOutcome.COMMITTED \<and> otr_record t = Some (reopened not_executed_record run_attempt)"
    using ok by (simp add: prepare_proven_not_executed_retry_def current_operation_def run_not_executed_operations run_ids
        not_executed_fields guarded_operation_def transition_result_def reopened_def)
  then show ?thesis
    using d plan adm ev
    by (auto simp: prepare_retry_def plan_and_commit_def commit_retry_def read_operation_def run_not_executed_operations run_ids not_executed_fields
        run_retry_def retry_result_def ParserAttemptIdentity_post_init_def require_non_empty_def non_blank_Cons is_space_def byte_of_def Let_def py_defs)
qed

theorem prepared_retry_dispatchable_witness:
  "\<exists>s' res b s'' c. prepare_retry [] default_retry_policy run_retry (lifecycle_run run_not_executed) = (s', Inr res) \<and>
     irs_attempt res = Some b \<and> pt_attempt_number b = 2 \<and>
     claim_parse_dispatch run_io b IngestionOperationState.READY_FOR_DISPATCH 4 4 s' = Inr (s'', c) \<and>
     dcl_outcome c = IngestionDispatchClaimOutcome.CLAIMED"
proof -
  obtain s' res where p: "prepare_retry [] default_retry_policy run_retry (lifecycle_run run_not_executed) = (s', Inr res)"
    "irs_outcome res = IngestionRetryOutcome.READY_FOR_PREFLIGHT" using run_retry_ready by blast
  have i: "irq_operation run_retry = run_io" "io_operation_id run_io = ''op''" "irq_new_parser_request_id run_retry = ''r2''"
    "pt_attempt_number run_attempt = 1" "pt_parser_request_id run_attempt = ''r''"
    by (simp_all add: run_retry_def run_io_def run_attempt_def)
  from prepared_retry_dispatchable [OF p(1)] p(2) have "retry_ready run_retry not_executed_record run_attempt s' res"
    by (auto simp: i run_not_executed_operations not_executed_fields)
  with p(1) show ?thesis by (auto simp: retry_ready_def claim_verdict_of_def Let_def i not_executed_fields)
qed

end
