(* ===== verification/Retry_Dispatch.thy ===== *)
theory Retry_Dispatch
  imports Retry_Policy
begin

text \<open>
  The dispatch store of \<^verbatim>\<open>src/projects/ai-agent/src/mcp_retry_policy.py\<close>: the conditional update by which
  one caller persists DISPATCH_STARTED before it may call the transport, the completion of an exact
  attempt and the recovery of a started dispatch that lost its owner.
\<close>

section \<open>The store\<close>

datatype RetryDispatchRecordState = READY_FOR_DISPATCH | READY_FOR_RETRY | DISPATCH_STARTED | COMPLETED

record RetryDispatchRecord =
  rr_operation_id :: string
  rr_idempotency_key :: string
  rr_state :: RetryDispatchRecordState
  rr_version :: int
  rr_attempt_number :: int
  rr_protocol_request_id :: "RequestId option"
  rr_tenant_id :: "string option"
  rr_resource_id :: "string option"
  rr_tool_name :: "string option"
  rr_fence_token :: int
  rr_transport_generation :: "int option"
  rr_external_object_id :: "string option"

datatype RetryDispatchClaimOutcome =
  CLAIMED | NOT_ADMITTED | IDENTITY_CONFLICT | STATE_CONFLICT | VERSION_CONFLICT | FENCE_CONFLICT
| ATTEMPT_SEQUENCE_CONFLICT | TRANSPORT_GENERATION_REQUIRED

record RetryDispatchClaim =
  rk_outcome :: RetryDispatchClaimOutcome
  rk_record :: "RetryDispatchRecord option"
  rk_durable_transition :: bool
  rk_transport_calls :: int

definition claimed :: "RetryDispatchClaim \<Rightarrow> bool" where
  "claimed k \<longleftrightarrow> rk_outcome k = RetryDispatchClaimOutcome.CLAIMED"

type_synonym RetryStore = "string \<rightharpoonup> RetryDispatchRecord"

definition truthy_option :: "string option \<Rightarrow> bool" where
  "truthy_option v \<longleftrightarrow> v \<noteq> None \<and> v \<noteq> Some []"

definition add_retryable ::
    "FailureEvidence \<Rightarrow> string option \<Rightarrow> string option \<Rightarrow> string option \<Rightarrow> int \<Rightarrow> int \<Rightarrow> RetryStore \<Rightarrow> RetryStore res" where
  "add_retryable evidence tenant_id resource_id tool_name version fence_token s =
     (if fe_execution_certainty evidence \<noteq> ExecutionCertainty.PROVEN_NOT_EXECUTED
      then Inl (ValueError ''only proven-not-executed attempts can retry'')
      else if list_ex (\<lambda>v. v \<noteq> None) [tenant_id, resource_id, tool_name]
        \<and> \<not> list_all truthy_option [tenant_id, resource_id, tool_name]
      then Inl (ValueError ''retryable operation binding must be complete'')
      else if version < 0 \<or> fence_token < 0 then Inl (ValueError ''retryable version and fence must be non-negative'')
      else if s (fe_operation_id evidence) \<noteq> None then Inl (ValueError ''operation is already registered'')
      else Inr (s(fe_operation_id evidence \<mapsto>
        \<lparr>rr_operation_id = fe_operation_id evidence, rr_idempotency_key = fe_idempotency_key evidence,
         rr_state = RetryDispatchRecordState.READY_FOR_RETRY, rr_version = version,
         rr_attempt_number = fe_attempt_number evidence, rr_protocol_request_id = fe_protocol_request_id evidence,
         rr_tenant_id = tenant_id, rr_resource_id = resource_id, rr_tool_name = tool_name, rr_fence_token = fence_token,
         rr_transport_generation = None, rr_external_object_id = None\<rparr>)))"

definition add_ready_operation ::
    "string \<Rightarrow> string \<Rightarrow> string \<Rightarrow> string \<Rightarrow> string \<Rightarrow> int \<Rightarrow> int \<Rightarrow> int \<Rightarrow> RetryStore \<Rightarrow> RetryStore res" where
  "add_ready_operation operation_id idempotency_key tenant_id resource_id tool_name version fence_token previous_attempt_number s =
     (if \<not> all_truthy [operation_id, idempotency_key, tenant_id, resource_id, tool_name]
      then Inl (ValueError ''ready operation identity must be complete'')
      else if version < 0 \<or> fence_token < 0 \<or> previous_attempt_number < 0
      then Inl (ValueError ''ready operation counters must be non-negative'')
      else if s operation_id \<noteq> None then Inl (ValueError ''operation is already registered'')
      else Inr (s(operation_id \<mapsto>
        \<lparr>rr_operation_id = operation_id, rr_idempotency_key = idempotency_key,
         rr_state = RetryDispatchRecordState.READY_FOR_DISPATCH, rr_version = version,
         rr_attempt_number = previous_attempt_number, rr_protocol_request_id = None,
         rr_tenant_id = Some tenant_id, rr_resource_id = Some resource_id, rr_tool_name = Some tool_name,
         rr_fence_token = fence_token, rr_transport_generation = None, rr_external_object_id = None\<rparr>)))"

text \<open>The keyword arguments of \<^verbatim>\<open>claim_dispatch\<close> and \<^verbatim>\<open>compare_and_set_completed\<close>.\<close>

record ClaimRequest =
  cq_dispatch :: RetryDispatchDecision
  cq_expected_version :: int
  cq_expected_state :: RetryDispatchRecordState
  cq_expected_fence :: "int option"
  cq_new_fence :: "int option"
  cq_tenant_id :: "string option"
  cq_resource_id :: "string option"
  cq_tool_name :: "string option"

record CompletionRequest =
  cz_operation_id :: string
  cz_idempotency_key :: string
  cz_tenant_id :: string
  cz_resource_id :: string
  cz_tool_name :: string
  cz_attempt_number :: int
  cz_protocol_request_id :: RequestId
  cz_transport_generation :: int
  cz_expected_state :: RetryDispatchRecordState
  cz_expected_version :: int
  cz_expected_fence :: int
  cz_external_object_id :: string

definition claim_refused :: "RetryDispatchClaimOutcome \<Rightarrow> RetryDispatchClaim" where
  "claim_refused outcome = \<lparr>rk_outcome = outcome, rk_record = None, rk_durable_transition = False, rk_transport_calls = 0\<rparr>"

definition claim_update :: "ClaimRequest \<Rightarrow> RetryDispatchRecord \<Rightarrow> RetryDispatchRecord" where
  "claim_update q current =
     (let attempt = rdd_attempt (cq_dispatch q) in
      current\<lparr>rr_state := RetryDispatchRecordState.DISPATCH_STARTED, rr_version := rr_version current + 1,
        rr_attempt_number := rap_attempt_number attempt, rr_protocol_request_id := Some (rap_protocol_request_id attempt),
        rr_fence_token := (case cq_new_fence q of None \<Rightarrow> rr_fence_token current | Some f \<Rightarrow> f),
        rr_transport_generation := rap_transport_generation attempt\<rparr>)"

definition claim_verdict :: "ClaimRequest \<Rightarrow> RetryDispatchRecord \<Rightarrow> RetryDispatchClaimOutcome" where
  "claim_verdict q current =
     (let attempt = rdd_attempt (cq_dispatch q) in
      if rr_idempotency_key current \<noteq> rap_idempotency_key attempt
        \<or> (cq_tenant_id q \<noteq> None \<and> rr_tenant_id current \<noteq> cq_tenant_id q)
        \<or> (cq_resource_id q \<noteq> None \<and> rr_resource_id current \<noteq> cq_resource_id q)
        \<or> (cq_tool_name q \<noteq> None \<and> rr_tool_name current \<noteq> cq_tool_name q)
      then RetryDispatchClaimOutcome.IDENTITY_CONFLICT
      else if rr_state current \<noteq> cq_expected_state q then RetryDispatchClaimOutcome.STATE_CONFLICT
      else if rr_version current \<noteq> cq_expected_version q then RetryDispatchClaimOutcome.VERSION_CONFLICT
      else if (case cq_expected_fence q of None \<Rightarrow> False | Some f \<Rightarrow> rr_fence_token current \<noteq> f)
      then RetryDispatchClaimOutcome.FENCE_CONFLICT
      else if (case (cq_new_fence q, cq_expected_fence q) of (Some n, Some f) \<Rightarrow> n \<le> f | _ \<Rightarrow> False)
      then RetryDispatchClaimOutcome.FENCE_CONFLICT
      else if rap_attempt_number attempt \<noteq> rr_attempt_number current + 1
      then RetryDispatchClaimOutcome.ATTEMPT_SEQUENCE_CONFLICT
      else if rr_tenant_id current \<noteq> None \<and> rap_transport_generation attempt = None
      then RetryDispatchClaimOutcome.TRANSPORT_GENERATION_REQUIRED
      else RetryDispatchClaimOutcome.CLAIMED)"

definition claim_dispatch :: "ClaimRequest \<Rightarrow> RetryStore \<Rightarrow> RetryStore \<times> RetryDispatchClaim" where
  "claim_dispatch q s =
     (if \<not> admitted (cq_dispatch q) then (s, claim_refused RetryDispatchClaimOutcome.NOT_ADMITTED)
      else case s (rap_operation_id (rdd_attempt (cq_dispatch q))) of
        None \<Rightarrow> (s, claim_refused RetryDispatchClaimOutcome.IDENTITY_CONFLICT)
      | Some current \<Rightarrow>
          if claim_verdict q current \<noteq> RetryDispatchClaimOutcome.CLAIMED then (s, claim_refused (claim_verdict q current))
          else (s(rap_operation_id (rdd_attempt (cq_dispatch q)) \<mapsto> claim_update q current),
                \<lparr>rk_outcome = RetryDispatchClaimOutcome.CLAIMED, rk_record = Some (claim_update q current),
                 rk_durable_transition = True, rk_transport_calls = 0\<rparr>))"

definition completes :: "CompletionRequest \<Rightarrow> RetryDispatchRecord \<Rightarrow> bool" where
  "completes z current \<longleftrightarrow> rr_idempotency_key current = cz_idempotency_key z \<and> rr_tenant_id current = Some (cz_tenant_id z) \<and>
     rr_resource_id current = Some (cz_resource_id z) \<and> rr_tool_name current = Some (cz_tool_name z) \<and>
     rr_attempt_number current = cz_attempt_number z \<and> rr_protocol_request_id current = Some (cz_protocol_request_id z) \<and>
     rr_transport_generation current = Some (cz_transport_generation z) \<and> rr_state current = cz_expected_state z \<and>
     rr_version current = cz_expected_version z \<and> rr_fence_token current = cz_expected_fence z"

definition compare_and_set_completed :: "CompletionRequest \<Rightarrow> RetryStore \<Rightarrow> RetryStore \<times> RetryDispatchRecord option" where
  "compare_and_set_completed z s =
     (case s (cz_operation_id z) of
        None \<Rightarrow> (s, None)
      | Some current \<Rightarrow>
          if \<not> completes z current then (s, None)
          else let updated = current\<lparr>rr_state := RetryDispatchRecordState.COMPLETED, rr_version := rr_version current + 1,
                                     rr_external_object_id := Some (cz_external_object_id z)\<rparr>
               in (s(cz_operation_id z \<mapsto> updated), Some updated))"

definition recover_abandoned_dispatch :: "RetryDispatchRecord \<Rightarrow> FailureEvidence res" where
  "recover_abandoned_dispatch r =
     (if rr_state r \<noteq> RetryDispatchRecordState.DISPATCH_STARTED
      then Inl (ValueError ''only a started dispatch can lose its owner'')
      else FailureEvidence_post_init
        \<lparr>fe_operation_id = rr_operation_id r, fe_idempotency_key = rr_idempotency_key r,
         fe_protocol_request_id = rr_protocol_request_id r, fe_attempt_number = rr_attempt_number r,
         fe_phase = FailurePhase.SEND, fe_kind = FailureKind.DISPATCH_OWNER_LOST,
         fe_dispatch_certainty = DispatchCertainty.POSSIBLY_SENT,
         fe_execution_certainty = ExecutionCertainty.POSSIBLY_EXECUTED,
         fe_evidence_source = ''durable-dispatch-marker-recovery''\<rparr>)"

section \<open>Runs of the store\<close>

text \<open>
  A request to the store. Evidence reaches it as an object, so its constructor has accepted it. The
  store holds its lock during each request; a run is a sequence of requests, from any callers.
\<close>

datatype RetryEvent =
  AddRetryable FailureEvidence "string option" "string option" "string option" int int
| AddReady string string string string string int int int
| ClaimDispatch ClaimRequest
| Complete CompletionRequest

fun retry_step :: "RetryEvent \<Rightarrow> RetryStore \<Rightarrow> RetryStore" where
  "retry_step (AddRetryable e t r n v f) s =
     (case bind_res (FailureEvidence_post_init e) (\<lambda>e. add_retryable e t r n v f s) of Inl _ \<Rightarrow> s | Inr s' \<Rightarrow> s')"
| "retry_step (AddReady i k t r n v f a) s = (case add_ready_operation i k t r n v f a s of Inl _ \<Rightarrow> s | Inr s' \<Rightarrow> s')"
| "retry_step (ClaimDispatch q) s = fst (claim_dispatch q s)"
| "retry_step (Complete z) s = fst (compare_and_set_completed z s)"

definition retry_run :: "RetryEvent list \<Rightarrow> RetryStore" where
  "retry_run es = fold retry_step es Map.empty"

text \<open>The records handed to winners of a claim, in order: each licenses one call of the transport.\<close>

fun claims_of :: "RetryEvent \<Rightarrow> RetryStore \<Rightarrow> RetryDispatchRecord list" where
  "claims_of (ClaimDispatch q) s = (case rk_record (snd (claim_dispatch q s)) of None \<Rightarrow> [] | Some r \<Rightarrow> [r])"
| "claims_of _ s = []"

fun claim_log :: "RetryEvent list \<Rightarrow> RetryStore \<Rightarrow> RetryDispatchRecord list" where
  "claim_log [] s = []"
| "claim_log (e # es) s = claims_of e s @ claim_log es (retry_step e s)"

lemma claim_log_append: "claim_log (es @ fs) s = claim_log es s @ claim_log fs (fold retry_step es s)"
  by (induction es arbitrary: s) simp_all

lemma claim_verdict_claimed:
  "claim_verdict q r = RetryDispatchClaimOutcome.CLAIMED \<Longrightarrow>
   rap_attempt_number (rdd_attempt (cq_dispatch q)) = rr_attempt_number r + 1 \<and> rr_version r = cq_expected_version q \<and>
   rr_state r = cq_expected_state q \<and> rr_idempotency_key r = rap_idempotency_key (rdd_attempt (cq_dispatch q)) \<and>
   (rr_tenant_id r \<noteq> None \<longrightarrow> rap_transport_generation (rdd_attempt (cq_dispatch q)) \<noteq> None) \<and>
   (\<forall>f. cq_expected_fence q = Some f \<longrightarrow> rr_fence_token r = f \<and> (\<forall>n. cq_new_fence q = Some n \<longrightarrow> f < n))"
  by (auto simp: claim_verdict_def Let_def split: if_splits option.splits)

text \<open>What one request does to one record: every request either leaves it or advances its version.\<close>

lemma claim_dispatch_cases:
  obtains k where "claim_dispatch q s = (s, claim_refused k)" and "k \<noteq> RetryDispatchClaimOutcome.CLAIMED"
  | r where "admitted (cq_dispatch q)" and "s (rap_operation_id (rdd_attempt (cq_dispatch q))) = Some r"
      and "claim_verdict q r = RetryDispatchClaimOutcome.CLAIMED"
      and "claim_dispatch q s = (s(rap_operation_id (rdd_attempt (cq_dispatch q)) \<mapsto> claim_update q r),
             \<lparr>rk_outcome = RetryDispatchClaimOutcome.CLAIMED, rk_record = Some (claim_update q r),
              rk_durable_transition = True, rk_transport_calls = 0\<rparr>)"
proof (cases "\<exists>r. admitted (cq_dispatch q) \<and> s (rap_operation_id (rdd_attempt (cq_dispatch q))) = Some r \<and>
    claim_verdict q r = RetryDispatchClaimOutcome.CLAIMED")
  case True
  then show ?thesis using that(2) by (auto simp: claim_dispatch_def)
next
  case False
  then have "\<exists>k. claim_dispatch q s = (s, claim_refused k) \<and> k \<noteq> RetryDispatchClaimOutcome.CLAIMED"
    by (auto simp: claim_dispatch_def split: option.splits)
  then show ?thesis using that(1) by blast
qed

definition retry_ident :: "RetryDispatchRecord \<Rightarrow> string \<times> string \<times> string option \<times> string option \<times> string option" where
  "retry_ident r = (rr_operation_id r, rr_idempotency_key r, rr_tenant_id r, rr_resource_id r, rr_tool_name r)"

lemma claim_update_fields [simp]:
  "rr_version (claim_update q r) = rr_version r + 1" "retry_ident (claim_update q r) = retry_ident r"
  "rr_operation_id (claim_update q r) = rr_operation_id r" "rr_idempotency_key (claim_update q r) = rr_idempotency_key r"
  "rr_attempt_number (claim_update q r) = rap_attempt_number (rdd_attempt (cq_dispatch q))"
  "rr_protocol_request_id (claim_update q r) = Some (rap_protocol_request_id (rdd_attempt (cq_dispatch q)))"
  "rr_transport_generation (claim_update q r) = rap_transport_generation (rdd_attempt (cq_dispatch q))"
  "rr_tenant_id (claim_update q r) = rr_tenant_id r"
  "rr_state (claim_update q r) = RetryDispatchRecordState.DISPATCH_STARTED"
  by (simp_all add: claim_update_def Let_def retry_ident_def)

lemma add_keeps:
  "add_retryable e t rs n v f s = Inr s' \<Longrightarrow> s k = Some r \<Longrightarrow> s' k = Some r"
  "add_ready_operation i key tn rs2 nm v f a s = Inr s' \<Longrightarrow> s k = Some r \<Longrightarrow> s' k = Some r"
  by (auto simp: add_retryable_def add_ready_operation_def split: if_splits)

lemma claim_step_evolves:
  assumes "s k = Some r"
  shows "\<exists>r'. fst (claim_dispatch q s) k = Some r' \<and> retry_ident r' = retry_ident r \<and> (r' = r \<or> rr_version r < rr_version r')"
  by (rule claim_dispatch_cases [of q s]) (use assms in auto)

lemma completion_step_evolves:
  assumes "s k = Some r"
  shows "\<exists>r'. fst (compare_and_set_completed z s) k = Some r' \<and> retry_ident r' = retry_ident r \<and> (r' = r \<or> rr_version r < rr_version r')"
  using assms by (auto simp: compare_and_set_completed_def retry_ident_def Let_def split: option.splits)

interpretation retry: versioned_store retry_step "\<lambda>s k. s k" rr_version retry_ident
proof
  fix s :: RetryStore and k r e
  assume r: "s k = Some r"
  show "\<exists>r'. retry_step e s k = Some r' \<and> retry_ident r' = retry_ident r \<and> (r' = r \<or> rr_version r < rr_version r')"
  proof (cases e)
    case (AddRetryable ev t rs n v f)
    then show ?thesis using r by (fastforce split: sum.splits simp: bind_res_eq_Inr dest: add_keeps(1) [where s = s and k = k and r = r])
  next
    case (AddReady i key tn rs n v f a)
    then show ?thesis using r by (fastforce split: sum.splits dest: add_keeps(2) [where s = s and k = k and r = r])
  qed (use claim_step_evolves [of s k r] completion_step_evolves [of s k r] r in auto)
qed

section \<open>The invariant of every reachable store\<close>

text \<open>
  A record is filed under its operation id, was registered with a complete identity, and holds a request
  id and a positive attempt number once its dispatch started. Only a claim sets a transport generation,
  so only a claimed attempt can be completed.
\<close>

definition retry_record_ok :: "string \<Rightarrow> RetryDispatchRecord \<Rightarrow> bool" where
  "retry_record_ok k r \<longleftrightarrow> rr_operation_id r = k \<and> k \<noteq> [] \<and> rr_idempotency_key r \<noteq> [] \<and> 0 \<le> rr_version r \<and> 0 \<le> rr_attempt_number r \<and>
     (rr_state r \<in> {RetryDispatchRecordState.READY_FOR_DISPATCH, RetryDispatchRecordState.READY_FOR_RETRY} \<longrightarrow>
        rr_transport_generation r = None) \<and>
     (rr_state r \<in> {RetryDispatchRecordState.DISPATCH_STARTED, RetryDispatchRecordState.COMPLETED} \<longrightarrow>
        rr_protocol_request_id r \<noteq> None \<and> 1 \<le> rr_attempt_number r)"

definition retry_inv :: "RetryStore \<Rightarrow> bool" where
  "retry_inv s \<longleftrightarrow> (\<forall>k r. s k = Some r \<longrightarrow> retry_record_ok k r)"

lemma retry_inv_upd: "retry_inv s \<Longrightarrow> retry_record_ok k r \<Longrightarrow> retry_inv (s(k \<mapsto> r))"
  by (simp add: retry_inv_def)

lemma retry_inv_add_retryable:
  "retry_inv s \<Longrightarrow> FailureEvidence_post_init e = Inr e \<Longrightarrow> add_retryable e t rs n v f s = Inr s' \<Longrightarrow> retry_inv s'"
  by (auto simp: add_retryable_def FailureEvidence_ok_iff retry_record_ok_def intro!: retry_inv_upd split: if_splits)

lemma retry_inv_add_ready:
  "retry_inv s \<Longrightarrow> add_ready_operation i key tn rs n v f a s = Inr s' \<Longrightarrow> retry_inv s'"
  by (auto simp: add_ready_operation_def retry_record_ok_def py_defs intro!: retry_inv_upd split: if_splits)

lemma retry_inv_claim: "retry_inv s \<Longrightarrow> retry_inv (fst (claim_dispatch q s))"
proof (rule claim_dispatch_cases [of q s])
  fix r
  let ?k = "rap_operation_id (rdd_attempt (cq_dispatch q))"
  assume i: "retry_inv s" and r: "s ?k = Some r" and v: "claim_verdict q r = RetryDispatchClaimOutcome.CLAIMED"
    and c: "claim_dispatch q s = (s(?k \<mapsto> claim_update q r), \<lparr>rk_outcome = RetryDispatchClaimOutcome.CLAIMED,
      rk_record = Some (claim_update q r), rk_durable_transition = True, rk_transport_calls = 0\<rparr>)"
  from i r have "retry_record_ok ?k r" by (simp add: retry_inv_def)
  with claim_verdict_claimed [OF v] have "retry_record_ok ?k (claim_update q r)" by (auto simp: retry_record_ok_def)
  with i show ?thesis by (simp add: c retry_inv_upd)
qed auto

lemma retry_inv_complete: "retry_inv s \<Longrightarrow> retry_inv (fst (compare_and_set_completed z s))"
  by (cases "cz_expected_state z")
    (force simp: compare_and_set_completed_def completes_def retry_inv_def retry_record_ok_def Let_def split: option.splits)+

interpretation retry_wf: invariant_machine retry_step retry_inv
proof
  fix s e
  assume i: "retry_inv s"
  show "retry_inv (retry_step e s)"
  proof (cases e)
    case (AddRetryable ev t rs n v f)
    then show ?thesis using i retry_inv_add_retryable
      by (fastforce split: sum.splits simp: bind_res_eq_Inr FailureEvidence_ok_iff)
  next
    case (AddReady i key tn rs n v f a)
    then show ?thesis using \<open>retry_inv s\<close> retry_inv_add_ready by (auto split: sum.splits)
  qed (use retry_inv_claim [OF i] retry_inv_complete [OF i] in auto)
qed

lemma retry_run_inv: "retry_inv (retry_run es)"
  unfolding retry_run_def by (rule retry_wf.run_inv) (simp add: retry_inv_def)

section \<open>Claims\<close>

definition claims_for :: "string \<Rightarrow> RetryEvent list \<Rightarrow> RetryDispatchRecord list" where
  "claims_for k es = filter (\<lambda>r. rr_operation_id r = k) (claim_log es Map.empty)"

text \<open>
  The claims of one operation follow its record: none before it is registered, and then consecutive
  attempt numbers up to that of the record with increasing versions. Nothing leads back from a started or a
  completed dispatch to a record that is ready.
\<close>

definition claims_follow :: "RetryDispatchRecord list \<Rightarrow> RetryDispatchRecord option \<Rightarrow> bool" where
  "claims_follow rs v \<longleftrightarrow> (case v of None \<Rightarrow> rs = []
     | Some r \<Rightarrow> map rr_attempt_number rs = [rr_attempt_number r - int (length rs) + 1 .. rr_attempt_number r] \<and>
         sorted_wrt (<) (map rr_version rs) \<and> (\<forall>c\<in>set rs. rr_version c \<le> rr_version r) \<and>
         (rr_state r \<in> {RetryDispatchRecordState.DISPATCH_STARTED, RetryDispatchRecordState.COMPLETED} \<longleftrightarrow> rs \<noteq> []))"

lemma claims_follow_snoc:
  assumes "claims_follow rs (Some r)" and "rr_attempt_number r' = rr_attempt_number r + 1" and "rr_version r' = rr_version r + 1"
    and "rr_state r' = RetryDispatchRecordState.DISPATCH_STARTED"
  shows "claims_follow (rs @ [r']) (Some r')"
proof -
  let ?a = "rr_attempt_number r" and ?n = "int (length rs)"
  have "[?a - ?n + 1 .. ?a] @ [?a + 1] = [?a - ?n + 1 .. ?a + 1]" by (subst upto_rec2 [of _ "?a + 1"]) simp_all
  with assms show ?thesis by (auto simp: claims_follow_def sorted_wrt_append)
qed

lemma claims_step:
  assumes "retry_inv s" and "claims_follow rs (s k)"
  shows "claims_follow (rs @ filter (\<lambda>r. rr_operation_id r = k) (claims_of e s)) (retry_step e s k)"
proof (cases e)
  case (ClaimDispatch q)
  let ?o = "rap_operation_id (rdd_attempt (cq_dispatch q))"
  show ?thesis
  proof (rule claim_dispatch_cases [of q s])
    fix r
    assume r: "s ?o = Some r" and v: "claim_verdict q r = RetryDispatchClaimOutcome.CLAIMED"
      and c: "claim_dispatch q s = (s(?o \<mapsto> claim_update q r), \<lparr>rk_outcome = RetryDispatchClaimOutcome.CLAIMED,
        rk_record = Some (claim_update q r), rk_durable_transition = True, rk_transport_calls = 0\<rparr>)"
    have "rr_operation_id r = ?o" using assms(1) r by (simp add: retry_inv_def retry_record_ok_def)
    moreover have "claims_follow (rs @ [claim_update q r]) (Some (claim_update q r))" if "k = ?o"
      using assms(2) r that claim_verdict_claimed [OF v] by (auto intro: claims_follow_snoc)
    ultimately show ?thesis using assms(2) by (auto simp: ClaimDispatch c)
  qed (use assms(2) in \<open>simp add: ClaimDispatch claim_refused_def\<close>)
next
  case (Complete z)
  have "completes z r \<Longrightarrow> s k = Some r \<Longrightarrow>
      rr_state r \<in> {RetryDispatchRecordState.DISPATCH_STARTED, RetryDispatchRecordState.COMPLETED}" for r
    using assms(1) by (cases "rr_state r") (auto simp: retry_inv_def retry_record_ok_def completes_def)
  with assms(2) Complete show ?thesis
    by (fastforce simp: compare_and_set_completed_def Let_def claims_follow_def split: option.splits)
qed (use assms(2) in \<open>auto simp: claims_follow_def bind_res_eq_Inr add_retryable_def add_ready_operation_def
      split: sum.splits option.splits if_splits\<close>)

lemma claims_follow_run: "claims_follow (claims_for k es) (retry_run es k)"
proof (induction es rule: rev_induct)
  case Nil
  then show ?case by (simp add: claims_for_def claims_follow_def retry_run_def)
next
  case (snoc e es)
  then show ?case using claims_step [OF retry_run_inv] by (simp add: claims_for_def claim_log_append retry_run_def)
qed

text \<open>A claim that expects a ready record, as those of the admitted retries do, and only the first of an operation wins.\<close>

definition expects_ready :: "ClaimRequest \<Rightarrow> bool" where
  "expects_ready q \<longleftrightarrow>
     cq_expected_state q \<in> {RetryDispatchRecordState.READY_FOR_DISPATCH, RetryDispatchRecordState.READY_FOR_RETRY}"

definition only_ready_claims :: "RetryEvent list \<Rightarrow> bool" where
  "only_ready_claims es \<longleftrightarrow> list_all (\<lambda>e. case e of ClaimDispatch q \<Rightarrow> expects_ready q | _ \<Rightarrow> True) es"

lemma ready_claim_first:
  assumes "claims_follow rs (s (rap_operation_id (rdd_attempt (cq_dispatch q))))" and "expects_ready q"
    and "rk_record (snd (claim_dispatch q s)) \<noteq> None"
  shows "rs = []"
proof (rule claim_dispatch_cases [of q s])
  fix r assume "s (rap_operation_id (rdd_attempt (cq_dispatch q))) = Some r" "claim_verdict q r = RetryDispatchClaimOutcome.CLAIMED"
  with assms(1,2) claim_verdict_claimed show "rs = []" by (auto simp: claims_follow_def expects_ready_def)
qed (use assms(3) in \<open>simp add: claim_refused_def\<close>)

lemma ready_claims_once:
  assumes "only_ready_claims es"
  shows "length (claims_for k es) \<le> 1"
  using assms
proof (induction es rule: rev_induct)
  case Nil
  then show ?case by (simp add: claims_for_def)
next
  case (snoc e es)
  let ?new = "filter (\<lambda>r. rr_operation_id r = k) (claims_of e (retry_run es))"
  have split: "claims_for k (es @ [e]) = claims_for k es @ ?new" by (simp add: claims_for_def claim_log_append retry_run_def)
  have one: "length ?new \<le> 1" by (cases e) (auto split: option.splits)
  show ?case
  proof (cases "?new = []")
    case True
    with snoc show ?thesis by (simp add: split only_ready_claims_def)
  next
    case False
    then obtain q r where q: "e = ClaimDispatch q" "rk_record (snd (claim_dispatch q (retry_run es))) = Some r" "rr_operation_id r = k"
      by (cases e) (auto split: option.splits if_splits)
    have "rap_operation_id (rdd_attempt (cq_dispatch q)) = k"
    proof (rule claim_dispatch_cases [of q "retry_run es"])
      fix r' assume r': "retry_run es (rap_operation_id (rdd_attempt (cq_dispatch q))) = Some r'"
        "claim_dispatch q (retry_run es) = ((retry_run es)(rap_operation_id (rdd_attempt (cq_dispatch q)) \<mapsto> claim_update q r'),
          \<lparr>rk_outcome = RetryDispatchClaimOutcome.CLAIMED, rk_record = Some (claim_update q r'),
           rk_durable_transition = True, rk_transport_calls = 0\<rparr>)"
      then have "rr_operation_id r' = rap_operation_id (rdd_attempt (cq_dispatch q))"
        using retry_run_inv [of es] by (simp add: retry_inv_def retry_record_ok_def)
      moreover from r'(2) q(2) have "r = claim_update q r'" by simp
      ultimately show ?thesis using q(3) by simp
    qed (use q(2) in \<open>simp add: claim_refused_def\<close>)
    with claims_follow_run [of k es] have "claims_follow (claims_for k es) (retry_run es (rap_operation_id (rdd_attempt (cq_dispatch q))))"
      by simp
    moreover have "expects_ready q" using snoc.prems q(1) by (simp add: only_ready_claims_def)
    ultimately have "claims_for k es = []" using q(2) by (intro ready_claim_first) auto
    with one show ?thesis by (simp add: split)
  qed
qed

lemma recovered_evidence:
  assumes "retry_record_ok k r" and "rr_state r = RetryDispatchRecordState.DISPATCH_STARTED"
  shows "\<exists>e. recover_abandoned_dispatch r = Inr e \<and> fe_operation_id e = k \<and> fe_attempt_number e = rr_attempt_number r \<and>
    fe_execution_certainty e = ExecutionCertainty.POSSIBLY_EXECUTED"
  using assms by (auto simp: recover_abandoned_dispatch_def FailureEvidence_post_init_def retry_record_ok_def py_defs)

text \<open>
  C24. Attempts are claimed one at a time and in sequence. In every run of the dispatch store, whoever the
  callers and whatever states and versions they expect, the claims won for an operation carry consecutive
  attempt numbers that end at the number of its record, under strictly increasing versions: no attempt
  number is dispatched twice. A record's dispatch has started or completed exactly when it was claimed, and
  where every claim of the run expects a record that is ready for dispatch or retry, an operation is claimed
  at most once. The evidence a dispatch that lost its owner is recovered as is of a possible execution: the
  retry policy answers it with nothing but POSSIBLE_EXECUTION, and it cannot be registered for a retry. The
  store itself does not block such a dispatch: a claim that expects \<open>DISPATCH_STARTED\<close> wins it again, as the
  next attempt (\<open>started_dispatch_claimed_again\<close>).
\<close>

theorem retry_attempts_consecutive:
  assumes "retry_run es k = Some r"
  shows "map rr_attempt_number (claims_for k es) = [rr_attempt_number r - int (length (claims_for k es)) + 1 .. rr_attempt_number r] \<and>
    sorted_wrt (<) (map rr_version (claims_for k es)) \<and>
    (rr_state r \<in> {RetryDispatchRecordState.DISPATCH_STARTED, RetryDispatchRecordState.COMPLETED} \<longleftrightarrow> claims_for k es \<noteq> []) \<and>
    (only_ready_claims es \<longrightarrow> length (claims_for k es) \<le> 1) \<and>
    (rr_state r = RetryDispatchRecordState.DISPATCH_STARTED \<longrightarrow>
      (\<exists>e. recover_abandoned_dispatch r = Inr e \<and> fe_operation_id e = k \<and> fe_attempt_number e = rr_attempt_number r \<and>
         (\<forall>p c. retry_decide p e c = Inr (retry_blocked RetryDecisionKind.POSSIBLE_EXECUTION e)) \<and>
         (\<forall>t rs n v f s. \<exists>x. add_retryable e t rs n v f s = Inl x)))"
proof -
  have "claims_follow (claims_for k es) (Some r)" using claims_follow_run [of k es] assms by simp
  moreover have "retry_record_ok k r" using retry_run_inv [of es] assms by (simp add: retry_inv_def)
  then have "rr_state r = RetryDispatchRecordState.DISPATCH_STARTED \<longrightarrow>
      (\<exists>e. recover_abandoned_dispatch r = Inr e \<and> fe_operation_id e = k \<and> fe_attempt_number e = rr_attempt_number r \<and>
         (\<forall>p c. retry_decide p e c = Inr (retry_blocked RetryDecisionKind.POSSIBLE_EXECUTION e)) \<and>
         (\<forall>t rs n v f s. \<exists>x. add_retryable e t rs n v f s = Inl x))"
    using recovered_evidence by (fastforce simp: retry_decide_def blocked_reason_def add_retryable_def)
  ultimately show ?thesis using ready_claims_once [of es k] by (simp add: claims_follow_def)
qed

text \<open>An operation claimed by one caller while a second one holds the same version.\<close>

definition first_plan :: RetryAttemptPlan where
  "first_plan = \<lparr>rap_operation_id = ''op'', rap_idempotency_key = ''key'', rap_protocol_request_id = IntId 7, rap_attempt_number = 1,
     rap_delay_seconds = Finite 0, rap_transport_generation = Some 1\<rparr>"

definition first_claim :: ClaimRequest where
  "first_claim =
     \<lparr>cq_dispatch = \<lparr>rdd_kind = RetryDispatchDecisionKind.ADMITTED, rdd_attempt = first_plan, rdd_transport_calls = 0\<rparr>,
      cq_expected_version = 1, cq_expected_state = RetryDispatchRecordState.READY_FOR_DISPATCH, cq_expected_fence = Some 0,
      cq_new_fence = Some 1, cq_tenant_id = Some ''t'', cq_resource_id = Some ''r'', cq_tool_name = Some ''tool''\<rparr>"

definition raced_run :: "RetryEvent list" where
  "raced_run = [AddReady ''op'' ''key'' ''t'' ''r'' ''tool'' 1 0 0, ClaimDispatch first_claim, ClaimDispatch first_claim]"

text \<open>
  A started dispatch is claimed again, as attempt 2, by a request that expects \<open>DISPATCH_STARTED\<close>: no evidence and no
  reconciliation stand between the two.
\<close>

lemma started_dispatch_claimed_again:
  "let again = first_claim\<lparr>cq_dispatch := \<lparr>rdd_kind = RetryDispatchDecisionKind.ADMITTED,
        rdd_attempt = first_plan\<lparr>rap_protocol_request_id := IntId 8, rap_attempt_number := 2\<rparr>, rdd_transport_calls = 0\<rparr>,
      cq_expected_version := 2, cq_expected_state := RetryDispatchRecordState.DISPATCH_STARTED,
      cq_expected_fence := Some 1, cq_new_fence := Some 2\<rparr> in
   map rr_attempt_number (claims_for ''op'' [AddReady ''op'' ''key'' ''t'' ''r'' ''tool'' 1 0 0, ClaimDispatch first_claim, ClaimDispatch again]) = [1, 2]"
  by (simp add: Let_def claims_for_def first_claim_def first_plan_def add_ready_operation_def py_defs
      claim_dispatch_def admitted_def claim_verdict_def claim_update_def claim_refused_def)

theorem retry_attempts_consecutive_witness:
  "\<exists>r. retry_run raced_run ''op'' = Some r \<and> rr_state r = RetryDispatchRecordState.DISPATCH_STARTED \<and>
     map rr_attempt_number (claims_for ''op'' raced_run) = [1] \<and> (\<exists>e. recover_abandoned_dispatch r = Inr e) \<and>
     only_ready_claims raced_run \<and> length (claims_for ''op'' raced_run) \<le> 1"
proof -
  obtain r where r: "retry_run raced_run ''op'' = Some r" "rr_state r = RetryDispatchRecordState.DISPATCH_STARTED"
      "rr_attempt_number r = 1" "length (claims_for ''op'' raced_run) = 1"
    by (simp add: retry_run_def raced_run_def claims_for_def first_claim_def first_plan_def add_ready_operation_def py_defs
        claim_dispatch_def admitted_def claim_verdict_def claim_update_def claim_refused_def)
  moreover have "only_ready_claims raced_run" by (simp add: only_ready_claims_def raced_run_def expects_ready_def first_claim_def)
  ultimately show ?thesis using retry_attempts_consecutive [OF r(1)] by auto
qed

end
