(* ===== verification/Reconciliation.thy ===== *)
theory Reconciliation
  imports Retry_Dispatch
begin

text \<open>
  \<^verbatim>\<open>src/projects/ai-agent/src/mcp_reconciliation.py\<close>: read-only observation of an operation whose outcome
  is unknown, the committer that turns a resolved observation into a durable fact, and the bounded
  schedule of further observations. The authority is a protocol of the source and an argument here; it
  returns the evidence object it constructed, or raises.
\<close>

section \<open>Observation\<close>

datatype AuthoritativeOperationStatus = SUCCEEDED | FAILED | NOT_EXECUTED | NOT_FOUND | UNKNOWN

record ApplicationOperationBinding =
  ab_operation_id :: string
  ab_idempotency_key :: string
  ab_tenant_id :: string
  ab_resource_id :: string

definition ApplicationOperationBinding_post_init :: "ApplicationOperationBinding \<Rightarrow> ApplicationOperationBinding res" where
  "ApplicationOperationBinding_post_init b =
     (if \<not> all_truthy [ab_operation_id b, ab_idempotency_key b, ab_tenant_id b, ab_resource_id b]
      then Inl (ValueError ''application operation binding must be complete'') else Inr b)"

record AuthoritativeResultEvidence =
  are_binding :: ApplicationOperationBinding
  are_status :: AuthoritativeOperationStatus
  are_evidence_source :: string
  are_external_object_id :: "string option"

definition AuthoritativeResultEvidence_post_init :: "AuthoritativeResultEvidence \<Rightarrow> AuthoritativeResultEvidence res" where
  "AuthoritativeResultEvidence_post_init e =
     (if \<not> truthy (are_evidence_source e) then Inl (ValueError ''evidence_source must not be empty'')
      else if are_status e = AuthoritativeOperationStatus.SUCCEEDED \<and> \<not> truthy_option (are_external_object_id e)
      then Inl (ValueError ''successful evidence requires external_object_id'') else Inr e)"

type_synonym AuthoritativeStatusQueryPort = "ApplicationOperationBinding \<Rightarrow> AuthoritativeResultEvidence res"

datatype ReconciliationDecisionKind =
  RESOLVED_SUCCEEDED | RESOLVED_FAILED | RESOLVED_NOT_EXECUTED | STILL_PENDING | EVIDENCE_CONFLICT | NOT_REQUIRED

record ReconciliationDecision =
  xd_kind :: ReconciliationDecisionKind
  xd_binding :: ApplicationOperationBinding
  xd_evidence_source :: "string option"
  xd_external_object_id :: "string option"
  xd_durable_transition :: bool
  xd_original_tool_calls :: int

definition reconciliation_decision ::
    "ReconciliationDecisionKind \<Rightarrow> ApplicationOperationBinding \<Rightarrow> string option \<Rightarrow> string option \<Rightarrow> ReconciliationDecision" where
  "reconciliation_decision kind binding evidence_source external_object_id =
     \<lparr>xd_kind = kind, xd_binding = binding, xd_evidence_source = evidence_source, xd_external_object_id = external_object_id,
      xd_durable_transition = False, xd_original_tool_calls = 0\<rparr>"

fun decision_of_status :: "AuthoritativeOperationStatus \<Rightarrow> ReconciliationDecisionKind" where
  "decision_of_status AuthoritativeOperationStatus.SUCCEEDED = ReconciliationDecisionKind.RESOLVED_SUCCEEDED"
| "decision_of_status AuthoritativeOperationStatus.FAILED = ReconciliationDecisionKind.RESOLVED_FAILED"
| "decision_of_status AuthoritativeOperationStatus.NOT_EXECUTED = ReconciliationDecisionKind.RESOLVED_NOT_EXECUTED"
| "decision_of_status _ = ReconciliationDecisionKind.STILL_PENDING"

definition reconcile_once ::
    "AuthoritativeStatusQueryPort \<Rightarrow> FailureEvidence \<Rightarrow> ApplicationOperationBinding \<Rightarrow> ReconciliationDecision res" where
  "reconcile_once query failure binding =
     (if fe_operation_id failure \<noteq> ab_operation_id binding \<or> fe_idempotency_key failure \<noteq> ab_idempotency_key binding
      then Inr (reconciliation_decision ReconciliationDecisionKind.EVIDENCE_CONFLICT binding (Some (fe_evidence_source failure)) None)
      else if fe_execution_certainty failure = ExecutionCertainty.PROVEN_NOT_EXECUTED
      then Inr (reconciliation_decision ReconciliationDecisionKind.NOT_REQUIRED binding None None)
      else bind_res (query binding) (\<lambda>observed.
        if are_binding observed \<noteq> binding
        then Inr (reconciliation_decision ReconciliationDecisionKind.EVIDENCE_CONFLICT binding (Some (are_evidence_source observed)) None)
        else Inr (reconciliation_decision (decision_of_status (are_status observed)) binding
          (Some (are_evidence_source observed)) (are_external_object_id observed))))"

section \<open>Durable facts\<close>

datatype ReconciledBusinessOutcome = SUCCEEDED | FAILED | NOT_EXECUTED

datatype ComplianceOutcome = COMPLIANT | AUTHORIZATION_VIOLATION | NOT_APPLICABLE

datatype ReconciliationRecordState = PENDING_RECONCILIATION | COMPLETED

record ReconciliationRecord =
  xr_binding :: ApplicationOperationBinding
  xr_state :: ReconciliationRecordState
  xr_version :: int
  xr_business_outcome :: "ReconciledBusinessOutcome option"
  xr_compliance_outcome :: "ComplianceOutcome option"
  xr_external_object_id :: "string option"
  xr_evidence_source :: "string option"

type_synonym ReconciliationStore = "string \<rightharpoonup> ReconciliationRecord"

definition add_pending :: "ApplicationOperationBinding \<Rightarrow> ReconciliationStore \<Rightarrow> ReconciliationStore res" where
  "add_pending binding s =
     (if s (ab_operation_id binding) \<noteq> None then Inl (ValueError ''operation is already registered'')
      else Inr (s(ab_operation_id binding \<mapsto>
        \<lparr>xr_binding = binding, xr_state = ReconciliationRecordState.PENDING_RECONCILIATION, xr_version = 1,
         xr_business_outcome = None, xr_compliance_outcome = None, xr_external_object_id = None, xr_evidence_source = None\<rparr>)))"

definition reconciliation_cas ::
    "ApplicationOperationBinding \<Rightarrow> int \<Rightarrow> ReconciledBusinessOutcome \<Rightarrow> ComplianceOutcome \<Rightarrow> string option \<Rightarrow> string \<Rightarrow>
     ReconciliationStore \<Rightarrow> ReconciliationStore \<times> ReconciliationRecord option" where
  "reconciliation_cas binding expected_version business_outcome compliance_outcome external_object_id evidence_source s =
     (case s (ab_operation_id binding) of
        None \<Rightarrow> (s, None)
      | Some current \<Rightarrow>
          if xr_binding current \<noteq> binding \<or> xr_state current \<noteq> ReconciliationRecordState.PENDING_RECONCILIATION
            \<or> xr_version current \<noteq> expected_version
          then (s, None)
          else let updated = current\<lparr>xr_state := ReconciliationRecordState.COMPLETED, xr_version := xr_version current + 1,
                 xr_business_outcome := Some business_outcome, xr_compliance_outcome := Some compliance_outcome,
                 xr_external_object_id := external_object_id, xr_evidence_source := Some evidence_source\<rparr>
               in (s(ab_operation_id binding \<mapsto> updated), Some updated))"

datatype ReconciliationCommitOutcome =
  COMMITTED | PROPOSAL_NOT_RESOLVED | BINDING_CONFLICT | STATE_CONFLICT | VERSION_CONFLICT | CAS_CONFLICT

record ReconciliationCommitResult =
  xc_outcome :: ReconciliationCommitOutcome
  xc_record :: "ReconciliationRecord option"
  xc_durable_transition :: bool

definition commit_refused :: "ReconciliationCommitOutcome \<Rightarrow> ReconciliationCommitResult" where
  "commit_refused outcome = \<lparr>xc_outcome = outcome, xc_record = None, xc_durable_transition = False\<rparr>"

fun outcome_of_kind :: "ReconciliationDecisionKind \<Rightarrow> ReconciledBusinessOutcome" where
  "outcome_of_kind ReconciliationDecisionKind.RESOLVED_SUCCEEDED = ReconciledBusinessOutcome.SUCCEEDED"
| "outcome_of_kind ReconciliationDecisionKind.RESOLVED_FAILED = ReconciledBusinessOutcome.FAILED"
| "outcome_of_kind _ = ReconciledBusinessOutcome.NOT_EXECUTED"

definition compliance_of :: "ReconciledBusinessOutcome \<Rightarrow> bool \<Rightarrow> ComplianceOutcome" where
  "compliance_of business_outcome authorization_valid_at_effect =
     (if business_outcome = ReconciledBusinessOutcome.NOT_EXECUTED then ComplianceOutcome.NOT_APPLICABLE
      else if authorization_valid_at_effect then ComplianceOutcome.COMPLIANT else ComplianceOutcome.AUTHORIZATION_VIOLATION)"

definition resolved :: "ReconciliationDecisionKind \<Rightarrow> bool" where
  "resolved kind \<longleftrightarrow> kind \<in> {ReconciliationDecisionKind.RESOLVED_SUCCEEDED, ReconciliationDecisionKind.RESOLVED_FAILED,
     ReconciliationDecisionKind.RESOLVED_NOT_EXECUTED}"

text \<open>
  The requests of the store. The committer reads, checks and then asks for a compare-and-set; the lock
  is not held in between, and \<open>others\<close> are the requests of other callers the store serves meanwhile.
\<close>

datatype ReconciliationEvent =
  AddPending ApplicationOperationBinding
| CompareAndSet ApplicationOperationBinding int ReconciledBusinessOutcome ComplianceOutcome "string option" string

fun reconciliation_step :: "ReconciliationEvent \<Rightarrow> ReconciliationStore \<Rightarrow> ReconciliationStore" where
  "reconciliation_step (AddPending b) s = (case add_pending b s of Inl _ \<Rightarrow> s | Inr s' \<Rightarrow> s')"
| "reconciliation_step (CompareAndSet b v bo co x es) s = fst (reconciliation_cas b v bo co x es s)"

definition reconciliation_commit ::
    "ReconciliationEvent list \<Rightarrow> ReconciliationDecision \<Rightarrow> int \<Rightarrow> bool \<Rightarrow>
     ReconciliationStore \<Rightarrow> ReconciliationStore \<times> ReconciliationCommitResult" where
  "reconciliation_commit others proposal expected_version authorization_valid_at_effect s =
     (case xd_evidence_source proposal of
        None \<Rightarrow> (s, commit_refused ReconciliationCommitOutcome.PROPOSAL_NOT_RESOLVED)
      | Some source \<Rightarrow>
          if \<not> resolved (xd_kind proposal) then (s, commit_refused ReconciliationCommitOutcome.PROPOSAL_NOT_RESOLVED)
          else case s (ab_operation_id (xd_binding proposal)) of
            None \<Rightarrow> (s, commit_refused ReconciliationCommitOutcome.BINDING_CONFLICT)
          | Some current \<Rightarrow>
              if xr_binding current \<noteq> xd_binding proposal then (s, commit_refused ReconciliationCommitOutcome.BINDING_CONFLICT)
              else if xr_state current \<noteq> ReconciliationRecordState.PENDING_RECONCILIATION
              then (s, commit_refused ReconciliationCommitOutcome.STATE_CONFLICT)
              else if xr_version current \<noteq> expected_version then (s, commit_refused ReconciliationCommitOutcome.VERSION_CONFLICT)
              else let business_outcome = outcome_of_kind (xd_kind proposal);
                       (s', updated) = reconciliation_cas (xd_binding proposal) expected_version business_outcome
                         (compliance_of business_outcome authorization_valid_at_effect) (xd_external_object_id proposal) source (fold reconciliation_step others s)
                   in case updated of
                        None \<Rightarrow> (s', commit_refused ReconciliationCommitOutcome.CAS_CONFLICT)
                      | Some r \<Rightarrow> (s', \<lparr>xc_outcome = ReconciliationCommitOutcome.COMMITTED, xc_record = Some r, xc_durable_transition = True\<rparr>))"

definition authoritative_not_executed_evidence :: "ReconciliationCommitResult \<Rightarrow> FailureEvidence \<Rightarrow> FailureEvidence res" where
  "authoritative_not_executed_evidence committed original_failure =
     (case xc_record committed of
        None \<Rightarrow> Inl (ValueError ''committed NOT_EXECUTED fact is required'')
      | Some r \<Rightarrow>
          (case xr_evidence_source r of
             None \<Rightarrow> Inl (ValueError ''committed NOT_EXECUTED fact is required'')
           | Some source \<Rightarrow>
               if xc_outcome committed \<noteq> ReconciliationCommitOutcome.COMMITTED
                 \<or> xr_business_outcome r \<noteq> Some ReconciledBusinessOutcome.NOT_EXECUTED
               then Inl (ValueError ''committed NOT_EXECUTED fact is required'')
               else if fe_operation_id original_failure \<noteq> ab_operation_id (xr_binding r)
                 \<or> fe_idempotency_key original_failure \<noteq> ab_idempotency_key (xr_binding r)
               then Inl (ValueError ''original failure does not match reconciled binding'')
               else FailureEvidence_post_init
                 \<lparr>fe_operation_id = ab_operation_id (xr_binding r), fe_idempotency_key = ab_idempotency_key (xr_binding r),
                  fe_protocol_request_id = fe_protocol_request_id original_failure,
                  fe_attempt_number = fe_attempt_number original_failure, fe_phase = FailurePhase.RECONCILIATION,
                  fe_kind = FailureKind.AUTHORITATIVE_NOT_EXECUTED,
                  fe_dispatch_certainty = fe_dispatch_certainty original_failure,
                  fe_execution_certainty = ExecutionCertainty.PROVEN_NOT_EXECUTED, fe_evidence_source = source\<rparr>))"

section \<open>The schedule\<close>

datatype ReconciliationScheduleOutcome = NEXT_QUERY_SCHEDULED | RESOLUTION_READY | OPERATIONAL_ALERT_REQUIRED | ALREADY_ALERTED

record ReconciliationScheduleState =
  xs_binding :: ApplicationOperationBinding
  xs_queries_used :: int
  xs_maximum_queries :: int
  xs_deadline :: pyfloat
  xs_next_query_at :: "pyfloat option"
  xs_alert_emitted :: bool
  xs_pending_reconciliation :: bool

definition ReconciliationScheduleState_post_init :: "ReconciliationScheduleState \<Rightarrow> ReconciliationScheduleState res" where
  "ReconciliationScheduleState_post_init st =
     (if xs_queries_used st < 0 \<or> xs_maximum_queries st < 1 then Inl (ValueError ''reconciliation query budget must be positive'')
      else if xs_queries_used st > xs_maximum_queries st then Inl (ValueError ''queries_used exceeds reconciliation budget'')
      else if \<not> isfinite (xs_deadline st) then Inl (ValueError ''reconciliation deadline must be finite'')
      else Inr st)"

record ReconciliationOperationalAlert =
  xa_operation_ref :: string
  xa_reason :: string
  xa_queries_used :: int

record ReconciliationScheduleDecision =
  xo_outcome :: ReconciliationScheduleOutcome
  xo_state :: ReconciliationScheduleState

record BoundedReconciliationPolicy =
  bxp_base_delay_seconds :: pyfloat
  bxp_maximum_delay_seconds :: pyfloat
  bxp_jitter_ratio :: pyfloat
  bxp_minimum_query_window_seconds :: pyfloat

definition reconciliation_delay_seconds :: "BoundedReconciliationPolicy \<Rightarrow> string \<Rightarrow> int \<Rightarrow> pyfloat res" where
  "reconciliation_delay_seconds p operation_id queries_used =
     jittered_delay (bxp_base_delay_seconds p) (bxp_maximum_delay_seconds p) (bxp_jitter_ratio p) (nat (queries_used - 1))
       (''reconcile:'' @ operation_id @ '':'' @ str_int queries_used)"

text \<open>
  The alert port is a protocol of the source: \<open>emit\<close> is what its \<^verbatim>\<open>emit\<close> raises when it is called, if anything. The
  alerts passed to it are returned beside the result; where it raises, the caller keeps its state. The constructor
  runs on every \<^verbatim>\<open>replace\<close>.
\<close>

definition advance ::
    "BoundedReconciliationPolicy \<Rightarrow> ReconciliationDecision \<Rightarrow> ReconciliationScheduleState \<Rightarrow> pyfloat \<Rightarrow> string \<Rightarrow> exn option \<Rightarrow>
     ReconciliationOperationalAlert list \<times> ReconciliationScheduleDecision res" where
  "advance p decision st now operation_ref emit =
     (if \<not> isfinite now then ([], Inl (ValueError ''reconciliation clock must be finite''))
      else if xd_binding decision \<noteq> xs_binding st then ([], Inl (ValueError ''reconciliation schedule binding mismatch''))
      else if resolved (xd_kind decision)
      then ([], bind_res (ReconciliationScheduleState_post_init (st\<lparr>xs_next_query_at := None\<rparr>)) (\<lambda>st'.
             Inr \<lparr>xo_outcome = ReconciliationScheduleOutcome.RESOLUTION_READY, xo_state = st'\<rparr>))
      else if xs_alert_emitted st
      then ([], Inr \<lparr>xo_outcome = ReconciliationScheduleOutcome.ALREADY_ALERTED, xo_state = st\<rparr>)
      else let queries_used = xs_queries_used st + 1 in
        case reconciliation_delay_seconds p (ab_operation_id (xs_binding st)) queries_used of
          Inl e \<Rightarrow> ([], Inl e)
        | Inr delay \<Rightarrow>
            let budget_exhausted = (queries_used \<ge> xs_maximum_queries st);
                deadline_exhausted = f_lt (xs_deadline st) (f_add (f_add now delay) (bxp_minimum_query_window_seconds p));
                evidence_conflict = (xd_kind decision = ReconciliationDecisionKind.EVIDENCE_CONFLICT)
            in if budget_exhausted \<or> deadline_exhausted \<or> evidence_conflict
               then ([\<lparr>xa_operation_ref = operation_ref,
                       xa_reason = (if evidence_conflict then ''EVIDENCE_CONFLICT''
                         else if budget_exhausted then ''QUERY_BUDGET_EXHAUSTED'' else ''RECONCILIATION_DEADLINE_EXHAUSTED''),
                       xa_queries_used = queries_used\<rparr>],
                     case emit of Some e \<Rightarrow> Inl e
                     | None \<Rightarrow> bind_res (ReconciliationScheduleState_post_init
                         (st\<lparr>xs_queries_used := queries_used, xs_next_query_at := None, xs_alert_emitted := True\<rparr>)) (\<lambda>st'.
                       Inr \<lparr>xo_outcome = ReconciliationScheduleOutcome.OPERATIONAL_ALERT_REQUIRED, xo_state = st'\<rparr>))
               else ([], bind_res (ReconciliationScheduleState_post_init
                         (st\<lparr>xs_queries_used := queries_used, xs_next_query_at := Some (f_add now delay)\<rparr>)) (\<lambda>st'.
                       Inr \<lparr>xo_outcome = ReconciliationScheduleOutcome.NEXT_QUERY_SCHEDULED, xo_state = st'\<rparr>)))"

section \<open>Facts are final\<close>

definition completed_record ::
    "ReconciliationRecord \<Rightarrow> ReconciledBusinessOutcome \<Rightarrow> ComplianceOutcome \<Rightarrow> string option \<Rightarrow> string \<Rightarrow> ReconciliationRecord" where
  "completed_record r bo co x es = r\<lparr>xr_state := ReconciliationRecordState.COMPLETED, xr_version := xr_version r + 1,
     xr_business_outcome := Some bo, xr_compliance_outcome := Some co, xr_external_object_id := x, xr_evidence_source := Some es\<rparr>"

lemma completed_record_fields [simp]:
  "xr_binding (completed_record r bo co x es) = xr_binding r" "xr_version (completed_record r bo co x es) = xr_version r + 1"
  "xr_state (completed_record r bo co x es) = ReconciliationRecordState.COMPLETED"
  "xr_business_outcome (completed_record r bo co x es) = Some bo" "xr_compliance_outcome (completed_record r bo co x es) = Some co"
  "xr_external_object_id (completed_record r bo co x es) = x" "xr_evidence_source (completed_record r bo co x es) = Some es"
  by (simp_all add: completed_record_def)

lemma reconciliation_cas_cases:
  obtains "reconciliation_cas b v bo co x es s = (s, None)"
  | r where "s (ab_operation_id b) = Some r" and "xr_binding r = b" and "xr_state r = ReconciliationRecordState.PENDING_RECONCILIATION"
      and "xr_version r = v"
      and "reconciliation_cas b v bo co x es s =
        (s(ab_operation_id b \<mapsto> completed_record r bo co x es), Some (completed_record r bo co x es))"
proof (cases "\<exists>r. s (ab_operation_id b) = Some r \<and> xr_binding r = b \<and>
    xr_state r = ReconciliationRecordState.PENDING_RECONCILIATION \<and> xr_version r = v")
  case True
  then show ?thesis using that(2) by (auto simp: reconciliation_cas_def completed_record_def Let_def)
next
  case False
  then have "reconciliation_cas b v bo co x es s = (s, None)" by (auto simp: reconciliation_cas_def split: option.splits)
  then show ?thesis by (rule that(1))
qed

lemma reconciliation_step_cases:
  assumes "s k = Some r"
  obtains "reconciliation_step e s k = Some r"
  | bo co x es where "reconciliation_step e s k = Some (completed_record r bo co x es)"
      and "xr_state r = ReconciliationRecordState.PENDING_RECONCILIATION"
proof (cases e)
  case (AddPending b)
  with assms have "reconciliation_step e s k = Some r" by (auto simp: add_pending_def)
  then show ?thesis by (rule that(1))
next
  case (CompareAndSet b v bo co x es)
  have "reconciliation_step e s k = Some r \<or> reconciliation_step e s k = Some (completed_record r bo co x es) \<and>
      xr_state r = ReconciliationRecordState.PENDING_RECONCILIATION"
    by (rule reconciliation_cas_cases [of b v bo co x es s]) (use assms CompareAndSet in auto)
  then show ?thesis using that by blast
qed

interpretation reconciliation: versioned_store reconciliation_step "\<lambda>s k. s k" xr_version xr_binding
proof
  fix s :: ReconciliationStore and k r e
  assume "s k = Some r"
  then show "\<exists>r'. reconciliation_step e s k = Some r' \<and> xr_binding r' = xr_binding r \<and> (r' = r \<or> xr_version r < xr_version r')"
    by (rule reconciliation_step_cases [where e = e]) auto
qed

lemma completed_final:
  "s k = Some r \<Longrightarrow> xr_state r = ReconciliationRecordState.COMPLETED \<Longrightarrow> fold reconciliation_step es s k = Some r"
proof (induction es arbitrary: s)
  case (Cons e es)
  have "reconciliation_step e s k = Some r"
    by (rule reconciliation_step_cases [of s k r e]) (use Cons.prems in auto)
  with Cons show ?case by simp
qed simp

section \<open>From an observation to a fact\<close>

lemma commit_committed:
  assumes "reconciliation_commit others proposal v authz s = (s', result)" and "xc_outcome result = ReconciliationCommitOutcome.COMMITTED"
  shows "\<exists>source r. xd_evidence_source proposal = Some source \<and> resolved (xd_kind proposal) \<and>
    fold reconciliation_step others s (ab_operation_id (xd_binding proposal)) = Some r \<and> xr_binding r = xd_binding proposal \<and>
    xr_version r = v \<and> xr_state r = ReconciliationRecordState.PENDING_RECONCILIATION \<and>
    xc_record result = Some (completed_record r (outcome_of_kind (xd_kind proposal))
      (compliance_of (outcome_of_kind (xd_kind proposal)) authz) (xd_external_object_id proposal) source) \<and>
    s' = (fold reconciliation_step others s)(ab_operation_id (xd_binding proposal) := xc_record result)"
proof -
  have refused: "xc_outcome (commit_refused k) = k" for k by (simp add: commit_refused_def)
  obtain source where source: "xd_evidence_source proposal = Some source"
    using assms by (cases "xd_evidence_source proposal") (auto simp: reconciliation_commit_def refused)
  let ?cas = "reconciliation_cas (xd_binding proposal) v (outcome_of_kind (xd_kind proposal))
    (compliance_of (outcome_of_kind (xd_kind proposal)) authz) (xd_external_object_id proposal) source (fold reconciliation_step others s)"
  have c: "resolved (xd_kind proposal) \<and> (\<exists>r. snd ?cas = Some r \<and> s' = fst ?cas \<and> xc_record result = Some r)"
    using assms unfolding reconciliation_commit_def source Let_def
    by (auto simp: refused split: if_splits option.splits prod.splits)
  show ?thesis
    by (rule reconciliation_cas_cases [of "xd_binding proposal" v "outcome_of_kind (xd_kind proposal)"
          "compliance_of (outcome_of_kind (xd_kind proposal)) authz" "xd_external_object_id proposal" source "fold reconciliation_step others s"])
      (use c source in auto)
qed

lemma reconcile_resolved:
  assumes "reconcile_once query failure b = Inr proposal" and "resolved (xd_kind proposal)"
  shows "\<exists>observed. query b = Inr observed \<and> are_binding observed = b \<and> fe_operation_id failure = ab_operation_id b \<and>
    fe_idempotency_key failure = ab_idempotency_key b \<and> fe_execution_certainty failure \<noteq> ExecutionCertainty.PROVEN_NOT_EXECUTED \<and>
    xd_kind proposal = decision_of_status (are_status observed) \<and> xd_binding proposal = b \<and>
    xd_evidence_source proposal = Some (are_evidence_source observed) \<and> xd_external_object_id proposal = are_external_object_id observed"
  using assms by (auto simp: reconcile_once_def reconciliation_decision_def resolved_def bind_res_eq_Inr split: if_splits)

text \<open>The status of the authority and the outcome stored for it.\<close>

fun status_outcome :: "AuthoritativeOperationStatus \<Rightarrow> ReconciledBusinessOutcome option" where
  "status_outcome AuthoritativeOperationStatus.SUCCEEDED = Some ReconciledBusinessOutcome.SUCCEEDED"
| "status_outcome AuthoritativeOperationStatus.FAILED = Some ReconciledBusinessOutcome.FAILED"
| "status_outcome AuthoritativeOperationStatus.NOT_EXECUTED = Some ReconciledBusinessOutcome.NOT_EXECUTED"
| "status_outcome _ = None"

lemma status_outcome_resolved:
  "resolved (decision_of_status st) \<Longrightarrow> status_outcome st = Some (outcome_of_kind (decision_of_status st))"
  by (cases st) (simp_all add: resolved_def)

lemma not_executed_evidence_iff:
  assumes "FailureEvidence_post_init failure = Inr failure" and "xc_outcome result = ReconciliationCommitOutcome.COMMITTED"
    and "xc_record result = Some r" and "xr_evidence_source r = Some source" and "source \<noteq> []"
    and "fe_operation_id failure = ab_operation_id (xr_binding r)" "fe_idempotency_key failure = ab_idempotency_key (xr_binding r)"
  shows "(\<exists>e. authoritative_not_executed_evidence result failure = Inr e) \<longleftrightarrow> xr_business_outcome r = Some ReconciledBusinessOutcome.NOT_EXECUTED"
    and "authoritative_not_executed_evidence result failure = Inr e \<Longrightarrow> fe_operation_id e = fe_operation_id failure \<and>
      fe_idempotency_key e = fe_idempotency_key failure \<and> fe_attempt_number e = fe_attempt_number failure \<and>
      fe_protocol_request_id e = fe_protocol_request_id failure \<and>
      fe_execution_certainty e = ExecutionCertainty.PROVEN_NOT_EXECUTED \<and> fe_kind e = FailureKind.AUTHORITATIVE_NOT_EXECUTED"
  using assms by (auto simp: authoritative_not_executed_evidence_def FailureEvidence_post_init_def py_defs split: if_splits)

text \<open>
  C26. A reconciled outcome is the authority's, it is final, and only a reported non-execution reopens the
  retry. When an observation of a failed attempt is committed, with other requests interleaved anywhere
  between the reads and the write, the authority was asked about exactly this binding and answered for
  it, the failure left the execution open, the stored record carries the outcome that was reported with
  the source and the external object of that answer, and no later request changes the record. The retry
  policy blocks the original failure, and evidence that lets it proceed is obtained exactly when the
  authority reported that the operation was not executed, for the same operation and attempt.
\<close>

theorem reconciled_fact_sound:
  assumes "FailureEvidence_post_init failure = Inr failure"
    and "\<And>observed. query b = Inr observed \<Longrightarrow> AuthoritativeResultEvidence_post_init observed = Inr observed"
    and "reconcile_once query failure b = Inr proposal"
    and "reconciliation_commit others proposal v authz s = (s', result)" "xc_outcome result = ReconciliationCommitOutcome.COMMITTED"
  shows "\<exists>observed r. query b = Inr observed \<and> are_binding observed = b \<and> xc_record result = Some r \<and>
    xr_binding r = b \<and> xr_business_outcome r = status_outcome (are_status observed) \<and>
    xr_evidence_source r = Some (are_evidence_source observed) \<and> xr_external_object_id r = are_external_object_id observed \<and>
    (\<forall>es. fold reconciliation_step es s' (ab_operation_id b) = Some r) \<and>
    (\<forall>p c. retry_decide p failure c = Inr (retry_blocked RetryDecisionKind.POSSIBLE_EXECUTION failure)) \<and>
    ((\<exists>e. authoritative_not_executed_evidence result failure = Inr e) \<longleftrightarrow> are_status observed = AuthoritativeOperationStatus.NOT_EXECUTED) \<and>
    (\<forall>e. authoritative_not_executed_evidence result failure = Inr e \<longrightarrow> fe_operation_id e = fe_operation_id failure \<and>
      fe_idempotency_key e = fe_idempotency_key failure \<and> fe_attempt_number e = fe_attempt_number failure \<and>
      (\<forall>c. blocked_reason e c \<noteq> Some RetryDecisionKind.POSSIBLE_EXECUTION \<and> blocked_reason e c \<noteq> Some RetryDecisionKind.FAILURE_NOT_RETRYABLE))"
proof -
  obtain source q where c: "resolved (xd_kind proposal)" "xd_evidence_source proposal = Some source" "xr_binding q = xd_binding proposal"
    and r: "xc_record result = Some (completed_record q (outcome_of_kind (xd_kind proposal))
      (compliance_of (outcome_of_kind (xd_kind proposal)) authz) (xd_external_object_id proposal) source)"
    and s': "s' = (fold reconciliation_step others s)(ab_operation_id (xd_binding proposal) := xc_record result)"
    using commit_committed [OF assms(4,5)] by auto
  obtain observed where o: "query b = Inr observed" "are_binding observed = b" "fe_operation_id failure = ab_operation_id b"
    "fe_idempotency_key failure = ab_idempotency_key b" "fe_execution_certainty failure \<noteq> ExecutionCertainty.PROVEN_NOT_EXECUTED"
    "xd_kind proposal = decision_of_status (are_status observed)" "xd_binding proposal = b"
    "source = are_evidence_source observed" "xd_external_object_id proposal = are_external_object_id observed"
    using reconcile_resolved [OF assms(3) c(1)] c(2) by auto
  let ?r = "the (xc_record result)"
  have f: "xc_record result = Some ?r" "xr_binding ?r = b" "xr_business_outcome ?r = status_outcome (are_status observed)"
    "xr_evidence_source ?r = Some source" "xr_external_object_id ?r = are_external_object_id observed"
    "xr_state ?r = ReconciliationRecordState.COMPLETED"
    using r c o status_outcome_resolved [of "are_status observed"] by simp_all
  have src: "source \<noteq> []" using assms(2) [OF o(1)] o(8)
    by (auto simp: AuthoritativeResultEvidence_post_init_def py_defs split: if_splits)
  have n: "status_outcome (are_status observed) = Some ReconciledBusinessOutcome.NOT_EXECUTED \<longleftrightarrow>
      are_status observed = AuthoritativeOperationStatus.NOT_EXECUTED" by (cases "are_status observed") auto
  have fin: "fold reconciliation_step es s' (ab_operation_id b) = Some ?r" for es
    by (rule completed_final) (use s' f(1,6) o(7) in simp_all)
  have blocked: "retry_decide p failure c = Inr (retry_blocked RetryDecisionKind.POSSIBLE_EXECUTION failure)" for p c
    using o(5) by (simp add: retry_decide_def blocked_reason_def)
  note ev = not_executed_evidence_iff [OF assms(1,5) f(1,4) src, unfolded f(2,3) n, OF o(3,4)]
  have "blocked_reason e c \<noteq> Some RetryDecisionKind.POSSIBLE_EXECUTION \<and> blocked_reason e c \<noteq> Some RetryDecisionKind.FAILURE_NOT_RETRYABLE"
    if "authoritative_not_executed_evidence result failure = Inr e" for e c
    using ev(2) [OF that] by (simp add: blocked_reason_def retryable_kinds_def)
  with o(1,2) f fin blocked ev show ?thesis unfolding o(8) by blast
qed

definition known_binding :: ApplicationOperationBinding where
  "known_binding = \<lparr>ab_operation_id = ''op'', ab_idempotency_key = ''key'', ab_tenant_id = ''t'', ab_resource_id = ''r''\<rparr>"

definition lost_owner :: FailureEvidence where
  "lost_owner =
     \<lparr>fe_operation_id = ''op'', fe_idempotency_key = ''key'', fe_protocol_request_id = Some (IntId 7), fe_attempt_number = 1,
      fe_phase = FailurePhase.SEND, fe_kind = FailureKind.DISPATCH_OWNER_LOST,
      fe_dispatch_certainty = DispatchCertainty.POSSIBLY_SENT,
      fe_execution_certainty = ExecutionCertainty.POSSIBLY_EXECUTED, fe_evidence_source = ''marker''\<rparr>"

definition denying_authority :: AuthoritativeStatusQueryPort where
  "denying_authority b = AuthoritativeResultEvidence_post_init
     \<lparr>are_binding = b, are_status = AuthoritativeOperationStatus.NOT_EXECUTED, are_evidence_source = ''ledger'', are_external_object_id = None\<rparr>"

definition denied_commit :: "ReconciliationStore \<times> ReconciliationCommitResult" where
  "denied_commit = reconciliation_commit [AddPending (known_binding\<lparr>ab_operation_id := ''other''\<rparr>)]
     (reconciliation_decision ReconciliationDecisionKind.RESOLVED_NOT_EXECUTED known_binding (Some ''ledger'') None) 1 True
     (reconciliation_step (AddPending known_binding) Map.empty)"

theorem reconciled_fact_sound_witness:
  "\<exists>r e. xc_record (snd denied_commit) = Some r \<and> fold reconciliation_step [] (fst denied_commit) ''op'' = Some r \<and>
     authoritative_not_executed_evidence (snd denied_commit) lost_owner = Inr e \<and> fe_attempt_number e = 1"
proof -
  have w1: "FailureEvidence_post_init lost_owner = Inr lost_owner"
    by (simp add: FailureEvidence_post_init_def lost_owner_def py_defs)
  have w2: "AuthoritativeResultEvidence_post_init observed = Inr observed" if "denying_authority known_binding = Inr observed" for observed
    using that by (auto simp: denying_authority_def AuthoritativeResultEvidence_post_init_def py_defs)
  have w3: "reconcile_once denying_authority lost_owner known_binding =
      Inr (reconciliation_decision ReconciliationDecisionKind.RESOLVED_NOT_EXECUTED known_binding (Some ''ledger'') None)"
    by (simp add: reconcile_once_def lost_owner_def known_binding_def denying_authority_def AuthoritativeResultEvidence_post_init_def py_defs)
  have w4: "reconciliation_commit [AddPending (known_binding\<lparr>ab_operation_id := ''other''\<rparr>)]
      (reconciliation_decision ReconciliationDecisionKind.RESOLVED_NOT_EXECUTED known_binding (Some ''ledger'') None) 1 True
      (reconciliation_step (AddPending known_binding) Map.empty) = (fst denied_commit, snd denied_commit)"
    by (simp add: denied_commit_def)
  have w5: "xc_outcome (snd denied_commit) = ReconciliationCommitOutcome.COMMITTED"
    by (simp add: denied_commit_def reconciliation_commit_def reconciliation_decision_def resolved_def known_binding_def add_pending_def
        reconciliation_cas_def Let_def)
  obtain observed r where o: "denying_authority known_binding = Inr observed" "xc_record (snd denied_commit) = Some r"
    "\<forall>es. fold reconciliation_step es (fst denied_commit) (ab_operation_id known_binding) = Some r"
    "(\<exists>e. authoritative_not_executed_evidence (snd denied_commit) lost_owner = Inr e) \<longleftrightarrow>
       are_status observed = AuthoritativeOperationStatus.NOT_EXECUTED"
    "\<forall>e. authoritative_not_executed_evidence (snd denied_commit) lost_owner = Inr e \<longrightarrow> fe_attempt_number e = fe_attempt_number lost_owner"
    using reconciled_fact_sound [OF w1 w2 w3 w4 w5] by blast
  have "are_status observed = AuthoritativeOperationStatus.NOT_EXECUTED"
    using o(1) by (auto simp: denying_authority_def AuthoritativeResultEvidence_post_init_def py_defs)
  then obtain e where "authoritative_not_executed_evidence (snd denied_commit) lost_owner = Inr e" using o(4) by blast
  moreover have "ab_operation_id known_binding = ''op''" "fe_attempt_number lost_owner = 1" by (simp_all add: known_binding_def lost_owner_def)
  ultimately show ?thesis using o(2,3,5) by metis
qed

section \<open>The schedule ends\<close>

text \<open>
  A state whose budget is not used up, or whose alert was sent; the constructor also admits a state with
  the budget used up and no alert, which \<open>advance\<close> itself never produces.
\<close>

definition schedule_ok :: "ReconciliationScheduleState \<Rightarrow> bool" where
  "schedule_ok st \<longleftrightarrow> ReconciliationScheduleState_post_init st = Inr st \<and> (xs_alert_emitted st \<or> xs_queries_used st < xs_maximum_queries st)"

text \<open>
  One observation: a decision, the clock and what the port's \<^verbatim>\<open>emit\<close> raises should it be called. The calls of
  \<^verbatim>\<open>emit\<close> are recorded with how they ended; an alert is delivered where the call returned.
\<close>

type_synonym observation = "ReconciliationDecision \<times> pyfloat \<times> exn option"
type_synonym emit_log = "(ReconciliationOperationalAlert \<times> exn option) list"

definition schedule_step ::
    "BoundedReconciliationPolicy \<Rightarrow> string \<Rightarrow> observation \<Rightarrow> emit_log \<times> ReconciliationScheduleState \<Rightarrow>
     emit_log \<times> ReconciliationScheduleState" where
  "schedule_step p operation_ref d a =
     (case d of (decision, now, emit) \<Rightarrow>
        case advance p decision (snd a) now operation_ref emit of
          (alerts, Inl _) \<Rightarrow> (fst a @ map (\<lambda>alert. (alert, emit)) alerts, snd a)
        | (alerts, Inr x) \<Rightarrow> (fst a @ map (\<lambda>alert. (alert, emit)) alerts, xo_state x))"

definition delivered :: "emit_log \<Rightarrow> emit_log" where
  "delivered calls = filter (\<lambda>c. snd c = None) calls"

lemma delivered_append [simp]: "delivered (xs @ ys) = delivered xs @ delivered ys"
  by (simp add: delivered_def)

fun unresolved_query :: "ApplicationOperationBinding \<Rightarrow> observation \<Rightarrow> bool" where
  "unresolved_query b (decision, now, emit) \<longleftrightarrow> isfinite now \<and> xd_binding decision = b \<and> \<not> resolved (xd_kind decision)"

fun heard_query :: "ApplicationOperationBinding \<Rightarrow> observation \<Rightarrow> bool" where
  "heard_query b (decision, now, emit) \<longleftrightarrow> unresolved_query b (decision, now, emit) \<and> emit = None"

text \<open>Relation between a start state and the state and calls after \<open>n\<close> unresolved observations that found the port working.\<close>

definition schedule_after ::
    "ReconciliationScheduleState \<Rightarrow> nat \<Rightarrow> emit_log \<times> ReconciliationScheduleState \<Rightarrow> bool" where
  "schedule_after st0 n a \<longleftrightarrow> schedule_ok (snd a) \<and> xs_binding (snd a) = xs_binding st0 \<and>
     xs_maximum_queries (snd a) = xs_maximum_queries st0 \<and> xs_pending_reconciliation (snd a) = xs_pending_reconciliation st0 \<and>
     length (delivered (fst a)) = (if xs_alert_emitted (snd a) then 1 else 0) \<and>
     (xs_alert_emitted (snd a) \<longrightarrow> snd (last (fst a)) = None) \<and>
     (\<not> xs_alert_emitted (snd a) \<longrightarrow> xs_queries_used st0 + int n \<le> xs_queries_used (snd a))"

lemma schedule_post_init_iff:
  "ReconciliationScheduleState_post_init st = Inr st' \<longleftrightarrow> st' = st \<and> 0 \<le> xs_queries_used st \<and> 1 \<le> xs_maximum_queries st \<and>
     xs_queries_used st \<le> xs_maximum_queries st \<and> isfinite (xs_deadline st)"
  by (auto simp: ReconciliationScheduleState_post_init_def)

text \<open>An unresolved observation before the alert: it uses one query, or the port raises and nothing changes.\<close>

lemma advance_unresolved:
  assumes "schedule_ok st" and "xs_maximum_queries st \<le> 1024" and "unresolved_query (xs_binding st) (decision, now, emit)"
    and "\<not> xs_alert_emitted st"
  obtains e alert where "emit = Some e" "advance p decision st now ref emit = ([alert], Inl e)"
  | alert x where "emit = None" "advance p decision st now ref emit = ([alert], Inr x)" "xs_alert_emitted (xo_state x)"
      "schedule_ok (xo_state x)" "xs_binding (xo_state x) = xs_binding st" "xs_maximum_queries (xo_state x) = xs_maximum_queries st"
      "xs_pending_reconciliation (xo_state x) = xs_pending_reconciliation st"
  | x where "advance p decision st now ref emit = ([], Inr x)" "\<not> xs_alert_emitted (xo_state x)"
      "schedule_ok (xo_state x)" "xs_binding (xo_state x) = xs_binding st" "xs_maximum_queries (xo_state x) = xs_maximum_queries st"
      "xs_pending_reconciliation (xo_state x) = xs_pending_reconciliation st" "xs_queries_used (xo_state x) = xs_queries_used st + 1"
proof -
  have q: "0 \<le> xs_queries_used st" "xs_queries_used st < xs_maximum_queries st" "1 \<le> xs_maximum_queries st" "isfinite (xs_deadline st)"
    using assms(1,4) by (auto simp: schedule_ok_def schedule_post_init_iff)
  have "nat (xs_queries_used st + 1 - 1) \<le> 1023" using q assms(2) by simp
  then obtain delay where delay: "reconciliation_delay_seconds p (ab_operation_id (xs_binding st)) (xs_queries_used st + 1) = Inr delay"
    using jittered_delay_total unfolding reconciliation_delay_seconds_def by blast
  let ?alert = "xs_maximum_queries st \<le> xs_queries_used st + 1 \<or>
    f_lt (xs_deadline st) (f_add (f_add now delay) (bxp_minimum_query_window_seconds p)) \<or>
    xd_kind decision = ReconciliationDecisionKind.EVIDENCE_CONFLICT"
  show ?thesis
  proof (cases ?alert)
    case alert: True
    show ?thesis
    proof (cases emit)
      case None
      with alert assms(3,4) q delay that(2) show ?thesis
        by (auto simp: advance_def Let_def schedule_post_init_iff ReconciliationScheduleState_post_init_def schedule_ok_def)
    next
      case (Some e)
      with alert assms(3,4) q delay that(1) show ?thesis by (auto simp: advance_def Let_def)
    qed
  next
    case False
    with assms(3,4) q delay that(3) show ?thesis
      by (auto simp: advance_def Let_def schedule_post_init_iff ReconciliationScheduleState_post_init_def schedule_ok_def)
  qed
qed

lemma schedule_step_after:
  assumes "schedule_after st0 n a" and "xs_maximum_queries st0 \<le> 1024"
  shows "schedule_after st0 (if heard_query (xs_binding st0) d then Suc n else n) (schedule_step p ref d a)"
proof -
  obtain decision now emit where d: "d = (decision, now, emit)" by (cases d)
  show ?thesis
  proof (cases "unresolved_query (xs_binding st0) (decision, now, emit) \<and> \<not> xs_alert_emitted (snd a)")
    case True
    with assms have "schedule_ok (snd a)" "xs_maximum_queries (snd a) \<le> 1024" "unresolved_query (xs_binding (snd a)) (decision, now, emit)"
      by (auto simp: schedule_after_def)
    then show ?thesis
    proof (rule advance_unresolved [where p = p and ref = ref])
      show "\<not> xs_alert_emitted (snd a)" using True by blast
    qed (use assms(1) True in \<open>auto simp: d schedule_after_def schedule_step_def delivered_def\<close>)
  next
    case False
    let ?n = "if heard_query (xs_binding st0) d then Suc n else n"
    have m: "schedule_after st0 ?n a" using assms(1) False by (auto simp: d schedule_after_def)
    have "fst (advance p decision (snd a) now ref emit) = [] \<and> (\<forall>st'. snd (advance p decision (snd a) now ref emit) = Inr st' \<longrightarrow>
        xo_state st' = snd a \<or> xo_state st' = (snd a)\<lparr>xs_next_query_at := None\<rparr>)"
      using assms(1) False unfolding schedule_after_def
      by (auto simp: advance_def schedule_post_init_iff bind_res_eq_Inr)
    then have "schedule_step p ref d a = a \<or> schedule_step p ref d a = (fst a, (snd a)\<lparr>xs_next_query_at := None\<rparr>)"
      by (auto simp: d schedule_step_def prod_eq_iff split: prod.splits sum.splits)
    moreover have "schedule_after st0 ?n (fst a, (snd a)\<lparr>xs_next_query_at := None\<rparr>)"
      using m by (simp add: schedule_after_def schedule_ok_def schedule_post_init_iff) auto
    ultimately show ?thesis using m by metis
  qed
qed

lemma schedule_run_after:
  assumes "schedule_after st0 n a" and "xs_maximum_queries st0 \<le> 1024"
  shows "schedule_after st0 (n + length (filter (heard_query (xs_binding st0)) ds)) (fold (schedule_step p ref) ds a)"
  using assms(1)
proof (induction ds arbitrary: n a)
  case (Cons d ds)
  from Cons.IH [OF schedule_step_after [OF Cons.prems assms(2), of d p ref]] show ?case by (simp split: if_splits)
qed simp

text \<open>
  C27. The reconciliation schedule ends with one alert. Starting from a constructed schedule with budget left, no
  alert sent and at most 1024 queries, whatever is observed and whenever, and whatever the alert port raises: at
  most one operational alert is delivered and it is the last call of the port, the query budget is never
  exceeded, the operation stays pending, and once as many unresolved observations as the budget had left found
  the port working, the alert was delivered, and every further advance calls the port no more and schedules
  no query. (Without budget left the alert is sent by every advance: \<open>exhausted_schedule_alerts_and_raises\<close>.)
\<close>

theorem reconciliation_schedule_ends:
  assumes "ReconciliationScheduleState_post_init st = Inr st" and "\<not> xs_alert_emitted st"
    and "xs_queries_used st < xs_maximum_queries st" "xs_maximum_queries st \<le> 1024"
    and "fold (schedule_step p ref) ds ([], st) = (calls, st')"
  shows "length (delivered calls) \<le> 1 \<and> (delivered calls \<noteq> [] \<longrightarrow> snd (last calls) = None) \<and>
    xs_queries_used st' \<le> xs_maximum_queries st \<and> xs_pending_reconciliation st' = xs_pending_reconciliation st \<and>
    (xs_maximum_queries st - xs_queries_used st \<le> int (length (filter (heard_query (xs_binding st)) ds)) \<longrightarrow>
       length (delivered calls) = 1 \<and> xs_alert_emitted st' \<and>
       (\<forall>decision now emit. fst (advance p decision st' now ref emit) = [] \<and>
          (\<forall>r. snd (advance p decision st' now ref emit) = Inr r \<longrightarrow>
             xo_outcome r \<noteq> ReconciliationScheduleOutcome.NEXT_QUERY_SCHEDULED)))"
proof -
  have "schedule_after st 0 ([], st)" using assms(1-3) by (simp add: schedule_after_def schedule_ok_def delivered_def)
  from schedule_run_after [OF this assms(4), of ds p ref]
  have f: "schedule_after st (length (filter (heard_query (xs_binding st)) ds)) (calls, st')" by (simp add: assms(5))
  have "fst (advance p decision st' now ref emit) = [] \<and> (\<forall>r. snd (advance p decision st' now ref emit) = Inr r \<longrightarrow>
      xo_outcome r \<noteq> ReconciliationScheduleOutcome.NEXT_QUERY_SCHEDULED)" if "xs_alert_emitted st'" for decision now emit
    using that by (auto simp: advance_def bind_res_eq_Inr)
  with f show ?thesis by (auto simp: schedule_after_def schedule_ok_def schedule_post_init_iff split: if_splits)
qed

definition short_schedule :: ReconciliationScheduleState where
  "short_schedule = \<lparr>xs_binding = known_binding, xs_queries_used = 0, xs_maximum_queries = 2, xs_deadline = Finite 64,
     xs_next_query_at = None, xs_alert_emitted = False, xs_pending_reconciliation = True\<rparr>"

definition default_reconciliation_policy :: BoundedReconciliationPolicy where
  "default_reconciliation_policy = \<lparr>bxp_base_delay_seconds = fl 1, bxp_maximum_delay_seconds = fl 30, bxp_jitter_ratio = fl (1 / 5),
     bxp_minimum_query_window_seconds = fl (1 / 20)\<rparr>"

definition pending_observation :: "exn option \<Rightarrow> observation" where
  "pending_observation emit =
     (reconciliation_decision ReconciliationDecisionKind.STILL_PENDING known_binding (Some ''ledger'') None, Finite 0, emit)"

theorem reconciliation_schedule_ends_witness:
  "\<exists>calls st'. fold (schedule_step default_reconciliation_policy ''ref'')
       [pending_observation None, pending_observation (Some (RuntimeError ''down'')), pending_observation None, pending_observation None]
       ([], short_schedule) = (calls, st') \<and> length (delivered calls) = 1 \<and> xs_alert_emitted st'"
proof -
  let ?ds = "[pending_observation None, pending_observation (Some (RuntimeError ''down'')), pending_observation None, pending_observation None]"
  obtain calls st' where r: "fold (schedule_step default_reconciliation_policy ''ref'') ?ds ([], short_schedule) = (calls, st')"
    by fastforce
  have "int (length (filter (heard_query (xs_binding short_schedule)) ?ds)) = 3"
    by (simp add: pending_observation_def reconciliation_decision_def resolved_def short_schedule_def)
  with reconciliation_schedule_ends [OF _ _ _ _ r] r show ?thesis
    by (auto simp: short_schedule_def ReconciliationScheduleState_post_init_def)
qed

text \<open>
  The constructor accepts a schedule whose budget is used up without an alert. Advancing it sends the
  alert and then raises, because the updated state exceeds the budget: the alert is never recorded, and
  every further advance sends it again.
\<close>

lemma exhausted_schedule_alerts_and_raises:
  assumes "ReconciliationScheduleState_post_init st = Inr st" and "\<not> xs_alert_emitted st"
    and "xs_queries_used st = xs_maximum_queries st" "xs_maximum_queries st \<le> 1023"
    and "unresolved_query (xs_binding st) (decision, now, emit)"
  shows "\<exists>a e. advance p decision st now ref emit = ([a], Inl e)"
proof -
  have q: "1 \<le> xs_maximum_queries st" "isfinite (xs_deadline st)" using assms(1) by (auto simp: schedule_post_init_iff)
  have "nat (xs_queries_used st + 1 - 1) \<le> 1023" using assms(3,4) by simp
  then obtain delay where "reconciliation_delay_seconds p (ab_operation_id (xs_binding st)) (xs_queries_used st + 1) = Inr delay"
    using jittered_delay_total unfolding reconciliation_delay_seconds_def by blast
  then show ?thesis using assms(2,3,5) q
    by (auto simp: advance_def Let_def ReconciliationScheduleState_post_init_def split: option.splits)
qed

end
