(* ===== verification/Tool_Contracts.thy ===== *)
theory Tool_Contracts
  imports Binary64 Machines Sha256 Json "HOL-Library.List_Lexorder" "HOL-Library.Char_ord"
begin

text \<open>
  \<^verbatim>\<open>src/projects/ai-agent/src/output_tool_contracts.py\<close>: the schema subset a provider's output is checked
  against, the tool registry, the admission of a tool call, its execution, the verification of the
  outcome and the guarded completion of the job.
\<close>

section \<open>Python values from JSON\<close>

text \<open>
  A value \<^verbatim>\<open>json.loads\<close> returns. A \<^verbatim>\<open>dict\<close> is the list of its items in insertion order, with distinct keys.
  \<^verbatim>\<open>json.loads\<close> itself is the first component of a \<open>JsonLibrary\<close>, \<open>Inl e\<close> where it raises \<open>e\<close>: \<^verbatim>\<open>JSONDecodeError\<close>
  on malformed text, but also a plain \<^verbatim>\<open>ValueError\<close> on an integer beyond the interpreter's limit of digits and
  \<^verbatim>\<open>RecursionError\<close> on a text nested too deeply. The second is \<^verbatim>\<open>repr\<close> of a float, which \<^verbatim>\<open>json.dumps\<close> writes.
  A string is the list of its UTF-8 bytes (those of \<^verbatim>\<open>surrogatepass\<close> for a lone surrogate).
\<close>

datatype pyval =
  VNone | VBool bool | VInt int | VFloat pyfloat | VStr string | VList "pyval list" | VDict "(string \<times> pyval) list"

record JsonLibrary =
  jl_loads :: "string \<Rightarrow> pyval res"
  jl_float_repr :: "pyfloat \<Rightarrow> string"

text \<open>The exact value of a number; a \<^verbatim>\<open>bool\<close> is an \<^verbatim>\<open>int\<close>. Comparing an \<^verbatim>\<open>int\<close> with a \<^verbatim>\<open>float\<close> is exact.\<close>

fun num_value :: "pyval \<Rightarrow> pyfloat option" where
  "num_value (VBool b) = Some (Finite (if b then 1 else 0))"
| "num_value (VInt n) = Some (Finite (of_int n))"
| "num_value (VFloat f) = Some f"
| "num_value _ = None"

lemma size_of_zipped [termination_simp]: "(x, y) \<in> set (zip xs ys) \<Longrightarrow> size x < Suc (size_list size xs)"
  by (induction xs ys rule: list_induct2') auto

fun py_eq :: "pyval \<Rightarrow> pyval \<Rightarrow> bool" where
  "py_eq VNone b = (b = VNone)"
| "py_eq (VStr s) b = (b = VStr s)"
| "py_eq (VList xs) b = (case b of VList ys \<Rightarrow> length xs = length ys \<and> list_all (\<lambda>(x, y). py_eq x y) (zip xs ys) | _ \<Rightarrow> False)"
| "py_eq (VDict xs) b = (case b of
     VDict ys \<Rightarrow> length xs = length ys \<and>
       list_all (\<lambda>(k, v). case map_of ys k of None \<Rightarrow> False | Some w \<Rightarrow> py_eq v w) xs
   | _ \<Rightarrow> False)"
| "py_eq a b = (case (num_value a, num_value b) of (Some x, Some y) \<Rightarrow> x = y \<and> x \<noteq> NaN | _ \<Rightarrow> False)"

section \<open>Schema validation\<close>

text \<open>
  The error messages, by their kind: the path and the part of the schema they name.
\<close>

datatype schema_error =
  ExpectedType string pyval | NotInEnum string | ShorterThanMin string | LongerThanMax string | BelowMinimum string | AboveMaximum string
| MissingProperty string pyval | AdditionalProperty string string

definition is_json_type :: "pyval \<Rightarrow> pyval \<Rightarrow> bool" where
  "is_json_type value expected \<longleftrightarrow>
     (if expected = VStr ''object'' then case value of VDict _ \<Rightarrow> True | _ \<Rightarrow> False
      else if expected = VStr ''array'' then case value of VList _ \<Rightarrow> True | _ \<Rightarrow> False
      else if expected = VStr ''string'' then case value of VStr _ \<Rightarrow> True | _ \<Rightarrow> False
      else if expected = VStr ''boolean'' then case value of VBool _ \<Rightarrow> True | _ \<Rightarrow> False
      else if expected = VStr ''number'' then case value of VInt _ \<Rightarrow> True | VFloat _ \<Rightarrow> True | _ \<Rightarrow> False
      else if expected = VStr ''integer'' then case value of VInt _ \<Rightarrow> True | _ \<Rightarrow> False
      else if expected = VStr ''null'' then value = VNone
      else False)"

definition supported_keywords :: "string list" where
  "supported_keywords =
     [''type'', ''properties'', ''required'', ''enum'', ''minimum'', ''maximum'', ''minLength'', ''maxLength'', ''items'', ''additionalProperties'']"

definition unsupported :: "(string \<times> pyval) list \<Rightarrow> string list" where
  "unsupported sc = sort (filter (\<lambda>k. k \<notin> set supported_keywords) (map fst sc))"

text \<open>
  A keyword with a value of the wrong kind is \<open>TypeError\<close> here. The source raises where it first uses such a
  value, except that it would iterate over an \<^verbatim>\<open>enum\<close> or \<^verbatim>\<open>required\<close> given as a string or a mapping; the schemas of
  the sources have none of these, and \<open>wf_schema\<close> below excludes them.
\<close>

definition number_of :: "pyval \<Rightarrow> pyfloat res" where
  "number_of v = (case num_value v of None \<Rightarrow> Inl (TypeError ''number expected'') | Some x \<Rightarrow> Inr x)"

definition guard_error :: "bool \<Rightarrow> schema_error \<Rightarrow> schema_error list" where
  "guard_error c e = (if c then [e] else [])"

definition enum_errors :: "pyval \<Rightarrow> (string \<times> pyval) list \<Rightarrow> string \<Rightarrow> schema_error list res" where
  "enum_errors inst sc path =
     (case map_of sc ''enum'' of
        None \<Rightarrow> Inr []
      | Some (VList vs) \<Rightarrow> Inr (guard_error (\<not> list_ex (\<lambda>v. py_eq inst v) vs) (NotInEnum path))
      | Some _ \<Rightarrow> Inl (TypeError ''enum must be a list''))"

text \<open>One optional numeric bound of the schema, and the error to report.\<close>

definition bound_errors ::
    "(string \<times> pyval) list \<Rightarrow> string \<Rightarrow> (pyfloat \<Rightarrow> bool) \<Rightarrow> schema_error \<Rightarrow> schema_error list res" where
  "bound_errors sc keyword violates e =
     (case map_of sc keyword of
        None \<Rightarrow> Inr []
      | Some v \<Rightarrow> bind_res (number_of v) (\<lambda>b. Inr (guard_error (violates b) e)))"

definition string_errors :: "pyval \<Rightarrow> (string \<times> pyval) list \<Rightarrow> string \<Rightarrow> schema_error list res" where
  "string_errors inst sc path =
     (case inst of
        VStr s \<Rightarrow>
          (let n = Finite (of_nat (length (utf8_decode s))) in
           bind_res (bound_errors sc ''minLength'' (\<lambda>b. f_lt n b) (ShorterThanMin path)) (\<lambda>e.
           bind_res (bound_errors sc ''maxLength'' (\<lambda>b. f_lt b n) (LongerThanMax path)) (\<lambda>e'. Inr (e @ e'))))
      | _ \<Rightarrow> Inr [])"

definition number_errors :: "pyval \<Rightarrow> (string \<times> pyval) list \<Rightarrow> string \<Rightarrow> schema_error list res" where
  "number_errors inst sc path =
     (if is_json_type inst (VStr ''number'')
      then (let n = the (num_value inst) in
           bind_res (bound_errors sc ''minimum'' (\<lambda>b. f_lt n b) (BelowMinimum path)) (\<lambda>e.
           bind_res (bound_errors sc ''maximum'' (\<lambda>b. f_lt b n) (AboveMaximum path)) (\<lambda>e'. Inr (e @ e'))))
      else Inr [])"

definition schema_properties :: "(string \<times> pyval) list \<Rightarrow> (string \<times> pyval) list res" where
  "schema_properties sc =
     (case map_of sc ''properties'' of
        None \<Rightarrow> Inr []
      | Some (VDict ps) \<Rightarrow> Inr ps
      | Some _ \<Rightarrow> Inl (TypeError ''properties must be a mapping''))"

definition required_errors :: "(string \<times> pyval) list \<Rightarrow> (string \<times> pyval) list \<Rightarrow> string \<Rightarrow> schema_error list res" where
  "required_errors items sc path =
     (case map_of sc ''required'' of
        None \<Rightarrow> Inr []
      | Some (VList names) \<Rightarrow>
          bind_res (map_res (\<lambda>name. case name of
              VStr n \<Rightarrow> Inr (guard_error (n \<notin> set (map fst items)) (MissingProperty path name))
            | VList _ \<Rightarrow> Inl (TypeError ''unhashable type'')
            | VDict _ \<Rightarrow> Inl (TypeError ''unhashable type'')
            | _ \<Rightarrow> Inr [MissingProperty path name]) names) (\<lambda>es. Inr (concat es))
      | Some _ \<Rightarrow> Inl (TypeError ''required must be a list''))"

definition additional_errors :: "(string \<times> pyval) list \<Rightarrow> (string \<times> pyval) list \<Rightarrow> (string \<times> pyval) list \<Rightarrow> string \<Rightarrow> schema_error list" where
  "additional_errors items sc props path =
     (if map_of sc ''additionalProperties'' = Some (VBool False)
      then concat (map (\<lambda>(n, _). guard_error (n \<notin> set (map fst props)) (AdditionalProperty path n)) items)
      else [])"

definition index_path :: "string \<Rightarrow> nat \<Rightarrow> string" where
  "index_path path i = path @ ''['' @ str_nat i @ '']''"

definition member_path :: "string \<Rightarrow> string \<Rightarrow> string" where
  "member_path path name = path @ ''.'' @ name"

lemma map_res_cong [fundef_cong]: "xs = ys \<Longrightarrow> (\<And>x. x \<in> set ys \<Longrightarrow> f x = g x) \<Longrightarrow> map_res f xs = map_res g ys"
  by (induction xs arbitrary: ys) auto

lemma bind_res_cong [fundef_cong]: "m = m' \<Longrightarrow> (\<And>x. m' = Inr x \<Longrightarrow> f x = g x) \<Longrightarrow> bind_res m f = bind_res m' g"
  by (cases m') auto

lemma size_of_element [termination_simp]: "(i, v) \<in> set (List.enumerate n vs) \<Longrightarrow> size v < Suc (size_list size vs)"
  by (induction vs arbitrary: n) (fastforce simp: less_Suc_eq_le)+

definition type_mismatch :: "pyval \<Rightarrow> (string \<times> pyval) list \<Rightarrow> bool" where
  "type_mismatch inst sc \<longleftrightarrow> (case map_of sc ''type'' of None \<Rightarrow> False | Some t \<Rightarrow> t \<noteq> VNone \<and> \<not> is_json_type inst t)"

definition scalar_errors :: "pyval \<Rightarrow> (string \<times> pyval) list \<Rightarrow> string \<Rightarrow> schema_error list res" where
  "scalar_errors inst sc path =
     bind_res (enum_errors inst sc path) (\<lambda>e. bind_res (string_errors inst sc path) (\<lambda>e'.
     bind_res (number_errors inst sc path) (\<lambda>e''. Inr (e @ e' @ e''))))"

fun validate_schema_subset :: "pyval \<Rightarrow> pyval \<Rightarrow> string \<Rightarrow> schema_error list res" where
  "validate_schema_subset inst schema path =
     (case schema of
        VDict sc \<Rightarrow>
          if unsupported sc \<noteq> [] then Inl (ValueError ''unsupported schema keywords'')
          else if type_mismatch inst sc then Inr [ExpectedType path (the (map_of sc ''type''))]
          else bind_res (scalar_errors inst sc path) (\<lambda>e.
            case inst of
              VDict items \<Rightarrow>
                bind_res (schema_properties sc) (\<lambda>props.
                bind_res (required_errors items sc path) (\<lambda>e'.
                bind_res (map_res (\<lambda>(name, value). case map_of props name of
                    None \<Rightarrow> Inr []
                  | Some child \<Rightarrow> if child = VNone then Inr [] else validate_schema_subset value child (member_path path name)) items) (\<lambda>es.
                Inr (e @ e' @ additional_errors items sc props path @ concat es))))
            | VList values \<Rightarrow>
                (case map_of sc ''items'' of
                   None \<Rightarrow> Inr e
                 | Some child \<Rightarrow>
                     bind_res (map_res (\<lambda>(i, value). validate_schema_subset value child (index_path path i)) (List.enumerate 0 values)) (\<lambda>es.
                     Inr (e @ concat es)))
            | _ \<Rightarrow> Inr e)
      | _ \<Rightarrow> Inl (TypeError ''schema must be a mapping''))"

declare validate_schema_subset.simps [simp del]

section \<open>Data\<close>

datatype AdmissionStatus =
  ALLOWED | PARSE_FAILURE | SCHEMA_INVALID | UNKNOWN_TOOL | INCOMPATIBLE_TOOL_VERSION | TOOL_DISABLED | UNAUTHORIZED | SEMANTICALLY_INVALID

fun AdmissionStatus_value :: "AdmissionStatus \<Rightarrow> string" where
  "AdmissionStatus_value AdmissionStatus.ALLOWED = ''ALLOWED''"
| "AdmissionStatus_value AdmissionStatus.PARSE_FAILURE = ''PARSE_FAILURE''"
| "AdmissionStatus_value AdmissionStatus.SCHEMA_INVALID = ''SCHEMA_INVALID''"
| "AdmissionStatus_value AdmissionStatus.UNKNOWN_TOOL = ''UNKNOWN_TOOL''"
| "AdmissionStatus_value AdmissionStatus.INCOMPATIBLE_TOOL_VERSION = ''INCOMPATIBLE_TOOL_VERSION''"
| "AdmissionStatus_value AdmissionStatus.TOOL_DISABLED = ''TOOL_DISABLED''"
| "AdmissionStatus_value AdmissionStatus.UNAUTHORIZED = ''UNAUTHORIZED''"
| "AdmissionStatus_value AdmissionStatus.SEMANTICALLY_INVALID = ''SEMANTICALLY_INVALID''"

datatype ToolLifecycleStatus = ACTIVE | DISABLED | UNKNOWN

datatype ReportStatus = DRAFT | PUBLISHED

datatype ExecutionStatus = EXECUTED | DUPLICATE_SUPPRESSED | REJECTED_DISABLED

datatype OutcomeStatus = VERIFIED | PARSE_FAILURE | SCHEMA_INVALID | SEMANTICALLY_INVALID | IDENTITY_MISMATCH

datatype JobStatus = RUNNING | PENDING_RECONCILIATION | SUCCEEDED | CANCELLED

datatype CompletionStatus = COMMITTED | PENDING_RECONCILIATION | REJECTED_UNVERIFIED | NOOP_STALE | NOOP_TERMINAL

record AuthContext =
  au_tenant_id :: string
  au_user_id :: string
  au_role :: string

record Report =
  rp_tenant_id :: string
  rp_report_id :: string
  rp_status :: ReportStatus
  rp_version :: int

record ToolDefinition =
  tf_name :: string
  tf_version :: string
  tf_arguments_schema :: pyval

record AdmittedToolCall =
  ac_attempt_id :: string
  ac_job_id :: string
  ac_tool_call_id :: string
  ac_tool_name :: string
  ac_tool_version :: string
  ac_tenant_id :: string
  ac_report_id :: string
  ac_expected_report_version :: int
  ac_idempotency_key :: string

record AdmissionDecision =
  ad_status :: AdmissionStatus
  ad_tool_call_id :: "string option"
  ad_safe_reason_code :: string
  ad_admitted_call :: "AdmittedToolCall option"

record ExecutionResult =
  ex_status :: ExecutionStatus
  ex_operation_id :: "string option"

record OutcomeDecision =
  od_status :: OutcomeStatus
  od_safe_reason_code :: string

record JobRecord =
  jb_job_id :: string
  jb_status :: JobStatus
  jb_current_attempt_id :: string
  jb_current_tool_call_id :: string
  jb_verified_operation_id :: "string option"

record CompletionDecision =
  cd_status :: CompletionStatus
  cd_job_status :: JobStatus

definition string_schema :: "(string \<times> pyval) list \<Rightarrow> pyval" where
  "string_schema more' = VDict ((''type'', VStr ''string'') # more')"

definition TOOL_CALL_ENVELOPE_SCHEMA :: pyval where
  "TOOL_CALL_ENVELOPE_SCHEMA = VDict
     [(''type'', VStr ''object''),
      (''properties'', VDict
        [(''kind'', string_schema [(''enum'', VList [VStr ''tool_call''])]),
         (''tool_call_id'', string_schema [(''minLength'', VInt 1)]),
         (''tool_name'', string_schema [(''minLength'', VInt 1)]),
         (''tool_version'', string_schema [(''minLength'', VInt 1)]),
         (''arguments'', VDict [(''type'', VStr ''object'')])]),
      (''required'', VList [VStr ''kind'', VStr ''tool_call_id'', VStr ''tool_name'', VStr ''tool_version'', VStr ''arguments'']),
      (''additionalProperties'', VBool False)]"

definition PUBLISH_REPORT_V1_ARGUMENTS_SCHEMA :: pyval where
  "PUBLISH_REPORT_V1_ARGUMENTS_SCHEMA = VDict
     [(''type'', VStr ''object''),
      (''properties'', VDict
        [(''tenant_id'', string_schema [(''minLength'', VInt 1)]),
         (''report_id'', string_schema [(''minLength'', VInt 1)])]),
      (''required'', VList [VStr ''tenant_id'', VStr ''report_id'']),
      (''additionalProperties'', VBool False)]"

definition PUBLISH_REPORT_V1_OUTCOME_SCHEMA :: pyval where
  "PUBLISH_REPORT_V1_OUTCOME_SCHEMA = VDict
     [(''type'', VStr ''object''),
      (''properties'', VDict
        [(''operation_id'', string_schema [(''minLength'', VInt 1)]),
         (''published'', VDict [(''type'', VStr ''boolean'')]),
         (''report'', VDict
            [(''type'', VStr ''object''),
             (''properties'', VDict
               [(''report_id'', string_schema [(''minLength'', VInt 1)]),
                (''version'', VDict [(''type'', VStr ''integer''), (''minimum'', VInt 1)])]),
             (''required'', VList [VStr ''report_id'', VStr ''version'']),
             (''additionalProperties'', VBool False)]),
         (''warnings'', VDict [(''type'', VStr ''array''), (''items'', string_schema [(''maxLength'', VInt 256)])]),
         (''error'', string_schema [(''minLength'', VInt 1), (''maxLength'', VInt 256)])]),
      (''required'', VList [VStr ''operation_id'', VStr ''published'', VStr ''report'', VStr ''warnings'']),
      (''additionalProperties'', VBool False)]"

section \<open>Registry and stores\<close>

text \<open>
  The registry's dictionaries of definitions and of status have the same keys; the set of names is the
  first component of the keys.
\<close>

record ToolRegistry =
  tr_definitions :: "(string \<times> string) \<rightharpoonup> ToolDefinition"
  tr_names :: "string list"
  tr_status :: "(string \<times> string) \<rightharpoonup> ToolLifecycleStatus"

fun registry_add :: "ToolDefinition list \<Rightarrow> ToolRegistry \<Rightarrow> ToolRegistry res" where
  "registry_add [] reg = Inr reg"
| "registry_add (d # ds) reg =
     (let key = (tf_name d, tf_version d) in
      if tr_definitions reg key \<noteq> None then Inl (ValueError ''duplicate tool definition'')
      else registry_add ds \<lparr>tr_definitions = (tr_definitions reg)(key \<mapsto> d), tr_names = List.insert (tf_name d) (tr_names reg),
                            tr_status = (tr_status reg)(key \<mapsto> ToolLifecycleStatus.ACTIVE)\<rparr>)"

definition ToolRegistry_init :: "ToolDefinition list \<Rightarrow> ToolRegistry res" where
  "ToolRegistry_init ds = registry_add ds \<lparr>tr_definitions = Map.empty, tr_names = [], tr_status = Map.empty\<rparr>"

definition tool_disable :: "string \<Rightarrow> string \<Rightarrow> ToolRegistry \<Rightarrow> ToolRegistry res" where
  "tool_disable name version reg =
     (if tr_definitions reg (name, version) = None then Inl (KeyError ''cannot disable unknown tool version'')
      else Inr (reg\<lparr>tr_status := (tr_status reg)((name, version) \<mapsto> ToolLifecycleStatus.DISABLED)\<rparr>))"

definition tool_status :: "ToolRegistry \<Rightarrow> string \<Rightarrow> string \<Rightarrow> ToolLifecycleStatus" where
  "tool_status reg name version = (case tr_status reg (name, version) of None \<Rightarrow> ToolLifecycleStatus.UNKNOWN | Some st \<Rightarrow> st)"

definition tool_is_active :: "ToolRegistry \<Rightarrow> string \<Rightarrow> string \<Rightarrow> bool" where
  "tool_is_active reg name version \<longleftrightarrow> tool_status reg name version = ToolLifecycleStatus.ACTIVE"

definition tool_resolve :: "ToolRegistry \<Rightarrow> string \<Rightarrow> string \<Rightarrow> ToolDefinition option \<times> AdmissionStatus" where
  "tool_resolve reg name version =
     (case tr_definitions reg (name, version) of
        Some definition' \<Rightarrow>
          if tr_status reg (name, version) = Some ToolLifecycleStatus.DISABLED then (None, AdmissionStatus.TOOL_DISABLED)
          else (Some definition', AdmissionStatus.ALLOWED)
      | None \<Rightarrow> if name \<in> set (tr_names reg) then (None, AdmissionStatus.INCOMPATIBLE_TOOL_VERSION) else (None, AdmissionStatus.UNKNOWN_TOOL))"

type_synonym ReportStore = "(string \<times> string) \<rightharpoonup> Report"

definition ReportStore_init :: "Report list \<Rightarrow> ReportStore" where
  "ReportStore_init reports = fold (\<lambda>r m. m((rp_tenant_id r, rp_report_id r) \<mapsto> r)) reports Map.empty"

definition get_for_authorized_tenant :: "ReportStore \<Rightarrow> string \<Rightarrow> string \<Rightarrow> Report option" where
  "get_for_authorized_tenant reports tenant_id report_id = reports (tenant_id, report_id)"

section \<open>Admission\<close>

text \<open>The \<^verbatim>\<open>except (json.JSONDecodeError, TypeError)\<close> of the parser; anything else escapes it.\<close>

definition json_error_caught :: "exn \<Rightarrow> bool" where
  "json_error_caught e \<longleftrightarrow> (case e of JSONDecodeError \<Rightarrow> True | TypeError _ \<Rightarrow> True | _ \<Rightarrow> False)"

definition parse_json_object :: "JsonLibrary \<Rightarrow> string \<Rightarrow> ((string \<times> pyval) list option \<times> bool) res" where
  "parse_json_object lib raw =
     (case jl_loads lib raw of
        Inl e \<Rightarrow> if json_error_caught e then Inr (None, False) else Inl e
      | Inr (VDict items) \<Rightarrow> Inr (Some items, True)
      | Inr _ \<Rightarrow> Inr (None, True))"

text \<open>\<^verbatim>\<open>d[key]\<close>; a schema that was passed guarantees the key and its kind.\<close>

definition dict_get :: "(string \<times> pyval) list \<Rightarrow> string \<Rightarrow> pyval res" where
  "dict_get items key = (case map_of items key of None \<Rightarrow> Inl (KeyError key) | Some v \<Rightarrow> Inr v)"

definition schema_valid :: "pyval \<Rightarrow> pyval \<Rightarrow> bool res" where
  "schema_valid inst schema = bind_res (validate_schema_subset inst schema ''$'') (\<lambda>errors. Inr (errors = []))"

definition admission_decision :: "AdmissionStatus \<Rightarrow> string option \<Rightarrow> string \<Rightarrow> AdmissionDecision" where
  "admission_decision status tool_call_id reason =
     \<lparr>ad_status = status, ad_tool_call_id = tool_call_id, ad_safe_reason_code = reason, ad_admitted_call = None\<rparr>"

definition idempotency_material :: "ToolDefinition \<Rightarrow> string \<Rightarrow> Report \<Rightarrow> string" where
  "idempotency_material definition' tenant_id report =
     str_join '':'' [tf_name definition', tf_version definition', tenant_id, rp_report_id report, str_int (rp_version report)]"

definition admitted_call ::
    "string \<Rightarrow> string \<Rightarrow> string \<Rightarrow> ToolDefinition \<Rightarrow> AuthContext \<Rightarrow> Report \<Rightarrow> AdmittedToolCall" where
  "admitted_call attempt_id job_id tool_call_id definition' auth report =
     \<lparr>ac_attempt_id = attempt_id, ac_job_id = job_id, ac_tool_call_id = tool_call_id, ac_tool_name = tf_name definition',
      ac_tool_version = tf_version definition', ac_tenant_id = au_tenant_id auth, ac_report_id = rp_report_id report,
      ac_expected_report_version = rp_version report,
      ac_idempotency_key = ''sha256:'' @ sha256_hexdigest (idempotency_material definition' (au_tenant_id auth) report)\<rparr>"

text \<open>
  The fields of a candidate are strings when the envelope schema has passed; a value of another kind can
  only come from a tool whose own schema leaves it open, and is then compared as a Python value.
\<close>

definition authorize_call ::
    "string \<Rightarrow> string \<Rightarrow> string \<Rightarrow> ToolDefinition \<Rightarrow> (string \<times> pyval) list \<Rightarrow> AuthContext \<Rightarrow> ReportStore \<Rightarrow> AdmissionDecision res" where
  "authorize_call attempt_id job_id tool_call_id definition' arguments auth reports =
     bind_res (dict_get arguments ''tenant_id'') (\<lambda>tenant.
       if tenant \<noteq> VStr (au_tenant_id auth) \<or> au_role auth \<noteq> ''publisher''
       then Inr (admission_decision AdmissionStatus.UNAUTHORIZED (Some tool_call_id) ''PUBLISH_NOT_AUTHORIZED'')
       else bind_res (dict_get arguments ''report_id'') (\<lambda>report_id.
         case report_id of
           VList _ \<Rightarrow> Inl (TypeError ''unhashable type'')
         | VDict _ \<Rightarrow> Inl (TypeError ''unhashable type'')
         | _ \<Rightarrow>
             (case (case report_id of VStr r \<Rightarrow> get_for_authorized_tenant reports (au_tenant_id auth) r | _ \<Rightarrow> None) of
                None \<Rightarrow> Inr (admission_decision AdmissionStatus.SEMANTICALLY_INVALID (Some tool_call_id) ''REPORT_NOT_PUBLISHABLE'')
              | Some report \<Rightarrow>
                  if rp_status report \<noteq> ReportStatus.DRAFT
                  then Inr (admission_decision AdmissionStatus.SEMANTICALLY_INVALID (Some tool_call_id) ''REPORT_NOT_PUBLISHABLE'')
                  else Inr ((admission_decision AdmissionStatus.ALLOWED (Some tool_call_id) ''ADMISSION_PASSED'')
                         \<lparr>ad_admitted_call := Some (admitted_call attempt_id job_id tool_call_id definition' auth report)\<rparr>))))"

text \<open>The envelope schema makes the id, name and version strings and the arguments an object.\<close>

definition envelope_of :: "(string \<times> pyval) list \<Rightarrow> (string \<times> string \<times> string \<times> (string \<times> pyval) list) option" where
  "envelope_of candidate =
     (case (map_of candidate ''tool_call_id'', map_of candidate ''tool_name'', map_of candidate ''tool_version'', map_of candidate ''arguments'') of
        (Some (VStr i), Some (VStr n), Some (VStr v), Some (VDict a)) \<Rightarrow> Some (i, n, v, a)
      | _ \<Rightarrow> None)"

definition admit_tool_call ::
    "JsonLibrary \<Rightarrow> string \<Rightarrow> string \<Rightarrow> string \<Rightarrow> ToolRegistry \<Rightarrow> AuthContext \<Rightarrow> ReportStore \<Rightarrow> AdmissionDecision res" where
  "admit_tool_call lib raw_provider_output attempt_id job_id registry auth reports =
     bind_res (parse_json_object lib raw_provider_output) (\<lambda>parsed. case parsed of
        (_, False) \<Rightarrow> Inr (admission_decision AdmissionStatus.PARSE_FAILURE None ''MALFORMED_JSON'')
      | (None, True) \<Rightarrow> Inr (admission_decision AdmissionStatus.SCHEMA_INVALID None ''ENVELOPE_SCHEMA_INVALID'')
      | (Some candidate, True) \<Rightarrow>
          bind_res (schema_valid (VDict candidate) TOOL_CALL_ENVELOPE_SCHEMA) (\<lambda>ok.
            if \<not> ok then Inr (admission_decision AdmissionStatus.SCHEMA_INVALID None ''ENVELOPE_SCHEMA_INVALID'')
            else case envelope_of candidate of
              None \<Rightarrow> Inl (KeyError ''tool_call_id'')
            | Some (tool_call_id, name, version, arguments) \<Rightarrow>
                (case tool_resolve registry name version of
                   (None, resolution) \<Rightarrow> Inr (admission_decision resolution (Some tool_call_id) (AdmissionStatus_value resolution))
                 | (Some definition', _) \<Rightarrow>
                     bind_res (schema_valid (VDict arguments) (tf_arguments_schema definition')) (\<lambda>ok.
                       if \<not> ok
                       then Inr (admission_decision AdmissionStatus.SCHEMA_INVALID (Some tool_call_id) ''ARGUMENT_SCHEMA_INVALID'')
                       else authorize_call attempt_id job_id tool_call_id definition' arguments auth reports))))"

section \<open>Execution\<close>

record ToolExecutor =
  te_operations :: "string \<rightharpoonup> ExecutionResult"
  te_effect_counts :: "(string \<times> string \<times> int) \<rightharpoonup> int"

definition ToolExecutor_init :: ToolExecutor where
  "ToolExecutor_init = \<lparr>te_operations = Map.empty, te_effect_counts = Map.empty\<rparr>"

definition effect_key :: "AdmittedToolCall \<Rightarrow> string \<times> string \<times> int" where
  "effect_key call = (ac_tenant_id call, ac_report_id call, ac_expected_report_version call)"

definition effect_count :: "ToolExecutor \<Rightarrow> AdmittedToolCall \<Rightarrow> int" where
  "effect_count st call = (case te_effect_counts st (effect_key call) of None \<Rightarrow> 0 | Some n \<Rightarrow> n)"

definition operation_id_of :: "AdmittedToolCall \<Rightarrow> string" where
  "operation_id_of call = ''op:'' @ sha256_hexdigest (ac_idempotency_key call)"

text \<open>The registry's lock is held from the check of the lifecycle to the end of the execution.\<close>

definition tool_execute :: "AdmittedToolCall \<Rightarrow> ToolRegistry \<Rightarrow> ToolExecutor \<Rightarrow> ToolExecutor \<times> ExecutionResult" where
  "tool_execute call registry st =
     (if \<not> tool_is_active registry (ac_tool_name call) (ac_tool_version call)
      then (st, \<lparr>ex_status = ExecutionStatus.REJECTED_DISABLED, ex_operation_id = None\<rparr>)
      else case te_operations st (ac_idempotency_key call) of
        Some existing \<Rightarrow> (st, \<lparr>ex_status = ExecutionStatus.DUPLICATE_SUPPRESSED, ex_operation_id = ex_operation_id existing\<rparr>)
      | None \<Rightarrow>
          let result = \<lparr>ex_status = ExecutionStatus.EXECUTED, ex_operation_id = Some (operation_id_of call)\<rparr> in
          (\<lparr>te_operations = (te_operations st)(ac_idempotency_key call \<mapsto> result),
            te_effect_counts = (te_effect_counts st)(effect_key call \<mapsto> effect_count st call + 1)\<rparr>, result))"

section \<open>Outcome and completion\<close>

definition outcome_decision :: "OutcomeStatus \<Rightarrow> string \<Rightarrow> OutcomeDecision" where
  "outcome_decision status reason = \<lparr>od_status = status, od_safe_reason_code = reason\<rparr>"

text \<open>The fields the outcome schema guarantees: operation id, whether published, report id and version.\<close>

definition outcome_of :: "(string \<times> pyval) list \<Rightarrow> (string \<times> bool \<times> string \<times> int) option" where
  "outcome_of candidate =
     (case (map_of candidate ''operation_id'', map_of candidate ''published'', map_of candidate ''report'') of
        (Some (VStr i), Some (VBool b), Some (VDict report)) \<Rightarrow>
          (case (map_of report ''report_id'', map_of report ''version'') of
             (Some (VStr r), Some (VInt v)) \<Rightarrow> Some (i, b, r, v)
           | _ \<Rightarrow> None)
      | _ \<Rightarrow> None)"

definition verify_publish_outcome :: "JsonLibrary \<Rightarrow> string \<Rightarrow> AdmittedToolCall \<Rightarrow> string \<Rightarrow> OutcomeDecision res" where
  "verify_publish_outcome lib raw_tool_outcome call expected_operation_id =
     bind_res (parse_json_object lib raw_tool_outcome) (\<lambda>parsed. case parsed of
        (_, False) \<Rightarrow> Inr (outcome_decision OutcomeStatus.PARSE_FAILURE ''MALFORMED_OUTCOME_JSON'')
      | (None, True) \<Rightarrow> Inr (outcome_decision OutcomeStatus.SCHEMA_INVALID ''OUTCOME_SCHEMA_INVALID'')
      | (Some candidate, True) \<Rightarrow>
          bind_res (schema_valid (VDict candidate) PUBLISH_REPORT_V1_OUTCOME_SCHEMA) (\<lambda>ok.
            if \<not> ok then Inr (outcome_decision OutcomeStatus.SCHEMA_INVALID ''OUTCOME_SCHEMA_INVALID'')
            else case outcome_of candidate of
              None \<Rightarrow> Inl (KeyError ''report'')
            | Some (operation_id, published, report_id, version) \<Rightarrow>
                if \<not> published \<or> map_of candidate ''error'' \<noteq> None
                then Inr (outcome_decision OutcomeStatus.SEMANTICALLY_INVALID ''OUTCOME_SEMANTICALLY_INVALID'')
                else if operation_id \<noteq> expected_operation_id \<or> report_id \<noteq> ac_report_id call \<or> version \<noteq> ac_expected_report_version call
                then Inr (outcome_decision OutcomeStatus.IDENTITY_MISMATCH ''OUTCOME_IDENTITY_MISMATCH'')
                else Inr (outcome_decision OutcomeStatus.VERIFIED ''OUTCOME_VERIFIED'')))"

type_synonym CallJobStore = "string \<rightharpoonup> JobRecord"

definition CallJobStore_init :: "JobRecord list \<Rightarrow> CallJobStore" where
  "CallJobStore_init jobs = fold (\<lambda>j m. m(jb_job_id j \<mapsto> j)) jobs Map.empty"

definition job_matches :: "JobRecord \<Rightarrow> AdmittedToolCall \<Rightarrow> bool" where
  "job_matches job call \<longleftrightarrow> jb_current_attempt_id job = ac_attempt_id call \<and> jb_current_tool_call_id job = ac_tool_call_id call"

definition job_terminal :: "JobRecord \<Rightarrow> bool" where
  "job_terminal job \<longleftrightarrow> jb_status job \<in> {JobStatus.SUCCEEDED, JobStatus.CANCELLED}"

definition mark_timeout_unknown :: "AdmittedToolCall \<Rightarrow> CallJobStore \<Rightarrow> (CallJobStore \<times> CompletionDecision) res" where
  "mark_timeout_unknown call jobs =
     (case jobs (ac_job_id call) of
        None \<Rightarrow> Inl (KeyError (ac_job_id call))
      | Some job \<Rightarrow>
          if \<not> job_matches job call then Inr (jobs, \<lparr>cd_status = CompletionStatus.NOOP_STALE, cd_job_status = jb_status job\<rparr>)
          else if job_terminal job then Inr (jobs, \<lparr>cd_status = CompletionStatus.NOOP_TERMINAL, cd_job_status = jb_status job\<rparr>)
          else Inr (jobs(jb_job_id job \<mapsto> job\<lparr>jb_status := JobStatus.PENDING_RECONCILIATION\<rparr>),
                 \<lparr>cd_status = CompletionStatus.PENDING_RECONCILIATION, cd_job_status = JobStatus.PENDING_RECONCILIATION\<rparr>))"

definition guarded_complete ::
    "AdmittedToolCall \<Rightarrow> OutcomeDecision \<Rightarrow> string \<Rightarrow> CallJobStore \<Rightarrow> (CallJobStore \<times> CompletionDecision) res" where
  "guarded_complete call outcome operation_id jobs =
     (case jobs (ac_job_id call) of
        None \<Rightarrow> Inl (KeyError (ac_job_id call))
      | Some job \<Rightarrow>
          if \<not> job_matches job call then Inr (jobs, \<lparr>cd_status = CompletionStatus.NOOP_STALE, cd_job_status = jb_status job\<rparr>)
          else if job_terminal job then Inr (jobs, \<lparr>cd_status = CompletionStatus.NOOP_TERMINAL, cd_job_status = jb_status job\<rparr>)
          else if od_status outcome \<noteq> OutcomeStatus.VERIFIED
          then Inr (jobs, \<lparr>cd_status = CompletionStatus.REJECTED_UNVERIFIED, cd_job_status = jb_status job\<rparr>)
          else Inr (jobs(jb_job_id job \<mapsto> job\<lparr>jb_status := JobStatus.SUCCEEDED, jb_verified_operation_id := Some operation_id\<rparr>),
                 \<lparr>cd_status = CompletionStatus.COMMITTED, cd_job_status = JobStatus.SUCCEEDED\<rparr>))"

section \<open>Defaults\<close>

definition default_tool :: ToolDefinition where
  "default_tool = \<lparr>tf_name = ''publish_report'', tf_version = ''v1'', tf_arguments_schema = PUBLISH_REPORT_V1_ARGUMENTS_SCHEMA\<rparr>"

definition default_registry :: "ToolRegistry res" where
  "default_registry = ToolRegistry_init [default_tool]"

definition default_report_store :: ReportStore where
  "default_report_store = ReportStore_init
     [\<lparr>rp_tenant_id = ''tenant-a'', rp_report_id = ''report-7'', rp_status = ReportStatus.DRAFT, rp_version = 7\<rparr>,
      \<lparr>rp_tenant_id = ''tenant-a'', rp_report_id = ''report-published'', rp_status = ReportStatus.PUBLISHED, rp_version = 3\<rparr>,
      \<lparr>rp_tenant_id = ''tenant-b'', rp_report_id = ''report-8'', rp_status = ReportStatus.DRAFT, rp_version = 2\<rparr>]"

section \<open>What a schema means\<close>

text \<open>
  The reference semantics of the subset: a predicate on values, without paths, messages or failures, and
  the schemas whose keywords have values of the right kind.
\<close>

definition bound_ok :: "(string \<times> pyval) list \<Rightarrow> string \<Rightarrow> (pyfloat \<Rightarrow> bool) \<Rightarrow> bool" where
  "bound_ok sc keyword violates \<longleftrightarrow> (\<forall>v b. map_of sc keyword = Some v \<longrightarrow> num_value v = Some b \<longrightarrow> \<not> violates b)"

definition scalar_ok :: "pyval \<Rightarrow> (string \<times> pyval) list \<Rightarrow> bool" where
  "scalar_ok inst sc \<longleftrightarrow>
     (\<forall>vs. map_of sc ''enum'' = Some (VList vs) \<longrightarrow> (\<exists>v\<in>set vs. py_eq inst v)) \<and>
     (\<forall>s. inst = VStr s \<longrightarrow> bound_ok sc ''minLength'' (\<lambda>b. f_lt (Finite (of_nat (length (utf8_decode s)))) b) \<and>
        bound_ok sc ''maxLength'' (\<lambda>b. f_lt b (Finite (of_nat (length (utf8_decode s)))))) \<and>
     (is_json_type inst (VStr ''number'') \<longrightarrow> bound_ok sc ''minimum'' (\<lambda>b. f_lt (the (num_value inst)) b) \<and>
        bound_ok sc ''maximum'' (\<lambda>b. f_lt b (the (num_value inst))))"

definition props_of :: "(string \<times> pyval) list \<Rightarrow> (string \<times> pyval) list" where
  "props_of sc = (case map_of sc ''properties'' of Some (VDict ps) \<Rightarrow> ps | _ \<Rightarrow> [])"

definition object_ok :: "(string \<times> pyval) list \<Rightarrow> (string \<times> pyval) list \<Rightarrow> bool" where
  "object_ok items sc \<longleftrightarrow>
     (\<forall>names n. map_of sc ''required'' = Some (VList names) \<longrightarrow> VStr n \<in> set names \<longrightarrow> map_of items n \<noteq> None) \<and>
     (map_of sc ''additionalProperties'' = Some (VBool False) \<longrightarrow> (\<forall>n. map_of items n \<noteq> None \<longrightarrow> map_of (props_of sc) n \<noteq> None))"

fun conforms :: "pyval \<Rightarrow> pyval \<Rightarrow> bool" where
  "conforms inst schema =
     (case schema of
        VDict sc \<Rightarrow>
          \<not> type_mismatch inst sc \<and> scalar_ok inst sc \<and>
          (case inst of
             VDict items \<Rightarrow> object_ok items sc \<and>
               list_all (\<lambda>(n, v). case map_of (props_of sc) n of None \<Rightarrow> True | Some c \<Rightarrow> c = VNone \<or> conforms v c) items
           | VList vs \<Rightarrow> (case map_of sc ''items'' of None \<Rightarrow> True | Some c \<Rightarrow> list_all (\<lambda>v. conforms v c) vs)
           | _ \<Rightarrow> True)
      | _ \<Rightarrow> False)"

declare conforms.simps [simp del]

fun wf_schema :: "pyval \<Rightarrow> bool" where
  "wf_schema (VDict sc) \<longleftrightarrow> distinct (map fst sc) \<and> set (map fst sc) \<subseteq> set supported_keywords \<and>
     list_all (\<lambda>(k, v).
       if k = ''enum'' then (case v of VList _ \<Rightarrow> True | _ \<Rightarrow> False)
       else if k \<in> {''minimum'', ''maximum'', ''minLength'', ''maxLength''} then num_value v \<noteq> None
       else if k = ''required'' then (case v of VList ns \<Rightarrow> list_all (\<lambda>n. case n of VStr _ \<Rightarrow> True | _ \<Rightarrow> False) ns | _ \<Rightarrow> False)
       else if k = ''properties'' then
         (case v of VDict ps \<Rightarrow> distinct (map fst ps) \<and> list_all (\<lambda>(n, c). c = VNone \<or> wf_schema c) ps | _ \<Rightarrow> False)
       else if k = ''items'' then wf_schema v
       else True) sc"
| "wf_schema _ \<longleftrightarrow> False"

declare wf_schema.simps [simp del]

end
