(* ===== verification/Prompt_Contracts.thy ===== *)
theory Prompt_Contracts
  imports Tool_Contracts
begin

text \<open>
  \<^verbatim>\<open>src/projects/ai-agent/src/prompt_contracts.py\<close>: published prompt revisions and their lifecycle, the
  validation of variables, the deterministic renderer, the binding of an attempt and the gate before a
  provider call. The free text of \<open>detail\<close> and of exceptions is not modelled.
\<close>

section \<open>Data\<close>

datatype MessageRole = SYSTEM | USER | ASSISTANT

fun MessageRole_value :: "MessageRole \<Rightarrow> string" where
  "MessageRole_value MessageRole.SYSTEM = ''system''"
| "MessageRole_value MessageRole.USER = ''user''"
| "MessageRole_value MessageRole.ASSISTANT = ''assistant''"

datatype PromptStatus = ACTIVE | DISABLED | QUARANTINED | UNKNOWN

datatype VariableType = STR | INT | BOOL | ENUM

text \<open>
  A \<^verbatim>\<open>frozenset\<close> is the list of its elements in iteration order; \<^verbatim>\<open>None\<close> as a default is \<open>VNone\<close>.
\<close>

record VariableSpec =
  vs_name :: string
  vs_type :: VariableType
  vs_required :: bool
  vs_default :: pyval
  vs_allowed :: "string list option"

definition VariableSpec_post_init :: "VariableSpec \<Rightarrow> VariableSpec res" where
  "VariableSpec_post_init v =
     (if vs_required v \<and> vs_default v \<noteq> VNone then Inl (ValueError ''required variable must not carry a default'')
      else if vs_type v = VariableType.ENUM \<and> (case vs_allowed v of None \<Rightarrow> True | Some vs \<Rightarrow> vs = [])
      then Inl (ValueError ''enum variable needs a non-empty allowed set'')
      else Inr v)"

record MessageTemplate =
  mt_role :: MessageRole
  mt_text :: string

record PromptContractRevision =
  pv_prompt_contract_id :: string
  pv_revision :: string
  pv_messages :: "MessageTemplate list"
  pv_variables :: "VariableSpec list"
  pv_compatible_application_contracts :: "string list"
  pv_semantic_guarantees :: "string list"
  pv_renderer_version :: string
  pv_status :: PromptStatus

definition required_variable_names :: "PromptContractRevision \<Rightarrow> string set" where
  "required_variable_names r = set (map vs_name (filter vs_required (pv_variables r)))"

definition optional_variable_names :: "PromptContractRevision \<Rightarrow> string set" where
  "optional_variable_names r = set (map vs_name (filter (\<lambda>v. \<not> vs_required v) (pv_variables r)))"

definition revision_variable :: "PromptContractRevision \<Rightarrow> string \<Rightarrow> VariableSpec option" where
  "revision_variable r name = List.find (\<lambda>v. vs_name v = name) (pv_variables r)"

definition supports_contract :: "PromptContractRevision \<Rightarrow> string \<Rightarrow> bool" where
  "supports_contract r application_contract \<longleftrightarrow> application_contract \<in> set (pv_compatible_application_contracts r)"

definition revision_guarantees :: "PromptContractRevision \<Rightarrow> string \<Rightarrow> bool" where
  "revision_guarantees r token \<longleftrightarrow> token \<in> set (pv_semantic_guarantees r)"

definition revision_disabled :: "PromptContractRevision \<Rightarrow> PromptContractRevision" where
  "revision_disabled r = r\<lparr>pv_status := PromptStatus.DISABLED\<rparr>"

definition revision_quarantined :: "PromptContractRevision \<Rightarrow> PromptContractRevision" where
  "revision_quarantined r = r\<lparr>pv_status := PromptStatus.QUARANTINED\<rparr>"

definition revision_key :: "PromptContractRevision \<Rightarrow> string \<times> string" where
  "revision_key r = (pv_prompt_contract_id r, pv_revision r)"

text \<open>Equality of revisions is Python's: sets without order, defaults by value.\<close>

definition same_spec :: "VariableSpec \<Rightarrow> VariableSpec \<Rightarrow> bool" where
  "same_spec a b \<longleftrightarrow> vs_name a = vs_name b \<and> vs_type a = vs_type b \<and> vs_required a = vs_required b \<and>
     py_eq (vs_default a) (vs_default b) \<and> map_option set (vs_allowed a) = map_option set (vs_allowed b)"

definition same_revision :: "PromptContractRevision \<Rightarrow> PromptContractRevision \<Rightarrow> bool" where
  "same_revision a b \<longleftrightarrow> revision_key a = revision_key b \<and> pv_messages a = pv_messages b \<and>
     list_all2 same_spec (pv_variables a) (pv_variables b) \<and>
     set (pv_compatible_application_contracts a) = set (pv_compatible_application_contracts b) \<and>
     set (pv_semantic_guarantees a) = set (pv_semantic_guarantees b) \<and>
     pv_renderer_version a = pv_renderer_version b \<and> pv_status a = pv_status b"

section \<open>Lifecycle and registry\<close>

type_synonym PromptLifecycle = "(string \<times> string) \<rightharpoonup> PromptStatus"

definition prompt_register :: "PromptContractRevision \<Rightarrow> PromptLifecycle \<Rightarrow> PromptLifecycle" where
  "prompt_register r lc = (case lc (revision_key r) of None \<Rightarrow> lc(revision_key r \<mapsto> pv_status r) | Some _ \<Rightarrow> lc)"

definition prompt_set_status :: "string \<times> string \<Rightarrow> PromptStatus \<Rightarrow> PromptLifecycle \<Rightarrow> PromptLifecycle" where
  "prompt_set_status key status lc = lc(key \<mapsto> status)"

definition prompt_disable :: "string \<times> string \<Rightarrow> PromptLifecycle \<Rightarrow> PromptLifecycle" where
  "prompt_disable key = prompt_set_status key PromptStatus.DISABLED"

definition prompt_quarantine :: "string \<times> string \<Rightarrow> PromptLifecycle \<Rightarrow> PromptLifecycle" where
  "prompt_quarantine key = prompt_set_status key PromptStatus.QUARANTINED"

definition prompt_status :: "PromptLifecycle \<Rightarrow> string \<times> string \<Rightarrow> PromptStatus" where
  "prompt_status lc key = (case lc key of None \<Rightarrow> PromptStatus.UNKNOWN | Some st \<Rightarrow> st)"

definition prompt_is_active :: "PromptLifecycle \<Rightarrow> string \<times> string \<Rightarrow> bool" where
  "prompt_is_active lc key \<longleftrightarrow> prompt_status lc key = PromptStatus.ACTIVE"

record PromptContractRegistry =
  pg_revisions :: "(string \<times> string) \<rightharpoonup> PromptContractRevision"
  pg_default :: "string \<rightharpoonup> string"
  pg_lifecycle :: PromptLifecycle

definition PromptContractRegistry_init :: "PromptLifecycle \<Rightarrow> PromptContractRegistry" where
  "PromptContractRegistry_init lc = \<lparr>pg_revisions = Map.empty, pg_default = Map.empty, pg_lifecycle = lc\<rparr>"

definition publish :: "PromptContractRevision \<Rightarrow> bool \<Rightarrow> PromptContractRegistry \<Rightarrow> PromptContractRegistry res" where
  "publish r make_default reg =
     (if (case pg_revisions reg (revision_key r) of None \<Rightarrow> False | Some existing \<Rightarrow> \<not> same_revision existing r)
      then Inl (PromptBindingError ''published revision is immutable'')
      else Inr (reg\<lparr>pg_revisions := (pg_revisions reg)(revision_key r \<mapsto> r),
                    pg_lifecycle := prompt_register r (pg_lifecycle reg),
                    pg_default := (if make_default \<or> pg_default reg (pv_prompt_contract_id r) = None
                       then (pg_default reg)(pv_prompt_contract_id r \<mapsto> pv_revision r) else pg_default reg)\<rparr>))"

definition set_default_revision :: "string \<Rightarrow> string \<Rightarrow> PromptContractRegistry \<Rightarrow> PromptContractRegistry res" where
  "set_default_revision prompt_contract_id revision reg =
     (if pg_revisions reg (prompt_contract_id, revision) = None then Inl (UnknownPromptError ''cannot default to unpublished revision'')
      else Inr (reg\<lparr>pg_default := (pg_default reg)(prompt_contract_id \<mapsto> revision)\<rparr>))"

definition get_revision :: "PromptContractRegistry \<Rightarrow> string \<times> string \<Rightarrow> PromptContractRevision res" where
  "get_revision reg key =
     (case pg_revisions reg key of None \<Rightarrow> Inl (UnknownPromptError ''unknown prompt revision'') | Some r \<Rightarrow> Inr r)"

definition select_default_for_new_attempt :: "PromptContractRegistry \<Rightarrow> string \<Rightarrow> string \<Rightarrow> PromptContractRevision res" where
  "select_default_for_new_attempt reg prompt_contract_id application_contract =
     (case pg_default reg prompt_contract_id of
        None \<Rightarrow> Inl (UnknownPromptError ''no default revision'')
      | Some revision \<Rightarrow>
          let status = prompt_status (pg_lifecycle reg) (prompt_contract_id, revision) in
          if status = PromptStatus.UNKNOWN then Inl (UnknownPromptError ''default revision is unknown'')
          else if status \<noteq> PromptStatus.ACTIVE then Inl (PromptDisabledError ''default revision is not active'')
          else bind_res (get_revision reg (prompt_contract_id, revision)) (\<lambda>r.
            if \<not> supports_contract r application_contract then Inl (PromptBindingError ''default revision does not support the contract'')
            else Inr r))"

section \<open>Variables\<close>

type_synonym variables = "(string \<times> pyval) list"

fun migrate :: "(string \<times> string) list \<Rightarrow> variables \<Rightarrow> variables \<Rightarrow> variables res" where
  "migrate alias_map [] out = Inr out"
| "migrate alias_map ((key, value) # rest) out =
     (let target = (case map_of alias_map key of None \<Rightarrow> key | Some t \<Rightarrow> t) in
      if (case map_of out target of None \<Rightarrow> False | Some v \<Rightarrow> \<not> py_eq v value)
      then Inl (AliasConflictError ''alias conflict'')
      else migrate alias_map rest (AList.update target value out))"

definition apply_migration :: "variables \<Rightarrow> (string \<times> string) list \<Rightarrow> variables res" where
  "apply_migration raw_variables alias_map = migrate alias_map raw_variables []"

definition check_type :: "VariableSpec \<Rightarrow> pyval \<Rightarrow> bool" where
  "check_type spec value \<longleftrightarrow> (value = VNone \<and> \<not> vs_required spec) \<or>
     (case vs_type spec of
        VariableType.STR \<Rightarrow> (case value of VStr _ \<Rightarrow> True | _ \<Rightarrow> False)
      | VariableType.INT \<Rightarrow> (case value of VInt _ \<Rightarrow> True | _ \<Rightarrow> False)
      | VariableType.BOOL \<Rightarrow> (case value of VBool _ \<Rightarrow> True | _ \<Rightarrow> False)
      | VariableType.ENUM \<Rightarrow> (case value of VStr s \<Rightarrow> (case vs_allowed spec of None \<Rightarrow> False | Some vs \<Rightarrow> s \<in> set vs) | _ \<Rightarrow> False))"

fun fill_variables :: "VariableSpec list \<Rightarrow> variables \<Rightarrow> variables \<Rightarrow> variables res" where
  "fill_variables [] vars resolved = Inr resolved"
| "fill_variables (spec # specs) vars resolved =
     bind_res (case map_of vars (vs_name spec) of
        Some value \<Rightarrow> Inr value
      | None \<Rightarrow> if vs_required spec then Inl (PromptVariableError ''missing required variable'') else Inr (vs_default spec)) (\<lambda>value.
     if \<not> check_type spec value then Inl (PromptVariableError ''wrong type or value'')
     else fill_variables specs vars (AList.update (vs_name spec) value resolved))"

definition validate_and_fill_variables :: "PromptContractRevision \<Rightarrow> variables \<Rightarrow> variables res" where
  "validate_and_fill_variables r vars =
     (if list_ex (\<lambda>(name, _). name \<notin> set (map vs_name (pv_variables r))) vars
      then Inl (PromptVariableError ''unknown variable'')
      else fill_variables (pv_variables r) vars [])"

section \<open>Rendering\<close>

text \<open>
  \<^verbatim>\<open>string.Formatter().vformat\<close> with keyword arguments only: text, doubled braces and replacement fields,
  from left to right. A field that is a plain name is looked up, and \<^verbatim>\<open>__missing__\<close> raises for an absent
  one. From the first other field on (a conversion, a format specification, an attribute, an index, a
  position) the rest of the template is rendered by the parameter \<open>special\<close>.
\<close>

type_synonym format_special = "string \<Rightarrow> (string \<rightharpoonup> string) \<Rightarrow> string res"

definition plain_name :: "string \<Rightarrow> bool" where
  "plain_name name \<longleftrightarrow> list_all (\<lambda>c. byte_of c < 128) name \<and> \<not> list_all (\<lambda>c. 48 \<le> byte_of c \<and> byte_of c \<le> 57) name"

definition field_char :: "char \<Rightarrow> bool" where
  "field_char c \<longleftrightarrow> c \<notin> set ''{}[].:!''"

definition prepend :: "string \<Rightarrow> string res \<Rightarrow> string res" where
  "prepend s m = bind_res m (\<lambda>t. Inr (s @ t))"

lemma dropWhile_shorter: "dropWhile p xs = e # rest \<Longrightarrow> length rest < length xs"
  using length_dropWhile_le [of p xs] by simp

function vformat :: "format_special \<Rightarrow> (string \<rightharpoonup> string) \<Rightarrow> string \<Rightarrow> string res" where
  "vformat special fmt text =
     (case text of
        [] \<Rightarrow> Inr []
      | c # cs \<Rightarrow>
          if c = CHR ''{'' then
            (case cs of
               [] \<Rightarrow> Inl (ValueError ''Single open brace encountered in format string'')
             | d # ds \<Rightarrow>
                 if d = CHR ''{'' then prepend [c] (vformat special fmt ds)
                 else (case dropWhile field_char cs of
                   [] \<Rightarrow> Inl (ValueError ''expected a closing brace before end of string'')
                 | e # rest \<Rightarrow>
                     if e = CHR ''}'' \<and> plain_name (takeWhile field_char cs)
                     then (case fmt (takeWhile field_char cs) of
                       None \<Rightarrow> Inl (PromptVariableError ''template references undeclared variable'')
                     | Some v \<Rightarrow> prepend v (vformat special fmt rest))
                     else special cs fmt))
          else if c = CHR ''}'' then
            (case cs of
               d # ds \<Rightarrow> if d = CHR ''}'' then prepend [c] (vformat special fmt ds)
                 else Inl (ValueError ''Single closing brace encountered in format string'')
             | [] \<Rightarrow> Inl (ValueError ''Single closing brace encountered in format string''))
          else prepend [c] (vformat special fmt cs))"
  by pat_completeness auto

termination
  by (relation "measure (\<lambda>(_, _, text). length text)") (auto dest!: dropWhile_shorter simp del: dropWhile.simps takeWhile.simps)

declare vformat.simps [simp del]

record RenderedMessage =
  rm_role :: MessageRole
  rm_content :: string

text \<open>\<^verbatim>\<open>str(v)\<close> of a value that passed the type check.\<close>

fun py_str :: "pyval \<Rightarrow> string" where
  "py_str VNone = []"
| "py_str (VStr s) = s"
| "py_str (VInt n) = str_int n"
| "py_str (VBool b) = (if b then ''True'' else ''False'')"
| "py_str _ = []"

definition render_messages :: "format_special \<Rightarrow> PromptContractRevision \<Rightarrow> variables \<Rightarrow> RenderedMessage list res" where
  "render_messages special r vars =
     bind_res (validate_and_fill_variables r vars) (\<lambda>resolved.
       let fmt = map_option py_str \<circ> map_of resolved in
       map_res (\<lambda>msg. bind_res (vformat special fmt (mt_text msg)) (\<lambda>content.
         Inr \<lparr>rm_role = mt_role msg, rm_content = content\<rparr>)) (pv_messages r))"

fun json_scalar :: "pyval \<Rightarrow> json" where
  "json_scalar (VStr s) = JStr s"
| "json_scalar (VInt n) = JInt n"
| "json_scalar (VBool b) = JBool b"
| "json_scalar _ = JNull"

definition compute_input_fingerprint :: "PromptContractRevision \<Rightarrow> variables \<Rightarrow> string res" where
  "compute_input_fingerprint r vars =
     bind_res (validate_and_fill_variables r vars) (\<lambda>resolved.
       Inr (''sha256:'' @ sha256_hexdigest (json_dumps (JObj
         [(''pc'', JStr (pv_prompt_contract_id r)), (''rev'', JStr (pv_revision r)),
          (''vars'', JObj (sort_key fst (map (\<lambda>(k, v). (k, json_scalar v)) resolved)))]))))"

definition canonical_messages :: "RenderedMessage list \<Rightarrow> string" where
  "canonical_messages messages =
     json_dumps (JList (map (\<lambda>m. JList [JStr (MessageRole_value (rm_role m)), JStr (rm_content m)]) messages))"

definition compute_rendered_hash :: "RenderedMessage list \<Rightarrow> string" where
  "compute_rendered_hash messages = ''sha256:'' @ sha256_hexdigest (canonical_messages messages)"

section \<open>Binding and gate\<close>

record AttemptPromptBinding =
  ab_attempt_id :: string
  ab_job_id :: string
  ab_prompt_contract_id :: string
  ab_revision :: string
  ab_renderer_version :: string
  ab_parameter_policy_id :: string
  ab_parameter_policy_revision :: string
  ab_application_contract :: string
  ab_input_fingerprint :: string
  ab_rendered_message_hash :: string
  ab_rendered_artifact_ref :: "string option"

definition plan_attempt_binding ::
    "format_special \<Rightarrow> string \<Rightarrow> string \<Rightarrow> PromptContractRevision \<Rightarrow> string \<Rightarrow> string \<Rightarrow> string \<Rightarrow> variables \<Rightarrow> string option \<Rightarrow>
     (AttemptPromptBinding \<times> RenderedMessage list) res" where
  "plan_attempt_binding special attempt_id job_id r parameter_policy_id parameter_policy_revision application_contract vars artifact_ref =
     bind_res (render_messages special r vars) (\<lambda>messages.
     bind_res (compute_input_fingerprint r vars) (\<lambda>fingerprint.
       Inr (\<lparr>ab_attempt_id = attempt_id, ab_job_id = job_id, ab_prompt_contract_id = pv_prompt_contract_id r, ab_revision = pv_revision r,
             ab_renderer_version = pv_renderer_version r, ab_parameter_policy_id = parameter_policy_id,
             ab_parameter_policy_revision = parameter_policy_revision, ab_application_contract = application_contract,
             ab_input_fingerprint = fingerprint, ab_rendered_message_hash = compute_rendered_hash messages,
             ab_rendered_artifact_ref = artifact_ref\<rparr>, messages)))"

datatype AttemptPromptState = PLANNED | DISPATCHED | BLOCKED_PROMPT_DISABLED

record AttemptPromptRecord =
  apr_binding :: AttemptPromptBinding
  apr_state :: AttemptPromptState

type_synonym AttemptPromptStore = "string \<rightharpoonup> AttemptPromptRecord"

definition prompt_plan :: "AttemptPromptBinding \<Rightarrow> AttemptPromptStore \<Rightarrow> AttemptPromptStore res" where
  "prompt_plan binding store =
     (if store (ab_attempt_id binding) \<noteq> None then Inl (PromptStateError ''attempt already planned'')
      else Inr (store(ab_attempt_id binding \<mapsto> \<lparr>apr_binding = binding, apr_state = AttemptPromptState.PLANNED\<rparr>)))"

definition prompt_compare_and_set ::
    "AttemptPromptBinding \<Rightarrow> AttemptPromptState \<Rightarrow> AttemptPromptState \<Rightarrow> AttemptPromptStore \<Rightarrow> AttemptPromptStore \<times> bool" where
  "prompt_compare_and_set binding expected new' store =
     (case store (ab_attempt_id binding) of
        None \<Rightarrow> (store, False)
      | Some rec \<Rightarrow>
          if apr_state rec \<noteq> expected \<or> apr_binding rec \<noteq> binding then (store, False)
          else (store(ab_attempt_id binding \<mapsto> \<lparr>apr_binding = binding, apr_state = new'\<rparr>), True))"

definition validate_attempt_prompt_binding :: "AttemptPromptBinding \<Rightarrow> PromptContractRevision \<Rightarrow> unit res" where
  "validate_attempt_prompt_binding binding r =
     (if revision_key r \<noteq> (ab_prompt_contract_id binding, ab_revision binding) then Inl (PromptBindingError ''resolved revision differs from bound'')
      else if pv_renderer_version r \<noteq> ab_renderer_version binding then Inl (PromptBindingError ''renderer_version mismatch'')
      else Inr ())"

datatype PromptGateOutcome =
  READY | BINDING_MISMATCH | UNKNOWN_PROMPT | BLOCKED_PROMPT_DISABLED | INCOMPATIBLE_CONTRACT | VARIABLE_INVALID
| INPUT_FINGERPRINT_MISMATCH | RENDER_HASH_MISMATCH

record PromptGateResult =
  gr_outcome :: PromptGateOutcome
  gr_provider_calls :: int
  gr_attempt_state :: AttemptPromptState
  gr_rendered_message_hash :: "string option"

definition gate_result :: "PromptGateOutcome \<Rightarrow> AttemptPromptState \<Rightarrow> PromptGateResult" where
  "gate_result outcome st = \<lparr>gr_outcome = outcome, gr_provider_calls = 0, gr_attempt_state = st, gr_rendered_message_hash = None\<rparr>"

text \<open>
  What the gate decides from the record and the registry it read: a final answer without a write, or the
  state to compare-and-set with the answer if that wins.
\<close>

definition gate_ready :: "string \<Rightarrow> PromptGateResult" where
  "gate_ready hash = \<lparr>gr_outcome = PromptGateOutcome.READY, gr_provider_calls = 1, gr_attempt_state = AttemptPromptState.DISPATCHED,
     gr_rendered_message_hash = Some hash\<rparr>"

definition is_variable_error :: "exn \<Rightarrow> bool" where
  "is_variable_error e = (case e of PromptVariableError _ \<Rightarrow> True | _ \<Rightarrow> False)"

definition gate_render ::
    "format_special \<Rightarrow> PromptContractRevision \<Rightarrow> variables \<Rightarrow> AttemptPromptBinding \<Rightarrow> (AttemptPromptState option \<times> PromptGateResult) res" where
  "gate_render special r vars binding =
     (case bind_res (compute_input_fingerprint r vars) (\<lambda>f. bind_res (render_messages special r vars) (\<lambda>ms. Inr (f, ms))) of
        Inl e \<Rightarrow> if is_variable_error e then Inr (None, gate_result PromptGateOutcome.VARIABLE_INVALID AttemptPromptState.PLANNED) else Inl e
      | Inr (fingerprint, messages) \<Rightarrow>
          if fingerprint \<noteq> ab_input_fingerprint binding
          then Inr (None, gate_result PromptGateOutcome.INPUT_FINGERPRINT_MISMATCH AttemptPromptState.PLANNED)
          else if compute_rendered_hash messages \<noteq> ab_rendered_message_hash binding
          then Inr (None, gate_result PromptGateOutcome.RENDER_HASH_MISMATCH AttemptPromptState.PLANNED)
          else Inr (Some AttemptPromptState.DISPATCHED, gate_ready (compute_rendered_hash messages)))"

definition gate_decision ::
    "format_special \<Rightarrow> AttemptPromptBinding \<Rightarrow> variables \<Rightarrow> AttemptPromptStore \<Rightarrow> PromptContractRegistry \<Rightarrow>
     (AttemptPromptState option \<times> PromptGateResult) res" where
  "gate_decision special request vars store reg =
     (case store (ab_attempt_id request) of
        None \<Rightarrow> Inl (PromptStateError ''unknown attempt'')
      | Some rec \<Rightarrow>
          if request \<noteq> apr_binding rec then Inr (None, gate_result PromptGateOutcome.BINDING_MISMATCH (apr_state rec))
          else if apr_state rec \<noteq> AttemptPromptState.PLANNED then Inl (PromptStateError ''only PLANNED may dispatch'')
          else let key = (ab_prompt_contract_id request, ab_revision request) in
          (case get_revision reg key of
             Inl _ \<Rightarrow> Inr (None, gate_result PromptGateOutcome.UNKNOWN_PROMPT (apr_state rec))
           | Inr r \<Rightarrow>
               let status = prompt_status (pg_lifecycle reg) key in
               if status = PromptStatus.UNKNOWN then Inr (None, gate_result PromptGateOutcome.UNKNOWN_PROMPT (apr_state rec))
               else if status \<noteq> PromptStatus.ACTIVE
               then Inr (Some AttemptPromptState.BLOCKED_PROMPT_DISABLED,
                 gate_result PromptGateOutcome.BLOCKED_PROMPT_DISABLED AttemptPromptState.BLOCKED_PROMPT_DISABLED)
               else bind_res (validate_attempt_prompt_binding request r) (\<lambda>_.
                 if \<not> supports_contract r (ab_application_contract request)
                 then Inr (None, gate_result PromptGateOutcome.INCOMPATIBLE_CONTRACT (apr_state rec))
                 else gate_render special r vars request)))"

definition gate_commit ::
    "AttemptPromptBinding \<Rightarrow> AttemptPromptState option \<times> PromptGateResult \<Rightarrow> AttemptPromptStore \<Rightarrow> AttemptPromptStore \<times> PromptGateResult res" where
  "gate_commit request decision store =
     (case decision of
        (None, result) \<Rightarrow> (store, Inr result)
      | (Some new', result) \<Rightarrow>
          (case prompt_compare_and_set request AttemptPromptState.PLANNED new' store of
             (store', True) \<Rightarrow> (store', Inr result)
           | (store', False) \<Rightarrow> (store', Inl (PromptStateError ''could not transition''))))"

text \<open>
  \<open>others\<close> is what other callers did to the store between the gate's reads and its compare-and-set.
\<close>

definition prepare_dispatch ::
    "format_special \<Rightarrow> AttemptPromptBinding \<Rightarrow> variables \<Rightarrow> (AttemptPromptStore \<Rightarrow> AttemptPromptStore) \<Rightarrow> PromptContractRegistry \<Rightarrow>
     AttemptPromptStore \<Rightarrow> AttemptPromptStore \<times> PromptGateResult res" where
  "prepare_dispatch special request vars others reg store =
     (case gate_decision special request vars store reg of
        Inl e \<Rightarrow> (store, Inl e)
      | Inr decision \<Rightarrow> gate_commit request decision (others store))"

section \<open>Compatibility\<close>

datatype incompatibility =
  VariableRemoved string | NewRequiredVariable string | TypeChanged string VariableType VariableType | EnumNarrowed string
| GuaranteeDropped string | ContractRemoved string

definition spec_dict :: "PromptContractRevision \<Rightarrow> (string \<times> VariableSpec) list" where
  "spec_dict r = py_dict (map (\<lambda>v. (vs_name v, v)) (pv_variables r))"

definition spec_changes :: "string \<Rightarrow> VariableSpec \<Rightarrow> VariableSpec \<Rightarrow> incompatibility list" where
  "spec_changes name a b =
     (if vs_type a \<noteq> vs_type b then [TypeChanged name (vs_type a) (vs_type b)] else []) @
     (if vs_type a = VariableType.ENUM \<and> vs_type b = VariableType.ENUM \<and>
         (case (vs_allowed a, vs_allowed b) of (Some xs, Some ys) \<Rightarrow> xs \<noteq> [] \<and> ys \<noteq> [] \<and> \<not> set xs \<subseteq> set ys | _ \<Rightarrow> False)
      then [EnumNarrowed name] else [])"

definition backward_incompatibilities :: "PromptContractRevision \<Rightarrow> PromptContractRevision \<Rightarrow> incompatibility list" where
  "backward_incompatibilities old new' =
     (let olds = spec_dict old; news = spec_dict new' in
      concat (map (\<lambda>(name, _). if map_of news name = None then [VariableRemoved name] else []) olds) @
      concat (map (\<lambda>(name, spec). if map_of olds name = None \<and> vs_required spec \<and> vs_default spec = VNone
        then [NewRequiredVariable name] else []) news) @
      concat (map (\<lambda>(name, spec). case map_of news name of None \<Rightarrow> [] | Some spec' \<Rightarrow> spec_changes name spec spec') olds) @
      map GuaranteeDropped (filter (\<lambda>t. t \<notin> set (pv_semantic_guarantees new')) (pv_semantic_guarantees old)) @
      map ContractRemoved (sort (remdups (filter (\<lambda>c. c \<notin> set (pv_compatible_application_contracts new'))
        (pv_compatible_application_contracts old)))))"

definition is_backward_compatible :: "PromptContractRevision \<Rightarrow> PromptContractRevision \<Rightarrow> bool" where
  "is_backward_compatible old new' \<longleftrightarrow> backward_incompatibilities old new' = []"

section \<open>Late responses\<close>

datatype PromptReconciliation =
  INTERPRET_WITH_BOUND_REVISION | PENDING_RECONCILIATION | REFUSED_TERMINAL | REFUSED_NOT_AWAITING | REFUSED_BINDING_MISMATCH

definition classify_timeout_unknown :: PromptReconciliation where
  "classify_timeout_unknown = PromptReconciliation.PENDING_RECONCILIATION"

definition interpret_late_response ::
    "AttemptPromptBinding \<Rightarrow> AttemptPromptBinding \<Rightarrow> AttemptPromptState \<Rightarrow> bool \<Rightarrow> PromptContractRegistry \<Rightarrow>
     (PromptReconciliation \<times> PromptContractRevision option) res" where
  "interpret_late_response authoritative response_binding attempt_state awaiting_reconciliation reg =
     (if attempt_state = AttemptPromptState.BLOCKED_PROMPT_DISABLED then Inr (PromptReconciliation.REFUSED_TERMINAL, None)
      else if \<not> awaiting_reconciliation then Inr (PromptReconciliation.REFUSED_NOT_AWAITING, None)
      else if response_binding \<noteq> authoritative then Inr (PromptReconciliation.REFUSED_BINDING_MISMATCH, None)
      else bind_res (get_revision reg (ab_prompt_contract_id authoritative, ab_revision authoritative)) (\<lambda>r.
        Inr (PromptReconciliation.INTERPRET_WITH_BOUND_REVISION, Some r)))"

end
