(* ===== verification/Prompt_Safety.thy ===== *)
theory Prompt_Safety
  imports Prompt_Contracts
begin

text \<open>
  What the prompt gate guarantees: a dispatch is made once per attempt and only for the bound text, a planned
  attempt is dispatched whatever the default has become, and compatible revisions accept old inputs.
\<close>

section \<open>The gate under concurrency\<close>

text \<open>
  The store and the registry as the requests of all callers change them. A gate call is two steps: it reads
  and decides, and later compares and sets; \<open>pw_pending\<close> are the calls in between, \<open>pw_ready\<close> the bindings
  whose call was answered \<open>READY\<close>. A request that raises changes nothing.
\<close>

record PromptWorld =
  pw_store :: AttemptPromptStore
  pw_registry :: PromptContractRegistry
  pw_pending :: "(AttemptPromptBinding \<times> AttemptPromptState option \<times> PromptGateResult) list"
  pw_ready :: "AttemptPromptBinding list"

datatype PromptEvent =
  PlanAttempt AttemptPromptBinding
| PublishRevision PromptContractRevision bool
| SetDefault string string
| SetStatus "string \<times> string" PromptStatus
| GateRead AttemptPromptBinding variables
| GateCommit nat

fun prompt_step :: "format_special \<Rightarrow> PromptEvent \<Rightarrow> PromptWorld \<Rightarrow> PromptWorld" where
  "prompt_step special (PlanAttempt b) w =
     (case prompt_plan b (pw_store w) of Inl _ \<Rightarrow> w | Inr store \<Rightarrow> w\<lparr>pw_store := store\<rparr>)"
| "prompt_step special (PublishRevision r d) w =
     (case publish r d (pw_registry w) of Inl _ \<Rightarrow> w | Inr reg \<Rightarrow> w\<lparr>pw_registry := reg\<rparr>)"
| "prompt_step special (SetDefault i r) w =
     (case set_default_revision i r (pw_registry w) of Inl _ \<Rightarrow> w | Inr reg \<Rightarrow> w\<lparr>pw_registry := reg\<rparr>)"
| "prompt_step special (SetStatus key st) w =
     w\<lparr>pw_registry := (pw_registry w)\<lparr>pg_lifecycle := prompt_set_status key st (pg_lifecycle (pw_registry w))\<rparr>\<rparr>"
| "prompt_step special (GateRead b vars) w =
     (case gate_decision special b vars (pw_store w) (pw_registry w) of
        Inl _ \<Rightarrow> w | Inr decision \<Rightarrow> w\<lparr>pw_pending := (b, decision) # pw_pending w\<rparr>)"
| "prompt_step special (GateCommit n) w =
     (if n < length (pw_pending w)
      then case pw_pending w ! n of (b, decision) \<Rightarrow>
        (case gate_commit b decision (pw_store w) of (store, answer) \<Rightarrow>
           w\<lparr>pw_store := store,
             pw_ready := (case answer of Inl _ \<Rightarrow> pw_ready w
               | Inr x \<Rightarrow> if gr_outcome x = PromptGateOutcome.READY then b # pw_ready w else pw_ready w)\<rparr>)
      else w)"

definition prompt_world :: "PromptLifecycle \<Rightarrow> PromptWorld" where
  "prompt_world lc = \<lparr>pw_store = Map.empty, pw_registry = PromptContractRegistry_init lc, pw_pending = [], pw_ready = []\<rparr>"

text \<open>The text a binding was dispatched with is the text of a published revision under the bound id and version.\<close>

definition renders_bound :: "format_special \<Rightarrow> AttemptPromptBinding \<Rightarrow> PromptContractRevision \<Rightarrow> variables \<Rightarrow> bool" where
  "renders_bound special b r vars \<longleftrightarrow>
     revision_key r = (ab_prompt_contract_id b, ab_revision b) \<and> pv_renderer_version r = ab_renderer_version b \<and>
     supports_contract r (ab_application_contract b) \<and> compute_input_fingerprint r vars = Inr (ab_input_fingerprint b) \<and>
     (\<exists>messages. render_messages special r vars = Inr messages \<and> compute_rendered_hash messages = ab_rendered_message_hash b)"

definition justified :: "format_special \<Rightarrow> PromptEvent list \<Rightarrow> AttemptPromptBinding \<Rightarrow> bool" where
  "justified special es b \<longleftrightarrow>
     (\<exists>r vars d. PublishRevision r d \<in> set es \<and> GateRead b vars \<in> set es \<and> renders_bound special b r vars)"

lemma justified_mono: "justified special es b \<Longrightarrow> set es \<subseteq> set es' \<Longrightarrow> justified special es' b"
  unfolding justified_def by blast

text \<open>A decision writes only what the gate's answer says, and \<open>READY\<close> only after every check.\<close>

lemma gate_render_cases:
  assumes "gate_render special r vars b = Inr (new', x)"
  shows "(new' = None \<and> gr_outcome x \<noteq> PromptGateOutcome.READY) \<or>
    (new' = Some AttemptPromptState.DISPATCHED \<and> compute_input_fingerprint r vars = Inr (ab_input_fingerprint b) \<and>
     (\<exists>messages. render_messages special r vars = Inr messages \<and> compute_rendered_hash messages = ab_rendered_message_hash b))"
  using assms by (auto simp: gate_render_def gate_result_def bind_res_def split: sum.splits if_splits)

lemma gate_decision_cases:
  assumes "gate_decision special b vars store reg = Inr (new', x)"
  shows "(new' = None \<and> gr_outcome x \<noteq> PromptGateOutcome.READY) \<or>
    (new' = Some AttemptPromptState.BLOCKED_PROMPT_DISABLED \<and> gr_outcome x \<noteq> PromptGateOutcome.READY) \<or>
    (new' = Some AttemptPromptState.DISPATCHED \<and>
     (\<exists>r. pg_revisions reg (ab_prompt_contract_id b, ab_revision b) = Some r \<and>
        prompt_is_active (pg_lifecycle reg) (ab_prompt_contract_id b, ab_revision b) \<and> renders_bound special b r vars))"
proof (cases "\<exists>r. pg_revisions reg (ab_prompt_contract_id b, ab_revision b) = Some r \<and>
    prompt_status (pg_lifecycle reg) (ab_prompt_contract_id b, ab_revision b) = PromptStatus.ACTIVE \<and>
    validate_attempt_prompt_binding b r = Inr () \<and> supports_contract r (ab_application_contract b) \<and>
    gate_render special r vars b = Inr (new', x)")
  case True
  then obtain r where r: "pg_revisions reg (ab_prompt_contract_id b, ab_revision b) = Some r"
    "prompt_status (pg_lifecycle reg) (ab_prompt_contract_id b, ab_revision b) = PromptStatus.ACTIVE"
    "validate_attempt_prompt_binding b r = Inr ()" "supports_contract r (ab_application_contract b)"
    "gate_render special r vars b = Inr (new', x)" by blast
  then have "revision_key r = (ab_prompt_contract_id b, ab_revision b)" "pv_renderer_version r = ab_renderer_version b"
    by (auto simp: validate_attempt_prompt_binding_def split: if_splits)
  with r gate_render_cases [OF r(5)] show ?thesis by (auto simp: prompt_is_active_def renders_bound_def)
next
  case False
  with assms show ?thesis
    by (auto simp: gate_decision_def get_revision_def gate_result_def Let_def bind_res_def
        split: option.splits if_splits sum.splits)
qed

lemma gate_ready_only:
  "gate_decision special b vars store reg = Inr (new', x) \<Longrightarrow>
     new' = Some AttemptPromptState.DISPATCHED \<Longrightarrow> gr_outcome x = PromptGateOutcome.READY"
  by (auto simp: gate_decision_def gate_render_def gate_ready_def get_revision_def gate_result_def Let_def bind_res_def
      split: option.splits if_splits sum.splits)

definition prompt_inv :: "format_special \<Rightarrow> PromptEvent list \<Rightarrow> PromptWorld \<Rightarrow> bool" where
  "prompt_inv special es w \<longleftrightarrow>
     (\<forall>k r. pg_revisions (pw_registry w) k = Some r \<longrightarrow> (\<exists>d. PublishRevision r d \<in> set es)) \<and>
     (\<forall>b new' x. (b, new', x) \<in> set (pw_pending w) \<longrightarrow>
        (new' = Some AttemptPromptState.DISPATCHED \<longleftrightarrow> gr_outcome x = PromptGateOutcome.READY) \<and>
        (new' = Some AttemptPromptState.DISPATCHED \<longrightarrow> justified special es b)) \<and>
     (\<forall>b\<in>set (pw_ready w). justified special es b \<and>
        pw_store w (ab_attempt_id b) = Some \<lparr>apr_binding = b, apr_state = AttemptPromptState.DISPATCHED\<rparr>) \<and>
     distinct (map ab_attempt_id (pw_ready w))"


lemma commit_cases:
  "gate_commit b (new', x) store = (store', answer) \<Longrightarrow>
     (store' = store \<and> (answer = Inr x \<and> new' = None \<or> is_ok answer = False)) \<or>
     (\<exists>st. new' = Some st \<and> answer = Inr x \<and> store (ab_attempt_id b) = Some \<lparr>apr_binding = b, apr_state = AttemptPromptState.PLANNED\<rparr> \<and>
        store' = store(ab_attempt_id b \<mapsto> \<lparr>apr_binding = b, apr_state = st\<rparr>))"
  by (cases new'; cases "store (ab_attempt_id b)"; cases "the (store (ab_attempt_id b))")
    (auto simp: gate_commit_def prompt_compare_and_set_def split: if_splits)

lemma commit_inv:
  assumes inv: "prompt_inv special es w" and b: "(b, new', x) \<in> set (pw_pending w)" and c: "gate_commit b (new', x) (pw_store w) = (store, answer)"
  shows "prompt_inv special es (w\<lparr>pw_store := store,
     pw_ready := (case answer of Inl _ \<Rightarrow> pw_ready w | Inr y \<Rightarrow> if gr_outcome y = PromptGateOutcome.READY then b # pw_ready w else pw_ready w)\<rparr>)"
proof -
  have p: "new' = Some AttemptPromptState.DISPATCHED \<longleftrightarrow> gr_outcome x = PromptGateOutcome.READY"
    "new' = Some AttemptPromptState.DISPATCHED \<Longrightarrow> justified special es b" using inv b unfolding prompt_inv_def by blast+
  have ready: "justified special es a \<and> pw_store w (ab_attempt_id a) = Some \<lparr>apr_binding = a, apr_state = AttemptPromptState.DISPATCHED\<rparr>"
    if "a \<in> set (pw_ready w)" for a using inv that unfolding prompt_inv_def by blast
  consider (same) "store = pw_store w" "answer = Inr x \<and> new' = None \<or> is_ok answer = False"
    | (set) st where "new' = Some st" "answer = Inr x" "pw_store w (ab_attempt_id b) = Some \<lparr>apr_binding = b, apr_state = AttemptPromptState.PLANNED\<rparr>"
      "store = (pw_store w)(ab_attempt_id b \<mapsto> \<lparr>apr_binding = b, apr_state = st\<rparr>)"
    using commit_cases [OF c] by blast
  then show ?thesis
  proof cases
    case same
    then show ?thesis using inv p(1) by (cases answer) (auto simp: prompt_inv_def)
  next
    case set
    have fresh: "ab_attempt_id a \<noteq> ab_attempt_id b" if "a \<in> set (pw_ready w)" for a using ready [OF that] set(3) by auto
    show ?thesis
    proof (cases "st = AttemptPromptState.DISPATCHED")
      case True
      then show ?thesis using inv p set fresh by (auto simp: prompt_inv_def)
    next
      case False
      then show ?thesis using inv p set fresh by (auto simp: prompt_inv_def)
    qed
  qed
qed

lemma prompt_inv_mono:
  assumes "prompt_inv special es w" and "set es \<subseteq> set es'"
  shows "prompt_inv special es' w"
  using assms justified_mono [of special es _ es'] unfolding prompt_inv_def by blast

lemma publish_cases:
  "publish r d reg = Inr reg' \<Longrightarrow> pg_revisions reg' = (pg_revisions reg)(revision_key r \<mapsto> r)"
  by (auto simp: publish_def split: if_splits)

lemma plan_cases:
  "prompt_plan b store = Inr store' \<Longrightarrow> store (ab_attempt_id b) = None \<and>
     store' = store(ab_attempt_id b \<mapsto> \<lparr>apr_binding = b, apr_state = AttemptPromptState.PLANNED\<rparr>)"
  by (auto simp: prompt_plan_def split: if_splits)

lemma prompt_step_inv:
  assumes "prompt_inv special es w"
  shows "prompt_inv special (es @ [e]) (prompt_step special e w)"
proof -
  have inv: "prompt_inv special (es @ [e]) w" by (rule prompt_inv_mono [OF assms]) auto
  show ?thesis
  proof (cases e)
    case (PlanAttempt b)
    show ?thesis
    proof (cases "prompt_plan b (pw_store w)")
      case (Inr store)
      have "pw_store w (ab_attempt_id a) \<noteq> None" if "a \<in> set (pw_ready w)" for a using inv that unfolding prompt_inv_def by auto
      with plan_cases [OF Inr] have "store (ab_attempt_id a) = pw_store w (ab_attempt_id a)" if "a \<in> set (pw_ready w)" for a
        using that by (metis fun_upd_other)
      with inv Inr show ?thesis by (simp add: PlanAttempt prompt_inv_def)
    qed (use inv in \<open>simp add: PlanAttempt\<close>)
  next
    case (PublishRevision r d)
    show ?thesis
    proof (cases "publish r d (pw_registry w)")
      case (Inr reg)
      have "\<exists>d'. PublishRevision r' d' \<in> set (es @ [e])" if k: "pg_revisions reg k = Some r'" for k r'
      proof (cases "k = revision_key r")
        case True
        then have "r' = r" using k publish_cases [OF Inr] by simp
        then show ?thesis using PublishRevision by auto
      next
        case False
        then have "pg_revisions (pw_registry w) k = Some r'" using k publish_cases [OF Inr] by simp
        then show ?thesis using inv unfolding prompt_inv_def by blast
      qed
      with inv Inr show ?thesis by (simp add: PublishRevision prompt_inv_def)
    qed (use inv in \<open>simp add: PublishRevision\<close>)
  next
    case (SetDefault i r)
    then show ?thesis using inv by (auto simp: prompt_inv_def set_default_revision_def split: sum.splits if_splits)
  next
    case (SetStatus key st)
    then show ?thesis using inv by (simp add: prompt_inv_def)
  next
    case (GateRead b vars)
    show ?thesis
    proof (cases "gate_decision special b vars (pw_store w) (pw_registry w)")
      case (Inr decision)
      obtain new' x where d: "decision = (new', x)" by fastforce
      note d = Inr [unfolded d]
      have ready: "new' = Some AttemptPromptState.DISPATCHED \<longleftrightarrow> gr_outcome x = PromptGateOutcome.READY"
        using gate_decision_cases [OF d] gate_ready_only [OF d] by auto
      have just: "justified special (es @ [e]) b" if new': "new' = Some AttemptPromptState.DISPATCHED"
      proof -
        obtain r where r: "pg_revisions (pw_registry w) (ab_prompt_contract_id b, ab_revision b) = Some r" "renders_bound special b r vars"
          using gate_decision_cases [OF d] new' by auto
        obtain p where "PublishRevision r p \<in> set (es @ [e])" using inv r(1) unfolding prompt_inv_def by blast
        moreover have "GateRead b vars \<in> set (es @ [e])" using GateRead by simp
        ultimately show ?thesis using r(2) unfolding justified_def by blast
      qed
      have step: "prompt_step special e w = w\<lparr>pw_pending := (b, new', x) # pw_pending w\<rparr>" using d by (simp add: GateRead)
      show ?thesis unfolding step using inv ready just by (simp add: prompt_inv_def)
    qed (use inv in \<open>simp add: GateRead\<close>)
  next
    case (GateCommit n)
    show ?thesis
    proof (cases "n < length (pw_pending w)")
      case True
      obtain b new' x where p: "pw_pending w ! n = (b, new', x)" by (cases "pw_pending w ! n") auto
      obtain store answer where c: "gate_commit b (new', x) (pw_store w) = (store, answer)" by fastforce
      have "(b, new', x) \<in> set (pw_pending w)" using True p nth_mem by metis
      from commit_inv [OF inv this c] True p c show ?thesis by (simp add: GateCommit)
    qed (use inv in \<open>simp add: GateCommit\<close>)
  qed
qed

lemma prompt_run_inv: "prompt_inv special es (fold (prompt_step special) es (prompt_world lc))"
proof (induction es rule: rev_induct)
  case Nil
  then show ?case by (simp add: prompt_inv_def prompt_world_def PromptContractRegistry_init_def)
next
  case (snoc e es)
  from prompt_step_inv [OF this, of e] show ?case by simp
qed

section \<open>Compatibility\<close>

lemma fill_ok:
  "(\<exists>out. fill_variables specs vars resolved = Inr out) \<longleftrightarrow>
     list_all (\<lambda>s. case map_of vars (vs_name s) of
       Some v \<Rightarrow> check_type s v
     | None \<Rightarrow> \<not> vs_required s \<and> check_type s (vs_default s)) specs"
  by (induction specs arbitrary: resolved) (auto split: option.splits)

text \<open>Which inputs a revision accepts.\<close>

definition accepts :: "PromptContractRevision \<Rightarrow> variables \<Rightarrow> bool" where
  "accepts r vars \<longleftrightarrow> (\<exists>out. validate_and_fill_variables r vars = Inr out)"

lemma accepts_iff:
  "accepts r vars \<longleftrightarrow> fst ` set vars \<subseteq> vs_name ` set (pv_variables r) \<and>
     (\<forall>s\<in>set (pv_variables r). case map_of vars (vs_name s) of
        Some v \<Rightarrow> check_type s v
      | None \<Rightarrow> \<not> vs_required s \<and> check_type s (vs_default s))"
  using fill_ok [of "pv_variables r" vars "[]"]
  by (auto simp: accepts_def validate_and_fill_variables_def list_ex_iff list_all_iff split_beta image_iff subset_iff)

lemma spec_dict_lookup:
  assumes "distinct (map vs_name (pv_variables r))"
  shows "map_of (spec_dict r) name = Some s \<longleftrightarrow> s \<in> set (pv_variables r) \<and> vs_name s = name"
proof -
  have d: "distinct (map fst (map (\<lambda>v. (vs_name v, v)) (pv_variables r)))" using assms by (simp add: comp_def)
  then show ?thesis by (auto simp: spec_dict_def py_dict_distinct [OF d] map_of_eq_Some_iff)
qed

lemma concat_map_Nil: "concat (map f xs) = [] \<longleftrightarrow> (\<forall>x\<in>set xs. f x = [])"
  by auto

lemma compatible_dest:
  assumes "is_backward_compatible old new'"
  shows "map_of (spec_dict old) name = Some s \<Longrightarrow> \<exists>s'. map_of (spec_dict new') name = Some s' \<and> spec_changes name s s' = []"
    and "map_of (spec_dict new') name = Some s' \<Longrightarrow> map_of (spec_dict old) name = None \<Longrightarrow> vs_required s' \<Longrightarrow> vs_default s' \<noteq> VNone"
    and "set (pv_semantic_guarantees old) \<subseteq> set (pv_semantic_guarantees new')"
    and "set (pv_compatible_application_contracts old) \<subseteq> set (pv_compatible_application_contracts new')"
proof -
  note all = assms [unfolded is_backward_compatible_def backward_incompatibilities_def Let_def append_is_Nil_conv concat_map_Nil]
  show "\<exists>s'. map_of (spec_dict new') name = Some s' \<and> spec_changes name s s' = []" if "map_of (spec_dict old) name = Some s"
  proof -
    have "(name, s) \<in> set (spec_dict old)" using that by (rule map_of_SomeD)
    with all show ?thesis by (fastforce split: option.splits if_splits)
  qed
  show "vs_default s' \<noteq> VNone" if "map_of (spec_dict new') name = Some s'" "map_of (spec_dict old) name = None" "vs_required s'"
  proof -
    have "(name, s') \<in> set (spec_dict new')" using that(1) by (rule map_of_SomeD)
    with all that(2,3) show ?thesis by (fastforce split: if_splits)
  qed
  show "set (pv_semantic_guarantees old) \<subseteq> set (pv_semantic_guarantees new')" using all by (auto simp: filter_empty_conv)
  have "sort (remdups (filter (\<lambda>c. c \<notin> set (pv_compatible_application_contracts new')) (pv_compatible_application_contracts old))) = []"
    using all by auto
  then have "set (filter (\<lambda>c. c \<notin> set (pv_compatible_application_contracts new')) (pv_compatible_application_contracts old)) = {}"
    by (metis set_sort set_remdups empty_set)
  then show "set (pv_compatible_application_contracts old) \<subseteq> set (pv_compatible_application_contracts new')" by auto
qed

text \<open>A value other than \<^verbatim>\<open>None\<close> that the old specification accepts, the new one accepts too.\<close>

lemma check_type_mono:
  assumes "spec_changes name s s' = []" and "check_type s v" and "v \<noteq> VNone"
    and "VariableSpec_post_init s = Inr s" and "VariableSpec_post_init s' = Inr s'"
  shows "check_type s' v"
proof -
  have ty: "vs_type s' = vs_type s" using assms(1) by (simp add: spec_changes_def split: if_splits)
  show ?thesis
  proof (cases "vs_type s = VariableType.ENUM")
    case True
    obtain xs ys where a: "vs_allowed s = Some xs" "vs_allowed s' = Some ys" "xs \<noteq> []" "ys \<noteq> []"
      using assms(4,5) True ty by (auto simp: VariableSpec_post_init_def split: if_splits option.splits)
    then have "set xs \<subseteq> set ys" using assms(1) True ty by (simp add: spec_changes_def split: if_splits)
    with assms(2,3) a True ty show ?thesis by (cases v) (auto simp: check_type_def)
  next
    case False
    with assms(2,3) ty show ?thesis by (cases "vs_type s") (auto simp: check_type_def)
  qed
qed

lemma check_type_None: "check_type s VNone \<longleftrightarrow> \<not> vs_required s"
  by (cases "vs_type s") (auto simp: check_type_def)

text \<open>
  What the constructors and the callers provide: the checks of \<^verbatim>\<open>VariableSpec.__post_init__\<close> hold, and the names
  of the variables are distinct (no constructor checks that). Defaults are not type-checked by any of them.
\<close>

definition constructed_revision :: "PromptContractRevision \<Rightarrow> bool" where
  "constructed_revision r \<longleftrightarrow> distinct (map vs_name (pv_variables r)) \<and>
     (\<forall>s\<in>set (pv_variables r). VariableSpec_post_init s = Inr s)"

text \<open>
  The variables an input leaves to a revision: those it omits must be optional with a default of the declared
  type, those it gives as \<^verbatim>\<open>None\<close> must be optional.
\<close>

definition left_out_ok :: "PromptContractRevision \<Rightarrow> variables \<Rightarrow> bool" where
  "left_out_ok r vars \<longleftrightarrow> (\<forall>s\<in>set (pv_variables r).
     (map_of vars (vs_name s) = None \<longrightarrow> \<not> vs_required s \<and> check_type s (vs_default s)) \<and>
     (map_of vars (vs_name s) = Some VNone \<longrightarrow> \<not> vs_required s))"

lemma compatible_accepts:
  assumes compatible: "is_backward_compatible old new'" and wf: "constructed_revision old" "constructed_revision new'"
    and acc: "accepts old vars"
  shows "accepts new' vars \<longleftrightarrow> left_out_ok new' vars"
proof
  assume "accepts new' vars"
  then show "left_out_ok new' vars" by (auto simp: accepts_iff left_out_ok_def check_type_None split: option.splits)
next
  assume left: "left_out_ok new' vars"
  note d = wf [unfolded constructed_revision_def]
  note look = spec_dict_lookup [OF d(1) [THEN conjunct1]] spec_dict_lookup [OF d(2) [THEN conjunct1]]
  have names: "vs_name ` set (pv_variables old) \<subseteq> vs_name ` set (pv_variables new')"
  proof
    fix n assume "n \<in> vs_name ` set (pv_variables old)"
    then obtain s where "map_of (spec_dict old) n = Some s" using look(1) by (metis imageE)
    from compatible_dest(1) [OF compatible this] obtain s' where "map_of (spec_dict new') n = Some s'" by blast
    then have "s' \<in> set (pv_variables new')" "vs_name s' = n" unfolding look(2) by simp_all
    then show "n \<in> vs_name ` set (pv_variables new')" by blast
  qed
  have sub: "fst ` set vars \<subseteq> vs_name ` set (pv_variables old)" using acc by (simp add: accepts_iff)
  show "accepts new' vars"
    unfolding accepts_iff
  proof (intro conjI ballI)
    show "fst ` set vars \<subseteq> vs_name ` set (pv_variables new')" using names sub by blast
    fix s' assume s': "s' \<in> set (pv_variables new')"
    then have m': "map_of (spec_dict new') (vs_name s') = Some s'" using look(2) by blast
    show "case map_of vars (vs_name s') of Some v \<Rightarrow> check_type s' v | None \<Rightarrow> \<not> vs_required s' \<and> check_type s' (vs_default s')"
    proof (cases "map_of vars (vs_name s')")
      case None
      with left s' show ?thesis by (simp add: left_out_ok_def)
    next
      case (Some v)
      show ?thesis
      proof (cases "v = VNone")
        case True
        with Some left s' show ?thesis by (simp add: left_out_ok_def check_type_None)
      next
        case False
        have "vs_name s' \<in> vs_name ` set (pv_variables old)" using sub map_of_SomeD [OF Some] by force
        then obtain s where s: "s \<in> set (pv_variables old)" "vs_name s = vs_name s'" by (metis imageE)
        then have "map_of (spec_dict old) (vs_name s') = Some s" using look(1) by blast
        with compatible_dest(1) [OF compatible this] m' have same: "spec_changes (vs_name s') s s' = []" by simp
        have "check_type s v" using acc s Some by (fastforce simp: accepts_iff)
        with check_type_mono [OF same this False] d s(1) s' Some show ?thesis by simp
      qed
    qed
  qed
qed

lemma compatible_required:
  assumes compatible: "is_backward_compatible old new'" and wf: "constructed_revision old" "constructed_revision new'"
  shows "required_variable_names new' \<subseteq> vs_name ` set (pv_variables old)"
proof
  fix n assume "n \<in> required_variable_names new'"
  then obtain s' where s': "s' \<in> set (pv_variables new')" "vs_required s'" "vs_name s' = n" by (auto simp: required_variable_names_def)
  note d = wf [unfolded constructed_revision_def]
  have m: "map_of (spec_dict new') n = Some s'" using spec_dict_lookup [OF d(2) [THEN conjunct1]] s' by blast
  have "vs_default s' = VNone" using d(2) s'(1,2) by (auto simp: VariableSpec_post_init_def split: if_splits)
  then obtain s where "map_of (spec_dict old) n = Some s" using compatible_dest(2) [OF compatible m] s'(2) by (metis not_None_eq)
  then have "s \<in> set (pv_variables old)" "vs_name s = n" unfolding spec_dict_lookup [OF d(1) [THEN conjunct1]] by simp_all
  then show "n \<in> vs_name ` set (pv_variables old)" by blast
qed

section \<open>Properties\<close>

text \<open>
  C17. However plans, publications, default and status changes and gate calls of any callers interleave, with other
  requests between the reads and the write of a gate call, at most one call per attempt is answered \<open>READY\<close>, its
  attempt is then dispatched under the same binding and stays so, and the text and inputs dispatched are those bound
  at planning, rendered from a revision published under exactly the bound id and version.
\<close>

theorem prompt_dispatched_once_as_bound:
  "(let w = fold (prompt_step special) es (prompt_world lc) in
     distinct (map ab_attempt_id (pw_ready w)) \<and>
     list_all (\<lambda>b. pw_store w (ab_attempt_id b) = Some \<lparr>apr_binding = b, apr_state = AttemptPromptState.DISPATCHED\<rparr> \<and>
       (\<exists>r vars d. PublishRevision r d \<in> set es \<and> GateRead b vars \<in> set es \<and>
          revision_key r = (ab_prompt_contract_id b, ab_revision b) \<and> supports_contract r (ab_application_contract b) \<and>
          compute_input_fingerprint r vars = Inr (ab_input_fingerprint b) \<and>
          (\<exists>messages. render_messages special r vars = Inr messages \<and>
             compute_rendered_hash messages = ab_rendered_message_hash b))) (pw_ready w))"
proof -
  let ?w = "fold (prompt_step special) es (prompt_world lc)"
  have inv: "prompt_inv special es ?w" by (rule prompt_run_inv)
  have j: "justified special es b" "pw_store ?w (ab_attempt_id b) = Some \<lparr>apr_binding = b, apr_state = AttemptPromptState.DISPATCHED\<rparr>"
    if "b \<in> set (pw_ready ?w)" for b using inv that unfolding prompt_inv_def by blast+
  have "distinct (map ab_attempt_id (pw_ready ?w))" using inv unfolding prompt_inv_def by blast
  moreover have "\<exists>r vars d. PublishRevision r d \<in> set es \<and> GateRead b vars \<in> set es \<and>
          revision_key r = (ab_prompt_contract_id b, ab_revision b) \<and> supports_contract r (ab_application_contract b) \<and>
          compute_input_fingerprint r vars = Inr (ab_input_fingerprint b) \<and>
          (\<exists>messages. render_messages special r vars = Inr messages \<and> compute_rendered_hash messages = ab_rendered_message_hash b)"
    if "b \<in> set (pw_ready ?w)" for b using j(1) [OF that] unfolding justified_def renders_bound_def by blast
  ultimately show ?thesis using j(2) unfolding Let_def list_all_iff by blast
qed

text \<open>
  Whatever the default revision has become since, a planned attempt is dispatched: if its revision is still
  published, active and compatible, the gate with the same inputs is answered \<open>READY\<close> with the planned hash, moves
  the attempt to dispatched and changes nothing else.
\<close>

theorem planned_attempt_dispatches:
  assumes "plan_attempt_binding special attempt_id job_id r policy policy_revision contract vars artifact_ref = Inr (b, messages)"
    and "store attempt_id = Some \<lparr>apr_binding = b, apr_state = AttemptPromptState.PLANNED\<rparr>"
    and "pg_revisions reg (revision_key r) = Some r" and "prompt_is_active (pg_lifecycle reg) (revision_key r)"
    and "supports_contract r contract"
  shows "prepare_dispatch special b vars id reg store =
    (store(attempt_id \<mapsto> \<lparr>apr_binding = b, apr_state = AttemptPromptState.DISPATCHED\<rparr>),
     Inr \<lparr>gr_outcome = PromptGateOutcome.READY, gr_provider_calls = 1, gr_attempt_state = AttemptPromptState.DISPATCHED,
          gr_rendered_message_hash = Some (compute_rendered_hash messages)\<rparr>)"
proof -
  from assms(1) obtain f where f: "render_messages special r vars = Inr messages" "compute_input_fingerprint r vars = Inr f"
    and b: "b = \<lparr>ab_attempt_id = attempt_id, ab_job_id = job_id, ab_prompt_contract_id = pv_prompt_contract_id r, ab_revision = pv_revision r,
             ab_renderer_version = pv_renderer_version r, ab_parameter_policy_id = policy,
             ab_parameter_policy_revision = policy_revision, ab_application_contract = contract,
             ab_input_fingerprint = f, ab_rendered_message_hash = compute_rendered_hash messages,
             ab_rendered_artifact_ref = artifact_ref\<rparr>"
    by (auto simp: plan_attempt_binding_def bind_res_eq_Inr)
  have "gate_render special r vars b = Inr (Some AttemptPromptState.DISPATCHED, gate_ready (compute_rendered_hash messages))"
    using f by (simp add: gate_render_def b)
  moreover have "validate_attempt_prompt_binding b r = Inr ()" by (simp add: validate_attempt_prompt_binding_def b revision_key_def)
  ultimately have "gate_decision special b vars store reg = Inr (Some AttemptPromptState.DISPATCHED, gate_ready (compute_rendered_hash messages))"
    using assms(2-5) by (simp add: gate_decision_def b get_revision_def revision_key_def prompt_is_active_def)
  then show ?thesis using assms(2) by (simp add: prepare_dispatch_def gate_commit_def prompt_compare_and_set_def gate_ready_def) (simp add: b)
qed

text \<open>
  C18. What a revision the check calls backward compatible with another promises, for revisions whose variables
  were constructed and have distinct names (which nothing in the source checks). It accepts an input the old one
  accepts exactly when the variables the input leaves out are optional now with a default of their own type, and
  those given as \<^verbatim>\<open>None\<close> are optional now; it requires no variable the old one does not declare; it keeps the
  semantic guarantees and the application contracts. The two ways to break an old caller that the check does
  not see, a variable that became required and a default of the wrong type, are shown below to occur.
\<close>

theorem backward_compatible_sound:
  assumes "is_backward_compatible old new'" and "constructed_revision old" and "constructed_revision new'"
  shows "(\<forall>vars. accepts old vars \<longrightarrow> (accepts new' vars \<longleftrightarrow> left_out_ok new' vars)) \<and>
    required_variable_names new' \<subseteq> vs_name ` set (pv_variables old) \<and>
    (\<forall>token. revision_guarantees old token \<longrightarrow> revision_guarantees new' token) \<and>
    (\<forall>contract. supports_contract old contract \<longrightarrow> supports_contract new' contract)"
  using compatible_accepts [OF assms] compatible_required [OF assms] compatible_dest(3,4) [OF assms(1)]
  by (auto simp: revision_guarantees_def supports_contract_def)

definition example_revision :: "string \<Rightarrow> bool \<Rightarrow> PromptContractRevision" where
  "example_revision v required = \<lparr>pv_prompt_contract_id = ''p'', pv_revision = v,
     pv_messages = [\<lparr>mt_role = MessageRole.USER, mt_text = ''{{{x}'' @ ''}}''\<rparr>],
     pv_variables = [\<lparr>vs_name = ''x'', vs_type = VariableType.STR, vs_required = required, vs_default = VNone, vs_allowed = None\<rparr>],
     pv_compatible_application_contracts = [''c''], pv_semantic_guarantees = [''citations_required''],
     pv_renderer_version = ''1'', pv_status = PromptStatus.ACTIVE\<rparr>"

lemma example_compatible: "is_backward_compatible (example_revision ''1'' a) (example_revision ''2'' b)"
  by (simp add: is_backward_compatible_def backward_incompatibilities_def spec_dict_def py_dict_def example_revision_def spec_changes_def)

lemma example_constructed: "constructed_revision (example_revision v a)"
  by (simp add: constructed_revision_def example_revision_def VariableSpec_post_init_def)

text \<open>The change the check misses: the same variable, optional before and required now.\<close>

lemma optional_became_required:
  "backward_incompatibilities (example_revision ''1'' False) (example_revision ''2'' True) = [] \<and>
   accepts (example_revision ''1'' False) [] \<and> \<not> accepts (example_revision ''2'' True) []"
  using example_compatible [of False True]
  by (simp add: is_backward_compatible_def accepts_iff) (simp add: example_revision_def check_type_def)

text \<open>
  A published revision is not immutable up to identity: one that differs in a default of equal value replaces it, and
  an attempt bound to the first can then not be rendered.
\<close>

definition defaulted_revision :: "pyval \<Rightarrow> PromptContractRevision" where
  "defaulted_revision d = (example_revision ''1'' False)\<lparr>pv_variables :=
     [\<lparr>vs_name = ''x'', vs_type = VariableType.INT, vs_required = False, vs_default = d, vs_allowed = None\<rparr>]\<rparr>"

lemma republished_revision_differs:
  "\<exists>reg reg'. publish (defaulted_revision (VInt 1)) True (PromptContractRegistry_init Map.empty) = Inr reg \<and>
     publish (defaulted_revision (VBool True)) False reg = Inr reg' \<and>
     pg_revisions reg' (''p'', ''1'') = Some (defaulted_revision (VBool True)) \<and>
     accepts (defaulted_revision (VInt 1)) [] \<and> \<not> accepts (defaulted_revision (VBool True)) []"
  by (simp add: publish_def PromptContractRegistry_init_def accepts_iff)
    (simp add: defaulted_revision_def example_revision_def revision_key_def same_revision_def same_spec_def check_type_def)

text \<open>The other change the check misses: a new optional variable whose default is not of its type.\<close>

lemma ill_typed_default_compatible:
  "let old = (example_revision ''1'' False)\<lparr>pv_variables := []\<rparr> in
   is_backward_compatible old (defaulted_revision (VStr ''x'')) \<and> constructed_revision (defaulted_revision (VStr ''x'')) \<and>
   accepts old [] \<and> \<not> accepts (defaulted_revision (VStr ''x'')) []"
  by (simp add: is_backward_compatible_def backward_incompatibilities_def spec_dict_def py_dict_def Let_def accepts_iff constructed_revision_def)
    (simp add: defaulted_revision_def example_revision_def check_type_def VariableSpec_post_init_def)

theorem backward_compatible_sound_witness:
  "accepts (example_revision ''2'' False) [(''x'', VStr ''v'')] \<and> revision_guarantees (example_revision ''2'' False) ''citations_required''"
proof -
  have "accepts (example_revision ''1'' True) [(''x'', VStr ''v'')]" by (simp add: accepts_iff) (simp add: example_revision_def check_type_def)
  moreover have "revision_guarantees (example_revision ''1'' True) ''citations_required''" by (simp add: revision_guarantees_def example_revision_def)
  moreover have "left_out_ok (example_revision ''2'' False) [(''x'', VStr ''v'')]" by (simp add: left_out_ok_def example_revision_def)
  ultimately show ?thesis
    using backward_compatible_sound [OF example_compatible [of True False] example_constructed example_constructed] by blast
qed

definition no_special :: format_special where
  "no_special text fmt = Inl (ValueError text)"

lemma example_rendered:
  "render_messages no_special (example_revision ''1'' True) [(''x'', VStr ''v'')] = Inr [\<lparr>rm_role = MessageRole.USER, rm_content = ''{v}''\<rparr>]"
  by code_simp

lemma example_fingerprint: "\<exists>f. compute_input_fingerprint (example_revision ''1'' True) [(''x'', VStr ''v'')] = Inr f"
  by (simp add: compute_input_fingerprint_def validate_and_fill_variables_def) (simp add: example_revision_def check_type_def)

theorem planned_attempt_dispatches_witness:
  "\<exists>b store store' result. store ''a'' = Some \<lparr>apr_binding = b, apr_state = AttemptPromptState.PLANNED\<rparr> \<and>
     prepare_dispatch no_special b [(''x'', VStr ''v'')] id
       \<lparr>pg_revisions = [(''p'', ''1'') \<mapsto> example_revision ''1'' True], pg_default = [''p'' \<mapsto> ''2''],
        pg_lifecycle = [(''p'', ''1'') \<mapsto> PromptStatus.ACTIVE]\<rparr> store = (store', Inr result) \<and>
     gr_outcome result = PromptGateOutcome.READY \<and> gr_provider_calls result = 1"
proof -
  let ?r = "example_revision ''1'' True"
  obtain f where "compute_input_fingerprint ?r [(''x'', VStr ''v'')] = Inr f" using example_fingerprint by blast
  then obtain b where b: "plan_attempt_binding no_special ''a'' ''j'' ?r ''pp'' ''1'' ''c'' [(''x'', VStr ''v'')] None =
      Inr (b, [\<lparr>rm_role = MessageRole.USER, rm_content = ''{v}''\<rparr>])"
    by (simp add: plan_attempt_binding_def example_rendered)
  have k: "revision_key ?r = (''p'', ''1'')" "supports_contract ?r ''c''" by (simp_all add: revision_key_def supports_contract_def example_revision_def)
  let ?reg = "\<lparr>pg_revisions = [(''p'', ''1'') \<mapsto> ?r], pg_default = [''p'' \<mapsto> ''2''], pg_lifecycle = [(''p'', ''1'') \<mapsto> PromptStatus.ACTIVE]\<rparr>"
  let ?store = "[''a'' \<mapsto> \<lparr>apr_binding = b, apr_state = AttemptPromptState.PLANNED\<rparr>]"
  have "prepare_dispatch no_special b [(''x'', VStr ''v'')] id ?reg ?store =
    (?store(''a'' \<mapsto> \<lparr>apr_binding = b, apr_state = AttemptPromptState.DISPATCHED\<rparr>),
     Inr \<lparr>gr_outcome = PromptGateOutcome.READY, gr_provider_calls = 1, gr_attempt_state = AttemptPromptState.DISPATCHED,
          gr_rendered_message_hash = Some (compute_rendered_hash [\<lparr>rm_role = MessageRole.USER, rm_content = ''{v}''\<rparr>])\<rparr>)"
    by (rule planned_attempt_dispatches [OF b]) (simp_all add: k prompt_is_active_def prompt_status_def)
  then show ?thesis by (intro exI [of _ b] exI [of _ ?store] exI conjI) (assumption | simp)+
qed

end
