(* ===== verification/Application_Runtime.thy ===== *)
theory Application_Runtime
  imports Agent_Loop Routing_Policy Prompt_Contracts
begin

text \<open>
  \<^verbatim>\<open>src/projects/ai-agent/src/application_runtime.py\<close>: the preparation of an attempt, the store of runtime
  attempts and compensations, the binding of provider payload and candidate, the fenced execution of the
  admitted tool, the verified completion and the settlement of cost. \<open>RuntimeResult\<close> is in \<open>Agent_Loop\<close>.
\<close>

section \<open>Preparation\<close>

record ResolvedExecutionRequirements =
  rx_application_contract :: string
  rx_prompt_contract_id :: string
  rx_output_contract_revision :: string
  rx_tool_contract_revision :: string
  rx_parameter_policy_id :: string
  rx_parameter_policy_revision :: string

record PreparedAttempt =
  pre_requirements :: ResolvedExecutionRequirements
  pre_routing_decision :: RoutingDecision
  pre_provider_binding :: AttemptExecutionContract
  pre_prompt_binding :: AttemptPromptBinding
  pre_rendered_messages :: "RenderedMessage list"

text \<open>The lookup of the prompt, the route, the binding: in this order, each raising before the next.\<close>

definition prepare_runtime_attempt ::
    "format_special \<Rightarrow> string \<Rightarrow> string \<Rightarrow> ResolvedExecutionRequirements \<Rightarrow> variables \<Rightarrow> PromptContractRegistry \<Rightarrow> RoutingPolicy \<Rightarrow>
     Candidate list \<Rightarrow> int \<Rightarrow> PreparedAttempt res" where
  "prepare_runtime_attempt special job_id attempt_id requirements vars prompt_registry routing_policy candidates now_ms =
     bind_res (select_default_for_new_attempt prompt_registry (rx_prompt_contract_id requirements) (rx_application_contract requirements)) (\<lambda>revision.
     bind_res (route job_id attempt_id (rx_application_contract requirements) routing_policy candidates now_ms None) (\<lambda>(decision, provider_binding).
       case provider_binding of
         None \<Rightarrow> Inl NoEligibleRouteError
       | Some provider_binding \<Rightarrow>
           bind_res (plan_attempt_binding special attempt_id job_id revision (rx_parameter_policy_id requirements)
             (rx_parameter_policy_revision requirements) (rx_application_contract requirements) vars None) (\<lambda>(prompt_binding, messages).
           Inr \<lparr>pre_requirements = requirements, pre_routing_decision = decision, pre_provider_binding = provider_binding,
                pre_prompt_binding = prompt_binding, pre_rendered_messages = messages\<rparr>)))"

section \<open>Attempt store\<close>

datatype RuntimeAttemptStatus =
  PREPARED | DISPATCH_CLAIMED | PENDING_RECONCILIATION | TOOL_ADMITTED | TOOL_EXECUTED | TOOL_EXECUTION_BLOCKED | OUTCOME_REJECTED
| CANCELLED | COMPLETED

record RuntimeAttemptRecord =
  rta_prepared :: PreparedAttempt
  rta_status :: RuntimeAttemptStatus
  rta_claimed_by :: "string option"
  rta_fence_token :: "int option"
  rta_reason :: string
  rta_tool_call_id :: "string option"
  rta_tool_idempotency_key :: "string option"
  rta_operation_id :: "string option"

datatype CompensationStatus = PLANNED | DISPATCH_CLAIMED | PENDING_RECONCILIATION

record CompensationRecord =
  cmp_compensation_id :: string
  cmp_source_attempt_id :: string
  cmp_source_tool_call_id :: string
  cmp_source_operation_id :: string
  cmp_idempotency_key :: string
  cmp_status :: CompensationStatus
  cmp_claimed_by :: "string option"

record RuntimeAttemptStore =
  ras_records :: "string \<rightharpoonup> RuntimeAttemptRecord"
  ras_compensations :: "string \<rightharpoonup> CompensationRecord"
  ras_next_fence_token :: int

definition RuntimeAttemptStore_init :: RuntimeAttemptStore where
  "RuntimeAttemptStore_init = \<lparr>ras_records = Map.empty, ras_compensations = Map.empty, ras_next_fence_token = 0\<rparr>"

definition put_record :: "string \<Rightarrow> RuntimeAttemptRecord \<Rightarrow> RuntimeAttemptStore \<Rightarrow> RuntimeAttemptStore" where
  "put_record attempt_id rec st = st\<lparr>ras_records := (ras_records st)(attempt_id \<mapsto> rec)\<rparr>"

definition persist_prepared :: "PreparedAttempt \<Rightarrow> RuntimeAttemptStore \<Rightarrow> RuntimeAttemptStore res" where
  "persist_prepared prepared st =
     (let attempt_id = ec_attempt_id (pre_provider_binding prepared) in
      if ras_records st attempt_id \<noteq> None then Inl (ValueError ''Attempt already exists'')
      else Inr (put_record attempt_id \<lparr>rta_prepared = prepared, rta_status = RuntimeAttemptStatus.PREPARED, rta_claimed_by = None,
          rta_fence_token = None, rta_reason = [], rta_tool_call_id = None, rta_tool_idempotency_key = None, rta_operation_id = None\<rparr> st))"

definition runtime_claim_dispatch :: "string \<Rightarrow> string \<Rightarrow> string \<Rightarrow> RuntimeAttemptStore \<Rightarrow> RuntimeAttemptStore \<times> RuntimeAttemptRecord option" where
  "runtime_claim_dispatch attempt_id expected_prompt_hash worker_id st =
     (case ras_records st attempt_id of
        None \<Rightarrow> (st, None)
      | Some current \<Rightarrow>
          if rta_status current \<noteq> RuntimeAttemptStatus.PREPARED \<or>
             ab_rendered_message_hash (pre_prompt_binding (rta_prepared current)) \<noteq> expected_prompt_hash
          then (st, None)
          else let token = ras_next_fence_token st + 1;
                   claimed = current\<lparr>rta_status := RuntimeAttemptStatus.DISPATCH_CLAIMED, rta_claimed_by := Some worker_id,
                     rta_fence_token := Some token, rta_reason := ''dispatch_claimed''\<rparr>
               in ((put_record attempt_id claimed st)\<lparr>ras_next_fence_token := token\<rparr>, Some claimed))"

definition runtime_owned :: "string \<Rightarrow> string \<Rightarrow> RuntimeAttemptStore \<Rightarrow> RuntimeAttemptRecord res" where
  "runtime_owned attempt_id worker_id st =
     (case ras_records st attempt_id of
        None \<Rightarrow> Inl (ValueError ''worker does not own current Attempt'')
      | Some current \<Rightarrow>
          if rta_claimed_by current \<noteq> Some worker_id then Inl (ValueError ''worker does not own current Attempt'') else Inr current)"

definition mark_provider_execution_unknown :: "string \<Rightarrow> string \<Rightarrow> RuntimeAttemptStore \<Rightarrow> (RuntimeAttemptStore \<times> RuntimeAttemptRecord) res" where
  "mark_provider_execution_unknown attempt_id worker_id st =
     bind_res (runtime_owned attempt_id worker_id st) (\<lambda>current.
       if rta_status current \<noteq> RuntimeAttemptStatus.DISPATCH_CLAIMED then Inl (ValueError ''unknown transition requires dispatch claim'')
       else let updated = current\<lparr>rta_status := RuntimeAttemptStatus.PENDING_RECONCILIATION, rta_reason := ''provider_execution_unknown''\<rparr>
            in Inr (put_record attempt_id updated st, updated))"

definition record_tool_admission :: "string \<Rightarrow> AdmittedToolCall \<Rightarrow> RuntimeAttemptStore \<Rightarrow> (RuntimeAttemptStore \<times> RuntimeAttemptRecord) res" where
  "record_tool_admission worker_id call st =
     bind_res (runtime_owned (ac_attempt_id call) worker_id st) (\<lambda>current.
       if rta_status current \<noteq> RuntimeAttemptStatus.DISPATCH_CLAIMED \<or>
          ac_job_id call \<noteq> ec_job_id (pre_provider_binding (rta_prepared current))
       then Inl (ValueError ''Admission does not match current Attempt'')
       else let updated = current\<lparr>rta_status := RuntimeAttemptStatus.TOOL_ADMITTED, rta_reason := ''tool_admitted'',
                  rta_tool_call_id := Some (ac_tool_call_id call), rta_tool_idempotency_key := Some (ac_idempotency_key call)\<rparr>
            in Inr (put_record (ac_attempt_id call) updated st, updated))"

definition was_executed :: "ExecutionResult \<Rightarrow> bool" where
  "was_executed result \<longleftrightarrow> ex_status result \<in> {ExecutionStatus.EXECUTED, ExecutionStatus.DUPLICATE_SUPPRESSED}"

definition record_tool_execution ::
    "string \<Rightarrow> string \<Rightarrow> ExecutionResult \<Rightarrow> RuntimeAttemptStore \<Rightarrow> (RuntimeAttemptStore \<times> RuntimeAttemptRecord) res" where
  "record_tool_execution attempt_id worker_id result st =
     bind_res (runtime_owned attempt_id worker_id st) (\<lambda>current.
       if rta_status current \<noteq> RuntimeAttemptStatus.TOOL_ADMITTED then Inl (ValueError ''execution requires current Admission'')
       else let updated = current\<lparr>
                  rta_status := (if was_executed result then RuntimeAttemptStatus.TOOL_EXECUTED else RuntimeAttemptStatus.TOOL_EXECUTION_BLOCKED),
                  rta_reason := (if was_executed result then ''tool_executed'' else ''tool_execution_blocked''),
                  rta_operation_id := ex_operation_id result\<rparr>
            in Inr (put_record attempt_id updated st, updated))"

text \<open>The store's lock is held from the check of the fence over the execution to its record.\<close>

definition execute_admitted_with_fence ::
    "AdmittedToolCall \<Rightarrow> string \<Rightarrow> int \<Rightarrow> ToolRegistry \<Rightarrow> ToolExecutor \<Rightarrow> RuntimeAttemptStore \<Rightarrow>
     (ToolExecutor \<times> RuntimeAttemptStore \<times> ExecutionResult) res" where
  "execute_admitted_with_fence call worker_id expected_fence_token registry executor st =
     bind_res (runtime_owned (ac_attempt_id call) worker_id st) (\<lambda>current.
       if rta_status current \<noteq> RuntimeAttemptStatus.TOOL_ADMITTED \<or> rta_fence_token current \<noteq> Some expected_fence_token \<or>
          rta_tool_call_id current \<noteq> Some (ac_tool_call_id call) \<or> rta_tool_idempotency_key current \<noteq> Some (ac_idempotency_key call)
       then Inl (ValueError ''stale Tool execution authority'')
       else case tool_execute call registry executor of (executor', result) \<Rightarrow>
         bind_res (record_tool_execution (ac_attempt_id call) worker_id result st) (\<lambda>(st', _). Inr (executor', st', result)))"

definition outcome_status :: "OutcomeDecision \<Rightarrow> RuntimeAttemptStatus" where
  "outcome_status outcome =
     (if od_status outcome = OutcomeStatus.VERIFIED then RuntimeAttemptStatus.COMPLETED
      else if od_status outcome = OutcomeStatus.IDENTITY_MISMATCH then RuntimeAttemptStatus.PENDING_RECONCILIATION
      else RuntimeAttemptStatus.OUTCOME_REJECTED)"

definition record_outcome ::
    "string \<Rightarrow> AdmittedToolCall \<Rightarrow> string \<Rightarrow> OutcomeDecision \<Rightarrow> RuntimeAttemptStore \<Rightarrow> (RuntimeAttemptStore \<times> RuntimeAttemptRecord) res" where
  "record_outcome worker_id call operation_id outcome st =
     bind_res (runtime_owned (ac_attempt_id call) worker_id st) (\<lambda>current.
       if rta_status current \<noteq> RuntimeAttemptStatus.TOOL_EXECUTED \<or> rta_tool_call_id current \<noteq> Some (ac_tool_call_id call) \<or>
          rta_operation_id current \<noteq> Some operation_id \<or> ac_job_id call \<noteq> ec_job_id (pre_provider_binding (rta_prepared current))
       then Inl (ValueError ''outcome does not match current Runtime identity'')
       else let updated = current\<lparr>rta_status := outcome_status outcome, rta_reason := od_safe_reason_code outcome\<rparr>
            in Inr (put_record (ac_attempt_id call) updated st, updated))"

definition cancel_after_external_effect :: "string \<Rightarrow> RuntimeAttemptStore \<Rightarrow> (RuntimeAttemptStore \<times> RuntimeAttemptRecord) res" where
  "cancel_after_external_effect attempt_id st =
     (case ras_records st attempt_id of
        None \<Rightarrow> Inl (KeyError attempt_id)
      | Some current \<Rightarrow>
          if rta_status current \<noteq> RuntimeAttemptStatus.TOOL_EXECUTED then Inl (ValueError ''cancellation path requires executed effect'')
          else let updated = current\<lparr>rta_status := RuntimeAttemptStatus.CANCELLED\<rparr> in Inr (put_record attempt_id updated st, updated))"

section \<open>Compensation\<close>

definition create_compensation ::
    "string \<Rightarrow> string \<Rightarrow> string \<Rightarrow> RuntimeAttemptStore \<Rightarrow> (RuntimeAttemptStore \<times> CompensationRecord) res" where
  "create_compensation compensation_id source_attempt_id idempotency_key st =
     (case ras_records st source_attempt_id of
        None \<Rightarrow> Inl (KeyError source_attempt_id)
      | Some source \<Rightarrow>
          (case (rta_status source = RuntimeAttemptStatus.CANCELLED, rta_tool_call_id source, rta_operation_id source) of
             (True, Some tool_call_id, Some operation_id) \<Rightarrow>
               if Some idempotency_key = rta_tool_idempotency_key source then Inl (ValueError ''compensation requires a new idempotency key'')
               else if ras_compensations st compensation_id \<noteq> None then Inl (ValueError ''compensation already exists'')
               else let rec = \<lparr>cmp_compensation_id = compensation_id, cmp_source_attempt_id = source_attempt_id,
                      cmp_source_tool_call_id = tool_call_id, cmp_source_operation_id = operation_id, cmp_idempotency_key = idempotency_key,
                      cmp_status = CompensationStatus.PLANNED, cmp_claimed_by = None\<rparr>
                    in Inr (st\<lparr>ras_compensations := (ras_compensations st)(compensation_id \<mapsto> rec)\<rparr>, rec)
           | _ \<Rightarrow> Inl (ValueError ''compensation requires cancelled executed source'')))"

definition claim_compensation :: "string \<Rightarrow> string \<Rightarrow> RuntimeAttemptStore \<Rightarrow> RuntimeAttemptStore \<times> CompensationRecord option" where
  "claim_compensation compensation_id worker_id st =
     (case ras_compensations st compensation_id of
        None \<Rightarrow> (st, None)
      | Some current \<Rightarrow>
          if cmp_status current \<noteq> CompensationStatus.PLANNED then (st, None)
          else let claimed = current\<lparr>cmp_status := CompensationStatus.DISPATCH_CLAIMED, cmp_claimed_by := Some worker_id\<rparr>
               in (st\<lparr>ras_compensations := (ras_compensations st)(compensation_id \<mapsto> claimed)\<rparr>, Some claimed))"

definition mark_compensation_unknown :: "string \<Rightarrow> string \<Rightarrow> RuntimeAttemptStore \<Rightarrow> (RuntimeAttemptStore \<times> CompensationRecord) res" where
  "mark_compensation_unknown compensation_id worker_id st =
     (case ras_compensations st compensation_id of
        None \<Rightarrow> Inl (KeyError compensation_id)
      | Some current \<Rightarrow>
          if cmp_status current \<noteq> CompensationStatus.DISPATCH_CLAIMED \<or> cmp_claimed_by current \<noteq> Some worker_id
          then Inl (ValueError ''only current compensation owner may update'')
          else let pending = current\<lparr>cmp_status := CompensationStatus.PENDING_RECONCILIATION\<rparr>
               in Inr (st\<lparr>ras_compensations := (ras_compensations st)(compensation_id \<mapsto> pending)\<rparr>, pending))"

section \<open>Payload and candidate\<close>

definition candidate_sha256 :: "string \<Rightarrow> string" where
  "candidate_sha256 raw_candidate = ''sha256:'' @ sha256_hexdigest raw_candidate"

definition build_bound_application_request :: "PreparedAttempt \<Rightarrow> string \<Rightarrow> int \<Rightarrow> string \<Rightarrow> ApplicationRequest res" where
  "build_bound_application_request prepared tenant_id max_output_tokens correlation_id =
     (if compute_rendered_hash (pre_rendered_messages prepared) \<noteq> ab_rendered_message_hash (pre_prompt_binding prepared)
      then Inl (ProviderPayloadBindingError ''rendered messages differ from Prompt binding'')
      else Inr \<lparr>ar_job_id = ec_job_id (pre_provider_binding prepared), ar_tenant_id = tenant_id,
                ar_application_contract = rx_application_contract (pre_requirements prepared), ar_task_type = ''research'',
                ar_max_output_tokens = max_output_tokens, ar_correlation_id = correlation_id,
                ar_prompt = canonical_messages (pre_rendered_messages prepared)\<rparr>)"

record ProviderExecutionEnvelope =
  pxe_job_id :: string
  pxe_attempt_id :: string
  pxe_correlation_id :: string
  pxe_outcome :: ProviderOutcome
  pxe_candidate_hash :: "string option"
  pxe_raw_candidate :: "string option"
  pxe_protected_candidate_ref :: "string option"

definition ProviderExecutionEnvelope_post_init :: "ProviderExecutionEnvelope \<Rightarrow> ProviderExecutionEnvelope res" where
  "ProviderExecutionEnvelope_post_init e =
     (let sources = length (filter (\<lambda>s. s \<noteq> None) [pxe_raw_candidate e, pxe_protected_candidate_ref e]) in
      if po_kind (pxe_outcome e) = ProviderOutcomeKind.SUCCESS
      then if sources \<noteq> 1 \<or> pxe_candidate_hash e = None then Inl (ValueError ''SUCCESS requires one candidate source and hash'') else Inr e
      else if sources \<noteq> 0 \<or> pxe_candidate_hash e \<noteq> None then Inl (ValueError ''non-success cannot carry candidate'')
      else Inr e)"

definition admit_provider_candidate ::
    "JsonLibrary \<Rightarrow> ProviderExecutionEnvelope \<Rightarrow> PreparedAttempt \<Rightarrow> string \<Rightarrow> ToolRegistry \<Rightarrow> AuthContext \<Rightarrow> ReportStore \<Rightarrow> AdmissionDecision res" where
  "admit_provider_candidate lib envelope prepared expected_correlation_id registry auth reports =
     (if pxe_job_id envelope \<noteq> ec_job_id (pre_provider_binding prepared) \<or>
         pxe_attempt_id envelope \<noteq> ec_attempt_id (pre_provider_binding prepared) \<or> pxe_correlation_id envelope \<noteq> expected_correlation_id
      then Inl (ProviderCandidateBindingError ''candidate identity mismatch'')
      else if po_kind (pxe_outcome envelope) \<noteq> ProviderOutcomeKind.SUCCESS
      then Inl (ProviderCandidateBindingError ''non-success has no candidate'')
      else case pxe_raw_candidate envelope of
        None \<Rightarrow> Inl (ProtectedCandidateNotLoadedError ''authorized loader not integrated'')
      | Some raw \<Rightarrow>
          if Some (candidate_sha256 raw) \<noteq> pxe_candidate_hash envelope
          then Inl (ProviderCandidateBindingError ''candidate hash mismatch'')
          else admit_tool_call lib raw (pxe_attempt_id envelope) (pxe_job_id envelope) registry auth reports)"

section \<open>Execution and completion\<close>

text \<open>
  \<open>others\<close> is what other callers did to the store between the record of the admission and the execution. The
  result of the call comes with the executor and the store, which keep the admission when the execution raises.
\<close>

definition execute_admitted_tool ::
    "AdmissionDecision \<Rightarrow> string \<Rightarrow> int \<Rightarrow> ToolRegistry \<Rightarrow> (RuntimeAttemptStore \<Rightarrow> RuntimeAttemptStore) \<Rightarrow> ToolExecutor \<Rightarrow>
     RuntimeAttemptStore \<Rightarrow> ToolExecutor \<times> RuntimeAttemptStore \<times> ExecutionResult res" where
  "execute_admitted_tool decision worker_id expected_fence_token registry others executor st =
     (case ad_admitted_call decision of
        None \<Rightarrow> (executor, st, Inl (ValueError ''only allowed Admission may execute''))
      | Some call \<Rightarrow>
          if ad_status decision \<noteq> AdmissionStatus.ALLOWED then (executor, st, Inl (ValueError ''only allowed Admission may execute''))
          else (case record_tool_admission worker_id call st of
            Inl e \<Rightarrow> (executor, st, Inl e)
          | Inr (st', _) \<Rightarrow>
              (case execute_admitted_with_fence call worker_id expected_fence_token registry executor (others st') of
                 Inl e \<Rightarrow> (executor, others st', Inl e)
               | Inr (executor', st'', result) \<Rightarrow> (executor', st'', Inr result))))"

fun OutcomeStatus_value :: "OutcomeStatus \<Rightarrow> string" where
  "OutcomeStatus_value OutcomeStatus.VERIFIED = ''VERIFIED''"
| "OutcomeStatus_value OutcomeStatus.PARSE_FAILURE = ''PARSE_FAILURE''"
| "OutcomeStatus_value OutcomeStatus.SCHEMA_INVALID = ''SCHEMA_INVALID''"
| "OutcomeStatus_value OutcomeStatus.SEMANTICALLY_INVALID = ''SEMANTICALLY_INVALID''"
| "OutcomeStatus_value OutcomeStatus.IDENTITY_MISMATCH = ''IDENTITY_MISMATCH''"

definition completion_result :: "AdmittedToolCall \<Rightarrow> string \<Rightarrow> OutcomeDecision \<Rightarrow> RuntimeResult" where
  "completion_result call operation_id outcome =
     (let mismatch = (od_status outcome = OutcomeStatus.IDENTITY_MISMATCH);
          verified = (od_status outcome = OutcomeStatus.VERIFIED) in
      \<lparr>rr_job_id = ac_job_id call, rr_attempt_id = ac_attempt_id call,
       rr_stage = (if verified then RuntimeStage.COMPLETION else RuntimeStage.OUTCOME_VERIFICATION),
       rr_status = (if verified then RuntimeStatus.COMPLETED else if mismatch then RuntimeStatus.PENDING_RECONCILIATION else RuntimeStatus.REJECTED),
       rr_recovery_action = (if verified then RuntimeRecoveryAction.NONE
         else if mismatch then RuntimeRecoveryAction.RECONCILE_ORIGINAL_IDENTITY else RuntimeRecoveryAction.REJECT),
       rr_evidence_level = EvidenceLevel.EXECUTED_LOCAL_RUNTIME, rr_reason = od_safe_reason_code outcome,
       rr_safe_evidence = [''outcome_status'' \<mapsto> OutcomeStatus_value (od_status outcome)], rr_operation_id = Some operation_id\<rparr>)"

definition verify_outcome_and_complete ::
    "JsonLibrary \<Rightarrow> string \<Rightarrow> AdmittedToolCall \<Rightarrow> ExecutionResult \<Rightarrow> string \<Rightarrow> RuntimeAttemptStore \<Rightarrow>
     RuntimeAttemptStore \<times> (OutcomeDecision \<times> RuntimeResult) res" where
  "verify_outcome_and_complete lib raw_tool_outcome call execution worker_id st =
     (case ex_operation_id execution of
        None \<Rightarrow> (st, Inl (ValueError ''only executed operations produce outcomes''))
      | Some operation_id \<Rightarrow>
          if \<not> was_executed execution then (st, Inl (ValueError ''only executed operations produce outcomes''))
          else (case verify_publish_outcome lib raw_tool_outcome call operation_id of
            Inl e \<Rightarrow> (st, Inl e)
          | Inr outcome \<Rightarrow>
              (case record_outcome worker_id call operation_id outcome st of
                 Inl e \<Rightarrow> (st, Inl e)
               | Inr (st', _) \<Rightarrow>
                   (st', bind_res (RuntimeResult_post_init (completion_result call operation_id outcome)) (\<lambda>r. Inr (outcome, r))))))"

section \<open>Cost settlement\<close>

datatype CostSettlementStatus = REQUESTED | PENDING_RECONCILIATION | SETTLED

record CostSettlementRecord =
  csr_settlement_id :: string
  csr_job_id :: string
  csr_attempt_id :: string
  csr_reservation_id :: string
  csr_reserved_units :: int
  csr_status :: CostSettlementStatus
  csr_actual_usage_units :: "int option"
  csr_released_units :: "int option"

type_synonym CostSettlementStore = "string \<rightharpoonup> CostSettlementRecord"

definition settlement_request ::
    "string \<Rightarrow> string \<Rightarrow> string \<Rightarrow> string \<Rightarrow> int \<Rightarrow> CostSettlementStore \<Rightarrow> (CostSettlementStore \<times> CostSettlementRecord) res" where
  "settlement_request settlement_id job_id attempt_id reservation_id reserved_units st =
     (if reserved_units < 0 then Inl (ValueError ''negative reservation'')
      else case st settlement_id of
        Some existing \<Rightarrow>
          if (csr_job_id existing, csr_attempt_id existing, csr_reservation_id existing, csr_reserved_units existing) \<noteq>
             (job_id, attempt_id, reservation_id, reserved_units)
          then Inl (ValueError ''settlement identity rebound'')
          else Inr (st, existing)
      | None \<Rightarrow>
          let proposed = \<lparr>csr_settlement_id = settlement_id, csr_job_id = job_id, csr_attempt_id = attempt_id,
            csr_reservation_id = reservation_id, csr_reserved_units = reserved_units, csr_status = CostSettlementStatus.REQUESTED,
            csr_actual_usage_units = None, csr_released_units = None\<rparr>
          in Inr (st(settlement_id \<mapsto> proposed), proposed))"

definition settlement_mark_unknown :: "string \<Rightarrow> CostSettlementStore \<Rightarrow> (CostSettlementStore \<times> CostSettlementRecord) res" where
  "settlement_mark_unknown settlement_id st =
     (case st settlement_id of
        None \<Rightarrow> Inl (KeyError settlement_id)
      | Some current \<Rightarrow>
          if csr_status current = CostSettlementStatus.SETTLED then Inr (st, current)
          else let updated = current\<lparr>csr_status := CostSettlementStatus.PENDING_RECONCILIATION\<rparr> in Inr (st(settlement_id \<mapsto> updated), updated))"

definition settlement_settle :: "string \<Rightarrow> int \<Rightarrow> CostSettlementStore \<Rightarrow> (CostSettlementStore \<times> CostSettlementRecord) res" where
  "settlement_settle settlement_id actual_usage_units st =
     (case st settlement_id of
        None \<Rightarrow> Inl (KeyError settlement_id)
      | Some current \<Rightarrow>
          if csr_status current = CostSettlementStatus.SETTLED
          then if csr_actual_usage_units current \<noteq> Some actual_usage_units then Inl (ValueError ''settled usage is immutable'')
               else Inr (st, current)
          else if \<not> (0 \<le> actual_usage_units \<and> actual_usage_units \<le> csr_reserved_units current)
          then Inl (ValueError ''usage outside reservation'')
          else let updated = current\<lparr>csr_status := CostSettlementStatus.SETTLED, csr_actual_usage_units := Some actual_usage_units,
                 csr_released_units := Some (csr_reserved_units current - actual_usage_units)\<rparr>
               in Inr (st(settlement_id \<mapsto> updated), updated))"

end
