(* ===== verification/Tool_Contracts_Safety.thy ===== *)
theory Tool_Contracts_Safety
  imports Tool_Contracts
begin

text \<open>
  The validator against the reference semantics of schemas, what an admitted call is, how often its
  effect happens, and when a job succeeds.
\<close>

section \<open>The validator is exact\<close>

lemma guard_error_Nil [simp]: "guard_error c e = [] \<longleftrightarrow> \<not> c"
  by (simp add: guard_error_def)

lemma wf_schemaD:
  assumes "wf_schema (VDict sc)" and "map_of sc k = Some v"
  shows "k = ''enum'' \<Longrightarrow> \<exists>vs. v = VList vs"
    and "k \<in> {''minimum'', ''maximum'', ''minLength'', ''maxLength''} \<Longrightarrow> \<exists>b. num_value v = Some b"
    and "k = ''required'' \<Longrightarrow> \<exists>ns. v = VList (map VStr ns)"
    and "k = ''properties'' \<Longrightarrow> \<exists>ps. v = VDict ps \<and> distinct (map fst ps) \<and> (\<forall>n c. map_of ps n = Some c \<longrightarrow> c = VNone \<or> wf_schema c)"
    and "k = ''items'' \<Longrightarrow> wf_schema v"
proof -
  have m: "(k, v) \<in> set sc" using map_of_SomeD [OF assms(2)] .
  note h = bspec [OF conjunct2 [OF conjunct2 [OF assms(1) [unfolded wf_schema.simps list_all_iff]]] m, unfolded prod.case]
  show "k = ''enum'' \<Longrightarrow> \<exists>vs. v = VList vs" "k = ''items'' \<Longrightarrow> wf_schema v"
    "k \<in> {''minimum'', ''maximum'', ''minLength'', ''maxLength''} \<Longrightarrow> \<exists>b. num_value v = Some b"
    using h by (auto split: pyval.splits)
  show "\<exists>ns. v = VList (map VStr ns)" if "k = ''required''"
  proof -
    have "\<exists>s. n = VStr s" if "case n of VStr _ \<Rightarrow> True | _ \<Rightarrow> False" for n using that by (cases n) auto
    moreover from h that obtain ns where "v = VList ns" "\<forall>n\<in>set ns. case n of VStr _ \<Rightarrow> True | _ \<Rightarrow> False" by (cases v) auto
    ultimately obtain ns where ns: "v = VList ns" "\<forall>n\<in>set ns. \<exists>s. n = VStr s" by blast
    from ns(2) have "\<exists>ss. ns = map VStr ss" by (simp only: ex_map_conv)
    with ns(1) show ?thesis by blast
  qed
  show "\<exists>ps. v = VDict ps \<and> distinct (map fst ps) \<and> (\<forall>n c. map_of ps n = Some c \<longrightarrow> c = VNone \<or> wf_schema c)" if "k = ''properties''"
    using h that by (auto dest!: map_of_SomeD split: pyval.splits)
qed

lemma wf_unsupported: "wf_schema (VDict sc) \<Longrightarrow> unsupported sc = []"
proof -
  assume "wf_schema (VDict sc)"
  then have "set (unsupported sc) = {}" by (auto simp: wf_schema.simps unsupported_def)
  then show ?thesis by simp
qed

lemma bound_errors_exact:
  assumes "wf_schema (VDict sc)" and "k \<in> {''minimum'', ''maximum'', ''minLength'', ''maxLength''}"
  shows "\<exists>es. bound_errors sc k P e = Inr es \<and> (es = [] \<longleftrightarrow> bound_ok sc k P)"
proof (cases "map_of sc k")
  case (Some v)
  with wf_schemaD(2) [OF assms(1) Some assms(2)] show ?thesis by (auto simp: bound_errors_def bound_ok_def number_of_def)
qed (simp add: bound_errors_def bound_ok_def)

lemma bind_exact:
  assumes "\<exists>es. m = Inr es \<and> (es = [] \<longleftrightarrow> p)" and "\<exists>es. m' = Inr es \<and> (es = [] \<longleftrightarrow> q)"
  shows "\<exists>es. bind_res m (\<lambda>e. bind_res m' (\<lambda>e'. Inr (e @ e'))) = Inr es \<and> (es = [] \<longleftrightarrow> p \<and> q)"
  using assms by auto

lemma scalar_errors_exact:
  assumes "wf_schema (VDict sc)"
  shows "\<exists>es. scalar_errors inst sc path = Inr es \<and> (es = [] \<longleftrightarrow> scalar_ok inst sc)"
proof -
  note b = bound_errors_exact [OF assms]
  have "\<exists>es. enum_errors inst sc path = Inr es \<and> (es = [] \<longleftrightarrow> (\<forall>vs. map_of sc ''enum'' = Some (VList vs) \<longrightarrow> (\<exists>v\<in>set vs. py_eq inst v)))"
    using wf_schemaD(1) [OF assms, of "''enum''"]
    by (cases "map_of sc ''enum''") (auto simp: enum_errors_def list_ex_iff)
  moreover have "\<exists>es. string_errors inst sc path = Inr es \<and> (es = [] \<longleftrightarrow>
      (\<forall>s. inst = VStr s \<longrightarrow> bound_ok sc ''minLength'' (\<lambda>b. f_lt (Finite (of_nat (length (utf8_decode s)))) b) \<and>
        bound_ok sc ''maxLength'' (\<lambda>b. f_lt b (Finite (of_nat (length (utf8_decode s)))))))"
    by (cases inst) (auto simp: string_errors_def Let_def intro!: bind_exact b)
  moreover have "\<exists>es. number_errors inst sc path = Inr es \<and> (es = [] \<longleftrightarrow>
      (is_json_type inst (VStr ''number'') \<longrightarrow> bound_ok sc ''minimum'' (\<lambda>b. f_lt (the (num_value inst)) b) \<and>
        bound_ok sc ''maximum'' (\<lambda>b. f_lt b (the (num_value inst)))))"
    by (auto simp: number_errors_def Let_def intro!: bind_exact b)
  ultimately show ?thesis by (auto simp: scalar_errors_def scalar_ok_def)
qed

lemma object_errors_exact:
  assumes "wf_schema (VDict sc)"
  shows "schema_properties sc = Inr (props_of sc)"
    and "\<exists>es. required_errors items sc path = Inr es \<and>
      (es @ additional_errors items sc (props_of sc) path = [] \<longleftrightarrow> object_ok items sc)"
proof -
  show "schema_properties sc = Inr (props_of sc)"
    using wf_schemaD(4) [OF assms, of "''properties''"]
    by (cases "map_of sc ''properties''") (auto simp: schema_properties_def props_of_def)
  have req: "\<exists>es. required_errors items sc path = Inr es \<and> (es = [] \<longleftrightarrow>
      (\<forall>names n. map_of sc ''required'' = Some (VList names) \<longrightarrow> VStr n \<in> set names \<longrightarrow> map_of items n \<noteq> None))"
  proof (cases "map_of sc ''required''")
    case (Some v)
    then obtain ns where v: "v = VList (map VStr ns)" using wf_schemaD(3) [OF assms Some] by blast
    have "map_res (\<lambda>name. case name of
              VStr n \<Rightarrow> Inr (guard_error (n \<notin> set (map fst items)) (MissingProperty path name))
            | VList _ \<Rightarrow> Inl (TypeError ''unhashable type'')
            | VDict _ \<Rightarrow> Inl (TypeError ''unhashable type'')
            | _ \<Rightarrow> Inr [MissingProperty path name]) (map VStr ns) =
        Inr (map (\<lambda>n. guard_error (n \<notin> set (map fst items)) (MissingProperty path (VStr n))) ns)"
      by (induction ns) simp_all
    then show ?thesis using Some v by (auto simp: required_errors_def map_of_eq_None_iff image_iff)
  qed (simp add: required_errors_def)
  have "additional_errors items sc (props_of sc) path = [] \<longleftrightarrow>
      (map_of sc ''additionalProperties'' = Some (VBool False) \<longrightarrow> (\<forall>n. map_of items n \<noteq> None \<longrightarrow> map_of (props_of sc) n \<noteq> None))"
    by (force simp: additional_errors_def map_of_eq_None_iff)
  with req show "\<exists>es. required_errors items sc path = Inr es \<and>
      (es @ additional_errors items sc (props_of sc) path = [] \<longleftrightarrow> object_ok items sc)"
    by (auto simp: object_ok_def)
qed

lemma map_res_exact:
  assumes "\<And>x. x \<in> set xs \<Longrightarrow> \<exists>es. f x = Inr es \<and> (es = [] \<longleftrightarrow> P x)"
  shows "\<exists>ess. map_res f xs = Inr ess \<and> (concat ess = [] \<longleftrightarrow> list_all P xs)"
  using assms
proof (induction xs)
  case (Cons x xs)
  then obtain es ess where "f x = Inr es" "es = [] \<longleftrightarrow> P x" "map_res f xs = Inr ess" "concat ess = [] \<longleftrightarrow> list_all P xs"
    by (meson list.set_intros)
  then show ?case by simp
qed simp

lemma validate_scalar:
  assumes "wf_schema schema" and "\<forall>xs. inst \<noteq> VList xs" and "\<forall>xs. inst \<noteq> VDict xs"
  shows "\<exists>es. validate_schema_subset inst schema path = Inr es \<and> (es = [] \<longleftrightarrow> conforms inst schema)"
proof -
  obtain sc where sc: "schema = VDict sc" using assms(1) by (cases schema) (auto simp: wf_schema.simps)
  note wf = assms(1) [unfolded sc]
  obtain e where "scalar_errors inst sc path = Inr e" "e = [] \<longleftrightarrow> scalar_ok inst sc" using scalar_errors_exact [OF wf] by blast
  then show ?thesis
    using assms(2,3) unfolding validate_schema_subset.simps [of inst] conforms.simps [of inst] sc
    by (cases inst) (simp_all add: wf_unsupported [OF wf])
qed

lemma validate_exact:
  assumes "wf_schema schema"
  shows "\<exists>es. validate_schema_subset inst schema path = Inr es \<and> (es = [] \<longleftrightarrow> conforms inst schema)"
  using assms
proof (induction inst arbitrary: schema path)
  case (VDict items)
  then obtain sc where sc: "schema = VDict sc" by (cases schema) (auto simp: wf_schema.simps)
  note wf = VDict.prems [unfolded sc]
  obtain e where e: "scalar_errors (VDict items) sc path = Inr e" "e = [] \<longleftrightarrow> scalar_ok (VDict items) sc"
    using scalar_errors_exact [OF wf] by blast
  obtain e' where e': "required_errors items sc path = Inr e'"
    "e' @ additional_errors items sc (props_of sc) path = [] \<longleftrightarrow> object_ok items sc"
    using object_errors_exact(2) [OF wf] by blast
  have child: "c = VNone \<or> wf_schema c" if "map_of (props_of sc) n = Some c" for n c
  proof (cases "map_of sc ''properties''")
    case (Some v)
    then obtain ps where "v = VDict ps" "\<forall>n c. map_of ps n = Some c \<longrightarrow> c = VNone \<or> wf_schema c"
      using wf_schemaD(4) [OF wf Some] by blast
    with that Some show ?thesis by (simp add: props_of_def)
  qed (use that in \<open>simp add: props_of_def\<close>)
  let ?f = "\<lambda>(name, value). case map_of (props_of sc) name of None \<Rightarrow> Inr []
      | Some child \<Rightarrow> if child = VNone then Inr [] else validate_schema_subset value child (member_path path name)"
  let ?P = "\<lambda>(n, v). case map_of (props_of sc) n of None \<Rightarrow> True | Some c \<Rightarrow> c = VNone \<or> conforms v c"
  have step: "\<exists>es. ?f x = Inr es \<and> (es = [] \<longleftrightarrow> ?P x)" if "x \<in> set items" for x
    using VDict.IH [of x "snd x"] that child [of "fst x"] by (cases x) (auto split: option.splits)
  from map_res_exact [of items ?f ?P, OF step] obtain ess where ess: "map_res ?f items = Inr ess" "concat ess = [] \<longleftrightarrow> list_all ?P items"
    by blast
  show ?case
    using e e' ess unfolding validate_schema_subset.simps [of "VDict items"] conforms.simps [of "VDict items"] sc
    by (auto simp: wf_unsupported [OF wf] object_errors_exact(1) [OF wf])
next
  case (VList vs)
  then obtain sc where sc: "schema = VDict sc" by (cases schema) (auto simp: wf_schema.simps)
  note wf = VList.prems [unfolded sc]
  obtain e where e: "scalar_errors (VList vs) sc path = Inr e" "e = [] \<longleftrightarrow> scalar_ok (VList vs) sc"
    using scalar_errors_exact [OF wf] by blast
  show ?case
  proof (cases "map_of sc ''items''")
    case (Some c)
    let ?f = "\<lambda>(i, value). validate_schema_subset value c (index_path path i)"
    let ?P = "\<lambda>x :: nat \<times> pyval. conforms (snd x) c"
    have step: "\<exists>es. ?f x = Inr es \<and> (es = [] \<longleftrightarrow> ?P x)" if "x \<in> set (List.enumerate 0 vs)" for x
      using VList.IH [of "snd x" c] that wf_schemaD(5) [OF wf Some] by (cases x) (auto simp: in_set_enumerate_eq)
    from map_res_exact [of "List.enumerate 0 vs" ?f ?P, OF step] obtain ess where
      "map_res ?f (List.enumerate 0 vs) = Inr ess" "concat ess = [] \<longleftrightarrow> list_all ?P (List.enumerate 0 vs)" by blast
    moreover have "list_all (\<lambda>x. conforms (snd x) c) (List.enumerate 0 vs) \<longleftrightarrow> list_all (\<lambda>v. conforms v c) vs"
      using list.pred_map [of "\<lambda>v. conforms v c" snd "List.enumerate 0 vs"] by (simp add: comp_def)
    ultimately show ?thesis
      using e Some unfolding validate_schema_subset.simps [of "VList vs"] conforms.simps [of "VList vs"] sc
      by (auto simp: wf_unsupported [OF wf])
  next
    case None
    then show ?thesis
      using e unfolding validate_schema_subset.simps [of "VList vs"] conforms.simps [of "VList vs"] sc
      by (auto simp: wf_unsupported [OF wf])
  qed
qed (simp_all add: validate_scalar)

lemma schema_valid_exact: "wf_schema schema \<Longrightarrow> schema_valid inst schema = Inr (conforms inst schema)"
  using validate_exact [of schema inst "''$''"] by (auto simp: schema_valid_def)

lemma own_schemas_wf:
  "wf_schema TOOL_CALL_ENVELOPE_SCHEMA" "wf_schema PUBLISH_REPORT_V1_ARGUMENTS_SCHEMA" "wf_schema PUBLISH_REPORT_V1_OUTCOME_SCHEMA"
  by code_simp+

section \<open>What a conforming object holds\<close>

lemma conforms_member:
  assumes "conforms (VDict items) (VDict sc)" and "map_of items n = Some v" and "map_of (props_of sc) n = Some c" "c \<noteq> VNone"
  shows "conforms v c"
  using assms map_of_SomeD [OF assms(2)] by (auto simp: conforms.simps [of "VDict items"] list_all_iff)

lemma conforms_required:
  assumes "conforms (VDict items) (VDict sc)" and "map_of sc ''required'' = Some (VList names)" and "VStr n \<in> set names"
  shows "\<exists>v. map_of items n = Some v"
  using assms by (auto simp: conforms.simps [of "VDict items"] object_ok_def)

lemma conforms_type: "conforms v (VDict sc) \<Longrightarrow> map_of sc ''type'' = Some t \<Longrightarrow> t \<noteq> VNone \<Longrightarrow> is_json_type v t"
  by (simp add: conforms.simps type_mismatch_def)

lemma conforms_string: "conforms v (string_schema m) \<Longrightarrow> \<exists>s. v = VStr s"
  using conforms_type [of v "(''type'', VStr ''string'') # m" "VStr ''string''"]
  by (cases v) (auto simp: string_schema_def is_json_type_def)

lemmas schema_fields = TOOL_CALL_ENVELOPE_SCHEMA_def PUBLISH_REPORT_V1_ARGUMENTS_SCHEMA_def PUBLISH_REPORT_V1_OUTCOME_SCHEMA_def props_of_def

lemma conforms_nonempty_string:
  assumes "conforms (VDict c) (VDict sc)" and "map_of sc ''required'' = Some (VList names)" and "VStr n \<in> set names"
    and "map_of (props_of sc) n = Some (string_schema m)"
  shows "\<exists>s. map_of c n = Some (VStr s)"
proof -
  obtain v where v: "map_of c n = Some v" using conforms_required [OF assms(1-3)] by blast
  have "conforms v (string_schema m)" by (rule conforms_member [OF assms(1) v assms(4)]) (simp add: string_schema_def)
  with v conforms_string show ?thesis by blast
qed

lemma envelope_holds:
  assumes "conforms (VDict c) TOOL_CALL_ENVELOPE_SCHEMA"
  shows "\<exists>e. envelope_of c = Some e"
proof -
  note top = assms [unfolded TOOL_CALL_ENVELOPE_SCHEMA_def]
  have i: "\<exists>s. map_of c ''tool_call_id'' = Some (VStr s)" by (rule conforms_nonempty_string [OF top], simp, simp, simp add: props_of_def)
  have n: "\<exists>s. map_of c ''tool_name'' = Some (VStr s)" by (rule conforms_nonempty_string [OF top], simp, simp, simp add: props_of_def)
  have ve: "\<exists>s. map_of c ''tool_version'' = Some (VStr s)" by (rule conforms_nonempty_string [OF top], simp, simp, simp add: props_of_def)
  have "\<exists>v. map_of c ''arguments'' = Some v" by (rule conforms_required [OF top], simp, simp)
  then obtain v where v: "map_of c ''arguments'' = Some v" by blast
  have "conforms v (VDict [(''type'', VStr ''object'')])" by (rule conforms_member [OF top v]) (simp_all add: props_of_def)
  then have "is_json_type v (VStr ''object'')" by (rule conforms_type) simp_all
  with v obtain a where "map_of c ''arguments'' = Some (VDict a)" by (cases v) (auto simp: is_json_type_def)
  with i n ve show ?thesis by (auto simp: envelope_of_def)
qed

lemma arguments_hold:
  assumes "conforms (VDict a) PUBLISH_REPORT_V1_ARGUMENTS_SCHEMA"
  shows "\<exists>t r. map_of a ''tenant_id'' = Some (VStr t) \<and> map_of a ''report_id'' = Some (VStr r)"
proof -
  note top = assms [unfolded PUBLISH_REPORT_V1_ARGUMENTS_SCHEMA_def]
  have "\<exists>s. map_of a ''tenant_id'' = Some (VStr s)" by (rule conforms_nonempty_string [OF top], simp, simp, simp add: props_of_def)
  moreover have "\<exists>s. map_of a ''report_id'' = Some (VStr s)" by (rule conforms_nonempty_string [OF top], simp, simp, simp add: props_of_def)
  ultimately show ?thesis by blast
qed

lemma outcome_holds:
  assumes "conforms (VDict c) PUBLISH_REPORT_V1_OUTCOME_SCHEMA"
  shows "\<exists>o'. outcome_of c = Some o'"
proof -
  note top = assms [unfolded PUBLISH_REPORT_V1_OUTCOME_SCHEMA_def]
  have "\<exists>s. map_of c ''operation_id'' = Some (VStr s)" by (rule conforms_nonempty_string [OF top], simp, simp, simp add: props_of_def)
  then obtain i where i: "map_of c ''operation_id'' = Some (VStr i)" by blast
  have rp: "\<exists>v. map_of c ''published'' = Some v" by (rule conforms_required [OF top], simp, simp)
  have rq: "\<exists>v. map_of c ''report'' = Some v" by (rule conforms_required [OF top], simp, simp)
  obtain p where p: "map_of c ''published'' = Some p" using rp by blast
  have "conforms p (VDict [(''type'', VStr ''boolean'')])" by (rule conforms_member [OF top p]) (simp_all add: props_of_def)
  then have "is_json_type p (VStr ''boolean'')" by (rule conforms_type) simp_all
  then obtain b where b: "p = VBool b" by (cases p) (auto simp: is_json_type_def)
  let ?rs = "[(''type'', VStr ''object''),
      (''properties'', VDict [(''report_id'', string_schema [(''minLength'', VInt 1)]),
         (''version'', VDict [(''type'', VStr ''integer''), (''minimum'', VInt 1)])]),
      (''required'', VList [VStr ''report_id'', VStr ''version'']), (''additionalProperties'', VBool False)]"
  obtain q where q: "map_of c ''report'' = Some q" using rq by blast
  have cq: "conforms q (VDict ?rs)" by (rule conforms_member [OF top q]) (simp_all add: props_of_def)
  then have "is_json_type q (VStr ''object'')" by (rule conforms_type) simp_all
  then obtain rep where rep: "q = VDict rep" by (cases q) (auto simp: is_json_type_def)
  note cr = cq [unfolded rep]
  have "\<exists>v. map_of rep ''report_id'' = Some v" by (rule conforms_required [OF cr], simp, simp)
  moreover have "\<exists>v. map_of rep ''version'' = Some v" by (rule conforms_required [OF cr], simp, simp)
  ultimately obtain ri v where v: "map_of rep ''report_id'' = Some ri" "map_of rep ''version'' = Some v" by blast
  have "conforms ri (string_schema [(''minLength'', VInt 1)])"
    by (rule conforms_member [OF cr v(1)]) (simp_all add: props_of_def string_schema_def)
  then obtain rs where "ri = VStr rs" using conforms_string by blast
  moreover have "conforms v (VDict [(''type'', VStr ''integer''), (''minimum'', VInt 1)])"
    by (rule conforms_member [OF cr v(2)]) (simp_all add: props_of_def)
  then have "is_json_type v (VStr ''integer'')" by (rule conforms_type) simp_all
  then obtain n where "v = VInt n" by (cases v) (auto simp: is_json_type_def)
  ultimately show ?thesis using i p b q rep v by (simp add: outcome_of_def)
qed

section \<open>Admission\<close>

text \<open>A registry of tools that publish reports; the default registry, and every registry after disabling tools in it.\<close>

definition publishing :: "ToolRegistry \<Rightarrow> bool" where
  "publishing reg \<longleftrightarrow> (\<forall>k d. tr_definitions reg k = Some d \<longrightarrow> k = (tf_name d, tf_version d) \<and>
     tf_arguments_schema d = PUBLISH_REPORT_V1_ARGUMENTS_SCHEMA)"

lemma default_publishing: "default_registry = Inr reg \<Longrightarrow> publishing reg"
  by (auto simp: default_registry_def ToolRegistry_init_def default_tool_def publishing_def Let_def split: if_splits)

lemma disable_publishing: "publishing reg \<Longrightarrow> tool_disable n v reg = Inr reg' \<Longrightarrow> publishing reg'"
  by (auto simp: tool_disable_def publishing_def split: if_splits)

text \<open>When a call is admitted, and which.\<close>

definition admissible_call ::
    "JsonLibrary \<Rightarrow> string \<Rightarrow> string \<Rightarrow> string \<Rightarrow> ToolRegistry \<Rightarrow> AuthContext \<Rightarrow> ReportStore \<Rightarrow> AdmittedToolCall \<Rightarrow> bool" where
  "admissible_call lib raw attempt_id job_id reg auth reports call \<longleftrightarrow>
     (\<exists>c i n v a d r report. jl_loads lib raw = Inr (VDict c) \<and> conforms (VDict c) TOOL_CALL_ENVELOPE_SCHEMA \<and>
        envelope_of c = Some (i, n, v, a) \<and> tr_definitions reg (n, v) = Some d \<and>
        tr_status reg (n, v) \<noteq> Some ToolLifecycleStatus.DISABLED \<and> conforms (VDict a) (tf_arguments_schema d) \<and>
        map_of a ''tenant_id'' = Some (VStr (au_tenant_id auth)) \<and> au_role auth = ''publisher'' \<and>
        map_of a ''report_id'' = Some (VStr r) \<and> reports (au_tenant_id auth, r) = Some report \<and>
        rp_status report = ReportStatus.DRAFT \<and> call = admitted_call attempt_id job_id i d auth report)"

lemma authorize_call_exact:
  assumes "map_of a ''tenant_id'' = Some (VStr t)" and "map_of a ''report_id'' = Some (VStr r)"
  shows "\<exists>x. authorize_call attempt job i d a auth reports = Inr x \<and>
    (ad_status x = AdmissionStatus.ALLOWED \<longleftrightarrow> ad_admitted_call x \<noteq> None) \<and>
    (\<forall>call. ad_admitted_call x = Some call \<longleftrightarrow> t = au_tenant_id auth \<and> au_role auth = ''publisher'' \<and>
       (\<exists>report. reports (au_tenant_id auth, r) = Some report \<and> rp_status report = ReportStatus.DRAFT \<and>
          call = admitted_call attempt job i d auth report))"
  using assms
  by (cases "reports (au_tenant_id auth, r)")
    (auto simp: authorize_call_def dict_get_def admission_decision_def get_for_authorized_tenant_def)

text \<open>Where \<^verbatim>\<open>json.loads\<close> raises something the parser does not catch, so does the admission.\<close>

definition json_escapes :: "JsonLibrary \<Rightarrow> string \<Rightarrow> exn \<Rightarrow> bool" where
  "json_escapes lib raw e \<longleftrightarrow> jl_loads lib raw = Inl e \<and> \<not> json_error_caught e"

lemma json_escapes_loads [simp]: "jl_loads lib raw = Inr v \<Longrightarrow> \<not> json_escapes lib raw e"
  by (simp add: json_escapes_def)

lemma admit_escapes: "json_escapes lib raw e \<Longrightarrow> admit_tool_call lib raw attempt job reg auth reports = Inl e"
  by (simp add: json_escapes_def admit_tool_call_def parse_json_object_def)

lemma verify_escapes: "json_escapes lib raw e \<Longrightarrow> verify_publish_outcome lib raw call op = Inl e"
  by (simp add: json_escapes_def verify_publish_outcome_def parse_json_object_def)

lemma json_escapes_unique: "json_escapes lib raw e \<Longrightarrow> json_escapes lib raw e' \<longleftrightarrow> e' = e"
  by (auto simp: json_escapes_def)

lemma admit_decides:
  assumes "publishing reg" and "\<And>e. \<not> json_escapes lib raw e"
  shows "\<exists>x. admit_tool_call lib raw attempt job reg auth reports = Inr x \<and>
    (ad_status x = AdmissionStatus.ALLOWED \<longleftrightarrow> ad_admitted_call x \<noteq> None) \<and>
    (\<forall>call. ad_admitted_call x = Some call \<longleftrightarrow> admissible_call lib raw attempt job reg auth reports call)"
proof (cases "jl_loads lib raw")
  case (Inl e)
  with assms(2) [of e] show ?thesis
    by (simp add: admit_tool_call_def parse_json_object_def admission_decision_def admissible_call_def json_escapes_def)
next
  case (Inr val)
  show ?thesis
  proof (cases "\<exists>c. val = VDict c \<and> conforms (VDict c) TOOL_CALL_ENVELOPE_SCHEMA")
    case False
    with Inr show ?thesis
      by (cases val) (auto simp: admit_tool_call_def parse_json_object_def admission_decision_def admissible_call_def
          schema_valid_exact own_schemas_wf)
  next
    case True
    then obtain c where c: "val = VDict c" "conforms (VDict c) TOOL_CALL_ENVELOPE_SCHEMA" by blast
    obtain i n v a where e: "envelope_of c = Some (i, n, v, a)" using envelope_holds [OF c(2)] by (metis prod_cases4)
    have step: "admit_tool_call lib raw attempt job reg auth reports = (case tool_resolve reg n v of
          (None, resolution) \<Rightarrow> Inr (admission_decision resolution (Some i) (AdmissionStatus_value resolution))
        | (Some d, _) \<Rightarrow> bind_res (schema_valid (VDict a) (tf_arguments_schema d)) (\<lambda>ok.
            if \<not> ok then Inr (admission_decision AdmissionStatus.SCHEMA_INVALID (Some i) ''ARGUMENT_SCHEMA_INVALID'')
            else authorize_call attempt job i d a auth reports))"
      using Inr c e by (simp add: admit_tool_call_def parse_json_object_def schema_valid_exact own_schemas_wf)
    have adm: "admissible_call lib raw attempt job reg auth reports call \<longleftrightarrow>
        (\<exists>d r report. tr_definitions reg (n, v) = Some d \<and> tr_status reg (n, v) \<noteq> Some ToolLifecycleStatus.DISABLED \<and>
          conforms (VDict a) (tf_arguments_schema d) \<and> map_of a ''tenant_id'' = Some (VStr (au_tenant_id auth)) \<and>
          au_role auth = ''publisher'' \<and> map_of a ''report_id'' = Some (VStr r) \<and> reports (au_tenant_id auth, r) = Some report \<and>
          rp_status report = ReportStatus.DRAFT \<and> call = admitted_call attempt job i d auth report)" for call
      using Inr c e by (auto simp: admissible_call_def)
    show ?thesis
    proof (cases "tr_definitions reg (n, v)")
      case None
      then show ?thesis by (auto simp: step adm tool_resolve_def admission_decision_def)
    next
      case d: (Some d)
      have schema: "schema_valid (VDict a) (tf_arguments_schema d) = Inr (conforms (VDict a) (tf_arguments_schema d))"
        using assms(1) d by (intro schema_valid_exact) (simp add: publishing_def own_schemas_wf)
      show ?thesis
      proof (cases "tr_status reg (n, v) \<noteq> Some ToolLifecycleStatus.DISABLED \<and> conforms (VDict a) (tf_arguments_schema d)")
        case False
        with d show ?thesis by (auto simp: step adm tool_resolve_def admission_decision_def schema)
      next
        case True
        then have "conforms (VDict a) PUBLISH_REPORT_V1_ARGUMENTS_SCHEMA" using assms(1) d by (simp add: publishing_def)
        from arguments_hold [OF this] obtain t r where tr: "map_of a ''tenant_id'' = Some (VStr t)" "map_of a ''report_id'' = Some (VStr r)"
          by blast
        have "admit_tool_call lib raw attempt job reg auth reports = authorize_call attempt job i d a auth reports"
          using d True by (simp add: step tool_resolve_def schema)
        with authorize_call_exact [OF tr, of attempt job i d auth reports] show ?thesis
          using d True tr by (auto simp: adm)
      qed
    qed
  qed
qed

lemma admit_exact:
  assumes "publishing reg"
  shows "(\<forall>e. admit_tool_call lib raw attempt job reg auth reports = Inl e \<longleftrightarrow> json_escapes lib raw e) \<and>
    (\<forall>x. admit_tool_call lib raw attempt job reg auth reports = Inr x \<longrightarrow>
      (ad_status x = AdmissionStatus.ALLOWED \<longleftrightarrow> ad_admitted_call x \<noteq> None) \<and>
      (\<forall>call. ad_admitted_call x = Some call \<longleftrightarrow> admissible_call lib raw attempt job reg auth reports call))"
proof (cases "\<exists>e. json_escapes lib raw e")
  case True
  then show ?thesis using admit_escapes [of lib raw] json_escapes_unique [of lib raw] by (metis Inl_Inr_False sum.sel(1))
next
  case False
  then show ?thesis using admit_decides [OF assms, of lib raw attempt job auth reports] by fastforce
qed

lemma admitted_iff_admissible:
  assumes "publishing reg"
  shows "(\<exists>x. admit_tool_call lib raw attempt job reg auth reports = Inr x \<and> ad_admitted_call x = Some call) \<longleftrightarrow>
    admissible_call lib raw attempt job reg auth reports call"
proof
  assume adm: "admissible_call lib raw attempt job reg auth reports call"
  then have "\<not> json_escapes lib raw e" for e by (auto simp: admissible_call_def)
  with admit_decides [OF assms, of lib raw attempt job auth reports] adm
  show "\<exists>x. admit_tool_call lib raw attempt job reg auth reports = Inr x \<and> ad_admitted_call x = Some call" by blast
qed (use admit_exact [OF assms] in blast)

section \<open>Verification of an outcome\<close>

definition verifies :: "JsonLibrary \<Rightarrow> string \<Rightarrow> AdmittedToolCall \<Rightarrow> string \<Rightarrow> bool" where
  "verifies lib raw call operation_id \<longleftrightarrow>
     (\<exists>c rep. jl_loads lib raw = Inr (VDict c) \<and> conforms (VDict c) PUBLISH_REPORT_V1_OUTCOME_SCHEMA \<and>
        map_of c ''operation_id'' = Some (VStr operation_id) \<and> map_of c ''published'' = Some (VBool True) \<and>
        map_of c ''error'' = None \<and> map_of c ''report'' = Some (VDict rep) \<and>
        map_of rep ''report_id'' = Some (VStr (ac_report_id call)) \<and>
        map_of rep ''version'' = Some (VInt (ac_expected_report_version call)))"

lemma outcome_of_Some:
  "outcome_of c = Some (i, b, r, v) \<longleftrightarrow> map_of c ''operation_id'' = Some (VStr i) \<and> map_of c ''published'' = Some (VBool b) \<and>
     (\<exists>rep. map_of c ''report'' = Some (VDict rep) \<and> map_of rep ''report_id'' = Some (VStr r) \<and> map_of rep ''version'' = Some (VInt v))"
  by (auto simp: outcome_of_def split: option.splits pyval.splits)

lemma verify_decides:
  assumes "\<And>e. \<not> json_escapes lib raw e"
  shows "\<exists>x. verify_publish_outcome lib raw call op = Inr x \<and> (od_status x = OutcomeStatus.VERIFIED \<longleftrightarrow> verifies lib raw call op)"
proof (cases "\<exists>c. jl_loads lib raw = Inr (VDict c) \<and> conforms (VDict c) PUBLISH_REPORT_V1_OUTCOME_SCHEMA")
  case False
  with assms show ?thesis
    by (auto simp: verify_publish_outcome_def parse_json_object_def outcome_decision_def verifies_def schema_valid_exact own_schemas_wf
        json_escapes_def split: sum.splits option.splits pyval.splits)
next
  case True
  then obtain c where c: "jl_loads lib raw = Inr (VDict c)" "conforms (VDict c) PUBLISH_REPORT_V1_OUTCOME_SCHEMA" by blast
  obtain i b r v where o': "outcome_of c = Some (i, b, r, v)" using outcome_holds [OF c(2)] by (metis prod_cases4)
  from o' [unfolded outcome_of_Some] obtain rep where f: "map_of c ''operation_id'' = Some (VStr i)" "map_of c ''published'' = Some (VBool b)"
    "map_of c ''report'' = Some (VDict rep)" "map_of rep ''report_id'' = Some (VStr r)" "map_of rep ''version'' = Some (VInt v)" by blast
  show ?thesis using c f
    by (auto simp: verify_publish_outcome_def parse_json_object_def outcome_decision_def verifies_def schema_valid_exact own_schemas_wf o')
qed

lemma verify_exact:
  "(\<forall>e. verify_publish_outcome lib raw call op = Inl e \<longleftrightarrow> json_escapes lib raw e) \<and>
   (\<forall>x. verify_publish_outcome lib raw call op = Inr x \<longrightarrow> (od_status x = OutcomeStatus.VERIFIED \<longleftrightarrow> verifies lib raw call op))"
proof (cases "\<exists>e. json_escapes lib raw e")
  case True
  then show ?thesis using verify_escapes [of lib raw] json_escapes_unique [of lib raw] by (metis Inl_Inr_False sum.sel(1))
next
  case False
  then show ?thesis using verify_decides [of lib raw call op] by fastforce
qed

lemma verifies_decided:
  assumes "verifies lib raw call op"
  shows "\<exists>x. verify_publish_outcome lib raw call op = Inr x \<and> od_status x = OutcomeStatus.VERIFIED"
  using verify_decides [of lib raw call op] assms by (auto simp: verifies_def)

section \<open>The running service\<close>

text \<open>
  The registry, the reports, the executor and the jobs as the requests of any number of callers change
  them, in lock order. A call is executed only if it was admitted, possibly long before and under an
  earlier state of the registry; \<open>tw_executed\<close> is the history of the executions that had an effect. A
  request that raises changes nothing.
\<close>

record ToolWorld =
  tw_registry :: ToolRegistry
  tw_reports :: ReportStore
  tw_executor :: ToolExecutor
  tw_jobs :: CallJobStore
  tw_admitted :: "AdmittedToolCall list"
  tw_executed :: "AdmittedToolCall list"

datatype ToolEvent =
  DisableTool string string
| AdmitCall string string string AuthContext
| ExecuteCall AdmittedToolCall
| MarkTimeout AdmittedToolCall
| CompleteCall AdmittedToolCall string string

definition complete_verified ::
    "JsonLibrary \<Rightarrow> AdmittedToolCall \<Rightarrow> string \<Rightarrow> string \<Rightarrow> CallJobStore \<Rightarrow> (CallJobStore \<times> CompletionDecision) res" where
  "complete_verified lib call raw operation_id jobs =
     bind_res (verify_publish_outcome lib raw call operation_id) (\<lambda>outcome. guarded_complete call outcome operation_id jobs)"

fun tool_step :: "JsonLibrary \<Rightarrow> ToolEvent \<Rightarrow> ToolWorld \<Rightarrow> ToolWorld" where
  "tool_step lib (DisableTool name version) w =
     (case tool_disable name version (tw_registry w) of Inl _ \<Rightarrow> w | Inr reg \<Rightarrow> w\<lparr>tw_registry := reg\<rparr>)"
| "tool_step lib (AdmitCall raw attempt_id job_id auth) w =
     (case admit_tool_call lib raw attempt_id job_id (tw_registry w) auth (tw_reports w) of
        Inl _ \<Rightarrow> w
      | Inr x \<Rightarrow> (case ad_admitted_call x of None \<Rightarrow> w | Some call \<Rightarrow> w\<lparr>tw_admitted := call # tw_admitted w\<rparr>))"
| "tool_step lib (ExecuteCall call) w =
     (if call \<in> set (tw_admitted w)
      then case tool_execute call (tw_registry w) (tw_executor w) of
        (st, x) \<Rightarrow> w\<lparr>tw_executor := st,
          tw_executed := (if ex_status x = ExecutionStatus.EXECUTED then call # tw_executed w else tw_executed w)\<rparr>
      else w)"
| "tool_step lib (MarkTimeout call) w =
     (case mark_timeout_unknown call (tw_jobs w) of Inl _ \<Rightarrow> w | Inr (jobs, _) \<Rightarrow> w\<lparr>tw_jobs := jobs\<rparr>)"
| "tool_step lib (CompleteCall call raw operation_id) w =
     (case complete_verified lib call raw operation_id (tw_jobs w) of Inl _ \<Rightarrow> w | Inr (jobs, _) \<Rightarrow> w\<lparr>tw_jobs := jobs\<rparr>)"

definition tool_world :: "ToolRegistry \<Rightarrow> Report list \<Rightarrow> JobRecord list \<Rightarrow> ToolWorld" where
  "tool_world reg reports jobs =
     \<lparr>tw_registry = reg, tw_reports = ReportStore_init reports, tw_executor = ToolExecutor_init,
      tw_jobs = CallJobStore_init jobs, tw_admitted = [], tw_executed = []\<rparr>"

definition tool_run :: "JsonLibrary \<Rightarrow> ToolEvent list \<Rightarrow> ToolWorld \<Rightarrow> ToolWorld" where
  "tool_run lib es w = fold (tool_step lib) es w"

text \<open>The only tool is the default one, whatever its lifecycle.\<close>

definition one_tool :: "ToolRegistry \<Rightarrow> bool" where
  "one_tool reg \<longleftrightarrow> tr_definitions reg = [(''publish_report'', ''v1'') \<mapsto> default_tool]"

definition effect_material :: "string \<times> string \<times> int \<Rightarrow> string" where
  "effect_material k = (case k of (t, r, v) \<Rightarrow>
     ''sha256:'' @ sha256_hexdigest (str_join '':'' [''publish_report'', ''v1'', t, r, str_int v]))"

definition well_admitted :: "ReportStore \<Rightarrow> AdmittedToolCall \<Rightarrow> bool" where
  "well_admitted reports call \<longleftrightarrow> ac_tool_name call = ''publish_report'' \<and> ac_tool_version call = ''v1'' \<and>
     ac_idempotency_key call = effect_material (effect_key call) \<and>
     (\<exists>r report. reports (ac_tenant_id call, r) = Some report \<and> rp_status report = ReportStatus.DRAFT \<and>
        ac_report_id call = rp_report_id report \<and> ac_expected_report_version call = rp_version report)"

definition tool_world_inv :: "ReportStore \<Rightarrow> ToolWorld \<Rightarrow> bool" where
  "tool_world_inv reports w \<longleftrightarrow> tw_reports w = reports \<and> one_tool (tw_registry w) \<and> (\<forall>c\<in>set (tw_admitted w). well_admitted reports c) \<and>
     set (tw_executed w) \<subseteq> set (tw_admitted w) \<and> distinct (map effect_key (tw_executed w)) \<and>
     te_effect_counts (tw_executor w) = (\<lambda>k. if k \<in> effect_key ` set (tw_executed w) then Some 1 else None) \<and>
     (\<forall>c\<in>set (tw_executed w). te_operations (tw_executor w) (ac_idempotency_key c) \<noteq> None)"

lemma one_toolD: "one_tool reg \<Longrightarrow> tr_definitions reg k = Some d \<Longrightarrow> k = (''publish_report'', ''v1'') \<and> d = default_tool"
  by (simp add: one_tool_def split: if_splits)

lemma one_tool_publishing:
  assumes "one_tool reg"
  shows "publishing reg"
  unfolding publishing_def using one_toolD [OF assms] by (fastforce simp: default_tool_def)

lemma disable_one_tool: "one_tool reg \<Longrightarrow> tool_disable n v reg = Inr reg' \<Longrightarrow> one_tool reg'"
  by (auto simp: one_tool_def tool_disable_def split: if_splits)

lemma default_one_tool: "default_registry = Inr reg \<Longrightarrow> one_tool reg"
  by (auto simp: default_registry_def ToolRegistry_init_def default_tool_def one_tool_def Let_def split: if_splits)

lemma admitted_well:
  assumes "one_tool reg" and "admit_tool_call lib raw attempt job reg auth reports = Inr x" and "ad_admitted_call x = Some call"
  shows "well_admitted reports call"
proof -
  have "admissible_call lib raw attempt job reg auth reports call"
    using admit_exact [OF one_tool_publishing [OF assms(1)], of lib raw attempt job auth reports] assms(2,3) by blast
  then obtain n v d r i report where d: "tr_definitions reg (n, v) = Some d" and r: "reports (au_tenant_id auth, r) = Some report"
    "rp_status report = ReportStatus.DRAFT" and call: "call = admitted_call attempt job i d auth report"
    unfolding admissible_call_def by blast
  have "d = default_tool" using one_toolD [OF assms(1) d] by blast
  with r show ?thesis
    by (auto simp: call well_admitted_def admitted_call_def default_tool_def effect_key_def effect_material_def idempotency_material_def)
qed

text \<open>An execution that has an effect, and one that has none.\<close>

lemma tool_execute_cases:
  "tool_execute call reg st = (st', x) \<Longrightarrow>
     (ex_status x \<noteq> ExecutionStatus.EXECUTED \<and> st' = st) \<or>
     (ex_status x = ExecutionStatus.EXECUTED \<and> tool_is_active reg (ac_tool_name call) (ac_tool_version call) \<and>
      te_operations st (ac_idempotency_key call) = None \<and> ex_operation_id x = Some (operation_id_of call) \<and>
      st' = \<lparr>te_operations = (te_operations st)(ac_idempotency_key call \<mapsto> x),
             te_effect_counts = (te_effect_counts st)(effect_key call \<mapsto> effect_count st call + 1)\<rparr>)"
  by (auto simp: tool_execute_def Let_def split: if_splits option.splits)

lemma execute_tool_world_inv:
  assumes inv: "tool_world_inv reports w" and call: "call \<in> set (tw_admitted w)" and x: "tool_execute call (tw_registry w) (tw_executor w) = (st, x)"
  shows "tool_world_inv reports (w\<lparr>tw_executor := st,
     tw_executed := (if ex_status x = ExecutionStatus.EXECUTED then call # tw_executed w else tw_executed w)\<rparr>)"
proof (cases "ex_status x = ExecutionStatus.EXECUTED")
  case False
  then have "st = tw_executor w" using tool_execute_cases [OF x] by blast
  with False inv show ?thesis by (simp add: tool_world_inv_def)
next
  case True
  with tool_execute_cases [OF x] have none: "te_operations (tw_executor w) (ac_idempotency_key call) = None"
    and st: "st = \<lparr>te_operations = (te_operations (tw_executor w))(ac_idempotency_key call \<mapsto> x),
             te_effect_counts = (te_effect_counts (tw_executor w))(effect_key call \<mapsto> effect_count (tw_executor w) call + 1)\<rparr>" by auto
  have "effect_key call \<notin> effect_key ` set (tw_executed w)"
  proof
    assume "effect_key call \<in> effect_key ` set (tw_executed w)"
    then obtain c where c: "c \<in> set (tw_executed w)" "effect_key c = effect_key call" by auto
    then have "well_admitted reports c" "well_admitted reports call" using inv call by (auto simp: tool_world_inv_def)
    with c(2) have "ac_idempotency_key c = ac_idempotency_key call" by (simp add: well_admitted_def)
    moreover have "te_operations (tw_executor w) (ac_idempotency_key c) \<noteq> None" using inv c(1) by (simp add: tool_world_inv_def)
    ultimately show False using none by simp
  qed
  moreover from this inv have "effect_count (tw_executor w) call = 0" by (simp add: tool_world_inv_def effect_count_def)
  ultimately show ?thesis using inv call True by (auto simp: tool_world_inv_def st fun_eq_iff)
qed

lemma tool_step_inv: "tool_world_inv reports w \<Longrightarrow> tool_world_inv reports (tool_step lib e w)"
proof (induction e)
  case (DisableTool n v)
  then show ?case by (auto simp: tool_world_inv_def disable_one_tool split: sum.splits)
next
  case (AdmitCall raw a j auth)
  then show ?case by (auto simp: tool_world_inv_def admitted_well split: sum.splits option.splits)
next
  case (ExecuteCall call)
  then show ?case using execute_tool_world_inv [of reports w call] by (auto split: prod.splits)
next
  case (MarkTimeout call)
  then show ?case by (auto simp: tool_world_inv_def split: sum.splits)
next
  case (CompleteCall call raw op)
  then show ?case by (auto simp: tool_world_inv_def split: sum.splits)
qed

interpretation tools: invariant_machine "tool_step lib" "tool_world_inv reports" for lib reports
  by unfold_locales (rule tool_step_inv)

lemma tool_run_inv:
  assumes "default_registry = Inr reg"
  shows "tool_world_inv (ReportStore_init reports) (tool_run lib es (tool_world reg reports jobs))"
  unfolding tool_run_def
  by (rule tools.run_inv) (use default_one_tool [OF assms] in \<open>simp add: tool_world_inv_def tool_world_def ToolExecutor_init_def\<close>)

text \<open>A disabled tool stays disabled.\<close>

definition tool_off :: "ToolWorld \<Rightarrow> bool" where
  "tool_off w \<longleftrightarrow> tr_status (tw_registry w) (''publish_report'', ''v1'') = Some ToolLifecycleStatus.DISABLED"

lemma tool_off_step:
  assumes "tool_world_inv reports w" and "tool_off w"
  shows "tool_off (tool_step lib e w) \<and> tw_executed (tool_step lib e w) = tw_executed w"
proof (cases e)
  case (ExecuteCall call)
  obtain st x where x: "tool_execute call (tw_registry w) (tw_executor w) = (st, x)" by fastforce
  have "ex_status x \<noteq> ExecutionStatus.EXECUTED" if "call \<in> set (tw_admitted w)"
  proof -
    have "well_admitted reports call" using assms(1) that by (simp add: tool_world_inv_def)
    then have "\<not> tool_is_active (tw_registry w) (ac_tool_name call) (ac_tool_version call)"
      using assms(2) by (simp add: well_admitted_def tool_off_def tool_is_active_def tool_status_def)
    then show ?thesis using tool_execute_cases [OF x] by blast
  qed
  with assms(2) x show ?thesis by (simp add: ExecuteCall tool_off_def)
qed (use assms(2) in \<open>auto simp: tool_off_def tool_disable_def split: sum.splits option.splits if_splits\<close>)

lemma tool_off_run: "tool_world_inv reports w \<Longrightarrow> tool_off w \<Longrightarrow> tw_executed (fold (tool_step lib) es w) = tw_executed w"
proof (induction es arbitrary: w)
  case (Cons e es)
  then show ?case using tool_off_step [of reports w lib e] tool_step_inv [of reports w lib e] by simp
qed simp

lemma tool_disable_run:
  assumes "tool_world_inv reports w"
  shows "tw_executed (tool_run lib (DisableTool ''publish_report'' ''v1'' # es) w) = tw_executed w"
proof -
  let ?w = "tool_step lib (DisableTool ''publish_report'' ''v1'') w"
  have "one_tool (tw_registry w)" using assms by (simp add: tool_world_inv_def)
  then have "tool_off ?w" "tw_executed ?w = tw_executed w" by (simp_all add: tool_disable_def tool_off_def one_tool_def)
  moreover have "tool_world_inv reports ?w" by (rule tool_step_inv [OF assms])
  ultimately show ?thesis using tool_off_run [of reports ?w] by (simp add: tool_run_def)
qed

section \<open>Completion of jobs\<close>

definition keyed :: "CallJobStore \<Rightarrow> bool" where
  "keyed jobs \<longleftrightarrow> (\<forall>k job. jobs k = Some job \<longrightarrow> jb_job_id job = k)"

lemma init_keyed: "keyed (CallJobStore_init jobs)"
proof -
  have update: "keyed (m(jb_job_id j \<mapsto> j))" if "keyed m" for m and j :: JobRecord
    using that by (simp add: keyed_def)
  have "keyed (fold (\<lambda>j m. m(jb_job_id j \<mapsto> j)) jobs m)" if "keyed m" for m
    using that by (induction jobs arbitrary: m) (simp_all add: update)
  moreover have "keyed Map.empty" by (simp add: keyed_def)
  ultimately show ?thesis unfolding CallJobStore_init_def by blast
qed

text \<open>What one request does to a job: nothing, or a live job that the call owns becomes unknown or succeeds.\<close>

definition call_completes :: "JsonLibrary \<Rightarrow> ToolEvent list \<Rightarrow> JobRecord \<Rightarrow> bool" where
  "call_completes lib es job \<longleftrightarrow> (\<exists>call raw operation_id. CompleteCall call raw operation_id \<in> set es \<and> verifies lib raw call operation_id \<and>
     ac_job_id call = jb_job_id job \<and> job_matches job call \<and> jb_verified_operation_id job = Some operation_id)"

definition job_moves :: "JsonLibrary \<Rightarrow> ToolEvent \<Rightarrow> JobRecord \<Rightarrow> JobRecord \<Rightarrow> bool" where
  "job_moves lib e job job' \<longleftrightarrow> job' = job \<or>
     (\<not> job_terminal job \<and> job' = job\<lparr>jb_status := JobStatus.PENDING_RECONCILIATION\<rparr>) \<or>
     (\<not> job_terminal job \<and> call_completes lib [e] job' \<and>
      job' = job\<lparr>jb_status := JobStatus.SUCCEEDED, jb_verified_operation_id := jb_verified_operation_id job'\<rparr>)"

definition jobs_move :: "JsonLibrary \<Rightarrow> ToolEvent \<Rightarrow> CallJobStore \<Rightarrow> CallJobStore \<Rightarrow> bool" where
  "jobs_move lib e jobs jobs' \<longleftrightarrow>
     dom jobs' = dom jobs \<and> (\<forall>k job. jobs k = Some job \<longrightarrow> (\<exists>job'. jobs' k = Some job' \<and> job_moves lib e job job'))"

lemma jobs_move_refl [simp]: "jobs_move lib e jobs jobs"
  by (simp add: jobs_move_def job_moves_def)

lemma jobs_move_update:
  assumes "jobs k = Some job" and "job_moves lib e job job'"
  shows "jobs_move lib e jobs (jobs(k \<mapsto> job'))"
  using assms by (auto simp: jobs_move_def) (auto simp: job_moves_def)

lemma mark_cases:
  "mark_timeout_unknown call jobs = Inr (jobs', x) \<Longrightarrow> jobs' = jobs \<or>
     (\<exists>job. jobs (ac_job_id call) = Some job \<and> \<not> job_terminal job \<and>
        jobs' = jobs(jb_job_id job \<mapsto> job\<lparr>jb_status := JobStatus.PENDING_RECONCILIATION\<rparr>))"
  by (auto simp: mark_timeout_unknown_def split: option.splits if_splits)

lemma complete_cases:
  "guarded_complete call outcome op jobs = Inr (jobs', x) \<Longrightarrow> jobs' = jobs \<or>
     (\<exists>job. jobs (ac_job_id call) = Some job \<and> \<not> job_terminal job \<and> job_matches job call \<and> od_status outcome = OutcomeStatus.VERIFIED \<and>
        jobs' = jobs(jb_job_id job \<mapsto> job\<lparr>jb_status := JobStatus.SUCCEEDED, jb_verified_operation_id := Some op\<rparr>))"
  by (auto simp: guarded_complete_def split: option.splits if_splits)

lemma mark_moves:
  assumes "keyed jobs" and "mark_timeout_unknown call jobs = Inr (jobs', x)"
  shows "jobs_move lib e jobs jobs'"
  using mark_cases [OF assms(2)]
proof (elim disjE exE conjE)
  fix job assume j: "jobs (ac_job_id call) = Some job" "\<not> job_terminal job"
    "jobs' = jobs(jb_job_id job \<mapsto> job\<lparr>jb_status := JobStatus.PENDING_RECONCILIATION\<rparr>)"
  then have "jobs (jb_job_id job) = Some job" using assms(1) by (simp add: keyed_def)
  moreover have "job_moves lib e job (job\<lparr>jb_status := JobStatus.PENDING_RECONCILIATION\<rparr>)" using j(2) unfolding job_moves_def by blast
  ultimately show ?thesis unfolding j(3) by (rule jobs_move_update)
qed simp

lemma complete_moves:
  assumes "keyed jobs" and "complete_verified lib call raw op jobs = Inr (jobs', x)"
  shows "jobs_move lib (CompleteCall call raw op) jobs jobs'"
proof -
  obtain y where v: "verify_publish_outcome lib raw call op = Inr y"
    using assms(2) by (auto simp: complete_verified_def bind_res_eq_Inr)
  note y = v verify_exact [THEN conjunct2, rule_format, OF v]
  with assms(2) have "guarded_complete call y op jobs = Inr (jobs', x)" by (simp add: complete_verified_def)
  from complete_cases [OF this] show ?thesis
  proof (elim disjE exE conjE)
    fix job :: JobRecord let ?job = "job\<lparr>jb_status := JobStatus.SUCCEEDED, jb_verified_operation_id := Some op\<rparr>"
    assume j: "jobs (ac_job_id call) = Some job" "\<not> job_terminal job" "job_matches job call" "od_status y = OutcomeStatus.VERIFIED"
      "jobs' = jobs(jb_job_id job \<mapsto> ?job)"
    then have k: "jb_job_id job = ac_job_id call" using assms(1) by (simp add: keyed_def)
    have "call_completes lib [CompleteCall call raw op] ?job" using j(3,4) y(2) k by (auto simp: call_completes_def job_matches_def)
    then have "job_moves lib (CompleteCall call raw op) job ?job" using j(2) by (simp add: job_moves_def)
    then show ?thesis unfolding j(5) k by (rule jobs_move_update [of jobs "ac_job_id call" job, OF j(1)])
  qed simp
qed

lemma tool_step_jobs:
  assumes "keyed (tw_jobs w)"
  shows "jobs_move lib e (tw_jobs w) (tw_jobs (tool_step lib e w))"
proof (cases e)
  case (MarkTimeout call)
  then show ?thesis using mark_moves [OF assms, of call] by (auto split: sum.splits)
next
  case (CompleteCall call raw op)
  then show ?thesis using complete_moves [OF assms, of lib call raw op] by (auto split: sum.splits)
qed (simp_all split: sum.splits option.splits prod.splits)

lemma job_moves_ident:
  assumes "job_moves lib e job job'"
  shows "jb_job_id job' = jb_job_id job \<and> jb_current_attempt_id job' = jb_current_attempt_id job \<and>
     jb_current_tool_call_id job' = jb_current_tool_call_id job \<and> (job_terminal job \<longrightarrow> job' = job)"
  using assms unfolding job_moves_def
proof (elim disjE conjE)
  assume s: "\<not> job_terminal job" "job' = job\<lparr>jb_status := JobStatus.SUCCEEDED, jb_verified_operation_id := jb_verified_operation_id job'\<rparr>"
  show ?thesis by (subst s(2), subst (2) s(2), subst (3) s(2)) (simp add: s(1))
qed simp_all

lemma job_moves_success:
  "job_moves lib e job job' \<Longrightarrow> jb_status job' = JobStatus.SUCCEEDED \<Longrightarrow> job' = job \<or> call_completes lib [e] job'"
  by (auto simp: job_moves_def)

lemma jobs_move_back: "jobs_move lib e jobs jobs' \<Longrightarrow> jobs' k = Some job' \<Longrightarrow> \<exists>job. jobs k = Some job \<and> job_moves lib e job job'"
  unfolding jobs_move_def by (metis domD domI option.inject)

lemma tool_step_keyed:
  assumes "keyed (tw_jobs w)"
  shows "keyed (tw_jobs (tool_step lib e w))"
  unfolding keyed_def
proof (intro allI impI)
  fix k job' assume "tw_jobs (tool_step lib e w) k = Some job'"
  with tool_step_jobs [OF assms] obtain job where "tw_jobs w k = Some job" "job_moves lib e job job'" by (blast dest: jobs_move_back)
  with assms job_moves_ident show "jb_job_id job' = k" by (simp add: keyed_def)
qed

definition job_history :: "JsonLibrary \<Rightarrow> ToolEvent list \<Rightarrow> JobRecord \<Rightarrow> JobRecord \<Rightarrow> bool" where
  "job_history lib es job0 job \<longleftrightarrow> jb_job_id job = jb_job_id job0 \<and> jb_current_attempt_id job = jb_current_attempt_id job0 \<and>
     jb_current_tool_call_id job = jb_current_tool_call_id job0 \<and> (job_terminal job0 \<longrightarrow> job = job0) \<and>
     (jb_status job = JobStatus.SUCCEEDED \<longrightarrow> jb_status job0 = JobStatus.SUCCEEDED \<or> call_completes lib es job)"

lemma call_completes_mono: "call_completes lib es job \<Longrightarrow> set es \<subseteq> set es' \<Longrightarrow> call_completes lib es' job"
  unfolding call_completes_def by blast

lemma job_history_step:
  assumes "job_history lib es job0 job" and "job_moves lib e job job'"
  shows "job_history lib (es @ [e]) job0 job'"
  using assms job_moves_ident [OF assms(2)] job_moves_success [OF assms(2)] call_completes_mono [of lib es job "es @ [e]"]
    call_completes_mono [of lib "[e]" job' "es @ [e]"]
  by (auto simp: job_history_def)

lemma tool_run_keyed: "keyed (tw_jobs w) \<Longrightarrow> keyed (tw_jobs (tool_run lib es w))"
  unfolding tool_run_def by (induction es arbitrary: w) (simp_all add: tool_step_keyed)

lemma tool_run_jobs:
  assumes "keyed (tw_jobs w)" and "tw_jobs (tool_run lib es w) k = Some job"
  shows "\<exists>job0. tw_jobs w k = Some job0 \<and> job_history lib es job0 job"
  using assms(2)
proof (induction es arbitrary: job rule: rev_induct)
  case Nil
  then show ?case by (simp add: tool_run_def job_history_def)
next
  case (snoc e es)
  let ?w = "tool_run lib es w"
  have "tw_jobs (tool_step lib e ?w) k = Some job" using snoc.prems by (simp add: tool_run_def)
  with tool_step_jobs [OF tool_run_keyed [OF assms(1)]] obtain job' where "tw_jobs ?w k = Some job'" "job_moves lib e job' job"
    by (blast dest: jobs_move_back)
  with snoc.IH job_history_step show ?case by blast
qed

lemma tool_run_keeps:
  assumes "keyed (tw_jobs w)" and "tw_jobs w k = Some job" and "job_terminal job"
  shows "tw_jobs (tool_run lib es w) k = Some job"
proof (induction es rule: rev_induct)
  case Nil
  then show ?case using assms(2) by (simp add: tool_run_def)
next
  case (snoc e es)
  let ?w = "tool_run lib es w"
  from tool_step_jobs [OF tool_run_keyed [OF assms(1)], of lib e lib es] snoc obtain job'
    where "tw_jobs (tool_step lib e ?w) k = Some job'" "job_moves lib e job job'" unfolding jobs_move_def by blast
  with job_moves_ident assms(3) show ?case by (simp add: tool_run_def)
qed

text \<open>
  The converse fails: the material joins its parts with colons, so two effects of different tenants can have
  one idempotency key, and the second publication is suppressed as a duplicate of the first.
\<close>

lemma idempotency_key_collision:
  "\<exists>auth auth' report report'. effect_key (admitted_call a j i default_tool auth report) \<noteq> effect_key (admitted_call a j i default_tool auth' report') \<and>
     ac_idempotency_key (admitted_call a j i default_tool auth report) = ac_idempotency_key (admitted_call a j i default_tool auth' report')"
proof -
  let ?auth = "\<lambda>t. \<lparr>au_tenant_id = t, au_user_id = ''u'', au_role = ''publisher''\<rparr>"
  let ?report = "\<lambda>t r. \<lparr>rp_tenant_id = t, rp_report_id = r, rp_status = ReportStatus.DRAFT, rp_version = 1\<rparr>"
  have "effect_key (admitted_call a j i default_tool (?auth ''a'') (?report ''a'' ''b:c'')) \<noteq>
      effect_key (admitted_call a j i default_tool (?auth ''a:b'') (?report ''a:b'' ''c''))"
    by (simp add: effect_key_def admitted_call_def)
  moreover have "ac_idempotency_key (admitted_call a j i default_tool (?auth ''a'') (?report ''a'' ''b:c'')) =
      ac_idempotency_key (admitted_call a j i default_tool (?auth ''a:b'') (?report ''a:b'' ''c''))"
    by (simp add: admitted_call_def idempotency_material_def)
  ultimately show ?thesis by blast
qed

section \<open>Properties\<close>

text \<open>
  C10. For a registry all of whose tools publish reports under the argument schema of \<^verbatim>\<open>publish_report\<close> (the default
  registry, whatever was disabled in it), admission of a provider's raw output raises exactly where \<^verbatim>\<open>json.loads\<close>
  raises something other than \<^verbatim>\<open>JSONDecodeError\<close> and \<^verbatim>\<open>TypeError\<close>, and then that exception. Otherwise it decides:
  the status is \<open>ALLOWED\<close> exactly when a call is admitted, and it admits a call exactly when the output parses to
  an object that conforms to the envelope schema, the tool version is registered and not disabled, the
  arguments conform to its schema, the caller is a publisher of the tenant they name and the report exists as
  a draft; the admitted call is then bound to the attempt, the job, the caller's tenant and the report's version.
\<close>

theorem publish_admission_exact:
  assumes "publishing reg"
  shows "(\<forall>e. admit_tool_call lib raw attempt_id job_id reg auth reports = Inl e \<longleftrightarrow>
      jl_loads lib raw = Inl e \<and> \<not> json_error_caught e) \<and>
   (\<forall>x. admit_tool_call lib raw attempt_id job_id reg auth reports = Inr x \<longrightarrow>
    (ad_status x = AdmissionStatus.ALLOWED \<longleftrightarrow> ad_admitted_call x \<noteq> None) \<and>
    (\<forall>call. ad_admitted_call x = Some call \<longleftrightarrow>
      (\<exists>c i n v a d r report. jl_loads lib raw = Inr (VDict c) \<and> conforms (VDict c) TOOL_CALL_ENVELOPE_SCHEMA \<and>
        envelope_of c = Some (i, n, v, a) \<and> tr_definitions reg (n, v) = Some d \<and>
        tr_status reg (n, v) \<noteq> Some ToolLifecycleStatus.DISABLED \<and> conforms (VDict a) (tf_arguments_schema d) \<and>
        map_of a ''tenant_id'' = Some (VStr (au_tenant_id auth)) \<and> au_role auth = ''publisher'' \<and>
        map_of a ''report_id'' = Some (VStr r) \<and> reports (au_tenant_id auth, r) = Some report \<and>
        rp_status report = ReportStatus.DRAFT \<and> call = admitted_call attempt_id job_id i d auth report)))"
  using admit_exact [OF assms] unfolding admissible_call_def json_escapes_def .

definition example_library :: JsonLibrary where
  "example_library = \<lparr>jl_loads = (\<lambda>raw. if raw = ''call'' then Inr (VDict
       [(''kind'', VStr ''tool_call''), (''tool_call_id'', VStr ''c1''), (''tool_name'', VStr ''publish_report''),
        (''tool_version'', VStr ''v1''),
        (''arguments'', VDict [(''tenant_id'', VStr ''tenant-a''), (''report_id'', VStr ''report-7'')])])
       else if raw = ''deep'' then Inl RecursionError else Inl JSONDecodeError),
     jl_float_repr = (\<lambda>f. [])\<rparr>"

definition example_auth :: AuthContext where
  "example_auth = \<lparr>au_tenant_id = ''tenant-a'', au_user_id = ''u'', au_role = ''publisher''\<rparr>"

definition example_registry :: ToolRegistry where
  "example_registry = \<lparr>tr_definitions = [(''publish_report'', ''v1'') \<mapsto> default_tool], tr_names = [''publish_report''],
     tr_status = [(''publish_report'', ''v1'') \<mapsto> ToolLifecycleStatus.ACTIVE]\<rparr>"

lemma example_registry_default: "default_registry = Inr example_registry"
  by (simp add: default_registry_def ToolRegistry_init_def Let_def example_registry_def default_tool_def)

definition example_reports :: "Report list" where
  "example_reports = [\<lparr>rp_tenant_id = ''tenant-a'', rp_report_id = ''report-7'', rp_status = ReportStatus.DRAFT, rp_version = 7\<rparr>]"

lemma example_admitted_call:
  "\<exists>x. admit_tool_call example_library ''call'' ''a1'' ''j1'' example_registry example_auth (ReportStore_init example_reports) = Inr x \<and>
     ad_admitted_call x = Some (admitted_call ''a1'' ''j1'' ''c1'' default_tool example_auth (hd example_reports))"
proof -
  let ?a = "[(''tenant_id'', VStr ''tenant-a''), (''report_id'', VStr ''report-7'')]"
  have "schema_valid (VDict [(''kind'', VStr ''tool_call''), (''tool_call_id'', VStr ''c1''), (''tool_name'', VStr ''publish_report''),
        (''tool_version'', VStr ''v1''), (''arguments'', VDict ?a)]) TOOL_CALL_ENVELOPE_SCHEMA = Inr True" by code_simp
  moreover have "schema_valid (VDict ?a) PUBLISH_REPORT_V1_ARGUMENTS_SCHEMA = Inr True" by code_simp
  ultimately show ?thesis
    by (simp add: admit_tool_call_def parse_json_object_def example_library_def envelope_of_def tool_resolve_def example_registry_def
        default_tool_def authorize_call_def dict_get_def example_auth_def get_for_authorized_tenant_def example_reports_def
        ReportStore_init_def admission_decision_def)
qed

lemma example_admitted:
  "\<exists>x call. admit_tool_call example_library ''call'' ''a1'' ''j1'' example_registry example_auth (ReportStore_init example_reports) = Inr x \<and>
     ad_admitted_call x = Some call"
  using example_admitted_call by blast

theorem publish_admission_exact_witness:
  "\<exists>x c call. admit_tool_call example_library ''call'' ''a1'' ''j1'' example_registry example_auth (ReportStore_init example_reports) = Inr x \<and>
     ad_admitted_call x = Some call \<and> jl_loads example_library ''call'' = Inr (VDict c) \<and>
     conforms (VDict c) TOOL_CALL_ENVELOPE_SCHEMA \<and> ac_tenant_id call = ''tenant-a'' \<and>
     admit_tool_call example_library ''deep'' ''a1'' ''j1'' example_registry example_auth (ReportStore_init example_reports) = Inl RecursionError"
proof -
  have "publishing example_registry"
    by (rule one_tool_publishing [OF default_one_tool [OF example_registry_default]])
  note exact = publish_admission_exact [OF this, of example_library "''call''" "''a1''" "''j1''" example_auth "ReportStore_init example_reports"]
    and deep = publish_admission_exact [OF this, of example_library "''deep''" "''a1''" "''j1''" example_auth "ReportStore_init example_reports"]
  obtain x call where x: "admit_tool_call example_library ''call'' ''a1'' ''j1'' example_registry example_auth (ReportStore_init example_reports) = Inr x"
    "ad_admitted_call x = Some call" using example_admitted by blast
  with exact obtain c i d report where "jl_loads example_library ''call'' = Inr (VDict c)" "conforms (VDict c) TOOL_CALL_ENVELOPE_SCHEMA"
    and "call = admitted_call ''a1'' ''j1'' i d example_auth report" by fastforce
  moreover have "admit_tool_call example_library ''deep'' ''a1'' ''j1'' example_registry example_auth (ReportStore_init example_reports) =
      Inl RecursionError"
    using deep [THEN conjunct1] by (simp add: example_library_def json_error_caught_def)
  ultimately show ?thesis using x by (auto simp: admitted_call_def example_auth_def)
qed

text \<open>
  C11. In every history of admissions, executions, time-outs, completions and disablings over the default
  registry, however the callers interleave and repeat them, every effect (tenant, report, version) is executed
  at most once and counted exactly as often; every executed call was admitted for a draft of its own tenant;
  and once the tool has been disabled nothing more is executed, not even a call admitted before.
\<close>

theorem publish_effect_at_most_once:
  assumes "default_registry = Inr reg"
  shows "(let w = tool_run lib es (tool_world reg reports jobs) in
      distinct (map effect_key (tw_executed w)) \<and>
      te_effect_counts (tw_executor w) = (\<lambda>k. if k \<in> effect_key ` set (tw_executed w) then Some 1 else None) \<and>
      list_all (well_admitted (ReportStore_init reports)) (tw_executed w) \<and>
      tw_executed (tool_run lib (DisableTool ''publish_report'' ''v1'' # es') w) = tw_executed w)"
proof -
  let ?w = "tool_run lib es (tool_world reg reports jobs)"
  have inv: "tool_world_inv (ReportStore_init reports) ?w" by (rule tool_run_inv [OF assms])
  show ?thesis using inv tool_disable_run [OF inv, of lib es'] by (auto simp: Let_def tool_world_inv_def list_all_iff)
qed

lemma example_executed:
  "\<exists>call. tw_executed (tool_run example_library [AdmitCall ''call'' ''a1'' ''j1'' example_auth, ExecuteCall call, ExecuteCall call]
     (tool_world example_registry example_reports [])) = [call]"
proof -
  obtain x call where x: "admit_tool_call example_library ''call'' ''a1'' ''j1'' example_registry example_auth (ReportStore_init example_reports) = Inr x"
    "ad_admitted_call x = Some call" using example_admitted by blast
  have "well_admitted (ReportStore_init example_reports) call"
    by (rule admitted_well [OF default_one_tool [OF example_registry_default] x])
  then have "tool_is_active example_registry (ac_tool_name call) (ac_tool_version call)"
    by (simp add: well_admitted_def tool_is_active_def tool_status_def example_registry_def)
  with x have "tw_executed (tool_run example_library [AdmitCall ''call'' ''a1'' ''j1'' example_auth, ExecuteCall call, ExecuteCall call]
     (tool_world example_registry example_reports [])) = [call]"
    by (simp add: tool_run_def tool_world_def tool_execute_def ToolExecutor_init_def Let_def)
  then show ?thesis by blast
qed

theorem publish_effect_at_most_once_witness:
  "\<exists>call. tw_executed (tool_run example_library [DisableTool ''publish_report'' ''v1'', ExecuteCall call]
     (tool_run example_library [AdmitCall ''call'' ''a1'' ''j1'' example_auth, ExecuteCall call, ExecuteCall call]
       (tool_world example_registry example_reports []))) = [call]"
proof -
  obtain call where call: "tw_executed (tool_run example_library [AdmitCall ''call'' ''a1'' ''j1'' example_auth, ExecuteCall call, ExecuteCall call]
     (tool_world example_registry example_reports [])) = [call]" using example_executed by blast
  from publish_effect_at_most_once [OF example_registry_default, of example_library
      "[AdmitCall ''call'' ''a1'' ''j1'' example_auth, ExecuteCall call, ExecuteCall call]" example_reports "[]" "[ExecuteCall call]"] call
  show ?thesis unfolding Let_def by metis
qed

text \<open>
  C12. In every such history a job keeps its identity, attempt and call; it is \<open>SUCCEEDED\<close> only if it began so or a
  completion of the history came with an outcome that parses, conforms to the outcome schema, reports the
  publication without error and names exactly the operation, report and version of the job's current call,
  whose operation it records; and a succeeded or cancelled job never changes again.
\<close>

theorem job_success_verified:
  assumes "tw_jobs (tool_run lib es (tool_world reg reports jobs)) k = Some job"
  shows "(\<exists>job0. CallJobStore_init jobs k = Some job0 \<and> jb_job_id job0 = k \<and> jb_job_id job = k \<and>
      jb_current_attempt_id job = jb_current_attempt_id job0 \<and> jb_current_tool_call_id job = jb_current_tool_call_id job0 \<and>
      (jb_status job = JobStatus.SUCCEEDED \<longrightarrow> jb_status job0 = JobStatus.SUCCEEDED \<or>
        (\<exists>call raw operation_id. CompleteCall call raw operation_id \<in> set es \<and> verifies lib raw call operation_id \<and>
           ac_job_id call = k \<and> job_matches job call \<and> jb_verified_operation_id job = Some operation_id))) \<and>
    (job_terminal job \<longrightarrow> tw_jobs (tool_run lib es' (tool_run lib es (tool_world reg reports jobs))) k = Some job)"
proof -
  have keyed: "keyed (tw_jobs (tool_world reg reports jobs))" using init_keyed by (simp add: tool_world_def)
  from tool_run_jobs [OF keyed assms] obtain job0 where
    j: "CallJobStore_init jobs k = Some job0" "job_history lib es job0 job" by (auto simp: tool_world_def)
  then have "jb_job_id job0 = k" using init_keyed [of jobs] by (simp add: keyed_def)
  with j tool_run_keeps [OF tool_run_keyed [OF keyed] assms] show ?thesis
    by (auto simp: job_history_def call_completes_def)
qed

definition example_job :: JobRecord where
  "example_job = \<lparr>jb_job_id = ''j1'', jb_status = JobStatus.RUNNING, jb_current_attempt_id = ''a1'', jb_current_tool_call_id = ''c1'',
     jb_verified_operation_id = None\<rparr>"

definition example_call :: AdmittedToolCall where
  "example_call = \<lparr>ac_attempt_id = ''a1'', ac_job_id = ''j1'', ac_tool_call_id = ''c1'', ac_tool_name = ''publish_report'',
     ac_tool_version = ''v1'', ac_tenant_id = ''tenant-a'', ac_report_id = ''report-7'', ac_expected_report_version = 7,
     ac_idempotency_key = ''k''\<rparr>"

definition outcome_library :: JsonLibrary where
  "outcome_library = \<lparr>jl_loads = (\<lambda>raw. Inr (VDict
       [(''operation_id'', VStr ''op''), (''published'', VBool True),
        (''report'', VDict [(''report_id'', VStr ''report-7''), (''version'', VInt 7)]), (''warnings'', VList [])])),
     jl_float_repr = (\<lambda>f. [])\<rparr>"

lemma example_verified: "verify_publish_outcome outcome_library raw example_call ''op'' = Inr (outcome_decision OutcomeStatus.VERIFIED ''OUTCOME_VERIFIED'')"
proof -
  have "schema_valid (VDict [(''operation_id'', VStr ''op''), (''published'', VBool True),
        (''report'', VDict [(''report_id'', VStr ''report-7''), (''version'', VInt 7)]), (''warnings'', VList [])])
        PUBLISH_REPORT_V1_OUTCOME_SCHEMA = Inr True" by code_simp
  then show ?thesis by (simp add: verify_publish_outcome_def parse_json_object_def outcome_library_def outcome_of_def example_call_def)
qed

lemma example_completed:
  "tw_jobs (tool_run outcome_library [CompleteCall example_call ''raw'' ''op''] (tool_world example_registry [] [example_job])) ''j1'' =
     Some (example_job\<lparr>jb_status := JobStatus.SUCCEEDED, jb_verified_operation_id := Some ''op''\<rparr>)"
  by (simp add: tool_run_def complete_verified_def example_verified tool_world_def CallJobStore_init_def guarded_complete_def
      job_matches_def job_terminal_def outcome_decision_def) (simp add: example_job_def example_call_def)

theorem job_success_verified_witness:
  "\<exists>call raw op. verifies outcome_library raw call op \<and> ac_job_id call = ''j1'' \<and>
     tw_jobs (tool_run outcome_library [MarkTimeout call] (tool_run outcome_library [CompleteCall example_call ''raw'' ''op'']
       (tool_world example_registry [] [example_job]))) ''j1'' =
       Some (example_job\<lparr>jb_status := JobStatus.SUCCEEDED, jb_verified_operation_id := Some op\<rparr>)"
  using job_success_verified [OF example_completed, of "[MarkTimeout example_call]"]
  by (fastforce simp: CallJobStore_init_def example_job_def job_terminal_def)

end
