(* ===== verification/Candidate_Admission.thy ===== *)
theory Candidate_Admission
  imports Response_Cache Tool_Contracts_Safety
begin

text \<open>
  \<^verbatim>\<open>src/projects/ai-agent/src/streaming_cache_batching.py\<close>, \<^verbatim>\<open>admit_complete_candidate\<close> and
  \<^verbatim>\<open>admit_cached_candidate\<close>: a streamed or a cached candidate reaches a tool only through the admission of
  \<^verbatim>\<open>Tool_Contracts\<close>.
\<close>

section \<open>Operations\<close>

definition admit_complete_candidate ::
    "JsonLibrary \<Rightarrow> CompleteCandidate \<Rightarrow> ToolRegistry \<Rightarrow> AuthContext \<Rightarrow> ReportStore \<Rightarrow> AdmissionDecision res" where
  "admit_complete_candidate lib candidate registry auth reports =
     admit_tool_call lib (cc_raw_output candidate) (cc_attempt_id candidate) (cc_job_id candidate) registry auth reports"

definition admit_cached_candidate ::
    "JsonLibrary \<Rightarrow> CacheLookupDecision \<Rightarrow> string \<Rightarrow> string \<Rightarrow> ToolRegistry \<Rightarrow> AuthContext \<Rightarrow> ReportStore \<Rightarrow> AdmissionDecision res" where
  "admit_cached_candidate lib decision current_attempt_id current_job_id registry auth reports =
     (if cl_status decision \<noteq> CacheLookupStatus.HIT then Inl (ValueError ''only a cache hit can be considered for Admission'')
      else case cl_candidate decision of
        None \<Rightarrow> Inl (ValueError ''cache hit is missing its candidate'')
      | Some candidate \<Rightarrow>
          admit_tool_call lib (cc_raw_output candidate) current_attempt_id current_job_id registry auth reports)"

section \<open>Properties\<close>

lemma admissible_identity:
  "admissible_call lib raw attempt_id job_id reg auth reports call \<Longrightarrow>
     ac_attempt_id call = attempt_id \<and> ac_job_id call = job_id \<and> ac_tenant_id call = au_tenant_id auth"
  by (auto simp: admissible_call_def admitted_call_def)

text \<open>Whoever the candidate was streamed for, an admitted call carries the tenant of the caller and the identity of the stream.\<close>

lemma streamed_candidate_bound:
  assumes "publishing reg" and "admit_complete_candidate lib candidate reg auth reports = Inr x" and "ad_admitted_call x = Some call"
  shows "ac_attempt_id call = cc_attempt_id candidate \<and> ac_job_id call = cc_job_id candidate \<and> ac_tenant_id call = au_tenant_id auth"
proof (rule admissible_identity)
  show "admissible_call lib (cc_raw_output candidate) (cc_attempt_id candidate) (cc_job_id candidate) reg auth reports call"
    using assms(2,3) admit_exact [OF assms(1), of lib "cc_raw_output candidate" "cc_attempt_id candidate" "cc_job_id candidate" auth reports]
    by (auto simp: admit_complete_candidate_def)
qed

text \<open>
  C13. After any history of cache writes and invalidations, a lookup followed by admission gives a call exactly
  when the caller is authorized for the key's tenant, the last request that affected the key wrote a storable
  entry that is unexpired and of the current resource version, and its raw output passes the full admission
  for the current registry, caller and reports, bound to the current attempt and job; the admission raises
  exactly when the lookup was not a hit or \<^verbatim>\<open>json.loads\<close> of the candidate's output raises something other than
  \<^verbatim>\<open>JSONDecodeError\<close> and \<^verbatim>\<open>TypeError\<close>. The registry is one whose tools all publish reports, as in C10.
\<close>

theorem cached_candidate_admission:
  assumes "publishing reg"
  shows "(let looked = cache_get (fold cache_step evs []) key now tenant authorized version;
              admission = admit_cached_candidate lib looked attempt_id job_id reg auth reports in
     ((\<exists>e. admission = Inl e) \<longleftrightarrow> cl_status looked \<noteq> CacheLookupStatus.HIT \<or>
        (\<exists>candidate e. cl_candidate looked = Some candidate \<and> jl_loads lib (cc_raw_output candidate) = Inl e \<and> \<not> json_error_caught e)) \<and>
     ((\<exists>x. admission = Inr x \<and> ad_admitted_call x = Some call) \<longleftrightarrow>
        tenant = ck_tenant_id key \<and> authorized \<and>
        (\<exists>entry. storable key entry \<and> last_with (\<lambda>ev. cache_effect key ev = None) (Put key entry) evs \<and>
           now < ce_expires_at entry \<and> ce_resource_version entry = version \<and> cc_tenant_id (ce_candidate entry) = tenant \<and>
           admissible_call lib (cc_raw_output (ce_candidate entry)) attempt_id job_id reg auth reports call)))"
proof -
  let ?looked = "cache_get (fold cache_step evs []) key now tenant authorized version"
  let ?entry = "\<lambda>entry. storable key entry \<and> last_with (\<lambda>ev. cache_effect key ev = None) (Put key entry) evs \<and>
    now < ce_expires_at entry \<and> ce_resource_version entry = version"
  have hit: "cl_candidate ?looked = Some c \<longleftrightarrow> tenant = ck_tenant_id key \<and> authorized \<and> (\<exists>entry. ?entry entry \<and> c = ce_candidate entry)" for c
    by (auto simp: cache_get_hit cache_history)
  show ?thesis
  proof (cases "cl_candidate ?looked")
    case None
    then have "\<not> (tenant = ck_tenant_id key \<and> authorized \<and> (\<exists>entry. ?entry entry))" using hit by auto
    with None show ?thesis by (auto simp: Let_def admit_cached_candidate_def cache_get_status)
  next
    case (Some c)
    then have "tenant = ck_tenant_id key \<and> authorized \<and> (\<exists>entry. ?entry entry \<and> c = ce_candidate entry)" by (rule hit [THEN iffD1])
    then obtain entry where e: "tenant = ck_tenant_id key" "authorized" "?entry entry" "c = ce_candidate entry" by blast
    have uniq: "ce_candidate e' = c" if "?entry e'" for e'
    proof -
      have "cl_candidate ?looked = Some (ce_candidate e')" by (rule hit [THEN iffD2]) (use that e(1,2) in blast)
      with Some show ?thesis by simp
    qed
    have tenant: "cc_tenant_id c = tenant" using e by (simp add: storable_def)
    have rhs: "(tenant = ck_tenant_id key \<and> authorized \<and>
        (\<exists>entry. storable key entry \<and> last_with (\<lambda>ev. cache_effect key ev = None) (Put key entry) evs \<and>
           now < ce_expires_at entry \<and> ce_resource_version entry = version \<and> cc_tenant_id (ce_candidate entry) = tenant \<and>
           admissible_call lib (cc_raw_output (ce_candidate entry)) attempt_id job_id reg auth reports call)) \<longleftrightarrow>
       admissible_call lib (cc_raw_output c) attempt_id job_id reg auth reports call"
      using e uniq tenant by metis
    let ?x = "admit_tool_call lib (cc_raw_output c) attempt_id job_id reg auth reports"
    have raises: "(\<exists>e. ?x = Inl e) \<longleftrightarrow> (\<exists>e. jl_loads lib (cc_raw_output c) = Inl e \<and> \<not> json_error_caught e)"
      using admit_exact [OF assms, of lib "cc_raw_output c" attempt_id job_id auth reports] unfolding json_escapes_def by blast
    have gives: "(\<exists>x. ?x = Inr x \<and> ad_admitted_call x = Some call) \<longleftrightarrow>
        admissible_call lib (cc_raw_output c) attempt_id job_id reg auth reports call"
      by (rule admitted_iff_admissible [OF assms])
    have status: "cl_status ?looked = CacheLookupStatus.HIT" using Some by (simp add: cache_get_status)
    have lhs: "admit_cached_candidate lib ?looked attempt_id job_id reg auth reports = ?x"
      by (simp add: admit_cached_candidate_def status Some)
    show ?thesis unfolding Let_def lhs rhs gives by (simp add: status raises Some)
  qed
qed

definition example_cached :: CacheableCandidate where
  "example_cached = (demo_cache_entry ''tenant-a'')\<lparr>ce_candidate := \<lparr>cc_tenant_id = ''tenant-a'', cc_job_id = ''old'',
     cc_attempt_id = ''old'', cc_stream_id = ''s'', cc_raw_output = ''call''\<rparr>\<rparr>"

theorem cached_candidate_admission_witness:
  "\<exists>call entry. admissible_call example_library (cc_raw_output (ce_candidate entry)) ''a1'' ''j1'' example_registry example_auth
       (ReportStore_init example_reports) call \<and> ce_resource_version entry = 1 \<and> storable (demo_cache_key ''tenant-a'') entry"
proof -
  let ?looked = "cache_get (fold cache_step [Put (demo_cache_key ''tenant-a'') example_cached] []) (demo_cache_key ''tenant-a'') 5 ''tenant-a'' True 1"
  have "cl_status ?looked = CacheLookupStatus.HIT \<and> cl_candidate ?looked = Some (ce_candidate example_cached)"
    by (simp add: cache_get_def cache_put_def demo_cache_key_def demo_cache_entry_def example_cached_def)
  then have "\<exists>x call. admit_cached_candidate example_library ?looked ''a1'' ''j1'' example_registry example_auth
      (ReportStore_init example_reports) = Inr x \<and> ad_admitted_call x = Some call"
    using example_admitted by (simp add: admit_cached_candidate_def) (simp add: example_cached_def)
  then obtain x call where x: "admit_cached_candidate example_library ?looked ''a1'' ''j1'' example_registry example_auth
      (ReportStore_init example_reports) = Inr x" "ad_admitted_call x = Some call" by blast
  have "publishing example_registry" by (rule one_tool_publishing [OF default_one_tool [OF example_registry_default]])
  from cached_candidate_admission [OF this, of "[Put (demo_cache_key ''tenant-a'') example_cached]" "demo_cache_key ''tenant-a''"
      5 "''tenant-a''" True 1 example_library "''a1''" "''j1''" example_auth "ReportStore_init example_reports" call] x
  show ?thesis unfolding Let_def by blast
qed

end
