(* ===== verification/Runtime_Safety.thy ===== *)
theory Runtime_Safety
  imports Application_Runtime Candidate_Admission
begin

text \<open>
  What the application runtime guarantees of its attempts, their external effects, compensations and cost,
  and the run of one attempt from its preparation to its completion.
\<close>

section \<open>The runtime under concurrency\<close>

text \<open>
  The attempt store, the tool registry and the executor as the requests of all workers change them, in lock
  order. The calls that have two critical sections, \<open>execute_admitted_tool\<close> and the completion, are one event
  per section: the admission and the fenced execution, the verified outcome. \<open>rw_effects\<close> are the fenced
  executions with their token and result, \<open>rw_claims\<close> the claims of compensations. A request that raises changes
  nothing.
\<close>

record RuntimeWorld =
  rw_store :: RuntimeAttemptStore
  rw_registry :: ToolRegistry
  rw_executor :: ToolExecutor
  rw_effects :: "(AdmittedToolCall \<times> int \<times> ExecutionResult) list"
  rw_claims :: "(string \<times> string) list"

datatype RuntimeEvent =
  PersistPrepared PreparedAttempt
| ClaimDispatch string string string
| MarkExecutionUnknown string string
| RecordAdmission string AdmittedToolCall
| ExecuteFenced AdmittedToolCall string int
| VerifyAndComplete string AdmittedToolCall ExecutionResult string
| CancelAfterEffect string
| CreateCompensation string string string
| ClaimCompensation string string
| MarkCompensationUnknown string string
| DisableRuntimeTool string string

definition with_store :: "RuntimeWorld \<Rightarrow> (RuntimeAttemptStore \<times> 'a) res \<Rightarrow> RuntimeWorld" where
  "with_store w r = (case r of Inl _ \<Rightarrow> w | Inr (st, _) \<Rightarrow> w\<lparr>rw_store := st\<rparr>)"

fun runtime_step :: "JsonLibrary \<Rightarrow> RuntimeEvent \<Rightarrow> RuntimeWorld \<Rightarrow> RuntimeWorld" where
  "runtime_step lib (PersistPrepared prepared) w =
     (case persist_prepared prepared (rw_store w) of Inl _ \<Rightarrow> w | Inr st \<Rightarrow> w\<lparr>rw_store := st\<rparr>)"
| "runtime_step lib (ClaimDispatch attempt_id hash worker_id) w =
     w\<lparr>rw_store := fst (runtime_claim_dispatch attempt_id hash worker_id (rw_store w))\<rparr>"
| "runtime_step lib (MarkExecutionUnknown attempt_id worker_id) w =
     with_store w (mark_provider_execution_unknown attempt_id worker_id (rw_store w))"
| "runtime_step lib (RecordAdmission worker_id call) w = with_store w (record_tool_admission worker_id call (rw_store w))"
| "runtime_step lib (ExecuteFenced call worker_id token) w =
     (case execute_admitted_with_fence call worker_id token (rw_registry w) (rw_executor w) (rw_store w) of
        Inl _ \<Rightarrow> w
      | Inr (executor, st, result) \<Rightarrow>
          w\<lparr>rw_store := st, rw_executor := executor, rw_effects := (call, token, result) # rw_effects w\<rparr>)"
| "runtime_step lib (VerifyAndComplete raw call execution worker_id) w =
     w\<lparr>rw_store := fst (verify_outcome_and_complete lib raw call execution worker_id (rw_store w))\<rparr>"
| "runtime_step lib (CancelAfterEffect attempt_id) w = with_store w (cancel_after_external_effect attempt_id (rw_store w))"
| "runtime_step lib (CreateCompensation compensation_id attempt_id key) w =
     with_store w (create_compensation compensation_id attempt_id key (rw_store w))"
| "runtime_step lib (ClaimCompensation compensation_id worker_id) w =
     (case claim_compensation compensation_id worker_id (rw_store w) of
        (st, None) \<Rightarrow> w\<lparr>rw_store := st\<rparr>
      | (st, Some _) \<Rightarrow> w\<lparr>rw_store := st, rw_claims := (compensation_id, worker_id) # rw_claims w\<rparr>)"
| "runtime_step lib (MarkCompensationUnknown compensation_id worker_id) w =
     with_store w (mark_compensation_unknown compensation_id worker_id (rw_store w))"
| "runtime_step lib (DisableRuntimeTool name version) w =
     (case tool_disable name version (rw_registry w) of Inl _ \<Rightarrow> w | Inr reg \<Rightarrow> w\<lparr>rw_registry := reg\<rparr>)"

definition runtime_world :: "ToolRegistry \<Rightarrow> RuntimeWorld" where
  "runtime_world reg = \<lparr>rw_store = RuntimeAttemptStore_init, rw_registry = reg, rw_executor = ToolExecutor_init, rw_effects = [], rw_claims = []\<rparr>"

section \<open>Moves of an attempt\<close>

fun attempt_rank :: "RuntimeAttemptStatus \<Rightarrow> int" where
  "attempt_rank RuntimeAttemptStatus.PREPARED = 0"
| "attempt_rank RuntimeAttemptStatus.DISPATCH_CLAIMED = 1"
| "attempt_rank RuntimeAttemptStatus.TOOL_ADMITTED = 2"
| "attempt_rank RuntimeAttemptStatus.TOOL_EXECUTED = 3"
| "attempt_rank _ = 4"

text \<open>The statuses that only an execution that took place leads to.\<close>

definition effect_statuses :: "RuntimeAttemptStatus set" where
  "effect_statuses = {RuntimeAttemptStatus.TOOL_EXECUTED, RuntimeAttemptStatus.OUTCOME_REJECTED, RuntimeAttemptStatus.CANCELLED,
     RuntimeAttemptStatus.COMPLETED}"

text \<open>
  A move of one record: the claim, a step of its owner, or the cancellation. Every operation of the store makes
  such a move or none.
\<close>

definition claim_move :: "string \<Rightarrow> int \<Rightarrow> RuntimeAttemptRecord \<Rightarrow> RuntimeAttemptRecord \<Rightarrow> bool" where
  "claim_move worker token r r' \<longleftrightarrow> rta_status r = RuntimeAttemptStatus.PREPARED \<and>
     r' = r\<lparr>rta_status := RuntimeAttemptStatus.DISPATCH_CLAIMED, rta_claimed_by := Some worker, rta_fence_token := Some token,
            rta_reason := ''dispatch_claimed''\<rparr>"

definition late_move :: "RuntimeAttemptRecord \<Rightarrow> RuntimeAttemptRecord \<Rightarrow> bool" where
  "late_move r r' \<longleftrightarrow> rta_prepared r' = rta_prepared r \<and> rta_claimed_by r' = rta_claimed_by r \<and> rta_fence_token r' = rta_fence_token r \<and>
     rta_status r \<noteq> RuntimeAttemptStatus.PREPARED \<and> attempt_rank (rta_status r) < attempt_rank (rta_status r') \<and>
     (2 < attempt_rank (rta_status r) \<longrightarrow> rta_tool_call_id r' = rta_tool_call_id r \<and>
        rta_tool_idempotency_key r' = rta_tool_idempotency_key r \<and> rta_operation_id r' = rta_operation_id r)"

lemma dispatch_claim_cases:
  "fst (runtime_claim_dispatch a h worker st) = st \<or>
   (\<exists>r r'. ras_records st a = Some r \<and> claim_move worker (ras_next_fence_token st + 1) r r' \<and>
      fst (runtime_claim_dispatch a h worker st) = (put_record a r' st)\<lparr>ras_next_fence_token := ras_next_fence_token st + 1\<rparr>)"
  by (auto simp: runtime_claim_dispatch_def claim_move_def Let_def split: option.splits)

lemma owned_Inr: "runtime_owned a worker st = Inr r \<longleftrightarrow> ras_records st a = Some r \<and> rta_claimed_by r = Some worker"
  by (auto simp: runtime_owned_def split: option.splits)

lemma mark_unknown_cases:
  assumes "mark_provider_execution_unknown a worker st = Inr (st', x)"
  shows "\<exists>r. ras_records st a = Some r \<and> late_move r x \<and> rta_status x = RuntimeAttemptStatus.PENDING_RECONCILIATION \<and> st' = put_record a x st"
  using assms by (auto simp: mark_provider_execution_unknown_def bind_res_eq_Inr owned_Inr Let_def late_move_def split: if_splits)

lemma admission_cases:
  assumes "record_tool_admission worker call st = Inr (st', x)"
  shows "\<exists>r. ras_records st (ac_attempt_id call) = Some r \<and> late_move r x \<and> rta_status x = RuntimeAttemptStatus.TOOL_ADMITTED \<and>
    st' = put_record (ac_attempt_id call) x st"
  using assms by (auto simp: record_tool_admission_def bind_res_eq_Inr owned_Inr Let_def late_move_def split: if_splits)

lemma outcome_cases:
  assumes "record_outcome worker call op outcome st = Inr (st', x)"
  shows "\<exists>r. ras_records st (ac_attempt_id call) = Some r \<and> late_move r x \<and> rta_status r = RuntimeAttemptStatus.TOOL_EXECUTED \<and>
    rta_tool_call_id r = Some (ac_tool_call_id call) \<and> rta_operation_id r = Some op \<and> rta_status x = outcome_status outcome \<and>
    st' = put_record (ac_attempt_id call) x st"
  using assms by (auto simp: record_outcome_def bind_res_eq_Inr owned_Inr Let_def late_move_def outcome_status_def split: if_splits)

lemma completion_cases:
  "fst (verify_outcome_and_complete lib raw call execution worker st) = st \<or>
   (\<exists>op outcome st' x. ex_operation_id execution = Some op \<and> verify_publish_outcome lib raw call op = Inr outcome \<and>
      record_outcome worker call op outcome st = Inr (st', x) \<and> fst (verify_outcome_and_complete lib raw call execution worker st) = st')"
  by (auto simp: verify_outcome_and_complete_def split: option.splits sum.splits)

lemma cancel_cases:
  assumes "cancel_after_external_effect a st = Inr (st', x)"
  shows "\<exists>r. ras_records st a = Some r \<and> late_move r x \<and> rta_status r = RuntimeAttemptStatus.TOOL_EXECUTED \<and>
    rta_status x = RuntimeAttemptStatus.CANCELLED \<and> st' = put_record a x st"
  using assms by (auto simp: cancel_after_external_effect_def Let_def late_move_def split: option.splits if_splits)

lemma execution_cases:
  assumes "record_tool_execution a worker result st = Inr (st', x)"
  shows "\<exists>r. ras_records st a = Some r \<and> late_move r x \<and> rta_tool_call_id x = rta_tool_call_id r \<and>
    rta_tool_idempotency_key x = rta_tool_idempotency_key r \<and> rta_operation_id x = ex_operation_id result \<and>
    rta_status x = (if was_executed result then RuntimeAttemptStatus.TOOL_EXECUTED else RuntimeAttemptStatus.TOOL_EXECUTION_BLOCKED) \<and>
    st' = put_record a x st"
  using assms by (auto simp: record_tool_execution_def bind_res_eq_Inr owned_Inr Let_def late_move_def split: if_splits)

lemma fenced_cases:
  assumes "execute_admitted_with_fence call worker token reg executor st = Inr (executor', st', result)"
  shows "\<exists>r r'. ras_records st (ac_attempt_id call) = Some r \<and> late_move r r' \<and> rta_status r = RuntimeAttemptStatus.TOOL_ADMITTED \<and>
    rta_claimed_by r = Some worker \<and> rta_fence_token r = Some token \<and>
    rta_tool_call_id r' = Some (ac_tool_call_id call) \<and> rta_tool_idempotency_key r' = Some (ac_idempotency_key call) \<and>
    rta_operation_id r' = ex_operation_id result \<and>
    rta_status r' = (if was_executed result then RuntimeAttemptStatus.TOOL_EXECUTED else RuntimeAttemptStatus.TOOL_EXECUTION_BLOCKED) \<and>
    st' = put_record (ac_attempt_id call) r' st \<and> tool_execute call reg executor = (executor', result)"
proof -
  from assms obtain r where r: "ras_records st (ac_attempt_id call) = Some r" "rta_claimed_by r = Some worker"
    "rta_status r = RuntimeAttemptStatus.TOOL_ADMITTED" "rta_fence_token r = Some token"
    "rta_tool_call_id r = Some (ac_tool_call_id call)" "rta_tool_idempotency_key r = Some (ac_idempotency_key call)"
    and x: "tool_execute call reg executor = (executor', result)" "\<exists>x. record_tool_execution (ac_attempt_id call) worker result st = Inr (st', x)"
    by (auto simp: execute_admitted_with_fence_def bind_res_eq_Inr owned_Inr split: if_splits prod.splits)
  from x(2) obtain y where "record_tool_execution (ac_attempt_id call) worker result st = Inr (st', y)" by blast
  from execution_cases [OF this] r x(1) show ?thesis by (intro exI [of _ r] exI [of _ y]) auto
qed

text \<open>What keeps the invariant: the claim, and a late move with what it adds to the evidence.\<close>

definition record_ok :: "int \<Rightarrow> RuntimeAttemptRecord \<Rightarrow> bool" where
  "record_ok n r \<longleftrightarrow> (if rta_status r = RuntimeAttemptStatus.PREPARED then rta_fence_token r = None
     else \<exists>f. rta_fence_token r = Some f \<and> 1 \<le> f \<and> f \<le> n)"

definition effect_recorded :: "RuntimeAttemptRecord \<Rightarrow> AdmittedToolCall \<times> int \<times> ExecutionResult \<Rightarrow> bool" where
  "effect_recorded r e = (case e of (call, token, result) \<Rightarrow>
     2 < attempt_rank (rta_status r) \<and> rta_fence_token r = Some token \<and> rta_tool_call_id r = Some (ac_tool_call_id call) \<and>
     rta_tool_idempotency_key r = Some (ac_idempotency_key call) \<and> rta_operation_id r = ex_operation_id result)"

definition verified_by :: "JsonLibrary \<Rightarrow> RuntimeEvent list \<Rightarrow> string \<Rightarrow> RuntimeAttemptRecord \<Rightarrow> bool" where
  "verified_by lib es a r \<longleftrightarrow> (\<exists>raw call execution worker op. VerifyAndComplete raw call execution worker \<in> set es \<and>
     ac_attempt_id call = a \<and> rta_operation_id r = Some op \<and> rta_tool_call_id r = Some (ac_tool_call_id call) \<and> verifies lib raw call op)"

definition effect_attempt :: "AdmittedToolCall \<times> int \<times> ExecutionResult \<Rightarrow> string" where
  "effect_attempt e = ac_attempt_id (fst e)"

definition attempts_inv :: "JsonLibrary \<Rightarrow> RuntimeEvent list \<Rightarrow> RuntimeWorld \<Rightarrow> bool" where
  "attempts_inv lib es w \<longleftrightarrow>
     (\<forall>a r. ras_records (rw_store w) a = Some r \<longrightarrow> record_ok (ras_next_fence_token (rw_store w)) r \<and>
        (rta_status r \<in> effect_statuses \<longrightarrow> (\<exists>e\<in>set (rw_effects w). effect_attempt e = a \<and> was_executed (snd (snd e)))) \<and>
        (rta_status r = RuntimeAttemptStatus.COMPLETED \<longrightarrow> verified_by lib es a r)) \<and>
     (\<forall>a a' r r' f. ras_records (rw_store w) a = Some r \<longrightarrow> ras_records (rw_store w) a' = Some r' \<longrightarrow>
        rta_fence_token r = Some f \<longrightarrow> rta_fence_token r' = Some f \<longrightarrow> a = a') \<and>
     distinct (map effect_attempt (rw_effects w)) \<and> 0 \<le> ras_next_fence_token (rw_store w) \<and>
     (\<forall>e\<in>set (rw_effects w). \<exists>r. ras_records (rw_store w) (effect_attempt e) = Some r \<and> effect_recorded r e)"

lemma attempts_invD:
  assumes "attempts_inv lib es w" and "ras_records (rw_store w) a = Some r"
  shows "record_ok (ras_next_fence_token (rw_store w)) r"
    and "rta_status r \<in> effect_statuses \<Longrightarrow> \<exists>e\<in>set (rw_effects w). effect_attempt e = a \<and> was_executed (snd (snd e))"
    and "rta_status r = RuntimeAttemptStatus.COMPLETED \<Longrightarrow> verified_by lib es a r"
  using assms unfolding attempts_inv_def by blast+

lemma token_nonneg: "attempts_inv lib es w \<Longrightarrow> 0 \<le> ras_next_fence_token (rw_store w)"
  unfolding attempts_inv_def by blast

lemma attempts_inv_fence:
  assumes "attempts_inv lib es w" and "ras_records (rw_store w) a = Some r" and "ras_records (rw_store w) a' = Some r'"
    and "rta_fence_token r = Some f" and "rta_fence_token r' = Some f"
  shows "a = a'"
  using assms unfolding attempts_inv_def by blast

lemma attempts_inv_effect:
  assumes "attempts_inv lib es w" and "e \<in> set (rw_effects w)"
  shows "\<exists>r. ras_records (rw_store w) (effect_attempt e) = Some r \<and> effect_recorded r e"
  using assms unfolding attempts_inv_def by blast

lemma verified_mono: "verified_by lib es a r \<Longrightarrow> set es \<subseteq> set es' \<Longrightarrow> verified_by lib es' a r"
  unfolding verified_by_def by blast

lemma attempts_inv_mono:
  assumes "attempts_inv lib es w" and "set es \<subseteq> set es'"
  shows "attempts_inv lib es' w"
  using assms(1) verified_mono [OF _ assms(2), of lib] unfolding attempts_inv_def by blast

lemma late_inv:
  assumes inv: "attempts_inv lib es w" and cur: "ras_records (rw_store w) a = Some r" and move: "late_move r r'"
    and st: "rw_store w' = put_record a r' (rw_store w)" and eff: "rw_effects w' = new' @ rw_effects w"
    and new': "new' = [] \<or> (\<exists>e. new' = [e] \<and> effect_attempt e = a \<and> effect_recorded r' e \<and> attempt_rank (rta_status r) \<le> 2)"
    and kept: "rta_status r' \<in> effect_statuses \<longrightarrow> rta_status r \<in> effect_statuses \<or> (\<exists>e. new' = [e] \<and> was_executed (snd (snd e)))"
    and done': "rta_status r' = RuntimeAttemptStatus.COMPLETED \<longrightarrow> verified_by lib es a r'"
  shows "attempts_inv lib es w'"
  unfolding attempts_inv_def
proof (intro conjI allI impI ballI)
  have rec: "ras_records (rw_store w') b = (if b = a then Some r' else ras_records (rw_store w) b)" for b
    by (simp add: st put_record_def)
  have n: "ras_next_fence_token (rw_store w') = ras_next_fence_token (rw_store w)" by (simp add: st put_record_def)
  note m = move [unfolded late_move_def]
  note ok = attempts_invD(1) [OF inv cur, unfolded record_ok_def]
  fix b q assume q: "ras_records (rw_store w') b = Some q"
  show "record_ok (ras_next_fence_token (rw_store w')) q"
  proof (cases "b = a")
    case True
    then have "q = r'" using q rec by simp
    moreover have "rta_status r' \<noteq> RuntimeAttemptStatus.PREPARED" using m by (cases "rta_status r") auto
    ultimately show ?thesis using ok m n by (simp add: record_ok_def)
  next
    case False
    then show ?thesis using q rec n attempts_invD(1) [OF inv] by simp
  qed
  show "\<exists>e\<in>set (rw_effects w'). effect_attempt e = b \<and> was_executed (snd (snd e))" if s: "rta_status q \<in> effect_statuses"
  proof (cases "b = a")
    case True
    then have "q = r'" using q rec by simp
    with s kept consider "rta_status r \<in> effect_statuses" | e where "new' = [e]" "was_executed (snd (snd e))" by blast
    then show ?thesis
    proof cases
      case 1
      with attempts_invD(2) [OF inv cur] True eff show ?thesis by auto
    next
      case 2
      with new' True eff show ?thesis by auto
    qed
  next
    case False
    then have "ras_records (rw_store w) b = Some q" using q rec by simp
    from attempts_invD(2) [OF inv this s] eff show ?thesis by auto
  qed
  show "verified_by lib es b q" if "rta_status q = RuntimeAttemptStatus.COMPLETED"
    using q rec done' attempts_invD(3) [OF inv] that by (cases "b = a") auto
  fix b' q' f assume q': "ras_records (rw_store w') b' = Some q'" and f: "rta_fence_token q = Some f" "rta_fence_token q' = Some f"
  obtain p where p: "ras_records (rw_store w) b = Some p" "rta_fence_token p = Some f" using q f(1) rec cur m by (cases "b = a") auto
  obtain p' where p': "ras_records (rw_store w) b' = Some p'" "rta_fence_token p' = Some f" using q' f(2) rec cur m by (cases "b' = a") auto
  show "b = b'" by (rule attempts_inv_fence [OF inv p(1) p'(1) p(2) p'(2)])
next
  have rank: "2 < attempt_rank (rta_status r)" if "e \<in> set (rw_effects w)" "effect_attempt e = a" for e
    using attempts_inv_effect [OF inv that(1)] that(2) cur by (auto simp: effect_recorded_def split: prod.splits)
  have "distinct (map effect_attempt (rw_effects w))" using inv unfolding attempts_inv_def by blast
  with new' rank show "distinct (map effect_attempt (rw_effects w'))" by (force simp: eff)
  show "0 \<le> ras_next_fence_token (rw_store w')" using token_nonneg [OF inv] by (simp add: st put_record_def)
  fix e assume "e \<in> set (rw_effects w')"
  then consider "e \<in> set (rw_effects w)" "effect_attempt e \<noteq> a" | "e \<in> set (rw_effects w)" "effect_attempt e = a" | "new' = [e]" using eff new' by auto
  then show "\<exists>q. ras_records (rw_store w') (effect_attempt e) = Some q \<and> effect_recorded q e"
  proof cases
    case 1
    with attempts_inv_effect [OF inv 1(1)] show ?thesis by (simp add: st put_record_def)
  next
    case 2
    from attempts_inv_effect [OF inv 2(1)] 2(2) cur have "effect_recorded r e" by simp
    then have "effect_recorded r' e" using move rank [OF 2] by (auto simp: effect_recorded_def late_move_def split: prod.splits)
    with 2 show ?thesis by (simp add: st put_record_def)
  next
    case 3
    with new' show ?thesis by (auto simp: st put_record_def)
  qed
qed

lemma claim_inv:
  assumes inv: "attempts_inv lib es w" and cur: "ras_records (rw_store w) a = Some r"
    and move: "claim_move worker (ras_next_fence_token (rw_store w) + 1) r r'"
  shows "attempts_inv lib es (w\<lparr>rw_store := (put_record a r' (rw_store w))\<lparr>ras_next_fence_token := ras_next_fence_token (rw_store w) + 1\<rparr>\<rparr>)"
  unfolding attempts_inv_def
proof (intro conjI allI impI ballI)
  let ?n = "ras_next_fence_token (rw_store w)"
  let ?w = "w\<lparr>rw_store := (put_record a r' (rw_store w))\<lparr>ras_next_fence_token := ?n + 1\<rparr>\<rparr>"
  have rec: "ras_records (rw_store ?w) b = (if b = a then Some r' else ras_records (rw_store w) b)" for b by (simp add: put_record_def)
  note m = move [unfolded claim_move_def]
  have fence': "rta_fence_token r' = Some (?n + 1)" "rta_status r' = RuntimeAttemptStatus.DISPATCH_CLAIMED" "rta_fence_token r = None"
    using m attempts_invD(1) [OF inv cur] by (simp_all add: record_ok_def)
  have bound: "rta_fence_token q \<noteq> Some (?n + 1)" if "ras_records (rw_store w) b = Some q" for b q
    using attempts_invD(1) [OF inv that] by (auto simp: record_ok_def split: if_splits)
  have token: "0 \<le> ?n" using token_nonneg [OF inv] .
  fix b q assume q: "ras_records (rw_store ?w) b = Some q"
  show "record_ok (ras_next_fence_token (rw_store ?w)) q"
  proof (cases "b = a")
    case True
    then show ?thesis using q rec fence' token by (simp add: record_ok_def)
  next
    case False
    then have "record_ok ?n q" using q rec attempts_invD(1) [OF inv] by simp
    then show ?thesis by (auto simp: record_ok_def)
  qed
  show "\<exists>e\<in>set (rw_effects ?w). effect_attempt e = b \<and> was_executed (snd (snd e))" if "rta_status q \<in> effect_statuses"
    using q rec fence'(2) attempts_invD(2) [OF inv] that by (cases "b = a") (auto simp: effect_statuses_def)
  show "verified_by lib es b q" if "rta_status q = RuntimeAttemptStatus.COMPLETED"
    using q rec fence'(2) attempts_invD(3) [OF inv] that by (cases "b = a") auto
  fix b' q' f assume q': "ras_records (rw_store ?w) b' = Some q'" and f: "rta_fence_token q = Some f" "rta_fence_token q' = Some f"
  show "b = b'"
  proof (cases "b = a \<or> b' = a")
    case True
    then show ?thesis using q q' f rec fence'(1) bound [of b q] bound [of b' q'] by (auto split: if_splits)
  next
    case False
    then have "ras_records (rw_store w) b = Some q" "ras_records (rw_store w) b' = Some q'" using q q' rec by simp_all
    from attempts_inv_fence [OF inv this f] show ?thesis .
  qed
next
  show "distinct (map effect_attempt (rw_effects (w\<lparr>rw_store := (put_record a r' (rw_store w))\<lparr>ras_next_fence_token := ras_next_fence_token (rw_store w) + 1\<rparr>\<rparr>)))"
    using inv unfolding attempts_inv_def by simp
  show "0 \<le> ras_next_fence_token (rw_store (w\<lparr>rw_store := (put_record a r' (rw_store w))\<lparr>ras_next_fence_token := ras_next_fence_token (rw_store w) + 1\<rparr>\<rparr>))"
    using token_nonneg [OF inv] by simp
  fix e assume "e \<in> set (rw_effects (w\<lparr>rw_store := (put_record a r' (rw_store w))\<lparr>ras_next_fence_token := ras_next_fence_token (rw_store w) + 1\<rparr>\<rparr>))"
  then have e: "e \<in> set (rw_effects w)" by simp
  have "effect_attempt e \<noteq> a" using attempts_inv_effect [OF inv e] cur move
    by (cases e) (auto simp: effect_recorded_def claim_move_def)
  with attempts_inv_effect [OF inv e] show "\<exists>q. ras_records (rw_store (w\<lparr>rw_store := (put_record a r' (rw_store w))
      \<lparr>ras_next_fence_token := ras_next_fence_token (rw_store w) + 1\<rparr>\<rparr>)) (effect_attempt e) = Some q \<and> effect_recorded q e"
    by (simp add: put_record_def)
qed

lemma persist_inv:
  assumes inv: "attempts_inv lib es w" and p: "persist_prepared prepared (rw_store w) = Inr st"
  shows "attempts_inv lib es (w\<lparr>rw_store := st\<rparr>)"
proof -
  let ?a = "ec_attempt_id (pre_provider_binding prepared)"
  obtain r where none: "ras_records (rw_store w) ?a = None" and r: "st = put_record ?a r (rw_store w)"
    "rta_status r = RuntimeAttemptStatus.PREPARED" "rta_fence_token r = None"
    using p by (auto simp: persist_prepared_def Let_def split: if_splits)
  have rec: "ras_records st b = (if b = ?a then Some r else ras_records (rw_store w) b)"
    and n: "ras_next_fence_token st = ras_next_fence_token (rw_store w)" for b by (simp_all add: r(1) put_record_def)
  have effects: "effect_attempt e \<noteq> ?a" if "e \<in> set (rw_effects w)" for e using attempts_inv_effect [OF inv that] none by auto
  show ?thesis
    unfolding attempts_inv_def
  proof (intro conjI allI impI ballI)
    fix b q assume q: "ras_records (rw_store (w\<lparr>rw_store := st\<rparr>)) b = Some q"
    show "record_ok (ras_next_fence_token (rw_store (w\<lparr>rw_store := st\<rparr>))) q"
      using q rec n r attempts_invD(1) [OF inv] by (cases "b = ?a") (auto simp: record_ok_def)
    show "\<exists>e\<in>set (rw_effects (w\<lparr>rw_store := st\<rparr>)). effect_attempt e = b \<and> was_executed (snd (snd e))" if "rta_status q \<in> effect_statuses"
      using q rec r attempts_invD(2) [OF inv] that by (cases "b = ?a") (auto simp: effect_statuses_def)
    show "verified_by lib es b q" if "rta_status q = RuntimeAttemptStatus.COMPLETED"
      using q rec r attempts_invD(3) [OF inv] that by (cases "b = ?a") auto
    fix b' q' f assume q': "ras_records (rw_store (w\<lparr>rw_store := st\<rparr>)) b' = Some q'" and f: "rta_fence_token q = Some f" "rta_fence_token q' = Some f"
    have "b \<noteq> ?a" "b' \<noteq> ?a" using q q' f rec r by auto
    then have "ras_records (rw_store w) b = Some q" "ras_records (rw_store w) b' = Some q'" using q q' rec by simp_all
    from attempts_inv_fence [OF inv this f] show "b = b'" .
  next
    show "distinct (map effect_attempt (rw_effects (w\<lparr>rw_store := st\<rparr>)))" using inv unfolding attempts_inv_def by simp
    show "0 \<le> ras_next_fence_token (rw_store (w\<lparr>rw_store := st\<rparr>))" using token_nonneg [OF inv] n by simp
    fix e assume "e \<in> set (rw_effects (w\<lparr>rw_store := st\<rparr>))"
    then have e: "e \<in> set (rw_effects w)" by simp
    with attempts_inv_effect [OF inv e] effects [OF e] rec
    show "\<exists>q. ras_records (rw_store (w\<lparr>rw_store := st\<rparr>)) (effect_attempt e) = Some q \<and> effect_recorded q e" by simp
  qed
qed

lemma same_attempts_inv:
  "attempts_inv lib es w \<Longrightarrow> ras_records (rw_store w') = ras_records (rw_store w) \<Longrightarrow>
   ras_next_fence_token (rw_store w') = ras_next_fence_token (rw_store w) \<Longrightarrow> rw_effects w' = rw_effects w \<Longrightarrow> attempts_inv lib es w'"
  unfolding attempts_inv_def by simp

text \<open>A move that records no effect.\<close>

lemma quiet_inv:
  assumes "attempts_inv lib es w" and "ras_records (rw_store w) a = Some r" and "late_move r r'"
    and "rta_status r' \<in> effect_statuses \<longrightarrow> rta_status r = RuntimeAttemptStatus.TOOL_EXECUTED"
    and "rta_status r' = RuntimeAttemptStatus.COMPLETED \<longrightarrow> verified_by lib es a r'"
  shows "attempts_inv lib es (w\<lparr>rw_store := put_record a r' (rw_store w)\<rparr>)"
  by (rule late_inv [OF assms(1-3), of _ "[]"]) (use assms(4,5) in \<open>auto simp: effect_statuses_def\<close>)

lemma compensation_records:
  "create_compensation c a k st = Inr (st', x) \<Longrightarrow> ras_records st' = ras_records st \<and> ras_next_fence_token st' = ras_next_fence_token st"
  "claim_compensation c worker st = (st', y) \<Longrightarrow> ras_records st' = ras_records st \<and> ras_next_fence_token st' = ras_next_fence_token st"
  "mark_compensation_unknown c worker st = Inr (st', x) \<Longrightarrow> ras_records st' = ras_records st \<and> ras_next_fence_token st' = ras_next_fence_token st"
  by (auto simp: create_compensation_def claim_compensation_def mark_compensation_unknown_def Let_def
      split: option.splits if_splits bool.splits prod.splits)

lemma runtime_step_inv:
  assumes "attempts_inv lib es w"
  shows "attempts_inv lib (es @ [e]) (runtime_step lib e w)"
proof -
  have inv: "attempts_inv lib (es @ [e]) w" by (rule attempts_inv_mono [OF assms]) auto
  show ?thesis
  proof (cases e)
    case (PersistPrepared prepared)
    then show ?thesis using inv persist_inv [OF inv] by (auto split: sum.splits)
  next
    case (ClaimDispatch a h worker)
    show ?thesis using dispatch_claim_cases [of a h worker "rw_store w"] inv claim_inv [OF inv] by (auto simp: ClaimDispatch)
  next
    case (MarkExecutionUnknown a worker)
    show ?thesis
    proof (cases "mark_provider_execution_unknown a worker (rw_store w)")
      case (Inr p)
      obtain st x where p: "p = (st, x)" by fastforce
      from mark_unknown_cases [OF Inr [unfolded p]] obtain r where "ras_records (rw_store w) a = Some r" "late_move r x"
        "rta_status x = RuntimeAttemptStatus.PENDING_RECONCILIATION" "st = put_record a x (rw_store w)" by blast
      with quiet_inv [OF inv, of a r x] Inr p show ?thesis by (simp add: MarkExecutionUnknown with_store_def effect_statuses_def)
    qed (use inv in \<open>simp add: MarkExecutionUnknown with_store_def\<close>)
  next
    case (RecordAdmission worker call)
    show ?thesis
    proof (cases "record_tool_admission worker call (rw_store w)")
      case (Inr p)
      obtain st x where p: "p = (st, x)" by fastforce
      from admission_cases [OF Inr [unfolded p]] obtain r where "ras_records (rw_store w) (ac_attempt_id call) = Some r" "late_move r x"
        "rta_status x = RuntimeAttemptStatus.TOOL_ADMITTED" "st = put_record (ac_attempt_id call) x (rw_store w)" by blast
      with quiet_inv [OF inv, of "ac_attempt_id call" r x] Inr p show ?thesis by (simp add: RecordAdmission with_store_def effect_statuses_def)
    qed (use inv in \<open>simp add: RecordAdmission with_store_def\<close>)
  next
    case (ExecuteFenced call worker token)
    show ?thesis
    proof (cases "execute_admitted_with_fence call worker token (rw_registry w) (rw_executor w) (rw_store w)")
      case (Inr p)
      obtain ex st result where p: "p = (ex, st, result)" by (cases p) auto
      from fenced_cases [OF Inr [unfolded p]] obtain r r' where f: "ras_records (rw_store w) (ac_attempt_id call) = Some r" "late_move r r'"
        "rta_status r = RuntimeAttemptStatus.TOOL_ADMITTED" "rta_fence_token r = Some token" "rta_tool_call_id r' = Some (ac_tool_call_id call)"
        "rta_tool_idempotency_key r' = Some (ac_idempotency_key call)" "rta_operation_id r' = ex_operation_id result"
        "rta_status r' = (if was_executed result then RuntimeAttemptStatus.TOOL_EXECUTED else RuntimeAttemptStatus.TOOL_EXECUTION_BLOCKED)"
        "st = put_record (ac_attempt_id call) r' (rw_store w)" by blast
      have "effect_recorded r' (call, token, result)" using f by (auto simp: effect_recorded_def late_move_def)
      then have "attempts_inv lib (es @ [e]) (w\<lparr>rw_store := st, rw_executor := ex, rw_effects := (call, token, result) # rw_effects w\<rparr>)"
        by (intro late_inv [OF inv f(1,2), of _ "[(call, token, result)]"])
          (use f in \<open>auto simp: effect_attempt_def effect_statuses_def\<close>)
      with Inr p show ?thesis by (simp add: ExecuteFenced)
    qed (use inv in \<open>simp add: ExecuteFenced\<close>)
  next
    case (VerifyAndComplete raw call execution worker)
    from completion_cases [of lib raw call execution worker "rw_store w"] show ?thesis
    proof (elim disjE exE conjE)
      assume "fst (verify_outcome_and_complete lib raw call execution worker (rw_store w)) = rw_store w"
      with inv show ?thesis by (simp add: VerifyAndComplete)
    next
      fix op outcome st x assume o': "ex_operation_id execution = Some op" "verify_publish_outcome lib raw call op = Inr outcome"
        "record_outcome worker call op outcome (rw_store w) = Inr (st, x)"
        "fst (verify_outcome_and_complete lib raw call execution worker (rw_store w)) = st"
      from outcome_cases [OF o'(3)] obtain r where r: "ras_records (rw_store w) (ac_attempt_id call) = Some r" "late_move r x"
        "rta_status r = RuntimeAttemptStatus.TOOL_EXECUTED" "rta_tool_call_id r = Some (ac_tool_call_id call)" "rta_operation_id r = Some op"
        "rta_status x = outcome_status outcome" "st = put_record (ac_attempt_id call) x (rw_store w)" by blast
      have same: "rta_tool_call_id x = rta_tool_call_id r" "rta_operation_id x = rta_operation_id r" using r(2,3) by (simp_all add: late_move_def)
      have "verified_by lib (es @ [e]) (ac_attempt_id call) x" if "rta_status x = RuntimeAttemptStatus.COMPLETED"
      proof -
        have "od_status outcome = OutcomeStatus.VERIFIED" using that r(6) by (simp add: outcome_status_def split: if_splits)
        with verify_exact [of lib raw call op] o'(2) have "verifies lib raw call op" by blast
        then show ?thesis using VerifyAndComplete r(4,5) same unfolding verified_by_def by fastforce
      qed
      with quiet_inv [OF inv r(1,2)] r(3) o'(4) r(7) show ?thesis by (simp add: VerifyAndComplete)
    qed
  next
    case (CancelAfterEffect a)
    show ?thesis
    proof (cases "cancel_after_external_effect a (rw_store w)")
      case (Inr p)
      obtain st x where p: "p = (st, x)" by fastforce
      from cancel_cases [OF Inr [unfolded p]] obtain r where "ras_records (rw_store w) a = Some r" "late_move r x"
        "rta_status r = RuntimeAttemptStatus.TOOL_EXECUTED" "rta_status x = RuntimeAttemptStatus.CANCELLED" "st = put_record a x (rw_store w)" by blast
      with quiet_inv [OF inv, of a r x] Inr p show ?thesis by (simp add: CancelAfterEffect with_store_def)
    qed (use inv in \<open>simp add: CancelAfterEffect with_store_def\<close>)
  next
    case (CreateCompensation c a k)
    show ?thesis by (cases "create_compensation c a k (rw_store w)")
      (use inv in \<open>auto simp: CreateCompensation with_store_def split: prod.splits dest!: compensation_records(1) intro: same_attempts_inv\<close>)
  next
    case (ClaimCompensation c worker)
    obtain st y where "claim_compensation c worker (rw_store w) = (st, y)" by fastforce
    with compensation_records(2) [OF this] inv show ?thesis
      by (cases y) (auto simp: ClaimCompensation intro: same_attempts_inv)
  next
    case (MarkCompensationUnknown c worker)
    show ?thesis by (cases "mark_compensation_unknown c worker (rw_store w)")
      (use inv in \<open>auto simp: MarkCompensationUnknown with_store_def split: prod.splits dest!: compensation_records(3) intro: same_attempts_inv\<close>)
  next
    case (DisableRuntimeTool n v)
    show ?thesis by (cases "tool_disable n v (rw_registry w)")
      (use inv in \<open>auto simp: DisableRuntimeTool intro: same_attempts_inv\<close>)
  qed
qed

lemma runtime_run_inv: "attempts_inv lib es (fold (runtime_step lib) es (runtime_world reg))"
proof (induction es rule: rev_induct)
  case Nil
  then show ?case by (simp add: attempts_inv_def runtime_world_def RuntimeAttemptStore_init_def)
next
  case (snoc e es)
  from runtime_step_inv [OF this, of e] show ?case by simp
qed

section \<open>Records only move forward\<close>

lemma put_evolves:
  assumes "ras_records st a = Some r" and "rta_prepared r' = rta_prepared r" and "attempt_rank (rta_status r) < attempt_rank (rta_status r')"
    and "ras_records st b = Some q"
  shows "\<exists>q'. ras_records (put_record a r' st) b = Some q' \<and> rta_prepared q' = rta_prepared q \<and>
    (q' = q \<or> attempt_rank (rta_status q) < attempt_rank (rta_status q'))"
  using assms by (auto simp: put_record_def)

lemma late_evolves:
  assumes "ras_records st a = Some r \<and> late_move r r' \<and> st' = put_record a r' st" and "ras_records st b = Some q"
  shows "\<exists>q'. ras_records st' b = Some q' \<and> rta_prepared q' = rta_prepared q \<and> (q' = q \<or> attempt_rank (rta_status q) < attempt_rank (rta_status q'))"
  using assms put_evolves [of st a r r' b q] by (auto simp: late_move_def)

lemma runtime_step_evolves:
  assumes q: "ras_records (rw_store w) b = Some q"
  shows "\<exists>q'. ras_records (rw_store (runtime_step lib e w)) b = Some q' \<and> rta_prepared q' = rta_prepared q \<and>
    (q' = q \<or> attempt_rank (rta_status q) < attempt_rank (rta_status q'))"
proof (cases e)
  case (PersistPrepared prepared)
  then show ?thesis using q by (auto simp: persist_prepared_def Let_def put_record_def split: sum.splits)
next
  case (ClaimDispatch a h worker)
  from dispatch_claim_cases [of a h worker "rw_store w"] show ?thesis
  proof (elim disjE exE conjE)
    assume "fst (runtime_claim_dispatch a h worker (rw_store w)) = rw_store w"
    with q show ?thesis by (simp add: ClaimDispatch)
  next
    fix r r' assume "ras_records (rw_store w) a = Some r" "claim_move worker (ras_next_fence_token (rw_store w) + 1) r r'"
      "fst (runtime_claim_dispatch a h worker (rw_store w)) = (put_record a r' (rw_store w))\<lparr>ras_next_fence_token := ras_next_fence_token (rw_store w) + 1\<rparr>"
    with q show ?thesis by (auto simp: ClaimDispatch put_record_def claim_move_def)
  qed
next
  case (MarkExecutionUnknown a worker)
  show ?thesis
  proof (cases "mark_provider_execution_unknown a worker (rw_store w)")
    case (Inr p)
    obtain st x where p: "p = (st, x)" by fastforce
    from mark_unknown_cases [OF Inr [unfolded p]] late_evolves q Inr p show ?thesis by (fastforce simp: MarkExecutionUnknown with_store_def)
  qed (use q in \<open>simp add: MarkExecutionUnknown with_store_def\<close>)
next
  case (RecordAdmission worker call)
  show ?thesis
  proof (cases "record_tool_admission worker call (rw_store w)")
    case (Inr p)
    obtain st x where p: "p = (st, x)" by fastforce
    from admission_cases [OF Inr [unfolded p]] late_evolves q Inr p show ?thesis by (fastforce simp: RecordAdmission with_store_def)
  qed (use q in \<open>simp add: RecordAdmission with_store_def\<close>)
next
  case (ExecuteFenced call worker token)
  show ?thesis
  proof (cases "execute_admitted_with_fence call worker token (rw_registry w) (rw_executor w) (rw_store w)")
    case (Inr p)
    obtain ex st result where p: "p = (ex, st, result)" by (cases p) auto
    from fenced_cases [OF Inr [unfolded p]] late_evolves q Inr p show ?thesis by (fastforce simp: ExecuteFenced)
  qed (use q in \<open>simp add: ExecuteFenced\<close>)
next
  case (VerifyAndComplete raw call execution worker)
  from completion_cases [of lib raw call execution worker "rw_store w"] show ?thesis
  proof (elim disjE exE conjE)
    assume "fst (verify_outcome_and_complete lib raw call execution worker (rw_store w)) = rw_store w"
    with q show ?thesis by (simp add: VerifyAndComplete)
  next
    fix op outcome st x assume "record_outcome worker call op outcome (rw_store w) = Inr (st, x)"
      "fst (verify_outcome_and_complete lib raw call execution worker (rw_store w)) = st"
    with outcome_cases [of worker call op outcome "rw_store w" st x] late_evolves q show ?thesis by (fastforce simp: VerifyAndComplete)
  qed
next
  case (CancelAfterEffect a)
  show ?thesis
  proof (cases "cancel_after_external_effect a (rw_store w)")
    case (Inr p)
    obtain st x where p: "p = (st, x)" by fastforce
    from cancel_cases [OF Inr [unfolded p]] late_evolves q Inr p show ?thesis by (fastforce simp: CancelAfterEffect with_store_def)
  qed (use q in \<open>simp add: CancelAfterEffect with_store_def\<close>)
next
  case (CreateCompensation c a k)
  then show ?thesis using q by (auto simp: with_store_def split: sum.splits prod.splits dest!: compensation_records(1))
next
  case (ClaimCompensation c worker)
  obtain st y where "claim_compensation c worker (rw_store w) = (st, y)" by fastforce
  with compensation_records(2) [OF this] q show ?thesis by (cases y) (auto simp: ClaimCompensation)
next
  case (MarkCompensationUnknown c worker)
  then show ?thesis using q by (auto simp: with_store_def split: sum.splits prod.splits dest!: compensation_records(3))
next
  case (DisableRuntimeTool n v)
  then show ?thesis using q by (auto split: sum.splits)
qed

interpretation attempts: versioned_store "runtime_step lib" "\<lambda>w. ras_records (rw_store w)" "\<lambda>r. attempt_rank (rta_status r)" rta_prepared for lib
  by unfold_locales (rule runtime_step_evolves)

text \<open>Nothing leaves a final status.\<close>

lemma attempt_rank_le: "attempt_rank st \<le> 4"
  by (cases st) simp_all

lemma final_kept:
  assumes "ras_records (rw_store w) a = Some r" and "attempt_rank (rta_status r) = 4"
  shows "ras_records (rw_store (fold (runtime_step lib) es w)) a = Some r"
  using attempts.run_evolves [OF assms(1), of lib es] assms(2) attempt_rank_le by (metis not_less)

section \<open>Compensation\<close>

definition compensates :: "RuntimeAttemptStore \<Rightarrow> CompensationRecord \<Rightarrow> bool" where
  "compensates st k \<longleftrightarrow> (\<exists>r. ras_records st (cmp_source_attempt_id k) = Some r \<and> rta_status r = RuntimeAttemptStatus.CANCELLED \<and>
     rta_tool_call_id r = Some (cmp_source_tool_call_id k) \<and> rta_operation_id r = Some (cmp_source_operation_id k) \<and>
     rta_tool_idempotency_key r \<noteq> Some (cmp_idempotency_key k))"

definition compensation_inv :: "RuntimeWorld \<Rightarrow> bool" where
  "compensation_inv w \<longleftrightarrow>
     (\<forall>c k. ras_compensations (rw_store w) c = Some k \<longrightarrow> cmp_compensation_id k = c \<and> compensates (rw_store w) k) \<and>
     distinct (map fst (rw_claims w)) \<and>
     (\<forall>(c, worker)\<in>set (rw_claims w). \<exists>k. ras_compensations (rw_store w) c = Some k \<and> cmp_status k \<noteq> CompensationStatus.PLANNED \<and>
        cmp_claimed_by k = Some worker)"

lemma compensates_step: "compensates (rw_store w) k \<Longrightarrow> compensates (rw_store (runtime_step lib e w)) k"
  unfolding compensates_def using final_kept [of w "cmp_source_attempt_id k" _ lib "[e]"] by fastforce

lemma create_cases:
  "create_compensation c a key st = Inr (st', k) \<Longrightarrow>
     ras_compensations st c = None \<and> cmp_compensation_id k = c \<and> compensates st k \<and> cmp_source_attempt_id k = a \<and>
     cmp_idempotency_key k = key \<and> cmp_status k = CompensationStatus.PLANNED \<and>
     st' = st\<lparr>ras_compensations := (ras_compensations st)(c \<mapsto> k)\<rparr>"
  by (auto simp: create_compensation_def compensates_def Let_def split: option.splits if_splits bool.splits)

lemma claim_compensation_cases:
  "claim_compensation c worker st = (st', y) \<Longrightarrow> (y = None \<and> st' = st) \<or>
     (\<exists>k. ras_compensations st c = Some k \<and> cmp_status k = CompensationStatus.PLANNED \<and>
        y = Some (k\<lparr>cmp_status := CompensationStatus.DISPATCH_CLAIMED, cmp_claimed_by := Some worker\<rparr>) \<and>
        st' = st\<lparr>ras_compensations := (ras_compensations st)(c \<mapsto> k\<lparr>cmp_status := CompensationStatus.DISPATCH_CLAIMED, cmp_claimed_by := Some worker\<rparr>)\<rparr>)"
  by (auto simp: claim_compensation_def Let_def split: option.splits if_splits)

lemma mark_compensation_cases:
  "mark_compensation_unknown c worker st = Inr (st', y) \<Longrightarrow>
     \<exists>k. ras_compensations st c = Some k \<and> cmp_status k = CompensationStatus.DISPATCH_CLAIMED \<and>
        y = k\<lparr>cmp_status := CompensationStatus.PENDING_RECONCILIATION\<rparr> \<and> st' = st\<lparr>ras_compensations := (ras_compensations st)(c \<mapsto> y)\<rparr>"
  by (auto simp: mark_compensation_unknown_def Let_def split: option.splits if_splits)

text \<open>Only the requests on compensations touch them.\<close>

lemma other_compensations:
  assumes "(\<forall>c a k. e \<noteq> CreateCompensation c a k) \<and> (\<forall>c wk. e \<noteq> ClaimCompensation c wk) \<and> (\<forall>c wk. e \<noteq> MarkCompensationUnknown c wk)"
  shows "ras_compensations (rw_store (runtime_step lib e w)) = ras_compensations (rw_store w) \<and> rw_claims (runtime_step lib e w) = rw_claims w"
proof (cases e)
  case (VerifyAndComplete raw call execution worker)
  from completion_cases [of lib raw call execution worker "rw_store w"] show ?thesis
    by (auto simp: VerifyAndComplete put_record_def dest!: outcome_cases)
next
  case (ClaimDispatch a h worker)
  then show ?thesis using dispatch_claim_cases [of a h worker "rw_store w"] by (auto simp: put_record_def)
qed (use assms in \<open>auto simp: with_store_def persist_prepared_def Let_def put_record_def split: sum.splits prod.splits if_splits
    dest!: mark_unknown_cases admission_cases fenced_cases cancel_cases\<close>)

lemma compensation_step_inv:
  assumes inv: "compensation_inv w"
  shows "compensation_inv (runtime_step lib e w)"
proof (cases "(\<forall>c a k. e \<noteq> CreateCompensation c a k) \<and> (\<forall>c wk. e \<noteq> ClaimCompensation c wk) \<and> (\<forall>c wk. e \<noteq> MarkCompensationUnknown c wk)")
  case True
  from other_compensations [OF this, of lib w] inv compensates_step [of w _ lib e] show ?thesis unfolding compensation_inv_def by simp
next
  case False
  have dist: "distinct (map fst (rw_claims w))" using inv unfolding compensation_inv_def by blast
  have comp: "cmp_compensation_id k = c \<and> compensates (rw_store w) k" if "ras_compensations (rw_store w) c = Some k" for c k
    using inv that unfolding compensation_inv_def by blast
  have claims: "\<exists>k. ras_compensations (rw_store w) c = Some k \<and> cmp_status k \<noteq> CompensationStatus.PLANNED \<and> cmp_claimed_by k = Some wk"
    if "(c, wk) \<in> set (rw_claims w)" for c wk using inv that unfolding compensation_inv_def by blast
  have same: "compensates (st\<lparr>ras_compensations := m\<rparr>) k = compensates st k" for st m k by (simp add: compensates_def)
  from False consider c a k where "e = CreateCompensation c a k" | c wk where "e = ClaimCompensation c wk" | c wk where "e = MarkCompensationUnknown c wk"
    by blast
  then show ?thesis
  proof cases
    case 1
    show ?thesis
    proof (cases "create_compensation c a k (rw_store w)")
      case (Inr p)
      obtain st x where p: "p = (st, x)" by fastforce
      note cr = create_cases [OF Inr [unfolded p]]
      have "c' \<noteq> c" if "(c', wk) \<in> set (rw_claims w)" for c' wk using claims [OF that] cr by auto
      then show ?thesis using cr Inr p dist comp claims same 1
        by (auto simp: compensation_inv_def with_store_def)
    qed (use inv 1 in \<open>simp add: with_store_def\<close>)
  next
    case 2
    obtain st y where c: "claim_compensation c wk (rw_store w) = (st, y)" by fastforce
    from claim_compensation_cases [OF c] show ?thesis
    proof (elim disjE exE conjE)
      assume "y = None" "st = rw_store w"
      with inv c 2 show ?thesis by simp
    next
      fix k :: CompensationRecord let ?k = "k\<lparr>cmp_status := CompensationStatus.DISPATCH_CLAIMED, cmp_claimed_by := Some wk\<rparr>"
      assume k: "ras_compensations (rw_store w) c = Some k" "cmp_status k = CompensationStatus.PLANNED" "y = Some ?k"
        "st = (rw_store w)\<lparr>ras_compensations := (ras_compensations (rw_store w))(c \<mapsto> ?k)\<rparr>"
      have fresh: "c \<notin> fst ` set (rw_claims w)" using claims k by fastforce
      have "compensates (rw_store w) ?k \<and> cmp_compensation_id ?k = c" using comp [OF k(1)] by (simp add: compensates_def)
      with fresh show ?thesis using k c 2 dist comp claims same
        by (auto simp: compensation_inv_def rev_image_eqI)
    qed
  next
    case 3
    show ?thesis
    proof (cases "mark_compensation_unknown c wk (rw_store w)")
      case (Inr p)
      obtain st x where p: "p = (st, x)" by fastforce
      from mark_compensation_cases [OF Inr [unfolded p]] obtain k where k: "ras_compensations (rw_store w) c = Some k"
        "x = k\<lparr>cmp_status := CompensationStatus.PENDING_RECONCILIATION\<rparr>"
        "st = (rw_store w)\<lparr>ras_compensations := (ras_compensations (rw_store w))(c \<mapsto> x)\<rparr>" by blast
      have "compensates (rw_store w) x \<and> cmp_compensation_id x = c" using comp [OF k(1)] k(2) by (simp add: compensates_def)
      moreover have "cmp_claimed_by x = Some wk'" if "(c, wk') \<in> set (rw_claims w)" for wk' using claims [OF that] k by auto
      ultimately show ?thesis using k Inr p 3 dist comp claims same
        by (auto simp: compensation_inv_def with_store_def)
    qed (use inv 3 in \<open>simp add: with_store_def\<close>)
  qed
qed

interpretation compensations: invariant_machine "runtime_step lib" compensation_inv for lib
  by unfold_locales (rule compensation_step_inv)

lemma compensation_run_inv: "compensation_inv (fold (runtime_step lib) es (runtime_world reg))"
  by (rule compensations.run_inv) (simp add: compensation_inv_def runtime_world_def RuntimeAttemptStore_init_def)

section \<open>Cost settlement\<close>

datatype SettlementEvent =
  RequestSettlement string string string string int
| MarkSettlementUnknown string
| Settle string int

fun settlement_step :: "SettlementEvent \<Rightarrow> CostSettlementStore \<Rightarrow> CostSettlementStore" where
  "settlement_step (RequestSettlement i j a v u) st = (case settlement_request i j a v u st of Inl _ \<Rightarrow> st | Inr (st', _) \<Rightarrow> st')"
| "settlement_step (MarkSettlementUnknown i) st = (case settlement_mark_unknown i st of Inl _ \<Rightarrow> st | Inr (st', _) \<Rightarrow> st')"
| "settlement_step (Settle i u) st = (case settlement_settle i u st of Inl _ \<Rightarrow> st | Inr (st', _) \<Rightarrow> st')"

fun settlement_rank :: "CostSettlementStatus \<Rightarrow> int" where
  "settlement_rank CostSettlementStatus.REQUESTED = 0"
| "settlement_rank CostSettlementStatus.PENDING_RECONCILIATION = 1"
| "settlement_rank CostSettlementStatus.SETTLED = 2"

definition settlement_identity :: "CostSettlementRecord \<Rightarrow> string \<times> string \<times> string \<times> string \<times> int" where
  "settlement_identity r = (csr_settlement_id r, csr_job_id r, csr_attempt_id r, csr_reservation_id r, csr_reserved_units r)"

text \<open>The units of a record: all reserved until it is settled, then split into the used and the released.\<close>

definition settlement_ok :: "CostSettlementRecord \<Rightarrow> bool" where
  "settlement_ok r \<longleftrightarrow> 0 \<le> csr_reserved_units r \<and>
     (if csr_status r = CostSettlementStatus.SETTLED
      then \<exists>used released. csr_actual_usage_units r = Some used \<and> csr_released_units r = Some released \<and> 0 \<le> used \<and> 0 \<le> released \<and>
        used + released = csr_reserved_units r
      else csr_actual_usage_units r = None \<and> csr_released_units r = None)"

definition settlements_ok :: "CostSettlementStore \<Rightarrow> bool" where
  "settlements_ok st \<longleftrightarrow> (\<forall>i r. st i = Some r \<longrightarrow> csr_settlement_id r = i \<and> settlement_ok r)"

definition settlement_move :: "CostSettlementStore \<Rightarrow> CostSettlementStore \<Rightarrow> bool" where
  "settlement_move st st' \<longleftrightarrow> st' = st \<or>
     (\<exists>i r. st i = None \<and> st' = st(i \<mapsto> r) \<and> csr_settlement_id r = i \<and> settlement_ok r) \<or>
     (\<exists>i q r. st i = Some q \<and> st' = st(i \<mapsto> r) \<and> settlement_identity r = settlement_identity q \<and> (settlement_ok q \<longrightarrow> settlement_ok r) \<and>
        (r = q \<or> settlement_rank (csr_status q) < settlement_rank (csr_status r)))"

lemma request_cases:
  "settlement_request i j a v u st = Inr (st', r) \<Longrightarrow>
     st' = st \<or> (st i = None \<and> st' = st(i \<mapsto> r) \<and> csr_settlement_id r = i \<and> settlement_ok r)"
  by (auto simp: settlement_request_def Let_def settlement_ok_def split: option.splits if_splits)

lemma settlement_mark_cases:
  assumes "settlement_mark_unknown i st = Inr (st', r)"
  shows "st' = st \<or> (\<exists>q. st i = Some q \<and> st' = st(i \<mapsto> r) \<and> settlement_identity r = settlement_identity q \<and>
    (settlement_ok q \<longrightarrow> settlement_ok r) \<and> (r = q \<or> settlement_rank (csr_status q) < settlement_rank (csr_status r)))"
proof (cases "st i")
  case (Some q)
  with assms show ?thesis
    by (cases "csr_status q") (auto simp: settlement_mark_unknown_def Let_def settlement_ok_def settlement_identity_def)
qed (use assms in \<open>simp add: settlement_mark_unknown_def\<close>)

lemma settle_cases:
  assumes "settlement_settle i u st = Inr (st', r)"
  shows "st' = st \<or> (\<exists>q. st i = Some q \<and> st' = st(i \<mapsto> r) \<and> settlement_identity r = settlement_identity q \<and>
    (settlement_ok q \<longrightarrow> settlement_ok r) \<and> (r = q \<or> settlement_rank (csr_status q) < settlement_rank (csr_status r)))"
proof (cases "st i")
  case (Some q)
  with assms show ?thesis
    by (cases "csr_status q") (auto simp: settlement_settle_def Let_def settlement_ok_def settlement_identity_def split: if_splits)
qed (use assms in \<open>simp add: settlement_settle_def\<close>)

lemma settlement_step_moves: "settlement_move st (settlement_step e st)"
proof (cases e)
  case (RequestSettlement i j a v u)
  show ?thesis
  proof (cases "settlement_request i j a v u st")
    case (Inr p)
    with request_cases [of i j a v u st "fst p" "snd p"] have "settlement_move st (fst p)" unfolding settlement_move_def by (metis prod.collapse)
    then show ?thesis using Inr by (simp add: RequestSettlement split_beta)
  qed (simp add: RequestSettlement settlement_move_def)
next
  case (MarkSettlementUnknown i)
  show ?thesis
  proof (cases "settlement_mark_unknown i st")
    case (Inr p)
    with settlement_mark_cases [of i st "fst p" "snd p"] have "settlement_move st (fst p)" unfolding settlement_move_def by fastforce
    then show ?thesis using Inr by (simp add: MarkSettlementUnknown split_beta)
  qed (simp add: MarkSettlementUnknown settlement_move_def)
next
  case (Settle i u)
  show ?thesis
  proof (cases "settlement_settle i u st")
    case (Inr p)
    with settle_cases [of i u st "fst p" "snd p"] have "settlement_move st (fst p)" unfolding settlement_move_def by fastforce
    then show ?thesis using Inr by (simp add: Settle split_beta)
  qed (simp add: Settle settlement_move_def)
qed

lemma settlement_step_ok:
  assumes "settlements_ok st"
  shows "settlements_ok (settlement_step e st)"
  using settlement_step_moves [of st e] assms unfolding settlement_move_def settlements_ok_def settlement_identity_def
  by (auto split: if_splits)

lemma settlement_step_evolves:
  assumes "st i = Some q"
  shows "\<exists>q'. settlement_step e st i = Some q' \<and> settlement_identity q' = settlement_identity q \<and>
    (q' = q \<or> settlement_rank (csr_status q) < settlement_rank (csr_status q'))"
  using settlement_step_moves [of st e] assms unfolding settlement_move_def by auto

interpretation settlements: versioned_machine settlement_step settlements_ok "\<lambda>st. st" "\<lambda>r. settlement_rank (csr_status r)" settlement_identity
  by unfold_locales (rule settlement_step_ok settlement_step_evolves, assumption)+

section \<open>Properties\<close>

text \<open>
  C14. In every history of the runtime, whatever the workers interleave, repeat and hold on to: an attempt has at
  most one fenced execution, made with the token of its claim and for the admitted call it records; an attempt
  counts as executed, cancelled or completed only if that execution took place, and as completed only if a
  completion came with an outcome that verifies for its operation; tokens are never shared; and an attempt in a
  final status never changes.
\<close>

theorem runtime_effects_fenced:
  "(let w = fold (runtime_step lib) es (runtime_world reg) in
     distinct (map effect_attempt (rw_effects w)) \<and>
     list_all (\<lambda>(call, token, result). \<exists>r. ras_records (rw_store w) (ac_attempt_id call) = Some r \<and> rta_fence_token r = Some token \<and>
       rta_tool_call_id r = Some (ac_tool_call_id call) \<and> rta_tool_idempotency_key r = Some (ac_idempotency_key call) \<and>
       rta_operation_id r = ex_operation_id result) (rw_effects w) \<and>
     (\<forall>a r. ras_records (rw_store w) a = Some r \<longrightarrow>
        (rta_status r \<in> effect_statuses \<longrightarrow>
          (\<exists>call token result. (call, token, result) \<in> set (rw_effects w) \<and> ac_attempt_id call = a \<and> was_executed result)) \<and>
        (rta_status r = RuntimeAttemptStatus.COMPLETED \<longrightarrow>
          (\<exists>raw call execution worker op. VerifyAndComplete raw call execution worker \<in> set es \<and> ac_attempt_id call = a \<and>
             rta_operation_id r = Some op \<and> rta_tool_call_id r = Some (ac_tool_call_id call) \<and> verifies lib raw call op)) \<and>
        (\<forall>a' r'. ras_records (rw_store w) a' = Some r' \<and> a' \<noteq> a \<longrightarrow> rta_fence_token r = None \<or> rta_fence_token r' \<noteq> rta_fence_token r) \<and>
        (attempt_rank (rta_status r) = 4 \<longrightarrow> ras_records (rw_store (fold (runtime_step lib) es' w)) a = Some r)))"
proof -
  let ?w = "fold (runtime_step lib) es (runtime_world reg)"
  have inv: "attempts_inv lib es ?w" by (rule runtime_run_inv)
  have d: "distinct (map effect_attempt (rw_effects ?w))" using inv unfolding attempts_inv_def by blast
  have e: "list_all (\<lambda>(call, token, result). \<exists>r. ras_records (rw_store ?w) (ac_attempt_id call) = Some r \<and> rta_fence_token r = Some token \<and>
       rta_tool_call_id r = Some (ac_tool_call_id call) \<and> rta_tool_idempotency_key r = Some (ac_idempotency_key call) \<and>
       rta_operation_id r = ex_operation_id result) (rw_effects ?w)"
    using attempts_inv_effect [OF inv] by (fastforce simp: list_all_iff effect_recorded_def effect_attempt_def)
  show ?thesis unfolding Let_def
  proof (intro conjI d e allI impI)
    fix a r assume r: "ras_records (rw_store ?w) a = Some r"
    show "\<exists>call token result. (call, token, result) \<in> set (rw_effects ?w) \<and> ac_attempt_id call = a \<and> was_executed result"
      if "rta_status r \<in> effect_statuses" using attempts_invD(2) [OF inv r that] unfolding effect_attempt_def by (metis fst_conv snd_conv surj_pair)
    show "\<exists>raw call execution worker op. VerifyAndComplete raw call execution worker \<in> set es \<and> ac_attempt_id call = a \<and>
             rta_operation_id r = Some op \<and> rta_tool_call_id r = Some (ac_tool_call_id call) \<and> verifies lib raw call op"
      if "rta_status r = RuntimeAttemptStatus.COMPLETED" using attempts_invD(3) [OF inv r that] unfolding verified_by_def by blast
    show "rta_fence_token r = None \<or> rta_fence_token r' \<noteq> rta_fence_token r" if "ras_records (rw_store ?w) a' = Some r' \<and> a' \<noteq> a" for a' r'
      using attempts_inv_fence [OF inv r, of a' r'] that by (cases "rta_fence_token r") auto
    show "ras_records (rw_store (fold (runtime_step lib) es' ?w)) a = Some r" if "attempt_rank (rta_status r) = 4"
      by (rule final_kept [OF r that])
  qed
qed

definition example_prepared :: PreparedAttempt where
  "example_prepared = \<lparr>pre_requirements = \<lparr>rx_application_contract = ''c'', rx_prompt_contract_id = ''p'', rx_output_contract_revision = ''1'',
       rx_tool_contract_revision = ''1'', rx_parameter_policy_id = ''pp'', rx_parameter_policy_revision = ''1''\<rparr>,
     pre_routing_decision = \<lparr>rd_job_id = ''j1'', rd_attempt_id = ''a1'', rd_policy_id = ''pol'', rd_policy_revision = ''1'',
       rd_selected_profile_id = Some ''m'', rd_pricing_revision = None, rd_candidate_decisions = [], rd_decided_at_ms = 0\<rparr>,
     pre_provider_binding = \<lparr>ec_attempt_id = ''a1'', ec_job_id = ''j1'', ec_profile_id = ''m'', ec_provider_name = ''v'', ec_model = ''m'',
       ec_api_version = ''1'', ec_profile_version = ''1'', ec_adapter_version = ''1'', ec_application_contract = ''c''\<rparr>,
     pre_prompt_binding = \<lparr>ab_attempt_id = ''a1'', ab_job_id = ''j1'', ab_prompt_contract_id = ''p'', ab_revision = ''1'', ab_renderer_version = ''1'',
       ab_parameter_policy_id = ''pp'', ab_parameter_policy_revision = ''1'', ab_application_contract = ''c'', ab_input_fingerprint = ''f'',
       ab_rendered_message_hash = ''h'', ab_rendered_artifact_ref = None\<rparr>,
     pre_rendered_messages = []\<rparr>"

definition cancelled_run :: "RuntimeEvent list" where
  "cancelled_run = [PersistPrepared example_prepared, ClaimDispatch ''a1'' ''h'' ''w'', ClaimDispatch ''a1'' ''h'' ''w2'', RecordAdmission ''w'' example_call,
     ExecuteFenced example_call ''w'' 1, ExecuteFenced example_call ''w'' 1, CancelAfterEffect ''a1'']"

lemma example_fields:
  "ec_attempt_id (pre_provider_binding example_prepared) = ''a1''" "ec_job_id (pre_provider_binding example_prepared) = ''j1''"
  "ab_rendered_message_hash (pre_prompt_binding example_prepared) = ''h''"
  "ac_attempt_id example_call = ''a1''" "ac_job_id example_call = ''j1''" "ac_tool_call_id example_call = ''c1''"
  "ac_idempotency_key example_call = ''k''" "tool_is_active example_registry (ac_tool_name example_call) (ac_tool_version example_call)"
  by (simp_all add: example_prepared_def example_call_def tool_is_active_def tool_status_def example_registry_def)

lemma cancelled_run_record:
  "\<exists>r. ras_records (rw_store (fold (runtime_step lib) cancelled_run (runtime_world example_registry))) ''a1'' = Some r \<and>
     rta_status r = RuntimeAttemptStatus.CANCELLED \<and> rta_tool_call_id r = Some ''c1'' \<and> rta_tool_idempotency_key r = Some ''k'' \<and>
     rta_operation_id r = Some (operation_id_of example_call)"
  by (simp add: cancelled_run_def runtime_world_def RuntimeAttemptStore_init_def persist_prepared_def Let_def put_record_def
      runtime_claim_dispatch_def with_store_def record_tool_admission_def runtime_owned_def execute_admitted_with_fence_def
      tool_execute_def record_tool_execution_def was_executed_def cancel_after_external_effect_def ToolExecutor_init_def example_fields)

lemma cancelled_run_compensations:
  "ras_compensations (rw_store (fold (runtime_step lib) cancelled_run (runtime_world example_registry))) = Map.empty"
  by (simp add: cancelled_run_def other_compensations del: runtime_step.simps) (simp add: runtime_world_def RuntimeAttemptStore_init_def)

theorem runtime_effects_fenced_witness:
  "\<exists>r call token result. ras_records (rw_store (fold (runtime_step example_library) [ExecuteFenced example_call ''w'' 1] (fold (runtime_step example_library) cancelled_run
       (runtime_world example_registry)))) ''a1'' = Some r \<and>
     (call, token, result) \<in> set (rw_effects (fold (runtime_step example_library) cancelled_run (runtime_world example_registry))) \<and>
     ac_attempt_id call = ''a1'' \<and> was_executed result"
proof -
  obtain r where r: "ras_records (rw_store (fold (runtime_step example_library) cancelled_run (runtime_world example_registry))) ''a1'' = Some r"
    "rta_status r = RuntimeAttemptStatus.CANCELLED" using cancelled_run_record by blast
  have s: "rta_status r \<in> effect_statuses" "attempt_rank (rta_status r) = 4" using r(2) by (simp_all add: effect_statuses_def)
  from runtime_effects_fenced [of example_library cancelled_run example_registry "[ExecuteFenced example_call ''w'' 1]", unfolded Let_def, THEN conjunct2,
      THEN conjunct2, rule_format, OF r(1)] s show ?thesis by blast
qed

text \<open>
  Every compensation of every history refers to an attempt that was executed and then cancelled, names its
  tool call and operation, and carries a key other than the one of the effect; a compensation is claimed by at
  most one worker, and stays claimed by it.
\<close>

theorem compensations_sound:
  "(let w = fold (runtime_step lib) es (runtime_world reg) in
     distinct (map fst (rw_claims w)) \<and>
     list_all (\<lambda>(c, worker). \<exists>k. ras_compensations (rw_store w) c = Some k \<and> cmp_status k \<noteq> CompensationStatus.PLANNED \<and>
       cmp_claimed_by k = Some worker) (rw_claims w) \<and>
     (\<forall>c k. ras_compensations (rw_store w) c = Some k \<longrightarrow> cmp_compensation_id k = c \<and>
       (\<exists>r. ras_records (rw_store w) (cmp_source_attempt_id k) = Some r \<and> rta_status r = RuntimeAttemptStatus.CANCELLED \<and>
         rta_tool_call_id r = Some (cmp_source_tool_call_id k) \<and> rta_operation_id r = Some (cmp_source_operation_id k) \<and>
         rta_tool_idempotency_key r \<noteq> Some (cmp_idempotency_key k))))"
  using compensation_run_inv [of lib es reg] unfolding compensation_inv_def compensates_def Let_def list_all_iff by blast

theorem compensations_sound_witness:
  "\<exists>r. ras_records (rw_store (fold (runtime_step example_library) (cancelled_run @ [CreateCompensation ''c'' ''a1'' ''k2'']) (runtime_world example_registry))) ''a1'' = Some r \<and>
     rta_status r = RuntimeAttemptStatus.CANCELLED"
proof -
  let ?w = "fold (runtime_step example_library) cancelled_run (runtime_world example_registry)"
  let ?w' = "fold (runtime_step example_library) (cancelled_run @ [CreateCompensation ''c'' ''a1'' ''k2'']) (runtime_world example_registry)"
  obtain r where r: "ras_records (rw_store ?w) ''a1'' = Some r" "rta_status r = RuntimeAttemptStatus.CANCELLED" "rta_tool_call_id r = Some ''c1''"
    "rta_tool_idempotency_key r = Some ''k''" "rta_operation_id r = Some (operation_id_of example_call)" using cancelled_run_record by blast
  have "ras_compensations (rw_store ?w) = Map.empty"
    by (rule cancelled_run_compensations)
  then obtain k where k: "ras_compensations (rw_store ?w') ''c'' = Some k" "cmp_source_attempt_id k = ''a1''"
    using r by (auto simp: with_store_def create_compensation_def Let_def)
  with compensations_sound [of example_library "cancelled_run @ [CreateCompensation ''c'' ''a1'' ''k2'']" example_registry, unfolded Let_def,
      THEN conjunct2, THEN conjunct2, rule_format, OF k(1)] show ?thesis by auto
qed

text \<open>
  Nothing bounds the number of compensations of one effect: a second one under another id is accepted, even with
  the key of the first.
\<close>

lemma effect_compensated_twice:
  assumes "create_compensation c a key st = Inr (st', k)" and "c' \<noteq> c" and "ras_compensations st c' = None"
  shows "\<exists>st'' k'. create_compensation c' a key st' = Inr (st'', k') \<and> cmp_source_operation_id k' = cmp_source_operation_id k \<and>
    cmp_idempotency_key k' = cmp_idempotency_key k"
  using assms by (auto simp: create_compensation_def Let_def split: option.splits if_splits bool.splits)

text \<open>
  C16. In every history of settlement requests a record lies under its id, nothing of a reservation is lost: it is
  reserved until it is settled and then used and released parts add up to it; and a record keeps its job, attempt,
  reservation and amount for ever and never changes once settled.
\<close>

theorem settlement_conserves:
  assumes "fold settlement_step es Map.empty i = Some r"
  shows "csr_settlement_id r = i \<and> settlement_ok r \<and>
    (\<exists>r'. fold settlement_step (es @ es') Map.empty i = Some r' \<and> settlement_identity r' = settlement_identity r \<and>
       (csr_status r = CostSettlementStatus.SETTLED \<longrightarrow> r' = r))"
proof -
  have ok: "settlements_ok (fold settlement_step es Map.empty)" by (rule settlements.run_inv) (simp add: settlements_ok_def)
  then have "csr_settlement_id r = i \<and> settlement_ok r" using assms unfolding settlements_ok_def by blast
  moreover from settlements.run_evolves [OF ok assms, of es'] obtain r' where r': "fold settlement_step es' (fold settlement_step es Map.empty) i = Some r'"
    "settlement_identity r' = settlement_identity r" "r' = r \<or> settlement_rank (csr_status r) < settlement_rank (csr_status r')" by blast
  moreover have "settlement_rank st \<le> 2" for st by (cases st) simp_all
  ultimately show ?thesis by (fastforce simp: not_le [symmetric])
qed

theorem settlement_conserves_witness:
  "\<exists>r. fold settlement_step ([RequestSettlement ''s'' ''j'' ''a'' ''v'' 10, Settle ''s'' 7] @ [Settle ''s'' 8, MarkSettlementUnknown ''s'']) Map.empty ''s'' = Some r \<and>
     csr_actual_usage_units r = Some 7 \<and> csr_released_units r = Some 3"
proof -
  let ?r = "\<lparr>csr_settlement_id = ''s'', csr_job_id = ''j'', csr_attempt_id = ''a'', csr_reservation_id = ''v'', csr_reserved_units = 10,
     csr_status = CostSettlementStatus.SETTLED, csr_actual_usage_units = Some 7, csr_released_units = Some 3\<rparr>"
  have "fold settlement_step [RequestSettlement ''s'' ''j'' ''a'' ''v'' 10, Settle ''s'' 7] Map.empty ''s'' = Some ?r"
    by (simp add: settlement_request_def settlement_settle_def Let_def)
  from settlement_conserves [OF this, of "[Settle ''s'' 8, MarkSettlementUnknown ''s'']"] show ?thesis by fastforce
qed

lemma verified_reason:
  assumes "verify_publish_outcome lib raw call op = Inr outcome" and "od_status outcome = OutcomeStatus.VERIFIED"
  shows "truthy (od_safe_reason_code outcome)"
  using assms
  by (cases "parse_json_object lib raw")
    (auto simp: verify_publish_outcome_def outcome_decision_def bind_res_eq_Inr truthy_def split: prod.splits option.splits bool.splits if_splits)

text \<open>
  C15. A prepared attempt runs through: with a candidate that is admitted, a tool that is active and whose effect has
  not happened, and an outcome that verifies, its persisting, claim, execution and completion all succeed, the call
  is executed once and the attempt is completed.
\<close>

theorem runtime_run_completes:
  assumes "ras_records st (ec_attempt_id (pre_provider_binding prepared)) = None"
    and "truthy (ec_attempt_id (pre_provider_binding prepared))" and "truthy (ec_job_id (pre_provider_binding prepared))"
    and "publishing reg" and "admit_provider_candidate lib envelope prepared correlation_id reg auth reports = Inr decision"
    and "ad_admitted_call decision = Some call" and "tool_is_active reg (ac_tool_name call) (ac_tool_version call)"
    and "te_operations executor (ac_idempotency_key call) = None" and "verifies lib raw call (operation_id_of call)"
  shows "\<exists>st1 claimed st2 token executor' st3 result outcome st4 r.
    persist_prepared prepared st = Inr st1 \<and>
    runtime_claim_dispatch (ec_attempt_id (pre_provider_binding prepared)) (ab_rendered_message_hash (pre_prompt_binding prepared)) worker st1 =
      (st2, Some claimed) \<and> rta_fence_token claimed = Some token \<and>
    execute_admitted_tool decision worker token reg id executor st2 = (executor', st3, Inr result) \<and>
    ex_status result = ExecutionStatus.EXECUTED \<and> effect_count executor' call = effect_count executor call + 1 \<and>
    verify_outcome_and_complete lib raw call result worker st3 = (st4, Inr (outcome, r)) \<and>
    rr_status r = RuntimeStatus.COMPLETED \<and>
    map_option rta_status (ras_records st4 (ec_attempt_id (pre_provider_binding prepared))) = Some RuntimeAttemptStatus.COMPLETED"
proof -
  let ?a = "ec_attempt_id (pre_provider_binding prepared)" and ?j = "ec_job_id (pre_provider_binding prepared)"
  obtain rawc where rawc: "admit_tool_call lib rawc (pxe_attempt_id envelope) (pxe_job_id envelope) reg auth reports = Inr decision"
    and ids: "pxe_attempt_id envelope = ?a" "pxe_job_id envelope = ?j"
    using assms(5) by (auto simp: admit_provider_candidate_def split: if_splits option.splits)
  from admit_exact [OF assms(4), of lib rawc "pxe_attempt_id envelope" "pxe_job_id envelope" auth reports] rawc assms(6)
  have allowed: "ad_status decision = AdmissionStatus.ALLOWED"
    and adm: "admissible_call lib rawc (pxe_attempt_id envelope) (pxe_job_id envelope) reg auth reports call" by blast+
  have call: "ac_attempt_id call = ?a" "ac_job_id call = ?j" using admissible_identity [OF adm] ids by simp_all
  obtain outcome where outcome: "verify_publish_outcome lib raw call (operation_id_of call) = Inr outcome" "od_status outcome = OutcomeStatus.VERIFIED"
    using verifies_decided [OF assms(9)] by blast
  have reason: "truthy (od_safe_reason_code outcome)" by (rule verified_reason [OF outcome])
  show ?thesis
    using assms(1-3,6-8) call allowed outcome reason
    by (simp add: persist_prepared_def runtime_claim_dispatch_def put_record_def Let_def execute_admitted_tool_def record_tool_admission_def
        runtime_owned_def execute_admitted_with_fence_def tool_execute_def record_tool_execution_def was_executed_def effect_count_def
        verify_outcome_and_complete_def record_outcome_def outcome_status_def completion_result_def RuntimeResult_post_init_def)
qed

definition example_run_call :: AdmittedToolCall where
  "example_run_call = admitted_call ''a1'' ''j1'' ''c1'' default_tool example_auth (hd example_reports)"

definition run_library :: JsonLibrary where
  "run_library = \<lparr>jl_loads = (\<lambda>raw. if raw = ''call'' then jl_loads example_library ''call'' else Inr (VDict
       [(''operation_id'', VStr (operation_id_of example_run_call)), (''published'', VBool True),
        (''report'', VDict [(''report_id'', VStr ''report-7''), (''version'', VInt 7)]), (''warnings'', VList [])])),
     jl_float_repr = (\<lambda>f. [])\<rparr>"

lemma utf8_decode_nonempty: "utf8_decode s = [] \<longleftrightarrow> s = []"
  by (cases s) (auto simp: Let_def split: list.splits)

lemma example_outcome_valid:
  assumes "op \<noteq> []"
  shows "schema_valid (VDict [(''operation_id'', VStr op), (''published'', VBool True),
        (''report'', VDict [(''report_id'', VStr ''report-7''), (''version'', VInt 7)]), (''warnings'', VList [])])
        PUBLISH_REPORT_V1_OUTCOME_SCHEMA = Inr True"
proof -
  have "\<not> f_lt (Finite (of_nat (length (utf8_decode op)))) (Finite 1)"
    using assms utf8_decode_nonempty [of op] by (cases "utf8_decode op") auto
  then show ?thesis
    by (simp add: schema_valid_def PUBLISH_REPORT_V1_OUTCOME_SCHEMA_def validate_schema_subset.simps unsupported_def supported_keywords_def
        type_mismatch_def is_json_type_def scalar_errors_def enum_errors_def string_errors_def number_errors_def bound_errors_def
        number_of_def guard_error_def schema_properties_def required_errors_def additional_errors_def string_schema_def Let_def)
qed

lemma example_run_verifies: "verifies run_library ''out'' example_run_call (operation_id_of example_run_call)"
proof -
  have "schema_valid (VDict [(''operation_id'', VStr (operation_id_of example_run_call)), (''published'', VBool True),
        (''report'', VDict [(''report_id'', VStr ''report-7''), (''version'', VInt 7)]), (''warnings'', VList [])])
        PUBLISH_REPORT_V1_OUTCOME_SCHEMA = Inr True"
    by (rule example_outcome_valid) (simp add: operation_id_of_def)
  then show ?thesis using own_schemas_wf
    by (simp add: verifies_def run_library_def schema_valid_exact) (simp add: example_run_call_def admitted_call_def example_reports_def)
qed

definition example_envelope :: ProviderExecutionEnvelope where
  "example_envelope = \<lparr>pxe_job_id = ''j1'', pxe_attempt_id = ''a1'', pxe_correlation_id = ''corr'',
     pxe_outcome = \<lparr>po_kind = ProviderOutcomeKind.SUCCESS, po_provider_request_id = None, po_detail = [], po_safe_evidence = []\<rparr>,
     pxe_candidate_hash = Some (candidate_sha256 ''call''), pxe_raw_candidate = Some ''call'', pxe_protected_candidate_ref = None\<rparr>"

lemma example_candidate_admitted:
  "\<exists>x. admit_provider_candidate run_library example_envelope example_prepared ''corr'' example_registry example_auth
     (ReportStore_init example_reports) = Inr x \<and> ad_admitted_call x = Some example_run_call"
proof -
  have "admit_tool_call run_library ''call'' a j reg auth reports = admit_tool_call example_library ''call'' a j reg auth reports" for a j reg auth reports
    by (simp add: admit_tool_call_def parse_json_object_def run_library_def)
  then show ?thesis using example_admitted_call
    by (simp add: admit_provider_candidate_def example_envelope_def example_fields example_run_call_def)
qed

theorem runtime_run_completes_witness:
  "\<exists>st4 outcome r. rr_status r = RuntimeStatus.COMPLETED \<and>
     (\<exists>result st3. verify_outcome_and_complete run_library ''out'' example_run_call result ''w'' st3 = (st4, Inr (outcome, r)) \<and>
        ex_status result = ExecutionStatus.EXECUTED) \<and>
     map_option rta_status (ras_records st4 ''a1'') = Some RuntimeAttemptStatus.COMPLETED"
proof -
  have pub: "publishing example_registry" by (rule one_tool_publishing [OF default_one_tool [OF example_registry_default]])
  obtain x where x: "admit_provider_candidate run_library example_envelope example_prepared ''corr'' example_registry example_auth
     (ReportStore_init example_reports) = Inr x" "ad_admitted_call x = Some example_run_call" using example_candidate_admitted by blast
  have act: "tool_is_active example_registry (ac_tool_name example_run_call) (ac_tool_version example_run_call)"
    by (simp add: example_run_call_def admitted_call_def default_tool_def tool_is_active_def tool_status_def example_registry_def)
  show ?thesis
    using runtime_run_completes [of RuntimeAttemptStore_init example_prepared, OF _ _ _ pub x act, of ToolExecutor_init "''out''" "''w''"]
      example_run_verifies
    by (simp add: RuntimeAttemptStore_init_def ToolExecutor_init_def example_fields truthy_def) blast
qed

end
