(* ===== verification/Spec2Isabelle.thy ===== *)
theory Spec2Isabelle
  imports Provider_Dispatch Routing_Policy Recovery_Cost Stream_Assembler Response_Cache Batch_Queue
    Coordination Human_Control_Safety Chunk_Store_Safety Ingestion_Retry Reconciliation Prompt_Safety Runtime_Safety
begin

text \<open>
  A verification library for the application core of the handbook's agent runtime, the Python
  modules of \<^verbatim>\<open>src/projects/ai-agent/src\<close>. They are written with the standard library only and make
  the decisions a backend for language-model agents must not get wrong: which provider call may be
  dispatched and how often, what an agent may spend, what a durable job may do after a crash, what a
  human has to approve, and which document text may be indexed. The rest of the repository is
  teaching text, web and database glue and exercises around these modules.

  \<^bold>\<open>How the parts interact.\<close> A request is bound to a provider profile (\<^verbatim>\<open>provider_contract.py\<close>), routed
  (\<^verbatim>\<open>routing_policy.py\<close>) and dispatched under a compare-and-set (\<^verbatim>\<open>provider_adapters.py\<close>); failures and
  costs are settled by \<^verbatim>\<open>recovery_cost.py\<close>; streams, cached responses and batches are handled by
  \<^verbatim>\<open>streaming_cache_batching.py\<close>; what a provider asks of a tool is admitted, executed and verified by
  \<^verbatim>\<open>output_tool_contracts.py\<close>. The prompt of an attempt is a revision of \<^verbatim>\<open>prompt_contracts.py\<close>, planned, bound to
  the attempt and dispatched once; \<^verbatim>\<open>application_runtime.py\<close> joins a prompt, a provider outcome, the tool
  admission and the verified completion into one fenced run of an attempt, with its cost settlement. The agent loop (\<^verbatim>\<open>agent_loop.py\<close>) decides one step at a time, the state
  machine (\<^verbatim>\<open>agent_state_machine.py\<close>) moves the job and its budgets, durable jobs
  (\<^verbatim>\<open>durable_agent_jobs.py\<close>) recover them after a crash, \<^verbatim>\<open>multi_agent_coordination.py\<close> hands parts of a
  job to child agents and \<^verbatim>\<open>human_control.py\<close> puts approvals and interrupts in front of the dispatch.
  A document enters through source admission and the controlled parser (\<^verbatim>\<open>rag_source_admission.py\<close>,
  \<^verbatim>\<open>rag_parser_adapter.py\<close>), whose orchestration (\<^verbatim>\<open>rag_ingestion_orchestrator.py\<close>), recovery
  (\<^verbatim>\<open>rag_ingestion_recovery.py\<close>) and retry (\<^verbatim>\<open>rag_ingestion_retry.py\<close>) move the lifecycle store of
  \<^verbatim>\<open>rag_ingestion_committer.py\<close>; active versions are cut into validated chunk sets and stored by the
  \<^verbatim>\<open>rag_chunking_\<close> modules. Remote calls that failed are classified by \<^verbatim>\<open>mcp_remote_lifecycle.py\<close>,
  reconciled by \<^verbatim>\<open>mcp_reconciliation.py\<close> and repeated under \<^verbatim>\<open>mcp_retry_policy.py\<close>.

  \<^bold>\<open>Theories, in import order.\<close>
  \<^item> \<open>Prelude\<close>: exceptions as values of \<open>error\<close>, the result type \<open>'a res\<close>, strings, insertion-ordered
    dictionaries and their lemmas. \<open>Machines\<close>: the contracts stores share, as locales
    (\<open>invariant_machine\<close>, \<open>fenced_machine\<close>, \<open>replay_machine\<close>, \<open>versioned_machine\<close> and its special case
    \<open>versioned_store\<close>). \<open>Sha256\<close>, \<open>Json\<close>, \<open>Unicode_Text\<close>, \<open>Binary64\<close>: the executable parts of the standard
    library that identities, texts and float arithmetic rest on; \<open>Binary64\<close> proves rounding monotone and
    idempotent.
  \<^item> \<open>Provider_Contract\<close>, \<open>Provider_Dispatch\<close>: profiles, bindings, the attempt store, the registry; the
    dispatch of one attempt, sequentially and as a step relation for concurrent callers, with the
    refinement between the two and at most one call per attempt.
  \<^item> \<open>Routing_Policy\<close>, \<open>Recovery_Cost\<close>: the routing decision with its evidence, classified fallback and the
    cost ledger that conserves reservations.
  \<^item> \<open>Stream_Assembler\<close>, \<open>Response_Cache\<close>, \<open>Batch_Queue\<close>: the assembler against a specification of complete
    streams, cache hits against the write history, the round-robin batch against a reference
    selection with conservation and fairness, exact mapping of batch results.
  \<^item> \<open>Tool_Contracts\<close>, \<open>Tool_Contracts_Safety\<close>, \<open>Candidate_Admission\<close>: the schema validator against a reference
    semantics of schemas, admission exactly of the conforming and authorized calls, effects at most once,
    jobs that succeed only with a verified outcome; streamed and cached candidates pass the same gate.
  \<^item> \<open>Prompt_Contracts\<close>, \<open>Prompt_Safety\<close>: revisions, their variables and rendering, the registry and the attempt
    store of prompts; one dispatch per attempt with the text bound at planning, and what the compatibility of
    two revisions guarantees. \<open>Application_Runtime\<close>, \<open>Runtime_Safety\<close>: the runtime's attempt store, fenced
    execution and settlements; one effect per attempt under one token, a run that completes, conserved units.
  \<^item> \<open>Agent_Loop\<close>, \<open>Agent_State_Machine\<close>, \<open>Durable_Agent_Jobs\<close>: decision tables of the control step and of the
    recovery, budgets never exceeded, stale decisions never applied, terminal jobs never reopened.
  \<^item> \<open>Coordination\<close>: handoffs with fenced leases, token allocations within the parent's reservation, one
    applied result per handoff.
  \<^item> \<open>Human_Control\<close>, \<open>Human_Control_Store\<close>, \<open>Human_Control_Safety\<close>: the decision on every command, the
    store, and what every run of it guarantees: dispatch exactly when allowed and at most once,
    permanent stops, approvals resting on one admissible decision, a checkpoint chain.
  \<^item> \<open>Rag_Contracts\<close>: identities, manifests, validation of a parser's candidate, chunking eligibility.
    \<open>Ingestion_Lifecycle\<close>, \<open>Ingestion_Invariant\<close>, \<open>Ingestion_Safety\<close>: the lifecycle store and its
    committer, the invariant of every reachable store, activation exactly under its guards, records
    that only move forward. \<open>Ingestion_Frontend\<close>: source admission, exact, and the controlled parser.
    \<open>Ingestion_Orchestration\<close>, \<open>Ingestion_Recovery\<close>, \<open>Ingestion_Retry\<close>: what is reported of a document is what
    the store holds under every interference, a parse reaches the active state, an attempt is
    dispatched once, a retry is prepared only after a proven non-execution.
  \<^item> \<open>Chunking\<close>, \<open>Chunking_Strategy\<close>, \<open>Chunking_Validator\<close>: contract, text ports, the three strategies, the
    validator. \<open>Chunking_Text\<close> states the contracts \<open>scanner\<close> and \<open>tokenizer_port\<close> of the text ports,
    \<open>Chunking_Correct\<close> and \<open>Chunking_Safety\<close> prove that generated sets are accepted and what an accepted
    set guarantees. \<open>Chunk_Store\<close>, \<open>Chunk_Store_Invariant\<close>, \<open>Chunk_Store_Safety\<close>: claims, stored sets and
    selections, beside a moving lifecycle store; stored sets are sound and final, superseded attempts
    are fenced, a run commits.
  \<^item> \<open>Remote_Lifecycle\<close>, \<open>Retry_Policy\<close>, \<open>Retry_Dispatch\<close>, \<open>Reconciliation\<close>: failure evidence and deadlines, the
    bounded retry decision in rounded arithmetic, the dispatch store with one claim per attempt number,
    reconciled facts that are final and a schedule that ends.
  \<^item> This theory: the properties that span components.

  \<^bold>\<open>How state and operations correspond.\<close> A dataclass or class is a record of the same name with prefixed
  fields, an enumeration a datatype with its constructors, \<open>__post_init__\<close> a function
  \<open><Class>_post_init\<close> that the operations call wherever the source constructs or replaces an instance. A
  method that changes an object takes the state and returns it; a raised exception is \<open>Inl\<close>. Every
  store of the sources takes one lock per method, so concurrent executions are the folds of a step
  function over a sequence of requests; theorems about runs quantify over all such sequences.
  Where a source reads a store, decides and then writes without holding the lock, the definition takes
  the requests of other callers in between as an argument \<open>others\<close>.
  Python integers are \<^typ>\<open>int\<close>, identifiers, labels and codes are strings read as UTF-8 bytes (an identifier
  holding a lone surrogate, which no encoding accepts, is outside the model), document text is a list of
  code points, lone surrogates included: where the sources encode such a text to hash it the model raises
  \<open>UnicodeEncodeError\<close> as the code does, and the theorems say where that happens. A float that is only compared or hashed is its exact value with its \<open>repr\<close>; where the sources
  compute with floats (retry and reconciliation) they are the values of \<open>Binary64\<close>, infinities and NaN
  included.

  \<^bold>\<open>Parameters.\<close> Code behind a protocol of the sources is an argument: the provider adapter's \<open>execute\<close>,
  the runtime port of the agent loop, the dispatch port of human control, the tokenizer port and the
  clock of chunking, the parser transport, the registry and the authority that recovery and
  reconciliation ask; Unicode NFC and the callbacks of \<^verbatim>\<open>html.parser\<close> are the record
  \<open>TextLibrary\<close>, \<^verbatim>\<open>json.loads\<close>, with whatever it raises, and the \<^verbatim>\<open>repr\<close> of floats the record \<open>JsonLibrary\<close>, and the
  rendering of a replacement field that is more than a plain name is an argument of the prompt renderer; what the
  operator alert port raises is part of each observation of the reconciliation schedule. What a theorem needs of them is a hypothesis or a locale assumption, and the
  sources' own implementations (the classroom tokenizer, for one) are shown to satisfy it.

  \<^bold>\<open>Termination.\<close> No definition uses fuel. The loops with no structural recursion (the round-robin
  selection, the chunk loop, line splitting, the collapsing normalization, the token scanner) are
  functions with a termination proof by a measure, so the totality of the source's loops is part of
  the model.

  \<^bold>\<open>Not modelled.\<close> Pure I/O, web frameworks, databases and browser code (the data-layer project and the
  exercises), the vendor translations of the two fake provider adapters, the deterministic registry
  fake of the recovery, the transports, sessions and SDK adapters of the other \<^verbatim>\<open>mcp_\<close> modules, the
  embedding, retrieval, reranking and grounding stages, whose results are floating-point scores of
  external models, tool governance (\<^verbatim>\<open>tool_governance.py\<close>, of which only the status is modelled, as the agent
  state machine reads it), agent security and context memory, and the scenario and evaluation scripts around
  the modules. \<open>PROJECT.json\<close> lists every part with its reason.
\<close>

section \<open>From ingestion to chunking\<close>

text \<open>
  C30. Ingestion hands chunking what chunking checks. When a version of a reachable lifecycle store is
  eligible for chunking (with the document, version and operation as stored), its parsed artifact and
  its source are stored, and the artifact binding the chunk validator requires of an operation that
  names this artifact holds exactly when the stored source checksum and the stored parse contract are
  those of the manifest: the two facts the activation takes from its request, not from the store.
\<close>

theorem eligible_version_is_bound:
  assumes "ls_documents (lifecycle_run es) (document_key (vi_document (vd_identity (vl_definition v)))) = Some d"
    and "ls_versions (lifecycle_run es) k = Some v" and "ls_operations (lifecycle_run es) oid = Some r"
    and "eligible (evaluate_chunking_eligibility d v r)"
    and "cop_version operation = vd_identity (vl_definition v)" "cop_source_artifact_id operation = vd_source_artifact_id (vl_definition v)"
      "vl_parsed_artifact_id v = Some (cop_parsed_artifact_id operation)"
  shows "\<exists>p src. ls_parsed_artifacts (lifecycle_run es) (cop_parsed_artifact_id operation) = Some p \<and>
    ls_source_artifacts (lifecycle_run es) (cop_source_artifact_id operation) = Some src \<and> artifact_bound p \<and>
    (parse_bound v r p src (eg_parsed_artifact_id (evaluate_chunking_eligibility d v r)) operation \<longleftrightarrow>
       sx_checksum_sha256 src = pm_source_checksum_sha256 (px_manifest p) \<and>
       pm_parse_contract_version (px_manifest p) = vd_parse_contract_version (vl_definition v))"
proof -
  let ?s = "lifecycle_run es"
  note e = assms(4) [unfolded eligible_iff]
  have "version_ok (ls_parsed_artifacts ?s) k v" using inv_dest(2) [OF lifecycle_run_inv assms(2)] .
  then obtain p where p: "k = version_key (vd_identity (vl_definition v))" "ls_parsed_artifacts ?s (cop_parsed_artifact_id operation) = Some p"
    "px_parsed_artifact_id p = cop_parsed_artifact_id operation" "artifact_bound p" "px_version p = vd_identity (vl_definition v)"
    "px_source_artifact_id p = vd_source_artifact_id (vl_definition v)" unfolding version_ok_def using assms(7) by blast
  have "operation_ok ?s oid r" using inv_dest(3) [OF lifecycle_run_inv assms(3)] .
  then obtain src att where src: "ls_source_artifacts ?s (io_source_artifact_id (ir_identity r)) = Some src"
    "sx_version src = io_version (ir_identity r)" "sx_source_artifact_id src = io_source_artifact_id (ir_identity r)"
    "ir_attempt r = Some att" "correlation_ok (ir_identity r) att (px_manifest p)"
    unfolding operation_ok_def using e assms(2,7) p(1,2) by auto
  have "parse_bound v r p src (vl_parsed_artifact_id v) operation \<longleftrightarrow>
       sx_checksum_sha256 src = pm_source_checksum_sha256 (px_manifest p) \<and>
       pm_parse_contract_version (px_manifest p) = vd_parse_contract_version (vl_definition v)"
    using e p src assms(5-7) by (auto simp: parse_bound_def artifact_bound_def correlation_ok_def)
  then show ?thesis using e p src assms(6) by (simp add: eligible_artifact [OF assms(4)])
qed

theorem eligible_version_is_bound_witness:
  "\<exists>v r p src. ls_versions (lifecycle_run run_active) (''t'', ''d'', ''v'') = Some v \<and> ls_operations (lifecycle_run run_active) ''op'' = Some r \<and>
     ls_parsed_artifacts (lifecycle_run run_active) (px_parsed_artifact_id (ap_parsed_artifact run_proposal)) = Some p \<and>
     ls_source_artifacts (lifecycle_run run_active) ''s'' = Some src \<and> artifact_bound p"
proof -
  let ?s = "lifecycle_run run_active" and ?a = "px_parsed_artifact_id (ap_parsed_artifact run_proposal)"
  obtain d v r where f: "ls_documents ?s (''t'', ''d'') = Some d" "ls_versions ?s (''t'', ''d'', ''v'') = Some v"
    "ls_operations ?s ''op'' = Some r" "vl_definition v = run_version" "vl_parsed_artifact_id v = Some ?a"
    and el: "eligible (evaluate_chunking_eligibility d v r)" by (rule run_active_facts)
  have k: "document_key (vi_document (io_version run_io)) = (''t'', ''d'')" "vd_identity run_version = io_version run_io"
    "vd_source_artifact_id run_version = ''s''" "cop_version small_operation = io_version run_io"
    "cop_source_artifact_id small_operation = ''s''" "cop_parsed_artifact_id small_operation = ?a"
    by (simp_all add: run_fields small_operation_def)
  from eligible_version_is_bound [of run_active v d "(''t'', ''d'', ''v'')" "''op''" r small_operation, OF _ f(2,3) el] f show ?thesis
    by (auto simp: f(4) k)
qed

end
